(* ===== verification/Prelude.thy ===== *)
theory Prelude
  imports Complex_Main "HOL-Library.Char_ord" "HOL-Library.List_Lexorder" "HOL-Library.AList"
begin

text \<open>
  What every component of the development shares: results of Python calls that may raise,
  guard sequences, error accumulation, association lists, and the lemma collections the
  component theories extend.

  A Python function that raises is a function into a sum: the left summand is the exception,
  the right one the returned value.  A validator that returns nothing is a sequence of guards,
  and the first guard that fails decides the exception, exactly as a sequence of
  \<open>if ...: raise ...\<close> statements does.
\<close>

named_theorems check_simps "what it means for a sequence of guards to pass"
named_theorems model_defs "definitions the component proofs unfold"

section \<open>Results\<close>

definition res_bind :: "('e + 'a) \<Rightarrow> ('a \<Rightarrow> 'e + 'b) \<Rightarrow> 'e + 'b" where
  "res_bind r f = (case r of Inl e \<Rightarrow> Inl e | Inr a \<Rightarrow> f a)"

lemma res_bind_simps [simp]:
  "res_bind (Inl e) f = Inl e"
  "res_bind (Inr a) f = f a"
  by (simp_all add: res_bind_def)

lemma res_bind_Inr_iff [check_simps]:
  "res_bind r f = Inr b \<longleftrightarrow> (\<exists>a. r = Inr a \<and> f a = Inr b)"
  by (cases r) auto

definition returns :: "('e + 'a) \<Rightarrow> bool" where
  "returns r = (case r of Inl _ \<Rightarrow> False | Inr _ \<Rightarrow> True)"

lemma returns_simps [simp]: "returns (Inr a)" "\<not> returns (Inl e)"
  by (simp_all add: returns_def)

lemma returns_iff: "returns r \<longleftrightarrow> (\<exists>a. r = Inr a)"
  by (cases r) auto

definition exc_of :: "('e + 'a) \<Rightarrow> 'e option" where
  "exc_of r = (case r of Inl e \<Rightarrow> Some e | Inr _ \<Rightarrow> None)"

lemma exc_of_simps [simp]: "exc_of (Inl e) = Some e" "exc_of (Inr a) = None"
  by (simp_all add: exc_of_def)

lemma exc_of_None_iff [check_simps]: "exc_of r = None \<longleftrightarrow> (\<exists>a. r = Inr a)"
  by (cases r) auto

lemma if_else_None [simp]: "(if b then x else None) = None \<longleftrightarrow> (b \<longrightarrow> x = None)"
  by simp

section \<open>Guard sequences\<close>

text \<open>\<open>ensure ok e\<close> is \<open>if not ok: raise e\<close>.\<close>

definition ensure :: "bool \<Rightarrow> 'e \<Rightarrow> 'e option" where
  "ensure ok e = (if ok then None else Some e)"

lemma ensure_None [simp, check_simps]: "ensure ok e = None \<longleftrightarrow> ok"
  by (simp add: ensure_def)

lemma ensure_simps [simp]: "ensure True e = None" "ensure False e = Some e"
  by (simp_all add: ensure_def)

lemma ensure_Some [simp]:
  "ensure ok e = Some e' \<longleftrightarrow> \<not> ok \<and> e' = e"
  "Some e' = ensure ok e \<longleftrightarrow> \<not> ok \<and> e' = e"
  by (auto simp: ensure_def)

fun first_raise :: "'e option list \<Rightarrow> 'e option" where
  "first_raise [] = None"
| "first_raise (c # cs) = (case c of None \<Rightarrow> first_raise cs | Some e \<Rightarrow> Some e)"

lemma first_raise_eval:
  "first_raise [] = None"
  "first_raise (None # cs) = first_raise cs"
  "first_raise (Some e # cs) = Some e"
  by simp_all

lemma first_raise_None: "first_raise (c # cs) = None \<longleftrightarrow> c = None \<and> first_raise cs = None"
  by (cases c) simp_all

lemma first_raise_append:
  "first_raise (xs @ ys) = (case first_raise xs of None \<Rightarrow> first_raise ys | Some e \<Rightarrow> Some e)"
  by (induction xs) (auto split: option.splits)

lemma first_raise_None_all: "first_raise cs = None \<longleftrightarrow> (\<forall>c \<in> set cs. c = None)"
  by (induction cs) (auto split: option.splits)

lemma first_raise_Some_mem: "first_raise cs = Some e \<Longrightarrow> Some e \<in> set cs"
  by (induction cs) (auto split: option.splits)

text \<open>\<open>only_raises P c\<close>: if the guard raises, the exception satisfies \<open>P\<close>.\<close>

definition only_raises :: "('e \<Rightarrow> bool) \<Rightarrow> 'e option \<Rightarrow> bool" where
  "only_raises P c \<longleftrightarrow> (\<forall>e. c = Some e \<longrightarrow> P e)"

lemma only_raises_simps [simp]:
  "only_raises P None"
  "only_raises P (Some e) \<longleftrightarrow> P e"
  "only_raises P (ensure ok e) \<longleftrightarrow> (\<not> ok \<longrightarrow> P e)"
  "only_raises P (if b then c else d) \<longleftrightarrow> (b \<longrightarrow> only_raises P c) \<and> (\<not> b \<longrightarrow> only_raises P d)"
  by (auto simp: only_raises_def)

lemma only_raises_exc_of: "only_raises P (exc_of r) \<longleftrightarrow> (\<forall>e. r = Inl e \<longrightarrow> P e)"
  by (cases r) (auto simp: only_raises_def)

lemma only_raises_first: "list_all (only_raises P) cs \<Longrightarrow> only_raises P (first_raise cs)"
  by (induction cs) (auto simp: only_raises_def split: option.splits)

lemma only_raises_first_Cons [simp]:
  "only_raises P (first_raise []) "
  "only_raises P c \<Longrightarrow> only_raises P (first_raise cs) \<Longrightarrow> only_raises P (first_raise (c # cs))"
  by (auto simp: only_raises_def split: option.splits)

text \<open>
  Proofs rewrite a sequence of guards to the conjunction of their conditions, or evaluate it
  from the left; they never unfold it into nested case expressions.
\<close>

declare first_raise.simps [simp del]
declare first_raise_eval [simp] first_raise_None [simp]

lemma first_raise_append_None [simp]:
  "first_raise (xs @ ys) = None \<longleftrightarrow> first_raise xs = None \<and> first_raise ys = None"
  by (auto simp: first_raise_append split: option.splits)

lemma first_raise_map_None [simp]: "first_raise (map f xs) = None \<longleftrightarrow> (\<forall>x \<in> set xs. f x = None)"
  by (simp add: first_raise_None_all)

text \<open>The guards first, then the rest of the function body.\<close>

definition run_checks :: "'e option list \<Rightarrow> ('e + 'a) \<Rightarrow> 'e + 'a" where
  "run_checks cs r = (case first_raise cs of Some e \<Rightarrow> Inl e | None \<Rightarrow> r)"

lemma run_checks_Nil [simp]: "run_checks [] r = r"
  by (simp add: run_checks_def)

lemma run_checks_Cons [simp]:
  "run_checks (None # cs) r = run_checks cs r"
  "run_checks (Some e # cs) r = Inl e"
  by (simp_all add: run_checks_def)

lemma run_checks_Inr [check_simps]:
  "run_checks cs r = Inr x \<longleftrightarrow> first_raise cs = None \<and> r = Inr x"
  by (auto simp: run_checks_def split: option.splits)

lemma only_raises_run_checks [simp]:
  "only_raises P (first_raise cs) \<Longrightarrow> only_raises P (exc_of r) \<Longrightarrow>
     only_raises P (exc_of (run_checks cs r))"
  by (auto simp: only_raises_def run_checks_def split: option.splits)

lemma run_checks_pass: "first_raise cs = None \<Longrightarrow> run_checks cs r = r"
  by (simp add: run_checks_def)

lemma run_checks_Inl:
  "run_checks cs r = Inl e \<longleftrightarrow>
     first_raise cs = Some e \<or> (first_raise cs = None \<and> r = Inl e)"
  by (auto simp: run_checks_def split: option.splits)

text \<open>A loop that converts every element and stops at the first exception.\<close>

fun res_map :: "('a \<Rightarrow> 'e + 'b) \<Rightarrow> 'a list \<Rightarrow> 'e + 'b list" where
  "res_map f [] = Inr []"
| "res_map f (x # xs) = res_bind (f x) (\<lambda>y. res_bind (res_map f xs) (\<lambda>ys. Inr (y # ys)))"

lemma res_map_Inr: "\<forall>x \<in> set xs. f x = Inr (g x) \<Longrightarrow> res_map f xs = Inr (map g xs)"
  by (induction xs) auto

lemma res_map_length: "res_map f xs = Inr ys \<Longrightarrow> length ys = length xs"
  by (induction xs arbitrary: ys) (auto simp: res_bind_Inr_iff)

section \<open>Accumulated errors\<close>

text \<open>\<open>note_if c m\<close> is \<open>if c: errors.append(m)\<close>; sequences of such statements are appended.\<close>

definition note_if :: "bool \<Rightarrow> 'm \<Rightarrow> 'm list" where
  "note_if c m = (if c then [m] else [])"

lemma note_if_simps [simp]: "note_if True m = [m]" "note_if False m = []"
  by (simp_all add: note_if_def)

lemma note_if_Nil [simp, check_simps]: "note_if c m = [] \<longleftrightarrow> \<not> c"
  by (simp add: note_if_def)

lemma set_note_if [simp]: "set (note_if c m) = (if c then {m} else {})"
  by (simp add: note_if_def)

text \<open>\<open>tuple(dict.fromkeys(xs))\<close>: duplicates are dropped, first occurrences keep their order.\<close>

fun fromkeys :: "'a list \<Rightarrow> 'a list" where
  "fromkeys [] = []"
| "fromkeys (x # xs) = x # filter (\<lambda>y. y \<noteq> x) (fromkeys xs)"

lemma set_fromkeys [simp]: "set (fromkeys xs) = set xs"
  by (induction xs) auto

lemma distinct_fromkeys [simp]: "distinct (fromkeys xs)"
  by (induction xs) auto

lemma fromkeys_Nil [simp, check_simps]: "fromkeys xs = [] \<longleftrightarrow> xs = []"
  by (cases xs) auto

section \<open>Maxima with a default\<close>

text \<open>\<open>max(xs, default=d)\<close>.\<close>

fun max_default :: "int list \<Rightarrow> int \<Rightarrow> int" where
  "max_default [] d = d"
| "max_default (x # xs) d = foldl max x xs"

lemma foldl_max_ge: "(x::int) \<le> foldl max x xs \<and> (\<forall>y \<in> set xs. y \<le> foldl max x xs)"
proof (induction xs arbitrary: x)
  case Nil
  then show ?case by simp
next
  case (Cons a xs)
  have "max x a \<le> foldl max (max x a) xs" and "\<forall>y \<in> set xs. y \<le> foldl max (max x a) xs"
    using Cons.IH [of "max x a"] by auto
  then show ?case by auto
qed

lemma max_default_ge: "y \<in> set xs \<Longrightarrow> y \<le> max_default xs d"
  using foldl_max_ge by (cases xs) auto

lemma foldl_max_mem: "foldl max (x::int) xs \<in> set (x # xs)"
proof (induction xs arbitrary: x)
  case Nil
  then show ?case by simp
next
  case (Cons a xs)
  show ?case using Cons.IH [of "max x a"] by (auto simp: max_def split: if_splits)
qed

lemma max_default_less: "max_default xs d < n \<longleftrightarrow> (if xs = [] then d < n else \<forall>y \<in> set xs. y < n)"
proof (cases xs)
  case (Cons x ys)
  have "foldl max x ys < n \<longleftrightarrow> (\<forall>y \<in> set (x # ys). y < n)"
    using foldl_max_ge [of x ys] foldl_max_mem [of x ys] by (auto intro: le_less_trans)
  with Cons show ?thesis by simp
qed simp

end
