(* ===== verification/Py_Values.thy ===== *)
theory Py_Values
  imports Prelude
begin

text \<open>
  The Python values the program reads from JSON documents and passes around untyped
  (annotated \<open>Any\<close> in the source), with the operations of the language the source applies to
  them: \<open>==\<close>, \<open>bool()\<close>, \<open>int()\<close>, \<open>str()\<close>, \<open>repr()\<close>, \<open>dict.get\<close>, \<open>in\<close> on a frozenset of
  strings, and the string methods.

  A character is a Python code point below 256; the text the program handles is modelled over
  that alphabet.  A float is given by its exact value and the text \<open>repr\<close> prints for it; the
  infinities and the not-a-number value are their own cases, since \<open>int()\<close> treats each
  differently.  A JSON object is an association list in insertion order.
\<close>

section \<open>Exceptions\<close>

text \<open>
  The exception classes the modelled code raises or lets escape.  \<open>ProtocolConflict\<close> is a
  subclass of \<open>ProtocolViolation\<close>, which is a subclass of \<open>ValueError\<close>, as
  \<open>RecoveryEvidenceError\<close> is.  The text of the
  exceptions the interpreter itself raises is only a description; the program never reads it.
\<close>

datatype pyexc =
    ProtocolViolation string
  | ProtocolConflict string
  | TypeError string
  | ValueError string
  | OverflowError string
  | KeyError string
  | RuntimeError string
  | AssertionError
  | RecoveryEvidenceError string
  | EffectOwnershipError string
  | EffectScopeClosedError string
  | EffectDisposalError nat
  | RunScopeError string
  | MissingCapabilityError string
  | DuplicateCapabilityError string
  | EgressContractError string
  | HelperProtocolError string
  | EgressContainmentError string
  | DurableWalError string
  | PhasedTaskError string
  | ResourceArbitrationError string
  | ResourceIdentityError string
  | OSError string
  | PermissionError string
  | ProcessLookupError string
  | UnicodeError string
  | JSONDecodeError string
  | SubprocessError string
  | WorkerError string
  | CASConflict string
  | GitEffectError string
  | RecoveryJournalError string
  | RecoveryResolutionConflict string
  | PendingReportError string
  | RecoveryServiceConflict string

definition is_protocol_violation :: "pyexc \<Rightarrow> bool" where
  "is_protocol_violation e =
     (case e of ProtocolViolation _ \<Rightarrow> True | ProtocolConflict _ \<Rightarrow> True | _ \<Rightarrow> False)"

text \<open>The classes an \<open>except\<close> clause names, with their subclasses.\<close>

definition is_os_error :: "pyexc \<Rightarrow> bool" where
  "is_os_error e = (case e of OSError _ \<Rightarrow> True | PermissionError _ \<Rightarrow> True | ProcessLookupError _ \<Rightarrow> True | _ \<Rightarrow> False)"

definition is_value_error :: "pyexc \<Rightarrow> bool" where
  "is_value_error e = (case e of
      ValueError _ \<Rightarrow> True | UnicodeError _ \<Rightarrow> True | JSONDecodeError _ \<Rightarrow> True
    | ProtocolViolation _ \<Rightarrow> True | ProtocolConflict _ \<Rightarrow> True | RecoveryEvidenceError _ \<Rightarrow> True
    | DurableWalError _ \<Rightarrow> True | GitEffectError _ \<Rightarrow> True | EgressContractError _ \<Rightarrow> True
    | HelperProtocolError _ \<Rightarrow> True | PhasedTaskError _ \<Rightarrow> True | RecoveryJournalError _ \<Rightarrow> True
    | PendingReportError _ \<Rightarrow> True | _ \<Rightarrow> False)"

definition is_type_error :: "pyexc \<Rightarrow> bool" where
  "is_type_error e = (case e of TypeError _ \<Rightarrow> True | _ \<Rightarrow> False)"

definition is_worker_error :: "pyexc \<Rightarrow> bool" where
  "is_worker_error e = (case e of
      WorkerError _ \<Rightarrow> True | CASConflict _ \<Rightarrow> True | RecoveryResolutionConflict _ \<Rightarrow> True
    | RecoveryServiceConflict _ \<Rightarrow> True | _ \<Rightarrow> False)"

definition is_subprocess_error :: "pyexc \<Rightarrow> bool" where
  "is_subprocess_error e = (case e of SubprocessError _ \<Rightarrow> True | _ \<Rightarrow> False)"

section \<open>Characters and strings\<close>

definition is_space :: "char \<Rightarrow> bool" where
  "is_space c \<longleftrightarrow> c \<in> set [CHR '' '', CHR 0x09, CHR 0x0A, CHR 0x0B, CHR 0x0C, CHR 0x0D,
     CHR 0x1C, CHR 0x1D, CHR 0x1E, CHR 0x1F, CHR 0x85, CHR 0xA0]"

definition is_digit :: "char \<Rightarrow> bool" where
  "is_digit c \<longleftrightarrow> c \<in> set ''0123456789''"

definition is_lower_ascii :: "char \<Rightarrow> bool" where
  "is_lower_ascii c \<longleftrightarrow> c \<in> set ''abcdefghijklmnopqrstuvwxyz''"

definition is_upper_ascii :: "char \<Rightarrow> bool" where
  "is_upper_ascii c \<longleftrightarrow> c \<in> set ''ABCDEFGHIJKLMNOPQRSTUVWXYZ''"

definition is_alnum_ascii :: "char \<Rightarrow> bool" where
  "is_alnum_ascii c \<longleftrightarrow> is_digit c \<or> is_lower_ascii c \<or> is_upper_ascii c"

definition is_hex_lower :: "char \<Rightarrow> bool" where
  "is_hex_lower c \<longleftrightarrow> c \<in> set ''0123456789abcdef''"

definition ascii_lower :: "char \<Rightarrow> char" where
  "ascii_lower c = (if is_upper_ascii c then char_of ((of_char c :: nat) + 32) else c)"

text \<open>\<open>\w\<close> of a regular expression: letters, digits and other numerals, and the underscore.\<close>

definition is_word :: "char \<Rightarrow> bool" where
  "is_word c \<longleftrightarrow> (let n = (of_char c :: nat) in
     is_alnum_ascii c \<or> c = CHR ''_'' \<or> n \<in> set [170, 178, 179, 181, 185, 186, 188, 189, 190]
     \<or> (192 \<le> n \<and> n \<noteq> 215 \<and> n \<noteq> 247))"

definition lstrip :: "string \<Rightarrow> string" where
  "lstrip s = dropWhile is_space s"

definition rstrip :: "string \<Rightarrow> string" where
  "rstrip s = rev (dropWhile is_space (rev s))"

definition strip :: "string \<Rightarrow> string" where
  "strip s = rstrip (lstrip s)"

lemma strip_Nil [simp]: "strip [] = []" "lstrip [] = []" "rstrip [] = []"
  by (simp_all add: strip_def lstrip_def rstrip_def)

lemma strip_empty_iff: "strip s = [] \<longleftrightarrow> (\<forall>c \<in> set s. is_space c)"
proof
  assume "strip s = []"
  then have "dropWhile is_space (rev (dropWhile is_space s)) = []"
    by (simp add: strip_def lstrip_def rstrip_def)
  then have *: "\<forall>c \<in> set (dropWhile is_space s). is_space c" by simp
  have "dropWhile is_space s = []"
  proof (rule ccontr)
    assume ne: "dropWhile is_space s \<noteq> []"
    then have "\<not> is_space (hd (dropWhile is_space s))" by (rule hd_dropWhile)
    moreover have "hd (dropWhile is_space s) \<in> set (dropWhile is_space s)"
      using ne by (rule hd_in_set)
    ultimately show False using * by blast
  qed
  then show "\<forall>c \<in> set s. is_space c" by simp
next
  assume "\<forall>c \<in> set s. is_space c"
  then show "strip s = []"
    by (auto simp: strip_def lstrip_def rstrip_def dest: set_dropWhileD)
qed

lemma dropWhile_none: "s = [] \<or> \<not> P (hd s) \<Longrightarrow> dropWhile P s = s"
  by (cases s) auto

lemma dropWhile_idem [simp]: "dropWhile P (dropWhile P s) = dropWhile P s"
  by (rule dropWhile_none) (use hd_dropWhile in blast)

lemma rstrip_keeps_first: "s \<noteq> [] \<Longrightarrow> \<not> is_space (hd s) \<Longrightarrow> rstrip s \<noteq> [] \<and> hd (rstrip s) = hd s"
proof -
  assume "s \<noteq> []" "\<not> is_space (hd s)"
  then obtain c r where s: "s = c # r" "\<not> is_space c" by (cases s) auto
  obtain u where "dropWhile is_space (rev r @ [c]) = u @ [c]"
    using s(2) dropWhile_append1 [of _ "rev r" is_space "[c]"] dropWhile_append2 [of "rev r" is_space "[c]"]
    by (cases "\<exists>x \<in> set r. \<not> is_space x") auto
  then have "rstrip s = rev (u @ [c])" unfolding rstrip_def s(1) rev.simps by (rule arg_cong)
  then show ?thesis by (simp add: s(1))
qed

lemma strip_idem [simp]: "strip (strip s) = strip s"
proof (cases "lstrip s = []")
  case True
  then show ?thesis by (simp add: strip_def)
next
  case False
  then have first: "\<not> is_space (hd (lstrip s))" using hd_dropWhile unfolding lstrip_def by blast
  have "lstrip (strip s) = strip s"
    using rstrip_keeps_first [OF False first] first
    unfolding strip_def lstrip_def [of "rstrip (lstrip s)"] by (intro dropWhile_none) simp
  then show ?thesis unfolding strip_def [of "strip s"] by (simp add: strip_def rstrip_def)
qed

lemma strip_nonblank [simp]: "\<not> is_space c \<Longrightarrow> strip (c # s) \<noteq> []"
  by (simp add: strip_empty_iff)

definition has_prefix :: "string \<Rightarrow> string \<Rightarrow> bool" where
  "has_prefix p s \<longleftrightarrow> take (length p) s = p"

lemma has_prefix_append [simp]: "has_prefix p (p @ s)"
  by (simp add: has_prefix_def)

definition has_suffix :: "string \<Rightarrow> string \<Rightarrow> bool" where
  "has_suffix p s \<longleftrightarrow> has_prefix (rev p) (rev s)"

lemma has_suffix_append [simp]: "has_suffix p (s @ p)"
  by (simp add: has_suffix_def)

fun contains :: "string \<Rightarrow> string \<Rightarrow> bool" where
  "contains p [] = (p = [])"
| "contains p (c # s) = (has_prefix p (c # s) \<or> contains p s)"

lemma contains_iff: "contains p s \<longleftrightarrow> (\<exists>a b. s = a @ p @ b)"
proof (induction s)
  case Nil
  then show ?case by simp
next
  case (Cons c s)
  have "has_prefix p (c # s) \<longleftrightarrow> (\<exists>b. c # s = p @ b)"
    unfolding has_prefix_def by (metis append_eq_conv_conj append_take_drop_id)
  moreover have "(\<exists>a b. c # s = a @ p @ b) \<longleftrightarrow>
      (\<exists>b. c # s = p @ b) \<or> (\<exists>a b. s = a @ p @ b)"
    by (metis append_Cons append_Nil append_eq_Cons_conv)
  ultimately show ?case using Cons.IH by simp
qed

text \<open>
  \<open>str.splitlines()\<close>: every line boundary of the Latin-1 range ends a line, \<open>\r\n\<close> is one
  boundary, and a final boundary starts no further line.
\<close>

definition is_line_break :: "char \<Rightarrow> bool" where
  "is_line_break c \<longleftrightarrow> c \<in> set [CHR 0x0A, CHR 0x0B, CHR 0x0C, CHR 0x0D,
     CHR 0x1C, CHR 0x1D, CHR 0x1E, CHR 0x85]"

fun splitlines_from :: "string \<Rightarrow> string \<Rightarrow> string list" where
  "splitlines_from acc [] = (if acc = [] then [] else [rev acc])"
| "splitlines_from acc (c # s) =
     (if c = CHR 0x0D then
        (case s of
           d # s' \<Rightarrow> rev acc # splitlines_from [] (if d = CHR 0x0A then s' else s)
         | [] \<Rightarrow> [rev acc])
      else if is_line_break c then rev acc # splitlines_from [] s
      else splitlines_from (c # acc) s)"

definition splitlines :: "string \<Rightarrow> string list" where
  "splitlines s = splitlines_from [] s"

fun join :: "string \<Rightarrow> string list \<Rightarrow> string" where
  "join sep [] = []"
| "join sep [x] = x"
| "join sep (x # y # xs) = x @ sep @ join sep (y # xs)"

text \<open>
  \<open>str.upper()\<close> and \<open>str.casefold()\<close>.  The sharp s is the one letter of the alphabet that
  becomes two; the micro sign and the y with diaeresis, whose other forms lie outside the
  alphabet, are left as they are.
\<close>

definition upper_char :: "char \<Rightarrow> string" where
  "upper_char c =
     (let n = (of_char c :: nat)
      in if (97 \<le> n \<and> n \<le> 122) \<or> (224 \<le> n \<and> n \<le> 254 \<and> n \<noteq> 247) then [char_of (n - 32)]
         else if n = 223 then ''SS'' else [c])"

definition casefold_char :: "char \<Rightarrow> string" where
  "casefold_char c =
     (let n = (of_char c :: nat)
      in if (65 \<le> n \<and> n \<le> 90) \<or> (192 \<le> n \<and> n \<le> 222 \<and> n \<noteq> 215) then [char_of (n + 32)]
         else if n = 223 then ''ss'' else [c])"

definition py_upper :: "string \<Rightarrow> string" where
  "py_upper s = concat (map upper_char s)"

definition py_casefold :: "string \<Rightarrow> string" where
  "py_casefold s = concat (map casefold_char s)"

section \<open>Decimal numerals\<close>

definition digit_char :: "nat \<Rightarrow> char" where
  "digit_char d = ''0123456789'' ! d"

fun show_nat :: "nat \<Rightarrow> string" where
  "show_nat n = (if n < 10 then [digit_char n] else show_nat (n div 10) @ [digit_char (n mod 10)])"

declare show_nat.simps [simp del]

lemma show_nat_small: "n < 10 \<Longrightarrow> show_nat n = [digit_char n]"
  by (simp add: show_nat.simps)

lemma show_nat_big: "\<not> n < 10 \<Longrightarrow> show_nat n = show_nat (n div 10) @ [digit_char (n mod 10)]"
  by (subst show_nat.simps) simp

definition show_int :: "int \<Rightarrow> string" where
  "show_int i = (if i < 0 then CHR ''-'' # show_nat (nat (- i)) else show_nat (nat i))"

text \<open>The text of an exception.\<close>

definition exc_text :: "pyexc \<Rightarrow> string" where
  "exc_text e = (case e of ProtocolViolation s \<Rightarrow> s | ProtocolConflict s \<Rightarrow> s | TypeError s \<Rightarrow> s
     | ValueError s \<Rightarrow> s | OverflowError s \<Rightarrow> s | KeyError s \<Rightarrow> s | RuntimeError s \<Rightarrow> s
     | AssertionError \<Rightarrow> [] | RecoveryEvidenceError s \<Rightarrow> s
     | EffectOwnershipError s \<Rightarrow> s | EffectScopeClosedError s \<Rightarrow> s
     | EffectDisposalError n \<Rightarrow> show_nat n @ '' effect disposer(s) failed.'' | RunScopeError s \<Rightarrow> s
     | MissingCapabilityError s \<Rightarrow> ''Required capability is not registered: '' @ s
     | DuplicateCapabilityError s \<Rightarrow> ''Capability is already registered: '' @ s
     | EgressContractError s \<Rightarrow> s | HelperProtocolError s \<Rightarrow> s | EgressContainmentError s \<Rightarrow> s
     | DurableWalError s \<Rightarrow> s | PhasedTaskError s \<Rightarrow> s | ResourceArbitrationError s \<Rightarrow> s | ResourceIdentityError s \<Rightarrow> s | OSError s \<Rightarrow> s
     | PermissionError s \<Rightarrow> s | ProcessLookupError s \<Rightarrow> s)"

text \<open>The exceptions \<open>except (TypeError, ValueError)\<close> catches, subclasses included.\<close>

definition type_or_value_error :: "pyexc \<Rightarrow> bool" where
  "type_or_value_error e = (case e of
       TypeError _ \<Rightarrow> True | ValueError _ \<Rightarrow> True | ProtocolViolation _ \<Rightarrow> True | ProtocolConflict _ \<Rightarrow> True
     | RecoveryEvidenceError _ \<Rightarrow> True | EgressContractError _ \<Rightarrow> True | HelperProtocolError _ \<Rightarrow> True
     | DurableWalError _ \<Rightarrow> True | PhasedTaskError _ \<Rightarrow> True
     | _ \<Rightarrow> False)"

definition reraise_as :: "pyexc \<Rightarrow> pyexc + 'a \<Rightarrow> pyexc + 'a" where
  "reraise_as err r = (case r of Inl e \<Rightarrow> Inl (if type_or_value_error e then err else e) | Inr x \<Rightarrow> Inr x)"

lemma reraise_as_Inr [simp]: "reraise_as err r = Inr x \<longleftrightarrow> r = Inr x"
  by (cases r) (simp_all add: reraise_as_def)

lemma reraise_as_simps [simp]: "reraise_as err (Inr x) = Inr x"
  by (simp add: reraise_as_def)

text \<open>The format \<open>:03d\<close>: zeros between the sign and the digits up to width three.\<close>

definition zeros :: "nat \<Rightarrow> string" where
  "zeros n = take n ''000''"

definition show_int_03 :: "int \<Rightarrow> string" where
  "show_int_03 i =
     (if i < 0 then CHR ''-'' # zeros (2 - length (show_nat (nat (- i)))) @ show_nat (nat (- i))
      else zeros (3 - length (show_nat (nat i))) @ show_nat (nat i))"

definition digit_value :: "char \<Rightarrow> int" where
  "digit_value c = (of_char c :: int) - 48"

text \<open>
  \<open>int(text)\<close>: surrounding white space, one sign, digits with single underscores between
  them, and at most 4300 digits.
\<close>

fun parse_digits :: "int \<Rightarrow> string \<Rightarrow> int option" where
  "parse_digits acc [] = Some acc"
| "parse_digits acc (c # s) =
     (if is_digit c then parse_digits (10 * acc + digit_value c) s
      else if c = CHR ''_'' then
        (case s of d # _ \<Rightarrow> if is_digit d then parse_digits acc s else None | [] \<Rightarrow> None)
      else None)"

definition parse_unsigned :: "string \<Rightarrow> int option" where
  "parse_unsigned s =
     (case s of
        [] \<Rightarrow> None
      | c # _ \<Rightarrow> if is_digit c \<and> length (filter is_digit s) \<le> 4300 then parse_digits 0 s else None)"

definition parse_int :: "string \<Rightarrow> int option" where
  "parse_int text =
     (case strip text of
        [] \<Rightarrow> None
      | c # s \<Rightarrow>
          if c = CHR ''-'' then map_option uminus (parse_unsigned s)
          else if c = CHR ''+'' then parse_unsigned s
          else parse_unsigned (c # s))"

section \<open>Values\<close>

datatype pyfloat = Finite rat string | Infinity bool | NaN

datatype py =
    PyNone
  | PyBool bool
  | PyInt int
  | PyFloat pyfloat
  | PyStr string
  | PyList "py list"
  | PyDict "(string \<times> py) list"

type_synonym pydict = "(string \<times> py) list"

text \<open>\<open>d.get(k)\<close>, \<open>d.get(k, v)\<close> and \<open>k in d\<close>; \<open>d[k]\<close> is \<open>dget\<close> where \<open>k in d\<close> was checked before.\<close>

definition dget :: "pydict \<Rightarrow> string \<Rightarrow> py" where
  "dget d k = (case map_of d k of Some v \<Rightarrow> v | None \<Rightarrow> PyNone)"

definition dget_or :: "pydict \<Rightarrow> string \<Rightarrow> py \<Rightarrow> py" where
  "dget_or d k v = (case map_of d k of Some w \<Rightarrow> w | None \<Rightarrow> v)"

definition dhas :: "pydict \<Rightarrow> string \<Rightarrow> bool" where
  "dhas d k \<longleftrightarrow> k \<in> set (map fst d)"

definition dkeys :: "pydict \<Rightarrow> string list" where
  "dkeys d = map fst d"

lemma dget_Cons [simp]: "dget ((k, v) # d) k' = (if k' = k then v else dget d k')"
  by (simp add: dget_def)

lemma dget_Nil [simp]: "dget [] k = PyNone"
  by (simp add: dget_def)

lemma dhas_simps [simp]: "\<not> dhas [] k" "dhas ((k', v) # d) k \<longleftrightarrow> k = k' \<or> dhas d k"
  by (auto simp: dhas_def)

lemma dget_update [simp]: "dget (AList.update k v d) k' = (if k' = k then v else dget d k')"
  by (simp add: dget_def update_conv')

lemma dget_delete [simp]: "dget (AList.delete k d) k' = (if k' = k then PyNone else dget d k')"
  by (simp add: dget_def delete_conv')

lemma dget_absent: "\<not> dhas d k \<Longrightarrow> dget d k = PyNone"
  by (simp add: dhas_def dget_def map_of_eq_None_iff [THEN iffD2])

lemma dget_present: "dget d k \<noteq> PyNone \<Longrightarrow> dhas d k"
  using dget_absent by blast

text \<open>\<open>isinstance(v, int) and not isinstance(v, bool)\<close>, and the other type tests.\<close>

definition is_int :: "py \<Rightarrow> bool" where
  "is_int v = (case v of PyInt _ \<Rightarrow> True | _ \<Rightarrow> False)"

definition is_str :: "py \<Rightarrow> bool" where
  "is_str v = (case v of PyStr _ \<Rightarrow> True | _ \<Rightarrow> False)"

definition is_dict :: "py \<Rightarrow> bool" where
  "is_dict v = (case v of PyDict _ \<Rightarrow> True | _ \<Rightarrow> False)"

definition is_bool :: "py \<Rightarrow> bool" where
  "is_bool v = (case v of PyBool _ \<Rightarrow> True | _ \<Rightarrow> False)"

definition the_int :: "py \<Rightarrow> int" where
  "the_int v = (case v of PyInt i \<Rightarrow> i | _ \<Rightarrow> 0)"

definition the_str :: "py \<Rightarrow> string" where
  "the_str v = (case v of PyStr s \<Rightarrow> s | _ \<Rightarrow> [])"

definition is_list :: "py \<Rightarrow> bool" where
  "is_list v = (case v of PyList _ \<Rightarrow> True | _ \<Rightarrow> False)"

definition the_list :: "py \<Rightarrow> py list" where
  "the_list v = (case v of PyList xs \<Rightarrow> xs | _ \<Rightarrow> [])"

lemma is_list_simps [simp]:
  "is_list (PyList xs)" "\<not> is_list PyNone" "\<not> is_list (PyBool b)" "\<not> is_list (PyInt i)"
  "\<not> is_list (PyStr s)" "\<not> is_list (PyDict d)" "\<not> is_list (PyFloat x)" "the_list (PyList xs) = xs"
  by (simp_all add: is_list_def the_list_def)

lemma is_list_iff: "is_list v \<longleftrightarrow> (\<exists>xs. v = PyList xs)"
  by (cases v) simp_all

definition the_dict :: "py \<Rightarrow> pydict" where
  "the_dict v = (case v of PyDict d \<Rightarrow> d | _ \<Rightarrow> [])"

lemma is_int_iff: "is_int v \<longleftrightarrow> (\<exists>i. v = PyInt i)"
  by (cases v) (simp_all add: is_int_def)

lemma is_str_iff: "is_str v \<longleftrightarrow> (\<exists>s. v = PyStr s)"
  by (cases v) (simp_all add: is_str_def)

lemma is_dict_iff: "is_dict v \<longleftrightarrow> (\<exists>d. v = PyDict d)"
  by (cases v) (simp_all add: is_dict_def)

lemma is_bool_iff: "is_bool v \<longleftrightarrow> (\<exists>b. v = PyBool b)"
  by (cases v) (simp_all add: is_bool_def)

lemma is_bool_simps [simp]:
  "is_bool (PyBool b)" "\<not> is_bool PyNone" "\<not> is_bool (PyInt i)" "\<not> is_bool (PyStr s)"
  "\<not> is_bool (PyList xs)" "\<not> is_bool (PyDict d)" "\<not> is_bool (PyFloat x)"
  by (simp_all add: is_bool_def)

lemma type_test_simps [simp]:
  "is_int (PyInt i)" "\<not> is_int PyNone" "\<not> is_int (PyBool b)" "\<not> is_int (PyStr s)"
  "\<not> is_int (PyList xs)" "\<not> is_int (PyDict d)" "\<not> is_int (PyFloat x)"
  "is_str (PyStr s)" "\<not> is_str PyNone" "\<not> is_str (PyBool b)" "\<not> is_str (PyInt i)"
  "\<not> is_str (PyList xs)" "\<not> is_str (PyDict d)" "\<not> is_str (PyFloat x)"
  "is_dict (PyDict d)" "\<not> is_dict PyNone" "\<not> is_dict (PyBool b)" "\<not> is_dict (PyInt i)"
  "\<not> is_dict (PyStr s)" "\<not> is_dict (PyList xs)" "\<not> is_dict (PyFloat x)"
  "the_int (PyInt i) = i" "the_str (PyStr s) = s" "the_dict (PyDict d) = d"
  by (simp_all add: is_int_def is_str_def is_dict_def the_int_def the_str_def the_dict_def)

text \<open>\<open>isinstance(v, str) and v\<close>, the guard for identifiers.\<close>

definition nonempty_str :: "py \<Rightarrow> bool" where
  "nonempty_str v \<longleftrightarrow> is_str v \<and> the_str v \<noteq> []"

lemma nonempty_str_iff [check_simps]: "nonempty_str v \<longleftrightarrow> (\<exists>s. v = PyStr s \<and> s \<noteq> [])"
  by (cases v) (simp_all add: nonempty_str_def)

lemma nonempty_str_simps [simp]:
  "nonempty_str (PyStr s) \<longleftrightarrow> s \<noteq> []" "\<not> nonempty_str PyNone"
  by (simp_all add: nonempty_str_def)

section \<open>Truth, equality, hashing\<close>

definition truthy :: "py \<Rightarrow> bool" where
  "truthy v = (case v of
      PyNone \<Rightarrow> False
    | PyBool b \<Rightarrow> b
    | PyInt i \<Rightarrow> i \<noteq> 0
    | PyFloat f \<Rightarrow> (case f of Finite q _ \<Rightarrow> q \<noteq> 0 | _ \<Rightarrow> True)
    | PyStr s \<Rightarrow> s \<noteq> []
    | PyList xs \<Rightarrow> xs \<noteq> []
    | PyDict d \<Rightarrow> d \<noteq> [])"

text \<open>
  \<open>==\<close>.  Booleans, integers and floats compare as numbers; objects compare as maps.  A value
  holding the not-a-number float equals nothing.
\<close>

datatype pynum = Num rat | Inf bool | NotNum

definition num_of :: "py \<Rightarrow> pynum option" where
  "num_of v = (case v of
      PyBool b \<Rightarrow> Some (Num (if b then 1 else 0))
    | PyInt i \<Rightarrow> Some (Num (of_int i))
    | PyFloat f \<Rightarrow> Some (case f of Finite q _ \<Rightarrow> Num q | Infinity p \<Rightarrow> Inf p | NaN \<Rightarrow> NotNum)
    | _ \<Rightarrow> None)"

definition num_eq :: "py \<Rightarrow> py \<Rightarrow> bool" where
  "num_eq v w = (case (num_of v, num_of w) of
      (Some a, Some b) \<Rightarrow> a \<noteq> NotNum \<and> a = b
    | _ \<Rightarrow> False)"

fun py_eq :: "py \<Rightarrow> py \<Rightarrow> bool"
  and py_eq_list :: "py list \<Rightarrow> py list \<Rightarrow> bool"
  and py_sub_dict :: "pydict \<Rightarrow> pydict \<Rightarrow> bool" where
  "py_eq PyNone w = (w = PyNone)"
| "py_eq (PyStr s) w = (w = PyStr s)"
| "py_eq (PyList xs) w = (case w of PyList ys \<Rightarrow> py_eq_list xs ys | _ \<Rightarrow> False)"
| "py_eq (PyDict d) w =
     (case w of PyDict e \<Rightarrow> length d = length e \<and> py_sub_dict d e | _ \<Rightarrow> False)"
| "py_eq (PyBool b) w = num_eq (PyBool b) w"
| "py_eq (PyInt i) w = num_eq (PyInt i) w"
| "py_eq (PyFloat f) w = num_eq (PyFloat f) w"
| "py_eq_list [] ys = (ys = [])"
| "py_eq_list (x # xs) ys = (case ys of [] \<Rightarrow> False | y # ys' \<Rightarrow> py_eq x y \<and> py_eq_list xs ys')"
| "py_sub_dict [] e = True"
| "py_sub_dict ((k, v) # d) e =
     ((case map_of e k of None \<Rightarrow> False | Some w \<Rightarrow> py_eq v w) \<and> py_sub_dict d e)"

lemma py_eq_PyStr [simp]: "py_eq v (PyStr s) \<longleftrightarrow> v = PyStr s"
  by (cases v) (auto simp: num_eq_def num_of_def split: option.splits)

lemma py_eq_PyNone [simp]: "py_eq v PyNone \<longleftrightarrow> v = PyNone"
  by (cases v) (auto simp: num_eq_def num_of_def split: option.splits)

lemma num_eq_ints [simp]: "num_eq (PyInt i) (PyInt j) \<longleftrightarrow> i = j"
  by (simp add: num_eq_def num_of_def)

lemma py_eq_is_int: "is_int v \<Longrightarrow> py_eq v (PyInt j) \<longleftrightarrow> v = PyInt j"
  by (auto simp: is_int_iff)

lemma py_eq_PyInt:
  "py_eq v (PyInt j) \<longleftrightarrow>
     v = PyInt j \<or> (v = PyBool True \<and> j = 1) \<or> (v = PyBool False \<and> j = 0)
     \<or> (\<exists>t. v = PyFloat (Finite (of_int j) t))"
  by (cases v) (auto simp: num_eq_def num_of_def split: pyfloat.splits)

text \<open>\<open>v in S\<close> for a frozenset of strings: an unhashable value raises.\<close>

definition hashable :: "py \<Rightarrow> bool" where
  "hashable v = (case v of PyList _ \<Rightarrow> False | PyDict _ \<Rightarrow> False | _ \<Rightarrow> True)"

definition unhashable_error :: "py \<Rightarrow> pyexc" where
  "unhashable_error v = TypeError (case v of
      PyList _ \<Rightarrow> ''unhashable type: list''
    | _ \<Rightarrow> ''unhashable type: dict'')"

definition in_strs :: "py \<Rightarrow> string list \<Rightarrow> bool" where
  "in_strs v S = (case v of PyStr s \<Rightarrow> s \<in> set S | _ \<Rightarrow> False)"

lemma in_strs_iff [simp]: "in_strs v S \<longleftrightarrow> (\<exists>s \<in> set S. v = PyStr s)"
  by (cases v) (auto simp: in_strs_def)

text \<open>Membership of an arbitrary value in a frozenset of strings hashes the value first.\<close>

definition check_hashable :: "py \<Rightarrow> pyexc option" where
  "check_hashable v = (if hashable v then None else Some (unhashable_error v))"

lemma check_hashable_None [simp, check_simps]: "check_hashable v = None \<longleftrightarrow> hashable v"
  by (simp add: check_hashable_def)

section \<open>Conversions\<close>

definition trunc_rat :: "rat \<Rightarrow> int" where
  "trunc_rat q = (if 0 \<le> q then \<lfloor>q\<rfloor> else - \<lfloor>- q\<rfloor>)"

definition py_int :: "py \<Rightarrow> pyexc + int" where
  "py_int v = (case v of
      PyBool b \<Rightarrow> Inr (if b then 1 else 0)
    | PyInt i \<Rightarrow> Inr i
    | PyFloat f \<Rightarrow> (case f of
          Finite q _ \<Rightarrow> Inr (trunc_rat q)
        | Infinity _ \<Rightarrow> Inl (OverflowError ''cannot convert float infinity to integer'')
        | NaN \<Rightarrow> Inl (ValueError ''cannot convert float NaN to integer''))
    | PyStr s \<Rightarrow> (case parse_int s of
          Some i \<Rightarrow> Inr i
        | None \<Rightarrow> Inl (ValueError ''invalid literal for int() with base 10''))
    | _ \<Rightarrow> Inl (TypeError ''int() argument must be a string, a bytes-like object or a real number''))"

text \<open>\<open>repr\<close>: the quote is doubled only when the text holds a single quote and no double one.\<close>

definition hex_digit :: "nat \<Rightarrow> char" where
  "hex_digit d = ''0123456789abcdef'' ! d"

definition is_printable :: "char \<Rightarrow> bool" where
  "is_printable c \<longleftrightarrow> (let n = (of_char c :: nat) in
     (32 \<le> n \<and> n < 127) \<or> (161 \<le> n \<and> n \<noteq> 173))"

definition repr_char :: "char \<Rightarrow> char \<Rightarrow> string" where
  "repr_char q c =
     (if c = q \<or> c = CHR 0x5C then [CHR 0x5C, c]
      else if c = CHR 0x09 then [CHR 0x5C, CHR ''t'']
      else if c = CHR 0x0A then [CHR 0x5C, CHR ''n'']
      else if c = CHR 0x0D then [CHR 0x5C, CHR ''r'']
      else if is_printable c then [c]
      else (let n = (of_char c :: nat) in [CHR 0x5C, CHR ''x'', hex_digit (n div 16), hex_digit (n mod 16)]))"

definition repr_str :: "string \<Rightarrow> string" where
  "repr_str s =
     (let q = (if CHR 0x27 \<in> set s \<and> CHR 0x22 \<notin> set s then CHR 0x22 else CHR 0x27)
      in q # concat (map (repr_char q) s) @ [q])"

fun py_repr :: "py \<Rightarrow> string"
  and py_repr_items :: "py list \<Rightarrow> string list"
  and py_repr_pairs :: "pydict \<Rightarrow> string list" where
  "py_repr PyNone = ''None''"
| "py_repr (PyBool b) = (if b then ''True'' else ''False'')"
| "py_repr (PyInt i) = show_int i"
| "py_repr (PyFloat f) =
     (case f of Finite _ t \<Rightarrow> t | Infinity pos \<Rightarrow> (if pos then ''inf'' else ''-inf'') | NaN \<Rightarrow> ''nan'')"
| "py_repr (PyStr s) = repr_str s"
| "py_repr (PyList xs) = ''['' @ join '', '' (py_repr_items xs) @ '']''"
| "py_repr (PyDict d) = ''{'' @ join '', '' (py_repr_pairs d) @ ''}''"
| "py_repr_items [] = []"
| "py_repr_items (x # xs) = py_repr x # py_repr_items xs"
| "py_repr_pairs [] = []"
| "py_repr_pairs ((k, v) # d) = (repr_str k @ '': '' @ py_repr v) # py_repr_pairs d"

definition py_str :: "py \<Rightarrow> string" where
  "py_str v = (case v of PyStr s \<Rightarrow> s | _ \<Rightarrow> py_repr v)"

lemma py_str_PyStr [simp]: "py_str (PyStr s) = s"
  by (simp add: py_str_def)

text \<open>\<open>sorted(set(xs) - S)\<close> on strings.\<close>

definition sorted_difference :: "string list \<Rightarrow> string list \<Rightarrow> string list" where
  "sorted_difference xs S = sort (remdups (filter (\<lambda>x. x \<notin> set S) xs))"

lemma set_sorted_difference [simp]: "set (sorted_difference xs S) = set xs - set S"
  by (auto simp: sorted_difference_def)

lemma sorted_difference_Nil [simp, check_simps]:
  "sorted_difference xs S = [] \<longleftrightarrow> set xs \<subseteq> set S"
  by (metis set_sorted_difference Diff_eq_empty_iff set_empty)

end
