(* ===== verification/Protocol_Commands.thy ===== *)
theory Protocol_Commands
  imports Py_Values
begin

text \<open>
  \<open>worker/protocol_core.py\<close>, first part: the vocabulary of Protocol v2, the logical
  generations, the command metadata contract and the owner-withdrawal record.  JSON text is
  decoded by the parameter \<open>loads\<close>, which returns the decoded value or the text of the decode
  error.
\<close>

section \<open>Vocabulary\<close>

definition PROTOCOL_VERSION :: int where
  "PROTOCOL_VERSION = 2"

definition ALLOWED_STATES :: "string list" where
  "ALLOWED_STATES = [''COMMAND_READY'', ''CODEX_RUNNING'', ''REPORT_READY'', ''FINALIZING'',
     ''FINAL_REPORT_READY'', ''HUMAN_REQUIRED'', ''RECOVERY_REQUIRED'', ''DONE'', ''FAILED'']"

definition TERMINAL_STATES :: "string list" where
  "TERMINAL_STATES = [''DONE'', ''FAILED'']"

definition PENDING_STATES :: "string list" where
  "PENDING_STATES = [''COMMAND_READY'', ''FINALIZING'']"

definition COMMAND_KINDS :: "string list" where
  "COMMAND_KINDS = [''EXECUTE'', ''FINALIZE'']"

definition COMMAND_SOURCES :: "string list" where
  "COMMAND_SOURCES = [''scheduled_chatgpt'', ''manual_chatgpt'', ''user_direct'', ''finalizer'']"

definition SUPPORTED_REASONING_EFFORTS :: "string list" where
  "SUPPORTED_REASONING_EFFORTS =
     [''none'', ''minimal'', ''low'', ''medium'', ''high'', ''xhigh'', ''max'']"

definition SUPPORTED_SERVICE_TIERS :: "string list" where
  "SUPPORTED_SERVICE_TIERS = [''fast'']"

definition RECOVERY_RESOLUTION :: string where
  "RECOVERY_RESOLUTION = ''interrupted_report_published''"

definition WITHDRAWAL_RESOLUTION :: string where
  "WITHDRAWAL_RESOLUTION = ''owner_withdrew_unclaimed_command_before_execution''"

definition COMMAND_REQUIRED_FIELDS :: "string list" where
  "COMMAND_REQUIRED_FIELDS =
     [''command_id'', ''source'', ''based_on_report'', ''expected_generation'', ''kind'']"

definition COMMAND_OPTIONAL_FIELDS :: "string list" where
  "COMMAND_OPTIONAL_FIELDS =
     [''executor'', ''manual_request_id'', ''supersedes_command_id'', ''withdraws_command_id'']"

definition COMMAND_ALLOWED_FIELDS :: "string list" where
  "COMMAND_ALLOWED_FIELDS = COMMAND_REQUIRED_FIELDS @ COMMAND_OPTIONAL_FIELDS"

definition WITHDRAWAL_RECORD_FIELDS :: "string list" where
  "WITHDRAWAL_RECORD_FIELDS =
     [''command_id'', ''source'', ''kind'', ''command_sha256'', ''reason'', ''withdrawn_at'',
      ''replacement_command_id'', ''resolution'']"

definition EXECUTOR_REQUIRED_FIELDS :: "string list" where
  "EXECUTOR_REQUIRED_FIELDS = [''model'', ''reasoning_effort'']"

definition EXECUTOR_FIELDS :: "string list" where
  "EXECUTOR_FIELDS = EXECUTOR_REQUIRED_FIELDS @ [''service_tier'']"

definition COMMAND_METADATA_HEADER_LINES :: nat where
  "COMMAND_METADATA_HEADER_LINES = 12"

definition FINAL_RESULT_PREFIX :: string where
  "FINAL_RESULT_PREFIX = ''BRIDGE_FINAL_JSON:''"

text \<open>\<open>SHA256_RE\<close>, applied with \<open>fullmatch\<close>: exactly 64 lower-case hexadecimal digits.\<close>

definition SHA256_RE :: "string \<Rightarrow> bool" where
  "SHA256_RE s \<longleftrightarrow> length s = 64 \<and> list_all is_hex_lower s"

text \<open>\<open>MODEL_VALUE_RE\<close>, applied with \<open>fullmatch\<close>.\<close>

definition model_char :: "char \<Rightarrow> bool" where
  "model_char c \<longleftrightarrow> is_alnum_ascii c \<or> c \<in> set ''._:/-''"

definition MODEL_VALUE_RE :: "string \<Rightarrow> bool" where
  "MODEL_VALUE_RE s \<longleftrightarrow>
     (case s of [] \<Rightarrow> False | c # r \<Rightarrow> is_alnum_ascii c \<and> length r \<le> 127 \<and> list_all model_char r)"

lemmas vocabulary_defs =
  PROTOCOL_VERSION_def COMMAND_KINDS_def COMMAND_SOURCES_def SUPPORTED_REASONING_EFFORTS_def
  SUPPORTED_SERVICE_TIERS_def COMMAND_REQUIRED_FIELDS_def COMMAND_OPTIONAL_FIELDS_def
  COMMAND_ALLOWED_FIELDS_def EXECUTOR_REQUIRED_FIELDS_def EXECUTOR_FIELDS_def
  WITHDRAWAL_RECORD_FIELDS_def RECOVERY_RESOLUTION_def WITHDRAWAL_RESOLUTION_def

section \<open>Integers and generations\<close>

definition require_int :: "py \<Rightarrow> string \<Rightarrow> int \<Rightarrow> pyexc + int" where
  "require_int v label minimum =
     (if \<not> is_int v then Inl (ProtocolViolation (label @ '' must be an integer''))
      else if the_int v < minimum
        then Inl (ProtocolViolation (label @ '' must be >= '' @ show_int minimum))
      else Inr (the_int v))"

lemma require_int_Inr [simp, check_simps]:
  "require_int v label m = Inr i \<longleftrightarrow> v = PyInt i \<and> m \<le> i"
  by (auto simp: require_int_def is_int_iff)

lemma require_int_Inl_violation: "require_int v label m = Inl e \<Longrightarrow> is_protocol_violation e"
  by (auto simp: require_int_def is_protocol_violation_def split: if_splits)

lemma exc_of_require_int [simp, check_simps]:
  "exc_of (require_int v label m) = None \<longleftrightarrow> (\<exists>i. v = PyInt i \<and> m \<le> i)"
  by (simp add: exc_of_None_iff)

text \<open>
  \<open>_optional_int_equal\<close>: the \<open>OverflowError\<close> of \<open>int()\<close> on an infinite float is not among the
  exceptions the function catches.
\<close>

definition optional_int_equal :: "py \<Rightarrow> py \<Rightarrow> pyexc + bool" where
  "optional_int_equal left right =
     (case (left, right) of
        (PyNone, _) \<Rightarrow> Inr False
      | (_, PyNone) \<Rightarrow> Inr False
      | (PyBool _, _) \<Rightarrow> Inr False
      | (_, PyBool _) \<Rightarrow> Inr False
      | _ \<Rightarrow>
          (case res_bind (py_int left) (\<lambda>l. res_bind (py_int right) (\<lambda>r. Inr (l = r))) of
             Inr b \<Rightarrow> Inr b
           | Inl e \<Rightarrow> (case e of TypeError _ \<Rightarrow> Inr False | ValueError _ \<Rightarrow> Inr False | _ \<Rightarrow> Inl e)))"

lemma optional_int_equal_ints [simp]: "optional_int_equal (PyInt i) (PyInt j) = Inr (i = j)"
  by (simp add: optional_int_equal_def py_int_def)

lemma optional_int_equal_PyInt:
  assumes "is_int v \<or> v = PyNone \<or> is_str v"
  shows "returns (optional_int_equal v (PyInt j))"
  using assms
  by (auto simp: optional_int_equal_def py_int_def is_int_iff is_str_iff split: option.splits)

definition next_generation :: "py \<Rightarrow> pyexc + int" where
  "next_generation g = res_bind (require_int g ''generation'' 0) (\<lambda>n. Inr (n + 1))"

definition publication_generation :: "py \<Rightarrow> pyexc + int" where
  "publication_generation g = next_generation g"

definition claim_generation :: "py \<Rightarrow> pyexc + int" where
  "claim_generation g = next_generation g"

definition report_generation :: "py \<Rightarrow> pyexc + int" where
  "report_generation g = next_generation g"

definition recovery_generation :: "py \<Rightarrow> pyexc + int" where
  "recovery_generation g = next_generation g"

record manual_generation_plan =
  mgp_base_generation :: int
  mgp_publication_generation :: int
  mgp_claimed_generation :: int

definition manual_claim_generations :: "py \<Rightarrow> pyexc + manual_generation_plan" where
  "manual_claim_generations g =
     res_bind (require_int g ''generation'' 0)
       (\<lambda>base. Inr \<lparr>mgp_base_generation = base, mgp_publication_generation = base + 1,
                    mgp_claimed_generation = base + 2\<rparr>)"

text \<open>
  The contract of a logical generation step, as the compare-and-swap of the canonical state
  relies on it: a step is defined exactly on the non-negative integers and adds one.  Running
  \<open>n\<close> steps therefore never returns to a generation already used.
\<close>

locale generation_clock =
  fixes tick :: "py \<Rightarrow> pyexc + int"
  assumes tick_defined: "tick v = Inr n \<longleftrightarrow> (\<exists>g. v = PyInt g \<and> 0 \<le> g \<and> n = g + 1)"
begin

lemma tick_nonneg: "0 \<le> g \<Longrightarrow> tick (PyInt g) = Inr (g + 1)"
  by (simp add: tick_defined)

lemma tick_strict: "tick (PyInt g) = Inr n \<Longrightarrow> g < n"
  by (auto simp: tick_defined)

lemma tick_rejects: "\<not> is_int v \<or> the_int v < 0 \<Longrightarrow> \<exists>e. tick v = Inl e"
  by (cases "tick v") (auto simp: tick_defined)

primrec ticks :: "nat \<Rightarrow> int \<Rightarrow> pyexc + int" where
  "ticks 0 g = Inr g"
| "ticks (Suc k) g = res_bind (ticks k g) (\<lambda>h. tick (PyInt h))"

lemma ticks_add: "0 \<le> g \<Longrightarrow> ticks k g = Inr (g + int k)"
  by (induction k) (simp_all add: tick_nonneg)

lemma ticks_fresh: "0 \<le> g \<Longrightarrow> 0 < k \<Longrightarrow> ticks k g \<noteq> Inr g"
  by (simp add: ticks_add)

end

lemma next_generation_Inr: "next_generation v = Inr n \<longleftrightarrow> (\<exists>g. v = PyInt g \<and> 0 \<le> g \<and> n = g + 1)"
  by (auto simp: next_generation_def res_bind_Inr_iff)

interpretation publication_clock: generation_clock publication_generation
  by unfold_locales (simp add: publication_generation_def next_generation_Inr)

interpretation claim_clock: generation_clock claim_generation
  by unfold_locales (simp add: claim_generation_def next_generation_Inr)

interpretation report_clock: generation_clock report_generation
  by unfold_locales (simp add: report_generation_def next_generation_Inr)

interpretation recovery_clock: generation_clock recovery_generation
  by unfold_locales (simp add: recovery_generation_def next_generation_Inr)

section \<open>Finding the metadata line\<close>

text \<open>
  \<open>COMMAND_META_RE\<close>: white space, the comment opener, the keyword in any case, the shortest
  brace group after which the comment closes and only white space follows.
\<close>

definition strip_prefix :: "string \<Rightarrow> string \<Rightarrow> string option" where
  "strip_prefix p s = (if has_prefix p s then Some (drop (length p) s) else None)"

definition comment_closes :: "string \<Rightarrow> bool" where
  "comment_closes s =
     (case strip_prefix ''-->'' (lstrip s) of None \<Rightarrow> False | Some r \<Rightarrow> list_all is_space r)"

fun shortest_group :: "string \<Rightarrow> string \<Rightarrow> string option" where
  "shortest_group acc [] = None"
| "shortest_group acc (c # s) =
     (if c = CHR ''}'' \<and> comment_closes s then Some (rev (c # acc))
      else if c = CHR 0x0A then None
      else shortest_group (c # acc) s)"

definition match_COMMAND_META_RE :: "string \<Rightarrow> string option" where
  "match_COMMAND_META_RE line =
     Option.bind (strip_prefix ''<!--'' (lstrip line)) (\<lambda>s1.
     let s2 = lstrip s1; keyword = ''bridge-command:'' in
     if py_casefold (take (length keyword) s2) \<noteq> keyword then None
     else (case lstrip (drop (length keyword) s2) of
             c # s \<Rightarrow> if c = CHR ''{'' then shortest_group [c] s else None
           | [] \<Rightarrow> None))"

text \<open>\<open>for index, line in enumerate(...): if match: matches.append((index, match))\<close>.\<close>

fun matching_lines :: "nat \<Rightarrow> string list \<Rightarrow> (nat \<times> string) list" where
  "matching_lines i [] = []"
| "matching_lines i (l # ls) =
     (case match_COMMAND_META_RE l of
        None \<Rightarrow> matching_lines (Suc i) ls
      | Some g \<Rightarrow> (i, g) # matching_lines (Suc i) ls)"

definition parse_command_metadata :: "(string \<Rightarrow> string + py) \<Rightarrow> py \<Rightarrow> pyexc + pydict" where
  "parse_command_metadata loads command_text =
     (case command_text of
        PyStr text \<Rightarrow>
          (let matches = matching_lines 0 (splitlines text) in
           run_checks
             [ensure (matches \<noteq> [])
                (ProtocolViolation ''Protocol v2 command is missing the bridge-command metadata comment.''),
              ensure (length matches = 1)
                (ProtocolViolation (''Expected exactly one bridge-command metadata line, found ''
                   @ show_nat (length matches) @ ''.'')),
              ensure (fst (hd matches) < COMMAND_METADATA_HEADER_LINES)
                (ProtocolViolation ''Protocol v2 command is missing the bridge-command metadata comment near the command header.'')]
             (case loads (snd (hd matches)) of
                Inl exc \<Rightarrow> Inl (ProtocolViolation (''Invalid bridge-command JSON metadata: '' @ exc))
              | Inr value \<Rightarrow>
                  (case value of
                     PyDict d \<Rightarrow> Inr d
                   | _ \<Rightarrow> Inl (ProtocolViolation ''bridge-command metadata must be a JSON object.''))))
      | _ \<Rightarrow> Inl (ProtocolViolation ''Command text must be a string.''))"

section \<open>The command metadata contract\<close>

definition command_executor_override :: "pydict \<Rightarrow> pyexc + (string \<times> string) list option" where
  "command_executor_override meta =
     (if \<not> dhas meta ''executor'' then Inr None
      else (case dget meta ''executor'' of
        PyDict raw \<Rightarrow>
          (let unknown = sorted_difference (dkeys raw) EXECUTOR_FIELDS;
               missing = sorted_difference EXECUTOR_REQUIRED_FIELDS (dkeys raw);
               model = dget raw ''model'';
               reasoning_effort = dget raw ''reasoning_effort'';
               service_tier = dget raw ''service_tier'' in
           run_checks
             [ensure (unknown = []) (ProtocolViolation
                (''Command executor metadata contains unsupported fields: '' @ join '', '' unknown)),
              ensure (missing = []) (ProtocolViolation
                (''Command executor metadata is missing required fields: '' @ join '', '' missing)),
              ensure (nonempty_str model) (ProtocolViolation
                ''Command executor model must be a non-empty string.''),
              ensure (MODEL_VALUE_RE (the_str model)) (ProtocolViolation
                ''Command executor model contains unsupported characters or CLI-token syntax.''),
              ensure (in_strs reasoning_effort SUPPORTED_REASONING_EFFORTS) (ProtocolViolation
                (''Unsupported command executor reasoning_effort; expected one of: ''
                  @ join '', '' (sort SUPPORTED_REASONING_EFFORTS) @ ''.'')),
              ensure (\<not> dhas raw ''service_tier'' \<or> in_strs service_tier SUPPORTED_SERVICE_TIERS)
                (ProtocolViolation
                  (''Unsupported command executor service_tier; expected one of: ''
                    @ join '', '' (sort SUPPORTED_SERVICE_TIERS) @ ''.''))]
             (Inr (Some ([(''model'', the_str model), (''reasoning_effort'', the_str reasoning_effort)]
                @ (if dhas raw ''service_tier'' then [(''service_tier'', the_str service_tier)] else [])))))
      | _ \<Rightarrow> Inl (ProtocolViolation ''Command executor metadata must be a JSON object.'')))"

definition validate_command_metadata :: "py \<Rightarrow> pyexc option" where
  "validate_command_metadata m =
     (case m of
        PyDict meta \<Rightarrow>
          (let missing = sorted_difference COMMAND_REQUIRED_FIELDS (dkeys meta);
               unknown = sorted_difference (dkeys meta) COMMAND_ALLOWED_FIELDS in
           first_raise
             [ensure (missing = [])
                (ProtocolViolation (''Missing command metadata fields: '' @ join '', '' missing)),
              ensure (unknown = [])
                (ProtocolViolation (''Unknown command metadata fields: '' @ join '', '' unknown)),
              exc_of (require_int (dget meta ''command_id'') ''command_id'' 1),
              exc_of (require_int (dget meta ''based_on_report'') ''based_on_report'' 0),
              exc_of (require_int (dget meta ''expected_generation'') ''expected_generation'' 1),
              ensure (in_strs (dget meta ''source'') COMMAND_SOURCES)
                (ProtocolViolation (''Unsupported command source: '' @ py_repr (dget meta ''source''))),
              ensure (in_strs (dget meta ''kind'') COMMAND_KINDS)
                (ProtocolViolation (''Unsupported command kind: '' @ py_repr (dget meta ''kind''))),
              exc_of (command_executor_override meta),
              ensure (dhas meta ''manual_request_id'' \<longrightarrow> nonempty_str (dget meta ''manual_request_id''))
                (ProtocolViolation ''manual_request_id must be a non-empty string.''),
              (if dhas meta ''supersedes_command_id''
               then exc_of (require_int (dget meta ''supersedes_command_id'') ''supersedes_command_id'' 1)
               else None),
              (if dhas meta ''withdraws_command_id''
               then first_raise
                 [exc_of (require_int (dget meta ''withdraws_command_id'') ''withdraws_command_id'' 1),
                  ensure (\<not> dhas meta ''supersedes_command_id'')
                    (ProtocolViolation ''A command cannot contain both supersedes_command_id and withdraws_command_id.'')]
               else None)])
      | _ \<Rightarrow> Some (ProtocolViolation ''bridge-command metadata must be a JSON object.''))"

definition one_line :: "string \<Rightarrow> bool" where
  "one_line s \<longleftrightarrow> CHR 0x0D \<notin> set s \<and> CHR 0x0A \<notin> set s"

definition validate_withdrawal_record :: "py \<Rightarrow> pyexc option" where
  "validate_withdrawal_record r =
     (case r of
        PyDict rec \<Rightarrow>
          (let missing = sorted_difference WITHDRAWAL_RECORD_FIELDS (dkeys rec);
               unknown = sorted_difference (dkeys rec) WITHDRAWAL_RECORD_FIELDS;
               command_id = dget rec ''command_id'';
               replacement_id = dget rec ''replacement_command_id'';
               digest = dget rec ''command_sha256'';
               reason = dget rec ''reason'';
               withdrawn_at = dget rec ''withdrawn_at'' in
           first_raise
             [ensure (missing = [])
                (ProtocolViolation (''Missing withdrawal record fields: '' @ join '', '' missing)),
              ensure (unknown = [])
                (ProtocolViolation (''Unknown withdrawal record fields: '' @ join '', '' unknown)),
              exc_of (require_int command_id ''withdrawal command_id'' 1),
              exc_of (require_int replacement_id ''withdrawal replacement_command_id'' 1),
              ensure (the_int command_id < the_int replacement_id)
                (ProtocolViolation ''withdrawal replacement_command_id must be newer than command_id.''),
              check_hashable (dget rec ''source''),
              ensure (in_strs (dget rec ''source'') COMMAND_SOURCES)
                (ProtocolViolation ''withdrawal record source is unsupported.''),
              check_hashable (dget rec ''kind''),
              ensure (in_strs (dget rec ''kind'') COMMAND_KINDS)
                (ProtocolViolation ''withdrawal record kind is unsupported.''),
              ensure (is_str digest \<and> SHA256_RE (the_str digest))
                (ProtocolViolation ''withdrawal record command_sha256 is invalid.''),
              ensure (is_str reason \<and> strip (the_str reason) \<noteq> [] \<and> length (the_str reason) \<le> 512
                  \<and> one_line (the_str reason))
                (ProtocolViolation ''withdrawal record reason is invalid.''),
              ensure (nonempty_str withdrawn_at)
                (ProtocolViolation ''withdrawal record withdrawn_at is invalid.''),
              ensure (py_eq (dget rec ''resolution'') (PyStr WITHDRAWAL_RESOLUTION))
                (ProtocolViolation ''withdrawal record resolution is unsupported.'')])
      | _ \<Rightarrow> Some (ProtocolViolation ''withdrawal record must be an object.''))"

text \<open>
  \<open>command_contract_errors\<close>: \<open>validate_command_metadata\<close> raises protocol violations only
  (\<open>validate_command_metadata_violation\<close> below), so the \<open>except\<close> clause catches whatever it
  raises.
\<close>

definition command_contract_errors :: "py \<Rightarrow> int option \<Rightarrow> string list" where
  "command_contract_errors m filename_command_id =
     (case m of
        PyDict meta \<Rightarrow>
          (case validate_command_metadata m of None \<Rightarrow> [] | Some e \<Rightarrow> [exc_text e])
          @ (case filename_command_id of
               None \<Rightarrow> []
             | Some fid \<Rightarrow>
                 note_if (is_int (dget meta ''command_id'') \<and> the_int (dget meta ''command_id'') \<noteq> fid)
                   (''command_id '' @ show_int (the_int (dget meta ''command_id''))
                    @ '' does not match filename id '' @ show_int fid))
      | _ \<Rightarrow> [''bridge-command metadata must be a JSON object.''])"

section \<open>What a valid command is\<close>

text \<open>
  The contract stated without the order of the checks.  \<open>wf_executor\<close> is the executor override,
  \<open>wf_command\<close> the whole object.
\<close>

definition wf_executor :: "pydict \<Rightarrow> bool" where
  "wf_executor raw \<longleftrightarrow>
     set (dkeys raw) \<subseteq> set EXECUTOR_FIELDS \<and> set EXECUTOR_REQUIRED_FIELDS \<subseteq> set (dkeys raw)
     \<and> (\<exists>model. dget raw ''model'' = PyStr model \<and> MODEL_VALUE_RE model)
     \<and> (\<exists>e \<in> set SUPPORTED_REASONING_EFFORTS. dget raw ''reasoning_effort'' = PyStr e)
     \<and> (dhas raw ''service_tier'' \<longrightarrow>
          (\<exists>t \<in> set SUPPORTED_SERVICE_TIERS. dget raw ''service_tier'' = PyStr t))"

definition wf_command :: "pydict \<Rightarrow> bool" where
  "wf_command meta \<longleftrightarrow>
     set COMMAND_REQUIRED_FIELDS \<subseteq> set (dkeys meta) \<and> set (dkeys meta) \<subseteq> set COMMAND_ALLOWED_FIELDS
     \<and> (\<exists>i. dget meta ''command_id'' = PyInt i \<and> 1 \<le> i)
     \<and> (\<exists>i. dget meta ''based_on_report'' = PyInt i \<and> 0 \<le> i)
     \<and> (\<exists>i. dget meta ''expected_generation'' = PyInt i \<and> 1 \<le> i)
     \<and> (\<exists>s \<in> set COMMAND_SOURCES. dget meta ''source'' = PyStr s)
     \<and> (\<exists>s \<in> set COMMAND_KINDS. dget meta ''kind'' = PyStr s)
     \<and> (dhas meta ''executor'' \<longrightarrow> (\<exists>raw. dget meta ''executor'' = PyDict raw \<and> wf_executor raw))
     \<and> (dhas meta ''manual_request_id'' \<longrightarrow>
          nonempty_str (dget meta ''manual_request_id''))
     \<and> (dhas meta ''supersedes_command_id'' \<longrightarrow>
          (\<exists>i. dget meta ''supersedes_command_id'' = PyInt i \<and> 1 \<le> i))
     \<and> (dhas meta ''withdraws_command_id'' \<longrightarrow>
          (\<exists>i. dget meta ''withdraws_command_id'' = PyInt i \<and> 1 \<le> i)
          \<and> \<not> dhas meta ''supersedes_command_id'')"

lemma MODEL_VALUE_RE_nonempty: "MODEL_VALUE_RE s \<Longrightarrow> s \<noteq> []"
  by (auto simp: MODEL_VALUE_RE_def)

lemma command_executor_override_Some:
  "(\<exists>r. command_executor_override meta = Inr (Some r)) \<longleftrightarrow>
     dhas meta ''executor'' \<and> (\<exists>raw. dget meta ''executor'' = PyDict raw \<and> wf_executor raw)"
proof (cases "dget meta ''executor''")
  case (PyDict raw)
  show ?thesis
    by (auto simp: command_executor_override_def PyDict wf_executor_def run_checks_Inr
        Let_def nonempty_str_iff dest: MODEL_VALUE_RE_nonempty)
qed (auto simp: command_executor_override_def)

lemma command_executor_override_ok:
  "exc_of (command_executor_override meta) = None \<longleftrightarrow>
     (dhas meta ''executor'' \<longrightarrow> (\<exists>raw. dget meta ''executor'' = PyDict raw \<and> wf_executor raw))"
proof (cases "dhas meta ''executor''")
  case True
  then have "command_executor_override meta \<noteq> Inr None"
    by (auto simp: command_executor_override_def run_checks_Inr Let_def split: py.splits)
  then have "exc_of (command_executor_override meta) = None \<longleftrightarrow>
      (\<exists>r. command_executor_override meta = Inr (Some r))"
    by (auto simp: exc_of_None_iff)
  with True show ?thesis by (simp only: command_executor_override_Some simp_thms)
qed (simp add: command_executor_override_def)

lemma validate_command_metadata_ok:
  "validate_command_metadata m = None \<longleftrightarrow> (\<exists>meta. m = PyDict meta \<and> wf_command meta)"
proof (cases m)
  case (PyDict meta)
  show ?thesis
    unfolding PyDict validate_command_metadata_def wf_command_def Let_def
    by (simp add: command_executor_override_ok)
qed (auto simp: validate_command_metadata_def)

text \<open>Every exception of the metadata validator is a protocol violation.\<close>

lemma violation_simps [simp]:
  "is_protocol_violation (ProtocolViolation s)" "is_protocol_violation (ProtocolConflict s)"
  by (simp_all add: is_protocol_violation_def)

lemma require_int_raises [simp]: "only_raises is_protocol_violation (exc_of (require_int v l m))"
  by (simp add: only_raises_exc_of require_int_Inl_violation)

lemma command_executor_override_raises [simp]:
  "only_raises is_protocol_violation (exc_of (command_executor_override meta))"
  by (simp add: command_executor_override_def Let_def split: py.split)

lemma validate_command_metadata_violation:
  assumes "validate_command_metadata m = Some e"
  shows "is_protocol_violation e"
proof -
  have "only_raises is_protocol_violation (validate_command_metadata m)"
  proof (cases m)
    case (PyDict meta)
    show ?thesis
      unfolding PyDict validate_command_metadata_def Let_def py.case
      by simp
  qed (auto simp: validate_command_metadata_def)
  with assms show ?thesis by (simp add: only_raises_def)
qed

lemma command_contract_errors_ok:
  "command_contract_errors (PyDict meta) fid = [] \<longleftrightarrow>
     wf_command meta \<and> (\<forall>f. fid = Some f \<longrightarrow> dget meta ''command_id'' = PyInt f)"
proof (cases "wf_command meta")
  case True
  then obtain i where "dget meta ''command_id'' = PyInt i" by (auto simp: wf_command_def)
  moreover have "validate_command_metadata (PyDict meta) = None"
    using True by (simp add: validate_command_metadata_ok)
  ultimately show ?thesis
    using True by (auto simp: command_contract_errors_def split: option.splits)
next
  case False
  then have "validate_command_metadata (PyDict meta) \<noteq> None"
    by (simp add: validate_command_metadata_ok)
  with False show ?thesis
    by (auto simp: command_contract_errors_def split: option.splits)
qed

definition wf_withdrawal_record :: "pydict \<Rightarrow> bool" where
  "wf_withdrawal_record rec \<longleftrightarrow>
     set WITHDRAWAL_RECORD_FIELDS \<subseteq> set (dkeys rec) \<and> set (dkeys rec) \<subseteq> set WITHDRAWAL_RECORD_FIELDS
     \<and> (\<exists>c r. dget rec ''command_id'' = PyInt c \<and> dget rec ''replacement_command_id'' = PyInt r
            \<and> 1 \<le> c \<and> c < r)
     \<and> (\<exists>s \<in> set COMMAND_SOURCES. dget rec ''source'' = PyStr s)
     \<and> (\<exists>s \<in> set COMMAND_KINDS. dget rec ''kind'' = PyStr s)
     \<and> (\<exists>h. dget rec ''command_sha256'' = PyStr h \<and> SHA256_RE h)
     \<and> (\<exists>r. dget rec ''reason'' = PyStr r \<and> strip r \<noteq> [] \<and> length r \<le> 512 \<and> one_line r)
     \<and> nonempty_str (dget rec ''withdrawn_at'')
     \<and> dget rec ''resolution'' = PyStr WITHDRAWAL_RESOLUTION"

text \<open>
  A withdrawal record passes exactly when it has the eight fields and no other, a
  replacement newer than the withdrawn command, known source and kind, a SHA-256 digest, a
  one-line reason of at most 512 characters and the fixed resolution.
\<close>

theorem validate_withdrawal_record_ok:
  "validate_withdrawal_record r = None \<longleftrightarrow> (\<exists>rec. r = PyDict rec \<and> wf_withdrawal_record rec)"
proof (cases r)
  case (PyDict rec)
  have str: "(\<exists>s. v = PyStr s \<and> P s) \<longleftrightarrow> is_str v \<and> P (the_str v)" for v P
    by (cases v) simp_all
  have ids: "(\<exists>c r. v = PyInt c \<and> w = PyInt r \<and> 1 \<le> c \<and> c < r) \<longleftrightarrow>
      (\<exists>i. v = PyInt i \<and> 1 \<le> i) \<and> (\<exists>i. w = PyInt i \<and> 1 \<le> i) \<and> the_int v < the_int w" for v w
    by (cases v; cases w) auto
  have hash: "hashable v \<and> (\<exists>s \<in> S. v = PyStr s) \<and> Q \<longleftrightarrow> (\<exists>s \<in> S. v = PyStr s) \<and> Q" for v S Q
    by (auto simp: hashable_def)
  show ?thesis
    unfolding PyDict validate_withdrawal_record_def wf_withdrawal_record_def Let_def py.case ids
    by (simp add: str hash conj_assoc)
qed (auto simp: validate_withdrawal_record_def)

section \<open>The metadata line of a command file\<close>

lemma matching_lines_sound:
  "(j, g) \<in> set (matching_lines i ls) \<longleftrightarrow>
     i \<le> j \<and> j - i < length ls \<and> match_COMMAND_META_RE (ls ! (j - i)) = Some g"
proof (induction ls arbitrary: i)
  case (Cons l ls)
  have step: "match_COMMAND_META_RE ((l # ls) ! (j - i)) =
      (if j = i then match_COMMAND_META_RE l else match_COMMAND_META_RE (ls ! (j - Suc i)))"
    if "i \<le> j"
    using that by (auto simp: nth_Cons' Suc_diff_Suc)
  have "(j, g) \<in> set (matching_lines i (l # ls)) \<longleftrightarrow>
      (j = i \<and> match_COMMAND_META_RE l = Some g) \<or> (j, g) \<in> set (matching_lines (Suc i) ls)"
    by (auto split: option.splits)
  also have "\<dots> \<longleftrightarrow> i \<le> j \<and> j - i < length (l # ls) \<and> match_COMMAND_META_RE ((l # ls) ! (j - i)) = Some g"
    unfolding Cons.IH using step by (cases "j = i") (auto simp: Suc_le_eq)
  finally show ?case .
qed simp

text \<open>The lines of a text that carry the metadata comment, with their indices.\<close>

definition metadata_line :: "string \<Rightarrow> nat \<Rightarrow> string \<Rightarrow> bool" where
  "metadata_line text j g \<longleftrightarrow>
     j < length (splitlines text) \<and> match_COMMAND_META_RE (splitlines text ! j) = Some g"

lemma matching_lines_length_1:
  "length (matching_lines i ls) = 1 \<Longrightarrow> (j, g) \<in> set (matching_lines i ls) \<Longrightarrow>
     hd (matching_lines i ls) = (j, g)"
  by (cases "matching_lines i ls") auto

text \<open>
  Command metadata is returned only from a text in which exactly one line carries the
  metadata comment, that line is one of the first twelve, and its JSON is an object.
\<close>

theorem parse_command_metadata_unique_line:
  assumes "parse_command_metadata loads (PyStr text) = Inr d"
  shows "\<exists>j g. metadata_line text j g \<and> j < COMMAND_METADATA_HEADER_LINES
           \<and> loads g = Inr (PyDict d) \<and> (\<forall>j' g'. metadata_line text j' g' \<longrightarrow> j' = j \<and> g' = g)"
proof -
  let ?ms = "matching_lines 0 (splitlines text)"
  have mem: "(j, g) \<in> set ?ms \<longleftrightarrow> metadata_line text j g" for j g
    by (simp add: matching_lines_sound metadata_line_def)
  obtain j g where one: "?ms = [(j, g)]" and hdr: "j < COMMAND_METADATA_HEADER_LINES"
    and js: "loads g = Inr (PyDict d)"
    using assms
    by (cases ?ms) (auto simp: parse_command_metadata_def run_checks_Inr Let_def
        split: sum.splits py.splits)
  show ?thesis
    using mem [symmetric] one hdr js by auto
qed

theorem parse_command_metadata_unique_line_witness:
  "\<exists>j g. metadata_line ''<!-- bridge-command: {} -->'' j g \<and> j < 12"
proof -
  have "parse_command_metadata (\<lambda>_. Inr (PyDict [])) (PyStr ''<!-- bridge-command: {} -->'') = Inr []"
    by code_simp
  from parse_command_metadata_unique_line [OF this] show ?thesis
    by (auto simp: COMMAND_METADATA_HEADER_LINES_def)
qed

section \<open>The executor override\<close>

text \<open>
  An accepted executor override carries no other field than model, reasoning effort and
  service tier; the model is a token of at most 128 letters, digits and \<open>._:/-\<close> that starts with
  a letter or digit, the effort and the tier come from the fixed vocabularies.  A command
  cannot smuggle an option or a configuration assignment into the executor's command line.
\<close>

theorem executor_override_is_closed:
  assumes "command_executor_override meta = Inr (Some override)"
  shows "\<exists>model effort. map_of override ''model'' = Some model \<and> MODEL_VALUE_RE model
      \<and> length model \<le> 128 \<and> model \<noteq> [] \<and> is_alnum_ascii (hd model) \<and> (\<forall>c \<in> set model. model_char c)
      \<and> map_of override ''reasoning_effort'' = Some effort \<and> effort \<in> set SUPPORTED_REASONING_EFFORTS
      \<and> (\<forall>tier. map_of override ''service_tier'' = Some tier \<longrightarrow> tier \<in> set SUPPORTED_SERVICE_TIERS)
      \<and> set (map fst override) \<subseteq> set EXECUTOR_FIELDS"
proof -
  obtain raw where raw: "dget meta ''executor'' = PyDict raw" and wf: "wf_executor raw"
    using assms command_executor_override_Some by blast
  then have override: "override =
      [(''model'', the_str (dget raw ''model'')), (''reasoning_effort'', the_str (dget raw ''reasoning_effort''))]
      @ (if dhas raw ''service_tier'' then [(''service_tier'', the_str (dget raw ''service_tier''))] else [])"
    using assms by (auto simp: command_executor_override_def run_checks_Inr Let_def split: if_splits)
  from wf obtain model where m: "dget raw ''model'' = PyStr model" "MODEL_VALUE_RE model"
    by (auto simp: wf_executor_def)
  then have "length model \<le> 128" "model \<noteq> []" "is_alnum_ascii (hd model)" "\<forall>c \<in> set model. model_char c"
    by (auto simp: MODEL_VALUE_RE_def model_char_def list_all_iff split: list.splits)
  with m wf override show ?thesis
    by (auto simp: wf_executor_def EXECUTOR_FIELDS_def EXECUTOR_REQUIRED_FIELDS_def)
qed

theorem executor_override_is_closed_witness:
  "\<exists>override. command_executor_override
      [(''executor'', PyDict [(''model'', PyStr ''gpt-5''), (''reasoning_effort'', PyStr ''high'')])]
      = Inr (Some override) \<and> set (map fst override) \<subseteq> set EXECUTOR_FIELDS"
proof -
  let ?meta = "[(''executor'', PyDict [(''model'', PyStr ''gpt-5''), (''reasoning_effort'', PyStr ''high'')])]"
  let ?o = "[(''model'', ''gpt-5''), (''reasoning_effort'', ''high'')]"
  have "command_executor_override ?meta = Inr (Some ?o)" by code_simp
  with executor_override_is_closed [OF this] show ?thesis by blast
qed

end
