(* ===== verification/Protocol_Repair.thy ===== *)
theory Protocol_Repair
  imports Protocol_Commands
begin

text \<open>
  \<open>worker/protocol_core.py\<close>, second part: the assessment of an unclaimed-command repair, the
  append-only supersede graph, and the staged form that combines the two.  The errors are
  accumulated in the order of the source.  A Python list or object as the target's source or
  kind is unhashable, so the membership tests of the source-preservation rule raise.
\<close>

section \<open>Assessing one repair\<close>

record command_repair_assessment =
  cra_eligible :: bool
  cra_state_errors :: "string list"
  cra_target_errors :: "string list"
  cra_replacement_errors :: "string list"
  cra_errors :: "string list"

definition int_at_least :: "int \<Rightarrow> py \<Rightarrow> int option" where
  "int_at_least lo v = (if is_int v \<and> lo \<le> the_int v then Some (the_int v) else None)"

lemma int_at_least_Some [simp]: "int_at_least lo v = Some i \<longleftrightarrow> v = PyInt i \<and> lo \<le> i"
  by (auto simp: int_at_least_def is_int_iff)

lemma int_at_least_PyInt [simp]: "int_at_least lo (PyInt i) = (if lo \<le> i then Some i else None)"
  by (simp add: int_at_least_def)

lemma int_at_least_None: "int_at_least lo v = None \<longleftrightarrow> \<not> (\<exists>i. v = PyInt i \<and> lo \<le> i)"
  by (auto simp: int_at_least_def is_int_iff)

definition repair_state_errors :: "pydict \<Rightarrow> py \<Rightarrow> bool \<Rightarrow> bool \<Rightarrow> string list" where
  "repair_state_errors state target_command_id target_file_exists target_report_exists =
     note_if (\<not> py_eq (dget state ''protocol_version'') (PyInt PROTOCOL_VERSION))
       ''canonical state protocol_version must be 2''
   @ note_if (\<not> py_eq (dget state ''status'') (PyStr ''COMMAND_READY''))
       ''canonical status must be COMMAND_READY''
   @ note_if (dget state ''active_run'' \<noteq> PyNone) ''canonical active_run must be null''
   @ note_if (\<not> target_file_exists) ''canonical target command file must exist''
   @ note_if target_report_exists ''canonical target already has a report''
   @ (if \<not> is_int target_command_id then [''repair target command id must be an integer'']
      else note_if (the_int target_command_id < 1) ''repair target command id must be >= 1'')
   @ note_if (int_at_least 0 (dget state ''generation'') = None)
       ''canonical generation must be a non-negative integer''
   @ note_if (int_at_least 1 (dget state ''latest_command'') = None)
       ''canonical latest_command must be a positive integer''
   @ note_if (int_at_least 0 (dget state ''latest_report'') = None)
       ''canonical latest_report must be a non-negative integer''
   @ (case (int_at_least 1 target_command_id, int_at_least 1 (dget state ''latest_command'')) of
        (Some target, Some latest) \<Rightarrow>
          note_if (target \<noteq> latest) ''repair target command id must equal canonical latest_command''
      | _ \<Rightarrow> [])"

definition int_differs :: "int option \<Rightarrow> py \<Rightarrow> int \<Rightarrow> bool" where
  "int_differs canonical raw lo =
     (case (canonical, int_at_least lo raw) of (Some c, Some r) \<Rightarrow> r \<noteq> c | _ \<Rightarrow> False)"

definition repair_target_errors ::
    "pydict \<Rightarrow> pydict option \<Rightarrow> string option \<Rightarrow> int option \<Rightarrow> string list" where
  "repair_target_errors state target_meta target_parse_error target_filename_command_id =
     (case target_parse_error of
        Some err \<Rightarrow> [''canonical target command metadata is not parseable: '' @ err]
      | None \<Rightarrow>
        (case target_meta of
           None \<Rightarrow> [''canonical target command metadata is unavailable'']
         | Some meta \<Rightarrow>
             command_contract_errors (PyDict meta) target_filename_command_id
             @ note_if (int_differs (int_at_least 0 (dget state ''generation''))
                   (dget meta ''expected_generation'') 0)
                 ''target expected_generation must equal canonical generation''
             @ note_if (int_differs (int_at_least 0 (dget state ''latest_report''))
                   (dget meta ''based_on_report'') 0)
                 ''target based_on_report must equal canonical latest_report''))"

definition known_command_ids :: "py list \<Rightarrow> int list" where
  "known_command_ids ids = List.map_filter (int_at_least 1) ids"

lemma set_known_command_ids: "i \<in> set (known_command_ids ids) \<longleftrightarrow> PyInt i \<in> set ids \<and> 1 \<le> i"
  by (induction ids) (auto simp: known_command_ids_def split: option.splits if_splits)

text \<open>The freshness rule for the replacement id; \<open>allow\<close> is \<open>allow_existing_replacement_id\<close>.\<close>

definition replacement_id_errors ::
    "int \<Rightarrow> py list \<Rightarrow> py \<Rightarrow> int option \<Rightarrow> int option \<Rightarrow> string list" where
  "replacement_id_errors replacement_id existing allow latest_command target =
     (let known = known_command_ids existing;
          allow_errors =
            (if allow = PyNone then []
             else if int_at_least 1 allow = None
               then [''allowed staged replacement id must be a positive integer'']
             else note_if (replacement_id \<noteq> the_int allow)
               ''staged replacement id must match its filename id'');
          known1 = (if allow \<noteq> PyNone \<and> allow_errors = []
                    then filter (\<lambda>i. i \<noteq> the_int allow) known else known);
          known2 = (case latest_command of None \<Rightarrow> known1 | Some l \<Rightarrow> l # known1) in
      allow_errors
      @ note_if (replacement_id \<le> max_default known2 0)
          ''replacement command_id must be greater than every existing command id''
      @ note_if (target = Some replacement_id)
          ''replacement command_id must not self-supersede the target'')"

definition repair_replacement_errors ::
    "pydict \<Rightarrow> py \<Rightarrow> pydict option \<Rightarrow> bool \<Rightarrow> pydict \<Rightarrow> int option \<Rightarrow> py list \<Rightarrow> bool \<Rightarrow> py \<Rightarrow> string list"
where
  "repair_replacement_errors state target_command_id target_meta replacement_report_exists
       meta filename_id existing preserve allow =
     (let target = int_at_least 1 target_command_id;
          generation = int_at_least 0 (dget state ''generation'');
          latest_command = int_at_least 1 (dget state ''latest_command'');
          latest_report = int_at_least 0 (dget state ''latest_report'');
          replacement_id = int_at_least 1 (dget meta ''command_id'');
          superseded = int_at_least 1 (dget meta ''supersedes_command_id'') in
      note_if replacement_report_exists ''staged replacement already has a report''
      @ command_contract_errors (PyDict meta) filename_id
      @ (case target_meta of
           Some tm \<Rightarrow>
             if preserve then
               note_if (in_strs (dget tm ''source'') COMMAND_SOURCES
                   \<and> \<not> py_eq (dget meta ''source'') (dget tm ''source''))
                 ''replacement source must preserve the target command source''
               @ note_if (in_strs (dget tm ''kind'') COMMAND_KINDS
                   \<and> \<not> py_eq (dget meta ''kind'') (dget tm ''kind''))
                 ''replacement kind must preserve the target command kind''
             else []
         | None \<Rightarrow> [])
      @ (case replacement_id of
           Some rid \<Rightarrow> replacement_id_errors rid existing allow latest_command target
         | None \<Rightarrow> note_if (filename_id \<noteq> None) ''replacement command_id is not a positive integer'')
      @ (case (filename_id, replacement_id) of
           (Some fid, Some rid) \<Rightarrow>
             note_if (rid \<noteq> fid) ''replacement command_id must match its command filename''
         | _ \<Rightarrow> [])
      @ (if \<not> dhas meta ''supersedes_command_id''
         then [''repair replacement must declare supersedes_command_id'']
         else (case superseded of
             None \<Rightarrow> []
           | Some sid \<Rightarrow>
               (case target of
                  Some t \<Rightarrow> note_if (sid \<noteq> t)
                    ''replacement supersedes_command_id must equal the exact target command id''
                | None \<Rightarrow> [])
               @ (case replacement_id of
                    Some rid \<Rightarrow> note_if (rid \<le> sid)
                      ''replacement supersedes_command_id must refer to an earlier command id''
                  | None \<Rightarrow> [])))
      @ (case generation of
           Some g \<Rightarrow> note_if (is_int (dget meta ''expected_generation'')
               \<and> the_int (dget meta ''expected_generation'') \<noteq> g + 1)
             ''replacement expected_generation must equal canonical generation + 1''
         | None \<Rightarrow> [])
      @ (case latest_report of
           Some r \<Rightarrow> note_if (is_int (dget meta ''based_on_report'')
               \<and> the_int (dget meta ''based_on_report'') \<noteq> r)
             ''replacement based_on_report must equal canonical latest_report''
         | None \<Rightarrow> []))"

text \<open>The hashes the source-preservation rule takes before it can compare.\<close>

definition repair_hash_checks :: "pydict option \<Rightarrow> pydict option \<Rightarrow> bool \<Rightarrow> pyexc option" where
  "repair_hash_checks target_meta replacement_meta preserve =
     (case (target_meta, replacement_meta) of
        (Some tm, Some _) \<Rightarrow>
          if preserve then first_raise [check_hashable (dget tm ''source''), check_hashable (dget tm ''kind'')]
          else None
      | _ \<Rightarrow> None)"

definition assess_unclaimed_command_repair ::
    "pydict \<Rightarrow> py \<Rightarrow> pydict option \<Rightarrow> string option \<Rightarrow> int option \<Rightarrow> bool \<Rightarrow> bool \<Rightarrow> bool \<Rightarrow>
     pydict option \<Rightarrow> int option \<Rightarrow> py list \<Rightarrow> bool \<Rightarrow> py \<Rightarrow> pyexc + command_repair_assessment"
where
  "assess_unclaimed_command_repair state target_command_id target_meta target_parse_error
       target_filename_command_id target_file_exists target_report_exists
       replacement_report_exists replacement_meta replacement_filename_command_id
       existing_command_ids preserve_target_source_kind allow_existing_replacement_id =
     (let state_errors = repair_state_errors state target_command_id target_file_exists
            target_report_exists;
          target_errors = repair_target_errors state target_meta target_parse_error
            target_filename_command_id;
          replacement_errors =
            (case replacement_meta of
               None \<Rightarrow> []
             | Some meta \<Rightarrow> repair_replacement_errors state target_command_id target_meta
                 replacement_report_exists meta replacement_filename_command_id
                 existing_command_ids preserve_target_source_kind allow_existing_replacement_id) in
      run_checks [repair_hash_checks target_meta replacement_meta preserve_target_source_kind]
        (Inr \<lparr>cra_eligible = (state_errors = [] \<and> target_errors \<noteq> []
                \<and> (replacement_meta = None \<or> replacement_errors = [])),
              cra_state_errors = state_errors,
              cra_target_errors = target_errors,
              cra_replacement_errors = replacement_errors,
              cra_errors = state_errors @ target_errors @ replacement_errors
                @ note_if (target_errors = [])
                    ''target command has no deterministic Protocol-v2 contract error''\<rparr>))"

section \<open>The supersede graph\<close>

text \<open>
  The relation is a dictionary from a superseding command to the command it replaces.  Python
  builds it by \<open>edges[source_id] = target\<close>, so a later entry for a source replaces the target
  and keeps the position: \<open>AList.update\<close>.
\<close>

definition valid_edges :: "(py \<times> py) list \<Rightarrow> (int \<times> int) list" where
  "valid_edges rel = foldl (\<lambda>d (s, t).
       case (int_at_least 1 s, int_at_least 1 t) of
         (Some i, Some j) \<Rightarrow> AList.update i j d
       | _ \<Rightarrow> d) [] rel"

definition supersede_edges :: "py \<Rightarrow> py \<Rightarrow> (py \<times> py) list \<Rightarrow> (int \<times> int) list" where
  "supersede_edges replacement target rel =
     (case (int_at_least 1 replacement, int_at_least 1 target) of
        (Some r, Some t) \<Rightarrow> AList.update r t (valid_edges rel)
      | _ \<Rightarrow> valid_edges rel)"

definition edge_errors :: "int list \<Rightarrow> int option \<Rightarrow> int \<times> int \<Rightarrow> string list" where
  "edge_errors known latest e =
     (let (s, t) = e in
      (if s = t then [''supersedes_command_id must not self-reference'']
       else note_if (s < t) ''supersedes_command_id must refer to an earlier command id'')
      @ note_if (t \<notin> set known) (''supersedes_command_id references missing command-'' @ show_int_03 t)
      @ (case latest of
           None \<Rightarrow> []
         | Some l \<Rightarrow> note_if (l < s) ''superseder command is beyond canonical latest_command''))"

text \<open>\<open>relation_targets\<close>: the targets in order of first appearance, each with its superseders.\<close>

definition superseders_of :: "(int \<times> int) list \<Rightarrow> int \<Rightarrow> int list" where
  "superseders_of edges t = map fst (filter (\<lambda>e. snd e = t) edges)"

definition conflict_errors :: "(int \<times> int) list \<Rightarrow> string list" where
  "conflict_errors edges = concat (map (\<lambda>t.
       note_if (1 < length (remdups (superseders_of edges t)))
         (''command-'' @ show_int_03 t @ '' has multiple conflicting superseders''))
     (fromkeys (map snd edges)))"

text \<open>
  The walk \<open>while current in edges\<close> with its \<open>visited\<close> set: it stops because every round
  adds a key of the dictionary to \<open>visited\<close>.
\<close>

lemma unvisited_decreases:
  assumes "map_of edges c = Some t" "c \<notin> set visited"
  shows "card (fst ` set edges - set (c # visited)) < card (fst ` set edges - set visited)"
proof -
  have "c \<in> fst ` set edges"
    using assms(1) by (metis map_of_SomeD fst_conv imageI)
  then have "fst ` set edges - set (c # visited) \<subset> fst ` set edges - set visited"
    using assms(2) by auto
  then show ?thesis by (simp add: psubset_card_mono)
qed

function cycle_from :: "(int \<times> int) list \<Rightarrow> int list \<Rightarrow> int \<Rightarrow> bool" where
  "cycle_from edges visited current =
     (case map_of edges current of
        None \<Rightarrow> False
      | Some next \<Rightarrow>
          if current \<in> set visited then True else cycle_from edges (current # visited) next)"
  by pat_completeness auto
termination
  by (relation "measure (\<lambda>(edges, visited, _). card (fst ` set edges - set visited))")
     (use unvisited_decreases in auto)

declare cycle_from.simps [simp del]

definition cycle_errors :: "(int \<times> int) list \<Rightarrow> string list" where
  "cycle_errors edges = concat (map (\<lambda>(start, _).
       note_if (cycle_from edges [] start) ''supersede relation contains a cycle'') edges)"

definition endpoint_errors :: "py \<Rightarrow> py \<Rightarrow> int list \<Rightarrow> string list" where
  "endpoint_errors replacement target known =
     (case int_at_least 1 replacement of
        None \<Rightarrow> [''replacement command id must be a positive integer'']
      | Some r \<Rightarrow> note_if (r \<notin> set known)
          ''staged replacement command id is not present in command history'')
     @ (case int_at_least 1 target of
          None \<Rightarrow> [''supersede target command id must be a positive integer'']
        | Some t \<Rightarrow> note_if (t \<notin> set known)
            (''supersedes_command_id references missing command-'' @ show_int_03 t))
     @ (case (int_at_least 1 replacement, int_at_least 1 target) of
          (Some r, Some t) \<Rightarrow>
            if r = t then [''supersedes_command_id must not self-reference'']
            else note_if (r < t) ''supersedes_command_id must refer to an earlier command id''
        | _ \<Rightarrow> [])"

definition supersede_relation_errors ::
    "py \<Rightarrow> py \<Rightarrow> py list \<Rightarrow> (py \<times> py) list \<Rightarrow> int option \<Rightarrow> string list" where
  "supersede_relation_errors replacement target existing rel latest =
     (let known = known_command_ids existing;
          edges = supersede_edges replacement target rel in
      fromkeys
        (endpoint_errors replacement target known
         @ concat (map (edge_errors known latest) edges)
         @ conflict_errors edges
         @ cycle_errors edges))"

section \<open>Assessing a staged repair\<close>

definition assess_staged_unclaimed_command_repair ::
    "pydict \<Rightarrow> py \<Rightarrow> pydict option \<Rightarrow> string option \<Rightarrow> int option \<Rightarrow> bool \<Rightarrow> bool \<Rightarrow> bool \<Rightarrow>
     pydict option \<Rightarrow> int option \<Rightarrow> py list \<Rightarrow> (py \<times> py) list \<Rightarrow> pyexc + command_repair_assessment"
where
  "assess_staged_unclaimed_command_repair state target_command_id target_meta target_parse_error
       target_filename_command_id target_file_exists target_report_exists
       replacement_report_exists replacement_meta replacement_filename_command_id
       existing_command_ids existing_supersedes =
     res_bind
       (assess_unclaimed_command_repair state target_command_id target_meta target_parse_error
          target_filename_command_id target_file_exists target_report_exists
          replacement_report_exists replacement_meta replacement_filename_command_id
          existing_command_ids False
          (case replacement_filename_command_id of None \<Rightarrow> PyNone | Some i \<Rightarrow> PyInt i))
       (\<lambda>base.
          let replacement_id = (case replacement_meta of
                None \<Rightarrow> PyNone | Some meta \<Rightarrow> dget meta ''command_id'');
              staged_errors =
                note_if (replacement_meta = None) ''staged replacement command metadata is unavailable''
                @ supersede_relation_errors replacement_id target_command_id existing_command_ids
                    existing_supersedes (if is_int replacement_id then Some (the_int replacement_id) else None) in
          Inr \<lparr>cra_eligible = (cra_eligible base \<and> staged_errors = []),
               cra_state_errors = cra_state_errors base,
               cra_target_errors = cra_target_errors base,
               cra_replacement_errors = fromkeys (cra_replacement_errors base @ staged_errors),
               cra_errors = fromkeys (cra_errors base @ staged_errors)\<rparr>)"

section \<open>Accepted supersede graphs are forests\<close>

lemma distinct_valid_edges: "distinct (map fst (valid_edges rel))"
proof -
  have "distinct (map fst d) \<Longrightarrow> distinct (map fst (foldl (\<lambda>d (s, t).
       case (int_at_least 1 s, int_at_least 1 t) of
         (Some i, Some j) \<Rightarrow> AList.update i j d
       | _ \<Rightarrow> d) d rel))" for d :: "(int \<times> int) list"
    by (induction rel arbitrary: d) (auto simp: distinct_update split: option.splits)
  then show ?thesis by (simp add: valid_edges_def)
qed

lemma distinct_supersede_edges: "distinct (map fst (supersede_edges r t rel))"
  by (auto simp: supersede_edges_def distinct_valid_edges distinct_update split: option.splits)

lemma edge_errors_ok:
  "edge_errors known latest (s, t) = [] \<longleftrightarrow>
     t < s \<and> t \<in> set known \<and> (\<forall>l. latest = Some l \<longrightarrow> s \<le> l)"
  by (auto simp: edge_errors_def split: option.splits)

lemma set_superseders_of: "s \<in> set (superseders_of edges t) \<longleftrightarrow> (s, t) \<in> set edges"
  by (force simp: superseders_of_def)

lemma distinct_at_most_one:
  "length (remdups xs) \<le> 1 \<longleftrightarrow> (\<forall>x \<in> set xs. \<forall>y \<in> set xs. x = y)"
proof -
  have "length (remdups xs) = card (set xs)" by (simp add: length_remdups_card_conv)
  then show ?thesis by (auto simp: card_le_Suc0_iff_eq)
qed

lemma conflict_errors_ok:
  "conflict_errors edges = [] \<longleftrightarrow>
     (\<forall>s s' t. (s, t) \<in> set edges \<longrightarrow> (s', t) \<in> set edges \<longrightarrow> s = s')"
proof -
  have "conflict_errors edges = [] \<longleftrightarrow>
      (\<forall>t \<in> snd ` set edges. length (remdups (superseders_of edges t)) \<le> 1)"
    by (auto simp: conflict_errors_def not_less)
  also have "\<dots> \<longleftrightarrow> (\<forall>t \<in> snd ` set edges. \<forall>s s'. (s, t) \<in> set edges \<longrightarrow> (s', t) \<in> set edges \<longrightarrow> s = s')"
    by (simp only: distinct_at_most_one set_superseders_of Ball_def) blast
  also have "\<dots> \<longleftrightarrow> (\<forall>s s' t. (s, t) \<in> set edges \<longrightarrow> (s', t) \<in> set edges \<longrightarrow> s = s')"
    by force
  finally show ?thesis .
qed

text \<open>Where every edge points to an earlier command the walk meets no visited command again.\<close>

lemma decreasing_no_cycle:
  "\<forall>(s, t) \<in> set edges. t < s \<Longrightarrow> \<forall>v \<in> set visited. c < v \<Longrightarrow> \<not> cycle_from edges visited c"
proof (induction edges visited c rule: cycle_from.induct)
  case (1 edges visited c)
  show ?case
  proof (cases "map_of edges c")
    case None
    then show ?thesis by (simp add: cycle_from.simps)
  next
    case (Some n)
    have fresh: "c \<notin> set visited" using "1.prems"(2) by auto
    have "n < c" using Some "1.prems"(1) by (auto dest: map_of_SomeD)
    then have "\<forall>v \<in> set (c # visited). n < v" using "1.prems"(2) by auto
    from "1.IH" [OF Some fresh "1.prems"(1) this] fresh Some show ?thesis
      by (simp add: cycle_from.simps [of edges visited c])
  qed
qed

lemma decreasing_cycle_errors: "\<forall>(s, t) \<in> set edges. t < s \<Longrightarrow> cycle_errors edges = []"
  using decreasing_no_cycle [of edges "[]"] by (auto simp: cycle_errors_def)

text \<open>
  \<open>supersede_forest\<close>: every edge replaces an earlier, existing command, no command is replaced
  twice, and no superseder lies beyond the canonical latest command.
\<close>

definition supersede_forest :: "int set \<Rightarrow> int option \<Rightarrow> (int \<times> int) set \<Rightarrow> bool" where
  "supersede_forest known latest E \<longleftrightarrow>
     (\<forall>(s, t) \<in> E. t < s \<and> t \<in> known \<and> (\<forall>l. latest = Some l \<longrightarrow> s \<le> l))
     \<and> (\<forall>s s' t. (s, t) \<in> E \<longrightarrow> (s', t) \<in> E \<longrightarrow> s = s')"

lemma supersede_forest_acyclic: "supersede_forest known latest E \<Longrightarrow> acyclic E"
proof -
  assume "supersede_forest known latest E"
  then have "E \<subseteq> {(s, t). t < s}" by (auto simp: supersede_forest_def)
  moreover have "acyclic {(s, t :: int). t < s}"
    by (rule acyclicI_order [where f = id]) auto
  ultimately show ?thesis by (rule acyclic_subset [rotated])
qed

lemma endpoint_errors_ok:
  "endpoint_errors r t known = [] \<longleftrightarrow>
     (\<exists>i j. r = PyInt i \<and> t = PyInt j \<and> 1 \<le> j \<and> j < i \<and> i \<in> set known \<and> j \<in> set known)"
  by (auto simp: endpoint_errors_def split: option.splits if_splits)

lemma edges_errors_ok:
  "concat (map (edge_errors known latest) edges) @ conflict_errors edges @ cycle_errors edges = [] \<longleftrightarrow>
     supersede_forest (set known) latest (set edges)"
proof -
  have edges: "concat (map (edge_errors known latest) edges) = [] \<longleftrightarrow>
      (\<forall>(s, t) \<in> set edges. t < s \<and> t \<in> set known \<and> (\<forall>l. latest = Some l \<longrightarrow> s \<le> l))"
    by (auto simp: edge_errors_ok)
  have "cycle_errors edges = []" if "concat (map (edge_errors known latest) edges) = []"
    using that unfolding edges by (intro decreasing_cycle_errors) auto
  then have "concat (map (edge_errors known latest) edges) @ conflict_errors edges @ cycle_errors edges = [] \<longleftrightarrow>
      concat (map (edge_errors known latest) edges) = [] \<and> conflict_errors edges = []"
    by (simp only: append_is_Nil_conv) blast
  then show ?thesis
    unfolding edges conflict_errors_ok supersede_forest_def by simp
qed

text \<open>
  C36: \<open>supersede_relation_errors\<close> reports nothing exactly when the replacement and its target are
  known commands, the target the earlier one, and the relation extended by this edge is a
  forest; the cycle walk, which terminates on every relation, never adds a verdict of its own.
\<close>

theorem supersede_relation_accepts_forests:
  "supersede_relation_errors r t existing rel latest = [] \<longleftrightarrow>
     (\<exists>i j. r = PyInt i \<and> t = PyInt j \<and> 1 \<le> j \<and> j < i \<and> PyInt i \<in> set existing \<and> PyInt j \<in> set existing
        \<and> supersede_forest {k. 1 \<le> k \<and> PyInt k \<in> set existing} latest
            (set (AList.update i j (valid_edges rel))))"
proof -
  have known: "set (known_command_ids existing) = {k. 1 \<le> k \<and> PyInt k \<in> set existing}"
    by (auto simp: set_known_command_ids)
  have "supersede_relation_errors r t existing rel latest = [] \<longleftrightarrow>
      endpoint_errors r t (known_command_ids existing) = []
      \<and> supersede_forest (set (known_command_ids existing)) latest (set (supersede_edges r t rel))"
    using edges_errors_ok by (simp add: supersede_relation_errors_def Let_def)
  then show ?thesis
    unfolding endpoint_errors_ok known
    by (auto simp: supersede_edges_def)
qed

section \<open>A defect the assessment cannot report\<close>

text \<open>
  Where the source or the kind of the command under repair is a JSON array or object, the
  assessment of a replacement that must preserve them raises \<open>TypeError\<close> instead of reporting the
  defect.
\<close>

theorem repair_raises_on_unhashable_source:
  assumes "dget tm ''source'' = PyList xs \<or> dget tm ''source'' = PyDict d"
  shows "\<exists>text. assess_unclaimed_command_repair state tid (Some tm) perr tfid texists treport rreport
      (Some meta) rfid existing True allow = Inl (TypeError text)"
  using assms
  by (auto simp: assess_unclaimed_command_repair_def repair_hash_checks_def check_hashable_def
      hashable_def unhashable_error_def Let_def)

theorem repair_raises_on_unhashable_source_witness:
  "\<exists>text. assess_unclaimed_command_repair [(''protocol_version'', PyInt 2)] (PyInt 1)
      (Some [(''source'', PyList [])]) None (Some 1) True False False
      (Some [(''command_id'', PyInt 2)]) (Some 2) [PyInt 1] True PyNone = Inl (TypeError text)"
  by (rule repair_raises_on_unhashable_source [where xs = "[]" and d = "[]"]) simp

end
