(* ===== verification/Protocol_Lifecycle.thy ===== *)
theory Protocol_Lifecycle
  imports Protocol_Repair
begin

text \<open>
  \<open>worker/protocol_core.py\<close>, third part: the decisions taken against the canonical state.  The
  claim-time guard of a pending command, the three manual fast-lane decisions, the execution
  lease, the recovery state and its resolution, and the final-delivery marker.
\<close>

section \<open>Claiming a pending command\<close>

definition validate_pending_command :: "pydict \<Rightarrow> py \<Rightarrow> py \<Rightarrow> pyexc option" where
  "validate_pending_command state command_id m =
     (let meta = the_dict m;
          requested = the_int command_id;
          meta_command_id = the_int (dget meta ''command_id'');
          expected_generation = the_int (dget meta ''expected_generation'');
          based_on_report = the_int (dget meta ''based_on_report'') in
      first_raise
        [validate_command_metadata m,
         exc_of (require_int command_id ''command_id'' 1),
         ensure (meta_command_id = requested)
           (ProtocolViolation (''Command metadata id '' @ show_int meta_command_id
              @ '' does not match state id '' @ show_int requested @ ''.'')),
         exc_of (require_int (dget state ''generation'') ''state generation'' 0),
         ensure (expected_generation = the_int (dget state ''generation''))
           (ProtocolConflict (''Stale command '' @ show_int_03 requested @ '': expected generation ''
              @ show_int expected_generation @ '', current '' @ py_str (dget state ''generation'') @ ''.'')),
         exc_of (require_int (dget state ''latest_report'') ''state latest_report'' 0),
         ensure (based_on_report = the_int (dget state ''latest_report''))
           (ProtocolConflict (''Stale command '' @ show_int_03 requested @ '': based_on_report=''
              @ show_int based_on_report @ '', current latest_report=''
              @ py_str (dget state ''latest_report'') @ ''.''))])"

section \<open>Manual decisions\<close>

text \<open>\<open>ManualStartDecision\<close> holds one optional id and is that option.\<close>

definition manual_start_decision :: "pydict \<Rightarrow> pydict option \<Rightarrow> pyexc + int option" where
  "manual_start_decision state existing_meta =
     (case py_int (dget_or state ''protocol_version'' (PyInt 1)) of
        Inl (OverflowError s) \<Rightarrow> Inl (OverflowError s)
      | Inl _ \<Rightarrow> Inl (ProtocolViolation ''Manual fast lane requires protocol_version >= 2.'')
      | Inr protocol_version \<Rightarrow>
          (let status = py_str (dget_or state ''status'' (PyStr [])) in
           run_checks
             [ensure (PROTOCOL_VERSION \<le> protocol_version)
                (ProtocolViolation ''Manual fast lane requires protocol_version >= 2.''),
              ensure (\<not> truthy (dget state ''active_run''))
                (ProtocolConflict ''Project already has an active execution lease.'')]
             (if status = ''REPORT_READY'' then Inr None
              else if status = ''COMMAND_READY'' then
                (case existing_meta of
                   None \<Rightarrow> Inl (ProtocolViolation ''COMMAND_READY requires readable command metadata.'')
                 | Some meta \<Rightarrow>
                     if py_str (dget_or meta ''source'' (PyStr [])) \<noteq> ''scheduled_chatgpt''
                        \<or> py_upper (py_str (dget_or meta ''kind'' (PyStr ''EXECUTE''))) \<noteq> ''EXECUTE''
                     then Inl (ProtocolConflict ''Manual fast lane may supersede only an unclaimed normal scheduled_chatgpt command.'')
                     else res_bind (py_int (dget_or state ''latest_command'' (PyInt 0))) (\<lambda>i. Inr (Some i)))
              else if status = ''CODEX_RUNNING'' then
                Inl (ProtocolConflict ''Codex is already running for this project. Manual execution must wait.'')
              else Inl (ProtocolConflict (''Manual fast lane cannot start while project status is ''
                     @ repr_str status @ ''.'')))))"

record manual_supersede_plan =
  msd_supersedes_command_id :: int
  msd_publication_generation :: int

definition manual_supersede_decision :: "pydict \<Rightarrow> py \<Rightarrow> pyexc + manual_supersede_plan" where
  "manual_supersede_decision state existing_meta =
     (let meta = the_dict existing_meta;
          command_id = dget state ''latest_command'' in
      run_checks
        [ensure (py_eq (dget state ''protocol_version'') (PyInt PROTOCOL_VERSION))
           (ProtocolViolation ''Manual supersede requires exactly Protocol-v2 canonical state.''),
         ensure (py_eq (dget state ''status'') (PyStr ''COMMAND_READY''))
           (ProtocolConflict ''Manual supersede is allowed only at the COMMAND_READY queue boundary.''),
         ensure (dhas state ''active_run'')
           (ProtocolViolation ''Manual supersede requires an explicit active_run=null.''),
         ensure (dget state ''active_run'' = PyNone)
           (ProtocolConflict ''Manual supersede cannot interrupt an active execution lease.''),
         exc_of (require_int (dget state ''generation'') ''generation'' 0),
         exc_of (require_int command_id ''latest_command'' 1),
         exc_of (require_int (dget state ''latest_report'') ''latest_report'' 0),
         ensure (the_int (dget state ''latest_report'') < the_int command_id)
           (ProtocolConflict ''Manual supersede requires a pending command newer than latest_report.''),
         validate_pending_command state command_id existing_meta,
         ensure (py_eq (dget meta ''source'') (PyStr ''scheduled_chatgpt''))
           (ProtocolConflict ''Manual supersede targets only a normal scheduled_chatgpt command.''),
         ensure (py_eq (dget meta ''kind'') (PyStr ''EXECUTE''))
           (ProtocolConflict ''Manual supersede targets only a scheduled EXECUTE command.''),
         ensure (\<not> dhas meta ''manual_request_id'')
           (ProtocolConflict ''Manual supersede target already carries manual request identity.''),
         ensure (\<not> dhas meta ''supersedes_command_id'')
           (ProtocolConflict ''Manual supersede target is already a historical replacement.'')]
        (res_bind (publication_generation (dget state ''generation'')) (\<lambda>g.
           Inr \<lparr>msd_supersedes_command_id = the_int command_id, msd_publication_generation = g\<rparr>)))"

record withdraw_and_manual_start =
  wms_target_command_id :: int
  wms_replacement_command_id :: int
  wms_publication_generation :: int
  wms_claimed_generation :: int

definition withdraw_target_checks ::
    "pydict \<Rightarrow> py \<Rightarrow> pydict option \<Rightarrow> bool \<Rightarrow> py \<Rightarrow> py list \<Rightarrow> pyexc option list" where
  "withdraw_target_checks state target_command_id target_meta target_report_exists reason withdrawn =
     (let command_id = dget state ''latest_command'';
          meta = (case target_meta of None \<Rightarrow> [] | Some d \<Rightarrow> d) in
      [ensure (py_eq (dget state ''protocol_version'') (PyInt PROTOCOL_VERSION))
         (ProtocolViolation ''Owner withdrawal requires exactly Protocol-v2 canonical state.''),
       ensure (py_eq (dget state ''status'') (PyStr ''COMMAND_READY''))
         (ProtocolConflict ''Owner withdrawal is allowed only at the COMMAND_READY queue boundary.''),
       ensure (dhas state ''active_run'')
         (ProtocolViolation ''Owner withdrawal requires an explicit active_run=null.''),
       ensure (dget state ''active_run'' = PyNone)
         (ProtocolConflict ''Owner withdrawal cannot interrupt an active execution lease.''),
       ensure (\<not> target_report_exists)
         (ProtocolConflict ''Owner withdrawal requires the target command to have no report.''),
       ensure (is_str reason \<and> strip (the_str reason) \<noteq> [])
         (ProtocolViolation ''Owner withdrawal reason must be non-empty text.''),
       ensure (length (strip (the_str reason)) \<le> 512 \<and> one_line (the_str reason))
         (ProtocolViolation ''Owner withdrawal reason must be one line of at most 512 characters.''),
       ensure (int_at_least 1 target_command_id \<noteq> None)
         (ProtocolViolation ''Owner withdrawal target command id must be positive.''),
       exc_of (require_int command_id ''latest_command'' 1),
       exc_of (require_int (dget state ''latest_report'') ''latest_report'' 0),
       ensure (the_int target_command_id = the_int command_id)
         (ProtocolConflict ''Owner withdrawal target command id must equal canonical latest_command.''),
       ensure (the_int (dget state ''latest_report'') < the_int command_id)
         (ProtocolConflict ''Owner withdrawal requires a command newer than latest_report.''),
       ensure (target_meta \<noteq> None)
         (ProtocolViolation ''Owner withdrawal target metadata is unavailable.''),
       validate_pending_command state command_id (PyDict meta),
       ensure (py_eq (dget meta ''source'') (PyStr ''manual_chatgpt''))
         (ProtocolConflict ''Owner withdrawal targets only a manual_chatgpt command.''),
       ensure (py_eq (dget meta ''kind'') (PyStr ''EXECUTE''))
         (ProtocolConflict ''Owner withdrawal targets only a manual EXECUTE command.''),
       ensure (\<not> dhas meta ''supersedes_command_id'')
         (ProtocolConflict ''Owner withdrawal does not rewrite a historical supersede relation.''),
       ensure (\<not> dhas meta ''withdraws_command_id'')
         (ProtocolConflict ''Owner withdrawal target already carries a withdrawal relation.''),
       ensure (the_int command_id \<notin> set (known_command_ids withdrawn))
         (ProtocolConflict ''Owner withdrawal target already has an immutable withdrawal record.''),
       exc_of (require_int (dget state ''generation'') ''generation'' 0)])"

definition withdraw_replacement_checks ::
    "pydict \<Rightarrow> pydict option \<Rightarrow> py \<Rightarrow> py list \<Rightarrow> int \<Rightarrow> pyexc option list" where
  "withdraw_replacement_checks state replacement_meta filename_id existing publication =
     (let command_id = dget state ''latest_command'';
          meta = (case replacement_meta of None \<Rightarrow> [] | Some d \<Rightarrow> d);
          errors = command_contract_errors (PyDict meta) (Some (the_int filename_id));
          replacement_id = dget meta ''command_id'';
          known = known_command_ids existing in
      [ensure (replacement_meta \<noteq> None)
         (ProtocolViolation ''Manual replacement command metadata is unavailable.''),
       ensure (int_at_least 1 filename_id \<noteq> None)
         (ProtocolViolation ''Manual replacement command filename id must be positive.''),
       ensure (errors = [])
         (ProtocolViolation (''Manual replacement command is not a complete Protocol-v2 command: ''
            @ join ''; '' errors)),
       exc_of (require_int replacement_id ''replacement command_id'' 1),
       ensure (the_int replacement_id \<notin> set known)
         (ProtocolConflict ''Manual replacement command id already exists in command history.''),
       ensure (max_default known 0 < the_int replacement_id)
         (ProtocolConflict ''Manual replacement command id must be monotonic beyond command history.''),
       ensure (py_eq (dget meta ''source'') (PyStr ''manual_chatgpt''))
         (ProtocolViolation ''Manual replacement command source must be manual_chatgpt.''),
       ensure (py_eq (dget meta ''kind'') (PyStr ''EXECUTE''))
         (ProtocolViolation ''Manual replacement command kind must be EXECUTE.''),
       ensure (py_eq (dget meta ''based_on_report'') (PyInt (the_int (dget state ''latest_report''))))
         (ProtocolConflict ''Manual replacement based_on_report must equal latest_report.''),
       ensure (py_eq (dget meta ''expected_generation'') (PyInt publication))
         (ProtocolConflict ''Manual replacement expected_generation must equal publication generation.''),
       ensure (py_eq (dget meta ''withdraws_command_id'') (PyInt (the_int command_id)))
         (ProtocolViolation ''Manual replacement must withdraw the exact target command.''),
       ensure (\<not> dhas meta ''supersedes_command_id'')
         (ProtocolViolation ''Manual withdrawal replacement must not use supersedes_command_id.''),
       ensure (nonempty_str (dget meta ''manual_request_id''))
         (ProtocolViolation ''Manual withdrawal replacement requires manual_request_id.'')])"

definition withdraw_and_manual_start_decision ::
    "pydict \<Rightarrow> py \<Rightarrow> pydict option \<Rightarrow> bool \<Rightarrow> py \<Rightarrow> pydict option \<Rightarrow> py \<Rightarrow> py list \<Rightarrow> py list \<Rightarrow>
     pyexc + withdraw_and_manual_start"
where
  "withdraw_and_manual_start_decision state target_command_id target_meta target_report_exists
       reason replacement_meta replacement_filename_command_id existing_command_ids
       existing_withdrawal_command_ids =
     run_checks (withdraw_target_checks state target_command_id target_meta target_report_exists
         reason existing_withdrawal_command_ids)
       (res_bind (publication_generation (dget state ''generation'')) (\<lambda>publication.
        res_bind (claim_generation (PyInt publication)) (\<lambda>claimed.
        run_checks (withdraw_replacement_checks state replacement_meta
            replacement_filename_command_id existing_command_ids publication)
          (Inr \<lparr>wms_target_command_id = the_int (dget state ''latest_command''),
                wms_replacement_command_id =
                  the_int (dget (case replacement_meta of None \<Rightarrow> [] | Some d \<Rightarrow> d) ''command_id''),
                wms_publication_generation = publication,
                wms_claimed_generation = claimed\<rparr>))))"

section \<open>Snapshots and leases\<close>

text \<open>A conjunction whose conjuncts may raise, evaluated from the left until one is false.\<close>

fun and_chain :: "(pyexc + bool) list \<Rightarrow> pyexc + bool" where
  "and_chain [] = Inr True"
| "and_chain (r # rs) = res_bind r (\<lambda>b. if b then and_chain rs else Inr False)"

lemma and_chain_True: "and_chain (r # rs) = Inr True \<longleftrightarrow> r = Inr True \<and> and_chain rs = Inr True"
  by (cases r) auto

lemma and_chain_eval:
  "and_chain [] = Inr True"
  "and_chain (Inr True # rs) = and_chain rs"
  "and_chain (Inr False # rs) = Inr False"
  "and_chain (Inl e # rs) = Inl e"
  by simp_all

declare and_chain.simps [simp del]
declare and_chain_eval [simp] and_chain_True [simp]

definition same_ready_snapshot :: "pydict \<Rightarrow> pydict \<Rightarrow> pyexc + bool" where
  "same_ready_snapshot current snapshot =
     and_chain
       [Inr (py_eq (dget current ''status'') (dget snapshot ''status'')),
        optional_int_equal (dget current ''generation'') (dget snapshot ''generation''),
        optional_int_equal (dget current ''latest_command'') (dget snapshot ''latest_command''),
        optional_int_equal (dget current ''latest_report'') (dget snapshot ''latest_report''),
        Inr (\<not> truthy (dget current ''active_run''))]"

definition matches_execution_lease ::
    "pydict \<Rightarrow> py \<Rightarrow> py \<Rightarrow> py \<Rightarrow> string option \<Rightarrow> string option \<Rightarrow> string option \<Rightarrow> pyexc + bool" where
  "matches_execution_lease state run_id command_id claimed_generation source kind project_id =
     (let active = dget state ''active_run'';
          lease = the_dict active;
          unless_given = (\<lambda>q v. case q of None \<Rightarrow> True | Some s \<Rightarrow> py_eq v (PyStr s)) in
      and_chain
        [Inr (is_str run_id \<and> the_str run_id \<noteq> []),
         Inr (int_at_least 1 command_id \<noteq> None \<and> int_at_least 0 claimed_generation \<noteq> None),
         Inr (py_eq (dget state ''status'') (PyStr ''CODEX_RUNNING'')),
         Inr (unless_given project_id (dget state ''project_id'')),
         optional_int_equal (dget state ''generation'') claimed_generation,
         Inr (is_dict active),
         Inr (py_eq (dget lease ''run_id'') run_id),
         optional_int_equal (dget lease ''command_id'') command_id,
         optional_int_equal (dget lease ''claimed_generation'') claimed_generation,
         Inr (unless_given source (dget lease ''source'')),
         Inr (unless_given kind (dget lease ''kind''))])"

definition journal_identity_valid :: "pydict \<Rightarrow> bool" where
  "journal_identity_valid journal \<longleftrightarrow>
     nonempty_str (dget journal ''project_id'') \<and> nonempty_str (dget journal ''run_id'')
     \<and> int_at_least 1 (dget journal ''command_id'') \<noteq> None
     \<and> int_at_least 0 (dget journal ''claim_generation'') \<noteq> None"

definition matches_recovery_running_state :: "pydict \<Rightarrow> pydict \<Rightarrow> pyexc + bool" where
  "matches_recovery_running_state journal state =
     (if \<not> journal_identity_valid journal then Inr False
      else matches_execution_lease state (dget journal ''run_id'') (dget journal ''command_id'')
        (dget journal ''claim_generation'') None None (Some (the_str (dget journal ''project_id''))))"

definition matches_recovery_state :: "pydict \<Rightarrow> pydict \<Rightarrow> pyexc + bool" where
  "matches_recovery_state journal state =
     (if \<not> journal_identity_valid journal then Inr False
      else and_chain
        [Inr (py_eq (dget state ''status'') (PyStr ''RECOVERY_REQUIRED'')),
         Inr (dget state ''active_run'' = PyNone),
         Inr (dget state ''worker_pid'' = PyNone),
         Inr (py_eq (dget state ''project_id'') (dget journal ''project_id'')),
         optional_int_equal (dget state ''generation'')
           (PyInt (the_int (dget journal ''claim_generation'') + 1)),
         optional_int_equal (dget state ''latest_command'') (dget journal ''command_id''),
         Inr (contains (the_str (dget journal ''run_id''))
           (py_str (dget_or state ''recovery_reason'' (PyStr []))))])"

section \<open>The claim-time guard\<close>

lemma wf_command_intsE:
  assumes "wf_command meta"
  obtains c b e where "dget meta ''command_id'' = PyInt c" "1 \<le> c"
    "dget meta ''based_on_report'' = PyInt b" "0 \<le> b"
    "dget meta ''expected_generation'' = PyInt e" "1 \<le> e"
  using assms by (auto simp: wf_command_def)

text \<open>
  C35: a pending command passes the claim-time guard exactly when its metadata is a valid
  command whose id is the requested one, whose expected generation is the canonical
  generation and whose base report is the canonical latest report.
\<close>

theorem validate_pending_command_ok:
  "validate_pending_command state cid m = None \<longleftrightarrow>
     (\<exists>meta c g r. m = PyDict meta \<and> wf_command meta
        \<and> cid = PyInt c \<and> dget meta ''command_id'' = PyInt c
        \<and> dget state ''generation'' = PyInt g \<and> dget meta ''expected_generation'' = PyInt g
        \<and> dget state ''latest_report'' = PyInt r \<and> dget meta ''based_on_report'' = PyInt r)"
    (is "?L \<longleftrightarrow> ?R")
proof
  assume ?L
  then obtain meta where m: "m = PyDict meta" and wf: "wf_command meta"
    by (auto simp: validate_pending_command_def Let_def validate_command_metadata_ok)
  from wf show ?R
    by (rule wf_command_intsE)
       (use \<open>?L\<close> wf in \<open>auto simp: validate_pending_command_def Let_def m\<close>)
next
  assume ?R
  then obtain meta c g r where m: "m = PyDict meta" "wf_command meta"
    and eqs: "cid = PyInt c" "dget meta ''command_id'' = PyInt c"
      "dget state ''generation'' = PyInt g" "dget meta ''expected_generation'' = PyInt g"
      "dget state ''latest_report'' = PyInt r" "dget meta ''based_on_report'' = PyInt r"
    by blast
  from m(2) have "1 \<le> c" "0 \<le> g" "0 \<le> r"
    using eqs by (auto elim: wf_command_intsE)
  then show ?L
    using m by (simp add: validate_pending_command_def Let_def eqs validate_command_metadata_ok)
qed

lemma validate_pending_commandI:
  assumes "wf_command meta" "dget meta ''command_id'' = PyInt c"
    "dget state ''generation'' = PyInt g" "dget meta ''expected_generation'' = PyInt g"
    "dget state ''latest_report'' = PyInt r" "dget meta ''based_on_report'' = PyInt r"
  shows "validate_pending_command state (PyInt c) (PyDict meta) = None"
proof -
  from assms(1) have "1 \<le> c" "0 \<le> g" "0 \<le> r"
    using assms by (auto elim: wf_command_intsE)
  then show ?thesis
    using assms by (simp add: validate_pending_command_def Let_def validate_command_metadata_ok)
qed

lemma validate_pending_commandD:
  assumes "validate_pending_command state cid (PyDict meta) = None"
  shows "wf_command meta" "cid = dget meta ''command_id''"
    "dget state ''generation'' = dget meta ''expected_generation''"
    "dget state ''latest_report'' = dget meta ''based_on_report''"
proof -
  have wf: "wf_command meta"
    using assms by (simp add: validate_pending_command_def Let_def validate_command_metadata_ok)
  show "wf_command meta" by (rule wf)
  from wf show "cid = dget meta ''command_id''"
    "dget state ''generation'' = dget meta ''expected_generation''"
    "dget state ''latest_report'' = dget meta ''based_on_report''"
    by (auto elim!: wf_command_intsE)
       (use assms in \<open>auto simp: validate_pending_command_def Let_def\<close>)
qed

section \<open>Repairs against the claim-time guard\<close>

lemma assess_Inr_eligible:
  assumes "assess_unclaimed_command_repair state tid tmeta perr tfid texists treport rreport
      rmeta rfid existing preserve allow = Inr a"
  shows "cra_eligible a \<longleftrightarrow>
      repair_state_errors state tid texists treport = []
      \<and> repair_target_errors state tmeta perr tfid \<noteq> []
      \<and> (\<forall>meta. rmeta = Some meta \<longrightarrow>
           repair_replacement_errors state tid tmeta rreport meta rfid existing preserve allow = [])"
  using assms
  by (cases rmeta) (auto simp: assess_unclaimed_command_repair_def Let_def run_checks_Inr)

text \<open>Concrete inputs for the witnesses.\<close>

definition sample_command :: "int \<Rightarrow> string \<Rightarrow> int \<Rightarrow> int \<Rightarrow> pydict" where
  "sample_command cid source report generation =
     [(''command_id'', PyInt cid), (''source'', PyStr source), (''based_on_report'', PyInt report),
      (''expected_generation'', PyInt generation), (''kind'', PyStr ''EXECUTE'')]"

definition sample_ready_state :: pydict where
  "sample_ready_state =
     [(''protocol_version'', PyInt 2), (''status'', PyStr ''COMMAND_READY''), (''active_run'', PyNone),
      (''generation'', PyInt 5), (''latest_command'', PyInt 3), (''latest_report'', PyInt 2)]"

text \<open>
  A repair never takes a command away that the Worker could claim: if the target passes
  the claim-time guard of the same canonical state, no assessment is eligible.
\<close>

theorem repair_spares_claimable_target:
  assumes claimable: "validate_pending_command state tid (PyDict tm) = None"
    and assessed: "assess_unclaimed_command_repair state tid (Some tm) None (Some t) texists treport
      rreport rmeta rfid existing preserve allow = Inr a"
    and named: "tid = PyInt t"
  shows "\<not> cra_eligible a"
proof -
  note v = validate_pending_commandD [OF claimable]
  from v(1) have "repair_target_errors state (Some tm) None (Some t) = []"
    by (rule wf_command_intsE)
       (use v named in \<open>auto simp: repair_target_errors_def command_contract_errors_ok int_differs_def\<close>)
  then show ?thesis
    using assess_Inr_eligible [OF assessed] by simp
qed

theorem repair_spares_claimable_target_witness:
  "\<exists>a. assess_unclaimed_command_repair sample_ready_state (PyInt 3)
      (Some (sample_command 3 ''manual_chatgpt'' 2 5)) None (Some 3) True False False None None [] True PyNone
      = Inr a \<and> \<not> cra_eligible a"
proof -
  let ?tm = "sample_command 3 ''manual_chatgpt'' 2 5"
  have v: "validate_pending_command sample_ready_state (PyInt 3) (PyDict ?tm) = None"
    by code_simp
  obtain a where "assess_unclaimed_command_repair sample_ready_state (PyInt 3)
      (Some ?tm) None (Some 3) True False False None None [] True PyNone = Inr a"
    by (simp add: assess_unclaimed_command_repair_def repair_hash_checks_def Let_def)
  with repair_spares_claimable_target [OF v this refl] show ?thesis by blast
qed

lemma replacement_id_errorsD:
  assumes "replacement_id_errors rid existing allow latest target = []"
  shows "1 \<le> k \<Longrightarrow> PyInt k \<in> set existing \<Longrightarrow> allow \<noteq> PyInt k \<Longrightarrow> k < rid"
    and "latest = Some l \<Longrightarrow> l < rid"
    and "target \<noteq> Some rid"
proof -
  define known1 where "known1 =
    (if allow \<noteq> PyNone then filter (\<lambda>i. i \<noteq> the_int allow) (known_command_ids existing)
     else known_command_ids existing)"
  define known2 where "known2 = (case latest of None \<Rightarrow> known1 | Some l \<Rightarrow> l # known1)"
  have allow: "allow = PyNone \<or> (\<exists>i. allow = PyInt i)"
    using assms by (auto simp: replacement_id_errors_def Let_def int_at_least_None split: if_splits)
  have "max_default known2 0 < rid" and "target \<noteq> Some rid"
    using assms unfolding known2_def known1_def
    by (auto simp: replacement_id_errors_def Let_def split: if_splits)
  then have below: "\<forall>y \<in> set known2. y < rid" by (auto simp: max_default_less split: if_splits)
  show "target \<noteq> Some rid" by fact
  show "latest = Some l \<Longrightarrow> l < rid" using below by (simp add: known2_def)
  assume k: "1 \<le> k" "PyInt k \<in> set existing" "allow \<noteq> PyInt k"
  then have "k \<in> set known1"
    using allow by (auto simp: known1_def set_known_command_ids)
  then have "k \<in> set known2" by (auto simp: known2_def split: option.splits)
  with below show "k < rid" by blast
qed

lemma repair_state_errorsD:
  assumes "repair_state_errors state tid texists treport = []"
  obtains t g r where "tid = PyInt t" "1 \<le> t" "dget state ''latest_command'' = PyInt t"
    "dget state ''generation'' = PyInt g" "0 \<le> g"
    "dget state ''latest_report'' = PyInt r" "0 \<le> r"
    "dget state ''status'' = PyStr ''COMMAND_READY''" "dget state ''active_run'' = PyNone"
proof -
  have "is_int tid" "1 \<le> the_int tid"
    using assms by (auto simp: repair_state_errors_def split: if_splits)
  moreover have "int_at_least 0 (dget state ''generation'') \<noteq> None"
    "int_at_least 1 (dget state ''latest_command'') \<noteq> None"
    "int_at_least 0 (dget state ''latest_report'') \<noteq> None"
    "dget state ''status'' = PyStr ''COMMAND_READY''" "dget state ''active_run'' = PyNone"
    using assms by (auto simp: repair_state_errors_def)
  moreover have "the_int tid = the_int (dget state ''latest_command'')"
    using assms calculation by (auto simp: repair_state_errors_def is_int_iff)
  ultimately show thesis by (auto simp: is_int_iff intro: that)
qed

text \<open>What a replacement without errors is, against a state without errors.\<close>

lemma repair_replacement_errorsD:
  assumes none: "repair_replacement_errors state (PyInt t) tmeta rreport meta rfid existing preserve allow = []"
    and t: "1 \<le> t" and g: "dget state ''generation'' = PyInt g" "0 \<le> g"
    and r: "dget state ''latest_report'' = PyInt r" "0 \<le> r"
    and l: "dget state ''latest_command'' = PyInt t"
  obtains rid where "wf_command meta" "dget meta ''command_id'' = PyInt rid"
    "dget meta ''expected_generation'' = PyInt (g + 1)" "dget meta ''based_on_report'' = PyInt r"
    "dget meta ''supersedes_command_id'' = PyInt t" "t < rid"
    "\<forall>k. 1 \<le> k \<and> PyInt k \<in> set existing \<and> allow \<noteq> PyInt k \<longrightarrow> k < rid"
proof -
  have wf: "wf_command meta"
    using none by (simp add: repair_replacement_errors_def Let_def command_contract_errors_ok)
  obtain c b e where ints: "dget meta ''command_id'' = PyInt c" "1 \<le> c"
    "dget meta ''based_on_report'' = PyInt b" "0 \<le> b"
    "dget meta ''expected_generation'' = PyInt e" "1 \<le> e"
    using wf by (rule wf_command_intsE)
  have sup: "dhas meta ''supersedes_command_id''"
    using none by (auto simp: repair_replacement_errors_def Let_def split: if_splits)
  then obtain s where s: "dget meta ''supersedes_command_id'' = PyInt s" "1 \<le> s"
    using wf by (auto simp: wf_command_def)
  have e: "e = g + 1" and b: "b = r" and s': "s = t"
    using none ints s sup g r t by (simp_all add: repair_replacement_errors_def Let_def)
  have "replacement_id_errors c existing allow (Some t) (Some t) = []"
    using none ints l t by (simp add: repair_replacement_errors_def Let_def)
  note fresh = replacement_id_errorsD [OF this]
  show thesis
    by (rule that [of c]) (use wf ints e b s s' fresh in auto)
qed

text \<open>
  An eligible replacement is claimable.  Once the repair is published (the generation
  advances by one, the latest report stays), the replacement passes the claim-time guard; its id
  is above the target and above every other command id of the history, and it names exactly
  the target as superseded.
\<close>

theorem eligible_replacement_claimable:
  assumes assessed: "assess_unclaimed_command_repair state tid tmeta perr tfid texists treport rreport
      (Some meta) rfid existing preserve allow = Inr a"
    and eligible: "cra_eligible a"
  shows "\<exists>t rid g. tid = PyInt t \<and> dget state ''latest_command'' = PyInt t
      \<and> dget meta ''supersedes_command_id'' = PyInt t \<and> t < rid
      \<and> dget meta ''command_id'' = PyInt rid \<and> dget state ''generation'' = PyInt g
      \<and> (\<forall>k. 1 \<le> k \<and> PyInt k \<in> set existing \<and> allow \<noteq> PyInt k \<longrightarrow> k < rid)
      \<and> (\<forall>published. dget published ''generation'' = PyInt (g + 1)
            \<and> dget published ''latest_report'' = dget state ''latest_report'' \<longrightarrow>
           validate_pending_command published (PyInt rid) (PyDict meta) = None)"
proof -
  have errs: "repair_state_errors state tid texists treport = []"
    "repair_replacement_errors state tid tmeta rreport meta rfid existing preserve allow = []"
    using assess_Inr_eligible [OF assessed] eligible by simp_all
  obtain t g r where st: "tid = PyInt t" "1 \<le> t" "dget state ''latest_command'' = PyInt t"
    "dget state ''generation'' = PyInt g" "0 \<le> g" "dget state ''latest_report'' = PyInt r" "0 \<le> r"
    using errs(1) by (rule repair_state_errorsD)
  obtain rid where "wf_command meta" "dget meta ''command_id'' = PyInt rid"
    "dget meta ''expected_generation'' = PyInt (g + 1)" "dget meta ''based_on_report'' = PyInt r"
    "dget meta ''supersedes_command_id'' = PyInt t" "t < rid"
    "\<forall>k. 1 \<le> k \<and> PyInt k \<in> set existing \<and> allow \<noteq> PyInt k \<longrightarrow> k < rid"
    using errs(2) [unfolded st(1)] st(2,4,5,6,7,3) by (rule repair_replacement_errorsD)
  with st show ?thesis
    by (intro exI [of _ t] exI [of _ rid] exI [of _ g]) (auto intro: validate_pending_commandI)
qed

theorem eligible_replacement_claimable_witness:
  "validate_pending_command (AList.update ''generation'' (PyInt 6) sample_ready_state) (PyInt 4)
     (PyDict (AList.update ''supersedes_command_id'' (PyInt 3) (sample_command 4 ''manual_chatgpt'' 2 6))) = None"
proof -
  let ?m = "AList.update ''supersedes_command_id'' (PyInt 3) (sample_command 4 ''manual_chatgpt'' 2 6)"
  let ?s = "AList.update ''generation'' (PyInt 6) sample_ready_state"
  obtain a where a: "assess_unclaimed_command_repair sample_ready_state (PyInt 3)
      (Some (sample_command 3 ''manual_chatgpt'' 2 4)) None (Some 3) True False False
      (Some ?m) (Some 4) [PyInt 1, PyInt 2, PyInt 3] True PyNone = Inr a"
    by (simp add: assess_unclaimed_command_repair_def repair_hash_checks_def sample_command_def check_hashable_def hashable_def Let_def)
  have "cra_eligible (case assess_unclaimed_command_repair sample_ready_state (PyInt 3)
      (Some (sample_command 3 ''manual_chatgpt'' 2 4)) None (Some 3) True False False
      (Some ?m) (Some 4) [PyInt 1, PyInt 2, PyInt 3] True PyNone of Inr a \<Rightarrow> a)"
    by code_simp
  then have "cra_eligible a" unfolding a by simp
  from eligible_replacement_claimable [OF a this] show ?thesis
    by (force simp: sample_ready_state_def sample_command_def)
qed

section \<open>Manual decisions against the claim-time guard\<close>

lemma publication_generation_Inr [simp]:
  "publication_generation v = Inr n \<longleftrightarrow> (\<exists>g. v = PyInt g \<and> 0 \<le> g \<and> n = g + 1)"
  by (rule publication_clock.tick_defined)

lemma claim_generation_Inr [simp]:
  "claim_generation v = Inr n \<longleftrightarrow> (\<exists>g. v = PyInt g \<and> 0 \<le> g \<and> n = g + 1)"
  by (rule claim_clock.tick_defined)

lemma withdraw_decision_checks:
  assumes "withdraw_and_manual_start_decision state tid tmeta treport reason rmeta fid existing withdrawn
      = Inr plan"
  obtains g meta t where "first_raise (withdraw_target_checks state tid tmeta treport reason withdrawn) = None"
    "dget state ''generation'' = PyInt g" "0 \<le> g" "rmeta = Some meta"
    "dget state ''latest_command'' = PyInt t"
    "first_raise (withdraw_replacement_checks state (Some meta) fid existing (g + 1)) = None"
    "plan = \<lparr>wms_target_command_id = t, wms_replacement_command_id = the_int (dget meta ''command_id''),
       wms_publication_generation = g + 1, wms_claimed_generation = g + 2\<rparr>"
proof -
  obtain g where g: "first_raise (withdraw_target_checks state tid tmeta treport reason withdrawn) = None"
    "dget state ''generation'' = PyInt g" "0 \<le> g"
    "first_raise (withdraw_replacement_checks state rmeta fid existing (g + 1)) = None"
    "plan = \<lparr>wms_target_command_id = the_int (dget state ''latest_command''),
       wms_replacement_command_id = the_int (dget (case rmeta of None \<Rightarrow> [] | Some d \<Rightarrow> d) ''command_id''),
       wms_publication_generation = g + 1, wms_claimed_generation = g + 2\<rparr>"
    using assms by (auto simp: withdraw_and_manual_start_decision_def run_checks_Inr res_bind_Inr_iff)
  moreover from g(4) have "rmeta \<noteq> None"
    unfolding withdraw_replacement_checks_def Let_def by simp
  moreover from g(1) have "is_int (dget state ''latest_command'')"
    unfolding withdraw_target_checks_def Let_def by (auto simp: is_int_iff)
  ultimately show thesis by (auto simp: is_int_iff intro: that)
qed

lemma withdraw_replacement_checksD:
  assumes "first_raise (withdraw_replacement_checks state (Some meta) fid existing publication) = None"
    and "dget state ''latest_report'' = PyInt r" "dget state ''latest_command'' = PyInt t"
  shows "wf_command meta" "dget meta ''expected_generation'' = PyInt publication"
    "dget meta ''based_on_report'' = PyInt r" "dget meta ''withdraws_command_id'' = PyInt t"
    "1 \<le> k \<Longrightarrow> PyInt k \<in> set existing \<Longrightarrow> k < the_int (dget meta ''command_id'')"
proof -
  have c: "wf_command meta" "py_eq (dget meta ''expected_generation'') (PyInt publication)"
    "py_eq (dget meta ''based_on_report'') (PyInt r)" "py_eq (dget meta ''withdraws_command_id'') (PyInt t)"
    "max_default (known_command_ids existing) 0 < the_int (dget meta ''command_id'')"
    using assms unfolding withdraw_replacement_checks_def Let_def
    by (auto simp: command_contract_errors_ok)
  have "dhas meta ''withdraws_command_id''"
    using c(4) by (intro dget_present) auto
  with c(1) have ints: "is_int (dget meta ''expected_generation'')" "is_int (dget meta ''based_on_report'')"
    "is_int (dget meta ''withdraws_command_id'')"
    by (auto simp: wf_command_def is_int_iff)
  show "wf_command meta" by (rule c(1))
  show "dget meta ''expected_generation'' = PyInt publication"
    "dget meta ''based_on_report'' = PyInt r" "dget meta ''withdraws_command_id'' = PyInt t"
    using c(2-4) ints by (simp_all only: py_eq_is_int)
  show "1 \<le> k \<Longrightarrow> PyInt k \<in> set existing \<Longrightarrow> k < the_int (dget meta ''command_id'')"
    using c(5) set_known_command_ids [of k existing] by (auto simp: max_default_less split: if_splits)
qed

text \<open>
  C24: an accepted owner withdrawal is one publication and one claim.  The target is the
  canonical latest command, unclaimed and still claimable; the plan consumes exactly the two
  generations after the canonical one; the replacement withdraws the target, has an id above the
  whole history, and passes the claim-time guard at the publication generation.
\<close>

theorem withdrawal_plan_sound:
  assumes "withdraw_and_manual_start_decision state tid tmeta treport reason rmeta fid existing withdrawn
      = Inr plan"
  shows "\<exists>g t tm meta. dget state ''generation'' = PyInt g
      \<and> dget state ''status'' = PyStr ''COMMAND_READY'' \<and> dget state ''active_run'' = PyNone
      \<and> wms_publication_generation plan = g + 1 \<and> wms_claimed_generation plan = g + 2
      \<and> tmeta = Some tm \<and> rmeta = Some meta
      \<and> dget state ''latest_command'' = PyInt t \<and> wms_target_command_id plan = t
      \<and> validate_pending_command state (PyInt t) (PyDict tm) = None
      \<and> dget meta ''withdraws_command_id'' = PyInt t
      \<and> (\<forall>k. 1 \<le> k \<and> PyInt k \<in> set existing \<longrightarrow> k < wms_replacement_command_id plan)
      \<and> (\<forall>published. dget published ''generation'' = PyInt (wms_publication_generation plan)
            \<and> dget published ''latest_report'' = dget state ''latest_report'' \<longrightarrow>
           validate_pending_command published (PyInt (wms_replacement_command_id plan)) (PyDict meta) = None)"
proof -
  obtain g meta t where target: "first_raise (withdraw_target_checks state tid tmeta treport reason withdrawn) = None"
    and g: "dget state ''generation'' = PyInt g" and r: "rmeta = Some meta"
    and t: "dget state ''latest_command'' = PyInt t"
    and repl: "first_raise (withdraw_replacement_checks state (Some meta) fid existing (g + 1)) = None"
    and plan: "plan = \<lparr>wms_target_command_id = t, wms_replacement_command_id = the_int (dget meta ''command_id''),
       wms_publication_generation = g + 1, wms_claimed_generation = g + 2\<rparr>"
    using assms by (rule withdraw_decision_checks)
  obtain tm lr where tm: "tmeta = Some tm" "validate_pending_command state (PyInt t) (PyDict tm) = None"
    and lr: "dget state ''latest_report'' = PyInt lr"
    and idle: "dget state ''status'' = PyStr ''COMMAND_READY''" "dget state ''active_run'' = PyNone"
    using target t unfolding withdraw_target_checks_def Let_def by auto
  note R = withdraw_replacement_checksD [OF repl lr t]
  obtain c where "dget meta ''command_id'' = PyInt c"
    using R(1) by (rule wf_command_intsE)
  with R g r t tm lr idle plan show ?thesis
    by (auto intro!: validate_pending_commandI)
qed

theorem withdrawal_plan_sound_witness:
  "\<exists>plan. withdraw_and_manual_start_decision sample_ready_state (PyInt 3)
      (Some (sample_command 3 ''manual_chatgpt'' 2 5)) False (PyStr ''owner changed the goal'')
      (Some (AList.update ''manual_request_id'' (PyStr ''req-1'')
        (AList.update ''withdraws_command_id'' (PyInt 3) (sample_command 4 ''manual_chatgpt'' 2 6))))
      (PyInt 4) [PyInt 1, PyInt 2, PyInt 3] [] = Inr plan
      \<and> wms_claimed_generation plan = 7"
proof -
  let ?r = "AList.update ''manual_request_id'' (PyStr ''req-1'')
      (AList.update ''withdraws_command_id'' (PyInt 3) (sample_command 4 ''manual_chatgpt'' 2 6))"
  have "withdraw_and_manual_start_decision sample_ready_state (PyInt 3)
      (Some (sample_command 3 ''manual_chatgpt'' 2 5)) False (PyStr ''owner changed the goal'')
      (Some ?r) (PyInt 4) [PyInt 1, PyInt 2, PyInt 3] []
      = Inr \<lparr>wms_target_command_id = 3, wms_replacement_command_id = 4,
          wms_publication_generation = 6, wms_claimed_generation = 7\<rparr>"
    by code_simp
  from this withdrawal_plan_sound [OF this] show ?thesis
    by (auto simp: sample_ready_state_def)
qed

text \<open>
  The ordinary manual supersede consumes one generation and targets the pending command
  itself: an unclaimed, claimable, scheduled EXECUTE command that is newer than the latest report
  and carries neither a manual request nor a supersede relation.
\<close>

theorem manual_supersede_plan_sound:
  assumes "manual_supersede_decision state (PyDict meta) = Inr plan"
  shows "\<exists>g c r. dget state ''generation'' = PyInt g \<and> msd_publication_generation plan = g + 1
      \<and> dget state ''latest_command'' = PyInt c \<and> msd_supersedes_command_id plan = c
      \<and> dget state ''latest_report'' = PyInt r \<and> r < c
      \<and> validate_pending_command state (PyInt c) (PyDict meta) = None
      \<and> dget state ''status'' = PyStr ''COMMAND_READY'' \<and> dhas state ''active_run''
      \<and> dget state ''active_run'' = PyNone
      \<and> dget meta ''source'' = PyStr ''scheduled_chatgpt'' \<and> dget meta ''kind'' = PyStr ''EXECUTE''
      \<and> \<not> dhas meta ''manual_request_id'' \<and> \<not> dhas meta ''supersedes_command_id''"
  using assms
  by (auto simp: manual_supersede_decision_def run_checks_Inr res_bind_Inr_iff Let_def)

theorem manual_supersede_plan_sound_witness:
  "\<exists>plan. manual_supersede_decision sample_ready_state
      (PyDict (sample_command 3 ''scheduled_chatgpt'' 2 5)) = Inr plan \<and> msd_publication_generation plan = 6"
proof -
  have "manual_supersede_decision sample_ready_state
      (PyDict (sample_command 3 ''scheduled_chatgpt'' 2 5))
      = Inr \<lparr>msd_supersedes_command_id = 3, msd_publication_generation = 6\<rparr>"
    by code_simp
  from this manual_supersede_plan_sound [OF this] show ?thesis
    by (auto simp: sample_ready_state_def)
qed

section \<open>Leases\<close>

lemma optional_int_equal_unique:
  "optional_int_equal v (PyInt i) = Inr True \<Longrightarrow> optional_int_equal v (PyInt j) = Inr True \<Longrightarrow> i = j"
  by (cases v) (auto simp: optional_int_equal_def py_int_def split: pyfloat.splits option.splits)

lemma matches_execution_leaseD:
  assumes "matches_execution_lease state run cmd gen source kind project = Inr True"
  obtains lease r c g where "dget state ''active_run'' = PyDict lease"
    "dget state ''status'' = PyStr ''CODEX_RUNNING''" "run = PyStr r" "r \<noteq> []" "dget lease ''run_id'' = PyStr r"
    "cmd = PyInt c" "1 \<le> c" "optional_int_equal (dget lease ''command_id'') (PyInt c) = Inr True"
    "gen = PyInt g" "0 \<le> g" "optional_int_equal (dget state ''generation'') (PyInt g) = Inr True"
    "optional_int_equal (dget lease ''claimed_generation'') (PyInt g) = Inr True"
  using assms
  by (auto simp: matches_execution_lease_def Let_def is_dict_iff is_str_iff)

text \<open>Concrete states for the witnesses.\<close>

definition sample_running_state :: pydict where
  "sample_running_state =
     [(''project_id'', PyStr ''p''), (''status'', PyStr ''CODEX_RUNNING''), (''generation'', PyInt 6),
      (''active_run'', PyDict [(''run_id'', PyStr ''run-1''), (''command_id'', PyInt 3),
         (''claimed_generation'', PyInt 6), (''kind'', PyStr ''EXECUTE'')])]"

definition sample_recovery_state :: pydict where
  "sample_recovery_state =
     [(''project_id'', PyStr ''p''), (''status'', PyStr ''RECOVERY_REQUIRED''), (''generation'', PyInt 7),
      (''active_run'', PyNone), (''worker_pid'', PyNone), (''human_required'', PyBool False),
      (''finalized'', PyBool False), (''latest_command'', PyInt 3), (''latest_report'', PyInt 2),
      (''last_reviewed_report'', PyInt 2),
      (''recovery_reason'', PyStr ''run run-1 was interrupted'')]"

definition sample_journal :: pydict where
  "sample_journal =
     [(''project_id'', PyStr ''p''), (''run_id'', PyStr ''run-1''), (''command_id'', PyInt 3),
      (''claim_generation'', PyInt 6), (''journal_status'', PyStr ''reconciled''),
      (''remote_publish_pending'', PyBool False), (''interruption_kind'', PyStr ''crash''),
      (''interruption_reason_safe'', PyStr ''worker stopped''),
      (''pending_report_path'', PyStr ''worker/runtime/p/pending-report-003.md''),
      (''report_path'', PyStr ''projects/p/reports/report-003.md''),
      (''external_side_effects_unknown'', PyBool True)]"

text \<open>
  A canonical state carries at most one execution lease.  Whatever run, command and claimed
  generation two callers present, if the same state matches both then they are the same, and the
  state is running.
\<close>

theorem execution_lease_unique:
  assumes "matches_execution_lease state run1 cmd1 gen1 source1 kind1 project1 = Inr True"
    and "matches_execution_lease state run2 cmd2 gen2 source2 kind2 project2 = Inr True"
  shows "run1 = run2 \<and> cmd1 = cmd2 \<and> gen1 = gen2 \<and> dget state ''status'' = PyStr ''CODEX_RUNNING''"
  using assms(1)
proof (rule matches_execution_leaseD)
  fix lease r c g
  assume first: "dget state ''active_run'' = PyDict lease" "run1 = PyStr r" "dget lease ''run_id'' = PyStr r"
    "cmd1 = PyInt c" "optional_int_equal (dget lease ''command_id'') (PyInt c) = Inr True"
    "gen1 = PyInt g" "optional_int_equal (dget state ''generation'') (PyInt g) = Inr True"
    "dget state ''status'' = PyStr ''CODEX_RUNNING''"
  from assms(2) show ?thesis
    by (rule matches_execution_leaseD)
       (use first optional_int_equal_unique in auto)
qed

theorem execution_lease_unique_witness:
  "matches_execution_lease sample_running_state (PyStr ''run-1'') (PyInt 3) (PyInt 6) None None (Some ''p'')
     = Inr True
   \<and> dget sample_running_state ''status'' = PyStr ''CODEX_RUNNING''"
proof -
  have a: "matches_execution_lease sample_running_state (PyStr ''run-1'') (PyInt 3) (PyInt 6) None None (Some ''p'')
     = Inr True"
    by code_simp
  have b: "matches_execution_lease sample_running_state (PyStr ''run-1'') (PyInt 3) (PyInt 6) None (Some ''EXECUTE'') None
     = Inr True"
    by code_simp
  from a execution_lease_unique [OF a b] show ?thesis by blast
qed

text \<open>
  \<open>matches_recovery_state\<close> does not pin the run.  A journal whose run id is a non-empty part
  of the run id that produced the recovery state is recognised as well.
\<close>

theorem recovery_state_matches_run_fragment:
  assumes matched: "matches_recovery_state journal state = Inr True"
    and part: "dget journal ''run_id'' = PyStr run" "contains fragment run" "fragment \<noteq> []"
  shows "matches_recovery_state (AList.update ''run_id'' (PyStr fragment) journal) state = Inr True"
proof -
  let ?j = "AList.update ''run_id'' (PyStr fragment) journal"
  have get: "dget ?j k = (if k = ''run_id'' then PyStr fragment else dget journal k)" for k
    by (simp add: dget_def update_conv')
  have "contains fragment s" if "contains run s" for s
    using that part(2) unfolding contains_iff by (metis append_assoc)
  with matched part show ?thesis
    by (auto simp: matches_recovery_state_def journal_identity_valid_def get split: if_splits)
qed

theorem recovery_state_matches_run_fragment_witness:
  "matches_recovery_state (AList.update ''run_id'' (PyStr ''run'') sample_journal) sample_recovery_state = Inr True"
proof (rule recovery_state_matches_run_fragment)
  show "matches_recovery_state sample_journal sample_recovery_state = Inr True" by code_simp
  show "dget sample_journal ''run_id'' = PyStr ''run-1''" by (simp add: sample_journal_def)
  show "contains ''run'' ''run-1''" by code_simp
qed simp

end
