(* ===== verification/Protocol_Recovery.thy ===== *)
theory Protocol_Recovery
  imports Protocol_Lifecycle
begin

text \<open>
  \<open>worker/protocol_core.py\<close>, last part: the resolution of an interrupted run and the
  final-delivery marker.
\<close>

section \<open>Recovery resolution\<close>

text \<open>The identity arguments of \<open>validate_recovery_resolution\<close>, which it type-checks itself.\<close>

record recovery_request =
  rr_project_id :: py
  rr_command_id :: py
  rr_run_id :: py
  rr_claim_generation :: py
  rr_expected_generation :: py
  rr_source :: py
  rr_kind :: py
  rr_based_on_report :: py
  rr_pending_report_path :: py
  rr_expected_report_sha256 :: py
  rr_actual_report_sha256 :: py

definition recovery_identity_matches :: "pydict \<Rightarrow> recovery_request \<Rightarrow> string \<Rightarrow> bool" where
  "recovery_identity_matches identity q outcome \<longleftrightarrow>
     py_eq (dget identity ''project_id'') (rr_project_id q)
     \<and> py_eq (dget identity ''command_id'') (rr_command_id q)
     \<and> py_eq (dget identity ''run_id'') (rr_run_id q)
     \<and> py_eq (dget identity ''claim_generation'') (rr_claim_generation q)
     \<and> py_eq (dget identity ''source'') (rr_source q)
     \<and> py_eq (dget identity ''kind'') (rr_kind q)
     \<and> py_eq (dget identity ''based_on_report'') (rr_based_on_report q)
     \<and> py_eq (dget identity ''outcome'') (PyStr outcome)
     \<and> dget identity ''interrupted'' = PyBool True
     \<and> dget identity ''no_final_success_marker'' = PyBool True
     \<and> dget identity ''external_side_effects_unknown'' = PyBool True"

definition recovery_note_matches :: "py \<Rightarrow> recovery_request \<Rightarrow> bool" where
  "recovery_note_matches note q =
     (case note of
        PyDict d \<Rightarrow>
          py_eq (dget d ''resolved_command_id'') (rr_command_id q)
          \<and> py_eq (dget d ''run_id'') (rr_run_id q)
          \<and> py_eq (dget d ''claim_generation'') (rr_claim_generation q)
          \<and> py_eq (dget d ''resolution'') (PyStr RECOVERY_RESOLUTION)
          \<and> nonempty_str (dget d ''resolved_at'')
      | _ \<Rightarrow> False)"

definition pending_report_path :: "string \<Rightarrow> int \<Rightarrow> string" where
  "pending_report_path project_id command_id =
     ''worker/runtime/'' @ project_id @ ''/pending-report-'' @ show_int_03 command_id @ ''.md''"

definition canonical_report_path :: "string \<Rightarrow> int \<Rightarrow> string" where
  "canonical_report_path project_id command_id =
     ''projects/'' @ project_id @ ''/reports/report-'' @ show_int_03 command_id @ ''.md''"

definition resolution_request_checks :: "recovery_request \<Rightarrow> py \<Rightarrow> py \<Rightarrow> pyexc option list" where
  "resolution_request_checks q report_exists report_matches =
     [exc_of (require_int (rr_command_id q) ''command_id'' 1),
      exc_of (require_int (rr_claim_generation q) ''claim_generation'' 0),
      exc_of (require_int (rr_expected_generation q) ''expected_generation'' 0),
      exc_of (require_int (rr_based_on_report q) ''based_on_report'' 0),
      ensure (nonempty_str (rr_project_id q))
        (ProtocolViolation ''recovery project_id must be non-empty''),
      ensure (nonempty_str (rr_run_id q)) (ProtocolViolation ''recovery run_id must be non-empty''),
      ensure (in_strs (rr_source q) COMMAND_SOURCES)
        (ProtocolViolation ''recovery source is not a Protocol v2 source''),
      ensure (in_strs (rr_kind q) COMMAND_KINDS)
        (ProtocolViolation ''recovery kind is not a Protocol v2 kind''),
      ensure (nonempty_str (rr_pending_report_path q))
        (ProtocolViolation ''recovery pending_report_path must be non-empty''),
      ensure (is_str (rr_expected_report_sha256 q) \<and> SHA256_RE (the_str (rr_expected_report_sha256 q))
          \<and> is_str (rr_actual_report_sha256 q) \<and> SHA256_RE (the_str (rr_actual_report_sha256 q))
          \<and> py_eq (rr_expected_report_sha256 q) (rr_actual_report_sha256 q))
        (ProtocolConflict ''reviewed pending report SHA-256 does not match''),
      ensure (is_bool report_exists \<and> is_bool report_matches)
        (ProtocolViolation ''canonical report presence/match flags must be boolean''),
      ensure (\<not> (report_exists = PyBool True \<and> report_matches \<noteq> PyBool True))
        (ProtocolConflict ''canonical report exists but does not match the reviewed recovery evidence'')]"

definition resolution_journal_checks :: "recovery_request \<Rightarrow> pydict \<Rightarrow> pyexc option list" where
  "resolution_journal_checks q journal =
     [ensure (py_eq (dget journal ''project_id'') (rr_project_id q)
          \<and> py_eq (dget journal ''command_id'') (rr_command_id q)
          \<and> py_eq (dget journal ''run_id'') (rr_run_id q)
          \<and> py_eq (dget journal ''claim_generation'') (rr_claim_generation q))
        (ProtocolConflict ''recovery journal identity does not match the requested run''),
      ensure (py_eq (dget journal ''journal_status'') (PyStr ''reconciled''))
        (ProtocolConflict ''recovery journal is not reconciled''),
      ensure (dget journal ''remote_publish_pending'' = PyBool False)
        (ProtocolConflict ''recovery journal still has remote publication pending''),
      ensure (nonempty_str (dget journal ''interruption_kind''))
        (ProtocolViolation ''recovery journal interruption_kind is missing''),
      ensure (nonempty_str (dget journal ''interruption_reason_safe''))
        (ProtocolViolation ''recovery journal interruption_reason_safe is missing''),
      ensure (py_eq (dget journal ''pending_report_path'') (rr_pending_report_path q))
        (ProtocolConflict ''recovery journal pending report path does not match''),
      ensure (py_eq (rr_pending_report_path q)
          (PyStr (pending_report_path (the_str (rr_project_id q)) (the_int (rr_command_id q)))))
        (ProtocolConflict ''recovery pending report path is not canonical''),
      ensure (py_eq (dget journal ''report_path'')
          (PyStr (canonical_report_path (the_str (rr_project_id q)) (the_int (rr_command_id q)))))
        (ProtocolConflict ''recovery canonical report path is not canonical''),
      ensure (dget journal ''external_side_effects_unknown'' = PyBool True)
        (ProtocolConflict ''recovery resolution requires external_side_effects_unknown=true'')]"

definition resolution_report_checks :: "recovery_request \<Rightarrow> pydict \<Rightarrow> pyexc option list" where
  "resolution_report_checks q report_identity =
     [ensure (recovery_identity_matches report_identity q ''BLOCKED'')
        (ProtocolConflict ''canonical interrupted report identity does not match''),
      ensure (py_eq (dget report_identity ''pending_report_sha256'') (rr_actual_report_sha256 q))
        (ProtocolConflict ''canonical report is not bound to the reviewed report digest''),
      ensure (nonempty_str (dget report_identity ''interruption_classification''))
        (ProtocolViolation ''canonical interrupted report classification is missing'')]"

text \<open>The two canonical-state branches; a guard that may itself raise passes the exception on.\<close>

definition ensure_r :: "pyexc + bool \<Rightarrow> pyexc \<Rightarrow> pyexc option" where
  "ensure_r r e = (case r of Inl x \<Rightarrow> Some x | Inr b \<Rightarrow> ensure b e)"

lemma ensure_r_None [simp, check_simps]: "ensure_r r e = None \<longleftrightarrow> r = Inr True"
  by (cases r) (simp_all add: ensure_r_def)

definition already_resolved_state :: "recovery_request \<Rightarrow> pydict \<Rightarrow> py \<Rightarrow> py \<Rightarrow> pyexc + bool" where
  "already_resolved_state q state report_exists report_matches =
     and_chain
       [Inr (py_eq (dget state ''project_id'') (rr_project_id q)),
        optional_int_equal (dget state ''generation'') (PyInt (the_int (rr_expected_generation q) + 1)),
        optional_int_equal (dget state ''latest_command'') (rr_command_id q),
        optional_int_equal (dget state ''latest_report'') (rr_command_id q),
        optional_int_equal (dget state ''last_reviewed_report'') (rr_based_on_report q),
        Inr (dget state ''active_run'' = PyNone),
        Inr (dget state ''worker_pid'' = PyNone),
        Inr (dget state ''human_required'' = PyBool False),
        Inr (recovery_note_matches (dget state ''recovery_note'') q),
        Inr (report_exists = PyBool True),
        Inr (report_matches = PyBool True)]"

definition recovery_state_checks :: "recovery_request \<Rightarrow> pydict \<Rightarrow> pyexc option list" where
  "recovery_state_checks q state =
     [ensure (py_eq (dget state ''status'') (PyStr ''RECOVERY_REQUIRED''))
        (ProtocolConflict ''resolution already superseded by newer canonical state''),
      ensure (py_eq (dget state ''project_id'') (rr_project_id q))
        (ProtocolConflict ''canonical project identity does not match''),
      ensure_r (optional_int_equal (dget state ''generation'') (rr_expected_generation q))
        (ProtocolConflict ''canonical recovery generation does not match''),
      ensure_r (optional_int_equal (dget state ''latest_command'') (rr_command_id q))
        (ProtocolConflict ''canonical latest_command does not match''),
      ensure_r (optional_int_equal (dget state ''latest_report'') (rr_based_on_report q))
        (ProtocolConflict ''canonical latest_report does not match''),
      ensure_r (optional_int_equal (dget state ''last_reviewed_report'') (rr_based_on_report q))
        (ProtocolConflict ''canonical last_reviewed_report does not match''),
      ensure (dget state ''active_run'' = PyNone)
        (ProtocolConflict ''recovery resolution requires no active run''),
      ensure (dget state ''worker_pid'' = PyNone)
        (ProtocolConflict ''recovery resolution requires worker_pid=null''),
      ensure (dget state ''human_required'' = PyBool False)
        (ProtocolConflict ''recovery resolution requires human_required=false''),
      ensure (dget state ''finalized'' = PyBool False)
        (ProtocolConflict ''recovery resolution requires finalized=false'')]"

datatype recovery_decision = ALLOW | ALREADY_RESOLVED

definition validate_recovery_resolution ::
    "pydict \<Rightarrow> pydict \<Rightarrow> pydict \<Rightarrow> recovery_request \<Rightarrow> py \<Rightarrow> py \<Rightarrow> pyexc + recovery_decision" where
  "validate_recovery_resolution state journal report_identity q report_exists report_matches =
     run_checks (resolution_request_checks q report_exists report_matches)
    (run_checks (resolution_journal_checks q journal)
    (run_checks (resolution_report_checks q report_identity)
      (if py_eq (dget state ''status'') (PyStr ''REPORT_READY'') then
         res_bind (already_resolved_state q state report_exists report_matches) (\<lambda>b.
           if b then Inr ALREADY_RESOLVED
           else Inl (ProtocolConflict ''recovery resolution is already superseded or its canonical state/report is inconsistent''))
       else run_checks (recovery_state_checks q state) (Inr ALLOW))))"

section \<open>The final-delivery marker\<close>

fun find_final_result :: "(string \<Rightarrow> string + py) \<Rightarrow> string list \<Rightarrow> pydict option" where
  "find_final_result loads [] = None"
| "find_final_result loads (line # ls) =
     (let stripped = strip line in
      if \<not> has_prefix FINAL_RESULT_PREFIX stripped then find_final_result loads ls
      else (case loads (strip (drop (length FINAL_RESULT_PREFIX) stripped)) of
              Inr (PyDict d) \<Rightarrow> Some d
            | _ \<Rightarrow> None))"

definition parse_final_result :: "(string \<Rightarrow> string + py) \<Rightarrow> string \<Rightarrow> pydict option" where
  "parse_final_result loads final_message = find_final_result loads (splitlines final_message)"

definition final_delivery_marker_is_success :: "(string \<Rightarrow> string + py) \<Rightarrow> string \<Rightarrow> bool" where
  "final_delivery_marker_is_success loads final_message =
     (case parse_final_result loads final_message of
        None \<Rightarrow> False
      | Some d \<Rightarrow> d \<noteq> [] \<and> py_eq (dget d ''final_delivery'') (PyStr ''SUCCESS'')
          \<and> py_eq (dget d ''completion_email'') (PyStr ''SENT''))"

definition maybe_final_report_ready ::
    "(string \<Rightarrow> string + py) \<Rightarrow> string \<Rightarrow> string \<Rightarrow> string \<Rightarrow> bool" where
  "maybe_final_report_ready loads previous_status outcome final_message \<longleftrightarrow>
     previous_status = ''FINALIZING'' \<and> outcome = ''SUCCESS''
     \<and> final_delivery_marker_is_success loads final_message"

definition report_status_after_execution ::
    "(string \<Rightarrow> string + py) \<Rightarrow> string \<Rightarrow> string \<Rightarrow> string \<Rightarrow> string" where
  "report_status_after_execution loads kind outcome final_message =
     (if kind = ''FINALIZE'' \<and> outcome = ''SUCCESS'' \<and> final_delivery_marker_is_success loads final_message
      then ''FINAL_REPORT_READY'' else ''REPORT_READY'')"

section \<open>Only the first marker line counts\<close>

definition is_marker_line :: "string \<Rightarrow> bool" where
  "is_marker_line line \<longleftrightarrow> has_prefix FINAL_RESULT_PREFIX (strip line)"

definition marker_json :: "string \<Rightarrow> string" where
  "marker_json line = strip (drop (length FINAL_RESULT_PREFIX) (strip line))"

text \<open>The first line that carries the marker decodes to the object \<open>d\<close>.\<close>

definition first_marker :: "(string \<Rightarrow> string + py) \<Rightarrow> string \<Rightarrow> pydict \<Rightarrow> bool" where
  "first_marker loads message d \<longleftrightarrow>
     (\<exists>line rest. filter is_marker_line (splitlines message) = line # rest
        \<and> loads (marker_json line) = Inr (PyDict d))"

lemma find_final_result_first:
  "find_final_result loads ls = Some d \<longleftrightarrow>
     (\<exists>line rest. filter is_marker_line ls = line # rest \<and> loads (marker_json line) = Inr (PyDict d))"
proof (induction ls)
  case (Cons l ls)
  show ?case
  proof (cases "is_marker_line l")
    case True
    then show ?thesis
      by (auto simp: is_marker_line_def marker_json_def Let_def split: sum.splits py.splits)
  next
    case False
    then show ?thesis
      using Cons.IH by (simp add: is_marker_line_def Let_def)
  qed
qed simp

lemma marker_success_iff:
  "final_delivery_marker_is_success loads message \<longleftrightarrow>
     (\<exists>d. first_marker loads message d \<and> dget d ''final_delivery'' = PyStr ''SUCCESS''
        \<and> dget d ''completion_email'' = PyStr ''SENT'')"
proof -
  have marker: "first_marker loads message d \<longleftrightarrow> parse_final_result loads message = Some d" for d
    by (simp add: parse_final_result_def find_final_result_first first_marker_def)
  show ?thesis
    unfolding marker final_delivery_marker_is_success_def by (auto split: option.splits)
qed

text \<open>
  A run leaves \<open>FINAL_REPORT_READY\<close> behind exactly when it finalises, succeeded, and the
  first marker line of its message, no later one, decodes to an object that reports the
  delivery as \<open>SUCCESS\<close> and the mail as \<open>SENT\<close>; every other run ends in \<open>REPORT_READY\<close>.
\<close>

theorem final_report_needs_first_marker:
  "report_status_after_execution loads kind outcome message
     = (if kind = ''FINALIZE'' \<and> outcome = ''SUCCESS''
           \<and> (\<exists>d. first_marker loads message d \<and> dget d ''final_delivery'' = PyStr ''SUCCESS''
                \<and> dget d ''completion_email'' = PyStr ''SENT'')
        then ''FINAL_REPORT_READY'' else ''REPORT_READY'')"
  by (simp add: report_status_after_execution_def marker_success_iff)

end
