(* ===== verification/Git_Store.thy ===== *)
theory Git_Store
  imports Protocol_Recovery
begin

text \<open>
  \<open>worker/git_store.py\<close>: the bounded compare-and-swap loop \<open>publish_cas\<close> without a push-effect
  recorder.  The remote branch is the state; git itself and the other writers are the
  environment.  One attempt is given by what the other writers do to the remote before this
  attempt synchronises, by the exceptions of its git commands, and by what the push does: it is
  accepted, rejected because the remote moved, applied although the client sees a failure, or it
  raises, and then it may have been applied or not.  The callbacks may raise too.
\<close>

section \<open>The loop\<close>

datatype push_outcome = PushAccepted | PushRejected | PushLost | PushRaised pyexc bool

datatype 's cas_result = AlreadyApplied 's | Unchanged 's | Published 's

text \<open>
  \<open>ca_sync\<close>, \<open>ca_commit\<close> and \<open>ca_fetch\<close> are the exceptions of \<open>sync_to_remote\<close>, of
  \<open>commit_payloads\<close>, and of the fetch and the reset after a push that failed.
\<close>

record 's cas_attempt =
  ca_others :: "'s \<Rightarrow> 's"
  ca_sync :: "pyexc option"
  ca_commit :: "pyexc option"
  ca_push :: push_outcome
  ca_fetch :: "pyexc option"

definition plain_attempt :: "('s \<Rightarrow> 's) \<Rightarrow> push_outcome \<Rightarrow> 's cas_attempt" where
  "plain_attempt others outcome =
     \<lparr>ca_others = others, ca_sync = None, ca_commit = None, ca_push = outcome, ca_fetch = None\<rparr>"

text \<open>\<open>proceed\<close>: an exception of a command ends the function.\<close>

definition proceed :: "pyexc option \<Rightarrow> 's \<Rightarrow> nat \<Rightarrow> (pyexc + 'r) \<times> 's \<times> nat \<Rightarrow> (pyexc + 'r) \<times> 's \<times> nat" where
  "proceed e remote n rest = (case e of Some err \<Rightarrow> (Inl err, remote, n) | None \<Rightarrow> rest)"

lemma proceed_simps [simp]: "proceed (Some e) r n k = (Inl e, r, n)" "proceed None r n k = k"
  by (simp_all add: proceed_def)

text \<open>The last component counts how often this publisher's payload reached the remote.\<close>

fun cas_attempts ::
    "('s \<Rightarrow> pyexc + bool) \<Rightarrow> ('s \<Rightarrow> pyexc + bool) \<Rightarrow> ('s \<Rightarrow> pyexc + 's) \<Rightarrow> 's cas_attempt list \<Rightarrow> 's \<Rightarrow> nat \<Rightarrow>
       (pyexc + 's cas_result) \<times> 's \<times> nat"
where
  "cas_attempts expected already build [] remote n =
     (Inl (WorkerError ''Unable to publish bridge state after bounded retries.''), remote, n)"
| "cas_attempts expected already build (a # rest) remote n =
     (let current = ca_others a remote in
      proceed (ca_sync a) current n
        (case already current of
           Inl e \<Rightarrow> (Inl e, current, n)
         | Inr True \<Rightarrow> (Inr (AlreadyApplied current), current, n)
         | Inr False \<Rightarrow>
        (case expected current of
           Inl e \<Rightarrow> (Inl e, current, n)
         | Inr False \<Rightarrow> (Inl (CASConflict ''Bridge state changed before publish''), current, n)
         | Inr True \<Rightarrow>
        (case build current of
           Inl e \<Rightarrow> (Inl e, current, n)
         | Inr new \<Rightarrow>
             proceed (ca_commit a) current n
               (if new = current then (Inr (Unchanged current), current, n)
                else (case ca_push a of
                    PushAccepted \<Rightarrow> (Inr (Published new), new, Suc n)
                  | PushRejected \<Rightarrow> proceed (ca_fetch a) current n
                      (cas_attempts expected already build rest current n)
                  | PushLost \<Rightarrow> proceed (ca_fetch a) new (Suc n)
                      (cas_attempts expected already build rest new (Suc n))
                  | PushRaised e applied \<Rightarrow>
                      if applied then (Inl e, new, Suc n) else (Inl e, current, n)))))))"

text \<open>The number of attempts is the argument \<open>retries\<close>.\<close>

definition publish_cas ::
    "('s \<Rightarrow> pyexc + bool) \<Rightarrow> ('s \<Rightarrow> pyexc + bool) \<Rightarrow> ('s \<Rightarrow> pyexc + 's) \<Rightarrow> 's cas_attempt list \<Rightarrow> 's \<Rightarrow>
     (pyexc + 's cas_result) \<times> 's \<times> nat"
where
  "publish_cas expected already build attempts remote =
     (if attempts = []
      then (Inl (WorkerError ''CAS publication requires at least one retry attempt.''), remote, 0)
      else cas_attempts expected already build attempts remote 0)"

section \<open>The contract of a publication\<close>

text \<open>
  What a caller of \<open>publish_cas\<close> must promise: the state it builds from a state that is expected and
  not yet applied is recognised as already applied.  The promise may rest on what all writers of the
  branch keep, \<open>kept\<close>, which the built state must keep too.  The promise to the caller, proved once
  here, is that its payload reaches the remote at most once, however the attempts interleave with
  other writers, lost acknowledgements and exceptions, as long as the other writers do not undo an
  applied state.
\<close>

locale cas_protocol =
  fixes kept :: "'s \<Rightarrow> bool"
    and expected :: "'s \<Rightarrow> pyexc + bool"
    and already :: "'s \<Rightarrow> pyexc + bool"
    and build :: "'s \<Rightarrow> pyexc + 's"
  assumes applies_kept:
    "kept s \<Longrightarrow> already s = Inr False \<Longrightarrow> expected s = Inr True \<Longrightarrow> build s = Inr t \<Longrightarrow> already t = Inr True \<and> kept t"
begin

definition respectful :: "'s cas_attempt list \<Rightarrow> bool" where
  "respectful as \<longleftrightarrow> (\<forall>a \<in> set as. \<forall>s. kept s \<longrightarrow>
     kept (ca_others a s) \<and> (already s = Inr True \<longrightarrow> already (ca_others a s) = Inr True))"

lemma respectful_Cons:
  "respectful (a # as) \<longleftrightarrow> (\<forall>s. kept s \<longrightarrow>
     kept (ca_others a s) \<and> (already s = Inr True \<longrightarrow> already (ca_others a s) = Inr True)) \<and> respectful as"
  by (auto simp: respectful_def)

lemma applied_attempts:
  "respectful as \<Longrightarrow> kept r \<Longrightarrow> already r = Inr True \<Longrightarrow> cas_attempts expected already build as r n = (res, r', n') \<Longrightarrow>
     n' = n \<and> already r' = Inr True"
  by (cases as) (auto simp: respectful_Cons Let_def proceed_def split: option.splits)

lemma attempts_once:
  "respectful as \<Longrightarrow> kept r \<Longrightarrow> cas_attempts expected already build as r n = (res, r', n') \<Longrightarrow>
     n' = n \<or> n' = Suc n \<and> already r' = Inr True"
proof (induction as arbitrary: r n)
  case (Cons a as)
  let ?current = "ca_others a r"
  from Cons.prems have st: "respectful as" and kept: "kept ?current" by (simp_all add: respectful_Cons)
  show ?case
  proof (cases "ca_sync a = None \<and> already ?current = Inr False \<and> expected ?current = Inr True \<and> ca_commit a = None
      \<and> (\<exists>t. build ?current = Inr t \<and> t \<noteq> ?current)")
    case False
    then show ?thesis
      using Cons.prems(3) by (auto simp: Let_def proceed_def split: option.splits sum.splits bool.splits if_splits)
  next
    case True
    then obtain t where t: "build ?current = Inr t" "t \<noteq> ?current" by blast
    have applied: "already t = Inr True" "kept t" using True applies_kept [OF kept] t(1) by blast+
    show ?thesis
    proof (cases "ca_push a")
      case PushRejected
      with True t Cons.prems(3) Cons.IH [OF st kept] show ?thesis
        by (auto simp: Let_def proceed_def split: option.splits)
    next
      case PushLost
      with True t Cons.prems(3) applied_attempts [OF st applied(2,1), of "Suc n" res r' n'] applied show ?thesis
        by (auto simp: Let_def proceed_def split: option.splits)
    next
      case PushRaised
      with True t Cons.prems(3) applied show ?thesis by (auto simp: Let_def split: if_splits)
    qed (use True t Cons.prems(3) applied in \<open>auto simp: Let_def\<close>)
  qed
qed simp

text \<open>A publication that returns leaves the branch applied, unless the caller built what was there.\<close>

lemma attempts_return:
  "respectful as \<Longrightarrow> kept r \<Longrightarrow> cas_attempts expected already build as r n = (Inr x, r', n') \<Longrightarrow> already r' = Inr True"
proof (induction as arbitrary: r n)
  case (Cons a as)
  then have kept: "kept (ca_others a r)" "respectful as" by (simp_all add: respectful_Cons)
  note step = applies_kept [OF kept(1)]
  have lost: "build (ca_others a r) = Inr t \<Longrightarrow> already (ca_others a r) = Inr False \<Longrightarrow> expected (ca_others a r) = Inr True \<Longrightarrow>
      cas_attempts expected already build as t k = (Inr x, r', n') \<Longrightarrow> already r' = Inr True" for t k
    using step Cons.IH [OF kept(2)] by blast
  show ?case
    using Cons.prems(3) step lost Cons.IH [OF kept(2,1)]
    by (auto simp: Let_def proceed_def split: option.splits sum.splits bool.splits if_splits push_outcome.splits)
qed simp

lemma publish_once:
  assumes "respectful as" "kept r" "publish_cas expected already build as r = (res, r', n)"
  shows "n \<le> 1 \<and> (n = 1 \<or> (\<exists>x. res = Inr x) \<longrightarrow> already r' = Inr True)"
proof (cases "as = []")
  case False
  then have "cas_attempts expected already build as r 0 = (res, r', n)" using assms(3) by (simp add: publish_cas_def)
  then show ?thesis using attempts_once [OF assms(1,2)] attempts_return [OF assms(1,2)] by fastforce
qed (use assms(3) in \<open>auto simp: publish_cas_def\<close>)

end

text \<open>The contract of a caller that relies on no other writer.\<close>

locale cas_operation =
  fixes expected :: "'s \<Rightarrow> pyexc + bool"
    and already :: "'s \<Rightarrow> pyexc + bool"
    and build :: "'s \<Rightarrow> pyexc + 's"
  assumes build_applies:
    "already s = Inr False \<Longrightarrow> expected s = Inr True \<Longrightarrow> build s = Inr t \<Longrightarrow> already t = Inr True"
begin

sublocale unguarded: cas_protocol "\<lambda>_. True" expected already build
  by unfold_locales (simp add: build_applies)

definition stable :: "'s cas_attempt list \<Rightarrow> bool" where
  "stable as \<longleftrightarrow> (\<forall>a \<in> set as. \<forall>s. already s = Inr True \<longrightarrow> already (ca_others a s) = Inr True)"

lemma stable_respectful: "stable as \<longleftrightarrow> unguarded.respectful as"
  by (simp add: stable_def unguarded.respectful_def)

lemma attempts_at_most_once:
  "stable as \<Longrightarrow> cas_attempts expected already build as r n = (res, r', n') \<Longrightarrow>
     n' = n \<or> n' = Suc n \<and> already r' = Inr True"
  by (rule unguarded.attempts_once) (simp_all add: stable_respectful)

lemma publish_at_most_once:
  "stable as \<Longrightarrow> publish_cas expected already build as r = (res, r', n) \<Longrightarrow>
     n \<le> 1 \<and> (n = 1 \<or> (\<exists>x. res = Inr x) \<longrightarrow> already r' = Inr True)"
  by (rule unguarded.publish_once) (simp_all add: stable_respectful)

lemma attempts_result:
  "cas_attempts expected already build as r n = (Inr x, r', n') \<Longrightarrow>
     (\<forall>s. x = Published s \<longrightarrow> r' = s \<and> already s = Inr True)
     \<and> (\<forall>s. x = AlreadyApplied s \<longrightarrow> r' = s \<and> already s = Inr True)"
  by (induction as arbitrary: r n)
     (auto simp: Let_def proceed_def build_applies split: option.splits sum.splits bool.splits if_splits push_outcome.splits)

end

end
