(* ===== verification/Recovery_Resolution.thy ===== *)
theory Recovery_Resolution
  imports Git_Store
begin

text \<open>
  \<open>worker/recovery_resolution.py\<close>: the canonical state an allowed resolution publishes, and the
  way the operator command hands it to the compare-and-swap store.  The world the store swaps is
  the canonical state with the two facts about the canonical report file: that it exists, and
  that it is the proposed report.
\<close>

section \<open>The published state\<close>

definition recovery_note :: "recovery_request \<Rightarrow> string \<Rightarrow> pydict" where
  "recovery_note q resolved_at =
     [(''resolved_command_id'', rr_command_id q),
      (''run_id'', rr_run_id q),
      (''claim_generation'', rr_claim_generation q),
      (''resolved_at'', PyStr resolved_at),
      (''resolution'', PyStr RECOVERY_RESOLUTION)]"

definition state_payload :: "pydict \<Rightarrow> recovery_request \<Rightarrow> string \<Rightarrow> pyexc + pydict" where
  "state_payload current q resolved_at =
     (if \<not> dhas current ''generation'' then Inl (KeyError ''generation'')
      else res_bind (py_int (dget current ''generation'')) (\<lambda>g.
           res_bind (recovery_generation (PyInt g)) (\<lambda>g'.
      let u1 = AList.update ''status'' (PyStr ''REPORT_READY'') current;
          u2 = AList.update ''generation'' (PyInt g') u1;
          u3 = AList.update ''latest_report'' (rr_command_id q) u2;
          u4 = AList.update ''active_run'' PyNone u3;
          u5 = AList.update ''worker_pid'' PyNone u4;
          u6 = AList.update ''human_required'' (PyBool False) u5;
          u7 = AList.delete ''last_execution_error'' (AList.delete ''recovery_reason'' u6);
          u8 = AList.update ''recovery_note'' (PyDict (recovery_note q resolved_at)) u7 in
      Inr (AList.update ''updated_at'' (PyStr resolved_at) u8))))"

lemma optional_int_equal_py_int:
  "optional_int_equal v (PyInt i) = Inr True \<Longrightarrow> py_int v = Inr i"
  by (cases v) (auto simp: optional_int_equal_def py_int_def split: pyfloat.splits option.splits)

lemma resolution_ALLOW_D:
  assumes "validate_recovery_resolution state journal report q ex ma = Inr ALLOW"
  obtains p c r k g b where
    "rr_project_id q = PyStr p" "rr_command_id q = PyInt c" "1 \<le> c" "rr_run_id q = PyStr r"
    "rr_claim_generation q = PyInt k" "rr_expected_generation q = PyInt g" "0 \<le> g"
    "rr_based_on_report q = PyInt b"
    "first_raise (resolution_journal_checks q journal) = None"
    "first_raise (resolution_report_checks q report) = None"
    "first_raise (recovery_state_checks q state) = None"
    "first_raise (resolution_request_checks q ex ma) = None"
proof -
  have req: "first_raise (resolution_request_checks q ex ma) = None"
    and rest: "first_raise (resolution_journal_checks q journal) = None"
      "first_raise (resolution_report_checks q report) = None"
      "first_raise (recovery_state_checks q state) = None"
    using assms
    by (auto simp: validate_recovery_resolution_def run_checks_Inr res_bind_Inr_iff split: if_splits)
  have "\<exists>i. rr_command_id q = PyInt i \<and> 1 \<le> i" "\<exists>i. rr_claim_generation q = PyInt i \<and> 0 \<le> i"
    "\<exists>i. rr_expected_generation q = PyInt i \<and> 0 \<le> i" "\<exists>i. rr_based_on_report q = PyInt i \<and> 0 \<le> i"
    "\<exists>s. rr_project_id q = PyStr s \<and> s \<noteq> []" "\<exists>s. rr_run_id q = PyStr s \<and> s \<noteq> []"
    using req unfolding resolution_request_checks_def by (simp_all add: nonempty_str_iff)
  then obtain p c r k g b where
    "rr_project_id q = PyStr p" "rr_command_id q = PyInt c" "1 \<le> c" "rr_run_id q = PyStr r"
    "rr_claim_generation q = PyInt k" "rr_expected_generation q = PyInt g" "0 \<le> g"
    "rr_based_on_report q = PyInt b"
    by blast
  with req rest show thesis by (intro that)
qed

lemma resolution_roundtrip:
  assumes allowed: "validate_recovery_resolution state journal report q ex ma = Inr ALLOW"
    and stamp: "resolved_at \<noteq> []"
  shows "\<exists>state'. state_payload state q resolved_at = Inr state'
      \<and> validate_recovery_resolution state' journal report q (PyBool True) (PyBool True)
          = Inr ALREADY_RESOLVED"
  using allowed
proof (rule resolution_ALLOW_D)
  fix p c r k g b
  assume q: "rr_project_id q = PyStr p" "rr_command_id q = PyInt c" "1 \<le> c" "rr_run_id q = PyStr r"
    "rr_claim_generation q = PyInt k" "rr_expected_generation q = PyInt g" "0 \<le> g"
    "rr_based_on_report q = PyInt b"
    and checks: "first_raise (resolution_journal_checks q journal) = None"
      "first_raise (resolution_report_checks q report) = None"
    and st: "first_raise (recovery_state_checks q state) = None"
    and req: "first_raise (resolution_request_checks q ex ma) = None"
  have s: "dget state ''project_id'' = PyStr p"
    "optional_int_equal (dget state ''generation'') (PyInt g) = Inr True"
    "optional_int_equal (dget state ''latest_command'') (PyInt c) = Inr True"
    "optional_int_equal (dget state ''last_reviewed_report'') (PyInt b) = Inr True"
    using st unfolding recovery_state_checks_def by (simp_all add: q)
  have gen: "py_int (dget state ''generation'') = Inr g"
    using s(2) by (rule optional_int_equal_py_int)
  have "dget state ''generation'' \<noteq> PyNone" using gen by (auto simp: py_int_def)
  then have has: "dhas state ''generation''" by (rule dget_present)
  have req': "first_raise (resolution_request_checks q (PyBool True) (PyBool True)) = None"
    using req unfolding resolution_request_checks_def by simp
  obtain state' where payload: "state_payload state q resolved_at = Inr state'"
    and fields: "dget state' ''status'' = PyStr ''REPORT_READY''" "dget state' ''generation'' = PyInt (g + 1)"
      "dget state' ''latest_report'' = PyInt c" "dget state' ''active_run'' = PyNone"
      "dget state' ''worker_pid'' = PyNone" "dget state' ''human_required'' = PyBool False"
      "dget state' ''recovery_note'' = PyDict (recovery_note q resolved_at)"
      "dget state' ''project_id'' = dget state ''project_id''"
      "dget state' ''latest_command'' = dget state ''latest_command''"
      "dget state' ''last_reviewed_report'' = dget state ''last_reviewed_report''"
    using has q(7) by (simp add: state_payload_def gen recovery_clock.tick_nonneg Let_def q)
  have "already_resolved_state q state' (PyBool True) (PyBool True) = Inr True"
    using s stamp
    by (simp add: already_resolved_state_def fields q recovery_note_matches_def recovery_note_def)
  then have "validate_recovery_resolution state' journal report q (PyBool True) (PyBool True)
      = Inr ALREADY_RESOLVED"
    by (simp add: validate_recovery_resolution_def run_checks_pass checks req' fields)
  with payload show ?thesis by blast
qed

text \<open>A concrete request, with its report, that is allowed.\<close>

definition sample_digest :: string where
  "sample_digest = replicate 64 (CHR ''a'')"

definition sample_request :: recovery_request where
  "sample_request = \<lparr>rr_project_id = PyStr ''p'', rr_command_id = PyInt 3, rr_run_id = PyStr ''run-1'',
     rr_claim_generation = PyInt 6, rr_expected_generation = PyInt 7, rr_source = PyStr ''user_direct'',
     rr_kind = PyStr ''EXECUTE'', rr_based_on_report = PyInt 2,
     rr_pending_report_path = PyStr ''worker/runtime/p/pending-report-003.md'',
     rr_expected_report_sha256 = PyStr sample_digest, rr_actual_report_sha256 = PyStr sample_digest\<rparr>"

definition sample_report_identity :: pydict where
  "sample_report_identity =
     [(''project_id'', PyStr ''p''), (''command_id'', PyInt 3), (''run_id'', PyStr ''run-1''),
      (''claim_generation'', PyInt 6), (''source'', PyStr ''user_direct''), (''kind'', PyStr ''EXECUTE''),
      (''based_on_report'', PyInt 2), (''outcome'', PyStr ''BLOCKED''), (''interrupted'', PyBool True),
      (''no_final_success_marker'', PyBool True), (''external_side_effects_unknown'', PyBool True),
      (''pending_report_sha256'', PyStr sample_digest), (''interruption_classification'', PyStr ''crash'')]"

lemma sample_resolution_allowed:
  "validate_recovery_resolution sample_recovery_state sample_journal sample_report_identity sample_request
     (PyBool False) (PyBool False) = Inr ALLOW"
  by code_simp

text \<open>
  Recovery resolution is idempotent.  Where a resolution is allowed, its state is built
  without an exception, and the same request checked against that state, with the canonical
  report in place, is answered \<open>ALREADY_RESOLVED\<close>.
\<close>

theorem allowed_resolution_is_recognised:
  assumes "validate_recovery_resolution state journal report q ex ma = Inr ALLOW"
    and "resolved_at \<noteq> []"
  shows "\<exists>state'. state_payload state q resolved_at = Inr state'
      \<and> validate_recovery_resolution state' journal report q (PyBool True) (PyBool True)
          = Inr ALREADY_RESOLVED"
  using assms by (rule resolution_roundtrip)

theorem allowed_resolution_is_recognised_witness:
  "\<exists>state'. state_payload sample_recovery_state sample_request ''t'' = Inr state'
     \<and> validate_recovery_resolution state' sample_journal sample_report_identity sample_request
         (PyBool True) (PyBool True) = Inr ALREADY_RESOLVED"
  by (rule allowed_resolution_is_recognised [OF sample_resolution_allowed]) simp

section \<open>Publication through the store\<close>

type_synonym resolution_world = "pydict \<times> bool \<times> bool"

definition resolution_decision ::
    "pydict \<Rightarrow> pydict \<Rightarrow> recovery_request \<Rightarrow> resolution_world \<Rightarrow> pyexc + recovery_decision" where
  "resolution_decision journal report q w =
     (case w of (state, ex, ma) \<Rightarrow>
        (case validate_recovery_resolution state journal report q (PyBool ex) (PyBool ma) of
           Inr d \<Rightarrow> Inr d
         | Inl e \<Rightarrow> Inl (case e of
             ProtocolViolation m \<Rightarrow> RecoveryResolutionConflict m
           | ProtocolConflict m \<Rightarrow> RecoveryResolutionConflict m
           | _ \<Rightarrow> e)))"

lemma resolution_decision_Inr:
  "resolution_decision journal report q (state, ex, ma) = Inr d \<longleftrightarrow>
     validate_recovery_resolution state journal report q (PyBool ex) (PyBool ma) = Inr d"
  by (simp add: resolution_decision_def split: sum.split)

text \<open>
  The callbacks \<open>expected\<close>, \<open>already_applied\<close> and \<open>payload_builder\<close> of \<open>resolve_resolution\<close>.  A
  decision that raises aborts the publication.
\<close>

definition resolution_expected :: "pydict \<Rightarrow> pydict \<Rightarrow> recovery_request \<Rightarrow> resolution_world \<Rightarrow> pyexc + bool" where
  "resolution_expected journal report q w =
     res_bind (resolution_decision journal report q w) (\<lambda>d. Inr (d = ALLOW))"

definition resolution_already_applied ::
    "pydict \<Rightarrow> pydict \<Rightarrow> recovery_request \<Rightarrow> resolution_world \<Rightarrow> pyexc + bool" where
  "resolution_already_applied journal report q w =
     res_bind (resolution_decision journal report q w) (\<lambda>d. Inr (d = ALREADY_RESOLVED))"

definition resolution_payload :: "recovery_request \<Rightarrow> string \<Rightarrow> resolution_world \<Rightarrow> pyexc + resolution_world" where
  "resolution_payload q resolved_at w =
     res_bind (state_payload (fst w) q resolved_at) (\<lambda>state'. Inr (state', True, True))"

lemma resolution_payload_applies:
  assumes "resolution_expected journal report q w = Inr True" "resolved_at \<noteq> []"
    and "resolution_payload q resolved_at w = Inr w'"
  shows "resolution_already_applied journal report q w' = Inr True"
proof -
  obtain state ex ma where w: "w = (state, ex, ma)" by (cases w)
  have "validate_recovery_resolution state journal report q (PyBool ex) (PyBool ma) = Inr ALLOW"
    using assms(1) by (auto simp: resolution_expected_def res_bind_Inr_iff resolution_decision_Inr w)
  then obtain state' where "state_payload state q resolved_at = Inr state'"
    and "validate_recovery_resolution state' journal report q (PyBool True) (PyBool True) = Inr ALREADY_RESOLVED"
    using resolution_roundtrip [OF _ assms(2)] by blast
  then show ?thesis
    using assms(3) by (auto simp: resolution_already_applied_def resolution_payload_def w resolution_decision_def)
qed

interpretation resolution_cas: cas_operation
  "resolution_expected journal report q" "resolution_already_applied journal report q"
  "resolution_payload q (c # cs)"
  for journal report q c cs
  by unfold_locales (simp add: resolution_payload_applies [where resolved_at = "c # cs"])

text \<open>
  C1: provided no other writer turns a resolved state back into an unresolved one, a resolution with a
  time stamp reaches the canonical branch at most once, however its attempts interleave with those
  writers and whichever pushes are rejected, lose their acknowledgement or raise; where it reached the
  branch, or the store reports it published, the branch is resolved.
\<close>

theorem resolution_published_at_most_once:
  assumes "publish_cas (resolution_expected journal report q) (resolution_already_applied journal report q)
      (resolution_payload q resolved_at) attempts remote = (res, remote', n)"
    and "\<forall>a \<in> set attempts. \<forall>w. resolution_already_applied journal report q w = Inr True \<longrightarrow>
           resolution_already_applied journal report q (ca_others a w) = Inr True"
    and "resolved_at \<noteq> []"
  shows "n \<le> 1 \<and> (n = 1 \<longrightarrow> resolution_already_applied journal report q remote' = Inr True)
      \<and> (\<forall>w. res = Inr (Published w) \<longrightarrow>
           remote' = w \<and> resolution_already_applied journal report q w = Inr True)"
proof (cases "attempts = []")
  case True
  then show ?thesis using assms(1) by (auto simp: publish_cas_def)
next
  case False
  obtain c cs where stamp: "resolved_at = c # cs" using assms(3) by (cases resolved_at) auto
  have run: "cas_attempts (resolution_expected journal report q) (resolution_already_applied journal report q)
      (resolution_payload q (c # cs)) attempts remote 0 = (res, remote', n)"
    using assms(1) False by (simp add: publish_cas_def stamp)
  have st: "resolution_cas.stable journal report q attempts"
    using assms(2) by (simp add: resolution_cas.stable_def)
  have "\<forall>w. res = Inr (Published w) \<longrightarrow>
      remote' = w \<and> resolution_already_applied journal report q w = Inr True"
    using run resolution_cas.attempts_result by blast
  then show ?thesis using resolution_cas.attempts_at_most_once [OF st run] by auto
qed

theorem resolution_published_at_most_once_witness:
  "snd (snd (publish_cas (resolution_expected sample_journal sample_report_identity sample_request)
      (resolution_already_applied sample_journal sample_report_identity sample_request)
      (resolution_payload sample_request ''t'')
      [plain_attempt id PushRejected, plain_attempt id PushLost, plain_attempt id PushAccepted]
      (sample_recovery_state, False, False))) \<le> 1"
proof -
  let ?e = "resolution_expected sample_journal sample_report_identity sample_request"
  let ?a = "resolution_already_applied sample_journal sample_report_identity sample_request"
  let ?b = "resolution_payload sample_request ''t''"
  let ?as = "[plain_attempt id PushRejected, plain_attempt id PushLost, plain_attempt id PushAccepted]"
  let ?w = "(sample_recovery_state, False, False)"
  obtain res r' n where run: "publish_cas ?e ?a ?b ?as ?w = (res, r', n)" by (rule prod_cases3)
  from resolution_published_at_most_once [OF this] have "n \<le> 1" by (simp add: plain_attempt_def)
  then show ?thesis by (simp add: run)
qed

text \<open>
  The proviso is needed: where the acknowledgement of the first push is lost and another writer puts
  the unresolved state back, the next attempt publishes again.
\<close>

lemma reverting_writer_publishes_twice:
  "snd (snd (publish_cas (resolution_expected sample_journal sample_report_identity sample_request)
      (resolution_already_applied sample_journal sample_report_identity sample_request)
      (resolution_payload sample_request ''t'')
      [plain_attempt id PushLost, plain_attempt (\<lambda>_. (sample_recovery_state, False, False)) PushAccepted]
      (sample_recovery_state, False, False))) = 2"
  by code_simp

end
