(* ===== verification/Run_Models.thy ===== *)
theory Run_Models
  imports Py_Values
begin

text \<open>
  \<open>worker/vnext_runtime/models.py\<close>: the immutable execution models.  A frozen dataclass is a
  record of its checked fields, and its constructor with \<open>__post_init__\<close> is a function from the
  raw arguments into a sum.  Raw scalar arguments are arbitrary Python values, because the
  constructors test their types; where a constructor tests that an argument is another of these
  dataclasses, or a path, the type of the model says so.  A member of a string enumeration is
  equal to its text and is given by it.
\<close>

section \<open>Enumerations\<close>

datatype provider_state = REGISTERED | AVAILABLE | DRAINING | UNAVAILABLE | PROVIDER_FAILED

datatype execution_outcome = SUCCESS | PARTIAL | BLOCKED | FAILED | INTERRUPTED

definition ExecutionOutcome :: "string \<Rightarrow> execution_outcome option" where
  "ExecutionOutcome = map_of [(''SUCCESS'', SUCCESS), (''PARTIAL'', PARTIAL), (''BLOCKED'', BLOCKED),
     (''FAILED'', FAILED), (''INTERRUPTED'', INTERRUPTED)]"

text \<open>The call of an enumeration class: only the text of a member is accepted.\<close>

definition enum_call :: "(string \<Rightarrow> 'e option) \<Rightarrow> pyexc \<Rightarrow> py \<Rightarrow> pyexc + 'e" where
  "enum_call members err v =
     (case v of PyStr s \<Rightarrow> (case members s of Some e \<Rightarrow> Inr e | None \<Rightarrow> Inl err) | _ \<Rightarrow> Inl err)"

lemma enum_call_Inr [check_simps]:
  "enum_call members err v = Inr e \<longleftrightarrow> (\<exists>s. v = PyStr s \<and> members s = Some e)"
  by (cases v) (auto simp: enum_call_def split: option.splits)

lemma enum_call_Inl [check_simps]:
  "enum_call members err v = Inl e \<longleftrightarrow> e = err \<and> (\<forall>s. v = PyStr s \<longrightarrow> members s = None)"
  by (cases v) (auto simp: enum_call_def split: option.splits)

section \<open>Guards\<close>

text \<open>\<open>isinstance(v, str) and v.strip()\<close>.\<close>

definition has_text :: "py \<Rightarrow> bool" where
  "has_text v \<longleftrightarrow> is_str v \<and> strip (the_str v) \<noteq> []"

lemma has_text_iff [check_simps]: "has_text v \<longleftrightarrow> (\<exists>s. v = PyStr s \<and> strip s \<noteq> [])"
  by (cases v) (simp_all add: has_text_def)

lemma has_text_simps [simp]: "has_text (PyStr s) \<longleftrightarrow> strip s \<noteq> []" "\<not> has_text PyNone" "\<not> has_text (PyBool b)"
  "\<not> has_text (PyInt i)" "\<not> has_text (PyFloat x)" "\<not> has_text (PyList xs)" "\<not> has_text (PyDict d)"
  by (simp_all add: has_text_def)

definition int_from :: "int \<Rightarrow> py \<Rightarrow> bool" where
  "int_from lo v \<longleftrightarrow> is_int v \<and> lo \<le> the_int v"

lemma int_from_iff [check_simps]: "int_from lo v \<longleftrightarrow> (\<exists>i. v = PyInt i \<and> lo \<le> i)"
  by (cases v) (simp_all add: int_from_def)

lemma int_from_simps [simp]: "int_from lo (PyInt i) \<longleftrightarrow> lo \<le> i"
  by (simp add: int_from_def)

definition model_require_text :: "py \<Rightarrow> string \<Rightarrow> pyexc option" where
  "model_require_text v label = ensure (has_text v) (ValueError (label @ '' must be a non-empty string.''))"

definition require_non_bool_int :: "py \<Rightarrow> string \<Rightarrow> int \<Rightarrow> pyexc option" where
  "require_non_bool_int v label minimum =
     ensure (int_from minimum v) (ValueError (label @ '' must be an integer >= '' @ show_int minimum @ ''.''))"

lemma model_guards_None [simp]:
  "model_require_text v label = None \<longleftrightarrow> has_text v"
  "require_non_bool_int v label m = None \<longleftrightarrow> int_from m v"
  by (simp_all add: model_require_text_def require_non_bool_int_def)

text \<open>\<open>None\<close> or a string, and the optional value of an argument that passed its guards.\<close>

definition opt_str :: "py \<Rightarrow> bool" where
  "opt_str v \<longleftrightarrow> v = PyNone \<or> is_str v"

definition the_opt_str :: "py \<Rightarrow> string option" where
  "the_opt_str v = (case v of PyStr s \<Rightarrow> Some s | _ \<Rightarrow> None)"

definition of_opt_str :: "string option \<Rightarrow> py" where
  "of_opt_str v = (case v of Some s \<Rightarrow> PyStr s | None \<Rightarrow> PyNone)"

lemma opt_str_simps [simp]:
  "the_opt_str (PyStr s) = Some s" "the_opt_str PyNone = None" "the_opt_str (PyBool b) = None"
  "the_opt_str (PyInt i) = None" "the_opt_str (PyFloat x) = None" "the_opt_str (PyList xs) = None"
  "the_opt_str (PyDict d) = None"
  "of_opt_str (Some s) = PyStr s" "of_opt_str None = PyNone"
  "the_opt_str (of_opt_str v) = v" "opt_str (of_opt_str v)"
  "of_opt_str v = PyNone \<longleftrightarrow> v = None"
  by (auto simp: the_opt_str_def of_opt_str_def opt_str_def split: option.splits)

lemma has_text_opt_str: "has_text v \<Longrightarrow> the_opt_str v = Some (the_str v)"
  by (auto simp: has_text_iff)

text \<open>An optional text: absent, or not blank.\<close>

definition opt_text :: "string option \<Rightarrow> bool" where
  "opt_text v \<longleftrightarrow> (case v of Some s \<Rightarrow> strip s \<noteq> [] | None \<Rightarrow> True)"

lemma opt_text_simps [simp]: "opt_text None" "opt_text (Some s) \<longleftrightarrow> strip s \<noteq> []"
  by (simp_all add: opt_text_def)

lemma opt_text_of_guard: "(v \<noteq> PyNone \<longrightarrow> has_text v) \<Longrightarrow> opt_text (the_opt_str v) \<and> of_opt_str (the_opt_str v) = v"
  by (cases v) (auto simp: has_text_def)

lemma opt_text_has_text: "opt_text v \<Longrightarrow> of_opt_str v = PyNone \<or> has_text (of_opt_str v)"
  by (cases v) auto

section \<open>The contract of a checked constructor\<close>

text \<open>
  Every dataclass of the runtime relies on the same contract: a constructor that returns
  establishes the class invariant, and constructing an object again from the fields of a valid
  one returns that object, as \<open>dataclasses.replace\<close> and the deserialisers need.  So the valid
  objects are exactly the ones that can be constructed.
\<close>

locale checked_constructor =
  fixes build :: "'raw \<Rightarrow> pyexc + 'obj"
    and fields :: "'obj \<Rightarrow> 'raw"
    and valid :: "'obj \<Rightarrow> bool"
  assumes build_valid: "build r = Inr x \<Longrightarrow> valid x"
    and valid_build: "valid x \<Longrightarrow> build (fields x) = Inr x"
begin

lemma constructible: "(\<exists>r. build r = Inr x) \<longleftrightarrow> valid x"
  using build_valid valid_build by blast

lemma rebuild: "build r = Inr x \<Longrightarrow> build (fields x) = Inr x"
  by (intro valid_build build_valid)

lemma fields_inject: "valid x \<Longrightarrow> valid y \<Longrightarrow> fields x = fields y \<Longrightarrow> x = y"
  using valid_build by (metis sum.inject(2))

end

section \<open>The contract of a wire form\<close>

text \<open>
  A valid object is read back from what it writes, and what is read
  is a valid object.
\<close>

locale wire_codec =
  fixes to_wire :: "'a \<Rightarrow> py"
    and from_wire :: "py \<Rightarrow> pyexc + 'a"
    and valid :: "'a \<Rightarrow> bool"
  assumes read_valid: "from_wire v = Inr x \<Longrightarrow> valid x"
    and read_write: "valid x \<Longrightarrow> from_wire (to_wire x) = Inr x"
begin

lemma to_wire_inject: "valid x \<Longrightarrow> valid y \<Longrightarrow> to_wire x = to_wire y \<Longrightarrow> x = y"
  using read_write by (metis sum.inject(2))

lemma reread: "from_wire v = Inr x \<Longrightarrow> from_wire (to_wire x) = Inr x"
  by (intro read_write read_valid)

end

section \<open>Run identity\<close>

record run_identity =
  id_project :: string
  id_command :: int
  id_run :: string
  id_generation :: int

definition RunIdentity :: "py \<Rightarrow> py \<Rightarrow> py \<Rightarrow> py \<Rightarrow> pyexc + run_identity" where
  "RunIdentity p c r g =
     run_checks
       [model_require_text p ''project_id'',
        model_require_text r ''run_id'',
        require_non_bool_int c ''command_id'' 1,
        require_non_bool_int g ''claim_generation'' 0]
       (Inr \<lparr>id_project = the_str p, id_command = the_int c, id_run = the_str r,
             id_generation = the_int g\<rparr>)"

definition wf_identity :: "run_identity \<Rightarrow> bool" where
  "wf_identity i \<longleftrightarrow> strip (id_project i) \<noteq> [] \<and> strip (id_run i) \<noteq> [] \<and> 1 \<le> id_command i
     \<and> 0 \<le> id_generation i"

definition identity_fields :: "run_identity \<Rightarrow> py \<times> py \<times> py \<times> py" where
  "identity_fields i = (PyStr (id_project i), PyInt (id_command i), PyStr (id_run i),
     PyInt (id_generation i))"

interpretation identity_ctor: checked_constructor
  "\<lambda>(p, c, r, g). RunIdentity p c r g" identity_fields wf_identity
  by unfold_locales
     (auto simp: RunIdentity_def wf_identity_def identity_fields_def run_checks_Inr has_text_iff
       int_from_iff run_checks_pass)

section \<open>Execution profile, request, diagnostics and result\<close>

record execution_profile =
  profile_model :: "string option"
  profile_effort :: "string option"
  profile_tier :: "string option"

definition ExecutionProfile :: "py \<Rightarrow> py \<Rightarrow> py \<Rightarrow> pyexc + execution_profile" where
  "ExecutionProfile m e t =
     run_checks
       [if m \<noteq> PyNone then model_require_text m ''model'' else None,
        if e \<noteq> PyNone then model_require_text e ''reasoning_effort'' else None,
        if t \<noteq> PyNone then model_require_text t ''service_tier'' else None]
       (Inr \<lparr>profile_model = the_opt_str m, profile_effort = the_opt_str e,
             profile_tier = the_opt_str t\<rparr>)"

definition wf_profile :: "execution_profile \<Rightarrow> bool" where
  "wf_profile p \<longleftrightarrow> opt_text (profile_model p) \<and> opt_text (profile_effort p) \<and> opt_text (profile_tier p)"

interpretation profile_ctor: checked_constructor
  "\<lambda>(m, e, t). ExecutionProfile m e t"
  "\<lambda>p. (of_opt_str (profile_model p), of_opt_str (profile_effort p), of_opt_str (profile_tier p))"
  wf_profile
proof unfold_locales
  fix r and x :: execution_profile
  assume "(case r of (m, e, t) \<Rightarrow> ExecutionProfile m e t) = Inr x"
  then show "wf_profile x"
    by (cases r) (auto simp: ExecutionProfile_def run_checks_Inr wf_profile_def opt_text_of_guard)
next
  fix x :: execution_profile
  assume "wf_profile x"
  then show "(case (of_opt_str (profile_model x), of_opt_str (profile_effort x), of_opt_str (profile_tier x))
      of (m, e, t) \<Rightarrow> ExecutionProfile m e t) = Inr x"
    by (auto simp: ExecutionProfile_def run_checks_Inr wf_profile_def dest!: opt_text_has_text)
qed

record execution_request =
  request_project_id :: string
  request_command_id :: int
  request_run_id :: string
  request_workdir :: string
  request_mission :: string
  request_command_text :: string
  request_kind :: string
  request_profile :: execution_profile

definition ExecutionRequest ::
    "py \<Rightarrow> py \<Rightarrow> py \<Rightarrow> string \<Rightarrow> py \<Rightarrow> py \<Rightarrow> py \<Rightarrow> execution_profile \<Rightarrow> pyexc + execution_request" where
  "ExecutionRequest p c r wd m txt k prof =
     run_checks
       [model_require_text p ''project_id'',
        model_require_text r ''run_id'',
        require_non_bool_int c ''command_id'' 1,
        ensure (is_str m) (TypeError ''mission must be a string.''),
        ensure (is_str txt) (TypeError ''command_text must be a string.''),
        model_require_text k ''kind'']
       (Inr \<lparr>request_project_id = the_str p, request_command_id = the_int c, request_run_id = the_str r,
             request_workdir = wd, request_mission = the_str m, request_command_text = the_str txt, request_kind = the_str k,
             request_profile = prof\<rparr>)"

record execution_diagnostics =
  diag_stdout_tail :: string
  diag_stderr_tail :: string
  diag_error :: "string option"

definition ExecutionDiagnostics :: "py \<Rightarrow> py \<Rightarrow> py \<Rightarrow> pyexc + execution_diagnostics" where
  "ExecutionDiagnostics out err e =
     run_checks
       [ensure (is_str out) (TypeError ''stdout_tail must be a string.''),
        ensure (is_str err) (TypeError ''stderr_tail must be a string.''),
        ensure (e = PyNone \<or> is_str e) (TypeError ''error must be a string or None.'')]
       (Inr \<lparr>diag_stdout_tail = the_str out, diag_stderr_tail = the_str err, diag_error = the_opt_str e\<rparr>)"

record execution_result =
  result_provider_id :: string
  result_outcome :: execution_outcome
  result_exit_code :: "int option"
  result_final_message :: string
  result_launched_at :: "string option"
  result_completed_at :: "string option"
  result_diagnostics :: execution_diagnostics

definition ExecutionResult ::
    "py \<Rightarrow> py \<Rightarrow> py \<Rightarrow> py \<Rightarrow> py \<Rightarrow> py \<Rightarrow> execution_diagnostics \<Rightarrow> pyexc + execution_result" where
  "ExecutionResult pid oc code msg launched completed diag =
     run_checks [model_require_text pid ''provider_id'']
       (res_bind (enum_call ExecutionOutcome (TypeError ''outcome must be an ExecutionOutcome.'') oc) (\<lambda>out.
        run_checks
          [if code \<noteq> PyNone then require_non_bool_int code ''exit_code'' (- 2147483648) else None,
           ensure (is_str msg) (TypeError ''final_message must be a string.''),
           ensure (launched = PyNone \<or> is_str launched) (TypeError ''launched_at must be a string or None.''),
           ensure (completed = PyNone \<or> is_str completed) (TypeError ''completed_at must be a string or None.'')]
          (Inr \<lparr>result_provider_id = the_str pid, result_outcome = out,
                result_exit_code = (if code = PyNone then None else Some (the_int code)),
                result_final_message = the_str msg, result_launched_at = the_opt_str launched,
                result_completed_at = the_opt_str completed, result_diagnostics = diag\<rparr>)))"

end
