(* ===== verification/Recovery_Evidence.thy ===== *)
theory Recovery_Evidence
  imports Run_Models
begin

text \<open>
  \<open>worker/vnext_runtime/recovery_evidence.py\<close>, first half: the evidence of an interrupted run.
  The write-ahead log with its validation, the push effects derived from it, and the evidence
  records.  The constructors are modelled as in \<open>Run_Models\<close>; an \<open>assert\<close> of the source is a
  guard that raises \<open>AssertionError\<close>.
\<close>

section \<open>Vocabulary\<close>

definition RECOVERY_ENVELOPE_SCHEMA_VERSION :: int where
  "RECOVERY_ENVELOPE_SCHEMA_VERSION = 1"

definition RECOVERY_WAL_SCHEMA_VERSION :: int where
  "RECOVERY_WAL_SCHEMA_VERSION = 1"

datatype evidence_state = YES | NO | UNKNOWN

datatype recovery_command_kind = EXECUTE | FINALIZE

datatype journal_disposition = PENDING | RECONCILED | SUPERSEDED_LOCALLY | CONFLICTING

datatype canonical_relation =
    EXACT_RUNNING_LEASE | REPORT_ALREADY_PUBLISHED | STATE_ADVANCED | IDENTITY_MISMATCH

datatype wal_event_kind =
    RUN_CLAIMED | PROCESS_CREATE_INTENT | PROCESS_CREATED | PUSH_INTENT | PUSH_CONFIRMED
  | REPORT_MATERIALIZED | REPORT_PUBLISH_INTENT | REPORT_PUBLISHED
  | TARGETED_TERMINATION_REQUESTED | TARGETED_TERMINATION_CONFIRMED | PROCESS_EXITED
  | BROKER_STARTED | BROKER_STOPPED | CONTAINMENT_PREPARED | CONTAINMENT_RECONCILED
  | CONTAINMENT_RELEASED | PROJECT_EGRESS_RECONCILED

datatype push_resolution_state = EXACT_APPLIED | EXACT_NOT_APPLIED | AMBIGUOUS | RESOLUTION_UNKNOWN

definition EvidenceState :: "string \<Rightarrow> evidence_state option" where
  "EvidenceState = map_of [(''YES'', YES), (''NO'', NO), (''UNKNOWN'', UNKNOWN)]"

definition RecoveryCommandKind :: "string \<Rightarrow> recovery_command_kind option" where
  "RecoveryCommandKind = map_of [(''EXECUTE'', EXECUTE), (''FINALIZE'', FINALIZE)]"

definition JournalDisposition :: "string \<Rightarrow> journal_disposition option" where
  "JournalDisposition = map_of [(''PENDING'', PENDING), (''RECONCILED'', RECONCILED),
     (''SUPERSEDED'', SUPERSEDED_LOCALLY), (''CONFLICT'', CONFLICTING)]"

definition WalEventKind :: "string \<Rightarrow> wal_event_kind option" where
  "WalEventKind = map_of [(''RUN_CLAIMED'', RUN_CLAIMED), (''PROCESS_CREATE_INTENT'', PROCESS_CREATE_INTENT),
     (''PROCESS_CREATED'', PROCESS_CREATED), (''PUSH_INTENT'', PUSH_INTENT),
     (''PUSH_CONFIRMED'', PUSH_CONFIRMED), (''REPORT_MATERIALIZED'', REPORT_MATERIALIZED),
     (''REPORT_PUBLISH_INTENT'', REPORT_PUBLISH_INTENT), (''REPORT_PUBLISHED'', REPORT_PUBLISHED),
     (''TARGETED_TERMINATION_REQUESTED'', TARGETED_TERMINATION_REQUESTED),
     (''TARGETED_TERMINATION_CONFIRMED'', TARGETED_TERMINATION_CONFIRMED),
     (''PROCESS_EXITED'', PROCESS_EXITED), (''BROKER_STARTED'', BROKER_STARTED),
     (''BROKER_STOPPED'', BROKER_STOPPED), (''CONTAINMENT_PREPARED'', CONTAINMENT_PREPARED),
     (''CONTAINMENT_RECONCILED'', CONTAINMENT_RECONCILED), (''CONTAINMENT_RELEASED'', CONTAINMENT_RELEASED),
     (''PROJECT_EGRESS_RECONCILED'', PROJECT_EGRESS_RECONCILED)]"

definition PushResolutionState :: "string \<Rightarrow> push_resolution_state option" where
  "PushResolutionState = map_of [(''EXACT_APPLIED'', EXACT_APPLIED),
     (''EXACT_NOT_APPLIED'', EXACT_NOT_APPLIED), (''AMBIGUOUS'', AMBIGUOUS), (''UNKNOWN'', RESOLUTION_UNKNOWN)]"

definition ev_require_text :: "py \<Rightarrow> string \<Rightarrow> pyexc option" where
  "ev_require_text v label = ensure (has_text v) (RecoveryEvidenceError (label @ '' must be non-empty text''))"

definition ev_require_int :: "py \<Rightarrow> string \<Rightarrow> int \<Rightarrow> pyexc option" where
  "ev_require_int v label minimum =
     ensure (int_from minimum v)
       (RecoveryEvidenceError (label @ '' must be an integer >= '' @ show_int minimum))"

definition enum_value :: "(string \<Rightarrow> 'e option) \<Rightarrow> py \<Rightarrow> string \<Rightarrow> pyexc + 'e" where
  "enum_value members v label =
     enum_call members (RecoveryEvidenceError (label @ '' has unsupported value'')) v"

lemma ev_guards_None [simp]:
  "ev_require_text v label = None \<longleftrightarrow> has_text v"
  "ev_require_int v label m = None \<longleftrightarrow> int_from m v"
  by (simp_all add: ev_require_text_def ev_require_int_def)

lemma enum_value_Inr [check_simps]:
  "enum_value members v label = Inr e \<longleftrightarrow> (\<exists>s. v = PyStr s \<and> members s = Some e)"
  by (simp add: enum_value_def enum_call_Inr)

section \<open>Write-ahead log events\<close>

record wal_event =
  we_sequence :: int
  we_kind :: wal_event_kind
  we_recorded_at :: string
  we_effect_id :: "string option"
  we_target_id :: "string option"
  we_expected_object :: "string option"
  we_observed_object :: "string option"
  we_artifact_digest :: "string option"
  we_precondition_object :: "string option"

definition optional_text :: "py \<Rightarrow> string \<Rightarrow> pyexc option" where
  "optional_text v label = (if v \<noteq> PyNone then ev_require_text v label else None)"

definition event_kind_checks ::
    "wal_event_kind \<Rightarrow> py \<Rightarrow> py \<Rightarrow> py \<Rightarrow> py \<Rightarrow> py \<Rightarrow> pyexc option list" where
  "event_kind_checks kind effect target expected observed artifact =
     (case kind of
        PUSH_INTENT \<Rightarrow>
          [ev_require_text effect ''effect_id'', ev_require_text target ''target_id'',
           ev_require_text expected ''expected_object'',
           ensure (observed = PyNone)
             (RecoveryEvidenceError ''PUSH_INTENT cannot claim an observed_object before confirmation'')]
      | PUSH_CONFIRMED \<Rightarrow>
          [ev_require_text effect ''effect_id'', ev_require_text target ''target_id'',
           ev_require_text expected ''expected_object'', ev_require_text observed ''observed_object'']
      | REPORT_MATERIALIZED \<Rightarrow> [ev_require_text artifact ''artifact_digest'']
      | REPORT_PUBLISH_INTENT \<Rightarrow> [ev_require_text artifact ''artifact_digest'']
      | REPORT_PUBLISHED \<Rightarrow> [ev_require_text artifact ''artifact_digest'']
      | _ \<Rightarrow> [])"

definition RecoveryWalEvent ::
    "py \<Rightarrow> py \<Rightarrow> py \<Rightarrow> py \<Rightarrow> py \<Rightarrow> py \<Rightarrow> py \<Rightarrow> py \<Rightarrow> py \<Rightarrow> pyexc + wal_event" where
  "RecoveryWalEvent sequence kind recorded_at effect target expected observed artifact precondition =
     run_checks [ev_require_int sequence ''sequence'' 1]
       (res_bind (enum_value WalEventKind kind ''kind'') (\<lambda>k.
        run_checks
          ([ev_require_text recorded_at ''recorded_at'',
            optional_text effect ''effect_id'', optional_text target ''target_id'',
            optional_text expected ''expected_object'', optional_text observed ''observed_object'',
            optional_text artifact ''artifact_digest'', optional_text precondition ''precondition_object'']
           @ event_kind_checks k effect target expected observed artifact)
          (Inr \<lparr>we_sequence = the_int sequence, we_kind = k, we_recorded_at = the_str recorded_at,
                we_effect_id = the_opt_str effect, we_target_id = the_opt_str target,
                we_expected_object = the_opt_str expected, we_observed_object = the_opt_str observed,
                we_artifact_digest = the_opt_str artifact,
                we_precondition_object = the_opt_str precondition\<rparr>)))"

text \<open>What a constructed event satisfies.\<close>

definition wf_event :: "wal_event \<Rightarrow> bool" where
  "wf_event e \<longleftrightarrow> 1 \<le> we_sequence e \<and> strip (we_recorded_at e) \<noteq> []
     \<and> opt_text (we_effect_id e) \<and> opt_text (we_target_id e) \<and> opt_text (we_expected_object e)
     \<and> opt_text (we_observed_object e) \<and> opt_text (we_artifact_digest e)
     \<and> opt_text (we_precondition_object e)
     \<and> (we_kind e \<in> {PUSH_INTENT, PUSH_CONFIRMED} \<longrightarrow>
          we_effect_id e \<noteq> None \<and> we_target_id e \<noteq> None \<and> we_expected_object e \<noteq> None)
     \<and> (we_kind e = PUSH_INTENT \<longrightarrow> we_observed_object e = None)
     \<and> (we_kind e = PUSH_CONFIRMED \<longrightarrow> we_observed_object e \<noteq> None)
     \<and> (we_kind e \<in> {REPORT_MATERIALIZED, REPORT_PUBLISH_INTENT, REPORT_PUBLISHED} \<longrightarrow>
          we_artifact_digest e \<noteq> None)"

lemma optional_text_None [simp]:
  "optional_text v label = None \<longleftrightarrow> opt_text (the_opt_str v) \<and> of_opt_str (the_opt_str v) = v"
  by (cases v) (auto simp: optional_text_def has_text_def opt_text_def)

text \<open>An optional argument that passed its guard is the optional value it carries.\<close>

lemma opt_value_has_text:
  "of_opt_str (the_opt_str v) = v \<Longrightarrow> opt_text (the_opt_str v) \<Longrightarrow> has_text v \<longleftrightarrow> the_opt_str v \<noteq> None"
  by (cases v) auto

lemma opt_value_PyNone: "of_opt_str (the_opt_str v) = v \<Longrightarrow> v = PyNone \<longleftrightarrow> the_opt_str v = None"
  by (cases v) auto

lemma RecoveryWalEvent_valid:
  assumes "RecoveryWalEvent n k t eff tgt ex ob art pre = Inr e"
  shows "wf_event e"
proof -
  obtain kind where n: "first_raise [ev_require_int n ''sequence'' 1] = None"
    and guards: "first_raise ([ev_require_text t ''recorded_at'', optional_text eff ''effect_id'',
        optional_text tgt ''target_id'', optional_text ex ''expected_object'',
        optional_text ob ''observed_object'', optional_text art ''artifact_digest'',
        optional_text pre ''precondition_object''] @ event_kind_checks kind eff tgt ex ob art) = None"
    and e: "e = \<lparr>we_sequence = the_int n, we_kind = kind, we_recorded_at = the_str t,
        we_effect_id = the_opt_str eff, we_target_id = the_opt_str tgt,
        we_expected_object = the_opt_str ex, we_observed_object = the_opt_str ob,
        we_artifact_digest = the_opt_str art, we_precondition_object = the_opt_str pre\<rparr>"
    using assms unfolding RecoveryWalEvent_def run_checks_Inr res_bind_Inr_iff sum.inject by metis
  have kind: "int_from 1 n" "has_text t"
    and opts: "opt_text (the_opt_str eff)" "of_opt_str (the_opt_str eff) = eff"
      "opt_text (the_opt_str tgt)" "of_opt_str (the_opt_str tgt) = tgt"
      "opt_text (the_opt_str ex)" "of_opt_str (the_opt_str ex) = ex"
      "opt_text (the_opt_str ob)" "of_opt_str (the_opt_str ob) = ob"
      "opt_text (the_opt_str art)" "of_opt_str (the_opt_str art) = art"
      "opt_text (the_opt_str pre)"
    and checks: "first_raise (event_kind_checks kind eff tgt ex ob art) = None"
    using n guards by simp_all
  have "kind \<in> {PUSH_INTENT, PUSH_CONFIRMED} \<Longrightarrow> has_text eff \<and> has_text tgt \<and> has_text ex"
    "kind = PUSH_INTENT \<Longrightarrow> ob = PyNone" "kind = PUSH_CONFIRMED \<Longrightarrow> has_text ob"
    "kind \<in> {REPORT_MATERIALIZED, REPORT_PUBLISH_INTENT, REPORT_PUBLISHED} \<Longrightarrow> has_text art"
    using checks by (auto simp: event_kind_checks_def)
  then have "kind \<in> {PUSH_INTENT, PUSH_CONFIRMED} \<Longrightarrow>
      the_opt_str eff \<noteq> None \<and> the_opt_str tgt \<noteq> None \<and> the_opt_str ex \<noteq> None"
    "kind = PUSH_INTENT \<Longrightarrow> the_opt_str ob = None" "kind = PUSH_CONFIRMED \<Longrightarrow> the_opt_str ob \<noteq> None"
    "kind \<in> {REPORT_MATERIALIZED, REPORT_PUBLISH_INTENT, REPORT_PUBLISHED} \<Longrightarrow> the_opt_str art \<noteq> None"
    by (simp_all add: has_text_opt_str)
  moreover have "1 \<le> the_int n" "strip (the_str t) \<noteq> []"
    using kind by (simp_all add: int_from_def has_text_def)
  ultimately show ?thesis
    using opts unfolding e wf_event_def wal_event.simps by blast
qed

definition kind_text :: "wal_event_kind \<Rightarrow> string" where
  "kind_text k = (case k of RUN_CLAIMED \<Rightarrow> ''RUN_CLAIMED'' | PROCESS_CREATE_INTENT \<Rightarrow> ''PROCESS_CREATE_INTENT''
     | PROCESS_CREATED \<Rightarrow> ''PROCESS_CREATED'' | PUSH_INTENT \<Rightarrow> ''PUSH_INTENT''
     | PUSH_CONFIRMED \<Rightarrow> ''PUSH_CONFIRMED'' | REPORT_MATERIALIZED \<Rightarrow> ''REPORT_MATERIALIZED''
     | REPORT_PUBLISH_INTENT \<Rightarrow> ''REPORT_PUBLISH_INTENT'' | REPORT_PUBLISHED \<Rightarrow> ''REPORT_PUBLISHED''
     | TARGETED_TERMINATION_REQUESTED \<Rightarrow> ''TARGETED_TERMINATION_REQUESTED''
     | TARGETED_TERMINATION_CONFIRMED \<Rightarrow> ''TARGETED_TERMINATION_CONFIRMED''
     | PROCESS_EXITED \<Rightarrow> ''PROCESS_EXITED'' | BROKER_STARTED \<Rightarrow> ''BROKER_STARTED''
     | BROKER_STOPPED \<Rightarrow> ''BROKER_STOPPED'' | CONTAINMENT_PREPARED \<Rightarrow> ''CONTAINMENT_PREPARED''
     | CONTAINMENT_RECONCILED \<Rightarrow> ''CONTAINMENT_RECONCILED''
     | CONTAINMENT_RELEASED \<Rightarrow> ''CONTAINMENT_RELEASED''
     | PROJECT_EGRESS_RECONCILED \<Rightarrow> ''PROJECT_EGRESS_RECONCILED'')"

lemma WalEventKind_text [simp]: "WalEventKind (kind_text k) = Some k"
  by (cases k) (simp_all add: WalEventKind_def kind_text_def)

definition event_fields :: "wal_event \<Rightarrow> py \<times> py \<times> py \<times> py \<times> py \<times> py \<times> py \<times> py \<times> py" where
  "event_fields e = (PyInt (we_sequence e), PyStr (kind_text (we_kind e)), PyStr (we_recorded_at e),
     of_opt_str (we_effect_id e), of_opt_str (we_target_id e), of_opt_str (we_expected_object e),
     of_opt_str (we_observed_object e), of_opt_str (we_artifact_digest e),
     of_opt_str (we_precondition_object e))"

lemma wf_event_kind_checks:
  "wf_event e \<Longrightarrow> first_raise (event_kind_checks (we_kind e) (of_opt_str (we_effect_id e))
     (of_opt_str (we_target_id e)) (of_opt_str (we_expected_object e)) (of_opt_str (we_observed_object e))
     (of_opt_str (we_artifact_digest e))) = None"
  by (auto simp: wf_event_def event_kind_checks_def split: wal_event_kind.split)

interpretation event_ctor: checked_constructor
  "\<lambda>(n, k, t, eff, tgt, ex, ob, art, pre). RecoveryWalEvent n k t eff tgt ex ob art pre"
  event_fields wf_event
proof unfold_locales
  fix r and e :: wal_event
  assume "(case r of (n, k, t, eff, tgt, ex, ob, art, pre) \<Rightarrow> RecoveryWalEvent n k t eff tgt ex ob art pre) = Inr e"
  then show "wf_event e" by (auto split: prod.splits dest: RecoveryWalEvent_valid)
next
  fix e :: wal_event
  assume wf: "wf_event e"
  have "first_raise ([ev_require_text (PyStr (we_recorded_at e)) ''recorded_at'',
      optional_text (of_opt_str (we_effect_id e)) ''effect_id'', optional_text (of_opt_str (we_target_id e)) ''target_id'',
      optional_text (of_opt_str (we_expected_object e)) ''expected_object'',
      optional_text (of_opt_str (we_observed_object e)) ''observed_object'',
      optional_text (of_opt_str (we_artifact_digest e)) ''artifact_digest'',
      optional_text (of_opt_str (we_precondition_object e)) ''precondition_object'']
    @ event_kind_checks (we_kind e) (of_opt_str (we_effect_id e))
     (of_opt_str (we_target_id e)) (of_opt_str (we_expected_object e)) (of_opt_str (we_observed_object e))
     (of_opt_str (we_artifact_digest e))) = None"
    using wf wf_event_kind_checks [OF wf] by (simp add: wf_event_def)
  moreover have "first_raise [ev_require_int (PyInt (we_sequence e)) ''sequence'' 1] = None"
    using wf by (simp add: wf_event_def)
  ultimately show "(case event_fields e of (n, k, t, eff, tgt, ex, ob, art, pre) \<Rightarrow>
      RecoveryWalEvent n k t eff tgt ex ob art pre) = Inr e"
    by (simp add: event_fields_def RecoveryWalEvent_def run_checks_pass enum_value_def enum_call_def)
qed

end
