(* ===== verification/Recovery_Log.thy ===== *)
theory Recovery_Log
  imports Recovery_Evidence
begin

text \<open>
  \<open>worker/vnext_runtime/recovery_evidence.py\<close>: \<open>RecoveryWal\<close>, the validated write-ahead log of
  one run, and the push effects derived from it.  The loop of \<open>__post_init__\<close> is a recursion over
  the events with its three locals as arguments.
\<close>

section \<open>The log\<close>

definition confirmation_binds :: "wal_event \<Rightarrow> wal_event \<Rightarrow> bool" where
  "confirmation_binds intent event \<longleftrightarrow>
     \<not> (we_target_id event \<noteq> we_target_id intent
        \<or> we_expected_object event \<noteq> we_expected_object intent
        \<or> we_observed_object event \<noteq> we_expected_object intent
        \<or> (we_precondition_object intent \<noteq> None
           \<and> we_precondition_object event \<noteq> we_precondition_object intent))"

fun wal_scan :: "int \<Rightarrow> (string \<times> wal_event) list \<Rightarrow> string list \<Rightarrow> wal_event list \<Rightarrow> pyexc option" where
  "wal_scan previous intents confirmations [] = None"
| "wal_scan previous intents confirmations (event # events) =
     (if we_sequence event \<le> previous
      then Some (RecoveryEvidenceError ''WAL event sequence must be strictly increasing'')
      else if we_kind event = PUSH_INTENT then
        (case we_effect_id event of
           None \<Rightarrow> Some AssertionError
         | Some effect \<Rightarrow>
             if map_of intents effect \<noteq> None
             then Some (RecoveryEvidenceError ''duplicate PUSH_INTENT effect_id is ambiguous'')
             else wal_scan (we_sequence event) ((effect, event) # intents) confirmations events)
      else if we_kind event = PUSH_CONFIRMED then
        (case we_effect_id event of
           None \<Rightarrow> Some AssertionError
         | Some effect \<Rightarrow>
             (case map_of intents effect of
                None \<Rightarrow> Some (RecoveryEvidenceError ''PUSH_CONFIRMED requires a prior exact PUSH_INTENT'')
              | Some intent \<Rightarrow>
                  if effect \<in> set confirmations
                  then Some (RecoveryEvidenceError ''duplicate PUSH_CONFIRMED effect_id is ambiguous'')
                  else if \<not> confirmation_binds intent event
                  then Some (RecoveryEvidenceError ''PUSH_CONFIRMED does not bind the exact intended target/object'')
                  else wal_scan (we_sequence event) intents (effect # confirmations) events))
      else wal_scan (we_sequence event) intents confirmations events)"

record recovery_wal =
  wal_schema_version :: int
  wal_identity :: run_identity
  wal_events :: "wal_event list"

definition RecoveryWal :: "py \<Rightarrow> run_identity \<Rightarrow> wal_event list \<Rightarrow> pyexc + recovery_wal" where
  "RecoveryWal version ident events =
     run_checks
       [ev_require_int version ''schema_version'' 1,
        ensure (the_int version = RECOVERY_WAL_SCHEMA_VERSION)
          (RecoveryEvidenceError ''unsupported recovery WAL schema_version''),
        wal_scan 0 [] [] events]
       (Inr \<lparr>wal_schema_version = the_int version, wal_identity = ident, wal_events = events\<rparr>)"

section \<open>Push effects\<close>

record push_effect =
  pe_effect_id :: string
  pe_target_id :: string
  pe_expected_object :: string
  pe_confirmed :: bool
  pe_observed_object :: "string option"
  pe_precondition_object :: "string option"

definition PushWalEffect ::
    "py \<Rightarrow> py \<Rightarrow> py \<Rightarrow> py \<Rightarrow> py \<Rightarrow> string option \<Rightarrow> pyexc + push_effect" where
  "PushWalEffect effect target expected confirmed observed precondition =
     run_checks
       [ev_require_text effect ''effect_id'', ev_require_text target ''target_id'',
        ev_require_text expected ''expected_object'',
        ensure (is_bool confirmed) (RecoveryEvidenceError ''confirmed must be boolean''),
        (if confirmed = PyBool True then ev_require_text observed ''observed_object''
         else ensure (observed = PyNone)
           (RecoveryEvidenceError ''an unconfirmed push effect cannot contain observed_object''))]
       (Inr \<lparr>pe_effect_id = the_str effect, pe_target_id = the_str target,
             pe_expected_object = the_str expected, pe_confirmed = (confirmed = PyBool True),
             pe_observed_object = the_opt_str observed, pe_precondition_object = precondition\<rparr>)"

text \<open>The dictionary of confirmations: a later event for the same effect replaces an earlier one.\<close>

definition confirmation_map :: "wal_event list \<Rightarrow> (string \<times> wal_event) list" where
  "confirmation_map events =
     rev (map (\<lambda>e. (the (we_effect_id e), e)) (filter (\<lambda>e. we_kind e = PUSH_CONFIRMED) events))"

definition push_effects :: "recovery_wal \<Rightarrow> pyexc + push_effect list" where
  "push_effects wal =
     (let intents = filter (\<lambda>e. we_kind e = PUSH_INTENT) (wal_events wal);
          confirmed = filter (\<lambda>e. we_kind e = PUSH_CONFIRMED) (wal_events wal) in
      run_checks [ensure (\<forall>e \<in> set confirmed. we_effect_id e \<noteq> None) AssertionError]
        (res_map (\<lambda>intent.
           run_checks
             [ensure (we_effect_id intent \<noteq> None) AssertionError,
              ensure (we_target_id intent \<noteq> None) AssertionError,
              ensure (we_expected_object intent \<noteq> None) AssertionError]
             (let confirmation = map_of (confirmation_map (wal_events wal)) (the (we_effect_id intent)) in
              PushWalEffect (of_opt_str (we_effect_id intent)) (of_opt_str (we_target_id intent))
                (of_opt_str (we_expected_object intent)) (PyBool (confirmation \<noteq> None))
                (case confirmation of Some c \<Rightarrow> of_opt_str (we_observed_object c) | None \<Rightarrow> PyNone)
                (we_precondition_object intent)))
         intents))"

section \<open>What a valid log is\<close>

text \<open>
  Stated without the loop: sequences are positive and strictly increase, no effect is intended or
  confirmed twice, and every confirmation follows the intent of its effect and binds it.
\<close>

definition effect_ids :: "wal_event_kind \<Rightarrow> wal_event list \<Rightarrow> string option list" where
  "effect_ids k events = map we_effect_id (filter (\<lambda>e. we_kind e = k) events)"

text \<open>A confirmation binds an intent when it repeats its target, has observed its object, and starts from its precondition.\<close>

definition confirms :: "wal_event \<Rightarrow> wal_event \<Rightarrow> bool" where
  "confirms intent e \<longleftrightarrow> we_target_id e = we_target_id intent
     \<and> we_expected_object e = we_expected_object intent \<and> we_observed_object e = we_expected_object intent
     \<and> (we_precondition_object intent = None \<or> we_precondition_object e = we_precondition_object intent)"

lemma confirmation_binds_confirms: "confirmation_binds intent e \<longleftrightarrow> confirms intent e"
  by (auto simp: confirmation_binds_def confirms_def)

definition wal_valid :: "wal_event list \<Rightarrow> bool" where
  "wal_valid events \<longleftrightarrow>
     sorted_wrt (<) (0 # map we_sequence events)
     \<and> distinct (effect_ids PUSH_INTENT events) \<and> distinct (effect_ids PUSH_CONFIRMED events)
     \<and> (\<forall>before e after. events = before @ e # after \<longrightarrow> we_kind e = PUSH_CONFIRMED \<longrightarrow>
          (\<exists>intent \<in> set before. we_kind intent = PUSH_INTENT \<and> we_effect_id intent = we_effect_id e
             \<and> confirms intent e))"

lemmas wal_valid_bound = wal_valid_def [folded confirmation_binds_confirms]

lemma effect_ids_simps [simp]:
  "effect_ids k [] = []"
  "effect_ids k (e # es) = (if we_kind e = k then we_effect_id e # effect_ids k es else effect_ids k es)"
  "effect_ids k (es @ es') = effect_ids k es @ effect_ids k es'"
  by (simp_all add: effect_ids_def)

lemma set_effect_ids: "i \<in> set (effect_ids k es) \<longleftrightarrow> (\<exists>e \<in> set es. we_kind e = k \<and> we_effect_id e = i)"
  by (auto simp: effect_ids_def)

lemma confirmations_bound_Cons:
  "(\<forall>before c after. e # es = before @ c # after \<longrightarrow> P before c) \<longleftrightarrow>
     P [] e \<and> (\<forall>before c after. es = before @ c # after \<longrightarrow> P (e # before) c)"
  by (auto simp: Cons_eq_append_conv)

text \<open>The loop invariant relates the locals to the events before the current one.\<close>

definition bound_after :: "wal_event list \<Rightarrow> wal_event list \<Rightarrow> bool" where
  "bound_after past events \<longleftrightarrow>
     (\<forall>before c after. events = before @ c # after \<longrightarrow> we_kind c = PUSH_CONFIRMED \<longrightarrow>
        (\<exists>intent \<in> set past \<union> set before. we_kind intent = PUSH_INTENT
           \<and> we_effect_id intent = we_effect_id c \<and> confirmation_binds intent c))"

lemma bound_after_simps [simp]:
  "bound_after past []"
  "bound_after past (e # es) \<longleftrightarrow>
     (we_kind e = PUSH_CONFIRMED \<longrightarrow> (\<exists>intent \<in> set past. we_kind intent = PUSH_INTENT
        \<and> we_effect_id intent = we_effect_id e \<and> confirmation_binds intent e))
     \<and> bound_after (past @ [e]) es"
  by (simp add: bound_after_def, unfold bound_after_def confirmations_bound_Cons) simp

definition scan_invariant ::
    "wal_event list \<Rightarrow> (string \<times> wal_event) list \<Rightarrow> string list \<Rightarrow> bool" where
  "scan_invariant past intents confirmations \<longleftrightarrow>
     distinct (effect_ids PUSH_INTENT past)
     \<and> (\<forall>i d. map_of intents i = Some d \<longleftrightarrow>
          d \<in> set past \<and> we_kind d = PUSH_INTENT \<and> we_effect_id d = Some i)
     \<and> (\<forall>i. i \<in> set confirmations \<longleftrightarrow> Some i \<in> set (effect_ids PUSH_CONFIRMED past))"

lemma unique_intent:
  assumes "distinct (effect_ids k es)" "x \<in> set es" "y \<in> set es" "we_kind x = k" "we_kind y = k"
    "we_effect_id x = we_effect_id y"
  shows "x = y"
  using assms unfolding effect_ids_def distinct_map inj_on_def by auto

lemma sorted_wrt_less_Cons2:
  "sorted_wrt (<) (p # (s::int) # xs) \<longleftrightarrow> p < s \<and> sorted_wrt (<) (s # xs)"
  by auto

lemma scan_invariant_intent:
  assumes "scan_invariant past intents confirmations" "we_kind e = PUSH_INTENT" "we_effect_id e = Some i"
  shows "map_of intents i = None \<longleftrightarrow> Some i \<notin> set (effect_ids PUSH_INTENT past)"
    and "map_of intents i = None \<Longrightarrow> scan_invariant (past @ [e]) ((i, e) # intents) confirmations"
proof -
  show fresh: "map_of intents i = None \<longleftrightarrow> Some i \<notin> set (effect_ids PUSH_INTENT past)"
    using assms(1) unfolding scan_invariant_def set_effect_ids by (metis not_None_eq)
  assume "map_of intents i = None"
  then have "Some i \<notin> set (effect_ids PUSH_INTENT past)" by (simp add: fresh)
  then show "scan_invariant (past @ [e]) ((i, e) # intents) confirmations"
    using assms unfolding scan_invariant_def by (auto simp: set_effect_ids)
qed

lemma scan_invariant_confirmed:
  assumes "scan_invariant past intents confirmations" "we_kind e = PUSH_CONFIRMED" "we_effect_id e = Some i"
  shows "scan_invariant (past @ [e]) intents (i # confirmations)"
    and "i \<in> set confirmations \<longleftrightarrow> Some i \<in> set (effect_ids PUSH_CONFIRMED past)"
    and "(\<exists>d \<in> set past. we_kind d = PUSH_INTENT \<and> we_effect_id d = Some i \<and> confirmation_binds d e)
      \<longleftrightarrow> (\<exists>d. map_of intents i = Some d \<and> confirmation_binds d e)"
  using assms unfolding scan_invariant_def by (auto simp: set_effect_ids)

lemma scan_invariant_other:
  "scan_invariant past intents confirmations \<Longrightarrow> we_kind e \<notin> {PUSH_INTENT, PUSH_CONFIRMED} \<Longrightarrow>
     scan_invariant (past @ [e]) intents confirmations"
  unfolding scan_invariant_def by (auto simp: set_effect_ids)

lemma wal_scan_spec:
  assumes "list_all wf_event es" "scan_invariant past intents confirmations"
  shows "wal_scan p intents confirmations es = None \<longleftrightarrow>
    sorted_wrt (<) (p # map we_sequence es)
    \<and> distinct (effect_ids PUSH_INTENT (past @ es))
    \<and> distinct (effect_ids PUSH_CONFIRMED es)
    \<and> set (effect_ids PUSH_CONFIRMED es) \<inter> set (effect_ids PUSH_CONFIRMED past) = {}
    \<and> bound_after past es"
  using assms
proof (induction es arbitrary: p past intents confirmations)
  case Nil
  then show ?case by (simp add: scan_invariant_def)
next
  case (Cons e es)
  have wf: "wf_event e" "list_all wf_event es" using Cons.prems(1) by simp_all
  note inv = Cons.prems(2)
  note IH = Cons.IH [OF wf(2)]
  consider (intent) i where "we_kind e = PUSH_INTENT" "we_effect_id e = Some i"
    | (confirmed) i where "we_kind e = PUSH_CONFIRMED" "we_effect_id e = Some i"
    | (other) "we_kind e \<notin> {PUSH_INTENT, PUSH_CONFIRMED}"
    using wf(1) by (auto simp: wf_event_def)
  then show ?case
  proof cases
    case intent
    note I = scan_invariant_intent [OF inv intent]
    show ?thesis
    proof (cases "map_of intents i")
      case None
      show ?thesis
        using IH [OF I(2) [OF None], of "we_sequence e"] intent None
        by (simp add: sorted_wrt_less_Cons2 not_le del: sorted_wrt.simps)
    next
      case (Some d)
      then have "Some i \<in> set (effect_ids PUSH_INTENT past)" using I(1) by auto
      then show ?thesis using Some intent by auto
    qed
  next
    case confirmed
    note C = scan_invariant_confirmed [OF inv confirmed]
    have "distinct (effect_ids PUSH_INTENT (past @ e # es)) = distinct (effect_ids PUSH_INTENT (past @ es))"
      using confirmed by simp
    then show ?thesis
      using IH [OF C(1), of "we_sequence e"] C(2,3) confirmed
      by (auto simp: sorted_wrt_less_Cons2 not_le simp del: sorted_wrt.simps split: option.splits)
  next
    case other
    show ?thesis
      using IH [OF scan_invariant_other [OF inv other], of "we_sequence e"] other
      by (auto simp: sorted_wrt_less_Cons2 not_le simp del: sorted_wrt.simps)
  qed
qed

lemma wal_scan_valid: "list_all wf_event es \<Longrightarrow> wal_scan 0 [] [] es = None \<longleftrightarrow> wal_valid es"
  by (subst wal_scan_spec [where past = "[]"])
     (auto simp: scan_invariant_def wal_valid_bound bound_after_def)

lemma wal_scan_raises:
  "list_all wf_event es \<Longrightarrow> wal_scan p ints confs es = Some e \<Longrightarrow> \<exists>t. e = RecoveryEvidenceError t"
proof (induction p ints confs es rule: wal_scan.induct)
  case (2 p ints confs x xs)
  then show ?case by (auto simp: wf_event_def split: if_splits option.splits)
qed simp

text \<open>
  C37: the write-ahead log constructor accepts a list of constructed events exactly when it is a
  valid log: sequences positive and strictly increasing, no effect intended or confirmed twice,
  every confirmation after the intent it names and bound to its target, object and recorded
  precondition.  Whatever it refuses it refuses with a \<open>RecoveryEvidenceError\<close>; the assertions of
  the loop never fail.
\<close>

theorem wal_constructor_accepts_valid_logs:
  assumes "list_all wf_event events"
  shows "if wal_valid events
    then RecoveryWal (PyInt 1) ident events
      = Inr \<lparr>wal_schema_version = 1, wal_identity = ident, wal_events = events\<rparr>
    else \<exists>t. RecoveryWal (PyInt 1) ident events = Inl (RecoveryEvidenceError t)"
proof (cases "wal_valid events")
  case True
  then have "wal_scan 0 [] [] events = None" using assms by (simp add: wal_scan_valid)
  with True show ?thesis by (simp add: RecoveryWal_def RECOVERY_WAL_SCHEMA_VERSION_def run_checks_pass)
next
  case False
  then obtain e where "wal_scan 0 [] [] events = Some e"
    using wal_scan_valid [OF assms] by (cases "wal_scan 0 [] [] events") auto
  moreover from this obtain t where "e = RecoveryEvidenceError t" using assms wal_scan_raises by blast
  ultimately show ?thesis
    using False by (simp add: RecoveryWal_def RECOVERY_WAL_SCHEMA_VERSION_def run_checks_Inl ev_require_int_def)
qed

text \<open>A concrete log: an intent, its confirmation, and the exit of the process.\<close>

definition sample_event :: "int \<Rightarrow> wal_event_kind \<Rightarrow> string option \<Rightarrow> string option \<Rightarrow> wal_event" where
  "sample_event n k expected observed =
     \<lparr>we_sequence = n, we_kind = k, we_recorded_at = ''t'',
      we_effect_id = (if expected = None then None else Some ''e1''),
      we_target_id = (if expected = None then None else Some ''origin/main''),
      we_expected_object = expected, we_observed_object = observed,
      we_artifact_digest = None, we_precondition_object = None\<rparr>"

definition sample_log :: "wal_event list" where
  "sample_log = [sample_event 1 PUSH_INTENT (Some ''abc'') None,
     sample_event 2 PUSH_CONFIRMED (Some ''abc'') (Some ''abc''),
     sample_event 5 PROCESS_EXITED None None]"

lemma sample_log_wf: "list_all wf_event sample_log"
  by code_simp

definition sample_identity :: run_identity where
  "sample_identity = \<lparr>id_project = ''p'', id_command = 3, id_run = ''run-1'', id_generation = 6\<rparr>"

theorem wal_constructor_accepts_valid_logs_witness:
  "RecoveryWal (PyInt 1) sample_identity sample_log
     = Inr \<lparr>wal_schema_version = 1, wal_identity = sample_identity, wal_events = sample_log\<rparr>"
proof -
  have "wal_scan 0 [] [] sample_log = None" by code_simp
  then have "wal_valid sample_log" using wal_scan_valid [OF sample_log_wf] by simp
  with wal_constructor_accepts_valid_logs [OF sample_log_wf, of sample_identity] show ?thesis by simp
qed

section \<open>The push effects of a valid log\<close>

definition is_confirmed :: "wal_event list \<Rightarrow> wal_event \<Rightarrow> bool" where
  "is_confirmed events intent \<longleftrightarrow>
     (\<exists>c \<in> set events. we_kind c = PUSH_CONFIRMED \<and> we_effect_id c = we_effect_id intent)"

definition effect_of :: "wal_event list \<Rightarrow> wal_event \<Rightarrow> push_effect" where
  "effect_of events intent =
     \<lparr>pe_effect_id = the (we_effect_id intent), pe_target_id = the (we_target_id intent),
      pe_expected_object = the (we_expected_object intent), pe_confirmed = is_confirmed events intent,
      pe_observed_object = (if is_confirmed events intent then we_expected_object intent else None),
      pe_precondition_object = we_precondition_object intent\<rparr>"

lemma confirmation_of_intent:
  assumes "wal_valid events" "c \<in> set events" "we_kind c = PUSH_CONFIRMED"
    and "d \<in> set events" "we_kind d = PUSH_INTENT" "we_effect_id c = we_effect_id d"
  shows "confirmation_binds d c"
proof -
  obtain before after where "events = before @ c # after" using assms(2) by (auto dest: split_list)
  with assms(1,3) obtain d' where d': "d' \<in> set before" "we_kind d' = PUSH_INTENT"
    "we_effect_id d' = we_effect_id c" "confirmation_binds d' c"
    unfolding wal_valid_bound by blast
  have "d' \<in> set events" using \<open>events = _\<close> d'(1) by simp
  then have "d' = d"
    using assms d' unique_intent [of PUSH_INTENT events d' d] by (simp add: wal_valid_bound)
  with d'(4) show ?thesis by simp
qed

lemma confirmation_map_Some:
  assumes "list_all wf_event events" "map_of (confirmation_map events) i = Some c"
  shows "c \<in> set events" "we_kind c = PUSH_CONFIRMED" "we_effect_id c = Some i"
proof -
  have "(i, c) \<in> set (confirmation_map events)" using assms(2) by (rule map_of_SomeD)
  then have c: "c \<in> set events" "we_kind c = PUSH_CONFIRMED" "i = the (we_effect_id c)"
    by (auto simp: confirmation_map_def)
  then have "we_effect_id c \<noteq> None" using assms(1) by (auto simp: list_all_iff wf_event_def)
  with c show "c \<in> set events" "we_kind c = PUSH_CONFIRMED" "we_effect_id c = Some i" by auto
qed

lemma confirmation_map_None:
  "map_of (confirmation_map events) i = None \<Longrightarrow> c \<in> set events \<Longrightarrow> we_kind c = PUSH_CONFIRMED \<Longrightarrow>
     we_effect_id c \<noteq> Some i"
  by (force simp: confirmation_map_def map_of_eq_None_iff image_iff)

lemma push_effects_valid:
  assumes wf: "list_all wf_event (wal_events wal)" and valid: "wal_valid (wal_events wal)"
  shows "push_effects wal =
    Inr (map (effect_of (wal_events wal)) (filter (\<lambda>e. we_kind e = PUSH_INTENT) (wal_events wal)))"
proof -
  let ?es = "wal_events wal"
  have named: "\<forall>e \<in> set (filter (\<lambda>e. we_kind e = PUSH_CONFIRMED) ?es). we_effect_id e \<noteq> None"
    using wf by (auto simp: list_all_iff wf_event_def)
  have one: "run_checks
             [ensure (we_effect_id d \<noteq> None) AssertionError,
              ensure (we_target_id d \<noteq> None) AssertionError,
              ensure (we_expected_object d \<noteq> None) AssertionError]
             (let confirmation = map_of (confirmation_map ?es) (the (we_effect_id d)) in
              PushWalEffect (of_opt_str (we_effect_id d)) (of_opt_str (we_target_id d))
                (of_opt_str (we_expected_object d)) (PyBool (confirmation \<noteq> None))
                (case confirmation of Some c \<Rightarrow> of_opt_str (we_observed_object c) | None \<Rightarrow> PyNone)
                (we_precondition_object d)) = Inr (effect_of ?es d)"
    if d: "d \<in> set ?es" "we_kind d = PUSH_INTENT" for d
  proof -
    have "wf_event d" using wf d(1) by (simp add: list_all_iff)
    then obtain i t x where ids: "we_effect_id d = Some i" "we_target_id d = Some t"
      "we_expected_object d = Some x" "strip i \<noteq> []" "strip t \<noteq> []" "strip x \<noteq> []"
      using d(2) by (auto simp: wf_event_def)
    show ?thesis
    proof (cases "map_of (confirmation_map ?es) i")
      case None
      then have "\<not> is_confirmed ?es d"
        using confirmation_map_None ids(1) by (auto simp: is_confirmed_def)
      with None ids show ?thesis
        by (simp add: PushWalEffect_def effect_of_def run_checks_pass)
    next
      case (Some c)
      note c = confirmation_map_Some [OF wf Some]
      have "we_observed_object c = Some x"
        using confirmation_of_intent [OF valid c(1,2) d] c(3) ids by (simp add: confirmation_binds_def)
      moreover have "is_confirmed ?es d" using c ids(1) by (auto simp: is_confirmed_def)
      ultimately show ?thesis
        using Some ids by (simp add: PushWalEffect_def effect_of_def run_checks_pass)
    qed
  qed
  show ?thesis
    unfolding push_effects_def Let_def
    using named one by (simp add: run_checks_pass res_map_Inr [where g = "effect_of ?es"] Let_def)
qed

text \<open>
  The push effects of a valid log are its intents, in order and one each.  An effect is
  confirmed exactly when the log holds its confirmation, and then the object observed on the
  remote is the intended one; deriving the effects never raises.
\<close>

theorem push_effects_of_valid_log:
  assumes "list_all wf_event events" "RecoveryWal (PyInt 1) ident events = Inr wal"
  shows "push_effects wal =
    Inr (map (effect_of events) (filter (\<lambda>e. we_kind e = PUSH_INTENT) events))"
proof -
  have "wal_scan 0 [] [] events = None" "wal_events wal = events"
    using assms(2) by (auto simp: RecoveryWal_def run_checks_Inr)
  then show ?thesis
    using push_effects_valid [of wal] assms(1) by (simp add: wal_scan_valid)
qed

theorem push_effects_of_valid_log_witness:
  "\<exists>wal. RecoveryWal (PyInt 1) sample_identity sample_log = Inr wal
     \<and> push_effects wal = Inr [effect_of sample_log (sample_event 1 PUSH_INTENT (Some ''abc'') None)]
     \<and> pe_confirmed (effect_of sample_log (sample_event 1 PUSH_INTENT (Some ''abc'') None))"
proof -
  have made: "RecoveryWal (PyInt 1) sample_identity sample_log
     = Inr \<lparr>wal_schema_version = 1, wal_identity = sample_identity, wal_events = sample_log\<rparr>"
    by code_simp
  have "is_confirmed sample_log (sample_event 1 PUSH_INTENT (Some ''abc'') None)" by code_simp
  with made push_effects_of_valid_log [OF sample_log_wf made] show ?thesis
    by (simp add: effect_of_def sample_log_def sample_event_def)
qed

section \<open>Appending to a log\<close>

lemma wal_valid_prefix: "wal_valid (es @ es') \<Longrightarrow> wal_valid es"
  by (auto simp: wal_valid_bound sorted_wrt_append)

text \<open>
  The log is append-only evidence.  Where a log and an extension of it are both valid, the
  effects of the longer one begin with those of the shorter one: the same effects in the same
  order, none of them unconfirmed again, and a confirmed one unchanged.
\<close>

theorem push_effects_append_only:
  assumes "list_all wf_event (old @ new)" "wal_valid (old @ new)"
    and "wal_events wal = old" "wal_events wal' = old @ new"
  shows "\<exists>effs effs' more. push_effects wal = Inr effs \<and> push_effects wal' = Inr (effs' @ more)
     \<and> list_all2 (\<lambda>e e'. pe_effect_id e' = pe_effect_id e \<and> pe_target_id e' = pe_target_id e
          \<and> pe_expected_object e' = pe_expected_object e
          \<and> pe_precondition_object e' = pe_precondition_object e
          \<and> (pe_confirmed e \<longrightarrow> e' = e)) effs effs'"
proof -
  let ?I = "filter (\<lambda>e. we_kind e = PUSH_INTENT)"
  have effs: "push_effects wal = Inr (map (effect_of old) (?I old))"
    "push_effects wal' = Inr (map (effect_of (old @ new)) (?I old) @ map (effect_of (old @ new)) (?I new))"
    using push_effects_valid [of wal] push_effects_valid [of wal'] assms wal_valid_prefix by simp_all
  have "is_confirmed old d \<Longrightarrow> is_confirmed (old @ new) d" for d
    by (auto simp: is_confirmed_def)
  then have "list_all2 (\<lambda>e e'. pe_effect_id e' = pe_effect_id e \<and> pe_target_id e' = pe_target_id e
      \<and> pe_expected_object e' = pe_expected_object e \<and> pe_precondition_object e' = pe_precondition_object e
      \<and> (pe_confirmed e \<longrightarrow> e' = e)) (map (effect_of old) (?I old)) (map (effect_of (old @ new)) (?I old))"
    by (auto simp: list.rel_map effect_of_def intro!: list.rel_refl_strong)
  with effs show ?thesis by blast
qed

theorem push_effects_append_only_witness:
  "\<exists>effs. push_effects \<lparr>wal_schema_version = 1, wal_identity = sample_identity,
      wal_events = take 1 sample_log\<rparr> = Inr effs"
proof -
  let ?w = "\<lambda>es. \<lparr>wal_schema_version = 1, wal_identity = sample_identity, wal_events = es\<rparr>"
  have eq: "take 1 sample_log @ drop 1 sample_log = sample_log" by simp
  have "wal_scan 0 [] [] sample_log = None" by code_simp
  then have "wal_valid sample_log" using wal_scan_valid [OF sample_log_wf] by simp
  with push_effects_append_only [of "take 1 sample_log" "drop 1 sample_log" "?w (take 1 sample_log)" "?w sample_log"]
  show ?thesis unfolding eq using sample_log_wf by auto
qed

end
