(* ===== verification/Recovery_Classify.thy ===== *)
theory Recovery_Classify
  imports Recovery_Log
begin

text \<open>
  \<open>worker/vnext_runtime/recovery_evidence.py\<close>, second half: the remaining evidence records, the
  recovery envelope, the classifier, and the conservative reading of legacy journals.
\<close>

section \<open>Evidence records\<close>

record push_reconciliation =
  pr_effect_id :: string
  pr_target_id :: string
  pr_expected_object :: string
  pr_state :: push_resolution_state
  pr_observed_object :: "string option"
  pr_precondition_object :: "string option"

definition PushReconciliation :: "py \<Rightarrow> py \<Rightarrow> py \<Rightarrow> py \<Rightarrow> py \<Rightarrow> py \<Rightarrow> pyexc + push_reconciliation" where
  "PushReconciliation effect target expected state observed precondition =
     run_checks
       [ev_require_text effect ''effect_id'', ev_require_text target ''target_id'',
        ev_require_text expected ''expected_object'']
       (res_bind (enum_value PushResolutionState state ''state'') (\<lambda>st.
        run_checks
          [optional_text observed ''observed_object'', optional_text precondition ''precondition_object'',
           ensure (\<not> (st = EXACT_APPLIED \<and> observed \<noteq> expected))
             (RecoveryEvidenceError ''EXACT_APPLIED must observe the exact expected object''),
           ensure (\<not> (st = EXACT_NOT_APPLIED \<and> precondition \<noteq> PyNone \<and> observed \<noteq> precondition))
             (RecoveryEvidenceError ''EXACT_NOT_APPLIED must observe the exact recorded precondition'')]
          (Inr \<lparr>pr_effect_id = the_str effect, pr_target_id = the_str target,
                pr_expected_object = the_str expected, pr_state = st,
                pr_observed_object = the_opt_str observed,
                pr_precondition_object = the_opt_str precondition\<rparr>)))"

definition wf_reconciliation :: "push_reconciliation \<Rightarrow> bool" where
  "wf_reconciliation r \<longleftrightarrow> strip (pr_effect_id r) \<noteq> [] \<and> strip (pr_target_id r) \<noteq> []
     \<and> strip (pr_expected_object r) \<noteq> [] \<and> opt_text (pr_observed_object r)
     \<and> opt_text (pr_precondition_object r)
     \<and> (pr_state r = EXACT_APPLIED \<longrightarrow> pr_observed_object r = Some (pr_expected_object r))
     \<and> (pr_state r = EXACT_NOT_APPLIED \<longrightarrow> pr_precondition_object r \<noteq> None \<longrightarrow>
          pr_observed_object r = pr_precondition_object r)"

lemma PushReconciliation_valid:
  assumes "PushReconciliation eff tgt ex st ob pre = Inr r"
  shows "wf_reconciliation r"
proof -
  obtain s where g: "first_raise [ev_require_text eff ''effect_id'', ev_require_text tgt ''target_id'',
        ev_require_text ex ''expected_object''] = None"
    and h: "first_raise [optional_text ob ''observed_object'', optional_text pre ''precondition_object'',
           ensure (\<not> (s = EXACT_APPLIED \<and> ob \<noteq> ex))
             (RecoveryEvidenceError ''EXACT_APPLIED must observe the exact expected object''),
           ensure (\<not> (s = EXACT_NOT_APPLIED \<and> pre \<noteq> PyNone \<and> ob \<noteq> pre))
             (RecoveryEvidenceError ''EXACT_NOT_APPLIED must observe the exact recorded precondition'')] = None"
    and r: "r = \<lparr>pr_effect_id = the_str eff, pr_target_id = the_str tgt, pr_expected_object = the_str ex,
        pr_state = s, pr_observed_object = the_opt_str ob, pr_precondition_object = the_opt_str pre\<rparr>"
    using assms unfolding PushReconciliation_def run_checks_Inr res_bind_Inr_iff sum.inject by metis
  have t: "has_text eff" "has_text tgt" "has_text ex" using g by simp_all
  have "s = EXACT_APPLIED \<Longrightarrow> the_opt_str ob = Some (the_str ex)"
    using h t(3) by (auto simp: has_text_iff)
  moreover have "s = EXACT_NOT_APPLIED \<Longrightarrow> the_opt_str pre \<noteq> None \<Longrightarrow> the_opt_str ob = the_opt_str pre"
    using h by auto
  moreover have "opt_text (the_opt_str ob)" "opt_text (the_opt_str pre)" using h by simp_all
  ultimately show ?thesis
    using t unfolding r wf_reconciliation_def push_reconciliation.simps has_text_def by blast
qed

record lifecycle_evidence =
  process_created :: evidence_state
  process_exited :: evidence_state

definition LifecycleEvidence :: "py \<Rightarrow> py \<Rightarrow> pyexc + lifecycle_evidence" where
  "LifecycleEvidence created exited =
     res_bind (enum_value EvidenceState created ''process_created'') (\<lambda>c.
     res_bind (enum_value EvidenceState exited ''process_exited'') (\<lambda>x.
     run_checks
       [ensure (\<not> (c = NO \<and> x = YES))
          (RecoveryEvidenceError ''process cannot be positively exited when creation is positively absent'')]
       (Inr \<lparr>process_created = c, process_exited = x\<rparr>)))"

record report_evidence =
  final_marker_valid :: evidence_state
  materialized :: evidence_state
  integrity_valid :: evidence_state
  report_outcome :: "string option"

definition ReportEvidence :: "py \<Rightarrow> py \<Rightarrow> py \<Rightarrow> py \<Rightarrow> pyexc + report_evidence" where
  "ReportEvidence marker mat integrity outcome =
     res_bind (enum_value EvidenceState marker ''final_marker_valid'') (\<lambda>m.
     res_bind (enum_value EvidenceState mat ''materialized'') (\<lambda>t.
     res_bind (enum_value EvidenceState integrity ''integrity_valid'') (\<lambda>i.
     run_checks
       [ensure (\<not> (i = YES \<and> t \<noteq> YES))
          (RecoveryEvidenceError ''report integrity cannot be proven without materialized report evidence''),
        (if outcome \<noteq> PyNone then check_hashable outcome else None),
        ensure (outcome = PyNone \<or> in_strs outcome [''SUCCESS'', ''FAILED'', ''BLOCKED''])
          (RecoveryEvidenceError ''report outcome is not a Protocol-v2 result'')]
       (Inr \<lparr>final_marker_valid = m, materialized = t, integrity_valid = i,
             report_outcome = the_opt_str outcome\<rparr>))))"

record containment_evidence =
  containment_intact :: evidence_state
  project_egress_observed :: evidence_state
  unclassified_project_egress :: evidence_state
  local_effects_reconciled :: evidence_state

definition ContainmentEvidence :: "py \<Rightarrow> py \<Rightarrow> py \<Rightarrow> py \<Rightarrow> pyexc + containment_evidence" where
  "ContainmentEvidence intact egress unclassified reconciled =
     res_bind (enum_value EvidenceState intact ''containment_intact'') (\<lambda>i.
     res_bind (enum_value EvidenceState egress ''project_egress_observed'') (\<lambda>e.
     res_bind (enum_value EvidenceState unclassified ''unclassified_project_egress'') (\<lambda>u.
     res_bind (enum_value EvidenceState reconciled ''local_effects_reconciled'') (\<lambda>l.
     run_checks
       [ensure (\<not> (e = NO \<and> u = YES))
          (RecoveryEvidenceError ''unclassified project egress contradicts positive no-egress evidence'')]
       (Inr \<lparr>containment_intact = i, project_egress_observed = e, unclassified_project_egress = u,
             local_effects_reconciled = l\<rparr>)))))"

record publication_evidence =
  store_available :: evidence_state

definition PublicationEvidence :: "py \<Rightarrow> pyexc + publication_evidence" where
  "PublicationEvidence available =
     res_bind (enum_value EvidenceState available ''store_available'') (\<lambda>a. Inr \<lparr>store_available = a\<rparr>)"

section \<open>The canonical snapshot\<close>

record canonical_snapshot =
  cs_project_id :: string
  cs_status :: string
  cs_generation :: int
  cs_latest_command :: int
  cs_latest_report :: int
  cs_active_identity :: "run_identity option"

definition CanonicalRunSnapshot ::
    "py \<Rightarrow> py \<Rightarrow> py \<Rightarrow> py \<Rightarrow> py \<Rightarrow> run_identity option \<Rightarrow> pyexc + canonical_snapshot" where
  "CanonicalRunSnapshot project status generation command report active =
     run_checks
       [ev_require_text project ''project_id'', ev_require_text status ''status'',
        ev_require_int generation ''generation'' 0, ev_require_int command ''latest_command'' 0,
        ev_require_int report ''latest_report'' 0]
       (Inr \<lparr>cs_project_id = the_str project, cs_status = the_str status,
             cs_generation = the_int generation, cs_latest_command = the_int command,
             cs_latest_report = the_int report, cs_active_identity = active\<rparr>)"

definition relation_to :: "canonical_snapshot \<Rightarrow> run_identity \<Rightarrow> canonical_relation" where
  "relation_to snapshot ident =
     (if id_project ident \<noteq> cs_project_id snapshot then IDENTITY_MISMATCH
      else if id_command ident \<le> cs_latest_report snapshot then REPORT_ALREADY_PUBLISHED
      else if cs_status snapshot = ''CODEX_RUNNING'' then
        (if cs_active_identity snapshot = Some ident then EXACT_RUNNING_LEASE else IDENTITY_MISMATCH)
      else STATE_ADVANCED)"

section \<open>The envelope\<close>

record recovery_envelope =
  env_schema_version :: int
  env_identity :: run_identity
  env_command_kind :: recovery_command_kind
  env_disposition :: journal_disposition
  env_lifecycle :: lifecycle_evidence
  env_report :: report_evidence
  env_containment :: containment_evidence
  env_publication :: publication_evidence
  env_wal :: recovery_wal
  env_reconciliations :: "push_reconciliation list"

fun duplicate_reconciliation :: "string list \<Rightarrow> push_reconciliation list \<Rightarrow> bool" where
  "duplicate_reconciliation seen [] = False"
| "duplicate_reconciliation seen (r # rs) =
     (pr_effect_id r \<in> set seen \<or> duplicate_reconciliation (pr_effect_id r # seen) rs)"

definition RecoveryEnvelope ::
    "py \<Rightarrow> run_identity \<Rightarrow> py \<Rightarrow> py \<Rightarrow> lifecycle_evidence \<Rightarrow> report_evidence \<Rightarrow> containment_evidence \<Rightarrow>
     publication_evidence \<Rightarrow> recovery_wal \<Rightarrow> push_reconciliation list \<Rightarrow> pyexc + recovery_envelope"
where
  "RecoveryEnvelope version ident kind disposition lifecycle report containment publication wal recs =
     run_checks
       [ev_require_int version ''schema_version'' 1,
        ensure (the_int version = RECOVERY_ENVELOPE_SCHEMA_VERSION)
          (RecoveryEvidenceError ''unsupported recovery envelope schema_version'')]
       (res_bind (enum_value RecoveryCommandKind kind ''command_kind'') (\<lambda>k.
        res_bind (enum_value JournalDisposition disposition ''journal_disposition'') (\<lambda>d.
        run_checks
          [ensure (wal_identity wal = ident)
             (RecoveryEvidenceError ''recovery envelope and WAL identities do not match''),
           ensure (\<not> duplicate_reconciliation [] recs)
             (RecoveryEvidenceError ''duplicate push reconciliation effect_id is ambiguous'')]
          (Inr \<lparr>env_schema_version = the_int version, env_identity = ident, env_command_kind = k,
                env_disposition = d, env_lifecycle = lifecycle, env_report = report,
                env_containment = containment, env_publication = publication, env_wal = wal,
                env_reconciliations = recs\<rparr>))))"

lemma duplicate_reconciliation_iff:
  "\<not> duplicate_reconciliation seen rs \<longleftrightarrow>
     distinct (map pr_effect_id rs) \<and> set (map pr_effect_id rs) \<inter> set seen = {}"
  by (induction rs arbitrary: seen) auto

section \<open>Assessments\<close>

datatype recovery_classification =
    NO_ACTION | DEFER_PUBLICATION | PUBLISH_COMPLETED_REPORT | PUBLISH_INTERRUPTED_REPORT
  | REQUIRE_RECOVERY | SUPERSEDED | CONFLICT

definition RecoveryClassification :: "string \<Rightarrow> recovery_classification option" where
  "RecoveryClassification = map_of [(''NO_ACTION'', NO_ACTION), (''DEFER_PUBLICATION'', DEFER_PUBLICATION),
     (''PUBLISH_COMPLETED_REPORT'', PUBLISH_COMPLETED_REPORT),
     (''PUBLISH_INTERRUPTED_REPORT'', PUBLISH_INTERRUPTED_REPORT),
     (''REQUIRE_RECOVERY'', REQUIRE_RECOVERY), (''SUPERSEDED'', SUPERSEDED), (''CONFLICT'', CONFLICT)]"

definition class_text :: "recovery_classification \<Rightarrow> string" where
  "class_text c = (case c of NO_ACTION \<Rightarrow> ''NO_ACTION'' | DEFER_PUBLICATION \<Rightarrow> ''DEFER_PUBLICATION''
     | PUBLISH_COMPLETED_REPORT \<Rightarrow> ''PUBLISH_COMPLETED_REPORT''
     | PUBLISH_INTERRUPTED_REPORT \<Rightarrow> ''PUBLISH_INTERRUPTED_REPORT''
     | REQUIRE_RECOVERY \<Rightarrow> ''REQUIRE_RECOVERY'' | SUPERSEDED \<Rightarrow> ''SUPERSEDED'' | CONFLICT \<Rightarrow> ''CONFLICT'')"

lemma RecoveryClassification_text [simp]: "RecoveryClassification (class_text c) = Some c"
  by (cases c) (simp_all add: RecoveryClassification_def class_text_def)

record recovery_assessment =
  ra_classification :: recovery_classification
  ra_reason :: string
  ra_deferred_action :: "recovery_classification option"
  ra_executor_replay_allowed :: bool

definition RecoveryAssessment :: "py \<Rightarrow> py \<Rightarrow> py \<Rightarrow> py \<Rightarrow> pyexc + recovery_assessment" where
  "RecoveryAssessment classification reason deferred replay =
     res_bind (enum_value RecoveryClassification classification ''classification'') (\<lambda>c.
     run_checks [ev_require_text reason ''reason'']
       (res_bind (if deferred = PyNone then Inr None
                  else res_bind (enum_value RecoveryClassification deferred ''deferred_action'') (\<lambda>x. Inr (Some x)))
         (\<lambda>action.
        run_checks
          [ensure (\<not> truthy replay)
             (RecoveryEvidenceError ''Recovery assessments cannot authorize executor replay''),
           (if c = DEFER_PUBLICATION then
              ensure (action \<in> {Some PUBLISH_COMPLETED_REPORT, Some PUBLISH_INTERRUPTED_REPORT})
                (RecoveryEvidenceError ''deferred publication must preserve the exact publication action'')
            else
              ensure (action = None)
                (RecoveryEvidenceError ''deferred_action is only valid for DEFER_PUBLICATION''))]
          (Inr \<lparr>ra_classification = c, ra_reason = the_str reason, ra_deferred_action = action,
                ra_executor_replay_allowed = truthy replay\<rparr>))))"

definition assessment :: "recovery_classification \<Rightarrow> string \<Rightarrow> pyexc + recovery_assessment" where
  "assessment c reason = RecoveryAssessment (PyStr (class_text c)) (PyStr reason) PyNone (PyBool False)"

definition publication_assessment ::
    "recovery_classification \<Rightarrow> string \<Rightarrow> publication_evidence \<Rightarrow> pyexc + recovery_assessment" where
  "publication_assessment action reason publication =
     (if store_available publication = YES then assessment action reason
      else RecoveryAssessment (PyStr (class_text DEFER_PUBLICATION))
        (PyStr (reason @ ''_publication_unavailable'')) (PyStr (class_text action)) (PyBool False))"

section \<open>The classifier\<close>

definition completed_report_proven :: "recovery_envelope \<Rightarrow> bool" where
  "completed_report_proven env \<longleftrightarrow>
     process_created (env_lifecycle env) = YES \<and> process_exited (env_lifecycle env) = YES
     \<and> final_marker_valid (env_report env) = YES \<and> materialized (env_report env) = YES
     \<and> integrity_valid (env_report env) = YES"

text \<open>The dictionary of reconciliations, in which a later entry replaces an earlier one.\<close>

definition reconciliation_for :: "push_reconciliation list \<Rightarrow> string \<Rightarrow> push_reconciliation option" where
  "reconciliation_for recs effect = map_of (rev (map (\<lambda>r. (pr_effect_id r, r)) recs)) effect"

fun evaluate_effects ::
    "push_reconciliation list \<Rightarrow> push_effect list \<Rightarrow> pyexc + recovery_assessment" where
  "evaluate_effects recs [] = assessment NO_ACTION ''push_effects_resolved''"
| "evaluate_effects recs (effect # effects) =
     (let found = reconciliation_for recs (pe_effect_id effect) in
      if (case found of None \<Rightarrow> False
          | Some r \<Rightarrow> pr_target_id r \<noteq> pe_target_id effect
              \<or> pr_expected_object r \<noteq> pe_expected_object effect
              \<or> (pe_precondition_object effect \<noteq> None
                 \<and> pr_precondition_object r \<noteq> pe_precondition_object effect))
      then assessment CONFLICT ''push_reconciliation_identity_mismatch''
      else if pe_confirmed effect then
        (if (case found of None \<Rightarrow> False | Some r \<Rightarrow> pr_state r \<noteq> EXACT_APPLIED)
         then assessment CONFLICT ''push_confirmation_contradicts_reconciliation''
         else evaluate_effects recs effects)
      else (case found of
          None \<Rightarrow> assessment REQUIRE_RECOVERY ''push_intent_unresolved''
        | Some r \<Rightarrow>
            if pr_state r \<in> {AMBIGUOUS, RESOLUTION_UNKNOWN}
            then assessment REQUIRE_RECOVERY ''push_reconciliation_ambiguous''
            else if pe_precondition_object effect \<noteq> None \<and> pr_state r = EXACT_NOT_APPLIED
                 \<and> pr_observed_object r \<noteq> pe_precondition_object effect
            then assessment CONFLICT ''push_reconciliation_precondition_mismatch''
            else evaluate_effects recs effects))"

definition evaluate_push_effects :: "recovery_envelope \<Rightarrow> pyexc + recovery_assessment" where
  "evaluate_push_effects env =
     res_bind (push_effects (env_wal env)) (\<lambda>effects.
       if sorted_difference (map pr_effect_id (env_reconciliations env)) (map pe_effect_id effects) \<noteq> []
       then assessment CONFLICT ''push_reconciliation_without_matching_intent''
       else evaluate_effects (env_reconciliations env) effects)"

definition effect_applied :: "push_reconciliation list \<Rightarrow> push_effect \<Rightarrow> bool" where
  "effect_applied recs effect \<longleftrightarrow> pe_confirmed effect
     \<or> (case reconciliation_for recs (pe_effect_id effect) of
          None \<Rightarrow> False | Some r \<Rightarrow> pr_state r = EXACT_APPLIED)"

definition any_push_applied :: "recovery_envelope \<Rightarrow> pyexc + bool" where
  "any_push_applied env =
     res_bind (push_effects (env_wal env)) (\<lambda>effects.
       Inr (list_ex (effect_applied (env_reconciliations env)) effects))"

definition classify_interrupted :: "recovery_envelope \<Rightarrow> pyexc + recovery_assessment" where
  "classify_interrupted env =
     (let lifecycle = env_lifecycle env; containment = env_containment env in
      res_bind (evaluate_push_effects env) (\<lambda>push_status.
      if ra_classification push_status = CONFLICT then Inr push_status
      else if process_created lifecycle = UNKNOWN
      then assessment REQUIRE_RECOVERY ''process_creation_unknown''
      else if process_created lifecycle = NO then
        res_bind (push_effects (env_wal env)) (\<lambda>effects.
        if effects \<noteq> [] then assessment CONFLICT ''push_wal_exists_without_created_executor''
        else if project_egress_observed containment \<noteq> NO
        then assessment REQUIRE_RECOVERY ''no_process_but_no_positive_no_egress_evidence''
        else if local_effects_reconciled containment \<noteq> YES
        then assessment REQUIRE_RECOVERY ''no_process_local_effects_not_proven_clear''
        else publication_assessment PUBLISH_INTERRUPTED_REPORT ''executor_process_never_created''
          (env_publication env))
      else if process_exited lifecycle \<noteq> YES
      then assessment REQUIRE_RECOVERY ''executor_exit_not_proven''
      else if containment_intact containment \<noteq> YES
      then assessment REQUIRE_RECOVERY ''containment_integrity_not_proven''
      else if local_effects_reconciled containment \<noteq> YES
      then assessment REQUIRE_RECOVERY ''local_effects_not_reconciled''
      else if project_egress_observed containment = UNKNOWN
      then assessment REQUIRE_RECOVERY ''project_egress_unknown''
      else if unclassified_project_egress containment \<noteq> NO
      then assessment REQUIRE_RECOVERY ''unclassified_project_egress_not_proven_absent''
      else if ra_classification push_status = REQUIRE_RECOVERY then Inr push_status
      else
        res_bind (push_effects (env_wal env)) (\<lambda>effects.
        if project_egress_observed containment = YES then
          (if effects = [] then assessment REQUIRE_RECOVERY ''project_egress_without_effect_specific_proof''
           else publication_assessment PUBLISH_INTERRUPTED_REPORT ''interrupted_run_effects_reconciled''
             (env_publication env))
        else res_bind (any_push_applied env) (\<lambda>applied.
          if applied then assessment CONFLICT ''applied_push_contradicts_positive_no_egress_evidence''
          else publication_assessment PUBLISH_INTERRUPTED_REPORT ''interrupted_run_effects_reconciled''
            (env_publication env)))))"

definition classify_recovery ::
    "canonical_snapshot \<Rightarrow> recovery_envelope \<Rightarrow> pyexc + recovery_assessment" where
  "classify_recovery canonical env =
     (let disposition = env_disposition env in
      if disposition = CONFLICTING then assessment CONFLICT ''local_evidence_conflict''
      else (case relation_to canonical (env_identity env) of
          REPORT_ALREADY_PUBLISHED \<Rightarrow> assessment SUPERSEDED ''canonical_report_already_published''
        | IDENTITY_MISMATCH \<Rightarrow> assessment CONFLICT ''canonical_identity_mismatch''
        | STATE_ADVANCED \<Rightarrow>
            (if disposition \<in> {RECONCILED, SUPERSEDED_LOCALLY}
             then assessment SUPERSEDED ''canonical_state_advanced_past_local_terminal_evidence''
             else assessment CONFLICT ''canonical_state_advanced_while_local_evidence_pending'')
        | EXACT_RUNNING_LEASE \<Rightarrow>
            (if disposition \<in> {RECONCILED, SUPERSEDED_LOCALLY}
             then assessment CONFLICT ''local_terminal_evidence_contradicts_exact_running_lease''
             else if completed_report_proven env
             then publication_assessment PUBLISH_COMPLETED_REPORT ''completed_report_proven''
               (env_publication env)
             else if final_marker_valid (env_report env) = YES
             then assessment REQUIRE_RECOVERY ''final_marker_without_complete_report_integrity''
             else if report_outcome (env_report env) = Some ''SUCCESS''
             then assessment REQUIRE_RECOVERY ''interrupted_report_claims_success''
             else if env_command_kind env = FINALIZE
             then assessment REQUIRE_RECOVERY ''finalize_completion_not_proven''
             else classify_interrupted env)))"

section \<open>What the classifier authorises\<close>

text \<open>The publication an assessment authorises, now or once the store is available.\<close>

definition authorises :: "recovery_assessment \<Rightarrow> recovery_classification option" where
  "authorises a =
     (if ra_classification a = DEFER_PUBLICATION then ra_deferred_action a
      else if ra_classification a \<in> {PUBLISH_COMPLETED_REPORT, PUBLISH_INTERRUPTED_REPORT}
        then Some (ra_classification a) else None)"

definition verdict :: "recovery_classification \<Rightarrow> string \<Rightarrow> recovery_assessment" where
  "verdict c reason = \<lparr>ra_classification = c, ra_reason = reason, ra_deferred_action = None,
     ra_executor_replay_allowed = False\<rparr>"

lemma verdict_simps [simp]:
  "ra_classification (verdict c r) = c" "ra_deferred_action (verdict c r) = None"
  "\<not> ra_executor_replay_allowed (verdict c r)"
  by (simp_all add: verdict_def)

lemma authorises_verdict [simp]:
  "authorises (verdict c r) =
     (if c \<in> {PUBLISH_COMPLETED_REPORT, PUBLISH_INTERRUPTED_REPORT} then Some c else None)"
  by (simp add: authorises_def)

lemma assessment_verdict [simp]:
  "c \<noteq> DEFER_PUBLICATION \<Longrightarrow> strip reason \<noteq> [] \<Longrightarrow> assessment c reason = Inr (verdict c reason)"
  by (simp add: assessment_def RecoveryAssessment_def verdict_def enum_value_def enum_call_def
      run_checks_pass truthy_def)

lemma RecoveryAssessment_no_replay:
  "RecoveryAssessment c r d x = Inr a \<Longrightarrow> \<not> ra_executor_replay_allowed a"
  by (auto simp: RecoveryAssessment_def run_checks_Inr res_bind_Inr_iff)

lemma publication_assessment_verdict:
  assumes "action \<in> {PUBLISH_COMPLETED_REPORT, PUBLISH_INTERRUPTED_REPORT}" "\<not> is_space c"
  shows "\<exists>a. publication_assessment action (c # reason) publication = Inr a
     \<and> authorises a = Some action \<and> \<not> ra_executor_replay_allowed a
     \<and> (ra_classification a \<in> {PUBLISH_COMPLETED_REPORT, PUBLISH_INTERRUPTED_REPORT} \<longrightarrow>
          store_available publication = YES)"
  using assms
  by (auto simp: publication_assessment_def authorises_def RecoveryAssessment_def enum_value_def
      enum_call_def run_checks_pass truthy_def)

text \<open>
  \<open>settled recs e\<close>: the fate of a push effect is known.  A confirmed effect is not contradicted;
  an unconfirmed one was looked up on the remote, for the same target, object and precondition,
  and found applied or not applied.
\<close>

definition settled :: "push_reconciliation list \<Rightarrow> push_effect \<Rightarrow> bool" where
  "settled recs e \<longleftrightarrow>
     (case reconciliation_for recs (pe_effect_id e) of
        None \<Rightarrow> pe_confirmed e
      | Some r \<Rightarrow> pr_target_id r = pe_target_id e \<and> pr_expected_object r = pe_expected_object e
          \<and> (pe_precondition_object e \<noteq> None \<longrightarrow> pr_precondition_object r = pe_precondition_object e)
          \<and> (if pe_confirmed e then pr_state r = EXACT_APPLIED
             else pr_state r \<in> {EXACT_APPLIED, EXACT_NOT_APPLIED}))"

definition log_effects :: "recovery_envelope \<Rightarrow> push_effect list" where
  "log_effects env = map (effect_of (wal_events (env_wal env)))
     (filter (\<lambda>e. we_kind e = PUSH_INTENT) (wal_events (env_wal env)))"

definition effects_settled :: "recovery_envelope \<Rightarrow> bool" where
  "effects_settled env \<longleftrightarrow>
     pr_effect_id ` set (env_reconciliations env) \<subseteq> pe_effect_id ` set (log_effects env)
     \<and> (\<forall>e \<in> set (log_effects env). settled (env_reconciliations env) e)"

definition wf_envelope :: "recovery_envelope \<Rightarrow> bool" where
  "wf_envelope env \<longleftrightarrow> list_all wf_event (wal_events (env_wal env)) \<and> wal_valid (wal_events (env_wal env))
     \<and> wal_identity (env_wal env) = env_identity env
     \<and> list_all wf_reconciliation (env_reconciliations env)
     \<and> distinct (map pr_effect_id (env_reconciliations env))"

lemma reconciliation_for_mem: "reconciliation_for recs i = Some r \<Longrightarrow> r \<in> set recs \<and> pr_effect_id r = i"
  unfolding reconciliation_for_def by (auto dest!: map_of_SomeD)

lemma nonblank_letters [simp]:
  "\<not> is_space CHR ''p''" "\<not> is_space CHR ''c''" "\<not> is_space CHR ''l''" "\<not> is_space CHR ''f''"
  "\<not> is_space CHR ''i''" "\<not> is_space CHR ''n''" "\<not> is_space CHR ''e''" "\<not> is_space CHR ''u''"
  "\<not> is_space CHR ''a''"
  by (simp_all add: is_space_def)

lemma evaluate_effects_total:
  "list_all wf_reconciliation recs \<Longrightarrow>
     \<exists>a. evaluate_effects recs effs = Inr a
       \<and> ra_classification a \<in> {NO_ACTION, REQUIRE_RECOVERY, CONFLICT}
       \<and> authorises a = None \<and> \<not> ra_executor_replay_allowed a
       \<and> (ra_classification a = NO_ACTION \<longleftrightarrow> (\<forall>e \<in> set effs. settled recs e))"
proof (induction effs)
  case (Cons e effs)
  have pre: "pr_observed_object r = pe_precondition_object e"
    if "reconciliation_for recs (pe_effect_id e) = Some r" "pe_precondition_object e \<noteq> None"
      "pr_precondition_object r = pe_precondition_object e" "pr_state r = EXACT_NOT_APPLIED" for r
    using that Cons.prems reconciliation_for_mem [OF that(1)]
    by (auto simp: list_all_iff wf_reconciliation_def)
  show ?case
  proof (cases "reconciliation_for recs (pe_effect_id e)")
    case None
    then show ?thesis using Cons by (simp add: settled_def Let_def)
  next
    case (Some r)
    obtain a where a: "evaluate_effects recs effs = Inr a"
      "ra_classification a \<in> {NO_ACTION, REQUIRE_RECOVERY, CONFLICT}" "authorises a = None"
      "\<not> ra_executor_replay_allowed a"
      "ra_classification a = NO_ACTION \<longleftrightarrow> (\<forall>e \<in> set effs. settled recs e)"
      using Cons.IH [OF Cons.prems] by blast
    have "settled recs e \<longleftrightarrow> pr_target_id r = pe_target_id e \<and> pr_expected_object r = pe_expected_object e
        \<and> (pe_precondition_object e \<noteq> None \<longrightarrow> pr_precondition_object r = pe_precondition_object e)
        \<and> (if pe_confirmed e then pr_state r = EXACT_APPLIED
           else pr_state r \<in> {EXACT_APPLIED, EXACT_NOT_APPLIED})"
      using Some by (simp add: settled_def)
    with a pre [OF Some] show ?thesis
      by (cases "pr_state r") (auto simp: Some Let_def)
  qed
qed simp

lemma wf_envelope_effects: "wf_envelope env \<Longrightarrow> push_effects (env_wal env) = Inr (log_effects env)"
  by (simp add: wf_envelope_def log_effects_def push_effects_valid)

lemma evaluate_push_effects_total:
  assumes "wf_envelope env"
  shows "\<exists>a. evaluate_push_effects env = Inr a
       \<and> ra_classification a \<in> {NO_ACTION, REQUIRE_RECOVERY, CONFLICT}
       \<and> authorises a = None \<and> \<not> ra_executor_replay_allowed a
       \<and> (ra_classification a = NO_ACTION \<longleftrightarrow> effects_settled env)
       \<and> (log_effects env = [] \<longrightarrow> ra_classification a \<noteq> REQUIRE_RECOVERY)"
proof (cases "set (map pr_effect_id (env_reconciliations env)) \<subseteq> set (map pe_effect_id (log_effects env))")
  case True
  have "list_all wf_reconciliation (env_reconciliations env)" using assms by (simp add: wf_envelope_def)
  from evaluate_effects_total [OF this, of "log_effects env"] show ?thesis
    using True by (auto simp: evaluate_push_effects_def wf_envelope_effects [OF assms] effects_settled_def)
next
  case False
  then show ?thesis
    by (auto simp: evaluate_push_effects_def wf_envelope_effects [OF assms] effects_settled_def)
qed

text \<open>
  \<open>interrupted_safe\<close>: a report of the interruption may be published.  The run claims no final
  success, was no FINALIZE, the fate of every push is known and the local effects are reconciled;
  and either the executor never existed and left no push and no egress, or it exited inside an
  intact containment with all egress classified and accounted for.
\<close>

definition interrupted_safe :: "recovery_envelope \<Rightarrow> bool" where
  "interrupted_safe env \<longleftrightarrow>
     final_marker_valid (env_report env) \<noteq> YES \<and> report_outcome (env_report env) \<noteq> Some ''SUCCESS''
     \<and> env_command_kind env = EXECUTE \<and> effects_settled env
     \<and> local_effects_reconciled (env_containment env) = YES
     \<and> (process_created (env_lifecycle env) = NO \<and> log_effects env = []
          \<and> project_egress_observed (env_containment env) = NO
        \<or> process_created (env_lifecycle env) = YES \<and> process_exited (env_lifecycle env) = YES
          \<and> containment_intact (env_containment env) = YES
          \<and> unclassified_project_egress (env_containment env) = NO
          \<and> (project_egress_observed (env_containment env) = YES \<and> log_effects env \<noteq> []
             \<or> project_egress_observed (env_containment env) = NO
               \<and> (\<forall>e \<in> set (log_effects env). \<not> effect_applied (env_reconciliations env) e)))"

definition leased :: "canonical_snapshot \<Rightarrow> recovery_envelope \<Rightarrow> bool" where
  "leased canonical env \<longleftrightarrow>
     relation_to canonical (env_identity env) = EXACT_RUNNING_LEASE \<and> env_disposition env = PENDING"

text \<open>The last four conjuncts of every statement about the classifier.\<close>

definition sound_verdict ::
    "recovery_envelope \<Rightarrow> recovery_classification option \<Rightarrow> pyexc + recovery_assessment \<Rightarrow> bool" where
  "sound_verdict env action r \<longleftrightarrow>
     (\<exists>a. r = Inr a \<and> authorises a = action \<and> \<not> ra_executor_replay_allowed a
        \<and> (ra_classification a \<in> {PUBLISH_COMPLETED_REPORT, PUBLISH_INTERRUPTED_REPORT} \<longrightarrow>
             store_available (env_publication env) = YES))"

lemma sound_verdict_plain [simp]:
  "c \<notin> {DEFER_PUBLICATION, PUBLISH_COMPLETED_REPORT, PUBLISH_INTERRUPTED_REPORT} \<Longrightarrow>
     sound_verdict env action (Inr (verdict c r)) \<longleftrightarrow> action = None"
  by (auto simp: sound_verdict_def)

lemma sound_verdict_publication [simp]:
  assumes "action \<in> {PUBLISH_COMPLETED_REPORT, PUBLISH_INTERRUPTED_REPORT}" "\<not> is_space c"
  shows "sound_verdict env (Some action) (publication_assessment action (c # r) (env_publication env))"
  unfolding sound_verdict_def by (rule publication_assessment_verdict [OF assms])

lemma classify_interrupted_sound:
  assumes wf: "wf_envelope env"
    and early: "final_marker_valid (env_report env) \<noteq> YES"
      "report_outcome (env_report env) \<noteq> Some ''SUCCESS''" "env_command_kind env = EXECUTE"
  shows "sound_verdict env (if interrupted_safe env then Some PUBLISH_INTERRUPTED_REPORT else None)
     (classify_interrupted env)"
proof -
  obtain a where a: "evaluate_push_effects env = Inr a"
    "ra_classification a \<in> {NO_ACTION, REQUIRE_RECOVERY, CONFLICT}" "authorises a = None"
    "\<not> ra_executor_replay_allowed a" "ra_classification a = NO_ACTION \<longleftrightarrow> effects_settled env"
    "log_effects env = [] \<longrightarrow> ra_classification a \<noteq> REQUIRE_RECOVERY"
    using evaluate_push_effects_total [OF wf] by blast
  have push: "sound_verdict env action (Inr a) \<longleftrightarrow> action = None" for action
    using a(2,3,4) by (auto simp: sound_verdict_def)
  have effs: "push_effects (env_wal env) = Inr (log_effects env)"
    using wf by (rule wf_envelope_effects)
  have applied: "any_push_applied env =
      Inr (\<exists>e \<in> set (log_effects env). effect_applied (env_reconciliations env) e)"
    by (simp add: any_push_applied_def effs list_ex_iff)
  note simps = classify_interrupted_def interrupted_safe_def Let_def a(1) effs applied push early
  show ?thesis
  proof (cases "process_created (env_lifecycle env)")
    case YES
    then show ?thesis
      using a(2,5,6)
      by (cases "project_egress_observed (env_containment env)") (auto simp: simps)
  next
    case NO
    then show ?thesis using a(2,5,6) by (auto simp: simps)
  next
    case UNKNOWN
    then show ?thesis using a(2) by (auto simp: simps)
  qed
qed

lemma classify_recovery_sound:
  assumes "wf_envelope env"
  shows "sound_verdict env
     (if leased canonical env \<and> completed_report_proven env then Some PUBLISH_COMPLETED_REPORT
      else if leased canonical env \<and> interrupted_safe env then Some PUBLISH_INTERRUPTED_REPORT
      else None) (classify_recovery canonical env)"
proof -
  consider "leased canonical env" | "\<not> leased canonical env" by blast
  then show ?thesis
  proof cases
    case 1
    show ?thesis
    proof (cases "final_marker_valid (env_report env) \<noteq> YES
        \<and> report_outcome (env_report env) \<noteq> Some ''SUCCESS'' \<and> env_command_kind env = EXECUTE")
      case True
      then show ?thesis
        using 1 classify_interrupted_sound [OF assms]
        by (simp add: classify_recovery_def leased_def Let_def completed_report_proven_def)
    next
      case False
      then have "\<not> interrupted_safe env" by (auto simp: interrupted_safe_def)
      with 1 False show ?thesis
        by (cases "env_command_kind env") (auto simp: classify_recovery_def leased_def Let_def)
    qed
  next
    case 2
    then show ?thesis
      by (cases "relation_to canonical (env_identity env)"; cases "env_disposition env")
         (simp_all add: classify_recovery_def leased_def)
  qed
qed

text \<open>
  C17: the recovery classifier is total on constructed evidence, never authorises a replay of the
  executor, and authorises a publication exactly where it may.  The completed report: only under
  the exact running lease with pending local evidence and a fully proven report.  The interrupted
  report: only under that lease with every effect of the run accounted for.  It tells the caller
  to publish now only while the store is available.
\<close>

theorem classify_recovery_authorises:
  assumes "wf_envelope env"
  shows "\<exists>a. classify_recovery canonical env = Inr a \<and> \<not> ra_executor_replay_allowed a
     \<and> authorises a =
         (if leased canonical env \<and> completed_report_proven env then Some PUBLISH_COMPLETED_REPORT
          else if leased canonical env \<and> interrupted_safe env then Some PUBLISH_INTERRUPTED_REPORT
          else None)
     \<and> (ra_classification a \<in> {PUBLISH_COMPLETED_REPORT, PUBLISH_INTERRUPTED_REPORT} \<longrightarrow>
          store_available (env_publication env) = YES)"
  using classify_recovery_sound [OF assms, of canonical] unfolding sound_verdict_def by blast

definition sample_envelope :: recovery_envelope where
  "sample_envelope = \<lparr>env_schema_version = 1, env_identity = sample_identity, env_command_kind = EXECUTE,
     env_disposition = PENDING, env_lifecycle = \<lparr>process_created = YES, process_exited = YES\<rparr>,
     env_report = \<lparr>final_marker_valid = UNKNOWN, materialized = UNKNOWN, integrity_valid = UNKNOWN,
       report_outcome = Some ''BLOCKED''\<rparr>,
     env_containment = \<lparr>containment_intact = YES, project_egress_observed = YES,
       unclassified_project_egress = NO, local_effects_reconciled = YES\<rparr>,
     env_publication = \<lparr>store_available = NO\<rparr>,
     env_wal = \<lparr>wal_schema_version = 1, wal_identity = sample_identity, wal_events = sample_log\<rparr>,
     env_reconciliations = []\<rparr>"

definition sample_snapshot :: canonical_snapshot where
  "sample_snapshot = \<lparr>cs_project_id = ''p'', cs_status = ''CODEX_RUNNING'', cs_generation = 6,
     cs_latest_command = 3, cs_latest_report = 2, cs_active_identity = Some sample_identity\<rparr>"

lemma sample_envelope_wf: "wf_envelope sample_envelope"
proof -
  have "wal_scan 0 [] [] sample_log = None" by code_simp
  then have "wal_valid sample_log" using wal_scan_valid [OF sample_log_wf] by simp
  then show ?thesis using sample_log_wf by (simp add: wf_envelope_def sample_envelope_def)
qed

theorem classify_recovery_authorises_witness:
  "\<exists>a. classify_recovery sample_snapshot sample_envelope = Inr a
     \<and> authorises a = Some PUBLISH_INTERRUPTED_REPORT \<and> ra_classification a = DEFER_PUBLICATION"
proof -
  have "leased sample_snapshot sample_envelope" "\<not> completed_report_proven sample_envelope"
    "interrupted_safe sample_envelope"
    by code_simp+
  moreover have "map_sum (\<lambda>_. ()) ra_classification (classify_recovery sample_snapshot sample_envelope)
      = Inr DEFER_PUBLICATION" by code_simp
  ultimately show ?thesis
    using classify_recovery_authorises [OF sample_envelope_wf, of sample_snapshot] by auto
qed

section \<open>Legacy journals\<close>

definition legacy_disposition :: "py \<Rightarrow> pyexc + py" where
  "legacy_disposition v =
     (case map_of [(''pending'', ''PENDING''), (''reconciled'', ''RECONCILED''),
         (''superseded'', ''SUPERSEDED''), (''conflict'', ''CONFLICT'')]
         (py_casefold (strip (py_str (if truthy v then v else PyStr ''pending'')))) of
        Some d \<Rightarrow> Inr (PyStr d)
      | None \<Rightarrow> Inl (RecoveryEvidenceError ''legacy journal has unsupported journal_status''))"

definition mapping_text :: "pydict \<Rightarrow> string \<Rightarrow> pyexc + py" where
  "mapping_text m key = run_checks
     [ensure (has_text (dget m key))
        (RecoveryEvidenceError (''legacy journal '' @ key @ '' must be non-empty text''))]
     (Inr (dget m key))"

definition mapping_int :: "pydict \<Rightarrow> string \<Rightarrow> int \<Rightarrow> pyexc + py" where
  "mapping_int m key minimum = run_checks [ev_require_int (dget m key) key minimum] (Inr (dget m key))"

definition optional_bool :: "py \<Rightarrow> pyexc + bool option" where
  "optional_bool v = (case v of PyNone \<Rightarrow> Inr None | PyBool b \<Rightarrow> Inr (Some b)
     | _ \<Rightarrow> Inl (RecoveryEvidenceError ''legacy boolean evidence must be bool or None''))"

definition legacy_local_effects :: "bool option list \<Rightarrow> evidence_state" where
  "legacy_local_effects facts =
     (if list_ex (\<lambda>f. f = Some True) facts then NO
      else if list_all (\<lambda>f. f = Some False) facts then YES
      else UNKNOWN)"

definition legacy_marker_state :: "py \<Rightarrow> evidence_state" where
  "legacy_marker_state v =
     (if py_upper (strip (py_str (if truthy v then v else PyStr []))) \<in>
          set [''NETWORK_INTERRUPTED'', ''MISSING'', ''INVALID'', ''FAILED'', ''BLOCKED'']
      then NO else UNKNOWN)"

definition envelope_from_legacy_journal :: "pydict \<Rightarrow> py \<Rightarrow> pyexc + recovery_envelope" where
  "envelope_from_legacy_journal journal command_kind =
     res_bind (mapping_text journal ''project_id'') (\<lambda>project.
     res_bind (mapping_int journal ''command_id'' 1) (\<lambda>command.
     res_bind (mapping_text journal ''run_id'') (\<lambda>run.
     res_bind (mapping_int journal ''claim_generation'' 0) (\<lambda>generation.
     res_bind (RunIdentity project command run generation) (\<lambda>ident.
     res_bind (legacy_disposition (dget journal ''journal_status'')) (\<lambda>disposition.
     res_bind (optional_bool (dget journal ''worktree_dirty'')) (\<lambda>dirty.
     res_bind (optional_bool (dget journal ''local_commit_created'')) (\<lambda>local_commit.
     res_bind (optional_bool (dget journal ''unpushed_commits_present'')) (\<lambda>unpushed.
     res_bind (RecoveryWal (PyInt RECOVERY_WAL_SCHEMA_VERSION) ident []) (\<lambda>wal.
     RecoveryEnvelope (PyInt RECOVERY_ENVELOPE_SCHEMA_VERSION) ident command_kind disposition
       \<lparr>process_created = UNKNOWN, process_exited = UNKNOWN\<rparr>
       \<lparr>final_marker_valid = legacy_marker_state (dget journal ''marker_status''),
        materialized = UNKNOWN, integrity_valid = UNKNOWN, report_outcome = None\<rparr>
       \<lparr>containment_intact = UNKNOWN, project_egress_observed = UNKNOWN,
        unclassified_project_egress = UNKNOWN,
        local_effects_reconciled = legacy_local_effects [dirty, local_commit, unpushed]\<rparr>
       \<lparr>store_available = UNKNOWN\<rparr> wal []))))))))))"

lemma legacy_marker_state_not_YES [simp]: "legacy_marker_state v \<noteq> YES" "YES \<noteq> legacy_marker_state v"
  by (auto simp: legacy_marker_state_def)

lemma legacy_envelope_shape:
  assumes "envelope_from_legacy_journal journal kind = Inr env"
  shows "wf_envelope env" "process_created (env_lifecycle env) = UNKNOWN"
    "final_marker_valid (env_report env) \<noteq> YES"
  using assms
  by (auto simp: envelope_from_legacy_journal_def res_bind_Inr_iff RecoveryEnvelope_def RecoveryWal_def
      run_checks_Inr wf_envelope_def wal_valid_def)

text \<open>
  A legacy journal never leads to a publication.  Whatever it claims, and whatever the
  canonical state is, its envelope is classified as a conflict, superseded, or in need of
  recovery: missing provenance stays unknown.
\<close>

theorem legacy_journal_never_publishes:
  assumes "envelope_from_legacy_journal journal kind = Inr env"
  shows "\<exists>a. classify_recovery canonical env = Inr a \<and> authorises a = None
     \<and> \<not> ra_executor_replay_allowed a"
proof -
  note shape = legacy_envelope_shape [OF assms]
  have "\<not> completed_report_proven env" "\<not> interrupted_safe env"
    using shape(2,3) by (auto simp: completed_report_proven_def interrupted_safe_def)
  then show ?thesis
    using classify_recovery_sound [OF shape(1), of canonical] by (auto simp: sound_verdict_def)
qed

theorem legacy_journal_never_publishes_witness:
  "\<exists>env a. envelope_from_legacy_journal [(''project_id'', PyStr ''p''), (''command_id'', PyInt 3),
      (''run_id'', PyStr ''run-1''), (''claim_generation'', PyInt 6), (''marker_status'', PyStr ''missing''),
      (''worktree_dirty'', PyBool False)] (PyStr ''EXECUTE'') = Inr env
    \<and> classify_recovery sample_snapshot env = Inr a \<and> authorises a = None"
proof -
  let ?j = "[(''project_id'', PyStr ''p''), (''command_id'', PyInt 3),
      (''run_id'', PyStr ''run-1''), (''claim_generation'', PyInt 6), (''marker_status'', PyStr ''missing''),
      (''worktree_dirty'', PyBool False)]"
  have "returns (envelope_from_legacy_journal ?j (PyStr ''EXECUTE''))" by code_simp
  then obtain env where env: "envelope_from_legacy_journal ?j (PyStr ''EXECUTE'') = Inr env"
    by (auto simp: returns_iff)
  with legacy_journal_never_publishes [OF env, of sample_snapshot] show ?thesis by blast
qed

end
