(* ===== verification/Effects.thy ===== *)
theory Effects
  imports Run_Models
begin

text \<open>
  \<open>worker/vnext_runtime/effects.py\<close>: the ownership scope of run effects.  An operation takes the
  scope and returns its result and the scope after it, which an exception does not undo.  The
  object identity of \<open>_owner_token\<close> is a natural number.  The parameter \<open>disp\<close> is what calling
  \<open>dispose\<close> on a disposable does, the exception it raises if any; a disposer does not call back
  into the scope that is disposing it.  \<open>es_calls\<close> records these calls, with the id of the
  registration each was made for; the code has no such field.
\<close>

section \<open>The scope\<close>

record effect_handle =
  eh_scope_id :: string
  eh_registration_id :: nat
  eh_owner_token :: nat

record 'd registration =
  reg_handle :: effect_handle
  reg_disposable :: 'd
  reg_active :: bool

record 'd effect_scope =
  es_scope_id :: string
  es_owner_token :: nat
  es_registrations :: "'d registration list"
  es_next_id :: nat
  es_closed :: bool
  es_disposal_errors :: "pyexc list"
  es_calls :: "nat list"

definition EffectScope :: "nat \<Rightarrow> py \<Rightarrow> pyexc + 'd effect_scope" where
  "EffectScope token scope_id = run_checks
     [ensure (nonempty_str scope_id) (ValueError ''Effect scope id must be a non-empty string.'')]
     (Inr \<lparr>es_scope_id = the_str scope_id, es_owner_token = token, es_registrations = [], es_next_id = 1,
           es_closed = False, es_disposal_errors = [], es_calls = []\<rparr>)"

definition effect_own :: "'d \<Rightarrow> 'd effect_scope \<Rightarrow> (pyexc + effect_handle) \<times> 'd effect_scope" where
  "effect_own d s =
     (if es_closed s then (Inl (EffectScopeClosedError (''Effect scope is already closed: '' @ es_scope_id s)), s)
      else let handle = \<lparr>eh_scope_id = es_scope_id s, eh_registration_id = es_next_id s,
                         eh_owner_token = es_owner_token s\<rparr> in
        (Inr handle,
         s\<lparr>es_next_id := es_next_id s + 1,
           es_registrations := es_registrations s
             @ [\<lparr>reg_handle = handle, reg_disposable = d, reg_active = True\<rparr>]\<rparr>))"

definition reg_id :: "'d registration \<Rightarrow> nat" where
  "reg_id r = eh_registration_id (reg_handle r)"

definition effect_find :: "effect_handle \<Rightarrow> 'd effect_scope \<Rightarrow> pyexc + 'd registration option" where
  "effect_find h s =
     (if eh_owner_token h \<noteq> es_owner_token s
      then Inl (EffectOwnershipError (''Effect handle belongs to scope '' @ repr_str (eh_scope_id h)
        @ '', not '' @ repr_str (es_scope_id s) @ ''.''))
      else Inr (find (\<lambda>r. reg_id r = eh_registration_id h) (es_registrations s)))"

text \<open>\<open>registration.active = False\<close> on the first registration with the id.\<close>

fun deactivate :: "nat \<Rightarrow> 'd registration list \<Rightarrow> 'd registration list" where
  "deactivate i [] = []"
| "deactivate i (r # rs) = (if reg_id r = i then r\<lparr>reg_active := False\<rparr> # rs else r # deactivate i rs)"

definition effect_release ::
    "('d \<Rightarrow> pyexc option) \<Rightarrow> effect_handle \<Rightarrow> 'd effect_scope \<Rightarrow> (pyexc + unit) \<times> 'd effect_scope" where
  "effect_release disp h s =
     (case effect_find h s of
        Inl e \<Rightarrow> (Inl e, s)
      | Inr None \<Rightarrow> (Inr (), s)
      | Inr (Some r) \<Rightarrow>
          if \<not> reg_active r then (Inr (), s)
          else (Inr (),
            s\<lparr>es_registrations := deactivate (reg_id r) (es_registrations s),
              es_calls := es_calls s @ [reg_id r],
              es_disposal_errors := es_disposal_errors s
                @ (case disp (reg_disposable r) of None \<Rightarrow> [] | Some e \<Rightarrow> [e])\<rparr>))"

definition effect_close ::
    "('d \<Rightarrow> pyexc option) \<Rightarrow> 'd effect_scope \<Rightarrow> pyexc list \<times> 'd effect_scope" where
  "effect_close disp s =
     (if es_closed s then (es_disposal_errors s, s)
      else let due = rev (filter reg_active (es_registrations s));
               errors = es_disposal_errors s @ List.map_filter (\<lambda>r. disp (reg_disposable r)) due in
        (errors,
         s\<lparr>es_closed := True,
           es_registrations := map (\<lambda>r. r\<lparr>reg_active := False\<rparr>) (es_registrations s),
           es_calls := es_calls s @ map reg_id due,
           es_disposal_errors := errors\<rparr>))"

definition raise_if_disposal_failed :: "'d effect_scope \<Rightarrow> pyexc option" where
  "raise_if_disposal_failed s =
     (if es_disposal_errors s \<noteq> [] then Some (EffectDisposalError (length (es_disposal_errors s))) else None)"

definition effect_enter :: "'d effect_scope \<Rightarrow> pyexc option" where
  "effect_enter s =
     (if es_closed s then Some (EffectScopeClosedError (''Effect scope is already closed: '' @ es_scope_id s))
      else None)"

section \<open>The contract of an effect owner\<close>

text \<open>
  What an owner of effects relies on, in terms of the ids of the effects it registered and of the
  calls made so far.  A release calls at most the one effect it names, and no effect twice; a
  close calls the remaining ones in reverse order.
\<close>

locale effect_owner =
  fixes own :: "'d \<Rightarrow> 's \<Rightarrow> (pyexc + 'h) \<times> 's"
    and release :: "'h \<Rightarrow> 's \<Rightarrow> (pyexc + unit) \<times> 's"
    and close :: "'s \<Rightarrow> pyexc list \<times> 's"
    and owned :: "'s \<Rightarrow> nat list"
    and calls :: "'s \<Rightarrow> nat list"
    and ok :: "'s \<Rightarrow> bool"
  assumes ok_calls: "ok s \<Longrightarrow> distinct (owned s) \<and> distinct (calls s) \<and> set (calls s) \<subseteq> set (owned s)"
    and own_law: "ok s \<Longrightarrow> own d s = (r, s') \<Longrightarrow>
        ok s' \<and> calls s' = calls s \<and> (s' = s \<or> (\<exists>i. i \<notin> set (owned s) \<and> owned s' = owned s @ [i]))"
    and release_law: "ok s \<Longrightarrow> release h s = (x, s') \<Longrightarrow>
        ok s' \<and> owned s' = owned s \<and> (\<exists>new. calls s' = calls s @ new \<and> length new \<le> 1)"
    and close_law: "ok s \<Longrightarrow> close s = (errs, s') \<Longrightarrow>
        ok s' \<and> owned s' = owned s
        \<and> calls s' = calls s @ rev (filter (\<lambda>i. i \<notin> set (calls s)) (owned s))"
begin

lemma closed_exactly_once:
  assumes "ok s" "close s = (errs, s')"
  shows "distinct (calls s') \<and> set (calls s') = set (owned s')"
  using close_law [OF assms] ok_calls [OF assms(1)] ok_calls [of s'] by auto

lemma close_idempotent:
  assumes "ok s" "close s = (errs, s')" "close s' = (errs', s'')"
  shows "calls s'' = calls s'"
proof -
  have "ok s'" "set (calls s') = set (owned s')"
    using close_law [OF assms(1,2)] closed_exactly_once [OF assms(1,2)] by simp_all
  then show ?thesis using close_law [OF _ assms(3)] by simp
qed

lemma calls_grow:
  assumes "ok s"
  shows "own d s = (r, s') \<Longrightarrow> calls s' = calls s"
    and "release h s = (r', s') \<Longrightarrow> \<exists>new. calls s' = calls s @ new"
    and "close s = (errs, s') \<Longrightarrow> \<exists>new. calls s' = calls s @ new"
  using own_law [OF assms] release_law [OF assms] close_law [OF assms] by blast+

end

section \<open>The scope fulfils the contract\<close>

definition es_owned :: "'d effect_scope \<Rightarrow> nat list" where
  "es_owned s = map reg_id (es_registrations s)"

definition wf_scope :: "'d effect_scope \<Rightarrow> bool" where
  "wf_scope s \<longleftrightarrow>
     distinct (es_owned s) \<and> (\<forall>i \<in> set (es_owned s). i < es_next_id s)
     \<and> distinct (es_calls s)
     \<and> (\<forall>r \<in> set (es_registrations s). reg_active r \<longleftrightarrow> reg_id r \<notin> set (es_calls s))
     \<and> set (es_calls s) \<subseteq> set (es_owned s)
     \<and> (es_closed s \<longrightarrow> (\<forall>r \<in> set (es_registrations s). \<not> reg_active r))"

lemma EffectScope_wf: "EffectScope token i = Inr s \<Longrightarrow> wf_scope s \<and> es_calls s = [] \<and> es_owned s = []"
  by (auto simp: EffectScope_def run_checks_Inr wf_scope_def es_owned_def)

lemma reg_id_deactivated [simp]: "reg_id (r\<lparr>reg_active := b\<rparr>) = reg_id r"
  by (simp add: reg_id_def)

lemma map_reg_id_deactivate [simp]: "map reg_id (deactivate i rs) = map reg_id rs"
  by (induction rs) auto

lemma set_deactivate:
  "distinct (map reg_id rs) \<Longrightarrow> r \<in> set (deactivate i rs) \<longleftrightarrow>
     (if reg_id r = i then \<exists>r' \<in> set rs. reg_id r' = i \<and> r = r'\<lparr>reg_active := False\<rparr> else r \<in> set rs)"
  by (induction rs) (auto simp: image_iff)

lemma own_wf:
  assumes "wf_scope s" "effect_own d s = (r, s')"
  shows "wf_scope s' \<and> es_calls s' = es_calls s
    \<and> (s' = s \<or> (\<exists>i. i \<notin> set (es_owned s) \<and> es_owned s' = es_owned s @ [i]))"
proof (cases "es_closed s")
  case True
  then show ?thesis using assms by (simp add: effect_own_def)
next
  case False
  have fresh: "es_next_id s \<notin> set (es_owned s)" "es_next_id s \<notin> set (es_calls s)"
    using assms(1) by (auto simp: wf_scope_def)
  have s': "s' = s\<lparr>es_next_id := es_next_id s + 1, es_registrations := es_registrations s
      @ [\<lparr>reg_handle = \<lparr>eh_scope_id = es_scope_id s, eh_registration_id = es_next_id s,
            eh_owner_token = es_owner_token s\<rparr>, reg_disposable = d, reg_active = True\<rparr>]\<rparr>"
    using assms(2) False by (simp add: effect_own_def Let_def)
  have ids: "es_owned s' = es_owned s @ [es_next_id s]"
    by (simp add: s' es_owned_def reg_id_def)
  moreover have "wf_scope s'"
    using assms(1) fresh False unfolding wf_scope_def ids
    by (auto simp: s' reg_id_def less_Suc_eq)
  ultimately show ?thesis using fresh by (simp add: s')
qed

lemma release_wf:
  assumes "wf_scope s" "effect_release disp h s = (r, s')"
  shows "wf_scope s' \<and> es_owned s' = es_owned s
    \<and> (\<exists>new. es_calls s' = es_calls s @ new \<and> length new \<le> 1)"
proof (cases "s' = s")
  case True
  with assms show ?thesis by (intro conjI exI [of _ "[]"]) auto
next
  case False
  then obtain g where g: "find (\<lambda>r. reg_id r = eh_registration_id h) (es_registrations s) = Some g"
    "reg_active g"
    and s': "s' = s\<lparr>es_registrations := deactivate (reg_id g) (es_registrations s),
              es_calls := es_calls s @ [reg_id g],
              es_disposal_errors := es_disposal_errors s
                @ (case disp (reg_disposable g) of None \<Rightarrow> [] | Some e \<Rightarrow> [e])\<rparr>"
    using assms(2)
    by (auto simp: effect_release_def effect_find_def split: sum.splits option.splits if_splits)
  have mem: "g \<in> set (es_registrations s)" using g(1) by (auto simp: find_Some_iff)
  have d: "distinct (map reg_id (es_registrations s))" using assms(1) by (simp add: wf_scope_def es_owned_def)
  have owned: "es_owned s' = es_owned s" by (simp add: s' es_owned_def)
  have "wf_scope s'"
    using assms(1) g(2) mem unfolding wf_scope_def owned
    by (auto simp: s' set_deactivate [OF d] es_owned_def split: if_splits)
  with owned show ?thesis by (simp add: s')
qed

lemma close_wf:
  assumes "wf_scope s" "effect_close disp s = (errs, s')"
  shows "wf_scope s' \<and> es_owned s' = es_owned s
    \<and> es_calls s' = es_calls s @ rev (filter (\<lambda>i. i \<notin> set (es_calls s)) (es_owned s))"
proof (cases "es_closed s")
  case True
  then have "filter (\<lambda>i. i \<notin> set (es_calls s)) (es_owned s) = []"
    using assms(1) by (auto simp: wf_scope_def es_owned_def filter_empty_conv)
  then show ?thesis using True assms by (simp add: effect_close_def)
next
  case False
  have act: "filter reg_active (es_registrations s) = filter (\<lambda>r. reg_id r \<notin> set (es_calls s)) (es_registrations s)"
    using assms(1) by (intro filter_cong) (auto simp: wf_scope_def)
  have due: "map reg_id (rev (filter reg_active (es_registrations s)))
      = rev (filter (\<lambda>i. i \<notin> set (es_calls s)) (es_owned s))"
    by (simp add: act es_owned_def rev_map filter_map comp_def)
  have s': "es_registrations s' = map (\<lambda>r. r\<lparr>reg_active := False\<rparr>) (es_registrations s)" "es_closed s'"
    "es_next_id s' = es_next_id s"
    "es_calls s' = es_calls s @ rev (filter (\<lambda>i. i \<notin> set (es_calls s)) (es_owned s))"
    using assms(2) False due by (auto simp: effect_close_def Let_def)
  then have owned: "es_owned s' = es_owned s" by (simp add: es_owned_def comp_def)
  have "wf_scope s'"
    using assms(1) unfolding wf_scope_def owned by (auto simp: s' es_owned_def)
  with owned s' show ?thesis by simp
qed

interpretation effect_scope: effect_owner effect_own "effect_release disp" "effect_close disp"
  es_owned es_calls wf_scope for disp
proof unfold_locales
  fix s :: "'a effect_scope"
  show "wf_scope s \<Longrightarrow> distinct (es_owned s) \<and> distinct (es_calls s) \<and> set (es_calls s) \<subseteq> set (es_owned s)"
    by (simp add: wf_scope_def)
qed (blast intro: own_wf release_wf close_wf dest: own_wf release_wf close_wf)+

end
