(* ===== verification/Run_Scope.thy ===== *)
theory Run_Scope
  imports Effects Protocol_Lifecycle
begin

text \<open>
  \<open>worker/vnext_runtime/run_scope.py\<close>: the local owner of one claimed run.  A resource is given by
  the attributes the scope reads of it; \<open>None\<close> in \<open>rsrc_launcher\<close> means that the attribute is absent.
  A path is the list of its components.  As in \<open>Effects\<close> an operation returns its result and the
  scope after it, and an exception does not undo what the operation did before.  The callback
  \<open>event_logger\<close> is only stored by the class and is left out.
\<close>

section \<open>Lifecycle states\<close>

datatype run_scope_state = CREATED | ACTIVE | COMPLETING | DISPOSING | CLOSED

definition state_rank :: "run_scope_state \<Rightarrow> nat" where
  "state_rank s = (case s of CREATED \<Rightarrow> 0 | ACTIVE \<Rightarrow> 1 | COMPLETING \<Rightarrow> 2 | DISPOSING \<Rightarrow> 3 | CLOSED \<Rightarrow> 4)"

lemma state_rank_inject: "state_rank a = state_rank b \<Longrightarrow> a = b"
  by (cases a; cases b) (simp_all add: state_rank_def)

text \<open>The order in which a scope passes through its states.\<close>

instantiation run_scope_state :: linorder
begin

definition less_eq_run_scope_state :: "run_scope_state \<Rightarrow> run_scope_state \<Rightarrow> bool" where
  "less_eq_run_scope_state a b \<longleftrightarrow> state_rank a \<le> state_rank b"

definition less_run_scope_state :: "run_scope_state \<Rightarrow> run_scope_state \<Rightarrow> bool" where
  "less_run_scope_state a b \<longleftrightarrow> state_rank a < state_rank b"

instance
  by standard (auto simp: less_eq_run_scope_state_def less_run_scope_state_def dest: state_rank_inject)

end

lemma CREATED_least [simp]: "CREATED \<le> s" and CLOSED_greatest [simp]: "s \<le> CLOSED"
  by (cases s; simp add: less_eq_run_scope_state_def state_rank_def)+

definition state_text :: "run_scope_state \<Rightarrow> string" where
  "state_text s = (case s of CREATED \<Rightarrow> ''CREATED'' | ACTIVE \<Rightarrow> ''ACTIVE'' | COMPLETING \<Rightarrow> ''COMPLETING''
     | DISPOSING \<Rightarrow> ''DISPOSING'' | CLOSED \<Rightarrow> ''CLOSED'')"

section \<open>Artifacts and resources\<close>

type_synonym path = "string list"

definition path_name :: "path \<Rightarrow> string" where
  "path_name p = (if p = [] then [] else last p)"

record run_artifacts =
  art_run_dir :: path
  art_final_message :: path
  art_stdout_log :: path
  art_stderr_log :: path

definition from_run_dir :: "path \<Rightarrow> string \<Rightarrow> pyexc + run_artifacts" where
  "from_run_dir dir run =
     (if path_name dir \<noteq> run
      then Inl (RunScopeError (''Run directory '' @ join ''/'' dir @ '' does not belong to run ''
             @ repr_str run @ ''.''))
      else Inr \<lparr>art_run_dir = dir, art_final_message = dir @ [''final-message.txt''],
                art_stdout_log = dir @ [''stdout.log''], art_stderr_log = dir @ [''stderr.log'']\<rparr>)"

record launcher =
  ln_key :: nat
  ln_is_contained :: bool
  ln_can_bind :: bool

record resource =
  rsrc_key :: nat
  rsrc_identity :: "run_identity option"
  rsrc_launcher :: "launcher option option"

section \<open>The scope\<close>

record run_scope =
  rs_identity :: run_identity
  rs_effects :: "resource effect_scope"
  rs_state :: run_scope_state
  rs_artifacts :: "run_artifacts option"
  rs_provider_id :: "string option"
  rs_provider_invoked :: bool
  rs_containment :: "resource option"
  rs_process_launcher :: "launcher option"

type_synonym 'a scope_result = "(pyexc + 'a) \<times> run_scope"

text \<open>\<open>RunScope(identity, run_dir=...)\<close>; \<open>token\<close> is the identity of the fresh owner token.\<close>

definition RunScope :: "nat \<Rightarrow> run_identity \<Rightarrow> path option \<Rightarrow> pyexc + run_scope" where
  "RunScope token ident run_dir =
     res_bind (EffectScope token (PyStr (id_run ident))) (\<lambda>effects.
     res_bind (case run_dir of
         Some dir \<Rightarrow> res_bind (from_run_dir dir (id_run ident)) (\<lambda>a. Inr (Some a))
       | None \<Rightarrow> Inr None) (\<lambda>artifacts.
     Inr \<lparr>rs_identity = ident, rs_effects = effects, rs_state = CREATED, rs_artifacts = artifacts,
          rs_provider_id = None, rs_provider_invoked = False, rs_containment = None,
          rs_process_launcher = None\<rparr>))"

definition unless_none :: "py \<Rightarrow> py \<Rightarrow> py" where
  "unless_none v w = (if v \<noteq> PyNone then v else w)"

definition from_claimed_state ::
    "nat \<Rightarrow> py \<Rightarrow> py \<Rightarrow> py \<Rightarrow> py \<Rightarrow> path option \<Rightarrow> pyexc + run_scope" where
  "from_claimed_state token state project_id command_id run_id run_dir =
     (let d = the_dict state;
          active = dget d ''active_run'';
          lease = the_dict active;
          actual_project = unless_none project_id (dget d ''project_id'');
          actual_command = unless_none command_id (dget lease ''command_id'');
          actual_run = unless_none run_id (dget lease ''run_id'');
          claimed_generation = dget lease ''claimed_generation'';
          latest = dget d ''latest_command'' in
      run_checks
        [ensure (is_dict state \<and> py_eq (dget d ''status'') (PyStr ''CODEX_RUNNING''))
           (RunScopeError ''RunScope requires a claimed CODEX_RUNNING state.''),
         ensure (is_dict active) (RunScopeError ''Claimed state is missing its active_run identity.''),
         ensure (is_str actual_project) (RunScopeError ''Claimed state does not identify a project.''),
         ensure (is_int actual_command) (RunScopeError ''Claimed state does not identify a command.''),
         ensure (is_str actual_run) (RunScopeError ''Claimed state does not identify a run.''),
         ensure (py_eq (dget_or lease ''project_id'' actual_project) actual_project)
           (RunScopeError ''Claimed active_run project identity does not match.''),
         ensure (py_eq (dget lease ''command_id'') actual_command)
           (RunScopeError ''Claimed active_run command identity does not match.''),
         ensure (py_eq (dget lease ''run_id'') actual_run)
           (RunScopeError ''Claimed active_run run identity does not match.''),
         ensure (is_int claimed_generation)
           (RunScopeError ''Claimed active_run is missing claimed_generation.''),
         ensure (py_eq (dget d ''generation'') claimed_generation)
           (RunScopeError ''Claimed generation is not the current state generation.''),
         check_hashable latest,
         ensure (py_eq latest PyNone \<or> py_eq latest actual_command)
           (RunScopeError ''Claimed command is not the canonical latest command.'')]
        (res_bind (RunIdentity actual_project actual_command actual_run claimed_generation) (\<lambda>ident.
           RunScope token ident run_dir)))"

section \<open>Operations\<close>

definition rs_require :: "run_scope_state \<Rightarrow> run_scope \<Rightarrow> pyexc option" where
  "rs_require expected s = ensure (rs_state s = expected)
     (RunScopeError (''Expected run scope state '' @ state_text expected @ '', current state is ''
        @ state_text (rs_state s) @ ''.''))"

definition rs_activate :: "run_scope \<Rightarrow> unit scope_result" where
  "rs_activate s = (case rs_require CREATED s of
     Some e \<Rightarrow> (Inl e, s) | None \<Rightarrow> (Inr (), s\<lparr>rs_state := ACTIVE\<rparr>))"

definition rs_begin_completion :: "run_scope \<Rightarrow> unit scope_result" where
  "rs_begin_completion s =
     (if rs_state s = COMPLETING then (Inr (), s)
      else case rs_require ACTIVE s of
        Some e \<Rightarrow> (Inl e, s) | None \<Rightarrow> (Inr (), s\<lparr>rs_state := COMPLETING\<rparr>))"

definition rs_own :: "resource \<Rightarrow> run_scope \<Rightarrow> effect_handle scope_result" where
  "rs_own d s =
     (if rs_state s \<noteq> ACTIVE
      then (Inl (RunScopeError (''Run scope must be ACTIVE to own an effect, current state is ''
             @ state_text (rs_state s) @ ''.'')), s)
      else case effect_own d (rs_effects s) of (r, effects) \<Rightarrow> (r, s\<lparr>rs_effects := effects\<rparr>))"

definition rs_own_guard :: "resource \<Rightarrow> run_scope \<Rightarrow> effect_handle scope_result" where
  "rs_own_guard guard s = rs_own guard s"

definition containment_checks :: "resource \<Rightarrow> launcher option \<Rightarrow> run_scope \<Rightarrow> pyexc option list" where
  "containment_checks c l s =
     [ensure (rs_containment s = None) (RunScopeError ''RunScope already owns a containment resource.''),
      ensure (rsrc_identity c = Some (rs_identity s))
        (RunScopeError ''containment resource is not owned by this exact RunScope.''),
      ensure (case l of None \<Rightarrow> False | Some pl \<Rightarrow> ln_is_contained pl)
        (RunScopeError ''contained process launcher is required with containment.''),
      ensure (case l of None \<Rightarrow> False | Some pl \<Rightarrow> ln_can_bind pl)
        (RunScopeError ''contained process launcher cannot bind the exact containment.''),
      ensure (case (rsrc_launcher c, l) of
            (None, _) \<Rightarrow> True
          | (Some (Some rl), Some pl) \<Rightarrow> ln_key rl = ln_key pl
          | _ \<Rightarrow> False)
        (RunScopeError ''containment resource and process launcher are not the same boundary.'')]"

definition rs_own_containment ::
    "resource \<Rightarrow> launcher option \<Rightarrow> run_scope \<Rightarrow> effect_handle scope_result" where
  "rs_own_containment c l s =
     (case first_raise (containment_checks c l s) of
        Some e \<Rightarrow> (Inl e, s)
      | None \<Rightarrow>
          (case rs_own c s of
             (Inl e, s') \<Rightarrow> (Inl e, s')
           | (Inr h, s') \<Rightarrow> (Inr h, s'\<lparr>rs_containment := Some c, rs_process_launcher := l\<rparr>)))"

definition rs_pin_provider :: "py \<Rightarrow> run_scope \<Rightarrow> unit scope_result" where
  "rs_pin_provider pid s =
     (if \<not> has_text pid then (Inl (ValueError ''provider_id must be a non-empty string.''), s)
      else if rs_state s \<noteq> ACTIVE
        then (Inl (RunScopeError ''Provider pinning requires an ACTIVE RunScope.''), s)
      else (case rs_provider_id s of
          None \<Rightarrow> (Inr (), s\<lparr>rs_provider_id := Some (the_str pid)\<rparr>)
        | Some pinned \<Rightarrow>
            if pinned \<noteq> the_str pid
            then (Inl (RunScopeError (''RunScope provider is pinned to '' @ repr_str pinned @ '', not ''
                   @ repr_str (the_str pid) @ ''.'')), s)
            else (Inr (), s)))"

definition rs_begin_provider_execution :: "py \<Rightarrow> run_scope \<Rightarrow> unit scope_result" where
  "rs_begin_provider_execution pid s =
     (case rs_pin_provider pid s of
        (Inl e, s1) \<Rightarrow> (Inl e, s1)
      | (Inr _, s1) \<Rightarrow>
          if rs_provider_invoked s1
          then (Inl (RunScopeError ''A provider execution has already started for this scope.''), s1)
          else (Inr (), s1\<lparr>rs_provider_invoked := True\<rparr>))"

definition rs_release ::
    "(resource \<Rightarrow> pyexc option) \<Rightarrow> effect_handle \<Rightarrow> run_scope \<Rightarrow> unit scope_result" where
  "rs_release disp h s =
     (if rs_state s \<in> {DISPOSING, CLOSED} then (Inr (), s)
      else case effect_release disp h (rs_effects s) of (r, effects) \<Rightarrow> (r, s\<lparr>rs_effects := effects\<rparr>))"

definition rs_close :: "(resource \<Rightarrow> pyexc option) \<Rightarrow> run_scope \<Rightarrow> pyexc list \<times> run_scope" where
  "rs_close disp s =
     (if rs_state s = CLOSED then (es_disposal_errors (rs_effects s), s)
      else let s1 = (if rs_state s \<in> {CREATED, ACTIVE} then s\<lparr>rs_state := COMPLETING\<rparr> else s);
               s2 = s1\<lparr>rs_state := DISPOSING\<rparr> in
        (case effect_close disp (rs_effects s2) of
           (errors, effects) \<Rightarrow> (errors, s2\<lparr>rs_effects := effects, rs_state := CLOSED\<rparr>)))"

section \<open>Runs of operations\<close>

datatype scope_op =
    Activate
  | Begin_Completion
  | Own resource
  | Own_Containment resource "launcher option"
  | Pin_Provider py
  | Begin_Provider_Execution py
  | Release effect_handle
  | Close

definition discard :: "'a scope_result \<Rightarrow> (pyexc + unit) \<times> run_scope" where
  "discard r = (case r of (Inl e, s) \<Rightarrow> (Inl e, s) | (Inr _, s) \<Rightarrow> (Inr (), s))"

fun scope_apply ::
    "(resource \<Rightarrow> pyexc option) \<Rightarrow> scope_op \<Rightarrow> run_scope \<Rightarrow> (pyexc + unit) \<times> run_scope" where
  "scope_apply disp Activate s = rs_activate s"
| "scope_apply disp Begin_Completion s = rs_begin_completion s"
| "scope_apply disp (Own d) s = discard (rs_own d s)"
| "scope_apply disp (Own_Containment c l) s = discard (rs_own_containment c l s)"
| "scope_apply disp (Pin_Provider p) s = rs_pin_provider p s"
| "scope_apply disp (Begin_Provider_Execution p) s = rs_begin_provider_execution p s"
| "scope_apply disp (Release h) s = rs_release disp h s"
| "scope_apply disp Close s = (Inr (), snd (rs_close disp s))"

text \<open>One call by the owner of the scope, labelled with the operation and whether it returned.\<close>

inductive scope_step ::
    "(resource \<Rightarrow> pyexc option) \<Rightarrow> run_scope \<Rightarrow> scope_op \<times> bool \<Rightarrow> run_scope \<Rightarrow> bool" for disp where
  call: "scope_apply disp op s = (r, s') \<Longrightarrow> scope_step disp s (op, returns r) s'"

inductive scope_run ::
    "(resource \<Rightarrow> pyexc option) \<Rightarrow> run_scope \<Rightarrow> (scope_op \<times> bool) list \<Rightarrow> run_scope \<Rightarrow> bool" for disp where
  stop: "scope_run disp s [] s"
| more: "scope_step disp s l s' \<Longrightarrow> scope_run disp s' ls s'' \<Longrightarrow> scope_run disp s (l # ls) s''"

inductive_cases scope_stepE: "scope_step disp s l s'"
inductive_cases scope_run_ConsE: "scope_run disp s (l # ls) s'"
inductive_simps scope_run_simps [simp]: "scope_run disp s [] s'" "scope_run disp s (l # ls) s'"
inductive_simps scope_step_simps [simp]: "scope_step disp s (op, b) s'"

section \<open>One operation\<close>

lemmas scope_op_defs = rs_activate_def rs_begin_completion_def rs_own_def rs_own_containment_def
  rs_pin_provider_def rs_begin_provider_execution_def rs_release_def rs_close_def rs_require_def discard_def

lemma discard_state [simp]: "snd (discard r) = snd r"
  by (cases r; cases "fst r") (auto simp: discard_def)

lemma rs_own_state [simp]:
  "rs_state (snd (rs_own d s)) = rs_state s" "rs_provider_id (snd (rs_own d s)) = rs_provider_id s"
  "rs_provider_invoked (snd (rs_own d s)) = rs_provider_invoked s"
  by (simp_all add: rs_own_def split: prod.split)

lemma rs_own_containment_cases:
  "snd (rs_own_containment c l s) \<in>
     {s, snd (rs_own c s), (snd (rs_own c s))\<lparr>rs_containment := Some c, rs_process_launcher := l\<rparr>}"
  by (cases "rs_own c s"; cases "fst (rs_own c s)")
     (auto simp: rs_own_containment_def split: option.split)

lemma rs_own_containment_state [simp]:
  "rs_state (snd (rs_own_containment c l s)) = rs_state s"
  "rs_provider_id (snd (rs_own_containment c l s)) = rs_provider_id s"
  "rs_provider_invoked (snd (rs_own_containment c l s)) = rs_provider_invoked s"
  using rs_own_containment_cases [of c l s] by auto

lemma rs_own_containment_effects:
  "rs_effects (snd (rs_own_containment c l s)) \<in> {rs_effects s, rs_effects (snd (rs_own c s))}"
  using rs_own_containment_cases [of c l s] by auto

lemma rs_release_state [simp]:
  "rs_state (snd (rs_release disp h s)) = rs_state s"
  "rs_provider_id (snd (rs_release disp h s)) = rs_provider_id s"
  "rs_provider_invoked (snd (rs_release disp h s)) = rs_provider_invoked s"
  by (simp_all add: rs_release_def split: prod.split)

lemma rs_close_state [simp]:
  "rs_state (snd (rs_close disp s)) = CLOSED" "rs_provider_id (snd (rs_close disp s)) = rs_provider_id s"
  "rs_provider_invoked (snd (rs_close disp s)) = rs_provider_invoked s"
  by (simp_all add: rs_close_def Let_def split: prod.split)

lemma rs_pin_state [simp]:
  "rs_state (snd (rs_pin_provider p s)) = rs_state s" "rs_effects (snd (rs_pin_provider p s)) = rs_effects s"
  "rs_provider_invoked (snd (rs_pin_provider p s)) = rs_provider_invoked s"
  by (auto simp: rs_pin_provider_def split: option.split)

lemma rs_begin_cases:
  "snd (rs_begin_provider_execution p s) \<in>
     {snd (rs_pin_provider p s), (snd (rs_pin_provider p s))\<lparr>rs_provider_invoked := True\<rparr>}"
  by (cases "rs_pin_provider p s"; cases "fst (rs_pin_provider p s)")
     (auto simp: rs_begin_provider_execution_def)

lemma rs_begin_state [simp]:
  "rs_state (snd (rs_begin_provider_execution p s)) = rs_state s"
  "rs_effects (snd (rs_begin_provider_execution p s)) = rs_effects s"
  "rs_provider_id (snd (rs_begin_provider_execution p s)) = rs_provider_id (snd (rs_pin_provider p s))"
  using rs_begin_cases [of p s] by auto

lemma apply_state: "rs_state s \<le> rs_state (snd (scope_apply disp op s))"
  by (cases op)
     (auto simp: rs_activate_def rs_begin_completion_def rs_require_def ensure_def
       less_eq_run_scope_state_def state_rank_def split: run_scope_state.split)

lemma apply_frozen:
  assumes "rs_state s = CLOSED"
  shows "snd (scope_apply disp op s) = s"
proof (cases op)
  case (Own_Containment c l)
  have "rs_own c s = (Inl (RunScopeError (''Run scope must be ACTIVE to own an effect, current state is ''
      @ state_text CLOSED @ ''.'')), s)"
    using assms by (simp add: rs_own_def)
  then show ?thesis
    by (simp add: Own_Containment rs_own_containment_def split: option.split)
qed (use assms in \<open>simp_all add: scope_op_defs split: option.split\<close>)

section \<open>Effects are disposed exactly once\<close>

definition scope_inv :: "run_scope \<Rightarrow> bool" where
  "scope_inv s \<longleftrightarrow> wf_scope (rs_effects s)
     \<and> (rs_state s = CLOSED \<longrightarrow> set (es_calls (rs_effects s)) = set (es_owned (rs_effects s)))"

lemma rs_own_wf: "wf_scope (rs_effects s) \<Longrightarrow> wf_scope (rs_effects (snd (rs_own d s)))"
  using effect_scope.own_law [of "rs_effects s" d] by (cases "effect_own d (rs_effects s)") (simp add: rs_own_def)

lemma rs_close_effects:
  assumes "scope_inv s"
  shows "wf_scope (rs_effects (snd (rs_close disp s)))
    \<and> es_owned (rs_effects (snd (rs_close disp s))) = es_owned (rs_effects s)
    \<and> es_calls (rs_effects (snd (rs_close disp s))) = es_calls (rs_effects s)
        @ rev (filter (\<lambda>i. i \<notin> set (es_calls (rs_effects s))) (es_owned (rs_effects s)))"
proof (cases "rs_state s = CLOSED")
  case True
  then show ?thesis using assms by (simp add: rs_close_def scope_inv_def)
next
  case False
  have "rs_effects (snd (rs_close disp s)) = snd (effect_close disp (rs_effects s))"
    using False by (simp add: rs_close_def Let_def split: prod.split)
  moreover have "wf_scope (rs_effects s)" using assms by (simp add: scope_inv_def)
  ultimately show ?thesis
    using effect_scope.close_law [of "rs_effects s" disp] by (cases "effect_close disp (rs_effects s)") simp
qed

lemma apply_inv:
  assumes "scope_inv s"
  shows "scope_inv (snd (scope_apply disp op s))"
proof (cases "rs_state s = CLOSED")
  case True
  then show ?thesis using assms apply_frozen by simp
next
  case False
  have wf: "wf_scope (rs_effects s)" using assms by (simp add: scope_inv_def)
  show ?thesis
  proof (cases op)
    case (Own d)
    then show ?thesis using wf False rs_own_wf by (simp add: scope_inv_def)
  next
    case (Own_Containment c l)
    then show ?thesis
      using wf False rs_own_wf [OF wf, of c] rs_own_containment_effects [of c l s]
      by (auto simp: scope_inv_def)
  next
    case (Release h)
    then show ?thesis
      using wf False effect_scope.release_law [OF wf, of disp h]
      by (auto simp: scope_inv_def rs_release_def split: prod.split)
  next
    case Close
    have "set (es_calls (rs_effects s)) \<subseteq> set (es_owned (rs_effects s))"
      using wf by (simp add: wf_scope_def)
    then show ?thesis using rs_close_effects [OF assms, of disp] Close by (auto simp: scope_inv_def)
  qed (use wf False in \<open>auto simp: scope_inv_def rs_activate_def rs_begin_completion_def rs_require_def ensure_def\<close>)
qed

lemma run_inv: "scope_run disp s ls s' \<Longrightarrow> scope_inv s \<Longrightarrow> scope_inv s'"
proof (induction rule: scope_run.induct)
  case (more s l s' ls s'')
  then show ?case using apply_inv by (metis scope_stepE snd_conv)
qed simp

lemma RunScope_fresh:
  assumes "RunScope token ident dir = Inr s"
  shows "scope_inv s \<and> rs_state s = CREATED \<and> \<not> rs_provider_invoked s \<and> rs_provider_id s = None
    \<and> rs_identity s = ident"
  using assms by (auto simp: RunScope_def res_bind_Inr_iff scope_inv_def dest: EffectScope_wf)

text \<open>
  C22: whatever operations its owner performs, and whichever disposers fail, a run scope disposes
  no effect twice and none it does not own; closing it disposes exactly the remaining effects, in
  reverse order of registration; and once it is closed every effect has been disposed once.
\<close>

theorem run_scope_disposes_exactly_once:
  assumes "RunScope token ident dir = Inr s0" "scope_run disp s0 ops s"
  shows "distinct (es_calls (rs_effects s)) \<and> set (es_calls (rs_effects s)) \<subseteq> set (es_owned (rs_effects s))
    \<and> es_calls (rs_effects (snd (rs_close disp s))) = es_calls (rs_effects s)
        @ rev (filter (\<lambda>i. i \<notin> set (es_calls (rs_effects s))) (es_owned (rs_effects s)))
    \<and> (rs_state s = CLOSED \<longrightarrow> set (es_calls (rs_effects s)) = set (es_owned (rs_effects s)))"
proof -
  have inv: "scope_inv s" using run_inv [OF assms(2)] RunScope_fresh [OF assms(1)] by blast
  then have "distinct (es_calls (rs_effects s)) \<and> set (es_calls (rs_effects s)) \<subseteq> set (es_owned (rs_effects s))"
    using effect_scope.ok_calls [of "rs_effects s"] by (simp add: scope_inv_def)
  with inv rs_close_effects [OF inv, of disp] show ?thesis by (simp add: scope_inv_def)
qed

text \<open>A concrete scope and a run of it in which the second of three disposers fails.\<close>

definition sample_run_identity :: run_identity where
  "sample_run_identity = \<lparr>id_project = ''p'', id_command = 3, id_run = ''run-1'', id_generation = 6\<rparr>"

definition sample_resource :: "nat \<Rightarrow> resource" where
  "sample_resource k = \<lparr>rsrc_key = k, rsrc_identity = None, rsrc_launcher = None\<rparr>"

definition sample_disp :: "resource \<Rightarrow> pyexc option" where
  "sample_disp d = (if rsrc_key d = 2 then Some (RuntimeError ''busy'') else None)"

definition sample_scope :: run_scope where
  "sample_scope = projr (RunScope 7 sample_run_identity None)"

lemma sample_scope_created: "RunScope 7 sample_run_identity None = Inr sample_scope"
  by (simp add: sample_scope_def RunScope_def EffectScope_def sample_run_identity_def run_checks_pass)

definition sample_ops :: "scope_op list" where
  "sample_ops = [Activate, Own (sample_resource 1), Own (sample_resource 2), Own (sample_resource 3),
     Begin_Provider_Execution (PyStr ''codex''), Begin_Provider_Execution (PyStr ''codex''), Close]"

text \<open>The run of a list of operations, with the labels it produces.\<close>

fun run_ops ::
    "(resource \<Rightarrow> pyexc option) \<Rightarrow> scope_op list \<Rightarrow> run_scope \<Rightarrow> (scope_op \<times> bool) list \<times> run_scope" where
  "run_ops disp [] s = ([], s)"
| "run_ops disp (op # ops) s =
     (case scope_apply disp op s of (r, s1) \<Rightarrow>
        (case run_ops disp ops s1 of (ls, s2) \<Rightarrow> ((op, returns r) # ls, s2)))"

lemma run_ops_scope_run: "scope_run disp s (fst (run_ops disp ops s)) (snd (run_ops disp ops s))"
proof (induction ops arbitrary: s)
  case (Cons op ops)
  obtain r s1 where a: "scope_apply disp op s = (r, s1)" by (cases "scope_apply disp op s")
  have "scope_run disp s ((op, returns r) # fst (run_ops disp ops s1)) (snd (run_ops disp ops s1))"
    by (rule scope_run.more [OF scope_step.call [OF a] Cons.IH])
  then show ?case by (simp add: a case_prod_unfold)
qed simp

theorem run_scope_disposes_exactly_once_witness:
  "distinct (es_calls (rs_effects (snd (run_ops sample_disp sample_ops sample_scope))))
    \<and> es_calls (rs_effects (snd (run_ops sample_disp sample_ops sample_scope))) = [3, 2, 1]"
proof -
  have "es_calls (rs_effects (snd (run_ops sample_disp sample_ops sample_scope))) = [3, 2, 1]" by code_simp
  with run_scope_disposes_exactly_once [OF sample_scope_created run_ops_scope_run, of sample_disp sample_ops]
  show ?thesis by blast
qed

text \<open>
  A run scope passes through its states in one direction only, and a closed scope is final:
  no operation changes it any more.
\<close>

theorem run_scope_lifecycle:
  assumes "scope_run disp s ops s'"
  shows "rs_state s \<le> rs_state s' \<and> (rs_state s = CLOSED \<longrightarrow> s' = s)"
  using assms
proof (induction rule: scope_run.induct)
  case (more s l s' ls s'')
  from more.hyps(1) obtain op where "s' = snd (scope_apply disp op s)"
    by (metis scope_stepE snd_conv)
  then have "rs_state s \<le> rs_state s'" "rs_state s = CLOSED \<longrightarrow> s' = s"
    using apply_state apply_frozen by auto
  with more.IH show ?case by auto
qed simp

theorem run_scope_lifecycle_witness:
  "CREATED \<le> rs_state (snd (run_ops sample_disp sample_ops sample_scope))
    \<and> rs_state (snd (run_ops sample_disp sample_ops sample_scope)) = CLOSED"
proof -
  have "rs_state sample_scope = CREATED"
    "rs_state (snd (run_ops sample_disp sample_ops sample_scope)) = CLOSED" by code_simp+
  with run_scope_lifecycle [OF run_ops_scope_run, of sample_scope sample_disp sample_ops] show ?thesis by simp
qed

section \<open>One provider, one execution\<close>

fun provider_of :: "scope_op \<Rightarrow> string option" where
  "provider_of (Pin_Provider p) = Some (the_str p)"
| "provider_of (Begin_Provider_Execution p) = Some (the_str p)"
| "provider_of _ = None"

fun starts_execution :: "scope_op \<times> bool \<Rightarrow> bool" where
  "starts_execution (Begin_Provider_Execution _, ok) = ok"
| "starts_execution _ = False"

lemma pin_provider_facts:
  "rs_provider_id s = Some p \<Longrightarrow> rs_provider_id (snd (rs_pin_provider q s)) = Some p"
  "returns (fst (rs_pin_provider q s)) \<Longrightarrow> rs_provider_id (snd (rs_pin_provider q s)) = Some (the_str q)"
  by (auto simp: rs_pin_provider_def split: option.splits if_splits)

lemma begin_execution_facts:
  "rs_provider_invoked s \<Longrightarrow> rs_provider_invoked (snd (rs_begin_provider_execution q s))"
  "returns (fst (rs_begin_provider_execution q s)) \<Longrightarrow>
     \<not> rs_provider_invoked s \<and> rs_provider_invoked (snd (rs_begin_provider_execution q s))
     \<and> returns (fst (rs_pin_provider q s))"
  using rs_pin_state(3) [of q s]
  by (cases "rs_pin_provider q s"; cases "fst (rs_pin_provider q s)";
      force simp: rs_begin_provider_execution_def split: if_splits)+

lemma plain_ops_provider [simp]:
  "rs_provider_id (snd (rs_activate s)) = rs_provider_id s"
  "rs_provider_invoked (snd (rs_activate s)) = rs_provider_invoked s"
  "rs_provider_id (snd (rs_begin_completion s)) = rs_provider_id s"
  "rs_provider_invoked (snd (rs_begin_completion s)) = rs_provider_invoked s"
  by (simp_all add: rs_activate_def rs_begin_completion_def split: option.split)

lemma apply_provider_pinned:
  "rs_provider_id s = Some p \<Longrightarrow> rs_provider_id (snd (scope_apply disp op s)) = Some p"
  by (cases op) (simp_all add: pin_provider_facts)

lemma apply_provider_invoked:
  "rs_provider_invoked s \<Longrightarrow> rs_provider_invoked (snd (scope_apply disp op s))"
  by (cases op) (simp_all add: begin_execution_facts)

lemma apply_starts_execution:
  "starts_execution (op, returns (fst (scope_apply disp op s))) \<Longrightarrow>
     \<not> rs_provider_invoked s \<and> rs_provider_invoked (snd (scope_apply disp op s))"
  by (cases op) (simp_all add: begin_execution_facts)

lemma apply_provider_of:
  "returns (fst (scope_apply disp op s)) \<Longrightarrow> provider_of op = Some p \<Longrightarrow>
     rs_provider_id (snd (scope_apply disp op s)) = Some p"
  by (cases op) (simp_all add: pin_provider_facts begin_execution_facts)

lemma run_provider:
  "scope_run disp s ops s' \<Longrightarrow>
     length (filter starts_execution ops) \<le> (if rs_provider_invoked s then 0 else 1)
     \<and> (rs_provider_id s = Some p \<longrightarrow> rs_provider_id s' = Some p)
     \<and> (\<forall>op. (op, True) \<in> set ops \<longrightarrow> provider_of op = Some p \<longrightarrow> rs_provider_id s' = Some p)"
proof (induction rule: scope_run.induct)
  case (more s l s' ls s'')
  from more.hyps(1) obtain op where l: "l = (op, returns (fst (scope_apply disp op s)))"
    and s': "s' = snd (scope_apply disp op s)"
    by (metis scope_stepE fst_conv snd_conv)
  have count: "length (filter starts_execution (l # ls)) \<le> (if rs_provider_invoked s then 0 else 1)"
    using more.IH apply_starts_execution [of op disp s] apply_provider_invoked [of s disp op]
    unfolding l s' by (cases "rs_provider_invoked s") (auto split: if_splits)
  show ?case
    using more.IH count apply_provider_pinned [of s p disp op] apply_provider_of [of disp op s p]
    unfolding s' by (auto simp: l)
qed simp

text \<open>
  C38: in the whole life of a run scope at most one provider execution starts, and every pin or
  start that succeeds names the same provider, the one the scope ends with.
\<close>

theorem provider_executes_at_most_once:
  assumes "RunScope token ident dir = Inr s0" "scope_run disp s0 ops s"
  shows "length (filter starts_execution ops) \<le> 1
    \<and> (\<forall>op p. (op, True) \<in> set ops \<longrightarrow> provider_of op = Some p \<longrightarrow> rs_provider_id s = Some p)"
  using run_provider [OF assms(2)] RunScope_fresh [OF assms(1)] by auto

theorem provider_executes_at_most_once_witness:
  "length (filter starts_execution (fst (run_ops sample_disp sample_ops sample_scope))) \<le> 1
    \<and> map snd (fst (run_ops sample_disp sample_ops sample_scope)) = [True, True, True, True, True, False, True]"
proof -
  have "map snd (fst (run_ops sample_disp sample_ops sample_scope))
      = [True, True, True, True, True, False, True]" by code_simp
  with provider_executes_at_most_once [OF sample_scope_created run_ops_scope_run, of sample_disp sample_ops]
  show ?thesis by blast
qed

section \<open>Claiming\<close>

lemma py_eq_optional_int_equal:
  assumes "py_eq v (PyInt i)" "\<not> is_bool v"
  shows "optional_int_equal v (PyInt i) = Inr True"
  using assms by (auto simp: py_eq_PyInt optional_int_equal_def py_int_def trunc_rat_def)

lemma from_claimed_stateD:
  assumes "from_claimed_state token (PyDict state) p c r dir = Inr s"
  obtains lease i where "dget state ''active_run'' = PyDict lease"
    "dget state ''status'' = PyStr ''CODEX_RUNNING''" "RunScope token i dir = Inr s" "wf_identity i"
    "py_eq (dget lease ''command_id'') (PyInt (id_command i))" "dget lease ''run_id'' = PyStr (id_run i)"
    "dget lease ''claimed_generation'' = PyInt (id_generation i)"
    "py_eq (dget state ''generation'') (PyInt (id_generation i))"
proof -
  let ?lease = "the_dict (dget state ''active_run'')"
  let ?p = "unless_none p (dget state ''project_id'')"
  let ?c = "unless_none c (dget ?lease ''command_id'')"
  let ?r = "unless_none r (dget ?lease ''run_id'')"
  let ?g = "dget ?lease ''claimed_generation''"
  obtain i where i: "RunIdentity ?p ?c ?r ?g = Inr i" "RunScope token i dir = Inr s"
    and g: "is_dict (dget state ''active_run'')" "dget state ''status'' = PyStr ''CODEX_RUNNING''"
      "is_str ?r" "is_int ?c" "is_int ?g" "py_eq (dget ?lease ''command_id'') ?c"
      "py_eq (dget ?lease ''run_id'') ?r" "py_eq (dget state ''generation'') ?g"
    using assms unfolding from_claimed_state_def Let_def run_checks_Inr res_bind_Inr_iff by auto
  have wf: "wf_identity i"
    using identity_ctor.build_valid [of "(?p, ?c, ?r, ?g)"] i(1) by simp
  have "?c = PyInt (id_command i)" "?r = PyStr (id_run i)" "?g = PyInt (id_generation i)"
    using i(1) by (auto simp: RunIdentity_def run_checks_Inr int_from_iff has_text_iff)
  with g i(2) wf show thesis by (intro that [of ?lease i]) (auto simp: is_dict_iff)
qed

text \<open>
  A run scope is derived only from an exact execution lease.  Where a scope is built from a
  canonical state whose generation and leased command are not booleans, that state carries the
  lease of exactly the scope's run, command and generation, and the scope's identity is valid.
\<close>

theorem claimed_scope_holds_the_lease:
  assumes claimed: "from_claimed_state token (PyDict state) p c r dir = Inr s"
    and lease: "dget state ''active_run'' = PyDict lease"
    and no_bools: "\<not> is_bool (dget state ''generation'')" "\<not> is_bool (dget lease ''command_id'')"
  shows "rs_state s = CREATED \<and> wf_identity (rs_identity s)
    \<and> matches_execution_lease state (PyStr (id_run (rs_identity s))) (PyInt (id_command (rs_identity s)))
        (PyInt (id_generation (rs_identity s))) None None None = Inr True"
  using claimed
proof (rule from_claimed_stateD)
  fix lease' i
  assume a: "dget state ''active_run'' = PyDict lease'" "dget state ''status'' = PyStr ''CODEX_RUNNING''"
    "RunScope token i dir = Inr s" "wf_identity i"
    "py_eq (dget lease' ''command_id'') (PyInt (id_command i))" "dget lease' ''run_id'' = PyStr (id_run i)"
    "dget lease' ''claimed_generation'' = PyInt (id_generation i)"
    "py_eq (dget state ''generation'') (PyInt (id_generation i))"
  note s = RunScope_fresh [OF a(3)]
  have "id_run i \<noteq> []" "1 \<le> id_command i" "0 \<le> id_generation i"
    using a(4) by (auto simp: wf_identity_def)
  then show ?thesis
    using a s lease no_bools py_eq_optional_int_equal
    by (simp add: matches_execution_lease_def)
qed

theorem claimed_scope_holds_the_lease_witness:
  "\<exists>s. from_claimed_state 1 (PyDict sample_running_state) PyNone PyNone PyNone None = Inr s
    \<and> matches_execution_lease sample_running_state (PyStr (id_run (rs_identity s)))
        (PyInt (id_command (rs_identity s))) (PyInt (id_generation (rs_identity s))) None None None = Inr True"
proof -
  have "returns (from_claimed_state 1 (PyDict sample_running_state) PyNone PyNone PyNone None)" by code_simp
  then obtain s where s: "from_claimed_state 1 (PyDict sample_running_state) PyNone PyNone PyNone None = Inr s"
    by (auto simp: returns_iff)
  have lease: "dget sample_running_state ''active_run'' = PyDict [(''run_id'', PyStr ''run-1''),
      (''command_id'', PyInt 3), (''claimed_generation'', PyInt 6), (''kind'', PyStr ''EXECUTE'')]"
    by (simp add: sample_running_state_def)
  have "\<not> is_bool (dget sample_running_state ''generation'')" by (simp add: sample_running_state_def)
  with s claimed_scope_holds_the_lease [OF s lease] show ?thesis by simp
qed

end
