(* ===== verification/Capabilities.thy ===== *)
theory Capabilities
  imports Run_Models
begin

text \<open>
  \<open>worker/vnext_runtime/capabilities.py\<close>: the registry of built-in capabilities.  A key is its
  non-blank name; the registry is the dictionary of registered values in insertion order.
\<close>

typedef capability_key = "{s. strip s \<noteq> []}"
  morphisms key_name Key
  by (rule exI [of _ "''x''"]) (simp add: is_space_def)

setup_lifting type_definition_capability_key

definition CapabilityKey :: "py \<Rightarrow> pyexc + capability_key" where
  "CapabilityKey name = run_checks
     [ensure (has_text name) (ValueError ''Capability key name must be a non-empty string.'')]
     (Inr (Key (the_str name)))"

type_synonym 'v capability_registry = "(string \<times> 'v) list"

definition cap_register ::
    "capability_key \<Rightarrow> 'v \<Rightarrow> 'v capability_registry \<Rightarrow> pyexc + 'v capability_registry" where
  "cap_register key v reg =
     (if map_of reg (key_name key) \<noteq> None then Inl (DuplicateCapabilityError (key_name key))
      else Inr (reg @ [(key_name key, v)]))"

definition cap_require :: "capability_key \<Rightarrow> 'v capability_registry \<Rightarrow> pyexc + 'v" where
  "cap_require key reg =
     (case map_of reg (key_name key) of
        Some v \<Rightarrow> Inr v
      | None \<Rightarrow> Inl (MissingCapabilityError (key_name key)))"

definition cap_get :: "capability_key \<Rightarrow> 'v capability_registry \<Rightarrow> 'v option" where
  "cap_get key reg = map_of reg (key_name key)"

definition cap_contains :: "capability_key \<Rightarrow> 'v capability_registry \<Rightarrow> bool" where
  "cap_contains key reg \<longleftrightarrow> map_of reg (key_name key) \<noteq> None"

definition cap_len :: "'v capability_registry \<Rightarrow> nat" where
  "cap_len reg = length reg"

section \<open>A write-once registry\<close>

text \<open>
  The contract its users rely on: a registration succeeds exactly for an absent key, makes that
  key and no other present, and never changes a value already registered.
\<close>

locale write_once =
  fixes register :: "'k \<Rightarrow> 'v \<Rightarrow> 's \<Rightarrow> pyexc + 's"
    and lookup :: "'k \<Rightarrow> 's \<Rightarrow> 'v option"
  assumes register_defined: "(\<exists>s'. register k v s = Inr s') \<longleftrightarrow> lookup k s = None"
    and lookup_registered: "register k v s = Inr s' \<Longrightarrow>
        lookup k' s' = (if k' = k then Some v else lookup k' s)"
begin

fun register_all :: "('k \<times> 'v) list \<Rightarrow> 's \<Rightarrow> pyexc + 's" where
  "register_all [] s = Inr s"
| "register_all ((k, v) # kvs) s = res_bind (register k v s) (register_all kvs)"

lemma registered_stays:
  "register_all kvs s = Inr s' \<Longrightarrow> lookup k s = Some v \<Longrightarrow> lookup k s' = Some v"
proof (induction kvs arbitrary: s)
  case (Cons kv kvs)
  obtain k' v' where kv: "kv = (k', v')" by (cases kv)
  from Cons.prems(1) obtain s1 where s1: "register k' v' s = Inr s1" "register_all kvs s1 = Inr s'"
    by (auto simp: kv res_bind_Inr_iff)
  have "k \<noteq> k'"
    using register_defined [of k' v' s] s1(1) Cons.prems(2) by auto
  then have "lookup k s1 = Some v" using lookup_registered [OF s1(1)] Cons.prems(2) by simp
  then show ?case by (rule Cons.IH [OF s1(2)])
qed simp

lemma register_all_lookup:
  "register_all kvs s = Inr s' \<Longrightarrow> (k, v) \<in> set kvs \<Longrightarrow> lookup k s' = Some v"
proof (induction kvs arbitrary: s)
  case (Cons kv kvs)
  obtain k' v' where kv: "kv = (k', v')" by (cases kv)
  from Cons.prems(1) obtain s1 where s1: "register k' v' s = Inr s1" "register_all kvs s1 = Inr s'"
    by (auto simp: kv res_bind_Inr_iff)
  show ?case
  proof (cases "(k, v) \<in> set kvs")
    case True
    then show ?thesis by (rule Cons.IH [OF s1(2)])
  next
    case False
    then have "k' = k" "v' = v" using Cons.prems(2) by (auto simp: kv)
    then have "lookup k s1 = Some v" using lookup_registered [OF s1(1)] by simp
    with s1(2) show ?thesis by (rule registered_stays)
  qed
qed simp

lemma present_rejected:
  "register_all kvs s = Inr s' \<Longrightarrow> lookup k s = Some v \<Longrightarrow> k \<notin> fst ` set kvs"
proof (induction kvs arbitrary: s)
  case (Cons kv kvs)
  obtain k' v' where kv: "kv = (k', v')" by (cases kv)
  from Cons.prems(1) obtain s1 where s1: "register k' v' s = Inr s1" "register_all kvs s1 = Inr s'"
    by (auto simp: kv res_bind_Inr_iff)
  have "k \<noteq> k'" using register_defined [of k' v' s] s1(1) Cons.prems(2) by auto
  then have "lookup k s1 = Some v" using lookup_registered [OF s1(1)] Cons.prems(2) by simp
  with Cons.IH [OF s1(2)] \<open>k \<noteq> k'\<close> show ?case by (simp add: kv)
qed simp

lemma register_all_distinct: "register_all kvs s = Inr s' \<Longrightarrow> distinct (map fst kvs)"
proof (induction kvs arbitrary: s)
  case (Cons kv kvs)
  obtain k v where kv: "kv = (k, v)" by (cases kv)
  from Cons.prems obtain s1 where s1: "register k v s = Inr s1" "register_all kvs s1 = Inr s'"
    by (auto simp: kv res_bind_Inr_iff)
  have "lookup k s1 = Some v" using lookup_registered [OF s1(1)] by simp
  then have "k \<notin> fst ` set kvs" by (rule present_rejected [OF s1(2)])
  with Cons.IH [OF s1(2)] show ?case by (simp add: kv)
qed simp

end

lemma key_name_eq_iff [simp]: "key_name k = key_name k' \<longleftrightarrow> k = k'"
  by (simp add: key_name_inject)

interpretation capabilities: write_once cap_register cap_get
  by unfold_locales (auto simp: cap_register_def cap_get_def map_add_def split: if_splits option.splits)

lemma cap_require_get: "cap_require k reg = Inr v \<longleftrightarrow> cap_get k reg = Some v"
  by (auto simp: cap_require_def cap_get_def split: option.splits)

text \<open>
  A registry is written once.  If a sequence of registrations succeeds, its keys are
  distinct and new, every one of them is required with the value it was registered with, and
  whatever was registered before keeps its value.
\<close>

theorem capabilities_are_final:
  assumes "capabilities.register_all kvs reg = Inr reg'"
  shows "distinct (map fst kvs)
    \<and> (\<forall>(k, v) \<in> set kvs. cap_require k reg' = Inr v \<and> \<not> cap_contains k reg)
    \<and> (\<forall>k v. cap_require k reg = Inr v \<longrightarrow> cap_require k reg' = Inr v)"
proof -
  have fresh: "\<not> cap_contains k reg" if "(k, v) \<in> set kvs" for k v
    using capabilities.present_rejected [OF assms, of k] that
    by (force simp: cap_contains_def cap_get_def image_iff)
  show ?thesis
    using capabilities.register_all_distinct [OF assms] capabilities.register_all_lookup [OF assms]
      capabilities.registered_stays [OF assms] fresh
    by (auto simp: cap_require_get)
qed

theorem capabilities_are_final_witness:
  "\<exists>reg. capabilities.register_all [(Key ''clock'', 1), (Key ''store'', 2::nat)] [] = Inr reg
     \<and> cap_require (Key ''clock'') reg = Inr 1"
proof -
  have names: "key_name (Key ''clock'') = ''clock''" "key_name (Key ''store'') = ''store''"
    by (simp_all add: Key_inverse is_space_def)
  have "capabilities.register_all [(Key ''clock'', 1), (Key ''store'', 2::nat)] []
      = Inr [(''clock'', 1), (''store'', 2)]"
    by (simp add: cap_register_def names)
  from this capabilities_are_final [OF this] show ?thesis by auto
qed

end
