(* ===== verification/Canonical_Json.thy ===== *)
theory Canonical_Json
  imports Py_Values "HOL-Library.Word" "HOL-Library.Multiset"
begin

text \<open>
  The two pieces of Python's standard library the wire contracts rest on: \<open>json.dumps\<close> with
  \<open>ensure_ascii=True, sort_keys=True, separators=(",", ":")\<close>, and \<open>hashlib.sha256(...).hexdigest()\<close>
  (FIPS 180-4) of its text, whose characters are all ASCII.
\<close>

unbundle bit_operations_syntax

section \<open>Canonical JSON\<close>

definition json_char :: "char \<Rightarrow> string" where
  "json_char c =
     (if c = CHR 0x22 \<or> c = CHR 0x5C then [CHR 0x5C, c]
      else if c = CHR 0x0A then [CHR 0x5C, CHR ''n'']
      else if c = CHR 0x0D then [CHR 0x5C, CHR ''r'']
      else if c = CHR 0x09 then [CHR 0x5C, CHR ''t'']
      else if c = CHR 0x0C then [CHR 0x5C, CHR ''f'']
      else if c = CHR 0x08 then [CHR 0x5C, CHR ''b'']
      else (let n = (of_char c :: nat) in
        if 32 \<le> n \<and> n \<le> 126 then [c]
        else [CHR 0x5C, CHR ''u'', CHR ''0'', CHR ''0'', hex_digit (n div 16), hex_digit (n mod 16)]))"

definition json_str :: "string \<Rightarrow> string" where
  "json_str s = CHR 0x22 # concat (map json_char s) @ [CHR 0x22]"

fun json_value :: "py \<Rightarrow> string"
  and json_items :: "py list \<Rightarrow> string list"
  and json_pairs :: "pydict \<Rightarrow> (string \<times> string) list" where
  "json_value PyNone = ''null''"
| "json_value (PyBool b) = (if b then ''true'' else ''false'')"
| "json_value (PyInt i) = show_int i"
| "json_value (PyFloat f) =
     (case f of Finite _ t \<Rightarrow> t | Infinity pos \<Rightarrow> (if pos then ''Infinity'' else ''-Infinity'') | NaN \<Rightarrow> ''NaN'')"
| "json_value (PyStr s) = json_str s"
| "json_value (PyList xs) = ''['' @ join '','' (json_items xs) @ '']''"
| "json_value (PyDict d) =
     ''{'' @ join '','' (map (\<lambda>(k, v). json_str k @ '':'' @ v) (sort_key fst (json_pairs d))) @ ''}''"
| "json_items [] = []"
| "json_items (x # xs) = json_value x # json_items xs"
| "json_pairs [] = []"
| "json_pairs ((k, v) # d) = (k, json_value v) # json_pairs d"

definition canonical_json :: "pydict \<Rightarrow> string" where
  "canonical_json d = json_value (PyDict d)"

lemma json_pairs_map: "json_pairs d = map (\<lambda>(k, v). (k, json_value v)) d"
  by (induction d) auto

text \<open>The text does not depend on the order in which the fields were inserted.\<close>

lemma canonical_json_order:
  assumes "mset d = mset d'" "distinct (map fst d)"
  shows "canonical_json d = canonical_json d'"
proof -
  have keys: "distinct (map fst d')" using assms by (metis mset_eq_imp_distinct_iff mset_map)
  have json_keys: "map fst (json_pairs e) = map fst e" for e
    by (simp add: json_pairs_map comp_def case_prod_unfold)
  have "set (json_pairs d) = set (json_pairs d')"
    using mset_eq_setD [OF assms(1)] by (simp add: json_pairs_map)
  moreover have "inj_on fst (set (json_pairs d))"
    using eq_key_imp_eq_value [OF assms(2)] by (fastforce simp: json_pairs_map inj_on_def)
  moreover have "distinct (map fst (sort_key fst (json_pairs e)))" if "distinct (map fst e)" for e
    using that by (metis json_keys mset_eq_imp_distinct_iff mset_map mset_sort)
  ultimately have "sort_key fst (json_pairs d) = sort_key fst (json_pairs d')"
    using assms(2) keys by (intro map_sorted_distinct_set_unique [where f = fst]) simp_all
  then show ?thesis by (simp add: canonical_json_def)
qed

section \<open>SHA-256\<close>

text \<open>
  The constants of the standard are the first 32 bits after the binary point of the square and the
  cube roots of the first primes; they are computed here by bisection, bit by bit.
\<close>

fun floor_root :: "nat \<Rightarrow> nat \<Rightarrow> nat \<Rightarrow> nat \<Rightarrow> nat" where
  "floor_root e 0 r n = r"
| "floor_root e (Suc b) r n = floor_root e b (if (r + 2 ^ b) ^ e \<le> n then r + 2 ^ b else r) n"

definition root_fraction :: "nat \<Rightarrow> nat \<Rightarrow> 32 word" where
  "root_fraction e p = word_of_nat (floor_root e 40 0 (p * 2 ^ (32 * e)))"

definition primes_below :: "nat \<Rightarrow> nat list" where
  "primes_below n = filter (\<lambda>p. list_all (\<lambda>d. p mod d \<noteq> 0) [2..<p]) [2..<n]"

definition sha_K :: "32 word list" where
  "sha_K = map (root_fraction 3) (primes_below 312)"

definition rotr :: "nat \<Rightarrow> 32 word \<Rightarrow> 32 word" where
  "rotr n w = drop_bit n w OR push_bit (32 - n) w"

definition small_sigma0 :: "32 word \<Rightarrow> 32 word" where
  "small_sigma0 x = rotr 7 x XOR rotr 18 x XOR drop_bit 3 x"

definition small_sigma1 :: "32 word \<Rightarrow> 32 word" where
  "small_sigma1 x = rotr 17 x XOR rotr 19 x XOR drop_bit 10 x"

definition big_sigma0 :: "32 word \<Rightarrow> 32 word" where
  "big_sigma0 x = rotr 2 x XOR rotr 13 x XOR rotr 22 x"

definition big_sigma1 :: "32 word \<Rightarrow> 32 word" where
  "big_sigma1 x = rotr 6 x XOR rotr 11 x XOR rotr 25 x"

text \<open>The message schedule, kept with the newest word first.\<close>

fun sha_schedule :: "nat \<Rightarrow> 32 word list \<Rightarrow> 32 word list" where
  "sha_schedule 0 ws = rev ws"
| "sha_schedule (Suc n) ws =
     sha_schedule n ((small_sigma1 (ws ! 1) + ws ! 6 + small_sigma0 (ws ! 14) + ws ! 15) # ws)"

type_synonym sha_state = "32 word list"

fun sha_round :: "32 word \<times> 32 word \<Rightarrow> sha_state \<Rightarrow> sha_state" where
  "sha_round (k, w) [a, b, c, d, e, f, g, h] =
     (let t1 = h + big_sigma1 e + ((e AND f) XOR (NOT e AND g)) + k + w;
          t2 = big_sigma0 a + ((a AND b) XOR (a AND c) XOR (b AND c)) in
      [t1 + t2, a, b, c, d + t1, e, f, g])"
| "sha_round _ s = s"

definition sha_block :: "32 word list \<Rightarrow> sha_state \<Rightarrow> sha_state" where
  "sha_block ws s = map2 (+) s (fold sha_round (zip sha_K (sha_schedule 48 (rev ws))) s)"

fun be_word :: "nat list \<Rightarrow> 32 word" where
  "be_word bytes = fold (\<lambda>b w. push_bit 8 w OR word_of_nat b) bytes 0"

fun chunks :: "nat \<Rightarrow> nat \<Rightarrow> 'a list \<Rightarrow> 'a list list" where
  "chunks 0 n xs = []"
| "chunks (Suc k) n xs = take n xs # chunks k n (drop n xs)"

text \<open>The number of blocks is known after padding, so the loop over them is structural.\<close>

definition sha_pad :: "nat list \<Rightarrow> nat list" where
  "sha_pad bytes =
     (let l = length bytes; bits = 8 * l in
      bytes @ [0x80] @ replicate ((119 - l mod 64) mod 64) 0
      @ map (\<lambda>i. bits div 256 ^ (7 - i) mod 256) [0..<8])"

definition sha_init :: sha_state where
  "sha_init = map (root_fraction 2) [2, 3, 5, 7, 11, 13, 17, 19]"

definition sha256 :: "nat list \<Rightarrow> sha_state" where
  "sha256 bytes =
     (let padded = sha_pad bytes in
      fold (\<lambda>block. sha_block (map be_word (chunks 16 4 block)))
        (chunks (length padded div 64) 64 padded) sha_init)"

definition hex_word :: "32 word \<Rightarrow> string" where
  "hex_word w = map (\<lambda>i. hex_digit (unat w div 16 ^ (7 - i) mod 16)) [0..<8]"

definition sha256_hex :: "string \<Rightarrow> string" where
  "sha256_hex s = concat (map hex_word (sha256 (map of_char s)))"

text \<open>A digest is 64 lower-case hexadecimal digits.\<close>

lemma length_sha_round [simp]: "length (sha_round kw s) = length s"
  by (cases "(kw, s)" rule: sha_round.cases) (simp_all add: Let_def)

lemma length_fold_sha_round [simp]: "length (fold sha_round kws s) = length s"
  by (induction kws arbitrary: s) simp_all

lemma length_sha_block [simp]: "length (sha_block ws s) = length s"
  by (simp add: sha_block_def)

lemma length_fold_blocks: "length (fold (\<lambda>b. sha_block (f b)) bs s) = length s"
  by (induction bs arbitrary: s) simp_all

lemma length_sha256 [simp]: "length (sha256 bytes) = 8"
  by (simp add: sha256_def Let_def length_fold_blocks sha_init_def)

lemma hex_digit_lower [simp]: "n < 16 \<Longrightarrow> is_hex_lower (hex_digit n)"
  by (simp add: hex_digit_def is_hex_lower_def nth_Cons' split: if_splits)

lemma length_hex_words: "length (concat (map hex_word ws)) = 8 * length ws"
  by (induction ws) (simp_all add: hex_word_def)

lemma sha256_hex_length [simp]: "length (sha256_hex s) = 64"
  by (simp add: sha256_hex_def length_hex_words)

lemma sha256_hex_digits [simp]: "list_all is_hex_lower (sha256_hex s)"
  by (auto simp: sha256_hex_def hex_word_def list_all_iff)

end
