(* ===== verification/Egress_Contract.thy ===== *)
theory Egress_Contract
  imports Run_Models Canonical_Json
begin

text \<open>
  \<open>worker/vnext_runtime/egress.py\<close>, first part: the policy, the identities, the request and the
  receipt exchanged with the privileged helper, and their wire form.  The dataclasses are modelled
  as in \<open>Run_Models\<close>.
\<close>

section \<open>Bounded values\<close>

definition LOOPBACK_HOST :: string where
  "LOOPBACK_HOST = ''127.0.0.1''"

definition CONTAINMENT_DERIVATION_VERSION :: string where
  "CONTAINMENT_DERIVATION_VERSION = ''phase86-c-containment-v1''"

definition HELPER_PROTOCOL_NAME :: string where
  "HELPER_PROTOCOL_NAME = ''ai-agent-bridge.phase86.egress''"

definition PROFILE_PREFIX :: string where
  "PROFILE_PREFIX = ''bridge_phase86_c_''"

definition TOKEN_RE :: "string \<Rightarrow> bool" where
  "TOKEN_RE s \<longleftrightarrow> (case s of [] \<Rightarrow> False | c # r \<Rightarrow> is_alnum_ascii c \<and> length r \<le> 127
     \<and> list_all (\<lambda>x. is_alnum_ascii x \<or> x \<in> set ''._:-'') r)"

definition LOGICAL_NAME_RE :: "string \<Rightarrow> bool" where
  "LOGICAL_NAME_RE s \<longleftrightarrow> (case s of [] \<Rightarrow> False | c # r \<Rightarrow> is_lower_ascii c \<and> length r \<le> 63
     \<and> list_all (\<lambda>x. is_lower_ascii x \<or> is_digit x \<or> x \<in> set ''._-'') r)"

definition DIGEST_RE :: "string \<Rightarrow> bool" where
  "DIGEST_RE s \<longleftrightarrow> length s = 64 \<and> list_all is_hex_lower s"

definition bounded_text :: "nat \<Rightarrow> string \<Rightarrow> bool" where
  "bounded_text limit s \<longleftrightarrow> length s \<le> limit \<and> CHR 0x00 \<notin> set s \<and> CHR 0x0D \<notin> set s \<and> CHR 0x0A \<notin> set s"

text \<open>The guards \<open>_require_text\<close>, \<open>_require_token\<close>, \<open>_require_logical_name\<close>, \<open>_require_digest\<close>, \<open>_require_int\<close>.\<close>

definition eg_require_text :: "py \<Rightarrow> string \<Rightarrow> nat \<Rightarrow> pyexc option" where
  "eg_require_text v label limit = first_raise
     [ensure (has_text v) (EgressContractError (label @ '' must be non-empty text'')),
      ensure (bounded_text limit (the_str v))
        (EgressContractError (label @ '' is outside the bounded text contract''))]"

definition eg_require_token :: "py \<Rightarrow> string \<Rightarrow> pyexc option" where
  "eg_require_token v label = first_raise
     [eg_require_text v label 256,
      ensure (TOKEN_RE (the_str v)) (EgressContractError (label @ '' is not a bounded protocol token''))]"

definition eg_require_logical_name :: "py \<Rightarrow> string \<Rightarrow> pyexc option" where
  "eg_require_logical_name v label = first_raise
     [eg_require_text v label 64,
      ensure (LOGICAL_NAME_RE (the_str v))
        (EgressContractError (label @ '' must be a logical destination name, not an address''))]"

definition eg_require_digest :: "py \<Rightarrow> string \<Rightarrow> pyexc option" where
  "eg_require_digest v label = first_raise
     [eg_require_text v label 64,
      ensure (DIGEST_RE (the_str v)) (EgressContractError (label @ '' must be a lowercase SHA-256 digest''))]"

definition eg_require_int :: "py \<Rightarrow> string \<Rightarrow> int \<Rightarrow> pyexc option" where
  "eg_require_int v label minimum =
     ensure (int_from minimum v)
       (EgressContractError (label @ '' must be an integer >= '' @ show_int minimum))"

definition eg_enum_value :: "(string \<Rightarrow> 'e option) \<Rightarrow> py \<Rightarrow> string \<Rightarrow> pyexc + 'e" where
  "eg_enum_value members v label =
     enum_call members (EgressContractError (label @ '' has an unsupported value'')) v"

text \<open>What the guards let through, as predicates on strings.\<close>

definition is_text :: "nat \<Rightarrow> string \<Rightarrow> bool" where
  "is_text limit s \<longleftrightarrow> strip s \<noteq> [] \<and> bounded_text limit s"

definition is_token :: "string \<Rightarrow> bool" where
  "is_token s \<longleftrightarrow> is_text 256 s \<and> TOKEN_RE s"

definition is_digest :: "string \<Rightarrow> bool" where
  "is_digest s \<longleftrightarrow> is_text 64 s \<and> DIGEST_RE s"

definition is_logical_name :: "string \<Rightarrow> bool" where
  "is_logical_name s \<longleftrightarrow> is_text 64 s \<and> LOGICAL_NAME_RE s"

lemma eg_guards_None [simp]:
  "eg_require_text v label limit = None \<longleftrightarrow> (\<exists>s. v = PyStr s \<and> is_text limit s)"
  "eg_require_token v label = None \<longleftrightarrow> (\<exists>s. v = PyStr s \<and> is_token s)"
  "eg_require_logical_name v label = None \<longleftrightarrow> (\<exists>s. v = PyStr s \<and> is_logical_name s)"
  "eg_require_digest v label = None \<longleftrightarrow> (\<exists>s. v = PyStr s \<and> is_digest s)"
  "eg_require_int v label m = None \<longleftrightarrow> (\<exists>i. v = PyInt i \<and> m \<le> i)"
  by (auto simp: eg_require_text_def eg_require_token_def eg_require_logical_name_def
      eg_require_digest_def eg_require_int_def is_text_def is_token_def is_digest_def
      is_logical_name_def has_text_iff int_from_iff)

lemma eg_enum_value_Inr [simp]:
  "eg_enum_value members v label = Inr e \<longleftrightarrow> (\<exists>s. v = PyStr s \<and> members s = Some e)"
  by (simp add: eg_enum_value_def enum_call_Inr)

section \<open>Wire objects\<close>

definition mapping_keys :: "string list \<Rightarrow> string \<Rightarrow> py \<Rightarrow> pyexc option" where
  "mapping_keys allowed label v =
     (let unknown = sorted_difference (dkeys (the_dict v)) allowed;
          missing = sorted_difference allowed (dkeys (the_dict v)) in
      first_raise
        [ensure (is_dict v) (EgressContractError (label @ '' must be a JSON object'')),
         ensure (unknown = [])
           (EgressContractError (label @ '' contains unsupported fields: '' @ join '', '' unknown)),
         ensure (missing = [])
           (EgressContractError (label @ '' is missing fields: '' @ join '', '' missing))])"

lemma mapping_keys_None [simp]:
  "mapping_keys allowed label v = None \<longleftrightarrow> (\<exists>d. v = PyDict d \<and> set (dkeys d) = set allowed)"
  by (cases v) (simp_all add: mapping_keys_def Let_def set_eq_subset)

definition digest_of :: "pydict \<Rightarrow> string" where
  "digest_of d = sha256_hex (canonical_json d)"

lemma hex_lower_chars [simp]:
  "\<not> is_hex_lower (CHR 0x00)" "\<not> is_hex_lower (CHR 0x0D)" "\<not> is_hex_lower (CHR 0x0A)"
  by (simp_all add: is_hex_lower_def)

lemma hex_lower_alnum: "is_hex_lower c \<Longrightarrow> is_alnum_ascii c \<and> \<not> is_space c"
  by (auto simp: is_hex_lower_def is_alnum_ascii_def is_digit_def is_lower_ascii_def is_space_def)

lemma hex_bounded_text: "list_all is_hex_lower s \<Longrightarrow> length s \<le> limit \<Longrightarrow> bounded_text limit s"
  using hex_lower_chars by (auto simp: bounded_text_def list_all_iff)

lemma hex_is_text: "list_all is_hex_lower s \<Longrightarrow> s \<noteq> [] \<Longrightarrow> length s \<le> limit \<Longrightarrow> is_text limit s"
  using hex_bounded_text hex_lower_alnum
  by (cases s) (simp_all add: is_text_def)

lemma digest_of_digest [simp]: "is_digest (digest_of d)"
proof -
  have "sha256_hex s \<noteq> []" for s by (metis list.size(3) sha256_hex_length zero_neq_numeral)
  then show ?thesis by (simp add: is_digest_def DIGEST_RE_def digest_of_def hex_is_text)
qed

section \<open>Run identity\<close>

definition identity_wire :: "run_identity \<Rightarrow> pydict" where
  "identity_wire i =
     [(''project_id'', PyStr (id_project i)), (''command_id'', PyInt (id_command i)),
      (''run_id'', PyStr (id_run i)), (''claim_generation'', PyInt (id_generation i))]"

definition identity_from_wire :: "py \<Rightarrow> pyexc + run_identity" where
  "identity_from_wire v = run_checks
     [mapping_keys [''project_id'', ''command_id'', ''run_id'', ''claim_generation''] ''identity'' v]
     (let data = the_dict v in
      reraise_as (EgressContractError ''identity is not a valid exact run identity'')
        (RunIdentity (dget data ''project_id'') (dget data ''command_id'') (dget data ''run_id'')
           (dget data ''claim_generation'')))"

lemma RunIdentity_valid: "RunIdentity p c r g = Inr i \<Longrightarrow> wf_identity i"
  using identity_ctor.build_valid [of "(p, c, r, g)"] by simp

lemma RunIdentity_build:
  "wf_identity i \<Longrightarrow> RunIdentity (PyStr (id_project i)) (PyInt (id_command i)) (PyStr (id_run i))
     (PyInt (id_generation i)) = Inr i"
  using identity_ctor.valid_build [of i] by (simp add: identity_fields_def)

lemma dkeys_simps [simp]: "dkeys [] = []" "dkeys ((k, v) # d) = k # dkeys d"
  by (simp_all add: dkeys_def)

interpretation identity_codec: wire_codec "\<lambda>i. PyDict (identity_wire i)" identity_from_wire wf_identity
  by unfold_locales
     (auto simp: identity_from_wire_def identity_wire_def run_checks_Inr Let_def RunIdentity_build
       dest: RunIdentity_valid)

section \<open>Endpoint, policy, reference\<close>

record broker_endpoint =
  be_host :: string
  be_port :: int
  be_transport :: string

definition BrokerEndpoint :: "py \<Rightarrow> py \<Rightarrow> py \<Rightarrow> pyexc + broker_endpoint" where
  "BrokerEndpoint host port transport = run_checks
     [ensure (py_eq host (PyStr LOOPBACK_HOST))
        (EgressContractError ''the egress helper contract accepts only 127.0.0.1''),
      eg_require_text host ''broker.host'' 15,
      ensure (py_eq transport (PyStr ''tcp''))
        (EgressContractError ''the egress helper contract accepts only TCP''),
      eg_require_int port ''broker.port'' 1,
      ensure (the_int port \<le> 65535) (EgressContractError ''broker.port is outside the TCP port range'')]
     (Inr \<lparr>be_host = the_str host, be_port = the_int port, be_transport = the_str transport\<rparr>)"

definition wf_endpoint :: "broker_endpoint \<Rightarrow> bool" where
  "wf_endpoint e \<longleftrightarrow> be_host e = LOOPBACK_HOST \<and> be_transport e = ''tcp'' \<and> 1 \<le> be_port e \<and> be_port e \<le> 65535"

definition endpoint_wire :: "broker_endpoint \<Rightarrow> pydict" where
  "endpoint_wire e =
     [(''host'', PyStr (be_host e)), (''port'', PyInt (be_port e)), (''transport'', PyStr (be_transport e))]"

definition endpoint_from_wire :: "py \<Rightarrow> pyexc + broker_endpoint" where
  "endpoint_from_wire v = run_checks [mapping_keys [''host'', ''port'', ''transport''] ''broker'' v]
     (let data = the_dict v in
      reraise_as (EgressContractError ''broker endpoint is invalid'')
        (BrokerEndpoint (dget data ''host'') (dget data ''port'') (dget data ''transport'')))"

lemma loopback_is_text [simp]: "is_text 15 LOOPBACK_HOST"
  by (simp add: is_text_def bounded_text_def LOOPBACK_HOST_def is_space_def)

lemma BrokerEndpoint_Inr:
  "BrokerEndpoint h p t = Inr e \<longleftrightarrow>
     wf_endpoint e \<and> h = PyStr (be_host e) \<and> p = PyInt (be_port e) \<and> t = PyStr (be_transport e)"
  by (auto simp: BrokerEndpoint_def run_checks_Inr wf_endpoint_def)

interpretation endpoint_codec: wire_codec "\<lambda>e. PyDict (endpoint_wire e)" endpoint_from_wire wf_endpoint
  by unfold_locales
     (auto simp: endpoint_from_wire_def endpoint_wire_def run_checks_Inr Let_def BrokerEndpoint_Inr)

record egress_policy =
  ep_policy_id :: string
  ep_policy_version :: int
  ep_broker :: broker_endpoint
  ep_approved_upstream :: string
  ep_logical_destinations :: "string list"

definition EgressPolicy ::
    "py \<Rightarrow> py \<Rightarrow> broker_endpoint \<Rightarrow> py \<Rightarrow> py list \<Rightarrow> pyexc + egress_policy" where
  "EgressPolicy policy_id version broker upstream destinations = run_checks
     ([eg_require_token policy_id ''policy_id'', eg_require_int version ''policy_version'' 1,
       eg_require_logical_name upstream ''approved_upstream'',
       ensure (destinations \<noteq> [])
         (EgressContractError ''logical_destinations must be a non-empty immutable tuple'')]
      @ map (\<lambda>v. eg_require_logical_name v ''logical_destinations entry'') destinations
      @ [ensure (distinct (map the_str destinations))
           (EgressContractError ''logical_destinations must not contain duplicates'')])
     (Inr \<lparr>ep_policy_id = the_str policy_id, ep_policy_version = the_int version, ep_broker = broker,
           ep_approved_upstream = the_str upstream,
           ep_logical_destinations = sort (map the_str destinations)\<rparr>)"

definition policy_wire :: "egress_policy \<Rightarrow> pydict" where
  "policy_wire p =
     [(''schema_version'', PyInt 1), (''policy_id'', PyStr (ep_policy_id p)),
      (''policy_version'', PyInt (ep_policy_version p)), (''broker'', PyDict (endpoint_wire (ep_broker p))),
      (''approved_upstream'', PyStr (ep_approved_upstream p)),
      (''logical_destinations'', PyList (map PyStr (ep_logical_destinations p)))]"

definition policy_digest :: "egress_policy \<Rightarrow> string" where
  "policy_digest p = digest_of (policy_wire p)"

record policy_reference =
  er_policy_id :: string
  er_policy_version :: int
  er_policy_digest :: string
  er_broker :: broker_endpoint

definition EgressPolicyReference :: "py \<Rightarrow> py \<Rightarrow> py \<Rightarrow> broker_endpoint \<Rightarrow> pyexc + policy_reference" where
  "EgressPolicyReference policy_id version digest broker = run_checks
     [eg_require_token policy_id ''policy_id'', eg_require_int version ''policy_version'' 1,
      eg_require_digest digest ''policy_digest'']
     (Inr \<lparr>er_policy_id = the_str policy_id, er_policy_version = the_int version,
           er_policy_digest = the_str digest, er_broker = broker\<rparr>)"

definition reference_of :: "egress_policy \<Rightarrow> pyexc + policy_reference" where
  "reference_of p = EgressPolicyReference (PyStr (ep_policy_id p)) (PyInt (ep_policy_version p))
     (PyStr (policy_digest p)) (ep_broker p)"

definition wf_reference :: "policy_reference \<Rightarrow> bool" where
  "wf_reference p \<longleftrightarrow> is_token (er_policy_id p) \<and> 1 \<le> er_policy_version p \<and> is_digest (er_policy_digest p)
     \<and> wf_endpoint (er_broker p)"

definition reference_wire :: "policy_reference \<Rightarrow> pydict" where
  "reference_wire p =
     [(''policy_id'', PyStr (er_policy_id p)), (''policy_version'', PyInt (er_policy_version p)),
      (''policy_digest'', PyStr (er_policy_digest p)), (''broker'', PyDict (endpoint_wire (er_broker p)))]"

definition reference_from_wire :: "py \<Rightarrow> pyexc + policy_reference" where
  "reference_from_wire v = run_checks
     [mapping_keys [''policy_id'', ''policy_version'', ''policy_digest'', ''broker''] ''policy'' v]
     (let data = the_dict v in
      reraise_as (EgressContractError ''policy reference is invalid'')
        (res_bind (endpoint_from_wire (dget data ''broker'')) (\<lambda>broker.
         EgressPolicyReference (dget data ''policy_id'') (dget data ''policy_version'')
           (dget data ''policy_digest'') broker)))"

lemma EgressPolicyReference_Inr:
  "wf_endpoint b \<Longrightarrow> EgressPolicyReference i n g b = Inr p \<longleftrightarrow>
     wf_reference p \<and> i = PyStr (er_policy_id p) \<and> n = PyInt (er_policy_version p)
     \<and> g = PyStr (er_policy_digest p) \<and> b = er_broker p"
  by (auto simp: EgressPolicyReference_def run_checks_Inr wf_reference_def)

interpretation reference_codec: wire_codec "\<lambda>p. PyDict (reference_wire p)" reference_from_wire wf_reference
proof unfold_locales
  fix v x
  assume "reference_from_wire v = Inr x"
  then obtain i n g w b where b: "endpoint_from_wire w = Inr b" and ref: "EgressPolicyReference i n g b = Inr x"
    unfolding reference_from_wire_def Let_def run_checks_Inr reraise_as_Inr res_bind_Inr_iff by blast
  have "wf_endpoint b" using b by (rule endpoint_codec.read_valid)
  with ref show "wf_reference x" by (simp add: EgressPolicyReference_Inr)
next
  fix x
  assume x: "wf_reference x"
  then have b: "wf_endpoint (er_broker x)" by (simp add: wf_reference_def)
  show "reference_from_wire (PyDict (reference_wire x)) = Inr x"
    using x endpoint_codec.read_write [OF b] EgressPolicyReference_Inr [OF b, THEN iffD2, of x]
    by (simp add: reference_from_wire_def reference_wire_def run_checks_pass)
qed

section \<open>Containment identity\<close>

record containment_identity =
  ci_derivation_version :: string
  ci_identity_digest :: string
  ci_profile_name :: string

definition ContainmentIdentity :: "py \<Rightarrow> py \<Rightarrow> py \<Rightarrow> pyexc + containment_identity" where
  "ContainmentIdentity version digest profile = run_checks
     [ensure (py_eq version (PyStr CONTAINMENT_DERIVATION_VERSION))
        (EgressContractError ''unsupported containment derivation version''),
      eg_require_digest digest ''containment.identity_digest'',
      eg_require_token profile ''containment.profile_name'',
      ensure (has_prefix PROFILE_PREFIX (the_str profile))
        (EgressContractError ''containment profile name has an invalid prefix''),
      ensure (the_str profile = PROFILE_PREFIX @ take 32 (the_str digest))
        (EgressContractError ''containment profile name is not derived from identity_digest'')]
     (Inr \<lparr>ci_derivation_version = the_str version, ci_identity_digest = the_str digest,
           ci_profile_name = the_str profile\<rparr>)"

definition wf_containment :: "containment_identity \<Rightarrow> bool" where
  "wf_containment c \<longleftrightarrow> ci_derivation_version c = CONTAINMENT_DERIVATION_VERSION
     \<and> is_digest (ci_identity_digest c) \<and> ci_profile_name c = PROFILE_PREFIX @ take 32 (ci_identity_digest c)"

definition derive_containment :: "run_identity \<Rightarrow> pyexc + containment_identity" where
  "derive_containment ident =
     (let digest = digest_of (identity_wire ident) in
      ContainmentIdentity (PyStr CONTAINMENT_DERIVATION_VERSION) (PyStr digest)
        (PyStr (PROFILE_PREFIX @ take 32 digest)))"

definition containment_wire :: "containment_identity \<Rightarrow> pydict" where
  "containment_wire c =
     [(''derivation_version'', PyStr (ci_derivation_version c)),
      (''identity_digest'', PyStr (ci_identity_digest c)), (''profile_name'', PyStr (ci_profile_name c))]"

definition containment_from_wire :: "py \<Rightarrow> pyexc + containment_identity" where
  "containment_from_wire v = run_checks
     [mapping_keys [''derivation_version'', ''identity_digest'', ''profile_name''] ''containment'' v]
     (let data = the_dict v in
      reraise_as (EgressContractError ''containment identity is invalid'')
        (ContainmentIdentity (dget data ''derivation_version'') (dget data ''identity_digest'')
           (dget data ''profile_name'')))"

lemma profile_prefix_chars [simp]:
  "bounded_text 17 PROFILE_PREFIX" "TOKEN_RE PROFILE_PREFIX" "strip (PROFILE_PREFIX @ s) \<noteq> []"
  by (simp_all add: bounded_text_def PROFILE_PREFIX_def TOKEN_RE_def is_alnum_ascii_def is_digit_def
      is_lower_ascii_def is_space_def)

lemma bounded_text_append: "bounded_text m s \<Longrightarrow> bounded_text n t \<Longrightarrow> bounded_text (m + n) (s @ t)"
  by (simp add: bounded_text_def)

lemma bounded_text_mono: "bounded_text m s \<Longrightarrow> m \<le> n \<Longrightarrow> bounded_text n s"
  by (simp add: bounded_text_def)

lemma TOKEN_RE_append_hex:
  "TOKEN_RE s \<Longrightarrow> list_all is_hex_lower t \<Longrightarrow> length s + length t \<le> 128 \<Longrightarrow> TOKEN_RE (s @ t)"
  using hex_lower_alnum by (cases s) (auto simp: TOKEN_RE_def list_all_iff)

lemma profile_is_token:
  assumes "is_digest d"
  shows "is_token (PROFILE_PREFIX @ take 32 d)"
proof -
  have hex: "list_all is_hex_lower (take 32 d)" "length (take 32 d) \<le> 32"
    using assms by (auto simp: is_digest_def DIGEST_RE_def list_all_iff dest: in_set_takeD)
  have "length PROFILE_PREFIX = 17" by (simp add: PROFILE_PREFIX_def)
  then have "TOKEN_RE (PROFILE_PREFIX @ take 32 d)"
    using hex by (intro TOKEN_RE_append_hex) simp_all
  moreover have "bounded_text (17 + 32) (PROFILE_PREFIX @ take 32 d)"
    using hex by (intro bounded_text_append profile_prefix_chars(1) hex_bounded_text)
  ultimately show ?thesis
    using bounded_text_mono [of "17 + 32" _ 256] by (simp add: is_token_def is_text_def)
qed

lemma ContainmentIdentity_Inr:
  "ContainmentIdentity v d p = Inr c \<longleftrightarrow>
     wf_containment c \<and> v = PyStr (ci_derivation_version c) \<and> d = PyStr (ci_identity_digest c)
     \<and> p = PyStr (ci_profile_name c)"
  by (auto simp: ContainmentIdentity_def run_checks_Inr wf_containment_def profile_is_token)

interpretation containment_codec: wire_codec "\<lambda>c. PyDict (containment_wire c)" containment_from_wire wf_containment
  by unfold_locales
     (auto simp: containment_from_wire_def containment_wire_def run_checks_Inr Let_def ContainmentIdentity_Inr)

definition containment_of :: "run_identity \<Rightarrow> containment_identity" where
  "containment_of ident =
     \<lparr>ci_derivation_version = CONTAINMENT_DERIVATION_VERSION,
      ci_identity_digest = digest_of (identity_wire ident),
      ci_profile_name = PROFILE_PREFIX @ take 32 (digest_of (identity_wire ident))\<rparr>"

text \<open>The derivation never fails.\<close>

lemma derive_containment_total [simp]: "derive_containment ident = Inr (containment_of ident)"
  by (simp add: derive_containment_def Let_def ContainmentIdentity_Inr wf_containment_def containment_of_def)

lemma containment_of_wf [simp]: "wf_containment (containment_of ident)"
  by (simp add: wf_containment_def containment_of_def)

end
