(* ===== verification/Egress_Containment.thy ===== *)
theory Egress_Containment
  imports Egress_Contract
begin

text \<open>
  \<open>worker/vnext_runtime/egress.py\<close>, second part: the requests to the privileged helper, its
  receipts, and the containment lifecycle \<open>RunContainment\<close>.
\<close>

section \<open>Vocabulary\<close>

datatype helper_operation = INSPECT_HEALTH | PREPARE_RUN | RECONCILE_RUN | RELEASE_RUN

datatype receipt_status = HEALTHY | PREPARED | RECONCILED | RELEASED | REJECTED

datatype helper_enforcement = READY | ENFORCEMENT_ACTIVE | DENY_RETAINED | INACTIVE | ENFORCEMENT_UNKNOWN

definition HelperOperation :: "string \<Rightarrow> helper_operation option" where
  "HelperOperation = map_of [(''INSPECT_HEALTH'', INSPECT_HEALTH), (''PREPARE_RUN'', PREPARE_RUN),
     (''RECONCILE_RUN'', RECONCILE_RUN), (''RELEASE_RUN'', RELEASE_RUN)]"

definition HelperReceiptStatus :: "string \<Rightarrow> receipt_status option" where
  "HelperReceiptStatus = map_of [(''HEALTHY'', HEALTHY), (''PREPARED'', PREPARED),
     (''RECONCILED'', RECONCILED), (''RELEASED'', RELEASED), (''REJECTED'', REJECTED)]"

definition HelperEnforcement :: "string \<Rightarrow> helper_enforcement option" where
  "HelperEnforcement = map_of [(''READY'', READY), (''ACTIVE'', ENFORCEMENT_ACTIVE),
     (''DENY_RETAINED'', DENY_RETAINED), (''INACTIVE'', INACTIVE), (''UNKNOWN'', ENFORCEMENT_UNKNOWN)]"

definition operation_text :: "helper_operation \<Rightarrow> string" where
  "operation_text x = (case x of INSPECT_HEALTH \<Rightarrow> ''INSPECT_HEALTH'' | PREPARE_RUN \<Rightarrow> ''PREPARE_RUN''
     | RECONCILE_RUN \<Rightarrow> ''RECONCILE_RUN'' | RELEASE_RUN \<Rightarrow> ''RELEASE_RUN'')"

definition status_text :: "receipt_status \<Rightarrow> string" where
  "status_text x = (case x of HEALTHY \<Rightarrow> ''HEALTHY'' | PREPARED \<Rightarrow> ''PREPARED'' | RECONCILED \<Rightarrow> ''RECONCILED''
     | RELEASED \<Rightarrow> ''RELEASED'' | REJECTED \<Rightarrow> ''REJECTED'')"

definition enforcement_text :: "helper_enforcement \<Rightarrow> string" where
  "enforcement_text x = (case x of READY \<Rightarrow> ''READY'' | ENFORCEMENT_ACTIVE \<Rightarrow> ''ACTIVE''
     | DENY_RETAINED \<Rightarrow> ''DENY_RETAINED'' | INACTIVE \<Rightarrow> ''INACTIVE'' | ENFORCEMENT_UNKNOWN \<Rightarrow> ''UNKNOWN'')"

lemma operation_text_inverse [simp]: "HelperOperation (operation_text x) = Some x"
  by (cases x) (simp_all add: HelperOperation_def operation_text_def)

lemma status_text_inverse [simp]: "HelperReceiptStatus (status_text x) = Some x"
  by (cases x) (simp_all add: HelperReceiptStatus_def status_text_def)

lemma enforcement_text_inverse [simp]: "HelperEnforcement (enforcement_text x) = Some x"
  by (cases x) (simp_all add: HelperEnforcement_def enforcement_text_def)

section \<open>Requests\<close>

record helper_request =
  hq_request_id :: string
  hq_operation :: helper_operation
  hq_identity :: run_identity
  hq_policy :: policy_reference
  hq_containment :: containment_identity

text \<open>The schema version of a constructed request or receipt is always 1 and is not stored.\<close>

definition HelperRequest ::
    "py \<Rightarrow> py \<Rightarrow> py \<Rightarrow> run_identity \<Rightarrow> policy_reference \<Rightarrow> containment_identity \<Rightarrow> pyexc + helper_request" where
  "HelperRequest version request_id operation ident policy containment = run_checks
     [eg_require_int version ''request.schema_version'' 1,
      ensure (the_int version = 1) (EgressContractError ''unsupported helper request schema_version''),
      eg_require_token request_id ''request_id'']
     (res_bind (eg_enum_value HelperOperation operation ''operation'') (\<lambda>oper.
      res_bind (derive_containment ident) (\<lambda>derived.
      run_checks
        [ensure (containment = derived)
           (EgressContractError ''request containment is not derived from the exact run identity'')]
        (Inr \<lparr>hq_request_id = the_str request_id, hq_operation = oper, hq_identity = ident,
              hq_policy = policy, hq_containment = containment\<rparr>))))"

definition request_for_operation ::
    "helper_operation \<Rightarrow> run_identity \<Rightarrow> policy_reference \<Rightarrow> py \<Rightarrow> pyexc + helper_request" where
  "request_for_operation oper ident policy request_id =
     res_bind (derive_containment ident) (\<lambda>containment.
       HelperRequest (PyInt 1) request_id (PyStr (operation_text oper)) ident policy containment)"

definition request_wire :: "helper_request \<Rightarrow> pydict" where
  "request_wire q =
     [(''protocol'', PyStr HELPER_PROTOCOL_NAME), (''schema_version'', PyInt 1),
      (''request_id'', PyStr (hq_request_id q)), (''operation'', PyStr (operation_text (hq_operation q))),
      (''identity'', PyDict (identity_wire (hq_identity q))),
      (''policy'', PyDict (reference_wire (hq_policy q))),
      (''containment'', PyDict (containment_wire (hq_containment q)))]"

definition request_from_wire :: "py \<Rightarrow> pyexc + helper_request" where
  "request_from_wire v = run_checks
     [mapping_keys [''protocol'', ''schema_version'', ''request_id'', ''operation'', ''identity'',
        ''policy'', ''containment''] ''helper request'' v,
      ensure (py_eq (dget (the_dict v) ''protocol'') (PyStr HELPER_PROTOCOL_NAME))
        (EgressContractError ''unsupported helper protocol'')]
     (let data = the_dict v in
      reraise_as (EgressContractError ''helper request is invalid'')
        (res_bind (identity_from_wire (dget data ''identity'')) (\<lambda>ident.
         res_bind (reference_from_wire (dget data ''policy'')) (\<lambda>policy.
         res_bind (containment_from_wire (dget data ''containment'')) (\<lambda>containment.
         HelperRequest (dget data ''schema_version'') (dget data ''request_id'') (dget data ''operation'')
           ident policy containment)))))"

definition encode_request :: "helper_request \<Rightarrow> string" where
  "encode_request q = canonical_json (request_wire q)"

definition decode_request :: "(string \<Rightarrow> string + py) \<Rightarrow> py \<Rightarrow> pyexc + helper_request" where
  "decode_request loads v =
     (if \<not> is_str v then Inl (TypeError ''wire request must be text'')
      else (case loads (the_str v) of
          Inl _ \<Rightarrow> Inl (EgressContractError ''helper request is not valid JSON'')
        | Inr parsed \<Rightarrow> request_from_wire parsed))"

definition wf_request :: "helper_request \<Rightarrow> bool" where
  "wf_request q \<longleftrightarrow> is_token (hq_request_id q) \<and> wf_identity (hq_identity q) \<and> wf_reference (hq_policy q)
     \<and> hq_containment q = containment_of (hq_identity q)"

lemma HelperRequest_Inr:
  "HelperRequest version rid oper ident policy containment = Inr q \<longleftrightarrow>
     version = PyInt 1 \<and> is_token (hq_request_id q) \<and> rid = PyStr (hq_request_id q)
     \<and> (\<exists>s. oper = PyStr s \<and> HelperOperation s = Some (hq_operation q))
     \<and> ident = hq_identity q \<and> policy = hq_policy q
     \<and> containment = hq_containment q \<and> containment = containment_of ident"
  by (cases version; cases rid)
     (auto simp: HelperRequest_def run_checks_Inr res_bind_Inr_iff)

interpretation request_codec: wire_codec "\<lambda>q. PyDict (request_wire q)" request_from_wire wf_request
proof unfold_locales
  fix v q
  assume "request_from_wire v = Inr q"
  then obtain ident policy cont where parts: "identity_from_wire (dget (the_dict v) ''identity'') = Inr ident"
      "reference_from_wire (dget (the_dict v) ''policy'') = Inr policy"
    and q: "HelperRequest (dget (the_dict v) ''schema_version'') (dget (the_dict v) ''request_id'')
      (dget (the_dict v) ''operation'') ident policy cont = Inr q"
    unfolding request_from_wire_def Let_def run_checks_Inr reraise_as_Inr res_bind_Inr_iff by blast
  then show "wf_request q"
    using identity_codec.read_valid [OF parts(1)] reference_codec.read_valid [OF parts(2)]
    by (auto simp: HelperRequest_Inr wf_request_def)
next
  fix q
  assume q: "wf_request q"
  then have parts: "identity_from_wire (PyDict (identity_wire (hq_identity q))) = Inr (hq_identity q)"
    "reference_from_wire (PyDict (reference_wire (hq_policy q))) = Inr (hq_policy q)"
    "containment_from_wire (PyDict (containment_wire (hq_containment q))) = Inr (hq_containment q)"
    by (simp_all add: wf_request_def identity_codec.read_write reference_codec.read_write
        containment_codec.read_write)
  have "HelperRequest (PyInt 1) (PyStr (hq_request_id q)) (PyStr (operation_text (hq_operation q)))
      (hq_identity q) (hq_policy q) (hq_containment q) = Inr q"
    using q by (simp add: HelperRequest_Inr wf_request_def)
  then show "request_from_wire (PyDict (request_wire q)) = Inr q"
    using parts by (simp add: request_from_wire_def request_wire_def run_checks_pass)
qed

section \<open>Receipts\<close>

record helper_receipt =
  hr_request_id :: string
  hr_operation :: helper_operation
  hr_identity :: run_identity
  hr_policy :: policy_reference
  hr_containment :: containment_identity
  hr_status :: receipt_status
  hr_enforcement :: helper_enforcement
  hr_observed_at :: string
  hr_resource_digest :: string
  hr_error_code :: "string option"

definition resource_digest :: "policy_reference \<Rightarrow> containment_identity \<Rightarrow> string" where
  "resource_digest policy containment = digest_of
     [(''policy'', PyDict (reference_wire policy)), (''containment'', PyDict (containment_wire containment))]"

definition status_checks ::
    "receipt_status \<Rightarrow> helper_operation \<Rightarrow> helper_enforcement \<Rightarrow> py \<Rightarrow> pyexc option list" where
  "status_checks status oper enforcement error_code =
     (case status of
        HEALTHY \<Rightarrow>
          [ensure (oper = INSPECT_HEALTH) (EgressContractError ''HEALTHY is valid only for INSPECT_HEALTH''),
           ensure (enforcement = READY) (EgressContractError ''HEALTHY must prove helper readiness'')]
      | PREPARED \<Rightarrow>
          [ensure (oper = PREPARE_RUN) (EgressContractError ''PREPARED is valid only for PREPARE_RUN''),
           ensure (enforcement = ENFORCEMENT_ACTIVE)
             (EgressContractError ''PREPARED must prove active containment'')]
      | RECONCILED \<Rightarrow>
          [ensure (oper = RECONCILE_RUN) (EgressContractError ''RECONCILED is valid only for RECONCILE_RUN''),
           ensure (enforcement \<in> {ENFORCEMENT_ACTIVE, DENY_RETAINED})
             (EgressContractError ''RECONCILED must prove active or restrictive containment'')]
      | RELEASED \<Rightarrow>
          [ensure (oper = RELEASE_RUN) (EgressContractError ''RELEASED is valid only for RELEASE_RUN''),
           ensure (enforcement \<in> {INACTIVE, DENY_RETAINED})
             (EgressContractError ''RELEASED must prove inactive or deny-retained containment'')]
      | REJECTED \<Rightarrow>
          [ensure (enforcement = ENFORCEMENT_UNKNOWN)
             (EgressContractError ''REJECTED must leave enforcement UNKNOWN''),
           ensure (error_code \<noteq> PyNone)
             (EgressContractError ''REJECTED must include a bounded error_code'')])
     @ [ensure (\<not> (status \<noteq> REJECTED \<and> error_code \<noteq> PyNone))
          (EgressContractError ''successful receipts cannot contain error_code'')]"

definition HelperReceipt ::
    "py \<Rightarrow> py \<Rightarrow> py \<Rightarrow> run_identity \<Rightarrow> policy_reference \<Rightarrow> containment_identity \<Rightarrow> py \<Rightarrow> py \<Rightarrow> py \<Rightarrow> py \<Rightarrow> py \<Rightarrow>
     pyexc + helper_receipt"
where
  "HelperReceipt version request_id operation ident policy containment status enforcement observed_at
       digest error_code = run_checks
     [eg_require_int version ''receipt.schema_version'' 1,
      ensure (the_int version = 1) (EgressContractError ''unsupported helper receipt schema_version''),
      eg_require_token request_id ''receipt.request_id'']
     (res_bind (eg_enum_value HelperOperation operation ''receipt.operation'') (\<lambda>oper.
      res_bind (eg_enum_value HelperReceiptStatus status ''receipt.status'') (\<lambda>stat.
      res_bind (eg_enum_value HelperEnforcement enforcement ''receipt.enforcement'') (\<lambda>enf.
      res_bind (derive_containment ident) (\<lambda>derived.
      run_checks
        ([ensure (containment = derived)
            (EgressContractError ''receipt containment is not derived from the exact run identity''),
          eg_require_text observed_at ''receipt.observed_at'' 128,
          eg_require_digest digest ''receipt.resource_digest'',
          ensure (the_str digest = resource_digest policy containment)
            (EgressContractError ''receipt resource_digest does not match policy and containment''),
          (if error_code \<noteq> PyNone then eg_require_token error_code ''receipt.error_code'' else None)]
         @ status_checks stat oper enf error_code)
        (Inr \<lparr>hr_request_id = the_str request_id, hr_operation = oper, hr_identity = ident,
              hr_policy = policy, hr_containment = containment, hr_status = stat, hr_enforcement = enf,
              hr_observed_at = the_str observed_at, hr_resource_digest = the_str digest,
              hr_error_code = the_opt_str error_code\<rparr>))))))"

definition receipt_for_request ::
    "helper_request \<Rightarrow> py \<Rightarrow> py \<Rightarrow> py \<Rightarrow> py \<Rightarrow> pyexc + helper_receipt" where
  "receipt_for_request q status enforcement observed_at error_code =
     HelperReceipt (PyInt 1) (PyStr (hq_request_id q)) (PyStr (operation_text (hq_operation q)))
       (hq_identity q) (hq_policy q) (hq_containment q) status enforcement observed_at
       (PyStr (resource_digest (hq_policy q) (hq_containment q))) error_code"

definition verify_for :: "helper_receipt \<Rightarrow> helper_request \<Rightarrow> pyexc option" where
  "verify_for r q = ensure
     (\<not> (hr_request_id r \<noteq> hq_request_id q \<or> hr_operation r \<noteq> hq_operation q
        \<or> hr_identity r \<noteq> hq_identity q \<or> hr_policy r \<noteq> hq_policy q
        \<or> hr_containment r \<noteq> hq_containment q))
     (HelperProtocolError ''helper receipt is not bound to the exact request identity'')"

definition receipt_wire :: "helper_receipt \<Rightarrow> pydict" where
  "receipt_wire r =
     [(''protocol'', PyStr HELPER_PROTOCOL_NAME), (''schema_version'', PyInt 1),
      (''request_id'', PyStr (hr_request_id r)), (''operation'', PyStr (operation_text (hr_operation r))),
      (''identity'', PyDict (identity_wire (hr_identity r))),
      (''policy'', PyDict (reference_wire (hr_policy r))),
      (''containment'', PyDict (containment_wire (hr_containment r))),
      (''status'', PyStr (status_text (hr_status r))),
      (''enforcement'', PyStr (enforcement_text (hr_enforcement r))),
      (''observed_at'', PyStr (hr_observed_at r)), (''resource_digest'', PyStr (hr_resource_digest r)),
      (''error_code'', of_opt_str (hr_error_code r))]"

definition receipt_from_wire :: "py \<Rightarrow> pyexc + helper_receipt" where
  "receipt_from_wire v = run_checks
     [mapping_keys [''protocol'', ''schema_version'', ''request_id'', ''operation'', ''identity'',
        ''policy'', ''containment'', ''status'', ''enforcement'', ''observed_at'', ''resource_digest'',
        ''error_code''] ''helper receipt'' v,
      ensure (py_eq (dget (the_dict v) ''protocol'') (PyStr HELPER_PROTOCOL_NAME))
        (EgressContractError ''unsupported helper protocol'')]
     (let data = the_dict v in
      reraise_as (EgressContractError ''helper receipt is invalid'')
        (res_bind (identity_from_wire (dget data ''identity'')) (\<lambda>ident.
         res_bind (reference_from_wire (dget data ''policy'')) (\<lambda>policy.
         res_bind (containment_from_wire (dget data ''containment'')) (\<lambda>containment.
         HelperReceipt (dget data ''schema_version'') (dget data ''request_id'') (dget data ''operation'')
           ident policy containment (dget data ''status'') (dget data ''enforcement'')
           (dget data ''observed_at'') (dget data ''resource_digest'') (dget data ''error_code''))))))"

definition encode_receipt :: "helper_receipt \<Rightarrow> string" where
  "encode_receipt r = canonical_json (receipt_wire r)"

definition decode_receipt :: "(string \<Rightarrow> string + py) \<Rightarrow> py \<Rightarrow> pyexc + helper_receipt" where
  "decode_receipt loads v =
     (if \<not> is_str v then Inl (TypeError ''wire receipt must be text'')
      else (case loads (the_str v) of
          Inl _ \<Rightarrow> Inl (EgressContractError ''helper receipt is not valid JSON'')
        | Inr parsed \<Rightarrow> receipt_from_wire parsed))"

text \<open>What the status of a receipt says of the operation and of the enforcement.\<close>

definition status_consistent :: "helper_receipt \<Rightarrow> bool" where
  "status_consistent r \<longleftrightarrow>
     (case hr_status r of
        HEALTHY \<Rightarrow> hr_operation r = INSPECT_HEALTH \<and> hr_enforcement r = READY
      | PREPARED \<Rightarrow> hr_operation r = PREPARE_RUN \<and> hr_enforcement r = ENFORCEMENT_ACTIVE
      | RECONCILED \<Rightarrow> hr_operation r = RECONCILE_RUN \<and> hr_enforcement r \<in> {ENFORCEMENT_ACTIVE, DENY_RETAINED}
      | RELEASED \<Rightarrow> hr_operation r = RELEASE_RUN \<and> hr_enforcement r \<in> {INACTIVE, DENY_RETAINED}
      | REJECTED \<Rightarrow> hr_enforcement r = ENFORCEMENT_UNKNOWN)
     \<and> (hr_status r = REJECTED \<longleftrightarrow> hr_error_code r \<noteq> None)"

definition wf_receipt :: "helper_receipt \<Rightarrow> bool" where
  "wf_receipt r \<longleftrightarrow> is_token (hr_request_id r) \<and> wf_identity (hr_identity r) \<and> wf_reference (hr_policy r)
     \<and> hr_containment r = containment_of (hr_identity r) \<and> is_text 128 (hr_observed_at r)
     \<and> hr_resource_digest r = resource_digest (hr_policy r) (hr_containment r)
     \<and> (\<forall>e. hr_error_code r = Some e \<longrightarrow> is_token e) \<and> status_consistent r"

lemma status_checks_None:
  "first_raise (status_checks stat oper enf err) = None \<longleftrightarrow>
     (case stat of
        HEALTHY \<Rightarrow> oper = INSPECT_HEALTH \<and> enf = READY
      | PREPARED \<Rightarrow> oper = PREPARE_RUN \<and> enf = ENFORCEMENT_ACTIVE
      | RECONCILED \<Rightarrow> oper = RECONCILE_RUN \<and> enf \<in> {ENFORCEMENT_ACTIVE, DENY_RETAINED}
      | RELEASED \<Rightarrow> oper = RELEASE_RUN \<and> enf \<in> {INACTIVE, DENY_RETAINED}
      | REJECTED \<Rightarrow> enf = ENFORCEMENT_UNKNOWN)
     \<and> (stat = REJECTED \<longleftrightarrow> err \<noteq> PyNone)"
  by (cases stat) (auto simp: status_checks_def)

lemma HelperReceipt_Inr:
  "HelperReceipt version rid oper ident policy cont stat enf obs dig err = Inr r \<longleftrightarrow>
     version = PyInt 1 \<and> is_token (hr_request_id r) \<and> rid = PyStr (hr_request_id r)
     \<and> (\<exists>s. oper = PyStr s \<and> HelperOperation s = Some (hr_operation r))
     \<and> (\<exists>s. stat = PyStr s \<and> HelperReceiptStatus s = Some (hr_status r))
     \<and> (\<exists>s. enf = PyStr s \<and> HelperEnforcement s = Some (hr_enforcement r))
     \<and> ident = hr_identity r \<and> policy = hr_policy r \<and> cont = hr_containment r
     \<and> cont = containment_of ident \<and> obs = PyStr (hr_observed_at r) \<and> is_text 128 (hr_observed_at r)
     \<and> dig = PyStr (hr_resource_digest r) \<and> hr_resource_digest r = resource_digest policy cont
     \<and> err = of_opt_str (hr_error_code r) \<and> (\<forall>e. hr_error_code r = Some e \<longrightarrow> is_token e)
     \<and> status_consistent r" (is "?L \<longleftrightarrow> ?R")
proof
  assume ?L
  then obtain o' s' e' where head: "first_raise [eg_require_int version ''receipt.schema_version'' 1,
      ensure (the_int version = 1) (EgressContractError ''unsupported helper receipt schema_version''),
      eg_require_token rid ''receipt.request_id''] = None"
    and enums: "\<exists>s. oper = PyStr s \<and> HelperOperation s = Some o'"
      "\<exists>s. stat = PyStr s \<and> HelperReceiptStatus s = Some s'"
      "\<exists>s. enf = PyStr s \<and> HelperEnforcement s = Some e'"
    and tail: "first_raise ([ensure (cont = containment_of ident)
            (EgressContractError ''receipt containment is not derived from the exact run identity''),
          eg_require_text obs ''receipt.observed_at'' 128,
          eg_require_digest dig ''receipt.resource_digest'',
          ensure (the_str dig = resource_digest policy cont)
            (EgressContractError ''receipt resource_digest does not match policy and containment''),
          (if err \<noteq> PyNone then eg_require_token err ''receipt.error_code'' else None)]
         @ status_checks s' o' e' err) = None"
    and r: "r = \<lparr>hr_request_id = the_str rid, hr_operation = o', hr_identity = ident,
              hr_policy = policy, hr_containment = cont, hr_status = s', hr_enforcement = e',
              hr_observed_at = the_str obs, hr_resource_digest = the_str dig,
              hr_error_code = the_opt_str err\<rparr>"
    unfolding HelperReceipt_def run_checks_Inr res_bind_Inr_iff derive_containment_total sum.inject
      eg_enum_value_Inr by metis
  have st: "first_raise (status_checks s' o' e' err) = None"
    and g: "version = PyInt 1" "is_token (the_str rid)" "rid = PyStr (the_str rid)"
      "cont = containment_of ident" "is_text 128 (the_str obs)" "obs = PyStr (the_str obs)"
      "dig = PyStr (the_str dig)" "the_str dig = resource_digest policy cont"
      "err = PyNone \<or> (\<exists>s. err = PyStr s \<and> is_token s)"
    using head tail by (auto simp: first_raise_append split: option.splits)
  have err: "err = of_opt_str (the_opt_str err)" "\<forall>e. the_opt_str err = Some e \<longrightarrow> is_token e"
    "err \<noteq> PyNone \<longleftrightarrow> the_opt_str err \<noteq> None"
    using g(9) by auto
  have "status_consistent r"
    using st unfolding status_checks_None err(3) by (cases s') (simp_all add: r status_consistent_def)
  with g err(1,2) enums show ?R
    unfolding r helper_receipt.simps by blast
next
  assume ?R
  then have "first_raise (status_checks (hr_status r) (hr_operation r) (hr_enforcement r)
      (of_opt_str (hr_error_code r))) = None"
    by (simp add: status_checks_None status_consistent_def)
  with \<open>?R\<close> show ?L
    by (auto simp: HelperReceipt_def run_checks_Inr res_bind_Inr_iff resource_digest_def)
qed

interpretation receipt_codec: wire_codec "\<lambda>r. PyDict (receipt_wire r)" receipt_from_wire wf_receipt
proof unfold_locales
  fix v r
  assume "receipt_from_wire v = Inr r"
  then obtain i p c where parts: "identity_from_wire (dget (the_dict v) ''identity'') = Inr i"
      "reference_from_wire (dget (the_dict v) ''policy'') = Inr p"
    and r: "HelperReceipt (dget (the_dict v) ''schema_version'') (dget (the_dict v) ''request_id'')
      (dget (the_dict v) ''operation'') i p c (dget (the_dict v) ''status'')
      (dget (the_dict v) ''enforcement'') (dget (the_dict v) ''observed_at'')
      (dget (the_dict v) ''resource_digest'') (dget (the_dict v) ''error_code'') = Inr r"
    unfolding receipt_from_wire_def Let_def run_checks_Inr reraise_as_Inr res_bind_Inr_iff by blast
  show "wf_receipt r"
    using r identity_codec.read_valid [OF parts(1)] reference_codec.read_valid [OF parts(2)]
    unfolding HelperReceipt_Inr wf_receipt_def by auto
next
  fix r
  assume r: "wf_receipt r"
  then have parts: "identity_from_wire (PyDict (identity_wire (hr_identity r))) = Inr (hr_identity r)"
    "reference_from_wire (PyDict (reference_wire (hr_policy r))) = Inr (hr_policy r)"
    "containment_from_wire (PyDict (containment_wire (hr_containment r))) = Inr (hr_containment r)"
    by (simp_all add: wf_receipt_def identity_codec.read_write reference_codec.read_write
        containment_codec.read_write)
  have "HelperReceipt (PyInt 1) (PyStr (hr_request_id r)) (PyStr (operation_text (hr_operation r)))
      (hr_identity r) (hr_policy r) (hr_containment r) (PyStr (status_text (hr_status r)))
      (PyStr (enforcement_text (hr_enforcement r))) (PyStr (hr_observed_at r))
      (PyStr (hr_resource_digest r)) (of_opt_str (hr_error_code r)) = Inr r"
    using r unfolding HelperReceipt_Inr wf_receipt_def by simp
  then show "receipt_from_wire (PyDict (receipt_wire r)) = Inr r"
    using parts by (simp add: receipt_from_wire_def receipt_wire_def run_checks_pass)
qed

section \<open>The containment lifecycle\<close>

datatype containment_state = NEW | CONTAINED | RECONCILED_CONTAINMENT | RELEASED_CONTAINMENT | UNCERTAIN

record containment =
  cn_identity :: run_identity
  cn_policy :: policy_reference
  cn_state :: containment_state
  cn_prepare_attempted :: bool
  cn_last_receipt :: "helper_receipt option"

definition RunContainment :: "run_identity \<Rightarrow> policy_reference \<Rightarrow> containment" where
  "RunContainment ident policy = \<lparr>cn_identity = ident, cn_policy = policy, cn_state = NEW,
     cn_prepare_attempted = False, cn_last_receipt = None\<rparr>"

text \<open>
  What the transport does with one request: it raises, it returns something that is no receipt,
  or it returns a receipt.  The request id is a fresh \<open>uuid4\<close> text, given by the environment too.
\<close>

datatype reply = Raises pyexc | Untyped | Receipt helper_receipt

type_synonym environment = "string \<times> (helper_request \<Rightarrow> reply)"

type_synonym 'a containment_result = "(pyexc + 'a) \<times> containment"

definition cn_exchange :: "environment \<Rightarrow> helper_operation \<Rightarrow> containment \<Rightarrow> helper_receipt containment_result" where
  "cn_exchange env oper c =
     (case request_for_operation oper (cn_identity c) (cn_policy c) (PyStr (fst env)) of
        Inl e \<Rightarrow> (Inl e, c)
      | Inr request \<Rightarrow>
          (case snd env request of
             Raises e \<Rightarrow> (Inl e, c\<lparr>cn_state := UNCERTAIN\<rparr>)
           | Untyped \<Rightarrow>
               (Inl (HelperProtocolError ''helper transport returned a non-typed receipt''),
                c\<lparr>cn_state := UNCERTAIN\<rparr>)
           | Receipt receipt \<Rightarrow>
               (case verify_for receipt request of
                  Some e \<Rightarrow> (Inl e, c\<lparr>cn_state := UNCERTAIN\<rparr>)
                | None \<Rightarrow>
                    let c1 = c\<lparr>cn_last_receipt := Some receipt\<rparr> in
                    if hr_status receipt = REJECTED
                    then (Inl (EgressContainmentError (''helper rejected '' @ operation_text oper @ '': ''
                            @ (case hr_error_code receipt of Some x \<Rightarrow> x | None \<Rightarrow> ''None''))),
                          c1\<lparr>cn_state := UNCERTAIN\<rparr>)
                    else (Inr receipt, c1))))"

definition state_name :: "containment_state \<Rightarrow> string" where
  "state_name s = (case s of NEW \<Rightarrow> ''NEW'' | CONTAINED \<Rightarrow> ''PREPARED'' | RECONCILED_CONTAINMENT \<Rightarrow> ''RECONCILED''
     | RELEASED_CONTAINMENT \<Rightarrow> ''RELEASED'' | UNCERTAIN \<Rightarrow> ''UNKNOWN'')"

definition cn_prepare :: "environment \<Rightarrow> containment \<Rightarrow> helper_receipt containment_result" where
  "cn_prepare env c =
     (if cn_state c \<noteq> NEW
      then (Inl (EgressContainmentError (''containment prepare requires NEW, got '' @ state_name (cn_state c))), c)
      else (case cn_exchange env PREPARE_RUN (c\<lparr>cn_prepare_attempted := True\<rparr>) of
          (Inl e, c1) \<Rightarrow> (Inl e, c1)
        | (Inr receipt, c1) \<Rightarrow>
            if hr_status receipt \<noteq> PREPARED
            then (Inl (EgressContainmentError ''helper did not prove PREPARED containment''),
                  c1\<lparr>cn_state := UNCERTAIN\<rparr>)
            else (Inr receipt, c1\<lparr>cn_state := CONTAINED\<rparr>)))"

definition cn_reconcile :: "environment \<Rightarrow> containment \<Rightarrow> helper_receipt containment_result" where
  "cn_reconcile env c =
     (if cn_state c \<notin> {CONTAINED, RECONCILED_CONTAINMENT}
      then (Inl (EgressContainmentError ''containment reconcile requires PREPARED or RECONCILED state''), c)
      else (case cn_exchange env RECONCILE_RUN c of
          (Inl e, c1) \<Rightarrow> (Inl e, c1)
        | (Inr receipt, c1) \<Rightarrow>
            if hr_status receipt \<noteq> RECONCILED
            then (Inl (EgressContainmentError ''helper did not prove RECONCILED containment''),
                  c1\<lparr>cn_state := UNCERTAIN\<rparr>)
            else (Inr receipt, c1\<lparr>cn_state := RECONCILED_CONTAINMENT\<rparr>)))"

definition cn_dispose :: "environment \<Rightarrow> containment \<Rightarrow> unit containment_result" where
  "cn_dispose env c =
     (if cn_state c = RELEASED_CONTAINMENT then (Inr (), c)
      else if \<not> cn_prepare_attempted c then (Inr (), c\<lparr>cn_state := RELEASED_CONTAINMENT\<rparr>)
      else (case cn_exchange env RELEASE_RUN c of
          (Inl e, c1) \<Rightarrow> (Inl e, c1\<lparr>cn_state := UNCERTAIN\<rparr>)
        | (Inr receipt, c1) \<Rightarrow>
            if hr_status receipt \<noteq> RELEASED
            then (Inl (EgressContainmentError ''helper did not prove RELEASED containment''),
                  c1\<lparr>cn_state := UNCERTAIN\<rparr>)
            else (Inr (), c1\<lparr>cn_state := RELEASED_CONTAINMENT\<rparr>)))"

section \<open>A state is claimed only on proof\<close>

text \<open>
  \<open>proves c r\<close>: the receipt is a valid one of exactly this run, policy and derived containment.
  \<open>containment_sound\<close> is what each local state then claims.
\<close>

definition proves :: "containment \<Rightarrow> helper_receipt \<Rightarrow> bool" where
  "proves c r \<longleftrightarrow> wf_receipt r \<and> hr_identity r = cn_identity c \<and> hr_policy r = cn_policy c
     \<and> hr_containment r = containment_of (cn_identity c)"

definition containment_sound :: "containment \<Rightarrow> bool" where
  "containment_sound c \<longleftrightarrow>
     (\<forall>r. cn_last_receipt c = Some r \<longrightarrow> proves c r)
     \<and> (cn_state c = NEW \<longrightarrow> \<not> cn_prepare_attempted c)
     \<and> (cn_state c = CONTAINED \<longrightarrow> cn_prepare_attempted c
          \<and> (\<exists>r. cn_last_receipt c = Some r \<and> hr_operation r = PREPARE_RUN \<and> hr_enforcement r = ENFORCEMENT_ACTIVE))
     \<and> (cn_state c = RECONCILED_CONTAINMENT \<longrightarrow> cn_prepare_attempted c
          \<and> (\<exists>r. cn_last_receipt c = Some r \<and> hr_operation r = RECONCILE_RUN
               \<and> hr_enforcement r \<in> {ENFORCEMENT_ACTIVE, DENY_RETAINED}))
     \<and> (cn_state c = RELEASED_CONTAINMENT \<longrightarrow> cn_prepare_attempted c \<longrightarrow>
          (\<exists>r. cn_last_receipt c = Some r \<and> hr_operation r = RELEASE_RUN
               \<and> hr_enforcement r \<in> {INACTIVE, DENY_RETAINED}))"

text \<open>Every receipt the transport returns was constructed, and every request id is a token.\<close>

definition typed_environment :: "environment \<Rightarrow> bool" where
  "typed_environment env \<longleftrightarrow> is_token (fst env) \<and> (\<forall>q r. snd env q = Receipt r \<longrightarrow> wf_receipt r)"

lemma request_for_operation_Inr:
  "is_token rid \<Longrightarrow> request_for_operation oper ident policy (PyStr rid) =
     Inr \<lparr>hq_request_id = rid, hq_operation = oper, hq_identity = ident, hq_policy = policy,
          hq_containment = containment_of ident\<rparr>"
  by (simp add: request_for_operation_def HelperRequest_Inr)

lemma exchange_cases:
  assumes "typed_environment env"
  obtains (failed) e r where "cn_exchange env oper c = (Inl e, c\<lparr>cn_state := UNCERTAIN, cn_last_receipt := r\<rparr>)"
      "r = cn_last_receipt c \<or> (\<exists>x. r = Some x \<and> proves c x)"
    | (answered) r where "cn_exchange env oper c = (Inr r, c\<lparr>cn_last_receipt := Some r\<rparr>)"
      "proves c r" "hr_operation r = oper" "status_consistent r"
proof -
  let ?q = "\<lparr>hq_request_id = fst env, hq_operation = oper, hq_identity = cn_identity c,
      hq_policy = cn_policy c, hq_containment = containment_of (cn_identity c)\<rparr>"
  have req: "request_for_operation oper (cn_identity c) (cn_policy c) (PyStr (fst env)) = Inr ?q"
    using assms by (simp add: typed_environment_def request_for_operation_Inr)
  show thesis
  proof (cases "snd env ?q")
    case (Raises e)
    then show thesis by (intro failed [of e "cn_last_receipt c"]) (simp_all add: cn_exchange_def req)
  next
    case Untyped
    then show thesis
      by (intro failed [of _ "cn_last_receipt c"]) (simp_all add: cn_exchange_def req)
  next
    case (Receipt r)
    have wf: "wf_receipt r" using assms Receipt unfolding typed_environment_def by blast
    show thesis
    proof (cases "verify_for r ?q")
      case (Some e)
      then show thesis
        using Receipt by (intro failed [of e "cn_last_receipt c"]) (simp_all add: cn_exchange_def req)
    next
      case None
      then have p: "proves c r" "hr_operation r = oper"
        using wf by (simp_all add: verify_for_def proves_def)
      show thesis
      proof (cases "hr_status r = REJECTED")
        case True
        then show thesis
          using Receipt None p(1) by (intro failed [of _ "Some r"]) (simp_all add: cn_exchange_def req Let_def)
      next
        case False
        then show thesis
          using Receipt None p wf
          by (intro answered [of r]) (simp_all add: cn_exchange_def req Let_def wf_receipt_def)
      qed
    qed
  qed
qed

lemma proves_update [simp]:
  "proves (c\<lparr>cn_state := s\<rparr>) r = proves c r" "proves (c\<lparr>cn_last_receipt := x\<rparr>) r = proves c r"
  "proves (c\<lparr>cn_prepare_attempted := b\<rparr>) r = proves c r"
  by (simp_all add: proves_def)

lemma prepare_sound:
  assumes "typed_environment env" "containment_sound c"
  shows "containment_sound (snd (cn_prepare env c))"
proof (cases "cn_state c = NEW")
  case False
  then show ?thesis using assms(2) by (simp add: cn_prepare_def)
next
  case True
  show ?thesis
    using assms(1)
  proof (cases rule: exchange_cases [where oper = PREPARE_RUN and c = "c\<lparr>cn_prepare_attempted := True\<rparr>"])
    case (failed e r)
    then show ?thesis using assms(2) True by (auto simp: cn_prepare_def containment_sound_def)
  next
    case (answered r)
    then show ?thesis
      using assms(2) True by (auto simp: cn_prepare_def containment_sound_def status_consistent_def)
  qed
qed

lemma reconcile_sound:
  assumes "typed_environment env" "containment_sound c"
  shows "containment_sound (snd (cn_reconcile env c))"
proof (cases "cn_state c \<in> {CONTAINED, RECONCILED_CONTAINMENT}")
  case False
  then show ?thesis using assms(2) by (simp add: cn_reconcile_def)
next
  case True
  then have prep: "cn_prepare_attempted c" using assms(2) by (auto simp: containment_sound_def)
  show ?thesis
    using assms(1)
  proof (cases rule: exchange_cases [where oper = RECONCILE_RUN and c = c])
    case (failed e r)
    then show ?thesis using assms(2) True by (auto simp: cn_reconcile_def containment_sound_def)
  next
    case (answered r)
    then show ?thesis
      using assms(2) True prep by (auto simp: cn_reconcile_def containment_sound_def status_consistent_def)
  qed
qed

lemma dispose_sound:
  assumes "typed_environment env" "containment_sound c"
  shows "containment_sound (snd (cn_dispose env c))"
proof (cases "cn_state c = RELEASED_CONTAINMENT \<or> \<not> cn_prepare_attempted c")
  case True
  then show ?thesis using assms(2) by (auto simp: cn_dispose_def containment_sound_def)
next
  case False
  show ?thesis
    using assms(1)
  proof (cases rule: exchange_cases [where oper = RELEASE_RUN and c = c])
    case (failed e r)
    then show ?thesis using assms(2) False by (auto simp: cn_dispose_def containment_sound_def)
  next
    case (answered r)
    then show ?thesis
      using assms(2) False by (auto simp: cn_dispose_def containment_sound_def status_consistent_def)
  qed
qed

section \<open>Runs of the lifecycle\<close>

datatype containment_call = Prepare environment | Reconcile environment | Dispose environment

fun call_environment :: "containment_call \<Rightarrow> environment" where
  "call_environment (Prepare env) = env"
| "call_environment (Reconcile env) = env"
| "call_environment (Dispose env) = env"

fun containment_apply :: "containment_call \<Rightarrow> containment \<Rightarrow> unit containment_result" where
  "containment_apply (Prepare env) c = (case cn_prepare env c of (r, c') \<Rightarrow> (map_sum id (\<lambda>_. ()) r, c'))"
| "containment_apply (Reconcile env) c = (case cn_reconcile env c of (r, c') \<Rightarrow> (map_sum id (\<lambda>_. ()) r, c'))"
| "containment_apply (Dispose env) c = cn_dispose env c"

inductive containment_run :: "containment \<Rightarrow> containment_call list \<Rightarrow> containment \<Rightarrow> bool" where
  start: "containment_run c [] c"
| call: "typed_environment (call_environment x) \<Longrightarrow> containment_apply x c = (r, c') \<Longrightarrow>
     containment_run c' xs c'' \<Longrightarrow> containment_run c (x # xs) c''"

inductive_simps containment_run_simps [simp]:
  "containment_run c [] c'" "containment_run c (x # xs) c'"

lemma exchange_owner [simp]:
  "cn_identity (snd (cn_exchange env oper c)) = cn_identity c"
  "cn_policy (snd (cn_exchange env oper c)) = cn_policy c"
  by (auto simp: cn_exchange_def Let_def split: sum.split reply.split option.split)

lemma prepare_owner [simp]:
  "cn_identity (snd (cn_prepare env c)) = cn_identity c" "cn_policy (snd (cn_prepare env c)) = cn_policy c"
  using exchange_owner [of env PREPARE_RUN "c\<lparr>cn_prepare_attempted := True\<rparr>"]
  by (cases "cn_exchange env PREPARE_RUN (c\<lparr>cn_prepare_attempted := True\<rparr>)"; cases "fst (cn_exchange env PREPARE_RUN (c\<lparr>cn_prepare_attempted := True\<rparr>))";
      force simp: cn_prepare_def simp del: exchange_owner)+

lemma reconcile_owner [simp]:
  "cn_identity (snd (cn_reconcile env c)) = cn_identity c" "cn_policy (snd (cn_reconcile env c)) = cn_policy c"
  using exchange_owner [of env RECONCILE_RUN "c"]
  by (cases "cn_exchange env RECONCILE_RUN (c)"; cases "fst (cn_exchange env RECONCILE_RUN (c))";
      force simp: cn_reconcile_def simp del: exchange_owner)+

lemma dispose_owner [simp]:
  "cn_identity (snd (cn_dispose env c)) = cn_identity c" "cn_policy (snd (cn_dispose env c)) = cn_policy c"
  using exchange_owner [of env RELEASE_RUN "c"]
  by (cases "cn_exchange env RELEASE_RUN (c)"; cases "fst (cn_exchange env RELEASE_RUN (c))";
      force simp: cn_dispose_def simp del: exchange_owner)+

lemma apply_snd:
  "snd (containment_apply x c) = (case x of Prepare env \<Rightarrow> snd (cn_prepare env c)
     | Reconcile env \<Rightarrow> snd (cn_reconcile env c) | Dispose env \<Rightarrow> snd (cn_dispose env c))"
  by (cases x) (simp_all split: prod.split)

lemma apply_sound:
  assumes "typed_environment (call_environment x)" "containment_sound c" "containment_apply x c = (r, c')"
  shows "containment_sound c' \<and> cn_identity c' = cn_identity c \<and> cn_policy c' = cn_policy c"
proof -
  have "c' = snd (containment_apply x c)" using assms(3) by simp
  then show ?thesis
    using assms(1,2) by (cases x) (simp_all add: apply_snd prepare_sound reconcile_sound dispose_sound del: containment_apply.simps)
qed

lemma run_sound:
  "containment_run c xs c' \<Longrightarrow> containment_sound c \<Longrightarrow>
     containment_sound c' \<and> cn_identity c' = cn_identity c \<and> cn_policy c' = cn_policy c"
proof (induction rule: containment_run.induct)
  case (call x c r c' xs c'')
  then show ?case using apply_sound by metis
qed simp

lemma RunContainment_sound [simp]: "containment_sound (RunContainment ident policy)"
  by (simp add: containment_sound_def RunContainment_def)

text \<open>
  C23: a containment never claims more than a receipt proves.  After any sequence of calls and
  whatever the helper answered: it is prepared only under a receipt that proves active
  containment, reconciled only under one that proves active or retained denial, and released only
  if it never contacted the helper to prepare or under one that proves the release; and that
  receipt is for this run's identity, policy and derived profile.
\<close>

theorem containment_states_are_proven:
  assumes "containment_run (RunContainment ident policy) calls c"
  shows "(\<forall>r. cn_last_receipt c = Some r \<longrightarrow>
        hr_identity r = ident \<and> hr_policy r = policy \<and> hr_containment r = containment_of ident)
    \<and> (cn_state c = CONTAINED \<longrightarrow>
        (\<exists>r. cn_last_receipt c = Some r \<and> hr_operation r = PREPARE_RUN \<and> hr_enforcement r = ENFORCEMENT_ACTIVE))
    \<and> (cn_state c = RECONCILED_CONTAINMENT \<longrightarrow>
        (\<exists>r. cn_last_receipt c = Some r \<and> hr_operation r = RECONCILE_RUN
           \<and> hr_enforcement r \<in> {ENFORCEMENT_ACTIVE, DENY_RETAINED}))
    \<and> (cn_state c = RELEASED_CONTAINMENT \<longrightarrow> \<not> cn_prepare_attempted c
        \<or> (\<exists>r. cn_last_receipt c = Some r \<and> hr_operation r = RELEASE_RUN
             \<and> hr_enforcement r \<in> {INACTIVE, DENY_RETAINED}))"
proof -
  have "containment_sound c \<and> cn_identity c = ident \<and> cn_policy c = policy"
    using run_sound [OF assms RunContainment_sound] by (simp add: RunContainment_def)
  then show ?thesis unfolding containment_sound_def proves_def by blast
qed

text \<open>A concrete run: the helper prepares the containment, then its answer to the release is lost.\<close>

definition sample_owner :: run_identity where
  "sample_owner = \<lparr>id_project = ''p'', id_command = 3, id_run = ''run-1'', id_generation = 6\<rparr>"

definition sample_policy :: policy_reference where
  "sample_policy = \<lparr>er_policy_id = ''default'', er_policy_version = 1,
     er_policy_digest = replicate 64 (CHR ''a''),
     er_broker = \<lparr>be_host = LOOPBACK_HOST, be_port = 8080, be_transport = ''tcp''\<rparr>\<rparr>"

definition sample_receipt :: "helper_request \<Rightarrow> helper_receipt" where
  "sample_receipt q = \<lparr>hr_request_id = hq_request_id q, hr_operation = PREPARE_RUN, hr_identity = hq_identity q,
     hr_policy = hq_policy q, hr_containment = containment_of (hq_identity q), hr_status = PREPARED,
     hr_enforcement = ENFORCEMENT_ACTIVE, hr_observed_at = ''now'',
     hr_resource_digest = resource_digest (hq_policy q) (containment_of (hq_identity q)), hr_error_code = None\<rparr>"

definition sample_environment :: environment where
  "sample_environment = (''req-1'', \<lambda>q. if wf_request q \<and> hq_operation q = PREPARE_RUN
     then Receipt (sample_receipt q) else Raises (RuntimeError ''lost''))"

lemma sample_values [simp]:
  "is_token ''req-1''" "is_text 128 ''now''" "wf_identity sample_owner" "wf_reference sample_policy"
proof -
  show "is_token ''req-1''" "is_text 128 ''now''" "wf_identity sample_owner" by code_simp+
  have "is_token ''default''" "is_digest (replicate 64 (CHR ''a''))" by code_simp+
  then show "wf_reference sample_policy"
    by (simp add: wf_reference_def sample_policy_def wf_endpoint_def)
qed

lemma sample_environment_typed: "typed_environment sample_environment"
  by (auto simp: typed_environment_def sample_environment_def sample_receipt_def wf_receipt_def
      wf_request_def status_consistent_def split: if_splits)

definition sample_contained :: containment where
  "sample_contained = \<lparr>cn_identity = sample_owner, cn_policy = sample_policy, cn_state = CONTAINED,
     cn_prepare_attempted = True, cn_last_receipt = Some (sample_receipt
       \<lparr>hq_request_id = ''req-1'', hq_operation = PREPARE_RUN, hq_identity = sample_owner,
        hq_policy = sample_policy, hq_containment = containment_of sample_owner\<rparr>)\<rparr>"

lemma sample_prepare:
  "containment_apply (Prepare sample_environment) (RunContainment sample_owner sample_policy)
     = (Inr (), sample_contained)"
  by (simp add: cn_prepare_def cn_exchange_def RunContainment_def sample_environment_def
      request_for_operation_Inr wf_request_def verify_for_def sample_receipt_def sample_contained_def)

theorem containment_states_are_proven_witness:
  "\<exists>c. containment_run (RunContainment sample_owner sample_policy) [Prepare sample_environment] c
     \<and> cn_state c = CONTAINED \<and> (\<exists>r. cn_last_receipt c = Some r \<and> hr_enforcement r = ENFORCEMENT_ACTIVE)"
proof -
  have run: "containment_run (RunContainment sample_owner sample_policy) [Prepare sample_environment] sample_contained"
    using sample_environment_typed
    by (intro containment_run.call [OF _ sample_prepare] containment_run.start) simp
  moreover have "cn_state sample_contained = CONTAINED" by (simp add: sample_contained_def)
  ultimately show ?thesis using containment_states_are_proven [OF run] by blast
qed

text \<open>
  A call that fails never leaves a containment in a state it was not in before, except the
  uncertain one; and an uncertain containment is left only by a release that returned under a
  receipt proving it.
\<close>

theorem containment_fails_uncertain:
  assumes "typed_environment (call_environment x)" "containment_sound c" "containment_apply x c = (r, c')"
  shows "(\<not> returns r \<longrightarrow> c' = c \<or> cn_state c' = UNCERTAIN)
    \<and> (cn_state c = UNCERTAIN \<longrightarrow> cn_prepare_attempted c \<longrightarrow> cn_state c' \<noteq> UNCERTAIN \<longrightarrow>
        returns r \<and> cn_state c' = RELEASED_CONTAINMENT
        \<and> (\<exists>q. cn_last_receipt c' = Some q \<and> hr_operation q = RELEASE_RUN
             \<and> hr_enforcement q \<in> {INACTIVE, DENY_RETAINED}))"
proof (cases x)
  case (Prepare env)
  have env: "typed_environment env" using assms(1) by (simp add: Prepare)
  show ?thesis
  proof (cases rule: exchange_cases [OF env, where oper = PREPARE_RUN and c = "c\<lparr>cn_prepare_attempted := True\<rparr>"])
    case 1
    then show ?thesis using assms(3) by (auto simp: Prepare cn_prepare_def split: if_splits)
  next
    case 2
    then show ?thesis
      using assms(3) by (auto simp: Prepare cn_prepare_def status_consistent_def split: if_splits)
  qed
next
  case (Reconcile env)
  have env: "typed_environment env" using assms(1) by (simp add: Reconcile)
  show ?thesis
  proof (cases rule: exchange_cases [OF env, where oper = RECONCILE_RUN and c = c])
    case 1
    then show ?thesis using assms(3) by (auto simp: Reconcile cn_reconcile_def split: if_splits)
  next
    case 2
    then show ?thesis
      using assms(3) by (auto simp: Reconcile cn_reconcile_def status_consistent_def split: if_splits)
  qed
next
  case (Dispose env)
  have env: "typed_environment env" using assms(1) by (simp add: Dispose)
  show ?thesis
  proof (cases rule: exchange_cases [OF env, where oper = RELEASE_RUN and c = c])
    case 1
    then show ?thesis using assms(3) by (auto simp: Dispose cn_dispose_def split: if_splits)
  next
    case 2
    then show ?thesis
      using assms(3) by (auto simp: Dispose cn_dispose_def status_consistent_def split: if_splits)
  qed
qed

theorem containment_fails_uncertain_witness:
  "\<exists>c'. containment_apply (Dispose sample_environment) sample_contained
      = (Inl (RuntimeError ''lost''), c') \<and> cn_state c' = UNCERTAIN"
proof -
  have sound: "containment_sound sample_contained"
    using apply_sound [OF _ RunContainment_sound sample_prepare] sample_environment_typed by simp
  have fails: "containment_apply (Dispose sample_environment) sample_contained
      = (Inl (RuntimeError ''lost''), sample_contained\<lparr>cn_state := UNCERTAIN\<rparr>)"
    by (simp add: cn_dispose_def cn_exchange_def sample_environment_def sample_contained_def
        request_for_operation_Inr)
  have "sample_contained\<lparr>cn_state := UNCERTAIN\<rparr> \<noteq> sample_contained" by (simp add: sample_contained_def)
  with containment_fails_uncertain [OF _ sound fails] fails sample_environment_typed show ?thesis by simp
qed

section \<open>The wire\<close>

text \<open>
  What the Worker and the helper exchange survives the wire.  A constructed request or
  receipt is read back as the same object, and whatever text of fields is accepted stands for a
  valid object that is written and read back unchanged.
\<close>

theorem helper_wire_round_trip:
  "(wf_request q \<longrightarrow> request_from_wire (PyDict (request_wire q)) = Inr q)
   \<and> (wf_receipt r \<longrightarrow> receipt_from_wire (PyDict (receipt_wire r)) = Inr r)
   \<and> (request_from_wire v = Inr q \<longrightarrow> wf_request q) \<and> (receipt_from_wire v = Inr r \<longrightarrow> wf_receipt r)"
  using request_codec.read_write [of q] request_codec.read_valid [of v q]
    receipt_codec.read_write [of r] receipt_codec.read_valid [of v r] by blast

theorem helper_wire_round_trip_witness:
  "let q = \<lparr>hq_request_id = ''req-1'', hq_operation = PREPARE_RUN, hq_identity = sample_owner,
       hq_policy = sample_policy, hq_containment = containment_of sample_owner\<rparr> in
     wf_request q \<and> request_from_wire (PyDict (request_wire q)) = Inr q"
proof -
  let ?q = "\<lparr>hq_request_id = ''req-1'', hq_operation = PREPARE_RUN, hq_identity = sample_owner,
       hq_policy = sample_policy, hq_containment = containment_of sample_owner\<rparr>"
  have "wf_request ?q" by (simp add: wf_request_def)
  with helper_wire_round_trip [of ?q] show ?thesis by (simp add: Let_def)
qed

text \<open>
  A receipt built for a request is accepted for that request and for no other one: another
  request id, operation, run or policy makes the verification fail.
\<close>

theorem receipt_binds_one_request:
  assumes "receipt_for_request q stat enf obs err = Inr r"
    and "wf_request q" "wf_request q'"
  shows "wf_receipt r \<and> (verify_for r q' = None \<longleftrightarrow> q' = q)"
proof -
  have r: "hr_request_id r = hq_request_id q" "hr_operation r = hq_operation q" "hr_identity r = hq_identity q"
    "hr_policy r = hq_policy q" "hr_containment r = hq_containment q" "is_text 128 (hr_observed_at r)"
    "hr_resource_digest r = resource_digest (hq_policy q) (hq_containment q)"
    "\<forall>e. hr_error_code r = Some e \<longrightarrow> is_token e" "status_consistent r"
    using assms(1) unfolding receipt_for_request_def HelperReceipt_Inr by simp_all
  have "q' = q \<longleftrightarrow> hq_request_id q = hq_request_id q' \<and> hq_operation q = hq_operation q'
      \<and> hq_identity q = hq_identity q' \<and> hq_policy q = hq_policy q' \<and> hq_containment q = hq_containment q'"
    by (auto intro: helper_request.equality)
  then have "verify_for r q' = None \<longleftrightarrow> q' = q" unfolding verify_for_def r by auto
  moreover have "wf_receipt r" using r assms(2) by (simp add: wf_receipt_def wf_request_def)
  ultimately show ?thesis by simp
qed

theorem receipt_binds_one_request_witness:
  "let q = \<lparr>hq_request_id = ''req-1'', hq_operation = PREPARE_RUN, hq_identity = sample_owner,
       hq_policy = sample_policy, hq_containment = containment_of sample_owner\<rparr> in
     verify_for (sample_receipt q) q = None \<and> verify_for (sample_receipt q) (q\<lparr>hq_operation := RELEASE_RUN\<rparr>) \<noteq> None"
proof -
  let ?q = "\<lparr>hq_request_id = ''req-1'', hq_operation = PREPARE_RUN, hq_identity = sample_owner,
       hq_policy = sample_policy, hq_containment = containment_of sample_owner\<rparr>"
  have built: "receipt_for_request ?q (PyStr (status_text PREPARED)) (PyStr (enforcement_text ENFORCEMENT_ACTIVE))
      (PyStr ''now'') PyNone = Inr (sample_receipt ?q)"
    by (simp add: receipt_for_request_def HelperReceipt_Inr sample_receipt_def status_consistent_def)
  have "wf_request ?q" "wf_request (?q\<lparr>hq_operation := RELEASE_RUN\<rparr>)" by (simp_all add: wf_request_def)
  with receipt_binds_one_request [OF built, of ?q] receipt_binds_one_request [OF built, of "?q\<lparr>hq_operation := RELEASE_RUN\<rparr>"]
  show ?thesis by (simp add: Let_def)
qed

section \<open>Policies\<close>

text \<open>
  A policy does not depend on the order in which its owner lists the destinations: the two
  listings give the same policy, so the same digest, and its reference is always constructed.
\<close>

theorem policy_is_canonical:
  assumes "EgressPolicy pid version broker upstream destinations = Inr p" "wf_endpoint broker"
    and "mset destinations' = mset destinations"
  shows "EgressPolicy pid version broker upstream destinations' = Inr p
    \<and> (\<exists>ref. reference_of p = Inr ref \<and> wf_reference ref \<and> er_policy_digest ref = policy_digest p)"
proof -
  have guards: "eg_require_token pid ''policy_id'' = None" "eg_require_int version ''policy_version'' 1 = None"
      "eg_require_logical_name upstream ''approved_upstream'' = None" "destinations \<noteq> []"
    and names: "\<forall>v \<in> set destinations. eg_require_logical_name v ''logical_destinations entry'' = None"
      "distinct (map the_str destinations)"
    and p: "p = \<lparr>ep_policy_id = the_str pid, ep_policy_version = the_int version, ep_broker = broker,
           ep_approved_upstream = the_str upstream, ep_logical_destinations = sort (map the_str destinations)\<rparr>"
    using assms(1) unfolding EgressPolicy_def run_checks_Inr by (simp_all del: eg_guards_None)
  have sets: "set destinations' = set destinations" using assms(3) by (rule mset_eq_setD)
  have listed: "destinations' \<noteq> []" using sets guards(4) by auto
  have names': "mset (map the_str destinations') = mset (map the_str destinations)" using assms(3) by simp
  have once: "distinct (map the_str destinations')"
    using names(2) mset_eq_imp_distinct_iff [OF names'] by simp
  have sorted: "sort (map the_str destinations) = sort (map the_str destinations')"
    using names' by (intro properties_for_sort) (simp_all del: mset_map)
  note same = sets listed once
  have "EgressPolicy pid version broker upstream destinations' = Inr p"
    unfolding EgressPolicy_def run_checks_Inr p sorted
    using guards names same by (simp del: eg_guards_None)
  moreover have "is_digest (policy_digest p)" by (simp add: policy_digest_def)
  ultimately show ?thesis
    using guards(1,2) assms(2)
    by (auto simp: reference_of_def EgressPolicyReference_Inr wf_reference_def p
        intro!: exI [of _ "\<lparr>er_policy_id = the_str pid, er_policy_version = the_int version,
          er_policy_digest = policy_digest p, er_broker = broker\<rparr>"])
qed

definition sample_policy_fields :: "py list \<Rightarrow> pyexc + egress_policy" where
  "sample_policy_fields destinations = EgressPolicy (PyStr ''default'') (PyInt 1)
     \<lparr>be_host = LOOPBACK_HOST, be_port = 8080, be_transport = ''tcp''\<rparr> (PyStr ''model-api'') destinations"

theorem policy_is_canonical_witness:
  "\<exists>p. sample_policy_fields [PyStr ''provider'', PyStr ''mirror''] = Inr p
     \<and> sample_policy_fields [PyStr ''mirror'', PyStr ''provider''] = Inr p"
proof -
  let ?broker = "\<lparr>be_host = LOOPBACK_HOST, be_port = 8080, be_transport = ''tcp''\<rparr>"
  let ?p = "\<lparr>ep_policy_id = ''default'', ep_policy_version = 1, ep_broker = ?broker,
     ep_approved_upstream = ''model-api'', ep_logical_destinations = [''mirror'', ''provider'']\<rparr>"
  have built: "EgressPolicy (PyStr ''default'') (PyInt 1) ?broker (PyStr ''model-api'')
      [PyStr ''provider'', PyStr ''mirror''] = Inr ?p"
    by code_simp
  have "wf_endpoint ?broker" by code_simp
  moreover have "mset [PyStr ''mirror'', PyStr ''provider''] = mset [PyStr ''provider'', PyStr ''mirror'']" by simp
  ultimately show ?thesis using policy_is_canonical [OF built] built by (simp add: sample_policy_fields_def)
qed

end
