(* ===== verification/Arbitration.thy ===== *)
theory Arbitration
  imports Py_Values "HOL-Library.Sublist"
begin

text \<open>
  \<open>worker/vnext_runtime/arbitration.py\<close>: the local registry of resource reservations.  The registry
  is a JSON file that several Workers of one host read and replace under a file lock, so an operation
  is one atomic step on its content.  What the operating system answers (the resolved name of a path,
  whether a process exists, whether the lock and the file can be taken) is an argument, as are fresh
  identifiers and the time.  The identity of an arbiter object is a number.
\<close>

section \<open>The host\<close>

datatype path_value = PathObj string | Value py

record host =
  fs_expand :: "string \<Rightarrow> string"
  fs_resolve :: "bool \<Rightarrow> string \<Rightarrow> pyexc + string"
  os_kill :: "int \<Rightarrow> pyexc option"
  os_pid :: int
  os_lock :: "pyexc option"
  os_write :: "pyexc option"

text \<open>
  \<open>fs_expand\<close> replaces the home directory and the variables of the environment, \<open>fs_resolve\<close> gives
  the normalised real name of an absolute path.  The mode \<open>windows\<close> is the argument of that name
  with its default taken from the host.
\<close>

definition resolution_error :: "pyexc \<Rightarrow> bool" where
  "resolution_error e = (case e of OSError _ \<Rightarrow> True | PermissionError _ \<Rightarrow> True | ProcessLookupError _ \<Rightarrow> True
     | ValueError _ \<Rightarrow> True | RuntimeError _ \<Rightarrow> True | _ \<Rightarrow> False)"

definition canonicalize_path :: "host \<Rightarrow> bool \<Rightarrow> path_value \<Rightarrow> pyexc + string" where
  "canonicalize_path h windows v =
     (case (case v of PathObj s \<Rightarrow> Some s | Value (PyStr s) \<Rightarrow> Some s | Value _ \<Rightarrow> None) of
        None \<Rightarrow> Inl (ResourceIdentityError ''resource path must be text or pathlib.Path'')
      | Some text \<Rightarrow>
          (let raw = strip (fs_expand h text) in
           if raw = [] then Inl (ResourceIdentityError ''resource path is empty'')
           else (case fs_resolve h windows raw of
               Inl e \<Rightarrow> Inl (if resolution_error e
                 then ResourceIdentityError (''unable to canonicalize resource path: '' @ repr_str raw) else e)
             | Inr candidate \<Rightarrow>
                 if \<not> has_prefix ''/'' candidate \<and> \<not> windows
                 then Inl (ResourceIdentityError
                   (''canonical resource path is not absolute: '' @ repr_str raw))
                 else Inr candidate)))"

definition lower_char :: "char \<Rightarrow> char" where
  "lower_char c =
     (let n = (of_char c :: nat)
      in if (65 \<le> n \<and> n \<le> 90) \<or> (192 \<le> n \<and> n \<le> 222 \<and> n \<noteq> 215) then char_of (n + 32) else c)"

definition replace_char :: "char \<Rightarrow> char \<Rightarrow> string \<Rightarrow> string" where
  "replace_char a b = map (\<lambda>c. if c = a then b else c)"

text \<open>\<open>normcase\<close>: the name itself on POSIX, lower case with backslashes on Windows.\<close>

definition path_identity :: "host \<Rightarrow> bool \<Rightarrow> path_value \<Rightarrow> pyexc + string" where
  "path_identity h windows v =
     res_bind (canonicalize_path h windows v) (\<lambda>canonical.
       Inr (if windows then map lower_char (replace_char (CHR ''/'') (CHR 0x5C) canonical) else canonical))"

definition is_separator :: "char \<Rightarrow> bool" where
  "is_separator c \<longleftrightarrow> c = CHR 0x5C \<or> c = CHR ''/''"

definition rstrip_separators :: "string \<Rightarrow> string" where
  "rstrip_separators s = rev (dropWhile is_separator (rev s))"

definition keys_conflict :: "bool \<Rightarrow> string \<Rightarrow> string \<Rightarrow> bool" where
  "keys_conflict windows left_key right_key \<longleftrightarrow>
     (if left_key = right_key then True
      else (let separator = (if windows then CHR 0x5C else CHR ''/'') in
        has_prefix (rstrip_separators left_key @ [separator]) right_key
        \<or> has_prefix (rstrip_separators right_key @ [separator]) left_key))"

definition paths_conflict :: "host \<Rightarrow> bool \<Rightarrow> path_value \<Rightarrow> path_value \<Rightarrow> pyexc + bool" where
  "paths_conflict h windows l r =
     res_bind (path_identity h windows l) (\<lambda>left_key.
     res_bind (path_identity h windows r) (\<lambda>right_key.
       Inr (keys_conflict windows left_key right_key)))"

section \<open>Git targets\<close>

record git_target =
  gt_remote :: string
  gt_branch :: string

definition GitTargetIdentity :: "string \<Rightarrow> string \<Rightarrow> pyexc + git_target" where
  "GitTargetIdentity remote branch =
     (if remote = [] \<or> branch = [] then Inl (ValueError ''GitTargetIdentity requires remote and branch'')
      else Inr \<lparr>gt_remote = remote, gt_branch = branch\<rparr>)"

definition git_key :: "git_target \<Rightarrow> string \<times> string" where
  "git_key g = (gt_remote g, py_casefold (gt_branch g))"

definition git_json :: "git_target \<Rightarrow> pydict" where
  "git_json g = [(''remote'', PyStr (gt_remote g)), (''branch'', PyStr (gt_branch g))]"

section \<open>Arbiters and reservations\<close>

record arbiter =
  ar_id :: nat
  ar_max_parallel :: int
  ar_host :: string
  ar_pid :: int
  ar_windows :: bool

record reservation =
  rv_id :: string
  rv_project :: string
  rv_admission :: string
  rv_run :: string
  rv_host :: string
  rv_pid :: int
  rv_paths :: "string list"
  rv_git :: "git_target option"
  rv_acquired :: string
  rv_arbiter :: nat

text \<open>The result of an admission: a reservation, or the reason of the refusal, which the arbiter keeps.\<close>

type_synonym admission_decision = "string + reservation"

text \<open>The file: missing, one whose reading or decoding raises an exception, or one that holds a JSON value.\<close>

datatype registry_file = Absent | Unreadable pyexc | Holds py

definition HostResourceArbiter ::
    "nat \<Rightarrow> py \<Rightarrow> string option \<Rightarrow> string \<Rightarrow> int option \<Rightarrow> host \<Rightarrow> bool \<Rightarrow> pyexc + arbiter" where
  "HostResourceArbiter ident max_parallel worker_host hostname worker_pid h windows =
     (if \<not> is_int max_parallel \<or> the_int max_parallel < 1
      then Inl (ValueError ''max_parallel_runs must be an integer >= 1'')
      else Inr \<lparr>ar_id = ident, ar_max_parallel = the_int max_parallel,
             ar_host = (case worker_host of Some (c # s) \<Rightarrow> c # s
               | _ \<Rightarrow> if hostname \<noteq> [] then hostname else ''unknown''),
             ar_pid = (case worker_pid of None \<Rightarrow> os_pid h | Some p \<Rightarrow> p), ar_windows = windows\<rparr>)"

datatype exclusive = Default | PathList "path_value list" | NotAList

definition path_text :: "path_value \<Rightarrow> string" where
  "path_text v = (case v of PathObj s \<Rightarrow> s | Value p \<Rightarrow> py_str p)"

fun collect_keys :: "host \<Rightarrow> bool \<Rightarrow> string list \<Rightarrow> path_value list \<Rightarrow> pyexc + string list" where
  "collect_keys h windows keys [] = Inr keys"
| "collect_keys h windows keys (v # vs) =
     res_bind (path_identity h windows v) (\<lambda>key.
       collect_keys h windows (if key \<in> set keys then keys else keys @ [key]) vs)"

definition effective_paths :: "host \<Rightarrow> arbiter \<Rightarrow> string \<Rightarrow> exclusive \<Rightarrow> pyexc + string list" where
  "effective_paths h ar workdir excl =
     (case (case excl of Default \<Rightarrow> PathList [PathObj workdir] | e \<Rightarrow> e) of
        PathList (v # vs) \<Rightarrow>
          (let values = v # vs;
               values = (if PathObj workdir \<notin> set values \<and> workdir \<notin> path_text ` set values
                         then PathObj workdir # values else values) in
           res_bind (collect_keys h (ar_windows ar) [] values) (\<lambda>keys. Inr (sort keys)))
      | _ \<Rightarrow> Inl (ResourceIdentityError ''exclusive_paths must be a non-empty list''))"

section \<open>Conflicts\<close>

text \<open>Iterating over a value of a foreign record: the items of a list, the characters of a text, the keys of an object.\<close>

definition py_iter :: "py \<Rightarrow> pyexc + py list" where
  "py_iter v = (case v of PyList xs \<Rightarrow> Inr xs | PyStr s \<Rightarrow> Inr (map (\<lambda>c. PyStr [c]) s)
     | PyDict d \<Rightarrow> Inr (map (\<lambda>(k, _). PyStr k) d) | _ \<Rightarrow> Inl (TypeError ''object is not iterable''))"

definition arbitration_error :: "pyexc \<Rightarrow> bool" where
  "arbitration_error e =
     (case e of ResourceArbitrationError _ \<Rightarrow> True | ResourceIdentityError _ \<Rightarrow> True | _ \<Rightarrow> False)"

fun pair_reason :: "host \<Rightarrow> bool \<Rightarrow> (string \<times> py) list \<Rightarrow> pyexc + string option" where
  "pair_reason h windows [] = Inr None"
| "pair_reason h windows ((l, r) # pairs) =
     (case paths_conflict h windows (Value (PyStr l)) (Value r) of
        Inl e \<Rightarrow> if arbitration_error e then Inr (Some ''resource_identity_unknown'') else Inl e
      | Inr True \<Rightarrow> Inr (Some ''exclusive_path_conflict'')
      | Inr False \<Rightarrow> pair_reason h windows pairs)"

definition git_reason :: "git_target option \<Rightarrow> py \<Rightarrow> string option" where
  "git_reason git other =
     (case (git, other) of
        (Some g, PyDict d) \<Rightarrow>
          if (py_str (dget_or d ''remote'' (PyStr [])), py_casefold (py_str (dget_or d ''branch'' (PyStr [])))) = git_key g
          then Some ''git_target_conflict'' else None
      | _ \<Rightarrow> None)"

definition record_reason :: "host \<Rightarrow> bool \<Rightarrow> reservation \<Rightarrow> pydict \<Rightarrow> pyexc + string option" where
  "record_reason h windows rv record =
     (if py_eq (dget record ''project_id'') (PyStr (rv_project rv)) then Inr (Some ''project_already_reserved'')
      else res_bind
        (if rv_paths rv = [] then Inr None
         else res_bind (py_iter (dget_or record ''paths'' (PyList []))) (\<lambda>others.
           pair_reason h windows (List.product (rv_paths rv) others)))
        (\<lambda>reason. Inr (case reason of Some r \<Rightarrow> Some r | None \<Rightarrow> git_reason (rv_git rv) (dget record ''git_target''))))"

fun records_reason :: "host \<Rightarrow> bool \<Rightarrow> reservation \<Rightarrow> pydict list \<Rightarrow> pyexc + string option" where
  "records_reason h windows rv [] = Inr None"
| "records_reason h windows rv (record # records) =
     res_bind (record_reason h windows rv record) (\<lambda>reason.
       case reason of Some r \<Rightarrow> Inr (Some r) | None \<Rightarrow> records_reason h windows rv records)"

definition conflict_reason :: "host \<Rightarrow> arbiter \<Rightarrow> reservation \<Rightarrow> pydict list \<Rightarrow> pyexc + string option" where
  "conflict_reason h ar rv records =
     (if int (length records) \<ge> ar_max_parallel ar then Inr (Some ''slot_exhausted'')
      else records_reason h (ar_windows ar) rv records)"

section \<open>The registry\<close>

definition safe_stale :: "host \<Rightarrow> arbiter \<Rightarrow> pydict \<Rightarrow> pyexc + bool" where
  "safe_stale h ar record =
     (if \<not> py_eq (dget record ''worker_host'') (PyStr (ar_host ar)) then Inr False
      else (case dget record ''worker_pid'' of
          PyInt pid \<Rightarrow>
            if pid \<le> 0 \<or> pid = os_pid h then Inr False
            else (case os_kill h pid of
                None \<Rightarrow> Inr False
              | Some (ProcessLookupError _) \<Rightarrow> Inr True
              | Some (PermissionError _) \<Rightarrow> Inr False
              | Some (OSError _) \<Rightarrow> Inr True
              | Some e \<Rightarrow> Inl e)
        | _ \<Rightarrow> Inr False))"

fun remove_safe_stale :: "host \<Rightarrow> arbiter \<Rightarrow> pydict list \<Rightarrow> pyexc + pydict list" where
  "remove_safe_stale h ar [] = Inr []"
| "remove_safe_stale h ar (record # records) =
     res_bind (safe_stale h ar record) (\<lambda>stale.
     res_bind (remove_safe_stale h ar records) (\<lambda>rest.
       Inr (if stale then rest else record # rest)))"

definition to_record :: "reservation \<Rightarrow> pydict" where
  "to_record rv =
     [(''reservation_id'', PyStr (rv_id rv)), (''project_id'', PyStr (rv_project rv)),
      (''admission_id'', PyStr (rv_admission rv)), (''run_id'', PyStr (rv_run rv)),
      (''worker_host'', PyStr (rv_host rv)), (''worker_pid'', PyInt (rv_pid rv)),
      (''paths'', PyList (map PyStr (rv_paths rv))),
      (''git_target'', case rv_git rv of None \<Rightarrow> PyNone | Some g \<Rightarrow> PyDict (git_json g)),
      (''acquired_at'', PyStr (rv_acquired rv))]"

definition record_matches :: "pydict \<Rightarrow> reservation \<Rightarrow> bool" where
  "record_matches record rv \<longleftrightarrow>
     py_eq (dget record ''reservation_id'') (PyStr (rv_id rv))
     \<and> py_eq (dget record ''project_id'') (PyStr (rv_project rv))
     \<and> py_eq (dget record ''admission_id'') (PyStr (rv_admission rv))
     \<and> py_eq (dget record ''run_id'') (PyStr (rv_run rv))
     \<and> py_eq (dget record ''worker_host'') (PyStr (rv_host rv))
     \<and> py_eq (dget record ''worker_pid'') (PyInt (rv_pid rv))"

definition load_locked :: "registry_file \<Rightarrow> pyexc + pydict list" where
  "load_locked reg = (case reg of
       Absent \<Rightarrow> Inr []
     | Unreadable e \<Rightarrow>
         if is_os_error e \<or> (case e of JSONDecodeError _ \<Rightarrow> True | _ \<Rightarrow> False)
         then Inl (ResourceArbitrationError ''resource registry is unreadable'') else Inl e
     | Holds (PyList xs) \<Rightarrow>
         if list_all is_dict xs then Inr (map the_dict xs)
         else Inl (ResourceArbitrationError ''resource registry has invalid shape'')
     | Holds _ \<Rightarrow> Inl (ResourceArbitrationError ''resource registry has invalid shape''))"

text \<open>The replacement of the file is atomic: it happens, or the registry stays as it was.\<close>

definition write_locked :: "host \<Rightarrow> pydict list \<Rightarrow> registry_file \<Rightarrow> (pyexc + unit) \<times> registry_file" where
  "write_locked h records reg = (case os_write h of
     Some e \<Rightarrow> (Inl e, reg) | None \<Rightarrow> (Inr (), Holds (PyList (map PyDict records))))"

section \<open>Operations\<close>

definition or_else :: "string option \<Rightarrow> string \<Rightarrow> string" where
  "or_else v d = (case v of Some (c # s) \<Rightarrow> c # s | _ \<Rightarrow> d)"

definition make_reservation ::
    "arbiter \<Rightarrow> string \<Rightarrow> string \<Rightarrow> string \<Rightarrow> string option \<Rightarrow> string option \<Rightarrow> git_target option \<Rightarrow> string list
       \<Rightarrow> reservation" where
  "make_reservation ar token now project run admission git paths =
     \<lparr>rv_id = token, rv_project = project, rv_admission = or_else admission token,
      rv_run = or_else run (''admission-'' @ or_else admission token), rv_host = ar_host ar, rv_pid = ar_pid ar,
      rv_paths = paths, rv_git = git, rv_acquired = now, rv_arbiter = ar_id ar\<rparr>"

text \<open>The block under the lock; an arbitration error of it is answered as an unavailable registry.\<close>

definition reserve_locked ::
    "host \<Rightarrow> arbiter \<Rightarrow> reservation \<Rightarrow> registry_file \<Rightarrow> (pyexc + admission_decision) \<times> registry_file" where
  "reserve_locked h ar rv reg =
     (case res_bind (load_locked reg) (\<lambda>loaded.
           res_bind (remove_safe_stale h ar loaded) (\<lambda>records.
           res_bind (conflict_reason h ar rv records) (\<lambda>reason. Inr (records, reason)))) of
        Inl e \<Rightarrow> (Inl e, reg)
      | Inr (records, Some reason) \<Rightarrow>
          (case write_locked h records reg of (r, reg') \<Rightarrow> (res_bind r (\<lambda>_. Inr (Inl reason)), reg'))
      | Inr (records, None) \<Rightarrow>
          (case write_locked h (records @ [to_record rv]) reg of
             (r, reg') \<Rightarrow> (res_bind r (\<lambda>_. Inr (Inr rv)), reg')))"

definition check_and_reserve ::
    "host \<Rightarrow> arbiter \<Rightarrow> string \<Rightarrow> string \<Rightarrow> string \<Rightarrow> string \<Rightarrow> exclusive \<Rightarrow> string option \<Rightarrow> string option
       \<Rightarrow> git_target option \<Rightarrow> registry_file \<Rightarrow> (pyexc + admission_decision) \<times> registry_file" where
  "check_and_reserve h ar token now project workdir excl run admission git reg =
     (case effective_paths h ar workdir excl of
        Inl e \<Rightarrow>
          if arbitration_error e
          then (Inr (Inl (''resource_identity:'' @ (case e of ResourceIdentityError _ \<Rightarrow> ''ResourceIdentityError''
                | _ \<Rightarrow> ''ResourceArbitrationError''))), reg)
          else (Inl e, reg)
      | Inr paths \<Rightarrow>
          (case os_lock h of
             Some e \<Rightarrow> (Inl e, reg)
           | None \<Rightarrow>
               (case reserve_locked h ar (make_reservation ar token now project run admission git paths) reg of
                  (Inl e, reg') \<Rightarrow>
                    (if arbitration_error e then Inr (Inl ''resource_registry_unavailable'') else Inl e, reg')
                | res \<Rightarrow> res)))"

definition arbiter_release :: "host \<Rightarrow> arbiter \<Rightarrow> reservation \<Rightarrow> registry_file \<Rightarrow> (pyexc + bool) \<times> registry_file" where
  "arbiter_release h ar rv reg =
     (if rv_arbiter rv \<noteq> ar_id ar then (Inr False, reg)
      else (case os_lock h of
          Some e \<Rightarrow> (Inl e, reg)
        | None \<Rightarrow>
            (case load_locked reg of
               Inl e \<Rightarrow> (Inl e, reg)
             | Inr records \<Rightarrow>
                 (let remaining = filter (\<lambda>item. \<not> record_matches item rv) records in
                  if length remaining \<noteq> length records
                  then (case write_locked h remaining reg of (r, reg') \<Rightarrow> (res_bind r (\<lambda>_. Inr True), reg'))
                  else (Inr False, reg)))))"

definition active_reservations :: "host \<Rightarrow> arbiter \<Rightarrow> registry_file \<Rightarrow> (pyexc + pydict list) \<times> registry_file" where
  "active_reservations h ar reg =
     (case os_lock h of
        Some e \<Rightarrow> (Inl e, reg)
      | None \<Rightarrow>
          (case res_bind (load_locked reg) (remove_safe_stale h ar) of
             Inl e \<Rightarrow> (Inl e, reg)
           | Inr records \<Rightarrow>
               (case write_locked h records reg of (r, reg') \<Rightarrow> (res_bind r (\<lambda>_. Inr records), reg'))))"

section \<open>Pools of compatible members\<close>

text \<open>A pool admits a member that is compatible with all the others, and drops members freely.\<close>

locale exclusive_pool =
  fixes compat :: "'r \<Rightarrow> 'r \<Rightarrow> bool"
  assumes compat_sym: "compat r s \<Longrightarrow> compat s r"
begin

lemma admit: "sorted_wrt compat rs \<Longrightarrow> \<forall>s \<in> set rs. compat r s \<Longrightarrow> sorted_wrt compat (rs @ [r])"
  by (auto simp: sorted_wrt_append intro: compat_sym)

lemma drop_some: "sorted_wrt compat rs \<Longrightarrow> sorted_wrt compat (filter P rs)"
  by (simp add: sorted_wrt_filter)

lemma all_pairs:
  assumes "sorted_wrt compat rs" "i < length rs" "j < length rs" "i \<noteq> j"
  shows "compat (rs ! i) (rs ! j)"
proof (cases "i < j")
  case True
  then show ?thesis using assms(3) by (rule sorted_wrt_nth_less [OF assms(1)])
next
  case False
  then have "j < i" using assms(4) by simp
  then have "compat (rs ! j) (rs ! i)" using assms(2) by (rule sorted_wrt_nth_less [OF assms(1)])
  then show ?thesis by (rule compat_sym)
qed

lemma members:
  assumes "sorted_wrt compat rs" "r \<in> set rs" "s \<in> set rs" "r \<noteq> s"
  shows "compat r s"
proof -
  obtain i j where "i < length rs" "j < length rs" "rs ! i = r" "rs ! j = s"
    using assms(2,3) by (auto simp: in_set_conv_nth)
  then show ?thesis using all_pairs [OF assms(1)] assms(4) by metis
qed

lemma once: "(\<And>r. \<not> compat r r) \<Longrightarrow> sorted_wrt compat rs \<Longrightarrow> distinct rs"
  using all_pairs by (metis distinct_conv_nth)

end

section \<open>Compatible reservations\<close>

definition compatible :: "host \<Rightarrow> bool \<Rightarrow> reservation \<Rightarrow> reservation \<Rightarrow> bool" where
  "compatible h windows r s \<longleftrightarrow> rv_project r \<noteq> rv_project s
     \<and> (\<forall>l \<in> set (rv_paths r). \<forall>m \<in> set (rv_paths s).
          paths_conflict h windows (Value (PyStr l)) (Value (PyStr m)) = Inr False)
     \<and> (\<forall>g g'. rv_git r = Some g \<longrightarrow> rv_git s = Some g' \<longrightarrow> git_key g \<noteq> git_key g')"

lemma keys_conflict_sym: "keys_conflict windows l r = keys_conflict windows r l"
  by (auto simp: keys_conflict_def Let_def)

lemma paths_conflict_sym: "paths_conflict h windows l r = Inr b \<Longrightarrow> paths_conflict h windows r l = Inr b"
  by (auto simp: paths_conflict_def res_bind_Inr_iff keys_conflict_sym)

interpretation reservations: exclusive_pool "compatible h windows" for h windows
  unfolding compatible_def by unfold_locales (use paths_conflict_sym in metis)

lemma not_self_compatible [simp]: "\<not> compatible h windows r r"
  by (simp add: compatible_def)

lemma record_fields [simp]:
  "dget (to_record rv) ''reservation_id'' = PyStr (rv_id rv)"
  "dget (to_record rv) ''project_id'' = PyStr (rv_project rv)"
  "dget (to_record rv) ''admission_id'' = PyStr (rv_admission rv)"
  "dget (to_record rv) ''run_id'' = PyStr (rv_run rv)"
  "dget (to_record rv) ''worker_host'' = PyStr (rv_host rv)"
  "dget (to_record rv) ''worker_pid'' = PyInt (rv_pid rv)"
  "dget_or (to_record rv) ''paths'' d = PyList (map PyStr (rv_paths rv))"
  "dget (to_record rv) ''git_target'' = (case rv_git rv of None \<Rightarrow> PyNone | Some g \<Rightarrow> PyDict (git_json g))"
  by (simp_all add: to_record_def dget_or_def)

lemma pair_reason_None:
  "pair_reason h windows pairs = Inr None \<longleftrightarrow>
     (\<forall>(l, r) \<in> set pairs. paths_conflict h windows (Value (PyStr l)) (Value r) = Inr False)"
proof (induction pairs)
  case (Cons pair pairs)
  obtain l r where pair: "pair = (l, r)" by force
  show ?case
  proof (cases "paths_conflict h windows (Value (PyStr l)) (Value r)")
    case (Inl e)
    then show ?thesis by (simp add: pair)
  next
    case (Inr b)
    then show ?thesis using Cons.IH by (cases b) (simp_all add: pair)
  qed
qed simp

lemma git_reason_None:
  "git_reason git (case git' of None \<Rightarrow> PyNone | Some g \<Rightarrow> PyDict (git_json g)) = None \<longleftrightarrow>
     (\<forall>g g'. git = Some g \<longrightarrow> git' = Some g' \<longrightarrow> git_key g \<noteq> git_key g')"
  by (auto simp: git_reason_def git_json_def dget_or_def git_key_def py_str_def split: option.splits)

lemma record_reason_None:
  "record_reason h windows rv (to_record s) = Inr None \<longleftrightarrow> compatible h windows rv s"
proof -
  have "pair_reason h windows (List.product (rv_paths rv) (map PyStr (rv_paths s))) = Inr None \<longleftrightarrow>
      (\<forall>l \<in> set (rv_paths rv). \<forall>m \<in> set (rv_paths s).
         paths_conflict h windows (Value (PyStr l)) (Value (PyStr m)) = Inr False)"
    by (auto simp: pair_reason_None)
  moreover have "record_reason h windows rv (to_record s) = Inr None \<longleftrightarrow>
      rv_project rv \<noteq> rv_project s
      \<and> (rv_paths rv = [] \<or> pair_reason h windows (List.product (rv_paths rv) (map PyStr (rv_paths s))) = Inr None)
      \<and> git_reason (rv_git rv) (dget (to_record s) ''git_target'') = None"
    by (cases "git_reason (rv_git rv) (dget (to_record s) ''git_target'')")
       (auto simp: record_reason_def py_iter_def res_bind_Inr_iff split: option.splits
          simp del: record_fields(8))
  ultimately show ?thesis
    by (auto simp: compatible_def git_reason_None)
qed

lemma records_reason_None:
  "records_reason h windows rv (map to_record rs) = Inr None \<longleftrightarrow> (\<forall>s \<in> set rs. compatible h windows rv s)"
  by (induction rs) (auto simp: res_bind_Inr_iff record_reason_None split: option.splits)

lemma conflict_reason_None:
  "conflict_reason h ar rv (map to_record rs) = Inr None \<longleftrightarrow>
     int (length rs) < ar_max_parallel ar \<and> (\<forall>s \<in> set rs. compatible h (ar_windows ar) rv s)"
  by (auto simp: conflict_reason_def records_reason_None)

lemma record_matches_project: "record_matches (to_record s) r \<Longrightarrow> rv_project s = rv_project r"
  by (simp add: record_matches_def)

lemma record_matches_self [simp]: "record_matches (to_record r) r"
  by (simp add: record_matches_def num_eq_def num_of_def)

section \<open>Paths that lie below each other\<close>

text \<open>
  Stated without the comparison of the program: a key is the list of the names between its
  separators, and one key lies at or below another when the names of the upper one begin its own.
  On POSIX the first name of an absolute key is empty, on Windows it is the drive.  A final
  separator, that of a root, adds no name, and the empty text names no path.  \<open>trimmed\<close> excludes an upper key whose names end in one
  of the characters the comparison strips: on POSIX, a directory whose name ends in a backslash.
\<close>

definition separator :: "bool \<Rightarrow> char" where
  "separator windows = (if windows then CHR 0x5C else CHR ''/'')"

fun split_at :: "char \<Rightarrow> string \<Rightarrow> string list" where
  "split_at x [] = [[]]"
| "split_at x (c # s) = (if c = x then [] # split_at x s
     else (case split_at x s of n # ns \<Rightarrow> (c # n) # ns | [] \<Rightarrow> [[c]]))"

fun join_at :: "char \<Rightarrow> string list \<Rightarrow> string" where
  "join_at x [] = []"
| "join_at x [n] = n"
| "join_at x (n # m # ns) = n @ x # join_at x (m # ns)"

definition path_names :: "bool \<Rightarrow> string \<Rightarrow> string list" where
  "path_names windows key =
     (let ns = split_at (separator windows) key in if last ns = [] then butlast ns else ns)"

definition trimmed :: "bool \<Rightarrow> string \<Rightarrow> bool" where
  "trimmed windows key \<longleftrightarrow>
     (let upper = join_at (separator windows) (path_names windows key) in upper = [] \<or> \<not> is_separator (last upper))"

definition lies_above :: "bool \<Rightarrow> string \<Rightarrow> string \<Rightarrow> bool" where
  "lies_above windows upper lower \<longleftrightarrow>
     trimmed windows upper \<and> path_names windows upper \<noteq> []
     \<and> prefix (path_names windows upper) (path_names windows lower)"

lemma lies_above_samples:
  "lies_above False ''/w/a'' ''/w/a'' \<and> lies_above False ''/w/a'' ''/w/a/x'' \<and> lies_above False ''/'' ''/w''
     \<and> \<not> lies_above False ''/w/a'' ''/w/ab'' \<and> \<not> lies_above False ''/w/a/x'' ''/w/a''"
  by code_simp

lemma has_prefix_iff: "has_prefix p s \<longleftrightarrow> prefix p s"
  unfolding has_prefix_def prefix_def by (metis append_eq_conv_conj append_take_drop_id)

lemma separator_is [simp]: "is_separator (separator w)"
  by (simp add: separator_def is_separator_def)

lemma rstrip_last: "s = [] \<or> \<not> is_separator (last s) \<Longrightarrow> rstrip_separators s = s"
  by (cases s rule: rev_cases) (simp_all add: rstrip_separators_def)

lemma rstrip_snoc: "is_separator c \<Longrightarrow> rstrip_separators (s @ [c]) = rstrip_separators s"
  by (simp add: rstrip_separators_def)

lemma split_nonempty [simp]: "split_at x s \<noteq> []"
  by (induction s) (auto split: list.split)

lemma join_cons: "ns \<noteq> [] \<Longrightarrow> join_at x (n # ns) = n @ x # join_at x ns"
  by (cases ns) simp_all

lemma join_split [simp]: "join_at x (split_at x s) = s"
proof (induction s)
  case (Cons c s)
  obtain n ns where ns: "split_at x s = n # ns" by (cases "split_at x s") simp_all
  then show ?case using Cons.IH by (cases ns) (simp_all add: join_cons)
qed simp

lemma join_append: "ns \<noteq> [] \<Longrightarrow> ms \<noteq> [] \<Longrightarrow> join_at x (ns @ ms) = join_at x ns @ x # join_at x ms"
proof (induction ns)
  case (Cons n ns)
  then show ?case by (cases ns) (simp_all add: join_cons)
qed simp

text \<open>A key is its names joined, and one separator more when it ends in one.\<close>

lemma key_cases:
  obtains (plain) "path_names w key = split_at (separator w) key"
    "key = join_at (separator w) (path_names w key)"
  | (ended) "path_names w key \<noteq> []" "key = join_at (separator w) (path_names w key) @ [separator w]"
  | (none) "path_names w key = []" "key = []"
proof -
  let ?ns = "split_at (separator w) key"
  show thesis
  proof (cases "last ?ns = []")
    case False
    then show thesis using plain by (simp add: path_names_def)
  next
    case True
    then have ns: "?ns = path_names w key @ [[]]"
      using append_butlast_last_id [of ?ns] by (simp add: path_names_def)
    have key: "key = join_at (separator w) (path_names w key @ [[]])" using join_split ns by metis
    show thesis
    proof (cases "path_names w key = []")
      case True
      then show thesis using key none by simp
    next
      case False
      then show thesis using key ended by (simp add: join_append)
    qed
  qed
qed

lemma rstrip_trimmed:
  assumes "trimmed w key"
  shows "rstrip_separators key = join_at (separator w) (path_names w key)"
proof -
  have "rstrip_separators (join_at (separator w) (path_names w key)) = join_at (separator w) (path_names w key)"
    using assms by (intro rstrip_last) (simp add: trimmed_def Let_def)
  then show ?thesis
    by (cases rule: key_cases [of w key]) (metis, metis rstrip_snoc separator_is, simp)
qed

lemma lies_above_conflict:
  assumes "lies_above w k k'"
  shows "keys_conflict w k k'"
proof -
  let ?x = "separator w"
  let ?j = "join_at ?x (path_names w k)"
  have base: "rstrip_separators k = ?j" using assms rstrip_trimmed by (simp add: lies_above_def)
  have stripped: "rstrip_separators ?j = ?j"
    using assms by (intro rstrip_last) (simp add: lies_above_def trimmed_def Let_def)
  obtain zs where zs: "path_names w k' = path_names w k @ zs"
    using assms by (auto simp: lies_above_def prefix_def)
  have below: "prefix (?j @ [?x]) k' \<or> k' = ?j"
  proof (cases "zs = []")
    case True
    then have "path_names w k' = path_names w k" by (simp add: zs)
    then show ?thesis by (cases rule: key_cases [of w k']) (metis, metis prefix_order.refl, metis join_at.simps(1))
  next
    case False
    have "path_names w k \<noteq> []" using assms by (simp add: lies_above_def)
    then have "prefix (?j @ [?x]) (join_at ?x (path_names w k'))"
      using join_append [OF _ False] by (simp add: zs)
    then show ?thesis by (cases rule: key_cases [of w k']) (metis, metis prefix_order.trans prefixI, simp)
  qed
  moreover have "k = k' \<or> prefix (rstrip_separators k' @ [?x]) k" if "k' = ?j"
    using that by (cases rule: key_cases [of w k]) (simp_all add: stripped)
  ultimately show ?thesis
    by (auto simp: keys_conflict_def Let_def has_prefix_iff base separator_def)
qed

text \<open>
  Two reservations that do not stand in each other's way: other projects, paths of which none lies
  at or below one of the other, and no branch of a remote in common.
\<close>

definition apart :: "host \<Rightarrow> bool \<Rightarrow> reservation \<Rightarrow> reservation \<Rightarrow> bool" where
  "apart h windows r s \<longleftrightarrow> rv_project r \<noteq> rv_project s
     \<and> (\<forall>l \<in> set (rv_paths r). \<forall>m \<in> set (rv_paths s). \<exists>k k'.
          path_identity h windows (Value (PyStr l)) = Inr k \<and> path_identity h windows (Value (PyStr m)) = Inr k'
          \<and> \<not> lies_above windows k k' \<and> \<not> lies_above windows k' k)
     \<and> (\<forall>g g'. rv_git r = Some g \<longrightarrow> rv_git s = Some g' \<longrightarrow>
          gt_remote g \<noteq> gt_remote g' \<or> py_casefold (gt_branch g) \<noteq> py_casefold (gt_branch g'))"

lemma compatible_apart: "compatible h windows r s \<Longrightarrow> apart h windows r s"
  unfolding apart_def compatible_def
  by (fastforce simp: paths_conflict_def res_bind_Inr_iff git_key_def keys_conflict_sym
      dest: lies_above_conflict)

section \<open>The registry as a pool of reservations\<close>

definition registry_of :: "reservation list \<Rightarrow> registry_file" where
  "registry_of rs = Holds (PyList (map (\<lambda>r. PyDict (to_record r)) rs))"

definition holds :: "registry_file \<Rightarrow> reservation list \<Rightarrow> bool" where
  "holds reg rs \<longleftrightarrow> reg = registry_of rs \<or> reg = Absent \<and> rs = []"

lemma holds_registry_of [simp]: "holds (registry_of rs) rs"
  by (simp add: holds_def)

lemma load_holds [simp]: "holds reg rs \<Longrightarrow> load_locked reg = Inr (map to_record rs)"
  by (auto simp: holds_def load_locked_def registry_of_def list_all_iff is_dict_def the_dict_def)

text \<open>A reservation the operations keep: its Worker may still exist.\<close>

definition kept :: "host \<Rightarrow> arbiter \<Rightarrow> reservation \<Rightarrow> bool" where
  "kept h ar r \<longleftrightarrow> rv_host r \<noteq> ar_host ar \<or> rv_pid r \<le> 0 \<or> rv_pid r = os_pid h
     \<or> os_kill h (rv_pid r) = None \<or> (\<exists>s. os_kill h (rv_pid r) = Some (PermissionError s))"

definition live :: "host \<Rightarrow> arbiter \<Rightarrow> reservation list \<Rightarrow> reservation list" where
  "live h ar rs = filter (kept h ar) rs"

lemma live_subset: "set (live h ar rs) \<subseteq> set rs" "length (live h ar rs) \<le> length rs"
  by (auto simp: live_def)

lemma safe_stale_kept: "safe_stale h ar (to_record r) = Inr b \<Longrightarrow> b \<longleftrightarrow> \<not> kept h ar r"
  by (auto simp: kept_def safe_stale_def split: if_splits option.splits pyexc.splits)

lemma remove_safe_stale_live:
  "remove_safe_stale h ar (map to_record rs) = Inr records \<Longrightarrow> records = map to_record (live h ar rs)"
  by (induction rs arbitrary: records) (auto simp: live_def res_bind_Inr_iff dest: safe_stale_kept)

lemma remove_safe_stale_returns:
  "(\<forall>r \<in> set rs. returns (safe_stale h ar (to_record r))) \<Longrightarrow>
     remove_safe_stale h ar (map to_record rs) = Inr (map to_record (live h ar rs))"
proof -
  assume "\<forall>r \<in> set rs. returns (safe_stale h ar (to_record r))"
  then have "\<exists>records. remove_safe_stale h ar (map to_record rs) = Inr records"
    by (induction rs) (auto simp: returns_iff)
  then show ?thesis using remove_safe_stale_live by metis
qed

lemma write_result:
  "write_locked h (map to_record rs) reg = (r, reg') \<Longrightarrow>
     (r = Inr () \<and> reg' = registry_of rs) \<or> (\<exists>e. r = Inl e \<and> os_write h = Some e \<and> reg' = reg)"
  by (auto simp: write_locked_def registry_of_def comp_def split: option.splits)

text \<open>What one operation can do to the registry.\<close>

inductive registry_change ::
    "host \<Rightarrow> arbiter \<Rightarrow> reservation option \<Rightarrow> reservation list \<Rightarrow> reservation list \<Rightarrow> bool" where
  unchanged: "registry_change h ar gone rs rs"
| cleaned: "registry_change h ar gone rs (live h ar rs)"
| admitted: "int (length (live h ar rs)) < ar_max_parallel ar \<Longrightarrow>
     \<forall>s \<in> set (live h ar rs). compatible h (ar_windows ar) rv s \<Longrightarrow>
     registry_change h ar gone rs (live h ar rs @ [rv])"
| removed: "registry_change h ar (Some rv) rs (filter (\<lambda>s. \<not> record_matches (to_record s) rv) rs)"

lemma reserve_locked_cases:
  assumes "holds reg rs"
  obtains (failed) e where "reserve_locked h ar rv reg = (Inl e, reg)"
  | (refused) reason where "reserve_locked h ar rv reg = (Inr (Inl reason), registry_of (live h ar rs))"
      "conflict_reason h ar rv (map to_record (live h ar rs)) = Inr (Some reason)"
  | (granted) "reserve_locked h ar rv reg = (Inr (Inr rv), registry_of (live h ar rs @ [rv]))"
      "conflict_reason h ar rv (map to_record (live h ar rs)) = Inr None"
proof (cases "remove_safe_stale h ar (map to_record rs)")
  case (Inl e)
  then show thesis using assms failed by (simp add: reserve_locked_def)
next
  case (Inr records)
  then have records: "records = map to_record (live h ar rs)" by (rule remove_safe_stale_live)
  show thesis
  proof (cases "conflict_reason h ar rv records")
    case (Inl e)
    then show thesis using assms Inr failed by (simp add: reserve_locked_def)
  next
    case reason: (Inr reason)
    show thesis
    proof (cases reason)
      case None
      have "reserve_locked h ar rv reg =
          (case write_locked h (map to_record (live h ar rs @ [rv])) reg of
             (r, reg') \<Rightarrow> (res_bind r (\<lambda>_. Inr (Inr rv)), reg'))"
        using assms Inr reason None by (simp add: reserve_locked_def records)
      then show thesis
        using write_result [of h "live h ar rs @ [rv]" reg] failed granted reason None
        by (cases "write_locked h (map to_record (live h ar rs @ [rv])) reg") (auto simp: records)
    next
      case (Some why)
      have "reserve_locked h ar rv reg =
          (case write_locked h (map to_record (live h ar rs)) reg of
             (r, reg') \<Rightarrow> (res_bind r (\<lambda>_. Inr (Inl why)), reg'))"
        using assms Inr reason Some by (simp add: reserve_locked_def records)
      then show thesis
        using write_result [of h "live h ar rs" reg] failed refused reason Some
        by (cases "write_locked h (map to_record (live h ar rs)) reg") (auto simp: records)
    qed
  qed
qed

lemma check_and_reserve_change:
  assumes "holds reg rs"
  shows "\<exists>rs'. holds (snd (check_and_reserve h ar token now project workdir excl run admission git reg)) rs'
    \<and> registry_change h ar None rs rs'"
proof (cases "effective_paths h ar workdir excl")
  case (Inl e)
  then show ?thesis using assms unchanged by (auto simp: check_and_reserve_def)
next
  case paths: (Inr paths)
  let ?rv = "make_reservation ar token now project run admission git paths"
  show ?thesis
  proof (cases "os_lock h")
    case (Some e)
    then show ?thesis using assms paths unchanged by (auto simp: check_and_reserve_def)
  next
    case None
    have res: "snd (check_and_reserve h ar token now project workdir excl run admission git reg) =
        snd (reserve_locked h ar ?rv reg)"
      using None paths by (auto simp: check_and_reserve_def split: prod.splits sum.splits)
    show ?thesis
    proof (cases rule: reserve_locked_cases [OF assms, of h ar ?rv])
      case (1 e)
      then show ?thesis using assms unchanged by (auto simp: res)
    next
      case (2 reason)
      then show ?thesis using cleaned by (auto simp: res intro!: exI [of _ "live h ar rs"])
    next
      case 3
      then have "registry_change h ar None rs (live h ar rs @ [?rv])"
        by (intro admitted) (simp_all add: conflict_reason_None)
      then show ?thesis using 3 by (auto simp: res intro!: exI [of _ "live h ar rs @ [?rv]"])
    qed
  qed
qed

lemma release_change:
  assumes "holds reg rs"
  shows "\<exists>rs'. holds (snd (arbiter_release h ar rv reg)) rs' \<and> registry_change h ar (Some rv) rs rs'"
proof -
  let ?rest = "filter (\<lambda>s. \<not> record_matches (to_record s) rv) rs"
  have rest: "filter (\<lambda>item. \<not> record_matches item rv) (map to_record rs) = map to_record ?rest"
    by (simp add: filter_map comp_def)
  obtain r reg' where w: "write_locked h (map to_record ?rest) reg = (r, reg')" by force
  have "snd (arbiter_release h ar rv reg) = reg \<or> snd (arbiter_release h ar rv reg) = registry_of ?rest"
    using write_result [OF w] assms by (auto simp: arbiter_release_def Let_def rest w split: option.splits)
  then show ?thesis using assms unchanged removed holds_registry_of by metis
qed

lemma active_change:
  assumes "holds reg rs"
  shows "\<exists>rs'. holds (snd (active_reservations h ar reg)) rs' \<and> registry_change h ar None rs rs'"
proof (cases "os_lock h = None \<and> returns (remove_safe_stale h ar (map to_record rs))")
  case True
  then have records: "remove_safe_stale h ar (map to_record rs) = Inr (map to_record (live h ar rs))"
    using remove_safe_stale_live by (metis returns_iff)
  obtain r reg' where w: "write_locked h (map to_record (live h ar rs)) reg = (r, reg')" by force
  have "snd (active_reservations h ar reg) = reg \<or> snd (active_reservations h ar reg) = registry_of (live h ar rs)"
    using write_result [OF w] assms True by (auto simp: active_reservations_def records w)
  then show ?thesis using assms unchanged cleaned holds_registry_of by metis
next
  case False
  then have "snd (active_reservations h ar reg) = reg"
    using assms
    by (cases "remove_safe_stale h ar (map to_record rs)")
       (auto simp: active_reservations_def split: option.splits)
  then show ?thesis using assms unchanged by metis
qed

section \<open>Sequences of operations\<close>

text \<open>
  The Workers of a host share the registry and the file system; each call has its own answers of
  the operating system.  The arbiters may allow different numbers of parallel runs, at most \<open>M\<close>.
\<close>

datatype arbiter_call =
    CheckAndReserve host arbiter string string string string exclusive "string option" "string option"
      "git_target option"
  | Release host arbiter reservation
  | ActiveReservations host arbiter

fun call_host :: "arbiter_call \<Rightarrow> host" where
  "call_host (CheckAndReserve h ar token now project workdir excl run admission git) = h"
| "call_host (Release h ar rv) = h"
| "call_host (ActiveReservations h ar) = h"

fun call_arbiter :: "arbiter_call \<Rightarrow> arbiter" where
  "call_arbiter (CheckAndReserve h ar token now project workdir excl run admission git) = ar"
| "call_arbiter (Release h ar rv) = ar"
| "call_arbiter (ActiveReservations h ar) = ar"

fun call_gone :: "arbiter_call \<Rightarrow> reservation option" where
  "call_gone (Release h ar rv) = Some rv"
| "call_gone x = None"

fun registry_after :: "arbiter_call \<Rightarrow> registry_file \<Rightarrow> registry_file" where
  "registry_after (CheckAndReserve h ar token now project workdir excl run admission git) reg =
     snd (check_and_reserve h ar token now project workdir excl run admission git reg)"
| "registry_after (Release h ar rv) reg = snd (arbiter_release h ar rv reg)"
| "registry_after (ActiveReservations h ar) reg = snd (active_reservations h ar reg)"

definition shares :: "host \<Rightarrow> bool \<Rightarrow> int \<Rightarrow> arbiter_call \<Rightarrow> bool" where
  "shares h windows M x \<longleftrightarrow> fs_expand (call_host x) = fs_expand h \<and> fs_resolve (call_host x) = fs_resolve h
     \<and> ar_windows (call_arbiter x) = windows \<and> ar_max_parallel (call_arbiter x) \<le> M"

inductive registry_run :: "host \<Rightarrow> bool \<Rightarrow> int \<Rightarrow> registry_file \<Rightarrow> arbiter_call list \<Rightarrow> registry_file \<Rightarrow> bool"
  for h windows M where
  stop: "registry_run h windows M reg [] reg"
| step: "shares h windows M x \<Longrightarrow> registry_run h windows M (registry_after x reg) xs reg' \<Longrightarrow>
     registry_run h windows M reg (x # xs) reg'"

inductive_simps registry_run_simps [simp]:
  "registry_run h windows M reg [] reg'" "registry_run h windows M reg (x # xs) reg'"

lemma paths_conflict_cong:
  assumes "fs_expand h = fs_expand h'" "fs_resolve h = fs_resolve h'"
  shows "paths_conflict h windows l r = paths_conflict h' windows l r"
  unfolding paths_conflict_def path_identity_def canonicalize_path_def assms ..

lemma compatible_cong:
  assumes "fs_expand h = fs_expand h'" "fs_resolve h = fs_resolve h'"
  shows "compatible h windows r s = compatible h' windows r s"
  unfolding compatible_def using paths_conflict_cong [OF assms] by simp

lemma call_change:
  "holds reg rs \<Longrightarrow>
     \<exists>rs'. holds (registry_after x reg) rs' \<and> registry_change (call_host x) (call_arbiter x) (call_gone x) rs rs'"
  by (cases x) (simp_all add: check_and_reserve_change release_change active_change)

definition exclusion :: "host \<Rightarrow> bool \<Rightarrow> int \<Rightarrow> reservation list \<Rightarrow> bool" where
  "exclusion h windows M rs \<longleftrightarrow> int (length rs) \<le> M \<and> sorted_wrt (compatible h windows) rs"

lemma exclusion_filter: "exclusion h windows M rs \<Longrightarrow> exclusion h windows M (filter P rs)"
  by (auto simp: exclusion_def reservations.drop_some intro: order_trans [OF of_nat_mono [OF length_filter_le]])

lemma change_exclusion:
  assumes "registry_change h ar gone rs rs'" "exclusion h (ar_windows ar) M rs" "ar_max_parallel ar \<le> M"
  shows "exclusion h (ar_windows ar) M rs'"
  using assms
proof (induction rule: registry_change.induct)
  case (cleaned h ar gone rs)
  then show ?case by (simp add: live_def exclusion_filter)
next
  case (admitted h ar rs rv gone)
  then have "sorted_wrt (compatible h (ar_windows ar)) (live h ar rs @ [rv])"
    unfolding exclusion_def live_def by (intro reservations.admit reservations.drop_some) simp_all
  then show ?case using admitted by (simp add: exclusion_def)
next
  case (removed h ar rv rs)
  then show ?case by (simp add: exclusion_filter)
qed

lemma exclusion_cong:
  assumes "fs_expand h = fs_expand h'" "fs_resolve h = fs_resolve h'"
  shows "exclusion h windows M rs = exclusion h' windows M rs"
proof -
  have "compatible h windows = compatible h' windows" using compatible_cong [OF assms] by blast
  then show ?thesis by (simp add: exclusion_def)
qed

lemma run_exclusion:
  "registry_run h windows M reg xs reg' \<Longrightarrow> holds reg rs \<Longrightarrow> exclusion h windows M rs \<Longrightarrow>
     \<exists>rs'. holds reg' rs' \<and> exclusion h windows M rs'"
proof (induction arbitrary: rs rule: registry_run.induct)
  case (step x reg xs reg')
  obtain rs1 where rs1: "holds (registry_after x reg) rs1" "registry_change (call_host x) (call_arbiter x) (call_gone x) rs rs1"
    using call_change [OF step.prems(1)] by blast
  note same = step.hyps(1) [unfolded shares_def]
  have "exclusion (call_host x) windows M rs"
    using step.prems(2) same exclusion_cong [of h "call_host x"] by metis
  then have "exclusion (call_host x) windows M rs1"
    using change_exclusion [OF rs1(2), of M] same by simp
  then have "exclusion h windows M rs1"
    using same exclusion_cong [of h "call_host x"] by metis
  then show ?case using step.IH [OF rs1(1)] by blast
qed blast

text \<open>
  C16: mutual exclusion on a host.  Whatever the Workers of a host do with the registry, and whatever
  fails on the way, it holds at most as many reservations as the largest arbiter allows; no two of
  them share a project or the branch of a remote, and of the paths of two of them none lies at or
  below the other, compared name by name.  The exception is an upper path whose last name ends in a
  character the comparison strips, on POSIX a backslash: what lies below it is not recognised.
\<close>

theorem registry_mutual_exclusion:
  assumes "registry_run h windows M Absent calls reg" "0 \<le> M"
  shows "\<exists>rs. holds reg rs \<and> int (length rs) \<le> M
    \<and> (\<forall>i < length rs. \<forall>j < length rs. i \<noteq> j \<longrightarrow> apart h windows (rs ! i) (rs ! j))"
proof -
  have "holds Absent []" "exclusion h windows M []" using assms(2) by (simp_all add: holds_def exclusion_def)
  then obtain rs where "holds reg rs" "exclusion h windows M rs"
    using run_exclusion [OF assms(1)] by blast
  then show ?thesis unfolding exclusion_def using reservations.all_pairs compatible_apart by blast
qed

definition sample_host :: host where
  "sample_host = \<lparr>fs_expand = (\<lambda>s. s), fs_resolve = (\<lambda>_ s. Inr s), os_kill = (\<lambda>_. None), os_pid = 1,
     os_lock = None, os_write = None\<rparr>"

definition sample_arbiter :: arbiter where
  "sample_arbiter = \<lparr>ar_id = 0, ar_max_parallel = 2, ar_host = ''h'', ar_pid = 7, ar_windows = False\<rparr>"

definition sample_reserve :: "string \<Rightarrow> string \<Rightarrow> arbiter_call" where
  "sample_reserve project dir = CheckAndReserve sample_host sample_arbiter (''id-'' @ project) ''now'' project dir
     Default None None None"

definition sample_reservation :: "string \<Rightarrow> string \<Rightarrow> reservation" where
  "sample_reservation project dir = make_reservation sample_arbiter (''id-'' @ project) ''now'' project
     None None None [dir]"

text \<open>Two projects in sibling directories are admitted, a third one below the first of them is not.\<close>

lemma sample_registry:
  "registry_after (sample_reserve ''p2'' ''/w/b'') (registry_after (sample_reserve ''p1'' ''/w/a'') Absent)
     = registry_of [sample_reservation ''p1'' ''/w/a'', sample_reservation ''p2'' ''/w/b'']"
  by code_simp

theorem registry_mutual_exclusion_witness:
  "\<exists>rs. holds (registry_after (sample_reserve ''p2'' ''/w/b'') (registry_after (sample_reserve ''p1'' ''/w/a'') Absent)) rs
     \<and> length rs \<le> 2 \<and> (\<forall>i < length rs. \<forall>j < length rs. i \<noteq> j \<longrightarrow> apart sample_host False (rs ! i) (rs ! j))"
proof -
  have "registry_run sample_host False 2 Absent [sample_reserve ''p1'' ''/w/a'', sample_reserve ''p2'' ''/w/b'']
      (registry_after (sample_reserve ''p2'' ''/w/b'') (registry_after (sample_reserve ''p1'' ''/w/a'') Absent))"
    by (simp add: shares_def sample_reserve_def sample_arbiter_def)
  then show ?thesis using registry_mutual_exclusion by fastforce
qed

definition spares :: "reservation \<Rightarrow> arbiter_call \<Rightarrow> bool" where
  "spares r x \<longleftrightarrow> kept (call_host x) (call_arbiter x) r
     \<and> (\<forall>rv. call_gone x = Some rv \<longrightarrow> \<not> record_matches (to_record r) rv)"

lemma change_keeps:
  "registry_change h ar gone rs rs' \<Longrightarrow> r \<in> set rs \<Longrightarrow> kept h ar r \<Longrightarrow>
     \<forall>rv. gone = Some rv \<longrightarrow> \<not> record_matches (to_record r) rv \<Longrightarrow> r \<in> set rs'"
  by (induction rule: registry_change.induct) (auto simp: live_def)

lemma run_keeps:
  "registry_run h windows M reg xs reg' \<Longrightarrow> holds reg rs \<Longrightarrow> r \<in> set rs \<Longrightarrow> \<forall>x \<in> set xs. spares r x \<Longrightarrow>
     \<exists>rs'. holds reg' rs' \<and> r \<in> set rs'"
proof (induction arbitrary: rs rule: registry_run.induct)
  case (step x reg xs reg')
  obtain rs1 where rs1: "holds (registry_after x reg) rs1"
      "registry_change (call_host x) (call_arbiter x) (call_gone x) rs rs1"
    using call_change [OF step.prems(1)] by blast
  have "r \<in> set rs1"
    using change_keeps [OF rs1(2) step.prems(2)] step.prems(3) by (simp add: spares_def)
  then show ?case using step.IH [OF rs1(1)] step.prems(3) by simp
qed blast

text \<open>
  A Worker that still exists keeps its reservation: only a release of that reservation takes it
  out of the registry, whatever the other Workers do.
\<close>

theorem live_reservation_survives:
  assumes "registry_run h windows M (registry_of rs) calls reg" "r \<in> set rs"
    and "\<forall>x \<in> set calls. spares r x"
  shows "\<exists>rs'. holds reg rs' \<and> r \<in> set rs'"
  using run_keeps [OF assms(1) holds_registry_of assms(2,3)] .

theorem live_reservation_survives_witness:
  "\<exists>rs'. holds (registry_after (sample_reserve ''p2'' ''/w/a/x'') (registry_of [sample_reservation ''p1'' ''/w/a''])) rs'
     \<and> sample_reservation ''p1'' ''/w/a'' \<in> set rs'"
proof -
  have "registry_run sample_host False 2 (registry_of [sample_reservation ''p1'' ''/w/a''])
      [sample_reserve ''p2'' ''/w/a/x'']
      (registry_after (sample_reserve ''p2'' ''/w/a/x'') (registry_of [sample_reservation ''p1'' ''/w/a'']))"
    by (simp add: shares_def sample_reserve_def sample_arbiter_def)
  moreover have "spares (sample_reservation ''p1'' ''/w/a'') (sample_reserve ''p2'' ''/w/a/x'')"
    by (simp add: spares_def sample_reserve_def kept_def sample_host_def)
  ultimately show ?thesis using live_reservation_survives by fastforce
qed

text \<open>
  An admission is decided by what the registry holds once the reservations of dead Workers are
  dropped: the candidate is admitted exactly when a slot is free and it is compatible with every
  reservation left, and it is then recorded; otherwise only the dead reservations are dropped.
\<close>

theorem admission_decision_exact:
  assumes "holds reg rs" "os_lock h = None" "os_write h = None"
    and "effective_paths h ar workdir excl = Inr paths"
    and "check_and_reserve h ar token now project workdir excl run admission git reg = (Inr d, reg')"
    and "d \<noteq> Inl ''resource_registry_unavailable''"
  defines "rv \<equiv> make_reservation ar token now project run admission git paths"
  shows "(d = Inr rv \<longleftrightarrow> int (length (live h ar rs)) < ar_max_parallel ar
            \<and> (\<forall>s \<in> set (live h ar rs). compatible h (ar_windows ar) rv s))
    \<and> reg' = registry_of (live h ar rs @ (if d = Inr rv then [rv] else []))"
proof -
  have res: "check_and_reserve h ar token now project workdir excl run admission git reg =
      (case reserve_locked h ar rv reg of
         (Inl e, reg') \<Rightarrow> (if arbitration_error e then Inr (Inl ''resource_registry_unavailable'') else Inl e, reg')
       | r \<Rightarrow> r)"
    using assms(2,4) by (simp add: check_and_reserve_def rv_def)
  show ?thesis
  proof (cases rule: reserve_locked_cases [OF assms(1), of h ar rv])
    case (1 e)
    then show ?thesis using res assms(5,6) by (auto split: if_splits)
  next
    case (2 reason)
    then have "conflict_reason h ar rv (map to_record (live h ar rs)) \<noteq> Inr None" by simp
    then show ?thesis using 2(1) res assms(5) by (auto simp: conflict_reason_None)
  next
    case 3
    then show ?thesis using res assms(5) by (auto simp: conflict_reason_None)
  qed
qed

theorem admission_decision_exact_witness:
  "\<exists>d reg'. check_and_reserve sample_host sample_arbiter ''id-p2'' ''now'' ''p2'' ''/w/a/x'' Default None None None
       (registry_of [sample_reservation ''p1'' ''/w/a'']) = (Inr d, reg')
     \<and> d = Inl ''exclusive_path_conflict'' \<and> reg' = registry_of [sample_reservation ''p1'' ''/w/a'']"
proof -
  have paths: "effective_paths sample_host sample_arbiter ''/w/a/x'' Default = Inr [''/w/a/x'']" by code_simp
  have refused: "check_and_reserve sample_host sample_arbiter ''id-p2'' ''now'' ''p2'' ''/w/a/x'' Default None None None
       (registry_of [sample_reservation ''p1'' ''/w/a''])
     = (Inr (Inl ''exclusive_path_conflict''), registry_of [sample_reservation ''p1'' ''/w/a''])"
    by code_simp
  show ?thesis
    using admission_decision_exact [OF holds_registry_of _ _ paths refused] refused
    by (simp add: sample_host_def)
qed

text \<open>
  A release takes out exactly the reservation it names, once: the others stay in their order,
  and a second release finds nothing.
\<close>

theorem release_is_exact:
  assumes "holds reg rs" "exclusion h windows M rs" "r \<in> set rs" "rv_arbiter r = ar_id ar"
    and "arbiter_release h' ar r reg = (Inr b, reg')"
  shows "b \<and> reg' = registry_of (remove1 r rs) \<and> arbiter_release h' ar r reg' = (Inr False, reg')"
proof -
  have pool: "sorted_wrt (compatible h windows) rs" using assms(2) by (simp add: exclusion_def)
  have only: "record_matches (to_record s) r \<longleftrightarrow> s = r" if "s \<in> set rs" for s
    using reservations.members [OF pool that assms(3)] record_matches_project [of s r]
    by (auto simp: compatible_def)
  have "filter (\<lambda>s. \<not> record_matches (to_record s) r) rs = filter (\<lambda>s. s \<noteq> r) rs"
    using only by (intro filter_cong) simp_all
  also have "\<dots> = removeAll r rs" unfolding removeAll_filter_not_eq by (rule filter_cong) auto
  also have "\<dots> = remove1 r rs"
    by (rule distinct_remove1_removeAll [OF reservations.once [OF not_self_compatible pool], symmetric])
  finally have rest: "filter (\<lambda>item. \<not> record_matches item r) (map to_record rs) = map to_record (remove1 r rs)"
    by (simp add: filter_map comp_def)
  have "0 < length rs" using assms(3) by (rule length_pos_if_in_set)
  then have "length rs - 1 \<noteq> length rs" by linarith
  then have shorter: "length (remove1 r rs) \<noteq> length rs"
    using length_remove1 [of r rs] assms(3) by argo
  have lock: "os_lock h' = None"
    using assms(4,5) by (simp add: arbiter_release_def split: option.splits)
  obtain w reg1 where w: "write_locked h' (map to_record (remove1 r rs)) reg = (w, reg1)" by force
  have "arbiter_release h' ar r reg = (res_bind w (\<lambda>_. Inr True), reg1)"
    using assms(1,4) lock shorter by (simp add: arbiter_release_def Let_def rest w)
  then have gone: "b" "reg' = registry_of (remove1 r rs)"
    using assms(5) write_result [OF w] by (auto simp: res_bind_Inr_iff)
  have "\<not> record_matches (to_record s) r" if "s \<in> set (remove1 r rs)" for s
    using that only [of s] reservations.once [OF not_self_compatible pool] by (auto dest: notin_set_remove1)
  then have "filter (\<lambda>item. \<not> record_matches item r) (map to_record (remove1 r rs)) = map to_record (remove1 r rs)"
    by (simp add: filter_map comp_def cong: filter_cong)
  then show ?thesis
    using gone lock assms(4) by (simp add: arbiter_release_def Let_def load_holds [OF holds_registry_of])
qed

theorem release_is_exact_witness:
  "let a = sample_reservation ''p1'' ''/w/a''; b = sample_reservation ''p2'' ''/w/b'' in
     arbiter_release sample_host sample_arbiter a (registry_of [a, b]) = (Inr True, registry_of [b])
     \<and> arbiter_release sample_host sample_arbiter a (registry_of [b]) = (Inr False, registry_of [b])"
proof -
  let ?a = "sample_reservation ''p1'' ''/w/a''" and ?b = "sample_reservation ''p2'' ''/w/b''"
  have "compatible sample_host False ?a ?b"
    unfolding compatible_def by (simp add: sample_reservation_def make_reservation_def) code_simp
  then have pool: "exclusion sample_host False 2 [?a, ?b]" by (simp add: exclusion_def)
  have out: "arbiter_release sample_host sample_arbiter ?a (registry_of [?a, ?b]) = (Inr True, registry_of [?b])"
    by code_simp
  have "rv_arbiter ?a = ar_id sample_arbiter" by code_simp
  then show ?thesis using release_is_exact [OF holds_registry_of pool _ _ out] out by simp
qed

section \<open>Overlapping paths\<close>

text \<open>
  A key is a drive, empty on POSIX, and the names from the root.  A name holds no separator and,
  since the comparison strips both kinds of separators from the end of a key, does not end in one.
\<close>

definition stem :: "bool \<Rightarrow> string \<Rightarrow> string list \<Rightarrow> string" where
  "stem windows drive names = drive @ concat (map (\<lambda>n. separator windows # n) names)"

definition key_of :: "bool \<Rightarrow> string \<Rightarrow> string list \<Rightarrow> string" where
  "key_of windows drive names =
     (if names = [] then drive @ [separator windows] else stem windows drive names)"

definition proper_name :: "bool \<Rightarrow> string \<Rightarrow> bool" where
  "proper_name windows n \<longleftrightarrow> n \<noteq> [] \<and> separator windows \<notin> set n \<and> \<not> is_separator (last n)"

definition proper_drive :: "string \<Rightarrow> bool" where
  "proper_drive d \<longleftrightarrow> list_all (\<lambda>c. \<not> is_separator c) d"

lemma rstrip_key:
  assumes "proper_drive d" "list_all (proper_name w) ns"
  shows "rstrip_separators (key_of w d ns) = stem w d ns"
proof (cases ns rule: rev_cases)
  case Nil
  have "d = [] \<or> \<not> is_separator (last d)"
    using assms(1) by (auto simp: proper_drive_def list_all_iff)
  then show ?thesis by (simp add: Nil key_of_def stem_def rstrip_snoc rstrip_last)
next
  case (snoc ms n)
  have "proper_name w n" using assms(2) by (simp add: snoc)
  then have "last (stem w d ns) = last n" "\<not> is_separator (last n)"
    by (simp_all add: snoc stem_def proper_name_def)
  then show ?thesis by (simp add: rstrip_last key_of_def snoc)
qed

lemma first_name:
  assumes "x \<notin> set a" "x \<notin> set b" "s = [] \<or> hd s = x"
  shows "prefix (a @ x # r) (b @ s) \<longleftrightarrow> a = b \<and> prefix (x # r) s"
  using assms
proof (induction a arbitrary: b)
  case Nil
  then show ?case by (cases b) (auto simp: prefix_def)
next
  case (Cons c a)
  then show ?case by (cases b; cases s) (auto simp: prefix_def)
qed

lemma stem_prefix:
  assumes "list_all (proper_name w) ns" "list_all (proper_name w) ms"
  shows "prefix (concat (map (\<lambda>n. separator w # n) ns) @ [separator w]) (concat (map (\<lambda>n. separator w # n) ms))
    \<longleftrightarrow> strict_prefix ns ms"
  using assms
proof (induction ns arbitrary: ms)
  case Nil
  then show ?case by (cases ms) simp_all
next
  case (Cons n ns)
  show ?case
  proof (cases ms)
    case (Cons m ms')
    let ?rest = "concat (map (\<lambda>n. separator w # n) ns) @ [separator w]"
    let ?tail = "concat (map (\<lambda>n. separator w # n) ms')"
    have names: "separator w \<notin> set n" "separator w \<notin> set m"
      using Cons.prems Cons by (simp_all add: proper_name_def)
    have tail: "?tail = [] \<or> hd ?tail = separator w" by (cases ms') simp_all
    obtain r where r: "?rest = separator w # r" by (cases ns) simp_all
    have "prefix (n @ ?rest) (m @ ?tail) \<longleftrightarrow> n = m \<and> prefix ?rest ?tail"
      unfolding r by (rule first_name [OF names tail])
    then show ?thesis using Cons.IH [of ms'] Cons.prems Cons by simp
  qed simp
qed

lemma prefix_same: "ns = ms \<or> strict_prefix ns ms \<or> strict_prefix ms ns \<longleftrightarrow> prefix ns ms \<or> prefix ms ns"
  by (auto simp: prefix_order.le_less)

lemma drive_prefix:
  assumes "proper_drive d" "proper_drive d'" "s = [] \<or> hd s = separator w"
  shows "prefix (d @ separator w # r) (d' @ s) \<longleftrightarrow> d = d' \<and> prefix (separator w # r) s"
proof (rule first_name [OF _ _ assms(3)])
  show "separator w \<notin> set d" "separator w \<notin> set d'"
    using assms(1,2) by (auto simp: proper_drive_def list_all_iff)
qed

lemma key_prefix:
  assumes "proper_drive d" "proper_drive d'" "list_all (proper_name w) ns" "list_all (proper_name w) ms"
  shows "prefix (stem w d ns @ [separator w]) (key_of w d' ms) \<longleftrightarrow>
     d = d' \<and> (strict_prefix ns ms \<or> ns = [] \<and> ms = [])"
proof -
  let ?cat = "\<lambda>ns. concat (map (\<lambda>n. separator w # n) ns)"
  let ?tail = "if ms = [] then [separator w] else ?cat ms"
  obtain r where r: "?cat ns @ [separator w] = separator w # r" by (cases ns) simp_all
  have key: "key_of w d' ms = d' @ ?tail" by (simp add: key_of_def stem_def)
  have tail: "?tail = [] \<or> hd ?tail = separator w" by (cases ms) simp_all
  have "prefix (stem w d ns @ [separator w]) (key_of w d' ms) \<longleftrightarrow> d = d' \<and> prefix (?cat ns @ [separator w]) ?tail"
    unfolding key stem_def append_assoc r by (rule drive_prefix [OF assms(1,2) tail])
  moreover have "prefix (?cat ns @ [separator w]) ?tail \<longleftrightarrow> strict_prefix ns ms \<or> ns = [] \<and> ms = []"
  proof (cases ms)
    case Nil
    show ?thesis by (cases ns) (simp_all add: Nil)
  next
    case (Cons m ms')
    then show ?thesis using stem_prefix [OF assms(3,4)] by simp
  qed
  ultimately show ?thesis by simp
qed

lemma stem_inject:
  assumes "proper_drive d" "proper_drive d'" "list_all (proper_name w) ns" "list_all (proper_name w) ms"
    and "stem w d ns = stem w d' ms"
  shows "d = d' \<and> prefix ns ms"
proof -
  have x: "proper_name w ''x''" by (simp add: proper_name_def separator_def is_separator_def)
  have "key_of w d' (ms @ [''x'']) = (stem w d ns @ [separator w]) @ ''x''"
    by (simp add: key_of_def assms(5)) (simp add: stem_def)
  then have "prefix (stem w d ns @ [separator w]) (key_of w d' (ms @ [''x'']))" by simp
  then have "d = d' \<and> strict_prefix ns (ms @ [''x''])"
    using key_prefix [OF assms(1,2,3), of "ms @ [''x'']"] assms(4) x by simp
  then show ?thesis by (auto simp: strict_prefix_def)
qed

lemma key_of_inject:
  assumes "proper_drive d" "proper_drive d'" "list_all (proper_name w) ns" "list_all (proper_name w) ms"
  shows "key_of w d ns = key_of w d' ms \<longleftrightarrow> d = d' \<and> ns = ms"
proof
  assume "key_of w d ns = key_of w d' ms"
  then have same: "stem w d ns = stem w d' ms"
    using rstrip_key [OF assms(1,3)] rstrip_key [OF assms(2,4)] by simp
  show "d = d' \<and> ns = ms"
    using stem_inject [OF assms same] stem_inject [OF assms(2,1,4,3) same [symmetric]]
    by (simp add: prefix_order.antisym)
qed simp

text \<open>
  Two paths conflict exactly when one of them lies at or below the other, compared name by name
  from the root of the same drive: \<open>/w/a\<close> and \<open>/w/ab\<close> do not.
\<close>

theorem paths_conflict_is_ancestry:
  assumes "path_identity h w l = Inr (key_of w d ns)" "path_identity h w r = Inr (key_of w d' ms)"
    and "proper_drive d" "proper_drive d'" "list_all (proper_name w) ns" "list_all (proper_name w) ms"
  shows "paths_conflict h w l r = Inr (d = d' \<and> (prefix ns ms \<or> prefix ms ns))"
proof -
  have "keys_conflict w (key_of w d ns) (key_of w d' ms) \<longleftrightarrow>
      key_of w d ns = key_of w d' ms
      \<or> prefix (stem w d ns @ [separator w]) (key_of w d' ms) \<or> prefix (stem w d' ms @ [separator w]) (key_of w d ns)"
    using rstrip_key [OF assms(3,5)] rstrip_key [OF assms(4,6)]
    by (simp add: keys_conflict_def Let_def has_prefix_iff separator_def)
  also have "\<dots> \<longleftrightarrow> d = d' \<and> (ns = ms \<or> strict_prefix ns ms \<or> strict_prefix ms ns)"
    using key_of_inject [OF assms(3-6)] key_prefix [OF assms(3-6)] key_prefix [OF assms(4,3,6,5)] by auto
  finally show ?thesis by (simp add: paths_conflict_def assms(1,2) prefix_same)
qed

theorem paths_conflict_is_ancestry_witness:
  "paths_conflict sample_host False (PathObj ''/w/a'') (PathObj ''/w/a/x'') = Inr True"
proof -
  have "path_identity sample_host False (PathObj ''/w/a'') = Inr (key_of False [] [''w'', ''a''])"
    "path_identity sample_host False (PathObj ''/w/a/x'') = Inr (key_of False [] [''w'', ''a'', ''x''])"
    by code_simp+
  moreover have "proper_drive []" "list_all (proper_name False) [''w'', ''a'']"
    "list_all (proper_name False) [''w'', ''a'', ''x'']"
    by code_simp+
  ultimately show ?thesis using paths_conflict_is_ancestry by fastforce
qed

text \<open>
  On POSIX, where a name may end in a backslash, the comparison strips it from the key and does
  not see that a directory lies below such a directory.
\<close>

theorem nested_path_missed:
  "paths_conflict sample_host False (PathObj (''/w/a'' @ [CHR 0x5C])) (PathObj (''/w/a'' @ [CHR 0x5C] @ ''/x''))
     = Inr False"
  by code_simp

end

