(* ===== verification/Json_Text.thy ===== *)
theory Json_Text
  imports Canonical_Json
begin

text \<open>
  \<open>json.loads\<close> of Python's standard library on text over the modelled alphabet, and the round trip
  with \<open>json.dumps\<close>.  The parser is a recursive descent over the characters that are left; it is
  given twice as much fuel as there are characters, which is enough because every second call consumes one.  The
  conversion of a decimal fraction to the nearest binary float is an argument.  An escape of a code
  point above 255 lies outside the alphabet and is refused like a malformed text.
\<close>

section \<open>The parser\<close>

text \<open>
  \<open>JSONDecodeError\<close>, the \<open>ValueError\<close> of \<open>int()\<close> for a number of more than 4300 digits, and what a hook
  raises on an object with a repeated key.
\<close>

datatype json_error = DecodeError | IntTooLong | DuplicateKey

type_synonym 'a parsed = "json_error + ('a \<times> string)"

definition json_space :: "char \<Rightarrow> bool" where
  "json_space c \<longleftrightarrow> c = CHR '' '' \<or> c = CHR 0x09 \<or> c = CHR 0x0A \<or> c = CHR 0x0D"

definition skip :: "string \<Rightarrow> string" where
  "skip s = dropWhile json_space s"

definition starts :: "char \<Rightarrow> string \<Rightarrow> bool" where
  "starts c s \<longleftrightarrow> s \<noteq> [] \<and> hd s = c"

definition hex_value :: "char \<Rightarrow> nat option" where
  "hex_value c =
     (let n = (of_char c :: nat) in
      if 48 \<le> n \<and> n \<le> 57 then Some (n - 48)
      else if 97 \<le> n \<and> n \<le> 102 then Some (n - 87)
      else if 65 \<le> n \<and> n \<le> 70 then Some (n - 55) else None)"

definition hex4 :: "char \<Rightarrow> char \<Rightarrow> char \<Rightarrow> char \<Rightarrow> nat option" where
  "hex4 a b c d = (case (hex_value a, hex_value b, hex_value c, hex_value d) of
     (Some i, Some j, Some k, Some l) \<Rightarrow> Some (4096 * i + 256 * j + 16 * k + l) | _ \<Rightarrow> None)"

definition simple_escape :: "char \<Rightarrow> char option" where
  "simple_escape c =
     (if c \<in> set [CHR 0x22, CHR 0x5C, CHR ''/''] then Some c
      else if c = CHR ''b'' then Some (CHR 0x08) else if c = CHR ''f'' then Some (CHR 0x0C)
      else if c = CHR ''n'' then Some (CHR 0x0A) else if c = CHR ''r'' then Some (CHR 0x0D)
      else if c = CHR ''t'' then Some (CHR 0x09) else None)"

definition push :: "char \<Rightarrow> string parsed \<Rightarrow> string parsed" where
  "push c r = (case r of Inl e \<Rightarrow> Inl e | Inr (s, rest) \<Rightarrow> Inr (c # s, rest))"

text \<open>The characters after the opening quotation mark.\<close>

fun parse_string :: "string \<Rightarrow> string parsed" where
  "parse_string [] = Inl DecodeError"
| "parse_string (c # s) =
     (if c = CHR 0x22 then Inr ([], s)
      else if c = CHR 0x5C then
        (case s of
           [] \<Rightarrow> Inl DecodeError
         | e # s1 \<Rightarrow>
             if e = CHR ''u'' then
               (case s1 of
                  h1 # h2 # h3 # h4 # s2 \<Rightarrow>
                    (case hex4 h1 h2 h3 h4 of
                       None \<Rightarrow> Inl DecodeError
                     | Some n \<Rightarrow> if n < 256 then push (char_of n) (parse_string s2) else Inl DecodeError)
                | _ \<Rightarrow> Inl DecodeError)
             else (case simple_escape e of
                 None \<Rightarrow> Inl DecodeError
               | Some x \<Rightarrow> push x (parse_string s1)))
      else if (of_char c :: nat) < 32 then Inl DecodeError
      else push c (parse_string s))"

text \<open>A number: the sign, the integer part without leading zeros, and a fraction or an exponent.\<close>

definition int_part :: "string \<Rightarrow> (string \<times> string) option" where
  "int_part s = (case s of
       [] \<Rightarrow> None
     | c # r \<Rightarrow> if c = CHR ''0'' then Some ([c], r)
         else if is_digit c then Some (takeWhile is_digit s, dropWhile is_digit s) else None)"

definition frac_part :: "string \<Rightarrow> string \<times> string" where
  "frac_part s = (case s of
       d # c # r \<Rightarrow> if d = CHR ''.'' \<and> is_digit c
         then (d # takeWhile is_digit (c # r), dropWhile is_digit (c # r)) else ([], s)
     | _ \<Rightarrow> ([], s))"

definition exp_part :: "string \<Rightarrow> string \<times> string" where
  "exp_part s = (case s of
       [] \<Rightarrow> ([], s)
     | e # r \<Rightarrow>
         if e = CHR ''e'' \<or> e = CHR ''E'' then
           (let (sign, ds) = (case r of c # r' \<Rightarrow> if c = CHR ''+'' \<or> c = CHR ''-'' then ([c], r') else ([], r)
                 | [] \<Rightarrow> ([], r)) in
            if takeWhile is_digit ds \<noteq> []
            then (e # sign @ takeWhile is_digit ds, dropWhile is_digit ds) else ([], s))
         else ([], s))"

definition int_literal :: "string \<Rightarrow> string \<Rightarrow> string \<Rightarrow> py parsed" where
  "int_literal sign digits rest =
     (if 4300 < length digits then Inl IntTooLong
      else (let n = foldl (\<lambda>acc c. 10 * acc + digit_value c) 0 digits in
        Inr (PyInt (if sign = [] then n else - n), rest)))"

definition parse_number :: "(string \<Rightarrow> py) \<Rightarrow> string \<Rightarrow> py parsed" where
  "parse_number float_of s =
     (let (sign, s1) = (case s of c # r \<Rightarrow> if c = CHR ''-'' then ([c], r) else ([], s) | [] \<Rightarrow> ([], s)) in
      case int_part s1 of
        None \<Rightarrow> Inl DecodeError
      | Some (digits, s2) \<Rightarrow>
          (let (frac, s3) = frac_part s2; (ex, s4) = exp_part s3 in
           if frac = [] \<and> ex = [] then int_literal sign digits s2
           else Inr (float_of (sign @ digits @ frac @ ex), s4)))"

definition literals :: "(string \<times> py) list" where
  "literals = [(''null'', PyNone), (''true'', PyBool True), (''false'', PyBool False), (''NaN'', PyFloat NaN),
     (''Infinity'', PyFloat (Infinity True)), (''-Infinity'', PyFloat (Infinity False))]"

definition parse_scalar :: "(string \<Rightarrow> py) \<Rightarrow> string \<Rightarrow> py parsed" where
  "parse_scalar float_of s = (case find (\<lambda>(w, _). has_prefix w s) literals of
     Some (w, v) \<Rightarrow> Inr (v, drop (length w) s) | None \<Rightarrow> parse_number float_of s)"

text \<open>The members of an object are collected in order and handed to the hook.\<close>

fun parse_value :: "(pydict \<Rightarrow> json_error + py) \<Rightarrow> (string \<Rightarrow> py) \<Rightarrow> nat \<Rightarrow> string \<Rightarrow> py parsed"
  and parse_items :: "(pydict \<Rightarrow> json_error + py) \<Rightarrow> (string \<Rightarrow> py) \<Rightarrow> nat \<Rightarrow> py list \<Rightarrow> string \<Rightarrow> py parsed"
  and parse_members :: "(pydict \<Rightarrow> json_error + py) \<Rightarrow> (string \<Rightarrow> py) \<Rightarrow> nat \<Rightarrow> pydict \<Rightarrow> string \<Rightarrow> py parsed" where
  "parse_value hook float_of 0 s = Inl DecodeError"
| "parse_value hook float_of (Suc n) s =
     (if starts (CHR 0x22) s then res_bind (parse_string (tl s)) (\<lambda>(t, rest). Inr (PyStr t, rest))
      else if starts (CHR ''{'') s then
        (let r = skip (tl s) in
         if starts (CHR ''}'') r then res_bind (hook []) (\<lambda>v. Inr (v, tl r)) else parse_members hook float_of n [] r)
      else if starts (CHR ''['') s then
        (let r = skip (tl s) in
         if starts (CHR '']'') r then Inr (PyList [], tl r) else parse_items hook float_of n [] r)
      else parse_scalar float_of s)"
| "parse_items hook float_of 0 acc s = Inl DecodeError"
| "parse_items hook float_of (Suc n) acc s =
     res_bind (parse_value hook float_of n s) (\<lambda>(v, rest).
       let r = skip rest in
       if starts (CHR '','') r then parse_items hook float_of n (acc @ [v]) (skip (tl r))
       else if starts (CHR '']'') r then Inr (PyList (acc @ [v]), tl r)
       else Inl DecodeError)"
| "parse_members hook float_of 0 acc s = Inl DecodeError"
| "parse_members hook float_of (Suc n) acc s =
     (if \<not> starts (CHR 0x22) s then Inl DecodeError
      else res_bind (parse_string (tl s)) (\<lambda>(k, rest).
        let r = skip rest in
        if \<not> starts (CHR '':'') r then Inl DecodeError
        else res_bind (parse_value hook float_of n (skip (tl r))) (\<lambda>(v, rest2).
          let r2 = skip rest2 in
          if starts (CHR '','') r2 then parse_members hook float_of n (acc @ [(k, v)]) (skip (tl r2))
          else if starts (CHR ''}'') r2 then res_bind (hook (acc @ [(k, v)])) (\<lambda>object. Inr (object, tl r2))
          else Inl DecodeError)))"

definition json_loads_with :: "(pydict \<Rightarrow> json_error + py) \<Rightarrow> (string \<Rightarrow> py) \<Rightarrow> string \<Rightarrow> json_error + py" where
  "json_loads_with hook float_of s =
     res_bind (parse_value hook float_of (Suc (2 * length s)) (skip s)) (\<lambda>(v, rest).
       if skip rest = [] then Inr v else Inl DecodeError)"

text \<open>Without a hook the result is a dict: a repeated key keeps its first place and gets its last value.\<close>

definition dict_of :: "pydict \<Rightarrow> json_error + py" where
  "dict_of members = Inr (PyDict (foldl (\<lambda>d (k, v). AList.update k v d) [] members))"

definition json_loads :: "(string \<Rightarrow> py) \<Rightarrow> string \<Rightarrow> json_error + py" where
  "json_loads = json_loads_with dict_of"

section \<open>The fuel is enough\<close>

lemma skip_length: "length (skip s) \<le> length s"
  by (simp add: skip_def length_dropWhile_le)

lemma starts_length: "starts c s \<Longrightarrow> length (tl s) < length s"
  by (cases s) (simp_all add: starts_def)

lemma push_Inr: "push c r = Inr (t, rest) \<longleftrightarrow> (\<exists>s. r = Inr (s, rest) \<and> t = c # s)"
  by (cases r) (auto simp: push_def)

lemma parse_string_length: "parse_string s = Inr (t, rest) \<Longrightarrow> length rest < length s"
proof (induction s arbitrary: t rule: parse_string.induct)
  case (2 c s)
  show ?case
  proof (cases "c = CHR 0x22")
    case True
    then show ?thesis using "2.prems" by simp
  next
    case quote: False
    show ?thesis
    proof (cases "c = CHR 0x5C")
      case True
      show ?thesis
      proof (cases s)
        case Nil
        then show ?thesis using "2.prems" True by simp
      next
        case s: (Cons e s1)
        show ?thesis
        proof (cases "e = CHR ''u''")
          case u: True
          obtain h1 h2 h3 h4 s2 n t' where s1: "s1 = h1 # h2 # h3 # h4 # s2"
              and run: "hex4 h1 h2 h3 h4 = Some n" "n < 256" "parse_string s2 = Inr (t', rest)"
            using "2.prems" True s u by (auto simp: push_Inr split: list.split_asm option.split_asm if_split_asm)
          then have "length rest < length s2"
            using "2.IH"(1) quote True s u by simp
          then show ?thesis by (simp add: s s1)
        next
          case plain: False
          obtain x t' where run: "simple_escape e = Some x" "parse_string s1 = Inr (t', rest)"
            using "2.prems" True s plain by (auto simp: push_Inr split: option.split_asm)
          then have "length rest < length s1" using "2.IH"(2) quote True s plain by simp
          then show ?thesis by (simp add: s)
        qed
      qed
    next
      case False
      then show ?thesis using "2.prems" "2.IH"(3) quote by (auto simp: push_Inr split: if_splits)
    qed
  qed
qed simp

lemma int_part_length: "int_part s = Some (ds, rest) \<Longrightarrow> length rest < length s"
  using length_dropWhile_le [of is_digit "tl s"]
  by (cases s) (auto simp: int_part_def split: if_splits)

lemma frac_part_length: "length (snd (frac_part s)) \<le> length s"
  using length_dropWhile_le [of is_digit]
  by (auto simp: frac_part_def le_SucI split: list.splits)

lemma exp_part_length: "length (snd (exp_part s)) \<le> length s"
  using length_dropWhile_le [of is_digit]
  by (auto simp: exp_part_def Let_def le_SucI split: list.splits prod.splits)

lemma parse_number_length: "parse_number F s = Inr (v, rest) \<Longrightarrow> length rest < length s"
proof -
  assume run: "parse_number F s = Inr (v, rest)"
  obtain sign s1 where s1: "(case s of c # r \<Rightarrow> if c = CHR ''-'' then ([c], r) else ([], s) | [] \<Rightarrow> ([], s)) = (sign, s1)"
    by force
  then have le: "length s1 \<le> length s" by (auto split: list.splits if_splits)
  from run obtain ds s2 where s2: "int_part s1 = Some (ds, s2)"
    unfolding parse_number_def s1 by (auto split: option.splits)
  obtain f s3 e s4 where s3: "frac_part s2 = (f, s3)" and s4: "exp_part s3 = (e, s4)" by force
  have "length s2 < length s1" "length s3 \<le> length s2" "length s4 \<le> length s3"
    using int_part_length [OF s2] frac_part_length [of s2] exp_part_length [of s3] s3 s4 by simp_all
  moreover have "rest = s2 \<or> rest = s4"
    using run by (auto simp: parse_number_def s1 s2 s3 s4 int_literal_def Let_def split: if_splits)
  ultimately show ?thesis using le by auto
qed

lemma find_literal:
  assumes "find (\<lambda>(w, _). has_prefix w s) literals = Some (w, v)"
  shows "has_prefix w s \<and> w \<noteq> []"
proof -
  have "(w, v) \<in> set literals" "has_prefix w s"
    using assms by (metis (mono_tags, lifting) find_Some_iff nth_mem, auto simp: find_Some_iff)
  moreover have "\<forall>(w, _) \<in> set literals. w \<noteq> []" by (simp add: literals_def)
  ultimately show ?thesis by auto
qed

lemma drop_prefix_length: "has_prefix w s \<Longrightarrow> w \<noteq> [] \<Longrightarrow> length (drop (length w) s) < length s"
  by (cases s) (auto simp: has_prefix_def)

lemma parse_scalar_length: "parse_scalar F s = Inr (v, rest) \<Longrightarrow> length rest < length s"
  using find_literal [of s] drop_prefix_length [of _ s] parse_number_length [of F s]
  by (auto simp: parse_scalar_def split: option.splits)

lemma parse_lengths:
  "parse_value H F n s = Inr (v, rest) \<Longrightarrow> length rest < length s"
  "parse_items H F n acc s = Inr (v, rest) \<Longrightarrow> length rest < length s"
  "parse_members H F n d s = Inr (v, rest) \<Longrightarrow> length rest < length s"
proof (induction H F n s and H F n acc s and H F n d s arbitrary: v rest and v rest and v rest
    rule: parse_value_parse_items_parse_members.induct)
  case (2 H F n s)
  have le: "length (skip (tl s)) \<le> length s - 1" using skip_length [of "tl s"] by simp
  show ?case
  proof (cases "starts (CHR 0x22) s")
    case True
    then obtain t where "parse_string (tl s) = Inr (t, rest)"
      using "2.prems" by (auto simp: res_bind_Inr_iff)
    then show ?thesis using starts_length [OF True] parse_string_length less_trans by blast
  next
    case f1: False
    show ?thesis
    proof (cases "starts (CHR ''{'') s \<or> starts (CHR ''['') s")
      case True
      then have "length (skip (tl s)) < length s" using starts_length le_less_trans [OF skip_length] by blast
      then show ?thesis
        using "2.prems" "2.IH" f1 starts_length [of _ "skip (tl s)"] True
        by (auto simp: Let_def res_bind_Inr_iff split: if_splits) (meson less_trans less_trans [OF starts_length])+
    next
      case False
      then show ?thesis using "2.prems" f1 parse_scalar_length by simp
    qed
  qed
next
  case (4 H F n acc s)
  obtain v1 r1 where v1: "parse_value H F n s = Inr (v1, r1)" using "4.prems" by (auto simp: res_bind_Inr_iff)
  have "length r1 < length s" using "4.IH"(1) v1 by blast
  then have r: "length (skip r1) < length s" using le_less_trans [OF skip_length] by blast
  show ?case
  proof (cases "starts (CHR '','') (skip r1)")
    case True
    then have "length (skip (tl (skip r1))) < length s"
      using r starts_length [OF True] skip_length [of "tl (skip r1)"] by linarith
    moreover have "parse_items H F n (acc @ [v1]) (skip (tl (skip r1))) = Inr (v, rest)"
      using "4.prems" True v1 by (simp add: Let_def)
    ultimately show ?thesis using "4.IH"(2) [OF refl True] by (blast intro: less_trans)
  next
    case False
    then have "starts (CHR '']'') (skip r1)" "rest = tl (skip r1)"
      using "4.prems" v1 by (auto simp: Let_def split: if_splits)
    then show ?thesis using r starts_length less_trans by blast
  qed
next
  case (6 H F n d s)
  then have quote: "starts (CHR 0x22) s" by (auto split: if_splits)
  obtain k r0 where k: "parse_string (tl s) = Inr (k, r0)"
    using "6.prems" quote by (auto simp: res_bind_Inr_iff)
  have colon: "starts (CHR '':'') (skip r0)"
    using "6.prems" quote k by (auto simp: Let_def split: if_splits)
  obtain v1 r1 where v1: "parse_value H F n (skip (tl (skip r0))) = Inr (v1, r1)"
    using "6.prems" quote k colon by (auto simp: Let_def res_bind_Inr_iff)
  have "length r1 < length (skip (tl (skip r0)))"
    using "6.IH"(1) [OF _ refl] quote colon v1 by simp
  then have r: "length (skip r1) < length s"
    using starts_length [OF quote] parse_string_length [OF k] starts_length [OF colon]
      skip_length [of r0] skip_length [of r1] skip_length [of "tl (skip r0)"] by linarith
  have run: "(if starts (CHR '','') (skip r1) then parse_members H F n (d @ [(k, v1)]) (skip (tl (skip r1)))
      else if starts (CHR ''}'') (skip r1) then res_bind (H (d @ [(k, v1)])) (\<lambda>object. Inr (object, tl (skip r1)))
      else Inl DecodeError) = Inr (v, rest)"
    using "6.prems" quote k colon v1 by (simp add: Let_def)
  show ?case
  proof (cases "starts (CHR '','') (skip r1)")
    case True
    then have "length (skip (tl (skip r1))) < length s"
      using r starts_length [OF True] skip_length [of "tl (skip r1)"] by linarith
    moreover have "length rest < length (skip (tl (skip r1)))"
      using "6.IH"(2) [OF _ refl _ refl True] quote colon True run by simp
    ultimately show ?thesis by (rule less_trans [rotated])
  next
    case False
    then have "starts (CHR ''}'') (skip r1)" "rest = tl (skip r1)"
      using run by (auto simp: res_bind_Inr_iff split: if_splits)
    then show ?thesis using r starts_length less_trans by blast
  qed
qed simp_all

lemma res_bind_cong: "r = r' \<Longrightarrow> (\<And>a. r' = Inr a \<Longrightarrow> f a = g a) \<Longrightarrow> res_bind r f = res_bind r' g"
  by (cases r') simp_all

lemma parse_fuel:
  "2 * length s < n \<Longrightarrow> 2 * length s < m \<Longrightarrow> parse_value H F n s = parse_value H F m s"
  "2 * length s + 1 < n \<Longrightarrow> 2 * length s + 1 < m \<Longrightarrow> parse_items H F n acc s = parse_items H F m acc s"
  "2 * length s + 1 < n \<Longrightarrow> 2 * length s + 1 < m \<Longrightarrow> parse_members H F n d s = parse_members H F m d s"
proof (induction n arbitrary: s acc d m)
  case (Suc n)
  {
    case 1
    then obtain m' where m: "m = Suc m'" by (cases m) auto
    have "2 * length (skip (tl s)) + 1 < n \<and> 2 * length (skip (tl s)) + 1 < m'" if "s \<noteq> []"
      using 1 that skip_length [of "tl s"] by (cases s) (auto simp: m)
    then have "parse_members H F n [] (skip (tl s)) = parse_members H F m' [] (skip (tl s))
        \<and> parse_items H F n [] (skip (tl s)) = parse_items H F m' [] (skip (tl s))" if "s \<noteq> []"
      using Suc.IH(2,3) that by blast
    then show ?case by (auto simp: m Let_def starts_def)
  next
    case 2
    then obtain m' where m: "m = Suc m'" by (cases m) auto
    have same: "parse_value H F n s = parse_value H F m' s" by (rule Suc.IH(1)) (use 2 in \<open>simp_all add: m\<close>)
    have "parse_items H F n acc' (skip (tl (skip r))) = parse_items H F m' acc' (skip (tl (skip r)))"
      if "parse_value H F m' s = Inr (v, r)" for v r acc'
    proof -
      have "length (skip (tl (skip r))) < length s"
        using parse_lengths(1) [OF that] skip_length [of r] skip_length [of "tl (skip r)"] by simp
      then show ?thesis by (intro Suc.IH(2)) (use 2 in \<open>simp_all add: m\<close>)
    qed
    then show ?case unfolding m parse_items.simps
      by (intro res_bind_cong [OF same]) (auto simp: Let_def)
  next
    case 3
    then obtain m' where m: "m = Suc m'" by (cases m) auto
    have same: "parse_value H F n (skip (tl (skip r))) = parse_value H F m' (skip (tl (skip r)))"
      and members: "parse_value H F m' (skip (tl (skip r))) = Inr (v, r') \<Longrightarrow>
        parse_members H F n d' (skip (tl (skip r'))) = parse_members H F m' d' (skip (tl (skip r')))"
      if k: "parse_string (tl s) = Inr (k, r)" and quote: "starts (CHR 0x22) s" for k r v r' d'
    proof -
      have le: "length (skip (tl (skip r))) < length s"
        using parse_string_length [OF k] starts_length [OF quote] skip_length [of r]
          skip_length [of "tl (skip r)"] by simp
      then show "parse_value H F n (skip (tl (skip r))) = parse_value H F m' (skip (tl (skip r)))"
        by (intro Suc.IH(1)) (use 3 in \<open>simp_all add: m\<close>)
      assume v: "parse_value H F m' (skip (tl (skip r))) = Inr (v, r')"
      then have "length (skip (tl (skip r'))) < length s"
        using le parse_lengths(1) [OF v] skip_length [of r'] skip_length [of "tl (skip r')"] by simp
      then show "parse_members H F n d' (skip (tl (skip r'))) = parse_members H F m' d' (skip (tl (skip r')))"
        by (intro Suc.IH(3)) (use 3 in \<open>simp_all add: m\<close>)
    qed
    then show ?case unfolding m parse_members.simps
      by (auto simp: Let_def split: prod.split intro!: res_bind_cong)
  }
qed simp_all

section \<open>Reading what was written\<close>

lemma hex_value_digit [simp]: "n < 16 \<Longrightarrow> hex_value (hex_digit n) = Some n"
  by (simp add: hex_digit_def hex_value_def nth_Cons' split: if_splits)

lemma hex_value_zero [simp]: "hex_value (CHR ''0'') = Some 0"
  by (simp add: hex_value_def)

lemma parse_json_char: "parse_string (json_char c @ s) = push c (parse_string s)"
proof -
  have "(of_char c :: nat) < 256" by simp
  then have n: "(of_char c :: nat) div 16 < 16" by linarith
  have "hex4 (CHR ''0'') (CHR ''0'') (hex_digit (of_char c div 16)) (hex_digit (of_char c mod 16)) = Some (of_char c)"
    using n by (simp add: hex4_def)
  then show ?thesis
    by (auto simp: json_char_def Let_def simple_escape_def)
qed

lemma parse_json_str:
  "parse_string (concat (map json_char s) @ CHR 0x22 # rest) = Inr (s, rest)"
  by (induction s) (simp_all add: parse_json_char push_def)

lemma digit_char_digit [simp]: "d < 10 \<Longrightarrow> is_digit (digit_char d)" "d < 10 \<Longrightarrow> digit_value (digit_char d) = int d"
  by (simp_all add: digit_char_def is_digit_def digit_value_def nth_Cons' split: if_splits)

lemma show_nat_digits [simp]: "list_all is_digit (show_nat n)"
proof (induction n rule: less_induct)
  case (less n)
  then show ?case by (cases "n < 10") (simp_all add: show_nat_small show_nat_big)
qed

lemma show_nat_nonempty [simp]: "show_nat n \<noteq> []"
  by (cases "n < 10") (simp_all add: show_nat_small show_nat_big)

definition decimal :: "string \<Rightarrow> int" where
  "decimal s = foldl (\<lambda>acc c. 10 * acc + digit_value c) 0 s"

lemma decimal_show_nat [simp]: "decimal (show_nat n) = int n"
proof (induction n rule: less_induct)
  case (less n)
  show ?case
  proof (cases "n < 10")
    case False
    have "10 * int (n div 10) + int (n mod 10) = int n"
      by (metis mult_div_mod_eq of_nat_add of_nat_mult of_nat_numeral)
    then show ?thesis using less [of "n div 10"] False by (simp add: show_nat_big decimal_def)
  qed (simp add: show_nat_small decimal_def)
qed

lemma show_nat_hd: "0 < n \<Longrightarrow> hd (show_nat n) \<noteq> CHR ''0''"
proof (induction n rule: less_induct)
  case (less n)
  show ?case
  proof (cases "n < 10")
    case True
    then show ?thesis using less.prems by (simp add: show_nat_small digit_char_def nth_Cons')
  next
    case False
    then have "hd (show_nat n) = hd (show_nat (n div 10))" by (simp add: show_nat_big)
    then show ?thesis using less.IH [of "n div 10"] False by simp
  qed
qed

text \<open>What may follow a value inside a text written by \<open>json.dumps\<close>.\<close>

definition delimited :: "string \<Rightarrow> bool" where
  "delimited rest \<longleftrightarrow> rest = [] \<or> hd rest \<in> set [CHR '','', CHR '']'', CHR ''}'', CHR 0x0A]"

lemma delimited_Cons [simp]: "delimited (c # r) \<longleftrightarrow> c \<in> set [CHR '','', CHR '']'', CHR ''}'', CHR 0x0A]"
  by (simp add: delimited_def)

lemma delimited_no_number:
  assumes "delimited rest"
  shows "takeWhile is_digit rest = []" "dropWhile is_digit rest = rest" "frac_part rest = ([], rest)"
    "exp_part rest = ([], rest)"
  using assms
  by (cases rest; auto simp: delimited_def is_digit_def frac_part_def exp_part_def split: list.split)+

lemma int_part_show_nat:
  assumes "delimited rest"
  shows "int_part (show_nat n @ rest) = Some (show_nat n, rest)"
proof (cases "n = 0")
  case True
  then show ?thesis by (simp add: show_nat_small digit_char_def int_part_def)
next
  case False
  obtain c r where s: "show_nat n = c # r" by (cases "show_nat n") simp_all
  have "c \<noteq> CHR ''0''" "is_digit c" "list_all is_digit r"
    using show_nat_hd [of n] show_nat_digits [of n] False by (simp_all add: s)
  moreover have "takeWhile is_digit (show_nat n @ rest) = show_nat n"
      "dropWhile is_digit (show_nat n @ rest) = rest"
    using show_nat_digits [of n] delimited_no_number(1,2) [OF assms]
    by (simp_all add: list_all_iff)
  ultimately show ?thesis by (simp add: int_part_def s)
qed

definition short_int :: "int \<Rightarrow> bool" where
  "short_int i \<longleftrightarrow> length (show_nat (nat \<bar>i\<bar>)) \<le> 4300"

lemma digit_not_sign: "is_digit c \<Longrightarrow> c \<noteq> CHR ''-'' \<and> c \<noteq> CHR 0x22 \<and> c \<noteq> CHR ''{'' \<and> c \<noteq> CHR ''[''"
  by (auto simp: is_digit_def)

lemma parse_number_int:
  assumes "delimited rest" "short_int i"
  shows "parse_number F (show_int i @ rest) = Inr (PyInt i, rest)"
proof -
  have lit: "int_literal sign (show_nat n) rest = Inr (PyInt (if sign = [] then int n else - int n), rest)"
    if "length (show_nat n) \<le> 4300" for sign n
    using that decimal_show_nat [of n] by (simp add: int_literal_def decimal_def)
  obtain c r where s: "show_nat (nat \<bar>i\<bar>) = c # r" by (cases "show_nat (nat \<bar>i\<bar>)") simp_all
  have c: "c \<noteq> CHR ''-''" using show_nat_digits [of "nat \<bar>i\<bar>"] digit_not_sign by (simp add: s)
  show ?thesis
  proof (cases "i < 0")
    case True
    have "parse_number F (CHR ''-'' # (show_nat (nat (- i)) @ rest)) = Inr (PyInt i, rest)"
      using int_part_show_nat [OF assms(1)] delimited_no_number [OF assms(1)] lit [of "nat (- i)" "''-''"]
        assms(2) True by (simp add: parse_number_def short_int_def)
    then show ?thesis using True by (simp add: show_int_def)
  next
    case False
    have "parse_number F (show_nat (nat i) @ rest) = Inr (PyInt i, rest)"
      using int_part_show_nat [OF assms(1), of "nat i"] delimited_no_number [OF assms(1)] lit [of "nat i" "[]"]
        assms(2) False c s by (simp add: parse_number_def short_int_def)
    then show ?thesis using False by (simp add: show_int_def)
  qed
qed

text \<open>
  A value that \<open>json.dumps\<close> writes in full: no floats, integers within the limit of \<open>int()\<close>, and
  objects with distinct keys, as every dict has.  It is read back with its keys in sorted order.
\<close>

fun json_ok :: "py \<Rightarrow> bool"
  and items_ok :: "py list \<Rightarrow> bool"
  and pairs_ok :: "pydict \<Rightarrow> bool" where
  "json_ok PyNone = True"
| "json_ok (PyBool b) = True"
| "json_ok (PyInt i) = short_int i"
| "json_ok (PyFloat f) = False"
| "json_ok (PyStr s) = True"
| "json_ok (PyList xs) = items_ok xs"
| "json_ok (PyDict d) = (distinct (map fst d) \<and> pairs_ok d)"
| "items_ok [] = True"
| "items_ok (x # xs) = (json_ok x \<and> items_ok xs)"
| "pairs_ok [] = True"
| "pairs_ok ((k, v) # d) = (json_ok v \<and> pairs_ok d)"

fun json_sorted :: "py \<Rightarrow> py"
  and items_sorted :: "py list \<Rightarrow> py list"
  and pairs_sorted :: "pydict \<Rightarrow> pydict" where
  "json_sorted (PyList xs) = PyList (items_sorted xs)"
| "json_sorted (PyDict d) = PyDict (sort_key fst (pairs_sorted d))"
| "json_sorted v = v"
| "items_sorted [] = []"
| "items_sorted (x # xs) = json_sorted x # items_sorted xs"
| "pairs_sorted [] = []"
| "pairs_sorted ((k, v) # d) = (k, json_sorted v) # pairs_sorted d"

lemma items_ok_iff: "items_ok xs \<longleftrightarrow> (\<forall>x \<in> set xs. json_ok x)"
  by (induction xs) auto

lemma pairs_ok_iff: "pairs_ok d \<longleftrightarrow> (\<forall>(k, v) \<in> set d. json_ok v)"
  by (induction d) auto

lemma items_sorted_map: "items_sorted xs = map json_sorted xs"
  by (induction xs) auto

lemma pairs_sorted_map: "pairs_sorted d = map (\<lambda>(k, v). (k, json_sorted v)) d"
  by (induction d) auto

lemma json_items_map: "json_items xs = map json_value xs"
  by (induction xs) auto

lemma sort_key_map_snd:
  "sort_key fst (map (\<lambda>(k, v). (k, h v)) d) = map (\<lambda>(k, v). (k, h v)) (sort_key fst d)"
proof (induction d)
  case (Cons p d)
  have "insort_key fst (case p of (k, v) \<Rightarrow> (k, h v)) (map (\<lambda>(k, v). (k, h v)) e)
      = map (\<lambda>(k, v). (k, h v)) (insort_key fst p e)" for e
    by (induction e) (auto split: prod.split)
  then show ?case using Cons.IH by simp
qed simp

definition member_text :: "string \<times> py \<Rightarrow> string" where
  "member_text p = (case p of (k, v) \<Rightarrow> json_str k @ '':'' @ json_value v)"

lemma json_value_dict:
  "json_value (PyDict d) = ''{'' @ join '','' (map member_text (sort_key fst d)) @ ''}''"
proof -
  have "map (\<lambda>(k, v). json_str k @ '':'' @ v) (map (\<lambda>(k, v). (k, json_value v)) e) = map member_text e" for e
    by (simp add: member_text_def split: prod.split)
  then show ?thesis by (simp only: json_value.simps json_pairs_map sort_key_map_snd)
qed

text \<open>
  A text denotes a value when the parser reads the value from it, whatever follows, from enough fuel.
  No white space precedes it, and its first character closes nothing.
\<close>

definition denotes :: "(pydict \<Rightarrow> json_error + py) \<Rightarrow> (string \<Rightarrow> py) \<Rightarrow> string \<Rightarrow> py \<Rightarrow> bool" where
  "denotes H F s v \<longleftrightarrow> s \<noteq> [] \<and> \<not> json_space (hd s) \<and> hd s \<noteq> CHR '']'' \<and> hd s \<noteq> CHR ''}''
     \<and> (\<forall>n rest. delimited rest \<longrightarrow> 2 * length (s @ rest) < n \<longrightarrow> parse_value H F n (s @ rest) = Inr (v, rest))"

lemma denotesD:
  "denotes H F s v \<Longrightarrow> delimited rest \<Longrightarrow> 2 * length (s @ rest) < n \<Longrightarrow> parse_value H F n (s @ rest) = Inr (v, rest)"
  by (simp add: denotes_def)

lemma starts_Cons [simp]: "starts c (d # s) \<longleftrightarrow> d = c"
  by (simp add: starts_def)

lemma not_starts_Nil [simp]: "\<not> starts c []"
  by (simp add: starts_def)

lemma skip_simps [simp]: "skip [] = []" "\<not> json_space c \<Longrightarrow> skip (c # s) = c # s"
  by (simp_all add: skip_def)

lemma skip_spaces [simp]: "list_all json_space w \<Longrightarrow> skip (w @ s) = skip s"
  by (simp add: skip_def list_all_iff)

lemma not_space_delimiters [simp]:
  "\<not> json_space (CHR '','')" "\<not> json_space (CHR '':'')" "\<not> json_space (CHR ''}'')" "\<not> json_space (CHR '']'')"
  "\<not> json_space (CHR 0x22)" "\<not> json_space (CHR ''{'')" "\<not> json_space (CHR ''['')"
  by (simp_all add: json_space_def)

lemma denotes_skip: "denotes H F s v \<Longrightarrow> skip (s @ rest) = s @ rest"
  by (cases s) (simp_all add: denotes_def)

lemma denotes_opens: "denotes H F s v \<Longrightarrow> \<not> starts (CHR '']'') (s @ rest) \<and> \<not> starts (CHR ''}'') (s @ rest)"
  by (cases s) (simp_all add: denotes_def)

lemma show_int_first: "\<exists>c s. show_int i = c # s \<and> (is_digit c \<or> c = CHR ''-'')"
  using show_nat_digits [of "nat i"] by (cases "show_nat (nat i)") (auto simp: show_int_def)

lemma no_literal:
  assumes "is_digit c \<or> c = CHR ''-'' \<and> (\<exists>d r. s = d # r \<and> is_digit d)"
  shows "find (\<lambda>(w, _). has_prefix w (c # s)) literals = None"
  using assms by (auto simp: literals_def has_prefix_def is_digit_def find_None_iff)

lemma show_int_no_literal: "find (\<lambda>(w, _). has_prefix w (show_int i @ rest)) literals = None"
proof (cases "i < 0")
  case True
  obtain d r where d: "show_nat (nat (- i)) = d # r" by (cases "show_nat (nat (- i))") simp_all
  have "is_digit d" using show_nat_digits [of "nat (- i)"] by (simp add: d)
  then show ?thesis using True no_literal [of "CHR ''-''" "d # r @ rest"] by (simp add: show_int_def d)
next
  case False
  obtain d r where d: "show_nat (nat i) = d # r" by (cases "show_nat (nat i)") simp_all
  have "is_digit d" using show_nat_digits [of "nat i"] by (simp add: d)
  then show ?thesis using False no_literal [of d "r @ rest"] by (simp add: show_int_def d)
qed

lemma denotes_int:
  assumes "short_int i"
  shows "denotes H F (show_int i) (PyInt i)"
proof -
  obtain c s where c: "show_int i = c # s" "is_digit c \<or> c = CHR ''-''" using show_int_first by blast
  have opens: "\<not> starts (CHR 0x22) (show_int i @ rest)" "\<not> starts (CHR ''{'') (show_int i @ rest)"
      "\<not> starts (CHR ''['') (show_int i @ rest)" for rest
    using c by (auto simp: is_digit_def)
  have "parse_value H F (Suc n) (show_int i @ rest) = Inr (PyInt i, rest)" if "delimited rest" for n rest
    using parse_number_int [OF that assms] opens [of rest] by (simp add: parse_scalar_def show_int_no_literal)
  then have "parse_value H F n (show_int i @ rest) = Inr (PyInt i, rest)" if "delimited rest" "0 < n" for n rest
    using that by (metis gr0_implies_Suc)
  moreover have "show_int i \<noteq> [] \<and> \<not> json_space (hd (show_int i)) \<and> hd (show_int i) \<noteq> CHR '']'' \<and> hd (show_int i) \<noteq> CHR ''}''"
    using c by (auto simp: json_space_def is_digit_def)
  ultimately show ?thesis unfolding denotes_def by (metis less_zeroE neq0_conv)
qed

lemma parse_literal:
  "parse_scalar F (''null'' @ rest) = Inr (PyNone, rest)"
  "parse_scalar F (''true'' @ rest) = Inr (PyBool True, rest)"
  "parse_scalar F (''false'' @ rest) = Inr (PyBool False, rest)"
  by (simp_all add: parse_scalar_def literals_def has_prefix_def)

lemma denotes_now:
  assumes "s \<noteq> []" "\<not> json_space (hd s)" "hd s \<noteq> CHR '']''" "hd s \<noteq> CHR ''}''"
    and "\<And>n rest. parse_value H F (Suc n) (s @ rest) = Inr (v, rest)"
  shows "denotes H F s v"
  using assms unfolding denotes_def by (metis gr0_implies_Suc gr_implies_not0 neq0_conv)

lemma denotes_literal:
  "denotes H F ''null'' PyNone" "denotes H F (if b then ''true'' else ''false'') (PyBool b)"
  using parse_literal by (auto intro!: denotes_now simp: json_space_def)

text \<open>How a writer quotes a key or a text: what follows the opening quotation mark is read back.\<close>

definition quotes :: "(string \<Rightarrow> string) \<Rightarrow> bool" where
  "quotes q \<longleftrightarrow> (\<forall>k. \<exists>r. q k = CHR 0x22 # r \<and> (\<forall>rest. parse_string (r @ rest) = Inr (k, rest)))"

lemma denotes_str: "quotes q \<Longrightarrow> denotes H F (q s) (PyStr s)"
  unfolding quotes_def by (elim allE [of _ s]) (auto intro!: denotes_now)

lemma quotes_json_str: "quotes json_str"
  unfolding quotes_def by (auto simp: json_str_def parse_json_str)

lemma join_Cons: "xs \<noteq> [] \<Longrightarrow> join sep (x # xs) = x @ sep @ join sep xs"
  by (cases xs) simp_all

text \<open>
  A list or an object written with white space \<open>pre\<close> before every member, \<open>kws\<close> after every colon
  and \<open>post\<close> before the closing bracket.
\<close>

lemma parse_items_layout:
  assumes "list_all json_space pre" "list_all json_space post" "delimited (post @ CHR '']'' # rest)"
    and "xs \<noteq> []" "\<forall>(s, v) \<in> set xs. denotes H F s v"
    and "2 * length (join (CHR '','' # pre) (map fst xs) @ post @ CHR '']'' # rest) + 1 < n"
  shows "parse_items H F n acc (join (CHR '','' # pre) (map fst xs) @ post @ CHR '']'' # rest)
    = Inr (PyList (acc @ map snd xs), rest)"
  using assms(4-)
proof (induction xs arbitrary: n acc)
  case (Cons x xs)
  then obtain n' where n': "n = Suc n'" by (cases n) auto
  obtain s v where x: "x = (s, v)" by force
  have sv: "denotes H F s v" using Cons.prems(2) by (simp add: x)
  show ?case
  proof (cases xs)
    case Nil
    have "parse_value H F n' (s @ post @ CHR '']'' # rest) = Inr (v, post @ CHR '']'' # rest)"
      using Cons.prems(3) by (intro denotesD [OF sv assms(3)]) (simp add: Nil n' x)
    then show ?thesis using assms(2) by (simp add: Nil n' Let_def x)
  next
    case (Cons y ys)
    let ?more = "join (CHR '','' # pre) (map fst xs) @ post @ CHR '']'' # rest"
    have shape: "join (CHR '','' # pre) (map fst (x # xs)) @ post @ CHR '']'' # rest = s @ CHR '','' # pre @ ?more"
      by (simp add: Cons x)
    have len: "2 * length (s @ CHR '','' # pre @ ?more) < n'" "2 * length ?more + 1 < n'"
      using Cons.prems(3) unfolding shape by (simp_all add: n')
    have "parse_value H F n' (s @ CHR '','' # pre @ ?more) = Inr (v, CHR '','' # pre @ ?more)"
      by (rule denotesD [OF sv _ len(1)]) simp
    moreover have "skip ?more = ?more"
      using denotes_skip [of H F "fst y" "snd y"] Cons.prems(2) by (cases ys) (auto simp: Cons)
    moreover have "parse_items H F n' (acc @ [v]) ?more = Inr (PyList ((acc @ [v]) @ map snd xs), rest)"
      using Cons.IH [OF _ _ len(2)] Cons.prems(2) by (simp add: Cons)
    ultimately show ?thesis unfolding shape using assms(1) by (simp add: n' Let_def x)
  qed
qed simp

definition member_layout :: "(string \<Rightarrow> string) \<Rightarrow> string \<Rightarrow> string \<times> string \<times> py \<Rightarrow> string" where
  "member_layout q kws p = (case p of (k, s, v) \<Rightarrow> q k @ CHR '':'' # kws @ s)"

lemma parse_members_layout:
  assumes "list_all json_space pre" "list_all json_space post" "list_all json_space kws" "delimited (post @ CHR ''}'' # rest)"
    and q: "quotes q" and "ps \<noteq> []" "\<forall>(k, s, v) \<in> set ps. denotes H F s v"
    and "2 * length (join (CHR '','' # pre) (map (member_layout q kws) ps) @ post @ CHR ''}'' # rest) + 1 < n"
  shows "parse_members H F n d (join (CHR '','' # pre) (map (member_layout q kws) ps) @ post @ CHR ''}'' # rest)
    = res_bind (H (d @ map (\<lambda>(k, s, v). (k, v)) ps)) (\<lambda>object. Inr (object, rest))"
  using assms(6-)
proof (induction ps arbitrary: n d)
  case (Cons p ps)
  then obtain n' where n': "n = Suc n'" by (cases n) auto
  obtain k s v where p: "p = (k, s, v)" using prod_cases3 by blast
  have sv: "denotes H F s v" using Cons.prems(2) by (simp add: p)
  obtain r where r: "q k = CHR 0x22 # r" "\<And>rest. parse_string (r @ rest) = Inr (k, rest)"
    using q unfolding quotes_def by blast
  let ?more = "join (CHR '','' # pre) (map (member_layout q kws) ps) @ post @ CHR ''}'' # rest"
  let ?tail = "if ps = [] then post @ CHR ''}'' # rest else CHR '','' # pre @ ?more"
  have shape: "join (CHR '','' # pre) (map (member_layout q kws) (p # ps)) @ post @ CHR ''}'' # rest
      = CHR 0x22 # r @ CHR '':'' # kws @ s @ ?tail"
    by (cases ps) (simp_all add: p member_layout_def r(1))
  have len: "2 * length (s @ ?tail) < n'"
    using Cons.prems(3) unfolding shape by (simp add: n')
  have "parse_value H F n' (s @ ?tail) = Inr (v, ?tail)"
    by (rule denotesD [OF sv _ len]) (simp add: assms(4))
  then have step: "parse_members H F n d (join (CHR '','' # pre) (map (member_layout q kws) (p # ps)) @ post @ CHR ''}'' # rest) =
      (if ps = [] then res_bind (H (d @ [(k, v)])) (\<lambda>object. Inr (object, rest))
       else parse_members H F n' (d @ [(k, v)]) (skip ?more))"
    unfolding shape n' using denotes_skip [OF sv] assms(1-3) by (simp add: r(2) Let_def)
  show ?case
  proof (cases "ps = []")
    case True
    then show ?thesis using step by (simp add: p)
  next
    case False
    have "skip (member_layout q kws x @ t) = member_layout q kws x @ t" for x t
      using q unfolding quotes_def member_layout_def by (cases x) (metis (no_types, lifting) append_Cons case_prod_conv not_space_delimiters(5) skip_simps(2))
    then have "skip ?more = ?more"
      using False by (cases ps rule: list.exhaust, simp, case_tac "tl ps") auto
    moreover have "2 * length ?more + 1 < n'" using len False by simp
    ultimately show ?thesis
      unfolding step using Cons.IH [OF False, of n' "d @ [(k, v)]"] Cons.prems(2) False by (simp add: p)
  qed
qed simp

lemma delimited_post: "post = [] \<or> hd post = CHR 0x0A \<Longrightarrow> c \<in> set [CHR '']'', CHR ''}''] \<Longrightarrow> delimited (post @ c # rest)"
  by (cases post) auto

lemma denotes_list:
  assumes "list_all json_space pre" "list_all json_space post" "post = [] \<or> hd post = CHR 0x0A"
    and "xs \<noteq> []" "\<forall>(s, v) \<in> set xs. denotes H F s v"
  shows "denotes H F (CHR ''['' # pre @ join (CHR '','' # pre) (map fst xs) @ post @ '']'') (PyList (map snd xs))"
  unfolding denotes_def
proof (intro conjI allI impI)
  fix n rest
  let ?text = "join (CHR '','' # pre) (map fst xs) @ post @ CHR '']'' # rest"
  assume n: "2 * length ((CHR ''['' # pre @ join (CHR '','' # pre) (map fst xs) @ post @ '']'') @ rest) < n"
  then obtain n' where n': "n = Suc n'" by (cases n) auto
  have open_text: "skip ?text = ?text" "\<not> starts (CHR '']'') ?text"
    using assms(4,5) denotes_skip [of H F "fst (hd xs)" "snd (hd xs)"] denotes_opens [of H F "fst (hd xs)" "snd (hd xs)"]
    by (cases xs; cases "tl xs"; force)+
  have "parse_items H F n' [] ?text = Inr (PyList ([] @ map snd xs), rest)"
    using n by (intro parse_items_layout assms delimited_post [OF assms(3)]) (simp_all add: n')
  then show "parse_value H F n ((CHR ''['' # pre @ join (CHR '','' # pre) (map fst xs) @ post @ '']'') @ rest)
      = Inr (PyList (map snd xs), rest)"
    using open_text assms(1) by (simp add: n' Let_def)
qed simp_all

lemma denotes_dict:
  assumes "list_all json_space pre" "list_all json_space post" "list_all json_space kws" "post = [] \<or> hd post = CHR 0x0A"
    and "quotes q" "ps \<noteq> []" "\<forall>(k, s, v) \<in> set ps. denotes H F s v" "H (map (\<lambda>(k, s, v). (k, v)) ps) = Inr object"
  shows "denotes H F (CHR ''{'' # pre @ join (CHR '','' # pre) (map (member_layout q kws) ps) @ post @ ''}'') object"
  unfolding denotes_def
proof (intro conjI allI impI)
  fix n rest
  let ?text = "join (CHR '','' # pre) (map (member_layout q kws) ps) @ post @ CHR ''}'' # rest"
  assume n: "2 * length ((CHR ''{'' # pre @ join (CHR '','' # pre) (map (member_layout q kws) ps) @ post @ ''}'') @ rest) < n"
  then obtain n' where n': "n = Suc n'" by (cases n) auto
  have "\<exists>t. member_layout q kws x = CHR 0x22 # t" for x
    using assms(5) unfolding quotes_def member_layout_def by (cases x) (metis (no_types, lifting) append_Cons case_prod_conv)
  then obtain t where "?text = CHR 0x22 # t"
    using assms(6) by (cases ps; cases "tl ps"; simp) (metis append_Cons)+
  then have open_text: "skip ?text = ?text" "\<not> starts (CHR ''}'') ?text" by simp_all
  have "parse_members H F n' [] ?text = res_bind (H ([] @ map (\<lambda>(k, s, v). (k, v)) ps)) (\<lambda>object. Inr (object, rest))"
    using n by (intro parse_members_layout assms delimited_post [OF assms(4)]) (simp_all add: n')
  then show "parse_value H F n ((CHR ''{'' # pre @ join (CHR '','' # pre) (map (member_layout q kws) ps) @ post @ ''}'') @ rest)
      = Inr (object, rest)"
    using open_text assms(1,8) by (simp add: n' Let_def)
qed simp_all

lemma json_loads_denotes: "denotes H F s v \<Longrightarrow> json_loads_with H F s = Inr v"
  using denotes_skip [of H F s v "[]"] denotesD [of H F s v "[]" "Suc (2 * length s)"]
  by (simp add: json_loads_with_def delimited_def)

text \<open>The hooks agree on members with distinct keys.\<close>

lemma update_new_key: "k \<notin> fst ` set d \<Longrightarrow> AList.update k v d = d @ [(k, v)]"
  by (induction d) auto

lemma dict_of_distinct: "distinct (map fst d) \<Longrightarrow> dict_of d = Inr (PyDict d)"
proof -
  have "distinct (map fst (e @ d)) \<Longrightarrow> foldl (\<lambda>d (k, v). AList.update k v d) e d = e @ d" for e
    by (induction d arbitrary: e) (auto simp: update_new_key)
  from this [of "[]"] show "distinct (map fst d) \<Longrightarrow> dict_of d = Inr (PyDict d)" by (simp add: dict_of_def)
qed

text \<open>A hook that accepts an object with distinct keys as it stands.\<close>

definition keeps_objects :: "(pydict \<Rightarrow> json_error + py) \<Rightarrow> bool" where
  "keeps_objects H \<longleftrightarrow> (\<forall>d. distinct (map fst d) \<longrightarrow> H d = Inr (PyDict d))"

lemma dict_of_keeps [simp]: "keeps_objects dict_of"
  by (simp add: keeps_objects_def dict_of_distinct)

text \<open>The canonical writer is the layout without white space, over the sorted keys.\<close>

lemma denotes_json_list:
  assumes "\<forall>x \<in> set xs. denotes H F (json_value x) (json_sorted x)"
  shows "denotes H F (json_value (PyList xs)) (json_sorted (PyList xs))"
proof (cases "xs = []")
  case True
  then show ?thesis by (auto intro!: denotes_now simp: Let_def)
next
  case False
  then show ?thesis
    using denotes_list [of "[]" "[]" "map (\<lambda>x. (json_value x, json_sorted x)) xs" H F] assms
    by (simp add: json_items_map items_sorted_map comp_def)
qed

lemma denotes_json_dict:
  assumes hook: "keeps_objects H" and "\<forall>(k, v) \<in> set d. denotes H F (json_value v) (json_sorted v)" "distinct (map fst d)"
  shows "denotes H F (json_value (PyDict d)) (json_sorted (PyDict d))"
proof -
  let ?ps = "map (\<lambda>(k, v). (k, json_value v, json_sorted v)) (sort_key fst d)"
  have sorted: "json_sorted (PyDict d) = PyDict (map (\<lambda>(k, s, v). (k, v)) ?ps)"
    by (simp add: pairs_sorted_map sort_key_map_snd) (simp add: comp_def case_prod_unfold)
  have member: "member_text = (\<lambda>p. json_str (fst p) @ CHR '':'' # json_value (snd p))"
    by (simp add: fun_eq_iff member_text_def)
  have text_is: "json_value (PyDict d) = CHR ''{'' # [] @ join (CHR '','' # []) (map (member_layout json_str []) ?ps) @ [] @ ''}''"
    by (simp only: json_value_dict)
      (simp add: comp_def member_layout_def member case_prod_unfold)
  have "mset (sort_key fst d) = mset d" by simp
  then have keys: "distinct (map fst (sort_key fst d))" using assms(3) by (metis mset_eq_imp_distinct_iff mset_map)
  have object: "H (map (\<lambda>(k, s, v). (k, v)) ?ps) = Inr (PyDict (map (\<lambda>(k, s, v). (k, v)) ?ps))"
    using hook keys by (simp add: keeps_objects_def comp_def case_prod_unfold)
  then show ?thesis
  proof (cases "sort_key fst d = []")
    case True
    then have "json_value (PyDict d) = ''{}''" "json_sorted (PyDict d) = PyDict []" unfolding text_is sorted by simp_all
    then show ?thesis using hook by (auto intro!: denotes_now simp: Let_def keeps_objects_def)
  next
    case False
    show ?thesis
      unfolding text_is sorted
      by (rule denotes_dict) (use False assms(2) quotes_json_str object in auto)
  qed
qed

lemma denotes_json_value:
  "json_ok v \<Longrightarrow> keeps_objects H \<Longrightarrow> denotes H F (json_value v) (json_sorted v)"
  "items_ok xs \<Longrightarrow> keeps_objects H \<Longrightarrow> \<forall>x \<in> set xs. denotes H F (json_value x) (json_sorted x)"
  "pairs_ok d \<Longrightarrow> keeps_objects H \<Longrightarrow> \<forall>(k, v) \<in> set d. denotes H F (json_value v) (json_sorted v)"
proof (induction v and xs and d rule: json_ok_items_ok_pairs_ok.induct)
  case (2 b)
  then show ?case using denotes_literal(2) [of H F b] by simp
next
  case (6 xs)
  then show ?case by (intro denotes_json_list) simp
next
  case (7 d)
  then show ?case by (intro denotes_json_dict) simp_all
qed (simp_all add: denotes_literal denotes_int denotes_str [OF quotes_json_str])

lemma json_loads_value: "json_ok v \<Longrightarrow> json_loads F (json_value v) = Inr (json_sorted v)"
  unfolding json_loads_def by (rule json_loads_denotes [OF denotes_json_value(1)]) simp_all

section \<open>Fields of a sorted object\<close>

lemma map_of_sort_key:
  assumes "distinct (map fst d)"
  shows "map_of (sort_key fst d) = map_of d"
proof -
  have "mset (sort_key fst d) = mset d" by simp
  then have "distinct (map fst (sort_key fst d))" using assms by (metis mset_eq_imp_distinct_iff mset_map)
  then show ?thesis using assms by (intro map_of_inject_set [THEN iffD2]) simp_all
qed

lemma map_of_pairs_sorted: "map_of (pairs_sorted d) k = map_option json_sorted (map_of d k)"
  by (induction d) auto

lemma dkeys_pairs_sorted [simp]: "map fst (pairs_sorted d) = map fst d"
  by (simp add: pairs_sorted_map comp_def case_prod_unfold)

lemma dget_sorted:
  assumes "distinct (map fst d)"
  shows "dget (sort_key fst (pairs_sorted d)) k = json_sorted (dget d k)"
  using map_of_sort_key [of "pairs_sorted d"] assms
  by (simp add: dget_def map_of_pairs_sorted split: option.split)

section \<open>The text that is written\<close>

lemma json_sorted_text:
  "json_value (json_sorted v) = json_value v"
  "json_items (items_sorted xs) = json_items xs"
  "json_pairs (pairs_sorted d) = json_pairs d"
proof (induction v and xs and d rule: json_sorted_items_sorted_pairs_sorted.induct)
  case (2 d)
  have "json_pairs (sort_key fst (pairs_sorted d)) = sort_key fst (json_pairs (pairs_sorted d))"
    by (simp add: json_pairs_map sort_key_map_snd)
  then show ?case using 2 by (simp add: sort_key_id_if_sorted)
qed simp_all

text \<open>Only printable ASCII is written, so a text has no line break and is its own UTF-8 encoding.\<close>

definition printable_ascii :: "string \<Rightarrow> bool" where
  "printable_ascii s \<longleftrightarrow> list_all (\<lambda>c. 32 \<le> (of_char c :: nat) \<and> (of_char c :: nat) \<le> 126) s"

lemma printable_simps [simp]:
  "printable_ascii []"
  "printable_ascii (c # s) \<longleftrightarrow> 32 \<le> (of_char c :: nat) \<and> (of_char c :: nat) \<le> 126 \<and> printable_ascii s"
  "printable_ascii (s @ t) \<longleftrightarrow> printable_ascii s \<and> printable_ascii t"
  by (auto simp: printable_ascii_def)

lemma hex_digit_printable [simp]: "n < 16 \<Longrightarrow> printable_ascii [hex_digit n]"
  by (simp add: hex_digit_def nth_Cons' split: if_splits)

lemma json_char_printable: "printable_ascii (json_char c)"
proof -
  have "(of_char c :: nat) < 256" by simp
  then have "(of_char c :: nat) div 16 < 16" by linarith
  then have "printable_ascii [hex_digit (of_char c div 16)]" "printable_ascii [hex_digit (of_char c mod 16)]"
    by (intro hex_digit_printable; simp)+
  then show ?thesis by (simp add: json_char_def Let_def)
qed

lemma json_str_printable [simp]: "printable_ascii (json_str s)"
proof -
  have "printable_ascii (concat (map json_char s))"
    by (induction s) (simp_all add: json_char_printable)
  then show ?thesis by (simp add: json_str_def)
qed

lemma show_int_printable [simp]: "printable_ascii (show_int i)"
proof -
  have "printable_ascii s" if "list_all is_digit s" for s
    using that by (induction s) (auto simp: is_digit_def)
  then show ?thesis by (simp add: show_int_def)
qed

lemma join_printable: "\<forall>x \<in> set xs. printable_ascii x \<Longrightarrow> printable_ascii (join '','' xs)"
  by (induction "'',''" xs rule: join.induct) simp_all

lemma json_value_printable:
  "json_ok v \<Longrightarrow> printable_ascii (json_value v)"
  "items_ok xs \<Longrightarrow> \<forall>x \<in> set (json_items xs). printable_ascii x"
  "pairs_ok d \<Longrightarrow> \<forall>(k, x) \<in> set (json_pairs d). printable_ascii x"
proof (induction v and xs and d rule: json_ok_items_ok_pairs_ok.induct)
  case (6 xs)
  then show ?case using join_printable [of "json_items xs"] by simp
next
  case (7 d)
  then have "\<forall>x \<in> set (map (\<lambda>(k, v). json_str k @ '':'' @ v) (sort_key fst (json_pairs d))). printable_ascii x"
    by auto
  then show ?case using join_printable by simp
qed auto

end
