(* ===== verification/Json_File.thy ===== *)
theory Json_File
  imports Json_Text
begin

text \<open>
  JSON documents in files: UTF-8, \<open>json.loads\<close> with a hook that refuses repeated keys, and the
  indented text that \<open>json.dumps(value, ensure_ascii=False, indent=2)\<close> writes.  Both readers give
  back what the writer wrote.
\<close>

section \<open>UTF-8\<close>

text \<open>A decoded character outside the alphabet is refused like a malformed byte sequence.\<close>

definition utf8_char :: "char \<Rightarrow> string" where
  "utf8_char c = (let n = (of_char c :: nat) in
     if n < 128 then [c] else [char_of (192 + n div 64), char_of (128 + n mod 64)])"

definition utf8_encode :: "string \<Rightarrow> string" where
  "utf8_encode s = concat (map utf8_char s)"

fun utf8_decode :: "string \<Rightarrow> string option" where
  "utf8_decode [] = Some []"
| "utf8_decode (c # s) =
     (let n = (of_char c :: nat) in
      if n < 128 then map_option (Cons c) (utf8_decode s)
      else if n = 194 \<or> n = 195 then
        (case s of
           [] \<Rightarrow> None
         | d # s' \<Rightarrow> let m = (of_char d :: nat) in
             if 128 \<le> m \<and> m < 192 then map_option (Cons (char_of (64 * (n - 192) + (m - 128)))) (utf8_decode s')
             else None)
      else None)"

lemma utf8_decode_char: "utf8_decode (utf8_char c @ s) = map_option (Cons c) (utf8_decode s)"
proof (cases "(of_char c :: nat) < 128")
  case True
  then show ?thesis by (simp add: utf8_char_def Let_def)
next
  case False
  let ?n = "of_char c :: nat"
  have n: "128 \<le> ?n" "?n < 256" using False by simp_all
  have "2 \<le> ?n div 64" "?n div 64 < 4"
    using div_le_mono [OF n(1), of 64] less_mult_imp_div_less [of ?n 4 64] n(2) by simp_all
  then have high: "192 + ?n div 64 = 194 \<or> 192 + ?n div 64 = 195" by linarith
  have low: "?n mod 64 < 64" by simp
  have "(of_char (char_of (192 + ?n div 64) :: char) :: nat) = 192 + ?n div 64" using high by auto
  moreover have "(of_char (char_of (128 + ?n mod 64) :: char) :: nat) = 128 + ?n mod 64" using low by simp
  moreover have "64 * (192 + ?n div 64 - 192) + (128 + ?n mod 64 - 128) = ?n" by simp
  ultimately show ?thesis using False high low by (simp add: utf8_char_def Let_def)
qed

lemma utf8_decode_encode [simp]: "utf8_decode (utf8_encode s) = Some s"
  by (induction s) (simp_all add: utf8_encode_def utf8_decode_char)

lemma utf8_encode_inj: "utf8_encode s = utf8_encode t \<Longrightarrow> s = t"
  using utf8_decode_encode by (metis option.inject)

lemma utf8_decode_ascii: "printable_ascii s \<Longrightarrow> utf8_decode s = Some s"
proof (induction s)
  case (Cons c s)
  then have "(of_char c :: nat) < 128" "utf8_decode s = Some s" by simp_all
  then show ?case by (simp add: Let_def)
qed simp

section \<open>Strict objects\<close>

text \<open>\<open>object_pairs_hook=_strict_json_object\<close>: a repeated key raises, whatever follows the object.\<close>

definition strict_object :: "pydict \<Rightarrow> json_error + py" where
  "strict_object members = (if distinct (map fst members) then Inr (PyDict members) else Inl DuplicateKey)"

definition json_loads_strict :: "(string \<Rightarrow> py) \<Rightarrow> string \<Rightarrow> json_error + py" where
  "json_loads_strict = json_loads_with strict_object"

section \<open>Indented text\<close>

definition raw_char :: "char \<Rightarrow> string" where
  "raw_char c =
     (if c = CHR 0x22 \<or> c = CHR 0x5C then [CHR 0x5C, c]
      else if c = CHR 0x0A then [CHR 0x5C, CHR ''n'']
      else if c = CHR 0x0D then [CHR 0x5C, CHR ''r'']
      else if c = CHR 0x09 then [CHR 0x5C, CHR ''t'']
      else if c = CHR 0x0C then [CHR 0x5C, CHR ''f'']
      else if c = CHR 0x08 then [CHR 0x5C, CHR ''b'']
      else (let n = (of_char c :: nat) in
        if 32 \<le> n then [c]
        else [CHR 0x5C, CHR ''u'', CHR ''0'', CHR ''0'', hex_digit (n div 16), hex_digit (n mod 16)]))"

definition raw_str :: "string \<Rightarrow> string" where
  "raw_str s = CHR 0x22 # concat (map raw_char s) @ [CHR 0x22]"

definition newline_indent :: "nat \<Rightarrow> string" where
  "newline_indent n = CHR 0x0A # replicate n (CHR '' '')"

fun json_indent :: "nat \<Rightarrow> py \<Rightarrow> string"
  and indent_items :: "nat \<Rightarrow> py list \<Rightarrow> string list"
  and indent_members :: "nat \<Rightarrow> pydict \<Rightarrow> string list" where
  "json_indent n (PyList xs) =
     (if xs = [] then ''[]''
      else ''['' @ newline_indent (n + 2) @ join (CHR '','' # newline_indent (n + 2)) (indent_items (n + 2) xs)
        @ newline_indent n @ '']'')"
| "json_indent n (PyDict d) =
     (if d = [] then ''{}''
      else ''{'' @ newline_indent (n + 2) @ join (CHR '','' # newline_indent (n + 2)) (indent_members (n + 2) d)
        @ newline_indent n @ ''}'')"
| "json_indent n (PyStr s) = raw_str s"
| "json_indent n v = json_value v"
| "indent_items n [] = []"
| "indent_items n (x # xs) = json_indent n x # indent_items n xs"
| "indent_members n [] = []"
| "indent_members n ((k, v) # d) = (raw_str k @ '': '' @ json_indent n v) # indent_members n d"

lemma parse_raw_char: "parse_string (raw_char c @ s) = push c (parse_string s)"
proof -
  have "(of_char c :: nat) < 256" by simp
  then have n: "(of_char c :: nat) div 16 < 16" by linarith
  have "hex4 (CHR ''0'') (CHR ''0'') (hex_digit (of_char c div 16)) (hex_digit (of_char c mod 16)) = Some (of_char c)"
    using n by (simp add: hex4_def)
  then show ?thesis
    by (auto simp: raw_char_def Let_def simple_escape_def)
qed

lemma parse_raw_str: "parse_string (concat (map raw_char s) @ CHR 0x22 # rest) = Inr (s, rest)"
  by (induction s) (simp_all add: parse_raw_char push_def)

lemma quotes_raw_str: "quotes raw_str"
  unfolding quotes_def by (auto simp: raw_str_def parse_raw_str)

lemma newline_indent_space [simp]:
  "list_all json_space (newline_indent n)" "hd (newline_indent n) = CHR 0x0A" "newline_indent n \<noteq> []"
  by (simp_all add: newline_indent_def json_space_def list_all_iff)

lemma indent_items_map: "indent_items n xs = map (json_indent n) xs"
  by (induction xs) auto

lemma indent_members_map:
  "indent_members n d = map (member_layout raw_str '' '') (map (\<lambda>(k, v). (k, json_indent n v, v)) d)"
  by (induction d) (auto simp: member_layout_def)

lemma strict_object_keeps [simp]: "keeps_objects strict_object"
  by (simp add: keeps_objects_def strict_object_def)

lemma denotes_indent:
  "json_ok v \<Longrightarrow> keeps_objects H \<Longrightarrow> denotes H F (json_indent n v) v"
  "items_ok xs \<Longrightarrow> keeps_objects H \<Longrightarrow> \<forall>x \<in> set xs. denotes H F (json_indent m x) x"
  "pairs_ok d \<Longrightarrow> keeps_objects H \<Longrightarrow> \<forall>(k, v) \<in> set d. denotes H F (json_indent m v) v"
proof (induction v and xs and d arbitrary: n and m and m rule: json_ok_items_ok_pairs_ok.induct)
  case (2 b)
  then show ?case using denotes_literal(2) [of H F b] by simp
next
  case (6 xs)
  show ?case
  proof (cases "xs = []")
    case True
    then show ?thesis by (auto intro!: denotes_now simp: Let_def)
  next
    case False
    then show ?thesis
      using denotes_list [of "newline_indent (n + 2)" "newline_indent n" "map (\<lambda>x. (json_indent (n + 2) x, x)) xs" H F]
        "6.IH" [of "n + 2"] "6.prems"
      by (simp add: indent_items_map comp_def)
  qed
next
  case (7 d)
  let ?ps = "map (\<lambda>(k, v). (k, json_indent (n + 2) v, v)) d"
  have keys: "map (\<lambda>(k, s, v). (k, v)) ?ps = d" by (simp add: comp_def case_prod_unfold)
  have hook: "H (map (\<lambda>(k, s, v). (k, v)) ?ps) = Inr (PyDict d)"
    using "7.prems" unfolding keys by (simp add: keeps_objects_def)
  show ?case
  proof (cases "d = []")
    case True
    then show ?thesis using hook by (auto intro!: denotes_now simp: Let_def)
  next
    case False
    have "\<forall>(k, s, v) \<in> set ?ps. denotes H F s v" using "7.IH" [of "n + 2"] "7.prems" by auto
    then show ?thesis
      using denotes_dict [of "newline_indent (n + 2)" "newline_indent n" "'' ''" raw_str ?ps H F "PyDict d"] hook False
      by (simp add: indent_members_map quotes_raw_str json_space_def)
  qed
qed (simp_all add: denotes_literal denotes_int denotes_str [OF quotes_raw_str])

text \<open>\<open>_json_bytes\<close> of a value and a reader of such a file.\<close>

definition json_document :: "py \<Rightarrow> string" where
  "json_document v = json_indent 0 v @ [CHR 0x0A]"

lemma json_loads_document:
  assumes "json_ok v" "keeps_objects H"
  shows "json_loads_with H F (json_document v) = Inr v"
proof -
  note d = denotes_indent(1) [OF assms, where n = 0 and F = F]
  have nl: "skip [CHR 0x0A] = []" by (simp add: skip_def json_space_def)
  have "parse_value H F (Suc (2 * length (json_document v))) (json_indent 0 v @ [CHR 0x0A]) = Inr (v, [CHR 0x0A])"
    by (rule denotesD [OF d]) (simp_all add: json_document_def)
  then show ?thesis
    using denotes_skip [OF d, where rest = "[CHR 0x0A]"] nl by (simp add: json_loads_with_def json_document_def)
qed

end
