(* ===== verification/Run_Wal.thy ===== *)
theory Run_Wal
  imports Recovery_Classify Json_File
begin

text \<open>
  \<open>worker/vnext_runtime/recovery_wal.py\<close>: the durable write-ahead log of one run.  The file is its
  bytes (characters below 256) or absent; the state of the writer is the identity, the size limit and
  the events it has appended.  A write of the operating system may stop after any number of bytes and
  raise, which is also what a crash leaves behind.
\<close>

section \<open>Fields\<close>

definition WAL_FILE_SCHEMA_VERSION :: int where
  "WAL_FILE_SCHEMA_VERSION = 1"

definition IDENTITY_FIELDS :: "string list" where
  "IDENTITY_FIELDS = [''project_id'', ''command_id'', ''run_id'', ''claim_generation'']"

definition EVENT_FIELDS :: "string list" where
  "EVENT_FIELDS = [''sequence'', ''kind'', ''recorded_at'', ''effect_id'', ''target_id'', ''expected_object'',
     ''observed_object'', ''artifact_digest'', ''precondition_object'']"

definition LEGACY_EVENT_FIELDS :: "string list" where
  "LEGACY_EVENT_FIELDS = filter (\<lambda>f. f \<noteq> ''precondition_object'') EVENT_FIELDS"

definition HEADER_FIELDS :: "string list" where
  "HEADER_FIELDS = [''record'', ''schema_version'', ''identity'']"

definition RECORD_FIELDS :: "string list" where
  "RECORD_FIELDS = [''record'', ''schema_version'', ''identity'', ''event'', ''record_digest'']"

definition SAFE_FIELD_RE :: "string \<Rightarrow> bool" where
  "SAFE_FIELD_RE s \<longleftrightarrow> 1 \<le> length s \<and> length s \<le> 256
     \<and> CHR 0x00 \<notin> set s \<and> CHR 0x0D \<notin> set s \<and> CHR 0x0A \<notin> set s"

definition WAL_DIGEST_RE :: "string \<Rightarrow> bool" where
  "WAL_DIGEST_RE s \<longleftrightarrow> length s = 64 \<and> list_all is_hex_lower s"

text \<open>\<open>_SENSITIVE_RE.search\<close>: one of the words occurs, in any case.\<close>

definition sensitive_words :: "string list" where
  "sensitive_words = [''authorization'', ''cookie'', ''apikey'', ''api_key'', ''api-key'', ''token'', ''password'',
     ''secret'', ''prompt'', ''body'', ''query'']"

definition SENSITIVE_RE :: "string \<Rightarrow> bool" where
  "SENSITIVE_RE s \<longleftrightarrow> list_ex (\<lambda>w. contains w (map ascii_lower s)) sensitive_words"

definition safe_field :: "string option \<Rightarrow> string \<Rightarrow> bool \<Rightarrow> pyexc option" where
  "safe_field v label digest = (case v of
       None \<Rightarrow> None
     | Some s \<Rightarrow> first_raise
         [ensure (SAFE_FIELD_RE s) (DurableWalError (''WAL '' @ label @ '' is outside the bounded field contract'')),
          ensure (\<not> SENSITIVE_RE s) (DurableWalError (''WAL '' @ label @ '' contains prohibited sensitive wording'')),
          ensure (digest \<longrightarrow> WAL_DIGEST_RE s)
            (DurableWalError (''WAL '' @ label @ '' must be a lowercase SHA-256 digest''))])"

definition validate_event_fields :: "wal_event \<Rightarrow> pyexc option" where
  "validate_event_fields e = first_raise
     [safe_field (Some (we_recorded_at e)) ''recorded_at'' False,
      safe_field (we_effect_id e) ''effect_id'' False,
      safe_field (we_target_id e) ''target_id'' False,
      safe_field (we_expected_object e) ''expected_object'' False,
      safe_field (we_observed_object e) ''observed_object'' False,
      safe_field (we_precondition_object e) ''precondition_object'' False,
      safe_field (we_artifact_digest e) ''artifact_digest'' True]"

section \<open>Lifecycle order\<close>

definition single_kinds :: "wal_event_kind list" where
  "single_kinds = [RUN_CLAIMED, PROCESS_CREATE_INTENT, PROCESS_CREATED, PROCESS_EXITED, BROKER_STARTED,
     BROKER_STOPPED, CONTAINMENT_PREPARED, CONTAINMENT_RECONCILED, CONTAINMENT_RELEASED,
     PROJECT_EGRESS_RECONCILED, REPORT_MATERIALIZED, REPORT_PUBLISH_INTENT, REPORT_PUBLISHED]"

definition prerequisites :: "(wal_event_kind \<times> wal_event_kind) list" where
  "prerequisites =
     [(PROCESS_CREATE_INTENT, RUN_CLAIMED), (PROCESS_CREATED, PROCESS_CREATE_INTENT),
      (PROCESS_EXITED, PROCESS_CREATED), (BROKER_STARTED, RUN_CLAIMED), (BROKER_STOPPED, BROKER_STARTED),
      (CONTAINMENT_PREPARED, BROKER_STARTED), (CONTAINMENT_RECONCILED, CONTAINMENT_PREPARED),
      (CONTAINMENT_RELEASED, CONTAINMENT_PREPARED), (PROJECT_EGRESS_RECONCILED, CONTAINMENT_PREPARED),
      (REPORT_MATERIALIZED, RUN_CLAIMED), (REPORT_PUBLISH_INTENT, REPORT_MATERIALIZED),
      (REPORT_PUBLISHED, REPORT_PUBLISH_INTENT)]"

fun duplicate_kinds :: "wal_event_kind list \<Rightarrow> wal_event list \<Rightarrow> pyexc option" where
  "duplicate_kinds seen [] = None"
| "duplicate_kinds seen (e # es) =
     (if we_kind e \<in> set single_kinds then
        (if we_kind e \<in> set seen
         then Some (DurableWalError (''WAL contains a duplicate lifecycle event: '' @ kind_text (we_kind e)))
         else duplicate_kinds (we_kind e # seen) es)
      else duplicate_kinds seen es)"

text \<open>The dictionary from kinds to positions keeps the last position of a kind.\<close>

fun kind_index :: "nat \<Rightarrow> wal_event list \<Rightarrow> (wal_event_kind \<times> nat) list" where
  "kind_index n [] = []"
| "kind_index n (e # es) = kind_index (Suc n) es @ [(we_kind e, n)]"

definition lacks_prerequisite :: "(wal_event_kind \<times> nat) list \<Rightarrow> wal_event_kind \<times> wal_event_kind \<Rightarrow> pyexc option" where
  "lacks_prerequisite index kp = (case kp of (kind, prerequisite) \<Rightarrow>
     (case map_of index kind of
        None \<Rightarrow> None
      | Some i \<Rightarrow> ensure (case map_of index prerequisite of None \<Rightarrow> False | Some j \<Rightarrow> \<not> i \<le> j)
          (DurableWalError (''WAL event '' @ kind_text kind @ '' lacks prior '' @ kind_text prerequisite))))"

definition validate_event_sequence :: "wal_event list \<Rightarrow> pyexc option" where
  "validate_event_sequence events =
     (if events = [] then None
      else first_raise
        ([duplicate_kinds [] events,
          ensure (we_kind (hd events) = RUN_CLAIMED) (DurableWalError ''WAL must begin with RUN_CLAIMED'')]
         @ map (lacks_prerequisite (kind_index 0 events)) prerequisites))"

section \<open>Wire objects\<close>

definition wal_identity_wire :: "run_identity \<Rightarrow> pydict" where
  "wal_identity_wire i =
     [(''project_id'', PyStr (id_project i)), (''command_id'', PyInt (id_command i)),
      (''run_id'', PyStr (id_run i)), (''claim_generation'', PyInt (id_generation i))]"

definition exact_fields :: "string list \<Rightarrow> py \<Rightarrow> bool" where
  "exact_fields names v \<longleftrightarrow> is_dict v \<and> set (dkeys (the_dict v)) = set names"

definition wal_identity_from_wire :: "py \<Rightarrow> pyexc + run_identity" where
  "wal_identity_from_wire v =
     run_checks [ensure (exact_fields IDENTITY_FIELDS v) (DurableWalError ''WAL identity object is not exact'')]
       (let d = the_dict v in
        reraise_as (DurableWalError ''WAL identity is invalid'')
          (RunIdentity (dget d ''project_id'') (dget d ''command_id'') (dget d ''run_id'') (dget d ''claim_generation'')))"

definition event_wire :: "wal_event \<Rightarrow> pydict" where
  "event_wire e =
     [(''sequence'', PyInt (we_sequence e)), (''kind'', PyStr (kind_text (we_kind e))),
      (''recorded_at'', PyStr (we_recorded_at e)), (''effect_id'', of_opt_str (we_effect_id e)),
      (''target_id'', of_opt_str (we_target_id e)), (''expected_object'', of_opt_str (we_expected_object e)),
      (''observed_object'', of_opt_str (we_observed_object e)), (''artifact_digest'', of_opt_str (we_artifact_digest e)),
      (''precondition_object'', of_opt_str (we_precondition_object e))]"

definition event_from_wire :: "py \<Rightarrow> pyexc + wal_event" where
  "event_from_wire v =
     run_checks [ensure (exact_fields EVENT_FIELDS v \<or> exact_fields LEGACY_EVENT_FIELDS v)
         (DurableWalError ''WAL event fields are not exact'')]
       (let d = the_dict v in
        reraise_as (DurableWalError ''WAL event is malformed'')
          (RecoveryWalEvent (dget d ''sequence'') (dget d ''kind'') (dget d ''recorded_at'') (dget d ''effect_id'')
             (dget d ''target_id'') (dget d ''expected_object'') (dget d ''observed_object'')
             (dget d ''artifact_digest'') (dget d ''precondition_object'')))"

section \<open>Reading the file\<close>

text \<open>\<open>bytes.splitlines()\<close>.\<close>

fun bytes_lines :: "string \<Rightarrow> string \<Rightarrow> string list" where
  "bytes_lines acc [] = (if acc = [] then [] else [rev acc])"
| "bytes_lines acc (c # s) =
     (if c = CHR 0x0A then rev acc # bytes_lines [] s
      else if c = CHR 0x0D then rev acc # bytes_lines [] (if starts (CHR 0x0A) s then tl s else s)
      else bytes_lines (c # acc) s)"

definition load_line :: "(string \<Rightarrow> py) \<Rightarrow> string \<Rightarrow> string \<Rightarrow> pyexc + py" where
  "load_line float_of message line = (case utf8_decode line of
       None \<Rightarrow> Inl (DurableWalError message)
     | Some t \<Rightarrow> (case json_loads float_of t of
           Inl e \<Rightarrow> Inl (if e = IntTooLong
             then ValueError ''Exceeds the limit (4300 digits) for integer string conversion'' else DurableWalError message)
         | Inr v \<Rightarrow> Inr v))"

definition read_header :: "(string \<Rightarrow> py) \<Rightarrow> string \<Rightarrow> pyexc + run_identity" where
  "read_header float_of line =
     res_bind (load_line float_of ''WAL header is not valid JSON'' line) (\<lambda>header.
       let h = the_dict header in
       run_checks
         [ensure (exact_fields HEADER_FIELDS header) (DurableWalError ''WAL header fields are not exact''),
          ensure (py_eq (dget h ''record'') (PyStr ''header'')
              \<and> py_eq (dget h ''schema_version'') (PyInt WAL_FILE_SCHEMA_VERSION))
            (DurableWalError ''WAL header schema is unsupported'')]
         (wal_identity_from_wire (dget h ''identity'')))"

definition unsigned_record :: "run_identity \<Rightarrow> pydict \<Rightarrow> pydict" where
  "unsigned_record ident event =
     [(''record'', PyStr ''event''), (''schema_version'', PyInt WAL_FILE_SCHEMA_VERSION),
      (''identity'', PyDict (wal_identity_wire ident)), (''event'', PyDict event)]"

definition read_record :: "(string \<Rightarrow> py) \<Rightarrow> run_identity \<Rightarrow> string \<Rightarrow> pyexc + wal_event" where
  "read_record float_of ident line =
     res_bind (load_line float_of ''WAL event is not valid JSON'' line) (\<lambda>record.
       let r = the_dict record; event = dget r ''event''; digest = dget r ''record_digest'' in
       run_checks
         [ensure (exact_fields RECORD_FIELDS record) (DurableWalError ''WAL event record fields are not exact''),
          ensure (py_eq (dget r ''record'') (PyStr ''event'')
              \<and> py_eq (dget r ''schema_version'') (PyInt WAL_FILE_SCHEMA_VERSION))
            (DurableWalError ''WAL event record schema is unsupported'')]
         (res_bind (wal_identity_from_wire (dget r ''identity'')) (\<lambda>record_identity.
           run_checks
             [ensure (record_identity = ident) (DurableWalError ''WAL event identity does not match the header''),
              ensure (exact_fields EVENT_FIELDS event \<or> exact_fields LEGACY_EVENT_FIELDS event)
                (DurableWalError ''WAL event object fields are not exact''),
              ensure (is_str digest \<and> WAL_DIGEST_RE (the_str digest))
                (DurableWalError ''WAL record digest is invalid''),
              ensure (the_str digest = sha256_hex (canonical_json (unsigned_record ident (the_dict event))))
                (DurableWalError ''WAL record digest mismatch'')]
             (res_bind (event_from_wire event) (\<lambda>e. run_checks [validate_event_fields e] (Inr e))))))"

text \<open>\<open>except RecoveryEvidenceError\<close> around the construction of a log.\<close>

definition wal_check :: "string \<Rightarrow> run_identity \<Rightarrow> wal_event list \<Rightarrow> pyexc option" where
  "wal_check message ident events =
     (case exc_of (RecoveryWal (PyInt RECOVERY_WAL_SCHEMA_VERSION) ident events) of
        Some (RecoveryEvidenceError _) \<Rightarrow> Some (DurableWalError message) | r \<Rightarrow> r)"

definition read_file ::
    "(string \<Rightarrow> py) \<Rightarrow> int \<Rightarrow> string option \<Rightarrow> pyexc + (run_identity \<times> wal_event list \<times> string)" where
  "read_file float_of max_bytes content = (case content of
       None \<Rightarrow> Inl (DurableWalError ''unable to read exact-run WAL'')
     | Some raw \<Rightarrow>
         if raw = [] \<or> int (length raw) > max_bytes \<or> last raw \<noteq> CHR 0x0A
         then Inl (DurableWalError ''WAL is empty, oversized, or has a partial final record'')
         else (let lines = bytes_lines [] raw in
           res_bind (read_header float_of (hd lines)) (\<lambda>ident.
           res_bind (res_map (read_record float_of ident) (tl lines)) (\<lambda>events.
             run_checks
               [wal_check ''WAL event sequence or effect evidence is contradictory'' ident events,
                validate_event_sequence events]
               (Inr (ident, events, raw))))))"

record wal_snapshot =
  ws_identity :: run_identity
  ws_events :: "wal_event list"
  ws_file_digest :: string
  ws_size_bytes :: int

definition bounded_size :: "int \<Rightarrow> pyexc option" where
  "bounded_size max_bytes = ensure (4096 \<le> max_bytes \<and> max_bytes \<le> 4 * 1024 * 1024)
     (DurableWalError ''max_bytes is outside the bounded WAL contract'')"

definition wal_read ::
    "(string \<Rightarrow> py) \<Rightarrow> run_identity option \<Rightarrow> int \<Rightarrow> string option \<Rightarrow> pyexc + wal_snapshot" where
  "wal_read float_of ident max_bytes content =
     run_checks [bounded_size max_bytes]
       (res_bind (read_file float_of max_bytes content) (\<lambda>(actual, events, raw).
         run_checks [ensure (ident = None \<or> ident = Some actual)
             (DurableWalError ''WAL identity does not match requested exact run'')]
           (Inr \<lparr>ws_identity = actual, ws_events = events, ws_file_digest = sha256_hex raw,
                 ws_size_bytes = int (length raw)\<rparr>)))"

section \<open>Writing the file\<close>

record run_wal =
  rw_identity :: run_identity
  rw_max_bytes :: int
  rw_events :: "wal_event list"

definition line_of :: "pydict \<Rightarrow> string" where
  "line_of d = canonical_json d @ [CHR 0x0A]"

definition header_record :: "run_identity \<Rightarrow> pydict" where
  "header_record ident = [(''record'', PyStr ''header''), (''schema_version'', PyInt WAL_FILE_SCHEMA_VERSION),
     (''identity'', PyDict (wal_identity_wire ident))]"

text \<open>\<open>meanwhile\<close> is the file another process creates between the test and the exclusive creation.\<close>

definition DurableRunWal ::
    "(string \<Rightarrow> py) \<Rightarrow> run_identity \<Rightarrow> int \<Rightarrow> string option \<Rightarrow> string option \<Rightarrow>
       (pyexc + run_wal) \<times> string option" where
  "DurableRunWal float_of ident max_bytes meanwhile content =
     (case bounded_size max_bytes of
        Some e \<Rightarrow> (Inl e, content)
      | None \<Rightarrow>
          (let file = (case content of None \<Rightarrow> meanwhile | Some raw \<Rightarrow> Some raw);
               w = \<lparr>rw_identity = ident, rw_max_bytes = max_bytes, rw_events = []\<rparr> in
           if file = None then (Inr w, Some (line_of (header_record ident)))
           else
             (res_bind (read_file float_of max_bytes file) (\<lambda>(actual, events, _).
                run_checks [ensure (actual = ident) (DurableWalError ''existing WAL belongs to another exact run'')]
                  (Inr (w\<lparr>rw_events := events\<rparr>))), file)))"

definition event_record :: "run_identity \<Rightarrow> wal_event \<Rightarrow> pydict" where
  "event_record ident e = unsigned_record ident (event_wire e)
     @ [(''record_digest'', PyStr (sha256_hex (canonical_json (unsigned_record ident (event_wire e)))))]"

text \<open>\<open>stop\<close> is the number of bytes after which the operating system stops the write, if it does.\<close>

definition append_record ::
    "nat option \<Rightarrow> run_wal \<Rightarrow> wal_event \<Rightarrow> string option \<Rightarrow> pyexc option \<times> string option" where
  "append_record stop w e content = (case content of
       None \<Rightarrow> (Some (OSError ''No such file or directory''), None)
     | Some old \<Rightarrow>
         (let raw = line_of (event_record (rw_identity w) e) in
          if int (length old) + int (length raw) > rw_max_bytes w
          then (Some (DurableWalError ''WAL maximum size would be exceeded''), content)
          else (case stop of
              None \<Rightarrow> (None, Some (old @ raw))
            | Some k \<Rightarrow> (Some (OSError ''write failed''), Some (old @ take k raw)))))"

definition append_checks :: "run_wal \<Rightarrow> wal_event \<Rightarrow> pyexc option list" where
  "append_checks w e =
     (let expected = int (length (rw_events w)) + 1; candidate = rw_events w @ [e] in
     [ensure (we_sequence e = expected)
        (DurableWalError (''WAL sequence must be exactly '' @ show_int expected @ '', got '' @ show_int (we_sequence e))),
      validate_event_fields e,
      validate_event_sequence candidate,
      wal_check ''WAL effect evidence is malformed or contradictory'' (rw_identity w) candidate])"

definition append_event ::
    "nat option \<Rightarrow> wal_event \<Rightarrow> run_wal \<times> string option \<Rightarrow>
       (pyexc + wal_event) \<times> run_wal \<times> string option" where
  "append_event stop e st = (case st of (w, content) \<Rightarrow>
     (case first_raise (append_checks w e) of
        Some err \<Rightarrow> (Inl err, w, content)
      | None \<Rightarrow>
          (case append_record stop w e content of
             (Some err, content') \<Rightarrow> (Inl err, w, content')
           | (None, content') \<Rightarrow> (Inr e, w\<lparr>rw_events := rw_events w @ [e]\<rparr>, content'))))"

text \<open>\<open>append\<close>: the sequence number is the next one, and the time is now where none is given.\<close>

definition wal_append ::
    "nat option \<Rightarrow> string \<Rightarrow> wal_event_kind \<Rightarrow> py \<Rightarrow> py \<Rightarrow> py \<Rightarrow> py \<Rightarrow> py \<Rightarrow> py \<Rightarrow> py \<Rightarrow>
       run_wal \<times> string option \<Rightarrow> (pyexc + wal_event) \<times> run_wal \<times> string option" where
  "wal_append stop now kind recorded_at effect target expected observed artifact precondition st =
     (case RecoveryWalEvent (PyInt (int (length (rw_events (fst st))) + 1)) (PyStr (kind_text kind))
         (if truthy recorded_at then recorded_at else PyStr now) effect target expected observed artifact precondition of
        Inl e \<Rightarrow> (Inl e, st)
      | Inr event \<Rightarrow> append_event stop event st)"

definition GIT_REMOTE_RE :: "string \<Rightarrow> bool" where
  "GIT_REMOTE_RE s \<longleftrightarrow> s \<noteq> [] \<and> length s \<le> 63 \<and> is_alnum_ascii (hd s)
     \<and> list_all (\<lambda>c. is_alnum_ascii c \<or> c \<in> set ''._-'') (tl s)"

definition GIT_REF_RE :: "string \<Rightarrow> bool" where
  "GIT_REF_RE s \<longleftrightarrow> has_prefix ''refs/heads/'' s
     \<and> (let name = drop 11 s in name \<noteq> [] \<and> length name \<le> 191 \<and> is_alnum_ascii (hd name)
          \<and> list_all (\<lambda>c. is_alnum_ascii c \<or> c \<in> set ''._/-'') (tl name))"

definition GIT_OBJECT_RE :: "string \<Rightarrow> bool" where
  "GIT_OBJECT_RE s \<longleftrightarrow> (length s = 40 \<or> length s = 64) \<and> list_all is_hex_lower s"

definition validate_git_push_fields :: "string \<Rightarrow> string \<Rightarrow> string \<Rightarrow> string \<Rightarrow> string \<Rightarrow> pyexc option" where
  "validate_git_push_fields effect remote target_ref expected precondition = first_raise
     [ensure (SAFE_FIELD_RE effect) (DurableWalError ''Git effect_id is not safe''),
      ensure (GIT_REMOTE_RE remote) (DurableWalError ''Git remote name is not safe''),
      ensure (GIT_REF_RE target_ref \<and> \<not> contains ''..'' target_ref \<and> \<not> contains ''//'' target_ref)
        (DurableWalError ''Git target ref is not canonical''),
      ensure (GIT_OBJECT_RE expected) (DurableWalError ''Git expected object is not exact''),
      ensure (GIT_OBJECT_RE precondition) (DurableWalError ''Git precondition object is not exact'')]"

definition record_push_intent ::
    "nat option \<Rightarrow> string \<Rightarrow> string \<Rightarrow> string \<Rightarrow> string \<Rightarrow> string \<Rightarrow> string \<Rightarrow> py \<Rightarrow>
       run_wal \<times> string option \<Rightarrow> (pyexc + wal_event) \<times> run_wal \<times> string option" where
  "record_push_intent stop now effect remote target_ref expected precondition recorded_at st =
     (case validate_git_push_fields effect remote target_ref expected precondition of
        Some e \<Rightarrow> (Inl e, st)
      | None \<Rightarrow> wal_append stop now PUSH_INTENT recorded_at (PyStr effect) (PyStr (remote @ '':'' @ target_ref))
          (PyStr expected) PyNone PyNone (PyStr precondition) st)"

definition record_push_confirmed ::
    "nat option \<Rightarrow> string \<Rightarrow> push_reconciliation \<Rightarrow> py \<Rightarrow>
       run_wal \<times> string option \<Rightarrow> (pyexc + wal_event) \<times> run_wal \<times> string option" where
  "record_push_confirmed stop now r recorded_at st =
     (if pr_state r \<noteq> EXACT_APPLIED
      then (Inl (DurableWalError ''only an exact applied Git observation can confirm a push''), st)
      else (case res_bind (RecoveryWal (PyInt RECOVERY_WAL_SCHEMA_VERSION) (rw_identity (fst st)) (rw_events (fst st)))
            push_effects of
          Inl e \<Rightarrow> (Inl e, st)
        | Inr effects \<Rightarrow>
            (case find (\<lambda>e. pe_effect_id e = pr_effect_id r) (rev effects) of
               None \<Rightarrow> (Inl (DurableWalError ''Git confirmation has no unconfirmed exact intent''), st)
             | Some effect \<Rightarrow>
                 if pe_confirmed effect
                 then (Inl (DurableWalError ''Git confirmation has no unconfirmed exact intent''), st)
                 else if pe_target_id effect \<noteq> pr_target_id r \<or> pe_expected_object effect \<noteq> pr_expected_object r
                   \<or> pe_precondition_object effect \<noteq> pr_precondition_object r
                 then (Inl (DurableWalError ''Git confirmation does not bind the exact intent''), st)
                 else wal_append stop now PUSH_CONFIRMED recorded_at (PyStr (pr_effect_id r)) (PyStr (pr_target_id r))
                   (PyStr (pr_expected_object r)) (of_opt_str (pr_observed_object r)) PyNone
                   (of_opt_str (pr_precondition_object r)) st)))"

text \<open>\<open>_pid_digest\<close>: the representations of two values, with every character outside ASCII replaced.\<close>

definition pid_digest :: "py \<Rightarrow> py \<Rightarrow> string" where
  "pid_digest a b = sha256_hex
     (map (\<lambda>c. if (of_char c :: nat) < 128 then c else CHR ''?'') (py_repr a @ '':'' @ py_repr b))"

definition lifecycle_kind :: "string \<Rightarrow> wal_event_kind option" where
  "lifecycle_kind = map_of
     [(''process_create_intent'', PROCESS_CREATE_INTENT), (''process_created'', PROCESS_CREATED),
      (''process_exit'', PROCESS_EXITED), (''broker_started'', BROKER_STARTED), (''broker_stopped'', BROKER_STOPPED),
      (''containment_prepared'', CONTAINMENT_PREPARED), (''containment_reconciled'', CONTAINMENT_RECONCILED),
      (''containment_released'', CONTAINMENT_RELEASED), (''project_egress_reconciled'', PROJECT_EGRESS_RECONCILED)]"

definition str_or_none :: "py \<Rightarrow> py" where
  "str_or_none v = (if is_str v then v else PyNone)"

definition lifecycle_digest :: "string \<Rightarrow> pydict \<Rightarrow> py" where
  "lifecycle_digest event d =
     (let given = (if truthy (dget d ''artifact_digest'') then dget d ''artifact_digest'' else dget d ''command_digest'');
          given = (if given = PyNone \<and> event = ''process_created''
            then PyStr (pid_digest (dget d ''wrapper_pid'') (dget d ''codex_root_pid'')) else given) in
      if given = PyNone \<and> event = ''process_exit''
      then PyStr (pid_digest (dget d ''exit_code'') (dget d ''process_exited_at'')) else given)"

text \<open>The result is the first appended event, and nothing for an event outside the vocabulary.\<close>

definition record_lifecycle ::
    "nat option \<Rightarrow> nat option \<Rightarrow> string \<Rightarrow> py \<Rightarrow> py \<Rightarrow> run_wal \<times> string option \<Rightarrow>
       (pyexc + wal_event option) \<times> run_wal \<times> string option" where
  "record_lifecycle stop stop' now event data st =
     (if \<not> is_str event \<or> \<not> is_dict data then (Inr None, st)
      else (case lifecycle_kind (the_str event) of
          None \<Rightarrow> (Inr None, st)
        | Some kind \<Rightarrow>
            (let d = the_dict data; observed = dget d ''project_egress_observed'' in
             case wal_append stop now kind (str_or_none (dget d ''recorded_at'')) PyNone PyNone PyNone
                 (if event = PyStr ''project_egress_reconciled'' then str_or_none observed else PyNone)
                 (str_or_none (lifecycle_digest (the_str event) d)) PyNone st of
               (Inl e, st1) \<Rightarrow> (Inl e, st1)
             | (Inr appended, st1) \<Rightarrow>
                 if event = PyStr ''containment_reconciled'' \<and> is_str observed
                   \<and> is_str (dget d ''project_egress_artifact_digest'')
                 then (case wal_append stop' now PROJECT_EGRESS_RECONCILED PyNone PyNone PyNone PyNone observed
                       (dget d ''project_egress_artifact_digest'') PyNone st1 of
                     (Inl e, st2) \<Rightarrow> (Inl e, st2) | (Inr _, st2) \<Rightarrow> (Inr (Some appended), st2))
                 else (Inr (Some appended), st1))))"

end
