(* ===== verification/Run_Wal_File.thy ===== *)
theory Run_Wal_File
  imports Run_Wal
begin

text \<open>
  What the durable log of \<open>Run_Wal\<close> guarantees: a file written by the writer is read back as the same
  identity and events, a write cut short is never taken for a record, and the events the writer
  accepts are those of the abstract log.
\<close>

section \<open>Lines\<close>

lemma printable_no_break: "printable_ascii s \<Longrightarrow> CHR 0x0A \<notin> set s \<and> CHR 0x0D \<notin> set s"
  by (auto simp: printable_ascii_def list_all_iff)

lemma bytes_lines_line:
  "CHR 0x0A \<notin> set l \<Longrightarrow> CHR 0x0D \<notin> set l \<Longrightarrow>
     bytes_lines acc (l @ CHR 0x0A # s) = (rev acc @ l) # bytes_lines [] s"
  by (induction l arbitrary: acc) auto

lemma bytes_lines_all:
  "\<forall>l \<in> set ls. printable_ascii l \<Longrightarrow> bytes_lines [] (concat (map (\<lambda>l. l @ [CHR 0x0A]) ls)) = ls"
  by (induction ls) (simp_all add: bytes_lines_line printable_no_break)

lemma bytes_lines_partial:
  "CHR 0x0A \<notin> set l \<Longrightarrow> CHR 0x0D \<notin> set l \<Longrightarrow> l \<noteq> [] \<or> acc \<noteq> [] \<Longrightarrow> bytes_lines acc l = [rev acc @ l]"
  by (induction l arbitrary: acc) auto

lemma load_line_value:
  "json_ok (PyDict d) \<Longrightarrow> load_line F m (canonical_json d) = Inr (PyDict (sort_key fst (pairs_sorted d)))"
  using json_loads_value [of "PyDict d" F] json_value_printable(1) [of "PyDict d"]
  by (simp add: load_line_def canonical_json_def utf8_decode_ascii del: json_value.simps)

section \<open>Fields of a sorted object\<close>

lemma exact_fields_sorted [simp]:
  "exact_fields names (PyDict (sort_key fst (pairs_sorted d))) \<longleftrightarrow> exact_fields names (PyDict d)"
proof -
  have "set (dkeys (sort_key fst (pairs_sorted d))) = fst ` set (pairs_sorted d)" by (simp add: dkeys_def)
  also have "\<dots> = set (dkeys d)" using dkeys_pairs_sorted [of d] unfolding dkeys_def by (metis list.set_map)
  finally show ?thesis by (simp add: exact_fields_def)
qed

lemma json_sorted_flat [simp]: "json_sorted (of_opt_str v) = of_opt_str v"
  by (cases v) simp_all

section \<open>Wire objects\<close>

definition short_identity :: "run_identity \<Rightarrow> bool" where
  "short_identity i \<longleftrightarrow> wf_identity i \<and> short_int (id_command i) \<and> short_int (id_generation i)"

lemma identity_wire_ok [simp]:
  "short_identity i \<Longrightarrow> json_ok (PyDict (wal_identity_wire i))"
  by (simp add: wal_identity_wire_def short_identity_def)

lemma exact_identity [simp]: "exact_fields IDENTITY_FIELDS (PyDict (wal_identity_wire i))"
  by (auto simp: exact_fields_def IDENTITY_FIELDS_def wal_identity_wire_def dkeys_def)

lemma identity_wire_keys [simp]: "distinct (map fst (wal_identity_wire i))"
  by (simp add: wal_identity_wire_def)

lemma identity_dget [simp]:
  "dget (wal_identity_wire i) ''project_id'' = PyStr (id_project i)"
  "dget (wal_identity_wire i) ''command_id'' = PyInt (id_command i)"
  "dget (wal_identity_wire i) ''run_id'' = PyStr (id_run i)"
  "dget (wal_identity_wire i) ''claim_generation'' = PyInt (id_generation i)"
  by (simp_all add: wal_identity_wire_def)

lemma RunIdentity_wf:
  "wf_identity i \<Longrightarrow> RunIdentity (PyStr (id_project i)) (PyInt (id_command i)) (PyStr (id_run i)) (PyInt (id_generation i)) = Inr i"
  using identity_ctor.valid_build [of i] by (simp add: identity_fields_def)

interpretation wal_identity_codec: wire_codec "\<lambda>i. PyDict (wal_identity_wire i)" wal_identity_from_wire wf_identity
proof
  fix v i
  assume "wal_identity_from_wire v = Inr i"
  then show "wf_identity i"
    using identity_ctor.build_valid by (auto simp: wal_identity_from_wire_def run_checks_Inr Let_def) 
next
  fix i
  assume "wf_identity i"
  then show "wal_identity_from_wire (PyDict (wal_identity_wire i)) = Inr i"
    by (simp add: wal_identity_from_wire_def run_checks_pass RunIdentity_wf)
qed

lemma identity_read_sorted:
  "wf_identity i \<Longrightarrow> wal_identity_from_wire (PyDict (sort_key fst (pairs_sorted (wal_identity_wire i)))) = Inr i"
  by (simp add: wal_identity_from_wire_def run_checks_pass dget_sorted RunIdentity_wf)

lemma event_wire_keys [simp]: "distinct (map fst (event_wire e))"
  by (simp add: event_wire_def)

lemma event_dget [simp]:
  "dget (event_wire e) ''sequence'' = PyInt (we_sequence e)"
  "dget (event_wire e) ''kind'' = PyStr (kind_text (we_kind e))"
  "dget (event_wire e) ''recorded_at'' = PyStr (we_recorded_at e)"
  "dget (event_wire e) ''effect_id'' = of_opt_str (we_effect_id e)"
  "dget (event_wire e) ''target_id'' = of_opt_str (we_target_id e)"
  "dget (event_wire e) ''expected_object'' = of_opt_str (we_expected_object e)"
  "dget (event_wire e) ''observed_object'' = of_opt_str (we_observed_object e)"
  "dget (event_wire e) ''artifact_digest'' = of_opt_str (we_artifact_digest e)"
  "dget (event_wire e) ''precondition_object'' = of_opt_str (we_precondition_object e)"
  by (simp_all add: event_wire_def)

lemma exact_event [simp]: "exact_fields EVENT_FIELDS (PyDict (event_wire e))"
  by (auto simp: exact_fields_def EVENT_FIELDS_def event_wire_def dkeys_def)

lemma json_ok_opt [simp]: "json_ok (of_opt_str v)"
  by (cases v) simp_all

lemma event_wire_ok [simp]: "short_int (we_sequence e) \<Longrightarrow> pairs_ok (event_wire e)"
  by (simp add: event_wire_def)

lemma RecoveryWalEvent_wf:
  "wf_event e \<Longrightarrow> RecoveryWalEvent (PyInt (we_sequence e)) (PyStr (kind_text (we_kind e))) (PyStr (we_recorded_at e))
     (of_opt_str (we_effect_id e)) (of_opt_str (we_target_id e)) (of_opt_str (we_expected_object e))
     (of_opt_str (we_observed_object e)) (of_opt_str (we_artifact_digest e)) (of_opt_str (we_precondition_object e)) = Inr e"
  using event_ctor.valid_build [of e] by (simp add: event_fields_def)

interpretation event_codec: wire_codec "\<lambda>e. PyDict (event_wire e)" event_from_wire wf_event
proof
  fix v e
  assume "event_from_wire v = Inr e"
  then show "wf_event e"
    by (auto simp: event_from_wire_def run_checks_Inr Let_def dest: RecoveryWalEvent_valid)
next
  fix e
  assume "wf_event e"
  then show "event_from_wire (PyDict (event_wire e)) = Inr e"
    by (simp add: event_from_wire_def run_checks_pass RecoveryWalEvent_wf)
qed

lemma event_read_sorted:
  "wf_event e \<Longrightarrow> event_from_wire (PyDict (sort_key fst (pairs_sorted (event_wire e)))) = Inr e"
  by (simp add: event_from_wire_def run_checks_pass dget_sorted RecoveryWalEvent_wf)

section \<open>Records\<close>

definition header_line :: "run_identity \<Rightarrow> string" where
  "header_line ident = canonical_json (header_record ident)"

definition event_line :: "run_identity \<Rightarrow> wal_event \<Rightarrow> string" where
  "event_line ident e = canonical_json (event_record ident e)"

lemma line_of_records:
  "line_of (header_record ident) = header_line ident @ [CHR 0x0A]"
  "line_of (event_record ident e) = event_line ident e @ [CHR 0x0A]"
  by (simp_all add: line_of_def header_line_def event_line_def)

lemma header_record_ok [simp]: "short_identity i \<Longrightarrow> json_ok (PyDict (header_record i))"
  using identity_wire_ok [of i] by (simp add: header_record_def WAL_FILE_SCHEMA_VERSION_def short_int_def show_nat_small)

lemma event_record_ok [simp]:
  "short_identity i \<Longrightarrow> short_int (we_sequence e) \<Longrightarrow> json_ok (PyDict (event_record i e))"
  using identity_wire_ok [of i]
  by (simp add: event_record_def unsigned_record_def WAL_FILE_SCHEMA_VERSION_def short_int_def show_nat_small
      event_wire_ok [unfolded short_int_def])

lemma header_printable: "short_identity i \<Longrightarrow> printable_ascii (header_line i)"
  using json_value_printable(1) [OF header_record_ok] by (simp add: header_line_def canonical_json_def)

lemma event_printable: "short_identity i \<Longrightarrow> short_int (we_sequence e) \<Longrightarrow> printable_ascii (event_line i e)"
  using json_value_printable(1) [OF event_record_ok] by (simp add: event_line_def canonical_json_def)

lemma header_dget:
  "dget (header_record i) ''record'' = PyStr ''header''"
  "dget (header_record i) ''schema_version'' = PyInt WAL_FILE_SCHEMA_VERSION"
  "dget (header_record i) ''identity'' = PyDict (wal_identity_wire i)"
  "distinct (map fst (header_record i))" "exact_fields HEADER_FIELDS (PyDict (header_record i))"
  by (auto simp: header_record_def exact_fields_def HEADER_FIELDS_def dkeys_def)

lemma read_header_line:
  assumes "short_identity i"
  shows "read_header F (header_line i) = Inr i"
proof -
  have wf: "wf_identity i" using assms by (simp add: short_identity_def)
  show ?thesis
    unfolding read_header_def header_line_def load_line_value [OF header_record_ok [OF assms]]
    by (simp add: dget_sorted header_dget run_checks_pass identity_read_sorted [OF wf])
qed

lemma record_dget:
  "dget (event_record i e) ''record'' = PyStr ''event''"
  "dget (event_record i e) ''schema_version'' = PyInt WAL_FILE_SCHEMA_VERSION"
  "dget (event_record i e) ''identity'' = PyDict (wal_identity_wire i)"
  "dget (event_record i e) ''event'' = PyDict (event_wire e)"
  "dget (event_record i e) ''record_digest''
     = PyStr (sha256_hex (canonical_json (unsigned_record i (event_wire e))))"
  "distinct (map fst (event_record i e))" "exact_fields RECORD_FIELDS (PyDict (event_record i e))"
  by (auto simp: event_record_def unsigned_record_def exact_fields_def RECORD_FIELDS_def dkeys_def)

lemma unsigned_sorted:
  "canonical_json (unsigned_record i (sort_key fst (pairs_sorted d))) = canonical_json (unsigned_record i d)"
  using json_sorted_text(1) [of "PyDict d"]
  by (simp add: canonical_json_def unsigned_record_def del: json_value.simps(7)) simp

lemma sha256_WAL_DIGEST [simp]: "WAL_DIGEST_RE (sha256_hex s)"
  by (simp add: WAL_DIGEST_RE_def)

lemma read_record_line:
  assumes "short_identity i" "wf_event e" "short_int (we_sequence e)" "validate_event_fields e = None"
  shows "read_record F i (event_line i e) = Inr e"
proof -
  have wf: "wf_identity i" using assms by (simp add: short_identity_def)
  show ?thesis
    unfolding read_record_def event_line_def load_line_value [OF event_record_ok [OF assms(1,3)]]
    by (simp add: dget_sorted record_dget run_checks_pass identity_read_sorted [OF wf] unsigned_sorted
        event_read_sorted [OF assms(2)] assms(4))
qed

section \<open>The file\<close>

definition wal_text :: "run_identity \<Rightarrow> wal_event list \<Rightarrow> string" where
  "wal_text i events = concat (map (\<lambda>l. l @ [CHR 0x0A]) (header_line i # map (event_line i) events))"

lemma wal_text_simps:
  "wal_text i [] = line_of (header_record i)"
  "wal_text i (events @ [e]) = wal_text i events @ line_of (event_record i e)"
  by (simp_all add: wal_text_def line_of_records)

definition wf_log :: "run_identity \<Rightarrow> wal_event list \<Rightarrow> bool" where
  "wf_log i events \<longleftrightarrow> short_identity i
     \<and> (\<forall>e \<in> set events. wf_event e \<and> short_int (we_sequence e) \<and> validate_event_fields e = None)"

lemma wf_log_lines: "wf_log i events \<Longrightarrow> \<forall>l \<in> set (header_line i # map (event_line i) events). printable_ascii l"
  by (auto simp: wf_log_def header_printable event_printable)

lemma wal_text_lines:
  "wf_log i events \<Longrightarrow> bytes_lines [] (wal_text i events) = header_line i # map (event_line i) events"
  unfolding wal_text_def by (rule bytes_lines_all [OF wf_log_lines])

lemma wal_text_nonempty [simp]: "wal_text i events \<noteq> []"
  by (simp add: wal_text_def)

lemma wal_text_last [simp]: "last (wal_text i events) = CHR 0x0A"
  by (cases events rule: rev_cases) (simp_all add: wal_text_simps line_of_def)

lemma res_map_all: "\<forall>x \<in> set xs. f x = Inr (g x) \<Longrightarrow> res_map f xs = Inr (map g xs)"
  by (induction xs) simp_all

lemma read_events: "wf_log i events \<Longrightarrow> res_map (read_record F i) (map (event_line i) events) = Inr events"
  by (subst res_map_all [of _ _ "\<lambda>l. THE e. read_record F i l = Inr e"])
     (auto simp: wf_log_def read_record_line comp_def intro: map_idI)

lemma read_file_text:
  assumes "wf_log i events" "int (length (wal_text i events)) \<le> max_bytes"
    and "wal_check m i events = None" "validate_event_sequence events = None"
  shows "read_file F max_bytes (Some (wal_text i events)) = Inr (i, events, wal_text i events)"
proof -
  have "wal_check ''WAL event sequence or effect evidence is contradictory'' i events = None"
    using assms(3) by (auto simp: wal_check_def split: option.splits pyexc.splits)
  moreover have "short_identity i" using assms(1) by (simp add: wf_log_def)
  ultimately show ?thesis
    using assms(2,4)
    by (simp add: read_file_def wal_text_lines [OF assms(1)] read_header_line read_events [OF assms(1)] run_checks_pass)
qed

section \<open>The abstract log\<close>

text \<open>
  What may stand in the log of a run: the claim comes first, no lifecycle event twice, and each one
  after the event it presupposes.
\<close>

definition lifecycle_ordered :: "wal_event list \<Rightarrow> bool" where
  "lifecycle_ordered events \<longleftrightarrow> events = [] \<or>
     we_kind (hd events) = RUN_CLAIMED
     \<and> distinct (filter (\<lambda>k. k \<in> set single_kinds) (map we_kind events))
     \<and> (\<forall>(k, p) \<in> set prerequisites. \<forall>before e after.
          events = before @ e # after \<longrightarrow> we_kind e = k \<longrightarrow> p \<in> we_kind ` set before)"

lemma duplicate_kinds_None:
  "duplicate_kinds seen es = None \<longleftrightarrow>
     distinct (filter (\<lambda>k. k \<in> set single_kinds) (map we_kind es))
     \<and> (\<forall>e \<in> set es. we_kind e \<in> set single_kinds \<longrightarrow> we_kind e \<notin> set seen)"
  by (induction seen es rule: duplicate_kinds.induct) (auto simp: image_iff)

lemma kind_index_None: "map_of (kind_index n es) k = None \<longleftrightarrow> k \<notin> we_kind ` set es"
  by (induction es arbitrary: n) (auto simp: map_add_def split: option.splits)

text \<open>Where a kind occurs once, its index is its position.\<close>

lemma kind_index_unique:
  assumes "es = before @ e # after" "we_kind e = k" "k \<notin> we_kind ` set after"
  shows "map_of (kind_index n es) k = Some (n + length before)"
  using assms
proof (induction before arbitrary: es n)
  case Nil
  then show ?case using kind_index_None [of "Suc n" after k] by (simp add: map_add_def)
next
  case (Cons x before)
  then show ?case by (simp add: map_add_def)
qed

lemma single_kind_unique:
  assumes "distinct (filter (\<lambda>k. k \<in> set single_kinds) (map we_kind es))" "k \<in> set single_kinds"
    and "es = before @ e # after" "we_kind e = k"
  shows "k \<notin> we_kind ` set before" "k \<notin> we_kind ` set after"
  using assms by auto

lemma prerequisites_single: "(k, p) \<in> set prerequisites \<Longrightarrow> k \<in> set single_kinds \<and> p \<in> set single_kinds"
  by (auto simp: prerequisites_def single_kinds_def)

lemma lacks_prerequisite_None:
  assumes once: "distinct (filter (\<lambda>k. k \<in> set single_kinds) (map we_kind es))" and kp: "(k, p) \<in> set prerequisites"
  shows "lacks_prerequisite (kind_index 0 es) (k, p) = None \<longleftrightarrow>
    (\<forall>before e after. es = before @ e # after \<longrightarrow> we_kind e = k \<longrightarrow> p \<in> we_kind ` set before)"
proof (cases "k \<in> we_kind ` set es")
  case False
  then have "map_of (kind_index 0 es) k = None" by (simp add: kind_index_None)
  then show ?thesis using False by (auto simp: lacks_prerequisite_def)
next
  case True
  then obtain before e after where es: "es = before @ e # after" "we_kind e = k" by (metis imageE split_list)
  note k = single_kind_unique [OF once _ es] and single = prerequisites_single [OF kp]
  have index: "map_of (kind_index 0 es) k = Some (length before)"
    using kind_index_unique [OF es, of 0] k(2) single by simp
  have only: "(\<forall>b c a. es = b @ c # a \<longrightarrow> we_kind c = k \<longrightarrow> p \<in> we_kind ` set b) \<longleftrightarrow> p \<in> we_kind ` set before"
  proof
    assume there: "p \<in> we_kind ` set before"
    show "\<forall>b c a. es = b @ c # a \<longrightarrow> we_kind c = k \<longrightarrow> p \<in> we_kind ` set b"
    proof (intro allI impI)
      fix b c a
      assume bca: "es = b @ c # a" "we_kind c = k"
      have "k \<notin> we_kind ` set b" "k \<notin> we_kind ` set a" using single_kind_unique [OF once _ bca] single by simp_all
      then have "map_of (kind_index 0 es) k = Some (length b)" using kind_index_unique [OF bca, of 0] by simp
      then have "length b = length before" using index by simp
      then show "p \<in> we_kind ` set b" using there bca(1) es(1) by (metis append_eq_append_conv)
    qed
  qed (use es in blast)
  show ?thesis
  proof (cases "p \<in> we_kind ` set before")
    case True
    then obtain b x a where before: "before = b @ x # a" "we_kind x = p" by (metis imageE split_list)
    then have pos: "es = b @ x # (a @ e # after)" using es by simp
    have "map_of (kind_index 0 es) p = Some (length b)"
      using kind_index_unique [OF pos before(2), of 0] single_kind_unique [OF once _ pos before(2)] single by simp
    then show ?thesis using only True index before(1) by (simp add: lacks_prerequisite_def)
  next
    case False
    have "\<not> (\<exists>j. map_of (kind_index 0 es) p = Some j \<and> j < length before)"
    proof
      assume "\<exists>j. map_of (kind_index 0 es) p = Some j \<and> j < length before"
      then obtain j where j: "map_of (kind_index 0 es) p = Some j" "j < length before" by blast
      then have "p \<in> we_kind ` set es" using kind_index_None [of 0 es p] by (metis option.distinct(1))
      then obtain b x a where pos: "es = b @ x # a" "we_kind x = p" by (metis imageE split_list)
      then have "j = length b"
        using kind_index_unique [OF pos, of 0] single_kind_unique [OF once _ pos] single j(1) by simp
      moreover have "es ! length b = x" using pos(1) by simp
      ultimately have "x \<in> set before" using es(1) j(2) by (metis nth_append nth_mem)
      then show False using False pos(2) by blast
    qed
    then show ?thesis using only False index by (auto simp: lacks_prerequisite_def split: option.split)
  qed
qed

lemma validate_event_sequence_ordered: "validate_event_sequence events = None \<longleftrightarrow> lifecycle_ordered events"
proof (cases "events = [] \<or> \<not> distinct (filter (\<lambda>k. k \<in> set single_kinds) (map we_kind events))")
  case True
  then show ?thesis
    by (auto simp: validate_event_sequence_def lifecycle_ordered_def duplicate_kinds_None first_raise_None)
next
  case False
  then have "first_raise (map (lacks_prerequisite (kind_index 0 events)) prerequisites) = None \<longleftrightarrow>
      (\<forall>(k, p) \<in> set prerequisites. \<forall>before e after.
          events = before @ e # after \<longrightarrow> we_kind e = k \<longrightarrow> p \<in> we_kind ` set before)"
    using lacks_prerequisite_None [of events] by (fastforce simp: first_raise_None_all)
  then show ?thesis
    using False by (auto simp: validate_event_sequence_def lifecycle_ordered_def duplicate_kinds_None first_raise_None)
qed

text \<open>An event that may be stored: its texts are bounded and hold none of the sensitive words.\<close>

definition storable_text :: "string option \<Rightarrow> bool" where
  "storable_text v \<longleftrightarrow> (\<forall>s. v = Some s \<longrightarrow> SAFE_FIELD_RE s \<and> \<not> SENSITIVE_RE s)"

definition storable :: "wal_event \<Rightarrow> bool" where
  "storable e \<longleftrightarrow> storable_text (Some (we_recorded_at e)) \<and> storable_text (we_effect_id e)
     \<and> storable_text (we_target_id e) \<and> storable_text (we_expected_object e) \<and> storable_text (we_observed_object e)
     \<and> storable_text (we_precondition_object e) \<and> storable_text (we_artifact_digest e)
     \<and> (\<forall>d. we_artifact_digest e = Some d \<longrightarrow> WAL_DIGEST_RE d)"

lemma safe_field_None: "safe_field v label digest = None \<longleftrightarrow>
    storable_text v \<and> (digest \<longrightarrow> (\<forall>s. v = Some s \<longrightarrow> WAL_DIGEST_RE s))"
  by (cases v) (simp_all add: safe_field_def storable_text_def first_raise_None)

lemma validate_event_fields_storable: "validate_event_fields e = None \<longleftrightarrow> storable e"
  by (auto simp: validate_event_fields_def storable_def first_raise_None safe_field_None)

lemma wal_check_valid: "list_all wf_event es \<Longrightarrow> wal_check m i es = None \<longleftrightarrow> wal_valid es"
  using wal_scan_valid [of es] wal_scan_raises [of es]
  by (cases "wal_scan 0 [] [] es")
     (auto simp: wal_check_def RecoveryWal_def RECOVERY_WAL_SCHEMA_VERSION_def run_checks_pass run_checks_Inl ev_require_int_def
        split: pyexc.splits option.splits)

text \<open>The events a run may append to its log, whatever the file.\<close>

definition admissible :: "wal_event list \<Rightarrow> wal_event \<Rightarrow> bool" where
  "admissible events e \<longleftrightarrow> we_sequence e = int (length events) + 1 \<and> storable e
     \<and> lifecycle_ordered (events @ [e]) \<and> wal_valid (events @ [e])"

fun admissible_log :: "wal_event list \<Rightarrow> wal_event list \<Rightarrow> bool" where
  "admissible_log before [] = True"
| "admissible_log before (e # es) = (wf_event e \<and> admissible before e \<and> admissible_log (before @ [e]) es)"

lemma admissible_log_snoc:
  "admissible_log before (es @ [e]) \<longleftrightarrow> admissible_log before es \<and> wf_event e \<and> admissible (before @ es) e"
  by (induction es arbitrary: before) auto

lemma admissible_log_wf: "admissible_log before es \<Longrightarrow> list_all wf_event es"
  by (induction es arbitrary: before) auto

lemma admissible_log_storable: "admissible_log before es \<Longrightarrow> list_all storable es"
  by (induction es arbitrary: before) (auto simp: admissible_def)

lemma admissible_log_valid:
  assumes "admissible_log [] es"
  shows "wal_valid es" "lifecycle_ordered es"
proof (atomize (full), cases es rule: rev_cases)
  case Nil
  then show "wal_valid es \<and> lifecycle_ordered es" by (simp add: wal_valid_bound lifecycle_ordered_def)
next
  case (snoc fs e)
  then show "wal_valid es \<and> lifecycle_ordered es"
    using assms by (simp add: admissible_log_snoc admissible_def)
qed

lemma admissible_log_sequence:
  "admissible_log before es \<Longrightarrow> \<forall>e \<in> set es. 1 \<le> we_sequence e \<and> we_sequence e \<le> int (length before + length es)"
  by (induction es arbitrary: before) (fastforce simp: admissible_def)+

lemma length_show_nat: "n < 10 ^ k \<Longrightarrow> 0 < k \<Longrightarrow> length (show_nat n) \<le> k"
proof (induction k arbitrary: n)
  case (Suc k)
  show ?case
  proof (cases "n < 10")
    case False
    then have "0 < k" using Suc.prems(1) by (cases k) simp_all
    moreover have "n div 10 < 10 ^ k" using Suc.prems(1) by simp
    ultimately show ?thesis using Suc.IH [of "n div 10"] False by (simp add: show_nat_big)
  qed (simp add: show_nat_small)
qed simp

text \<open>
  The state of a writer and its file.  The file is the text of the events the writer remembers, all
  of them admissible, and within the limit.
\<close>

definition wal_inv :: "run_wal \<times> string option \<Rightarrow> bool" where
  "wal_inv st \<longleftrightarrow> (case st of (w, content) \<Rightarrow>
     content = Some (wal_text (rw_identity w) (rw_events w))
     \<and> short_identity (rw_identity w) \<and> admissible_log [] (rw_events w)
     \<and> int (length (wal_text (rw_identity w) (rw_events w))) \<le> rw_max_bytes w
     \<and> bounded_size (rw_max_bytes w) = None)"

lemma wal_text_length: "length events \<le> length (wal_text i events)"
  by (induction events rule: rev_induct) (simp_all add: wal_text_simps line_of_def)

lemma wal_inv_log:
  assumes "admissible_log [] es" "short_identity i" "int (length es) \<le> 4 * 1024 * 1024"
  shows "wf_log i es"
proof -
  have "short_int (we_sequence e)" if "e \<in> set es" for e
  proof -
    have "1 \<le> we_sequence e \<and> we_sequence e \<le> int (length es)"
      using admissible_log_sequence [OF assms(1)] that by simp
    then have "nat \<bar>we_sequence e\<bar> < 10 ^ 7" using assms(3) by (simp add: nat_less_iff)
    then have "length (show_nat (nat \<bar>we_sequence e\<bar>)) \<le> 7" by (rule length_show_nat) simp
    then show ?thesis by (simp add: short_int_def)
  qed
  then show ?thesis
    using admissible_log_wf [OF assms(1)] admissible_log_storable [OF assms(1)] assms(2)
    by (simp add: wf_log_def list_all_iff validate_event_fields_storable)
qed

lemma wal_inv_read:
  assumes "wal_inv (w, content)"
  shows "read_file F (rw_max_bytes w) content = Inr (rw_identity w, rw_events w, the content)"
proof -
  have c: "content = Some (wal_text (rw_identity w) (rw_events w))"
    and log: "admissible_log [] (rw_events w)" and i: "short_identity (rw_identity w)"
    and le: "int (length (wal_text (rw_identity w) (rw_events w))) \<le> rw_max_bytes w"
    and b: "rw_max_bytes w \<le> 4 * 1024 * 1024"
    using assms by (simp_all add: wal_inv_def bounded_size_def)
  have "int (length (rw_events w)) \<le> 4 * 1024 * 1024"
    using wal_text_length [of "rw_events w" "rw_identity w"] le b by linarith
  then have "wf_log (rw_identity w) (rw_events w)" by (rule wal_inv_log [OF log i])
  then show ?thesis
    unfolding c option.sel using le admissible_log_valid [OF log] admissible_log_wf [OF log]
    by (intro read_file_text) (simp_all add: wal_check_valid validate_event_sequence_ordered)
qed

text \<open>What an append does to a state that satisfies the invariant.\<close>

definition fits :: "run_wal \<Rightarrow> wal_event \<Rightarrow> bool" where
  "fits w e \<longleftrightarrow>
     int (length (wal_text (rw_identity w) (rw_events w)) + length (line_of (event_record (rw_identity w) e))) \<le> rw_max_bytes w"

lemma append_guards:
  assumes "wal_inv (w, content)" "wf_event e"
  shows "first_raise (append_checks w e) = None \<longleftrightarrow> admissible (rw_events w) e"
proof -
  have "list_all wf_event (rw_events w @ [e])"
    using assms admissible_log_wf [of "[]" "rw_events w"] by (simp add: wal_inv_def)
  then show ?thesis
    by (simp add: append_checks_def Let_def first_raise_None admissible_def validate_event_fields_storable validate_event_sequence_ordered
        wal_check_valid)
qed

lemma append_event_cases:
  assumes "wal_inv (w, content)" "wf_event e"
  obtains (refused) err where "\<not> (admissible (rw_events w) e \<and> fits w e)" "append_event stop e (w, content) = (Inl err, w, content)"
  | (stored) "admissible (rw_events w) e" "fits w e" "stop = None"
      "append_event stop e (w, content) = (Inr e, w\<lparr>rw_events := rw_events w @ [e]\<rparr>,
         Some (wal_text (rw_identity w) (rw_events w @ [e])))"
  | (torn) k where "admissible (rw_events w) e" "fits w e" "stop = Some k"
      "append_event stop e (w, content) = (Inl (OSError ''write failed''), w,
         Some (wal_text (rw_identity w) (rw_events w) @ take k (line_of (event_record (rw_identity w) e))))"
proof -
  have c: "content = Some (wal_text (rw_identity w) (rw_events w))" using assms(1) by (simp add: wal_inv_def)
  show thesis
  proof (cases "admissible (rw_events w) e")
    case False
    then obtain err where "first_raise (append_checks w e) = Some err"
      using append_guards [OF assms] by (cases "first_raise (append_checks w e)") simp_all
    then show thesis using False refused by (simp add: append_event_def)
  next
    case adm: True
    note ok = append_guards [OF assms, THEN iffD2, OF adm]
    show thesis
    proof (cases "fits w e")
      case False
      then show thesis
        using refused by (simp add: append_event_def Let_def ok append_record_def c fits_def)
    next
      case True
      then show thesis
        using adm stored torn
        by (cases stop) (simp_all add: append_event_def Let_def ok append_record_def c fits_def wal_text_simps)
    qed
  qed
qed

lemma stored_inv:
  assumes "wal_inv (w, content)" "wf_event e" "admissible (rw_events w) e" "fits w e"
  shows "wal_inv (w\<lparr>rw_events := rw_events w @ [e]\<rparr>, Some (wal_text (rw_identity w) (rw_events w @ [e])))"
  using assms by (simp add: wal_inv_def admissible_log_snoc fits_def wal_text_simps)

end
