(* ===== verification/Durable_Wal.thy ===== *)
theory Durable_Wal
  imports Run_Wal_File "HOL-Library.Sublist"
begin

text \<open>
  The properties of the durable log, over the invariant of \<open>Run_Wal_File\<close>: the writer implements the
  abstract append-only log, reopening the file gives the writer back, and a torn write is detected,
  though not repaired by the writer that suffered it.
\<close>

section \<open>A concrete writer\<close>

lemma json_char_length: "length (json_char c) \<le> 6"
  by (simp add: json_char_def Let_def)

lemma json_str_length: "length (json_str s) \<le> 6 * length s + 2"
proof (induction s)
  case (Cons c s)
  then show ?case using json_char_length [of c] by (simp add: json_str_def)
qed (simp add: json_str_def)

lemma join_length: "length (join '','' xs) \<le> sum_list (map length xs) + length xs"
  by (induction "'',''" xs rule: join.induct) simp_all

lemma canonical_json_length:
  "length (canonical_json d) \<le> sum_list (map (\<lambda>(k, v). 6 * length k + 4 + length (json_value v)) d) + 2"
proof -
  have "length (member_text p) + 1 \<le> (case p of (k, v) \<Rightarrow> 6 * length k + 4 + length (json_value v))" for p
    using json_str_length [of "fst p"] by (cases p) (simp add: member_text_def)
  then have bound: "sum_list (map (\<lambda>p. length (member_text p) + 1) d) \<le>
      sum_list (map (\<lambda>(k, v). 6 * length k + 4 + length (json_value v)) d)"
    by (intro sum_list_mono) auto
  have "mset (map (\<lambda>p. length (member_text p) + 1) (sort_key fst d)) = mset (map (\<lambda>p. length (member_text p) + 1) d)"
    by simp
  then have "sum_list (map (\<lambda>p. length (member_text p) + 1) (sort_key fst d)) = sum_list (map (\<lambda>p. length (member_text p) + 1) d)"
    by (metis sum_mset_sum_list)
  moreover have "sum_list (map length (map member_text e)) + length e = sum_list (map (\<lambda>p. length (member_text p) + 1) e)" for e
    by (induction e) simp_all
  ultimately have "sum_list (map length (map member_text (sort_key fst d))) + length (map member_text (sort_key fst d))
      \<le> sum_list (map (\<lambda>(k, v). 6 * length k + 4 + length (json_value v)) d)"
    using bound by (metis length_map)
  then show ?thesis
    using join_length [of "map member_text (sort_key fst d)"]
    unfolding canonical_json_def json_value_dict by simp
qed

definition sample_claim :: wal_event where
  "sample_claim = \<lparr>we_sequence = 1, we_kind = RUN_CLAIMED, we_recorded_at = ''t'', we_effect_id = None,
     we_target_id = None, we_expected_object = None, we_observed_object = None, we_artifact_digest = None,
     we_precondition_object = None\<rparr>"

definition sample_writer :: run_wal where
  "sample_writer = \<lparr>rw_identity = sample_identity, rw_max_bytes = 4096, rw_events = []\<rparr>"

definition sample_file :: "string option" where
  "sample_file = Some (line_of (header_record sample_identity))"

lemma short_sample_identity [simp]: "short_identity sample_identity"
  by code_simp

lemma sample_claim_wf [simp]: "wf_event sample_claim"
  by code_simp

lemma sample_inv: "wal_inv (sample_writer, sample_file)"
proof -
  have "int (length (line_of (header_record sample_identity))) \<le> 4096" by code_simp
  then show ?thesis
    by (simp add: wal_inv_def sample_writer_def sample_file_def wal_text_simps bounded_size_def)
qed

lemma sample_admissible: "admissible [] sample_claim"
proof -
  have fields: "validate_event_fields sample_claim = None" and sequence: "validate_event_sequence [sample_claim] = None"
    and scan: "wal_scan 0 [] [] [sample_claim] = None" and one: "we_sequence sample_claim = 1"
    by code_simp+
  have "wal_valid [sample_claim]"
    by (rule wal_scan_valid [THEN iffD1, OF _ scan]) (simp add: sample_claim_wf)
  then show ?thesis
    using fields sequence one by (simp add: admissible_def validate_event_fields_storable validate_event_sequence_ordered)
qed

lemma sample_record_length: "length (line_of (event_record sample_identity sample_claim)) \<le> 2000"
proof -
  let ?d = "sha256_hex (canonical_json (unsigned_record sample_identity (event_wire sample_claim)))"
  have "length (json_str ?d) \<le> 386" using json_str_length [of ?d] by simp
  moreover have "sum_list (map (\<lambda>(k, v). 6 * length k + 4 + length (json_value v))
      (unsigned_record sample_identity (event_wire sample_claim))) \<le> 1000"
    by code_simp
  ultimately show ?thesis
    using canonical_json_length [of "event_record sample_identity sample_claim"]
    by (simp add: line_of_def event_record_def)
qed

lemma sample_fits: "fits sample_writer sample_claim"
proof -
  have "length (line_of (header_record sample_identity)) \<le> 1000" by code_simp
  then show ?thesis
    using sample_record_length by (simp add: fits_def sample_writer_def wal_text_simps)
qed

section \<open>Refinement of the abstract log\<close>

text \<open>
  The states of a writer whose writes are not interrupted: a log created with room for its header,
  after any appends of constructed events, each accepted or refused, and after it is opened again.
\<close>

inductive wal_reachable :: "(string \<Rightarrow> py) \<Rightarrow> run_wal \<times> string option \<Rightarrow> bool" for F where
  created: "DurableRunWal F ident max_bytes None None = (Inr w, content) \<Longrightarrow> short_identity ident \<Longrightarrow>
     int (length (line_of (header_record ident))) \<le> max_bytes \<Longrightarrow> wal_reachable F (w, content)"
| appended: "wal_reachable F (w, content) \<Longrightarrow> wf_event e \<Longrightarrow>
     append_event None e (w, content) = (r, w', content') \<Longrightarrow> wal_reachable F (w', content')"
| reopened: "wal_reachable F (w, content) \<Longrightarrow>
     DurableRunWal F (rw_identity w) (rw_max_bytes w) meanwhile content = (Inr w', content') \<Longrightarrow>
     wal_reachable F (w', content')"

lemma created_inv:
  assumes "DurableRunWal F ident max_bytes None None = (Inr w, content)" "short_identity ident"
    and "int (length (line_of (header_record ident))) \<le> max_bytes"
  shows "wal_inv (w, content)"
  using assms by (auto simp: DurableRunWal_def Let_def wal_inv_def wal_text_simps split: option.splits)

lemma reopen_inv:
  assumes "wal_inv (w, content)"
  shows "DurableRunWal F (rw_identity w) (rw_max_bytes w) meanwhile content = (Inr w, content)"
proof -
  have "content = Some (wal_text (rw_identity w) (rw_events w))" "bounded_size (rw_max_bytes w) = None"
    using assms by (simp_all add: wal_inv_def)
  then show ?thesis
    using wal_inv_read [OF assms, of F] by (simp add: DurableRunWal_def Let_def run_checks_pass)
qed

lemma append_inv:
  assumes "wal_inv (w, content)" "wf_event e" "append_event None e (w, content) = (r, w', content')"
  shows "wal_inv (w', content')"
  using assms stored_inv [OF assms(1,2)] by (cases rule: append_event_cases [OF assms(1,2), of None]) auto

lemma reachable_inv: "wal_reachable F st \<Longrightarrow> wal_inv st"
proof (induction rule: wal_reachable.induct)
  case (created ident max_bytes w content)
  then show ?case by (rule created_inv)
next
  case (appended w content e r w' content')
  then show ?case using append_inv by blast
next
  case (reopened w content meanwhile w' content')
  then show ?case using reopen_inv [OF reopened.IH] by simp
qed

lemma append_refines_log:
  assumes "wal_inv (w, content)" "wf_event e"
  shows "\<exists>r w' content'. append_event None e (w, content) = (r, w', content') \<and> wal_inv (w', content')
    \<and> (r = Inr e \<longleftrightarrow> admissible (rw_events w) e \<and> fits w e)
    \<and> rw_events w' = (if r = Inr e then rw_events w @ [e] else rw_events w)
    \<and> (returns r \<longrightarrow> r = Inr e) \<and> (\<not> returns r \<longrightarrow> w' = w \<and> content' = content)
    \<and> read_file F (rw_max_bytes w) content' = Inr (rw_identity w, rw_events w', the content')"
proof (cases rule: append_event_cases [OF assms, of None])
  case (1 err)
  then show ?thesis using assms(1) wal_inv_read [OF assms(1)] by auto
next
  case 2
  have inv: "wal_inv (w\<lparr>rw_events := rw_events w @ [e]\<rparr>, Some (wal_text (rw_identity w) (rw_events w @ [e])))"
    by (rule stored_inv [OF assms 2(1,2)])
  then show ?thesis using 2 wal_inv_read [OF inv, of F] by simp
next
  case (3 k)
  then show ?thesis by simp
qed

text \<open>
  C18: the writer implements the abstract log.  In every state reached without an interrupted write
  the file reads back as the log, and an append of a constructed event that is not interrupted is
  accepted exactly when the event is admissible after the events recorded so far and its record fits
  into the file; then the log grows by that event, and otherwise nothing changes; and again a reader
  of the file gets exactly the events of the log.
\<close>

theorem durable_wal_refines_log:
  assumes "wal_reachable F (w, content)" "wf_event e"
  shows "read_file F (rw_max_bytes w) content = Inr (rw_identity w, rw_events w, the content)
    \<and> (\<exists>r w' content'. append_event None e (w, content) = (r, w', content') \<and> wal_reachable F (w', content')
    \<and> (r = Inr e \<longleftrightarrow> admissible (rw_events w) e \<and> fits w e)
    \<and> rw_events w' = (if r = Inr e then rw_events w @ [e] else rw_events w)
    \<and> (returns r \<longrightarrow> r = Inr e) \<and> (\<not> returns r \<longrightarrow> w' = w \<and> content' = content)
    \<and> read_file F (rw_max_bytes w) content' = Inr (rw_identity w, rw_events w', the content'))"
proof -
  note inv = reachable_inv [OF assms(1)]
  show ?thesis
    using append_refines_log [OF inv assms(2), of F] wal_inv_read [OF inv, of F]
      wal_reachable.appended [OF assms] by blast
qed

theorem durable_wal_refines_log_witness:
  "\<exists>w' content'. append_event None sample_claim (sample_writer, sample_file) = (Inr sample_claim, w', content')
     \<and> read_file (\<lambda>_. PyNone) 4096 content' = Inr (sample_identity, [sample_claim], the content')"
proof -
  have fields: "rw_events sample_writer = []" "rw_identity sample_writer = sample_identity" "rw_max_bytes sample_writer = 4096"
    by (simp_all add: sample_writer_def)
  have "DurableRunWal (\<lambda>_. PyNone) sample_identity 4096 None None = (Inr sample_writer, sample_file)"
    by (simp add: DurableRunWal_def bounded_size_def Let_def sample_writer_def sample_file_def)
  moreover have "int (length (line_of (header_record sample_identity))) \<le> 4096" by code_simp
  ultimately have "wal_reachable (\<lambda>_. PyNone) (sample_writer, sample_file)"
    by (intro wal_reachable.created [where ident = sample_identity and max_bytes = 4096]) simp_all
  from durable_wal_refines_log [OF this sample_claim_wf] show ?thesis
    using fields sample_admissible sample_fits by auto
qed

section \<open>Reopening\<close>

text \<open>Appending a list of events one after the other, whatever each of them returns.\<close>

fun append_all :: "wal_event list \<Rightarrow> run_wal \<times> string option \<Rightarrow> run_wal \<times> string option" where
  "append_all [] st = st"
| "append_all (e # es) st = append_all es (snd (append_event None e st))"

lemma append_all_inv:
  "wal_inv st \<Longrightarrow> list_all wf_event es \<Longrightarrow>
     wal_inv (append_all es st) \<and> rw_identity (fst (append_all es st)) = rw_identity (fst st)
     \<and> rw_max_bytes (fst (append_all es st)) = rw_max_bytes (fst st)
     \<and> (\<exists>more. rw_events (fst (append_all es st)) = rw_events (fst st) @ more \<and> subseq more es)"
proof (induction es arbitrary: st)
  case (Cons e es)
  obtain w content where st: "st = (w, content)" by force
  have inv: "wal_inv (w, content)" and e: "wf_event e" using Cons.prems by (simp_all add: st)
  have "wal_inv (snd (append_event None e st)) \<and> rw_identity (fst (snd (append_event None e st))) = rw_identity w
      \<and> rw_max_bytes (fst (snd (append_event None e st))) = rw_max_bytes w
      \<and> rw_events (fst (snd (append_event None e st))) \<in> {rw_events w, rw_events w @ [e]}"
    using inv stored_inv [OF inv e] by (cases rule: append_event_cases [OF inv e, of None]) (simp_all add: st)
  then show ?case using Cons.IH [of "snd (append_event None e st)"] Cons.prems(2) by (auto simp: st)
qed (cases st; simp)

text \<open>
  C27: the file is the writer.  A log that is created, and to which any constructed events are
  appended, each accepted or refused, is opened again as the very same writer, from a file that
  never exceeds its limit, and its events are those accepted, in order.
\<close>

theorem durable_wal_reopens:
  assumes "DurableRunWal F ident max_bytes None None = (Inr w0, content0)" "short_identity ident"
    and "int (length (line_of (header_record ident))) \<le> max_bytes" "list_all wf_event es"
    and "append_all es (w0, content0) = (w, content)"
  shows "DurableRunWal F ident max_bytes meanwhile content = (Inr w, content)
    \<and> (\<exists>file. content = Some file \<and> int (length file) \<le> max_bytes)
    \<and> admissible_log [] (rw_events w) \<and> subseq (rw_events w) es"
proof -
  have bound: "bounded_size max_bytes = None"
    and w0: "w0 = \<lparr>rw_identity = ident, rw_max_bytes = max_bytes, rw_events = []\<rparr>"
      "content0 = Some (wal_text ident [])"
    using assms(1) by (auto simp: DurableRunWal_def Let_def wal_text_simps split: option.splits)
  have "wal_inv (w0, content0)"
    using assms(2,3) bound by (simp add: wal_inv_def w0 wal_text_simps)
  then have w: "wal_inv (w, content)" "rw_identity w = ident" "rw_max_bytes w = max_bytes" "subseq (rw_events w) es"
    using append_all_inv [of "(w0, content0)" es] assms(4,5) by (auto simp: w0)
  then have content: "content = Some (wal_text ident (rw_events w))"
      "int (length (wal_text ident (rw_events w))) \<le> max_bytes" "admissible_log [] (rw_events w)"
    by (simp_all add: wal_inv_def)
  have "read_file F max_bytes content = Inr (ident, rw_events w, the content)"
    using wal_inv_read [OF w(1), of F] w(2,3) by simp
  then have "DurableRunWal F ident max_bytes meanwhile content = (Inr w, content)"
    using bound w(2,3) content(1) by (simp add: DurableRunWal_def Let_def run_checks_pass)
  then show ?thesis using content w(4) by simp
qed

theorem durable_wal_reopens_witness:
  "\<exists>w content. append_all [sample_claim, sample_claim] (sample_writer, sample_file) = (w, content)
     \<and> DurableRunWal (\<lambda>_. PyNone) sample_identity 4096 None content = (Inr w, content)"
proof -
  obtain w content where run: "append_all [sample_claim, sample_claim] (sample_writer, sample_file) = (w, content)"
    by force
  have "DurableRunWal (\<lambda>_. PyNone) sample_identity 4096 None None = (Inr sample_writer, sample_file)"
    by (simp add: DurableRunWal_def bounded_size_def Let_def sample_writer_def sample_file_def)
  moreover have "int (length (line_of (header_record sample_identity))) \<le> 4096" by code_simp
  ultimately show ?thesis
    using durable_wal_reopens [OF _ short_sample_identity _ _ run] run by simp
qed

section \<open>Interrupted writes\<close>

lemma wal_inv_wf_log:
  assumes "wal_inv (w, content)"
  shows "wf_log (rw_identity w) (rw_events w)"
proof -
  have le: "int (length (wal_text (rw_identity w) (rw_events w))) \<le> rw_max_bytes w" and b: "rw_max_bytes w \<le> 4 * 1024 * 1024"
    using assms by (simp_all add: wal_inv_def bounded_size_def)
  have "int (length (rw_events w)) \<le> 4 * 1024 * 1024"
    using wal_text_length [of "rw_events w" "rw_identity w"] le b by linarith
  then show ?thesis using assms wal_inv_log by (simp add: wal_inv_def)
qed

lemma stored_record:
  assumes "wal_inv (w, content)" "wf_event e" "admissible (rw_events w) e" "fits w e"
  shows "printable_ascii (event_line (rw_identity w) e)"
  using wal_inv_wf_log [OF stored_inv [OF assms]] by (simp add: wf_log_def event_printable)

lemma wal_text_append:
  "wal_text i events @ l @ [CHR 0x0A] = concat (map (\<lambda>l. l @ [CHR 0x0A]) (header_line i # map (event_line i) events @ [l]))"
  by (simp add: wal_text_def)

text \<open>A file that ends inside a record is not read.\<close>

lemma read_partial:
  assumes "printable_ascii l" "0 < k" "k \<le> length l"
  shows "read_file F m (Some (t @ take k (l @ [CHR 0x0A])))
    = Inl (DurableWalError ''WAL is empty, oversized, or has a partial final record'')"
proof -
  have "take k l \<noteq> []" "set (take k l) \<subseteq> set l" using assms(2,3) by (auto simp: set_take_subset)
  then have "last (take k l) \<in> set l" by (meson last_in_set subsetD)
  then have "last (t @ take k l) \<noteq> CHR 0x0A"
    using printable_no_break [OF assms(1)] \<open>take k l \<noteq> []\<close> by (metis last_appendR)
  then show ?thesis using assms(3) by (simp add: read_file_def)
qed

text \<open>
  C25: the file holds the log of the writer, and a write is stopped after k bytes.  The append raises and the writer remembers
  nothing of the event; a reader of the file gets the log as before where nothing was written or the
  append was refused, the log with the event where all bytes of the record were written, and refuses
  the file in every other case.
\<close>

theorem wal_torn_write_detected:
  assumes "wal_inv (w, content)" "wf_event e" "append_event (Some k) e (w, content) = (r, w', content')"
  shows "w' = w \<and> \<not> returns r \<and> read_file F (rw_max_bytes w) content' =
    (if k = 0 \<or> \<not> (admissible (rw_events w) e \<and> fits w e) then Inr (rw_identity w, rw_events w, the content)
     else if k < length (line_of (event_record (rw_identity w) e))
     then Inl (DurableWalError ''WAL is empty, oversized, or has a partial final record'')
     else Inr (rw_identity w, rw_events w @ [e], the content'))"
proof (cases rule: append_event_cases [OF assms(1,2), of "Some k"])
  case (1 err)
  then show ?thesis using assms(3) wal_inv_read [OF assms(1), of F] by simp
next
  case (3 n)
  have inv: "wal_inv (w\<lparr>rw_events := rw_events w @ [e]\<rparr>, Some (wal_text (rw_identity w) (rw_events w @ [e])))"
    by (rule stored_inv [OF assms(1,2) 3(1,2)])
  have c: "content = Some (wal_text (rw_identity w) (rw_events w))" using assms(1) by (simp add: wal_inv_def)
  have c': "w' = w" "r = Inl (OSError ''write failed'')"
      "content' = Some (wal_text (rw_identity w) (rw_events w) @ take k (event_line (rw_identity w) e @ [CHR 0x0A]))"
    using 3 assms(3) by (auto simp: line_of_records)
  consider "k = 0" | "0 < k" "k \<le> length (event_line (rw_identity w) e)" | "length (event_line (rw_identity w) e) < k"
    by linarith
  then show ?thesis
  proof cases
    case 1
    then show ?thesis using c c' wal_inv_read [OF assms(1), of F] by simp
  next
    case 2
    then show ?thesis
      using c'(1,2) 3(1,2) read_partial [OF stored_record [OF assms(1,2) 3(1,2)] 2]
      by (simp add: c'(3) line_of_records)
  next
    case k: 3
    then show ?thesis
      using c' 3(1,2) wal_inv_read [OF inv, of F] by (simp add: wal_text_simps line_of_records)
  qed
qed (simp)

theorem wal_torn_write_detected_witness:
  "\<exists>content'. append_event (Some 1) sample_claim (sample_writer, sample_file) = (Inl (OSError ''write failed''), sample_writer, content')
     \<and> read_file (\<lambda>_. PyNone) 4096 content' = Inl (DurableWalError ''WAL is empty, oversized, or has a partial final record'')"
proof -
  obtain r w' content' where run: "append_event (Some 1) sample_claim (sample_writer, sample_file) = (r, w', content')"
    by (cases "append_event (Some 1) sample_claim (sample_writer, sample_file)")
  have nil: "rw_events sample_writer = []" and max: "rw_max_bytes sample_writer = 4096" by (simp_all add: sample_writer_def)
  have "r = Inl (OSError ''write failed'')"
    using run sample_admissible sample_fits
    by (cases rule: append_event_cases [OF sample_inv sample_claim_wf, of "Some 1"]) (simp_all add: nil)
  moreover have "1 < length (line_of (event_record (rw_identity sample_writer) sample_claim))"
    by (simp add: line_of_def event_record_def canonical_json_def)
  ultimately show ?thesis
    using run wal_torn_write_detected [OF sample_inv sample_claim_wf run, of "\<lambda>_. PyNone"] sample_admissible sample_fits
    by (simp add: nil max)
qed

text \<open>The line that a record following one stray byte forms.\<close>

lemma load_doubled_brace:
  assumes "printable_ascii (CHR ''{'' # s)"
  shows "load_line F m (CHR ''{'' # CHR ''{'' # s) = Inl (DurableWalError m)"
proof -
  have "utf8_decode (CHR ''{'' # CHR ''{'' # s) = Some (CHR ''{'' # CHR ''{'' # s)"
    using assms by (intro utf8_decode_ascii) (simp add: printable_ascii_def)
  moreover have "json_loads F (CHR ''{'' # CHR ''{'' # s) = Inl DecodeError"
    by (simp add: json_loads_def json_loads_with_def json_space_def Let_def)
  ultimately show ?thesis by (simp add: load_line_def)
qed

lemma event_line_brace: "\<exists>s. event_line i e = CHR ''{'' # s"
  by (simp add: event_line_def canonical_json_def)

lemma res_map_last_Inl: "\<forall>x \<in> set xs. returns (f x) \<Longrightarrow> f y = Inl err \<Longrightarrow> res_map f (xs @ [y]) = Inl err"
  by (induction xs) (auto simp: returns_iff)

text \<open>
  C39: the writer does not recover from a write that was stopped after one byte.  Whichever event the
  same writer appends next, if it is admissible and the file has room for its record, that append
  returns and the writer remembers the event, but the file can no longer be read: the stray byte and
  the record form one line that is not JSON.
\<close>

theorem append_after_torn_write_unreadable:
  assumes "wal_inv (w, content)" "wf_event e" "admissible (rw_events w) e" "fits w e"
    and "append_event (Some 1) e (w, content) = (r, w', content')"
    and "wf_event e'" "admissible (rw_events w) e'"
    and "int (length (the content') + length (line_of (event_record (rw_identity w) e'))) \<le> rw_max_bytes w"
  shows "\<exists>content''. append_event None e' (w', content') = (Inr e', w\<lparr>rw_events := rw_events w @ [e']\<rparr>, content'')
    \<and> read_file F (rw_max_bytes w) content'' = Inl (DurableWalError ''WAL event is not valid JSON'')"
proof -
  let ?i = "rw_identity w" and ?l = "event_line (rw_identity w) e'"
  obtain s where brace: "?l = CHR ''{'' # s" using event_line_brace by blast
  obtain s' where torn_brace: "event_line ?i e = CHR ''{'' # s'" using event_line_brace by blast
  have torn: "w' = w" "content' = Some (wal_text ?i (rw_events w) @ ''{'')"
    using assms(3,4,5)
    by (cases rule: append_event_cases [OF assms(1,2), of "Some 1"]; simp add: line_of_records torn_brace)+
  have room: "fits w e'" using assms(8) by (simp add: fits_def torn)
  let ?text = "wal_text ?i (rw_events w) @ (CHR ''{'' # ?l) @ [CHR 0x0A]"
  have second: "append_event None e' (w', content') = (Inr e', w\<lparr>rw_events := rw_events w @ [e']\<rparr>, Some ?text)"
    using append_guards [OF assms(1,6)] assms(7,8)
    by (simp add: append_event_def append_record_def torn line_of_records Let_def)
  have log: "wf_log ?i (rw_events w)" by (rule wal_inv_wf_log [OF assms(1)])
  have p: "printable_ascii (CHR ''{'' # s)" using stored_record [OF assms(1,6,7) room] by (simp add: brace)
  have "bytes_lines [] ?text = header_line ?i # map (event_line ?i) (rw_events w) @ [CHR ''{'' # ?l]"
    unfolding wal_text_append using wf_log_lines [OF log] p
    by (intro bytes_lines_all) (auto simp: brace printable_ascii_def)
  moreover have "res_map (read_record F ?i) (map (event_line ?i) (rw_events w) @ [CHR ''{'' # ?l])
      = Inl (DurableWalError ''WAL event is not valid JSON'')"
  proof (rule res_map_last_Inl)
    show "\<forall>l \<in> set (map (event_line ?i) (rw_events w)). returns (read_record F ?i l)"
      using log by (auto simp: wf_log_def read_record_line)
    show "read_record F ?i (CHR ''{'' # ?l) = Inl (DurableWalError ''WAL event is not valid JSON'')"
      unfolding brace by (simp add: read_record_def load_doubled_brace [OF p])
  qed
  moreover have "int (length ?text) \<le> rw_max_bytes w" using assms(8) by (simp add: torn line_of_records)
  ultimately have "read_file F (rw_max_bytes w) (Some ?text) = Inl (DurableWalError ''WAL event is not valid JSON'')"
    using log by (simp add: read_file_def Let_def read_header_line wf_log_def del: append_assoc)
  then show ?thesis using second by blast
qed

theorem append_after_torn_write_unreadable_witness:
  "\<exists>r w' content' content''. append_event (Some 1) sample_claim (sample_writer, sample_file) = (r, w', content')
     \<and> append_event None sample_claim (w', content') = (Inr sample_claim, sample_writer\<lparr>rw_events := [sample_claim]\<rparr>, content'')
     \<and> read_file (\<lambda>_. PyNone) 4096 content'' = Inl (DurableWalError ''WAL event is not valid JSON'')"
proof -
  obtain r w' content' where run: "append_event (Some 1) sample_claim (sample_writer, sample_file) = (r, w', content')"
    by (cases "append_event (Some 1) sample_claim (sample_writer, sample_file)")
  have nil: "rw_events sample_writer = []" and max: "rw_max_bytes sample_writer = 4096"
    and i: "rw_identity sample_writer = sample_identity" by (simp_all add: sample_writer_def)
  have adm: "admissible (rw_events sample_writer) sample_claim" using sample_admissible by (simp add: nil)
  have "content' = Some (line_of (header_record sample_identity) @ take 1 (line_of (event_record sample_identity sample_claim)))"
    using run adm sample_fits
    by (cases rule: append_event_cases [OF sample_inv sample_claim_wf, of "Some 1"]) (simp_all add: nil i wal_text_simps)
  moreover have "length (line_of (header_record sample_identity)) \<le> 1000" by code_simp
  ultimately have "int (length (the content') + length (line_of (event_record (rw_identity sample_writer) sample_claim)))
      \<le> rw_max_bytes sample_writer"
    using sample_record_length by (simp add: max i)
  then show ?thesis
    using run append_after_torn_write_unreadable [OF sample_inv sample_claim_wf adm sample_fits run sample_claim_wf adm,
        of "\<lambda>_. PyNone"]
    by (simp add: nil max)
qed

end
