(* ===== verification/Redaction.thy ===== *)
theory Redaction
  imports Py_Values
begin

text \<open>
  The redaction of diagnostics, written twice in the source: \<open>_safe_text\<close> of
  \<open>worker/recovery_journal.py\<close> and \<open>safe_execution_error\<close> of \<open>worker/pending_report.py\<close>.  Both apply
  the same four regular expressions in order, then collapse white space and cut the text.

  A pattern is a function from the character before a position and the text at the position to the
  replacement and the number of characters it consumes, if the pattern matches there.  The functions
  follow the backtracking of the matcher where it can matter.
\<close>

section \<open>Substitution\<close>

type_synonym pattern = "char option \<Rightarrow> string \<Rightarrow> (string \<times> nat) option"

text \<open>\<open>pattern.sub\<close>: matches from the left that do not overlap; the last argument counts consumed characters.\<close>

fun sub_from :: "pattern \<Rightarrow> char option \<Rightarrow> string \<Rightarrow> nat \<Rightarrow> string" where
  "sub_from m prev [] k = []"
| "sub_from m prev (c # s) (Suc k) = sub_from m (Some c) s k"
| "sub_from m prev (c # s) 0 =
     (case m prev (c # s) of
        None \<Rightarrow> c # sub_from m (Some c) s 0
      | Some (r, n) \<Rightarrow> r @ sub_from m (Some c) s (n - 1))"

definition regex_sub :: "pattern \<Rightarrow> string \<Rightarrow> string" where
  "regex_sub m s = sub_from m None s 0"

section \<open>The patterns\<close>

text \<open>A literal of \<open>(?i)\<close> at the head of the text, and what follows it.\<close>

fun literal_ci :: "string \<Rightarrow> string \<Rightarrow> string option" where
  "literal_ci [] s = Some s"
| "literal_ci (w # ws) [] = None"
| "literal_ci (w # ws) (c # s) = (if ascii_lower c = w then literal_ci ws s else None)"

definition skip_space :: "string \<Rightarrow> string" where
  "skip_space = dropWhile is_space"

text \<open>The white space, one of the separators, white space: what \<open>\s*[=:]\s*\<close> leaves.\<close>

definition after_separator :: "string \<Rightarrow> string \<Rightarrow> string option" where
  "after_separator seps s =
     (case skip_space s of c # r \<Rightarrow> if c \<in> set seps then Some (skip_space r) else None | [] \<Rightarrow> None)"

text \<open>The group is kept, and the run after it, up to \<open>rest\<close>, becomes \<open>[REDACTED]\<close>.\<close>

definition keep_group :: "string \<Rightarrow> string \<Rightarrow> string \<Rightarrow> string \<times> nat" where
  "keep_group s value rest = (take (length s - length value) s @ ''[REDACTED]'', length s - length rest)"

definition visible_run :: "string \<Rightarrow> string \<Rightarrow> (string \<times> nat) option" where
  "visible_run s value =
     (if value = [] then None else Some (keep_group s value (dropWhile (\<lambda>c. \<not> is_space c) value)))"

text \<open>
  \<open>(authorization\s*:\s*(?:bearer\s+)?)[^\s]+\<close>.  The optional word is part of the group only when
  visible text follows it; otherwise the word itself is the redacted run.
\<close>

definition authorization_pattern :: pattern where
  "authorization_pattern prev s =
     (case Option.bind (literal_ci ''authorization'' s) (after_separator '':'') of
        None \<Rightarrow> None
      | Some value \<Rightarrow>
          (case literal_ci ''bearer'' value of
             Some (c # r) \<Rightarrow>
               if is_space c \<and> skip_space r \<noteq> [] then visible_run s (skip_space r) else visible_run s value
           | _ \<Rightarrow> visible_run s value))"

text \<open>
  \<open>(cookie\s*:\s*)[^\r\n]+\<close>.  Where nothing visible follows, the white space gives back characters
  until the run has one that is not a line end, from the right.
\<close>

definition line_end :: "char \<Rightarrow> bool" where
  "line_end c \<longleftrightarrow> c = CHR 0x0D \<or> c = CHR 0x0A"

definition cookie_pattern :: pattern where
  "cookie_pattern prev s =
     (case Option.bind (literal_ci ''cookie'' s)
         (\<lambda>r. case skip_space r of c # t \<Rightarrow> if c = CHR '':'' then Some t else None | [] \<Rightarrow> None) of
        None \<Rightarrow> None
      | Some t \<Rightarrow>
          (let value = skip_space t in
           if value \<noteq> [] then Some (keep_group s value (dropWhile (\<lambda>c. \<not> line_end c) value))
           else (let ends = takeWhile line_end (rev t); kept = length t - length ends in
             if kept = 0 then None else Some (keep_group s (drop (kept - 1) t) (drop kept t)))))"

text \<open>\<open>((?:api[_-]?key|token|password|secret)\s*[=:]\s*)[^\s]+\<close>\<close>

definition secret_word :: "string \<Rightarrow> string option" where
  "secret_word s =
     (case literal_ci ''api'' s of
        Some r \<Rightarrow> (case r of
            c # r' \<Rightarrow> literal_ci ''key'' (if c = CHR ''_'' \<or> c = CHR ''-'' then r' else r)
          | [] \<Rightarrow> None)
      | None \<Rightarrow>
     (case literal_ci ''token'' s of
        Some r \<Rightarrow> Some r
      | None \<Rightarrow>
     (case literal_ci ''password'' s of
        Some r \<Rightarrow> Some r
      | None \<Rightarrow> literal_ci ''secret'' s)))"

definition secret_pattern :: pattern where
  "secret_pattern prev s =
     (case Option.bind (secret_word s) (after_separator ''=:'') of
        None \<Rightarrow> None
      | Some value \<Rightarrow> visible_run s value)"

text \<open>
  \<open>\b(?:sk-(?:proj-)?|ghp_|github_pat_|xox[baprs]-)[-A-Za-z0-9_]{8,}\b\<close>.  The run is as long as it can be
  while it ends at a word boundary and has eight characters.
\<close>

definition token_char :: "char \<Rightarrow> bool" where
  "token_char c \<longleftrightarrow> is_alnum_ascii c \<or> c = CHR ''-'' \<or> c = CHR ''_''"

definition word_boundary :: "char option \<Rightarrow> string \<Rightarrow> bool" where
  "word_boundary prev s \<longleftrightarrow>
     ((case prev of Some c \<Rightarrow> is_word c | None \<Rightarrow> False) \<noteq> (case s of c # _ \<Rightarrow> is_word c | [] \<Rightarrow> False))"

definition run_end :: "string \<Rightarrow> nat option" where
  "run_end s = find (\<lambda>n. word_boundary (Some (s ! (n - 1))) (drop n s))
     (rev [8..<Suc (length (takeWhile token_char s))])"

definition token_heads :: "string list" where
  "token_heads = [''sk-proj-'', ''sk-'', ''ghp_'', ''github_pat_'', ''xoxb-'', ''xoxa-'', ''xoxp-'', ''xoxr-'', ''xoxs-'']"

fun first_run :: "string list \<Rightarrow> string \<Rightarrow> nat option" where
  "first_run [] s = None"
| "first_run (w # ws) s =
     (if has_prefix w s
      then (case run_end (drop (length w) s) of Some n \<Rightarrow> Some (length w + n) | None \<Rightarrow> first_run ws s)
      else first_run ws s)"

definition token_pattern :: pattern where
  "token_pattern prev s =
     (if word_boundary prev s then map_option (\<lambda>n. (''[REDACTED_TOKEN]'', n)) (first_run token_heads s) else None)"

section \<open>The two functions\<close>

definition redact :: "string \<Rightarrow> string" where
  "redact s = regex_sub token_pattern (regex_sub secret_pattern (regex_sub cookie_pattern
     (regex_sub authorization_pattern s)))"

text \<open>\<open>re.sub(r"\s+", " ", text)\<close>\<close>

fun squeeze :: "bool \<Rightarrow> string \<Rightarrow> string" where
  "squeeze b [] = []"
| "squeeze b (c # s) =
     (if is_space c then (if b then squeeze True s else CHR '' '' # squeeze True s) else c # squeeze False s)"

definition drop_nul :: "string \<Rightarrow> string" where
  "drop_nul = map (\<lambda>c. if c = CHR 0x00 then CHR '' '' else c)"

definition diagnostic :: "string \<Rightarrow> string" where
  "diagnostic s = strip (squeeze False (redact (drop_nul s)))"

definition safe_text :: "nat \<Rightarrow> py \<Rightarrow> string" where
  "safe_text limit v = take limit (diagnostic (py_str v))"

definition safe_execution_error :: "py \<Rightarrow> pyexc + string option" where
  "safe_execution_error v =
     (if v = PyNone then Inr None
      else if \<not> is_str v then Inl (PendingReportError ''last_execution_error must be a string or null'')
      else (let t = take 1000 (diagnostic (the_str v)) in Inr (if t = [] then None else Some t)))"

section \<open>Where a token stands\<close>

text \<open>The text starts with a credential: a known head, eight characters or more, and a word boundary.\<close>

definition token_here :: "char option \<Rightarrow> string \<Rightarrow> bool" where
  "token_here prev s \<longleftrightarrow> word_boundary prev s \<and> (\<exists>w \<in> set token_heads. \<exists>u v. s = w @ u @ v
     \<and> 8 \<le> length u \<and> list_all token_char u \<and> word_boundary (Some (last u)) v)"

definition before :: "char option \<Rightarrow> string \<Rightarrow> char option" where
  "before q a = (if a = [] then q else Some (last a))"

definition token_free :: "char option \<Rightarrow> string \<Rightarrow> bool" where
  "token_free q s \<longleftrightarrow> (\<forall>a b. s = a @ b \<longrightarrow> \<not> token_here (before q a) b)"

lemma has_prefix_split: "has_prefix w s \<longleftrightarrow> (\<exists>r. s = w @ r)"
  by (metis append_take_drop_id has_prefix_append has_prefix_def)

lemma find_ex: "(\<exists>x. find P xs = Some x) \<longleftrightarrow> (\<exists>x \<in> set xs. P x)"
  by (induction xs) auto

lemma find_holds: "find P xs = Some x \<Longrightarrow> x \<in> set xs \<and> P x"
  by (induction xs) (auto split: if_splits)

lemma candidate_ends: "set (rev [8..<Suc n]) = {8..n}"
  by (simp only: set_rev set_upt) auto

lemma takeWhile_run:
  "n \<le> length (takeWhile P s) \<longleftrightarrow> n \<le> length s \<and> list_all P (take n s)"
proof (induction s arbitrary: n)
  case (Cons c s)
  then show ?case by (cases n) auto
qed simp

lemma run_end_bounds:
  assumes "run_end s = Some n"
  shows "8 \<le> n \<and> n \<le> length s \<and> list_all token_char (take n s) \<and> word_boundary (Some (s ! (n - 1))) (drop n s)"
proof -
  have "n \<in> {8..length (takeWhile token_char s)}" "word_boundary (Some (s ! (n - 1))) (drop n s)"
    using find_holds [OF assms [unfolded run_end_def]] unfolding candidate_ends by blast+
  then show ?thesis by (simp add: takeWhile_run)
qed

lemma run_end_ex:
  "run_end s \<noteq> None \<longleftrightarrow> (\<exists>u v. s = u @ v \<and> 8 \<le> length u \<and> list_all token_char u \<and> word_boundary (Some (last u)) v)"
proof
  assume "run_end s \<noteq> None"
  then obtain n where n: "run_end s = Some n" by blast
  note b = run_end_bounds [OF n]
  have "take n s \<noteq> []" using b by auto
  then have "last (take n s) = s ! (n - 1)" using b by (simp add: last_conv_nth)
  then show "\<exists>u v. s = u @ v \<and> 8 \<le> length u \<and> list_all token_char u \<and> word_boundary (Some (last u)) v"
    by (intro exI [of _ "take n s"] exI [of _ "drop n s"]) (use b in simp)
next
  assume "\<exists>u v. s = u @ v \<and> 8 \<le> length u \<and> list_all token_char u \<and> word_boundary (Some (last u)) v"
  then obtain u v where s: "s = u @ v" "8 \<le> length u" "list_all token_char u" "word_boundary (Some (last u)) v" by blast
  have "u \<noteq> []" using s(2) by auto
  then have "s ! (length u - 1) = last u" using s(1) by (simp add: last_conv_nth nth_append)
  moreover have "length u \<in> {8..length (takeWhile token_char s)}" using s(1-3) by (simp add: takeWhile_run)
  ultimately have "\<exists>n. run_end s = Some n"
    unfolding run_end_def find_ex candidate_ends using s(1,4) by (intro bexI [of _ "length u"]) simp_all
  then show "run_end s \<noteq> None" by simp
qed

lemma first_run_ex:
  "first_run ws s \<noteq> None \<longleftrightarrow> (\<exists>w \<in> set ws. has_prefix w s \<and> run_end (drop (length w) s) \<noteq> None)"
  by (induction ws s rule: first_run.induct) (auto split: option.split)

lemma head_and_run:
  "has_prefix w s \<and> run_end (drop (length w) s) \<noteq> None \<longleftrightarrow>
     (\<exists>u v. s = w @ u @ v \<and> 8 \<le> length u \<and> list_all token_char u \<and> word_boundary (Some (last u)) v)"
proof (cases "has_prefix w s")
  case True
  then obtain r where "s = w @ r" by (auto simp: has_prefix_split)
  then show ?thesis using run_end_ex [of r] by simp
qed (auto simp: has_prefix_split)

lemma token_pattern_iff: "token_pattern prev s \<noteq> None \<longleftrightarrow> token_here prev s"
proof -
  have "(\<exists>n. first_run token_heads s = Some n) \<longleftrightarrow> (\<exists>w \<in> set token_heads. \<exists>u v. s = w @ u @ v
     \<and> 8 \<le> length u \<and> list_all token_char u \<and> word_boundary (Some (last u)) v)"
    using first_run_ex [of token_heads s] unfolding head_and_run by simp
  then show ?thesis by (simp add: token_pattern_def token_here_def)
qed

lemma token_pattern_result:
  assumes "token_pattern prev s = Some (r, n)"
  shows "r = ''[REDACTED_TOKEN]'' \<and> 0 < n \<and> n \<le> length s \<and> word_boundary (Some (s ! (n - 1))) (drop n s)"
proof -
  have "0 < n \<and> n \<le> length s \<and> word_boundary (Some (s ! (n - 1))) (drop n s)" if "first_run ws s = Some n" for ws
    using that
  proof (induction ws s rule: first_run.induct)
    case (2 w ws s)
    show ?case
    proof (cases "has_prefix w s \<and> (\<exists>k. run_end (drop (length w) s) = Some k)")
      case True
      then obtain k where k: "run_end (drop (length w) s) = Some k" "n = length w + k" using 2 by auto
      note b = run_end_bounds [OF k(1)]
      have "8 \<le> k" "k \<le> length s - length w" using b by simp_all
      then have len: "length w \<le> length s" "length w + (k - 1) = n - 1" "n \<le> length s" "0 < n" using k(2) by arith+
      then have "drop (length w) s ! (k - 1) = s ! (n - 1)" by (simp only: nth_drop)
      moreover have "drop k (drop (length w) s) = drop n s" by (simp add: k(2) add.commute)
      ultimately show ?thesis using b k(2) len by (simp only: simp_thms)
    next
      case False
      then have "first_run ws s = Some n" using 2(3) by (auto split: option.splits if_splits)
      then show ?thesis using 2(1,2) False by (cases "has_prefix w s") auto
    qed
  qed simp
  then show ?thesis using assms by (auto simp: token_pattern_def split: if_splits)
qed

section \<open>No token is left\<close>

lemma before_simps [simp]: "before q [] = q" "before q (c # a) = before (Some c) a"
  by (simp_all add: before_def)

lemma token_free_Nil [simp]: "token_free q []"
  by (auto simp: token_free_def token_here_def token_heads_def)

lemma token_free_Cons: "token_free q (c # s) \<longleftrightarrow> \<not> token_here q (c # s) \<and> token_free (Some c) s"
proof
  assume "token_free q (c # s)"
  then show "\<not> token_here q (c # s) \<and> token_free (Some c) s"
    unfolding token_free_def by (metis append_Cons append_Nil before_simps)
next
  assume free: "\<not> token_here q (c # s) \<and> token_free (Some c) s"
  show "token_free q (c # s)"
    unfolding token_free_def
  proof (intro allI impI)
    fix a b
    assume "c # s = a @ b"
    then show "\<not> token_here (before q a) b" using free by (cases a) (auto simp: token_free_def)
  qed
qed

definition starts_token :: "char \<Rightarrow> bool" where
  "starts_token c \<longleftrightarrow> c \<in> set ''sgx''"

lemma token_here_start: "token_here q s \<Longrightarrow> \<exists>c r. s = c # r \<and> starts_token c"
proof -
  have "list_all (\<lambda>w. w \<noteq> [] \<and> starts_token (hd w)) token_heads" by code_simp
  moreover assume "token_here q s"
  ultimately obtain w u where w: "w \<noteq> []" "starts_token (hd w)" "s = w @ u"
    unfolding token_here_def list_all_iff by blast
  then show ?thesis by (cases w) auto
qed

lemma token_free_append:
  "list_all (\<lambda>c. \<not> starts_token c) r \<Longrightarrow> token_free (before q r) s \<Longrightarrow> token_free q (r @ s)"
proof (induction r arbitrary: q)
  case (Cons c r)
  have "\<not> token_here q (c # r @ s)" using token_here_start Cons.prems(1) by fastforce
  then show ?case using Cons by (simp add: token_free_Cons)
qed simp

lemma heads_token_chars: "w \<in> set token_heads \<Longrightarrow> list_all token_char w"
proof -
  have "list_all (list_all token_char) token_heads" by code_simp
  then show "w \<in> set token_heads \<Longrightarrow> list_all token_char w" unfolding list_all_iff by blast
qed

lemma sub_skip: "k \<le> length s \<Longrightarrow> sub_from m p s k = sub_from m (before p (take k s)) (drop k s) 0"
proof (induction k arbitrary: p s)
  case (Suc k)
  then show ?case by (cases s) simp_all
qed simp

text \<open>Where the result starts with token characters only, they were not touched.\<close>

lemma sub_token_prefix:
  "sub_from token_pattern p s 0 = u @ v \<Longrightarrow> list_all token_char u \<Longrightarrow>
     \<exists>t. s = u @ t \<and> v = sub_from token_pattern (before p u) t 0"
proof (induction u arbitrary: p s)
  case (Cons c u)
  then obtain d s' where s: "s = d # s'" by (cases s) simp_all
  have "token_pattern p (d # s') = None" (is "?m = None")
  proof (rule ccontr)
    assume "token_pattern p (d # s') \<noteq> None"
    then obtain n where "token_pattern p (d # s') = Some (''[REDACTED_TOKEN]'', n)"
      using token_pattern_result by fastforce
    then have "c = CHR ''[''" using Cons.prems(1) by (simp add: s)
    moreover have "\<not> token_char (CHR ''['')" by code_simp
    ultimately show False using Cons.prems(2) by simp
  qed
  then have "d = c \<and> sub_from token_pattern (Some c) s' 0 = u @ v" using Cons.prems(1) by (auto simp: s)
  then show ?case using Cons.IH [of "Some c" s'] Cons.prems(2) by (auto simp: s)
qed simp

lemma word_boundary_simps:
  "word_boundary (Some c) [] \<longleftrightarrow> is_word c"
  "word_boundary (Some c) (d # s) \<longleftrightarrow> is_word c \<noteq> is_word d"
  "word_boundary None (d # s) \<longleftrightarrow> is_word d"
  by (simp_all add: word_boundary_def)

lemma starts_token_word: "starts_token c \<Longrightarrow> is_word c"
proof -
  have "list_all is_word ''sgx''" by code_simp
  then show "starts_token c \<Longrightarrow> is_word c" unfolding starts_token_def list_all_iff by blast
qed

text \<open>
  A boundary of the result is a boundary of the text: where a token was replaced, the character
  before it is not part of a word.
\<close>

lemma sub_boundary:
  assumes "word_boundary (Some c) (sub_from token_pattern (Some c) t 0)"
  shows "word_boundary (Some c) t"
proof (cases t)
  case (Cons d t')
  show ?thesis
  proof (cases "token_pattern (Some c) (d # t')")
    case None
    then show ?thesis using assms by (simp add: Cons word_boundary_simps)
  next
    case (Some rn)
    then have "token_here (Some c) (d # t')" using token_pattern_iff by fastforce
    then show ?thesis by (simp add: Cons token_here_def)
  qed
qed (use assms in simp)

text \<open>The previous character may differ from that of the text if it makes the same boundary.\<close>

definition same_side :: "char option \<Rightarrow> char option \<Rightarrow> string \<Rightarrow> bool" where
  "same_side q p s \<longleftrightarrow> (\<forall>c r. s = c # r \<longrightarrow> is_word c \<longrightarrow> word_boundary q s = word_boundary p s)"

lemma sub_no_token_here:
  assumes "same_side q p s" "token_pattern p s = None"
  shows "\<not> token_here q (sub_from token_pattern p s 0)"
proof
  let ?out = "sub_from token_pattern p s 0"
  assume here: "token_here q ?out"
  then obtain w u v where out: "?out = w @ u @ v" "w \<in> set token_heads" "8 \<le> length u" "list_all token_char u"
      "word_boundary (Some (last u)) v" and left: "word_boundary q ?out"
    unfolding token_here_def by blast
  have "list_all token_char (w @ u)" using heads_token_chars [OF out(2)] out(4) by simp
  then obtain t where t: "s = (w @ u) @ t" "v = sub_from token_pattern (before p (w @ u)) t 0"
    using sub_token_prefix [of p s "w @ u" v] out(1) by auto
  have u: "u \<noteq> []" using out(3) by auto
  then have "before p (w @ u) = Some (last u)" by (simp add: before_def)
  then have "word_boundary (Some (last u)) t" using sub_boundary out(5) t(2) by metis
  moreover obtain c r where c: "s = c # r" "starts_token c" "?out = c # drop 1 ?out"
  proof -
    obtain c r where "?out = c # r" "starts_token c" using token_here_start [OF here] by blast
    moreover have "s \<noteq> []" using t(1) u by simp
    moreover have "hd s = hd (w @ u)" "hd ?out = hd (w @ u)" using t(1) out(1) u by (simp_all add: hd_append)
    ultimately show thesis using that [of c "tl s"] by (cases s) auto
  qed
  moreover have "word_boundary p s"
  proof -
    have "word_boundary q s" using left c(1,3) by (metis word_boundary_def list.simps(5))
    then show ?thesis using assms(1) c(1) starts_token_word [OF c(2)] unfolding same_side_def by blast
  qed
  ultimately have "word_boundary p s" "word_boundary (Some (last u)) t" "s = w @ u @ t" using t(1) by simp_all
  then have "token_here p s" unfolding token_here_def using out(2-4) by blast
  then show False using assms(2) token_pattern_iff by blast
qed

lemma last_take: "0 < k \<Longrightarrow> k \<le> length s \<Longrightarrow> last (take k s) = s ! (k - 1)"
  by (subst last_conv_nth) auto

lemma sub_token_free: "same_side q p s \<Longrightarrow> token_free q (sub_from token_pattern p s 0)"
proof (induction "length s" arbitrary: q p s rule: less_induct)
  case less
  show ?case
  proof (cases s)
    case (Cons c s')
    show ?thesis
    proof (cases "token_pattern p s")
      case None
      have "same_side (Some c) (Some c) s'" by (simp add: same_side_def)
      then have "token_free (Some c) (sub_from token_pattern (Some c) s' 0)" using less.hyps by (simp add: Cons)
      moreover have "sub_from token_pattern p s 0 = c # sub_from token_pattern (Some c) s' 0"
        using None by (simp add: Cons)
      ultimately show ?thesis using sub_no_token_here [OF less.prems None] by (simp add: token_free_Cons)
    next
      case (Some rn)
      then obtain n where n: "token_pattern p s = Some (''[REDACTED_TOKEN]'', n)" "0 < n" "n \<le> length s"
          "word_boundary (Some (s ! (n - 1))) (drop n s)"
        using token_pattern_result [of p s "fst rn" "snd rn"] by (cases rn) auto
      let ?p = "Some (s ! (n - 1))" and ?rest = "drop n s"
      have "before (Some c) (take (n - 1) s') = ?p"
        using n(2,3) by (cases "n = 1"; cases "s' = []") (simp_all add: Cons before_def last_take nth_Cons')
      then have out: "sub_from token_pattern p s 0 = ''[REDACTED_TOKEN]'' @ sub_from token_pattern ?p ?rest 0"
        using n(1-3) sub_skip [of "n - 1" s' token_pattern "Some c"] by (simp add: Cons drop_Cons')
      have "same_side (Some (CHR '']'')) ?p ?rest"
      proof -
        have "\<not> is_word (CHR '']'')" by code_simp
        then show ?thesis using n(4) by (auto simp: same_side_def word_boundary_simps)
      qed
      then have "token_free (Some (CHR '']'')) (sub_from token_pattern ?p ?rest 0)" using less.hyps n(2) by (simp add: Cons)
      moreover have "list_all (\<lambda>c. \<not> starts_token c) ''[REDACTED_TOKEN]''" by code_simp
      ultimately show ?thesis unfolding out by (intro token_free_append) (simp_all add: before_def)
    qed
  qed simp
qed

section \<open>White space\<close>

definition wordish :: "char option \<Rightarrow> bool" where
  "wordish q = (case q of Some c \<Rightarrow> is_word c | None \<Rightarrow> False)"

lemma wordish_simps [simp]: "wordish (Some c) = is_word c" "\<not> wordish None"
  by (simp_all add: wordish_def)

lemma boundary_wordish: "word_boundary q s \<longleftrightarrow> wordish q \<noteq> (case s of c # _ \<Rightarrow> is_word c | [] \<Rightarrow> False)"
  by (simp add: word_boundary_def wordish_def)

lemma space_classes: "is_space c \<Longrightarrow> \<not> is_word c \<and> \<not> starts_token c \<and> \<not> token_char c"
proof -
  have "list_all (\<lambda>c. \<not> is_word c \<and> \<not> starts_token c \<and> \<not> token_char c) [CHR '' '', CHR 0x09, CHR 0x0A, CHR 0x0B,
      CHR 0x0C, CHR 0x0D, CHR 0x1C, CHR 0x1D, CHR 0x1E, CHR 0x1F, CHR 0x85, CHR 0xA0]"
    by code_simp
  then show "is_space c \<Longrightarrow> \<not> is_word c \<and> \<not> starts_token c \<and> \<not> token_char c"
    unfolding is_space_def list_all_iff by blast
qed

lemma squeeze_token_prefix:
  "squeeze False s = u @ v \<Longrightarrow> list_all token_char u \<Longrightarrow> \<exists>t. s = u @ t \<and> v = squeeze False t"
proof (induction u arbitrary: s)
  case (Cons c u)
  then obtain d s' where s: "s = d # s'" by (cases s) simp_all
  have "\<not> is_space d" using Cons.prems space_classes [of "CHR '' ''"] by (auto simp: s is_space_def split: if_splits)
  then have "d = c \<and> squeeze False s' = u @ v" using Cons.prems(1) by (auto simp: s)
  then show ?case using Cons.IH [of s'] Cons.prems(2) by (auto simp: s)
qed simp

lemma squeeze_head: "(case squeeze False s of c # _ \<Rightarrow> is_word c | [] \<Rightarrow> False) = (case s of c # _ \<Rightarrow> is_word c | [] \<Rightarrow> False)"
  using space_classes [of "CHR '' ''"] space_classes by (cases s) (auto simp: is_space_def)

lemma token_here_same_side: "wordish q = wordish p \<Longrightarrow> token_here q s = token_here p s"
  by (simp add: token_here_def boundary_wordish)

lemma squeeze_token_here: "\<not> is_space c \<Longrightarrow> token_here q (c # squeeze False s) \<Longrightarrow> token_here q (c # s)"
proof -
  assume c: "\<not> is_space c" and "token_here q (c # squeeze False s)"
  then obtain w u v where w: "squeeze False (c # s) = w @ u @ v" "w \<in> set token_heads" "8 \<le> length u" "list_all token_char u"
      "word_boundary (Some (last u)) v" "word_boundary q (c # squeeze False s)"
    unfolding token_here_def by auto
  have "list_all token_char (w @ u)" using heads_token_chars [OF w(2)] w(4) by simp
  then obtain t where t: "c # s = (w @ u) @ t" "v = squeeze False t"
    using squeeze_token_prefix [of "c # s" "w @ u" v] w(1) by auto
  have "word_boundary (Some (last u)) t" using w(5) unfolding t(2) boundary_wordish squeeze_head .
  moreover have "word_boundary q (c # s)" using w(6) by (simp add: boundary_wordish)
  ultimately show ?thesis unfolding token_here_def using t(1) w(2-4) by (metis append_assoc)
qed

lemma squeeze_token_free:
  "token_free q s \<Longrightarrow> wordish q' = wordish q \<Longrightarrow> b \<longrightarrow> \<not> wordish q' \<Longrightarrow> token_free q' (squeeze b s)"
proof (induction s arbitrary: q q' b)
  case (Cons c s)
  have rest: "token_free (Some c) s" using Cons.prems(1) by (simp add: token_free_Cons)
  show ?case
  proof (cases "is_space c")
    case True
    have "\<not> token_here q' (CHR '' '' # r)" for r using token_here_start [of q'] by (fastforce simp: starts_token_def)
    then show ?thesis
      using True Cons.IH [OF rest, of q' True] Cons.IH [OF rest, of "Some (CHR '' '')" True] Cons.prems(3)
        space_classes [OF True] space_classes [of "CHR '' ''"]
      by (simp add: token_free_Cons is_space_def)
  next
    case False
    have "\<not> token_here q' (c # squeeze False s)"
      using squeeze_token_here [OF False] token_here_same_side [OF Cons.prems(2)] Cons.prems(1)
      by (auto simp: token_free_Cons)
    then show ?thesis using False Cons.IH [OF rest, of "Some c" False] by (simp add: token_free_Cons)
  qed
qed simp

lemma boundary_spaces: "list_all is_space z \<Longrightarrow> word_boundary q (v @ z) = word_boundary q v"
  using space_classes by (cases v; cases z) (auto simp: boundary_wordish)

lemma token_free_part:
  assumes "token_free q (a @ m @ z)" "list_all is_space z" "list_all is_space a" "\<not> wordish q"
  shows "token_free None m"
  unfolding token_free_def
proof (intro allI impI notI)
  fix x y
  assume m: "m = x @ y" and here: "token_here (before None x) y"
  have "wordish (before q (a @ x)) = wordish (before None x)"
    using assms(3,4) space_classes by (cases "x = []") (auto simp: before_def list_all_iff)
  moreover have "token_here (before None x) (y @ z)"
  proof -
    obtain w u v where y: "y = w @ u @ v" "w \<in> set token_heads" "8 \<le> length u" "list_all token_char u"
        "word_boundary (Some (last u)) v" "word_boundary (before None x) y"
      using here unfolding token_here_def by blast
    have "word_boundary (Some (last u)) (v @ z)" "word_boundary (before None x) (y @ z)"
      using y(5,6) boundary_spaces [OF assms(2)] by simp_all
    then show ?thesis unfolding token_here_def using y(1-4) by auto
  qed
  ultimately have "token_here (before q (a @ x)) (y @ z)" using token_here_same_side by blast
  then show False using assms(1) unfolding token_free_def by (metis m append_assoc)
qed

lemma strip_parts: "\<exists>a z. s = a @ strip s @ z \<and> list_all is_space a \<and> list_all is_space z"
proof -
  let ?m = "lstrip s"
  have "s = takeWhile is_space s @ ?m" by (simp add: lstrip_def)
  moreover have "?m = strip s @ rev (takeWhile is_space (rev ?m))"
    unfolding strip_def rstrip_def by (metis rev_append rev_rev_ident takeWhile_dropWhile_id)
  moreover have "list_all is_space (takeWhile is_space s)" "list_all is_space (rev (takeWhile is_space (rev ?m)))"
    by (auto simp: list_all_iff dest: set_takeWhileD)
  ultimately show ?thesis by metis
qed

lemma diagnostic_token_free: "token_free None (diagnostic s)"
proof -
  let ?t = "squeeze False (redact (drop_nul s))"
  have "token_free None ?t"
    unfolding redact_def regex_sub_def
    by (rule squeeze_token_free [OF sub_token_free]) (auto simp: same_side_def)
  then show ?thesis using strip_parts [of ?t] token_free_part [of None] unfolding diagnostic_def by (metis wordish_simps(2))
qed

lemma squeeze_spaces: "set (squeeze b s) \<inter> {c. is_space c} \<subseteq> {CHR '' ''}"
  by (induction s arbitrary: b) auto

lemma diagnostic_spaces: "set (diagnostic s) \<inter> {c. is_space c} \<subseteq> {CHR '' ''}"
proof -
  have "set (strip t) \<subseteq> set t" for t using strip_parts [of t] by (metis Un_upper1 Un_upper2 order_trans set_append)
  then show ?thesis using squeeze_spaces unfolding diagnostic_def by blast
qed

text \<open>
  The scheme of an authorization header is taken for the credential: what follows \<open>Basic\<close> stays.  A
  value in quotes is not recognised either.  And redaction is not stable: white space is collapsed
  after the line-based pattern was applied, so a second pass removes what followed a cookie.
\<close>

lemma basic_credentials_survive:
  "safe_text 512 (PyStr ''Authorization: Basic dTpw'') = ''Authorization: [REDACTED] dTpw''"
  by code_simp

lemma second_pass_removes_more:
  "safe_text 512 (PyStr (''Cookie:a'' @ [CHR 0x0A] @ ''b'')) = ''Cookie:[REDACTED] b''"
  "safe_text 512 (PyStr ''Cookie:[REDACTED] b'') = ''Cookie:[REDACTED]''"
  by code_simp+

end
