(* ===== verification/Redaction_Masks.thy ===== *)
theory Redaction_Masks
  imports Redaction
begin

text \<open>
  What a redacted diagnostic shows after the words that announce a credential.  The statement is
  about the text alone: wherever one of the words, a separator and visible text follow each other, the
  visible text is the placeholder.  The proof follows one text through the four substitutions,
  the collapsing of white space and the stripping: each pass masks what its own pattern announces,
  and keeps what the others masked, because no pattern can start inside a masked place.
\<close>

section \<open>What a text announces and shows\<close>

definition placeholder :: "string \<Rightarrow> bool" where
  "placeholder v \<longleftrightarrow> (\<exists>u. v = ''[REDACTED]'' @ u \<and> (u = [] \<or> is_space (hd u)))"

text \<open>The placeholder, possibly behind a scheme that is kept.\<close>

definition concealed :: "string list \<Rightarrow> string \<Rightarrow> bool" where
  "concealed schemes v \<longleftrightarrow> placeholder v
     \<or> (\<exists>w z u. v = w @ z @ u \<and> map ascii_lower w \<in> set schemes \<and> z \<noteq> [] \<and> list_all is_space z \<and> placeholder u)"

record guard =
  gd_words :: "string list"
  gd_separators :: string
  gd_schemes :: "string list"

text \<open>The text starts with one of the words and a separator, and \<open>v\<close> is the visible text that follows.\<close>

definition announces :: "guard \<Rightarrow> string \<Rightarrow> string \<Rightarrow> bool" where
  "announces g s v \<longleftrightarrow> (\<exists>k x c y. s = k @ x @ c # y @ v \<and> map ascii_lower k \<in> set (gd_words g)
     \<and> list_all is_space x \<and> c \<in> set (gd_separators g) \<and> list_all is_space y) \<and> v \<noteq> [] \<and> \<not> is_space (hd v)"

definition masked :: "guard \<Rightarrow> string \<Rightarrow> bool" where
  "masked g t \<longleftrightarrow> (\<forall>a b v. t = a @ b \<longrightarrow> announces g b v \<longrightarrow> concealed (gd_schemes g) v)"

definition authorization_guard :: guard where
  "authorization_guard = \<lparr>gd_words = [''authorization''], gd_separators = '':'', gd_schemes = [''bearer'']\<rparr>"

definition cookie_guard :: guard where
  "cookie_guard = \<lparr>gd_words = [''cookie''], gd_separators = '':'', gd_schemes = []\<rparr>"

definition secret_guard :: guard where
  "secret_guard = \<lparr>gd_words = [''api_key'', ''api-key'', ''apikey'', ''token'', ''password'', ''secret''],
     gd_separators = ''=:'', gd_schemes = []\<rparr>"

definition guards :: "guard list" where
  "guards = [authorization_guard, cookie_guard, secret_guard]"

lemmas guard_defs = authorization_guard_def cookie_guard_def secret_guard_def

section \<open>Where a pattern can start\<close>

text \<open>The first two letters of the words and of the tokens.\<close>

definition heads :: "(char \<times> char) list" where
  "heads = map (\<lambda>w. (w ! 0, w ! 1))
     [''authorization'', ''cookie'', ''api'', ''token'', ''password'', ''secret'', ''sk'', ''gh'', ''gi'', ''xo'']"

definition head_here :: "string \<Rightarrow> bool" where
  "head_here s \<longleftrightarrow> (\<exists>c d r. s = c # d # r \<and> (ascii_lower c, ascii_lower d) \<in> set heads)"

text \<open>No two neighbours are such letters; in a quiet text the last character does not begin such a pair either.\<close>

fun calm :: "string \<Rightarrow> bool" where
  "calm (c # d # s) \<longleftrightarrow> (ascii_lower c, ascii_lower d) \<notin> set heads \<and> calm (d # s)"
| "calm s \<longleftrightarrow> True"

definition begins_head :: "char \<Rightarrow> bool" where
  "begins_head c \<longleftrightarrow> ascii_lower c \<in> set (map fst heads)"

definition plain :: "char \<Rightarrow> bool" where
  "plain c \<longleftrightarrow> ascii_lower c \<notin> set (map fst heads @ map snd heads)"

definition quiet :: "string \<Rightarrow> bool" where
  "quiet s \<longleftrightarrow> calm s \<and> (s = [] \<or> \<not> begins_head (last s))"

lemma plain_classes: "is_space c \<or> c \<in> set ''=:[]'' \<Longrightarrow> plain c"
proof -
  have "list_all plain ([CHR '' '', CHR 0x09, CHR 0x0A, CHR 0x0B, CHR 0x0C, CHR 0x0D, CHR 0x1C, CHR 0x1D, CHR 0x1E,
      CHR 0x1F, CHR 0x85, CHR 0xA0] @ ''=:[]'')"
    by code_simp
  then show "is_space c \<or> c \<in> set ''=:[]'' \<Longrightarrow> plain c"
    unfolding is_space_def list_all_iff set_append by blast
qed

lemma head_pair: "(ascii_lower c, ascii_lower d) \<in> set heads \<Longrightarrow> begins_head c \<and> \<not> plain c \<and> \<not> plain d"
  by (force simp: begins_head_def plain_def)

lemma plain_begins: "plain c \<Longrightarrow> \<not> begins_head c"
  by (auto simp: begins_head_def plain_def)

lemma head_here_visible: "head_here s \<Longrightarrow> s \<noteq> [] \<and> \<not> plain (hd s) \<and> \<not> is_space (hd s)"
  using head_pair plain_classes by (fastforce simp: head_here_def)

lemma calm_append:
  "calm (a @ b) \<longleftrightarrow> calm a \<and> calm b \<and> (a \<noteq> [] \<and> b \<noteq> [] \<longrightarrow> (ascii_lower (last a), ascii_lower (hd b)) \<notin> set heads)"
proof (induction a)
  case (Cons c a)
  then show ?case by (cases a; cases b) auto
qed simp

lemma quiet_append: "quiet a \<Longrightarrow> quiet b \<Longrightarrow> quiet (a @ b)"
  using head_pair [of "last a" "hd b"] by (cases "a = []"; cases "b = []") (auto simp: quiet_def calm_append)

lemma plain_quiet: "list_all plain z \<Longrightarrow> quiet z"
proof (induction z)
  case (Cons c z)
  then show ?case using head_pair plain_begins by (cases z) (auto simp: quiet_def)
qed (simp add: quiet_def)

lemma calm_plain: "calm a \<Longrightarrow> list_all plain z \<Longrightarrow> z \<noteq> [] \<Longrightarrow> quiet (a @ z)"
  using plain_quiet [of z] head_pair by (cases z) (auto simp: quiet_def calm_append)

lemma calm_no_head: "calm (u @ c # t) \<Longrightarrow> \<not> begins_head (last (c # t)) \<Longrightarrow> \<not> head_here (c # t @ v)"
  using head_pair by (cases t) (auto simp: head_here_def calm_append)

lemma quiet_no_head: "quiet (u @ w) \<Longrightarrow> w \<noteq> [] \<Longrightarrow> \<not> head_here (w @ v)"
  using calm_no_head [of u "hd w" "tl w" v] by (cases w) (simp_all add: quiet_def)

lemma lower_lower [simp]: "ascii_lower (ascii_lower c) = ascii_lower c"
proof (cases "is_upper_ascii c")
  case True
  have "list_all (\<lambda>c. ascii_lower (ascii_lower c) = ascii_lower c) ''ABCDEFGHIJKLMNOPQRSTUVWXYZ''" by code_simp
  then show ?thesis using True unfolding is_upper_ascii_def list_all_iff by blast
qed (simp add: ascii_lower_def)

lemma calm_lower: "calm (map ascii_lower s) \<longleftrightarrow> calm s"
  by (induction s rule: calm.induct) simp_all

lemma quiet_lower: "quiet (map ascii_lower s) \<longleftrightarrow> quiet s"
  by (cases "s = []") (simp_all add: quiet_def calm_lower begins_head_def last_map)

section \<open>The words\<close>

definition all_words :: "string list" where
  "all_words = concat (map gd_words guards)"

text \<open>
  No word starts another one, every word starts with one of the pairs and holds none behind that; and
  the guards have no word in common.
\<close>

lemma words_shape:
  "list_all (\<lambda>w. 2 \<le> length w \<and> (w ! 0, w ! 1) \<in> set heads \<and> calm (tl w)) all_words"
  "list_all (\<lambda>w. list_all (\<lambda>c. c \<noteq> CHR ''['' \<and> \<not> is_space c) w) all_words"
  "list_all (\<lambda>u. list_all (\<lambda>w. u = w \<or> take (length u) w \<noteq> u) all_words) all_words"
  "list_all (\<lambda>g. list_all (\<lambda>c. c \<in> set ''=:'') (gd_separators g)) guards"
  "list_all (\<lambda>g. list_all (\<lambda>w. quiet w \<and> w \<noteq> [] \<and> list_all (\<lambda>c. c \<noteq> CHR ''['' \<and> \<not> is_space c) w) (gd_schemes g)) guards"
  by code_simp+

lemma words_apart:
  "g \<in> set guards \<Longrightarrow> h \<in> set guards \<Longrightarrow> w \<in> set (gd_words g) \<Longrightarrow> w \<in> set (gd_words h) \<Longrightarrow> g = h"
  by (auto simp: guards_def guard_defs)

lemma guard_word:
  assumes "g \<in> set guards" "map ascii_lower k \<in> set (gd_words g)"
  shows "map ascii_lower k \<in> set all_words" "2 \<le> length k" "head_here (k @ t)" "calm (tl k)"
    "c \<in> set k \<Longrightarrow> c \<noteq> CHR ''['' \<and> \<not> is_space c"
proof -
  show all: "map ascii_lower k \<in> set all_words" using assms by (auto simp: all_words_def)
  then have w: "2 \<le> length k" "(map ascii_lower k ! 0, map ascii_lower k ! 1) \<in> set heads" "calm (tl (map ascii_lower k))"
    "list_all (\<lambda>c. c \<noteq> CHR ''['' \<and> \<not> is_space c) (map ascii_lower k)"
    using words_shape(1,2) unfolding list_all_iff by auto
  show "2 \<le> length k" by (rule w(1))
  then obtain c0 c1 k' where k: "k = c0 # c1 # k'" by (cases k; cases "tl k") auto
  show "head_here (k @ t)" using w(2) by (auto simp: head_here_def k)
  show "calm (tl k)" using w(3) calm_lower [of "tl k"] by (simp add: map_tl)
  have "ascii_lower c \<noteq> c \<Longrightarrow> c \<noteq> CHR ''['' \<and> \<not> is_space c" for c
  proof -
    have "list_all (\<lambda>c. c \<noteq> CHR ''['' \<and> \<not> is_space c) ''ABCDEFGHIJKLMNOPQRSTUVWXYZ''" by code_simp
    then show "ascii_lower c \<noteq> c \<Longrightarrow> c \<noteq> CHR ''['' \<and> \<not> is_space c"
      unfolding ascii_lower_def is_upper_ascii_def list_all_iff by (metis (no_types))
  qed
  then show "c \<in> set k \<Longrightarrow> c \<noteq> CHR ''['' \<and> \<not> is_space c"
    using w(4) unfolding list_all_iff by (metis imageI list.set_map)
qed

lemma guard_separator: "g \<in> set guards \<Longrightarrow> c \<in> set (gd_separators g) \<Longrightarrow> plain c \<and> c \<noteq> CHR ''['' \<and> \<not> is_space c"
proof -
  have "list_all (\<lambda>c. c \<noteq> CHR ''['' \<and> \<not> is_space c) ''=:''" by code_simp
  moreover assume "g \<in> set guards" "c \<in> set (gd_separators g)"
  then have "c \<in> set ''=:''" using words_shape(4) unfolding list_all_iff by blast
  moreover from this have "plain c" by (intro plain_classes) auto
  ultimately show ?thesis unfolding list_all_iff by blast
qed

lemma same_word:
  assumes "map ascii_lower k \<in> set all_words" "map ascii_lower k' \<in> set all_words" "k @ a = k' @ b"
  shows "k = k' \<and> a = b"
proof -
  have eq: "u = w" if "u \<in> set all_words" "w \<in> set all_words" "take (length u) w = u" for u w
    using words_shape(3) that unfolding list_all_iff by blast
  have same: "k1 = k2" if "map ascii_lower k1 \<in> set all_words" "map ascii_lower k2 \<in> set all_words" "k2 = k1 @ r" for k1 k2 r
  proof -
    have "map ascii_lower k1 = map ascii_lower k2" by (rule eq [OF that(1,2)]) (simp add: that(3))
    then have "length k1 = length k2" by (rule map_eq_imp_length_eq)
    then show ?thesis by (simp add: that(3))
  qed
  obtain r where "k' = k @ r \<or> k = k' @ r" using assms(3) by (auto simp: append_eq_append_conv2)
  then have "k = k'" using same assms(1,2) by metis
  then show ?thesis using assms(3) by simp
qed

lemma spaces_then:
  "x @ c # a = y @ d # b \<Longrightarrow> list_all is_space x \<Longrightarrow> list_all is_space y \<Longrightarrow> \<not> is_space c \<Longrightarrow> \<not> is_space d \<Longrightarrow>
     x = y \<and> c = d \<and> a = b"
proof (induction x arbitrary: y)
  case Nil
  then show ?case by (cases y) auto
next
  case (Cons e x)
  then show ?case by (cases y) auto
qed

text \<open>A text announces one thing only.\<close>

lemma announced_once:
  assumes "g \<in> set guards" "h \<in> set guards" "announces g (k @ x @ c # y @ v) w"
    and "map ascii_lower k \<in> set (gd_words h)" "list_all is_space x" "c \<in> set (gd_separators h)" "list_all is_space y"
    and "v \<noteq> []" "\<not> is_space (hd v)"
  shows "g = h \<and> w = v"
proof -
  obtain k' x' c' y' where w: "k @ x @ c # y @ v = k' @ x' @ c' # y' @ w" "map ascii_lower k' \<in> set (gd_words g)"
      "list_all is_space x'" "c' \<in> set (gd_separators g)" "list_all is_space y'" "w \<noteq> []" "\<not> is_space (hd w)"
    using assms(3) unfolding announces_def by blast
  have k: "k = k' \<and> x @ c # y @ v = x' @ c' # y' @ w"
    using same_word [OF guard_word(1) [OF assms(2,4)] guard_word(1) [OF assms(1) w(2)] w(1)] by simp
  then have "y @ v = y' @ w"
    using spaces_then [of x c "y @ v" x' c' "y' @ w"] assms(5) w(3) guard_separator assms(1,2,6) w(4) by blast
  then have "v = w"
    using spaces_then [of y "hd v" "tl v" y' "hd w" "tl w"] assms(7,8,9) w(5-7) by simp
  then show ?thesis using words_apart [OF assms(1,2) w(2)] assms(4) k by simp
qed

lemma announces_head: "g \<in> set guards \<Longrightarrow> announces g s v \<Longrightarrow> head_here s"
  using guard_word(3) by (fastforce simp: announces_def)

section \<open>One substitution\<close>

text \<open>
  A pattern that starts at one of the heads, and whose replacement starts at a head or is bracketed: what
  of the result cannot be the start of a replacement was in the text before.
\<close>

definition tame :: "pattern \<Rightarrow> bool" where
  "tame m \<longleftrightarrow> (\<forall>p s r n. m p s = Some (r, n) \<longrightarrow>
     head_here s \<and> 0 < n \<and> n \<le> length s \<and> r \<noteq> [] \<and> (hd r = CHR ''['' \<or> (\<forall>t. head_here (r @ t))))"

lemma tame_Some: "tame m \<Longrightarrow> m p s = Some (r, n) \<Longrightarrow>
    head_here s \<and> 0 < n \<and> n \<le> length s \<and> r \<noteq> [] \<and> (hd r = CHR ''['' \<or> (\<forall>t. head_here (r @ t)))"
  unfolding tame_def by blast

lemma sub_Some:
  assumes "tame m" "m p s = Some (r, n)"
  shows "\<exists>q. sub_from m p s 0 = r @ sub_from m q (drop n s) 0"
proof -
  have n: "0 < n" "n \<le> length s" using tame_Some [OF assms] by simp_all
  then obtain c s' where s: "s = c # s'" by (cases s) auto
  have "sub_from m p s 0 = r @ sub_from m (before (Some c) (take (n - 1) s')) (drop (n - 1) s') 0"
    using assms(2) sub_skip [of "n - 1" s' m "Some c"] n by (simp add: s)
  moreover have "drop (n - 1) s' = drop n s" using n(1) by (cases n) (simp_all add: s)
  ultimately show ?thesis by auto
qed

lemma sub_back:
  "tame m \<Longrightarrow> sub_from m p s 0 = u @ v \<Longrightarrow> quiet u \<Longrightarrow> CHR ''['' \<notin> set u \<Longrightarrow> \<exists>t q. s = u @ t \<and> v = sub_from m q t 0"
proof (induction u arbitrary: p s)
  case Nil
  then show ?case by auto
next
  case (Cons c u)
  then obtain d s' where s: "s = d # s'" by (cases s) simp_all
  have "m p s = None"
  proof (rule ccontr)
    assume "m p s \<noteq> None"
    then obtain r n where rn: "m p s = Some (r, n)" by auto
    obtain q where "(c # u) @ v = r @ sub_from m q (drop n s) 0" using sub_Some [OF Cons.prems(1) rn] Cons.prems(2) by metis
    moreover have "\<not> head_here ((c # u) @ v)" using quiet_no_head [of "[]" "c # u"] Cons.prems(3) by simp
    ultimately show False using tame_Some [OF Cons.prems(1) rn] Cons.prems(4) by (cases r) auto
  qed
  then have "d = c \<and> sub_from m (Some c) s' 0 = u @ v" using Cons.prems(2) by (auto simp: s)
  moreover have "quiet u" using Cons.prems(3) by (cases u) (simp_all add: quiet_def)
  ultimately show ?case using Cons.IH [OF Cons.prems(1)] Cons.prems(4) by (auto simp: s)
qed

lemma sub_forth: "tame m \<Longrightarrow> quiet u \<Longrightarrow> \<exists>q. sub_from m p (u @ t) 0 = u @ sub_from m q t 0"
proof (induction u arbitrary: p)
  case (Cons c u)
  have "\<not> head_here (c # u @ t)" using quiet_no_head [of "[]" "c # u" t] Cons.prems(2) by simp
  then have "m p (c # u @ t) = None" using tame_Some [OF Cons.prems(1)] by (cases "m p (c # u @ t)") auto
  moreover have "quiet u" using Cons.prems(2) by (cases u) (simp_all add: quiet_def)
  ultimately show ?case using Cons.IH [OF Cons.prems(1)] by simp
qed auto

text \<open>Text that begins with white space, or is empty, stays so.\<close>

definition blank_start :: "string \<Rightarrow> bool" where
  "blank_start u \<longleftrightarrow> u = [] \<or> is_space (hd u)"

lemma sub_blank_start: "tame m \<Longrightarrow> blank_start u \<Longrightarrow> blank_start (sub_from m p u 0)"
proof (cases u)
  case (Cons c u')
  assume m: "tame m" and "blank_start u"
  then have "\<not> head_here u" using head_here_visible by (auto simp: blank_start_def)
  then have "m p u = None" using tame_Some [OF m] by (cases "m p u") auto
  then show ?thesis using \<open>blank_start u\<close> by (simp add: Cons blank_start_def)
qed (simp add: blank_start_def)

lemma placeholder_iff: "placeholder v \<longleftrightarrow> (\<exists>u. v = ''[REDACTED]'' @ u \<and> blank_start u)"
  by (simp add: placeholder_def blank_start_def)

lemma placeholder_quiet: "quiet ''[REDACTED]''"
  by code_simp

lemma sub_placeholder: "tame m \<Longrightarrow> placeholder t \<Longrightarrow> placeholder (sub_from m p t 0)"
  using sub_forth [OF _ placeholder_quiet] sub_blank_start unfolding placeholder_iff by metis

lemma scheme_shape:
  assumes "g \<in> set guards" "map ascii_lower w \<in> set (gd_schemes g)"
  shows "quiet w" "w \<noteq> []"
proof -
  have "quiet (map ascii_lower w)" "map ascii_lower w \<noteq> []" using words_shape(5) assms unfolding list_all_iff by blast+
  then show "quiet w" "w \<noteq> []" by (simp_all add: quiet_lower)
qed

lemma spaces_quiet: "list_all is_space z \<Longrightarrow> quiet z"
  using plain_classes by (intro plain_quiet) (auto simp: list_all_iff)

lemma sub_concealed:
  assumes "tame m" "g \<in> set guards" "concealed (gd_schemes g) t"
  shows "concealed (gd_schemes g) (sub_from m p t 0)"
  using assms(3) unfolding concealed_def
proof (elim disjE exE conjE)
  assume "placeholder t"
  then show "placeholder (sub_from m p t 0) \<or> (\<exists>w z u. sub_from m p t 0 = w @ z @ u \<and> map ascii_lower w \<in> set (gd_schemes g)
      \<and> z \<noteq> [] \<and> list_all is_space z \<and> placeholder u)"
    using sub_placeholder [OF assms(1)] by blast
next
  fix w z u
  assume w: "t = w @ z @ u" "map ascii_lower w \<in> set (gd_schemes g)" "z \<noteq> []" "list_all is_space z" "placeholder u"
  have "quiet (w @ z)" by (rule quiet_append [OF scheme_shape(1) [OF assms(2) w(2)] spaces_quiet [OF w(4)]])
  then obtain q where "sub_from m p t 0 = (w @ z) @ sub_from m q u 0"
    using sub_forth [OF assms(1), of "w @ z" p u] w(1) by auto
  then show "placeholder (sub_from m p t 0) \<or> (\<exists>w z u. sub_from m p t 0 = w @ z @ u \<and> map ascii_lower w \<in> set (gd_schemes g)
      \<and> z \<noteq> [] \<and> list_all is_space z \<and> placeholder u)"
    using w(2-4) sub_placeholder [OF assms(1) w(5), of q] by (intro disjI2 exI conjI) auto
qed

lemma concealed_start:
  assumes "g \<in> set guards" "concealed (gd_schemes g) t"
  shows "\<not> head_here t"
proof -
  have "\<not> head_here (''[REDACTED]'' @ u)" for u using quiet_no_head [of "[]" "''[REDACTED]''" u] placeholder_quiet by simp
  moreover have "\<not> head_here (w @ u)" if "map ascii_lower w \<in> set (gd_schemes g)" for w u
    using quiet_no_head [of "[]" w u] scheme_shape [OF assms(1) that] by simp
  ultimately show ?thesis using assms(2) unfolding concealed_def placeholder_def by blast
qed

text \<open>Behind a word that no replacement touches, the result shows what the text showed, or its replacement.\<close>

definition masks :: "guard \<Rightarrow> string \<Rightarrow> bool" where
  "masks g b \<longleftrightarrow> (\<forall>v. announces g b v \<longrightarrow> concealed (gd_schemes g) v)"

lemma masked_iff: "masked g t \<longleftrightarrow> (\<forall>a b. t = a @ b \<longrightarrow> masks g b)"
  unfolding masked_def masks_def by blast

lemma masks_Nil [simp]: "g \<in> set guards \<Longrightarrow> masks g []"
  using announces_head [of g "[]"] by (auto simp: masks_def head_here_def)

lemma masked_Nil [simp]: "g \<in> set guards \<Longrightarrow> masked g []"
  by (simp add: masked_iff)

lemma masked_Cons: "masked g (c # s) \<longleftrightarrow> masks g (c # s) \<and> masked g s"
  unfolding masked_iff by (metis append_Cons append_Nil append_eq_Cons_conv)

lemma masked_append:
  "(\<And>r1 r2. r = r1 @ r2 \<Longrightarrow> r2 \<noteq> [] \<Longrightarrow> masks g (r2 @ t)) \<Longrightarrow> masked g t \<Longrightarrow> masked g (r @ t)"
proof (induction r)
  case (Cons c r)
  have "masks g (c # r @ t)" using Cons.prems(1) [of "[]" "c # r"] by simp
  moreover have "masked g (r @ t)"
    by (rule Cons.IH [OF _ Cons.prems(2)]) (use Cons.prems(1) in \<open>metis append_Cons\<close>)
  ultimately show ?case by (simp add: masked_Cons)
qed simp

lemma sub_visible:
  assumes "tame m" "sub_from m q t 0 \<noteq> []" "\<not> is_space (hd (sub_from m q t 0))"
  shows "t \<noteq> [] \<and> \<not> is_space (hd t)"
proof (cases t)
  case Nil
  then show ?thesis using assms(2) by simp
next
  case (Cons c t')
  show ?thesis
  proof (cases "m q t")
    case None
    then show ?thesis using assms(3) by (simp add: Cons)
  next
    case (Some rn)
    then have "head_here t" using tame_Some [OF assms(1)] by (cases rn) simp
    then show ?thesis using head_here_visible by blast
  qed
qed

lemma announcement_quiet:
  assumes "g \<in> set guards" "map ascii_lower (c # k) \<in> set (gd_words g)" "list_all is_space x"
    and "d \<in> set (gd_separators g)" "list_all is_space y"
  shows "quiet (k @ x @ d # y)" "CHR ''['' \<notin> set (k @ x @ d # y)"
proof -
  have "list_all plain (x @ d # y)"
    using assms(3,5) plain_classes guard_separator [OF assms(1,4)] by (auto simp: list_all_iff)
  then show "quiet (k @ x @ d # y)" using guard_word(4) [OF assms(1,2)] by (intro calm_plain) simp_all
  have "\<not> is_space (CHR ''['')" by code_simp
  then show "CHR ''['' \<notin> set (k @ x @ d # y)"
    using assms(3,5) guard_word(5) [OF assms(1,2)] guard_separator [OF assms(1,4)] by (auto simp: list_all_iff)
qed

lemma sub_masks:
  assumes m: "tame m" and g: "g \<in> set guards" and "masks g (c # s)"
  shows "masks g (c # sub_from m p s 0)"
  unfolding masks_def
proof (intro allI impI)
  fix v
  assume "announces g (c # sub_from m p s 0) v"
  then obtain k x d y where w: "c # sub_from m p s 0 = k @ x @ d # y @ v" "map ascii_lower k \<in> set (gd_words g)"
      "list_all is_space x" "d \<in> set (gd_separators g)" "list_all is_space y" "v \<noteq> []" "\<not> is_space (hd v)"
    unfolding announces_def by blast
  obtain k' where k: "k = c # k'" using guard_word(2) [OF g w(2)] w(1) by (cases k) auto
  have out: "sub_from m p s 0 = (k' @ x @ d # y) @ v" using w(1) by (simp add: k)
  obtain t q where t: "s = (k' @ x @ d # y) @ t" "v = sub_from m q t 0"
    using sub_back [OF m out announcement_quiet [OF g w(2) [unfolded k] w(3-5)]] by blast
  have "t \<noteq> [] \<and> \<not> is_space (hd t)" using sub_visible [OF m] w(6,7) t(2) by blast
  then have "announces g (c # s) t"
    unfolding announces_def using w(2-5) t(1) by (intro conjI exI [of _ k] exI [of _ x] exI [of _ d] exI [of _ y]) (simp_all add: k)
  then show "concealed (gd_schemes g) v" using assms(3) sub_concealed [OF m g] unfolding masks_def t(2) by blast
qed

text \<open>
  A pass leaves a text masked when it was masked where the pattern does not match, and when no part of
  a replacement announces anything that is not concealed.
\<close>

lemma sub_masked:
  assumes m: "tame m" and g: "g \<in> set guards"
  shows "(\<And>p a b. s = a @ b \<Longrightarrow> b \<noteq> [] \<Longrightarrow> m p b = None \<Longrightarrow> masks g b) \<Longrightarrow>
    (\<And>p a b r n q r1 r2. s = a @ b \<Longrightarrow> m p b = Some (r, n) \<Longrightarrow> r = r1 @ r2 \<Longrightarrow> r2 \<noteq> [] \<Longrightarrow>
       masks g (r2 @ sub_from m q (drop n b) 0)) \<Longrightarrow> masked g (sub_from m p s 0)"
proof (induction "length s" arbitrary: p s rule: less_induct)
  case less
  note rest = less.prems
  show ?case
  proof (cases s)
    case Nil
    then show ?thesis using g by simp
  next
    case (Cons c s')
    have tail: "masked g (sub_from m q b 0)" if b: "s = a @ b" "a \<noteq> []" for a b q
    proof (rule less.hyps)
      show "length b < length s" using b by simp
      show "masks g b'" if "b = a' @ b'" "b' \<noteq> []" "m p' b' = None" for p' a' b'
        using rest(1) [of "a @ a'" b' p'] that b by simp
      show "masks g (r2 @ sub_from m q' (drop n b') 0)"
        if "b = a' @ b'" "m p' b' = Some (r, n)" "r = r1 @ r2" "r2 \<noteq> []" for p' a' b' r n q' r1 r2
        using rest(2) [of "a @ a'" b' p' r n r1 r2 q'] that b by simp
    qed
    show ?thesis
    proof (cases "m p s")
      case None
      have "masks g (c # s')" using rest(1) [of "[]" s p] None by (simp add: Cons)
      then have "masks g (c # sub_from m (Some c) s' 0)" by (rule sub_masks [OF m g])
      moreover have "masked g (sub_from m (Some c) s' 0)" by (rule tail [of "[c]"]) (simp_all add: Cons)
      ultimately show ?thesis using None by (simp add: Cons masked_Cons)
    next
      case (Some rn)
      obtain r n where rn: "m p s = Some (r, n)" using Some by (cases rn) simp
      obtain q where q: "sub_from m p s 0 = r @ sub_from m q (drop n s) 0" using sub_Some [OF m rn] by blast
      have "0 < n" "n \<le> length s" using tame_Some [OF m rn] by simp_all
      then have "masked g (sub_from m q (drop n s) 0)" by (intro tail [of "take n s"]) auto
      moreover have "masks g (r2 @ sub_from m q (drop n s) 0)" if "r = r1 @ r2" "r2 \<noteq> []" for r1 r2
        using rest(2) [of "[]" s p r n r1 r2 q] rn that by simp
      ultimately show ?thesis unfolding q by (intro masked_append)
    qed
  qed
qed

section \<open>Patterns that keep what announces a value\<close>

definition scheme_part :: "guard \<Rightarrow> string \<Rightarrow> bool" where
  "scheme_part g e \<longleftrightarrow> e = [] \<or> (\<exists>w z. e = w @ z \<and> map ascii_lower w \<in> set (gd_schemes g) \<and> z \<noteq> [] \<and> list_all is_space z)"

definition keeps :: "guard \<Rightarrow> pattern \<Rightarrow> bool" where
  "keeps g m \<longleftrightarrow> (\<forall>p s r n. m p s = Some (r, n) \<longrightarrow> (\<exists>k x c y e t. s = k @ t \<and> r = k @ x @ c # y @ e @ ''[REDACTED]''
     \<and> map ascii_lower k \<in> set (gd_words g) \<and> list_all is_space x \<and> c \<in> set (gd_separators g) \<and> list_all is_space y
     \<and> scheme_part g e \<and> 0 < n \<and> n \<le> length s \<and> blank_start (drop n s)))"

definition catches :: "guard \<Rightarrow> pattern \<Rightarrow> bool" where
  "catches g m \<longleftrightarrow> (\<forall>p s v. announces g s v \<longrightarrow> m p s \<noteq> None)"

lemma keeps_Some:
  assumes "keeps g m" "m p s = Some (r, n)"
  obtains k x c y e t where "s = k @ t" "r = k @ x @ c # y @ e @ ''[REDACTED]''" "map ascii_lower k \<in> set (gd_words g)"
    "list_all is_space x" "c \<in> set (gd_separators g)" "list_all is_space y" "scheme_part g e"
    "0 < n" "n \<le> length s" "blank_start (drop n s)"
  using assms(1) [unfolded keeps_def, rule_format, OF assms(2)] by (elim exE conjE) (rule that)

lemma keeps_tame: "g \<in> set guards \<Longrightarrow> keeps g m \<Longrightarrow> tame m"
  unfolding tame_def
proof (intro allI impI)
  fix p s r n
  assume g: "g \<in> set guards" and m: "keeps g m" "m p s = Some (r, n)"
  show "head_here s \<and> 0 < n \<and> n \<le> length s \<and> r \<noteq> [] \<and> (hd r = CHR ''['' \<or> (\<forall>t. head_here (r @ t)))"
  proof (rule keeps_Some [OF m])
    fix k x c y e t
    assume w: "s = k @ t" "r = k @ x @ c # y @ e @ ''[REDACTED]''" "map ascii_lower k \<in> set (gd_words g)" "0 < n" "n \<le> length s"
    have "head_here s" unfolding w(1) by (rule guard_word(3) [OF g w(3)])
    moreover have "head_here (r @ u)" for u unfolding w(2) append_assoc by (rule guard_word(3) [OF g w(3)])
    moreover have "r \<noteq> []" by (simp add: w(2))
    ultimately show ?thesis using w(4,5) by blast
  qed
qed

lemma scheme_part_visible:
  assumes "g \<in> set guards" "scheme_part g e"
  shows "quiet e" "\<not> is_space (hd (e @ ''[REDACTED]'' @ u))"
proof -
  have bracket: "\<not> is_space (CHR ''['')" by code_simp
  have visible: "w \<noteq> [] \<and> \<not> is_space (hd w)" if "map ascii_lower w \<in> set (gd_schemes g)" for w
  proof -
    have w: "w \<noteq> []" "map ascii_lower w \<in> set (gd_schemes g)" using scheme_shape(2) [OF assms(1) that] that by simp_all
    then have "\<not> is_space (ascii_lower (hd w))"
      using words_shape(5) assms(1) unfolding list_all_iff by (metis hd_in_set hd_map list.map_disc_iff)
    moreover have "is_space c \<Longrightarrow> ascii_lower c = c" for c
    proof -
      have "list_all (\<lambda>c. \<not> is_space c) ''ABCDEFGHIJKLMNOPQRSTUVWXYZ''" by code_simp
      then show "is_space c \<Longrightarrow> ascii_lower c = c"
        unfolding ascii_lower_def is_upper_ascii_def list_all_iff by (metis (no_types))
    qed
    ultimately show ?thesis using w(1) by metis
  qed
  show "quiet e"
    using assms(2) quiet_append [OF scheme_shape(1) [OF assms(1)] spaces_quiet]
    by (auto simp: scheme_part_def) (simp add: quiet_def)
  show "\<not> is_space (hd (e @ ''[REDACTED]'' @ u))"
    using assms(2) visible bracket by (auto simp: scheme_part_def)
qed

lemma keeps_inside:
  assumes g: "g \<in> set guards" and h: "h \<in> set guards" and m: "keeps g m" "m p b = Some (r, n)"
    and r: "r = r1 @ r2" "r2 \<noteq> []"
  shows "masks h (r2 @ sub_from m q (drop n b) 0)"
proof (rule keeps_Some [OF m])
  fix k x c y e t
  assume w: "b = k @ t" "r = k @ x @ c # y @ e @ ''[REDACTED]''" "map ascii_lower k \<in> set (gd_words g)"
    "list_all is_space x" "c \<in> set (gd_separators g)" "list_all is_space y" "scheme_part g e"
    "0 < n" "n \<le> length b" "blank_start (drop n b)"
  let ?rest = "sub_from m q (drop n b) 0"
  obtain c0 k' where k: "k = c0 # k'" using guard_word(2) [OF g w(3)] by (cases k) auto
  show ?thesis
  proof (cases r1)
    case Nil
    let ?v = "e @ ''[REDACTED]'' @ ?rest"
    have out: "r2 @ ?rest = k @ x @ c # y @ ?v" using r(1) w(2) by (simp add: Nil)
    have "placeholder (''[REDACTED]'' @ ?rest)"
      using sub_blank_start [OF keeps_tame [OF g m(1)] w(10)] unfolding placeholder_iff by blast
    then have shown: "concealed (gd_schemes g) ?v"
      using w(7) unfolding scheme_part_def concealed_def by (elim disjE exE conjE) auto
    show ?thesis
      unfolding masks_def out
    proof (intro allI impI)
      fix v
      assume "announces h (k @ x @ c # y @ ?v) v"
      from announced_once [OF h g this w(3-6) _ scheme_part_visible(2) [OF g w(7)]]
      show "concealed (gd_schemes h) v" using shown by simp
    qed
  next
    case (Cons d r1')
    have "quiet ((k' @ x @ c # y) @ e @ ''[REDACTED]'')"
      by (rule quiet_append [OF announcement_quiet(1) [OF g w(3) [unfolded k] w(4-6)]
          quiet_append [OF scheme_part_visible(1) [OF g w(7)] placeholder_quiet]])
    moreover have "(k' @ x @ c # y) @ e @ ''[REDACTED]'' = r1' @ r2" using r(1) w(2) by (simp add: Cons k)
    ultimately have "\<not> head_here (r2 @ ?rest)" using quiet_no_head [of r1' r2] r(2) by simp
    then show ?thesis using announces_head [OF h] by (auto simp: masks_def)
  qed
qed

lemma masked_suffix: "masked g s \<Longrightarrow> s = a @ b \<Longrightarrow> masks g b"
  by (simp add: masked_iff)

lemma kept_pass_own:
  assumes g: "g \<in> set guards" "keeps g m" and "catches g m"
  shows "masked g (sub_from m p s 0)"
proof (rule sub_masked [OF keeps_tame [OF g] g(1)])
  show "masks g b" if "m q b = None" for q b using assms(3) that by (metis catches_def masks_def)
qed (rule keeps_inside [OF g(1) g(1) g(2)])

lemma kept_pass_other:
  assumes g: "g \<in> set guards" "keeps g m" and h: "h \<in> set guards" "masked h s"
  shows "masked h (sub_from m p s 0)"
proof (rule sub_masked [OF keeps_tame [OF g] h(1)])
  show "masks h b" if "s = a @ b" for a b using masked_suffix [OF h(2) that] .
qed (rule keeps_inside [OF g(1) h(1) g(2)])

section \<open>The patterns read what is announced\<close>

lemma literal_ci_iff: "literal_ci w s = Some r \<longleftrightarrow> (\<exists>k. s = k @ r \<and> map ascii_lower k = w)"
proof (induction w arbitrary: s)
  case (Cons a w)
  show ?case
  proof (cases s)
    case (Cons c s')
    have "(\<exists>k. c # s' = k @ r \<and> map ascii_lower k = a # w) \<longleftrightarrow> ascii_lower c = a \<and> (\<exists>k. s' = k @ r \<and> map ascii_lower k = w)"
      by (auto simp: Cons_eq_append_conv map_eq_Cons_conv)
    then show ?thesis using Cons.IH [of s'] by (simp add: Cons)
  qed auto
qed auto

lemma skip_space_append: "list_all is_space x \<Longrightarrow> v = [] \<or> \<not> is_space (hd v) \<Longrightarrow> skip_space (x @ v) = v"
  by (induction x) (cases v; simp add: skip_space_def)+

lemma skip_space_parts:
  obtains x where "s = x @ skip_space s" "list_all is_space x" "skip_space s = [] \<or> \<not> is_space (hd (skip_space s))"
proof -
  have "s = takeWhile is_space s @ skip_space s" by (simp add: skip_space_def)
  moreover have "list_all is_space (takeWhile is_space s)" by (auto simp: list_all_iff dest: set_takeWhileD)
  moreover have "skip_space s = [] \<or> \<not> is_space (hd (skip_space s))" unfolding skip_space_def by (metis hd_dropWhile)
  ultimately show thesis using that by blast
qed

lemma after_separator_Some:
  assumes "after_separator seps s = Some v"
  obtains x c y where "s = x @ c # y @ v" "list_all is_space x" "c \<in> set seps" "list_all is_space y" "v = [] \<or> \<not> is_space (hd v)"
proof -
  obtain x where x: "s = x @ skip_space s" "list_all is_space x" by (rule skip_space_parts)
  obtain c r where r: "skip_space s = c # r" "c \<in> set seps" "v = skip_space r"
    using assms by (auto simp: after_separator_def split: list.splits if_splits)
  obtain y where y: "r = y @ v" "list_all is_space y" "v = [] \<or> \<not> is_space (hd v)" unfolding r(3) by (rule skip_space_parts)
  have "s = x @ c # y @ v" using x(1) unfolding r(1) y(1) [symmetric] .
  then show thesis using that x(2) r(2) y(2,3) by blast
qed

lemma after_separator_parts:
  "list_all is_space x \<Longrightarrow> c \<in> set seps \<Longrightarrow> \<not> is_space c \<Longrightarrow> list_all is_space y \<Longrightarrow> v = [] \<or> \<not> is_space (hd v) \<Longrightarrow>
     after_separator seps (x @ c # y @ v) = Some v"
  by (simp add: after_separator_def skip_space_append)

lemma secret_word_Some: "secret_word s = Some r \<Longrightarrow> \<exists>k. s = k @ r \<and> map ascii_lower k \<in> set (gd_words secret_guard)"
proof -
  assume w: "secret_word s = Some r"
  show ?thesis
  proof (cases "literal_ci ''api'' s")
    case (Some t)
    then obtain a where a: "s = a @ t" "map ascii_lower a = ''api''" by (auto simp: literal_ci_iff)
    from w Some obtain c t' where t: "t = c # t'" "literal_ci ''key'' (if c = CHR ''_'' \<or> c = CHR ''-'' then t' else t) = Some r"
      by (auto simp: secret_word_def split: list.splits)
    then obtain b where b: "(if c = CHR ''_'' \<or> c = CHR ''-'' then t' else t) = b @ r" "map ascii_lower b = ''key''"
      by (auto simp: literal_ci_iff)
    have marks: "ascii_lower (CHR ''_'') = CHR ''_''" "ascii_lower (CHR ''-'') = CHR ''-''" by code_simp+
    show ?thesis
      using a t(1) b marks
      by (intro exI [of _ "if c = CHR ''_'' \<or> c = CHR ''-'' then a @ c # b else a @ b"]) (auto simp: secret_guard_def split: if_splits)
  next
    case None
    then have "literal_ci ''token'' s = Some r \<or> literal_ci ''password'' s = Some r \<or> literal_ci ''secret'' s = Some r"
      using w by (auto simp: secret_word_def split: option.splits)
    then show ?thesis unfolding literal_ci_iff by (auto simp: secret_guard_def)
  qed
qed

lemma secret_word_parts:
  assumes "map ascii_lower k \<in> set (gd_words secret_guard)"
  shows "secret_word (k @ r) = Some r"
proof -
  have mark: "ascii_lower c = d \<Longrightarrow> d \<in> set ''_-k'' \<Longrightarrow> c = CHR ''_'' \<or> c = CHR ''-'' \<longleftrightarrow> d = CHR ''_'' \<or> d = CHR ''-''" for c d
  proof -
    have "list_all (\<lambda>c. ascii_lower c \<noteq> CHR ''_'' \<and> ascii_lower c \<noteq> CHR ''-'') ''ABCDEFGHIJKLMNOPQRSTUVWXYZ''"
      and "ascii_lower (CHR ''_'') = CHR ''_''" "ascii_lower (CHR ''-'') = CHR ''-''"
      by code_simp+
    then show "ascii_lower c = d \<Longrightarrow> d \<in> set ''_-k'' \<Longrightarrow> c = CHR ''_'' \<or> c = CHR ''-'' \<longleftrightarrow> d = CHR ''_'' \<or> d = CHR ''-''"
      unfolding ascii_lower_def is_upper_ascii_def list_all_iff by (metis (no_types))
  qed
  have "map ascii_lower k \<in> {''api_key'', ''api-key'', ''apikey'', ''token'', ''password'', ''secret''}"
    using assms by (simp add: secret_guard_def)
  then show ?thesis
    using mark [of _ "CHR ''_''"] mark [of _ "CHR ''-''"] mark [of _ "CHR ''k''"]
    by (auto simp: map_eq_Cons_conv secret_word_def)
qed

lemma visible_run_parts:
  assumes "s = a @ v" "v \<noteq> []" "\<not> is_space (hd v)"
  obtains n where "visible_run s v = Some (a @ ''[REDACTED]'', n)" "0 < n" "n \<le> length s" "blank_start (drop n s)"
proof -
  let ?rest = "dropWhile (\<lambda>c. \<not> is_space c) v"
  let ?run = "takeWhile (\<lambda>c. \<not> is_space c) v"
  let ?n = "length s - length ?rest"
  have s: "s = (a @ ?run) @ ?rest" using assms(1) by simp
  have "length s = length (a @ ?run) + length ?rest" by (subst s) (rule length_append)
  then have n: "?n = length (a @ ?run)" by linarith
  have "?run \<noteq> []" using assms(2,3) by (cases v) simp_all
  then have "0 < ?n" unfolding n by simp
  moreover have "drop (length u) (u @ ?rest) = ?rest" for u by simp
  then have "drop ?n s = ?rest" unfolding n using s by metis
  moreover have "blank_start ?rest" unfolding blank_start_def by (metis hd_dropWhile)
  ultimately show thesis using assms(1,2) that by (simp add: visible_run_def keep_group_def)
qed

lemma guard_members: "authorization_guard \<in> set guards" "cookie_guard \<in> set guards" "secret_guard \<in> set guards"
  by (simp_all add: guards_def)

lemma keepsI:
  assumes "s = (k @ x @ c # y @ e) @ v" "v \<noteq> []" "\<not> is_space (hd v)" "map ascii_lower k \<in> set (gd_words g)"
    and "list_all is_space x" "c \<in> set (gd_separators g)" "list_all is_space y" "scheme_part g e" "visible_run s v = Some (r, n)"
  shows "\<exists>k x c y e t. s = k @ t \<and> r = k @ x @ c # y @ e @ ''[REDACTED]''
     \<and> map ascii_lower k \<in> set (gd_words g) \<and> list_all is_space x \<and> c \<in> set (gd_separators g) \<and> list_all is_space y
     \<and> scheme_part g e \<and> 0 < n \<and> n \<le> length s \<and> blank_start (drop n s)"
proof (rule visible_run_parts [OF assms(1-3)])
  fix n'
  assume run: "visible_run s v = Some ((k @ x @ c # y @ e) @ ''[REDACTED]'', n')" "0 < n'" "n' \<le> length s" "blank_start (drop n' s)"
  then have "r = k @ x @ c # y @ e @ ''[REDACTED]''" "n = n'" using assms(9) by simp_all
  then show ?thesis
    using assms(1,4-8) run(2-4)
    by (intro exI [of _ k] exI [of _ x] exI [of _ c] exI [of _ y] exI [of _ e] exI [of _ "x @ c # y @ e @ v"] conjI) simp_all
qed

lemma secret_keeps: "keeps secret_guard secret_pattern"
  unfolding keeps_def
proof (intro allI impI)
  fix p s r n
  assume m: "secret_pattern p s = Some (r, n)"
  then obtain t v where t: "secret_word s = Some t" "after_separator ''=:'' t = Some v" "visible_run s v = Some (r, n)"
    by (auto simp: secret_pattern_def bind_eq_Some_conv split: option.splits)
  obtain k where k: "s = k @ t" "map ascii_lower k \<in> set (gd_words secret_guard)" using secret_word_Some [OF t(1)] by blast
  obtain x c y where x: "t = x @ c # y @ v" "list_all is_space x" "c \<in> set ''=:''" "list_all is_space y"
      "v = [] \<or> \<not> is_space (hd v)"
    by (rule after_separator_Some [OF t(2)])
  have "v \<noteq> []" using t(3) by (auto simp: visible_run_def)
  then show "\<exists>k x c y e t. s = k @ t \<and> r = k @ x @ c # y @ e @ ''[REDACTED]''
     \<and> map ascii_lower k \<in> set (gd_words secret_guard) \<and> list_all is_space x \<and> c \<in> set (gd_separators secret_guard)
     \<and> list_all is_space y \<and> scheme_part secret_guard e \<and> 0 < n \<and> n \<le> length s \<and> blank_start (drop n s)"
    using k x t(3)
    by (intro keepsI [of s k x c y "[]" v]) (auto simp: scheme_part_def secret_guard_def)
qed

lemma announced_parts:
  assumes "announces g s v" "g \<in> set guards"
  obtains k t where "s = k @ t" "map ascii_lower k \<in> set (gd_words g)" "after_separator (gd_separators g) t = Some v"
    "v \<noteq> []" "\<not> is_space (hd v)"
proof -
  obtain k x c y where w: "s = k @ x @ c # y @ v" "map ascii_lower k \<in> set (gd_words g)" "list_all is_space x"
      "c \<in> set (gd_separators g)" "list_all is_space y" "v \<noteq> []" "\<not> is_space (hd v)"
    using assms(1) unfolding announces_def by blast
  have "after_separator (gd_separators g) (x @ c # y @ v) = Some v"
    using after_separator_parts w(3-5,7) guard_separator [OF assms(2) w(4)] by blast
  then show thesis using that w by blast
qed

lemma secret_catches: "catches secret_guard secret_pattern"
  unfolding catches_def
proof (intro allI impI)
  fix p s v
  assume "announces secret_guard s v"
  then show "secret_pattern p s \<noteq> None"
  proof (rule announced_parts [OF _ guard_members(3)])
    fix k t
    assume t: "s = k @ t" "map ascii_lower k \<in> set (gd_words secret_guard)"
      "after_separator (gd_separators secret_guard) t = Some v" "v \<noteq> []"
    then have "after_separator ''=:'' t = Some v" by (simp add: secret_guard_def)
    then show ?thesis using t(4) secret_word_parts [OF t(2), of t] by (simp add: secret_pattern_def t(1) visible_run_def)
  qed
qed

lemma authorization_keeps: "keeps authorization_guard authorization_pattern"
  unfolding keeps_def
proof (intro allI impI)
  fix p s r n
  let ?g = authorization_guard
  assume m: "authorization_pattern p s = Some (r, n)"
  then obtain t v where t: "literal_ci ''authorization'' s = Some t" "after_separator '':'' t = Some v"
    by (auto simp: authorization_pattern_def bind_eq_Some_conv split: option.splits)
  obtain k where k: "s = k @ t" "map ascii_lower k \<in> set (gd_words ?g)"
    using t(1) by (auto simp: literal_ci_iff authorization_guard_def)
  obtain x c y where x: "t = x @ c # y @ v" "list_all is_space x" "c \<in> set '':''" "list_all is_space y"
      "v = [] \<or> \<not> is_space (hd v)"
    by (rule after_separator_Some [OF t(2)])
  have c: "c \<in> set (gd_separators ?g)" using x(3) by (simp add: authorization_guard_def)
  show "\<exists>k x c y e t. s = k @ t \<and> r = k @ x @ c # y @ e @ ''[REDACTED]''
     \<and> map ascii_lower k \<in> set (gd_words ?g) \<and> list_all is_space x \<and> c \<in> set (gd_separators ?g)
     \<and> list_all is_space y \<and> scheme_part ?g e \<and> 0 < n \<and> n \<le> length s \<and> blank_start (drop n s)"
  proof (cases "visible_run s v = Some (r, n)")
    case True
    then have "v \<noteq> []" by (auto simp: visible_run_def)
    then show ?thesis
      using k x c True by (intro keepsI [of s k x c y "[]" v]) (auto simp: scheme_part_def)
  next
    case False
    then obtain d u where u: "literal_ci ''bearer'' v = Some (d # u)" "is_space d" "skip_space u \<noteq> []"
        "visible_run s (skip_space u) = Some (r, n)"
      using m t by (auto simp: authorization_pattern_def split: option.splits list.splits if_splits)
    obtain w where w: "v = w @ d # u" "map ascii_lower w = ''bearer''" using u(1) by (auto simp: literal_ci_iff)
    obtain z where z: "u = z @ skip_space u" "list_all is_space z" "skip_space u = [] \<or> \<not> is_space (hd (skip_space u))"
      by (rule skip_space_parts)
    have v: "v = (w @ d # z) @ skip_space u" using w(1) z(1) by simp
    have e: "scheme_part ?g (w @ d # z)"
      unfolding scheme_part_def using w(2) u(2) z(2)
      by (intro disjI2 exI [of _ w] exI [of _ "d # z"]) (simp add: authorization_guard_def)
    have s: "s = (k @ x @ c # y @ w @ d # z) @ skip_space u" unfolding k(1) x(1) by (subst v) simp
    show ?thesis by (rule keepsI [OF s u(3) _ k(2) x(2) c x(4) e u(4)]) (use z(3) u(3) in simp)
  qed
qed

lemma authorization_catches: "catches authorization_guard authorization_pattern"
  unfolding catches_def
proof (intro allI impI)
  fix p s v
  assume "announces authorization_guard s v"
  then show "authorization_pattern p s \<noteq> None"
  proof (rule announced_parts [OF _ guard_members(1)])
    fix k t
    assume t: "s = k @ t" "map ascii_lower k \<in> set (gd_words authorization_guard)"
      "after_separator (gd_separators authorization_guard) t = Some v" "v \<noteq> []"
    then have "after_separator '':'' t = Some v" "literal_ci ''authorization'' s = Some t"
      by (auto simp: authorization_guard_def literal_ci_iff)
    then show ?thesis
      using t(4) by (simp add: authorization_pattern_def visible_run_def split: option.split list.split)
  qed
qed

lemma line_end_space: "line_end c \<Longrightarrow> is_space c"
  by (auto simp: line_end_def is_space_def)

lemma keep_group_parts:
  assumes "s = a @ b @ w" "b \<noteq> []"
  shows "keep_group s (b @ w) w = (a @ ''[REDACTED]'', length (a @ b))" "drop (length (a @ b)) s = w"
  using assms by (simp_all add: keep_group_def)

lemma cookie_keeps: "keeps cookie_guard cookie_pattern"
  unfolding keeps_def
proof (intro allI impI)
  fix p s r n
  let ?g = cookie_guard
  assume m: "cookie_pattern p s = Some (r, n)"
  have "\<exists>s' t. literal_ci ''cookie'' s = Some s' \<and> skip_space s' = CHR '':'' # t"
  proof (cases "literal_ci ''cookie'' s")
    case (Some s')
    then show ?thesis using m by (cases "skip_space s'") (auto simp: cookie_pattern_def split: if_splits)
  qed (use m in \<open>simp add: cookie_pattern_def\<close>)
  then obtain s' t where t: "literal_ci ''cookie'' s = Some s'" "skip_space s' = CHR '':'' # t" by blast
  obtain k where k: "s = k @ s'" "map ascii_lower k \<in> set (gd_words ?g)"
    using t(1) by (auto simp: literal_ci_iff cookie_guard_def)
  obtain x where x: "s' = x @ CHR '':'' # t" "list_all is_space x" using skip_space_parts [of s'] t(2) by metis
  obtain y where y: "t = y @ skip_space t" "list_all is_space y" "skip_space t = [] \<or> \<not> is_space (hd (skip_space t))"
    by (rule skip_space_parts)
  have "\<exists>z b w. t = z @ b @ w \<and> list_all is_space z \<and> b \<noteq> [] \<and> blank_start w
      \<and> cookie_pattern p s = Some (keep_group s (b @ w) w)"
  proof (cases "skip_space t = []")
    case False
    let ?b = "takeWhile (\<lambda>c. \<not> line_end c) (skip_space t)" and ?w = "dropWhile (\<lambda>c. \<not> line_end c) (skip_space t)"
    have "?b \<noteq> []" using False y(3) line_end_space by (cases "skip_space t") auto
    moreover have "blank_start ?w" unfolding blank_start_def using line_end_space by (metis hd_dropWhile)
    moreover have "cookie_pattern p s = Some (keep_group s (?b @ ?w) ?w)"
      using t False by (simp add: cookie_pattern_def Let_def)
    moreover have "t = y @ ?b @ ?w" using y(1) by simp
    ultimately show ?thesis using y(2) by blast
  next
    case True
    let ?kept = "length t - length (takeWhile line_end (rev t))"
    let ?z = "take (?kept - 1) t" and ?b = "take 1 (drop (?kept - 1) t)" and ?w = "drop ?kept t"
    have spaces: "list_all is_space t" using y(1,2) True by simp
    have kept: "?kept \<noteq> 0" "cookie_pattern p s = Some (keep_group s (drop (?kept - 1) t) ?w)"
      using m t True by (auto simp: cookie_pattern_def Let_def split: if_splits)
    have "1 + (?kept - 1) = ?kept" using kept(1) by linarith
    then have w: "drop 1 (drop (?kept - 1) t) = ?w" by (simp only: drop_drop)
    have bw: "drop (?kept - 1) t = ?b @ ?w"
      by (rule trans [OF append_take_drop_id [of 1, symmetric] arg_cong [OF w, of "append ?b"]])
    have "t = ?z @ drop (?kept - 1) t" by (rule append_take_drop_id [symmetric])
    also have "\<dots> = ?z @ ?b @ ?w" by (rule arg_cong [OF bw])
    finally have "t = ?z @ ?b @ ?w" .
    moreover have "list_all is_space ?z" "list_all is_space ?w" using spaces by (auto simp: list_all_iff dest: in_set_takeD in_set_dropD)
    moreover have "?b \<noteq> []" using kept(1) by (cases t) auto
    moreover have "blank_start ?w" using \<open>list_all is_space ?w\<close> by (cases ?w) (simp_all add: blank_start_def)
    moreover have "cookie_pattern p s = Some (keep_group s (?b @ ?w) ?w)"
      by (rule trans [OF kept(2) arg_cong [OF bw, of "\<lambda>u. Some (keep_group s u ?w)"]])
    ultimately show ?thesis by blast
  qed
  then obtain z b w where z: "t = z @ b @ w" "list_all is_space z" "b \<noteq> []" "blank_start w"
      "keep_group s (b @ w) w = (r, n)"
    using m by auto
  let ?a = "k @ x @ CHR '':'' # z"
  have s: "s = ?a @ b @ w" unfolding k(1) x(1) z(1) by simp
  note group = keep_group_parts [OF s z(3)]
  have r: "r = ?a @ ''[REDACTED]''" "n = length (?a @ b)" using group(1) z(5) by (auto simp only: prod.inject)
  have "n \<le> length s" unfolding r(2) s by (simp only: length_append)
  moreover have "0 < n" unfolding r(2) by simp
  moreover have "drop n s = w" unfolding r(2) by (rule group(2))
  ultimately show "\<exists>k x c y e t. s = k @ t \<and> r = k @ x @ c # y @ e @ ''[REDACTED]''
     \<and> map ascii_lower k \<in> set (gd_words ?g) \<and> list_all is_space x \<and> c \<in> set (gd_separators ?g)
     \<and> list_all is_space y \<and> scheme_part ?g e \<and> 0 < n \<and> n \<le> length s \<and> blank_start (drop n s)"
    using k x(2) z(2,4) r(1)
    by (intro exI [of _ k] exI [of _ x] exI [of _ "CHR '':''"] exI [of _ z] exI [of _ "[]"] exI [of _ s'] conjI)
       (simp_all add: cookie_guard_def scheme_part_def)
qed

lemma cookie_catches: "catches cookie_guard cookie_pattern"
  unfolding catches_def
proof (intro allI impI)
  fix p s v
  assume "announces cookie_guard s v"
  then show "cookie_pattern p s \<noteq> None"
  proof (rule announced_parts [OF _ guard_members(2)])
    fix k t
    assume t: "s = k @ t" "map ascii_lower k \<in> set (gd_words cookie_guard)"
      "after_separator (gd_separators cookie_guard) t = Some v" "v \<noteq> []"
    then have "literal_ci ''cookie'' s = Some t" by (auto simp: cookie_guard_def literal_ci_iff)
    moreover obtain t' where "skip_space t = CHR '':'' # t'" "skip_space t' = v"
      using t(3) by (auto simp: after_separator_def cookie_guard_def split: list.splits if_splits)
    ultimately show ?thesis using t(4) by (simp add: cookie_pattern_def Let_def)
  qed
qed

section \<open>Tokens\<close>

lemma token_here_head: "token_here p s \<Longrightarrow> head_here s"
proof -
  have "list_all (\<lambda>w. 2 \<le> length w \<and> (ascii_lower (w ! 0), ascii_lower (w ! 1)) \<in> set heads) token_heads" by code_simp
  moreover assume "token_here p s"
  then obtain w t where "w \<in> set token_heads" "s = w @ t" by (auto simp: token_here_def)
  ultimately have w: "2 \<le> length w" "(ascii_lower (w ! 0), ascii_lower (w ! 1)) \<in> set heads" "s = w @ t"
    unfolding list_all_iff by blast+
  then obtain c d w' where "w = c # d # w'" by (cases w; cases "tl w") auto
  then show ?thesis using w(2,3) by (simp add: head_here_def)
qed

lemma token_tame: "tame token_pattern"
  unfolding tame_def
proof (intro allI impI)
  fix p s r n
  assume m: "token_pattern p s = Some (r, n)"
  then have "token_here p s" using token_pattern_iff by (metis option.distinct(1))
  then show "head_here s \<and> 0 < n \<and> n \<le> length s \<and> r \<noteq> [] \<and> (hd r = CHR ''['' \<or> (\<forall>t. head_here (r @ t)))"
    using token_pattern_result [OF m] token_here_head by simp
qed

lemma announces_needs:
  assumes "g \<in> set guards" "announces g b v"
  obtains k c t where "b = k @ c # t" "map ascii_lower k \<in> set (gd_words g)" "c \<in> set ''=:'' \<or> is_space c"
proof -
  obtain k x c y where w: "b = k @ x @ c # y @ v" "map ascii_lower k \<in> set (gd_words g)" "list_all is_space x"
      "c \<in> set (gd_separators g)"
    using assms(2) unfolding announces_def by blast
  have "c \<in> set ''=:''" using words_shape(4) assms(1) w(4) unfolding list_all_iff by blast
  then show thesis using that w by (cases x) auto
qed

text \<open>The placeholder of a token ends in a word, but no separator follows it.\<close>

lemma token_inside:
  assumes g: "g \<in> set guards" and r: "''[REDACTED_TOKEN]'' = r1 @ r2" "r2 \<noteq> []"
  shows "masks g (r2 @ t)"
proof (cases "r1 = ''[REDACTED_''")
  case True
  then have r2: "r2 = ''TOKEN]''" using r(1) by simp
  show ?thesis
    unfolding masks_def
  proof (intro allI impI)
    fix v
    assume "announces g (r2 @ t) v"
    then obtain k c u where k: "r2 @ t = k @ c # u" "map ascii_lower k \<in> set (gd_words g)" "c \<in> set ''=:'' \<or> is_space c"
      by (rule announces_needs [OF g])
    have "map ascii_lower ''TOKEN'' \<in> set (gd_words secret_guard)" by code_simp
    then have "map ascii_lower ''TOKEN'' \<in> set all_words" by (rule guard_word(1) [OF guard_members(3)])
    from same_word [OF this guard_word(1) [OF g k(2)], of "CHR '']'' # t" "c # u"] have "c = CHR '']''" using k(1) by (simp add: r2)
    moreover have "\<not> is_space (CHR '']'')" by code_simp
    ultimately show "concealed (gd_schemes g) v" using k(3) by simp
  qed
next
  case False
  have q: "quiet ''[REDACTED_''" "quiet ''OKEN]''" by code_simp+
  have "''[REDACTED_'' @ ''TOKEN]'' = r1 @ r2" using r(1) by simp
  from iffD1 [OF append_eq_append_conv2 this]
  obtain u where "''[REDACTED_'' = r1 @ u \<and> r2 = u @ ''TOKEN]'' \<or> r1 = ''[REDACTED_'' @ u \<and> ''TOKEN]'' = u @ r2"
    by metis
  then have "\<not> head_here (r2 @ t)"
  proof (elim disjE conjE)
    assume u: "''[REDACTED_'' = r1 @ u" "r2 = u @ ''TOKEN]''"
    have "u \<noteq> []" using u(1) False by auto
    then show ?thesis using quiet_no_head [of r1 u "''TOKEN]'' @ t"] q(1) unfolding u by simp
  next
    assume u: "r1 = ''[REDACTED_'' @ u" "''TOKEN]'' = u @ r2"
    then obtain u' where "u = CHR ''T'' # u'" using False by (cases u) auto
    then have "quiet (u' @ r2)" using q(2) u(2) by simp
    then show ?thesis using quiet_no_head [of u' r2 t] r(2) by simp
  qed
  then show ?thesis using announces_head [OF g] by (auto simp: masks_def)
qed

lemma token_pass:
  assumes g: "g \<in> set guards" "masked g s"
  shows "masked g (sub_from token_pattern p s 0)"
proof (rule sub_masked [OF token_tame g(1)])
  show "masks g b" if "s = a @ b" for a b using masked_suffix [OF g(2) that] .
  show "masks g (r2 @ sub_from token_pattern q (drop n b) 0)"
    if "token_pattern p' b = Some (r, n)" "r = r1 @ r2" "r2 \<noteq> []" for p' b r n q r1 r2
    using token_pattern_result [OF that(1)] that(2,3) token_inside [OF g(1)] by metis
qed

lemma redact_masked:
  assumes "g \<in> set guards"
  shows "masked g (redact s)"
proof -
  have own: "masked authorization_guard (sub_from authorization_pattern p t 0)" "masked cookie_guard (sub_from cookie_pattern p t 0)"
    "masked secret_guard (sub_from secret_pattern p t 0)" for p t
    by (rule kept_pass_own guard_members authorization_keeps authorization_catches cookie_keeps cookie_catches secret_keeps
        secret_catches)+
  have other: "masked g t \<Longrightarrow> masked g (sub_from cookie_pattern p t 0)" "masked g t \<Longrightarrow> masked g (sub_from secret_pattern p t 0)" for p t
    using kept_pass_other [OF guard_members(2) cookie_keeps assms] kept_pass_other [OF guard_members(3) secret_keeps assms] by blast+
  have "masked g (regex_sub secret_pattern (regex_sub cookie_pattern (regex_sub authorization_pattern s)))"
    using assms own other unfolding guards_def regex_sub_def by auto
  then show ?thesis unfolding redact_def regex_sub_def by (rule token_pass [OF assms])
qed

section \<open>White space\<close>

lemma squeeze_suffix:
  "squeeze b s = a @ c # t \<Longrightarrow> \<not> is_space c \<Longrightarrow> \<exists>p s'. s = p @ c # s' \<and> t = squeeze False s'"
proof (induction s arbitrary: a b)
  case (Cons d s)
  have blank: "is_space (CHR '' '')" by code_simp
  have "squeeze True s = [] @ c # t \<or> (\<exists>a'. squeeze True s = a' @ c # t)" if "is_space d"
    using Cons.prems blank that by (cases a; cases b) auto
  moreover have "c = d \<and> t = squeeze False s \<or> (\<exists>a'. squeeze False s = a' @ c # t)" if "\<not> is_space d"
    using Cons.prems(1) that by (cases a) auto
  ultimately have "c = d \<and> t = squeeze False s \<or> (\<exists>b' a'. squeeze b' s = a' @ c # t)" by blast
  then show ?case
  proof
    assume "\<exists>b' a'. squeeze b' s = a' @ c # t"
    then obtain p s' where "s = p @ c # s'" "t = squeeze False s'" using Cons.IH Cons.prems(2) by blast
    then show ?thesis by (intro exI [of _ "d # p"] exI [of _ s']) simp
  qed (use Cons in blast)
qed simp

lemma squeeze_word:
  "squeeze False s = k @ t \<Longrightarrow> list_all (\<lambda>c. \<not> is_space c) k \<Longrightarrow> \<exists>s'. s = k @ s' \<and> t = squeeze False s'"
proof (induction k arbitrary: s)
  case (Cons c k)
  have "is_space (CHR '' '')" by code_simp
  then obtain s' where "s = c # s'" "squeeze False s' = k @ t" using Cons.prems by (cases s) (auto split: if_splits)
  then show ?case using Cons.IH [of s'] Cons.prems(2) by auto
qed simp

lemma squeeze_gap:
  "squeeze b s = x @ c # t \<Longrightarrow> list_all is_space x \<Longrightarrow> \<not> is_space c \<Longrightarrow>
     \<exists>x' s'. s = x' @ c # s' \<and> list_all is_space x' \<and> t = squeeze False s'"
proof (induction s arbitrary: b x)
  case (Cons d s)
  have blank: "is_space (CHR '' '')" by code_simp
  show ?case
  proof (cases "is_space d")
    case True
    have "squeeze True s = x @ c # t \<and> list_all is_space x \<or> (\<exists>x1. squeeze True s = x1 @ c # t \<and> list_all is_space x1)"
      using Cons.prems blank True by (cases x; cases b) auto
    then obtain b' x1 where "squeeze b' s = x1 @ c # t" "list_all is_space x1" by blast
    then obtain x' s' where "s = x' @ c # s'" "list_all is_space x'" "t = squeeze False s'" using Cons.IH Cons.prems(3) by blast
    then show ?thesis using True by (intro exI [of _ "d # x'"] exI [of _ s']) simp
  next
    case False
    then have "d = c \<and> t = squeeze False s" using Cons.prems by (cases x) auto
    then show ?thesis by (intro exI [of _ "[]"] exI [of _ s]) simp
  qed
qed simp

lemma squeeze_visible: "list_all (\<lambda>c. \<not> is_space c) w \<Longrightarrow> squeeze False (w @ t) = w @ squeeze False t"
  by (induction w) simp_all

lemma squeeze_blank: "list_all is_space z \<Longrightarrow> z \<noteq> [] \<Longrightarrow> squeeze b (z @ u) = (if b then [] else [CHR '' '']) @ squeeze True u"
proof (induction z arbitrary: b)
  case (Cons c z)
  then show ?case by (cases "z = []") simp_all
qed simp

lemma squeeze_placeholder: "placeholder v \<Longrightarrow> placeholder (squeeze b v)"
proof -
  assume "placeholder v"
  then obtain u where u: "v = ''[REDACTED]'' @ u" "blank_start u" unfolding placeholder_iff by blast
  have brackets: "list_all (\<lambda>c. \<not> is_space c) ''[REDACTED]''" "is_space (CHR '' '')" by code_simp+
  have "squeeze b v = squeeze False v" using brackets(1) by (simp add: u(1))
  also have "\<dots> = ''[REDACTED]'' @ squeeze False u" unfolding u(1) by (rule squeeze_visible [OF brackets(1)])
  finally show ?thesis
    using u(2) brackets(2) unfolding placeholder_iff by (cases u) (auto simp: blank_start_def)
qed

lemma scheme_visible:
  assumes "g \<in> set guards" "map ascii_lower w \<in> set (gd_schemes g)"
  shows "list_all (\<lambda>c. \<not> is_space c) w"
proof -
  have "\<not> is_space (ascii_lower c)" if "c \<in> set w" for c
    using words_shape(5) assms that unfolding list_all_iff by (metis imageI list.set_map)
  moreover have "is_space c \<Longrightarrow> ascii_lower c = c" for c
  proof -
    have "list_all (\<lambda>c. \<not> is_space c) ''ABCDEFGHIJKLMNOPQRSTUVWXYZ''" by code_simp
    then show "is_space c \<Longrightarrow> ascii_lower c = c"
      unfolding ascii_lower_def is_upper_ascii_def list_all_iff by (metis (no_types))
  qed
  ultimately show ?thesis unfolding list_all_iff by metis
qed

lemma squeeze_concealed:
  assumes "g \<in> set guards" "concealed (gd_schemes g) v"
  shows "concealed (gd_schemes g) (squeeze False v)"
  using assms(2) unfolding concealed_def
proof (elim disjE exE conjE)
  fix w z u
  assume w: "v = w @ z @ u" "map ascii_lower w \<in> set (gd_schemes g)" "z \<noteq> []" "list_all is_space z" "placeholder u"
  have "squeeze False v = w @ [CHR '' ''] @ squeeze True u"
    unfolding w(1) using squeeze_visible [OF scheme_visible [OF assms(1) w(2)]] squeeze_blank [OF w(4,3), of False u] by simp
  moreover have "list_all is_space [CHR '' '']" by code_simp
  ultimately show "placeholder (squeeze False v) \<or> (\<exists>w z u. squeeze False v = w @ z @ u \<and> map ascii_lower w \<in> set (gd_schemes g)
      \<and> z \<noteq> [] \<and> list_all is_space z \<and> placeholder u)"
    using w(2) squeeze_placeholder [OF w(5)] 
    by (intro disjI2 exI [of _ w] exI [of _ "[CHR '' '']"] exI [of _ "squeeze True u"] conjI) simp_all
qed (use squeeze_placeholder in blast)

lemma squeeze_masked:
  assumes g: "g \<in> set guards" and "masked g s"
  shows "masked g (squeeze b s)"
  unfolding masked_def
proof (intro allI impI)
  fix a t v
  assume t: "squeeze b s = a @ t" "announces g t v"
  obtain k x c y where w: "t = k @ x @ c # y @ v" "map ascii_lower k \<in> set (gd_words g)" "list_all is_space x"
      "c \<in> set (gd_separators g)" "list_all is_space y" "v \<noteq> []" "\<not> is_space (hd v)"
    using t(2) unfolding announces_def by blast
  obtain d k' where k: "k = d # k'" using guard_word(2) [OF g w(2)] by (cases k) auto
  have visible: "\<not> is_space d" "list_all (\<lambda>c. \<not> is_space c) k'" using guard_word(5) [OF g w(2)] by (auto simp: k list_all_iff)
  have "squeeze b s = a @ d # (k' @ x @ c # y @ v)" using t(1) w(1) by (simp add: k)
  then obtain p s1 where s1: "s = p @ d # s1" "k' @ x @ c # y @ v = squeeze False s1" using squeeze_suffix visible(1) by blast
  obtain s2 where s2: "s1 = k' @ s2" "x @ c # y @ v = squeeze False s2"
    using squeeze_word [OF s1(2) [symmetric] visible(2)] by blast
  obtain x' s3 where s3: "s2 = x' @ c # s3" "list_all is_space x'" "y @ v = squeeze False s3"
    using squeeze_gap [OF s2(2) [symmetric] w(3)] guard_separator [OF g w(4)] by blast
  obtain e v' where v: "v = e # v'" using w(6) by (cases v) auto
  have "squeeze False s3 = y @ e # v'" using s3(3) by (simp add: v)
  then obtain y' s4 where s4: "s3 = y' @ e # s4" "list_all is_space y'" "v' = squeeze False s4"
    using squeeze_gap w(5,7) by (metis v list.sel(1))
  have "announces g (d # s1) (e # s4)"
    unfolding announces_def using w(2,4,7) s3(2) s4(2)
    by (intro conjI exI [of _ k] exI [of _ x'] exI [of _ c] exI [of _ y']) (simp_all add: s2(1) s3(1) s4(1) k v)
  then have "concealed (gd_schemes g) (e # s4)" using assms(2) s1(1) unfolding masked_def by blast
  then have "concealed (gd_schemes g) (squeeze False (e # s4))" by (rule squeeze_concealed [OF g])
  then show "concealed (gd_schemes g) v" using w(7) by (simp add: v s4(3))
qed

section \<open>The ends of the text\<close>

lemma cut_spaces:
  assumes "v @ z = a @ u" "a \<noteq> []" "\<not> is_space (last a)" "list_all is_space z"
  obtains u' where "v = a @ u'" "u = u' @ z"
proof -
  obtain r where "v = a @ r \<and> r @ z = u \<or> v @ r = a \<and> z = r @ u" using assms(1) by (auto simp: append_eq_append_conv2)
  then show thesis
  proof (elim disjE conjE)
    assume r: "v @ r = a" "z = r @ u"
    have "r = []" using r assms(3,4) by (cases r rule: rev_cases) auto
    then show thesis using r that [of "[]"] by simp
  qed (use that in auto)
qed

lemma cut_placeholder:
  assumes "v @ z = a @ u" "placeholder u" "list_all is_space z"
  shows "\<exists>u'. v = a @ u' \<and> placeholder u'"
proof -
  obtain u1 where u1: "u = ''[REDACTED]'' @ u1" "blank_start u1" using assms(2) unfolding placeholder_iff by blast
  have "\<not> is_space (CHR '']'')" by code_simp
  then have end_: "\<not> is_space (last (a @ ''[REDACTED]''))" by simp
  have "v @ z = (a @ ''[REDACTED]'') @ u1" using assms(1) by (simp add: u1(1))
  then obtain u' where u': "v = (a @ ''[REDACTED]'') @ u'" "u1 = u' @ z"
    by (rule cut_spaces [OF _ _ end_ assms(3)]) simp
  have "blank_start u'" using u1(2) u'(2) by (cases u') (simp_all add: blank_start_def)
  then show ?thesis
    unfolding placeholder_iff u'(1) by (intro exI [of _ "''[REDACTED]'' @ u'"]) auto
qed

lemma cut_masked:
  assumes "masked g (a @ m @ z)" "list_all is_space z"
  shows "masked g m"
  unfolding masked_def
proof (intro allI impI)
  fix b t v
  assume t: "m = b @ t" "announces g t v"
  then obtain k x c y where w: "t = k @ x @ c # y @ v" "map ascii_lower k \<in> set (gd_words g)" "list_all is_space x"
      "c \<in> set (gd_separators g)" "list_all is_space y" "v \<noteq> []" "\<not> is_space (hd v)"
    unfolding announces_def by blast
  have "announces g (t @ z) (v @ z)"
    unfolding announces_def using w
    by (intro conjI exI [of _ k] exI [of _ x] exI [of _ c] exI [of _ y]) simp_all
  moreover have "a @ m @ z = (a @ b) @ (t @ z)" by (simp add: t(1))
  ultimately have "concealed (gd_schemes g) (v @ z)" using assms(1) unfolding masked_def by blast
  then show "concealed (gd_schemes g) v"
    unfolding concealed_def
  proof (elim disjE exE conjE)
    assume "placeholder (v @ z)"
    then show "placeholder v \<or> (\<exists>w z u. v = w @ z @ u \<and> map ascii_lower w \<in> set (gd_schemes g) \<and> z \<noteq> []
        \<and> list_all is_space z \<and> placeholder u)"
      using cut_placeholder [of v z "[]" "v @ z"] assms(2) by auto
  next
    fix w z' u
    assume v: "v @ z = w @ z' @ u" "map ascii_lower w \<in> set (gd_schemes g)" "z' \<noteq> []" "list_all is_space z'" "placeholder u"
    obtain u' where "v = (w @ z') @ u'" "placeholder u'"
      using cut_placeholder [of v z "w @ z'" u] v(1,5) assms(2) by auto
    then show "placeholder v \<or> (\<exists>w z u. v = w @ z @ u \<and> map ascii_lower w \<in> set (gd_schemes g) \<and> z \<noteq> []
        \<and> list_all is_space z \<and> placeholder u)"
      using v(2-4) by (intro disjI2 exI [of _ w] exI [of _ z'] exI [of _ u']) simp
  qed
qed

lemma diagnostic_masked:
  assumes "g \<in> set guards"
  shows "masked g (diagnostic s)"
proof -
  let ?t = "squeeze False (redact (drop_nul s))"
  have "masked g ?t" by (rule squeeze_masked [OF assms redact_masked [OF assms]])
  moreover obtain a z where "?t = a @ strip ?t @ z" "list_all is_space z" using strip_parts by blast
  ultimately show ?thesis using cut_masked unfolding diagnostic_def by metis
qed

text \<open>
  C32: a diagnostic that is stored is bounded, is one line, and is cut from a text in which no credential
  of a known form is left: no token of a known prefix stands anywhere, and the visible text behind
  \<open>authorization:\<close>, \<open>cookie:\<close>, or \<open>api_key\<close>, \<open>token\<close>, \<open>password\<close> or \<open>secret\<close> with \<open>=\<close> or \<open>:\<close>, in any case
  and with any white space, is the placeholder up to the next white space; behind \<open>authorization:\<close> the
  word \<open>bearer\<close> may stand before it.  What follows that white space is not covered: behind
  \<open>authorization: basic\<close> it is the credential.
\<close>

theorem stored_diagnostic_is_safe:
  "length (safe_text limit v) \<le> limit \<and> set (safe_text limit v) \<inter> {c. is_space c} \<subseteq> {CHR '' ''}
     \<and> safe_text limit v = take limit (diagnostic (py_str v)) \<and> token_free None (diagnostic (py_str v))
     \<and> masked authorization_guard (diagnostic (py_str v)) \<and> masked cookie_guard (diagnostic (py_str v))
     \<and> masked secret_guard (diagnostic (py_str v))"
  using diagnostic_spaces [of "py_str v"] set_take_subset [of limit "diagnostic (py_str v)"] diagnostic_token_free
    diagnostic_masked [OF guard_members(1)] diagnostic_masked [OF guard_members(2)] diagnostic_masked [OF guard_members(3)]
  unfolding safe_text_def by auto

end
