(* ===== verification/Phased_Parse.thy ===== *)
theory Phased_Parse
  imports Json_File Protocol_Commands
begin

text \<open>
  \<open>worker/phased_task.py\<close>, first part: the optional phased body of a command.  A line of the command
  is a line of \<open>str.splitlines\<close>; a regular expression of the code is the function of the line it
  matches, returning its groups.
\<close>

section \<open>Vocabulary\<close>

definition SCHEMA_VERSION :: int where
  "SCHEMA_VERSION = 1"

definition FINAL_ACCEPTANCE :: string where
  "FINAL_ACCEPTANCE = ''FINAL_ACCEPTANCE''"

definition PHASE_IDS :: "string list" where
  "PHASE_IDS = [''A'', ''B'', ''C'', ''D'']"

text \<open>Regular expressions on one line.\<close>

definition DECLARATION_RE :: "string \<Rightarrow> string option" where
  "DECLARATION_RE line =
     Option.bind (strip_prefix ''<!--'' (lstrip line)) (\<lambda>s1.
     Option.bind (strip_prefix ''bridge-phased-task'' (lstrip s1)) (\<lambda>s2.
     Option.bind (strip_prefix '':'' (lstrip s2)) (\<lambda>s3.
       let r = rstrip s3 in if has_suffix ''-->'' r then Some (strip (take (length r - 3) r)) else None)))"

text \<open>\<open>re.search\<close> of an opening comment followed by one of some words, in any case, at a word boundary.\<close>

definition word_follows :: "string \<Rightarrow> string \<Rightarrow> bool" where
  "word_follows w s \<longleftrightarrow> map ascii_lower (take (length w) s) = w
     \<and> (case drop (length w) s of [] \<Rightarrow> True | c # _ \<Rightarrow> \<not> is_word c)"

definition opens_comment :: "string list \<Rightarrow> string \<Rightarrow> bool" where
  "opens_comment ws s \<longleftrightarrow> (case strip_prefix ''<!--'' s of
     None \<Rightarrow> False | Some r \<Rightarrow> list_ex (\<lambda>w. word_follows w (lstrip r)) ws)"

fun comment_hint :: "string list \<Rightarrow> string \<Rightarrow> bool" where
  "comment_hint ws [] = False"
| "comment_hint ws (c # s) = (opens_comment ws (c # s) \<or> comment_hint ws s)"

definition DECLARATION_HINT_RE :: "string \<Rightarrow> bool" where
  "DECLARATION_HINT_RE line \<longleftrightarrow> comment_hint [''bridge-phased-task''] line"

definition MARKER_HINT_RE :: "string \<Rightarrow> bool" where
  "MARKER_HINT_RE line \<longleftrightarrow> comment_hint [''bridge-global'', ''bridge-phase'', ''bridge-final-acceptance''] line"

fun strip_any :: "string list \<Rightarrow> string \<Rightarrow> (string \<times> string) option" where
  "strip_any [] s = None"
| "strip_any (w # ws) s = (case strip_prefix w s of Some r \<Rightarrow> Some (w, r) | None \<Rightarrow> strip_any ws s)"

definition marker_kinds :: "string list" where
  "marker_kinds = ''bridge-global'' # map (\<lambda>p. ''bridge-phase:'' @ p) PHASE_IDS @ [''bridge-final-acceptance'']"

definition MARKER_RE :: "string \<Rightarrow> (string \<times> string) option" where
  "MARKER_RE line =
     Option.bind (strip_prefix ''<!--'' (lstrip line)) (\<lambda>s1.
     Option.bind (strip_any marker_kinds (lstrip s1)) (\<lambda>(kind, s2).
     Option.bind (strip_prefix '':'' (lstrip s2)) (\<lambda>s3.
     Option.bind (strip_any [''start'', ''end''] (lstrip s3)) (\<lambda>(action, s4).
       if comment_closes s4 then Some (kind, action) else None))))"

definition marker_key :: "string \<times> string \<Rightarrow> string \<times> string" where
  "marker_key m = (case m of (kind, action) \<Rightarrow>
     if kind = ''bridge-global'' then (''global'', action)
     else if kind = ''bridge-final-acceptance'' then (''final'', action)
     else (''phase:'' @ drop 13 kind, action))"

definition COMMAND_METADATA_RE :: "string \<Rightarrow> bool" where
  "COMMAND_METADATA_RE line \<longleftrightarrow>
     (case Option.bind (strip_prefix ''<!--'' (lstrip line)) (\<lambda>s1.
       Option.bind (strip_prefix ''bridge-command'' (lstrip s1)) (\<lambda>s2. strip_prefix '':'' (lstrip s2))) of
        None \<Rightarrow> False | Some s3 \<Rightarrow> has_suffix ''-->'' (rstrip s3))"

definition COMMAND_TITLE_RE :: "string \<Rightarrow> bool" where
  "COMMAND_TITLE_RE line \<longleftrightarrow>
     (case strip_prefix ''#'' line of
        None \<Rightarrow> False
      | Some s1 \<Rightarrow> s1 \<noteq> [] \<and> is_space (hd s1) \<and>
          (case strip_prefix ''Command'' (lstrip s1) of
             None \<Rightarrow> False
           | Some s2 \<Rightarrow> s2 \<noteq> [] \<and> is_space (hd s2) \<and>
               (let digits = takeWhile is_digit (lstrip s2); rest = dropWhile is_digit (lstrip s2) in
                3 \<le> length digits \<and> (rest = [] \<or> \<not> is_word (hd rest)))))"

section \<open>The declaration\<close>

definition declaration_value :: "(string \<Rightarrow> py) \<Rightarrow> string \<Rightarrow> pyexc + pydict" where
  "declaration_value float_of payload =
     (case json_loads_strict float_of payload of
        Inl e \<Rightarrow> Inl (if e = DuplicateKey
            then PhasedTaskError ''bridge-phased-task declaration contains duplicate JSON keys''
          else if e = DecodeError then PhasedTaskError ''malformed bridge-phased-task JSON declaration''
          else ValueError ''Exceeds the limit (4300 digits) for integer string conversion'')
      | Inr v \<Rightarrow> if is_dict v then Inr (the_dict v)
          else Inl (PhasedTaskError ''bridge-phased-task declaration must be a JSON object''))"

fun declarations :: "(string \<Rightarrow> py) \<Rightarrow> string list \<Rightarrow> pyexc + pydict list" where
  "declarations float_of [] = Inr []"
| "declarations float_of (line # ls) =
     (if \<not> DECLARATION_HINT_RE line then declarations float_of ls
      else (case DECLARATION_RE line of
          None \<Rightarrow> Inl (PhasedTaskError ''malformed bridge-phased-task declaration'')
        | Some payload \<Rightarrow> res_bind (declaration_value float_of payload) (\<lambda>v.
            res_bind (declarations float_of ls) (\<lambda>vs. Inr (v # vs)))))"

definition schema_supported :: "pydict \<Rightarrow> bool" where
  "schema_supported d \<longleftrightarrow> is_int (dget d ''schema_version'') \<and> dget d ''schema_version'' = PyInt SCHEMA_VERSION"

definition declared_phases :: "pydict \<Rightarrow> pyexc + string list" where
  "declared_phases v =
     (let phases = dget v ''phases'' in
      run_checks
        [ensure (set (dkeys v) = set [''schema_version'', ''phases''])
           (PhasedTaskError ''bridge-phased-task declaration contains unsupported fields''),
         ensure (schema_supported v) (PhasedTaskError ''unsupported bridge-phased-task schema_version''),
         ensure (is_list phases \<and> 1 \<le> length (the_list phases) \<and> length (the_list phases) \<le> length PHASE_IDS)
           (PhasedTaskError ''bridge-phased-task phases must contain 1 to 4 phases''),
         ensure (list_all is_str (the_list phases)) (PhasedTaskError ''bridge-phased-task phase ids must be strings''),
         ensure (the_list phases = map PyStr (take (length (the_list phases)) PHASE_IDS))
           (PhasedTaskError ''bridge-phased-task phases must be exactly the ordered prefix A, B, C, D'')]
        (Inr (map the_str (the_list phases))))"

definition parse_declaration :: "(string \<Rightarrow> py) \<Rightarrow> string \<Rightarrow> pyexc + string list option" where
  "parse_declaration float_of command_text =
     res_bind (declarations float_of (splitlines command_text)) (\<lambda>matches.
       if matches = [] then Inr None
       else if length matches \<noteq> 1 then Inl (PhasedTaskError ''expected exactly one bridge-phased-task declaration'')
       else res_bind (declared_phases (hd matches)) (\<lambda>phases. Inr (Some phases)))"

section \<open>The sections\<close>

record phased_task =
  pt_schema_version :: int
  pt_phases :: "string list"
  pt_global_text :: string
  pt_phase_sections :: "(string \<times> string) list"
  pt_final_acceptance_text :: string
  pt_source_text :: string

definition phase_text :: "phased_task \<Rightarrow> string \<Rightarrow> pyexc + string" where
  "phase_text task phase = (case map_of (pt_phase_sections task) phase of
     Some t \<Rightarrow> Inr t | None \<Rightarrow> Inl (PhasedTaskError (''Unknown declared phase: '' @ phase)))"

definition normalized_section :: "string list \<Rightarrow> string \<Rightarrow> pyexc + string" where
  "normalized_section ls label =
     (let t = strip (join [CHR 0x0A] ls) in
      if t = [] then Inl (PhasedTaskError (''phased task '' @ label @ '' section must be non-empty'')) else Inr t)"

record phased_scan =
  sc_sections :: "(string \<times> string) list"
  sc_order :: "string list"
  sc_current :: "string option"
  sc_body :: "string list"
  sc_title_seen :: bool
  sc_section_seen :: bool

definition scan_start :: phased_scan where
  "scan_start = \<lparr>sc_sections = [], sc_order = [], sc_current = None, sc_body = [], sc_title_seen = False,
     sc_section_seen = False\<rparr>"

definition section_label :: "string \<Rightarrow> string" where
  "section_label key = (if key = ''global'' then ''GLOBAL'' else if key = ''final'' then ''FINAL_ACCEPTANCE'' else key)"

text \<open>A line that is no marker.\<close>

definition scan_content :: "phased_scan \<Rightarrow> string \<Rightarrow> pyexc + phased_scan" where
  "scan_content st line =
     (if MARKER_HINT_RE line then Inl (PhasedTaskError ''malformed or unsupported phased section marker'')
      else if sc_current st \<noteq> None then Inr (st\<lparr>sc_body := sc_body st @ [line]\<rparr>)
      else if strip line \<noteq> [] \<and> \<not> COMMAND_METADATA_RE line then
        (if COMMAND_TITLE_RE line then
           (if sc_title_seen st then Inl (PhasedTaskError ''phased task header contains multiple command titles'')
            else if sc_section_seen st
              then Inl (PhasedTaskError ''phased task command title must appear before its sections'')
            else Inr (st\<lparr>sc_title_seen := True\<rparr>))
         else Inl (PhasedTaskError ''phased task contains non-section content outside its markers''))
      else Inr st)"

definition scan_marker :: "string list \<Rightarrow> phased_scan \<Rightarrow> string \<Rightarrow> string \<Rightarrow> pyexc + phased_scan" where
  "scan_marker declared st key action =
     (if has_prefix ''phase:'' key \<and> key \<notin> set declared
      then Inl (PhasedTaskError (''undeclared phase section: '' @ drop 6 key))
      else if action = ''start'' then
        (if sc_current st \<noteq> None then Inl (PhasedTaskError ''nested or overlapping phased section markers'')
         else if key \<in> set (map fst (sc_sections st)) \<or> key \<in> set (sc_order st)
           then Inl (PhasedTaskError (''duplicate phased section: '' @ key))
         else Inr (st\<lparr>sc_current := Some key, sc_body := [], sc_order := sc_order st @ [key], sc_section_seen := True\<rparr>))
      else (case sc_current st of
          None \<Rightarrow> Inl (PhasedTaskError (''phased section ended without start: '' @ key))
        | Some current \<Rightarrow>
            if current \<noteq> key
            then Inl (PhasedTaskError (''phased section ended out of order: expected '' @ current @ '', found '' @ key))
            else res_bind (normalized_section (sc_body st) (section_label key)) (\<lambda>t.
              Inr (st\<lparr>sc_sections := AList.update key t (sc_sections st), sc_current := None, sc_body := []\<rparr>))))"

definition scan_line :: "string list \<Rightarrow> phased_scan \<Rightarrow> string \<Rightarrow> pyexc + phased_scan" where
  "scan_line declared st line =
     (if DECLARATION_HINT_RE line then Inr st
      else (case MARKER_RE line of
          None \<Rightarrow> scan_content st line
        | Some m \<Rightarrow> (case marker_key m of (key, action) \<Rightarrow> scan_marker declared st key action)))"

fun scan_lines :: "string list \<Rightarrow> phased_scan \<Rightarrow> string list \<Rightarrow> pyexc + phased_scan" where
  "scan_lines declared st [] = Inr st"
| "scan_lines declared st (line # ls) = res_bind (scan_line declared st line) (\<lambda>st'. scan_lines declared st' ls)"

definition phase_keys :: "string list \<Rightarrow> string list" where
  "phase_keys phases = map (\<lambda>p. ''phase:'' @ p) phases"

definition order_checks :: "string list \<Rightarrow> phased_scan \<Rightarrow> pyexc option" where
  "order_checks expected st =
     (let missing = filter (\<lambda>k. k \<notin> set (map fst (sc_sections st))) expected;
          undeclared = filter (\<lambda>k. k \<notin> set expected) (sc_order st) in
      if sc_order st = expected then None
      else if missing \<noteq> []
        then Some (PhasedTaskError (''phased task is missing section(s): '' @ join '', '' missing))
      else if undeclared \<noteq> []
        then Some (PhasedTaskError (''phased task contains undeclared section(s): '' @ join '', '' undeclared))
      else Some (PhasedTaskError ''phased task section order does not match declaration''))"

definition section_of :: "phased_scan \<Rightarrow> string \<Rightarrow> string" where
  "section_of st key = (case map_of (sc_sections st) key of Some t \<Rightarrow> t | None \<Rightarrow> [])"

definition parse_phased_task :: "(string \<Rightarrow> py) \<Rightarrow> string \<Rightarrow> pyexc + phased_task option" where
  "parse_phased_task float_of command_text =
     res_bind (parse_declaration float_of command_text) (\<lambda>declaration.
     (case declaration of
        None \<Rightarrow>
          if list_ex MARKER_HINT_RE (splitlines command_text)
          then Inl (PhasedTaskError ''phased body markers require one bridge-phased-task declaration'')
          else Inr None
      | Some phases \<Rightarrow>
          res_bind (scan_lines (phase_keys phases) scan_start (splitlines command_text)) (\<lambda>st.
          run_checks
            [(case sc_current st of None \<Rightarrow> None
              | Some key \<Rightarrow> Some (PhasedTaskError (''phased section is missing its end marker: '' @ key))),
             order_checks (''global'' # phase_keys phases @ [''final'']) st]
            (Inr (Some \<lparr>pt_schema_version = SCHEMA_VERSION, pt_phases = phases,
               pt_global_text = section_of st ''global'',
               pt_phase_sections = map (\<lambda>p. (p, section_of st (''phase:'' @ p))) phases,
               pt_final_acceptance_text = section_of st ''final'', pt_source_text = command_text\<rparr>)))))"

end
