(* ===== verification/Phased_Body.thy ===== *)
theory Phased_Body
  imports Phased_Parse
begin

text \<open>
  What the parser of \<open>Phased_Parse\<close> guarantees: every task it returns is well formed, and every
  well-formed task is parsed back from a command that declares it.
\<close>

section \<open>Well-formed tasks\<close>

definition section_text :: "string \<Rightarrow> bool" where
  "section_text t \<longleftrightarrow> t \<noteq> [] \<and> strip t = t"

definition phase_prefix :: "string list \<Rightarrow> bool" where
  "phase_prefix phases \<longleftrightarrow> phases \<noteq> [] \<and> length phases \<le> length PHASE_IDS \<and> phases = take (length phases) PHASE_IDS"

definition wf_phased_task :: "phased_task \<Rightarrow> bool" where
  "wf_phased_task task \<longleftrightarrow> pt_schema_version task = SCHEMA_VERSION \<and> phase_prefix (pt_phases task)
     \<and> map fst (pt_phase_sections task) = pt_phases task \<and> section_text (pt_global_text task)
     \<and> list_all section_text (map snd (pt_phase_sections task)) \<and> section_text (pt_final_acceptance_text task)"

lemma normalized_section_text: "normalized_section ls label = Inr t \<Longrightarrow> section_text t"
  by (auto simp: normalized_section_def Let_def section_text_def split: if_splits)

text \<open>
  What the scanner has collected: the sections that were closed are texts, and the keys it opened
  are those it closed and the one that is open.
\<close>

definition scan_inv :: "phased_scan \<Rightarrow> bool" where
  "scan_inv st \<longleftrightarrow> list_all section_text (map snd (sc_sections st)) \<and> distinct (sc_order st)
     \<and> sc_order st = map fst (sc_sections st) @ (case sc_current st of None \<Rightarrow> [] | Some k \<Rightarrow> [k])"

lemma scan_marker_inv: "scan_marker declared st key action = Inr st' \<Longrightarrow> scan_inv st \<Longrightarrow> scan_inv st'"
  by (auto simp: scan_marker_def scan_inv_def res_bind_Inr_iff update_new_key normalized_section_text
      split: if_splits option.splits)

lemma scan_content_inv: "scan_content st line = Inr st' \<Longrightarrow> scan_inv st \<Longrightarrow> scan_inv st'"
  by (auto simp: scan_content_def scan_inv_def split: if_splits)

lemma scan_line_inv: "scan_line declared st line = Inr st' \<Longrightarrow> scan_inv st \<Longrightarrow> scan_inv st'"
  using scan_marker_inv scan_content_inv
  by (cases "MARKER_RE line"; cases "marker_key (the (MARKER_RE line))") (auto simp: scan_line_def split: if_splits)

lemma scan_lines_inv: "scan_lines declared st ls = Inr st' \<Longrightarrow> scan_inv st \<Longrightarrow> scan_inv st'"
  by (induction ls arbitrary: st) (auto simp: res_bind_Inr_iff dest: scan_line_inv)

lemma phase_prefix_distinct:
  assumes "phase_prefix phases"
  shows "distinct phases" "FINAL_ACCEPTANCE \<notin> set phases" "set phases \<subseteq> set PHASE_IDS" "distinct (''global'' # phase_keys phases @ [''final''])"
proof -
  have sub: "set phases \<subseteq> set PHASE_IDS" using assms unfolding phase_prefix_def by (metis set_take_subset)
  then show "set phases \<subseteq> set PHASE_IDS" "FINAL_ACCEPTANCE \<notin> set phases" by (auto simp: PHASE_IDS_def FINAL_ACCEPTANCE_def)
  have "distinct PHASE_IDS" by (simp add: PHASE_IDS_def)
  then show d: "distinct phases" using assms unfolding phase_prefix_def by (metis distinct_take)
  then show "distinct (''global'' # phase_keys phases @ [''final''])"
    by (auto simp: phase_keys_def distinct_map inj_on_def)
qed

lemma declared_phases_prefix: "declared_phases v = Inr phases \<Longrightarrow> phase_prefix phases"
proof -
  assume run: "declared_phases v = Inr phases"
  let ?xs = "the_list (dget v ''phases'')"
  have xs: "1 \<le> length ?xs" "length ?xs \<le> length PHASE_IDS" "?xs = map PyStr (take (length ?xs) PHASE_IDS)"
      and phases: "phases = map the_str ?xs"
    using run by (auto simp: declared_phases_def Let_def run_checks_Inr)
  have "map the_str (map PyStr ys) = ys" for ys by (simp add: comp_def)
  then have "phases = take (length ?xs) PHASE_IDS" using phases xs(3) by metis
  moreover have "length phases = length ?xs" using phases by (metis length_map)
  ultimately show ?thesis using xs(1,2) by (auto simp: phase_prefix_def)
qed

lemma section_of_closed:
  "scan_inv st \<Longrightarrow> sc_current st = None \<Longrightarrow> key \<in> set (sc_order st) \<Longrightarrow> section_text (section_of st key)"
proof -
  assume inv: "scan_inv st" and none: "sc_current st = None" and key: "key \<in> set (sc_order st)"
  then obtain t where t: "map_of (sc_sections st) key = Some t"
    by (cases "map_of (sc_sections st) key") (simp_all add: scan_inv_def map_of_eq_None_iff)
  then have "t \<in> set (map snd (sc_sections st))" using map_of_SomeD [OF t] by force
  then show ?thesis using inv t by (auto simp: section_of_def scan_inv_def list_all_iff)
qed

section \<open>Rendering\<close>

text \<open>A command that declares a task and holds its sections, one marker and one text line per line.\<close>

definition marker_line :: "string \<Rightarrow> string \<Rightarrow> string" where
  "marker_line key action = ''<!-- bridge-'' @ (if key = ''final'' then ''final-acceptance'' else key) @ '': '' @ action @ '' -->''"

definition declaration_line :: "string list \<Rightarrow> string" where
  "declaration_line phases = ''<!-- bridge-phased-task: ''
     @ json_value (PyDict [(''phases'', PyList (map PyStr phases)), (''schema_version'', PyInt 1)]) @ '' -->''"

definition section_lines :: "string \<times> string \<Rightarrow> string list" where
  "section_lines s = (case s of (key, t) \<Rightarrow> marker_line key ''start'' # splitlines t @ [marker_line key ''end''])"

definition task_sections :: "phased_task \<Rightarrow> (string \<times> string) list" where
  "task_sections task = (''global'', pt_global_text task) # map (\<lambda>(p, t). (''phase:'' @ p, t)) (pt_phase_sections task)
     @ [(''final'', pt_final_acceptance_text task)]"

definition render_task :: "phased_task \<Rightarrow> string" where
  "render_task task = concat (map (\<lambda>l. l @ [CHR 0x0A])
     (declaration_line (pt_phases task) # concat (map section_lines (task_sections task))))"

text \<open>A text of a section that looks like no marker on any of its lines.\<close>

definition content_line :: "string \<Rightarrow> bool" where
  "content_line l \<longleftrightarrow> \<not> DECLARATION_HINT_RE l \<and> MARKER_RE l = None \<and> \<not> MARKER_HINT_RE l"

definition plain_section :: "string \<Rightarrow> bool" where
  "plain_section t \<longleftrightarrow> join [CHR 0x0A] (splitlines t) = t \<and> list_all content_line (splitlines t)"

lemma not_break_return [simp]: "\<not> is_line_break c \<Longrightarrow> c \<noteq> CHR 0x0D"
  by (auto simp: is_line_break_def)

lemma splitlines_from_line:
  "list_all (\<lambda>c. \<not> is_line_break c) l \<Longrightarrow> splitlines_from acc (l @ CHR 0x0A # s) = (rev acc @ l) # splitlines_from [] s"
  by (induction l arbitrary: acc) (simp_all add: is_line_break_def)

lemma splitlines_lines:
  "\<forall>l \<in> set ls. list_all (\<lambda>c. \<not> is_line_break c) l \<Longrightarrow> splitlines (concat (map (\<lambda>l. l @ [CHR 0x0A]) ls)) = ls"
  unfolding splitlines_def by (induction ls) (simp_all add: splitlines_from_line)

lemma splitlines_no_break:
  "list_all (\<lambda>c. \<not> is_line_break c) acc \<Longrightarrow> l \<in> set (splitlines_from acc s) \<Longrightarrow> list_all (\<lambda>c. \<not> is_line_break c) l"
proof (induction acc s rule: splitlines_from.induct)
  case (1 acc)
  then show ?case by (cases "acc = []") (simp_all add: list_all_iff)
next
  case (2 acc c s)
  have acc: "list_all (\<lambda>c. \<not> is_line_break c) (rev acc)" using "2.prems"(1) by (simp add: list_all_iff)
  show ?case
  proof (cases "c = CHR 0x0D")
    case True
    show ?thesis
    proof (cases s)
      case Nil
      then show ?thesis using "2.prems"(2) True acc by simp
    next
      case (Cons d r)
      have "splitlines_from acc (c # s) = rev acc # splitlines_from [] (if d = CHR 0x0A then r else s)"
        using True by (subst splitlines_from.simps(2)) (simp only: Cons list.case simp_thms if_True)
      then have "l = rev acc \<or> l \<in> set (splitlines_from [] (if d = CHR 0x0A then r else s))"
        using "2.prems"(2) by (simp del: splitlines_from.simps)
      then show ?thesis using "2.IH"(1) [OF True Cons] acc by auto
    qed
  next
    case False
    then show ?thesis using "2.prems" "2.IH"(2,3) acc by (cases "is_line_break c") auto
  qed
qed

definition section_keys :: "string list" where
  "section_keys = ''global'' # ''final'' # phase_keys PHASE_IDS"

lemma comment_hint_first:
  assumes "CHR ''<'' \<notin> set s"
  shows "comment_hint ws (CHR ''<'' # s) \<longleftrightarrow> opens_comment ws (CHR ''<'' # s)"
proof -
  have "CHR ''<'' \<notin> set r \<Longrightarrow> \<not> comment_hint ws r" for r
    by (induction r) (auto simp: opens_comment_def strip_prefix_def has_prefix_def)
  then show ?thesis using assms by simp
qed

lemma marker_lines:
  assumes "key \<in> set section_keys" "action \<in> set [''start'', ''end'']"
  shows "\<not> DECLARATION_HINT_RE (marker_line key action)"
    "map_option marker_key (MARKER_RE (marker_line key action)) = Some (key, action)"
    "list_all (\<lambda>c. \<not> is_line_break c) (marker_line key action)"
proof -
  have first: "list_all (\<lambda>key. list_all (\<lambda>action. hd (marker_line key action) = CHR ''<''
      \<and> CHR ''<'' \<notin> set (tl (marker_line key action)) \<and> \<not> opens_comment [''bridge-phased-task''] (marker_line key action))
      [''start'', ''end'']) section_keys"
    by code_simp
  have "marker_line key action = CHR ''<'' # tl (marker_line key action)" by (simp add: marker_line_def)
  then show "\<not> DECLARATION_HINT_RE (marker_line key action)"
    using first assms comment_hint_first unfolding DECLARATION_HINT_RE_def list_all_iff by metis
  have "list_all (\<lambda>key. list_all (\<lambda>action. map_option marker_key (MARKER_RE (marker_line key action)) = Some (key, action))
      [''start'', ''end'']) section_keys"
    by code_simp
  then show "map_option marker_key (MARKER_RE (marker_line key action)) = Some (key, action)"
    using assms unfolding list_all_iff by blast
  have "list_all (\<lambda>key. list_all (\<lambda>action. list_all (\<lambda>c. \<not> is_line_break c) (marker_line key action))
      [''start'', ''end'']) section_keys"
    by code_simp
  then show "list_all (\<lambda>c. \<not> is_line_break c) (marker_line key action)"
    using assms unfolding list_all_iff by blast
qed

lemma marker_line_scan:
  assumes "key \<in> set section_keys" "action = ''start'' \<or> action = ''end''"
  shows "scan_line declared st (marker_line key action) = scan_marker declared st key action"
proof -
  have a: "action \<in> set [''start'', ''end'']" using assms(2) by auto
  show ?thesis
    using marker_lines(1,2) [OF assms(1) a] by (auto simp: scan_line_def)
qed

lemma declaration_lines:
  assumes "phases \<in> set (map (\<lambda>n. take n PHASE_IDS) [1, 2, 3, 4])"
  shows "DECLARATION_HINT_RE (declaration_line phases)" "list_all (\<lambda>c. \<not> is_line_break c) (declaration_line phases)"
    "DECLARATION_RE (declaration_line phases)
        = Some (json_value (PyDict [(''phases'', PyList (map PyStr phases)), (''schema_version'', PyInt 1)]))"
proof -
  have "list_all (\<lambda>phases. DECLARATION_HINT_RE (declaration_line phases)) (map (\<lambda>n. take n PHASE_IDS) [1, 2, 3, 4])"
    by code_simp
  then show "DECLARATION_HINT_RE (declaration_line phases)" using assms by (simp only: list_all_iff)
  have "list_all (\<lambda>phases. list_all (\<lambda>c. \<not> is_line_break c) (declaration_line phases)) (map (\<lambda>n. take n PHASE_IDS) [1, 2, 3, 4])"
    by code_simp
  then show "list_all (\<lambda>c. \<not> is_line_break c) (declaration_line phases)"
    using assms unfolding list_all_iff by blast
  have "list_all (\<lambda>phases. DECLARATION_RE (declaration_line phases)
      = Some (json_value (PyDict [(''phases'', PyList (map PyStr phases)), (''schema_version'', PyInt 1)])))
      (map (\<lambda>n. take n PHASE_IDS) [1, 2, 3, 4])"
    by code_simp
  then show "DECLARATION_RE (declaration_line phases)
        = Some (json_value (PyDict [(''phases'', PyList (map PyStr phases)), (''schema_version'', PyInt 1)]))"
    using assms by (simp only: list_all_iff)
qed

lemma phase_prefix_cases: "phase_prefix phases \<Longrightarrow> phases \<in> set (map (\<lambda>n. take n PHASE_IDS) [1, 2, 3, 4])"
proof -
  assume p: "phase_prefix phases"
  then have "1 \<le> length phases" "length phases \<le> 4" "phases = take (length phases) PHASE_IDS"
    by (auto simp: phase_prefix_def PHASE_IDS_def Suc_le_eq)
  then have "length phases = 1 \<or> length phases = 2 \<or> length phases = 3 \<or> length phases = 4" by linarith
  then show ?thesis using \<open>phases = take (length phases) PHASE_IDS\<close> by auto
qed

lemma declared_back:
  assumes "phase_prefix phases"
  shows "declaration_value F (json_value (PyDict [(''phases'', PyList (map PyStr phases)), (''schema_version'', PyInt 1)]))
      = Inr [(''phases'', PyList (map PyStr phases)), (''schema_version'', PyInt 1)]"
    "declared_phases [(''phases'', PyList (map PyStr phases)), (''schema_version'', PyInt 1)] = Inr phases"
proof -
  let ?d = "[(''phases'', PyList (map PyStr phases)), (''schema_version'', PyInt 1)]"
  have strs: "items_ok (map PyStr ps)" "items_sorted (map PyStr ps) = map PyStr ps" for ps
    by (induction ps) simp_all
  have "json_ok (PyDict ?d)" by (simp add: strs short_int_def show_nat_small)
  moreover have "json_sorted (PyDict ?d) = PyDict ?d" by (simp add: strs)
  ultimately have "json_loads_strict F (json_value (PyDict ?d)) = Inr (PyDict ?d)"
    using json_loads_denotes [OF denotes_json_value(1) [of "PyDict ?d" strict_object F]] by (simp add: json_loads_strict_def)
  then show "declaration_value F (json_value (PyDict ?d)) = Inr ?d" by (simp add: declaration_value_def)
  have "dkeys ?d = [''phases'', ''schema_version'']" by (simp add: dkeys_def)
  moreover have "1 \<le> length phases" "length phases \<le> length PHASE_IDS" "take (length phases) PHASE_IDS = phases"
    using assms by (auto simp: phase_prefix_def Suc_le_eq)
  ultimately show "declared_phases ?d = Inr phases"
    by (simp add: declared_phases_def run_checks_pass schema_supported_def SCHEMA_VERSION_def list_all_iff comp_def insert_commute)
qed

lemma scan_body:
  "list_all content_line ls \<Longrightarrow> sc_current st = Some key \<Longrightarrow>
     scan_lines declared st (ls @ rest) = scan_lines declared (st\<lparr>sc_body := sc_body st @ ls\<rparr>) rest"
  by (induction ls arbitrary: st) (simp_all add: content_line_def scan_line_def scan_content_def)

lemma scan_section:
  assumes "key \<in> set section_keys" "has_prefix ''phase:'' key \<Longrightarrow> key \<in> set declared" "sc_current st = None"
    and "key \<notin> set (map fst (sc_sections st))" "key \<notin> set (sc_order st)" "section_text t" "plain_section t"
  shows "scan_lines declared st (section_lines (key, t) @ rest)
    = scan_lines declared (st\<lparr>sc_sections := sc_sections st @ [(key, t)], sc_order := sc_order st @ [key],
        sc_body := [], sc_section_seen := True\<rparr>) rest"
proof -
  let ?open = "st\<lparr>sc_current := Some key, sc_body := [], sc_order := sc_order st @ [key], sc_section_seen := True\<rparr>"
  have opened: "scan_line declared st (marker_line key ''start'') = Inr ?open"
    using assms(2-5) by (auto simp: marker_line_scan(1) [OF assms(1)] scan_marker_def)
  have "normalized_section (splitlines t) (section_label key) = Inr t"
    using assms(6,7) by (simp add: normalized_section_def plain_section_def section_text_def)
  then have closed: "scan_line declared (?open\<lparr>sc_body := splitlines t\<rparr>) (marker_line key ''end'')
      = Inr (st\<lparr>sc_sections := sc_sections st @ [(key, t)], sc_order := sc_order st @ [key], sc_body := [], sc_section_seen := True\<rparr>)"
    using assms(2,3,4) by (auto simp: marker_line_scan(1) [OF assms(1)] scan_marker_def update_new_key)
  show ?thesis
    using scan_body [of "splitlines t" ?open key declared] assms(7) closed
    by (simp add: section_lines_def opened plain_section_def)
qed

lemma scan_sections:
  assumes "\<forall>(key, t) \<in> set ss. key \<in> set section_keys \<and> (has_prefix ''phase:'' key \<longrightarrow> key \<in> set declared)
      \<and> section_text t \<and> plain_section t"
    and "distinct (sc_order st @ map fst ss)" "sc_current st = None" "map fst (sc_sections st) = sc_order st"
  shows "\<exists>st'. scan_lines declared st (concat (map section_lines ss)) = Inr st' \<and> sc_current st' = None
    \<and> sc_sections st' = sc_sections st @ ss \<and> sc_order st' = sc_order st @ map fst ss"
  using assms
proof (induction ss arbitrary: st)
  case (Cons s ss)
  obtain key t where s: "s = (key, t)" by force
  let ?st = "st\<lparr>sc_sections := sc_sections st @ [(key, t)], sc_order := sc_order st @ [key], sc_body := [], sc_section_seen := True\<rparr>"
  have "scan_lines declared st (concat (map section_lines (s # ss))) = scan_lines declared ?st (concat (map section_lines ss))"
    using Cons.prems by (simp add: s del: scan_lines.simps) (rule scan_section; simp)
  moreover have "\<exists>st'. scan_lines declared ?st (concat (map section_lines ss)) = Inr st' \<and> sc_current st' = None
    \<and> sc_sections st' = sc_sections ?st @ ss \<and> sc_order st' = sc_order ?st @ map fst ss"
    by (rule Cons.IH) (use Cons.prems in \<open>auto simp: s\<close>)
  ultimately show ?case by (simp add: s)
qed simp

text \<open>
  A task whose sections have no line that could be taken for a marker or a declaration, and no line
  break but the newline, which the parser would not give back.
\<close>

definition plain_task :: "phased_task \<Rightarrow> bool" where
  "plain_task task \<longleftrightarrow> list_all (\<lambda>(_, t). plain_section t) (task_sections task)"

lemma task_section_keys:
  assumes "wf_phased_task task"
  shows "map fst (task_sections task) = ''global'' # phase_keys (pt_phases task) @ [''final'']"
    "set (map fst (task_sections task)) \<subseteq> set section_keys"
proof -
  have phases: "pt_phases task = map fst (pt_phase_sections task)" using assms by (simp add: wf_phased_task_def)
  show keys: "map fst (task_sections task) = ''global'' # phase_keys (pt_phases task) @ [''final'']"
    unfolding phases by (simp add: task_sections_def phase_keys_def comp_def case_prod_unfold)
  show "set (map fst (task_sections task)) \<subseteq> set section_keys"
    unfolding keys using phase_prefix_distinct(3) [of "pt_phases task"] assms
    by (auto simp: section_keys_def phase_keys_def wf_phased_task_def)
qed

lemma render_lines:
  assumes "wf_phased_task task" "plain_task task"
  shows "splitlines (render_task task) = declaration_line (pt_phases task) # concat (map section_lines (task_sections task))"
  unfolding render_task_def
proof (rule splitlines_lines, rule ballI)
  fix l
  assume "l \<in> set (declaration_line (pt_phases task) # concat (map section_lines (task_sections task)))"
  then consider "l = declaration_line (pt_phases task)"
    | key t where "(key, t) \<in> set (task_sections task)" "l \<in> set (section_lines (key, t))" by auto
  then show "list_all (\<lambda>c. \<not> is_line_break c) l"
  proof cases
    case 1
    then show ?thesis using declaration_lines(2) phase_prefix_cases assms(1) by (simp add: wf_phased_task_def)
  next
    case 2
    then have "key \<in> set section_keys" using task_section_keys(2) [OF assms(1)] by force
    then show ?thesis
      using 2(2) marker_lines(3) splitlines_no_break [of "[]" l t] by (auto simp: section_lines_def splitlines_def)
  qed
qed

lemma declarations_none: "\<forall>l \<in> set ls. \<not> DECLARATION_HINT_RE l \<Longrightarrow> declarations F ls = Inr []"
  by (induction ls) simp_all

lemma sections_no_declaration:
  assumes "set (map fst ss) \<subseteq> set section_keys" "list_all (\<lambda>(_, t). plain_section t) ss"
  shows "\<forall>l \<in> set (concat (map section_lines ss)). \<not> DECLARATION_HINT_RE l"
proof
  fix l
  assume "l \<in> set (concat (map section_lines ss))"
  then obtain key t where kt: "(key, t) \<in> set ss" "l \<in> set (section_lines (key, t))" by auto
  have "key \<in> set section_keys" "plain_section t" using assms kt(1) by (force simp: list_all_iff)+
  then show "\<not> DECLARATION_HINT_RE l"
    using kt(2) marker_lines(1) by (auto simp: section_lines_def plain_section_def content_line_def list_all_iff)
qed

lemma parse_render_task:
  assumes "wf_phased_task task" "plain_task task"
  shows "parse_phased_task F (render_task task) = Inr (Some (task\<lparr>pt_source_text := render_task task\<rparr>))"
proof -
  let ?phases = "pt_phases task" and ?ss = "task_sections task"
  let ?d = "[(''phases'', PyList (map PyStr ?phases)), (''schema_version'', PyInt 1)]"
  have prefix: "phase_prefix ?phases" using assms(1) by (simp add: wf_phased_task_def)
  note lines = render_lines [OF assms] and keys = task_section_keys [OF assms(1)]
    and decl = declaration_lines [OF phase_prefix_cases [OF prefix]] and declared_again = declared_back [OF prefix]
  have "declarations F (concat (map section_lines ?ss)) = Inr []"
    using sections_no_declaration [OF keys(2)] assms(2) by (intro declarations_none) (simp add: plain_task_def)
  then have declared: "parse_declaration F (render_task task) = Inr (Some ?phases)"
    using decl(1,3) declared_again by (simp add: parse_declaration_def lines)
  have distinct: "distinct (map fst ?ss)"
    unfolding keys(1) using phase_prefix_distinct(4) [OF prefix] by simp
  have "key \<in> set section_keys \<and> (has_prefix ''phase:'' key \<longrightarrow> key \<in> set (phase_keys ?phases))
      \<and> section_text t \<and> plain_section t" if kt: "(key, t) \<in> set ?ss" for key t
  proof -
    have mem: "key \<in> set (map fst ?ss)" using kt by (metis fst_conv image_eqI list.set_map)
    moreover have "has_prefix ''phase:'' key \<longrightarrow> key \<in> set (phase_keys ?phases)"
      using mem unfolding keys(1) by (auto simp: has_prefix_def)
    moreover have "section_text t"
      using assms(1) kt by (auto simp: wf_phased_task_def task_sections_def list_all_iff)
    moreover have "plain_section t" using assms(2) kt by (auto simp: plain_task_def list_all_iff)
    ultimately show ?thesis using keys(2) by blast
  qed
  then have "\<forall>(key, t) \<in> set ?ss. key \<in> set section_keys \<and> (has_prefix ''phase:'' key \<longrightarrow> key \<in> set (phase_keys ?phases))
      \<and> section_text t \<and> plain_section t" by blast
  then have "\<exists>st'. scan_lines (phase_keys ?phases) scan_start (concat (map section_lines ?ss)) = Inr st' \<and> sc_current st' = None
      \<and> sc_sections st' = sc_sections scan_start @ ?ss \<and> sc_order st' = sc_order scan_start @ map fst ?ss"
    by (rule scan_sections) (simp_all add: scan_start_def distinct)
  then obtain st where st: "scan_lines (phase_keys ?phases) scan_start (concat (map section_lines ?ss)) = Inr st"
      "sc_current st = None" "sc_sections st = ?ss" "sc_order st = map fst ?ss" by (auto simp: scan_start_def)
  have scan: "scan_lines (phase_keys ?phases) scan_start (splitlines (render_task task)) = Inr st"
    using st(1) decl(1) by (simp add: lines scan_line_def)
  have found: "section_of st key = t" if "(key, t) \<in> set ?ss" for key t
    using that distinct by (simp add: section_of_def st(3) map_of_is_SomeI)
  have phases: "?phases = map fst (pt_phase_sections task)" using assms(1) by (simp add: wf_phased_task_def)
  have "map (\<lambda>p. (p, section_of st (''phase:'' @ p))) ?phases = map (\<lambda>(p, t). (p, section_of st (''phase:'' @ p))) (pt_phase_sections task)"
    unfolding phases by (simp add: comp_def case_prod_unfold)
  also have "\<dots> = map (\<lambda>(p, t). (p, t)) (pt_phase_sections task)"
  proof (rule map_cong [OF refl])
    fix x assume x: "x \<in> set (pt_phase_sections task)"
    obtain p t where pt: "x = (p, t)" by force
    have "(''phase:'' @ p, t) \<in> (\<lambda>(p, t). (''phase:'' @ p, t)) ` set (pt_phase_sections task)"
      using x unfolding pt by (rule rev_image_eqI) simp
    then have "(''phase:'' @ p, t) \<in> set ?ss" unfolding task_sections_def by simp
    from found [OF this] show "(case x of (p, t) \<Rightarrow> (p, section_of st (''phase:'' @ p))) = (case x of (p, t) \<Rightarrow> (p, t))"
      by (simp add: pt)
  qed
  finally have "map (\<lambda>p. (p, section_of st (''phase:'' @ p))) ?phases = pt_phase_sections task" by simp
  moreover have "section_of st ''global'' = pt_global_text task" "section_of st ''final'' = pt_final_acceptance_text task"
    by (intro found; simp add: task_sections_def)+
  ultimately show ?thesis
    using assms(1) keys(1) st(2,4)
    by (simp add: parse_phased_task_def declared scan run_checks_pass order_checks_def wf_phased_task_def)
qed

definition sample_task :: phased_task where
  "sample_task = \<lparr>pt_schema_version = 1, pt_phases = [''A'', ''B''], pt_global_text = ''all of it'',
     pt_phase_sections = [(''A'', ''build''), (''B'', ''test'' @ CHR 0x0A # ''and report'')],
     pt_final_acceptance_text = ''it works'', pt_source_text = []\<rparr>"

lemma sample_task: "wf_phased_task sample_task" "plain_task sample_task"
  by code_simp+

lemma parsed_wf:
  assumes "parse_phased_task F text = Inr (Some task)"
  shows "wf_phased_task task \<and> pt_source_text task = text"
proof -
  obtain d phases st where d: "declared_phases d = Inr phases"
      and st: "scan_lines (phase_keys phases) scan_start (splitlines text) = Inr st" "sc_current st = None"
        "order_checks (''global'' # phase_keys phases @ [''final'']) st = None"
      and task: "task = \<lparr>pt_schema_version = SCHEMA_VERSION, pt_phases = phases, pt_global_text = section_of st ''global'',
         pt_phase_sections = map (\<lambda>p. (p, section_of st (''phase:'' @ p))) phases,
         pt_final_acceptance_text = section_of st ''final'', pt_source_text = text\<rparr>"
    using assms by (auto simp: parse_phased_task_def parse_declaration_def res_bind_Inr_iff run_checks_Inr split: option.splits if_splits)
  have "scan_inv scan_start" by (simp add: scan_inv_def scan_start_def)
  then have inv: "scan_inv st" by (rule scan_lines_inv [OF st(1)])
  have order: "sc_order st = ''global'' # phase_keys phases @ [''final'']"
    using st(3) by (auto simp: order_checks_def Let_def split: if_splits)
  have "section_text (section_of st key)" if "key \<in> set (''global'' # phase_keys phases @ [''final''])" for key
    using section_of_closed [OF inv st(2)] that by (simp add: order)
  then show ?thesis
    using declared_phases_prefix [OF d] by (auto simp: task wf_phased_task_def list_all_iff phase_keys_def comp_def)
qed

text \<open>
  C30: whatever text is parsed, a task has between one and four phases, the first ones of the fixed
  list in order, exactly one section for each of them, and no section, the global and the final one
  included, is blank or carries surrounding white space; the source text is kept as it is.
\<close>

theorem parsed_task_well_formed:
  assumes "parse_phased_task F text = Inr (Some task)"
  shows "wf_phased_task task \<and> pt_source_text task = text"
  by (rule parsed_wf [OF assms])

theorem parsed_task_well_formed_witness:
  "wf_phased_task (sample_task\<lparr>pt_source_text := render_task sample_task\<rparr>)
     \<and> pt_source_text (sample_task\<lparr>pt_source_text := render_task sample_task\<rparr>) = render_task sample_task"
  by (rule parsed_task_well_formed [OF parse_render_task [OF sample_task, of "\<lambda>_. PyNone"]])

text \<open>
  C29: a rendered task is parsed back.  For every well-formed task whose section texts break lines with
  a newline only and have no line that looks like a marker or a declaration, the command that declares
  it and holds its sections is parsed as that task, with the command as its source text.
\<close>

theorem phased_task_round_trip:
  assumes "wf_phased_task task" "plain_task task"
  shows "parse_phased_task F (render_task task) = Inr (Some (task\<lparr>pt_source_text := render_task task\<rparr>))"
  by (rule parse_render_task [OF assms])

theorem phased_task_round_trip_witness:
  "parse_phased_task (\<lambda>_. PyNone) (render_task sample_task) = Inr (Some (sample_task\<lparr>pt_source_text := render_task sample_task\<rparr>))"
  by (rule phased_task_round_trip [OF sample_task])

end
