(* ===== verification/Identity_Patterns.thy ===== *)
theory Identity_Patterns
  imports Protocol_Commands
begin

text \<open>
  The regular expressions of project, run and time identities.  \<open>worker/phased_task.py\<close> and
  \<open>worker/pending_report.py\<close> each compile the same ones and apply them with \<open>fullmatch\<close>.
\<close>

definition name_char :: "char \<Rightarrow> bool" where
  "name_char c \<longleftrightarrow> is_alnum_ascii c \<or> c \<in> set ''._-''"

definition PROJECT_ID_RE :: "string \<Rightarrow> bool" where
  "PROJECT_ID_RE s \<longleftrightarrow> s \<noteq> [] \<and> is_alnum_ascii (hd s) \<and> length (tl s) \<le> 127 \<and> list_all name_char (tl s)"

definition RUN_ID_RE :: "string \<Rightarrow> bool" where
  "RUN_ID_RE s \<longleftrightarrow> (case strip_prefix ''run-'' s of None \<Rightarrow> False
     | Some r \<Rightarrow> r \<noteq> [] \<and> is_alnum_ascii (hd r) \<and> length (tl r) \<le> 159 \<and> list_all name_char (tl r))"

definition TIMESTAMP_RE :: "string \<Rightarrow> bool" where
  "TIMESTAMP_RE s \<longleftrightarrow> 1 \<le> length s \<and> length s \<le> 80 \<and> CHR 0x00 \<notin> set s \<and> CHR 0x0D \<notin> set s \<and> CHR 0x0A \<notin> set s"

end
