(* ===== verification/Phased_Runtime.thy ===== *)
theory Phased_Runtime
  imports Phased_Parse Identity_Patterns
begin

text \<open>
  \<open>worker/phased_task.py\<close>, second part: the checkpoint files of one run.  A run directory is missing,
  something else, or its files by name with their bytes; its path is the list of the components of the
  resolved path.  The outcome of every write, of the creation of the lock and of the removal of a file
  is an argument, as are the time and the process identifier.
\<close>

section \<open>Identities\<close>

definition MANIFEST_FIELDS :: "string list" where
  "MANIFEST_FIELDS = [''schema_version'', ''project_id'', ''command_id'', ''run_id'', ''claim_generation'',
     ''snapshot_sha256'', ''phases'', ''global_sha256'', ''phase_sha256'', ''final_acceptance_sha256'']"

definition PROGRESS_FIELDS :: "string list" where
  "PROGRESS_FIELDS = [''schema_version'', ''project_id'', ''command_id'', ''run_id'', ''claim_generation'',
     ''snapshot_sha256'', ''manifest_sha256'', ''phases'', ''current_phase'', ''completed_phases'',
     ''final_acceptance_verified'', ''updated_at'']"

definition require_positive_int :: "py \<Rightarrow> string \<Rightarrow> pyexc option" where
  "require_positive_int v label = ensure (is_int v \<and> 1 \<le> the_int v)
     (PhasedTaskError (label @ '' must be a positive integer''))"

definition require_nonnegative_int :: "py \<Rightarrow> string \<Rightarrow> pyexc option" where
  "require_nonnegative_int v label = ensure (is_int v \<and> 0 \<le> the_int v)
     (PhasedTaskError (label @ '' must be a non-negative integer''))"

definition require_sha :: "py \<Rightarrow> string \<Rightarrow> pyexc option" where
  "require_sha v label = ensure (is_str v \<and> SHA256_RE (the_str v))
     (PhasedTaskError (label @ '' must be a lowercase SHA-256 digest''))"

record execution_identity =
  ei_project_id :: py
  ei_command_id :: py
  ei_run_id :: py
  ei_claim_generation :: py

definition safe_identity :: "execution_identity \<Rightarrow> pyexc option" where
  "safe_identity i = first_raise
     [ensure (is_str (ei_project_id i) \<and> PROJECT_ID_RE (the_str (ei_project_id i))) (PhasedTaskError ''project_id is invalid''),
      require_positive_int (ei_command_id i) ''command_id'',
      ensure (is_str (ei_run_id i) \<and> RUN_ID_RE (the_str (ei_run_id i))) (PhasedTaskError ''run_id is invalid''),
      require_nonnegative_int (ei_claim_generation i) ''claim_generation'']"

section \<open>Manifest and progress\<close>

definition projection_bytes :: "string \<Rightarrow> string" where
  "projection_bytes t = utf8_encode (rstrip t @ [CHR 0x0A])"

definition json_bytes :: "pydict \<Rightarrow> string" where
  "json_bytes d = utf8_encode (json_document (PyDict d))"

definition manifest_for :: "phased_task \<Rightarrow> execution_identity \<Rightarrow> string \<Rightarrow> pyexc + pydict" where
  "manifest_for task i snapshot =
     run_checks [safe_identity i]
       (res_bind (res_map (\<lambda>phase. res_bind (phase_text task phase) (\<lambda>t.
           Inr (phase, PyStr (sha256_hex (projection_bytes t))))) (pt_phases task)) (\<lambda>phase_hashes.
         Inr [(''schema_version'', PyInt SCHEMA_VERSION), (''project_id'', ei_project_id i),
           (''command_id'', ei_command_id i), (''run_id'', ei_run_id i), (''claim_generation'', ei_claim_generation i),
           (''snapshot_sha256'', PyStr (sha256_hex snapshot)), (''phases'', PyList (map PyStr (pt_phases task))),
           (''global_sha256'', PyStr (sha256_hex (projection_bytes (pt_global_text task)))),
           (''phase_sha256'', PyDict phase_hashes),
           (''final_acceptance_sha256'', PyStr (sha256_hex (projection_bytes (pt_final_acceptance_text task))))]))"

definition validate_phases :: "py \<Rightarrow> string \<Rightarrow> pyexc option" where
  "validate_phases v label = first_raise
     [ensure (is_list v \<and> 1 \<le> length (the_list v) \<and> length (the_list v) \<le> length PHASE_IDS)
        (PhasedTaskError (label @ '' must contain 1 to 4 phases'')),
      ensure (the_list v = map PyStr (take (length (the_list v)) PHASE_IDS))
        (PhasedTaskError (label @ '' must be the ordered prefix A, B, C, D''))]"

definition phases_of :: "pydict \<Rightarrow> string list" where
  "phases_of d = map the_str (the_list (dget d ''phases''))"

definition validate_manifest :: "py \<Rightarrow> pyexc + pydict" where
  "validate_manifest v =
     (let d = the_dict v; phases = phases_of d; hashes = dget d ''phase_sha256'' in
      run_checks
        [ensure (is_dict v) (PhasedTaskError ''task manifest must be a JSON object''),
         ensure (set (dkeys d) = set MANIFEST_FIELDS)
           (PhasedTaskError ''task manifest contains unsupported or missing fields''),
         ensure (schema_supported d) (PhasedTaskError ''unsupported task manifest schema_version''),
         ensure (is_str (dget d ''project_id'') \<and> PROJECT_ID_RE (the_str (dget d ''project_id'')))
           (PhasedTaskError ''task manifest project_id is invalid''),
         require_positive_int (dget d ''command_id'') ''manifest command_id'',
         ensure (is_str (dget d ''run_id'') \<and> RUN_ID_RE (the_str (dget d ''run_id'')))
           (PhasedTaskError ''task manifest run_id is invalid''),
         require_nonnegative_int (dget d ''claim_generation'') ''manifest claim_generation'',
         require_sha (dget d ''snapshot_sha256'') ''snapshot_sha256'',
         validate_phases (dget d ''phases'') ''manifest phases'',
         require_sha (dget d ''global_sha256'') ''global_sha256'',
         require_sha (dget d ''final_acceptance_sha256'') ''final_acceptance_sha256'',
         ensure (is_dict hashes \<and> set (dkeys (the_dict hashes)) = set phases)
           (PhasedTaskError ''manifest phase_sha256 keys do not match phases''),
         first_raise (map (\<lambda>p. require_sha (dget (the_dict hashes) p) (''phase_sha256['' @ p @ '']'')) phases)]
        (Inr [(''schema_version'', PyInt SCHEMA_VERSION), (''project_id'', dget d ''project_id''),
           (''command_id'', dget d ''command_id''), (''run_id'', dget d ''run_id''),
           (''claim_generation'', dget d ''claim_generation''), (''snapshot_sha256'', dget d ''snapshot_sha256''),
           (''phases'', PyList (map PyStr phases)), (''global_sha256'', dget d ''global_sha256''),
           (''phase_sha256'', PyDict (map (\<lambda>p. (p, dget (the_dict hashes) p)) phases)),
           (''final_acceptance_sha256'', dget d ''final_acceptance_sha256'')]))"

text \<open>The phase a run works on when the first \<open>k\<close> of its phases are complete.\<close>

definition phase_after :: "string list \<Rightarrow> nat \<Rightarrow> string" where
  "phase_after phases k = (if k < length phases then phases ! k else FINAL_ACCEPTANCE)"

definition validate_progress :: "py \<Rightarrow> pyexc + pydict" where
  "validate_progress v =
     (let d = the_dict v; phases = phases_of d; completed = dget d ''completed_phases'';
          current = dget d ''current_phase''; expected_current = phase_after phases (length (the_list completed));
          final_verified = dget d ''final_acceptance_verified'' in
      run_checks
        [ensure (is_dict v) (PhasedTaskError ''phase progress must be a JSON object''),
         ensure (set (dkeys d) = set PROGRESS_FIELDS)
           (PhasedTaskError ''phase progress contains unsupported or missing fields''),
         ensure (schema_supported d) (PhasedTaskError ''unsupported phase progress schema_version''),
         ensure (is_str (dget d ''project_id'') \<and> PROJECT_ID_RE (the_str (dget d ''project_id'')))
           (PhasedTaskError ''phase progress project_id is invalid''),
         require_positive_int (dget d ''command_id'') ''progress command_id'',
         ensure (is_str (dget d ''run_id'') \<and> RUN_ID_RE (the_str (dget d ''run_id'')))
           (PhasedTaskError ''phase progress run_id is invalid''),
         require_nonnegative_int (dget d ''claim_generation'') ''progress claim_generation'',
         require_sha (dget d ''snapshot_sha256'') ''progress snapshot_sha256'',
         require_sha (dget d ''manifest_sha256'') ''progress manifest_sha256'',
         validate_phases (dget d ''phases'') ''progress phases'',
         ensure (is_list completed \<and> the_list completed = map PyStr (take (length (the_list completed)) phases))
           (PhasedTaskError ''completed_phases must be an ordered phase prefix''),
         ensure (length (the_list completed) \<le> length phases)
           (PhasedTaskError ''completed_phases contains an unknown phase''),
         ensure (current = PyStr expected_current)
           (PhasedTaskError (''phase progress current_phase must be '' @ expected_current @ '', found '' @ py_str current)),
         ensure (is_bool final_verified) (PhasedTaskError ''final_acceptance_verified must be boolean''),
         ensure (\<not> (truthy final_verified \<and> current \<noteq> PyStr FINAL_ACCEPTANCE))
           (PhasedTaskError ''final acceptance cannot be verified before all phases''),
         ensure (is_str (dget d ''updated_at'') \<and> TIMESTAMP_RE (the_str (dget d ''updated_at'')))
           (PhasedTaskError ''progress updated_at is invalid'')]
        (Inr [(''schema_version'', PyInt SCHEMA_VERSION), (''project_id'', dget d ''project_id''),
           (''command_id'', dget d ''command_id''), (''run_id'', dget d ''run_id''),
           (''claim_generation'', dget d ''claim_generation''), (''snapshot_sha256'', dget d ''snapshot_sha256''),
           (''manifest_sha256'', dget d ''manifest_sha256''), (''phases'', PyList (map PyStr phases)),
           (''current_phase'', current), (''completed_phases'', completed),
           (''final_acceptance_verified'', final_verified), (''updated_at'', dget d ''updated_at'')]))"

section \<open>The run directory\<close>

type_synonym files = "(string \<times> string) list"

datatype run_entry = Missing | NotDirectory | Directory files

definition read_entry :: "run_entry \<Rightarrow> string \<Rightarrow> string option" where
  "read_entry entry name = (case entry of Directory files \<Rightarrow> map_of files name | _ \<Rightarrow> None)"

definition snapshot_file :: string where "snapshot_file = ''task-snapshot.md''"
definition manifest_file :: string where "manifest_file = ''task-manifest.json''"
definition global_file :: string where "global_file = ''global.md''"
definition current_file :: string where "current_file = ''current-phase.md''"
definition progress_file :: string where "progress_file = ''phase-progress.json''"
definition lock_file :: string where "lock_file = ''phase-progress.lock''"

definition component_name :: "string list \<Rightarrow> string" where
  "component_name p = (if p = [] then [] else last p)"

text \<open>\<open>bridge_root\<close> is the resolved root of the Bridge, if it is supplied.\<close>

definition validate_run_dir ::
    "string option \<Rightarrow> string option \<Rightarrow> string list option \<Rightarrow> string list \<Rightarrow> run_entry \<Rightarrow> pyexc option" where
  "validate_run_dir project run_id bridge_root run entry =
     (let parent = butlast; project_dir = parent (parent run); runtime = parent project_dir; worker = parent runtime in
      first_raise
        [ensure (\<not> ((case run_id of None \<Rightarrow> False | Some r \<Rightarrow> component_name run \<noteq> r) \<or> \<not> RUN_ID_RE (component_name run)))
           (PhasedTaskError ''run-dir must name a valid run-id''),
         ensure (py_casefold (component_name (parent run)) = ''runs'')
           (PhasedTaskError ''run-dir must be inside a runs directory''),
         ensure (PROJECT_ID_RE (component_name project_dir)) (PhasedTaskError ''run-dir project component is invalid''),
         ensure (case project of None \<Rightarrow> True | Some p \<Rightarrow> component_name project_dir = p)
           (PhasedTaskError ''run-dir project identity does not match manifest''),
         ensure (py_casefold (component_name runtime) = ''runtime'')
           (PhasedTaskError ''run-dir must be inside worker/runtime''),
         ensure (py_casefold (component_name worker) = ''worker'')
           (PhasedTaskError ''run-dir must be inside a Worker runtime tree''),
         ensure (case bridge_root of None \<Rightarrow> True
             | Some base \<Rightarrow> take (length base + 2) run = base @ [''worker'', ''runtime''])
           (PhasedTaskError ''run-dir is outside the supplied Worker runtime tree''),
         ensure (entry \<noteq> NotDirectory) (PhasedTaskError ''run-dir is not a directory'')])"

definition phased_read_json :: "(string \<Rightarrow> py) \<Rightarrow> string \<Rightarrow> string option \<Rightarrow> pyexc + py \<times> string" where
  "phased_read_json float_of label content =
     (let unsafe = PhasedTaskError (label @ '' cannot be read safely'') in
      case content of None \<Rightarrow> Inl unsafe
      | Some raw \<Rightarrow> (case utf8_decode raw of None \<Rightarrow> Inl unsafe
        | Some t \<Rightarrow> (case json_loads_strict float_of t of
            Inl e \<Rightarrow> Inl (if e = DuplicateKey
                then PhasedTaskError ''bridge-phased-task declaration contains duplicate JSON keys''
              else if e = DecodeError then unsafe
              else ValueError ''Exceeds the limit (4300 digits) for integer string conversion'')
          | Inr v \<Rightarrow> if is_dict v then Inr (v, raw) else Inl (PhasedTaskError (label @ '' must be a JSON object'')))))"

definition named_run :: "string list option \<Rightarrow> string list \<Rightarrow> run_entry \<Rightarrow> pydict \<Rightarrow> pyexc option" where
  "named_run bridge_root run entry d =
     validate_run_dir (Some (the_str (dget d ''project_id''))) (Some (the_str (dget d ''run_id''))) bridge_root run entry"

definition load_manifest ::
    "(string \<Rightarrow> py) \<Rightarrow> string list option \<Rightarrow> string list \<Rightarrow> run_entry \<Rightarrow> pyexc + pydict" where
  "load_manifest float_of bridge_root run entry =
     run_checks [validate_run_dir None None bridge_root run entry]
       (res_bind (phased_read_json float_of ''task manifest'' (read_entry entry manifest_file)) (\<lambda>(raw, _).
        res_bind (validate_manifest raw) (\<lambda>manifest.
          run_checks [named_run bridge_root run entry manifest] (Inr manifest))))"

definition load_progress ::
    "(string \<Rightarrow> py) \<Rightarrow> string list option \<Rightarrow> string list \<Rightarrow> run_entry \<Rightarrow> pyexc + pydict" where
  "load_progress float_of bridge_root run entry =
     run_checks [validate_run_dir None None bridge_root run entry]
       (res_bind (phased_read_json float_of ''phase progress'' (read_entry entry progress_file)) (\<lambda>(raw, _).
        res_bind (validate_progress raw) (\<lambda>progress.
          run_checks [named_run bridge_root run entry progress] (Inr progress))))"

definition read_task_snapshot :: "(string \<Rightarrow> py) \<Rightarrow> run_entry \<Rightarrow> pydict \<Rightarrow> pyexc + string \<times> phased_task" where
  "read_task_snapshot float_of entry manifest =
     (case read_entry entry snapshot_file of
        None \<Rightarrow> Inl (PhasedTaskError ''task snapshot cannot be read safely'')
      | Some snapshot \<Rightarrow> (case utf8_decode snapshot of
          None \<Rightarrow> Inl (PhasedTaskError ''task snapshot cannot be read safely'')
        | Some t \<Rightarrow>
            run_checks [ensure (PyStr (sha256_hex snapshot) = dget manifest ''snapshot_sha256'')
                (PhasedTaskError ''task snapshot SHA-256 does not match manifest'')]
              (res_bind (parse_phased_task float_of t) (\<lambda>parsed. (case parsed of
                  None \<Rightarrow> Inl (PhasedTaskError ''task snapshot no longer contains a phased declaration'')
                | Some task \<Rightarrow> Inr (snapshot, task))))))"

record runtime_inspection =
  ri_run :: "string list"
  ri_task :: phased_task
  ri_manifest :: pydict
  ri_progress :: pydict

definition progress_binds :: "pydict \<Rightarrow> pydict \<Rightarrow> string \<Rightarrow> bool" where
  "progress_binds progress manifest manifest_raw \<longleftrightarrow>
     (\<forall>k \<in> set [''project_id'', ''command_id'', ''run_id'', ''claim_generation'', ''snapshot_sha256'', ''phases''].
        py_eq (dget progress k) (dget manifest k))
     \<and> dget progress ''manifest_sha256'' = PyStr (sha256_hex manifest_raw)"

definition current_text :: "phased_task \<Rightarrow> string \<Rightarrow> pyexc + string" where
  "current_text task current = (if current = FINAL_ACCEPTANCE then Inr (pt_final_acceptance_text task) else phase_text task current)"

definition future_projection :: "run_entry \<Rightarrow> bool" where
  "future_projection entry = (case entry of
     Directory files \<Rightarrow> list_ex (\<lambda>(name, _). has_prefix ''phase-'' name \<and> has_suffix ''.md'' name) files | _ \<Rightarrow> False)"

definition check_projections :: "run_entry \<Rightarrow> phased_task \<Rightarrow> pydict \<Rightarrow> pydict \<Rightarrow> pyexc option" where
  "check_projections entry task manifest progress =
     (case (read_entry entry global_file, read_entry entry current_file) of
        (Some global_bytes, Some current_bytes) \<Rightarrow>
          if PyStr (sha256_hex global_bytes) \<noteq> dget manifest ''global_sha256''
          then Some (PhasedTaskError ''global.md does not match the immutable task snapshot'')
          else (case current_text task (the_str (dget progress ''current_phase'')) of
              Inl e \<Rightarrow> Some e
            | Inr expected \<Rightarrow> first_raise
                [ensure (current_bytes = projection_bytes expected)
                   (PhasedTaskError ''current-phase.md does not match phase progress''),
                 ensure (\<not> future_projection entry) (PhasedTaskError ''future phase projection files are not allowed'')])
      | _ \<Rightarrow> Some (PhasedTaskError ''phased runtime projection is missing or unreadable''))"

definition inspect_runtime ::
    "(string \<Rightarrow> py) \<Rightarrow> string list option \<Rightarrow> string list \<Rightarrow> run_entry \<Rightarrow> pyexc + runtime_inspection" where
  "inspect_runtime float_of bridge_root run entry =
     run_checks [validate_run_dir None None bridge_root run entry]
       (res_bind (phased_read_json float_of ''task manifest'' (read_entry entry manifest_file)) (\<lambda>(raw_manifest, manifest_raw).
        res_bind (validate_manifest raw_manifest) (\<lambda>manifest.
        run_checks [named_run bridge_root run entry manifest]
          (res_bind (read_task_snapshot float_of entry manifest) (\<lambda>(snapshot, task).
           res_bind (manifest_for task \<lparr>ei_project_id = dget manifest ''project_id'', ei_command_id = dget manifest ''command_id'',
               ei_run_id = dget manifest ''run_id'', ei_claim_generation = dget manifest ''claim_generation''\<rparr> snapshot) (\<lambda>expected.
           run_checks [ensure (py_eq (PyDict manifest) (PyDict expected))
               (PhasedTaskError ''task manifest does not match the immutable snapshot'')]
             (res_bind (phased_read_json float_of ''phase progress'' (read_entry entry progress_file)) (\<lambda>(raw_progress, _).
              res_bind (validate_progress raw_progress) (\<lambda>progress.
              run_checks
                [ensure (progress_binds progress manifest manifest_raw)
                   (PhasedTaskError ''phase progress identity or manifest hash is invalid''),
                 check_projections entry task manifest progress]
                (Inr \<lparr>ri_run = run, ri_task = task, ri_manifest = manifest, ri_progress = progress\<rparr>))))))))))"

definition verify_snapshot_hash ::
    "(string \<Rightarrow> py) \<Rightarrow> string list option \<Rightarrow> string list \<Rightarrow> run_entry \<Rightarrow> pyexc + string" where
  "verify_snapshot_hash float_of bridge_root run entry =
     res_bind (inspect_runtime float_of bridge_root run entry) (\<lambda>i. Inr (the_str (dget (ri_manifest i) ''snapshot_sha256'')))"

section \<open>Writing\<close>

text \<open>
  An atomic write replaces the file, or raises and leaves it, or raises when the directory is
  flushed after the file was replaced.
\<close>

datatype write_result = Written | WriteFailed | WrittenUnsynced

definition atomic_write :: "write_result \<Rightarrow> string \<Rightarrow> string \<Rightarrow> files \<Rightarrow> pyexc option \<times> files" where
  "atomic_write w name data files = (case w of
       Written \<Rightarrow> (None, AList.update name data files)
     | WriteFailed \<Rightarrow> (Some (OSError ''write failed''), files)
     | WrittenUnsynced \<Rightarrow> (Some (OSError ''fsync failed''), AList.update name data files))"

fun write_all :: "(nat \<Rightarrow> write_result) \<Rightarrow> nat \<Rightarrow> (string \<times> string) list \<Rightarrow> files \<Rightarrow> pyexc option \<times> files" where
  "write_all ws n [] files = (None, files)"
| "write_all ws n ((name, data) # rest) files =
     (case atomic_write (ws n) name data files of
        (Some e, files') \<Rightarrow> (Some e, files')
      | (None, files') \<Rightarrow> write_all ws (Suc n) rest files')"

definition initial_progress :: "pydict \<Rightarrow> string \<Rightarrow> string \<Rightarrow> pydict" where
  "initial_progress manifest manifest_raw now =
     [(''schema_version'', PyInt SCHEMA_VERSION), (''project_id'', dget manifest ''project_id''),
      (''command_id'', dget manifest ''command_id''), (''run_id'', dget manifest ''run_id''),
      (''claim_generation'', dget manifest ''claim_generation''), (''snapshot_sha256'', dget manifest ''snapshot_sha256''),
      (''manifest_sha256'', PyStr (sha256_hex manifest_raw)), (''phases'', dget manifest ''phases''),
      (''current_phase'', hd (the_list (dget manifest ''phases''))), (''completed_phases'', PyList []),
      (''final_acceptance_verified'', PyBool False), (''updated_at'', PyStr now)]"

datatype command_input = CommandText string | CommandBytes string

text \<open>The text of a command and the bytes of its snapshot.\<close>

definition decode_command :: "command_input \<Rightarrow> pyexc + string \<times> string" where
  "decode_command c = (case c of
       CommandText t \<Rightarrow> Inr (t, utf8_encode t)
     | CommandBytes raw \<Rightarrow> (case utf8_decode raw of
         None \<Rightarrow> Inl (PhasedTaskError ''phased command is not valid UTF-8'') | Some t \<Rightarrow> Inr (t, raw)))"

text \<open>\<open>mkdir\<close> is what the creation of the directory raises, if anything.\<close>

definition prepare_runtime ::
    "(string \<Rightarrow> py) \<Rightarrow> string list option \<Rightarrow> string list \<Rightarrow> string \<Rightarrow> pyexc option \<Rightarrow> (nat \<Rightarrow> write_result) \<Rightarrow>
       command_input \<Rightarrow> execution_identity \<Rightarrow> run_entry \<Rightarrow> (pyexc + runtime_inspection) \<times> run_entry" where
  "prepare_runtime float_of bridge_root run now mkdir ws command i entry =
     (case run_checks [safe_identity i] (res_bind (decode_command command) (\<lambda>(t, snapshot).
         res_bind (parse_phased_task float_of t) (\<lambda>parsed.
         (case parsed of None \<Rightarrow> Inl (PhasedTaskError ''prepare_runtime requires a phased command'')
          | Some task \<Rightarrow> run_checks
              [validate_run_dir (Some (the_str (ei_project_id i))) (Some (the_str (ei_run_id i))) bridge_root run entry,
               ensure (entry = Missing) (PhasedTaskError ''phased run directory already exists''),
               mkdir]
              (Inr (task, snapshot)))))) of
        Inl e \<Rightarrow> (Inl e, entry)
      | Inr (task, snapshot) \<Rightarrow>
          (case res_bind (manifest_for task i snapshot) (\<lambda>manifest.
              res_bind (phase_text task (hd (pt_phases task))) (\<lambda>first. Inr (manifest, first))) of
             Inl e \<Rightarrow> (Inl e, Directory [])
           | Inr (manifest, first) \<Rightarrow>
               (let manifest_raw = json_bytes manifest; progress = initial_progress manifest manifest_raw now in
                case write_all ws 0
                    [(snapshot_file, snapshot), (manifest_file, manifest_raw),
                     (global_file, projection_bytes (pt_global_text task)), (current_file, projection_bytes first),
                     (progress_file, json_bytes progress)] [] of
                  (Some e, files) \<Rightarrow> (Inl e, Directory files)
                | (None, files) \<Rightarrow> (inspect_runtime float_of bridge_root run (Directory files), Directory files))))"

text \<open>
  A transition writes the projection and then the progress.  When a write raises, the old pair is
  written back as far as that is possible, and the exception propagates.
\<close>

definition write_transition ::
    "(string \<Rightarrow> py) \<Rightarrow> string list option \<Rightarrow> (nat \<Rightarrow> write_result) \<Rightarrow> runtime_inspection \<Rightarrow> pydict \<Rightarrow> string \<Rightarrow> files \<Rightarrow>
       (pyexc + runtime_inspection) \<times> files" where
  "write_transition float_of bridge_root ws inspection next_progress next_projection files =
     (case (map_of files progress_file, map_of files current_file) of
        (Some old_progress, Some old_projection) \<Rightarrow>
          (case write_all ws 0 [(current_file, projection_bytes next_projection), (progress_file, json_bytes next_progress)] files of
             (None, files') \<Rightarrow> (inspect_runtime float_of bridge_root (ri_run inspection) (Directory files'), files')
           | (Some e, files') \<Rightarrow>
               (Inl e, snd (write_all ws 2 [(current_file, old_projection), (progress_file, old_progress)] files')))
      | _ \<Rightarrow> (Inl (OSError ''No such file or directory''), files))"

text \<open>The lock file is created exclusively; a lock whose content cannot be written stays behind.\<close>

datatype lock_result = LockCreated | LockOpenFailed | LockWriteFailed

definition acquire_lock :: "lock_result \<Rightarrow> string \<Rightarrow> files \<Rightarrow> pyexc option \<times> files" where
  "acquire_lock l pid files =
     (if map_of files lock_file \<noteq> None then (Some (PhasedTaskError ''phased checkpoint is already being updated''), files)
      else (case l of
          LockCreated \<Rightarrow> (None, AList.update lock_file pid files)
        | LockOpenFailed \<Rightarrow> (Some (PhasedTaskError ''phased checkpoint lock could not be acquired''), files)
        | LockWriteFailed \<Rightarrow> (Some (PhasedTaskError ''phased checkpoint lock could not be acquired''), AList.update lock_file [] files)))"

definition with_lock ::
    "lock_result \<Rightarrow> string \<Rightarrow> (files \<Rightarrow> (pyexc + runtime_inspection) \<times> files) \<Rightarrow> run_entry \<Rightarrow>
       (pyexc + runtime_inspection) \<times> run_entry" where
  "with_lock l pid body entry = (case entry of
       Directory files \<Rightarrow>
         (case acquire_lock l pid files of
            (Some e, files') \<Rightarrow> (Inl e, Directory files')
          | (None, files') \<Rightarrow> (case body files' of (r, files'') \<Rightarrow> (r, Directory (AList.delete lock_file files''))))
     | _ \<Rightarrow> (Inl (PhasedTaskError ''phased checkpoint lock could not be acquired''), entry))"

definition advance_locked ::
    "(string \<Rightarrow> py) \<Rightarrow> string list option \<Rightarrow> string list \<Rightarrow> string \<Rightarrow> (nat \<Rightarrow> write_result) \<Rightarrow> string \<Rightarrow> files \<Rightarrow>
       (pyexc + runtime_inspection) \<times> files" where
  "advance_locked float_of bridge_root run now ws phase files =
     (case inspect_runtime float_of bridge_root run (Directory files) of
        Inl e \<Rightarrow> (Inl e, files)
      | Inr inspection \<Rightarrow>
          (let progress = ri_progress inspection; current = dget progress ''current_phase'' in
           if current = PyStr FINAL_ACCEPTANCE
           then (Inl (PhasedTaskError ''all declared phases are already complete''), files)
           else if current \<noteq> PyStr phase
           then (Inl (PhasedTaskError (''phase transition must advance current phase '' @ py_str current @ '', not '' @ phase)), files)
           else
             (let completed = the_list (dget progress ''completed_phases'') @ [PyStr phase];
                  next_phase = phase_after (pt_phases (ri_task inspection)) (length completed);
                  next_progress = AList.update ''updated_at'' (PyStr now)
                    (AList.update ''final_acceptance_verified'' (PyBool False)
                    (AList.update ''completed_phases'' (PyList completed)
                    (AList.update ''current_phase'' (PyStr next_phase) progress))) in
              case current_text (ri_task inspection) next_phase of
                Inl e \<Rightarrow> (Inl e, files)
              | Inr next_projection \<Rightarrow>
                  write_transition float_of bridge_root ws inspection next_progress next_projection files)))"

definition advance_phase ::
    "(string \<Rightarrow> py) \<Rightarrow> string list option \<Rightarrow> string list \<Rightarrow> string \<Rightarrow> lock_result \<Rightarrow> string \<Rightarrow> (nat \<Rightarrow> write_result) \<Rightarrow>
       py \<Rightarrow> run_entry \<Rightarrow> (pyexc + runtime_inspection) \<times> run_entry" where
  "advance_phase float_of bridge_root run now l pid ws phase entry =
     (case first_raise
         [ensure (is_str phase \<and> the_str phase \<in> set PHASE_IDS) (PhasedTaskError ''phase must be one of A, B, C, or D''),
          validate_run_dir None None bridge_root run entry] of
        Some e \<Rightarrow> (Inl e, entry)
      | None \<Rightarrow> with_lock l pid (advance_locked float_of bridge_root run now ws (the_str phase)) entry)"

definition final_locked ::
    "(string \<Rightarrow> py) \<Rightarrow> string list option \<Rightarrow> string list \<Rightarrow> string \<Rightarrow> write_result \<Rightarrow> files \<Rightarrow>
       (pyexc + runtime_inspection) \<times> files" where
  "final_locked float_of bridge_root run now w files =
     (case inspect_runtime float_of bridge_root run (Directory files) of
        Inl e \<Rightarrow> (Inl e, files)
      | Inr inspection \<Rightarrow>
          (let progress = ri_progress inspection in
           if dget progress ''current_phase'' \<noteq> PyStr FINAL_ACCEPTANCE
           then (Inl (PhasedTaskError ''complete-final requires every declared phase to be completed''), files)
           else if truthy (dget progress ''final_acceptance_verified'')
           then (Inl (PhasedTaskError ''final acceptance is already verified''), files)
           else
             (let updated = AList.update ''updated_at'' (PyStr now) (AList.update ''final_acceptance_verified'' (PyBool True) progress) in
              case atomic_write w progress_file (json_bytes updated) files of
                (Some e, files') \<Rightarrow> (Inl e, files')
              | (None, files') \<Rightarrow> (inspect_runtime float_of bridge_root run (Directory files'), files'))))"

definition complete_final ::
    "(string \<Rightarrow> py) \<Rightarrow> string list option \<Rightarrow> string list \<Rightarrow> string \<Rightarrow> lock_result \<Rightarrow> string \<Rightarrow> write_result \<Rightarrow>
       run_entry \<Rightarrow> (pyexc + runtime_inspection) \<times> run_entry" where
  "complete_final float_of bridge_root run now l pid w entry =
     (case validate_run_dir None None bridge_root run entry of
        Some e \<Rightarrow> (Inl e, entry)
      | None \<Rightarrow> with_lock l pid (final_locked float_of bridge_root run now w) entry)"

section \<open>Compaction\<close>

text \<open>\<open>denied\<close> are the files whose removal the operating system refuses.\<close>

fun unlink_all :: "string list \<Rightarrow> string list \<Rightarrow> files \<Rightarrow> pyexc option \<times> files" where
  "unlink_all denied [] files = (None, files)"
| "unlink_all denied (name # names) files =
     (if map_of files name = None
      then (Some (PhasedTaskError ''phased evidence is already compacted or incomplete''), files)
      else if name \<in> set denied then (Some (PermissionError ''Permission denied''), files)
      else unlink_all denied names (AList.delete name files))"

definition safe_compact_successful_run ::
    "(string \<Rightarrow> py) \<Rightarrow> string list option \<Rightarrow> string list \<Rightarrow> string list \<Rightarrow> py \<Rightarrow> py \<Rightarrow> py \<Rightarrow> py \<Rightarrow> py \<Rightarrow>
       run_entry \<Rightarrow> (pyexc + bool) \<times> run_entry" where
  "safe_compact_successful_run float_of bridge_root run denied outcome published pending unresolved conflict entry =
     (if \<not> list_all is_bool [published, pending, unresolved, conflict]
      then (Inl (PhasedTaskError ''compact safety gates must be boolean''), entry)
      else if outcome \<noteq> PyStr ''SUCCESS'' \<or> \<not> truthy published \<or> truthy pending \<or> truthy unresolved \<or> truthy conflict
      then (Inr False, entry)
      else (case run_checks [validate_run_dir None None bridge_root run entry] (inspect_runtime float_of bridge_root run entry) of
          Inl e \<Rightarrow> (Inl e, entry)
        | Inr inspection \<Rightarrow>
            if \<not> truthy (dget (ri_progress inspection) ''final_acceptance_verified'')
            then (Inl (PhasedTaskError ''successful phased compaction requires verified final acceptance''), entry)
            else (case entry of
                Directory files \<Rightarrow>
                  (case unlink_all denied [snapshot_file, global_file, current_file] files of
                     (Some e, files') \<Rightarrow> (Inl e, Directory files')
                   | (None, files') \<Rightarrow> (Inr True, Directory files'))
              | _ \<Rightarrow> (Inl (OSError ''No such file or directory''), entry))))"

end
