(* ===== verification/Phased_Runs.thy ===== *)
theory Phased_Runs
  imports Phased_Body Phased_Runtime "HOL-Library.Sublist"
begin

text \<open>
  What the checkpoint files of a run guarantee: the files a writer leaves are read back, phases are
  completed one after the other in their order, a transition that is cut short is never taken for a
  completed phase, and the evidence is removed only behind every gate.
\<close>

section \<open>One run\<close>

record phased_run =
  pr_base :: "string list option"
  pr_path :: "string list"
  pr_project :: string
  pr_command :: int
  pr_run_id :: string
  pr_generation :: int
  pr_snapshot :: string
  pr_task :: phased_task

definition run_identity_of :: "phased_run \<Rightarrow> execution_identity" where
  "run_identity_of r = \<lparr>ei_project_id = PyStr (pr_project r), ei_command_id = PyInt (pr_command r),
     ei_run_id = PyStr (pr_run_id r), ei_claim_generation = PyInt (pr_generation r)\<rparr>"

definition run_phases :: "phased_run \<Rightarrow> string list" where
  "run_phases r = pt_phases (pr_task r)"

definition wf_phased_run :: "(string \<Rightarrow> py) \<Rightarrow> phased_run \<Rightarrow> bool" where
  "wf_phased_run F r \<longleftrightarrow> Option.bind (utf8_decode (pr_snapshot r)) (\<lambda>t. Some (parse_phased_task F t)) = Some (Inr (Some (pr_task r)))
     \<and> PROJECT_ID_RE (pr_project r) \<and> RUN_ID_RE (pr_run_id r) \<and> 1 \<le> pr_command r \<and> 0 \<le> pr_generation r
     \<and> short_int (pr_command r) \<and> short_int (pr_generation r)
     \<and> validate_run_dir (Some (pr_project r)) (Some (pr_run_id r)) (pr_base r) (pr_path r) Missing = None"

definition run_manifest :: "phased_run \<Rightarrow> pydict" where
  "run_manifest r =
     [(''schema_version'', PyInt SCHEMA_VERSION), (''project_id'', PyStr (pr_project r)), (''command_id'', PyInt (pr_command r)),
      (''run_id'', PyStr (pr_run_id r)), (''claim_generation'', PyInt (pr_generation r)),
      (''snapshot_sha256'', PyStr (sha256_hex (pr_snapshot r))), (''phases'', PyList (map PyStr (run_phases r))),
      (''global_sha256'', PyStr (sha256_hex (projection_bytes (pt_global_text (pr_task r))))),
      (''phase_sha256'', PyDict (map (\<lambda>(p, t). (p, PyStr (sha256_hex (projection_bytes t)))) (pt_phase_sections (pr_task r)))),
      (''final_acceptance_sha256'', PyStr (sha256_hex (projection_bytes (pt_final_acceptance_text (pr_task r)))))]"

definition run_progress :: "phased_run \<Rightarrow> nat \<Rightarrow> bool \<Rightarrow> string \<Rightarrow> pydict" where
  "run_progress r k verified now =
     [(''schema_version'', PyInt SCHEMA_VERSION), (''project_id'', PyStr (pr_project r)), (''command_id'', PyInt (pr_command r)),
      (''run_id'', PyStr (pr_run_id r)), (''claim_generation'', PyInt (pr_generation r)),
      (''snapshot_sha256'', PyStr (sha256_hex (pr_snapshot r))),
      (''manifest_sha256'', PyStr (sha256_hex (json_bytes (run_manifest r)))), (''phases'', PyList (map PyStr (run_phases r))),
      (''current_phase'', PyStr (phase_after (run_phases r) k)),
      (''completed_phases'', PyList (map PyStr (take k (run_phases r)))),
      (''final_acceptance_verified'', PyBool verified), (''updated_at'', PyStr now)]"

definition text_after :: "phased_run \<Rightarrow> nat \<Rightarrow> string" where
  "text_after r k = (if k < length (run_phases r) then snd (pt_phase_sections (pr_task r) ! k)
     else pt_final_acceptance_text (pr_task r))"

definition run_inspection :: "phased_run \<Rightarrow> nat \<Rightarrow> bool \<Rightarrow> string \<Rightarrow> runtime_inspection" where
  "run_inspection r k verified now = \<lparr>ri_run = pr_path r, ri_task = pr_task r, ri_manifest = run_manifest r,
     ri_progress = run_progress r k verified now\<rparr>"

section \<open>What is read back\<close>

lemma run_task:
  assumes "wf_phased_run F r"
  shows "wf_phased_task (pr_task r)" "phase_prefix (run_phases r)" "distinct (run_phases r)"
    "FINAL_ACCEPTANCE \<notin> set (run_phases r)" "map fst (pt_phase_sections (pr_task r)) = run_phases r"
proof -
  obtain t where "parse_phased_task F t = Inr (Some (pr_task r))"
    using assms by (auto simp: wf_phased_run_def bind_eq_Some_conv)
  then show wf: "wf_phased_task (pr_task r)" by (simp add: parsed_wf)
  then show "phase_prefix (run_phases r)" "map fst (pt_phase_sections (pr_task r)) = run_phases r"
    by (simp_all add: wf_phased_task_def run_phases_def)
  then show "distinct (run_phases r)" "FINAL_ACCEPTANCE \<notin> set (run_phases r)"
    using phase_prefix_distinct by blast+
qed

lemma json_bytes_read:
  assumes "json_ok (PyDict d)"
  shows "phased_read_json F label (Some (json_bytes d)) = Inr (PyDict d, json_bytes d)"
  using json_loads_document [OF assms strict_object_keeps]
  by (simp add: phased_read_json_def json_bytes_def json_loads_strict_def Let_def)

lemma strs_ok [simp]: "items_ok (map PyStr xs)"
  by (induction xs) simp_all

lemma hashes_ok [simp]: "pairs_ok (map (\<lambda>(p, t). (p, PyStr (f t))) xs)"
  by (induction xs) auto

lemma schema_short [simp]: "short_int SCHEMA_VERSION"
  by (simp add: SCHEMA_VERSION_def short_int_def show_nat_small)

lemma run_json_ok:
  assumes "wf_phased_run F r"
  shows "json_ok (PyDict (run_manifest r))" "json_ok (PyDict (run_progress r k v now))"
proof -
  have s: "short_int (pr_command r)" "short_int (pr_generation r)" using assms by (simp_all add: wf_phased_run_def)
  have d: "distinct (map (fst \<circ> (\<lambda>(p, t). (p, PyStr (f t)))) (pt_phase_sections (pr_task r)))" for f
    using run_task(3,5) [OF assms] by (simp add: comp_def case_prod_unfold)
  show "json_ok (PyDict (run_manifest r))" using s d by (simp add: run_manifest_def)
  show "json_ok (PyDict (run_progress r k v now))" using s by (simp add: run_progress_def)
qed

lemma sha256_SHA256_RE [simp]: "SHA256_RE (sha256_hex s)"
  by (simp add: SHA256_RE_def)

lemma phases_of_strs [simp]: "map (the_str \<circ> PyStr) xs = xs"
  by (simp add: comp_def)

lemma validate_phases_prefix: "phase_prefix phases \<Longrightarrow> validate_phases (PyList (map PyStr phases)) label = None"
  by (auto simp: validate_phases_def phase_prefix_def Suc_le_eq)


lemma run_manifest_dget [simp]:
  "dget (run_manifest r) ''project_id'' = PyStr (pr_project r)" "dget (run_manifest r) ''command_id'' = PyInt (pr_command r)"
  "dget (run_manifest r) ''run_id'' = PyStr (pr_run_id r)" "dget (run_manifest r) ''claim_generation'' = PyInt (pr_generation r)"
  "dget (run_manifest r) ''snapshot_sha256'' = PyStr (sha256_hex (pr_snapshot r))"
  "dget (run_manifest r) ''phases'' = PyList (map PyStr (run_phases r))"
  "dget (run_manifest r) ''global_sha256'' = PyStr (sha256_hex (projection_bytes (pt_global_text (pr_task r))))"
  by (simp_all add: run_manifest_def)

lemma run_progress_dget [simp]:
  "dget (run_progress r k v now) ''project_id'' = PyStr (pr_project r)" "dget (run_progress r k v now) ''command_id'' = PyInt (pr_command r)"
  "dget (run_progress r k v now) ''run_id'' = PyStr (pr_run_id r)" "dget (run_progress r k v now) ''claim_generation'' = PyInt (pr_generation r)"
  "dget (run_progress r k v now) ''snapshot_sha256'' = PyStr (sha256_hex (pr_snapshot r))"
  "dget (run_progress r k v now) ''manifest_sha256'' = PyStr (sha256_hex (json_bytes (run_manifest r)))"
  "dget (run_progress r k v now) ''phases'' = PyList (map PyStr (run_phases r))"
  "dget (run_progress r k v now) ''current_phase'' = PyStr (phase_after (run_phases r) k)"
  "dget (run_progress r k v now) ''completed_phases'' = PyList (map PyStr (take k (run_phases r)))"
  "dget (run_progress r k v now) ''final_acceptance_verified'' = PyBool v"
  by (simp_all add: run_progress_def)

lemma run_manifest_valid:
  assumes "wf_phased_run F r"
  shows "validate_manifest (PyDict (run_manifest r)) = Inr (run_manifest r)"
proof -
  let ?h = "map (\<lambda>(p, t). (p, PyStr (sha256_hex (projection_bytes t)))) (pt_phase_sections (pr_task r))"
  have keys: "map fst ?h = run_phases r"
    using run_task(5) [OF assms] by (simp add: comp_def case_prod_unfold)
  have again: "map (\<lambda>p. (p, dget d p)) (map fst d) = d" if "distinct (map fst d)" for d
  proof -
    have "map ((\<lambda>p. (p, dget d p)) \<circ> fst) d = d"
      by (rule map_idI) (use that in \<open>auto simp: dget_def map_of_is_SomeI\<close>)
    then show ?thesis by simp
  qed
  have hashes: "map (\<lambda>p. (p, dget ?h p)) (run_phases r) = ?h"
    using again [of ?h] run_task(3) [OF assms] unfolding keys by simp
  have sha: "\<forall>p \<in> set (run_phases r). is_str (dget ?h p) \<and> SHA256_RE (the_str (dget ?h p))"
  proof
    fix p assume "p \<in> set (run_phases r)"
    then have "(p, dget ?h p) \<in> set ?h" using hashes by (metis (mono_tags, lifting) image_eqI list.set_map)
    then show "is_str (dget ?h p) \<and> SHA256_RE (the_str (dget ?h p))" by auto
  qed
  have phases: "phases_of (run_manifest r) = run_phases r" by (simp add: phases_of_def)
  have hash_field: "dget (run_manifest r) ''phase_sha256'' = PyDict ?h"
      "dget (run_manifest r) ''final_acceptance_sha256'' = PyStr (sha256_hex (projection_bytes (pt_final_acceptance_text (pr_task r))))"
      "schema_supported (run_manifest r)" "set (dkeys (run_manifest r)) = set MANIFEST_FIELDS"
    by (simp_all add: run_manifest_def schema_supported_def MANIFEST_FIELDS_def dkeys_def)
  have ok: "set (dkeys ?h) = set (run_phases r)" unfolding dkeys_def keys ..
  have id: "PROJECT_ID_RE (pr_project r)" "RUN_ID_RE (pr_run_id r)" "1 \<le> pr_command r" "0 \<le> pr_generation r"
    using assms by (simp_all add: wf_phased_run_def)
  have "validate_manifest (PyDict (run_manifest r)) = Inr
      [(''schema_version'', PyInt SCHEMA_VERSION), (''project_id'', dget (run_manifest r) ''project_id''),
       (''command_id'', dget (run_manifest r) ''command_id''), (''run_id'', dget (run_manifest r) ''run_id''),
       (''claim_generation'', dget (run_manifest r) ''claim_generation''), (''snapshot_sha256'', dget (run_manifest r) ''snapshot_sha256''),
       (''phases'', PyList (map PyStr (run_phases r))), (''global_sha256'', dget (run_manifest r) ''global_sha256''),
       (''phase_sha256'', PyDict (map (\<lambda>p. (p, dget ?h p)) (run_phases r))),
       (''final_acceptance_sha256'', dget (run_manifest r) ''final_acceptance_sha256'')]"
    unfolding validate_manifest_def Let_def type_test_simps phases hash_field
    by (subst run_checks_pass)
      (simp_all add: require_positive_int_def require_nonnegative_int_def require_sha_def id ok hash_field
        validate_phases_prefix [OF run_task(2) [OF assms]] sha)
  then show ?thesis by (simp add: hashes run_manifest_def)
qed

lemma run_progress_valid:
  assumes "wf_phased_run F r" "k \<le> length (run_phases r)" "v \<longrightarrow> k = length (run_phases r)" "TIMESTAMP_RE now"
  shows "validate_progress (PyDict (run_progress r k v now)) = Inr (run_progress r k v now)"
proof -
  have phases: "phases_of (run_progress r k v now) = run_phases r" by (simp add: phases_of_def)
  have fields: "dget (run_progress r k v now) ''updated_at'' = PyStr now"
      "schema_supported (run_progress r k v now)" "set (dkeys (run_progress r k v now)) = set PROGRESS_FIELDS"
    by (simp_all add: run_progress_def schema_supported_def PROGRESS_FIELDS_def dkeys_def)
  have id: "PROJECT_ID_RE (pr_project r)" "RUN_ID_RE (pr_run_id r)" "1 \<le> pr_command r" "0 \<le> pr_generation r"
    using assms(1) by (simp_all add: wf_phased_run_def)
  have final: "v \<longrightarrow> phase_after (run_phases r) k = FINAL_ACCEPTANCE" using assms(3) by (simp add: phase_after_def)
  have len: "length (take k (run_phases r)) = k" using assms(2) by simp
  have "validate_progress (PyDict (run_progress r k v now)) = Inr
      [(''schema_version'', PyInt SCHEMA_VERSION), (''project_id'', PyStr (pr_project r)),
       (''command_id'', PyInt (pr_command r)), (''run_id'', PyStr (pr_run_id r)),
       (''claim_generation'', PyInt (pr_generation r)), (''snapshot_sha256'', PyStr (sha256_hex (pr_snapshot r))),
       (''manifest_sha256'', PyStr (sha256_hex (json_bytes (run_manifest r)))), (''phases'', PyList (map PyStr (run_phases r))),
       (''current_phase'', PyStr (phase_after (run_phases r) k)),
       (''completed_phases'', PyList (map PyStr (take k (run_phases r)))),
       (''final_acceptance_verified'', PyBool v), (''updated_at'', PyStr now)]"
    unfolding validate_progress_def Let_def type_test_simps phases run_progress_dget fields
    by (subst run_checks_pass)
      (simp_all add: require_positive_int_def require_nonnegative_int_def require_sha_def id fields
        validate_phases_prefix [OF run_task(2) [OF assms(1)]] len assms(2,4) final truthy_def del: length_take)
  then show ?thesis by (simp add: run_progress_def)
qed


lemma run_manifest_for:
  assumes "wf_phased_run F r"
  shows "manifest_for (pr_task r) (run_identity_of r) (pr_snapshot r) = Inr (run_manifest r)"
proof -
  let ?ps = "pt_phase_sections (pr_task r)"
  have keys: "pt_phases (pr_task r) = map fst ?ps" using run_task(5) [OF assms] by (simp add: run_phases_def)
  have distinct: "distinct (map fst ?ps)" using run_task(3) [OF assms] by (simp add: run_phases_def keys)
  have "res_bind (phase_text (pr_task r) (fst s)) (\<lambda>t. Inr (fst s, PyStr (sha256_hex (projection_bytes t))))
      = Inr ((\<lambda>(p, t). (p, PyStr (sha256_hex (projection_bytes t)))) s)" if "s \<in> set ?ps" for s
  proof -
    obtain p t where s: "s = (p, t)" by force
    have "map_of ?ps p = Some t" using that distinct unfolding s by (rule map_of_is_SomeI [rotated])
    then show ?thesis by (simp add: s phase_text_def)
  qed
  then have "res_map (\<lambda>phase. res_bind (phase_text (pr_task r) phase) (\<lambda>t. Inr (phase, PyStr (sha256_hex (projection_bytes t)))))
      (map fst ss) = Inr (map (\<lambda>(p, t). (p, PyStr (sha256_hex (projection_bytes t)))) ss)" if "set ss \<subseteq> set ?ps" for ss
    using that by (induction ss) simp_all
  then have hashes: "res_map (\<lambda>phase. res_bind (phase_text (pr_task r) phase) (\<lambda>t. Inr (phase, PyStr (sha256_hex (projection_bytes t)))))
      (pt_phases (pr_task r)) = Inr (map (\<lambda>(p, t). (p, PyStr (sha256_hex (projection_bytes t)))) ?ps)"
    unfolding keys by simp
  have "safe_identity (run_identity_of r) = None"
    using assms by (simp add: safe_identity_def run_identity_of_def wf_phased_run_def require_positive_int_def require_nonnegative_int_def)
  then show ?thesis
    by (simp add: manifest_for_def hashes run_identity_of_def run_manifest_def run_phases_def)
qed

lemma py_eq_refl:
  "json_ok v \<Longrightarrow> py_eq v v"
  "items_ok xs \<Longrightarrow> py_eq_list xs xs"
  "pairs_ok d \<Longrightarrow> (\<forall>(k, v) \<in> set d. map_of e k = Some v) \<Longrightarrow> py_sub_dict d e"
proof (induction v and xs and d arbitrary: and and e rule: json_ok_items_ok_pairs_ok.induct)
  case (7 d)
  then have "\<forall>(k, v) \<in> set d. map_of d k = Some v" by auto
  then show ?case using 7 by simp
qed (auto simp: num_eq_def num_of_def)

lemma current_text_after:
  assumes "wf_phased_run F r"
  shows "current_text (pr_task r) (phase_after (run_phases r) k) = Inr (text_after r k)"
proof (cases "k < length (run_phases r)")
  case True
  let ?ps = "pt_phase_sections (pr_task r)"
  have len: "k < length ?ps" using True run_task(5) [OF assms] by (metis length_map)
  have "run_phases r ! k = fst (?ps ! k)" using run_task(5) [OF assms] len by (metis nth_map)
  moreover have "?ps ! k \<in> set ?ps" using len by simp
  moreover have "distinct (map fst ?ps)" using run_task(3,5) [OF assms] by simp
  ultimately have "map_of ?ps (run_phases r ! k) = Some (snd (?ps ! k))"
    by (metis map_of_is_SomeI prod.collapse)
  moreover have "run_phases r ! k \<noteq> FINAL_ACCEPTANCE" using run_task(4) [OF assms] True by (metis nth_mem)
  ultimately show ?thesis using True by (simp add: current_text_def phase_after_def phase_text_def text_after_def)
qed (simp add: current_text_def phase_after_def text_after_def)

section \<open>Checkpoints\<close>

text \<open>
  The files of a run in which \<open>k\<close> phases are recorded as complete.  The current projection is left
  open: it may belong to another phase when a transition was cut short.
\<close>

definition checkpoint :: "phased_run \<Rightarrow> nat \<Rightarrow> bool \<Rightarrow> string \<Rightarrow> files \<Rightarrow> bool" where
  "checkpoint r k v now files \<longleftrightarrow> map_of files snapshot_file = Some (pr_snapshot r)
     \<and> map_of files manifest_file = Some (json_bytes (run_manifest r))
     \<and> map_of files global_file = Some (projection_bytes (pt_global_text (pr_task r)))
     \<and> map_of files progress_file = Some (json_bytes (run_progress r k v now))
     \<and> \<not> future_projection (Directory files)
     \<and> k \<le> length (run_phases r) \<and> (v \<longrightarrow> k = length (run_phases r)) \<and> TIMESTAMP_RE now"

lemma run_dir_valid:
  assumes "wf_phased_run F r"
  shows "validate_run_dir None None (pr_base r) (pr_path r) (Directory files) = None"
    "validate_run_dir (Some (pr_project r)) (Some (pr_run_id r)) (pr_base r) (pr_path r) (Directory files) = None"
  using assms by (auto simp: wf_phased_run_def validate_run_dir_def Let_def)

lemma inspect_checkpoint:
  assumes "wf_phased_run F r" "checkpoint r k v now files"
  shows "inspect_runtime F (pr_base r) (pr_path r) (Directory files) = (case map_of files current_file of
      None \<Rightarrow> Inl (PhasedTaskError ''phased runtime projection is missing or unreadable'')
    | Some c \<Rightarrow> if c = projection_bytes (text_after r k) then Inr (run_inspection r k v now)
        else Inl (PhasedTaskError ''current-phase.md does not match phase progress''))"
proof -
  have c: "map_of files snapshot_file = Some (pr_snapshot r)" "map_of files manifest_file = Some (json_bytes (run_manifest r))"
      "map_of files global_file = Some (projection_bytes (pt_global_text (pr_task r)))"
      "map_of files progress_file = Some (json_bytes (run_progress r k v now))" "\<not> future_projection (Directory files)"
      "k \<le> length (run_phases r)" "v \<longrightarrow> k = length (run_phases r)" "TIMESTAMP_RE now"
    using assms(2) by (simp_all add: checkpoint_def)
  note ok = run_json_ok [OF assms(1)] and dir = run_dir_valid [OF assms(1), of files]
  obtain t where t: "utf8_decode (pr_snapshot r) = Some t" "parse_phased_task F t = Inr (Some (pr_task r))"
    using assms(1) by (auto simp: wf_phased_run_def bind_eq_Some_conv)
  have snapshot: "read_task_snapshot F (Directory files) (run_manifest r) = Inr (pr_snapshot r, pr_task r)"
    using t c(1) by (simp add: read_task_snapshot_def read_entry_def run_checks_pass)
  have phases_eq: "py_eq_list (map PyStr ps) (map PyStr ps)" for ps using py_eq_refl(2) [OF strs_ok] .
  have binds: "progress_binds (run_progress r k v now) (run_manifest r) (json_bytes (run_manifest r))"
    by (simp add: progress_binds_def phases_eq num_eq_def num_of_def)
  have named: "named_run (pr_base r) (pr_path r) (Directory files) (run_manifest r) = None"
    using dir(2) by (simp add: named_run_def)
  have projections: "check_projections (Directory files) (pr_task r) (run_manifest r) (run_progress r k v now) =
      (case map_of files current_file of
         None \<Rightarrow> Some (PhasedTaskError ''phased runtime projection is missing or unreadable'')
       | Some c \<Rightarrow> ensure (c = projection_bytes (text_after r k)) (PhasedTaskError ''current-phase.md does not match phase progress''))"
    using c(3,5) current_text_after [OF assms(1), of k]
    by (simp add: check_projections_def read_entry_def ensure_def split: option.split)
  have "inspect_runtime F (pr_base r) (pr_path r) (Directory files) =
      run_checks [check_projections (Directory files) (pr_task r) (run_manifest r) (run_progress r k v now)]
        (Inr (run_inspection r k v now))"
    unfolding inspect_runtime_def
    by (simp add: dir(1) read_entry_def c(2,4) json_bytes_read [OF ok(1)] json_bytes_read [OF ok(2)] run_manifest_valid [OF assms(1)]
        named snapshot run_manifest_for [OF assms(1), unfolded run_identity_of_def] run_progress_valid [OF assms(1) c(6,7,8)] binds
        py_eq_refl(1) [OF ok(1)] run_inspection_def del: py_eq.simps)
  then show ?thesis unfolding projections by (simp add: ensure_def split: option.split)
qed

end
