(* ===== verification/Phased_Steps.thy ===== *)
theory Phased_Steps
  imports Phased_Runs
begin

text \<open>
  The operations on the checkpoint files of one run: what each of them does to a checkpoint, over any
  outcome of its writes.
\<close>

section \<open>Writes\<close>

lemmas file_names = snapshot_file_def manifest_file_def global_file_def current_file_def progress_file_def lock_file_def

lemma file_names_distinct [simp]: "distinct [snapshot_file, manifest_file, global_file, current_file, progress_file, lock_file]"
  by (simp add: file_names)

lemma file_names_differ [simp]:
  "snapshot_file \<noteq> current_file" "snapshot_file \<noteq> progress_file" "snapshot_file \<noteq> lock_file"
  "manifest_file \<noteq> current_file" "manifest_file \<noteq> progress_file" "manifest_file \<noteq> lock_file"
  "global_file \<noteq> current_file" "global_file \<noteq> progress_file" "global_file \<noteq> lock_file"
  "current_file \<noteq> progress_file" "progress_file \<noteq> current_file" "current_file \<noteq> lock_file" "progress_file \<noteq> lock_file"
  "snapshot_file \<noteq> manifest_file" "snapshot_file \<noteq> global_file" "manifest_file \<noteq> global_file"
  "lock_file \<noteq> snapshot_file" "lock_file \<noteq> current_file" "lock_file \<noteq> progress_file" "lock_file \<noteq> global_file"
  "lock_file \<noteq> manifest_file" "current_file \<noteq> snapshot_file"
  "current_file \<noteq> global_file" "global_file \<noteq> snapshot_file" "manifest_file \<noteq> snapshot_file" "global_file \<noteq> manifest_file"
  "progress_file \<noteq> snapshot_file" "progress_file \<noteq> manifest_file" "progress_file \<noteq> global_file" "current_file \<noteq> manifest_file"
  by (simp_all add: file_names)

definition future_name :: "string \<Rightarrow> bool" where
  "future_name name \<longleftrightarrow> has_prefix ''phase-'' name \<and> has_suffix ''.md'' name"

lemma future_projection_names: "future_projection (Directory files) \<longleftrightarrow> (\<exists>name \<in> fst ` set files. future_name name)"
  by (force simp: future_projection_def list_ex_iff future_name_def)

lemma own_names_present [simp]:
  "\<not> future_name snapshot_file" "\<not> future_name manifest_file" "\<not> future_name global_file"
  "\<not> future_name current_file" "\<not> future_name progress_file" "\<not> future_name lock_file"
  by (simp_all add: future_name_def file_names has_prefix_def has_suffix_def)

lemma future_update [simp]:
  "future_projection (Directory (AList.update name data files)) \<longleftrightarrow> future_name name \<or> future_projection (Directory files)"
  by (simp add: future_projection_names dom_update)

lemma future_delete: "\<not> future_projection (Directory files) \<Longrightarrow> \<not> future_projection (Directory (AList.delete name files))"
  using dom_delete_subset [of name files] unfolding future_projection_names by blast


lemma checkpoint_other_file:
  assumes "checkpoint r k v now files" "name = current_file \<or> name = lock_file"
  shows "checkpoint r k v now (AList.update name data files)" "checkpoint r k v now (AList.delete name files)"
  using assms future_delete [of files name] by (auto simp: checkpoint_def update_conv')

lemma checkpoint_progress:
  assumes "checkpoint r k v now files" "k' \<le> length (run_phases r)" "v' \<longrightarrow> k' = length (run_phases r)" "TIMESTAMP_RE now'"
  shows "checkpoint r k' v' now' (AList.update progress_file (json_bytes (run_progress r k' v' now')) files)"
  using assms by (simp add: checkpoint_def update_conv')

text \<open>The inspection of a checkpoint.\<close>

definition projected :: "phased_run \<Rightarrow> nat \<Rightarrow> files \<Rightarrow> bool" where
  "projected r k files \<longleftrightarrow> map_of files current_file = Some (projection_bytes (text_after r k))"

lemma inspect_projected:
  assumes "wf_phased_run F r" "checkpoint r k v now files"
  shows "projected r k files \<Longrightarrow> inspect_runtime F (pr_base r) (pr_path r) (Directory files) = Inr (run_inspection r k v now)"
    "\<not> projected r k files \<Longrightarrow> \<exists>e. inspect_runtime F (pr_base r) (pr_path r) (Directory files) = Inl e"
  using inspect_checkpoint [OF assms] by (auto simp: projected_def split: option.split)

lemma lock_inspection:
  assumes "wf_phased_run F r" "checkpoint r k v now files"
  shows "inspect_runtime F (pr_base r) (pr_path r) (Directory (AList.delete lock_file files))
      = inspect_runtime F (pr_base r) (pr_path r) (Directory files)"
    "inspect_runtime F (pr_base r) (pr_path r) (Directory (AList.update lock_file data files))
      = inspect_runtime F (pr_base r) (pr_path r) (Directory files)"
  using inspect_checkpoint [OF assms] inspect_checkpoint [OF assms(1) checkpoint_other_file(1) [OF assms(2)], of lock_file data]
    inspect_checkpoint [OF assms(1) checkpoint_other_file(2) [OF assms(2)], of lock_file]
  by (simp_all add: update_conv')

section \<open>Transitions\<close>

text \<open>
  The state after a transition from \<open>k\<close> to the next phase: the old checkpoint, or the new one.  Where
  it returns, the new checkpoint is complete.
\<close>

definition transition_result ::
    "phased_run \<Rightarrow> nat \<Rightarrow> bool \<Rightarrow> string \<Rightarrow> nat \<Rightarrow> bool \<Rightarrow> string \<Rightarrow> (pyexc + runtime_inspection) \<times> files \<Rightarrow> bool" where
  "transition_result r k v t k' v' t' out \<longleftrightarrow> (case out of (res, files) \<Rightarrow>
     checkpoint r k v t files \<and> \<not> returns res
     \<or> checkpoint r k' v' t' files \<and> (returns res \<longrightarrow> res = Inr (run_inspection r k' v' t') \<and> projected r k' files))"

lemma write_two:
  "write_all ws n [(a, x), (b, y)] files = (res, files') \<Longrightarrow>
     (if res = None then files' = AList.update b y (AList.update a x files)
      else files' \<in> {files, AList.update a x files, AList.update b y (AList.update a x files)})"
  by (cases "ws n"; cases "ws (Suc n)") (auto simp: atomic_write_def)

lemma write_two_done:
  "ws n = Written \<Longrightarrow> ws (Suc n) = Written \<Longrightarrow>
     write_all ws n [(a, x), (b, y)] files = (None, AList.update b y (AList.update a x files))"
  by (simp add: atomic_write_def)

lemma transition_moves:
  assumes wf: "wf_phased_run F r" and cp: "checkpoint r k False t files" and proj: "projected r k files"
    and k: "k < length (run_phases r)" and t': "TIMESTAMP_RE t'" and i: "ri_run i = pr_path r"
    and run: "write_transition F (pr_base r) ws i (run_progress r (Suc k) False t') (text_after r (Suc k)) files = (res, files')"
  shows "transition_result r k False t (Suc k) False t' (res, files')
    \<and> (ws 0 = Written \<and> ws 1 = Written \<longrightarrow> returns res)
    \<and> map_of files' current_file \<noteq> None \<and> map_of files' lock_file = map_of files lock_file"
proof -
  let ?old = "projection_bytes (text_after r k)" and ?new = "projection_bytes (text_after r (Suc k))"
  let ?oldp = "json_bytes (run_progress r k False t)" and ?newp = "json_bytes (run_progress r (Suc k) False t')"
  have read: "map_of files progress_file = Some ?oldp" "map_of files current_file = Some ?old"
    using cp proj by (simp_all add: checkpoint_def projected_def)
  have cur: "checkpoint r l w s (AList.update current_file x fs)" if "checkpoint r l w s fs" for l w s x fs
    using checkpoint_other_file(1) [OF that] by blast
  have moved: "checkpoint r (Suc k) False t' (AList.update progress_file ?newp (AList.update current_file ?new files))"
    by (rule checkpoint_progress [OF cur [OF cp]]) (use k t' in simp_all)
  have restored: "checkpoint r k False t (AList.update progress_file ?oldp fs)" if "checkpoint r l w s fs" for l w s fs
    by (rule checkpoint_progress [OF that]) (use cp in \<open>simp_all add: checkpoint_def\<close>)
  have proj': "projected r (Suc k) (AList.update progress_file ?newp (AList.update current_file ?new files))"
    by (simp add: projected_def update_conv')
  obtain out fs where first: "write_all ws 0 [(current_file, ?new), (progress_file, ?newp)] files = (out, fs)" by force
  show ?thesis
  proof (cases out)
    case None
    then have fs: "fs = AList.update progress_file ?newp (AList.update current_file ?new files)"
      using write_two [OF first] by simp
    have "res = Inr (run_inspection r (Suc k) False t')" "files' = fs"
      using run first None inspect_projected(1) [OF wf moved proj'] by (simp_all add: write_transition_def read i fs del: write_all.simps)
    then show ?thesis using moved proj' by (simp add: transition_result_def fs update_conv')
  next
    case (Some e)
    obtain out' fs' where second: "write_all ws 2 [(current_file, ?old), (progress_file, ?oldp)] fs = (out', fs')" by force
    have res: "res = Inl e" "files' = fs'"
      using run first second Some by (simp_all add: write_transition_def read del: write_all.simps)
    have fs: "fs \<in> {files, AList.update current_file ?new files, AList.update progress_file ?newp (AList.update current_file ?new files)}"
      using write_two [OF first] Some by simp
    then have "checkpoint r k False t fs \<or> checkpoint r (Suc k) False t' fs"
      using cp cur [OF cp] moved by blast
    moreover have fs': "fs' \<in> {fs, AList.update current_file ?old fs, AList.update progress_file ?oldp (AList.update current_file ?old fs)}"
      using write_two [OF second] by (cases out') auto
    ultimately have "checkpoint r k False t fs' \<or> checkpoint r (Suc k) False t' fs'"
      using cur restored by blast
    moreover have "map_of fs' current_file \<noteq> None \<and> map_of fs' lock_file = map_of files lock_file"
      using fs fs' read(2) by (elim insertE emptyE) (simp_all add: update_conv')
    moreover have "\<not> (ws 0 = Written \<and> ws 1 = Written)"
      using first Some write_two_done [of ws 0] by (auto simp del: write_all.simps)
    ultimately show ?thesis by (simp add: transition_result_def res)
  qed
qed


section \<open>Operations\<close>

text \<open>The progress written by an advance and by the final acceptance.\<close>

lemma next_progress:
  assumes "k < length (run_phases r)"
  shows "AList.update ''updated_at'' (PyStr now) (AList.update ''final_acceptance_verified'' (PyBool False)
      (AList.update ''completed_phases'' (PyList (map PyStr (take k (run_phases r)) @ [PyStr (run_phases r ! k)]))
      (AList.update ''current_phase'' (PyStr (phase_after (run_phases r) (Suc k))) (run_progress r k v t))))
    = run_progress r (Suc k) False now"
  using assms by (simp add: run_progress_def take_Suc_conv_app_nth)

lemma final_progress:
  "AList.update ''updated_at'' (PyStr now) (AList.update ''final_acceptance_verified'' (PyBool True) (run_progress r k v t))
    = run_progress r k True now"
  by (simp add: run_progress_def)

lemma run_inspection_fields [simp]:
  "ri_run (run_inspection r k v t) = pr_path r" "ri_task (run_inspection r k v t) = pr_task r"
  "ri_manifest (run_inspection r k v t) = run_manifest r" "ri_progress (run_inspection r k v t) = run_progress r k v t"
  by (simp_all add: run_inspection_def)

text \<open>An advance inside the lock: refused with the files unchanged, or a transition of the current phase.\<close>

lemma advance_locked_cases:
  assumes wf: "wf_phased_run F r" and cp: "checkpoint r k v t files" and now: "TIMESTAMP_RE now"
    and run: "advance_locked F (pr_base r) (pr_path r) now ws phase files = (res, files')"
  obtains (refused) "\<not> returns res" "files' = files"
      "\<not> (projected r k files \<and> k < length (run_phases r) \<and> phase = run_phases r ! k)"
  | (moved) "projected r k files" "k < length (run_phases r)" "phase = run_phases r ! k" "\<not> v"
      "transition_result r k False t (Suc k) False now (res, files')"
      "ws 0 = Written \<and> ws 1 = Written \<longrightarrow> returns res"
      "map_of files' current_file \<noteq> None" "map_of files' lock_file = map_of files lock_file"
proof (cases "projected r k files \<and> k < length (run_phases r) \<and> phase = run_phases r ! k")
  case False
  have "\<not> returns res \<and> files' = files"
  proof (cases "projected r k files")
    case True
    have differs: "PyStr (phase_after (run_phases r) k) = PyStr FINAL_ACCEPTANCE \<longleftrightarrow> \<not> k < length (run_phases r)"
      using run_task(4) [OF wf] by (auto simp: phase_after_def dest: nth_mem)
    then show ?thesis
      using run inspect_projected(1) [OF wf cp True] False True
      by (auto simp: advance_locked_def Let_def phase_after_def split: if_splits)
  next
    case not_projected: False
    then obtain e where e: "inspect_runtime F (pr_base r) (pr_path r) (Directory files) = Inl e"
      using inspect_projected(2) [OF wf cp] by blast
    show ?thesis using run unfolding advance_locked_def e by auto
  qed
  then show thesis using False by (intro refused) auto
next
  case True
  then have v: "\<not> v" using cp by (auto simp: checkpoint_def)
  have cur: "phase_after (run_phases r) k = phase" "phase \<noteq> FINAL_ACCEPTANCE"
    using True run_task(4) [OF wf] by (auto simp: phase_after_def dest: nth_mem)
  have len: "length (map PyStr (take k (run_phases r)) @ [PyStr phase]) = Suc k" using True by simp
  have "write_transition F (pr_base r) ws (run_inspection r k v t) (run_progress r (Suc k) False now)
      (text_after r (Suc k)) files = (res, files')"
    using run inspect_projected(1) [OF wf cp] True cur current_text_after [OF wf, of "Suc k"] next_progress [of k r now v t]
    by (simp add: advance_locked_def Let_def len run_phases_def [symmetric] del: update.simps)
  from transition_moves [OF wf _ _ _ now _ this, of t] v True cp show thesis
    by (intro moved) simp_all
qed

lemma final_locked_cases:
  assumes wf: "wf_phased_run F r" and cp: "checkpoint r k v t files" and now: "TIMESTAMP_RE now"
    and run: "final_locked F (pr_base r) (pr_path r) now w files = (res, files')"
  obtains (refused) "\<not> returns res" "files' = files"
      "\<not> (projected r k files \<and> k = length (run_phases r) \<and> \<not> v)"
  | (moved) "projected r k files" "k = length (run_phases r)" "\<not> v"
      "transition_result r k False t k True now (res, files')" "w = Written \<longrightarrow> returns res"
      "map_of files' current_file \<noteq> None" "map_of files' lock_file = map_of files lock_file"
proof (cases "projected r k files \<and> k = length (run_phases r) \<and> \<not> v")
  case False
  have final: "phase_after (run_phases r) k = FINAL_ACCEPTANCE \<longleftrightarrow> k = length (run_phases r)"
    using run_task(4) [OF wf] cp by (auto simp: phase_after_def checkpoint_def dest: nth_mem)
  have "\<not> returns res \<and> files' = files"
  proof (cases "projected r k files")
    case True
    then show ?thesis
      using run inspect_projected(1) [OF wf cp True] False final
      by (auto simp: final_locked_def Let_def truthy_def split: if_splits)
  next
    case not_projected: False
    then obtain e where e: "inspect_runtime F (pr_base r) (pr_path r) (Directory files) = Inl e"
      using inspect_projected(2) [OF wf cp] by blast
    show ?thesis using run unfolding final_locked_def e by auto
  qed
  then show thesis using False by (intro refused) auto
next
  case True
  let ?files = "AList.update progress_file (json_bytes (run_progress r k True now)) files"
  have moved_cp: "checkpoint r k True now ?files" by (rule checkpoint_progress [OF cp]) (use True now in simp_all)
  have proj: "projected r k ?files" using True by (simp add: projected_def update_conv')
  have final: "phase_after (run_phases r) k = FINAL_ACCEPTANCE" using True by (simp add: phase_after_def)
  have inspect: "inspect_runtime F (pr_base r) (pr_path r) (Directory files) = Inr (run_inspection r k v t)"
    using inspect_projected(1) [OF wf cp] True by blast
  have out: "(res, files') = (case atomic_write w progress_file (json_bytes (run_progress r k True now)) files of
      (Some e, fs) \<Rightarrow> (Inl e, fs) | (None, fs) \<Rightarrow> (inspect_runtime F (pr_base r) (pr_path r) (Directory fs), fs))"
    using run True final by (simp add: final_locked_def inspect Let_def truthy_def final_progress del: update.simps)
  have "transition_result r k False t k True now (res, files') \<and> (w = Written \<longrightarrow> returns res) \<and> files' \<in> {files, ?files}"
  proof (cases w)
    case Written
    then have "res = Inr (run_inspection r k True now)" "files' = ?files"
      using out inspect_projected(1) [OF wf moved_cp proj] by (simp_all add: atomic_write_def)
    then show ?thesis using moved_cp proj by (simp add: transition_result_def)
  next
    case WriteFailed
    then show ?thesis using out cp True by (simp add: transition_result_def atomic_write_def)
  next
    case WrittenUnsynced
    then show ?thesis using out moved_cp by (simp add: transition_result_def atomic_write_def)
  qed
  moreover from this have "map_of files' current_file = map_of files current_file" "map_of files' lock_file = map_of files lock_file"
    by (auto simp: update_conv')
  ultimately show thesis using True by (intro moved) (simp_all add: projected_def)
qed

end
