(* ===== verification/Phased_Checkpoints.thy ===== *)
theory Phased_Checkpoints
  imports Phased_Steps
begin

text \<open>
  The properties of the checkpoint files: over any sequence of operations and any outcome of their
  writes phases complete in order, a transition is atomic, a run whose writes succeed completes, and
  its evidence is removed only behind every gate.
\<close>

section \<open>Operations\<close>

datatype phased_op =
    Advance string lock_result string "nat \<Rightarrow> write_result" py
  | Complete string lock_result string write_result

fun op_time :: "phased_op \<Rightarrow> string" where
  "op_time (Advance now l pid ws phase) = now"
| "op_time (Complete now l pid w) = now"

fun run_op :: "(string \<Rightarrow> py) \<Rightarrow> string list option \<Rightarrow> string list \<Rightarrow> phased_op \<Rightarrow> run_entry \<Rightarrow>
    (pyexc + runtime_inspection) \<times> run_entry" where
  "run_op F base path (Advance now l pid ws phase) entry = advance_phase F base path now l pid ws phase entry"
| "run_op F base path (Complete now l pid w) entry = complete_final F base path now l pid w entry"

text \<open>One operation after the other, whatever each of them returns.\<close>

fun phased_ops :: "(string \<Rightarrow> py) \<Rightarrow> string list option \<Rightarrow> string list \<Rightarrow> phased_op list \<Rightarrow> run_entry \<Rightarrow> run_entry" where
  "phased_ops F base path [] entry = entry"
| "phased_ops F base path (op # ops) entry = phased_ops F base path ops (snd (run_op F base path op entry))"

text \<open>What an operation may do to the recorded progress.\<close>

fun op_moves :: "phased_run \<Rightarrow> phased_op \<Rightarrow> nat \<Rightarrow> bool \<Rightarrow> nat \<Rightarrow> bool \<Rightarrow> bool" where
  "op_moves r (Advance now l pid ws phase) k v k' v' \<longleftrightarrow>
     k < length (run_phases r) \<and> phase = PyStr (run_phases r ! k) \<and> \<not> v \<and> k' = Suc k \<and> \<not> v'"
| "op_moves r (Complete now l pid w) k v k' v' \<longleftrightarrow> k = length (run_phases r) \<and> \<not> v \<and> k' = k \<and> v'"

text \<open>The operation meets no failure of the operating system.\<close>

fun op_clean :: "phased_op \<Rightarrow> bool" where
  "op_clean (Advance now l pid ws phase) \<longleftrightarrow> l = LockCreated \<and> ws 0 = Written \<and> ws 1 = Written"
| "op_clean (Complete now l pid w) \<longleftrightarrow> l = LockCreated \<and> w = Written"

lemma with_lock_cases:
  assumes "with_lock l pid body (Directory files) = (res, entry)"
  obtains (locked) "\<not> returns res" "entry = Directory files \<or> entry = Directory (AList.update lock_file [] files)"
      "map_of files lock_file \<noteq> None \<or> l \<noteq> LockCreated"
  | (ran) files' where "map_of files lock_file = None" "l = LockCreated" "body (AList.update lock_file pid files) = (res, files')"
      "entry = Directory (AList.delete lock_file files')"
  using assms by (auto simp: with_lock_def acquire_lock_def split: if_splits lock_result.splits prod.splits)

text \<open>
  The state of one run: its checkpoint, and the projection is there.  An operation leaves it, or moves
  it by one step; where it returns, the step was made and the new state is inspected.
\<close>

definition op_result ::
    "phased_run \<Rightarrow> phased_op \<Rightarrow> nat \<Rightarrow> bool \<Rightarrow> string \<Rightarrow> (pyexc + runtime_inspection) \<Rightarrow> files \<Rightarrow> bool" where
  "op_result r op k v t res files \<longleftrightarrow>
     checkpoint r k v t files \<and> \<not> returns res
     \<or> (\<exists>k' v'. op_moves r op k v k' v' \<and> checkpoint r k' v' (op_time op) files
          \<and> (returns res \<longrightarrow> res = Inr (run_inspection r k' v' (op_time op)) \<and> projected r k' files))"

lemma transition_op_result:
  assumes "transition_result r k v t k' v' (op_time op) (res, files)" "op_moves r op k v k' v'"
  shows "op_result r op k v t res files"
  using assms by (auto simp: transition_result_def op_result_def)

lemma op_result_unlock:
  assumes "op_result r op k v t res files"
  shows "op_result r op k v t res (AList.delete lock_file files)"
proof -
  have "checkpoint r k v t files \<Longrightarrow> checkpoint r k v t (AList.delete lock_file files)" for k v t
    using checkpoint_other_file(2) by blast
  moreover have "projected r k (AList.delete lock_file files) = projected r k files" for k by (simp add: projected_def)
  ultimately show ?thesis using assms unfolding op_result_def by metis
qed

lemma locked_op_result:
  assumes cp: "checkpoint r k v t files" and run: "with_lock l pid body (Directory files) = (res, entry)"
    and inner: "\<And>files1. body (AList.update lock_file pid files) = (res, files1) \<Longrightarrow>
      op_result r op k v t res files1 \<and> (clean \<longrightarrow> returns res)"
  shows "\<exists>files'. entry = Directory files' \<and> op_result r op k v t res files'
    \<and> (l = LockCreated \<and> map_of files lock_file = None \<and> clean \<longrightarrow> returns res \<and> map_of files' lock_file = None)"
proof (cases rule: with_lock_cases [OF run])
  case 1
  then obtain files' where "entry = Directory files'" "files' = files \<or> files' = AList.update lock_file [] files" by blast
  moreover have "checkpoint r k v t files'"
    using cp checkpoint_other_file(1) [OF cp, of lock_file "[]"] calculation(2) by auto
  ultimately show ?thesis using 1 by (auto simp: op_result_def)
next
  case (2 files1)
  have "op_result r op k v t res (AList.delete lock_file files1)" using inner [OF 2(3)] by (simp add: op_result_unlock)
  moreover have "map_of (AList.delete lock_file files1) lock_file = None" by (simp add: delete_conv')
  ultimately show ?thesis using inner [OF 2(3)] 2(4) by blast
qed

lemma checkpoint_locked:
  "checkpoint r k v t files \<Longrightarrow> checkpoint r k v t (AList.update lock_file pid files)"
  "projected r k (AList.update lock_file pid files) = projected r k files"
  using checkpoint_other_file(1) [of r k v t files lock_file pid] by (simp_all add: projected_def update_conv')

lemma op_refused: "checkpoint r k v t files \<Longrightarrow> \<not> returns res \<Longrightarrow> op_result r op k v t res files"
  by (simp add: op_result_def)

text \<open>An operation that can be made on the state at hand.\<close>

definition op_applies :: "phased_run \<Rightarrow> phased_op \<Rightarrow> nat \<Rightarrow> bool \<Rightarrow> bool" where
  "op_applies r op k v \<longleftrightarrow> (\<exists>k' v'. op_moves r op k v k' v')"

lemma advance_result:
  assumes wf: "wf_phased_run F r" and cp: "checkpoint r k v t files" and now: "TIMESTAMP_RE now"
    and run: "advance_phase F (pr_base r) (pr_path r) now l pid ws phase (Directory files) = (res, entry)"
  shows "\<exists>files'. entry = Directory files' \<and> op_result r (Advance now l pid ws phase) k v t res files'
    \<and> (op_clean (Advance now l pid ws phase) \<and> map_of files lock_file = None \<and> projected r k files
        \<and> op_applies r (Advance now l pid ws phase) k v \<longrightarrow> returns res \<and> map_of files' lock_file = None)"
proof (cases "is_str phase \<and> the_str phase \<in> set PHASE_IDS")
  case False
  have "run_phases r ! k \<in> set PHASE_IDS" if "k < length (run_phases r)"
    using phase_prefix_distinct(3) [OF run_task(2) [OF wf]] that by (meson nth_mem subsetD)
  then have "\<not> op_applies r (Advance now l pid ws phase) k v" using False by (auto simp: op_applies_def)
  moreover have "entry = Directory files" "\<not> returns res"
    using run False by (auto simp: advance_phase_def)
  ultimately show ?thesis using op_refused [OF cp] by blast
next
  case True
  then obtain p where p: "phase = PyStr p" by (auto simp: is_str_iff)
  let ?op = "Advance now l pid ws phase"
  let ?clean = "ws 0 = Written \<and> ws 1 = Written \<and> projected r k files \<and> op_applies r ?op k v"
  have body: "with_lock l pid (advance_locked F (pr_base r) (pr_path r) now ws p) (Directory files) = (res, entry)"
    using run run_dir_valid(1) [OF wf] True by (simp add: advance_phase_def p)
  have "op_result r ?op k v t res files1 \<and> (?clean \<longrightarrow> returns res)"
    if inner: "advance_locked F (pr_base r) (pr_path r) now ws p (AList.update lock_file pid files) = (res, files1)" for files1
  proof (cases rule: advance_locked_cases [OF wf checkpoint_locked(1) [OF cp] now inner])
    case 1
    have "\<not> (projected r k files \<and> op_applies r ?op k v)"
      using 1(3) by (auto simp: op_applies_def p checkpoint_locked(2))
    then show ?thesis using op_refused [OF checkpoint_locked(1) [OF cp] 1(1)] 1(2) by blast
  next
    case 2
    have "op_moves r ?op k v (Suc k) False" using 2(2,3,4) by (simp add: p)
    moreover have "transition_result r k v t (Suc k) False (op_time ?op) (res, files1)" using 2(4,5) by simp
    ultimately show ?thesis using transition_op_result 2(6) by blast
  qed
  from locked_op_result [OF cp body this] show ?thesis by auto
qed

lemma complete_result:
  assumes wf: "wf_phased_run F r" and cp: "checkpoint r k v t files" and now: "TIMESTAMP_RE now"
    and run: "complete_final F (pr_base r) (pr_path r) now l pid w (Directory files) = (res, entry)"
  shows "\<exists>files'. entry = Directory files' \<and> op_result r (Complete now l pid w) k v t res files'
    \<and> (op_clean (Complete now l pid w) \<and> map_of files lock_file = None \<and> projected r k files
        \<and> op_applies r (Complete now l pid w) k v \<longrightarrow> returns res \<and> map_of files' lock_file = None)"
proof -
  let ?op = "Complete now l pid w"
  let ?clean = "w = Written \<and> projected r k files \<and> op_applies r ?op k v"
  have body: "with_lock l pid (final_locked F (pr_base r) (pr_path r) now w) (Directory files) = (res, entry)"
    using run run_dir_valid(1) [OF wf] by (simp add: complete_final_def)
  have "op_result r ?op k v t res files1 \<and> (?clean \<longrightarrow> returns res)"
    if inner: "final_locked F (pr_base r) (pr_path r) now w (AList.update lock_file pid files) = (res, files1)" for files1
  proof (cases rule: final_locked_cases [OF wf checkpoint_locked(1) [OF cp] now inner])
    case 1
    have "\<not> (projected r k files \<and> op_applies r ?op k v)"
      using 1(3) by (auto simp: op_applies_def checkpoint_locked(2))
    then show ?thesis using op_refused [OF checkpoint_locked(1) [OF cp] 1(1)] 1(2) by blast
  next
    case 2
    have "op_moves r ?op k v k True" using 2(2,3) by simp
    moreover have "transition_result r k v t k True (op_time ?op) (res, files1)" using 2(3,4) by simp
    ultimately show ?thesis using transition_op_result 2(5) by blast
  qed
  from locked_op_result [OF cp body this] show ?thesis by auto
qed

lemma run_op_result:
  assumes "wf_phased_run F r" "checkpoint r k v t files" "TIMESTAMP_RE (op_time op)"
    and "run_op F (pr_base r) (pr_path r) op (Directory files) = (res, entry)"
  shows "\<exists>files'. entry = Directory files' \<and> op_result r op k v t res files'
    \<and> (op_clean op \<and> map_of files lock_file = None \<and> projected r k files \<and> op_applies r op k v
        \<longrightarrow> returns res \<and> map_of files' lock_file = None)"
  using assms advance_result complete_result by (cases op) simp_all


section \<open>Preparation\<close>

definition prepared_files :: "phased_run \<Rightarrow> string \<Rightarrow> files" where
  "prepared_files r now = [(snapshot_file, pr_snapshot r), (manifest_file, json_bytes (run_manifest r)),
     (global_file, projection_bytes (pt_global_text (pr_task r))), (current_file, projection_bytes (text_after r 0)),
     (progress_file, json_bytes (run_progress r 0 False now))]"

lemma prepared_checkpoint:
  assumes "TIMESTAMP_RE now"
  shows "checkpoint r 0 False now (prepared_files r now)" "projected r 0 (prepared_files r now)"
    "map_of (prepared_files r now) lock_file = None"
  using assms by (simp_all add: checkpoint_def projected_def prepared_files_def future_projection_names)

lemma initial_run_progress:
  assumes "wf_phased_run F r"
  shows "initial_progress (run_manifest r) (json_bytes (run_manifest r)) now = run_progress r 0 False now"
    "phase_text (pr_task r) (hd (pt_phases (pr_task r))) = Inr (text_after r 0)"
proof -
  obtain p ps where phases: "run_phases r = p # ps"
    using run_task(2) [OF assms] by (cases "run_phases r") (auto simp: phase_prefix_def)
  then show "initial_progress (run_manifest r) (json_bytes (run_manifest r)) now = run_progress r 0 False now"
    by (simp add: initial_progress_def run_progress_def phase_after_def)
  have "p \<noteq> FINAL_ACCEPTANCE" using run_task(4) [OF assms] by (auto simp: phases)
  then show "phase_text (pr_task r) (hd (pt_phases (pr_task r))) = Inr (text_after r 0)"
    using current_text_after [OF assms, of 0] phases
    by (simp add: current_text_def phase_after_def run_phases_def)
qed

lemma prepare_writes:
  "write_all ws 0 [(snapshot_file, a), (manifest_file, b), (global_file, c), (current_file, d), (progress_file, e)] []
     = (None, files) \<longleftrightarrow> (\<forall>n < 5. ws n = Written)
        \<and> files = [(snapshot_file, a), (manifest_file, b), (global_file, c), (current_file, d), (progress_file, e)]"
proof (cases "\<forall>n < 5. ws n = Written")
  case True
  then have "ws 0 = Written" "ws 1 = Written" "ws 2 = Written" "ws 3 = Written" "ws 4 = Written" by simp_all
  then show ?thesis using True by (auto simp: atomic_write_def eval_nat_numeral)
next
  case False
  then obtain n where "n < 5" "ws n \<noteq> Written" by blast
  then have "ws 0 \<noteq> Written \<or> ws 1 \<noteq> Written \<or> ws 2 \<noteq> Written \<or> ws 3 \<noteq> Written \<or> ws 4 \<noteq> Written"
    by (auto simp: less_Suc_eq eval_nat_numeral)
  then have "write_all ws 0 [(snapshot_file, a), (manifest_file, b), (global_file, c), (current_file, d), (progress_file, e)] []
      \<noteq> (None, files)"
    by (cases "ws 0"; cases "ws 1"; cases "ws 2"; cases "ws 3"; cases "ws 4") (simp_all add: atomic_write_def eval_nat_numeral)
  then show ?thesis using False by blast
qed

text \<open>The run of a command that is prepared.\<close>

definition prepared_run :: "string list option \<Rightarrow> string list \<Rightarrow> execution_identity \<Rightarrow> string \<Rightarrow> phased_task \<Rightarrow> phased_run" where
  "prepared_run base path i snapshot task = \<lparr>pr_base = base, pr_path = path, pr_project = the_str (ei_project_id i),
     pr_command = the_int (ei_command_id i), pr_run_id = the_str (ei_run_id i), pr_generation = the_int (ei_claim_generation i),
     pr_snapshot = snapshot, pr_task = task\<rparr>"

definition short_command :: "execution_identity \<Rightarrow> bool" where
  "short_command i \<longleftrightarrow> short_int (the_int (ei_command_id i)) \<and> short_int (the_int (ei_claim_generation i))"

lemma decode_command_snapshot: "decode_command command = Inr (t, snapshot) \<Longrightarrow> utf8_decode snapshot = Some t"
  by (cases command) (auto simp: decode_command_def split: option.splits)

lemma prepare_result:
  assumes "safe_identity i = None" "short_command i" "TIMESTAMP_RE now"
    and "decode_command command = Inr (t, snapshot)" "parse_phased_task F t = Inr (Some task)"
    and "validate_run_dir (Some (the_str (ei_project_id i))) (Some (the_str (ei_run_id i))) base path Missing = None"
  shows "wf_phased_run F (prepared_run base path i snapshot task)"
    "prepare_runtime F base path now None ws command i Missing = (res, entry) \<Longrightarrow>
       (returns res \<longleftrightarrow> (\<forall>n < 5. ws n = Written))
       \<and> (returns res \<longrightarrow> res = Inr (run_inspection (prepared_run base path i snapshot task) 0 False now)
            \<and> entry = Directory (prepared_files (prepared_run base path i snapshot task) now))"
proof -
  let ?r = "prepared_run base path i snapshot task"
  have strs: "is_str (ei_project_id i)" "is_int (ei_command_id i)" "is_str (ei_run_id i)" "is_int (ei_claim_generation i)"
    and ids: "PROJECT_ID_RE (the_str (ei_project_id i))" "RUN_ID_RE (the_str (ei_run_id i))"
      "1 \<le> the_int (ei_command_id i)" "0 \<le> the_int (ei_claim_generation i)"
    using assms(1) by (simp_all add: safe_identity_def require_positive_int_def require_nonnegative_int_def)
  show wf: "wf_phased_run F ?r"
    using ids assms(2,5,6) decode_command_snapshot [OF assms(4)]
    by (simp add: wf_phased_run_def prepared_run_def short_command_def)
  have ident: "run_identity_of ?r = i"
    using strs by (cases i) (auto simp: run_identity_of_def prepared_run_def is_str_iff is_int_iff)
  have manifest: "manifest_for task i snapshot = Inr (run_manifest ?r)"
    using run_manifest_for [OF wf] unfolding ident by (simp add: prepared_run_def)
  note first = initial_run_progress [OF wf]
  have task: "pr_task ?r = task" "pr_snapshot ?r = snapshot" "pr_base ?r = base" "pr_path ?r = path"
    by (simp_all add: prepared_run_def)
  note cp = prepared_checkpoint [OF assms(3), of ?r]
  have inspect: "inspect_runtime F base path (Directory (prepared_files ?r now)) = Inr (run_inspection ?r 0 False now)"
    using inspect_projected(1) [OF wf cp(1,2)] by (simp add: task)
  assume run: "prepare_runtime F base path now None ws command i Missing = (res, entry)"
  obtain out files where writes: "write_all ws 0 [(snapshot_file, snapshot), (manifest_file, json_bytes (run_manifest ?r)),
      (global_file, projection_bytes (pt_global_text task)), (current_file, projection_bytes (text_after ?r 0)),
      (progress_file, json_bytes (run_progress ?r 0 False now))] [] = (out, files)" by force
  have result: "(res, entry) = (case out of Some e \<Rightarrow> (Inl e, Directory files)
      | None \<Rightarrow> (inspect_runtime F base path (Directory files), Directory files))"
    using run first
    by (simp add: prepare_runtime_def assms(1,4,5,6) manifest task writes Let_def run_checks_pass del: write_all.simps split: option.split)
  let ?xs = "[(snapshot_file, snapshot), (manifest_file, json_bytes (run_manifest ?r)),
      (global_file, projection_bytes (pt_global_text task)), (current_file, projection_bytes (text_after ?r 0)),
      (progress_file, json_bytes (run_progress ?r 0 False now))]"
  have xs: "?xs = prepared_files ?r now" by (simp add: prepared_files_def task)
  have ok: "write_all ws 0 ?xs [] = (None, fs) \<longleftrightarrow> (\<forall>n < 5. ws n = Written) \<and> fs = ?xs" for fs
    by (rule prepare_writes)
  show "(returns res \<longleftrightarrow> (\<forall>n < 5. ws n = Written)) \<and> (returns res \<longrightarrow> res = Inr (run_inspection ?r 0 False now)
      \<and> entry = Directory (prepared_files ?r now))"
  proof (cases out)
    case None
    then have "\<forall>n < 5. ws n = Written" "files = prepared_files ?r now" using ok [of files] writes by (simp_all add: xs)
    then show ?thesis using result None inspect by simp
  next
    case (Some e)
    then have "\<not> (\<forall>n < 5. ws n = Written)" using ok [of ?xs] writes by auto
    then show ?thesis using result Some by simp
  qed
qed


lemma prepared_returns:
  assumes "safe_identity i = None" "short_command i" "TIMESTAMP_RE now"
    and "prepare_runtime F base path now None ws command i Missing = (Inr started, entry)"
  shows "\<exists>r. wf_phased_run F r \<and> pr_base r = base \<and> pr_path r = path \<and> started = run_inspection r 0 False now
    \<and> entry = Directory (prepared_files r now)"
proof -
  obtain t snapshot task where given: "decode_command command = Inr (t, snapshot)" "parse_phased_task F t = Inr (Some task)"
      "validate_run_dir (Some (the_str (ei_project_id i))) (Some (the_str (ei_run_id i))) base path Missing = None"
    using assms(1,4)
    by (cases "decode_command command"; cases "parse_phased_task F (fst (projr (decode_command command)))")
      (auto simp: prepare_runtime_def run_checks_def split: option.splits prod.splits)
  note out = prepare_result [OF assms(1-3) given]
  have "started = run_inspection (prepared_run base path i snapshot task) 0 False now"
      "entry = Directory (prepared_files (prepared_run base path i snapshot task) now)"
    using out(2) [OF assms(4)] by simp_all
  then show ?thesis using out(1) by (intro exI [of _ "prepared_run base path i snapshot task"]) (simp add: prepared_run_def)
qed

end
