(* ===== verification/Phased_Progress.thy ===== *)
theory Phased_Progress
  imports Phased_Checkpoints
begin

text \<open>
  The properties of \<open>worker/phased_task.py\<close> over whole runs: order, atomicity, completion and
  compaction.
\<close>

section \<open>A concrete run\<close>

definition sample_phased_command :: command_input where
  "sample_phased_command = CommandText (render_task sample_task)"

definition sample_ident :: execution_identity where
  "sample_ident = \<lparr>ei_project_id = PyStr ''proj'', ei_command_id = PyInt 7, ei_run_id = PyStr ''run-1'',
     ei_claim_generation = PyInt 0\<rparr>"

definition sample_path :: "string list" where
  "sample_path = [''srv'', ''worker'', ''runtime'', ''proj'', ''runs'', ''run-1'']"

definition sample_run :: phased_run where
  "sample_run = prepared_run (Some [''srv'']) sample_path sample_ident (utf8_encode (render_task sample_task))
     (sample_task\<lparr>pt_source_text := render_task sample_task\<rparr>)"

lemma sample_run_facts:
  "safe_identity sample_ident = None" "short_command sample_ident" "TIMESTAMP_RE ''now''"
  "validate_run_dir (Some (the_str (ei_project_id sample_ident))) (Some (the_str (ei_run_id sample_ident))) (Some [''srv'']) sample_path Missing = None"
  by code_simp+

lemma sample_decode: "decode_command sample_phased_command = Inr (render_task sample_task, utf8_encode (render_task sample_task))"
  by (simp add: sample_phased_command_def decode_command_def)

lemmas sample_prepare = prepare_result [OF sample_run_facts(1-3) sample_decode parse_render_task [OF sample_task] sample_run_facts(4),
    folded sample_run_def]

lemma sample_run_fields [simp]: "pr_base sample_run = Some [''srv'']" "pr_path sample_run = sample_path"
  by (simp_all add: sample_run_def prepared_run_def)

section \<open>Operations without failures\<close>

definition ready :: "phased_run \<Rightarrow> nat \<Rightarrow> bool \<Rightarrow> string \<Rightarrow> files \<Rightarrow> bool" where
  "ready r k v t files \<longleftrightarrow> checkpoint r k v t files \<and> projected r k files \<and> map_of files lock_file = None"

lemma op_moves_deterministic: "op_moves r op k v k1 v1 \<Longrightarrow> op_moves r op k v k2 v2 \<Longrightarrow> k1 = k2 \<and> v1 = v2"
  by (cases op) auto

lemma clean_op:
  assumes "wf_phased_run F r" "ready r k v t files" "op_moves r op k v k' v'" "op_clean op" "TIMESTAMP_RE (op_time op)"
  shows "\<exists>files'. snd (run_op F (pr_base r) (pr_path r) op (Directory files)) = Directory files' \<and> ready r k' v' (op_time op) files'"
proof -
  obtain res entry where run: "run_op F (pr_base r) (pr_path r) op (Directory files) = (res, entry)" by force
  have "op_applies r op k v" using assms(3) by (auto simp: op_applies_def)
  then obtain files' where out: "entry = Directory files'" "op_result r op k v t res files'" "returns res" "map_of files' lock_file = None"
    using run_op_result [OF assms(1) _ assms(5) run, of k v t] assms(2,4) by (auto simp: ready_def)
  then obtain k2 v2 where "op_moves r op k v k2 v2" "checkpoint r k2 v2 (op_time op) files'" "projected r k2 files'"
    by (auto simp: op_result_def)
  then show ?thesis using op_moves_deterministic [OF assms(3)] out run by (auto simp: ready_def)
qed

definition clean_advance :: "string \<Rightarrow> string \<Rightarrow> phased_op" where
  "clean_advance now phase = Advance now LockCreated ''1'' (\<lambda>_. Written) (PyStr phase)"

definition clean_complete :: "string \<Rightarrow> phased_op" where
  "clean_complete now = Complete now LockCreated ''1'' Written"

lemma clean_advances:
  assumes wf: "wf_phased_run F r" and now: "TIMESTAMP_RE now"
  shows "ready r k False t files \<Longrightarrow> k \<le> j \<Longrightarrow> j \<le> length (run_phases r) \<Longrightarrow>
    \<exists>files' t'. phased_ops F (pr_base r) (pr_path r) (map (clean_advance now) (take (j - k) (drop k (run_phases r)))) (Directory files)
      = Directory files' \<and> ready r j False t' files'"
proof (induction "j - k" arbitrary: k t files)
  case 0
  then show ?case by auto
next
  case (Suc n)
  then have k: "k < length (run_phases r)" by simp
  have "take (j - k) (drop k (run_phases r)) = run_phases r ! k # take (j - Suc k) (drop (Suc k) (run_phases r))"
    using Suc.hyps(2) k by (simp add: Cons_nth_drop_Suc [symmetric] take_Cons' Suc_diff_le)
  moreover obtain files1 where step: "snd (run_op F (pr_base r) (pr_path r) (clean_advance now (run_phases r ! k)) (Directory files)) = Directory files1"
      "ready r (Suc k) False (op_time (clean_advance now (run_phases r ! k))) files1"
    using clean_op [OF wf Suc.prems(1), of "clean_advance now (run_phases r ! k)" "Suc k" False] k now
    by (auto simp: clean_advance_def)
  moreover have "\<exists>files' t'. phased_ops F (pr_base r) (pr_path r) (map (clean_advance now) (take (j - Suc k) (drop (Suc k) (run_phases r))))
      (Directory files1) = Directory files' \<and> ready r j False t' files'"
    by (rule Suc.hyps(1) [OF _ step(2)]) (use Suc.hyps(2) Suc.prems in simp_all)
  ultimately show ?case by simp
qed

lemma phased_ops_append: "phased_ops F base path (xs @ ys) entry = phased_ops F base path ys (phased_ops F base path xs entry)"
  by (induction xs arbitrary: entry) simp_all

lemma clean_run:
  assumes wf: "wf_phased_run F r" and now: "TIMESTAMP_RE now" and that: "TIMESTAMP_RE t"
  shows "\<exists>files'. phased_ops F (pr_base r) (pr_path r) (map (clean_advance now) (run_phases r) @ [clean_complete now])
      (Directory (prepared_files r t)) = Directory files' \<and> ready r (length (run_phases r)) True now files'"
proof -
  have "ready r 0 False t (prepared_files r t)" using prepared_checkpoint [OF that] by (simp add: ready_def)
  then obtain files1 t1 where adv: "phased_ops F (pr_base r) (pr_path r) (map (clean_advance now) (run_phases r)) (Directory (prepared_files r t))
      = Directory files1" "ready r (length (run_phases r)) False t1 files1"
    using clean_advances [OF wf now, of 0 t "prepared_files r t" "length (run_phases r)"] by auto
  then show ?thesis
    using clean_op [OF wf adv(2), of "clean_complete now" "length (run_phases r)" True] now
    by (auto simp: phased_ops_append clean_complete_def)
qed

lemma ready_inspection:
  assumes "wf_phased_run F r" "ready r k v t files"
  shows "inspect_runtime F (pr_base r) (pr_path r) (Directory files) = Inr (run_inspection r k v t)"
  using assms inspect_projected(1) by (simp add: ready_def)

section \<open>Order\<close>

fun attempted :: "phased_op list \<Rightarrow> py list" where
  "attempted [] = []"
| "attempted (Advance now l pid ws phase # ops) = phase # attempted ops"
| "attempted (Complete now l pid w # ops) = attempted ops"

fun is_complete :: "phased_op \<Rightarrow> bool" where
  "is_complete (Advance now l pid ws phase) = False"
| "is_complete (Complete now l pid w) = True"

lemma phased_ops_checkpoint:
  assumes wf: "wf_phased_run F r"
  shows "checkpoint r k v t files \<Longrightarrow> \<forall>op \<in> set ops. TIMESTAMP_RE (op_time op) \<Longrightarrow>
    \<exists>files' k' v' t'. phased_ops F (pr_base r) (pr_path r) ops (Directory files) = Directory files' \<and> checkpoint r k' v' t' files'
      \<and> k \<le> k' \<and> subseq (map PyStr (take (k' - k) (drop k (run_phases r)))) (attempted ops)
      \<and> (v' \<longrightarrow> v \<or> list_ex is_complete ops)"
proof (induction ops arbitrary: k v t files)
  case Nil
  then show ?case by (intro exI [of _ files] exI [of _ k] exI [of _ v] exI [of _ t]) simp
next
  case (Cons op ops)
  obtain res entry where run: "run_op F (pr_base r) (pr_path r) op (Directory files) = (res, entry)" by force
  obtain files1 where entry: "entry = Directory files1" and out: "op_result r op k v t res files1"
    using run_op_result [OF wf Cons.prems(1) _ run] Cons.prems(2) by auto
  have keep: "subseq xs (attempted ops) \<Longrightarrow> subseq xs (attempted (op # ops))" for xs by (cases op) auto
  consider "checkpoint r k v t files1" | k1 v1 where "op_moves r op k v k1 v1" "checkpoint r k1 v1 (op_time op) files1"
    using out by (auto simp: op_result_def)
  then show ?case
  proof cases
    case 1
    from Cons.IH [OF this] Cons.prems(2) show ?thesis using run entry keep by fastforce
  next
    case 2
    obtain files' k' v' t' where rest: "phased_ops F (pr_base r) (pr_path r) ops (Directory files1) = Directory files'"
        "checkpoint r k' v' t' files'" "k1 \<le> k'" "subseq (map PyStr (take (k' - k1) (drop k1 (run_phases r)))) (attempted ops)"
        "v' \<longrightarrow> v1 \<or> list_ex is_complete ops"
      using Cons.IH [OF 2(2)] Cons.prems(2) by auto
    have "k \<le> k' \<and> subseq (map PyStr (take (k' - k) (drop k (run_phases r)))) (attempted (op # ops))
        \<and> (v' \<longrightarrow> v \<or> list_ex is_complete (op # ops))"
    proof (cases op)
      case (Advance now l pid ws phase)
      then have k: "k < length (run_phases r)" "phase = PyStr (run_phases r ! k)" "k1 = Suc k" "\<not> v1" using 2(1) by auto
      have "take (k' - k) (drop k (run_phases r)) = run_phases r ! k # take (k' - k1) (drop k1 (run_phases r))"
        using k rest(3) by (simp add: Cons_nth_drop_Suc [symmetric] take_Cons' Suc_diff_le)
      then show ?thesis using rest(3-5) k Advance by simp
    next
      case (Complete now l pid w)
      then show ?thesis using 2(1) rest(3-5) by auto
    qed
    then show ?thesis using run entry rest(1,2) by auto
  qed
qed

text \<open>
  C20: phases complete in order and none is skipped.  However a prepared run is operated on, whatever
  the writes, locks and phase names of the operations, an inspection that succeeds afterwards sees the
  unchanged task and manifest, a prefix of the declared phases as completed, each of which was named by
  an advance in this order, the next one as current, and a verified final acceptance only after all of
  them and a call that completes it.
\<close>

theorem phases_complete_in_order:
  assumes "safe_identity i = None" "short_command i" "TIMESTAMP_RE now"
    and "prepare_runtime F base path now None ws command i Missing = (Inr started, entry)"
    and "\<forall>op \<in> set ops. TIMESTAMP_RE (op_time op)"
    and "inspect_runtime F base path (phased_ops F base path ops entry) = Inr seen"
  shows "\<exists>k \<le> length (pt_phases (ri_task started)).
    ri_task seen = ri_task started \<and> ri_manifest seen = ri_manifest started
    \<and> dget (ri_progress seen) ''completed_phases'' = PyList (map PyStr (take k (pt_phases (ri_task started))))
    \<and> dget (ri_progress seen) ''current_phase'' = PyStr (phase_after (pt_phases (ri_task started)) k)
    \<and> subseq (map PyStr (take k (pt_phases (ri_task started)))) (attempted ops)
    \<and> (dget (ri_progress seen) ''final_acceptance_verified'' = PyBool True
         \<longrightarrow> k = length (pt_phases (ri_task started)) \<and> list_ex is_complete ops)"
proof -
  obtain r where wf: "wf_phased_run F r" and r: "pr_base r = base" "pr_path r = path"
      and started: "started = run_inspection r 0 False now" and entry: "entry = Directory (prepared_files r now)"
    using prepared_returns [OF assms(1-4)] by blast
  obtain files' k v t where after: "phased_ops F base path ops entry = Directory files'" "checkpoint r k v t files'"
      "subseq (map PyStr (take k (run_phases r))) (attempted ops)" "v \<longrightarrow> list_ex is_complete ops"
    using phased_ops_checkpoint [OF wf prepared_checkpoint(1) [OF assms(3)] assms(5)] by (auto simp: r entry)
  have "seen = run_inspection r k v t"
    using inspect_projected [OF wf after(2)] assms(6) after(1) r by (cases "projected r k files'") auto
  moreover have "k \<le> length (run_phases r)" "v \<longrightarrow> k = length (run_phases r)" using after(2) by (simp_all add: checkpoint_def)
  ultimately show ?thesis using after(3,4) by (intro exI [of _ k]) (simp add: started run_phases_def)
qed


lemma sample_prepared:
  "prepare_runtime (\<lambda>_. PyNone) (Some [''srv'']) sample_path ''now'' None (\<lambda>_. Written) sample_phased_command sample_ident Missing
    = (Inr (run_inspection sample_run 0 False ''now''), Directory (prepared_files sample_run ''now''))"
proof -
  obtain res entry where run: "prepare_runtime (\<lambda>_. PyNone) (Some [''srv'']) sample_path ''now'' None (\<lambda>_. Written) sample_phased_command
      sample_ident Missing = (res, entry)" by force
  then show ?thesis using sample_prepare(2) [OF run] by simp
qed

theorem phases_complete_in_order_witness:
  "\<exists>k \<le> 2. subseq (map PyStr (take k [''A'', ''B''])) (attempted [clean_advance ''now'' ''A'', clean_advance ''now'' ''B'', clean_complete ''now''])"
proof -
  let ?ops = "[clean_advance ''now'' ''A'', clean_advance ''now'' ''B'', clean_complete ''now'']"
  have phases: "run_phases sample_run = [''A'', ''B'']" by (simp add: sample_run_def prepared_run_def run_phases_def sample_task_def)
  obtain files' where "phased_ops (\<lambda>_. PyNone) (Some [''srv'']) sample_path ?ops (Directory (prepared_files sample_run ''now'')) = Directory files'"
      "ready sample_run 2 True ''now'' files'"
    using clean_run [OF sample_prepare(1) sample_run_facts(3) sample_run_facts(3)] by (auto simp: phases numeral_2_eq_2 simp del: phased_ops.simps)
  then have "inspect_runtime (\<lambda>_. PyNone) (Some [''srv'']) sample_path
      (phased_ops (\<lambda>_. PyNone) (Some [''srv'']) sample_path ?ops (Directory (prepared_files sample_run ''now'')))
      = Inr (run_inspection sample_run 2 True ''now'')"
    using ready_inspection [OF sample_prepare(1)] by simp
  moreover have "\<forall>op \<in> set ?ops. TIMESTAMP_RE (op_time op)"
    using sample_run_facts(3) by (simp add: clean_advance_def clean_complete_def)
  ultimately show ?thesis
    using phases_complete_in_order [OF sample_run_facts(1-3) sample_prepared, of ?ops] phases
    by (auto simp: run_phases_def)
qed

section \<open>Atomic transitions\<close>

text \<open>
  C21: an advance is atomic.  Whatever happens to its lock and its writes, afterwards an inspection sees
  the state as it was before, or the next phase, or refuses the files; the next phase is seen only when
  it was the current phase that was named; and where the call returns, its result is what an inspection
  sees, one phase further.
\<close>

theorem advance_phase_atomic:
  assumes "wf_phased_run F r" "checkpoint r k v t files" "TIMESTAMP_RE now"
    and "advance_phase F (pr_base r) (pr_path r) now l pid ws phase (Directory files) = (res, entry)"
  defines "seen \<equiv> inspect_runtime F (pr_base r) (pr_path r) entry"
  shows "(returns seen \<longrightarrow> seen = Inr (run_inspection r k v t)
      \<or> seen = Inr (run_inspection r (Suc k) False now) \<and> k < length (run_phases r) \<and> phase = PyStr (run_phases r ! k))
    \<and> (returns res \<longrightarrow> res = seen \<and> seen = Inr (run_inspection r (Suc k) False now) \<and> phase = PyStr (run_phases r ! k))"
proof -
  obtain files' where entry: "entry = Directory files'" and out: "op_result r (Advance now l pid ws phase) k v t res files'"
    using advance_result [OF assms(1-4)] by blast
  have look: "returns seen \<Longrightarrow> seen = Inr (run_inspection r k1 v1 t1)" if "checkpoint r k1 v1 t1 files'" for k1 v1 t1
    using inspect_projected [OF assms(1) that] by (cases "projected r k1 files'") (auto simp: seen_def entry)
  from out consider "checkpoint r k v t files'" "\<not> returns res"
    | "k < length (run_phases r)" "phase = PyStr (run_phases r ! k)" "checkpoint r (Suc k) False now files'"
      "returns res \<longrightarrow> res = Inr (run_inspection r (Suc k) False now) \<and> projected r (Suc k) files'"
    by (auto simp: op_result_def)
  then show ?thesis
  proof cases
    case 1
    then show ?thesis using look [OF 1(1)] by simp
  next
    case 2
    then show ?thesis using look [OF 2(3)] inspect_projected(1) [OF assms(1) 2(3)] by (auto simp: seen_def entry)
  qed
qed

theorem advance_phase_atomic_witness:
  "\<exists>res entry. advance_phase (\<lambda>_. PyNone) (Some [''srv'']) sample_path ''now'' LockCreated ''1''
      (\<lambda>n. if n = 1 then WriteFailed else Written) (PyStr ''A'') (Directory (prepared_files sample_run ''now'')) = (res, entry)
    \<and> (returns (inspect_runtime (\<lambda>_. PyNone) (Some [''srv'']) sample_path entry) \<longrightarrow>
        inspect_runtime (\<lambda>_. PyNone) (Some [''srv'']) sample_path entry
          \<in> {Inr (run_inspection sample_run 0 False ''now''), Inr (run_inspection sample_run 1 False ''now'')})"
proof -
  obtain res entry where run: "advance_phase (\<lambda>_. PyNone) (pr_base sample_run) (pr_path sample_run) ''now'' LockCreated ''1''
      (\<lambda>n. if n = 1 then WriteFailed else Written) (PyStr ''A'') (Directory (prepared_files sample_run ''now'')) = (res, entry)" by force
  show ?thesis
    using advance_phase_atomic [OF sample_prepare(1) prepared_checkpoint(1) [OF sample_run_facts(3)] sample_run_facts(3) run] run
    by auto
qed

section \<open>Completion and compaction\<close>

text \<open>
  C28: a phased run completes.  Where the writes succeed, a prepared command passes through all its
  phases and its final acceptance, and its evidence can then be removed: the snapshot and the
  projections are gone, the manifest and the progress stay.
\<close>

theorem phased_run_completes:
  assumes "safe_identity i = None" "short_command i" "TIMESTAMP_RE now"
    and "decode_command command = Inr (t, snapshot)" "parse_phased_task F t = Inr (Some task)"
    and "validate_run_dir (Some (the_str (ei_project_id i))) (Some (the_str (ei_run_id i))) base path Missing = None"
  shows "\<exists>started entry files. prepare_runtime F base path now None (\<lambda>_. Written) command i Missing = (Inr started, entry)
    \<and> safe_compact_successful_run F base path [] (PyStr ''SUCCESS'') (PyBool True) (PyBool False) (PyBool False) (PyBool False)
        (phased_ops F base path (map (clean_advance now) (pt_phases task) @ [clean_complete now]) entry) = (Inr True, Directory files)
    \<and> (\<forall>name \<in> {snapshot_file, global_file, current_file}. map_of files name = None)
    \<and> (\<forall>name \<in> {manifest_file, progress_file}. map_of files name \<noteq> None)"
proof -
  let ?r = "prepared_run base path i snapshot task"
  note prepared = prepare_result [OF assms(1-6)]
  have r: "pr_base ?r = base" "pr_path ?r = path" "run_phases ?r = pt_phases task" by (simp_all add: prepared_run_def run_phases_def)
  obtain res entry where run: "prepare_runtime F base path now None (\<lambda>_. Written) command i Missing = (res, entry)" by force
  then have start: "res = Inr (run_inspection ?r 0 False now)" "entry = Directory (prepared_files ?r now)"
    using prepared(2) [OF run] by simp_all
  obtain files' where finished: "phased_ops F base path (map (clean_advance now) (pt_phases task) @ [clean_complete now]) entry = Directory files'"
      "ready ?r (length (run_phases ?r)) True now files'"
    using clean_run [OF prepared(1) assms(3) assms(3)] by (auto simp: r start(2))
  have files: "map_of files' snapshot_file \<noteq> None" "map_of files' global_file \<noteq> None" "map_of files' current_file \<noteq> None"
      "map_of files' manifest_file \<noteq> None" "map_of files' progress_file \<noteq> None"
    using finished(2) by (simp_all add: ready_def checkpoint_def projected_def)
  have inspect: "inspect_runtime F base path (Directory files') = Inr (run_inspection ?r (length (run_phases ?r)) True now)"
    using ready_inspection [OF prepared(1) finished(2)] by (simp add: r)
  have dir: "validate_run_dir None None base path (Directory files') = None"
    using run_dir_valid(1) [OF prepared(1)] by (simp add: r)
  let ?left = "AList.delete current_file (AList.delete global_file (AList.delete snapshot_file files'))"
  have "safe_compact_successful_run F base path [] (PyStr ''SUCCESS'') (PyBool True) (PyBool False) (PyBool False) (PyBool False)
      (Directory files') = (Inr True, Directory ?left)"
    using files by (simp add: safe_compact_successful_run_def truthy_def inspect dir)
  then show ?thesis
    using run start(1) finished(1) files by (intro exI [of _ "run_inspection ?r 0 False now"] exI [of _ entry] exI [of _ ?left])
      (simp add: delete_conv')
qed

theorem phased_run_completes_witness:
  "\<exists>started entry. prepare_runtime (\<lambda>_. PyNone) (Some [''srv'']) sample_path ''now'' None (\<lambda>_. Written) sample_phased_command sample_ident
      Missing = (Inr started, entry)
    \<and> returns (fst (safe_compact_successful_run (\<lambda>_. PyNone) (Some [''srv'']) sample_path [] (PyStr ''SUCCESS'') (PyBool True)
        (PyBool False) (PyBool False) (PyBool False)
        (phased_ops (\<lambda>_. PyNone) (Some [''srv'']) sample_path
          (map (clean_advance ''now'') [''A'', ''B''] @ [clean_complete ''now'']) entry)))"
  using phased_run_completes [OF sample_run_facts(1-3) sample_decode parse_render_task [OF sample_task] sample_run_facts(4)]
  by (force simp: sample_task_def)

text \<open>
  Evidence is removed only behind every gate.  A compaction that changes anything was asked for a
  successful run whose publication succeeded, with nothing pending, unresolved or in conflict, and found
  the files coherent with a verified final acceptance; and it never touches the manifest or the progress.
\<close>

theorem compaction_is_gated:
  assumes "safe_compact_successful_run F base path denied outcome published pending unresolved conflict entry = (res, entry')"
  shows "(entry' \<noteq> entry \<or> res = Inr True \<longrightarrow> outcome = PyStr ''SUCCESS'' \<and> published = PyBool True \<and> pending = PyBool False
      \<and> unresolved = PyBool False \<and> conflict = PyBool False
      \<and> (\<exists>seen. inspect_runtime F base path entry = Inr seen
           \<and> truthy (dget (ri_progress seen) ''final_acceptance_verified'')))
    \<and> read_entry entry' manifest_file = read_entry entry manifest_file
    \<and> read_entry entry' progress_file = read_entry entry progress_file"
proof (cases "outcome = PyStr ''SUCCESS'' \<and> published = PyBool True \<and> pending = PyBool False
      \<and> unresolved = PyBool False \<and> conflict = PyBool False")
  case False
  then show ?thesis
    using assms by (auto simp: safe_compact_successful_run_def is_bool_iff truthy_def split: if_splits)
next
  case gates: True
  have unlink: "map_of (snd (unlink_all denied names files)) name = map_of files name" if "name \<notin> set names" for names files name
    using that by (induction denied names files rule: unlink_all.induct) (auto simp: delete_conv')
  show ?thesis
  proof (cases "run_checks [validate_run_dir None None base path entry] (inspect_runtime F base path entry)")
    case (Inl e)
    then show ?thesis using assms gates by (auto simp: safe_compact_successful_run_def truthy_def [of "PyBool _"])
  next
    case (Inr seen)
    then have inspect: "inspect_runtime F base path entry = Inr seen" by (simp add: run_checks_Inr)
    show ?thesis
    proof (cases "truthy (dget (ri_progress seen) ''final_acceptance_verified'')")
      case False
      then show ?thesis using assms gates Inr by (auto simp: safe_compact_successful_run_def truthy_def [of "PyBool _"])
    next
      case True
      let ?names = "[snapshot_file, global_file, current_file]"
      have "entry' = (case entry of Directory files \<Rightarrow> Directory (snd (unlink_all denied ?names files)) | _ \<Rightarrow> entry)"
        using assms gates True Inr
        by (cases entry) (auto simp: safe_compact_successful_run_def truthy_def [of "PyBool _"] simp del: unlink_all.simps
            split: prod.splits option.splits)
      then have "read_entry entry' name = read_entry entry name" if "name \<notin> set ?names" for name
        using unlink [OF that] by (cases entry) (simp_all add: read_entry_def)
      then show ?thesis using gates inspect True by simp
    qed
  qed
qed

theorem compaction_is_gated_witness:
  "\<exists>res entry'. safe_compact_successful_run (\<lambda>_. PyNone) (Some [''srv'']) sample_path [] (PyStr ''SUCCESS'') (PyBool True)
      (PyBool True) (PyBool False) (PyBool False) (Directory (prepared_files sample_run ''now'')) = (res, entry')
    \<and> entry' = Directory (prepared_files sample_run ''now'')"
proof -
  obtain res entry' where run: "safe_compact_successful_run (\<lambda>_. PyNone) (Some [''srv'']) sample_path [] (PyStr ''SUCCESS'') (PyBool True)
      (PyBool True) (PyBool False) (PyBool False) (Directory (prepared_files sample_run ''now'')) = (res, entry')" by force
  show ?thesis using compaction_is_gated [OF run] run by auto
qed

end
