(* ===== verification/Git_Effects.thy ===== *)
theory Git_Effects
  imports Run_Wal_File
begin

text \<open>
  \<open>worker/vnext_runtime/git_effects.py\<close>: the intent of one push, the recorder that writes it into the
  log of the run, and the reconciler that classifies it from one read of the remote ref.  What
  \<open>git ls-remote\<close> prints is an argument.
\<close>

section \<open>Names of a push\<close>

definition safe_remote :: "py \<Rightarrow> pyexc + string" where
  "safe_remote v =
     (if is_str v \<and> GIT_REMOTE_RE (the_str v) then Inr (the_str v)
      else Inl (GitEffectError ''Git remote name is not safe''))"

definition safe_ref :: "py \<Rightarrow> pyexc + string" where
  "safe_ref v =
     (if \<not> (is_str v \<and> GIT_REF_RE (the_str v)) then Inl (GitEffectError ''Git target ref is not safe'')
      else if contains ''..'' (the_str v) \<or> contains ''//'' (the_str v) \<or> last (the_str v) = CHR ''/''
      then Inl (GitEffectError ''Git target ref is not canonical'')
      else Inr (the_str v))"

definition safe_object :: "py \<Rightarrow> string \<Rightarrow> pyexc + string" where
  "safe_object v label =
     (if is_str v \<and> GIT_OBJECT_RE (the_str v) then Inr (the_str v)
      else Inl (GitEffectError (label @ '' is not an exact Git object'')))"

definition target_id_for_ref :: "py \<Rightarrow> py \<Rightarrow> pyexc + string" where
  "target_id_for_ref remote target_ref =
     res_bind (safe_remote remote) (\<lambda>r. res_bind (safe_ref target_ref) (\<lambda>t. Inr (r @ '':'' @ t)))"

definition SAFE_ID_RE :: "string \<Rightarrow> bool" where
  "SAFE_ID_RE s \<longleftrightarrow> s \<noteq> [] \<and> length s \<le> 256 \<and> is_alnum_ascii (hd s)
     \<and> list_all (\<lambda>c. is_alnum_ascii c \<or> c \<in> set ''._:/-'') (tl s)"

text \<open>\<open>str.partition(":")\<close> splits at the first colon.\<close>

definition split_target_id :: "py \<Rightarrow> pyexc + string \<times> string" where
  "split_target_id v =
     (if \<not> (is_str v \<and> SAFE_ID_RE (the_str v)) then Inl (GitEffectError ''Git target identity is not safe'')
      else (let s = the_str v in
        if CHR '':'' \<notin> set s then Inl (GitEffectError ''Git target identity lacks a remote/ref separator'')
        else res_bind (safe_remote (PyStr (takeWhile (\<lambda>c. c \<noteq> CHR '':'') s))) (\<lambda>r.
             res_bind (safe_ref (PyStr (tl (dropWhile (\<lambda>c. c \<noteq> CHR '':'') s)))) (\<lambda>t. Inr (r, t)))))"

section \<open>Intents\<close>

record git_push_intent =
  gi_identity :: run_identity
  gi_effect_id :: string
  gi_remote :: string
  gi_target_ref :: string
  gi_expected_object :: string
  gi_precondition_object :: string

definition GitPushIntent :: "run_identity \<Rightarrow> py \<Rightarrow> py \<Rightarrow> py \<Rightarrow> py \<Rightarrow> py \<Rightarrow> pyexc + git_push_intent" where
  "GitPushIntent ident effect remote target_ref expected precondition =
     run_checks
       [ensure (is_str effect \<and> strip (the_str effect) \<noteq> []) (GitEffectError ''Git push effect_id is not exact''),
        ensure (CHR 0x00 \<notin> set (the_str effect) \<and> CHR 0x0D \<notin> set (the_str effect) \<and> CHR 0x0A \<notin> set (the_str effect))
          (GitEffectError ''Git push effect_id is not safe'')]
       (res_bind (safe_remote remote) (\<lambda>r.
        res_bind (safe_ref target_ref) (\<lambda>t.
        res_bind (safe_object expected ''expected_object'') (\<lambda>x.
        res_bind (safe_object precondition ''precondition_object'') (\<lambda>p.
          Inr \<lparr>gi_identity = ident, gi_effect_id = the_str effect, gi_remote = r, gi_target_ref = t,
               gi_expected_object = x, gi_precondition_object = p\<rparr>)))))"

definition gi_target_id :: "git_push_intent \<Rightarrow> string" where
  "gi_target_id i = gi_remote i @ '':'' @ gi_target_ref i"

definition wf_intent :: "git_push_intent \<Rightarrow> bool" where
  "wf_intent i \<longleftrightarrow> strip (gi_effect_id i) \<noteq> []
     \<and> GIT_REMOTE_RE (gi_remote i) \<and> GIT_REF_RE (gi_target_ref i)
     \<and> \<not> contains ''..'' (gi_target_ref i) \<and> \<not> contains ''//'' (gi_target_ref i)
     \<and> last (gi_target_ref i) \<noteq> CHR ''/''
     \<and> GIT_OBJECT_RE (gi_expected_object i) \<and> GIT_OBJECT_RE (gi_precondition_object i)"

section \<open>The recorder\<close>

record wal_push_recorder =
  wr_wal :: run_wal
  wr_prefix :: string
  wr_next :: nat

definition WalPushEffectRecorder :: "run_wal \<Rightarrow> py \<Rightarrow> pyexc + wal_push_recorder" where
  "WalPushEffectRecorder w prefix =
     run_checks
       [ensure (is_str prefix \<and> strip (the_str prefix) \<noteq> []) (GitEffectError ''Git effect prefix is not exact''),
        ensure (CHR 0x00 \<notin> set (the_str prefix) \<and> CHR 0x0D \<notin> set (the_str prefix) \<and> CHR 0x0A \<notin> set (the_str prefix))
          (GitEffectError ''Git effect prefix is not safe'')]
       (Inr \<lparr>wr_wal = w, wr_prefix = the_str prefix, wr_next = 1\<rparr>)"

definition effect_name :: "string \<Rightarrow> nat \<Rightarrow> string" where
  "effect_name prefix n = prefix @ ''-'' @ show_nat n"

lemma effect_name_inj: "effect_name p n = effect_name p m \<Longrightarrow> n = m"
  using decimal_show_nat by (metis effect_name_def of_nat_eq_iff same_append_eq)

lemma unused_decreases:
  assumes "effect_name p n \<in> set used"
  shows "card {i. Suc n \<le> i \<and> effect_name p i \<in> set used} < card {i. n \<le> i \<and> effect_name p i \<in> set used}"
proof -
  have "finite (effect_name p -` set used)"
    by (rule finite_vimageI) (auto simp: inj_def dest: effect_name_inj)
  then have "finite {i. n \<le> i \<and> effect_name p i \<in> set used}" by (rule finite_subset [rotated]) auto
  moreover have "{i. Suc n \<le> i \<and> effect_name p i \<in> set used} \<subset> {i. n \<le> i \<and> effect_name p i \<in> set used}"
    using assms by (intro psubsetI subsetI notI) (auto dest: equalityD2 [THEN subsetD, of _ _ n])
  ultimately show ?thesis by (rule psubset_card_mono)
qed

text \<open>\<open>while effect_id in used: self._next_effect += 1\<close>\<close>

function fresh_effect :: "string \<Rightarrow> string list \<Rightarrow> nat \<Rightarrow> nat" where
  "fresh_effect p used n = (if effect_name p n \<in> set used then fresh_effect p used (Suc n) else n)"
  by pat_completeness auto

termination
  by (relation "measure (\<lambda>(p, used, n). card {i. n \<le> i \<and> effect_name p i \<in> set used})")
     (simp_all add: unused_decreases)

declare fresh_effect.simps [simp del]

definition recorder_push_intent ::
    "nat option \<Rightarrow> string \<Rightarrow> string \<Rightarrow> string \<Rightarrow> string \<Rightarrow> string \<Rightarrow> wal_push_recorder \<times> string option \<Rightarrow>
       (pyexc + git_push_intent) \<times> wal_push_recorder \<times> string option" where
  "recorder_push_intent stop now remote target_ref expected precondition st = (case st of (r, content) \<Rightarrow>
     (let used = map the (filter (\<lambda>v. v \<noteq> None) (map we_effect_id (rw_events (wr_wal r))));
          n = fresh_effect (wr_prefix r) used (wr_next r);
          r' = r\<lparr>wr_next := Suc n\<rparr> in
      (case GitPushIntent (rw_identity (wr_wal r)) (PyStr (effect_name (wr_prefix r) n)) (PyStr remote)
             (PyStr target_ref) (PyStr expected) (PyStr precondition) of
         Inl e \<Rightarrow> (Inl e, r', content)
       | Inr intent \<Rightarrow>
           (case record_push_intent stop now (gi_effect_id intent) (gi_remote intent) (gi_target_ref intent)
                  (gi_expected_object intent) (gi_precondition_object intent) PyNone (wr_wal r, content) of
              (Inl e, w, content') \<Rightarrow> (Inl e, r'\<lparr>wr_wal := w\<rparr>, content')
            | (Inr _, w, content') \<Rightarrow> (Inr intent, r'\<lparr>wr_wal := w\<rparr>, content')))))"

definition recorder_push_confirmed ::
    "nat option \<Rightarrow> string \<Rightarrow> push_reconciliation \<Rightarrow> wal_push_recorder \<times> string option \<Rightarrow>
       (pyexc + wal_event) \<times> wal_push_recorder \<times> string option" where
  "recorder_push_confirmed stop now rec st = (case st of (r, content) \<Rightarrow>
     (case record_push_confirmed stop now rec PyNone (wr_wal r, content) of
        (res, w, content') \<Rightarrow> (res, r\<lparr>wr_wal := w\<rparr>, content')))"

section \<open>Reading the remote ref\<close>

text \<open>\<open>str.split()\<close>: the maximal runs without white space.\<close>

fun words_from :: "string \<Rightarrow> string \<Rightarrow> string list" where
  "words_from acc [] = (if acc = [] then [] else [rev acc])"
| "words_from acc (c # s) =
     (if is_space c then (if acc = [] then words_from [] s else rev acc # words_from [] s)
      else words_from (c # acc) s)"

definition split_words :: "string \<Rightarrow> string list" where
  "split_words = words_from []"

text \<open>\<open>git ls-remote --refs\<close>: an exception of the subprocess, or its return code and output.\<close>

datatype ls_result = LsRaised pyexc | LsDone int string

definition ls_remote_read_ref :: "ls_result \<Rightarrow> py \<Rightarrow> py \<Rightarrow> pyexc + string option" where
  "ls_remote_read_ref ls remote target_ref =
     res_bind (safe_remote remote) (\<lambda>_. res_bind (safe_ref target_ref) (\<lambda>ref.
     (case ls of
        LsRaised e \<Rightarrow>
          Inl (if is_os_error e \<or> is_subprocess_error e then GitEffectError ''Git remote ref observation failed'' else e)
      | LsDone code out \<Rightarrow>
          if code \<noteq> 0 then Inl (GitEffectError ''Git remote ref observation returned an error'')
          else (let rows = map split_words (filter (\<lambda>l. strip l \<noteq> []) (splitlines out)) in
            case rows of
              [] \<Rightarrow> Inr None
            | row # rest \<Rightarrow>
                if rest \<noteq> [] \<or> length row \<noteq> 2 \<or> row ! 1 \<noteq> ref
                then Inl (GitEffectError ''Git remote ref observation was not exact'')
                else res_bind (safe_object (PyStr (row ! 0)) ''observed_object'') (\<lambda>x. Inr (Some x))))))"

definition callback_read_ref :: "(string \<Rightarrow> string \<Rightarrow> pyexc + py) \<Rightarrow> py \<Rightarrow> py \<Rightarrow> pyexc + py" where
  "callback_read_ref callback remote target_ref =
     res_bind (safe_remote remote) (\<lambda>r. res_bind (safe_ref target_ref) (\<lambda>t.
     res_bind (callback r t) (\<lambda>v.
       if v = PyNone then Inr v else res_bind (safe_object v ''observed_object'') (\<lambda>_. Inr v))))"

section \<open>Reconciliation\<close>

text \<open>\<open>reader\<close> is the bound method \<open>read_ref\<close>; whatever it raises leaves the effect unknown.\<close>

definition reconcile_push_intent ::
    "(string \<Rightarrow> string \<Rightarrow> pyexc + py) \<Rightarrow> git_push_intent \<Rightarrow> pyexc + push_reconciliation" where
  "reconcile_push_intent reader i =
     (let build = (\<lambda>state observed. PushReconciliation (PyStr (gi_effect_id i)) (PyStr (gi_target_id i))
            (PyStr (gi_expected_object i)) (PyStr state) observed (PyStr (gi_precondition_object i))) in
      case res_bind (reader (gi_remote i) (gi_target_ref i)) (\<lambda>v.
             if v = PyNone then Inr v else res_bind (safe_object v ''observed_object'') (\<lambda>x. Inr (PyStr x))) of
        Inl _ \<Rightarrow> build ''UNKNOWN'' PyNone
      | Inr observed \<Rightarrow>
          if observed = PyStr (gi_expected_object i) then build ''EXACT_APPLIED'' observed
          else if observed = PyNone \<and> set (gi_precondition_object i) = {CHR ''0''}
          then build ''EXACT_NOT_APPLIED'' (PyStr (gi_precondition_object i))
          else if observed = PyStr (gi_precondition_object i) then build ''EXACT_NOT_APPLIED'' observed
          else build ''AMBIGUOUS'' observed)"

section \<open>The recorder finds an unused identity\<close>

lemma fresh_effect_unused:
  "effect_name p (fresh_effect p used n) \<notin> set used \<and> n \<le> fresh_effect p used n
     \<and> (\<forall>i. n \<le> i \<and> i < fresh_effect p used n \<longrightarrow> effect_name p i \<in> set used)"
proof (induction p used n rule: fresh_effect.induct)
  case (1 p used n)
  show ?case
  proof (cases "effect_name p n \<in> set used")
    case True
    then have "fresh_effect p used n = fresh_effect p used (Suc n)" by (subst fresh_effect.simps) simp
    moreover have "effect_name p i \<in> set used" if "n \<le> i" "i < fresh_effect p used (Suc n)" for i
      using 1 [OF True] True that by (cases "i = n") auto
    ultimately show ?thesis using 1 [OF True] by auto
  qed (subst (1 2 3) fresh_effect.simps, auto)
qed

lemma fresh_effect_bound: "fresh_effect p used n \<le> n + length used"
proof -
  let ?k = "fresh_effect p used n"
  have "effect_name p ` {n..<?k} \<subseteq> set used" using fresh_effect_unused [of p used n] by auto
  moreover have "inj_on (effect_name p) {n..<?k}" by (rule inj_onI) (rule effect_name_inj)
  ultimately have "card {n..<?k} \<le> card (set used)" by (metis List.finite_set card_image card_mono)
  then show ?thesis using card_length [of used] by simp
qed

section \<open>Exact names\<close>

lemma safe_object_Inr [simp]: "safe_object (PyStr s) label = Inr x \<longleftrightarrow> GIT_OBJECT_RE s \<and> x = s"
  by (auto simp: safe_object_def)

lemma safe_remote_Inr [simp]: "safe_remote (PyStr s) = Inr r \<longleftrightarrow> GIT_REMOTE_RE s \<and> r = s"
  by (auto simp: safe_remote_def)

lemma safe_ref_Inr [simp]:
  "safe_ref (PyStr s) = Inr t \<longleftrightarrow> GIT_REF_RE s \<and> \<not> contains ''..'' s \<and> \<not> contains ''//'' s \<and> last s \<noteq> CHR ''/'' \<and> t = s"
  by (auto simp: safe_ref_def)

lemma GitPushIntent_Inr:
  "GitPushIntent ident (PyStr e) (PyStr r) (PyStr t) (PyStr x) (PyStr p) = Inr i \<Longrightarrow>
     wf_intent i \<and> gi_identity i = ident \<and> gi_effect_id i = e \<and> gi_remote i = r \<and> gi_target_ref i = t
     \<and> gi_expected_object i = x \<and> gi_precondition_object i = p"
  by (auto simp: GitPushIntent_def run_checks_Inr res_bind_Inr_iff wf_intent_def)

lemma object_word: "GIT_OBJECT_RE s \<Longrightarrow> s \<noteq> [] \<and> list_all (\<lambda>c. \<not> is_space c \<and> \<not> is_line_break c) s"
proof -
  have "list_all (\<lambda>c. \<not> is_space c \<and> \<not> is_line_break c) ''0123456789abcdef''" by code_simp
  then have "is_hex_lower c \<Longrightarrow> \<not> is_space c \<and> \<not> is_line_break c" for c
    unfolding is_hex_lower_def list_all_iff by blast
  moreover assume "GIT_OBJECT_RE s"
  ultimately show ?thesis by (auto simp: GIT_OBJECT_RE_def list_all_iff)
qed

lemma strip_word: "s \<noteq> [] \<Longrightarrow> list_all (\<lambda>c. \<not> is_space c) s \<Longrightarrow> strip s \<noteq> []"
  by (cases s) simp_all

lemma object_text [simp]: "GIT_OBJECT_RE s \<Longrightarrow> strip s \<noteq> []"
  using object_word by (intro strip_word) (auto simp: list_all_iff)

section \<open>The reconciler\<close>

lemma alnum_not_space: "is_alnum_ascii c \<Longrightarrow> \<not> is_space c"
proof -
  have "list_all (\<lambda>c. \<not> is_space c) (''0123456789'' @ ''abcdefghijklmnopqrstuvwxyz'' @ ''ABCDEFGHIJKLMNOPQRSTUVWXYZ'')"
    by code_simp
  then show "is_alnum_ascii c \<Longrightarrow> \<not> is_space c"
    unfolding is_alnum_ascii_def is_digit_def is_lower_ascii_def is_upper_ascii_def list_all_iff by auto
qed

lemma target_text [simp]: "wf_intent i \<Longrightarrow> strip (gi_target_id i) \<noteq> []"
  by (cases "gi_remote i") (simp_all add: wf_intent_def gi_target_id_def GIT_REMOTE_RE_def alnum_not_space)

lemma reconciliation_built:
  assumes "wf_intent i" "opt_text observed" "PushResolutionState state = Some st"
    and "st = EXACT_APPLIED \<Longrightarrow> observed = Some (gi_expected_object i)"
    and "st = EXACT_NOT_APPLIED \<Longrightarrow> observed = Some (gi_precondition_object i)"
  shows "PushReconciliation (PyStr (gi_effect_id i)) (PyStr (gi_target_id i)) (PyStr (gi_expected_object i)) (PyStr state)
      (of_opt_str observed) (PyStr (gi_precondition_object i))
    = Inr \<lparr>pr_effect_id = gi_effect_id i, pr_target_id = gi_target_id i, pr_expected_object = gi_expected_object i,
        pr_state = st, pr_observed_object = observed, pr_precondition_object = Some (gi_precondition_object i)\<rparr>"
proof -
  have "strip (gi_effect_id i) \<noteq> []" "strip (gi_expected_object i) \<noteq> []" "strip (gi_precondition_object i) \<noteq> []"
    using assms(1) by (simp_all add: wf_intent_def)
  moreover have "enum_value PushResolutionState (PyStr state) ''state'' = Inr st"
    using assms(3) by (simp add: enum_value_Inr)
  ultimately show ?thesis
    using assms by (auto simp: PushReconciliation_def run_checks_pass)
qed

lemma safe_object_cases: "safe_object v label = Inr x \<longleftrightarrow> v = PyStr x \<and> GIT_OBJECT_RE x"
  by (auto simp: safe_object_def is_str_iff)

text \<open>What the reconciler takes its reader to have seen: nothing exact, or the object of the ref.\<close>

definition observed_ref :: "pyexc + py \<Rightarrow> string option option" where
  "observed_ref read = (case read of
      Inr PyNone \<Rightarrow> Some None
    | Inr (PyStr x) \<Rightarrow> if GIT_OBJECT_RE x then Some (Some x) else None
    | _ \<Rightarrow> None)"

definition push_state :: "git_push_intent \<Rightarrow> string option option \<Rightarrow> push_resolution_state" where
  "push_state i observed =
     (if observed = None then RESOLUTION_UNKNOWN
      else if observed = Some (Some (gi_expected_object i)) then EXACT_APPLIED
      else if observed = Some (Some (gi_precondition_object i))
        \<or> observed = Some None \<and> set (gi_precondition_object i) = {CHR ''0''}
      then EXACT_NOT_APPLIED else AMBIGUOUS)"

lemma reconcile_observed:
  assumes "wf_intent i"
  shows "\<exists>r. reconcile_push_intent reader i = Inr r
    \<and> pr_effect_id r = gi_effect_id i \<and> pr_target_id r = gi_target_id i
    \<and> pr_expected_object r = gi_expected_object i \<and> pr_precondition_object r = Some (gi_precondition_object i)
    \<and> pr_state r = push_state i (observed_ref (reader (gi_remote i) (gi_target_ref i)))
    \<and> (pr_state r = EXACT_APPLIED \<longrightarrow> pr_observed_object r = Some (gi_expected_object i))"
proof -
  let ?read = "reader (gi_remote i) (gi_target_ref i)"
  note built = reconciliation_built [OF assms]
  have states: "PushResolutionState ''UNKNOWN'' = Some RESOLUTION_UNKNOWN" "PushResolutionState ''AMBIGUOUS'' = Some AMBIGUOUS"
    "PushResolutionState ''EXACT_APPLIED'' = Some EXACT_APPLIED"
    "PushResolutionState ''EXACT_NOT_APPLIED'' = Some EXACT_NOT_APPLIED"
    by (simp_all add: PushResolutionState_def)
  note unknown = built [of None, OF _ states(1)] and ambiguous = built [OF _ states(2)]
    and applied = built [of "Some (gi_expected_object i)", OF _ states(3)]
    and not_applied = built [of "Some (gi_precondition_object i)", OF _ states(4)]
  have texts: "opt_text (Some (gi_expected_object i))" "opt_text (Some (gi_precondition_object i))" "opt_text None"
    "GIT_OBJECT_RE x \<Longrightarrow> opt_text (Some x)" for x
    using assms by (simp_all add: wf_intent_def opt_text_def)
  show ?thesis
  proof (cases "observed_ref ?read")
    case None
    then have "\<exists>e. res_bind ?read (\<lambda>v. if v = PyNone then Inr v
        else res_bind (safe_object v ''observed_object'') (\<lambda>x. Inr (PyStr x))) = Inl e"
      by (cases ?read) (auto simp: observed_ref_def safe_object_def is_str_iff split: py.splits if_splits)
    then show ?thesis
      using unknown texts by (auto simp: reconcile_push_intent_def push_state_def None)
  next
    case (Some observed)
    then have "res_bind ?read (\<lambda>v. if v = PyNone then Inr v
        else res_bind (safe_object v ''observed_object'') (\<lambda>x. Inr (PyStr x))) = Inr (of_opt_str observed)"
      and "opt_text observed"
      using texts(4) by (auto simp: observed_ref_def safe_object_def split: sum.splits py.splits if_splits)
    then show ?thesis
      using applied not_applied ambiguous [of observed] texts
      by (cases observed) (auto simp: reconcile_push_intent_def push_state_def Some)
  qed
qed

section \<open>Properties\<close>

text \<open>
  C33: the search for an effect identity ends.  It passes over at most as many numbers as the log
  holds events with an effect, stops at the first number whose identity is unused, and never goes
  back.
\<close>

theorem effect_identity_search_ends:
  "n \<le> fresh_effect p used n \<and> fresh_effect p used n \<le> n + length used
     \<and> effect_name p (fresh_effect p used n) \<notin> set used
     \<and> (\<forall>i. n \<le> i \<and> i < fresh_effect p used n \<longrightarrow> effect_name p i \<in> set used)"
  using fresh_effect_unused [of p used n] fresh_effect_bound [of p used n] by simp

theorem effect_identity_search_ends_witness:
  "fresh_effect ''git-push'' [''git-push-1''] 1 = 2"
proof -
  have "effect_name ''git-push'' 1 = ''git-push-1''" by code_simp
  then show ?thesis
    using effect_identity_search_ends [of 1 "''git-push''" "[''git-push-1'']"]
    by (cases "fresh_effect ''git-push'' [''git-push-1''] 1 = 1") simp_all
qed

lemma SAFE_ID_chars:
  assumes "GIT_REMOTE_RE r" "GIT_REF_RE t"
  shows "is_alnum_ascii (hd r) \<and> CHR '':'' \<notin> set r
    \<and> list_all (\<lambda>c. is_alnum_ascii c \<or> c \<in> set ''._:/-'') (tl r @ CHR '':'' # t)"
proof -
  have remote: "r \<noteq> []" "is_alnum_ascii (hd r)" "list_all (\<lambda>c. is_alnum_ascii c \<or> c \<in> set ''._-'') (tl r)"
    using assms(1) unfolding GIT_REMOTE_RE_def by blast+
  have ref: "take 11 t = ''refs/heads/''" "is_alnum_ascii (hd (drop 11 t))" "drop 11 t \<noteq> []"
    "list_all (\<lambda>c. is_alnum_ascii c \<or> c \<in> set ''._/-'') (tl (drop 11 t))"
  proof -
    have "length ''refs/heads/'' = 11" by simp
    then show "take 11 t = ''refs/heads/''" using assms(2) unfolding GIT_REF_RE_def has_prefix_def by (simp only:)
  qed (use assms(2) in \<open>unfold GIT_REF_RE_def Let_def, blast+\<close>)
  have letters: "list_all is_alnum_ascii ''refsheads''" and colon: "\<not> is_alnum_ascii (CHR '':'')" by code_simp+
  have "t = ''refs/heads/'' @ hd (drop 11 t) # tl (drop 11 t)"
    using ref(1,3) append_take_drop_id [of 11 t] by simp
  moreover have "list_all (\<lambda>c. is_alnum_ascii c \<or> c \<in> set ''._:/-'')
      (''refs/heads/'' @ hd (drop 11 t) # tl (drop 11 t))"
    using letters ref(2,4) by (auto simp: list_all_iff)
  ultimately have "list_all (\<lambda>c. is_alnum_ascii c \<or> c \<in> set ''._:/-'') t" by (simp only:)
  moreover have "list_all (\<lambda>c. is_alnum_ascii c \<or> c \<in> set ''._:/-'') (tl r)" using remote(3) by (auto simp: list_all_iff)
  moreover have "CHR '':'' \<notin> set r"
  proof
    assume "CHR '':'' \<in> set r"
    then have "CHR '':'' = hd r \<or> CHR '':'' \<in> set (tl r)" using remote(1) by (cases r) auto
    then show False using remote(2,3) colon by (auto simp: list_all_iff)
  qed
  ultimately show ?thesis using remote(2) unfolding list_all_append by simp
qed

text \<open>
  C34: the identity of a target is read back within its bound.  The identity of every safe remote and
  ref is split into them again exactly when it has at most 256 characters; the names alone allow 266,
  and the longer identities are refused.
\<close>

theorem target_identity_bound:
  assumes "safe_remote (PyStr r) = Inr r" "safe_ref (PyStr t) = Inr t"
  shows "\<exists>s. target_id_for_ref (PyStr r) (PyStr t) = Inr s \<and> length s \<le> 266
    \<and> split_target_id (PyStr s) =
        (if length s \<le> 256 then Inr (r, t) else Inl (GitEffectError ''Git target identity is not safe''))"
proof -
  let ?s = "r @ CHR '':'' # t"
  have names: "GIT_REMOTE_RE r" "GIT_REF_RE t" using assms by simp_all
  have id: "target_id_for_ref (PyStr r) (PyStr t) = Inr ?s"
    unfolding target_id_for_ref_def assms by simp
  have "length r \<le> 63 \<and> length t \<le> 202" using names by (auto simp: GIT_REMOTE_RE_def GIT_REF_RE_def Let_def)
  moreover have "takeWhile (\<lambda>c. c \<noteq> CHR '':'') ?s = r" "dropWhile (\<lambda>c. c \<noteq> CHR '':'') ?s = CHR '':'' # t"
    using SAFE_ID_chars [OF names] by (auto simp: takeWhile_tail dropWhile_append)
  moreover have "SAFE_ID_RE ?s \<longleftrightarrow> length ?s \<le> 256"
    using SAFE_ID_chars [OF names] names(1) unfolding SAFE_ID_RE_def
    by (cases r) (simp_all add: GIT_REMOTE_RE_def)
  moreover have "res_bind (safe_remote (PyStr r)) (\<lambda>r'. res_bind (safe_ref (PyStr t)) (\<lambda>t'. Inr (r', t'))) = Inr (r, t)"
    unfolding assms by simp
  ultimately show ?thesis using id by (auto simp: split_target_id_def Let_def)
qed

theorem target_identity_bound_witness:
  "split_target_id (PyStr ''origin:refs/heads/main'') = Inr (''origin'', ''refs/heads/main'')
   \<and> split_target_id (PyStr (replicate 63 (CHR ''r'') @ '':refs/heads/'' @ replicate 191 (CHR ''b'')))
       = Inl (GitEffectError ''Git target identity is not safe'')"
proof -
  have short: "safe_remote (PyStr ''origin'') = Inr ''origin''" "safe_ref (PyStr ''refs/heads/main'') = Inr ''refs/heads/main''"
    and long: "safe_remote (PyStr (replicate 63 (CHR ''r''))) = Inr (replicate 63 (CHR ''r''))"
    "safe_ref (PyStr (''refs/heads/'' @ replicate 191 (CHR ''b''))) = Inr (''refs/heads/'' @ replicate 191 (CHR ''b''))"
    and ids: "target_id_for_ref (PyStr ''origin'') (PyStr ''refs/heads/main'') = Inr ''origin:refs/heads/main''"
    "target_id_for_ref (PyStr (replicate 63 (CHR ''r''))) (PyStr (''refs/heads/'' @ replicate 191 (CHR ''b'')))
       = Inr (replicate 63 (CHR ''r'') @ '':refs/heads/'' @ replicate 191 (CHR ''b''))"
    by code_simp+
  show ?thesis
    using target_identity_bound [OF short] target_identity_bound [OF long] unfolding ids by simp
qed

end
