(* ===== verification/Git_Publication.thy ===== *)
theory Git_Publication
  imports Git_Store Git_Effects Durable_Wal
begin

text \<open>
  \<open>publish_cas\<close> of \<open>worker/git_store.py\<close> with a push-effect recorder: one attempt that writes its
  intent into the log of the run before it pushes, and returns only after the remote ref was observed
  at the pushed commit and the confirmation was logged.  \<open>tip\<close> gives the object the branch of a
  remote state points to.
\<close>

section \<open>Observing the remote\<close>

text \<open>What \<open>git ls-remote --refs origin ref\<close> prints, and a read of the ref that may fail.\<close>

definition ls_output :: "string option \<Rightarrow> string \<Rightarrow> string" where
  "ls_output object ref = (case object of None \<Rightarrow> [] | Some x \<Rightarrow> x @ CHR 0x09 # ref @ [CHR 0x0A])"

definition observe :: "pyexc option \<Rightarrow> string option \<Rightarrow> string \<Rightarrow> string \<Rightarrow> pyexc + string option" where
  "observe fails object remote ref =
     ls_remote_read_ref (case fails of Some e \<Rightarrow> LsRaised e | None \<Rightarrow> LsDone 0 (ls_output object ref))
       (PyStr remote) (PyStr ref)"

section \<open>One recorded attempt\<close>

text \<open>
  Beside what an attempt meets without a recorder: whether \<open>get_head\<close> fails, what other writers do
  between the synchronisation and the first read and between the push and the second read, the
  failures of the two reads, the time and the interruption of the two writes to the log, and the
  exception of the cleanup.
\<close>

record 's recorded_attempt = "'s cas_attempt" +
  ra_head_fails :: bool
  ra_moved :: "'s \<Rightarrow> 's"
  ra_ls_before :: "pyexc option"
  ra_stop :: "nat option"
  ra_now :: string
  ra_between :: "'s \<Rightarrow> 's"
  ra_ls_after :: "pyexc option"
  ra_stop_after :: "nat option"
  ra_now_after :: string
  ra_discard :: "pyexc option"

type_synonym recorder_state = "wal_push_recorder \<times> string option"

text \<open>\<open>discard_unpublished_attempt()\<close> swallows a \<open>WorkerError\<close>, and any other exception replaces the first.\<close>

definition discard_unpublished :: "'s recorded_attempt \<Rightarrow> string \<Rightarrow> pyexc" where
  "discard_unpublished a m =
     (case ra_discard a of Some d \<Rightarrow> if is_worker_error d then WorkerError m else d | None \<Rightarrow> WorkerError m)"

definition is_recorder_error :: "pyexc \<Rightarrow> bool" where
  "is_recorder_error e \<longleftrightarrow> is_os_error e \<or> is_subprocess_error e \<or> is_value_error e \<or> is_type_error e"

definition confirm_push ::
    "('s \<Rightarrow> string option) \<Rightarrow> 's recorded_attempt \<Rightarrow> git_push_intent \<Rightarrow> 's \<Rightarrow> 's \<Rightarrow> nat \<Rightarrow> recorder_state \<Rightarrow>
       (pyexc + 's cas_result) \<times> 's \<times> nat \<times> recorder_state" where
  "confirm_push tip a intent new later n rs =
     (case reconcile_push_intent (\<lambda>r t. map_sum id of_opt_str (observe (ra_ls_after a) (tip later) r t)) intent of
        Inl e \<Rightarrow> (Inl e, later, n, rs)
      | Inr r \<Rightarrow>
          if pr_state r = EXACT_APPLIED
          then (case recorder_push_confirmed (ra_stop_after a) (ra_now_after a) r rs of
              (Inl e, rs') \<Rightarrow>
                (Inl (if is_recorder_error e then WorkerError ''Git push confirmation could not be recorded'' else e),
                 later, n, rs')
            | (Inr _, rs') \<Rightarrow> (Inr (Published new), later, n, rs'))
          else (Inl (discard_unpublished a ''Git push effect was not mechanically confirmed''), later, n, rs))"

text \<open>
  \<open>git push\<close> without force only moves a branch forward: where another writer moved the branch since
  the synchronisation, the push is not applied.  A writer that comes later, before the push, is an
  outcome \<open>PushRejected\<close>.
\<close>

definition push_outcome_at :: "'s recorded_attempt \<Rightarrow> bool \<Rightarrow> push_outcome" where
  "push_outcome_at a moved =
     (if moved then (case ca_push a of PushRaised e applied \<Rightarrow> PushRaised e False | _ \<Rightarrow> PushRejected) else ca_push a)"

definition push_recorded ::
    "('s \<Rightarrow> string option) \<Rightarrow> string \<Rightarrow> 's recorded_attempt \<Rightarrow> 's \<Rightarrow> 's \<Rightarrow> recorder_state \<Rightarrow>
       (pyexc + 's cas_result) \<times> 's \<times> nat \<times> recorder_state" where
  "push_recorded tip branch a current new rs =
     (let target_ref = ''refs/heads/'' @ branch; ahead = ra_moved a current in
      case (if ra_head_fails a then None else tip new) of
        None \<Rightarrow> (Inl (discard_unpublished a ''Git push expected object could not be read''), ahead, 0, rs)
      | Some expected \<Rightarrow>
     (case observe (ra_ls_before a) (tip ahead) ''origin'' target_ref of
        Inl e \<Rightarrow> (Inl (if is_os_error e \<or> is_subprocess_error e \<or> is_value_error e
              then discard_unpublished a ''Git push precondition could not be observed exactly'' else e), ahead, 0, rs)
      | Inr seen \<Rightarrow>
     (let precondition = (case seen of Some p \<Rightarrow> p | None \<Rightarrow> replicate (length expected) (CHR ''0'')) in
      case recorder_push_intent (ra_stop a) (ra_now a) ''origin'' target_ref expected precondition rs of
        (Inl e, rs1) \<Rightarrow> (Inl (if is_recorder_error e
              then discard_unpublished a ''Git push intent could not be recorded'' else e), ahead, 0, rs1)
      | (Inr intent, rs1) \<Rightarrow>
     (case push_outcome_at a (ahead \<noteq> current) of
        PushRaised e applied \<Rightarrow>
          (Inl (if is_os_error e \<or> is_subprocess_error e
              then discard_unpublished a ''Git push did not return a bounded result'' else e),
           if applied then new else ahead, if applied then 1 else 0, rs1)
      | PushRejected \<Rightarrow> confirm_push tip a intent new (ra_between a ahead) 0 rs1
      | _ \<Rightarrow> confirm_push tip a intent new (ra_between a new) 1 rs1))))"

text \<open>The third component counts how often the payload reached the remote.\<close>

definition publish_recorded ::
    "('s \<Rightarrow> string option) \<Rightarrow> string \<Rightarrow> ('s \<Rightarrow> pyexc + bool) \<Rightarrow> ('s \<Rightarrow> pyexc + bool) \<Rightarrow> ('s \<Rightarrow> pyexc + 's) \<Rightarrow>
       's recorded_attempt \<Rightarrow> 's \<Rightarrow> recorder_state \<Rightarrow> (pyexc + 's cas_result) \<times> 's \<times> nat \<times> recorder_state" where
  "publish_recorded tip branch expected already build a remote rs =
     (let current = ca_others a remote in
      case ca_sync a of Some e \<Rightarrow> (Inl e, current, 0, rs) | None \<Rightarrow>
      (case already current of
         Inl e \<Rightarrow> (Inl e, current, 0, rs)
       | Inr True \<Rightarrow> (Inr (AlreadyApplied current), current, 0, rs)
       | Inr False \<Rightarrow>
      (case expected current of
         Inl e \<Rightarrow> (Inl e, current, 0, rs)
       | Inr False \<Rightarrow> (Inl (CASConflict ''Bridge state changed before publish''), current, 0, rs)
       | Inr True \<Rightarrow>
      (case build current of
         Inl e \<Rightarrow> (Inl e, current, 0, rs)
       | Inr new \<Rightarrow>
      (case ca_commit a of Some e \<Rightarrow> (Inl e, current, 0, rs) | None \<Rightarrow>
         if new = current then (Inr (Unchanged current), current, 0, rs)
         else push_recorded tip branch a current new rs)))))"

section \<open>Reading exactly\<close>

lemma splitlines_line:
  "list_all (\<lambda>c. \<not> is_line_break c) l \<Longrightarrow> splitlines_from acc (l @ [CHR 0x0A]) = [rev acc @ l]"
  by (induction l arbitrary: acc) (auto simp: is_line_break_def)

lemma split_words_two:
  assumes "list_all (\<lambda>c. \<not> is_space c) x" "list_all (\<lambda>c. \<not> is_space c) y" "x \<noteq> []" "y \<noteq> []"
  shows "split_words (x @ CHR 0x09 # y) = [x, y]"
proof -
  have tail: "words_from acc y = [rev acc @ y]" if "list_all (\<lambda>c. \<not> is_space c) y" "acc \<noteq> [] \<or> y \<noteq> []" for acc y
    using that by (induction y arbitrary: acc) auto
  have "words_from acc (x @ CHR 0x09 # y) = [rev acc @ x, y]" if "acc \<noteq> [] \<or> x \<noteq> []" for acc
    using assms(1) that by (induction x arbitrary: acc) (auto simp: is_space_def tail [OF assms(2)] assms(4))
  then show ?thesis using assms(3) by (simp add: split_words_def)
qed

lemma ref_chars: "GIT_REF_RE s \<Longrightarrow> s \<noteq> [] \<and> list_all (\<lambda>c. \<not> is_space c \<and> \<not> is_line_break c) s"
proof -
  assume re: "GIT_REF_RE s"
  have "list_all (\<lambda>c. \<not> is_space c \<and> \<not> is_line_break c) (''0123456789'' @ ''abcdefghijklmnopqrstuvwxyz'' @
      ''ABCDEFGHIJKLMNOPQRSTUVWXYZ'' @ ''._/-'' @ ''refs/heads/'')"
    by code_simp
  then have ok: "is_alnum_ascii c \<or> c \<in> set ''._/-'' \<or> c \<in> set ''refs/heads/'' \<Longrightarrow> \<not> is_space c \<and> \<not> is_line_break c" for c
    unfolding is_alnum_ascii_def is_digit_def is_lower_ascii_def is_upper_ascii_def list_all_iff set_append by blast
  have "length ''refs/heads/'' = 11" by simp
  then have start: "take 11 s = ''refs/heads/''" using re unfolding GIT_REF_RE_def has_prefix_def by (simp only:)
  have split: "s = take 11 s @ drop 11 s" by (rule append_take_drop_id [symmetric])
  have tail: "c \<in> set (drop 11 s) \<Longrightarrow> is_alnum_ascii c \<or> c \<in> set ''._/-''" for c
    using re unfolding GIT_REF_RE_def Let_def list_all_iff by (cases "drop 11 s") auto
  have "c \<in> set s \<Longrightarrow> \<not> is_space c \<and> \<not> is_line_break c" for c
    using ok tail split start by (metis Un_iff set_append)
  moreover have "s \<noteq> []" using start by auto
  ultimately show ?thesis by (simp add: list_all_iff)
qed

lemma ls_remote_reads:
  assumes "GIT_REMOTE_RE remote" "safe_ref (PyStr ref) = Inr ref" "\<And>x. object = Some x \<Longrightarrow> GIT_OBJECT_RE x"
  shows "observe None object remote ref = Inr object"
proof -
  have ref: "ref \<noteq> []" "list_all (\<lambda>c. \<not> is_space c) ref" "list_all (\<lambda>c. \<not> is_line_break c) ref"
    using ref_chars [of ref] assms(2) by (auto simp: list_all_iff)
  have remote: "safe_remote (PyStr remote) = Inr remote" using assms(1) by simp
  show ?thesis
  proof (cases object)
    case None
    then show ?thesis
      unfolding observe_def ls_remote_read_ref_def remote assms(2) by (simp add: ls_output_def splitlines_def)
  next
    case (Some x)
    have x: "x \<noteq> []" "list_all (\<lambda>c. \<not> is_space c) x" "list_all (\<lambda>c. \<not> is_line_break c) x"
      using object_word [of x] assms(3) [OF Some] by (auto simp: list_all_iff)
    have "splitlines (x @ CHR 0x09 # ref @ [CHR 0x0A]) = [x @ CHR 0x09 # ref]"
      using splitlines_line [of "x @ CHR 0x09 # ref" "[]"] x(3) ref(3) by (simp add: splitlines_def is_line_break_def)
    moreover have "strip (x @ CHR 0x09 # ref) \<noteq> []" using x(1,2) by (cases x) simp_all
    ultimately show ?thesis
      using split_words_two [OF x(2) ref(2) x(1) ref(1)] assms(3) [OF Some]
      unfolding observe_def ls_remote_read_ref_def remote assms(2)
      by (simp add: ls_output_def Some safe_object_def)
  qed
qed

section \<open>What the log holds\<close>

lemma wal_append_cases:
  assumes inv: "wal_inv (w, content)"
    and run: "wal_append stop now kind PyNone eff tgt ex ob art pre (w, content) = (res, w', content')"
  obtains (refused) err where "res = Inl err" "w' = w" "prefix (wal_text (rw_identity w) (rw_events w)) (the content')"
  | (stored) e where "res = Inr e" "w' = w\<lparr>rw_events := rw_events w @ [e]\<rparr>" "wal_inv (w', content')"
      "RecoveryWalEvent (PyInt (int (length (rw_events w)) + 1)) (PyStr (kind_text kind)) (PyStr now)
         eff tgt ex ob art pre = Inr e"
proof -
  have c: "content = Some (wal_text (rw_identity w) (rw_events w))" using inv by (simp add: wal_inv_def)
  show thesis
  proof (cases "RecoveryWalEvent (PyInt (int (length (rw_events w)) + 1)) (PyStr (kind_text kind)) (PyStr now)
         eff tgt ex ob art pre")
    case (Inl err)
    with run have "res = Inl err \<and> w' = w \<and> content' = content" by (simp add: wal_append_def truthy_def)
    then show thesis using refused c by simp
  next
    case (Inr e)
    have wf: "wf_event e" by (rule RecoveryWalEvent_valid [OF Inr])
    have "append_event stop e (w, content) = (res, w', content')"
      using run Inr by (simp add: wal_append_def truthy_def)
    then show thesis
      using refused stored [OF _ _ _ Inr] stored_inv [OF inv wf] c
      by (cases rule: append_event_cases [OF inv wf, of stop]) auto
  qed
qed

lemma event_fields_of:
  assumes "RecoveryWalEvent n (PyStr (kind_text kind)) t (of_opt_str eff) (of_opt_str tgt) (of_opt_str ex) (of_opt_str ob)
      (of_opt_str art) (of_opt_str pre) = Inr e"
  shows "we_kind e = kind \<and> we_effect_id e = eff \<and> we_target_id e = tgt \<and> we_expected_object e = ex
    \<and> we_observed_object e = ob \<and> we_precondition_object e = pre"
  using assms by (auto simp: RecoveryWalEvent_def run_checks_Inr res_bind_Inr_iff enum_value_Inr)

text \<open>The events of a push in the log.\<close>

definition intent_event :: "git_push_intent \<Rightarrow> wal_event \<Rightarrow> bool" where
  "intent_event i e \<longleftrightarrow> we_kind e = PUSH_INTENT \<and> we_effect_id e = Some (gi_effect_id i)
     \<and> we_target_id e = Some (gi_target_id i) \<and> we_expected_object e = Some (gi_expected_object i)
     \<and> we_precondition_object e = Some (gi_precondition_object i)"

definition confirmation_event :: "git_push_intent \<Rightarrow> wal_event \<Rightarrow> bool" where
  "confirmation_event i e \<longleftrightarrow> we_kind e = PUSH_CONFIRMED \<and> we_effect_id e = Some (gi_effect_id i)
     \<and> we_observed_object e = Some (gi_expected_object i)"

definition recorder_inv :: "recorder_state \<Rightarrow> bool" where
  "recorder_inv rs \<longleftrightarrow> wal_inv (wr_wal (fst rs), snd rs)"

definition recorded_events :: "recorder_state \<Rightarrow> wal_event list" where
  "recorded_events rs = rw_events (wr_wal (fst rs))"

text \<open>The records of these events are in the file, whatever follows them.\<close>

definition durably :: "recorder_state \<Rightarrow> run_identity \<Rightarrow> wal_event list \<Rightarrow> bool" where
  "durably rs ident events \<longleftrightarrow> prefix (wal_text ident events) (the (snd rs))"

lemma recorder_intent_cases:
  assumes inv: "recorder_inv rs"
    and run: "recorder_push_intent stop now remote ref expected pre rs = (res, rs')"
  obtains (refused) err where "res = Inl err" "recorded_events rs' = recorded_events rs"
  | (stored) i e where "res = Inr i" "recorder_inv rs'" "recorded_events rs' = recorded_events rs @ [e]"
      "rw_identity (wr_wal (fst rs')) = rw_identity (wr_wal (fst rs))"
      "intent_event i e" "wf_intent i" "gi_remote i = remote" "gi_target_ref i = ref"
      "gi_expected_object i = expected" "gi_precondition_object i = pre"
proof -
  obtain r content where rs: "rs = (r, content)" by force
  let ?used = "map the (filter (\<lambda>v. v \<noteq> None) (map we_effect_id (rw_events (wr_wal r))))"
  let ?n = "fresh_effect (wr_prefix r) ?used (wr_next r)"
  have winv: "wal_inv (wr_wal r, content)" using inv by (simp add: recorder_inv_def rs)
  show thesis
  proof (cases "GitPushIntent (rw_identity (wr_wal r)) (PyStr (effect_name (wr_prefix r) ?n)) (PyStr remote)
      (PyStr ref) (PyStr expected) (PyStr pre)")
    case (Inl err)
    with run have "res = Inl err \<and> rs' = (r\<lparr>wr_next := Suc ?n\<rparr>, content)"
      by (simp add: recorder_push_intent_def rs Let_def)
    then show thesis using refused by (simp add: recorded_events_def rs)
  next
    case (Inr i)
    have i: "wf_intent i" "gi_remote i = remote" "gi_target_ref i = ref" "gi_expected_object i = expected"
      "gi_precondition_object i = pre"
      using GitPushIntent_Inr [OF Inr] by simp_all
    obtain res1 w content' where rec: "record_push_intent stop now (gi_effect_id i) (gi_remote i) (gi_target_ref i)
        (gi_expected_object i) (gi_precondition_object i) PyNone (wr_wal r, content) = (res1, w, content')"
      by (rule prod_cases3)
    have out: "rs' = (r\<lparr>wr_next := Suc ?n, wr_wal := w\<rparr>, content')" "res = (case res1 of Inl e \<Rightarrow> Inl e | Inr _ \<Rightarrow> Inr i)"
      using run Inr rec by (auto simp: recorder_push_intent_def rs Let_def split: sum.splits)
    show thesis
    proof (cases "validate_git_push_fields (gi_effect_id i) (gi_remote i) (gi_target_ref i) (gi_expected_object i)
        (gi_precondition_object i)")
      case (Some err)
      then show thesis using rec out refused by (auto simp: record_push_intent_def recorded_events_def rs)
    next
      case None
      have app: "wal_append stop now PUSH_INTENT PyNone (of_opt_str (Some (gi_effect_id i))) (of_opt_str (Some (gi_target_id i)))
          (of_opt_str (Some (gi_expected_object i))) (of_opt_str None) (of_opt_str None)
          (of_opt_str (Some (gi_precondition_object i))) (wr_wal r, content) = (res1, w, content')"
        using rec None by (simp add: record_push_intent_def gi_target_id_def)
      show thesis
      proof (cases rule: wal_append_cases [OF winv app])
        case (1 err)
        then show thesis using out refused by (simp add: recorded_events_def rs)
      next
        case (2 e)
        have "intent_event i e" using event_fields_of [OF 2(4)] by (simp add: intent_event_def)
        moreover have "recorder_inv rs'" "recorded_events rs' = recorded_events rs @ [e]" "res = Inr i"
          "rw_identity (wr_wal (fst rs')) = rw_identity (wr_wal (fst rs))"
          using 2(1-3) out by (simp_all add: recorder_inv_def recorded_events_def rs)
        ultimately show thesis using stored i by blast
      qed
    qed
  qed
qed

lemma recorder_inv_durable: "recorder_inv rs \<Longrightarrow> durably rs (rw_identity (wr_wal (fst rs))) (recorded_events rs)"
  by (cases rs) (simp add: recorder_inv_def durably_def recorded_events_def wal_inv_def)

lemma durably_prefix: "durably rs ident (xs @ [e]) \<Longrightarrow> durably rs ident xs"
  by (auto simp: durably_def wal_text_simps dest: append_prefixD)

lemma recorder_confirm_cases:
  assumes inv: "recorder_inv rs"
    and run: "recorder_push_confirmed stop now r rs = (res, rs')"
  obtains (refused) err where "res = Inl err" "recorded_events rs' = recorded_events rs"
      "durably rs' (rw_identity (wr_wal (fst rs))) (recorded_events rs)"
  | (stored) e where "res = Inr e" "recorder_inv rs'" "recorded_events rs' = recorded_events rs @ [e]"
      "rw_identity (wr_wal (fst rs')) = rw_identity (wr_wal (fst rs))"
      "we_kind e = PUSH_CONFIRMED" "we_effect_id e = Some (pr_effect_id r)" "we_observed_object e = pr_observed_object r"
proof -
  obtain w content where rs: "rs = (w, content)" by force
  have winv: "wal_inv (wr_wal w, content)" using inv by (simp add: recorder_inv_def rs)
  obtain w' content' where rec: "record_push_confirmed stop now r PyNone (wr_wal w, content) = (res, w', content')"
    and rs': "rs' = (w\<lparr>wr_wal := w'\<rparr>, content')"
    using run by (auto simp: recorder_push_confirmed_def rs split: prod.splits)
  show thesis
  proof (cases "w' = wr_wal w \<and> content' = content \<and> (\<exists>err. res = Inl err)")
    case True
    then show thesis
      using refused recorder_inv_durable [OF inv] by (auto simp: rs rs' recorded_events_def durably_def)
  next
    case False
    have app: "wal_append stop now PUSH_CONFIRMED PyNone (of_opt_str (Some (pr_effect_id r))) (of_opt_str (Some (pr_target_id r)))
        (of_opt_str (Some (pr_expected_object r))) (of_opt_str (pr_observed_object r)) (of_opt_str None)
        (of_opt_str (pr_precondition_object r)) (wr_wal w, content) = (res, w', content')"
      using rec False by (auto simp: record_push_confirmed_def split: if_splits sum.splits option.splits)
    show thesis
    proof (cases rule: wal_append_cases [OF winv app])
      case (1 err)
      then show thesis using refused by (simp add: recorded_events_def durably_def rs rs')
    next
      case (2 e)
      have "we_kind e = PUSH_CONFIRMED" "we_effect_id e = Some (pr_effect_id r)" "we_observed_object e = pr_observed_object r"
        using event_fields_of [OF 2(4)] by simp_all
      moreover have "recorder_inv rs'" "recorded_events rs' = recorded_events rs @ [e]"
        "rw_identity (wr_wal (fst rs')) = rw_identity (wr_wal (fst rs))"
        using 2(1-3) by (simp_all add: recorder_inv_def recorded_events_def rs rs')
      ultimately show thesis using 2(1) stored by blast
    qed
  qed
qed

lemma observe_truthful:
  assumes "\<And>x. object = Some x \<Longrightarrow> GIT_OBJECT_RE x" "observe fails object remote ref = Inr seen"
  shows "seen = object"
proof (cases fails)
  case None
  have "GIT_REMOTE_RE remote" "safe_ref (PyStr ref) = Inr ref"
    using assms(2) by (auto simp: observe_def ls_remote_read_ref_def res_bind_Inr_iff)
  then show ?thesis using ls_remote_reads [OF _ _ assms(1)] assms(2) None by auto
next
  case (Some e)
  then show ?thesis using assms(2) by (auto simp: observe_def ls_remote_read_ref_def res_bind_Inr_iff)
qed

lemma observed_ref_object: "observed_ref (map_sum id of_opt_str v) = Some (Some x) \<Longrightarrow> v = Inr (Some x)"
proof (cases v)
  case (Inr y)
  then show "observed_ref (map_sum id of_opt_str v) = Some (Some x) \<Longrightarrow> v = Inr (Some x)"
    by (cases y) (simp_all add: observed_ref_def split: if_splits)
qed (simp add: observed_ref_def)

lemma confirm_push_result:
  assumes inv: "recorder_inv rs" and i: "wf_intent i" and tips: "\<forall>s x. tip s = Some x \<longrightarrow> GIT_OBJECT_RE x"
    and run: "confirm_push tip a i new later n rs = (res, remote', n', rs')"
  shows "remote' = later \<and> n' = n \<and>
    (recorded_events rs' = recorded_events rs \<and> (\<exists>err. res = Inl err)
       \<and> durably rs' (rw_identity (wr_wal (fst rs))) (recorded_events rs)
     \<or> (\<exists>c. recorded_events rs' = recorded_events rs @ [c] \<and> confirmation_event i c \<and> res = Inr (Published new)
          \<and> tip later = Some (gi_expected_object i) \<and> recorder_inv rs'
          \<and> durably rs' (rw_identity (wr_wal (fst rs))) (recorded_events rs)))"
proof -
  let ?reader = "\<lambda>r t. map_sum id of_opt_str (observe (ra_ls_after a) (tip later) r t)"
  obtain r where r: "reconcile_push_intent ?reader i = Inr r" "pr_effect_id r = gi_effect_id i"
    "pr_state r = push_state i (observed_ref (?reader (gi_remote i) (gi_target_ref i)))"
    "pr_state r = EXACT_APPLIED \<longrightarrow> pr_observed_object r = Some (gi_expected_object i)"
    using reconcile_observed [OF i, of ?reader] by blast
  show ?thesis
  proof (cases "pr_state r = EXACT_APPLIED")
    case False
    then show ?thesis using run r(1) recorder_inv_durable [OF inv] by (auto simp: confirm_push_def)
  next
    case True
    then have "observed_ref (?reader (gi_remote i) (gi_target_ref i)) = Some (Some (gi_expected_object i))"
      using r(3) by (simp add: push_state_def split: if_splits)
    then have "observe (ra_ls_after a) (tip later) (gi_remote i) (gi_target_ref i) = Inr (Some (gi_expected_object i))"
      by (rule observed_ref_object)
    then have "Some (gi_expected_object i) = tip later"
      by (rule observe_truthful [rotated]) (use tips in blast)
    then have held: "tip later = Some (gi_expected_object i)" by simp
    obtain res1 rs1 where conf: "recorder_push_confirmed (ra_stop_after a) (ra_now_after a) r rs = (res1, rs1)"
      by (rule prod.exhaust)
    show ?thesis
    proof (cases rule: recorder_confirm_cases [OF inv conf])
      case (1 err)
      then show ?thesis using run r(1) conf True by (auto simp: confirm_push_def)
    next
      case (2 e)
      have "confirmation_event i e" using 2 r(2,4) True by (simp add: confirmation_event_def)
      moreover have "durably rs1 (rw_identity (wr_wal (fst rs))) (recorded_events rs)"
        using recorder_inv_durable [OF 2(2)] durably_prefix unfolding 2(3,4) by blast
      ultimately show ?thesis using run r(1) conf True 2 held by (auto simp: confirm_push_def)
    qed
  qed
qed

lemma push_recorded_result:
  assumes inv: "recorder_inv rs" and tips: "\<forall>s x. tip s = Some x \<longrightarrow> GIT_OBJECT_RE x"
    and run: "push_recorded tip branch a current new rs = (res, remote', n, rs')"
  obtains (refused) err where "res = Inl err" "n = 0" "recorded_events rs' = recorded_events rs"
  | (pushed) i e where "intent_event i e" "tip new = Some (gi_expected_object i)"
      "gi_target_id i = ''origin:refs/heads/'' @ branch" "n \<le> 1"
      "durably rs' (rw_identity (wr_wal (fst rs))) (recorded_events rs @ [e])"
      "recorded_events rs' = recorded_events rs @ [e] \<and> (\<exists>err. res = Inl err)
       \<or> (\<exists>c. recorded_events rs' = recorded_events rs @ [e, c] \<and> confirmation_event i c \<and> res = Inr (Published new)
            \<and> tip remote' = Some (gi_expected_object i))"
proof -
  let ?ref = "''refs/heads/'' @ branch"
  show thesis
  proof (cases "(if ra_head_fails a then None else tip new)")
    case None
    then show thesis using run refused by (auto simp: push_recorded_def Let_def)
  next
    case (Some expected)
    then have expected: "tip new = Some expected" by (simp split: if_splits)
    show thesis
    proof (cases "observe (ra_ls_before a) (tip (ra_moved a current)) ''origin'' ?ref")
      case (Inl err)
      then show thesis using run refused Some by (auto simp: push_recorded_def Let_def)
    next
      case (Inr seen)
      define pre where "pre = (case seen of Some p \<Rightarrow> p | None \<Rightarrow> replicate (length expected) (CHR ''0''))"
      obtain res1 rs1 where rec: "recorder_push_intent (ra_stop a) (ra_now a) ''origin'' ?ref expected pre rs = (res1, rs1)"
        by (rule prod.exhaust)
      show thesis
      proof (cases rule: recorder_intent_cases [OF inv rec])
        case (1 err)
        then show thesis using run refused Some Inr rec by (auto simp: push_recorded_def Let_def pre_def)
      next
        case (2 i e)
        have target: "gi_target_id i = ''origin:refs/heads/'' @ branch" using 2(7,8) by (simp add: gi_target_id_def)
        have now: "durably rs1 (rw_identity (wr_wal (fst rs))) (recorded_events rs @ [e])"
          using recorder_inv_durable [OF 2(2)] unfolding 2(3,4) .
        show thesis
        proof (cases "push_outcome_at a (ra_moved a current \<noteq> current)")
          case (PushRaised err applied)
          then have "rs' = rs1" "n \<le> 1" "\<exists>err. res = Inl err"
            using run Some Inr rec 2(1) by (auto simp: push_recorded_def Let_def pre_def)
          then show thesis using pushed [OF 2(5) _ target] expected 2(3,9) now by auto
        next
          case outcome: PushAccepted
          have "confirm_push tip a i new (ra_between a new) 1 rs1 = (res, remote', n, rs')"
            using run Some Inr rec 2(1) outcome by (auto simp: push_recorded_def Let_def pre_def)
          from confirm_push_result [OF 2(2,6) tips this] show thesis
            using pushed [OF 2(5) _ target] expected 2(3,4,9) by simp blast
        next
          case outcome: PushLost
          have "confirm_push tip a i new (ra_between a new) 1 rs1 = (res, remote', n, rs')"
            using run Some Inr rec 2(1) outcome by (auto simp: push_recorded_def Let_def pre_def)
          from confirm_push_result [OF 2(2,6) tips this] show thesis
            using pushed [OF 2(5) _ target] expected 2(3,4,9) by simp blast
        next
          case outcome: PushRejected
          have "confirm_push tip a i new (ra_between a (ra_moved a current)) 0 rs1 = (res, remote', n, rs')"
            using run Some Inr rec 2(1) outcome by (auto simp: push_recorded_def Let_def pre_def)
          from confirm_push_result [OF 2(2,6) tips this] show thesis
            using pushed [OF 2(5) _ target] expected 2(3,4,9) by simp blast
        qed
      qed
    qed
  qed
qed

section \<open>A recorder in use\<close>

definition sample_recorder :: recorder_state where
  "sample_recorder =
     (\<lparr>wr_wal = \<lparr>rw_identity = sample_identity, rw_max_bytes = 65536, rw_events = [sample_claim]\<rparr>,
       wr_prefix = ''git-push'', wr_next = 1\<rparr>,
      Some (wal_text sample_identity [sample_claim]))"

lemma sample_log_length: "length (wal_text sample_identity [sample_claim]) \<le> 3000"
proof -
  have "length (line_of (header_record sample_identity)) \<le> 1000" by code_simp
  then show ?thesis using sample_record_length wal_text_simps(2) [of sample_identity "[]" sample_claim]
    by (simp add: wal_text_simps(1))
qed

lemma sample_recorder_inv: "recorder_inv sample_recorder"
  using sample_log_length sample_admissible
  by (simp add: recorder_inv_def sample_recorder_def wal_inv_def bounded_size_def)

definition sample_tip :: "string \<Rightarrow> string option" where
  "sample_tip s = (if GIT_OBJECT_RE s then Some s else None)"

definition sample_old :: string where "sample_old = replicate 40 (CHR ''a'')"
definition sample_new :: string where "sample_new = replicate 40 (CHR ''b'')"

definition sample_intent :: wal_event where
  "sample_intent = \<lparr>we_sequence = 2, we_kind = PUSH_INTENT, we_recorded_at = ''t'', we_effect_id = Some ''git-push-1'',
     we_target_id = Some ''origin:refs/heads/main'', we_expected_object = Some sample_new, we_observed_object = None,
     we_artifact_digest = None, we_precondition_object = Some sample_old\<rparr>"

lemma sample_intent_length: "length (line_of (event_record sample_identity sample_intent)) \<le> 6000"
proof -
  let ?d = "sha256_hex (canonical_json (unsigned_record sample_identity (event_wire sample_intent)))"
  have "length (json_str ?d) \<le> 386" using json_str_length [of ?d] by simp
  moreover have "sum_list (map (\<lambda>(k, v). 6 * length k + 4 + length (json_value v))
      (unsigned_record sample_identity (event_wire sample_intent))) \<le> 5000"
    by code_simp
  ultimately show ?thesis
    using canonical_json_length [of "event_record sample_identity sample_intent"]
    by (simp add: line_of_def event_record_def)
qed

lemma sample_intent_recorded:
  "\<exists>i rs'. recorder_push_intent None ''t'' ''origin'' ''refs/heads/main'' sample_new sample_old sample_recorder = (Inr i, rs')"
proof -
  let ?w = "\<lparr>rw_identity = sample_identity, rw_max_bytes = 65536, rw_events = [sample_claim]\<rparr>"
  have n: "fresh_effect ''git-push'' [] 1 = 1" by (subst fresh_effect.simps) simp
  have i: "GitPushIntent sample_identity (PyStr ''git-push-1'') (PyStr ''origin'') (PyStr ''refs/heads/main'')
      (PyStr sample_new) (PyStr sample_old) = Inr \<lparr>gi_identity = sample_identity, gi_effect_id = ''git-push-1'',
        gi_remote = ''origin'', gi_target_ref = ''refs/heads/main'', gi_expected_object = sample_new,
        gi_precondition_object = sample_old\<rparr>"
    by code_simp
  have event: "RecoveryWalEvent (PyInt 2) (PyStr (kind_text PUSH_INTENT)) (PyStr ''t'') (PyStr ''git-push-1'')
      (PyStr ''origin:refs/heads/main'') (PyStr sample_new) PyNone PyNone (PyStr sample_old) = Inr sample_intent"
    and guards: "first_raise (append_checks ?w sample_intent) = None"
    and fields: "validate_git_push_fields ''git-push-1'' ''origin'' ''refs/heads/main'' sample_new sample_old = None"
    and name: "effect_name ''git-push'' 1 = ''git-push-1''" and none: "we_effect_id sample_claim = None"
    by code_simp+
  have "append_event None sample_intent (?w, Some (wal_text sample_identity [sample_claim])) =
      (Inr sample_intent, ?w\<lparr>rw_events := [sample_claim, sample_intent]\<rparr>, Some (wal_text sample_identity [sample_claim, sample_intent]))"
    using guards sample_log_length sample_intent_length wal_text_simps(2) [of sample_identity "[sample_claim]" sample_intent]
    by (simp add: append_event_def append_record_def)
  then show ?thesis
    using i event fields
    by (auto simp: recorder_push_intent_def sample_recorder_def none n [simplified] name [simplified] record_push_intent_def wal_append_def truthy_def)
qed

lemma confirm_push_count: "fst (snd (snd (confirm_push tip a i new later n rs))) = n"
  by (simp add: confirm_push_def split: sum.split prod.split)

section \<open>Properties\<close>

text \<open>
  C19: the log is written ahead of the push.  However the remote, the reads, the push and the writes
  to the log behave, a recorded publication pushes at most once; if its payload reached the remote,
  it was built from the expected state, and the file of the log already holds the complete record of
  an intent that names the branch and exactly the pushed commit; and it reports success, or logs a
  confirmation, only when the remote ref was observed at that commit.
\<close>

theorem push_effect_write_ahead:
  assumes inv: "recorder_inv rs" and tips: "\<forall>s x. tip s = Some x \<longrightarrow> GIT_OBJECT_RE x"
    and run: "publish_recorded tip branch expected already build a remote rs = (res, remote', n, rs')"
  shows "n \<le> 1
    \<and> (n = 1 \<longrightarrow> (\<exists>new i e more. already (ca_others a remote) = Inr False \<and> expected (ca_others a remote) = Inr True
          \<and> build (ca_others a remote) = Inr new \<and> recorded_events rs' = recorded_events rs @ e # more
          \<and> intent_event i e \<and> tip new = Some (gi_expected_object i) \<and> gi_target_id i = ''origin:refs/heads/'' @ branch
          \<and> durably rs' (rw_identity (wr_wal (fst rs))) (recorded_events rs @ [e])))
    \<and> (\<forall>new. res = Inr (Published new) \<longrightarrow> (\<exists>i e c. recorded_events rs' = recorded_events rs @ [e, c]
          \<and> intent_event i e \<and> confirmation_event i c \<and> tip new = Some (gi_expected_object i) \<and> tip remote' = tip new))
    \<and> (recorded_events rs' = recorded_events rs \<or> (\<exists>i e. recorded_events rs' = recorded_events rs @ [e] \<and> intent_event i e)
       \<or> (\<exists>new. res = Inr (Published new)))"
proof (cases "n = 0 \<and> recorded_events rs' = recorded_events rs \<and> (\<forall>new. res \<noteq> Inr (Published new))")
  case False
  then obtain new where new: "already (ca_others a remote) = Inr False" "expected (ca_others a remote) = Inr True"
      "build (ca_others a remote) = Inr new"
    and push: "push_recorded tip branch a (ca_others a remote) new rs = (res, remote', n, rs')"
    using run by (auto simp: publish_recorded_def Let_def split: option.splits sum.splits bool.splits if_splits)
  show ?thesis
  proof (cases rule: push_recorded_result [OF inv tips push])
    case (1 err)
    then show ?thesis using False by auto
  next
    case (2 i e)
    then show ?thesis using new by auto
  qed
qed auto

theorem push_effect_write_ahead_witness:
  "\<exists>res remote' rs' e more.
     publish_recorded sample_tip ''main'' (\<lambda>s. Inr (s = sample_old)) (\<lambda>s. Inr (s = sample_new)) (\<lambda>_. Inr sample_new)
       \<lparr>ca_others = id, ca_sync = None, ca_commit = None, ca_push = PushLost, ca_fetch = None, ra_head_fails = False,
        ra_moved = id, ra_ls_before = None, ra_stop = None, ra_now = ''t'', ra_between = id, ra_ls_after = None, ra_stop_after = Some 7,
        ra_now_after = ''u'', ra_discard = None\<rparr> sample_old sample_recorder = (res, remote', 1, rs')
     \<and> recorded_events rs' = sample_claim # e # more \<and> we_kind e = PUSH_INTENT
     \<and> durably rs' sample_identity [sample_claim, e]"
proof -
  let ?a = "\<lparr>ca_others = id :: string \<Rightarrow> string, ca_sync = None, ca_commit = None, ca_push = PushLost, ca_fetch = None,
    ra_head_fails = False, ra_moved = id, ra_ls_before = None, ra_stop = None, ra_now = ''t'', ra_between = id, ra_ls_after = None,
    ra_stop_after = Some 7, ra_now_after = ''u'', ra_discard = None\<rparr>"
  let ?e = "\<lambda>s. Inr (s = sample_old)" and ?al = "\<lambda>s. Inr (s = sample_new)" and ?b = "\<lambda>_. Inr sample_new"
  have tips: "sample_tip sample_old = Some sample_old" "sample_tip sample_new = Some sample_new" "sample_old \<noteq> sample_new"
    and names: "GIT_REMOTE_RE ''origin''" "safe_ref (PyStr ''refs/heads/main'') = Inr ''refs/heads/main''"
    "GIT_OBJECT_RE sample_old"
    by code_simp+
  have look: "observe None (Some sample_old) ''origin'' ''refs/heads/main'' = Inr (Some sample_old)"
    by (rule ls_remote_reads) (use names in auto)
  obtain i rs1 where i: "recorder_push_intent None ''t'' ''origin'' ''refs/heads/main'' sample_new sample_old sample_recorder = (Inr i, rs1)"
    using sample_intent_recorded by blast
  obtain res remote' n rs' where run: "publish_recorded sample_tip ''main'' ?e ?al ?b ?a sample_old sample_recorder
      = (res, remote', n, rs')"
    by (metis prod_cases4)
  then have "confirm_push sample_tip ?a i sample_new sample_new 1 rs1 = (res, remote', n, rs')"
    using i look tips by (simp add: publish_recorded_def push_recorded_def push_outcome_at_def)
  then have "n = 1" using confirm_push_count [of sample_tip ?a i sample_new sample_new 1 rs1] by simp
  moreover have "recorded_events sample_recorder = [sample_claim]" "rw_identity (wr_wal (fst sample_recorder)) = sample_identity"
    by (simp_all add: recorded_events_def sample_recorder_def)
  moreover have "\<forall>s x. sample_tip s = Some x \<longrightarrow> GIT_OBJECT_RE x" by (simp add: sample_tip_def)
  note push_effect_write_ahead [OF sample_recorder_inv this run]
  ultimately obtain j e more where "recorded_events rs' = [sample_claim] @ e # more" "intent_event j e"
    "durably rs' sample_identity ([sample_claim] @ [e])"
    by metis
  then show ?thesis using run \<open>n = 1\<close> by (auto simp: intent_event_def)
qed

text \<open>
  The classification of a push is exact.  Reconciling a constructed intent never raises, whatever
  the observation does; it is \<open>EXACT_APPLIED\<close> exactly when the ref was read at the intended commit,
  \<open>UNKNOWN\<close> exactly when nothing exact was read, and \<open>EXACT_NOT_APPLIED\<close> exactly when the ref was
  read, elsewhere than at the intended commit, as it was before the push.
\<close>

theorem push_reconciliation_exact:
  assumes "GitPushIntent ident (PyStr e) (PyStr remote) (PyStr ref) (PyStr x) (PyStr p) = Inr i"
  shows "\<exists>r. reconcile_push_intent reader i = Inr r \<and> pr_effect_id r = e \<and> pr_target_id r = remote @ '':'' @ ref
    \<and> (pr_state r = EXACT_APPLIED \<longleftrightarrow> reader remote ref = Inr (PyStr x))
    \<and> (pr_state r = RESOLUTION_UNKNOWN \<longleftrightarrow> (\<forall>v. reader remote ref = Inr v \<longrightarrow> v \<noteq> PyNone \<and> \<not> (\<exists>y. v = PyStr y \<and> GIT_OBJECT_RE y)))
    \<and> (pr_state r = EXACT_NOT_APPLIED \<longleftrightarrow>
         reader remote ref = Inr (PyStr p) \<and> p \<noteq> x \<or> reader remote ref = Inr PyNone \<and> set p = {CHR ''0''})"
proof -
  have i: "wf_intent i" "gi_effect_id i = e" "gi_remote i = remote" "gi_target_ref i = ref" "gi_expected_object i = x"
    "gi_precondition_object i = p" "GIT_OBJECT_RE x" "GIT_OBJECT_RE p"
    using GitPushIntent_Inr [OF assms] by (auto simp: wf_intent_def)
  obtain r where r: "reconcile_push_intent reader i = Inr r" "pr_effect_id r = e" "pr_target_id r = remote @ '':'' @ ref"
    "pr_state r = push_state i (observed_ref (reader remote ref))"
    using reconcile_observed [OF i(1), of reader] by (auto simp: i gi_target_id_def)
  show ?thesis
  proof (cases "reader remote ref")
    case (Inr v)
    then show ?thesis
      using r i by (cases v) (auto simp: push_state_def observed_ref_def)
  qed (use r in \<open>simp add: push_state_def observed_ref_def\<close>)
qed

theorem push_reconciliation_exact_witness:
  "\<exists>i r. GitPushIntent sample_identity (PyStr ''git-push-1'') (PyStr ''origin'') (PyStr ''refs/heads/main'')
       (PyStr sample_new) (PyStr sample_old) = Inr i
     \<and> reconcile_push_intent (\<lambda>_ _. Inr (PyStr sample_old)) i = Inr r \<and> pr_state r = EXACT_NOT_APPLIED"
proof -
  let ?i = "\<lparr>gi_identity = sample_identity, gi_effect_id = ''git-push-1'', gi_remote = ''origin'',
    gi_target_ref = ''refs/heads/main'', gi_expected_object = sample_new, gi_precondition_object = sample_old\<rparr>"
  have made: "GitPushIntent sample_identity (PyStr ''git-push-1'') (PyStr ''origin'') (PyStr ''refs/heads/main'')
       (PyStr sample_new) (PyStr sample_old) = Inr ?i" and differ: "sample_old \<noteq> sample_new"
    by code_simp+
  then show ?thesis using push_reconciliation_exact [OF made, of "\<lambda>_ _. Inr (PyStr sample_old)"] by auto
qed

end
