(* ===== verification/Text_File.thy ===== *)
theory Text_File
  imports Json_File
begin

text \<open>
  Files opened in text mode.  Reading decodes UTF-8 and translates every line end to a newline;
  writing translates every newline to the line end of the platform, which is an argument.
\<close>

section \<open>Line ends\<close>

fun universal_newlines :: "string \<Rightarrow> string" where
  "universal_newlines [] = []"
| "universal_newlines (c # s) =
     (if c = CHR 0x0D then CHR 0x0A # (case s of d # s' \<Rightarrow> universal_newlines (if d = CHR 0x0A then s' else s) | [] \<Rightarrow> [])
      else c # universal_newlines s)"

definition platform_newlines :: "string \<Rightarrow> string \<Rightarrow> string" where
  "platform_newlines linesep s = concat (map (\<lambda>c. if c = CHR 0x0A then linesep else [c]) s)"

definition is_linesep :: "string \<Rightarrow> bool" where
  "is_linesep s \<longleftrightarrow> s = [CHR 0x0A] \<or> s = [CHR 0x0D, CHR 0x0A]"

lemma universal_newlines_plain: "CHR 0x0D \<notin> set s \<Longrightarrow> universal_newlines s = s"
  by (induction s) auto

lemma universal_newlines_no_return: "CHR 0x0D \<notin> set (universal_newlines s)"
  by (induction s rule: universal_newlines.induct) (auto split: list.split)

lemma universal_platform_newlines:
  "is_linesep linesep \<Longrightarrow> CHR 0x0D \<notin> set s \<Longrightarrow> universal_newlines (platform_newlines linesep s) = s"
  by (induction s) (auto simp: platform_newlines_def is_linesep_def)

section \<open>Text in a file\<close>

definition text_written :: "string \<Rightarrow> string \<Rightarrow> string" where
  "text_written linesep s = utf8_encode (platform_newlines linesep s)"

definition text_read :: "string \<Rightarrow> pyexc + string" where
  "text_read bytes = (case utf8_decode bytes of
      None \<Rightarrow> Inl (UnicodeError ''invalid utf-8'')
    | Some s \<Rightarrow> Inr (universal_newlines s))"

lemma text_read_written:
  "is_linesep linesep \<Longrightarrow> CHR 0x0D \<notin> set s \<Longrightarrow> text_read (text_written linesep s) = Inr s"
  by (simp add: text_read_def text_written_def universal_platform_newlines)

lemma text_read_encoded: "CHR 0x0D \<notin> set s \<Longrightarrow> text_read (utf8_encode s) = Inr s"
  by (simp add: text_read_def universal_newlines_plain)

section \<open>Documents\<close>

text \<open>\<open>json.loads(path.read_text())\<close>: the exceptions of the decoder, and of \<open>int()\<close> on too many digits.\<close>

definition json_file :: "(string \<Rightarrow> py) \<Rightarrow> string \<Rightarrow> pyexc + py" where
  "json_file float_of bytes = res_bind (text_read bytes) (\<lambda>s.
     (case json_loads float_of s of
        Inr v \<Rightarrow> Inr v
      | Inl DecodeError \<Rightarrow> Inl (JSONDecodeError ''Expecting value'')
      | Inl _ \<Rightarrow> Inl (ValueError ''Exceeds the limit (4300 digits) for integer string conversion'')))"

lemma raw_char_no_return: "CHR 0x0D \<notin> set (raw_char c)"
proof -
  have "(of_char c :: nat) < 256" by simp
  then have n: "(of_char c :: nat) div 16 < 16" by linarith
  have digits: "CHR 0x0D \<notin> set ''0123456789abcdef''" by simp
  have "hex_digit k \<noteq> CHR 0x0D" if "k < 16" for k
    using digits that nth_mem [of k "''0123456789abcdef''"] by (auto simp: hex_digit_def)
  then have "hex_digit (of_char c div 16) \<noteq> CHR 0x0D" "hex_digit (of_char c mod 16) \<noteq> CHR 0x0D" using n by simp_all
  then show ?thesis by (auto simp: raw_char_def Let_def)
qed

lemma join_set: "set (join sep xs) \<subseteq> set sep \<union> (\<Union>x \<in> set xs. set x)"
  by (induction sep xs rule: join.induct) auto

lemma raw_str_no_return: "CHR 0x0D \<notin> set (raw_str s)"
  using raw_char_no_return by (auto simp: raw_str_def)

lemma printable_no_return: "printable_ascii s \<Longrightarrow> CHR 0x0D \<notin> set s"
  by (auto simp: printable_ascii_def list_all_iff)

lemma newline_indent_no_return: "CHR 0x0D \<notin> set (newline_indent n)"
  by (auto simp: newline_indent_def)

lemma join_no_return: "CHR 0x0D \<notin> set sep \<Longrightarrow> \<forall>x \<in> set xs. CHR 0x0D \<notin> set x \<Longrightarrow> CHR 0x0D \<notin> set (join sep xs)"
  using join_set [of sep xs] by blast

lemma indent_no_return:
  "json_ok v \<Longrightarrow> CHR 0x0D \<notin> set (json_indent n v)"
  "items_ok xs \<Longrightarrow> \<forall>x \<in> set (indent_items m xs). CHR 0x0D \<notin> set x"
  "pairs_ok d \<Longrightarrow> \<forall>x \<in> set (indent_members m d). CHR 0x0D \<notin> set x"
proof (induction v and xs and d arbitrary: n and m and m rule: json_ok_items_ok_pairs_ok.induct)
  case (3 i)
  then show ?case using printable_no_return [of "show_int i"] by simp
next
  case (6 xs)
  then have "CHR 0x0D \<notin> set (join (CHR '','' # newline_indent (n + 2)) (indent_items (n + 2) xs))"
    using newline_indent_no_return by (intro join_no_return) simp_all
  then show ?case using newline_indent_no_return by simp
next
  case (7 d)
  then have "CHR 0x0D \<notin> set (join (CHR '','' # newline_indent (n + 2)) (indent_members (n + 2) d))"
    using newline_indent_no_return by (intro join_no_return) simp_all
  then show ?case using newline_indent_no_return by simp
qed (simp_all add: raw_str_no_return)

lemma document_no_return: "json_ok v \<Longrightarrow> CHR 0x0D \<notin> set (json_document v)"
  by (simp add: json_document_def indent_no_return)

text \<open>A document is read back whether it was written with translation or without.\<close>

lemma json_file_written:
  assumes "json_ok v" "is_linesep linesep"
  shows "json_file F (text_written linesep (json_document v)) = Inr v"
    and "json_file F (utf8_encode (json_document v)) = Inr v"
  using assms document_no_return [OF assms(1)] json_loads_document [OF assms(1), of dict_of]
  by (simp_all add: json_file_def text_read_written text_read_encoded json_loads_def)

end
