(* ===== verification/Pending_Report.thy ===== *)
theory Pending_Report
  imports Identity_Patterns Redaction Text_File Canonical_Json
begin

text \<open>
  \<open>worker/pending_report.py\<close>, first part: the sidecar of a report that could not be published, its
  validation, the evidence it gives when it is loaded, and the files that keep it.

  A path is the list of its components.  \<open>Path.resolve\<close> is an argument, since symbolic links are part
  of the file system.  Files are looked up by the path the code gives: a path is absent, or present
  with the bytes it holds or with the exception that reading it raises.
\<close>

section \<open>Vocabulary\<close>

definition PENDING_JOURNAL_STATUSES :: "string list" where
  "PENDING_JOURNAL_STATUSES = [''pending'', ''reconciled'', ''superseded'', ''conflict'']"

definition OUTCOMES :: "string list" where
  "OUTCOMES = [''SUCCESS'', ''FAILED'', ''BLOCKED'']"

definition TARGET_STATUSES :: "string list" where
  "TARGET_STATUSES = [''REPORT_READY'', ''FINAL_REPORT_READY'', ''RECOVERY_REQUIRED'']"

definition META_FIELDS :: "string list" where
  "META_FIELDS = [''schema_version'', ''project_id'', ''command_id'', ''run_id'', ''claim_generation'', ''source'',
     ''kind'', ''previous_status'', ''outcome'', ''target_status'', ''report_path'', ''pending_report_path'',
     ''report_sha256'', ''created_at'', ''last_execution_error'', ''remote_publish_pending'', ''journal_status'',
     ''reconciled_at'', ''reconciliation_reason'', ''evidence_mode'']"

definition REQUIRED_FIELDS :: "string list" where
  "REQUIRED_FIELDS = filter (\<lambda>k. k \<notin> set [''reconciled_at'', ''reconciliation_reason'', ''evidence_mode'']) META_FIELDS"

section \<open>Fields\<close>

definition safe_project_id :: "py \<Rightarrow> pyexc + string" where
  "safe_project_id v =
     (if is_str v \<and> PROJECT_ID_RE (the_str v) then Inr (the_str v)
      else Inl (PendingReportError ''pending report project_id is invalid''))"

definition positive_int :: "py \<Rightarrow> string \<Rightarrow> pyexc + int" where
  "positive_int v label =
     (if is_int v \<and> 1 \<le> the_int v then Inr (the_int v)
      else Inl (PendingReportError (''pending report '' @ label @ '' is invalid'')))"

definition nonnegative_int :: "py \<Rightarrow> string \<Rightarrow> pyexc + int" where
  "nonnegative_int v label =
     (if is_int v \<and> 0 \<le> the_int v then Inr (the_int v)
      else Inl (PendingReportError (''pending report '' @ label @ '' is invalid'')))"

definition safe_timestamp :: "py \<Rightarrow> string \<Rightarrow> bool \<Rightarrow> pyexc + py" where
  "safe_timestamp v label nullable =
     (if v = PyNone \<and> nullable then Inr PyNone
      else if is_str v \<and> TIMESTAMP_RE (the_str v) then Inr v
      else Inl (PendingReportError (''pending report '' @ label @ '' is invalid'')))"

text \<open>The relative paths, for a valid project and a valid command.\<close>

definition report_name :: "string \<Rightarrow> int \<Rightarrow> string" where
  "report_name project command = ''projects/'' @ project @ ''/reports/report-'' @ show_int_03 command @ ''.md''"

definition pending_name :: "string \<Rightarrow> int \<Rightarrow> string" where
  "pending_name project command = ''worker/runtime/'' @ project @ ''/pending-report-'' @ show_int_03 command @ ''.md''"

definition canonical_report_relative_path :: "py \<Rightarrow> py \<Rightarrow> pyexc + string" where
  "canonical_report_relative_path project_id command_id =
     res_bind (safe_project_id project_id) (\<lambda>project.
     res_bind (positive_int command_id ''command_id'') (\<lambda>command. Inr (report_name project command)))"

definition canonical_pending_relative_path :: "py \<Rightarrow> py \<Rightarrow> pyexc + string" where
  "canonical_pending_relative_path project_id command_id =
     res_bind (safe_project_id project_id) (\<lambda>project.
     res_bind (positive_int command_id ''command_id'') (\<lambda>command. Inr (pending_name project command)))"

definition sidecar_name :: "int \<Rightarrow> string" where
  "sidecar_name command = ''pending-report-'' @ show_int_03 command @ ''.meta.json''"

definition canonical_metadata_path :: "string list \<Rightarrow> py \<Rightarrow> py \<Rightarrow> pyexc + string list" where
  "canonical_metadata_path bridge_root project_id command_id =
     res_bind (safe_project_id project_id) (\<lambda>project.
     res_bind (positive_int command_id ''command_id'') (\<lambda>command.
       Inr (bridge_root @ [''worker'', ''runtime'', project, sidecar_name command])))"

definition canonical_wal_path :: "string list \<Rightarrow> py \<Rightarrow> py \<Rightarrow> pyexc + string list" where
  "canonical_wal_path bridge_root project_id run_id =
     res_bind (safe_project_id project_id) (\<lambda>project.
       if is_str run_id \<and> RUN_ID_RE (the_str run_id)
       then Inr (bridge_root @ [''worker'', ''runtime'', project, ''runs'', the_str run_id, ''recovery.wal''])
       else Inl (PendingReportError ''pending report run_id is invalid''))"

section \<open>Metadata\<close>

definition metadata_checks :: "pydict \<Rightarrow> string option \<Rightarrow> int option \<Rightarrow> pyexc option list" where
  "metadata_checks d expected_project expected_command =
     (let bad = PendingReportError; get = dget d;
          missing = sorted_difference REQUIRED_FIELDS (dkeys d);
          unknown = sorted_difference (dkeys d) META_FIELDS;
          project = the_str (get ''project_id''); command = the_int (get ''command_id'') in
     [ensure (missing = []) (bad (''pending report metadata missing: '' @ join '', '' missing)),
      ensure (unknown = []) (bad (''pending report metadata contains unsupported fields: '' @ join '', '' unknown)),
      ensure (py_eq (get ''schema_version'') (PyInt 1)) (bad ''unsupported pending report metadata schema_version''),
      exc_of (safe_project_id (get ''project_id'')),
      exc_of (positive_int (get ''command_id'') ''command_id''),
      ensure (expected_project \<in> {None, Some project}) (bad ''pending report project identity does not match its path''),
      ensure (expected_command \<in> {None, Some command}) (bad ''pending report command identity does not match its path''),
      ensure (is_str (get ''run_id'') \<and> RUN_ID_RE (the_str (get ''run_id''))) (bad ''pending report run_id is invalid''),
      exc_of (nonnegative_int (get ''claim_generation'') ''claim_generation''),
      ensure (in_strs (get ''source'') COMMAND_SOURCES) (bad ''pending report source is invalid''),
      ensure (in_strs (get ''kind'') COMMAND_KINDS) (bad ''pending report kind is invalid''),
      ensure (in_strs (get ''previous_status'') ALLOWED_STATES) (bad ''pending report previous_status is invalid''),
      ensure (in_strs (get ''outcome'') OUTCOMES) (bad ''pending report outcome is invalid''),
      ensure (in_strs (get ''target_status'') TARGET_STATUSES) (bad ''pending report target_status is invalid''),
      ensure (get ''target_status'' = PyStr ''FINAL_REPORT_READY'' \<longrightarrow>
          get ''kind'' = PyStr ''FINALIZE'' \<and> get ''outcome'' = PyStr ''SUCCESS'' \<and> get ''previous_status'' = PyStr ''FINALIZING'')
        (bad ''FINAL_REPORT_READY target does not match finalization identity''),
      ensure (get ''report_path'' = PyStr (report_name project command)) (bad ''pending report target path is not canonical''),
      ensure (get ''pending_report_path'' = PyStr (pending_name project command))
        (bad ''pending report evidence path is not canonical''),
      ensure (is_str (get ''report_sha256'') \<and> SHA256_RE (the_str (get ''report_sha256''))) (bad ''pending report SHA-256 is invalid''),
      exc_of (safe_timestamp (get ''created_at'') ''created_at'' False),
      exc_of (safe_timestamp (get ''reconciled_at'') ''reconciled_at'' True),
      exc_of (safe_execution_error (get ''last_execution_error'')),
      ensure (is_bool (get ''remote_publish_pending'')) (bad ''remote_publish_pending must be boolean''),
      check_hashable (get ''journal_status''),
      ensure (in_strs (get ''journal_status'') PENDING_JOURNAL_STATUSES) (bad ''pending report journal_status is invalid''),
      ensure (get ''journal_status'' = PyStr ''pending'' \<longrightarrow> get ''remote_publish_pending'' = PyBool True)
        (bad ''pending journal must retain remote_publish_pending''),
      ensure (get ''journal_status'' \<noteq> PyStr ''pending'' \<longrightarrow> get ''remote_publish_pending'' = PyBool False)
        (bad ''reconciled/conflict journal cannot remain publish-pending''),
      exc_of (safe_execution_error (get ''reconciliation_reason'')),
      ensure (in_strs (dget_or d ''evidence_mode'' (PyStr ''legacy'')) [''legacy'', ''typed''])
        (bad ''pending report evidence_mode is invalid'')])"

text \<open>An optional text as a JSON value.\<close>

definition optional_text :: "pyexc + string option \<Rightarrow> py" where
  "optional_text r = (case r of Inr (Some t) \<Rightarrow> PyStr t | _ \<Rightarrow> PyNone)"

definition metadata_of :: "pydict \<Rightarrow> pydict" where
  "metadata_of d = (let get = dget d in
     [(''schema_version'', PyInt 1), (''project_id'', get ''project_id''), (''command_id'', get ''command_id''),
      (''run_id'', get ''run_id''), (''claim_generation'', get ''claim_generation''), (''source'', get ''source''),
      (''kind'', get ''kind''), (''previous_status'', get ''previous_status''), (''outcome'', get ''outcome''),
      (''target_status'', get ''target_status''), (''report_path'', get ''report_path''),
      (''pending_report_path'', get ''pending_report_path''), (''report_sha256'', get ''report_sha256''),
      (''created_at'', get ''created_at''),
      (''last_execution_error'', optional_text (safe_execution_error (get ''last_execution_error''))),
      (''remote_publish_pending'', get ''remote_publish_pending''), (''journal_status'', get ''journal_status''),
      (''reconciled_at'', get ''reconciled_at''),
      (''reconciliation_reason'', optional_text (safe_execution_error (get ''reconciliation_reason''))),
      (''evidence_mode'', dget_or d ''evidence_mode'' (PyStr ''legacy''))])"

definition validate_metadata :: "py \<Rightarrow> string option \<Rightarrow> int option \<Rightarrow> pyexc + pydict" where
  "validate_metadata v expected_project expected_command =
     (if \<not> is_dict v then Inl (PendingReportError ''pending report metadata must be an object'')
      else run_checks (metadata_checks (the_dict v) expected_project expected_command) (Inr (metadata_of (the_dict v))))"

section \<open>Files\<close>

type_synonym files = "string list \<Rightarrow> (pyexc + string) option"

definition read_text :: "files \<Rightarrow> string list \<Rightarrow> pyexc + string" where
  "read_text files path =
     res_bind (case files path of None \<Rightarrow> Inl (OSError ''No such file or directory'') | Some r \<Rightarrow> r) text_read"

definition read_json :: "(string \<Rightarrow> py) \<Rightarrow> files \<Rightarrow> string list \<Rightarrow> pyexc + py" where
  "read_json float_of files path =
     res_bind (case files path of None \<Rightarrow> Inl (OSError ''No such file or directory'') | Some r \<Rightarrow> r) (json_file float_of)"

text \<open>\<open>write_text_atomic\<close>: the file is replaced, or an exception is raised before that.\<close>

definition write_text_atomic :: "string \<Rightarrow> pyexc option \<Rightarrow> string list \<Rightarrow> string \<Rightarrow> files \<Rightarrow> pyexc option \<times> files" where
  "write_text_atomic linesep fails path s files =
     (case fails of Some e \<Rightarrow> (Some e, files) | None \<Rightarrow> (None, files(path \<mapsto> Inr (text_written linesep s))))"

fun split_slash :: "string \<Rightarrow> string list" where
  "split_slash [] = [[]]"
| "split_slash (c # s) =
     (if c = CHR ''/'' then [] # split_slash s
      else (case split_slash s of [] \<Rightarrow> [[c]] | w # ws \<Rightarrow> (c # w) # ws))"

definition path_parts :: "string \<Rightarrow> string list" where
  "path_parts s = filter (\<lambda>w. w \<noteq> [] \<and> w \<noteq> ''.'') (split_slash s)"

definition is_within :: "string list \<Rightarrow> string list \<Rightarrow> bool" where
  "is_within path base \<longleftrightarrow> take (length base) path = base"

definition path_stem :: "string \<Rightarrow> string" where
  "path_stem name = (case dropWhile (\<lambda>c. c \<noteq> CHR ''.'') (rev name) of
      [] \<Rightarrow> name
    | _ # r \<Rightarrow> if r = [] \<or> last name = CHR ''.'' then name else rev r)"

section \<open>Evidence\<close>

record pending_evidence =
  pe_bridge_root :: "string list"
  pe_metadata_path :: "string list"
  pe_report_path :: "string list"
  pe_pending_report_path :: "string list"
  pe_state_path :: "string list"
  pe_metadata :: pydict
  pe_report_text :: string

definition runtime_root :: "(string list \<Rightarrow> string list) \<Rightarrow> string list \<Rightarrow> string list" where
  "runtime_root resolve bridge_root = resolve (bridge_root @ [''worker'', ''runtime''])"

definition safe_runtime_path :: "(string list \<Rightarrow> string list) \<Rightarrow> string list \<Rightarrow> string \<Rightarrow> pyexc + string list" where
  "safe_runtime_path resolve bridge_root relative =
     (let path = resolve (bridge_root @ path_parts relative) in
      if is_within path (runtime_root resolve bridge_root) then Inr path
      else Inl (PendingReportError ''pending report path escapes worker runtime''))"

definition safe_canonical_path :: "(string list \<Rightarrow> string list) \<Rightarrow> string list \<Rightarrow> string \<Rightarrow> pyexc + string list" where
  "safe_canonical_path resolve bridge_root relative =
     (let path = resolve (bridge_root @ path_parts relative) in
      if is_within path (resolve bridge_root) then Inr path
      else Inl (PendingReportError ''pending report canonical path escapes bridge root''))"

text \<open>The digits of \<open>pending-report-(\d+)\.meta\.json\<close>.\<close>

definition sidecar_digits :: "string \<Rightarrow> string option" where
  "sidecar_digits name =
     (case strip_prefix ''pending-report-'' name of
        None \<Rightarrow> None
      | Some r \<Rightarrow>
          if \<not> has_suffix ''.meta.json'' r then None
          else (let digits = take (length r - 10) r in
            if digits \<noteq> [] \<and> list_all is_digit digits then Some digits else None))"

text \<open>\<open>except (OSError, json.JSONDecodeError)\<close> and \<open>except OSError\<close>.\<close>

definition is_unreadable :: "pyexc \<Rightarrow> bool" where
  "is_unreadable e \<longleftrightarrow> is_os_error e \<or> (case e of JSONDecodeError _ \<Rightarrow> True | _ \<Rightarrow> False)"

definition raise_as :: "(pyexc \<Rightarrow> bool) \<Rightarrow> pyexc \<Rightarrow> pyexc + 'a \<Rightarrow> pyexc + 'a" where
  "raise_as caught err r = (case r of Inl e \<Rightarrow> Inl (if caught e then err else e) | Inr x \<Rightarrow> Inr x)"

lemma raise_as_Inr [simp]: "raise_as p e r = Inr x \<longleftrightarrow> r = Inr x" "raise_as p e (Inr x) = Inr x"
  by (cases r) (simp_all add: raise_as_def)

definition load_evidence ::
    "(string \<Rightarrow> py) \<Rightarrow> (string list \<Rightarrow> string list) \<Rightarrow> string list \<Rightarrow> string list \<Rightarrow> files \<Rightarrow> pyexc + pending_evidence" where
  "load_evidence float_of resolve bridge_root0 metadata_path0 files =
     (let bridge_root = resolve bridge_root0;
          metadata_path = resolve metadata_path0;
          expected_project = last (butlast metadata_path) in
      if \<not> (metadata_path \<noteq> [] \<and> is_within metadata_path (runtime_root resolve bridge_root)
             \<and> has_suffix ''.meta.json'' (last metadata_path))
      then Inl (PendingReportError ''pending metadata path is outside the allowed runtime directory'')
      else (case sidecar_digits (last metadata_path) of
        None \<Rightarrow> Inl (PendingReportError ''pending metadata filename is invalid'')
      | Some digits \<Rightarrow>
     res_bind (case parse_int digits of None \<Rightarrow> Inl (ValueError ''Exceeds the limit (4300 digits)'') | Some c \<Rightarrow> Inr c) (\<lambda>command.
     res_bind (raise_as is_unreadable (PendingReportError ''pending metadata cannot be read'')
       (read_json float_of files metadata_path)) (\<lambda>raw.
     res_bind (validate_metadata raw (Some expected_project) (Some command)) (\<lambda>metadata.
     res_bind (canonical_metadata_path bridge_root (PyStr expected_project) (PyInt command)) (\<lambda>canonical.
       if metadata_path \<noteq> resolve canonical then Inl (PendingReportError ''pending metadata path is not canonical'')
       else
     res_bind (safe_canonical_path resolve bridge_root (the_str (dget metadata ''report_path''))) (\<lambda>report_path.
     res_bind (safe_runtime_path resolve bridge_root (the_str (dget metadata ''pending_report_path''))) (\<lambda>pending_path.
     let state_path = bridge_root @ [''projects'', expected_project, ''state.json''] in
       if \<not> is_within (resolve state_path) (resolve bridge_root)
       then Inl (PendingReportError ''pending state path escapes bridge root'')
       else
     res_bind (raise_as is_os_error (PendingReportError ''pending report file is missing or unreadable'')
       (read_text files pending_path)) (\<lambda>report_text.
       if PyStr (sha256_hex (utf8_encode report_text)) \<noteq> dget metadata ''report_sha256''
       then Inl (PendingReportError ''pending report SHA-256 does not match metadata'')
       else Inr \<lparr>pe_bridge_root = bridge_root, pe_metadata_path = metadata_path, pe_report_path = report_path,
         pe_pending_report_path = pending_path, pe_state_path = state_path, pe_metadata = metadata,
         pe_report_text = report_text\<rparr>)))))))))"

section \<open>Saving\<close>

record pending_request =
  pq_project_id :: py
  pq_command_id :: py
  pq_run_id :: py
  pq_claim_generation :: py
  pq_source :: py
  pq_kind :: py
  pq_previous_status :: py
  pq_outcome :: py
  pq_target_status :: py
  pq_report_text :: py
  pq_reason :: string
  pq_last_execution_error :: py
  pq_evidence_mode :: py

text \<open>The dictionary of \<open>save_worker_pending_report\<close>, before its validation.\<close>

definition saved_metadata :: "pending_request \<Rightarrow> string \<Rightarrow> string \<Rightarrow> string \<Rightarrow> string option \<Rightarrow> pydict" where
  "saved_metadata q now report_path pending_path error =
     [(''schema_version'', PyInt 1), (''project_id'', pq_project_id q), (''command_id'', pq_command_id q),
      (''run_id'', pq_run_id q), (''claim_generation'', pq_claim_generation q), (''source'', pq_source q),
      (''kind'', pq_kind q), (''previous_status'', pq_previous_status q), (''outcome'', pq_outcome q),
      (''target_status'', pq_target_status q), (''report_path'', PyStr report_path),
      (''pending_report_path'', PyStr pending_path),
      (''report_sha256'', PyStr (sha256_hex (utf8_encode (the_str (pq_report_text q))))),
      (''created_at'', PyStr now), (''last_execution_error'', optional_text (Inr error)),
      (''remote_publish_pending'', PyBool True), (''journal_status'', PyStr ''pending''),
      (''reconciled_at'', PyNone), (''reconciliation_reason'', PyNone), (''evidence_mode'', pq_evidence_mode q)]"

text \<open>The three writes, each with the exception it may raise; the sidecar is the last.\<close>

definition save_worker_pending_report ::
    "string \<Rightarrow> string \<Rightarrow> pyexc option \<times> pyexc option \<times> pyexc option \<Rightarrow> string list \<Rightarrow> pending_request \<Rightarrow> files \<Rightarrow>
       (pyexc + string list) \<times> files"
where
  "save_worker_pending_report linesep now fails bridge_root q files =
     (case (if \<not> is_str (pq_report_text q) then Inl (PendingReportError ''pending report text must be a string'')
        else
          res_bind (canonical_pending_relative_path (pq_project_id q) (pq_command_id q)) (\<lambda>pending.
          res_bind (canonical_metadata_path bridge_root (pq_project_id q) (pq_command_id q)) (\<lambda>metadata_path.
          res_bind (canonical_report_relative_path (pq_project_id q) (pq_command_id q)) (\<lambda>report.
          res_bind (safe_execution_error (pq_last_execution_error q)) (\<lambda>error.
          res_bind (validate_metadata (PyDict (saved_metadata q now report pending error)) None None) (\<lambda>metadata.
            Inr (bridge_root @ path_parts pending, metadata_path, metadata))))))) of
        Inl e \<Rightarrow> (Inl e, files)
      | Inr (pending_path, metadata_path, metadata) \<Rightarrow>
          (case write_text_atomic linesep (fst fails) pending_path (the_str (pq_report_text q)) files of
             (Some e, files1) \<Rightarrow> (Inl e, files1)
           | (None, files1) \<Rightarrow>
          (case write_text_atomic linesep (fst (snd fails)) (butlast pending_path @ [path_stem (last pending_path) @ ''.reason.txt''])
               (rstrip (pq_reason q) @ [CHR 0x0A]) files1 of
             (Some e, files2) \<Rightarrow> (Inl e, files2)
           | (None, files2) \<Rightarrow>
          (case write_text_atomic linesep (snd (snd fails)) metadata_path (json_document (PyDict metadata)) files2 of
             (Some e, files3) \<Rightarrow> (Inl e, files3)
           | (None, files3) \<Rightarrow> (Inr metadata_path, files3)))))"

section \<open>Acknowledging\<close>

definition settled_metadata :: "pydict \<Rightarrow> string \<Rightarrow> string \<Rightarrow> string option \<Rightarrow> pydict" where
  "settled_metadata d now status reason =
     AList.update ''reconciliation_reason'' (optional_text (Inr reason))
       (AList.update ''reconciled_at'' (PyStr now)
         (AList.update ''journal_status'' (PyStr status)
           (AList.update ''remote_publish_pending'' (PyBool False) d)))"

text \<open>What \<open>_write_status\<close> and \<open>_mark_conflict_best_effort\<close> share.\<close>

definition settle ::
    "(string \<Rightarrow> py) \<Rightarrow> string \<Rightarrow> string \<Rightarrow> string \<Rightarrow> string \<Rightarrow> string option \<Rightarrow> pyexc option \<Rightarrow> string list \<Rightarrow> files \<Rightarrow>
       (pyexc + pydict) \<times> files"
where
  "settle float_of linesep now status reason expected_project fails path files =
     (case res_bind (read_json float_of files path) (\<lambda>raw.
        res_bind (validate_metadata raw expected_project None) (\<lambda>d.
        res_bind (safe_execution_error (PyStr reason)) (\<lambda>safe.
          validate_metadata (PyDict (settled_metadata d now status safe)) None None))) of
        Inl e \<Rightarrow> (Inl e, files)
      | Inr d \<Rightarrow>
          (case write_text_atomic linesep fails path (json_document (PyDict d)) files of
             (Some e, files') \<Rightarrow> (Inl e, files')
           | (None, files') \<Rightarrow> (Inr d, files')))"

definition write_status ::
    "(string \<Rightarrow> py) \<Rightarrow> string \<Rightarrow> string \<Rightarrow> pyexc option \<Rightarrow> pending_evidence \<Rightarrow> string \<Rightarrow> string \<Rightarrow> files \<Rightarrow>
       (pyexc + pydict) \<times> files"
where
  "write_status float_of linesep now fails ev status reason files =
     (if status \<notin> set PENDING_JOURNAL_STATUSES \<or> status = ''pending''
      then (Inl (PendingReportError ''invalid pending report status transition''), files)
      else settle float_of linesep now status reason None fails (pe_metadata_path ev) files)"

text \<open>An exception that is not one of the three classes escapes.\<close>

definition mark_conflict_best_effort ::
    "(string \<Rightarrow> py) \<Rightarrow> string \<Rightarrow> string \<Rightarrow> pyexc option \<Rightarrow> string list \<Rightarrow> string \<Rightarrow> files \<Rightarrow> pyexc option \<times> files"
where
  "mark_conflict_best_effort float_of linesep now fails path reason files =
     (case settle float_of linesep now ''conflict'' reason (Some (last (butlast path))) fails path files of
        (Inr _, files') \<Rightarrow> (None, files')
      | (Inl e, files') \<Rightarrow>
          (if is_unreadable e \<or> (case e of PendingReportError _ \<Rightarrow> True | _ \<Rightarrow> False) then None else Some e, files'))"

section \<open>What a validated sidecar is\<close>

definition wf_metadata :: "pydict \<Rightarrow> bool" where
  "wf_metadata d \<longleftrightarrow> map fst d = META_FIELDS \<and> dget d ''schema_version'' = PyInt 1
     \<and> (\<exists>p c. dget d ''project_id'' = PyStr p \<and> PROJECT_ID_RE p \<and> dget d ''command_id'' = PyInt c \<and> 1 \<le> c
          \<and> dget d ''report_path'' = PyStr (report_name p c) \<and> dget d ''pending_report_path'' = PyStr (pending_name p c))
     \<and> (\<exists>r. dget d ''run_id'' = PyStr r \<and> RUN_ID_RE r) \<and> (\<exists>g. dget d ''claim_generation'' = PyInt g \<and> 0 \<le> g)
     \<and> in_strs (dget d ''source'') COMMAND_SOURCES \<and> in_strs (dget d ''kind'') COMMAND_KINDS
     \<and> in_strs (dget d ''previous_status'') ALLOWED_STATES \<and> in_strs (dget d ''outcome'') OUTCOMES
     \<and> in_strs (dget d ''target_status'') TARGET_STATUSES
     \<and> (dget d ''target_status'' = PyStr ''FINAL_REPORT_READY'' \<longrightarrow> dget d ''kind'' = PyStr ''FINALIZE''
          \<and> dget d ''outcome'' = PyStr ''SUCCESS'' \<and> dget d ''previous_status'' = PyStr ''FINALIZING'')
     \<and> (\<exists>h. dget d ''report_sha256'' = PyStr h \<and> SHA256_RE h)
     \<and> (\<exists>t. dget d ''created_at'' = PyStr t \<and> TIMESTAMP_RE t)
     \<and> (dget d ''reconciled_at'' = PyNone \<or> (\<exists>t. dget d ''reconciled_at'' = PyStr t \<and> TIMESTAMP_RE t))
     \<and> (\<forall>k \<in> {''last_execution_error'', ''reconciliation_reason''}. dget d k = PyNone
          \<or> (\<exists>t. dget d k = PyStr (take 1000 (diagnostic t)) \<and> take 1000 (diagnostic t) \<noteq> []))
     \<and> in_strs (dget d ''journal_status'') PENDING_JOURNAL_STATUSES
     \<and> dget d ''remote_publish_pending'' = PyBool (dget d ''journal_status'' = PyStr ''pending'')
     \<and> in_strs (dget d ''evidence_mode'') [''legacy'', ''typed'']"

lemma metadata_of_get [simp]:
  "dget (metadata_of d) ''schema_version'' = PyInt 1"
  "dget (metadata_of d) ''project_id'' = dget d ''project_id''"
  "dget (metadata_of d) ''command_id'' = dget d ''command_id''"
  "dget (metadata_of d) ''run_id'' = dget d ''run_id''"
  "dget (metadata_of d) ''claim_generation'' = dget d ''claim_generation''"
  "dget (metadata_of d) ''source'' = dget d ''source''"
  "dget (metadata_of d) ''kind'' = dget d ''kind''"
  "dget (metadata_of d) ''previous_status'' = dget d ''previous_status''"
  "dget (metadata_of d) ''outcome'' = dget d ''outcome''"
  "dget (metadata_of d) ''target_status'' = dget d ''target_status''"
  "dget (metadata_of d) ''report_path'' = dget d ''report_path''"
  "dget (metadata_of d) ''pending_report_path'' = dget d ''pending_report_path''"
  "dget (metadata_of d) ''report_sha256'' = dget d ''report_sha256''"
  "dget (metadata_of d) ''created_at'' = dget d ''created_at''"
  "dget (metadata_of d) ''remote_publish_pending'' = dget d ''remote_publish_pending''"
  "dget (metadata_of d) ''journal_status'' = dget d ''journal_status''"
  "dget (metadata_of d) ''reconciled_at'' = dget d ''reconciled_at''"
  "dget (metadata_of d) ''last_execution_error'' = optional_text (safe_execution_error (dget d ''last_execution_error''))"
  "dget (metadata_of d) ''reconciliation_reason'' = optional_text (safe_execution_error (dget d ''reconciliation_reason''))"
  "dget (metadata_of d) ''evidence_mode'' = dget_or d ''evidence_mode'' (PyStr ''legacy'')"
  unfolding metadata_of_def Let_def by simp_all

lemma optional_text_error:
  "optional_text (safe_execution_error v) = PyNone
   \<or> (\<exists>t. optional_text (safe_execution_error v) = PyStr (take 1000 (diagnostic t)) \<and> take 1000 (diagnostic t) \<noteq> [])"
  by (cases v) (simp_all add: safe_execution_error_def optional_text_def Let_def del: take_eq_Nil take_eq_Nil2, blast)

lemma validate_metadata_checks:
  "validate_metadata v ep ec = Inr n \<longleftrightarrow>
     (\<exists>d. v = PyDict d \<and> first_raise (metadata_checks d ep ec) = None \<and> n = metadata_of d)"
  by (cases v) (auto simp: validate_metadata_def run_checks_Inr)


lemma safe_field_Inr:
  "safe_project_id v = Inr p \<longleftrightarrow> v = PyStr p \<and> PROJECT_ID_RE p"
  "positive_int v l = Inr c \<longleftrightarrow> v = PyInt c \<and> 1 \<le> c"
  "nonnegative_int v l = Inr c \<longleftrightarrow> v = PyInt c \<and> 0 \<le> c"
  "safe_timestamp v l b = Inr w \<longleftrightarrow> w = v \<and> (v = PyNone \<and> b \<or> (\<exists>t. v = PyStr t \<and> TIMESTAMP_RE t))"
  by (auto simp: safe_project_id_def positive_int_def nonnegative_int_def safe_timestamp_def is_str_iff is_int_iff)

lemma safe_execution_error_Inr: "(\<exists>r. safe_execution_error v = Inr r) \<longleftrightarrow> v = PyNone \<or> is_str v"
  by (auto simp: safe_execution_error_def Let_def)

lemma metadata_of_keys: "map fst (metadata_of d) = META_FIELDS"
  by (simp add: metadata_of_def META_FIELDS_def Let_def)

lemma validated_metadata_wf:
  assumes "validate_metadata v ep ec = Inr n"
  shows "wf_metadata n" "ep \<in> {None, Some (the_str (dget n ''project_id''))}" "ec \<in> {None, Some (the_int (dget n ''command_id''))}"
proof -
  obtain d where d: "first_raise (metadata_checks d ep ec) = None" "n = metadata_of d"
    using assms by (auto simp: validate_metadata_checks)
  let ?get = "dget d"
  have checks: "?get ''project_id'' = PyStr (the_str (?get ''project_id'')) \<and> PROJECT_ID_RE (the_str (?get ''project_id''))"
    "?get ''command_id'' = PyInt (the_int (?get ''command_id'')) \<and> 1 \<le> the_int (?get ''command_id'')"
    "ep \<in> {None, Some (the_str (?get ''project_id''))}" "ec \<in> {None, Some (the_int (?get ''command_id''))}"
    "is_str (?get ''run_id'') \<and> RUN_ID_RE (the_str (?get ''run_id''))"
    "\<exists>g. ?get ''claim_generation'' = PyInt g \<and> 0 \<le> g"
    "in_strs (?get ''source'') COMMAND_SOURCES" "in_strs (?get ''kind'') COMMAND_KINDS"
    "in_strs (?get ''previous_status'') ALLOWED_STATES" "in_strs (?get ''outcome'') OUTCOMES"
    "in_strs (?get ''target_status'') TARGET_STATUSES"
    "?get ''target_status'' = PyStr ''FINAL_REPORT_READY'' \<longrightarrow> ?get ''kind'' = PyStr ''FINALIZE''
       \<and> ?get ''outcome'' = PyStr ''SUCCESS'' \<and> ?get ''previous_status'' = PyStr ''FINALIZING''"
    "?get ''report_path'' = PyStr (report_name (the_str (?get ''project_id'')) (the_int (?get ''command_id'')))"
    "?get ''pending_report_path'' = PyStr (pending_name (the_str (?get ''project_id'')) (the_int (?get ''command_id'')))"
    "is_str (?get ''report_sha256'') \<and> SHA256_RE (the_str (?get ''report_sha256''))"
    "\<exists>t. ?get ''created_at'' = PyStr t \<and> TIMESTAMP_RE t"
    "?get ''reconciled_at'' = PyNone \<or> (\<exists>t. ?get ''reconciled_at'' = PyStr t \<and> TIMESTAMP_RE t)"
    "is_bool (?get ''remote_publish_pending'')" "in_strs (?get ''journal_status'') PENDING_JOURNAL_STATUSES"
    "?get ''journal_status'' = PyStr ''pending'' \<longrightarrow> ?get ''remote_publish_pending'' = PyBool True"
    "?get ''journal_status'' \<noteq> PyStr ''pending'' \<longrightarrow> ?get ''remote_publish_pending'' = PyBool False"
    "in_strs (dget_or d ''evidence_mode'' (PyStr ''legacy'')) [''legacy'', ''typed'']"
    using d(1) unfolding metadata_checks_def Let_def first_raise_None ensure_None exc_of_None_iff safe_field_Inr
    by ((elim conjE exE, simp del: in_strs_iff insert_iff) | (elim conjE, assumption))+
  have names: "\<exists>p c. ?get ''project_id'' = PyStr p \<and> PROJECT_ID_RE p \<and> ?get ''command_id'' = PyInt c \<and> 1 \<le> c
      \<and> ?get ''report_path'' = PyStr (report_name p c) \<and> ?get ''pending_report_path'' = PyStr (pending_name p c)"
    using checks(1,2,13,14) by blast
  have texts: "\<exists>r. ?get ''run_id'' = PyStr r \<and> RUN_ID_RE r" "\<exists>h. ?get ''report_sha256'' = PyStr h \<and> SHA256_RE h"
    using checks(5,15) by (auto simp: is_str_iff)
  have flag: "?get ''remote_publish_pending'' = PyBool (?get ''journal_status'' = PyStr ''pending'')"
    using checks(20,21) by (cases "?get ''journal_status'' = PyStr ''pending''") simp_all
  show "wf_metadata n"
    unfolding wf_metadata_def d(2) metadata_of_get ball_simps
    using names texts flag checks(6-12,16,17,19,22) optional_text_error
    by (intro conjI metadata_of_keys refl ballI TrueI) (assumption | (elim insertE emptyE, simp_all))+
  show "ep \<in> {None, Some (the_str (dget n ''project_id''))}" "ec \<in> {None, Some (the_int (dget n ''command_id''))}"
    using checks(3,4) by (simp_all add: d(2))
qed


lemma wf_metadata_checks:
  assumes "wf_metadata n" "ep \<in> {None, Some (the_str (dget n ''project_id''))}" "ec \<in> {None, Some (the_int (dget n ''command_id''))}"
  shows "first_raise (metadata_checks n ep ec) = None"
proof -
  have keys: "dkeys n = META_FIELDS" using assms(1) by (simp add: wf_metadata_def dkeys_def)
  have subset: "set REQUIRED_FIELDS \<subseteq> set META_FIELDS" by (auto simp: REQUIRED_FIELDS_def)
  obtain p c where names: "dget n ''project_id'' = PyStr p" "PROJECT_ID_RE p" "dget n ''command_id'' = PyInt c" "1 \<le> c"
      "dget n ''report_path'' = PyStr (report_name p c)" "dget n ''pending_report_path'' = PyStr (pending_name p c)"
    using assms(1) unfolding wf_metadata_def by blast
  have texts: "is_str (dget n ''run_id'') \<and> RUN_ID_RE (the_str (dget n ''run_id''))"
      "is_str (dget n ''report_sha256'') \<and> SHA256_RE (the_str (dget n ''report_sha256''))"
      "\<exists>g. dget n ''claim_generation'' = PyInt g \<and> 0 \<le> g" "\<exists>t. dget n ''created_at'' = PyStr t \<and> TIMESTAMP_RE t"
    using assms(1) unfolding wf_metadata_def by (elim conjE exE, simp)+
  have errors: "dget n ''last_execution_error'' = PyNone \<or> is_str (dget n ''last_execution_error'')"
      "dget n ''reconciliation_reason'' = PyNone \<or> is_str (dget n ''reconciliation_reason'')"
    using assms(1) unfolding wf_metadata_def by auto
  have rest: "dget n ''schema_version'' = PyInt 1" "in_strs (dget n ''source'') COMMAND_SOURCES" "in_strs (dget n ''kind'') COMMAND_KINDS"
      "in_strs (dget n ''previous_status'') ALLOWED_STATES" "in_strs (dget n ''outcome'') OUTCOMES"
      "in_strs (dget n ''target_status'') TARGET_STATUSES"
      "dget n ''target_status'' = PyStr ''FINAL_REPORT_READY'' \<longrightarrow> dget n ''kind'' = PyStr ''FINALIZE''
        \<and> dget n ''outcome'' = PyStr ''SUCCESS'' \<and> dget n ''previous_status'' = PyStr ''FINALIZING''"
      "dget n ''reconciled_at'' = PyNone \<or> (\<exists>t. dget n ''reconciled_at'' = PyStr t \<and> TIMESTAMP_RE t)"
      "in_strs (dget n ''journal_status'') PENDING_JOURNAL_STATUSES"
      "dget n ''remote_publish_pending'' = PyBool (dget n ''journal_status'' = PyStr ''pending'')"
      "in_strs (dget n ''evidence_mode'') [''legacy'', ''typed'']"
    using assms(1) unfolding wf_metadata_def by - (elim conjE, assumption)+
  have mode: "dget_or n ''evidence_mode'' w = dget n ''evidence_mode''" for w
    using rest(11) by (auto simp: dget_or_def dget_def split: option.splits)
  have hash: "hashable (dget n ''journal_status'')" using rest(9) by (auto simp: hashable_def)
  show ?thesis
    unfolding metadata_checks_def Let_def keys mode
    using names texts errors rest hash subset assms(2,3)
    by (simp add: safe_field_Inr safe_execution_error_Inr exc_of_None_iff del: in_strs_iff)
qed

lemma wf_metadata_validates:
  "wf_metadata n \<Longrightarrow> ep \<in> {None, Some (the_str (dget n ''project_id''))} \<Longrightarrow> ec \<in> {None, Some (the_int (dget n ''command_id''))} \<Longrightarrow>
     validate_metadata (PyDict n) ep ec = Inr (metadata_of n)"
  by (simp add: validate_metadata_checks wf_metadata_checks)

end
