(* ===== verification/Pending_Files.thy ===== *)
theory Pending_Files
  imports Pending_Report
begin

text \<open>
  \<open>worker/pending_report.py\<close>: the names of the files of one report, and what is loaded after it was
  saved.
\<close>

section \<open>Names and paths\<close>

lemma parse_digits_decimal: "list_all is_digit s \<Longrightarrow> parse_digits a s = Some (foldl (\<lambda>acc c. 10 * acc + digit_value c) a s)"
  by (induction s arbitrary: a) simp_all

lemma zeros_digits: "list_all is_digit (zeros k)" "foldl (\<lambda>acc c. 10 * acc + digit_value c) 0 (zeros k) = 0"
proof -
  have "zeros k = replicate (min k 3) (CHR ''0'')"
    unfolding zeros_def by (cases k; cases "k - 1"; cases "k - 2") (auto simp: numeral_3_eq_3 take_Cons' eval_nat_numeral)
  moreover have "foldl (\<lambda>acc c. 10 * acc + digit_value c) 0 (replicate m (CHR ''0'')) = 0" for m
    by (induction m) (simp_all add: digit_value_def)
  ultimately show "list_all is_digit (zeros k)" "foldl (\<lambda>acc c. 10 * acc + digit_value c) 0 (zeros k) = 0"
    by (simp_all add: list_all_iff is_digit_def)
qed

lemma show_int_03_digits: "0 \<le> c \<Longrightarrow> list_all is_digit (show_int_03 c)" "show_int_03 c \<noteq> []"
  by (simp_all add: show_int_03_def zeros_digits)

lemma digit_not_space: "is_digit c \<Longrightarrow> \<not> is_space c \<and> c \<noteq> CHR ''+'' \<and> c \<noteq> CHR ''-'' \<and> c \<noteq> CHR ''.'' \<and> c \<noteq> CHR ''/''"
  by (auto simp: is_digit_def is_space_def)

lemma dropWhile_absent: "\<forall>c \<in> set s. \<not> P c \<Longrightarrow> dropWhile P s = s"
  by (cases s) simp_all

lemma strip_digits: "list_all is_digit s \<Longrightarrow> strip s = s"
  using digit_not_space dropWhile_absent [of s is_space] dropWhile_absent [of "rev s" is_space]
  by (simp add: strip_def lstrip_def rstrip_def list_all_iff)

lemma parse_show_int_03:
  assumes "0 \<le> c" "short_int c"
  shows "parse_int (show_int_03 c) = Some c"
proof -
  let ?s = "show_int_03 c"
  have digits: "list_all is_digit ?s" by (rule show_int_03_digits(1) [OF assms(1)])
  then have len: "length (filter is_digit ?s) = length ?s" by (simp add: filter_id_conv list_all_iff)
  have short: "length ?s \<le> 4300"
    using assms by (auto simp: show_int_03_def short_int_def zeros_def)
  have "foldl (\<lambda>acc c. 10 * acc + digit_value c) 0 ?s = c"
    using assms(1) decimal_show_nat [of "nat c"] by (simp add: show_int_03_def zeros_digits decimal_def)
  then have "parse_unsigned ?s = Some c"
    using digits short len show_int_03_digits(2) [of c] parse_digits_decimal [OF digits, of 0]
    by (cases ?s) (simp_all add: parse_unsigned_def)
  moreover obtain d r where "?s = d # r" using show_int_03_digits(2) [of c] by (cases ?s) simp_all
  ultimately show ?thesis
    using digits digit_not_space [of d] unfolding parse_int_def strip_digits [OF digits] by simp
qed

lemma sidecar_digits_name:
  assumes "0 \<le> c"
  shows "sidecar_digits (sidecar_name c) = Some (show_int_03 c)"
proof -
  have "strip_prefix ''pending-report-'' (''pending-report-'' @ r) = Some r" for r
    unfolding strip_prefix_def by (simp only: has_prefix_append if_True append_eq_conv_conj [THEN iffD1] append_same_eq) simp
  moreover have "length ''.meta.json'' = 10" by simp
  ultimately show ?thesis
    using show_int_03_digits [of c] assms unfolding sidecar_digits_def sidecar_name_def by simp
qed

lemma split_slash_part: "CHR ''/'' \<notin> set w \<Longrightarrow> split_slash (w @ CHR ''/'' # s) = w # split_slash s"
  by (induction w) auto

lemma split_slash_last: "CHR ''/'' \<notin> set w \<Longrightarrow> split_slash w = [w]"
  by (induction w) auto

definition plain_part :: "string \<Rightarrow> bool" where
  "plain_part w \<longleftrightarrow> CHR ''/'' \<notin> set w \<and> w \<noteq> [] \<and> w \<noteq> ''.''"

lemma path_parts_four:
  assumes "plain_part a" "plain_part b" "plain_part c" "plain_part d"
  shows "path_parts (a @ CHR ''/'' # (b @ CHR ''/'' # (c @ CHR ''/'' # d))) = [a, b, c, d]"
proof -
  note parts = assms [unfolded plain_part_def]
  have "split_slash (a @ CHR ''/'' # (b @ CHR ''/'' # (c @ CHR ''/'' # d))) = [a, b, c, d]"
    using parts by (simp only: split_slash_part split_slash_last not_False_eq_True)
  moreover have "filter (\<lambda>w. w \<noteq> [] \<and> w \<noteq> ''.'') [a, b, c, d] = [a, b, c, d]"
    using parts by (simp only: filter.simps if_True not_False_eq_True simp_thms)
  ultimately show ?thesis by (simp only: path_parts_def)
qed

lemma not_name_chars: "\<not> name_char (CHR ''/'')" "\<not> is_alnum_ascii (CHR ''.'')" "\<not> is_alnum_ascii (CHR ''/'')"
  by code_simp+

lemma project_id_path: "PROJECT_ID_RE p \<Longrightarrow> plain_part p"
  using not_name_chars by (cases p) (auto simp: plain_part_def PROJECT_ID_RE_def list_all_iff)

definition pending_file :: "int \<Rightarrow> string" where
  "pending_file c = ''pending-report-'' @ show_int_03 c @ ''.md''"

lemma show_int_03_no_slash: "0 \<le> c \<Longrightarrow> CHR ''/'' \<notin> set (show_int_03 c)"
  using show_int_03_digits(1) [of c] digit_not_space by (auto simp: list_all_iff)

lemma path_parts_pending:
  assumes "PROJECT_ID_RE p" "0 \<le> c"
  shows "path_parts (pending_name p c) = [''worker'', ''runtime'', p, pending_file c]"
proof -
  have "pending_name p c = ''worker'' @ CHR ''/'' # (''runtime'' @ CHR ''/'' # (p @ CHR ''/'' # pending_file c))"
    by (simp add: pending_name_def pending_file_def)
  moreover have "plain_part (pending_file c)" "plain_part ''worker''" "plain_part ''runtime''"
    using show_int_03_no_slash [OF assms(2)] by (simp_all add: plain_part_def pending_file_def)
  ultimately show ?thesis using path_parts_four [of "''worker''" "''runtime''" p] project_id_path [OF assms(1)] by (simp only:)
qed

lemma path_parts_report:
  assumes "PROJECT_ID_RE p" "0 \<le> c"
  shows "path_parts (report_name p c) = [''projects'', p, ''reports'', ''report-'' @ show_int_03 c @ ''.md'']"
proof -
  have "report_name p c = ''projects'' @ CHR ''/'' # (p @ CHR ''/'' # (''reports'' @ CHR ''/'' # (''report-'' @ show_int_03 c @ ''.md'')))"
    by (simp add: report_name_def)
  moreover have "plain_part (''report-'' @ show_int_03 c @ ''.md'')" "plain_part ''projects''" "plain_part ''reports''"
    using show_int_03_no_slash [OF assms(2)] by (simp_all add: plain_part_def)
  ultimately show ?thesis using path_parts_four [of "''projects''" p "''reports''"] project_id_path [OF assms(1)] by (simp only:)
qed

section \<open>Loading what was saved\<close>

lemma read_text_written:
  "read_text (files(path \<mapsto> Inr (text_written linesep s))) path = Inr (universal_newlines (platform_newlines linesep s))"
  by (simp add: read_text_def text_read_def text_written_def)

lemma saved_metadata_get:
  "dget (saved_metadata q now r p e) ''project_id'' = pq_project_id q"
  "dget (saved_metadata q now r p e) ''command_id'' = pq_command_id q"
  "dget (saved_metadata q now r p e) ''run_id'' = pq_run_id q"
  "dget (saved_metadata q now r p e) ''claim_generation'' = pq_claim_generation q"
  "dget (saved_metadata q now r p e) ''source'' = pq_source q"
  "dget (saved_metadata q now r p e) ''kind'' = pq_kind q"
  "dget (saved_metadata q now r p e) ''previous_status'' = pq_previous_status q"
  "dget (saved_metadata q now r p e) ''outcome'' = pq_outcome q"
  "dget (saved_metadata q now r p e) ''target_status'' = pq_target_status q"
  "dget (saved_metadata q now r p e) ''report_path'' = PyStr r"
  "dget (saved_metadata q now r p e) ''pending_report_path'' = PyStr p"
  "dget (saved_metadata q now r p e) ''report_sha256'' = PyStr (sha256_hex (utf8_encode (the_str (pq_report_text q))))"
  "dget (saved_metadata q now r p e) ''remote_publish_pending'' = PyBool True"
  "dget (saved_metadata q now r p e) ''journal_status'' = PyStr ''pending''"
  unfolding saved_metadata_def by simp_all

lemma json_ok_kinds: "in_strs v S \<Longrightarrow> json_ok v" "is_str v \<Longrightarrow> json_ok v"
  by (cases v; simp)+

lemma wf_metadata_optional:
  assumes "wf_metadata n"
  shows "\<forall>k \<in> {''last_execution_error'', ''reconciliation_reason''}. dget n k = PyNone
      \<or> (\<exists>t. dget n k = PyStr (take 1000 (diagnostic t)) \<and> take 1000 (diagnostic t) \<noteq> [])"
    and "dget n ''reconciled_at'' = PyNone \<or> (\<exists>t. dget n ''reconciled_at'' = PyStr t \<and> TIMESTAMP_RE t)"
  using assms unfolding wf_metadata_def by - (elim conjE, assumption)+

lemma wf_metadata_json:
  assumes "wf_metadata n" "short_int (the_int (dget n ''command_id''))" "short_int (the_int (dget n ''claim_generation''))"
  shows "json_ok (PyDict n)"
proof -
  have keys: "map fst n = META_FIELDS" using assms(1) by (simp add: wf_metadata_def)
  have distinct: "distinct (map fst n)" unfolding keys by code_simp
  have "list_all (\<lambda>k. json_ok (dget n k)) META_FIELDS"
  proof -
    have one: "json_ok (PyInt 1)" by (simp add: short_int_def show_nat_small)
    have "json_ok (dget n ''schema_version'')" "json_ok (dget n ''project_id'')" "json_ok (dget n ''command_id'')"
      "json_ok (dget n ''report_path'')" "json_ok (dget n ''pending_report_path'')" "json_ok (dget n ''run_id'')"
      "json_ok (dget n ''claim_generation'')" "json_ok (dget n ''report_sha256'')" "json_ok (dget n ''created_at'')"
      "json_ok (dget n ''remote_publish_pending'')"
      using assms one unfolding wf_metadata_def by (elim conjE exE, simp)+
    moreover have "json_ok (dget n ''reconciled_at'')" using wf_metadata_optional(2) [OF assms(1)] by auto
    moreover have "json_ok (dget n ''last_execution_error'')" "json_ok (dget n ''reconciliation_reason'')"
      using wf_metadata_optional [OF assms(1)] by auto
    moreover have "json_ok (dget n ''source'')" "json_ok (dget n ''kind'')" "json_ok (dget n ''previous_status'')"
      "json_ok (dget n ''outcome'')" "json_ok (dget n ''target_status'')" "json_ok (dget n ''journal_status'')"
      "json_ok (dget n ''evidence_mode'')"
      using assms(1) unfolding wf_metadata_def by - (elim conjE, rule json_ok_kinds, assumption)+
    ultimately show ?thesis unfolding META_FIELDS_def list.pred_inject by (intro conjI TrueI list.pred_inject(1))
  qed
  then have "json_ok (dget n k)" if "k \<in> set META_FIELDS" for k using that by (simp add: list_all_iff)
  moreover have "dget n k = v \<and> k \<in> set META_FIELDS" if "(k, v) \<in> set n" for k v
    using that distinct keys by (metis dget_def in_set_zipE map_of_eq_Some_iff option.simps(5) zip_map_fst_snd)
  ultimately have "pairs_ok n" unfolding pairs_ok_iff by blast
  then show ?thesis using distinct by simp
qed

lemma last_apart: "last (last a) \<noteq> last (last b) \<Longrightarrow> a \<noteq> b"
  by auto

lemma saved_files:
  assumes "save_worker_pending_report linesep now fails base q files = (Inr path, files')"
  obtains p c e n where
    "pq_project_id q = PyStr p" "PROJECT_ID_RE p" "pq_command_id q = PyInt c" "1 \<le> c" "is_str (pq_report_text q)"
    "validate_metadata (PyDict (saved_metadata q now (report_name p c) (pending_name p c) e)) None None = Inr n"
    "path = base @ [''worker'', ''runtime'', p, sidecar_name c]"
    "files' path = Some (Inr (text_written linesep (json_document (PyDict n))))"
    "files' (base @ [''worker'', ''runtime'', p, pending_file c]) = Some (Inr (text_written linesep (the_str (pq_report_text q))))"
proof -
  let ?t = "the_str (pq_report_text q)"
  have str: "is_str (pq_report_text q)"
    using assms by (rule contrapos_pp) (simp add: save_worker_pending_report_def)
  obtain p where p: "safe_project_id (pq_project_id q) = Inr p"
    using assms by (cases "safe_project_id (pq_project_id q)")
      (simp_all add: save_worker_pending_report_def canonical_pending_relative_path_def str)
  obtain c where c: "positive_int (pq_command_id q) ''command_id'' = Inr c"
    using assms by (cases "positive_int (pq_command_id q) ''command_id''")
      (simp_all add: save_worker_pending_report_def canonical_pending_relative_path_def str p)
  let ?pending = "base @ [''worker'', ''runtime'', p, pending_file c]"
  let ?meta = "base @ [''worker'', ''runtime'', p, sidecar_name c]"
  have id: "pq_project_id q = PyStr p" "PROJECT_ID_RE p" "pq_command_id q = PyInt c" "1 \<le> c"
    using p c by (simp_all add: safe_field_Inr)
  have parts: "path_parts (pending_name p c) = [''worker'', ''runtime'', p, pending_file c]"
    using path_parts_pending id by simp
  obtain e where e: "safe_execution_error (pq_last_execution_error q) = Inr e"
    using assms by (cases "safe_execution_error (pq_last_execution_error q)")
      (simp_all add: save_worker_pending_report_def canonical_pending_relative_path_def canonical_metadata_path_def
        canonical_report_relative_path_def str p c)
  let ?d = "saved_metadata q now (report_name p c) (pending_name p c) e"
  obtain n where n: "validate_metadata (PyDict ?d) None None = Inr n"
    using assms by (cases "validate_metadata (PyDict ?d) None None")
      (simp_all add: save_worker_pending_report_def canonical_pending_relative_path_def canonical_metadata_path_def
        canonical_report_relative_path_def str p c e)
  let ?reason = "butlast ?pending @ [path_stem (last ?pending) @ ''.reason.txt'']"
  have fails: "fst fails = None \<and> fst (snd fails) = None \<and> snd (snd fails) = None \<and> path = ?meta
      \<and> files' = files(?pending \<mapsto> Inr (text_written linesep ?t),
          ?reason \<mapsto> Inr (text_written linesep (rstrip (pq_reason q) @ [CHR 0x0A])),
          ?meta \<mapsto> Inr (text_written linesep (json_document (PyDict n))))"
    using assms
    by (auto simp: save_worker_pending_report_def canonical_pending_relative_path_def canonical_metadata_path_def
        canonical_report_relative_path_def str p c e n parts write_text_atomic_def split: option.splits)
  have ends: "last (last ?pending) = CHR ''d''" "last (last ?reason) = CHR ''t''" "last (last ?meta) = CHR ''n''"
    by (simp_all add: pending_file_def sidecar_name_def)
  have apart: "?pending \<noteq> ?reason" "?pending \<noteq> ?meta"
    by (rule last_apart, simp only: ends, simp)+
  show thesis
    by (rule that [OF id str n]) (use fails apart in auto)
qed

lemma load_saved:
  assumes id: "PROJECT_ID_RE p" "1 \<le> c" "short_int c" "wf_metadata n" "dget n ''project_id'' = PyStr p" "dget n ''command_id'' = PyInt c"
    and json: "json_ok (PyDict n)" and linesep: "is_linesep linesep" and resolve: "\<forall>p. resolve p = p"
    and path: "path = base @ [''worker'', ''runtime'', p, sidecar_name c]"
    and meta: "files path = Some (Inr (text_written linesep (json_document (PyDict n))))"
    and pending: "files (base @ [''worker'', ''runtime'', p, pending_file c]) = Some (Inr (text_written linesep t))"
    and kept: "kept = universal_newlines (platform_newlines linesep t)"
  shows "load_evidence F resolve base path files =
    (if PyStr (sha256_hex (utf8_encode kept)) \<noteq> dget n ''report_sha256''
     then Inl (PendingReportError ''pending report SHA-256 does not match metadata'')
     else Inr \<lparr>pe_bridge_root = base, pe_metadata_path = path,
       pe_report_path = base @ [''projects'', p, ''reports'', ''report-'' @ show_int_03 c @ ''.md''],
       pe_pending_report_path = base @ [''worker'', ''runtime'', p, pending_file c],
       pe_state_path = base @ [''projects'', p, ''state.json''], pe_metadata = metadata_of n, pe_report_text = kept\<rparr>)"
proof -
  let ?m = "metadata_of n"
  have raw: "read_json F files path = Inr (PyDict n)"
    using meta json_file_written(1) [OF json linesep] by (simp add: read_json_def)
  have "dget n ''report_path'' = PyStr (report_name p c)" "dget n ''pending_report_path'' = PyStr (pending_name p c)"
    using id(4-6) unfolding wf_metadata_def by - (elim conjE exE, simp)+
  then have fields: "dget ?m ''report_path'' = PyStr (report_name p c)" "dget ?m ''pending_report_path'' = PyStr (pending_name p c)"
      "dget ?m ''report_sha256'' = dget n ''report_sha256''"
    by (simp_all only: metadata_of_get)
  have "validate_metadata (PyDict n) (Some p) (Some c) = Inr ?m"
    by (rule wf_metadata_validates [OF id(4)]) (simp_all add: id)
  moreover have "parse_int (show_int_03 c) = Some c" using id(2,3) by (simp add: parse_show_int_03)
  moreover have "sidecar_digits (last path) = Some (show_int_03 c)" using id(2) by (simp add: path sidecar_digits_name)
  moreover have "read_text files (base @ [''worker'', ''runtime'', p, pending_file c]) = Inr kept"
    using pending by (simp add: read_text_def text_read_def text_written_def kept)
  moreover have "path_parts (pending_name p c) = [''worker'', ''runtime'', p, pending_file c]"
    "path_parts (report_name p c) = [''projects'', p, ''reports'', ''report-'' @ show_int_03 c @ ''.md'']"
    using path_parts_pending path_parts_report id(1,2) by simp_all
  moreover have "has_suffix ''.meta.json'' (last path)"
    using has_suffix_append [of "''.meta.json''" "''pending-report-'' @ show_int_03 c"] by (simp add: path sidecar_name_def)
  moreover have "last (butlast path) = p" "path \<noteq> []" by (simp_all add: path butlast_append)
  moreover have "is_within path (runtime_root resolve base)"
      "is_within (base @ [''worker'', ''runtime'', p, pending_file c]) (runtime_root resolve base)" "\<And>x. is_within (base @ x) base"
    by (simp_all add: is_within_def path runtime_root_def resolve)
  moreover have "canonical_metadata_path base (PyStr p) (PyInt c) = Inr path"
    using id(1,2) by (simp add: canonical_metadata_path_def safe_project_id_def positive_int_def path)
  ultimately show ?thesis
    using raw resolve fields by (simp add: load_evidence_def Let_def safe_canonical_path_def safe_runtime_path_def)
qed

text \<open>
  C26: a report that was saved is loaded with the identity it was saved with, and with its text, if
  the text holds no carriage return.  In general the text that is loaded is the saved one with its
  line ends translated, and it is refused exactly if its digest is no longer the recorded one.
\<close>

theorem pending_report_round_trip:
  assumes "save_worker_pending_report linesep now fails base q files = (Inr path, files')"
    and "is_linesep linesep" "\<forall>p. resolve p = p"
    and "short_int (the_int (pq_command_id q))" "short_int (the_int (pq_claim_generation q))"
    and "kept = universal_newlines (platform_newlines linesep (the_str (pq_report_text q)))"
  shows "(if sha256_hex (utf8_encode kept) = sha256_hex (utf8_encode (the_str (pq_report_text q)))
      then \<exists>ev. load_evidence F resolve base path files' = Inr ev \<and> pe_report_text ev = kept
        \<and> pe_metadata_path ev = path \<and> wf_metadata (pe_metadata ev)
        \<and> dget (pe_metadata ev) ''project_id'' = pq_project_id q \<and> dget (pe_metadata ev) ''command_id'' = pq_command_id q
        \<and> dget (pe_metadata ev) ''run_id'' = pq_run_id q
        \<and> dget (pe_metadata ev) ''claim_generation'' = pq_claim_generation q
        \<and> dget (pe_metadata ev) ''target_status'' = pq_target_status q
        \<and> dget (pe_metadata ev) ''journal_status'' = PyStr ''pending''
      else load_evidence F resolve base path files' = Inl (PendingReportError ''pending report SHA-256 does not match metadata''))
    \<and> (CHR 0x0D \<notin> set (the_str (pq_report_text q)) \<longrightarrow> kept = the_str (pq_report_text q))"
proof -
  obtain p c e n where s: "pq_project_id q = PyStr p" "PROJECT_ID_RE p" "pq_command_id q = PyInt c" "1 \<le> c"
    and n: "validate_metadata (PyDict (saved_metadata q now (report_name p c) (pending_name p c) e)) None None = Inr n"
    and path: "path = base @ [''worker'', ''runtime'', p, sidecar_name c]"
    and meta: "files' path = Some (Inr (text_written linesep (json_document (PyDict n))))"
    and pending: "files' (base @ [''worker'', ''runtime'', p, pending_file c]) = Some (Inr (text_written linesep (the_str (pq_report_text q))))"
    using assms(1) by (rule saved_files)
  let ?d = "saved_metadata q now (report_name p c) (pending_name p c) e"
  have get: "n = metadata_of ?d" using n by (auto simp: validate_metadata_checks)
  have wf: "wf_metadata n" by (rule validated_metadata_wf(1) [OF n])
  have fields: "dget n ''project_id'' = PyStr p" "dget n ''command_id'' = PyInt c" "dget n ''run_id'' = pq_run_id q"
      "dget n ''claim_generation'' = pq_claim_generation q" "dget n ''target_status'' = pq_target_status q"
      "dget n ''journal_status'' = PyStr ''pending''"
      "dget n ''report_sha256'' = PyStr (sha256_hex (utf8_encode (the_str (pq_report_text q))))"
    by (simp_all only: get metadata_of_get saved_metadata_get s)
  have json: "json_ok (PyDict n)"
    by (rule wf_metadata_json [OF wf]) (use assms(4,5) s(3) in \<open>simp_all only: fields\<close>)
  have short: "short_int c" using assms(4) s(3) by simp
  have "wf_metadata (metadata_of n)"
    by (rule validated_metadata_wf(1) [OF wf_metadata_validates [OF wf, of None None]]) simp_all
  moreover have "CHR 0x0D \<notin> set (the_str (pq_report_text q)) \<Longrightarrow> kept = the_str (pq_report_text q)"
    using universal_platform_newlines [OF assms(2)] by (simp add: assms(6))
  ultimately show ?thesis
    unfolding load_saved [OF s(2,4) short wf fields(1,2) json assms(2,3) path meta pending assms(6)]
    using fields s(1,3) by simp
qed

definition sample_pending_request :: pending_request where
  "sample_pending_request = \<lparr>pq_project_id = PyStr ''p'', pq_command_id = PyInt 3, pq_run_id = PyStr ''run-1'',
     pq_claim_generation = PyInt 6, pq_source = PyStr ''user_direct'', pq_kind = PyStr ''EXECUTE'',
     pq_previous_status = PyStr ''CODEX_RUNNING'', pq_outcome = PyStr ''SUCCESS'', pq_target_status = PyStr ''REPORT_READY'',
     pq_report_text = PyStr ''done'', pq_reason = ''offline'', pq_last_execution_error = PyNone, pq_evidence_mode = PyStr ''legacy''\<rparr>"

definition sample_pending_path :: "string list" where
  "sample_pending_path = [''worker'', ''runtime'', ''p'', sidecar_name 3]"

lemma sha256_pattern: "SHA256_RE (sha256_hex s)"
  by (simp add: SHA256_RE_def)

lemma sample_request_texts:
  "PROJECT_ID_RE ''p''" "RUN_ID_RE ''run-1''" "TIMESTAMP_RE ''t''"
  "list_all (\<lambda>(v, S). in_strs v S) [(PyStr ''user_direct'', COMMAND_SOURCES), (PyStr ''EXECUTE'', COMMAND_KINDS),
     (PyStr ''CODEX_RUNNING'', ALLOWED_STATES), (PyStr ''SUCCESS'', OUTCOMES), (PyStr ''REPORT_READY'', TARGET_STATUSES),
     (PyStr ''pending'', PENDING_JOURNAL_STATUSES), (PyStr ''legacy'', [''legacy'', ''typed''])]"
  by code_simp+

lemma sample_metadata_wf:
  "wf_metadata (saved_metadata sample_pending_request ''t'' (report_name ''p'' 3) (pending_name ''p'' 3) None)" (is "wf_metadata ?d")
proof -
  have "map fst ?d = META_FIELDS" by (simp add: saved_metadata_def META_FIELDS_def)
  moreover have "dget ?d ''schema_version'' = PyInt 1" "dget ?d ''created_at'' = PyStr ''t''" "dget ?d ''reconciled_at'' = PyNone"
    "dget ?d ''last_execution_error'' = PyNone" "dget ?d ''reconciliation_reason'' = PyNone" "dget ?d ''evidence_mode'' = PyStr ''legacy''"
    by (simp_all add: saved_metadata_def optional_text_def sample_pending_request_def)
  ultimately show ?thesis
    unfolding wf_metadata_def saved_metadata_get ball_simps
    using sample_request_texts sha256_pattern
    by (simp add: sample_pending_request_def del: in_strs_iff)
qed

lemma sample_pending_saved:
  "fst (save_worker_pending_report [CHR 0x0A] ''t'' (None, None, None) [] sample_pending_request (\<lambda>_. None)) = Inr sample_pending_path"
proof -
  have "validate_metadata (PyDict (saved_metadata sample_pending_request ''t'' (report_name ''p'' 3) (pending_name ''p'' 3) None)) None None
      = Inr (metadata_of (saved_metadata sample_pending_request ''t'' (report_name ''p'' 3) (pending_name ''p'' 3) None))"
    by (rule wf_metadata_validates [OF sample_metadata_wf]) simp_all
  moreover have "pq_project_id sample_pending_request = PyStr ''p''" "pq_command_id sample_pending_request = PyInt 3"
      "is_str (pq_report_text sample_pending_request)" "pq_last_execution_error sample_pending_request = PyNone"
    by (simp_all add: sample_pending_request_def)
  moreover have "safe_execution_error PyNone = Inr None" by (simp add: safe_execution_error_def)
  moreover have "safe_project_id (PyStr ''p'') = Inr ''p''" "positive_int (PyInt 3) ''command_id'' = Inr 3"
    using sample_request_texts(1) by (simp_all add: safe_field_Inr)
  ultimately show ?thesis
    by (simp add: save_worker_pending_report_def canonical_pending_relative_path_def canonical_metadata_path_def
        canonical_report_relative_path_def write_text_atomic_def sample_pending_path_def)
qed

theorem pending_report_round_trip_witness:
  "\<exists>ev. load_evidence (\<lambda>_. PyNone) (\<lambda>p. p) [] sample_pending_path
        (snd (save_worker_pending_report [CHR 0x0A] ''t'' (None, None, None) [] sample_pending_request (\<lambda>_. None))) = Inr ev
     \<and> pe_report_text ev = ''done'' \<and> dget (pe_metadata ev) ''run_id'' = PyStr ''run-1''"
proof -
  let ?save = "save_worker_pending_report [CHR 0x0A] ''t'' (None, None, None) [] sample_pending_request (\<lambda>_. None)"
  have "?save = (Inr sample_pending_path, snd ?save)" using sample_pending_saved by (metis prod.collapse)
  moreover have "is_linesep [CHR 0x0A]" by (simp add: is_linesep_def)
  moreover have "short_int (the_int (pq_command_id sample_pending_request))"
      "short_int (the_int (pq_claim_generation sample_pending_request))"
    by (simp_all add: sample_pending_request_def short_int_def show_nat_small)
  moreover have "the_str (pq_report_text sample_pending_request) = ''done''" "pq_run_id sample_pending_request = PyStr ''run-1''"
    by (simp_all add: sample_pending_request_def)
  moreover have "''done'' = universal_newlines (platform_newlines [CHR 0x0A] ''done'')" by code_simp
  ultimately show ?thesis
    using pending_report_round_trip [where resolve = "\<lambda>p. p" and linesep = "[CHR 0x0A]" and now = "''t''" and base = "[]"
        and q = sample_pending_request and kept = "''done''" and F = "\<lambda>_. PyNone"]
    by fastforce
qed

lemma read_json_file: "files p = Some (Inr b) \<Longrightarrow> json_file F b = Inr v \<Longrightarrow> read_json F files p = Inr v"
  by (simp add: read_json_def)

definition sample_evidence :: pending_evidence where
  "sample_evidence = \<lparr>pe_bridge_root = [], pe_metadata_path = sample_pending_path,
       pe_report_path = [] @ [''projects'', ''p'', ''reports'', ''report-'' @ show_int_03 3 @ ''.md''],
       pe_pending_report_path = [] @ [''worker'', ''runtime'', ''p'', pending_file 3],
       pe_state_path = [] @ [''projects'', ''p'', ''state.json''],
       pe_metadata = metadata_of (saved_metadata sample_pending_request ''t'' (report_name ''p'' 3) (pending_name ''p'' 3) None),
       pe_report_text = ''done''\<rparr>"

lemma sample_evidence_loaded:
  "\<exists>files. load_evidence (\<lambda>_. PyNone) (\<lambda>p. p) [] sample_pending_path files = Inr sample_evidence
     \<and> (\<exists>d. wf_metadata d \<and> dget d ''project_id'' = PyStr ''p''
          \<and> read_json (\<lambda>_. PyNone) files sample_pending_path = Inr (PyDict d))"
proof -
  let ?d = "saved_metadata sample_pending_request ''t'' (report_name ''p'' 3) (pending_name ''p'' 3) None"
  let ?files = "(\<lambda>_. None)(sample_pending_path \<mapsto> Inr (text_written [CHR 0x0A] (json_document (PyDict ?d))),
    [] @ [''worker'', ''runtime'', ''p'', pending_file 3] \<mapsto> Inr (text_written [CHR 0x0A] ''done''))"
  have apart: "pending_file 3 \<noteq> sidecar_name 3"
  proof
    assume "pending_file 3 = sidecar_name 3"
    then have "last (pending_file 3) = last (sidecar_name 3)" by simp
    then show False by (simp add: pending_file_def sidecar_name_def)
  qed
  have short: "short_int 3" "short_int 6" by (simp_all add: short_int_def show_nat_small)
  have fields: "dget ?d ''project_id'' = PyStr ''p''" "dget ?d ''command_id'' = PyInt 3" "dget ?d ''claim_generation'' = PyInt 6"
      "dget ?d ''report_sha256'' = PyStr (sha256_hex (utf8_encode ''done''))"
    by (simp_all only: saved_metadata_get) (simp_all add: sample_pending_request_def)
  have json: "json_ok (PyDict ?d)"
    by (rule wf_metadata_json [OF sample_metadata_wf]) (simp_all only: fields type_test_simps short)
  have kept: "''done'' = universal_newlines (platform_newlines [CHR 0x0A] ''done'')" by code_simp
  have "load_evidence (\<lambda>_. PyNone) (\<lambda>p. p) [] sample_pending_path ?files = Inr sample_evidence"
    unfolding sample_evidence_def
    by (subst load_saved [OF sample_request_texts(1) _ short(1) sample_metadata_wf fields(1,2) json _ _ _ _ _ kept])
      (use fields(4) apart in \<open>simp_all add: is_linesep_def sample_pending_path_def\<close>)
  moreover have "?files sample_pending_path = Some (Inr (text_written [CHR 0x0A] (json_document (PyDict ?d))))"
    using apart by (simp add: sample_pending_path_def)
  then have "read_json (\<lambda>_. PyNone) ?files sample_pending_path = Inr (PyDict ?d)"
    by (rule read_json_file [OF _ json_file_written(1) [OF json]]) (simp add: is_linesep_def)
  ultimately show ?thesis using sample_metadata_wf fields(1) by blast
qed

section \<open>What is loaded, and what is acknowledged\<close>

lemma validated_identity:
  assumes "validate_metadata v expected_project expected_command = Inr n"
  shows "wf_metadata n" "expected_project = Some p \<Longrightarrow> dget n ''project_id'' = PyStr p"
    "expected_command = Some c \<Longrightarrow> dget n ''command_id'' = PyInt c"
proof -
  show wf: "wf_metadata n" by (rule validated_metadata_wf(1) [OF assms])
  then obtain p' c' where "dget n ''project_id'' = PyStr p'" "dget n ''command_id'' = PyInt c'"
    unfolding wf_metadata_def by blast
  then show "expected_project = Some p \<Longrightarrow> dget n ''project_id'' = PyStr p"
    "expected_command = Some c \<Longrightarrow> dget n ''command_id'' = PyInt c"
    using validated_metadata_wf(2,3) [OF assms] by auto
qed

text \<open>
  A sidecar that is accepted holds the known fields in their order, each of its type: the two
  paths are the canonical ones of its project and command, a final report belongs to a successful
  finalization, the error texts are redacted, and it waits for publication exactly if it is pending.
\<close>

theorem sidecar_is_allowlisted:
  assumes "validate_metadata v expected_project expected_command = Inr n"
  shows "wf_metadata n \<and> (\<forall>p. expected_project = Some p \<longrightarrow> dget n ''project_id'' = PyStr p)
    \<and> (\<forall>c. expected_command = Some c \<longrightarrow> dget n ''command_id'' = PyInt c)"
  using validated_identity [OF assms] by blast

theorem sidecar_is_allowlisted_witness:
  "wf_metadata (metadata_of (saved_metadata sample_pending_request ''t'' (report_name ''p'' 3) (pending_name ''p'' 3) None))"
  by (rule sidecar_is_allowlisted [OF wf_metadata_validates [OF sample_metadata_wf], of None None, THEN conjunct1]) simp_all

text \<open>
  Loaded evidence stays in its place, whatever symbolic links the directories hold: the sidecar
  and the pending report lie under the runtime directory and the report and the state under the bridge,
  the sidecar has the canonical name of the project and the command it records, and the text has the
  recorded digest and no carriage return.
\<close>

theorem evidence_stays_in_place:
  assumes "load_evidence F resolve base path files = Inr ev"
  shows "wf_metadata (pe_metadata ev) \<and> pe_bridge_root ev = resolve base \<and> pe_metadata_path ev = resolve path
    \<and> is_within (pe_metadata_path ev) (runtime_root resolve (resolve base))
    \<and> is_within (pe_pending_report_path ev) (runtime_root resolve (resolve base))
    \<and> is_within (pe_report_path ev) (resolve (resolve base)) \<and> is_within (resolve (pe_state_path ev)) (resolve (resolve base))
    \<and> canonical_metadata_path (resolve base) (dget (pe_metadata ev) ''project_id'') (dget (pe_metadata ev) ''command_id'')
        \<in> Inr ` {canonical. resolve path = resolve canonical}
    \<and> dget (pe_metadata ev) ''report_sha256'' = PyStr (sha256_hex (utf8_encode (pe_report_text ev)))
    \<and> CHR 0x0D \<notin> set (pe_report_text ev)"
proof -
  let ?project = "last (butlast (resolve path))"
  obtain digits c raw n canonical report pending text' where
    inside: "is_within (resolve path) (runtime_root resolve (resolve base))" "sidecar_digits (last (resolve path)) = Some digits"
    and valid: "validate_metadata raw (Some ?project) (Some c) = Inr n"
    and canonical: "canonical_metadata_path (resolve base) (PyStr ?project) (PyInt c) = Inr canonical" "resolve path = resolve canonical"
    and paths: "safe_canonical_path resolve (resolve base) (the_str (dget n ''report_path'')) = Inr report"
      "safe_runtime_path resolve (resolve base) (the_str (dget n ''pending_report_path'')) = Inr pending"
      "is_within (resolve (resolve base @ [''projects'', ?project, ''state.json''])) (resolve (resolve base))"
    and read: "read_text files pending = Inr text'" "PyStr (sha256_hex (utf8_encode text')) = dget n ''report_sha256''"
    and ev: "ev = \<lparr>pe_bridge_root = resolve base, pe_metadata_path = resolve path, pe_report_path = report,
         pe_pending_report_path = pending, pe_state_path = resolve base @ [''projects'', ?project, ''state.json''],
         pe_metadata = n, pe_report_text = text'\<rparr>"
    using assms by (auto simp: load_evidence_def Let_def res_bind_Inr_iff split: if_splits option.splits)
  note id = validated_identity [OF valid]
  have "CHR 0x0D \<notin> set text'"
    using read(1) universal_newlines_no_return by (auto simp: read_text_def text_read_def res_bind_Inr_iff split: option.splits)
  then show ?thesis
    using id inside canonical paths read(2) unfolding ev
    by (auto simp: safe_canonical_path_def safe_runtime_path_def Let_def split: if_splits)
qed

theorem evidence_stays_in_place_witness:
  "\<exists>files ev. load_evidence (\<lambda>_. PyNone) (\<lambda>p. p) [] sample_pending_path files = Inr ev
     \<and> is_within (pe_pending_report_path ev) [''worker'', ''runtime'']"
proof -
  obtain files ev where ev: "load_evidence (\<lambda>_. PyNone) (\<lambda>p. p) [] sample_pending_path files = Inr (ev :: pending_evidence)"
    using sample_evidence_loaded by blast
  then show ?thesis using evidence_stays_in_place [OF ev] by (auto simp: runtime_root_def)
qed

lemma wf_settled:
  assumes "wf_metadata m" "status \<in> set PENDING_JOURNAL_STATUSES" "status \<noteq> ''pending''" "TIMESTAMP_RE now"
    and "safe_execution_error (PyStr reason) = Inr safe"
  shows "wf_metadata (settled_metadata m now status safe)" (is "wf_metadata ?n")
proof -
  have keys: "map fst m = META_FIELDS" using assms(1) by (simp add: wf_metadata_def)
  have "set [''remote_publish_pending'', ''journal_status'', ''reconciled_at'', ''reconciliation_reason''] \<subseteq> set META_FIELDS"
    by code_simp
  then have keys': "map fst ?n = META_FIELDS" unfolding settled_metadata_def by (simp add: update_keys keys)
  have get: "dget ?n k = dget m k"
    if "k \<notin> set [''remote_publish_pending'', ''journal_status'', ''reconciled_at'', ''reconciliation_reason'']" for k
    using that by (simp add: settled_metadata_def)
  have new: "dget ?n ''remote_publish_pending'' = PyBool False" "dget ?n ''journal_status'' = PyStr status"
      "dget ?n ''reconciled_at'' = PyStr now" "dget ?n ''reconciliation_reason'' = optional_text (Inr safe)"
    by (simp_all add: settled_metadata_def)
  have error: "dget m ''last_execution_error'' = PyNone \<or> (\<exists>t. dget m ''last_execution_error'' = PyStr (take 1000 (diagnostic t)) \<and> take 1000 (diagnostic t) \<noteq> [])"
    using wf_metadata_optional(1) [OF assms(1)] by blast
  have reason: "optional_text (Inr safe) = PyNone \<or> (\<exists>t. optional_text (Inr safe) = PyStr (take 1000 (diagnostic t)) \<and> take 1000 (diagnostic t) \<noteq> [])"
    using optional_text_error [of "PyStr reason"] unfolding assms(5) .
  have "in_strs (PyStr status) PENDING_JOURNAL_STATUSES" using assms(2) by (simp add: in_strs_def)
  moreover have "PyBool False = PyBool (PyStr status = PyStr ''pending'')" using assms(3) by simp
  moreover have "PyStr now = PyNone \<or> (\<exists>t. PyStr now = PyStr t \<and> TIMESTAMP_RE t)" using assms(4) by blast
  moreover have gets: "dget ?n ''schema_version'' = dget m ''schema_version''" "dget ?n ''project_id'' = dget m ''project_id''"
    "dget ?n ''command_id'' = dget m ''command_id''" "dget ?n ''report_path'' = dget m ''report_path''"
    "dget ?n ''pending_report_path'' = dget m ''pending_report_path''" "dget ?n ''run_id'' = dget m ''run_id''"
    "dget ?n ''claim_generation'' = dget m ''claim_generation''" "dget ?n ''source'' = dget m ''source''" "dget ?n ''kind'' = dget m ''kind''"
    "dget ?n ''previous_status'' = dget m ''previous_status''" "dget ?n ''outcome'' = dget m ''outcome''"
    "dget ?n ''target_status'' = dget m ''target_status''" "dget ?n ''report_sha256'' = dget m ''report_sha256''"
    "dget ?n ''created_at'' = dget m ''created_at''" "dget ?n ''last_execution_error'' = dget m ''last_execution_error''"
    "dget ?n ''evidence_mode'' = dget m ''evidence_mode''"
    by (rule get, simp)+
  ultimately show ?thesis
    using assms(1) keys' error reason unfolding wf_metadata_def new gets ball_simps
    by (elim conjE) (intro conjI TrueI, assumption+)
qed

lemma settle_returns:
  assumes "read_json F files path = Inr (PyDict d)" "wf_metadata d" "expected \<in> {None, Some (the_str (dget d ''project_id''))}"
    and "status \<in> set PENDING_JOURNAL_STATUSES" "status \<noteq> ''pending''" "TIMESTAMP_RE now"
  shows "\<exists>n. settle F linesep now status reason expected None path files
      = (Inr n, files(path \<mapsto> Inr (text_written linesep (json_document (PyDict n)))))"
proof -
  obtain safe where safe: "safe_execution_error (PyStr reason) = Inr safe"
    using safe_execution_error_Inr [of "PyStr reason"] by auto
  have m: "validate_metadata (PyDict d) expected None = Inr (metadata_of d)"
    by (rule wf_metadata_validates [OF assms(2,3)]) simp
  have "wf_metadata (settled_metadata (metadata_of d) now status safe)"
    by (rule wf_settled [OF validated_metadata_wf(1) [OF m] assms(4-6) safe])
  then have "validate_metadata (PyDict (settled_metadata (metadata_of d) now status safe)) None None
      = Inr (metadata_of (settled_metadata (metadata_of d) now status safe))"
    by (rule wf_metadata_validates) simp_all
  then show ?thesis using assms(1) m safe by (simp add: settle_def write_text_atomic_def)
qed

text \<open>
  An acknowledgement changes the sidecar only, and only to a status that ends the wait for
  publication; the identity and the digest it holds stay as they were, and if an exception is raised
  the sidecar stays too.
\<close>

theorem acknowledgement_is_final:
  assumes "settle F linesep now status reason expected fails path files = (res, files')"
  shows "(\<forall>q. q \<noteq> path \<longrightarrow> files' q = files q) \<and> (\<forall>e. res = Inl e \<longrightarrow> files' = files)
    \<and> (\<forall>n. res = Inr n \<longrightarrow> wf_metadata n \<and> status \<noteq> ''pending'' \<and> dget n ''journal_status'' = PyStr status
        \<and> dget n ''remote_publish_pending'' = PyBool False
        \<and> files' path = Some (Inr (text_written linesep (json_document (PyDict n))))
        \<and> (\<exists>d. read_json F files path = Inr (PyDict d) \<and> (\<forall>k \<in> {''project_id'', ''command_id'', ''run_id'', ''claim_generation'',
              ''target_status'', ''report_sha256''}. dget n k = dget d k)))"
proof (cases res)
  case (Inl e)
  then have "files' = files"
    using assms by (auto simp: settle_def write_text_atomic_def split: sum.splits prod.splits option.splits)
  then show ?thesis using Inl by simp
next
  case (Inr n)
  obtain raw m safe where run: "read_json F files path = Inr raw" "validate_metadata raw expected None = Inr m"
      "validate_metadata (PyDict (settled_metadata m now status safe)) None None = Inr n"
    and files': "files' = files(path \<mapsto> Inr (text_written linesep (json_document (PyDict n))))"
    using assms Inr
    by (auto simp: settle_def write_text_atomic_def res_bind_Inr_iff split: sum.splits prod.splits option.splits)
  obtain d where d: "raw = PyDict d" "m = metadata_of d" using run(2) by (auto simp: validate_metadata_checks)
  have n: "n = metadata_of (settled_metadata m now status safe)" using run(3) by (auto simp: validate_metadata_checks)
  have wf: "wf_metadata n" by (rule validated_metadata_wf(1) [OF run(3)])
  have status: "dget n ''journal_status'' = PyStr status" "dget n ''remote_publish_pending'' = PyBool False"
    unfolding n metadata_of_get by (simp_all add: settled_metadata_def)
  moreover have "dget n ''remote_publish_pending'' = PyBool (dget n ''journal_status'' = PyStr ''pending'')"
    using wf unfolding wf_metadata_def by - (elim conjE, assumption)
  ultimately have "status \<noteq> ''pending''" by simp
  moreover have "dget n k = dget d k" if "k \<in> {''project_id'', ''command_id'', ''run_id'', ''claim_generation'', ''target_status'', ''report_sha256''}" for k
    using that unfolding n d(2) by (elim insertE emptyE; simp only: metadata_of_get; simp add: settled_metadata_def)
  ultimately show ?thesis using wf status run(1) d(1) files' Inr by auto
qed

theorem acknowledgement_is_final_witness:
  "\<exists>d n files'. settle (\<lambda>_. PyNone) [CHR 0x0A] ''t'' ''superseded'' ''won'' None None sample_pending_path
       ((\<lambda>_. None)(sample_pending_path \<mapsto> Inr (text_written [CHR 0x0A] (json_document (PyDict d))))) = (Inr n, files')
     \<and> dget n ''journal_status'' = PyStr ''superseded''"
proof -
  let ?d = "saved_metadata sample_pending_request ''t'' (report_name ''p'' 3) (pending_name ''p'' 3) None"
  let ?files = "(\<lambda>_. None)(sample_pending_path \<mapsto> Inr (text_written [CHR 0x0A] (json_document (PyDict ?d))))"
  have short: "short_int 3" "short_int 6" by (simp_all add: short_int_def show_nat_small)
  have fields: "dget ?d ''command_id'' = PyInt 3" "dget ?d ''claim_generation'' = PyInt 6"
    by (simp_all only: saved_metadata_get) (simp_all add: sample_pending_request_def)
  have "json_ok (PyDict ?d)"
    by (rule wf_metadata_json [OF sample_metadata_wf]) (simp_all only: fields type_test_simps short)
  then have "read_json (\<lambda>_. PyNone) ?files sample_pending_path = Inr (PyDict ?d)"
    using json_file_written(1) by (simp add: read_json_def is_linesep_def)
  moreover have "''superseded'' \<in> set PENDING_JOURNAL_STATUSES" "''superseded'' \<noteq> ''pending''" by code_simp+
  ultimately obtain n files' where "settle (\<lambda>_. PyNone) [CHR 0x0A] ''t'' ''superseded'' ''won'' None None sample_pending_path ?files
      = (Inr n, files')"
    using settle_returns [OF _ sample_metadata_wf _ _ _ sample_request_texts(3)] by blast
  then show ?thesis using acknowledgement_is_final by blast
qed

end
