(* ===== verification/Pending_Reconcile.thy ===== *)
theory Pending_Reconcile
  imports Pending_Files Git_Store
begin

text \<open>
  \<open>worker/pending_report.py\<close>, second part: the reconciliation of a saved report with the canonical
  branch, and the scan over all sidecars.  The canonical tree is what \<open>load_json\<close> gives for the state
  file, and the report file, which is absent, or present with its bytes or with the exception of
  reading it.  The publisher is an argument, as it is in the code; it is given the three callbacks
  and returns its result with the tree that is checked out afterwards.
\<close>

section \<open>The canonical tree\<close>

record canonical_tree =
  ct_state :: "pyexc + pydict"
  ct_report :: "(pyexc + string) option"

definition pe_field :: "pending_evidence \<Rightarrow> string \<Rightarrow> py" where
  "pe_field ev k = dget (pe_metadata ev) k"

definition canonical_report_matches :: "pending_evidence \<Rightarrow> (pyexc + string) option \<Rightarrow> pyexc + bool" where
  "canonical_report_matches ev report =
     (case res_bind (case report of None \<Rightarrow> Inl (OSError ''No such file or directory'') | Some r \<Rightarrow> r) text_read of
        Inl e \<Rightarrow> if is_os_error e then Inr False else Inl e
      | Inr t \<Rightarrow> Inr (PyStr (sha256_hex (utf8_encode t)) = pe_field ev ''report_sha256''))"

definition state_int :: "pydict \<Rightarrow> string \<Rightarrow> int \<Rightarrow> pyexc + int" where
  "state_int state key fallback =
     (let v = dget_or state key (PyInt fallback) in
      if is_bool v then Inr fallback
      else (case py_int v of
          Inr i \<Rightarrow> Inr i
        | Inl e \<Rightarrow> if is_type_error e \<or> is_value_error e then Inr fallback else Inl e))"

definition lease_matches :: "pending_evidence \<Rightarrow> pydict \<Rightarrow> pyexc + bool" where
  "lease_matches ev state =
     matches_execution_lease state (pe_field ev ''run_id'') (pe_field ev ''command_id'') (pe_field ev ''claim_generation'')
       (Some (the_str (pe_field ev ''source''))) None (Some (the_str (pe_field ev ''project_id'')))"

definition pe_command :: "pending_evidence \<Rightarrow> int" where
  "pe_command ev = the_int (pe_field ev ''command_id'')"

section \<open>The callbacks\<close>

definition negated :: "pyexc + bool \<Rightarrow> pyexc + bool" where
  "negated r = res_bind r (\<lambda>b. Inr (\<not> b))"

definition pending_expected :: "pending_evidence \<Rightarrow> canonical_tree \<Rightarrow> pyexc + bool" where
  "pending_expected ev tree = res_bind (ct_state tree) (\<lambda>current. and_chain
     [res_bind (state_int current ''latest_report'' (- 1)) (\<lambda>l. Inr (l = pe_command ev - 1)),
      Inr (ct_report tree = None),
      lease_matches ev current])"

definition pending_already_applied :: "pending_evidence \<Rightarrow> canonical_tree \<Rightarrow> pyexc + bool" where
  "pending_already_applied ev tree = res_bind (ct_state tree) (\<lambda>current. and_chain
     [Inr (ct_report tree \<noteq> None),
      res_bind (state_int current ''latest_report'' (- 1)) (\<lambda>l. Inr (pe_command ev \<le> l)),
      canonical_report_matches ev (ct_report tree),
      negated (lease_matches ev current)])"

definition reported_state :: "pending_evidence \<Rightarrow> string \<Rightarrow> pydict \<Rightarrow> pyexc + pydict" where
  "reported_state ev now current =
     res_bind (state_int current ''generation'' 0) (\<lambda>g.
     res_bind (report_generation (PyInt g)) (\<lambda>g'.
     let u = AList.update ''updated_at'' (PyStr now)
           (AList.update ''status'' (pe_field ev ''target_status'')
           (AList.update ''worker_pid'' PyNone
           (AList.update ''active_run'' PyNone
           (AList.update ''generation'' (PyInt g')
           (AList.update ''latest_report'' (pe_field ev ''command_id'') current))))) in
     Inr (if pe_field ev ''last_execution_error'' = PyNone then AList.delete ''last_execution_error'' u
          else AList.update ''last_execution_error'' (pe_field ev ''last_execution_error'') u)))"

definition pending_payload :: "pending_evidence \<Rightarrow> string \<Rightarrow> canonical_tree \<Rightarrow> pyexc + canonical_tree" where
  "pending_payload ev now tree =
     res_bind (ct_state tree) (\<lambda>current.
     res_bind (reported_state ev now current) (\<lambda>updated.
       Inr \<lparr>ct_state = Inr updated, ct_report = Some (Inr (utf8_encode (pe_report_text ev)))\<rparr>))"

section \<open>One report\<close>

type_synonym 'r publisher =
  "(canonical_tree \<Rightarrow> pyexc + bool) \<Rightarrow> (canonical_tree \<Rightarrow> pyexc + bool) \<Rightarrow> (canonical_tree \<Rightarrow> pyexc + canonical_tree) \<Rightarrow>
     (pyexc + 'r) \<times> canonical_tree"

text \<open>The surroundings of one reconciliation: clock, line ends, and the exception of the one write.\<close>

record setting =
  st_float :: "string \<Rightarrow> py"
  st_linesep :: string
  st_now :: string
  st_fails :: "pyexc option"

definition acknowledge :: "setting \<Rightarrow> pending_evidence \<Rightarrow> string \<Rightarrow> string \<Rightarrow> files \<Rightarrow> (pyexc + string) \<times> files" where
  "acknowledge s ev status reason files =
     (case write_status (st_float s) (st_linesep s) (st_now s) (st_fails s) ev status reason files of
        (Inl e, files') \<Rightarrow> (Inl e, files')
      | (Inr _, files') \<Rightarrow> (Inr status, files'))"

definition refuse :: "setting \<Rightarrow> pending_evidence \<Rightarrow> string \<Rightarrow> files \<Rightarrow> (pyexc + string) \<times> files" where
  "refuse s ev reason files =
     (case mark_conflict_best_effort (st_float s) (st_linesep s) (st_now s) (st_fails s) (pe_metadata_path ev) reason files of
        (Some e, files') \<Rightarrow> (Inl e, files')
      | (None, files') \<Rightarrow> (Inr ''conflict'', files'))"

text \<open>\<open>raising\<close>: the rest of the function, or the exception with the files as they are.\<close>

definition raising :: "pyexc + 'a \<Rightarrow> files \<Rightarrow> ('a \<Rightarrow> (pyexc + string) \<times> files) \<Rightarrow> (pyexc + string) \<times> files" where
  "raising r files k = (case r of Inl e \<Rightarrow> (Inl e, files) | Inr x \<Rightarrow> k x)"

lemma raising_simps [simp]: "raising (Inl e) files k = (Inl e, files)" "raising (Inr x) files k = k x"
  by (simp_all add: raising_def)

definition lost_race :: "setting \<Rightarrow> pending_evidence \<Rightarrow> canonical_tree \<Rightarrow> files \<Rightarrow> (pyexc + string) \<times> files" where
  "lost_race s ev tree files =
     (let refused = refuse s ev ''canonical state changed during pending report CAS; publication refused'' files in
      case ct_state tree of
        Inl e \<Rightarrow> if is_os_error e \<or> is_worker_error e then refused else (Inl e, files)
      | Inr raced \<Rightarrow>
          raising (state_int raced ''latest_report'' (- 1)) files (\<lambda>latest.
          raising (lease_matches ev raced) files (\<lambda>matches.
          raising (and_chain [Inr (pe_command ev \<le> latest), Inr (ct_report tree \<noteq> None),
              canonical_report_matches ev (ct_report tree), Inr (\<not> matches)]) files (\<lambda>won.
            if won then acknowledge s ev ''superseded'' ''a concurrent canonical publisher won the exact report CAS'' files
            else refused))))"

definition reconcile_one ::
    "setting \<Rightarrow> 'r publisher \<Rightarrow> pending_evidence \<Rightarrow> canonical_tree \<Rightarrow> files \<Rightarrow> (pyexc + string) \<times> files"
where
  "reconcile_one s publish ev tree files =
     (if pe_field ev ''journal_status'' \<noteq> PyStr ''pending'' \<or> \<not> truthy (pe_field ev ''remote_publish_pending'')
      then (Inr ''ignored'', files)
      else (case ct_state tree of
        Inl e \<Rightarrow> (if is_os_error e \<or> is_worker_error e then Inr ''pending'' else Inl e, files)
      | Inr state \<Rightarrow>
          raising (lease_matches ev state) files (\<lambda>run_matches.
          raising (state_int state ''latest_report'' (- 1)) files (\<lambda>latest.
          if ct_report tree \<noteq> None \<or> pe_command ev \<le> latest
          then raising (and_chain [Inr (ct_report tree \<noteq> None), Inr (pe_command ev \<le> latest),
              canonical_report_matches ev (ct_report tree)]) files (\<lambda>exact.
            if exact
            then (if \<not> run_matches
                  then acknowledge s ev ''superseded'' ''canonical report and latest_report already contain this exact pending result'' files
                  else refuse s ev ''canonical report advanced while the original execution lease still matched'' files)
            else refuse s ev ''canonical report/state is inconsistent with pending report integrity'' files)
          else if latest \<noteq> pe_command ev - 1 \<or> \<not> run_matches
          then refuse s ev ''canonical state no longer matches the exact pending execution lease'' files
          else (case publish (pending_expected ev) (pending_already_applied ev) (pending_payload ev (st_now s)) of
            (Inr _, _) \<Rightarrow> acknowledge s ev ''reconciled''
              ''completed pending report published with Protocol v2 generation/CAS'' files
          | (Inl (CASConflict _), tree') \<Rightarrow> lost_race s ev tree' files
          | (Inl e, _) \<Rightarrow> (if is_worker_error e then Inr ''pending'' else Inl e, files))))))"

text \<open>The publisher of the program.\<close>

definition git_publisher :: "canonical_tree cas_attempt list \<Rightarrow> canonical_tree \<Rightarrow> canonical_tree cas_result publisher" where
  "git_publisher attempts remote expected already build =
     (case publish_cas expected already build attempts remote of (res, remote', n) \<Rightarrow> (res, remote'))"

section \<open>The scan\<close>

text \<open>
  For every sidecar, in the order of the listing: its path, and what the reconciliation meets: the
  setting, the publisher and the tree that is checked out.
\<close>

type_synonym 'r scan_item = "string list \<times> setting \<times> 'r publisher \<times> canonical_tree"

definition is_pending_report_error :: "pyexc \<Rightarrow> bool" where
  "is_pending_report_error e = (case e of PendingReportError _ \<Rightarrow> True | _ \<Rightarrow> False)"

text \<open>
  The pre-filter on the evidence mode: \<open>Inr True\<close> if the sidecar is of the wanted mode.  A document
  that is not an object has no \<open>get\<close>.
\<close>

definition mode_wanted :: "(string \<Rightarrow> py) \<Rightarrow> string option \<Rightarrow> string list \<Rightarrow> files \<Rightarrow> pyexc + bool" where
  "mode_wanted float_of mode path files =
     (case mode of None \<Rightarrow> Inr True
      | Some m \<Rightarrow>
          (case read_json float_of files path of
             Inl e \<Rightarrow> if is_unreadable e then Inr False else Inl e
           | Inr raw \<Rightarrow> Inr (is_dict raw \<and> py_eq (dget_or (the_dict raw) ''evidence_mode'' (PyStr ''legacy'')) (PyStr m))))"

fun reconcile_scan ::
    "(string list \<Rightarrow> string list) \<Rightarrow> string list \<Rightarrow> string list \<Rightarrow> string option \<Rightarrow> 'r scan_item list \<Rightarrow> nat \<Rightarrow> files \<Rightarrow>
       (pyexc + nat) \<times> files"
where
  "reconcile_scan resolve bridge_root blocked mode [] completed files = (Inr completed, files)"
| "reconcile_scan resolve bridge_root blocked mode ((path, s, publish, tree) # items) completed files =
     (if last (butlast path) \<in> set blocked then reconcile_scan resolve bridge_root blocked mode items completed files
      else (case mode_wanted (st_float s) mode path files of
        Inl e \<Rightarrow> (Inl e, files)
      | Inr False \<Rightarrow> reconcile_scan resolve bridge_root blocked mode items completed files
      | Inr True \<Rightarrow>
      (case load_evidence (st_float s) resolve bridge_root path files of
        Inl e \<Rightarrow>
          (if is_os_error e \<or> is_pending_report_error e
           then (case mark_conflict_best_effort (st_float s) (st_linesep s) (st_now s) (st_fails s) path
                   (''pending report evidence validation failed: '' @ (if is_pending_report_error e then ''PendingReportError'' else ''OSError'')) files of
               (Some e', files') \<Rightarrow> (Inl e', files')
             | (None, files') \<Rightarrow> reconcile_scan resolve bridge_root blocked mode items completed files')
           else (Inl e, files))
      | Inr ev \<Rightarrow>
          (case reconcile_one s publish ev tree files of
             (Inl e, files') \<Rightarrow>
               (if is_os_error e \<or> is_type_error e \<or> is_value_error e
                then reconcile_scan resolve bridge_root blocked mode items completed files'
                else (Inl e, files'))
           | (Inr result, files') \<Rightarrow>
               reconcile_scan resolve bridge_root blocked mode items
                 (if result \<in> {''reconciled'', ''superseded''} then Suc completed else completed) files'))))"

definition reconcile_pending_reports ::
    "(string list \<Rightarrow> string list) \<Rightarrow> string list \<Rightarrow> string list \<Rightarrow> string option \<Rightarrow> 'r scan_item list \<Rightarrow> files \<Rightarrow>
       (pyexc + nat) \<times> files"
where
  "reconcile_pending_reports resolve bridge_root blocked mode items files =
     reconcile_scan resolve bridge_root blocked mode items 0 files"

section \<open>The publication\<close>

definition sound_evidence :: "pending_evidence \<Rightarrow> bool" where
  "sound_evidence ev \<longleftrightarrow> wf_metadata (pe_metadata ev)
     \<and> pe_field ev ''report_sha256'' = PyStr (sha256_hex (utf8_encode (pe_report_text ev)))
     \<and> CHR 0x0D \<notin> set (pe_report_text ev)"

lemma load_evidence_parts:
  assumes "load_evidence F resolve base path files = Inr ev"
  shows "\<exists>raw p c n pending. validate_metadata raw (Some p) (Some c) = Inr n \<and> pe_metadata ev = n
      \<and> read_text files pending = Inr (pe_report_text ev) \<and> PyStr (sha256_hex (utf8_encode (pe_report_text ev))) = dget n ''report_sha256''
      \<and> pe_metadata_path ev = resolve path \<and> p = last (butlast (resolve path))"
  using assms by (auto simp: load_evidence_def Let_def res_bind_Inr_iff split: if_splits option.splits) blast+

lemma read_text_no_return: "read_text files path = Inr t \<Longrightarrow> CHR 0x0D \<notin> set t"
proof -
  assume "read_text files path = Inr t"
  then have "\<exists>s. t = universal_newlines s"
    by (auto simp: read_text_def text_read_def res_bind_Inr_iff split: option.splits)
  then show ?thesis using universal_newlines_no_return by blast
qed

lemma loaded_sound:
  assumes "load_evidence F resolve base path files = Inr ev"
  shows "sound_evidence ev" "pe_metadata_path ev = resolve path"
    "pe_field ev ''project_id'' = PyStr (last (butlast (resolve path)))"
proof -
  obtain raw p c n pending where valid: "validate_metadata raw (Some p) (Some c) = Inr n" "pe_metadata ev = n"
      "p = last (butlast (resolve path))"
    and rest: "read_text files pending = Inr (pe_report_text ev)" "PyStr (sha256_hex (utf8_encode (pe_report_text ev))) = dget n ''report_sha256''"
      "pe_metadata_path ev = resolve path"
    using load_evidence_parts [OF assms] by blast
  have "CHR 0x0D \<notin> set (pe_report_text ev)"
    by (rule read_text_no_return [OF rest(1)])
  then show "sound_evidence ev" "pe_metadata_path ev = resolve path"
    "pe_field ev ''project_id'' = PyStr (last (butlast (resolve path)))"
    using validated_identity [OF valid(1)] valid rest by (simp_all add: sound_evidence_def pe_field_def)
qed

lemma state_int_PyInt: "dget_or d k (PyInt f) = PyInt i \<Longrightarrow> state_int d k f = Inr i"
  by (simp add: state_int_def py_int_def)

lemma dget_or_update [simp]: "dget_or (AList.update k v d) k' w = (if k' = k then v else dget_or d k' w)"
  by (simp add: dget_or_def update_conv')

lemma dget_or_delete [simp]: "dget_or (AList.delete k d) k' w = (if k' = k then w else dget_or d k' w)"
  by (simp add: dget_or_def delete_conv')

lemma reported_state_fields:
  assumes "reported_state ev now current = Inr u" "sound_evidence ev"
  shows "state_int u ''latest_report'' f = Inr (pe_command ev)" "lease_matches ev u = Inr False"
proof -
  have wf: "wf_metadata (pe_metadata ev)" using assms(2) by (simp add: sound_evidence_def)
  obtain p c where c: "pe_field ev ''command_id'' = PyInt c" "1 \<le> c" "pe_field ev ''project_id'' = PyStr p"
    using wf unfolding wf_metadata_def pe_field_def by blast
  have "in_strs (pe_field ev ''target_status'') TARGET_STATUSES"
    using wf unfolding wf_metadata_def pe_field_def by - (elim conjE, assumption)
  then have running: "pe_field ev ''target_status'' \<noteq> PyStr ''CODEX_RUNNING''" by (auto simp: TARGET_STATUSES_def)
  have u: "dget_or u ''latest_report'' (PyInt f) = pe_field ev ''command_id''" "dget u ''status'' = pe_field ev ''target_status''"
    using assms(1) by (auto simp: reported_state_def res_bind_Inr_iff Let_def split: if_splits)
  show "state_int u ''latest_report'' f = Inr (pe_command ev)"
    by (rule state_int_PyInt) (simp add: u c pe_command_def)
  obtain r g where r: "pe_field ev ''run_id'' = PyStr r" "RUN_ID_RE r" "pe_field ev ''claim_generation'' = PyInt g" "0 \<le> g"
    using wf unfolding wf_metadata_def pe_field_def by blast
  have "r \<noteq> []" using r(2) by (auto simp: RUN_ID_RE_def strip_prefix_def has_prefix_def)
  then show "lease_matches ev u = Inr False"
    using running by (simp add: lease_matches_def matches_execution_lease_def Let_def r c u int_at_least_def)
qed

lemma pending_cas:
  assumes "sound_evidence ev"
  shows "cas_operation (pending_expected ev) (pending_already_applied ev) (pending_payload ev now)"
proof
  fix tree tree'
  assume "pending_payload ev now tree = Inr tree'"
  then obtain current u where u: "reported_state ev now current = Inr u"
      "tree' = \<lparr>ct_state = Inr u, ct_report = Some (Inr (utf8_encode (pe_report_text ev)))\<rparr>"
    by (auto simp: pending_payload_def res_bind_Inr_iff)
  have "canonical_report_matches ev (ct_report tree') = Inr True"
    using assms by (simp add: canonical_report_matches_def u(2) text_read_encoded sound_evidence_def)
  then show "pending_already_applied ev tree' = Inr True"
    using reported_state_fields [OF u(1) assms] by (simp add: pending_already_applied_def u(2) negated_def)
qed

lemma published_is_canonical:
  assumes "sound_evidence ev"
    and "publish_cas (pending_expected ev) (pending_already_applied ev) (pending_payload ev now) attempts remote = (Inr x, remote', n)"
  shows "pending_already_applied ev remote' = Inr True"
proof -
  note cas = pending_cas [OF assms(1), of now]
  have "cas_attempts expected already build as r k = (Inr x, r', k') \<Longrightarrow> cas_operation expected already build \<Longrightarrow>
      already r' = Inr True" for expected already and build :: "canonical_tree \<Rightarrow> pyexc + canonical_tree" and as r k r' k'
  proof (induction as arbitrary: r k)
    case (Cons a as)
    then show ?case
      by (auto simp: Let_def proceed_def dest: cas_operation.build_applies
        split: option.splits sum.splits bool.splits if_splits push_outcome.splits)
  qed simp
  then show ?thesis using assms(2) cas by (auto simp: publish_cas_def split: if_splits)
qed

text \<open>
  C2: provided no other writer undoes the publication of the report, the reconciliation puts a saved
  report on the canonical branch at most once, however its attempts interleave with those writers and
  however its pushes end; where it reached the branch, or the store returns, the branch holds exactly
  this report, its state counts it, and the lease is gone.
\<close>

theorem pending_report_published_at_most_once:
  assumes "load_evidence F resolve base path files = Inr ev"
    and "publish_cas (pending_expected ev) (pending_already_applied ev) (pending_payload ev now) attempts remote = (res, remote', n)"
    and "\<forall>a \<in> set attempts. \<forall>t. pending_already_applied ev t = Inr True \<longrightarrow> pending_already_applied ev (ca_others a t) = Inr True"
  shows "n \<le> 1 \<and> (n = 1 \<or> (\<exists>x. res = Inr x) \<longrightarrow> pending_already_applied ev remote' = Inr True)"
proof -
  note sound = loaded_sound(1) [OF assms(1)]
  have "n \<le> 1 \<and> (n = 1 \<longrightarrow> pending_already_applied ev remote' = Inr True)"
  proof (cases "attempts = []")
    case False
    then have "cas_attempts (pending_expected ev) (pending_already_applied ev) (pending_payload ev now) attempts remote 0 = (res, remote', n)"
      using assms(2) by (simp add: publish_cas_def)
    from cas_operation.attempts_at_most_once [OF pending_cas [OF sound] _ this]
    show ?thesis using assms(3) cas_operation.stable_def [OF pending_cas [OF sound]] by auto
  qed (use assms(2) in \<open>auto simp: publish_cas_def\<close>)
  then show ?thesis using published_is_canonical [OF sound] assms(2) by blast
qed

definition sample_pending_state :: pydict where
  "sample_pending_state = [(''project_id'', PyStr ''p''), (''status'', PyStr ''CODEX_RUNNING''),
     (''generation'', PyInt 6), (''latest_report'', PyInt 2),
     (''active_run'', PyDict [(''run_id'', PyStr ''run-1''), (''command_id'', PyInt 3), (''claimed_generation'', PyInt 6),
        (''source'', PyStr ''user_direct'')])]"

definition sample_pending_tree :: canonical_tree where
  "sample_pending_tree = \<lparr>ct_state = Inr sample_pending_state, ct_report = None\<rparr>"

definition accepted_push :: "canonical_tree cas_attempt list" where
  "accepted_push = [plain_attempt (\<lambda>t. t) PushAccepted]"

lemma sample_evidence_fields:
  "pe_field sample_evidence ''project_id'' = PyStr ''p''" "pe_field sample_evidence ''command_id'' = PyInt 3"
  "pe_field sample_evidence ''run_id'' = PyStr ''run-1''" "pe_field sample_evidence ''claim_generation'' = PyInt 6"
  "pe_field sample_evidence ''source'' = PyStr ''user_direct''" "pe_field sample_evidence ''target_status'' = PyStr ''REPORT_READY''"
  "pe_field sample_evidence ''last_execution_error'' = PyNone" "pe_field sample_evidence ''journal_status'' = PyStr ''pending''"
  "pe_field sample_evidence ''remote_publish_pending'' = PyBool True" "pe_command sample_evidence = 3"
  "pe_metadata_path sample_evidence = sample_pending_path"
proof -
  have "dget (saved_metadata q now r p None) ''last_execution_error'' = PyNone" for q now r p
    by (simp add: saved_metadata_def optional_text_def)
  then have "pe_field sample_evidence ''last_execution_error'' = optional_text (safe_execution_error PyNone)"
    by (simp add: pe_field_def sample_evidence_def)
  then show "pe_field sample_evidence ''last_execution_error'' = PyNone" by (simp add: safe_execution_error_def optional_text_def)
qed (simp_all add: pe_command_def pe_field_def sample_evidence_def saved_metadata_get sample_pending_request_def)

lemma sample_lease: "lease_matches sample_evidence sample_pending_state = Inr True"
  unfolding lease_matches_def sample_evidence_fields by code_simp

lemma sample_publication:
  "\<exists>new. publish_cas (pending_expected sample_evidence) (pending_already_applied sample_evidence)
     (pending_payload sample_evidence ''t'') accepted_push sample_pending_tree = (Inr (Published new), new, 1)"
proof -
  let ?d = sample_pending_state
  have state: "ct_state sample_pending_tree = Inr ?d" "ct_report sample_pending_tree = None"
    by (simp_all add: sample_pending_tree_def)
  have ints: "state_int ?d ''latest_report'' (- 1) = Inr 2" "state_int ?d ''generation'' 0 = Inr 6"
    by (rule state_int_PyInt, simp add: sample_pending_state_def dget_or_def)+
  have "pending_expected sample_evidence sample_pending_tree = Inr True"
    using sample_lease by (simp add: pending_expected_def state ints sample_evidence_fields)
  moreover have "pending_already_applied sample_evidence sample_pending_tree = Inr False"
    by (simp add: pending_already_applied_def state)
  moreover have "\<exists>new. pending_payload sample_evidence ''t'' sample_pending_tree = Inr new \<and> new \<noteq> sample_pending_tree"
  proof -
    have "\<exists>u. reported_state sample_evidence ''t'' ?d = Inr u"
      by (simp add: reported_state_def ints report_clock.tick_nonneg Let_def)
    then show ?thesis using state by (auto simp: pending_payload_def sample_pending_tree_def)
  qed
  ultimately show ?thesis by (auto simp: publish_cas_def accepted_push_def plain_attempt_def)
qed

theorem pending_report_published_at_most_once_witness:
  "snd (snd (publish_cas (pending_expected sample_evidence) (pending_already_applied sample_evidence)
     (pending_payload sample_evidence ''t'') accepted_push sample_pending_tree)) \<le> 1"
proof -
  obtain files where load: "load_evidence (\<lambda>_. PyNone) (\<lambda>p. p) [] sample_pending_path files = Inr sample_evidence"
    using sample_evidence_loaded by blast
  obtain new where run: "publish_cas (pending_expected sample_evidence) (pending_already_applied sample_evidence)
     (pending_payload sample_evidence ''t'') accepted_push sample_pending_tree = (Inr (Published new), new, 1)"
    using sample_publication by blast
  have "\<forall>a \<in> set accepted_push. \<forall>t. pending_already_applied sample_evidence t = Inr True \<longrightarrow>
      pending_already_applied sample_evidence (ca_others a t) = Inr True"
    by (simp add: accepted_push_def plain_attempt_def)
  from pending_report_published_at_most_once [OF load run this] show ?thesis by (simp add: run)
qed

section \<open>The outcome\<close>

lemma acknowledge_Inr:
  assumes "acknowledge s ev status reason files = (Inr r, files')"
  shows "r = status \<and> (\<exists>n. files' = files(pe_metadata_path ev \<mapsto> Inr (text_written (st_linesep s) (json_document (PyDict n))))
      \<and> dget n ''journal_status'' = PyStr status)"
proof -
  let ?acked = "write_status (st_float s) (st_linesep s) (st_now s) (st_fails s) ev status reason files"
  obtain res f where acked: "?acked = (res, f)" by (cases ?acked)
  obtain n where n: "res = Inr n" "f = files'" "r = status"
    using assms by (cases res) (simp_all add: acknowledge_def acked)
  have r: "r = status" by (rule n(3))
  have "settle (st_float s) (st_linesep s) (st_now s) status reason None (st_fails s) (pe_metadata_path ev) files = (Inr n, files')"
    using acked unfolding write_status_def n by (rule contrapos_pp) simp
  then obtain m safe where "validate_metadata (PyDict (settled_metadata m (st_now s) status safe)) None None = Inr n"
      "files' = files(pe_metadata_path ev \<mapsto> Inr (text_written (st_linesep s) (json_document (PyDict n))))"
    by (auto simp: settle_def write_text_atomic_def res_bind_Inr_iff split: sum.splits prod.splits option.splits)
  moreover from this have "dget n ''journal_status'' = PyStr status"
    by (auto simp: validate_metadata_checks) (simp add: settled_metadata_def)
  ultimately show ?thesis using r by blast
qed

lemma refuse_Inr: "refuse s ev reason files = (Inr r, files') \<Longrightarrow> r = ''conflict''"
  by (auto simp: refuse_def split: prod.splits option.splits)

lemma raising_Inr: "raising r files k = (Inr x, files') \<longleftrightarrow> (\<exists>y. r = Inr y \<and> k y = (Inr x, files'))"
  by (cases r) simp_all

lemma lost_race_Inr:
  assumes "lost_race s ev tree files = (Inr r, files')" "r \<noteq> ''conflict''"
  shows "pending_already_applied ev tree = Inr True \<and> (\<exists>reason. acknowledge s ev r reason files = (Inr r, files'))"
proof (cases "ct_state tree")
  case (Inl e)
  then show ?thesis using assms refuse_Inr by (auto simp: lost_race_def Let_def split: if_splits)
next
  case (Inr raced)
  obtain latest matches won where run: "state_int raced ''latest_report'' (- 1) = Inr latest" "lease_matches ev raced = Inr matches"
      "and_chain [Inr (pe_command ev \<le> latest), Inr (ct_report tree \<noteq> None), canonical_report_matches ev (ct_report tree), Inr (\<not> matches)] = Inr won"
      "(if won then acknowledge s ev ''superseded'' ''a concurrent canonical publisher won the exact report CAS'' files
        else refuse s ev ''canonical state changed during pending report CAS; publication refused'' files) = (Inr r, files')"
    using assms(1) by (auto simp: lost_race_def Let_def Inr raising_Inr)
  have won: "won" using run(4) assms(2) refuse_Inr by (auto split: if_splits)
  then have "r = ''superseded''" using run(4) acknowledge_Inr by (metis if_True)
  then show ?thesis
    using run won by (auto simp: pending_already_applied_def Inr negated_def)
qed

lemma reconcile_one_acknowledged:
  assumes "reconcile_one s publish ev tree files = (Inr r, files')" "r \<in> {''reconciled'', ''superseded''}"
  shows "\<exists>reason. acknowledge s ev r reason files = (Inr r, files')"
    and "pending_already_applied ev tree = Inr True
      \<or> (\<exists>x. fst (publish (pending_expected ev) (pending_already_applied ev) (pending_payload ev (st_now s))) = Inr x)
      \<or> pending_already_applied ev (snd (publish (pending_expected ev) (pending_already_applied ev) (pending_payload ev (st_now s)))) = Inr True"
proof -
  let ?publish = "publish (pending_expected ev) (pending_already_applied ev) (pending_payload ev (st_now s))"
  have pending: "pe_field ev ''journal_status'' = PyStr ''pending''" "truthy (pe_field ev ''remote_publish_pending'')"
    using assms by (auto simp: reconcile_one_def split: if_splits)
  obtain state where state: "ct_state tree = Inr state"
    using assms pending by (cases "ct_state tree") (auto simp: reconcile_one_def split: if_splits)
  obtain run_matches latest where ints: "lease_matches ev state = Inr run_matches" "state_int state ''latest_report'' (- 1) = Inr latest"
    using assms(1) pending by (auto simp: reconcile_one_def state raising_Inr)
  have not_refused: "refuse s ev reason files \<noteq> (Inr r, files')" for reason
    using refuse_Inr assms(2) by fastforce
  show "\<exists>reason. acknowledge s ev r reason files = (Inr r, files')" and
    "pending_already_applied ev tree = Inr True \<or> (\<exists>x. fst ?publish = Inr x) \<or> pending_already_applied ev (snd ?publish) = Inr True"
  proof (atomize (full), cases "ct_report tree \<noteq> None \<or> pe_command ev \<le> latest")
    case True
    then obtain exact where exact: "and_chain [Inr (ct_report tree \<noteq> None), Inr (pe_command ev \<le> latest),
          canonical_report_matches ev (ct_report tree)] = Inr exact"
        "(if exact
            then (if \<not> run_matches
                  then acknowledge s ev ''superseded'' ''canonical report and latest_report already contain this exact pending result'' files
                  else refuse s ev ''canonical report advanced while the original execution lease still matched'' files)
            else refuse s ev ''canonical report/state is inconsistent with pending report integrity'' files) = (Inr r, files')"
      using assms(1) pending ints by (auto simp: reconcile_one_def state raising_Inr)
    then have e: "exact" "\<not> run_matches" using not_refused by (auto split: if_splits)
    then have ack: "acknowledge s ev ''superseded'' ''canonical report and latest_report already contain this exact pending result'' files = (Inr r, files')"
      using exact(2) by simp
    moreover have "r = ''superseded''" using acknowledge_Inr [OF ack] by simp
    moreover have "pending_already_applied ev tree = Inr True"
      using exact(1) e ints by (simp add: pending_already_applied_def state negated_def)
    ultimately show "(\<exists>reason. acknowledge s ev r reason files = (Inr r, files')) \<and>
        (pending_already_applied ev tree = Inr True \<or> (\<exists>x. fst ?publish = Inr x) \<or> pending_already_applied ev (snd ?publish) = Inr True)"
      by blast
  next
    case False
    then have rest: "latest = pe_command ev - 1" "run_matches"
      using assms(1) pending ints not_refused by (auto simp: reconcile_one_def state split: if_splits)
    obtain res tree' where publish: "?publish = (res, tree')" by (cases ?publish)
    have run: "(case res of Inr _ \<Rightarrow> acknowledge s ev ''reconciled'' ''completed pending report published with Protocol v2 generation/CAS'' files
        | Inl (CASConflict _) \<Rightarrow> lost_race s ev tree' files
        | Inl e \<Rightarrow> (if is_worker_error e then Inr ''pending'' else Inl e, files)) = (Inr r, files')"
      using assms(1) pending ints rest False publish
      by (auto simp: reconcile_one_def state split: sum.splits pyexc.splits)
    show "(\<exists>reason. acknowledge s ev r reason files = (Inr r, files')) \<and>
        (pending_already_applied ev tree = Inr True \<or> (\<exists>x. fst ?publish = Inr x) \<or> pending_already_applied ev (snd ?publish) = Inr True)"
    proof (cases res)
      case (Inr x)
      then show ?thesis using run acknowledge_Inr publish by fastforce
    next
      case (Inl e)
      show ?thesis
      proof (cases "\<exists>m. e = CASConflict m")
        case True
        then have "lost_race s ev tree' files = (Inr r, files')" using run Inl by auto
        then show ?thesis using lost_race_Inr assms(2) publish by fastforce
      next
        case False
        then show ?thesis using run Inl assms(2) by (auto split: pyexc.splits if_splits)
      qed
    qed
  qed
qed

text \<open>
  C3: a sidecar is marked as reconciled or superseded only when a canonical tree was seen that holds
  exactly its report, whose state counts the report and no longer holds the lease of the run.
\<close>

theorem acknowledged_report_is_canonical:
  assumes "load_evidence F resolve base path files0 = Inr ev"
    and "reconcile_one s (git_publisher attempts remote) ev tree files = (Inr r, files')"
    and "r \<in> {''reconciled'', ''superseded''}"
  shows "(\<exists>t. pending_already_applied ev t = Inr True
        \<and> (t = tree \<or> (\<exists>res n. publish_cas (pending_expected ev) (pending_already_applied ev) (pending_payload ev (st_now s)) attempts remote
              = (res, t, n))))
    \<and> (\<exists>n. files' = files(resolve path \<mapsto> Inr (text_written (st_linesep s) (json_document (PyDict n))))
        \<and> dget n ''journal_status'' = PyStr r)"
proof -
  obtain res t n where run: "publish_cas (pending_expected ev) (pending_already_applied ev) (pending_payload ev (st_now s)) attempts remote
      = (res, t, n)" by (rule prod_cases3)
  note outcome = reconcile_one_acknowledged [OF assms(2,3), unfolded git_publisher_def run prod.case fst_conv snd_conv]
  then have "pending_already_applied ev tree = Inr True \<or> pending_already_applied ev t = Inr True"
    using published_is_canonical [OF loaded_sound(1) [OF assms(1)]] run by blast
  moreover obtain reason where "acknowledge s ev r reason files = (Inr r, files')" using outcome(1) by blast
  ultimately show ?thesis
    using acknowledge_Inr run loaded_sound(2) [OF assms(1)] by metis
qed

definition sample_setting :: setting where
  "sample_setting = \<lparr>st_float = \<lambda>_. PyNone, st_linesep = [CHR 0x0A], st_now = ''t'', st_fails = None\<rparr>"

lemma sample_reconciled:
  assumes "read_json (\<lambda>_. PyNone) files sample_pending_path = Inr (PyDict d)" "wf_metadata d"
  shows "\<exists>files'. reconcile_one sample_setting (git_publisher accepted_push sample_pending_tree) sample_evidence sample_pending_tree files
    = (Inr ''reconciled'', files')"
proof -
  obtain new where run: "publish_cas (pending_expected sample_evidence) (pending_already_applied sample_evidence)
     (pending_payload sample_evidence ''t'') accepted_push sample_pending_tree = (Inr (Published new), new, 1)"
    using sample_publication by blast
  have state: "ct_state sample_pending_tree = Inr sample_pending_state" "ct_report sample_pending_tree = None"
    by (simp_all add: sample_pending_tree_def)
  have latest: "state_int sample_pending_state ''latest_report'' (- 1) = Inr 2"
    by (rule state_int_PyInt) (simp add: sample_pending_state_def dget_or_def)
  have status: "''reconciled'' \<in> set PENDING_JOURNAL_STATUSES" "''reconciled'' \<noteq> ''pending''" by code_simp+
  obtain n files' where settled: "settle (\<lambda>_. PyNone) [CHR 0x0A] ''t'' ''reconciled'' reason None None sample_pending_path files = (Inr n, files')"
    if "reason = ''completed pending report published with Protocol v2 generation/CAS''" for reason
    using settle_returns [OF assms _ status sample_request_texts(3)] by blast
  have "acknowledge sample_setting sample_evidence ''reconciled'' ''completed pending report published with Protocol v2 generation/CAS'' files
      = (Inr ''reconciled'', files')"
    using status settled [OF refl] by (simp add: acknowledge_def write_status_def sample_setting_def sample_evidence_fields)
  moreover have "st_now sample_setting = ''t''" by (simp add: sample_setting_def)
  ultimately show ?thesis
    using run sample_lease latest
    by (simp add: reconcile_one_def state sample_evidence_fields truthy_def git_publisher_def)
qed

theorem acknowledged_report_is_canonical_witness:
  "\<exists>files r files' t. reconcile_one sample_setting (git_publisher accepted_push sample_pending_tree) sample_evidence sample_pending_tree files
      = (Inr r, files') \<and> pending_already_applied sample_evidence t = Inr True"
proof -
  obtain files d where load: "load_evidence (\<lambda>_. PyNone) (\<lambda>p. p) [] sample_pending_path files = Inr sample_evidence"
      and d: "wf_metadata d" "read_json (\<lambda>_. PyNone) files sample_pending_path = Inr (PyDict d)"
    using sample_evidence_loaded by blast
  obtain files' where run: "reconcile_one sample_setting (git_publisher accepted_push sample_pending_tree) sample_evidence sample_pending_tree files
      = (Inr ''reconciled'', files')"
    using sample_reconciled [OF d(2,1)] by blast
  from acknowledged_report_is_canonical [OF load run] show ?thesis using run by blast
qed

section \<open>The scan\<close>

lemma settle_elsewhere:
  "settle F l now status reason expected fails path files = (res, files') \<Longrightarrow> q \<noteq> path \<Longrightarrow> files' q = files q"
  by (auto simp: settle_def write_text_atomic_def split: sum.splits prod.splits option.splits)

lemma mark_conflict_elsewhere:
  "mark_conflict_best_effort F l now fails path reason files = (res, files') \<Longrightarrow> q \<noteq> path \<Longrightarrow> files' q = files q"
  using settle_elsewhere by (fastforce simp: mark_conflict_best_effort_def split: sum.splits prod.splits)

lemma acknowledge_elsewhere:
  assumes "acknowledge s ev status reason files = (res, files')" "q \<noteq> pe_metadata_path ev"
  shows "files' q = files q"
proof -
  obtain r f where acked: "write_status (st_float s) (st_linesep s) (st_now s) (st_fails s) ev status reason files = (r, f)"
    by (rule prod.exhaust)
  then have "f q = files q"
    using settle_elsewhere [OF _ assms(2)] unfolding write_status_def by (metis prod.inject)
  moreover have "files' = f" using assms(1) by (cases r) (simp_all add: acknowledge_def acked)
  ultimately show ?thesis by simp
qed

lemma refuse_elsewhere:
  assumes "refuse s ev reason files = (res, files')" "q \<noteq> pe_metadata_path ev"
  shows "files' q = files q"
proof -
  obtain r f where marked: "mark_conflict_best_effort (st_float s) (st_linesep s) (st_now s) (st_fails s) (pe_metadata_path ev) reason files = (r, f)"
    by (rule prod.exhaust)
  have "files' = f" using assms(1) by (cases r) (simp_all add: refuse_def marked)
  then show ?thesis using mark_conflict_elsewhere [OF marked assms(2)] by simp
qed

lemma raising_elsewhere:
  "raising r files k = (res, files') \<Longrightarrow> (\<And>x. r = Inr x \<Longrightarrow> k x = (res, files') \<Longrightarrow> files' q = files q) \<Longrightarrow> files' q = files q"
  by (cases r) auto

lemma lost_race_elsewhere:
  assumes "lost_race s ev tree files = (res, files')" "q \<noteq> pe_metadata_path ev"
  shows "files' q = files q"
  using assms(1) unfolding lost_race_def Let_def
  by (cases "ct_state tree")
    (auto elim!: raising_elsewhere dest: acknowledge_elsewhere [OF _ assms(2)] refuse_elsewhere [OF _ assms(2)] split: if_splits)

lemma reconcile_one_elsewhere:
  assumes "reconcile_one s publish ev tree files = (res, files')" "q \<noteq> pe_metadata_path ev"
  shows "files' q = files q"
proof -
  note others = acknowledge_elsewhere [OF _ assms(2)] refuse_elsewhere [OF _ assms(2)] lost_race_elsewhere [OF _ assms(2)]
  obtain p tree' where publish: "publish (pending_expected ev) (pending_already_applied ev) (pending_payload ev (st_now s)) = (p, tree')"
    by (rule prod.exhaust)
  have published: "files' q = files q"
    if "(case p of Inr _ \<Rightarrow> acknowledge s ev a b files | Inl (CASConflict _) \<Rightarrow> lost_race s ev tree' files
        | Inl e \<Rightarrow> (if is_worker_error e then Inr ''pending'' else Inl e, files)) = (res, files')" for a b
    using that by (cases p) (auto dest: others split: pyexc.splits)
  show ?thesis
  proof (cases "ct_state tree")
    case (Inl e)
    then show ?thesis using assms(1) by (auto simp: reconcile_one_def split: if_splits)
  next
    case (Inr state)
    show ?thesis
      using assms(1) unfolding reconcile_one_def Inr sum.case
      apply (split if_split_asm, simp)
      apply (elim raising_elsewhere)
      apply (split if_split_asm)
       apply (elim raising_elsewhere)
       apply (auto dest: others split: if_splits) [1]
      apply (split if_split_asm)
       apply (auto dest: others) [1]
      apply (rule published)
      apply (auto simp: publish split: sum.splits pyexc.splits)
      done
  qed
qed

definition scanned :: "string list \<Rightarrow> 'r scan_item list \<Rightarrow> nat \<Rightarrow> files \<Rightarrow> (pyexc + nat) \<times> files \<Rightarrow> bool" where
  "scanned blocked items k files out \<longleftrightarrow>
     (\<forall>q. last (butlast q) \<in> set blocked \<or> q \<notin> fst ` set items \<longrightarrow> snd out q = files q)
     \<and> (\<forall>n. fst out = Inr n \<longrightarrow> n \<le> k + length (filter (\<lambda>i. last (butlast (fst i)) \<notin> set blocked) items))"

lemma scanned_raise: "(\<And>q. q \<noteq> path \<Longrightarrow> files' q = files q) \<Longrightarrow> last (butlast path) \<notin> set blocked \<Longrightarrow>
    scanned blocked ((path, s, publish, tree) # items) k files (Inl e, files')"
  by (fastforce simp: scanned_def)

lemma scanned_next: "scanned blocked items k' files' out \<Longrightarrow> (\<And>q. q \<noteq> path \<Longrightarrow> files' q = files q) \<Longrightarrow>
    last (butlast path) \<notin> set blocked \<Longrightarrow> k' \<le> Suc k \<Longrightarrow> scanned blocked ((path, s, publish, tree) # items) k files out"
  by (fastforce simp: scanned_def)

lemma reconcile_scan_frame:
  assumes "\<forall>p. resolve p = p"
  shows "scanned blocked items k files (reconcile_scan resolve base blocked mode items k files)"
proof (induction items arbitrary: k files)
  case Nil
  then show ?case by (simp add: scanned_def)
next
  case (Cons item items)
  obtain path s publish tree where item: "item = (path, s, publish, tree)" by (rule prod_cases4)
  show ?case
  proof (cases "last (butlast path) \<in> set blocked")
    case True
    then show ?thesis using Cons.IH [of k files] by (auto simp: item scanned_def)
  next
    case False
    have skip: "scanned blocked (item # items) k files (reconcile_scan resolve base blocked mode items k files)"
      unfolding item by (rule scanned_next [OF Cons.IH _ False]) simp_all
    show ?thesis
    proof (cases "mode_wanted (st_float s) mode path files")
      case (Inl e)
      have "scanned blocked (item # items) k files (Inl e, files)" unfolding item by (rule scanned_raise [OF _ False]) simp
      then show ?thesis using Inl False by (simp add: item)
    next
      case (Inr wanted)
      show ?thesis
      proof (cases "wanted")
        case False
        then show ?thesis using skip Inr \<open>last (butlast path) \<notin> set blocked\<close> by (simp add: item)
      next
        case True
        have wanted: "mode_wanted (st_float s) mode path files = Inr True" using Inr True by simp
        show ?thesis
        proof (cases "load_evidence (st_float s) resolve base path files")
          case (Inl e)
          let ?reason = "''pending report evidence validation failed: '' @ (if is_pending_report_error e then ''PendingReportError'' else ''OSError'')"
          obtain m f where marked: "mark_conflict_best_effort (st_float s) (st_linesep s) (st_now s) (st_fails s) path ?reason files = (m, f)"
            by (rule prod.exhaust)
          have same: "f q = files q" if "q \<noteq> path" for q by (rule mark_conflict_elsewhere [OF marked that])
          have "scanned blocked (item # items) k files (reconcile_scan resolve base blocked mode items k f)"
            "scanned blocked (item # items) k files (Inl x, f)" "scanned blocked (item # items) k files (Inl x, files)" for x
            unfolding item by (rule scanned_next [OF Cons.IH same False], assumption, simp, rule scanned_raise [OF same False], assumption,
              rule scanned_raise [OF _ False], simp)
          then show ?thesis using wanted Inl False marked by (simp add: item split: option.split)
        next
          case (Inr ev)
          obtain r f where one: "reconcile_one s publish ev tree files = (r, f)" by (rule prod.exhaust)
          have path: "pe_metadata_path ev = path" using loaded_sound(2) [OF Inr] assms by simp
          have same: "f q = files q" if "q \<noteq> path" for q by (rule reconcile_one_elsewhere [OF one]) (simp add: path that)
          have step: "scanned blocked (item # items) k files (reconcile_scan resolve base blocked mode items k' f)" if "k' \<le> Suc k" for k'
            unfolding item by (rule scanned_next [OF Cons.IH same False that])
          have "scanned blocked (item # items) k files (Inl x, f)" for x
            unfolding item by (rule scanned_raise [OF same False])
          then show ?thesis using wanted Inr False one step [of k] step [of "Suc k"] by (cases r) (simp_all add: item)
        qed
      qed
    qed
  qed
qed

text \<open>
  The scan does not touch any file of a project that is blocked by a pending recovery journal,
  nor any file but the sidecars it was given; and it counts no more reports than it was given.
\<close>

theorem blocked_projects_untouched:
  assumes "reconcile_pending_reports resolve base blocked mode items files = (res, files')" "\<forall>p. resolve p = p"
  shows "(\<forall>q. last (butlast q) \<in> set blocked \<or> q \<notin> fst ` set items \<longrightarrow> files' q = files q)
    \<and> (\<forall>n. res = Inr n \<longrightarrow> n \<le> length (filter (\<lambda>i. last (butlast (fst i)) \<notin> set blocked) items))"
  using reconcile_scan_frame [OF assms(2), of blocked items 0 files base mode] assms(1)
  by (simp add: reconcile_pending_reports_def scanned_def)

theorem blocked_projects_untouched_witness:
  "snd (reconcile_pending_reports (\<lambda>p. p) [] [''p''] None
      [(sample_pending_path, sample_setting, git_publisher accepted_push sample_pending_tree, sample_pending_tree)] (\<lambda>_. None))
     sample_pending_path = None"
proof -
  let ?run = "reconcile_pending_reports (\<lambda>p. p) [] [''p''] None
      [(sample_pending_path, sample_setting, git_publisher accepted_push sample_pending_tree, sample_pending_tree)] (\<lambda>_. None)"
  have "?run = (fst ?run, snd ?run)" by simp
  from blocked_projects_untouched [OF this] show ?thesis by (simp add: sample_pending_path_def)
qed

text \<open>
  A sidecar whose bytes are not UTF-8 is not skipped like one that is missing, not a document or
  not allowlisted: the scan ends with the exception of the decoder, and the sidecars after it wait.
\<close>

theorem undecodable_sidecar_ends_scan:
  assumes "files path = Some (Inr bytes)" "utf8_decode bytes = None" "last (butlast path) \<notin> set blocked" "\<forall>p. resolve p = p"
    and "path = base @ [''worker'', ''runtime'', project, sidecar_name c]" "1 \<le> c" "short_int c"
  shows "reconcile_pending_reports resolve base blocked None ((path, s, publish, tree) # items) files
    = (Inl (UnicodeError ''invalid utf-8''), files)"
proof -
  have "read_json (st_float s) files path = Inl (UnicodeError ''invalid utf-8'')"
    using assms(1,2) by (simp add: read_json_def json_file_def text_read_def)
  moreover have "is_within path (runtime_root resolve base)" "last path = sidecar_name c" "path \<noteq> []"
    by (simp_all add: assms(4,5) is_within_def runtime_root_def)
  moreover have "has_suffix ''.meta.json'' (sidecar_name c)"
    using has_suffix_append [of "''.meta.json''" "''pending-report-'' @ show_int_03 c"] by (simp add: sidecar_name_def)
  moreover have "sidecar_digits (sidecar_name c) = Some (show_int_03 c)" "parse_int (show_int_03 c) = Some c"
    using assms(6,7) sidecar_digits_name parse_show_int_03 by simp_all
  ultimately have "load_evidence (st_float s) resolve base path files = Inl (UnicodeError ''invalid utf-8'')"
    using assms(4) by (simp add: load_evidence_def Let_def raise_as_def is_unreadable_def is_os_error_def)
  then show ?thesis
    using assms(3) by (simp add: reconcile_pending_reports_def mode_wanted_def is_os_error_def is_pending_report_error_def)
qed

theorem undecodable_sidecar_ends_scan_witness:
  "fst (reconcile_pending_reports (\<lambda>p. p) [] [] None
     [(sample_pending_path, sample_setting, git_publisher accepted_push sample_pending_tree, sample_pending_tree)]
     ((\<lambda>_. None)(sample_pending_path \<mapsto> Inr [CHR 0xFF]))) = Inl (UnicodeError ''invalid utf-8'')"
proof -
  have "utf8_decode [CHR 0xFF] = None" by code_simp
  moreover have "short_int 3" by (simp add: short_int_def show_nat_small)
  moreover have "sample_pending_path = [] @ [''worker'', ''runtime'', ''p'', sidecar_name 3]" by (simp add: sample_pending_path_def)
  ultimately show ?thesis by (subst undecodable_sidecar_ends_scan [where c = 3 and bytes = "[CHR 0xFF]"]) simp_all
qed

end
