(* ===== verification/Recovery_Journal.thy ===== *)
theory Recovery_Journal
  imports Redaction Text_File Protocol_Lifecycle
begin

text \<open>
  \<open>worker/recovery_journal.py\<close>: the allowlisted journal of an interrupted run, its validation, and
  the file it is written to and read from.  The field sets are frozensets, and their iteration order
  differs between processes: it is an argument.
\<close>

section \<open>Fields\<close>

definition JOURNAL_STATUSES :: "string list" where
  "JOURNAL_STATUSES = [''pending'', ''reconciled'', ''superseded'', ''conflict'']"

definition JOURNAL_FIELDS :: "string list" where
  "JOURNAL_FIELDS = [''schema_version'', ''project_id'', ''command_id'', ''run_id'', ''claim_generation'',
     ''interrupted_at'', ''interruption_kind'', ''interruption_reason_safe'', ''claimed_at'', ''lease_expires_at'',
     ''head_before'', ''head_after'', ''worktree_dirty'', ''local_commit_created'', ''unpushed_commits_present'',
     ''report_path'', ''pending_report_path'', ''marker_status'', ''process_exit_code'', ''termination_reason'',
     ''external_side_effects_unknown'', ''remote_publish_pending'', ''journal_status'', ''reconciled_at'',
     ''reconciliation_reason'']"

definition JOURNAL_REQUIRED_FIELDS :: "string list" where
  "JOURNAL_REQUIRED_FIELDS = [''schema_version'', ''project_id'', ''command_id'', ''run_id'', ''claim_generation'',
     ''interrupted_at'', ''interruption_kind'', ''interruption_reason_safe'', ''remote_publish_pending'',
     ''journal_status'']"

definition TEXT_FIELDS :: "string list" where
  "TEXT_FIELDS = [''project_id'', ''run_id'', ''interrupted_at'', ''interruption_kind'', ''interruption_reason_safe'',
     ''claimed_at'', ''lease_expires_at'', ''head_before'', ''head_after'', ''report_path'', ''pending_report_path'',
     ''marker_status'', ''termination_reason'', ''reconciled_at'', ''reconciliation_reason'']"

definition BOOL_FIELDS :: "string list" where
  "BOOL_FIELDS = [''worktree_dirty'', ''local_commit_created'', ''unpushed_commits_present'',
     ''external_side_effects_unknown'', ''remote_publish_pending'']"

definition INT_FIELDS :: "string list" where
  "INT_FIELDS = [''command_id'', ''claim_generation'', ''process_exit_code'']"

section \<open>Validation\<close>

text \<open>\<open>int(value)\<close> under \<open>except (TypeError, ValueError)\<close>: an overflow escapes.\<close>

definition journal_int :: "py \<Rightarrow> string \<Rightarrow> pyexc + py" where
  "journal_int v m = (case py_int v of
      Inr i \<Rightarrow> Inr (PyInt i)
    | Inl e \<Rightarrow> Inl (if is_type_error e \<or> is_value_error e then RecoveryJournalError m else e))"

definition normalize_value :: "string \<Rightarrow> py \<Rightarrow> pyexc + py" where
  "normalize_value key v =
     (if key = ''schema_version'' then
        (if is_bool v \<or> v = PyNone then Inl (RecoveryJournalError ''Journal schema_version must be an integer.'')
         else journal_int v ''Journal schema_version must be an integer.'')
      else if key \<in> set TEXT_FIELDS then (if v = PyNone then Inr PyNone else Inr (PyStr (safe_text 512 v)))
      else if key \<in> set BOOL_FIELDS then
        (if v = PyNone then Inr PyNone
         else if \<not> is_bool v
         then Inl (RecoveryJournalError (''Journal field '' @ key @ '' must be boolean or null.''))
         else Inr v)
      else if key \<in> set INT_FIELDS then
        (if v = PyNone then Inr PyNone
         else if is_bool v
         then Inl (RecoveryJournalError (''Journal field '' @ key @ '' must be integer or null.''))
         else journal_int v (''Journal field '' @ key @ '' must be integer or null.''))
      else if key = ''journal_status'' then Inr (PyStr (safe_text 32 v))
      else Inr PyNone)"

definition normalize_journal :: "string list \<Rightarrow> py \<Rightarrow> pyexc + pydict" where
  "normalize_journal order v =
     (if \<not> is_dict v then Inl (RecoveryJournalError ''Recovery journal must be a JSON object.'')
      else res_map (\<lambda>k. res_bind (normalize_value k (dget (the_dict v) k)) (\<lambda>x. Inr (k, x)))
        (filter (dhas (the_dict v)) order))"

definition journal_checks :: "pydict \<Rightarrow> pyexc option list" where
  "journal_checks d =
     (let missing = sorted_difference JOURNAL_REQUIRED_FIELDS (dkeys d) in
     [ensure (missing = []) (RecoveryJournalError (''Recovery journal is missing required fields: '' @ join '', '' missing)),
      ensure (py_eq (dget d ''schema_version'') (PyInt 1)) (RecoveryJournalError ''Unsupported recovery journal schema_version.''),
      ensure (truthy (dget d ''project_id'') \<and> truthy (dget d ''run_id''))
        (RecoveryJournalError ''Recovery journal identity fields must be non-empty.''),
      ensure (dget d ''command_id'' \<noteq> PyNone \<and> 0 < the_int (dget d ''command_id''))
        (RecoveryJournalError ''Recovery journal command_id must be positive.''),
      ensure (dget d ''claim_generation'' \<noteq> PyNone \<and> 0 \<le> the_int (dget d ''claim_generation''))
        (RecoveryJournalError ''Recovery journal claim_generation must be non-negative.''),
      ensure (in_strs (dget d ''journal_status'') JOURNAL_STATUSES)
        (RecoveryJournalError ''Recovery journal has an unsupported journal_status.''),
      ensure (is_bool (dget d ''remote_publish_pending''))
        (RecoveryJournalError ''Recovery journal remote_publish_pending must be boolean.'')])"

definition validate_journal :: "string list \<Rightarrow> py \<Rightarrow> pyexc + pydict" where
  "validate_journal order v = res_bind (normalize_journal order v) (\<lambda>d. run_checks (journal_checks d) (Inr d))"

section \<open>Paths\<close>

definition safe_component :: "py \<Rightarrow> pyexc + string" where
  "safe_component v =
     (let c = map (\<lambda>c. if is_alnum_ascii c \<or> c \<in> set ''._-'' then c else CHR ''_'') (strip (py_str v)) in
      if c \<in> set ['''', ''.'', ''..''] then Inl (RecoveryJournalError ''Recovery journal path component is invalid.'')
      else Inr (take 160 c))"

text \<open>A path is the list of its components.\<close>

definition recovery_root :: "string list \<Rightarrow> py \<Rightarrow> pyexc + string list" where
  "recovery_root bridge_root project =
     res_bind (safe_component project) (\<lambda>c. Inr (bridge_root @ [''worker'', ''runtime'', c, ''recovery'']))"

definition journal_path :: "string list \<Rightarrow> py \<Rightarrow> py \<Rightarrow> pyexc + string list" where
  "journal_path bridge_root project run =
     res_bind (recovery_root bridge_root project) (\<lambda>root.
     res_bind (safe_component run) (\<lambda>c. Inr (root @ [c @ ''.json''])))"

section \<open>Files\<close>

text \<open>
  Reading gives the bytes of the file or the exception of the system.  A write replaces the file or
  leaves it as it was; an exception may come before the replacement or after it.
\<close>

datatype write_failure = BeforeReplace pyexc | AfterReplace pyexc

definition journal_bytes :: "pydict \<Rightarrow> string" where
  "journal_bytes d = utf8_encode (json_document (PyDict d))"

definition write_journal ::
    "string list \<Rightarrow> write_failure option \<Rightarrow> py \<Rightarrow> pyexc + string \<Rightarrow> (pyexc + pydict) \<times> (pyexc + string)" where
  "write_journal order fails v file =
     (case validate_journal order v of
        Inl e \<Rightarrow> (Inl e, file)
      | Inr d \<Rightarrow>
          (case fails of
             Some (BeforeReplace e) \<Rightarrow> (Inl e, file)
           | Some (AfterReplace e) \<Rightarrow> (Inl e, Inr (journal_bytes d))
           | None \<Rightarrow> (Inr d, Inr (journal_bytes d))))"

definition read_journal :: "(string \<Rightarrow> py) \<Rightarrow> string list \<Rightarrow> pyexc + string \<Rightarrow> pyexc + pydict" where
  "read_journal float_of order file =
     (case res_bind file (json_file float_of) of
        Inl e \<Rightarrow> Inl (case e of
            JSONDecodeError _ \<Rightarrow> RecoveryJournalError ''Unable to read recovery journal''
          | _ \<Rightarrow> if is_os_error e then RecoveryJournalError ''Unable to read recovery journal'' else e)
      | Inr v \<Rightarrow> validate_journal order v)"

text \<open>\<open>current.update(...)\<close> with the allowlisted updates, in the order they were passed.\<close>

definition update_journal ::
    "(string \<Rightarrow> py) \<Rightarrow> string list \<Rightarrow> write_failure option \<Rightarrow> pydict \<Rightarrow> pyexc + string \<Rightarrow>
       (pyexc + pydict) \<times> (pyexc + string)" where
  "update_journal float_of order fails updates file =
     (case read_journal float_of order file of
        Inl e \<Rightarrow> (Inl e, file)
      | Inr current \<Rightarrow>
          write_journal order fails
            (PyDict (foldl (\<lambda>d (k, v). AList.update k v d) current (filter (\<lambda>(k, _). k \<in> set JOURNAL_FIELDS) updates))) file)"

section \<open>What a journal is\<close>

definition iteration_order :: "string list \<Rightarrow> bool" where
  "iteration_order order \<longleftrightarrow> distinct order \<and> set order = set JOURNAL_FIELDS"

definition field_type :: "string \<Rightarrow> py \<Rightarrow> bool" where
  "field_type k v \<longleftrightarrow>
     (if k = ''schema_version'' then v = PyInt 1
      else if k = ''journal_status'' then in_strs v JOURNAL_STATUSES
      else if k \<in> set TEXT_FIELDS then v = PyNone \<or> (\<exists>t. v = PyStr (safe_text 512 t))
      else if k \<in> set BOOL_FIELDS then v = PyNone \<or> is_bool v
      else v = PyNone \<or> is_int v)"

definition wf_journal :: "pydict \<Rightarrow> bool" where
  "wf_journal d \<longleftrightarrow> distinct (dkeys d) \<and> set JOURNAL_REQUIRED_FIELDS \<subseteq> set (dkeys d)
     \<and> set (dkeys d) \<subseteq> set JOURNAL_FIELDS \<and> (\<forall>(k, v) \<in> set d. field_type k v)
     \<and> nonempty_str (dget d ''project_id'') \<and> nonempty_str (dget d ''run_id'')
     \<and> int_at_least 1 (dget d ''command_id'') \<noteq> None \<and> int_at_least 0 (dget d ''claim_generation'') \<noteq> None
     \<and> is_bool (dget d ''remote_publish_pending'')"

lemma fields_disjoint:
  "distinct (TEXT_FIELDS @ BOOL_FIELDS @ INT_FIELDS @ [''schema_version'', ''journal_status''])"
  "set JOURNAL_FIELDS = set (TEXT_FIELDS @ BOOL_FIELDS @ INT_FIELDS @ [''schema_version'', ''journal_status''])"
  by code_simp+

lemma required_known: "set JOURNAL_REQUIRED_FIELDS \<subseteq> set JOURNAL_FIELDS"
  by code_simp

lemma field_classes:
  "''schema_version'' \<notin> set TEXT_FIELDS" "''schema_version'' \<notin> set BOOL_FIELDS" "''schema_version'' \<notin> set INT_FIELDS"
  "''journal_status'' \<notin> set TEXT_FIELDS" "''journal_status'' \<notin> set BOOL_FIELDS" "''journal_status'' \<notin> set INT_FIELDS"
  "''project_id'' \<in> set TEXT_FIELDS" "''run_id'' \<in> set TEXT_FIELDS" "''command_id'' \<in> set INT_FIELDS"
  "''claim_generation'' \<in> set INT_FIELDS" "''command_id'' \<notin> set TEXT_FIELDS" "''command_id'' \<notin> set BOOL_FIELDS"
  "''claim_generation'' \<notin> set TEXT_FIELDS" "''claim_generation'' \<notin> set BOOL_FIELDS"
  by code_simp+

lemma journal_int_Inr: "journal_int v m = Inr x \<Longrightarrow> \<exists>i. x = PyInt i"
  by (auto simp: journal_int_def split: sum.splits)

text \<open>What the normalisation makes of one field.\<close>

definition normal_type :: "string \<Rightarrow> py \<Rightarrow> bool" where
  "normal_type k v \<longleftrightarrow>
     (if k = ''schema_version'' then is_int v
      else if k = ''journal_status'' then \<exists>t. v = PyStr (safe_text 32 t)
      else if k \<in> set TEXT_FIELDS then v = PyNone \<or> (\<exists>t. v = PyStr (safe_text 512 t))
      else if k \<in> set BOOL_FIELDS then v = PyNone \<or> is_bool v
      else v = PyNone \<or> is_int v)"

lemma normalize_value_type: "normalize_value k v = Inr x \<Longrightarrow> normal_type k x"
  using field_classes by (auto simp: normalize_value_def normal_type_def split: if_splits dest!: journal_int_Inr)

lemma normalize_journal_fields:
  assumes "normalize_journal order v = Inr n"
  shows "is_dict v" "map fst n = filter (dhas (the_dict v)) order"
    "\<forall>(k, x) \<in> set n. normalize_value k (dget (the_dict v) k) = Inr x"
proof -
  show "is_dict v" using assms by (simp add: normalize_journal_def split: if_splits)
  then have run: "res_map (\<lambda>k. res_bind (normalize_value k (dget (the_dict v) k)) (\<lambda>x. Inr (k, x)))
      (filter (dhas (the_dict v)) order) = Inr n"
    using assms by (simp add: normalize_journal_def)
  have "map fst ys = ks \<and> (\<forall>(k, x) \<in> set ys. normalize_value k (dget (the_dict v) k) = Inr x)"
    if "res_map (\<lambda>k. res_bind (normalize_value k (dget (the_dict v) k)) (\<lambda>x. Inr (k, x))) ks = Inr ys" for ks ys
    using that by (induction ks arbitrary: ys) (auto simp: res_bind_Inr_iff)
  then show "map fst n = filter (dhas (the_dict v)) order"
    "\<forall>(k, x) \<in> set n. normalize_value k (dget (the_dict v) k) = Inr x"
    using run by blast+
qed

lemma map_of_dget: "map_of d k = Some v \<Longrightarrow> dget d k = v"
  by (simp add: dget_def)

lemma dget_member: "dhas d k \<Longrightarrow> (k, dget d k) \<in> set d"
  unfolding dhas_def dget_def by (metis map_of_SomeD map_of_eq_None_iff option.case_eq_if option.collapse list.set_map)

lemma validated_wf:
  assumes order: "iteration_order order" and "validate_journal order v = Inr n"
  shows "wf_journal n"
proof -
  have norm: "normalize_journal order v = Inr n" and checks: "first_raise (journal_checks n) = None"
    using assms(2) by (auto simp: validate_journal_def res_bind_Inr_iff run_checks_Inr)
  note fields = normalize_journal_fields [OF norm]
  have keys: "distinct (dkeys n)" "set (dkeys n) \<subseteq> set JOURNAL_FIELDS"
    using fields(2) order by (auto simp: dkeys_def iteration_order_def)
  have typed: "normal_type k x" if "(k, x) \<in> set n" for k x
    using fields(3) that normalize_value_type by blast
  have required: "set JOURNAL_REQUIRED_FIELDS \<subseteq> set (dkeys n)" using checks by (simp add: journal_checks_def)
  have has: "dhas n k" if "k \<in> set JOURNAL_REQUIRED_FIELDS" for k
    using required that by (auto simp: dhas_def dkeys_def)
  have got: "normal_type k (dget n k)" if "k \<in> set JOURNAL_REQUIRED_FIELDS" for k
    using typed dget_member [OF has [OF that]] by blast
  have names: "''schema_version'' \<in> set JOURNAL_REQUIRED_FIELDS" "''project_id'' \<in> set JOURNAL_REQUIRED_FIELDS"
    "''run_id'' \<in> set JOURNAL_REQUIRED_FIELDS" "''command_id'' \<in> set JOURNAL_REQUIRED_FIELDS"
    "''claim_generation'' \<in> set JOURNAL_REQUIRED_FIELDS"
    by code_simp+
  have the_field: "dget n k = x" if "(k, x) \<in> set n" for k x
    using that keys(1) by (simp add: dget_def dkeys_def)
  have "field_type k x" if "(k, x) \<in> set n" for k x
    using typed [OF that] the_field [OF that] checks
    by (auto simp: field_type_def normal_type_def journal_checks_def is_int_iff split: if_splits)
  moreover have "nonempty_str (dget n ''project_id'')" "nonempty_str (dget n ''run_id'')"
    using got [OF names(2)] got [OF names(3)] checks field_classes
    by (auto simp: normal_type_def journal_checks_def truthy_def)
  moreover have "int_at_least 1 (dget n ''command_id'') \<noteq> None" "int_at_least 0 (dget n ''claim_generation'') \<noteq> None"
    using got [OF names(4)] got [OF names(5)] checks field_classes
    by (auto simp: normal_type_def journal_checks_def int_at_least_def)
  moreover have "is_bool (dget n ''remote_publish_pending'')" using checks by (simp add: journal_checks_def)
  ultimately show ?thesis using keys required by (auto simp: wf_journal_def)
qed

section \<open>Reading what was written\<close>

text \<open>Integers that can be written and read; and texts that a second redaction leaves as they are.\<close>

definition short_ints :: "pydict \<Rightarrow> bool" where
  "short_ints d \<longleftrightarrow> (\<forall>(k, v) \<in> set d. is_int v \<longrightarrow> short_int (the_int v))"

definition settled :: "pydict \<Rightarrow> bool" where
  "settled d \<longleftrightarrow> (\<forall>(k, v) \<in> set d. (k \<in> set TEXT_FIELDS \<and> is_str v \<longrightarrow> safe_text 512 v = the_str v)
     \<and> (is_int v \<longrightarrow> short_int (the_int v)))"

lemma status_text: "list_all (\<lambda>t. safe_text 32 (PyStr t) = t) JOURNAL_STATUSES"
  by code_simp

text \<open>What reading makes of a field: a text is redacted once more, everything else stays.\<close>

definition reread_value :: "string \<Rightarrow> py \<Rightarrow> py" where
  "reread_value k v = (if k \<in> set TEXT_FIELDS \<and> is_str v then PyStr (safe_text 512 v) else v)"

lemma known_field:
  "k \<in> set JOURNAL_FIELDS \<Longrightarrow>
     k \<in> set BOOL_FIELDS \<or> k \<in> set INT_FIELDS \<or> k \<in> set TEXT_FIELDS \<or> k = ''schema_version'' \<or> k = ''journal_status''"
  unfolding fields_disjoint(2) by auto

lemma reread_field:
  assumes "field_type k v" "k \<in> set JOURNAL_FIELDS"
  shows "normalize_value k v = Inr (reread_value k v)"
proof -
  have status: "safe_text 32 v = the_str v" if "in_strs v JOURNAL_STATUSES"
    using that status_text unfolding list_all_iff by auto
  have int: "journal_int (PyInt i) m = Inr (PyInt i)" for i m by (simp add: journal_int_def py_int_def)
  have apart: "k \<notin> set BOOL_FIELDS" if "k \<in> set INT_FIELDS"
    using that fields_disjoint(1) by auto
  show ?thesis
    using assms(1) known_field [OF assms(2)] status apart field_classes
    by (auto simp: normalize_value_def field_type_def reread_value_def int is_int_iff split: if_splits)
qed

lemma settled_field:
  "field_type k v \<Longrightarrow> k \<in> set JOURNAL_FIELDS \<Longrightarrow> k \<in> set TEXT_FIELDS \<and> is_str v \<longrightarrow> safe_text 512 v = the_str v \<Longrightarrow>
     normalize_value k v = Inr v"
  using reread_field by (cases v) (auto simp: reread_value_def)

lemma dhas_dget: "map_of d k = (if dhas d k then Some (dget d k) else None)"
  by (auto simp: dhas_def dget_def map_of_eq_None_iff split: option.split)

lemma wf_field: "wf_journal n \<Longrightarrow> dhas n k \<Longrightarrow> field_type k (dget n k)"
  using dget_member [of n k] by (auto simp: wf_journal_def)

lemma wf_checks:
  assumes "wf_journal n"
  shows "first_raise (journal_checks n) = None"
proof -
  have "''schema_version'' \<in> set JOURNAL_REQUIRED_FIELDS" "''journal_status'' \<in> set JOURNAL_REQUIRED_FIELDS"
    by code_simp+
  then have "dhas n ''schema_version''" "dhas n ''journal_status''"
    using assms by (auto simp: wf_journal_def dhas_def dkeys_def)
  then have "field_type ''schema_version'' (dget n ''schema_version'')" "field_type ''journal_status'' (dget n ''journal_status'')"
    using wf_field [OF assms] by blast+
  then show ?thesis
    using assms
    by (auto simp: journal_checks_def wf_journal_def field_type_def truthy_def nonempty_str_iff int_at_least_None)
qed

lemma res_map_id: "\<forall>k \<in> set ks. f k = Inr (g k) \<Longrightarrow> res_map f ks = Inr (map g ks)"
  by (rule res_map_Inr)

lemma dget_cong: "map_of d = map_of e \<Longrightarrow> dget d = dget e"
  by (rule ext) (simp only: dget_def)

text \<open>Reading validates what was written again.\<close>

lemma journal_reads_back:
  assumes "wf_journal n" "short_ints n"
  shows "read_journal F order (Inr (journal_bytes n)) = validate_journal order (PyDict n)"
proof -
  have keys: "distinct (map fst n)" using assms(1) by (simp add: wf_journal_def dkeys_def)
  have json: "pairs_ok n"
    unfolding pairs_ok_iff
  proof clarify
    fix k v
    assume kv: "(k, v) \<in> set n"
    then have "field_type k v" "is_int v \<longrightarrow> short_int (the_int v)"
      using assms by (auto simp: wf_journal_def short_ints_def)
    then show "json_ok v" by (cases v) (auto simp: field_type_def split: if_splits)
  qed
  have "json_file F (journal_bytes n) = Inr (PyDict n)"
    unfolding journal_bytes_def by (rule json_file_written(2) [of _ "[CHR 0x0A]"]) (use keys json in \<open>simp_all add: is_linesep_def\<close>)
  then show ?thesis by (simp add: read_journal_def)
qed

lemma reread_values:
  assumes "wf_journal n" "validate_journal order (PyDict n) = Inr n'" "iteration_order order"
  shows "dget n' k = reread_value k (dget n k)"
proof -
  have norm: "normalize_journal order (PyDict n) = Inr n'"
    using assms(2) by (auto simp: validate_journal_def res_bind_Inr_iff run_checks_Inr)
  note fields = normalize_journal_fields(2,3) [OF norm, simplified]
  have known: "dhas n k \<Longrightarrow> k \<in> set JOURNAL_FIELDS" using assms(1) by (auto simp: wf_journal_def dhas_def dkeys_def)
  have dom: "dhas n' k \<longleftrightarrow> dhas n k"
  proof -
    have "dhas n' k \<longleftrightarrow> k \<in> set (map fst n')" by (simp add: dhas_def)
    also have "\<dots> \<longleftrightarrow> k \<in> set order \<and> dhas n k" unfolding fields(1) by auto
    finally show ?thesis using known assms(3) by (auto simp: iteration_order_def)
  qed
  show ?thesis
  proof (cases "dhas n k")
    case True
    then have "(k, dget n' k) \<in> set n'" using dom dget_member by blast
    then have "normalize_value k (dget n k) = Inr (dget n' k)" using fields(2) by blast
    then show ?thesis using reread_field [OF wf_field [OF assms(1) True] known [OF True]] by simp
  next
    case False
    then have "dget n k = PyNone" "dget n' k = PyNone" using dom by (metis dget_present)+
    then show ?thesis by (simp add: reread_value_def)
  qed
qed

lemma reread_journal:
  assumes n: "wf_journal n" "settled n" and order: "iteration_order order"
  shows "\<exists>n'. read_journal F order (Inr (journal_bytes n)) = Inr n' \<and> map_of n' = map_of n"
proof -
  have keys: "distinct (map fst n)" "set (map fst n) \<subseteq> set JOURNAL_FIELDS"
    using n(1) by (simp_all add: wf_journal_def dkeys_def)
  let ?ks = "filter (dhas n) order" and ?n = "map (\<lambda>k. (k, dget n k)) (filter (dhas n) order)"
  have the_field: "dget n k = v \<and> dhas n k" if "(k, v) \<in> set n" for k v
    using that keys(1) by (force simp: dget_def dhas_def)
  have "normalize_value k (dget n k) = Inr (dget n k)" if "dhas n k" for k
  proof (rule settled_field)
    have kv: "(k, dget n k) \<in> set n" using that by (rule dget_member)
    then show "field_type k (dget n k)" using n(1) by (auto simp: wf_journal_def)
    show "k \<in> set JOURNAL_FIELDS" using kv keys(2) by force
    show "k \<in> set TEXT_FIELDS \<and> is_str (dget n k) \<longrightarrow> safe_text 512 (dget n k) = the_str (dget n k)"
      using n(2) kv by (auto simp: settled_def)
  qed
  then have norm: "normalize_journal order (PyDict n) = Inr ?n"
    unfolding normalize_journal_def by (simp add: res_map_id [of _ _ "\<lambda>k. (k, dget n k)"])
  have same: "map_of ?n = map_of n"
  proof
    fix k
    have "dhas n k \<Longrightarrow> k \<in> set order"
      using keys(2) order by (auto simp: dhas_def iteration_order_def)
    then show "map_of ?n k = map_of n k"
      by (cases "dhas n k") (auto simp: map_of_map_restrict restrict_map_def dhas_dget)
  qed
  have "journal_checks ?n = journal_checks n"
  proof -
    have "set (dkeys ?n) = set (dkeys n)"
      using keys(2) order by (auto simp: dkeys_def dhas_def iteration_order_def image_iff)
    then have "sorted_difference JOURNAL_REQUIRED_FIELDS (dkeys ?n) = sorted_difference JOURNAL_REQUIRED_FIELDS (dkeys n)"
      by (simp add: sorted_difference_def)
    moreover have "dget ?n = dget n" by (rule dget_cong [OF same])
    ultimately show ?thesis by (simp only: journal_checks_def)
  qed
  moreover have "first_raise (journal_checks n) = None"
    by (rule wf_checks [OF n(1)])
  ultimately have "validate_journal order (PyDict n) = Inr ?n" by (simp only: validate_journal_def norm res_bind_simps run_checks_pass)
  moreover have "short_ints n" using n(2) by (auto simp: settled_def short_ints_def)
  ultimately show ?thesis using same journal_reads_back [OF n(1)] by auto
qed

section \<open>Properties\<close>

definition sample_journal_data :: py where
  "sample_journal_data = PyDict [(''schema_version'', PyStr ''1''), (''project_id'', PyStr ''p''), (''command_id'', PyInt 3),
     (''run_id'', PyStr ''run-1''), (''claim_generation'', PyInt 6), (''interrupted_at'', PyStr ''t''),
     (''interruption_kind'', PyStr ''crash''), (''interruption_reason_safe'', PyStr ''lost  it''),
     (''remote_publish_pending'', PyBool True), (''journal_status'', PyStr ''pending''), (''stdin'', PyStr ''x'')]"

definition sample_journal_written :: pydict where
  "sample_journal_written = [(''schema_version'', PyInt 1), (''project_id'', PyStr ''p''), (''command_id'', PyInt 3),
     (''run_id'', PyStr ''run-1''), (''claim_generation'', PyInt 6), (''interrupted_at'', PyStr ''t''),
     (''interruption_kind'', PyStr ''crash''), (''interruption_reason_safe'', PyStr ''lost it''),
     (''remote_publish_pending'', PyBool True), (''journal_status'', PyStr ''pending'')]"

lemma sample_journal_valid: "validate_journal JOURNAL_FIELDS sample_journal_data = Inr sample_journal_written"
  by code_simp

lemma JOURNAL_FIELDS_order: "iteration_order JOURNAL_FIELDS" "iteration_order (rev JOURNAL_FIELDS)"
proof -
  have "distinct JOURNAL_FIELDS" by code_simp
  then show "iteration_order JOURNAL_FIELDS" "iteration_order (rev JOURNAL_FIELDS)" by (simp_all add: iteration_order_def)
qed

text \<open>
  A validated journal holds allowlisted fields only, each of its type, with every text redacted
  and bounded; and it names a run the way the protocol's recovery decisions require.
\<close>

theorem journal_is_allowlisted:
  assumes "iteration_order order" "validate_journal order v = Inr n"
  shows "wf_journal n \<and> journal_identity_valid n"
proof -
  have "wf_journal n" by (rule validated_wf [OF assms])
  then show ?thesis by (simp add: journal_identity_valid_def wf_journal_def)
qed

theorem journal_is_allowlisted_witness:
  "journal_identity_valid sample_journal_written \<and> set (dkeys sample_journal_written) \<subseteq> set JOURNAL_FIELDS"
  using journal_is_allowlisted [OF JOURNAL_FIELDS_order(1) sample_journal_valid] by (simp add: wf_journal_def)

text \<open>
  C31: what a journal is read back as, by a process with any iteration order.  A write that fails
  leaves the old file or the new one.  The new one is read as what validation makes of the written
  journal: where that is accepted, every text is redacted a second time and every other field is as it
  was written; and where a second redaction leaves the texts as they are, the journal is read back
  exactly as it was written.
\<close>

theorem journal_round_trip:
  assumes "iteration_order order" "iteration_order order'" "validate_journal order v = Inr n" "short_ints n"
    and "write_journal order fails v file = (res, file')"
  shows "(file' = file \<and> fails \<noteq> None \<and> res \<noteq> Inr n)
    \<or> read_journal F order' file' = validate_journal order' (PyDict n)
      \<and> (\<forall>n'. read_journal F order' file' = Inr n' \<longrightarrow> (\<forall>k. dget n' k = reread_value k (dget n k)))
      \<and> (settled n \<longrightarrow> (\<exists>n'. read_journal F order' file' = Inr n' \<and> map_of n' = map_of n))"
proof (cases "file' = file \<and> fails \<noteq> None \<and> res \<noteq> Inr n")
  case False
  then have file': "file' = Inr (journal_bytes n)"
    using assms(3,5) by (auto simp: write_journal_def split: option.splits write_failure.splits)
  note wf = validated_wf [OF assms(1,3)]
  show ?thesis
    unfolding file' using journal_reads_back [OF wf assms(4), of F order'] reread_values [OF wf _ assms(2)]
      reread_journal [OF wf _ assms(2), of F]
    by simp
qed simp

theorem journal_round_trip_witness:
  "\<exists>n'. read_journal (\<lambda>_. PyNone) (rev JOURNAL_FIELDS) (snd (write_journal JOURNAL_FIELDS None sample_journal_data (Inr [])))
      = Inr n' \<and> map_of n' = map_of sample_journal_written"
proof -
  have settled: "settled sample_journal_written" unfolding settled_def list_all_iff [symmetric] by code_simp
  then have short: "short_ints sample_journal_written" by (auto simp: settled_def short_ints_def)
  have run: "write_journal JOURNAL_FIELDS None sample_journal_data (Inr []) =
      (Inr sample_journal_written, Inr (journal_bytes sample_journal_written))"
    by (simp add: write_journal_def sample_journal_valid)
  have "\<exists>n'. read_journal (\<lambda>_. PyNone) (rev JOURNAL_FIELDS) (Inr (journal_bytes sample_journal_written)) = Inr n'
      \<and> map_of n' = map_of sample_journal_written"
    using journal_round_trip [OF JOURNAL_FIELDS_order sample_journal_valid short run, of "\<lambda>_. PyNone"] settled by blast
  then show ?thesis by (simp add: run)
qed

end
