(* ===== verification/Recovery_Service.thy ===== *)
theory Recovery_Service
  imports Pending_Reconcile Recovery_Journal Git_Effects
begin

text \<open>
  \<open>worker/vnext_runtime/services/recovery.py\<close>, first part: the identity of an interrupted run, the
  decision to bring it to RECOVERY_REQUIRED, the state that is published for it, and the handler of an
  expired lease.  The publisher is an argument, as for pending reports, and is given the tree whose
  state it swaps; an alert is a dictionary that is handed to a callback.
\<close>

section \<open>Identity\<close>

record recovery_identity =
  ri_project_id :: string
  ri_command_id :: int
  ri_run_id :: string
  ri_claim_generation :: int

definition RecoveryIdentity :: "py \<Rightarrow> py \<Rightarrow> py \<Rightarrow> py \<Rightarrow> pyexc + recovery_identity" where
  "RecoveryIdentity project command run generation =
     run_checks
       [ensure (has_text project) (ValueError ''recovery project_id must be non-empty''),
        ensure (int_from 1 command) (ValueError ''recovery command_id must be positive''),
        ensure (has_text run) (ValueError ''recovery run_id must be non-empty''),
        ensure (int_from 0 generation) (ValueError ''recovery claim_generation must be non-negative'')]
       (Inr \<lparr>ri_project_id = the_str project, ri_command_id = the_int command, ri_run_id = the_str run,
             ri_claim_generation = the_int generation\<rparr>)"

definition wf_recovery_identity :: "recovery_identity \<Rightarrow> bool" where
  "wf_recovery_identity i \<longleftrightarrow> strip (ri_project_id i) \<noteq> [] \<and> strip (ri_run_id i) \<noteq> []
     \<and> 1 \<le> ri_command_id i \<and> 0 \<le> ri_claim_generation i"

interpretation recovery_identity_ctor: checked_constructor
  "\<lambda>(p, c, r, g). RecoveryIdentity p c r g"
  "\<lambda>i. (PyStr (ri_project_id i), PyInt (ri_command_id i), PyStr (ri_run_id i), PyInt (ri_claim_generation i))"
  wf_recovery_identity
  by unfold_locales
     (auto simp: RecoveryIdentity_def wf_recovery_identity_def run_checks_Inr has_text_iff int_from_iff run_checks_pass)

text \<open>A missing key and a value of the wrong type raise the same exception.\<close>

definition identity_from_journal :: "pydict \<Rightarrow> pyexc + recovery_identity" where
  "identity_from_journal journal =
     (case RecoveryIdentity (dget journal ''project_id'') (dget journal ''command_id'') (dget journal ''run_id'')
         (dget journal ''claim_generation'') of
        Inl _ \<Rightarrow> Inl (RecoveryServiceConflict ''recovery journal does not contain an exact run identity'')
      | Inr i \<Rightarrow> Inr i)"

section \<open>Decisions\<close>

record recovery_decision =
  rd_identity :: recovery_identity
  rd_from_status :: string
  rd_to_status :: string
  rd_expected_generation :: int
  rd_next_generation :: int
  rd_reason :: string
  rd_automatic_rerun :: string

definition RecoveryDecision ::
    "recovery_identity \<Rightarrow> string \<Rightarrow> string \<Rightarrow> int \<Rightarrow> int \<Rightarrow> string \<Rightarrow> string \<Rightarrow> pyexc + recovery_decision" where
  "RecoveryDecision ident from_status to_status expected next reason rerun =
     run_checks
       [ensure (from_status = ''CODEX_RUNNING'' \<and> to_status = ''RECOVERY_REQUIRED'')
          (ValueError ''recovery decision must be the Protocol-v2 recovery transition''),
        ensure (next = expected + 1) (ValueError ''recovery decision generation arithmetic is invalid''),
        ensure (rerun = ''prohibited'') (ValueError ''recovery decisions must prohibit automatic rerun'')]
       (Inr \<lparr>rd_identity = ident, rd_from_status = from_status, rd_to_status = to_status,
             rd_expected_generation = expected, rd_next_generation = next, rd_reason = reason,
             rd_automatic_rerun = rerun\<rparr>)"

text \<open>\<open>_state_int\<close> with a default that may be None: an overflow escapes.\<close>

definition service_int :: "py \<Rightarrow> int option \<Rightarrow> pyexc + int option" where
  "service_int v fallback =
     (if is_bool v then Inr fallback
      else (case py_int v of
          Inr i \<Rightarrow> Inr (Some i)
        | Inl e \<Rightarrow> if is_type_error e \<or> is_value_error e then Inr fallback else Inl e))"

definition safe_reason :: "py \<Rightarrow> string" where
  "safe_reason v = take 512 (map (\<lambda>c. if c = CHR 0x00 \<or> c = CHR 0x0A then CHR '' '' else c)
     (py_str (if truthy v then v else PyStr ''deferred recovery'')))"

definition holds_lease :: "pydict \<Rightarrow> recovery_identity \<Rightarrow> string option \<Rightarrow> pyexc + bool" where
  "holds_lease current i source =
     matches_execution_lease current (PyStr (ri_run_id i)) (PyInt (ri_command_id i)) (PyInt (ri_claim_generation i))
       source None (Some (ri_project_id i))"

definition prepare_recovery_decision :: "pydict \<Rightarrow> recovery_identity \<Rightarrow> string \<Rightarrow> pyexc + recovery_decision" where
  "prepare_recovery_decision current i reason =
     res_bind (holds_lease current i None) (\<lambda>held.
     if \<not> held then Inl (RecoveryServiceConflict ''canonical state no longer matches the exact recovery identity'')
     else res_bind (service_int (dget current ''generation'') (Some (- 1))) (\<lambda>generation.
     case generation of
       None \<Rightarrow> Inl (RecoveryServiceConflict ''canonical recovery generation is invalid'')
     | Some g \<Rightarrow>
         if g < 0 then Inl (RecoveryServiceConflict ''canonical recovery generation is invalid'')
         else res_bind (recovery_generation (PyInt g)) (\<lambda>g'.
           RecoveryDecision i ''CODEX_RUNNING'' ''RECOVERY_REQUIRED'' g g' (safe_reason (PyStr reason)) ''prohibited'')))"

text \<open>The fields every recovery transition writes, in the order of the code.\<close>

definition recovery_fields :: "pydict \<Rightarrow> string \<Rightarrow> int \<Rightarrow> string \<Rightarrow> string option \<Rightarrow> string \<Rightarrow> pydict" where
  "recovery_fields current status generation reason error now =
     (let u = AList.update ''recovery_reason'' (PyStr reason)
           (AList.update ''worker_pid'' PyNone
           (AList.update ''active_run'' PyNone
           (AList.update ''generation'' (PyInt generation)
           (AList.update ''status'' (PyStr status) current)))) in
      AList.update ''updated_at'' (PyStr now)
        (case error of None \<Rightarrow> u | Some e \<Rightarrow> AList.update ''last_execution_error'' (PyStr e) u))"

definition recovery_payload :: "pydict \<Rightarrow> recovery_decision \<Rightarrow> string option \<Rightarrow> string \<Rightarrow> pyexc + pydict" where
  "recovery_payload current d error now =
     (if py_eq (PyStr (ri_project_id (rd_identity d))) (dget current ''project_id'')
      then Inr (recovery_fields current (rd_to_status d) (rd_next_generation d) (rd_reason d) error now)
      else Inl (RecoveryServiceConflict ''recovery project identity changed while preparing payload''))"

text \<open>What the callbacks of the coordinator build: the decision, and the state it gives.\<close>

definition recovery_update :: "recovery_identity \<Rightarrow> string \<Rightarrow> string option \<Rightarrow> string \<Rightarrow> pydict \<Rightarrow> pyexc + pydict" where
  "recovery_update i reason error now current =
     res_bind (prepare_recovery_decision current i reason) (\<lambda>d. recovery_payload current d error now)"

text \<open>
  The branch kept for callers that give a state without its project: it is taken when the state
  names another project.
\<close>

definition legacy_update :: "recovery_identity \<Rightarrow> string \<Rightarrow> string option \<Rightarrow> string \<Rightarrow> pydict \<Rightarrow> pyexc + pydict" where
  "legacy_update i reason error now current =
     (if py_eq (dget current ''project_id'') (PyStr (ri_project_id i)) then recovery_update i reason error now current
      else res_bind (service_int (dget current ''generation'') (Some 0)) (\<lambda>g.
           res_bind (recovery_generation (PyInt (case g of None \<Rightarrow> 0 | Some n \<Rightarrow> n))) (\<lambda>g'.
             Inr (recovery_fields current ''RECOVERY_REQUIRED'' g' reason error now))))"

section \<open>What a recovery transition publishes\<close>

lemma service_int_PyInt [simp]: "service_int (PyInt i) f = Inr (Some i)"
  by (simp add: service_int_def py_int_def)

lemma optional_int_service:
  "optional_int_equal v (PyInt i) = Inr True \<Longrightarrow> service_int v f = Inr (Some i)"
  by (cases v) (auto simp: optional_int_equal_def service_int_def py_int_def split: pyfloat.splits option.splits)

lemma optional_int_equal_same [simp]: "optional_int_equal (PyInt i) (PyInt j) = Inr (i = j)"
  by (simp add: optional_int_equal_def py_int_def)

lemma holds_leaseD:
  assumes "holds_lease current i source = Inr True"
  shows "dget current ''status'' = PyStr ''CODEX_RUNNING''" "dget current ''project_id'' = PyStr (ri_project_id i)"
    "optional_int_equal (dget current ''generation'') (PyInt (ri_claim_generation i)) = Inr True"
    "ri_run_id i \<noteq> []" "1 \<le> ri_command_id i" "0 \<le> ri_claim_generation i" "holds_lease current i None = Inr True"
proof -
  have chain: "ri_run_id i \<noteq> []" "int_at_least 1 (PyInt (ri_command_id i)) \<noteq> None"
    "int_at_least 0 (PyInt (ri_claim_generation i)) \<noteq> None"
    "dget current ''status'' = PyStr ''CODEX_RUNNING''" "dget current ''project_id'' = PyStr (ri_project_id i)"
    "optional_int_equal (dget current ''generation'') (PyInt (ri_claim_generation i)) = Inr True"
    using assms by (simp_all add: holds_lease_def matches_execution_lease_def Let_def and_chain_True)
  then show "dget current ''status'' = PyStr ''CODEX_RUNNING''" "dget current ''project_id'' = PyStr (ri_project_id i)"
    "optional_int_equal (dget current ''generation'') (PyInt (ri_claim_generation i)) = Inr True"
    "ri_run_id i \<noteq> []" "1 \<le> ri_command_id i" "0 \<le> ri_claim_generation i"
    by (auto simp: int_at_least_def split: if_splits)
  show "holds_lease current i None = Inr True"
    using assms by (simp add: holds_lease_def matches_execution_lease_def Let_def and_chain_True)
qed

text \<open>
  Building the transition of a state that holds the lease never raises, and gives the same state with
  the fields of a recovery and the generation after the claimed one.
\<close>

lemma recovery_update_leased:
  assumes "holds_lease current i source = Inr True"
  shows "recovery_update i reason error now current =
    Inr (recovery_fields current ''RECOVERY_REQUIRED'' (ri_claim_generation i + 1) (safe_reason (PyStr reason)) error now)"
proof -
  note lease = holds_leaseD [OF assms]
  have "service_int (dget current ''generation'') (Some (- 1)) = Inr (Some (ri_claim_generation i))"
    by (rule optional_int_service [OF lease(3)])
  then show ?thesis
    using lease(2,6,7)
    by (simp add: recovery_update_def prepare_recovery_decision_def recovery_clock.tick_nonneg RecoveryDecision_def run_checks_pass
        recovery_payload_def)
qed

lemma legacy_update_leased:
  "holds_lease current i source = Inr True \<Longrightarrow> legacy_update i reason error now current =
    Inr (recovery_fields current ''RECOVERY_REQUIRED'' (ri_claim_generation i + 1) (safe_reason (PyStr reason)) error now)"
  using holds_leaseD(2) recovery_update_leased by (simp add: legacy_update_def)

lemma recovery_fields_get [simp]:
  "dget (recovery_fields d st g r e now) ''status'' = PyStr st"
  "dget (recovery_fields d st g r e now) ''generation'' = PyInt g"
  "dget (recovery_fields d st g r e now) ''active_run'' = PyNone"
  "dget (recovery_fields d st g r e now) ''worker_pid'' = PyNone"
  "dget (recovery_fields d st g r e now) ''recovery_reason'' = PyStr r"
  "dget_or (recovery_fields d st g r e now) ''recovery_reason'' w = PyStr r"
  "dget (recovery_fields d st g r e now) ''updated_at'' = PyStr now"
  "k \<notin> {''status'', ''generation'', ''active_run'', ''worker_pid'', ''recovery_reason'', ''last_execution_error'', ''updated_at''} \<Longrightarrow>
     dget (recovery_fields d st g r e now) k = dget d k"
  by (cases e; simp add: recovery_fields_def Let_def)+

section \<open>Expired leases\<close>

definition expired_reason :: "recovery_identity \<Rightarrow> string option \<Rightarrow> string" where
  "expired_reason i expires =
     ''execution lease expired for run '' @ ri_run_id i @ '' command '' @ show_int (ri_command_id i)
     @ '' claim_generation '' @ show_int (ri_claim_generation i)
     @ (case expires of None \<Rightarrow> [] | Some t \<Rightarrow> '' lease_expires_at '' @ t) @ ''; automatic rerun prohibited''"

text \<open>\<open>x or 0\<close>.\<close>

definition or_zero :: "int option \<Rightarrow> int" where
  "or_zero v = (case v of None \<Rightarrow> 0 | Some i \<Rightarrow> i)"

definition expired_identity :: "string \<Rightarrow> pydict \<Rightarrow> pydict \<Rightarrow> pyexc + recovery_identity" where
  "expired_identity project state active =
     res_bind (service_int (dget active ''command_id'') (Some 0)) (\<lambda>command.
     res_bind (service_int (dget state ''generation'') (Some 0)) (\<lambda>generation.
     res_bind (service_int (dget active ''claimed_generation'') (Some (or_zero generation))) (\<lambda>claimed.
       RecoveryIdentity (PyStr project) (PyInt (or_zero command)) (PyStr (py_str (dget_or active ''run_id'' (PyStr []))))
         (PyInt (or_zero claimed)))))"

definition expired_expected ::
    "(pydict \<Rightarrow> pyexc + bool) \<Rightarrow> recovery_identity \<Rightarrow> canonical_tree \<Rightarrow> pyexc + bool" where
  "expired_expected lease_expired i tree =
     res_bind (ct_state tree) (\<lambda>current. and_chain [lease_expired current, holds_lease current i None])"

definition expired_already :: "recovery_identity \<Rightarrow> canonical_tree \<Rightarrow> pyexc + bool" where
  "expired_already i tree = res_bind (ct_state tree) (\<lambda>current. and_chain
     [Inr (py_eq (dget current ''status'') (PyStr ''RECOVERY_REQUIRED'')),
      Inr (dget current ''active_run'' = PyNone),
      Inr (dget current ''worker_pid'' = PyNone),
      Inr (py_eq (dget current ''project_id'') (PyStr (ri_project_id i))),
      res_bind (service_int (dget current ''generation'') (Some (- 1))) (\<lambda>g.
        res_bind (recovery_generation (PyInt (ri_claim_generation i))) (\<lambda>g'. Inr (g = Some g'))),
      res_bind (service_int (dget current ''latest_command'') (Some (- 1))) (\<lambda>c. Inr (c = Some (ri_command_id i))),
      Inr (contains (ri_run_id i) (py_str (dget_or current ''recovery_reason'' (PyStr []))))])"

text \<open>\<open>{state_path: json_text(updated)}\<close>: only the state file is part of the payload.\<close>

definition state_build :: "(pydict \<Rightarrow> pyexc + pydict) \<Rightarrow> canonical_tree \<Rightarrow> pyexc + canonical_tree" where
  "state_build update tree =
     res_bind (ct_state tree) (\<lambda>current. res_bind (update current) (\<lambda>updated. Inr (tree\<lparr>ct_state := Inr updated\<rparr>)))"

definition py_opt_int :: "int option \<Rightarrow> py" where
  "py_opt_int v = (case v of None \<Rightarrow> PyNone | Some i \<Rightarrow> PyInt i)"

definition expired_alert ::
    "string \<Rightarrow> recovery_identity \<Rightarrow> pydict \<Rightarrow> py \<Rightarrow> py \<Rightarrow> string option \<Rightarrow> string \<Rightarrow> pydict" where
  "expired_alert now i final generation earlier expires reason =
     [(''timestamp'', PyStr now), (''project_id'', PyStr (ri_project_id i)), (''command_id'', PyInt (ri_command_id i)),
      (''run_id'', PyStr (ri_run_id i)), (''alert_kind'', PyStr ''lease_expired''),
      (''current_bridge_status'', PyStr (py_str (dget_or final ''status'' (PyStr ''RECOVERY_REQUIRED'')))),
      (''original_status'', PyStr ''CODEX_RUNNING''), (''generation'', generation), (''generation_before'', earlier),
      (''claim_generation'', PyInt (ri_claim_generation i)),
      (''interruption_recovery_type'', PyStr ''expired execution lease''),
      (''recovery_reason_safe'', PyStr (py_str (dget_or final ''recovery_reason'' (PyStr reason)))),
      (''codex_terminated'', PyNone), (''worker_is_alive'', PyBool True), (''journal_saved'', PyBool False),
      (''pending_report_saved'', PyBool False), (''remote_recovery_cas_success'', PyBool True),
      (''remote_publish_pending'', PyBool False), (''worktree_dirty'', PyNone), (''local_commit_created'', PyNone),
      (''unpushed_commits_present'', PyNone), (''external_side_effects_unknown'', PyBool True),
      (''lease_expires_at'', case expires of None \<Rightarrow> PyNone | Some t \<Rightarrow> PyStr t)]"

text \<open>
  The result comes with the tree the publisher leaves and the alert that was handed out.  The state
  that is returned by the publisher is the one of its tree.
\<close>

definition mark_expired_lease ::
    "(pydict \<Rightarrow> pyexc + bool) \<Rightarrow> (pydict \<Rightarrow> pyexc option) \<Rightarrow> string \<Rightarrow> 'r publisher \<Rightarrow> string \<Rightarrow> canonical_tree \<Rightarrow>
       (pyexc + bool) \<times> canonical_tree \<times> pydict option" where
  "mark_expired_lease lease_expired emit now publish project tree =
     (case res_bind (ct_state tree) (\<lambda>state.
        if \<not> py_eq (dget state ''status'') (PyStr ''CODEX_RUNNING'') then Inr None
        else res_bind (lease_expired state) (\<lambda>expired.
        if \<not> expired then Inr None
        else let active = (if truthy (dget state ''active_run'') then dget state ''active_run'' else PyDict []) in
        if \<not> is_dict active then Inl (RecoveryServiceConflict ''expired execution has no active lease identity'')
        else res_bind (expired_identity project state (the_dict active)) (\<lambda>i. Inr (Some (state, the_dict active, i))))) of
        Inl e \<Rightarrow> (Inl e, tree, None)
      | Inr None \<Rightarrow> (Inr False, tree, None)
      | Inr (Some (state, active, i)) \<Rightarrow>
          (let t = py_str (dget_or active ''lease_expires_at'' (PyStr [])); expires = (if t = [] then None else Some t);
               reason = expired_reason i expires in
           case publish (expired_expected lease_expired i) (expired_already i)
               (state_build (legacy_update i reason None now)) of
             (Inl e, tree') \<Rightarrow> (Inl e, tree', None)
           | (Inr _, tree') \<Rightarrow>
               (case res_bind (ct_state tree') (\<lambda>final.
                  res_bind (service_int (dget final ''generation'') None) (\<lambda>g.
                  res_bind (service_int (dget state ''generation'') None) (\<lambda>earlier.
                    Inr (expired_alert now i final (py_opt_int g) (py_opt_int earlier) expires reason)))) of
                  Inl e \<Rightarrow> (Inl e, tree', None)
                | Inr alert \<Rightarrow>
                    (case emit alert of Some e \<Rightarrow> (Inl e, tree', Some alert) | None \<Rightarrow> (Inr True, tree', Some alert)))))"

section \<open>A transition is recognised\<close>

text \<open>
  The state of a recovery is recognised by the run that its reason names, so the identity must survive
  the reason's length limit and the replacement of line ends.
\<close>

definition short_run :: "recovery_identity \<Rightarrow> bool" where
  "short_run i \<longleftrightarrow> length (ri_run_id i) \<le> 256 \<and> CHR 0x00 \<notin> set (ri_run_id i) \<and> CHR 0x0A \<notin> set (ri_run_id i)"

lemma safe_reason_contains:
  assumes "short_run i" "length p \<le> 256"
  shows "contains (ri_run_id i) (safe_reason (PyStr (p @ ri_run_id i @ q)))"
proof (cases "p @ ri_run_id i @ q = []")
  case True
  then have "safe_reason (PyStr (p @ ri_run_id i @ q)) = [] @ ri_run_id i @ safe_reason (PyStr (p @ ri_run_id i @ q))" by simp
  then show ?thesis unfolding contains_iff by blast
next
  case False
  let ?f = "\<lambda>c. if c = CHR 0x00 \<or> c = CHR 0x0A then CHR '' '' else c"
  have "length (ri_run_id i) \<le> 256" using assms(1) by (simp add: short_run_def)
  then have len: "length (ri_run_id i) \<le> 512 - length p" using assms(2) by linarith
  have "map ?f (ri_run_id i) = ri_run_id i"
    using assms(1) by (intro map_idI) (auto simp: short_run_def)
  then have "safe_reason (PyStr (p @ ri_run_id i @ q)) =
      map ?f p @ ri_run_id i @ take (512 - (length p + length (ri_run_id i))) (map ?f q)"
    using False assms(2) len by (simp add: safe_reason_def truthy_def)
  then show ?thesis unfolding contains_iff by blast
qed

text \<open>While a lease is held, no writer publishes another command.\<close>

definition same_command :: "int \<Rightarrow> canonical_tree \<Rightarrow> bool" where
  "same_command c tree \<longleftrightarrow>
     (\<forall>s. ct_state tree = Inr s \<longrightarrow> optional_int_equal (dget s ''latest_command'') (PyInt c) = Inr True)"

definition recovery_kept :: "recovery_identity \<Rightarrow> canonical_tree \<Rightarrow> bool" where
  "recovery_kept i tree \<longleftrightarrow> short_run i \<and> same_command (ri_command_id i) tree"

lemma state_build_leased:
  assumes "state_build update tree = Inr tree'"
  obtains current updated where "ct_state tree = Inr current" "update current = Inr updated"
    "tree' = tree\<lparr>ct_state := Inr updated\<rparr>"
  using assms by (auto simp: state_build_def res_bind_Inr_iff)

interpretation expired_cas: cas_protocol "recovery_kept i" "expired_expected lease_expired i" "expired_already i"
  "state_build (legacy_update i (expired_reason i expires) error now)"
  for i lease_expired expires error now
proof
  fix tree tree'
  assume kept: "recovery_kept i tree" and expected: "expired_expected lease_expired i tree = Inr True"
    and build: "state_build (legacy_update i (expired_reason i expires) error now) tree = Inr tree'"
  from build obtain current updated where tree: "ct_state tree = Inr current"
      "legacy_update i (expired_reason i expires) error now current = Inr updated" "tree' = tree\<lparr>ct_state := Inr updated\<rparr>"
    by (rule state_build_leased)
  have lease: "holds_lease current i None = Inr True"
    using expected by (simp add: expired_expected_def tree(1) and_chain_True)
  have updated: "updated = recovery_fields current ''RECOVERY_REQUIRED'' (ri_claim_generation i + 1)
      (safe_reason (PyStr (expired_reason i expires))) error now"
    using legacy_update_leased [OF lease] tree(2) by simp
  obtain p q where reason: "expired_reason i expires = p @ ri_run_id i @ q" "length p \<le> 256"
  proof
    show "expired_reason i expires = ''execution lease expired for run '' @ ri_run_id i @ ('' command '' @ show_int (ri_command_id i)
     @ '' claim_generation '' @ show_int (ri_claim_generation i)
     @ (case expires of None \<Rightarrow> [] | Some t \<Rightarrow> '' lease_expires_at '' @ t) @ ''; automatic rerun prohibited'')"
      by (simp add: expired_reason_def)
  qed simp
  have command: "optional_int_equal (dget current ''latest_command'') (PyInt (ri_command_id i)) = Inr True"
    using kept tree(1) by (simp add: recovery_kept_def same_command_def)
  have short: "short_run i" using kept by (simp add: recovery_kept_def)
  have "expired_already i tree' = Inr True"
    using holds_leaseD [OF lease] optional_int_service [OF command] safe_reason_contains [OF short reason(2)] reason(1)
    by (simp add: expired_already_def tree(3) updated recovery_clock.tick_nonneg)
  moreover have "recovery_kept i tree'"
    using command short by (simp add: recovery_kept_def same_command_def tree(3) updated)
  ultimately show "expired_already i tree' = Inr True \<and> recovery_kept i tree'" by simp
qed

section \<open>At most once\<close>

text \<open>
  C7: an expired lease is turned into RECOVERY_REQUIRED at most once, whatever other writers and failing
  pushes do, while the writers keep the command of the lease and do not undo the transition; and if the
  publication returns, or reached the branch, the branch holds this transition: one generation after
  the claim, no lease, and a reason that names the run.
\<close>

theorem expired_lease_recovered_once:
  assumes "publish_cas (expired_expected lease_expired i) (expired_already i)
      (state_build (legacy_update i (expired_reason i expires) None now)) attempts remote = (res, remote', n)"
    and "recovery_kept i remote"
    and "\<forall>a \<in> set attempts. \<forall>t. recovery_kept i t \<longrightarrow> recovery_kept i (ca_others a t)
      \<and> (expired_already i t = Inr True \<longrightarrow> expired_already i (ca_others a t) = Inr True)"
  shows "n \<le> 1 \<and> (n = 1 \<or> (\<exists>x. res = Inr x) \<longrightarrow> expired_already i remote' = Inr True)"
  by (rule expired_cas.publish_once [OF _ assms(2,1)]) (use assms(3) in \<open>simp add: expired_cas.respectful_def\<close>)

definition sample_expired :: recovery_identity where
  "sample_expired = \<lparr>ri_project_id = ''p'', ri_command_id = 3, ri_run_id = ''run-1'', ri_claim_generation = 6\<rparr>"

definition sample_leased :: canonical_tree where
  "sample_leased = \<lparr>ct_state = Inr (AList.update ''latest_command'' (PyInt 3) sample_pending_state), ct_report = None\<rparr>"

theorem expired_lease_recovered_once_witness:
  "\<exists>x tree'. publish_cas (expired_expected (\<lambda>_. Inr True) sample_expired) (expired_already sample_expired)
      (state_build (legacy_update sample_expired (expired_reason sample_expired None) None ''t''))
      [plain_attempt (\<lambda>t. t) PushLost, plain_attempt (\<lambda>t. t) PushAccepted] sample_leased = (Inr x, tree', 1)
     \<and> expired_already sample_expired tree' = Inr True"
proof -
  let ?as = "[plain_attempt (\<lambda>t. t) PushLost, plain_attempt (\<lambda>t. t) PushAccepted]"
  let ?e = "expired_expected (\<lambda>_. Inr True) sample_expired" and ?al = "expired_already sample_expired"
  let ?b = "state_build (legacy_update sample_expired (expired_reason sample_expired None) None ''t'')"
  obtain res tree' n where run: "publish_cas ?e ?al ?b ?as sample_leased = (res, tree', n)" by (rule prod_cases3)
  have "map_sum (\<lambda>_. ()) (\<lambda>_. ()) (fst (publish_cas ?e ?al ?b ?as sample_leased)) = Inr ()"
    "snd (snd (publish_cas ?e ?al ?b ?as sample_leased)) = 1"
    by code_simp+
  then obtain x where x: "res = Inr x" "n = 1" using run by (cases res) simp_all
  have "recovery_kept sample_expired sample_leased"
    by (simp add: recovery_kept_def same_command_def sample_leased_def short_run_def sample_expired_def)
  then have "?al tree' = Inr True"
    using expired_lease_recovered_once [OF run] x by (simp add: plain_attempt_def)
  then show ?thesis using run x by blast
qed

text \<open>The handler returns True only after such a publication, and then it has handed out one alert.\<close>

lemma mark_expired_lease_True:
  assumes "mark_expired_lease lease_expired emit now publish project tree = (Inr True, tree', alert)"
  obtains state i expires x a where "ct_state tree = Inr state" "dget state ''status'' = PyStr ''CODEX_RUNNING''"
    "lease_expired state = Inr True" "ri_project_id i = project"
    "publish (expired_expected lease_expired i) (expired_already i)
       (state_build (legacy_update i (expired_reason i expires) None now)) = (Inr x, tree')"
    "alert = Some a" "emit a = None"
proof -
  obtain state active i where parts: "ct_state tree = Inr state" "dget state ''status'' = PyStr ''CODEX_RUNNING''"
      "lease_expired state = Inr True" "expired_identity project state active = Inr i"
    and run: "(let t = py_str (dget_or active ''lease_expires_at'' (PyStr [])); expires = (if t = [] then None else Some t);
               reason = expired_reason i expires in
           case publish (expired_expected lease_expired i) (expired_already i)
               (state_build (legacy_update i reason None now)) of
             (Inl e, tree') \<Rightarrow> (Inl e, tree', None)
           | (Inr _, tree') \<Rightarrow>
               (case res_bind (ct_state tree') (\<lambda>final.
                  res_bind (service_int (dget final ''generation'') None) (\<lambda>g.
                  res_bind (service_int (dget state ''generation'') None) (\<lambda>earlier.
                    Inr (expired_alert now i final (py_opt_int g) (py_opt_int earlier) expires reason)))) of
                  Inl e \<Rightarrow> (Inl e, tree', None)
                | Inr alert \<Rightarrow>
                    (case emit alert of Some e \<Rightarrow> (Inl e, tree', Some alert) | None \<Rightarrow> (Inr True, tree', Some alert))))
        = (Inr True, tree', alert)"
    using assms unfolding mark_expired_lease_def
    by (auto simp: res_bind_Inr_iff Let_def split: sum.splits option.splits if_splits)
  define expires where "expires = (let t = py_str (dget_or active ''lease_expires_at'' (PyStr [])) in if t = [] then None else Some t)"
  obtain res out where publish: "publish (expired_expected lease_expired i) (expired_already i)
      (state_build (legacy_update i (expired_reason i expires) None now)) = (res, out)" by (rule prod.exhaust)
  have "ri_project_id i = project"
    using parts(4) by (auto simp: expired_identity_def res_bind_Inr_iff RecoveryIdentity_def run_checks_Inr)
  moreover have "\<exists>x a. res = Inr x \<and> out = tree' \<and> alert = Some a \<and> emit a = None"
    using run publish by (auto simp: Let_def expires_def split: sum.splits option.splits)
  ultimately show thesis using that parts publish by blast
qed

end
