(* ===== verification/Recovery_Typed.thy ===== *)
theory Recovery_Typed
  imports Recovery_Service Durable_Wal
begin

text \<open>
  \<open>worker/vnext_runtime/services/recovery.py\<close>, second part: a saved report whose evidence is typed.  Its
  run log, the canonical state and the remote refs make the envelope that the classifier judges, and the
  verdict decides between publication, a transition to RECOVERY_REQUIRED, and waiting.
\<close>

section \<open>Canonical facts\<close>

definition required_int :: "pydict \<Rightarrow> string \<Rightarrow> int \<Rightarrow> pyexc + int" where
  "required_int state key minimum =
     res_bind (service_int (dget state key) None) (\<lambda>v.
       case v of
         None \<Rightarrow> Inl (RecoveryServiceConflict (''canonical '' @ key @ '' is not exact''))
       | Some i \<Rightarrow> if i < minimum then Inl (RecoveryServiceConflict (''canonical '' @ key @ '' is not exact'')) else Inr i)"

definition service_snapshot :: "pydict \<Rightarrow> run_identity \<Rightarrow> pyexc + canonical_snapshot" where
  "service_snapshot state ident =
     run_checks
       [ensure (py_eq (dget state ''project_id'') (PyStr (id_project ident)))
          (RecoveryServiceConflict ''canonical project identity does not match the exact run''),
        ensure (nonempty_str (dget state ''status'')) (RecoveryServiceConflict ''canonical status is not exact''),
        ensure (dget state ''active_run'' = PyNone \<or> is_dict (dget state ''active_run''))
          (RecoveryServiceConflict ''canonical active_run is not exact'')]
       (let active = dget state ''active_run''; lease = the_dict active in
        res_bind (if active = PyNone then Inr None
          else (case RunIdentity (PyStr (id_project ident)) (dget lease ''command_id'') (dget lease ''run_id'')
              (dget lease ''claimed_generation'') of
            Inl _ \<Rightarrow> Inl (RecoveryServiceConflict ''canonical active_run identity is not exact'')
          | Inr i \<Rightarrow> Inr (Some i))) (\<lambda>active_identity.
        res_bind (required_int state ''generation'' 0) (\<lambda>g.
        res_bind (required_int state ''latest_command'' 0) (\<lambda>c.
        res_bind (required_int state ''latest_report'' 0) (\<lambda>r.
          CanonicalRunSnapshot (PyStr (id_project ident)) (dget state ''status'') (PyInt g) (PyInt c) (PyInt r) active_identity)))))"

definition run_identity_from_metadata :: "pydict \<Rightarrow> pyexc + run_identity" where
  "run_identity_from_metadata m =
     (case RunIdentity (dget m ''project_id'') (dget m ''command_id'') (dget m ''run_id'') (dget m ''claim_generation'') of
        Inl _ \<Rightarrow> Inl (RecoveryServiceConflict ''typed evidence does not contain an exact run identity'')
      | Inr i \<Rightarrow> Inr i)"

section \<open>What the report says\<close>

text \<open>The values of the lines that start with a key, after their first colon.\<close>

definition after_colon :: "string \<Rightarrow> string" where
  "after_colon line = tl (dropWhile (\<lambda>c. c \<noteq> CHR '':'') line)"

definition report_values :: "string \<Rightarrow> string \<Rightarrow> string list" where
  "report_values key t =
     map (\<lambda>line. py_upper (strip (after_colon line)))
       (filter (\<lambda>line. has_prefix key (strip line) \<and> CHR '':'' \<in> set line) (splitlines t))"

definition report_marker_state :: "string \<Rightarrow> evidence_state" where
  "report_marker_state t =
     (let values = report_values ''- marker_result:'' t in
      if ''VALID'' \<in> set values then YES
      else if values \<noteq> [] \<and> set values \<subseteq> set [''MISSING'', ''INVALID'', ''FAILED'', ''BLOCKED'', ''N/A''] then NO
      else UNKNOWN)"

definition service_outcome :: "string \<Rightarrow> string \<Rightarrow> pyexc + string" where
  "service_outcome t expected =
     (let values = report_values ''- outcome:'' t in
      if values = [expected] then Inr expected
      else Inl (RecoveryServiceConflict ''typed report outcome does not bind the pending sidecar''))"

section \<open>Push effects\<close>

definition unresolved :: "push_effect \<Rightarrow> string \<Rightarrow> py \<Rightarrow> pyexc + push_reconciliation" where
  "unresolved effect state precondition =
     PushReconciliation (PyStr (pe_effect_id effect)) (PyStr (pe_target_id effect)) (PyStr (pe_expected_object effect))
       (PyStr state) PyNone precondition"

text \<open>\<open>reconcile_push\<close> is the callback, or the reconciler of \<open>Git_Effects\<close> with a reader of the remote.\<close>

definition reconcile_push_effect ::
    "(git_push_intent \<Rightarrow> pyexc + push_reconciliation) \<Rightarrow> run_identity \<Rightarrow> push_effect \<Rightarrow> pyexc + push_reconciliation" where
  "reconcile_push_effect reconcile_push ident effect =
     (case pe_precondition_object effect of
        None \<Rightarrow> unresolved effect ''UNKNOWN'' PyNone
      | Some precondition \<Rightarrow>
          (case res_bind (split_target_id (PyStr (pe_target_id effect))) (\<lambda>(remote, target_ref).
             GitPushIntent ident (PyStr (pe_effect_id effect)) (PyStr remote) (PyStr target_ref)
               (PyStr (pe_expected_object effect)) (PyStr precondition)) of
            Inl e \<Rightarrow> if is_type_error e \<or> is_value_error e then unresolved effect ''AMBIGUOUS'' (PyStr precondition) else Inl e
          | Inr intent \<Rightarrow>
              (case reconcile_push intent of
                 Inl e \<Rightarrow> if is_os_error e \<or> is_subprocess_error e \<or> is_type_error e \<or> is_value_error e
                   then unresolved effect ''UNKNOWN'' (PyStr precondition) else Inl e
               | Inr r \<Rightarrow> Inr r)))"

section \<open>The envelope\<close>

definition events_of :: "wal_event_kind \<Rightarrow> recovery_wal \<Rightarrow> wal_event list" where
  "events_of k w = filter (\<lambda>e. we_kind e = k) (wal_events w)"

definition seen_state :: "wal_event_kind \<Rightarrow> recovery_wal \<Rightarrow> evidence_state" where
  "seen_state k w = (if events_of k w \<noteq> [] then YES else UNKNOWN)"

text \<open>The digest of the canonical report, where the state counts it.\<close>

definition published_report_check :: "pending_evidence \<Rightarrow> (pyexc + string) option \<Rightarrow> pyexc option" where
  "published_report_check ev report =
     (case res_bind (case report of None \<Rightarrow> Inl (OSError ''No such file or directory'') | Some r \<Rightarrow> r) text_read of
        Inl e \<Rightarrow> Some (if is_os_error e
          then RecoveryServiceConflict ''canonical latest_report advanced without the exact report'' else e)
      | Inr t \<Rightarrow> ensure (PyStr (sha256_hex (utf8_encode t)) = pe_field ev ''report_sha256'')
          (RecoveryServiceConflict ''canonical latest_report does not contain the exact pending report''))"

definition report_log_checks :: "string \<Rightarrow> recovery_wal \<Rightarrow> pyexc option list" where
  "report_log_checks digest w =
     (let materialized_events = events_of REPORT_MATERIALIZED w; intents = events_of REPORT_PUBLISH_INTENT w in
     [ensure (materialized_events = [] \<or> we_artifact_digest (hd materialized_events) = Some digest)
        (RecoveryServiceConflict ''WAL report digest contradicts pending report integrity''),
      ensure (materialized_events = [] \<or> intents \<noteq> [] \<and> we_artifact_digest (hd intents) = Some digest)
        (RecoveryServiceConflict ''WAL report publication intent does not bind the exact report'')])"

definition log_containment :: "recovery_wal \<Rightarrow> containment_evidence" where
  "log_containment w =
     (let egress = events_of PROJECT_EGRESS_RECONCILED w;
          observed = (if egress = [] then None else we_observed_object (hd egress)) in
      \<lparr>containment_intact = seen_state CONTAINMENT_RECONCILED w,
       project_egress_observed = (if observed = Some ''NO'' then NO else if observed = Some ''YES'' then YES else UNKNOWN),
       unclassified_project_egress = (if observed = Some ''NO'' then NO else UNKNOWN),
       local_effects_reconciled = (if observed = Some ''NO'' \<or> observed = Some ''YES'' then YES else UNKNOWN)\<rparr>)"

definition log_reconciliations ::
    "(git_push_intent \<Rightarrow> pyexc + push_reconciliation) \<Rightarrow> canonical_snapshot \<Rightarrow> run_identity \<Rightarrow> push_effect list \<Rightarrow>
       pyexc + push_reconciliation list" where
  "log_reconciliations reconcile_push canonical ident effects =
     (if relation_to canonical ident \<in> {REPORT_ALREADY_PUBLISHED, STATE_ADVANCED} then Inr []
      else res_map (reconcile_push_effect reconcile_push ident) (filter (\<lambda>e. \<not> pe_confirmed e) effects))"

definition typed_envelope ::
    "(git_push_intent \<Rightarrow> pyexc + push_reconciliation) \<Rightarrow> pending_evidence \<Rightarrow> pydict \<Rightarrow> (pyexc + string) option \<Rightarrow> recovery_wal \<Rightarrow>
       pyexc + canonical_snapshot \<times> recovery_envelope" where
  "typed_envelope reconcile_push ev state report w =
     (let digest = sha256_hex (utf8_encode (pe_report_text ev)) in
      res_bind (run_identity_from_metadata (pe_metadata ev)) (\<lambda>ident.
      res_bind (service_snapshot state ident) (\<lambda>canonical.
      run_checks
        ((if id_command ident \<le> cs_latest_report canonical then published_report_check ev report else None)
         # report_log_checks digest w)
        (res_bind (push_effects w) (\<lambda>effects.
         res_bind (log_reconciliations reconcile_push canonical ident effects) (\<lambda>reconciliations.
         res_bind (enum_call RecoveryCommandKind (ValueError ''not a valid RecoveryCommandKind'') (pe_field ev ''kind'')) (\<lambda>_.
         res_bind (enum_call JournalDisposition (ValueError ''not a valid JournalDisposition'')
           (PyStr (py_upper (the_str (pe_field ev ''journal_status''))))) (\<lambda>_.
         res_bind (service_outcome (pe_report_text ev) (py_str (pe_field ev ''outcome''))) (\<lambda>outcome.
         let made = seen_state REPORT_MATERIALIZED w; states = (\<lambda>s. PyStr (case s of YES \<Rightarrow> ''YES'' | NO \<Rightarrow> ''NO'' | UNKNOWN \<Rightarrow> ''UNKNOWN'')) in
         res_bind (ReportEvidence (states (report_marker_state (pe_report_text ev))) (states made) (states made) (PyStr outcome)) (\<lambda>evidence.
         res_bind (RecoveryEnvelope (PyInt 1) ident (pe_field ev ''kind'')
             (PyStr (py_upper (the_str (pe_field ev ''journal_status''))))
             \<lparr>process_created = seen_state PROCESS_CREATED w, process_exited = seen_state PROCESS_EXITED w\<rparr>
             evidence (log_containment w) \<lparr>store_available = YES\<rparr> w reconciliations) (\<lambda>env.
           Inr (canonical, env))))))))))))"

section \<open>The transition\<close>

definition typed_expected :: "recovery_identity \<Rightarrow> string \<Rightarrow> canonical_tree \<Rightarrow> pyexc + bool" where
  "typed_expected i source tree = res_bind (ct_state tree) (\<lambda>current. holds_lease current i (Some source))"

definition typed_already :: "canonical_tree \<Rightarrow> pyexc + bool" where
  "typed_already tree =
     res_bind (ct_state tree) (\<lambda>current. Inr (py_eq (dget current ''status'') (PyStr ''RECOVERY_REQUIRED'')))"

definition typed_error :: string where
  "typed_error = ''typed recovery evidence is incomplete or ambiguous; manual recovery required''"

text \<open>The sidecar is marked as a conflict and the outcome is returned.\<close>

definition retain :: "setting \<Rightarrow> pending_evidence \<Rightarrow> string \<Rightarrow> string \<Rightarrow> files \<Rightarrow> (pyexc + string) \<times> files" where
  "retain s ev reason outcome files =
     (case mark_conflict_best_effort (st_float s) (st_linesep s) (st_now s) (st_fails s) (pe_metadata_path ev) reason files of
        (Some e, files') \<Rightarrow> (Inl e, files')
      | (None, files') \<Rightarrow> (Inr outcome, files'))"

definition service_identity :: "run_identity \<Rightarrow> recovery_identity" where
  "service_identity i = \<lparr>ri_project_id = id_project i, ri_command_id = id_command i, ri_run_id = id_run i,
     ri_claim_generation = id_generation i\<rparr>"

definition transition_typed_recovery ::
    "setting \<Rightarrow> 'r publisher \<Rightarrow> pending_evidence \<Rightarrow> run_identity \<Rightarrow> pydict \<Rightarrow> string \<Rightarrow> files \<Rightarrow> (pyexc + string) \<times> files" where
  "transition_typed_recovery s publish ev ident state reason files =
     (let i = service_identity ident; source = py_str (pe_field ev ''source'') in
      if py_eq (dget state ''status'') (PyStr ''RECOVERY_REQUIRED'')
      then retain s ev ''canonical RECOVERY_REQUIRED already exists; automatic resolution refused'' ''conflict'' files
      else raising (service_int (dget state ''latest_report'') (Some (- 1))) files (\<lambda>latest.
      if id_command ident \<le> the latest
      then retain s ev ''canonical history advanced while typed recovery evidence remained pending'' ''conflict'' files
      else raising (holds_lease state i (Some source)) files (\<lambda>held.
      if \<not> held then retain s ev ''typed recovery evidence no longer matches the canonical lease'' ''conflict'' files
      else (case publish (typed_expected i source) typed_already
            (state_build (recovery_update i reason (Some typed_error) (st_now s))) of
          (Inr _, _) \<Rightarrow> retain s ev reason ''recovery'' files
        | (Inl (CASConflict _), _) \<Rightarrow> retain s ev ''canonical state changed during typed recovery CAS'' ''conflict'' files
        | (Inl e, _) \<Rightarrow> (if is_worker_error e then Inr ''pending'' else Inl e, files)))))"

section \<open>One typed report\<close>

datatype typed_action = TypedReturn string | TypedSupersede string | TypedPublish | TypedRecover string

definition assessment_action :: "recovery_assessment \<Rightarrow> typed_action" where
  "assessment_action a = (case ra_classification a of
      SUPERSEDED \<Rightarrow> TypedSupersede (ra_reason a)
    | CONFLICT \<Rightarrow> TypedRecover (ra_reason a)
    | REQUIRE_RECOVERY \<Rightarrow> TypedRecover (ra_reason a)
    | DEFER_PUBLICATION \<Rightarrow> TypedReturn ''pending''
    | PUBLISH_COMPLETED_REPORT \<Rightarrow> TypedPublish
    | PUBLISH_INTERRUPTED_REPORT \<Rightarrow> TypedPublish
    | NO_ACTION \<Rightarrow> TypedReturn ''ignored'')"

definition DEFAULT_MAX_WAL_BYTES :: int where
  "DEFAULT_MAX_WAL_BYTES = 256 * 1024"

text \<open>A log that is absent, or that the system cannot read, is one that the reader refuses.\<close>

definition read_run_log :: "(string \<Rightarrow> py) \<Rightarrow> files \<Rightarrow> string list \<Rightarrow> run_identity \<Rightarrow> pyexc + recovery_wal" where
  "read_run_log float_of files path ident =
     res_bind (wal_read float_of (Some ident) DEFAULT_MAX_WAL_BYTES
       (case files path of Some (Inr raw) \<Rightarrow> Some raw | _ \<Rightarrow> None)) (\<lambda>snapshot.
       RecoveryWal (PyInt RECOVERY_WAL_SCHEMA_VERSION) (ws_identity snapshot) (ws_events snapshot))"

text \<open>The names of the classes that the handler catches.\<close>

definition evidence_failure :: "pyexc \<Rightarrow> string option" where
  "evidence_failure e = (case e of
      DurableWalError _ \<Rightarrow> Some ''DurableWalError''
    | RecoveryEvidenceError _ \<Rightarrow> Some ''RecoveryEvidenceError''
    | RecoveryServiceConflict _ \<Rightarrow> Some ''RecoveryServiceConflict''
    | OSError _ \<Rightarrow> Some ''OSError'' | PermissionError _ \<Rightarrow> Some ''PermissionError''
    | ProcessLookupError _ \<Rightarrow> Some ''ProcessLookupError''
    | _ \<Rightarrow> None)"

definition typed_action ::
    "(string \<Rightarrow> py) \<Rightarrow> (git_push_intent \<Rightarrow> pyexc + push_reconciliation) \<Rightarrow> pending_evidence \<Rightarrow> run_identity \<Rightarrow> pydict \<Rightarrow>
       (pyexc + string) option \<Rightarrow> files \<Rightarrow> pyexc + typed_action" where
  "typed_action float_of reconcile_push ev ident state report files =
     (case res_bind (canonical_wal_path (pe_bridge_root ev) (PyStr (id_project ident)) (PyStr (id_run ident))) (\<lambda>path.
        res_bind (read_run_log float_of files path ident) (typed_envelope reconcile_push ev state report)) of
        Inl e \<Rightarrow> (case evidence_failure e of
            Some name \<Rightarrow> Inr (TypedRecover (''typed recovery evidence cannot be safely classified: '' @ name))
          | None \<Rightarrow> Inl e)
      | Inr (canonical, env) \<Rightarrow> res_bind (classify_recovery canonical env) (\<lambda>a. Inr (assessment_action a)))"

definition perform_typed ::
    "setting \<Rightarrow> 'r publisher \<Rightarrow> pending_evidence \<Rightarrow> run_identity \<Rightarrow> pydict \<Rightarrow> canonical_tree \<Rightarrow> files \<Rightarrow> typed_action \<Rightarrow>
       (pyexc + string) \<times> files" where
  "perform_typed s publish ev ident state tree files action = (case action of
      TypedReturn r \<Rightarrow> (Inr r, files)
    | TypedSupersede reason \<Rightarrow> acknowledge s ev ''superseded'' reason files
    | TypedPublish \<Rightarrow> reconcile_one s publish ev tree files
    | TypedRecover reason \<Rightarrow> transition_typed_recovery s publish ev ident state reason files)"

definition reconcile_typed_report ::
    "setting \<Rightarrow> (string list \<Rightarrow> string list) \<Rightarrow> string list \<Rightarrow> (git_push_intent \<Rightarrow> pyexc + push_reconciliation) \<Rightarrow> 'r publisher \<Rightarrow>
       string list \<Rightarrow> canonical_tree \<Rightarrow> files \<Rightarrow> (pyexc + string) \<times> files" where
  "reconcile_typed_report s resolve bridge_root reconcile_push publish path tree files =
     (case load_evidence (st_float s) resolve bridge_root path files of
        Inl e \<Rightarrow>
          (if is_os_error e \<or> is_pending_report_error e
           then (case mark_conflict_best_effort (st_float s) (st_linesep s) (st_now s) (st_fails s) path
                   (''typed pending evidence validation failed: '' @ (if is_pending_report_error e then ''PendingReportError'' else ''OSError'')) files of
               (Some e', files') \<Rightarrow> (Inl e', files')
             | (None, files') \<Rightarrow> (Inr ''conflict'', files'))
           else (Inl e, files))
      | Inr ev \<Rightarrow>
          (if pe_field ev ''evidence_mode'' \<noteq> PyStr ''typed'' then (Inr ''ignored'', files)
           else raising (run_identity_from_metadata (pe_metadata ev)) files (\<lambda>ident.
             case ct_state tree of
               Inl e \<Rightarrow> (if is_os_error e \<or> is_worker_error e then Inr ''pending'' else Inl e, files)
             | Inr state \<Rightarrow>
                 raising (typed_action (st_float s) reconcile_push ev ident state (ct_report tree) files) files
                   (perform_typed s publish ev ident state tree files))))"

text \<open>The transition is recognised by its status alone, so it is published at most once.\<close>

interpretation typed_cas: cas_operation "typed_expected i source" typed_already "state_build (recovery_update i reason error now)"
  for i source reason error now
proof
  fix tree tree'
  assume "typed_expected i source tree = Inr True" "state_build (recovery_update i reason error now) tree = Inr tree'"
  then show "typed_already tree' = Inr True"
    using recovery_update_leased
    by (auto simp: typed_expected_def typed_already_def res_bind_Inr_iff elim!: state_build_leased)
qed

section \<open>What a publication rests on\<close>

lemma event_from_wire_wf: "event_from_wire v = Inr e \<Longrightarrow> wf_event e"
  unfolding event_from_wire_def run_checks_Inr Let_def reraise_as_Inr by (blast dest: RecoveryWalEvent_valid)

lemma read_record_wf: "read_record F ident line = Inr e \<Longrightarrow> wf_event e"
  unfolding read_record_def Let_def res_bind_Inr_iff run_checks_Inr by (blast dest: event_from_wire_wf)

lemma res_map_all_wf: "res_map f xs = Inr ys \<Longrightarrow> (\<And>x y. f x = Inr y \<Longrightarrow> P y) \<Longrightarrow> list_all P ys"
  by (induction xs arbitrary: ys) (auto simp: res_bind_Inr_iff)

lemma read_run_log_valid:
  assumes "read_run_log F files path ident = Inr w"
  shows "list_all wf_event (wal_events w)" "wal_valid (wal_events w)" "wal_identity w = ident"
proof -
  obtain snapshot where snapshot: "wal_read F (Some ident) DEFAULT_MAX_WAL_BYTES
       (case files path of Some (Inr raw) \<Rightarrow> Some raw | _ \<Rightarrow> None) = Inr snapshot"
    and w: "RecoveryWal (PyInt RECOVERY_WAL_SCHEMA_VERSION) (ws_identity snapshot) (ws_events snapshot) = Inr w"
    using assms unfolding read_run_log_def res_bind_Inr_iff by blast
  obtain actual events raw where read: "read_file F DEFAULT_MAX_WAL_BYTES
       (case files path of Some (Inr raw) \<Rightarrow> Some raw | _ \<Rightarrow> None) = Inr (actual, events, raw)"
    and parts: "actual = ident" "ws_identity snapshot = actual" "ws_events snapshot = events"
    using snapshot by (auto simp: wal_read_def run_checks_Inr res_bind_Inr_iff)
  have "list_all wf_event events"
    using read by (auto simp: read_file_def Let_def res_bind_Inr_iff run_checks_Inr split: option.splits if_splits
        intro: res_map_all_wf read_record_wf)
  moreover have "wal_scan 0 [] [] events = None" "wal_identity w = actual" "wal_events w = events"
    using w by (auto simp: RecoveryWal_def run_checks_Inr parts)
  ultimately show "list_all wf_event (wal_events w)" "wal_valid (wal_events w)" "wal_identity w = ident"
    using wal_scan_valid parts by auto
qed

text \<open>A reconciler is exact when every result is a constructed \<open>PushReconciliation\<close>.\<close>

definition exact_reconciler :: "(git_push_intent \<Rightarrow> pyexc + push_reconciliation) \<Rightarrow> bool" where
  "exact_reconciler reconcile_push \<longleftrightarrow> (\<forall>i r. reconcile_push i = Inr r \<longrightarrow> wf_reconciliation r)"

text \<open>The reconciler of the program is exact, whatever its reader does.\<close>

lemma exact_reconciler_default: "exact_reconciler (reconcile_push_intent reader)"
  by (auto simp: exact_reconciler_def reconcile_push_intent_def Let_def dest: PushReconciliation_valid split: sum.splits if_splits)

lemma reconcile_push_effect_wf:
  "exact_reconciler rp \<Longrightarrow> reconcile_push_effect rp ident e = Inr r \<Longrightarrow> wf_reconciliation r"
  by (auto simp: reconcile_push_effect_def exact_reconciler_def unresolved_def dest: PushReconciliation_valid
      split: option.splits sum.splits if_splits)

lemma log_reconciliations_wf:
  "exact_reconciler rp \<Longrightarrow> log_reconciliations rp canonical ident effects = Inr rs \<Longrightarrow> list_all wf_reconciliation rs"
  by (auto simp: log_reconciliations_def split: if_splits intro: res_map_all_wf reconcile_push_effect_wf)

lemma typed_envelope_parts:
  assumes "typed_envelope rp ev state report w = Inr (canonical, env)"
  obtains ident effects rs evidence where
    "run_identity_from_metadata (pe_metadata ev) = Inr ident" "service_snapshot state ident = Inr canonical"
    "first_raise (report_log_checks (sha256_hex (utf8_encode (pe_report_text ev))) w) = None"
    "push_effects w = Inr effects" "log_reconciliations rp canonical ident effects = Inr rs"
    "report_values ''- outcome:'' (pe_report_text ev) = [py_str (pe_field ev ''outcome'')]"
    "final_marker_valid evidence = report_marker_state (pe_report_text ev)"
    "materialized evidence = seen_state REPORT_MATERIALIZED w"
    "report_outcome evidence = Some (py_str (pe_field ev ''outcome''))"
    "RecoveryEnvelope (PyInt 1) ident (pe_field ev ''kind'') (PyStr (py_upper (the_str (pe_field ev ''journal_status''))))
       \<lparr>process_created = seen_state PROCESS_CREATED w, process_exited = seen_state PROCESS_EXITED w\<rparr>
       evidence (log_containment w) \<lparr>store_available = YES\<rparr> w rs = Inr env"
proof -
  let ?states = "\<lambda>s. PyStr (case s of YES \<Rightarrow> ''YES'' | NO \<Rightarrow> ''NO'' | UNKNOWN \<Rightarrow> ''UNKNOWN'')"
  have enum: "enum_value EvidenceState (?states s) label = Inr s" for s label
    by (cases s) (simp_all add: enum_value_def enum_call_def EvidenceState_def)
  obtain ident effects rs evidence outcome where parts:
    "run_identity_from_metadata (pe_metadata ev) = Inr ident" "service_snapshot state ident = Inr canonical"
    "first_raise (report_log_checks (sha256_hex (utf8_encode (pe_report_text ev))) w) = None"
    "push_effects w = Inr effects" "log_reconciliations rp canonical ident effects = Inr rs"
    "service_outcome (pe_report_text ev) (py_str (pe_field ev ''outcome'')) = Inr outcome"
    "ReportEvidence (?states (report_marker_state (pe_report_text ev))) (?states (seen_state REPORT_MATERIALIZED w))
       (?states (seen_state REPORT_MATERIALIZED w)) (PyStr outcome) = Inr evidence"
    "RecoveryEnvelope (PyInt 1) ident (pe_field ev ''kind'') (PyStr (py_upper (the_str (pe_field ev ''journal_status''))))
       \<lparr>process_created = seen_state PROCESS_CREATED w, process_exited = seen_state PROCESS_EXITED w\<rparr>
       evidence (log_containment w) \<lparr>store_available = YES\<rparr> w rs = Inr env"
    using assms unfolding typed_envelope_def Let_def res_bind_Inr_iff run_checks_Inr first_raise_None sum.inject prod.inject
    by blast
  moreover have "report_values ''- outcome:'' (pe_report_text ev) = [py_str (pe_field ev ''outcome'')]"
      "outcome = py_str (pe_field ev ''outcome'')"
    using parts(6) by (auto simp: service_outcome_def Let_def split: if_splits)
  moreover have "final_marker_valid evidence = report_marker_state (pe_report_text ev)"
      "materialized evidence = seen_state REPORT_MATERIALIZED w" "report_outcome evidence = Some outcome"
    using parts(7) unfolding ReportEvidence_def enum by (auto simp: run_checks_Inr)
  ultimately show thesis using that by blast
qed

text \<open>What the log and the report prove of a completed run, and of an interrupted one.\<close>

definition logged :: "wal_event_kind \<Rightarrow> recovery_wal \<Rightarrow> bool" where
  "logged k w \<longleftrightarrow> (\<exists>e \<in> set (wal_events w). we_kind e = k)"

definition logged_digest :: "wal_event_kind \<Rightarrow> string \<Rightarrow> recovery_wal \<Rightarrow> bool" where
  "logged_digest k t w \<longleftrightarrow>
     (\<exists>e \<in> set (wal_events w). we_kind e = k \<and> we_artifact_digest e = Some (sha256_hex (utf8_encode t)))"

definition completion_proven :: "pending_evidence \<Rightarrow> recovery_wal \<Rightarrow> bool" where
  "completion_proven ev w \<longleftrightarrow> ''VALID'' \<in> set (report_values ''- marker_result:'' (pe_report_text ev))
     \<and> logged_digest REPORT_MATERIALIZED (pe_report_text ev) w \<and> logged_digest REPORT_PUBLISH_INTENT (pe_report_text ev) w"

definition interruption_proven :: "pending_evidence \<Rightarrow> recovery_wal \<Rightarrow> push_reconciliation list \<Rightarrow> bool" where
  "interruption_proven ev w rs \<longleftrightarrow> ''VALID'' \<notin> set (report_values ''- marker_result:'' (pe_report_text ev))
     \<and> pe_field ev ''outcome'' \<noteq> PyStr ''SUCCESS'' \<and> pe_field ev ''kind'' = PyStr ''EXECUTE''
     \<and> logged CONTAINMENT_RECONCILED w
     \<and> (\<exists>e \<in> set (wal_events w). we_kind e = PROJECT_EGRESS_RECONCILED \<and> we_observed_object e = Some ''NO'')
     \<and> (\<forall>e \<in> set (wal_events w). we_kind e = PUSH_INTENT \<longrightarrow>
          (\<exists>r \<in> set rs. Some (pr_effect_id r) = we_effect_id e \<and> Some (pr_target_id r) = we_target_id e
             \<and> Some (pr_expected_object r) = we_expected_object e \<and> pr_state r = EXACT_NOT_APPLIED))"

lemma seen_state_YES [simp]: "seen_state k w = YES \<longleftrightarrow> logged k w" "seen_state k w \<noteq> NO"
  by (auto simp: seen_state_def events_of_def logged_def filter_empty_conv)

lemma hd_events_of: "events_of k w \<noteq> [] \<Longrightarrow> hd (events_of k w) \<in> set (wal_events w) \<and> we_kind (hd (events_of k w)) = k"
  using hd_in_set [of "events_of k w"] by (auto simp: events_of_def)

lemma log_containment_NO:
  assumes "unclassified_project_egress (log_containment w) = NO"
  shows "\<exists>e \<in> set (wal_events w). we_kind e = PROJECT_EGRESS_RECONCILED \<and> we_observed_object e = Some ''NO''"
    and "project_egress_observed (log_containment w) = NO"
  using assms hd_events_of [of PROJECT_EGRESS_RECONCILED w]
  by (auto simp: log_containment_def Let_def split: if_splits)

lemma report_log_digests:
  assumes "first_raise (report_log_checks (sha256_hex (utf8_encode t)) w) = None" "logged REPORT_MATERIALIZED w"
  shows "logged_digest REPORT_MATERIALIZED t w" "logged_digest REPORT_PUBLISH_INTENT t w"
proof -
  have "events_of REPORT_MATERIALIZED w \<noteq> []"
    using assms(2) by (auto simp: logged_def events_of_def filter_empty_conv)
  then show "logged_digest REPORT_MATERIALIZED t w" "logged_digest REPORT_PUBLISH_INTENT t w"
    using assms(1) hd_events_of [of REPORT_MATERIALIZED w] hd_events_of [of REPORT_PUBLISH_INTENT w]
    by (auto simp: report_log_checks_def Let_def logged_digest_def)
qed

text \<open>A push of the log whose fate is settled and that was not applied was seen not applied.\<close>

lemma settled_not_applied:
  assumes "Recovery_Classify.settled rs e" "\<not> effect_applied rs e"
  shows "\<exists>r \<in> set rs. pr_effect_id r = pe_effect_id e \<and> pr_target_id r = pe_target_id e
    \<and> pr_expected_object r = pe_expected_object e \<and> pr_state r = EXACT_NOT_APPLIED"
  using assms reconciliation_for_mem [of rs "pe_effect_id e"]
  by (fastforce simp: Recovery_Classify.settled_def effect_applied_def split: option.splits if_splits)

lemma log_effects_of_intent:
  assumes "e \<in> set (wal_events (env_wal env))" "we_kind e = PUSH_INTENT" "wf_event e"
  shows "\<exists>f \<in> set (log_effects env). Some (pe_effect_id f) = we_effect_id e \<and> Some (pe_target_id f) = we_target_id e
    \<and> Some (pe_expected_object f) = we_expected_object e"
  using assms by (auto simp: log_effects_def effect_of_def wf_event_def Let_def)

lemma typed_envelope_wf:
  assumes "typed_envelope rp ev state report w = Inr (canonical, env)" "exact_reconciler rp"
    and "list_all wf_event (wal_events w)" "wal_valid (wal_events w)"
  shows "wf_envelope env"
  using assms(1)
proof (rule typed_envelope_parts)
  fix ident effects rs evidence
  assume rs: "log_reconciliations rp canonical ident effects = Inr rs"
    and env: "RecoveryEnvelope (PyInt 1) ident (pe_field ev ''kind'') (PyStr (py_upper (the_str (pe_field ev ''journal_status''))))
       \<lparr>process_created = seen_state PROCESS_CREATED w, process_exited = seen_state PROCESS_EXITED w\<rparr>
       evidence (log_containment w) \<lparr>store_available = YES\<rparr> w rs = Inr env"
  have "list_all wf_reconciliation rs" by (rule log_reconciliations_wf [OF assms(2) rs])
  then show "wf_envelope env"
    using env assms(3,4)
    by (auto simp: RecoveryEnvelope_def run_checks_Inr res_bind_Inr_iff wf_envelope_def duplicate_reconciliation_iff)
qed

text \<open>Where the classifier lets the report out, log and report prove it.\<close>

lemma typed_envelope_proof:
  assumes "typed_envelope rp ev state report w = Inr (canonical, env)"
    and "run_identity_from_metadata (pe_metadata ev) = Inr ident" "list_all wf_event (wal_events w)"
    and "leased canonical env" "completed_report_proven env \<or> interrupted_safe env" "is_str (pe_field ev ''outcome'')"
  obtains rs where "service_snapshot state ident = Inr canonical" "relation_to canonical ident = EXACT_RUNNING_LEASE"
    "JournalDisposition (py_upper (the_str (pe_field ev ''journal_status''))) = Some PENDING"
    "logged PROCESS_CREATED w" "logged PROCESS_EXITED w"
    "\<exists>effects. push_effects w = Inr effects \<and> log_reconciliations rp canonical ident effects = Inr rs"
    "completion_proven ev w \<or> interruption_proven ev w rs"
  using assms(1)
proof (rule typed_envelope_parts)
  fix ident' effects rs evidence
  assume parts: "run_identity_from_metadata (pe_metadata ev) = Inr ident'" "service_snapshot state ident' = Inr canonical"
    "first_raise (report_log_checks (sha256_hex (utf8_encode (pe_report_text ev))) w) = None"
    "push_effects w = Inr effects" "log_reconciliations rp canonical ident' effects = Inr rs"
    "final_marker_valid evidence = report_marker_state (pe_report_text ev)"
    "materialized evidence = seen_state REPORT_MATERIALIZED w"
    "report_outcome evidence = Some (py_str (pe_field ev ''outcome''))"
    and env: "RecoveryEnvelope (PyInt 1) ident' (pe_field ev ''kind'') (PyStr (py_upper (the_str (pe_field ev ''journal_status''))))
       \<lparr>process_created = seen_state PROCESS_CREATED w, process_exited = seen_state PROCESS_EXITED w\<rparr>
       evidence (log_containment w) \<lparr>store_available = YES\<rparr> w rs = Inr env"
  have ident: "ident' = ident" using parts(1) assms(2) by simp
  obtain k d where kd: "pe_field ev ''kind'' = PyStr k" "RecoveryCommandKind k = Some (env_command_kind env)"
      "JournalDisposition (py_upper (the_str (pe_field ev ''journal_status''))) = Some (env_disposition env)"
    and fields: "env_identity env = ident" "env_lifecycle env = \<lparr>process_created = seen_state PROCESS_CREATED w, process_exited = seen_state PROCESS_EXITED w\<rparr>"
      "env_report env = evidence" "env_containment env = log_containment w" "env_wal env = w" "env_reconciliations env = rs"
    using env by (auto simp: RecoveryEnvelope_def run_checks_Inr res_bind_Inr_iff enum_value_Inr ident)
  have lease: "relation_to canonical ident = EXACT_RUNNING_LEASE" "env_disposition env = PENDING"
    using assms(4) by (simp_all add: leased_def fields)
  have exec: "logged PROCESS_CREATED w" "logged PROCESS_EXITED w"
    using assms(5) by (auto simp: completed_report_proven_def interrupted_safe_def fields)
  have marker: "report_marker_state t = YES \<longleftrightarrow> ''VALID'' \<in> set (report_values ''- marker_result:'' t)" for t
    by (simp add: report_marker_state_def Let_def)
  have "completion_proven ev w \<or> interruption_proven ev w rs"
  proof (cases "completed_report_proven env")
    case True
    then have "logged REPORT_MATERIALIZED w" "''VALID'' \<in> set (report_values ''- marker_result:'' (pe_report_text ev))"
      by (simp_all add: completed_report_proven_def fields parts marker)
    then show ?thesis using report_log_digests [OF parts(3)] by (simp add: completion_proven_def)
  next
    case False
    then have safe: "interrupted_safe env" using assms(5) by simp
    then have facts: "''VALID'' \<notin> set (report_values ''- marker_result:'' (pe_report_text ev))"
        "pe_field ev ''outcome'' \<noteq> PyStr ''SUCCESS''" "env_command_kind env = EXECUTE" "effects_settled env"
        "unclassified_project_egress (log_containment w) = NO" "logged CONTAINMENT_RECONCILED w"
      by (auto simp: interrupted_safe_def fields parts marker log_containment_def Let_def is_str_iff)
    have "k = ''EXECUTE''" using kd(2) facts(3) by (auto simp: RecoveryCommandKind_def split: if_splits)
    moreover have apart: "\<not> effect_applied rs f \<and> Recovery_Classify.settled rs f" if "f \<in> set (log_effects env)" for f
      using that safe facts(4) log_containment_NO(2) [OF facts(5)] by (auto simp: interrupted_safe_def effects_settled_def fields)
    have "\<exists>r \<in> set rs. Some (pr_effect_id r) = we_effect_id e \<and> Some (pr_target_id r) = we_target_id e
             \<and> Some (pr_expected_object r) = we_expected_object e \<and> pr_state r = EXACT_NOT_APPLIED"
      if e: "e \<in> set (wal_events w)" "we_kind e = PUSH_INTENT" for e
    proof -
      have "e \<in> set (wal_events (env_wal env))" "wf_event e" using e(1) assms(3) by (simp_all add: fields list_all_iff)
      from log_effects_of_intent [OF this(1) e(2) this(2)] obtain f where f: "f \<in> set (log_effects env)"
          "Some (pe_effect_id f) = we_effect_id e" "Some (pe_target_id f) = we_target_id e"
          "Some (pe_expected_object f) = we_expected_object e" by blast
      from apart [OF f(1)] settled_not_applied [of rs f] show ?thesis unfolding f(2-4) [symmetric] option.inject by blast
    qed
    ultimately show ?thesis
      using facts log_containment_NO(1) [OF facts(5)] kd(1) by (simp add: interruption_proven_def)
  qed
  then show thesis using that parts ident lease exec kd(3) by metis
qed

lemma assessment_action_publish: "assessment_action a = TypedPublish \<Longrightarrow>
    ra_classification a \<in> {PUBLISH_COMPLETED_REPORT, PUBLISH_INTERRUPTED_REPORT}"
  by (cases "ra_classification a") (simp_all add: assessment_action_def)

lemma disposition_pending:
  assumes "JournalDisposition (py_upper (the_str v)) = Some PENDING" "in_strs v PENDING_JOURNAL_STATUSES"
  shows "v = PyStr ''pending''"
proof -
  have "map (\<lambda>t. JournalDisposition (py_upper t)) PENDING_JOURNAL_STATUSES
      = [Some PENDING, Some RECONCILED, Some SUPERSEDED_LOCALLY, Some CONFLICTING]" by code_simp
  then show ?thesis using assms by (auto simp: PENDING_JOURNAL_STATUSES_def)
qed

text \<open>
  C4: a typed report is published only when its evidence proves it.  Whatever the other services do:
  the canonical state holds exactly the lease of the run and its report is not yet counted; the log of
  the run, read from its file, shows that the executor was created and has exited; and either the
  report claims a valid final marker and the log binds its exact text twice, as materialised and as
  intended to be published; or it claims no success, the run was no FINALIZE, its containment was
  reconciled without any egress of the project, and every push it intended was observed not applied.
\<close>

theorem typed_publication_is_proven:
  assumes "load_evidence F resolve base path files0 = Inr ev" "run_identity_from_metadata (pe_metadata ev) = Inr ident"
    and "exact_reconciler rp" "typed_action G rp ev ident state report files = Inr TypedPublish"
  shows "\<exists>wal_path w canonical effects rs.
    canonical_wal_path (pe_bridge_root ev) (PyStr (id_project ident)) (PyStr (id_run ident)) = Inr wal_path
    \<and> read_run_log G files wal_path ident = Inr w
    \<and> service_snapshot state ident = Inr canonical \<and> relation_to canonical ident = EXACT_RUNNING_LEASE
    \<and> pe_field ev ''journal_status'' = PyStr ''pending'' \<and> logged PROCESS_CREATED w \<and> logged PROCESS_EXITED w
    \<and> push_effects w = Inr effects \<and> log_reconciliations rp canonical ident effects = Inr rs
    \<and> (completion_proven ev w \<or> interruption_proven ev w rs)"
proof -
  have "wf_metadata (pe_metadata ev)" using loaded_sound(1) [OF assms(1)] by (simp add: sound_evidence_def)
  then have status: "in_strs (pe_field ev ''journal_status'') PENDING_JOURNAL_STATUSES" "in_strs (pe_field ev ''outcome'') OUTCOMES"
    unfolding wf_metadata_def pe_field_def by - (elim conjE, assumption)+
  then have outcome: "is_str (pe_field ev ''outcome'')" by auto
  obtain wal_path w canonical env a where log: "canonical_wal_path (pe_bridge_root ev) (PyStr (id_project ident)) (PyStr (id_run ident)) = Inr wal_path"
      "read_run_log G files wal_path ident = Inr w" and env: "typed_envelope rp ev state report w = Inr (canonical, env)"
    and a: "classify_recovery canonical env = Inr a" "assessment_action a = TypedPublish"
    using assms(4) unfolding typed_action_def
    by (auto simp: res_bind_Inr_iff split: sum.splits option.splits prod.splits)
  note valid = read_run_log_valid [OF log(2)]
  have "sound_verdict env (if leased canonical env \<and> completed_report_proven env then Some PUBLISH_COMPLETED_REPORT
      else if leased canonical env \<and> interrupted_safe env then Some PUBLISH_INTERRUPTED_REPORT else None) (Inr a)"
    using classify_recovery_sound [OF typed_envelope_wf [OF env assms(3) valid(1,2)], of canonical] a(1) by simp
  then have "leased canonical env" "completed_report_proven env \<or> interrupted_safe env"
    using assessment_action_publish [OF a(2)] by (auto simp: sound_verdict_def authorises_def split: if_splits)
  from typed_envelope_proof [OF env assms(2) valid(1) this outcome] obtain rs effects where
    "service_snapshot state ident = Inr canonical" "relation_to canonical ident = EXACT_RUNNING_LEASE"
    "JournalDisposition (py_upper (the_str (pe_field ev ''journal_status''))) = Some PENDING"
    "logged PROCESS_CREATED w" "logged PROCESS_EXITED w"
    "push_effects w = Inr effects" "log_reconciliations rp canonical ident effects = Inr rs"
    "completion_proven ev w \<or> interruption_proven ev w rs" by metis
  moreover from this(3) status(1) have "pe_field ev ''journal_status'' = PyStr ''pending''" by (rule disposition_pending)
  ultimately show ?thesis using log by blast
qed

section \<open>An interrupted run that is published\<close>

definition plain_event :: "int \<Rightarrow> wal_event_kind \<Rightarrow> string option \<Rightarrow> wal_event" where
  "plain_event n k observed = \<lparr>we_sequence = n, we_kind = k, we_recorded_at = ''t'', we_effect_id = None, we_target_id = None,
     we_expected_object = None, we_observed_object = observed, we_artifact_digest = None, we_precondition_object = None\<rparr>"

definition sample_run_log :: "wal_event list" where
  "sample_run_log = [plain_event 1 RUN_CLAIMED None, plain_event 2 PROCESS_CREATE_INTENT None, plain_event 3 PROCESS_CREATED None,
     plain_event 4 BROKER_STARTED None, plain_event 5 CONTAINMENT_PREPARED None, plain_event 6 PROCESS_EXITED None,
     plain_event 7 CONTAINMENT_RECONCILED None, plain_event 8 PROJECT_EGRESS_RECONCILED (Some ''NO'')]"

lemma wal_text_bound:
  assumes "\<forall>e \<in> set events. sum_list (map (\<lambda>(k, v). 6 * length k + 4 + length (json_value v))
      (unsigned_record i (event_wire e))) \<le> 5000" "length (line_of (header_record i)) \<le> 1000"
  shows "length (wal_text i events) \<le> 1000 + 6000 * length events"
  using assms(1)
proof (induction events rule: rev_induct)
  case Nil
  then show ?case using assms(2) by (simp add: wal_text_simps)
next
  case (snoc e events)
  let ?d = "sha256_hex (canonical_json (unsigned_record i (event_wire e)))"
  have "length (json_str ?d) \<le> 386" using json_str_length [of ?d] by simp
  then have "length (line_of (event_record i e)) \<le> 6000"
    using canonical_json_length [of "event_record i e"] snoc.prems by (simp add: line_of_def event_record_def)
  then show ?case using snoc by (simp add: wal_text_simps)
qed

definition sample_wal_path :: "string list" where
  "sample_wal_path = [''worker'', ''runtime'', ''p'', ''runs'', ''run-1'', ''recovery.wal'']"

lemma sample_run_log_facts:
  "list_all wf_event sample_run_log" "wal_scan 0 [] [] sample_run_log = None" "validate_event_sequence sample_run_log = None"
  "list_all (\<lambda>e. validate_event_fields e = None) sample_run_log"
  "list_all (\<lambda>e. sum_list (map (\<lambda>(k, v). 6 * length k + 4 + length (json_value v))
      (unsigned_record sample_identity (event_wire e))) \<le> 5000) sample_run_log"
  "length (line_of (header_record sample_identity)) \<le> 1000" "length sample_run_log = 8"
  "RecoveryWal (PyInt RECOVERY_WAL_SCHEMA_VERSION) sample_identity sample_run_log
     = Inr \<lparr>wal_schema_version = 1, wal_identity = sample_identity, wal_events = sample_run_log\<rparr>"
  by code_simp+

lemma sample_log_read:
  "read_run_log F (files(sample_wal_path \<mapsto> Inr (wal_text sample_identity sample_run_log))) sample_wal_path sample_identity
     = Inr \<lparr>wal_schema_version = 1, wal_identity = sample_identity, wal_events = sample_run_log\<rparr>"
proof -
  have short: "short_int (we_sequence e)" if "e \<in> set sample_run_log" for e
    using that by (auto simp: sample_run_log_def plain_event_def short_int_def show_nat_small)
  have "wf_log sample_identity sample_run_log"
    using sample_run_log_facts(1,4) short by (simp add: wf_log_def list_all_iff)
  moreover have "int (length (wal_text sample_identity sample_run_log)) \<le> DEFAULT_MAX_WAL_BYTES"
    using wal_text_bound [of sample_run_log sample_identity] sample_run_log_facts(5-7)
    by (simp add: DEFAULT_MAX_WAL_BYTES_def list_all_iff)
  moreover have "wal_check m i sample_run_log = None" for m i
    using wal_check_valid [OF sample_run_log_facts(1)] sample_run_log_facts(2) wal_scan_valid [OF sample_run_log_facts(1)] by simp
  ultimately have "read_file F DEFAULT_MAX_WAL_BYTES (Some (wal_text sample_identity sample_run_log))
      = Inr (sample_identity, sample_run_log, wal_text sample_identity sample_run_log)"
    using sample_run_log_facts(3) by (intro read_file_text)
  moreover have "bounded_size DEFAULT_MAX_WAL_BYTES = None" by code_simp
  ultimately show ?thesis using sample_run_log_facts(8) by (simp add: read_run_log_def wal_read_def run_checks_pass)
qed

text \<open>A saved report of the interruption, and the canonical state that still holds the lease.\<close>

definition sample_typed_text :: string where
  "sample_typed_text = ''- marker_result: MISSING'' @ CHR 0x0A # ''- outcome: BLOCKED''"

definition sample_typed_request :: pending_request where
  "sample_typed_request = sample_pending_request\<lparr>pq_outcome := PyStr ''BLOCKED'', pq_report_text := PyStr sample_typed_text,
     pq_evidence_mode := PyStr ''typed''\<rparr>"

definition sample_typed_metadata :: pydict where
  "sample_typed_metadata = saved_metadata sample_typed_request ''t'' (report_name ''p'' 3) (pending_name ''p'' 3) None"

definition sample_typed_evidence :: pending_evidence where
  "sample_typed_evidence = sample_evidence\<lparr>pe_metadata := metadata_of sample_typed_metadata, pe_report_text := sample_typed_text\<rparr>"

lemma sample_typed_fields:
  "dget sample_typed_metadata ''project_id'' = PyStr ''p''" "dget sample_typed_metadata ''command_id'' = PyInt 3"
  "dget sample_typed_metadata ''run_id'' = PyStr ''run-1''" "dget sample_typed_metadata ''claim_generation'' = PyInt 6"
  "dget sample_typed_metadata ''outcome'' = PyStr ''BLOCKED''" "dget sample_typed_metadata ''kind'' = PyStr ''EXECUTE''"
  "dget sample_typed_metadata ''journal_status'' = PyStr ''pending''"
  "dget sample_typed_metadata ''report_sha256'' = PyStr (sha256_hex (utf8_encode sample_typed_text))"
  by (simp_all only: sample_typed_metadata_def saved_metadata_get) (simp_all add: sample_typed_request_def sample_pending_request_def)

lemma sample_typed_wf: "wf_metadata sample_typed_metadata"
proof -
  have "map fst sample_typed_metadata = META_FIELDS" by (simp add: sample_typed_metadata_def saved_metadata_def META_FIELDS_def)
  moreover have "dget sample_typed_metadata ''schema_version'' = PyInt 1" "dget sample_typed_metadata ''created_at'' = PyStr ''t''"
    "dget sample_typed_metadata ''reconciled_at'' = PyNone" "dget sample_typed_metadata ''last_execution_error'' = PyNone"
    "dget sample_typed_metadata ''reconciliation_reason'' = PyNone" "dget sample_typed_metadata ''evidence_mode'' = PyStr ''typed''"
    by (simp_all add: sample_typed_metadata_def saved_metadata_def Pending_Report.optional_text_def sample_typed_request_def)
  moreover have "in_strs (PyStr ''BLOCKED'') OUTCOMES" "in_strs (PyStr ''typed'') [''legacy'', ''typed'']" by code_simp+
  ultimately show ?thesis
    unfolding wf_metadata_def ball_simps sample_typed_metadata_def saved_metadata_get
    using sample_request_texts sha256_pattern
    by (simp add: sample_typed_request_def sample_pending_request_def del: in_strs_iff)
qed

definition sample_typed_files :: files where
  "sample_typed_files = (\<lambda>_. None)(sample_pending_path \<mapsto> Inr (text_written [CHR 0x0A] (json_document (PyDict sample_typed_metadata))),
    [] @ [''worker'', ''runtime'', ''p'', pending_file 3] \<mapsto> Inr (text_written [CHR 0x0A] sample_typed_text))"

lemma sample_typed_loaded: "load_evidence F (\<lambda>p. p) [] sample_pending_path sample_typed_files = Inr sample_typed_evidence"
proof -
  have apart: "pending_file 3 \<noteq> sidecar_name 3"
  proof
    assume "pending_file 3 = sidecar_name 3"
    then have "last (pending_file 3) = last (sidecar_name 3)" by simp
    then show False by (simp add: pending_file_def sidecar_name_def)
  qed
  have short: "short_int 3" "short_int 6" by (simp_all add: short_int_def show_nat_small)
  have json: "json_ok (PyDict sample_typed_metadata)"
    by (rule wf_metadata_json [OF sample_typed_wf]) (simp_all only: sample_typed_fields type_test_simps short)
  have kept: "sample_typed_text = universal_newlines (platform_newlines [CHR 0x0A] sample_typed_text)" by code_simp
  show ?thesis
    unfolding sample_typed_evidence_def sample_evidence_def sample_typed_files_def
    by (subst load_saved [OF sample_request_texts(1) _ short(1) sample_typed_wf sample_typed_fields(1,2) json _ _ _ _ _ kept])
      (use sample_typed_fields(8) apart in \<open>simp_all add: is_linesep_def sample_pending_path_def\<close>)
qed

definition sample_typed_state :: pydict where
  "sample_typed_state = AList.update ''latest_command'' (PyInt 3) sample_pending_state"

lemma sample_typed_action:
  "typed_action F (\<lambda>_. Inl (OSError [])) sample_typed_evidence sample_identity sample_typed_state None
     (sample_typed_files(sample_wal_path \<mapsto> Inr (wal_text sample_identity sample_run_log))) = Inr TypedPublish"
proof -
  let ?w = "\<lparr>wal_schema_version = 1, wal_identity = sample_identity, wal_events = sample_run_log\<rparr>"
  have path: "canonical_wal_path (pe_bridge_root sample_typed_evidence) (PyStr (id_project sample_identity)) (PyStr (id_run sample_identity))
      = Inr sample_wal_path"
    using sample_request_texts(1,2)
    by (simp add: canonical_wal_path_def safe_project_id_def sample_typed_evidence_def sample_evidence_def sample_identity_def sample_wal_path_def)
  have snap: "service_snapshot sample_typed_state sample_identity = Inr \<lparr>cs_project_id = ''p'', cs_status = ''CODEX_RUNNING'',
      cs_generation = 6, cs_latest_command = 3, cs_latest_report = 2, cs_active_identity = Some sample_identity\<rparr>" (is "_ = Inr ?c")
    by code_simp
  have fields: "run_identity_from_metadata (pe_metadata sample_typed_evidence) = Inr sample_identity"
      "pe_field sample_typed_evidence ''kind'' = PyStr ''EXECUTE''" "pe_field sample_typed_evidence ''outcome'' = PyStr ''BLOCKED''"
      "pe_field sample_typed_evidence ''journal_status'' = PyStr ''pending''" "pe_report_text sample_typed_evidence = sample_typed_text"
    by (simp_all add: run_identity_from_metadata_def pe_field_def sample_typed_evidence_def sample_typed_fields sample_identity_def
        RunIdentity_def run_checks_pass is_space_def)
  have log: "report_log_checks d ?w = [None, None]" for d
    by (simp add: report_log_checks_def events_of_def sample_run_log_def plain_event_def)
  let ?r = "\<lparr>final_marker_valid = NO, materialized = UNKNOWN, integrity_valid = UNKNOWN, report_outcome = Some ''BLOCKED''\<rparr>"
  let ?env = "\<lparr>env_schema_version = 1, env_identity = sample_identity, env_command_kind = EXECUTE, env_disposition = PENDING,
           env_lifecycle = \<lparr>process_created = YES, process_exited = YES\<rparr>, env_report = ?r, env_containment = log_containment ?w,
           env_publication = \<lparr>store_available = YES\<rparr>, env_wal = ?w, env_reconciliations = []\<rparr>"
  have run: "push_effects ?w = Inr []" "seen_state PROCESS_CREATED ?w = YES" "seen_state PROCESS_EXITED ?w = YES"
      "seen_state REPORT_MATERIALIZED ?w = UNKNOWN" "py_upper ''pending'' = ''PENDING''"
      "service_outcome sample_typed_text ''BLOCKED'' = Inr ''BLOCKED''" "report_marker_state sample_typed_text = NO"
      "ReportEvidence (PyStr ''NO'') (PyStr ''UNKNOWN'') (PyStr ''UNKNOWN'') (PyStr ''BLOCKED'') = Inr ?r"
      "RecoveryEnvelope (PyInt 1) sample_identity (PyStr ''EXECUTE'') (PyStr ''PENDING'')
         \<lparr>process_created = YES, process_exited = YES\<rparr> ?r (log_containment ?w) \<lparr>store_available = YES\<rparr> ?w []
       = Inr ?env"
      "map_sum (\<lambda>_. ()) assessment_action (classify_recovery ?c ?env) = Inr TypedPublish"
    by code_simp+
  have "log_reconciliations rp ?c sample_identity [] = Inr []" for rp by (simp add: log_reconciliations_def)
  moreover have "enum_call RecoveryCommandKind e (PyStr ''EXECUTE'') = Inr EXECUTE" "enum_call JournalDisposition e (PyStr ''PENDING'') = Inr PENDING"
    for e by (simp_all add: enum_call_def RecoveryCommandKind_def JournalDisposition_def)
  moreover have "id_command sample_identity = 3" by (simp add: sample_identity_def)
  ultimately have env: "typed_envelope rp sample_typed_evidence sample_typed_state None ?w = Inr (?c, ?env)" for rp
    using snap fields log run(1-9) by (simp add: typed_envelope_def Let_def del: seen_state_YES)
  obtain a where "classify_recovery ?c ?env = Inr a" "assessment_action a = TypedPublish"
    using run(10) by (cases "classify_recovery ?c ?env") simp_all
  then show ?thesis
    using path sample_log_read env by (simp add: typed_action_def)
qed

theorem typed_publication_is_proven_witness:
  "\<exists>ev ident rs. typed_action (\<lambda>_. PyNone) (\<lambda>_. Inl (OSError [])) ev ident sample_typed_state None
       (sample_typed_files(sample_wal_path \<mapsto> Inr (wal_text sample_identity sample_run_log))) = Inr TypedPublish
     \<and> ident = sample_identity
     \<and> (completion_proven ev \<lparr>wal_schema_version = 1, wal_identity = sample_identity, wal_events = sample_run_log\<rparr>
        \<or> interruption_proven ev \<lparr>wal_schema_version = 1, wal_identity = sample_identity, wal_events = sample_run_log\<rparr> rs)"
proof -
  have ident: "run_identity_from_metadata (pe_metadata sample_typed_evidence) = Inr sample_identity"
    by (simp add: run_identity_from_metadata_def sample_typed_evidence_def sample_typed_fields sample_identity_def
        RunIdentity_def run_checks_pass is_space_def)
  have path: "canonical_wal_path (pe_bridge_root sample_typed_evidence) (PyStr (id_project sample_identity)) (PyStr (id_run sample_identity))
      = Inr sample_wal_path"
    using sample_request_texts(1,2)
    by (simp add: canonical_wal_path_def safe_project_id_def sample_typed_evidence_def sample_evidence_def sample_identity_def sample_wal_path_def)
  have "exact_reconciler (\<lambda>_. Inl (OSError []))" by (simp add: exact_reconciler_def)
  from typed_publication_is_proven [OF sample_typed_loaded ident this sample_typed_action, of "\<lambda>_. PyNone"]
  show ?thesis using path sample_log_read [of "\<lambda>_. PyNone" sample_typed_files] sample_typed_action by auto
qed

end
