(* ===== verification/Recovery_Journals.thy ===== *)
theory Recovery_Journals
  imports Recovery_Typed
begin

text \<open>
  \<open>worker/vnext_runtime/services/recovery.py\<close>, last part: the journal that is written before an
  interrupted run is brought to RECOVERY_REQUIRED, its reconciliation by a later process, the projects
  it blocks meanwhile, and the scan over all saved reports.
\<close>

section \<open>Journal files\<close>

definition journal_at :: "files \<Rightarrow> string list \<Rightarrow> pyexc + string" where
  "journal_at files path = (case files path of None \<Rightarrow> Inl (OSError ''No such file or directory'') | Some r \<Rightarrow> r)"

definition store_journal :: "files \<Rightarrow> string list \<Rightarrow> pyexc + string \<Rightarrow> files" where
  "store_journal files path file = (if file = journal_at files path then files else files(path \<mapsto> file))"

definition is_journal_error :: "pyexc \<Rightarrow> bool" where
  "is_journal_error e = (case e of RecoveryJournalError _ \<Rightarrow> True | _ \<Rightarrow> False)"

text \<open>Clock, float texts, iteration order of the field sets, and the failure of a journal write.\<close>

record journal_setting =
  js_float :: "string \<Rightarrow> py"
  js_order :: "string list"
  js_now :: string
  js_fails :: "write_failure option"

definition settling :: "string \<Rightarrow> string \<Rightarrow> string \<Rightarrow> pydict" where
  "settling now status reason =
     [(''remote_publish_pending'', PyBool False), (''journal_status'', PyStr status), (''reconciled_at'', PyStr now),
      (''reconciliation_reason'', PyStr reason)]"

definition mark_journal :: "journal_setting \<Rightarrow> string list \<Rightarrow> string \<Rightarrow> string \<Rightarrow> files \<Rightarrow> pyexc option \<times> files" where
  "mark_journal js path status reason files =
     (case update_journal (js_float js) (js_order js) (js_fails js) (settling (js_now js) status reason) (journal_at files path) of
        (Inl e, file) \<Rightarrow> (if is_journal_error e then None else Some e, store_journal files path file)
      | (Inr _, file) \<Rightarrow> (None, store_journal files path file))"

definition marked :: "journal_setting \<Rightarrow> string list \<Rightarrow> string \<Rightarrow> string \<Rightarrow> files \<Rightarrow> (pyexc + bool) \<times> files" where
  "marked js path status reason files =
     (case mark_journal js path status reason files of (Some e, files') \<Rightarrow> (Inl e, files') | (None, files') \<Rightarrow> (Inr True, files'))"

section \<open>One journal\<close>

definition network_error :: string where
  "network_error = ''network guard interruption; manual recovery required''"

definition network_reason :: "recovery_identity \<Rightarrow> string \<Rightarrow> string" where
  "network_reason i safe =
     ''network guard interrupted Codex run '' @ ri_run_id i @ ''; automatic rerun prohibited; '' @ safe"

definition journal_expected :: "pydict \<Rightarrow> canonical_tree \<Rightarrow> pyexc + bool" where
  "journal_expected journal tree = res_bind (ct_state tree) (matches_recovery_running_state journal)"

definition journal_already :: "pydict \<Rightarrow> canonical_tree \<Rightarrow> pyexc + bool" where
  "journal_already journal tree = res_bind (ct_state tree) (matches_recovery_state journal)"

text \<open>\<open>bridge_root / "projects" / project_id\<close>: an absolute name replaces the directories before it.\<close>

definition project_path :: "string list \<Rightarrow> string \<Rightarrow> string list" where
  "project_path bridge_root project =
     (if has_prefix ''/'' project then path_parts project else bridge_root @ [''projects''] @ path_parts project)"

text \<open>\<open>(_state_int(latest_report, -1) or -1) >= command_id\<close>\<close>

definition report_counted :: "recovery_identity \<Rightarrow> canonical_tree \<Rightarrow> pydict \<Rightarrow> pyexc + bool" where
  "report_counted i tree state =
     (if ct_report tree \<noteq> None then Inr True
      else res_bind (service_int (dget state ''latest_report'') (Some (- 1))) (\<lambda>latest.
        Inr (ri_command_id i \<le> (if latest = Some 0 then - 1 else or_zero latest))))"

definition braising :: "pyexc + 'a \<Rightarrow> files \<Rightarrow> ('a \<Rightarrow> (pyexc + 'b) \<times> files) \<Rightarrow> (pyexc + 'b) \<times> files" where
  "braising r files k = (case r of Inl e \<Rightarrow> (Inl e, files) | Inr x \<Rightarrow> k x)"

lemma braising_simps [simp]: "braising (Inl e) files k = (Inl e, files)" "braising (Inr x) files k = k x"
  by (simp_all add: braising_def)

lemma braising_Inr: "braising r files k = (Inr x, files') \<longleftrightarrow> (\<exists>y. r = Inr y \<and> k y = (Inr x, files'))"
  by (cases r) simp_all

text \<open>\<open>is_file\<close> is what the state file answers; its content is the tree's.\<close>

definition reconcile_one_journal ::
    "journal_setting \<Rightarrow> (string list \<Rightarrow> string list) \<Rightarrow> string list \<Rightarrow> 'r publisher \<Rightarrow> string list \<Rightarrow> pydict \<Rightarrow> bool \<Rightarrow>
       canonical_tree \<Rightarrow> files \<Rightarrow> (pyexc + bool) \<times> files" where
  "reconcile_one_journal js resolve bridge_root publish path journal is_file tree files =
     braising (identity_from_journal journal) files (\<lambda>i.
     if \<not> is_within (resolve (project_path bridge_root (ri_project_id i))) (resolve (bridge_root @ [''projects'']))
     then marked js path ''conflict'' ''journal project_id is outside the Bridge project root'' files
     else if \<not> is_file then (Inr False, files)
     else (case ct_state tree of
        Inl e \<Rightarrow> (if is_worker_error e then Inr False else Inl e, files)
      | Inr state \<Rightarrow>
     braising (report_counted i tree state) files (\<lambda>counted.
     if counted then marked js path ''superseded'' ''remote state already has a report or advanced latest_report'' files
     else braising (matches_recovery_state journal state) files (\<lambda>recovered.
     if recovered then marked js path ''reconciled'' ''remote RECOVERY_REQUIRED already matches this interrupted run'' files
     else let status = dget state ''status'' in
     if \<not> py_eq status (PyStr ''CODEX_RUNNING'')
     then (case check_hashable status of Some e \<Rightarrow> (Inl e, files)
       | None \<Rightarrow> marked js path (if in_strs status [''DONE'', ''FINAL_REPORT_READY''] then ''superseded'' else ''conflict'')
           (''remote canonical status is '' @ py_str (dget_or state ''status'' (PyStr ''unknown'')) @ ''; recovery publication refused'') files)
     else braising (matches_recovery_running_state journal state) files (\<lambda>running.
     if \<not> running then marked js path ''conflict'' ''remote generation or active_run identity no longer matches'' files
     else (case publish (journal_expected journal) (journal_already journal)
           (state_build (recovery_update i (network_reason i (safe_reason (dget journal ''interruption_reason_safe'')))
             (Some network_error) (js_now js))) of
        (Inr _, _) \<Rightarrow> marked js path ''reconciled'' ''remote RECOVERY_REQUIRED reconciled with Protocol v2 CAS'' files
      | (Inl (CASConflict _), _) \<Rightarrow> marked js path ''conflict'' ''remote state changed during recovery CAS'' files
      | (Inl e, _) \<Rightarrow> (if is_worker_error e then Inr False else Inl e, files)))))))"

section \<open>The contract with the store\<close>

definition journal_kept :: "pydict \<Rightarrow> recovery_identity \<Rightarrow> canonical_tree \<Rightarrow> bool" where
  "journal_kept journal i tree \<longleftrightarrow> identity_from_journal journal = Inr i \<and> recovery_kept i tree"

lemma identity_from_journal_fields:
  assumes "identity_from_journal journal = Inr i"
  shows "dget journal ''project_id'' = PyStr (ri_project_id i)" "dget journal ''command_id'' = PyInt (ri_command_id i)"
    "dget journal ''run_id'' = PyStr (ri_run_id i)" "dget journal ''claim_generation'' = PyInt (ri_claim_generation i)"
    "journal_identity_valid journal" "wf_recovery_identity i"
proof -
  have made: "RecoveryIdentity (dget journal ''project_id'') (dget journal ''command_id'') (dget journal ''run_id'')
      (dget journal ''claim_generation'') = Inr i"
    using assms by (auto simp: identity_from_journal_def split: sum.splits)
  then show wf: "wf_recovery_identity i"
    using recovery_identity_ctor.build_valid [of "(dget journal ''project_id'', dget journal ''command_id'',
      dget journal ''run_id'', dget journal ''claim_generation'')"] by simp
  show fields: "dget journal ''project_id'' = PyStr (ri_project_id i)" "dget journal ''command_id'' = PyInt (ri_command_id i)"
    "dget journal ''run_id'' = PyStr (ri_run_id i)" "dget journal ''claim_generation'' = PyInt (ri_claim_generation i)"
    using made by (auto simp: RecoveryIdentity_def run_checks_Inr has_text_iff int_from_iff)
  show "journal_identity_valid journal"
    using wf by (auto simp: journal_identity_valid_def fields int_at_least_def wf_recovery_identity_def)
qed

lemma running_state_lease:
  "identity_from_journal journal = Inr i \<Longrightarrow> matches_recovery_running_state journal state = holds_lease state i None"
  using identity_from_journal_fields by (simp add: matches_recovery_running_state_def holds_lease_def)

lemma recovered_state_matches:
  assumes "identity_from_journal journal = Inr i" "holds_lease current i None = Inr True" "short_run i"
    and "optional_int_equal (dget current ''latest_command'') (PyInt (ri_command_id i)) = Inr True"
  shows "matches_recovery_state journal (recovery_fields current ''RECOVERY_REQUIRED'' (ri_claim_generation i + 1)
      (safe_reason (PyStr (network_reason i safe))) error now) = Inr True"
proof -
  note fields = identity_from_journal_fields [OF assms(1)] and lease = holds_leaseD [OF assms(2)]
  have "contains (ri_run_id i) (safe_reason (PyStr (''network guard interrupted Codex run '' @ ri_run_id i @ (''; automatic rerun prohibited; '' @ safe))))"
    by (rule safe_reason_contains [OF assms(3)]) simp
  then show ?thesis
    using fields lease assms(4) by (simp add: matches_recovery_state_def network_reason_def)
qed

interpretation journal_cas: cas_protocol "journal_kept journal i" "journal_expected journal" "journal_already journal"
  "state_build (recovery_update i (network_reason i safe) error now)"
  for journal i safe error now
proof
  fix tree tree'
  assume kept: "journal_kept journal i tree" and expected: "journal_expected journal tree = Inr True"
    and build: "state_build (recovery_update i (network_reason i safe) error now) tree = Inr tree'"
  from build obtain current updated where tree: "ct_state tree = Inr current"
      "recovery_update i (network_reason i safe) error now current = Inr updated" "tree' = tree\<lparr>ct_state := Inr updated\<rparr>"
    by (rule state_build_leased)
  have i: "identity_from_journal journal = Inr i" "short_run i"
    and command: "optional_int_equal (dget current ''latest_command'') (PyInt (ri_command_id i)) = Inr True"
    using kept tree(1) by (simp_all add: journal_kept_def recovery_kept_def same_command_def)
  have lease: "holds_lease current i None = Inr True"
    using expected by (simp add: journal_expected_def tree(1) running_state_lease [OF i(1)])
  have updated: "updated = recovery_fields current ''RECOVERY_REQUIRED'' (ri_claim_generation i + 1)
      (safe_reason (PyStr (network_reason i safe))) error now"
    using recovery_update_leased [OF lease] tree(2) by simp
  then have "journal_already journal tree' = Inr True"
    using recovered_state_matches [OF i(1) lease i(2) command] by (simp add: journal_already_def tree(3))
  moreover have "journal_kept journal i tree'"
    using command i by (simp add: journal_kept_def recovery_kept_def same_command_def tree(3) updated)
  ultimately show "journal_already journal tree' = Inr True \<and> journal_kept journal i tree'" by simp
qed

section \<open>A settled journal\<close>

lemma marked_Inr:
  "marked js path status reason files = (Inr b, files') \<longleftrightarrow> b \<and> mark_journal js path status reason files = (None, files')"
  by (auto simp: marked_def split: prod.splits option.splits)

text \<open>What the reconciliation of a journal can end with.\<close>

lemma reconcile_one_journal_Inr:
  assumes "reconcile_one_journal js resolve base publish path journal is_file tree files = (Inr b, files')"
    and "identity_from_journal journal = Inr i"
  shows "(\<not> b \<and> files' = files)
    \<or> b \<and> (\<exists>status reason. mark_journal js path status reason files = (None, files')
      \<and> (status \<in> {''conflict'', ''superseded''}
         \<or> status = ''reconciled'' \<and> (journal_already journal tree = Inr True
            \<or> (\<exists>x t. publish (journal_expected journal) (journal_already journal)
                (state_build (recovery_update i (network_reason i (safe_reason (dget journal ''interruption_reason_safe'')))
                  (Some network_error) (js_now js))) = (Inr x, t)))))"
proof -
  let ?b = "state_build (recovery_update i (network_reason i (safe_reason (dget journal ''interruption_reason_safe'')))
                  (Some network_error) (js_now js))"
  obtain res t where publish: "publish (journal_expected journal) (journal_already journal) ?b = (res, t)" by (rule prod.exhaust)
  note run = assms(1) [unfolded reconcile_one_journal_def assms(2) braising_simps publish]
  show ?thesis
  proof (cases "is_within (resolve (project_path base (ri_project_id i))) (resolve (base @ [''projects'']))")
    case False
    then show ?thesis using run by (auto simp: marked_Inr)
  next
    case within: True
    show ?thesis
    proof (cases "is_file \<and> (\<exists>state. ct_state tree = Inr state)")
      case False
      then show ?thesis using run within by (cases "ct_state tree") (auto split: if_splits)
    next
      case True
      then obtain state where state: "is_file" "ct_state tree = Inr state" by blast
      from run obtain counted where counted: "report_counted i tree state = Inr counted"
        by (cases "report_counted i tree state") (simp_all add: state within)
      show ?thesis
      proof (cases counted)
        case True
        then show ?thesis using run counted by (simp add: state within marked_Inr) blast
      next
        case False
        from run obtain recovered where recovered: "matches_recovery_state journal state = Inr recovered"
          by (cases "matches_recovery_state journal state") (simp_all add: state within counted False)
        note run' = run [simplified state within counted False recovered sum.case braising_simps if_True if_False simp_thms]
        have already: "journal_already journal tree = Inr recovered" by (simp add: journal_already_def state recovered)
        show ?thesis
        proof (cases recovered)
          case True
          then show ?thesis using run' already by (simp add: marked_Inr) blast
        next
          case no: False
          show ?thesis
          proof (cases "py_eq (dget state ''status'') (PyStr ''CODEX_RUNNING'')")
            case False
            then show ?thesis using run' no
              by (auto simp: Let_def marked_Inr split: option.splits if_splits)
          next
            case True
            from run' no True obtain running where running: "matches_recovery_running_state journal state = Inr running"
              by (cases "matches_recovery_running_state journal state") (simp_all add: Let_def)
            show ?thesis
            proof (cases running)
              case False
              then show ?thesis using run' no True running by (auto simp: Let_def marked_Inr)
            next
              case held: True
              show ?thesis
              proof (cases res)
                case (Inr x)
                then show ?thesis using run' no True running held publish by (simp add: Let_def marked_Inr) blast
              next
                case (Inl e)
                then show ?thesis using run' no True running held
                  by (cases e) (auto simp: Let_def marked_Inr is_worker_error_def split: if_splits)
              qed
            qed
          qed
        qed
      qed
    qed
  qed
qed

lemma journal_publication:
  assumes "publish_cas (journal_expected journal) (journal_already journal)
      (state_build (recovery_update i (network_reason i safe) error now)) attempts remote = (res, remote', n)"
    and "journal_kept journal i remote"
    and "\<forall>a \<in> set attempts. \<forall>t. journal_kept journal i t \<longrightarrow> journal_kept journal i (ca_others a t)
      \<and> (journal_already journal t = Inr True \<longrightarrow> journal_already journal (ca_others a t) = Inr True)"
  shows "n \<le> 1 \<and> (n = 1 \<or> (\<exists>x. res = Inr x) \<longrightarrow> journal_already journal remote' = Inr True)"
  by (rule journal_cas.publish_once [OF _ assms(2,1)]) (use assms(3) in \<open>simp add: journal_cas.respectful_def\<close>)

section \<open>Marking a journal\<close>

text \<open>Validation looks at a dictionary only through its keys.\<close>

lemma dhas_cong: "map_of d = map_of e \<Longrightarrow> dhas d = dhas e"
  by (rule ext) (metis dhas_dget option.distinct(1))

lemma validate_journal_cong:
  "map_of d = map_of e \<Longrightarrow> validate_journal order (PyDict d) = validate_journal order (PyDict e)"
proof -
  assume same: "map_of d = map_of e"
  have "dget d = dget e" "dhas d = dhas e" by (rule dget_cong [OF same], rule dhas_cong [OF same])
  then show ?thesis by (simp only: validate_journal_def normalize_journal_def type_test_simps)
qed

lemma map_of_updates:
  "map_of d = map_of e \<Longrightarrow>
     map_of (foldl (\<lambda>d (k, v). AList.update k v d) d us) = map_of (foldl (\<lambda>d (k, v). AList.update k v d) e us)"
proof (induction us arbitrary: d e)
  case (Cons u us)
  have "map_of (AList.update (fst u) (snd u) d) = map_of (AList.update (fst u) (snd u) e)"
    by (simp only: update_conv' Cons.prems)
  from Cons.IH [OF this] show ?case by (simp only: foldl_Cons case_prod_beta)
qed (simp only: foldl_Nil)

lemma settling_known: "filter (\<lambda>(k, _). k \<in> set JOURNAL_FIELDS) (settling now status reason) = settling now status reason"
  by (simp add: settling_def JOURNAL_FIELDS_def)

lemma mark_journal_written:
  assumes "wf_journal n" "Recovery_Journal.settled n" "iteration_order (js_order js)" "js_fails js = None"
    and "files path = Some (Inr (journal_bytes n))"
    and "validate_journal (js_order js) (PyDict (foldl (\<lambda>d (k, v). AList.update k v d) n (settling (js_now js) status reason))) = Inr m"
  shows "mark_journal js path status reason files = (None, store_journal files path (Inr (journal_bytes m)))"
proof -
  obtain n' where read: "read_journal (js_float js) (js_order js) (Inr (journal_bytes n)) = Inr n'" "map_of n' = map_of n"
    using reread_journal [OF assms(1-3)] by blast
  have "validate_journal (js_order js) (PyDict (foldl (\<lambda>d (k, v). AList.update k v d) n' (settling (js_now js) status reason))) = Inr m"
    using assms(6) validate_journal_cong [OF map_of_updates [OF read(2)]] by simp
  then show ?thesis
    using assms(4,5) read(1) by (simp add: mark_journal_def update_journal_def journal_at_def settling_known write_journal_def)
qed

text \<open>
  C6: the reconciliation of an interrupted run changes the branch at most once, whatever other writers
  and failing pushes do, while the writers keep the command of the run and do not undo the recovery.
  It leaves the journal as it is, or settles it; and a journal that is settled as reconciled means that
  the state that was checked out, or the branch after the publication, is the recovery of this run.
\<close>

theorem settled_journal_is_canonical:
  assumes "publish_cas (journal_expected journal) (journal_already journal)
      (state_build (recovery_update i (network_reason i (safe_reason (dget journal ''interruption_reason_safe'')))
        (Some network_error) (js_now js))) attempts remote = (res, remote', n)"
    and "journal_kept journal i remote"
    and "\<forall>a \<in> set attempts. \<forall>t. journal_kept journal i t \<longrightarrow> journal_kept journal i (ca_others a t)
      \<and> (journal_already journal t = Inr True \<longrightarrow> journal_already journal (ca_others a t) = Inr True)"
    and "reconcile_one_journal js resolve base (git_publisher attempts remote) path journal is_file tree files = (Inr b, files')"
  shows "n \<le> 1 \<and> (if b then \<exists>status reason. mark_journal js path status reason files = (None, files')
        \<and> status \<in> {''conflict'', ''superseded'', ''reconciled''}
        \<and> (status = ''reconciled'' \<longrightarrow> journal_already journal tree = Inr True \<or> journal_already journal remote' = Inr True)
      else files' = files)"
proof -
  have i: "identity_from_journal journal = Inr i" using assms(2) by (simp add: journal_kept_def)
  note once = journal_publication [OF assms(1-3)]
  show ?thesis
    using reconcile_one_journal_Inr [OF assms(4) i] once
    unfolding git_publisher_def assms(1) prod.case by (cases b) auto
qed

definition sample_journal :: pydict where
  "sample_journal = sample_journal_written"

definition sample_journal_setting :: journal_setting where
  "sample_journal_setting = \<lparr>js_float = (\<lambda>_. PyNone), js_order = JOURNAL_FIELDS, js_now = ''t'', js_fails = None\<rparr>"

definition sample_journal_path :: "string list" where
  "sample_journal_path = [''worker'', ''runtime'', ''p'', ''recovery'', ''run-1.json'']"

definition sample_journal_files :: files where
  "sample_journal_files = (\<lambda>_. None)(sample_journal_path \<mapsto> Inr (journal_bytes sample_journal))"

theorem settled_journal_is_canonical_witness:
  "\<exists>files' status reason. reconcile_one_journal sample_journal_setting (\<lambda>p. p) [] (git_publisher [plain_attempt (\<lambda>t. t) PushLost,
        plain_attempt (\<lambda>t. t) PushAccepted] sample_leased) sample_journal_path sample_journal True sample_leased sample_journal_files
      = (Inr True, files')
    \<and> (\<exists>m. files' = store_journal sample_journal_files sample_journal_path (Inr (journal_bytes m)) \<and> dget m ''journal_status'' = PyStr ''reconciled'')
    \<and> mark_journal sample_journal_setting sample_journal_path status reason sample_journal_files = (None, files')
    \<and> status \<in> {''conflict'', ''superseded'', ''reconciled''}"
proof -
  let ?as = "[plain_attempt (\<lambda>t. t) PushLost, plain_attempt (\<lambda>t. t) PushAccepted]" and ?j = sample_journal
  let ?b = "state_build (recovery_update sample_expired (network_reason sample_expired
      (safe_reason (dget ?j ''interruption_reason_safe''))) (Some network_error) (js_now sample_journal_setting))"
  obtain res remote' n where run: "publish_cas (journal_expected ?j) (journal_already ?j) ?b ?as sample_leased = (res, remote', n)"
    by (rule prod_cases3)
  have facts: "identity_from_journal ?j = Inr sample_expired" "journal_already ?j sample_leased = Inr False"
    "map_sum (\<lambda>_. ()) (\<lambda>_. ()) (fst (publish_cas (journal_expected ?j) (journal_already ?j) ?b ?as sample_leased)) = Inr ()"
    by code_simp+
  then obtain x where x: "res = Inr x" using run by (cases res) simp_all
  have kept: "journal_kept ?j sample_expired sample_leased"
    using facts(1)
    by (simp add: journal_kept_def recovery_kept_def same_command_def sample_leased_def short_run_def sample_expired_def)
  let ?m = "settling ''t'' ''reconciled'' ''remote RECOVERY_REQUIRED reconciled with Protocol v2 CAS''"
  obtain m where m: "validate_journal JOURNAL_FIELDS (PyDict (foldl (\<lambda>d (k, v). AList.update k v d) ?j ?m)) = Inr m"
    "dget m ''journal_status'' = PyStr ''reconciled''"
  proof -
    have "map_sum (\<lambda>_. ()) (\<lambda>m. dget m ''journal_status'')
        (validate_journal JOURNAL_FIELDS (PyDict (foldl (\<lambda>d (k, v). AList.update k v d) ?j ?m))) = Inr (PyStr ''reconciled'')"
      by code_simp
    then show thesis using that by (cases "validate_journal JOURNAL_FIELDS (PyDict (foldl (\<lambda>d (k, v). AList.update k v d) ?j ?m))") simp_all
  qed
  have wf: "wf_journal ?j"
    using validated_wf [OF JOURNAL_FIELDS_order(1) sample_journal_valid] by (simp add: sample_journal_def)
  have settled: "Recovery_Journal.settled ?j" unfolding Recovery_Journal.settled_def list_all_iff [symmetric] by code_simp
  have mark: "mark_journal sample_journal_setting sample_journal_path ''reconciled''
      ''remote RECOVERY_REQUIRED reconciled with Protocol v2 CAS'' sample_journal_files
      = (None, store_journal sample_journal_files sample_journal_path (Inr (journal_bytes m)))"
    by (rule mark_journal_written [OF wf settled])
       (use m(1) in \<open>simp_all add: sample_journal_setting_def sample_journal_files_def JOURNAL_FIELDS_order\<close>)
  define files' where "files' = store_journal sample_journal_files sample_journal_path (Inr (journal_bytes m))"
  let ?state = "AList.update ''latest_command'' (PyInt 3) sample_pending_state"
  have state: "ct_state sample_leased = Inr ?state" by (simp add: sample_leased_def)
  have "is_within (project_path [] (ri_project_id sample_expired)) [''projects'']" "report_counted sample_expired sample_leased ?state = Inr False"
    "matches_recovery_state ?j ?state = Inr False" "py_eq (dget ?state ''status'') (PyStr ''CODEX_RUNNING'')"
    "matches_recovery_running_state ?j ?state = Inr True"
    by code_simp+
  then have step: "reconcile_one_journal sample_journal_setting (\<lambda>p. p) [] (git_publisher ?as sample_leased) sample_journal_path ?j True
      sample_leased sample_journal_files = (Inr True, files')"
    using state run x mark by (simp add: reconcile_one_journal_def facts(1) Let_def git_publisher_def marked_def files'_def)
  obtain status reason where "mark_journal sample_journal_setting sample_journal_path status reason sample_journal_files = (None, files')"
      "status \<in> {''conflict'', ''superseded'', ''reconciled''}"
    using settled_journal_is_canonical [OF run kept _ step] by (auto simp: plain_attempt_def)
  then show ?thesis using step m(2) unfolding files'_def by blast
qed

end
