(* ===== verification/Recovery_Coordinator.thy ===== *)
theory Recovery_Coordinator
  imports Recovery_Journals
begin

text \<open>
  \<open>worker/vnext_runtime/services/recovery.py\<close>, the operations that span projects: the interruption
  that is recorded and published, the projects whose journals still wait, the scan that reconciles
  the journals, and the one that reconciles the reports of the projects that do not wait.
\<close>

section \<open>Recording an interruption\<close>

text \<open>What the coordinator is told of the interruption; \<open>None\<close> is the caller's None.\<close>

record interrupted_result =
  ir_marker_result :: py
  ir_exit_code :: py
  ir_termination_reason :: py

record interruption =
  in_project_id :: string
  in_command_id :: int
  in_run_id :: string
  in_claim_generation :: int
  in_reason :: string
  in_claimed_at :: "string option"
  in_lease_expires_at :: "string option"
  in_run_result :: "interrupted_result option"
  in_interrupted_at :: "string option"

definition py_opt_str :: "string option \<Rightarrow> py" where
  "py_opt_str v = (case v of None \<Rightarrow> PyNone | Some t \<Rightarrow> PyStr t)"

definition py_or :: "py \<Rightarrow> py \<Rightarrow> py" where
  "py_or v w = (if truthy v then v else w)"

text \<open>\<open>collect_recovery_evidence\<close>, with what the two git commands answer.\<close>

definition collect_recovery_evidence ::
    "string option \<Rightarrow> string option \<Rightarrow> bool option \<Rightarrow> bool option \<Rightarrow> pydict" where
  "collect_recovery_evidence head_before head_after dirty unpushed =
     (let py_opt_bool = (\<lambda>v. case v of None \<Rightarrow> PyNone | Some b \<Rightarrow> PyBool b) in
     [(''head_before'', py_opt_str head_before), (''head_after'', py_opt_str head_after),
      (''worktree_dirty'', py_opt_bool dirty),
      (''local_commit_created'', PyBool (truthy (py_opt_str head_before) \<and> truthy (py_opt_str head_after) \<and> head_before \<noteq> head_after)),
      (''unpushed_commits_present'', py_opt_bool unpushed), (''external_side_effects_unknown'', PyBool True)])"

text \<open>The dictionary that is written: later entries of a display replace the value of an earlier key.\<close>

definition journal_entries :: "interruption \<Rightarrow> string \<Rightarrow> pydict \<Rightarrow> string \<Rightarrow> string \<Rightarrow> (string \<times> py) list" where
  "journal_entries x interrupted_at evidence report_path pending_path =
     (let field = (\<lambda>f. case in_run_result x of None \<Rightarrow> PyNone | Some r \<Rightarrow> f r); code = field ir_exit_code in
     [(''schema_version'', PyInt 1), (''project_id'', PyStr (in_project_id x)), (''command_id'', PyInt (in_command_id x)),
      (''run_id'', PyStr (in_run_id x)), (''claim_generation'', PyInt (in_claim_generation x)),
      (''interrupted_at'', PyStr interrupted_at), (''interruption_kind'', PyStr ''network_guard''),
      (''interruption_reason_safe'', PyStr (in_reason x)), (''claimed_at'', py_opt_str (in_claimed_at x)),
      (''lease_expires_at'', py_opt_str (in_lease_expires_at x))]
     @ evidence
     @ [(''report_path'', PyStr report_path), (''pending_report_path'', PyStr pending_path),
        (''marker_status'', py_or (field ir_marker_result) (PyStr ''NETWORK_INTERRUPTED'')),
        (''process_exit_code'', if is_int code \<or> is_bool code then code else PyInt 125),
        (''termination_reason'', py_or (field ir_termination_reason) (PyStr ''network_guard'')),
        (''remote_publish_pending'', PyBool True), (''journal_status'', PyStr ''pending'')])"

definition dict_display :: "(string \<times> py) list \<Rightarrow> pydict" where
  "dict_display entries = foldl (\<lambda>d (k, v). AList.update k v d) [] entries"

text \<open>
  Before anything is published the journal is written, and the report is saved by a callback, which is
  given the command and the reason.  The result is the journal's path, the dictionary, and what was
  written of it.
\<close>

record recorded_interruption =
  rc_identity :: recovery_identity
  rc_path :: "string list"
  rc_data :: pydict
  rc_normalized :: pydict
  rc_reason :: string

definition record_interruption ::
    "journal_setting \<Rightarrow> string list \<Rightarrow> pyexc + pydict \<Rightarrow> (int \<Rightarrow> string \<Rightarrow> files \<Rightarrow> pyexc option \<times> files) \<Rightarrow> string \<Rightarrow> string \<Rightarrow>
       interruption \<Rightarrow> files \<Rightarrow> (pyexc + recorded_interruption) \<times> files" where
  "record_interruption js bridge_root collected save report_path pending_path x files =
     braising (RecoveryIdentity (PyStr (in_project_id x)) (PyInt (in_command_id x)) (PyStr (in_run_id x))
         (PyInt (in_claim_generation x))) files (\<lambda>i.
     braising collected files (\<lambda>evidence.
     let interrupted_at = (case in_interrupted_at x of None \<Rightarrow> js_now js | Some t \<Rightarrow> if t = [] then js_now js else t);
         journal_data = dict_display (journal_entries x interrupted_at evidence report_path pending_path) in
     braising (journal_path bridge_root (PyStr (in_project_id x)) (PyStr (in_run_id x))) files (\<lambda>path.
     case write_journal (js_order js) (js_fails js) (PyDict journal_data) (journal_at files path) of
       (Inl e, file) \<Rightarrow> (Inl e, store_journal files path file)
     | (Inr n, file) \<Rightarrow>
         let files1 = store_journal files path file;
             reason = network_reason i (py_str (py_or (dget n ''interruption_reason_safe'') (PyStr ''network interruption''))) in
         (case save (in_command_id x) reason files1 of
            (Some e, files2) \<Rightarrow> (Inl e, files2)
          | (None, files2) \<Rightarrow>
              (Inr \<lparr>rc_identity = i, rc_path = path, rc_data = journal_data, rc_normalized = n, rc_reason = reason\<rparr>, files2)))))"

text \<open>The callbacks of the publication, and the acknowledgement in the journal that follows it.\<close>

definition network_expected :: "recovery_identity \<Rightarrow> canonical_tree \<Rightarrow> pyexc + bool" where
  "network_expected i tree = res_bind (ct_state tree) (\<lambda>current. holds_lease current i None)"

definition acknowledging :: "string \<Rightarrow> pydict" where
  "acknowledging now = settling now ''reconciled'' ''remote RECOVERY_REQUIRED publication confirmed''"

definition publish_network_recovery ::
    "journal_setting \<Rightarrow> string list \<Rightarrow> pyexc + pydict \<Rightarrow> (int \<Rightarrow> string \<Rightarrow> files \<Rightarrow> pyexc option \<times> files) \<Rightarrow> string \<Rightarrow> string \<Rightarrow>
       write_failure option \<Rightarrow> 'r publisher \<Rightarrow> interruption \<Rightarrow> files \<Rightarrow> (pyexc + 'r \<times> string list \<times> pydict \<times> bool) \<times> files" where
  "publish_network_recovery js bridge_root collected save report_path pending_path ack_fails publish x files =
     (case record_interruption js bridge_root collected save report_path pending_path x files of
        (Inl e, files1) \<Rightarrow> (Inl e, files1)
      | (Inr rc, files1) \<Rightarrow>
          (case publish (network_expected (rc_identity rc)) (journal_already (rc_data rc))
              (state_build (legacy_update (rc_identity rc) (rc_reason rc) (Some network_error) (js_now js))) of
             (Inl e, _) \<Rightarrow> (Inl e, files1)
           | (Inr final_state, _) \<Rightarrow>
               (case update_journal (js_float js) (js_order js) ack_fails (acknowledging (js_now js)) (journal_at files1 (rc_path rc)) of
                  (Inl e, file) \<Rightarrow>
                    if is_journal_error e
                    then (Inr (final_state, rc_path rc, dict_display (rc_normalized rc @ [(''remote_publish_pending'', PyBool True),
                            (''journal_status'', PyStr ''pending'')]), True), store_journal files1 (rc_path rc) file)
                    else (Inl e, store_journal files1 (rc_path rc) file)
                | (Inr _, file) \<Rightarrow>
                    (Inr (final_state, rc_path rc, dict_display (rc_normalized rc @ [(''remote_publish_pending'', PyBool False),
                       (''journal_status'', PyStr ''reconciled'')]), False), store_journal files1 (rc_path rc) file))))"

section \<open>The projects that wait\<close>

text \<open>The journals of all projects, or of one, of a listing that is sorted as the code sorts it.\<close>

definition pending_journal_paths :: "string list \<Rightarrow> string option \<Rightarrow> string list list \<Rightarrow> pyexc + string list list" where
  "pending_journal_paths bridge_root project listing =
     (case project of None \<Rightarrow> Inr listing
      | Some p \<Rightarrow> res_bind (recovery_root bridge_root (PyStr p)) (\<lambda>dir. Inr (filter (\<lambda>path. butlast path = dir) listing)))"

definition waits :: "pydict \<Rightarrow> bool" where
  "waits journal \<longleftrightarrow> py_eq (dget journal ''journal_status'') (PyStr ''pending'') \<and> truthy (dget journal ''remote_publish_pending'')"

text \<open>\<open>path.parent.parent.name\<close>\<close>

definition journal_project :: "string list \<Rightarrow> string" where
  "journal_project path = last (butlast (butlast path))"

fun waiting_projects :: "(string \<Rightarrow> py) \<Rightarrow> string list \<Rightarrow> files \<Rightarrow> string list list \<Rightarrow> pyexc + string list" where
  "waiting_projects float_of order files [] = Inr []"
| "waiting_projects float_of order files (path # paths) =
     (case read_journal float_of order (journal_at files path) of
        Inl e \<Rightarrow> if is_journal_error e then res_bind (waiting_projects float_of order files paths) (\<lambda>b. Inr (journal_project path # b))
                 else Inl e
      | Inr journal \<Rightarrow> res_bind (waiting_projects float_of order files paths) (\<lambda>b.
          Inr (if waits journal then journal_project path # b else b)))"

definition pending_network_recovery_projects ::
    "(string \<Rightarrow> py) \<Rightarrow> string list \<Rightarrow> string list \<Rightarrow> string option \<Rightarrow> string list list \<Rightarrow> files \<Rightarrow> pyexc + string list" where
  "pending_network_recovery_projects float_of order bridge_root project listing files =
     res_bind (pending_journal_paths bridge_root project listing) (waiting_projects float_of order files)"

section \<open>Alerts\<close>

definition invalid_journal_alert :: "string \<Rightarrow> string list \<Rightarrow> pydict" where
  "invalid_journal_alert now path =
     [(''timestamp'', PyStr now), (''project_id'', PyStr (journal_project path)), (''command_id'', PyInt 0),
      (''run_id'', PyStr (path_stem (last path))), (''alert_kind'', PyStr ''deferred_recovery_error''),
      (''current_bridge_status'', PyStr ''unknown''), (''original_status'', PyStr ''CODEX_RUNNING''),
      (''interruption_recovery_type'', PyStr ''deferred recovery journal inspection''),
      (''recovery_reason_safe'', PyStr ''local recovery journal cannot be safely read''), (''codex_terminated'', PyNone),
      (''worker_is_alive'', PyBool True), (''journal_saved'', PyBool True), (''pending_report_saved'', PyNone),
      (''remote_recovery_cas_success'', PyBool False), (''remote_publish_pending'', PyNone),
      (''external_side_effects_unknown'', PyBool True)]"

text \<open>\<open>exists\<close> answers for the saved report, whose path is relative to the Bridge root.\<close>

definition journal_alert_context ::
    "string \<Rightarrow> (string \<Rightarrow> bool) \<Rightarrow> pydict \<Rightarrow> string \<Rightarrow> string \<Rightarrow> pydict \<Rightarrow> pyexc + pydict" where
  "journal_alert_context now exists journal kind reason state =
     (let pending_raw = py_str (dget_or journal ''pending_report_path'' (PyStr [])) in
      res_bind (service_int (dget journal ''command_id'') (Some 0)) (\<lambda>command.
      res_bind (service_int (dget state ''generation'') None) (\<lambda>generation.
      res_bind (service_int (dget journal ''claim_generation'') None) (\<lambda>claim. Inr
     [(''timestamp'', PyStr now),
      (''project_id'', PyStr (py_str (dget_or journal ''project_id'' (PyStr ''unknown-project'')))),
      (''command_id'', py_opt_int command),
      (''run_id'', PyStr (py_str (dget_or journal ''run_id'' (PyStr ''unknown-run'')))),
      (''alert_kind'', PyStr kind),
      (''current_bridge_status'', PyStr (py_str (dget_or state ''status'' (PyStr ''unknown'')))),
      (''original_status'', PyStr ''CODEX_RUNNING''), (''generation'', py_opt_int generation),
      (''generation_before'', py_opt_int claim), (''claim_generation'', py_opt_int claim),
      (''interruption_recovery_type'', PyStr (py_str (dget_or journal ''interruption_kind'' (PyStr ''deferred recovery'')))),
      (''recovery_reason_safe'', PyStr (safe_reason (if reason \<noteq> [] then PyStr reason else dget journal ''interruption_reason_safe''))),
      (''codex_terminated'', PyBool True), (''worker_is_alive'', PyBool True), (''journal_saved'', PyBool True),
      (''pending_report_saved'', if pending_raw = [] then PyNone else PyBool (exists pending_raw)),
      (''remote_recovery_cas_success'', PyBool False),
      (''remote_publish_pending'', dget journal ''remote_publish_pending''),
      (''worktree_dirty'', dget journal ''worktree_dirty''),
      (''local_commit_created'', dget journal ''local_commit_created''),
      (''unpushed_commits_present'', dget journal ''unpushed_commits_present''),
      (''external_side_effects_unknown'', dget journal ''external_side_effects_unknown''),
      (''lease_expires_at'', dget journal ''lease_expires_at''), (''claimed_at'', dget journal ''claimed_at''),
      (''reconciliation_reason'', dget_or journal ''reconciliation_reason'' (PyStr []))]))))"

section \<open>The journals are reconciled\<close>

text \<open>
  What the scan meets at a journal: its path, the setting, the publisher, whether the state file
  exists, the tree, and the state that is loaded for an alert.
\<close>

record 'r journal_item =
  ji_path :: "string list"
  ji_setting :: journal_setting
  ji_publish :: "'r publisher"
  ji_is_file :: bool
  ji_tree :: canonical_tree
  ji_alert_state :: "pyexc + pydict"

definition state_for_alert :: "pyexc + pydict \<Rightarrow> pydict" where
  "state_for_alert r = (case r of Inl _ \<Rightarrow> [] | Inr d \<Rightarrow> d)"

text \<open>An alert is handed to the callback; an exception of the callback ends the scan.\<close>

definition emitting ::
    "(pydict \<Rightarrow> pyexc option) \<Rightarrow> pyexc + pydict \<Rightarrow> files \<Rightarrow> pydict list \<Rightarrow>
       (pydict list \<Rightarrow> (pyexc + nat) \<times> files \<times> pydict list) \<Rightarrow> (pyexc + nat) \<times> files \<times> pydict list" where
  "emitting emit context files alerts k =
     (case context of
        Inl e \<Rightarrow> (Inl e, files, alerts)
      | Inr a \<Rightarrow> (case emit a of Some e \<Rightarrow> (Inl e, files, alerts @ [a]) | None \<Rightarrow> k (alerts @ [a])))"

definition report_conflict ::
    "(pydict \<Rightarrow> pyexc option) \<Rightarrow> (string \<Rightarrow> bool) \<Rightarrow> string \<Rightarrow> pydict \<Rightarrow> pydict \<Rightarrow> files \<Rightarrow> pydict list \<Rightarrow>
       (pydict list \<Rightarrow> (pyexc + nat) \<times> files \<times> pydict list) \<Rightarrow> (pyexc + nat) \<times> files \<times> pydict list" where
  "report_conflict emit exists now journal state files alerts k =
     (if py_eq (dget journal ''journal_status'') (PyStr ''conflict'')
      then emitting emit (journal_alert_context now exists journal ''deferred_recovery_conflict''
             (py_str (dget_or journal ''reconciliation_reason'' (PyStr ''deferred recovery conflict''))) state) files alerts k
      else k alerts)"

fun recovery_scan ::
    "(pydict \<Rightarrow> pyexc option) \<Rightarrow> (string \<Rightarrow> bool) \<Rightarrow> (string list \<Rightarrow> string list) \<Rightarrow> string list \<Rightarrow> 'r journal_item list \<Rightarrow>
       nat \<Rightarrow> files \<Rightarrow> pydict list \<Rightarrow> (pyexc + nat) \<times> files \<times> pydict list"
where
  "recovery_scan emit exists resolve bridge_root [] completed files alerts = (Inr completed, files, alerts)"
| "recovery_scan emit exists resolve bridge_root (item # items) completed files alerts =
     (let js = ji_setting item; path = ji_path item; state = state_for_alert (ji_alert_state item) in
      case read_journal (js_float js) (js_order js) (journal_at files path) of
        Inl e \<Rightarrow>
          if is_journal_error e
          then emitting emit (Inr (invalid_journal_alert (js_now js) path)) files alerts
                 (\<lambda>as. recovery_scan emit exists resolve bridge_root items completed files as)
          else (Inl e, files, alerts)
      | Inr journal \<Rightarrow>
          if \<not> waits journal then recovery_scan emit exists resolve bridge_root items completed files alerts
          else (case reconcile_one_journal js resolve bridge_root (ji_publish item) path journal (ji_is_file item) (ji_tree item) files of
            (Inl e, files') \<Rightarrow>
              if is_os_error e \<or> is_value_error e \<or> is_type_error e
              then emitting emit (journal_alert_context (js_now js) exists journal ''deferred_recovery_error''
                     ''deferred recovery cannot be safely compensated'' state) files' alerts
                     (\<lambda>as. recovery_scan emit exists resolve bridge_root items completed files' as)
              else (Inl e, files', alerts)
          | (Inr finished, files') \<Rightarrow>
              (case (case read_journal (js_float js) (js_order js) (journal_at files' path) of
                   Inl e \<Rightarrow> if is_journal_error e then Inr journal else Inl e | Inr j \<Rightarrow> Inr j) of
                 Inl e \<Rightarrow> (Inl e, files', alerts)
               | Inr reconciled \<Rightarrow> report_conflict emit exists (js_now js) reconciled state files' alerts
                   (\<lambda>as. recovery_scan emit exists resolve bridge_root items (if finished then Suc completed else completed) files' as))))"

text \<open>The items are those of the journals of all projects, or of the one that is named.\<close>

definition reconcile_pending_recoveries ::
    "(pydict \<Rightarrow> pyexc option) \<Rightarrow> (string \<Rightarrow> bool) \<Rightarrow> (string list \<Rightarrow> string list) \<Rightarrow> string list \<Rightarrow> string option \<Rightarrow>
       'r journal_item list \<Rightarrow> files \<Rightarrow> (pyexc + nat) \<times> files \<times> pydict list" where
  "reconcile_pending_recoveries emit exists resolve bridge_root project items files =
     (case pending_journal_paths bridge_root project (map ji_path items) of
        Inl e \<Rightarrow> (Inl e, files, [])
      | Inr paths \<Rightarrow> recovery_scan emit exists resolve bridge_root (filter (\<lambda>i. ji_path i \<in> set paths) items) 0 files [])"

section \<open>The reports are reconciled\<close>

text \<open>\<open>bridge_common.load_json\<close>: a document that is not an object is refused.\<close>

definition load_json :: "(string \<Rightarrow> py) \<Rightarrow> files \<Rightarrow> string list \<Rightarrow> pyexc + pydict" where
  "load_json float_of files path =
     res_bind (read_json float_of files path) (\<lambda>v.
       if is_dict v then Inr (the_dict v) else Inl (WorkerError ''Expected JSON object''))"

fun typed_scan ::
    "(string list \<Rightarrow> string list) \<Rightarrow> string list \<Rightarrow> (git_push_intent \<Rightarrow> pyexc + push_reconciliation) \<Rightarrow> string list \<Rightarrow>
       'r scan_item list \<Rightarrow> nat \<Rightarrow> files \<Rightarrow> (pyexc + nat) \<times> files"
where
  "typed_scan resolve bridge_root reconcile_push blocked [] completed files = (Inr completed, files)"
| "typed_scan resolve bridge_root reconcile_push blocked ((path, s, publish, tree) # items) completed files =
     (if last (butlast path) \<in> set blocked then typed_scan resolve bridge_root reconcile_push blocked items completed files
      else (case load_json (st_float s) files path of
        Inl e \<Rightarrow>
          if is_os_error e \<or> is_worker_error e then typed_scan resolve bridge_root reconcile_push blocked items completed files
          else (Inl e, files)
      | Inr raw \<Rightarrow>
          if \<not> py_eq (dget_or raw ''evidence_mode'' (PyStr ''legacy'')) (PyStr ''typed'')
          then typed_scan resolve bridge_root reconcile_push blocked items completed files
          else (case reconcile_typed_report s resolve bridge_root reconcile_push publish path tree files of
            (Inl e, files') \<Rightarrow>
              if is_os_error e \<or> is_type_error e \<or> is_value_error e \<or> (case e of RecoveryServiceConflict _ \<Rightarrow> True | _ \<Rightarrow> False)
              then typed_scan resolve bridge_root reconcile_push blocked items completed files'
              else (Inl e, files')
          | (Inr result, files') \<Rightarrow>
              typed_scan resolve bridge_root reconcile_push blocked items
                (if result \<in> {''reconciled'', ''superseded''} then Suc completed else completed) files')))"

text \<open>
  The two scans list the same sidecars; what they meet there, the trees above all, may differ.
\<close>

definition reconcile_reports ::
    "(string \<Rightarrow> py) \<Rightarrow> string list \<Rightarrow> (string list \<Rightarrow> string list) \<Rightarrow> string list \<Rightarrow>
       (git_push_intent \<Rightarrow> pyexc + push_reconciliation) \<Rightarrow> string option \<Rightarrow> string list list \<Rightarrow>
       'r scan_item list \<Rightarrow> 'r scan_item list \<Rightarrow> files \<Rightarrow> (pyexc + nat) \<times> files" where
  "reconcile_reports float_of order resolve bridge_root reconcile_push project journals typed_items legacy_items files =
     (case pending_network_recovery_projects float_of order bridge_root project journals files of
        Inl e \<Rightarrow> (Inl e, files)
      | Inr blocked \<Rightarrow>
          (case typed_scan resolve bridge_root reconcile_push blocked typed_items 0 files of
             (Inl e, files1) \<Rightarrow> (Inl e, files1)
           | (Inr typed_completed, files1) \<Rightarrow>
               (case reconcile_pending_reports resolve bridge_root blocked (Some ''legacy'') legacy_items files1 of
                  (Inl e, files2) \<Rightarrow> (Inl e, files2)
                | (Inr legacy_completed, files2) \<Rightarrow> (Inr (typed_completed + legacy_completed), files2))))"

section \<open>A journal that was written blocks\<close>

text \<open>What a process with any iteration order reads: a journal that waits, or a refusal.\<close>

definition still_waits :: "(string \<Rightarrow> py) \<Rightarrow> string list \<Rightarrow> pyexc + string \<Rightarrow> bool" where
  "still_waits float_of order file =
     (case read_journal float_of order file of Inl e \<Rightarrow> is_journal_error e | Inr journal \<Rightarrow> waits journal)"

lemma wf_field_normalizes:
  assumes "field_type k v" "k \<in> set JOURNAL_FIELDS"
  shows "\<exists>x. normalize_value k v = Inr x"
proof -
  have int: "journal_int (PyInt i) m = Inr (PyInt i)" for i m by (simp add: journal_int_def py_int_def)
  have "k \<in> set BOOL_FIELDS \<or> k \<in> set INT_FIELDS \<or> k \<in> set TEXT_FIELDS \<or> k = ''schema_version'' \<or> k = ''journal_status''"
    using assms(2) unfolding fields_disjoint(2) by auto
  moreover have "k \<notin> set BOOL_FIELDS" if "k \<in> set INT_FIELDS"
    using that fields_disjoint(1) by auto
  ultimately show ?thesis
    using assms(1) field_classes by (auto simp: normalize_value_def field_type_def int is_int_iff split: if_splits)
qed

lemma written_journal_json:
  assumes "wf_journal n" "short_ints n"
  shows "json_file F (journal_bytes n) = Inr (PyDict n)"
proof -
  have "pairs_ok n"
    unfolding pairs_ok_iff
  proof clarify
    fix k v
    assume "(k, v) \<in> set n"
    then have "field_type k v" "is_int v \<longrightarrow> short_int (the_int v)"
      using assms by (auto simp: wf_journal_def short_ints_def)
    then show "json_ok v" by (cases v) (auto simp: field_type_def split: if_splits)
  qed
  then show ?thesis
    unfolding journal_bytes_def
    by (intro json_file_written(2) [of _ "[CHR 0x0A]"]) (use assms(1) in \<open>simp_all add: is_linesep_def wf_journal_def dkeys_def\<close>)
qed

lemma journal_checks_error:
  "first_raise (journal_checks d) = Some e \<Longrightarrow> is_journal_error e"
  unfolding journal_checks_def Let_def by (auto simp: is_journal_error_def ensure_def split: if_splits)

lemma normalized_field:
  assumes "normalize_journal order v = Inr n" "dhas (the_dict v) k" "k \<in> set order"
  shows "normalize_value k (dget (the_dict v) k) = Inr (dget n k) \<and> dhas n k"
proof -
  note fields = normalize_journal_fields [OF assms(1)]
  have "k \<in> set (map fst n)" using fields(2) assms(2,3) by simp
  then have "dhas n k" by (simp add: dhas_def)
  then show ?thesis using fields(3) dget_member by fastforce
qed

lemma written_journal_waits:
  assumes n: "wf_journal n" "short_ints n" and order: "iteration_order order"
    and waiting: "dget n ''journal_status'' = PyStr ''pending''" "dget n ''remote_publish_pending'' = PyBool True"
  shows "still_waits F order (Inr (journal_bytes n))"
proof -
  have type: "\<exists>x. normalize_value k (dget n k) = Inr x" if "dhas n k" for k
    using wf_field_normalizes [OF wf_field [OF n(1) that]] dget_member [OF that] n(1) by (force simp: wf_journal_def dkeys_def)
  have "\<exists>n'. normalize_journal order (PyDict n) = Inr n'"
  proof -
    have "\<exists>ys. res_map (\<lambda>k. res_bind (normalize_value k (dget n k)) (\<lambda>x. Inr (k, x))) ks = Inr ys"
      if "\<forall>k \<in> set ks. dhas n k" for ks
      using that type by (induction ks) fastforce+
    then show ?thesis by (simp add: normalize_journal_def)
  qed
  then obtain n' where n': "normalize_journal order (PyDict n) = Inr n'" by blast
  have "''journal_status'' \<in> set JOURNAL_REQUIRED_FIELDS" "''remote_publish_pending'' \<in> set JOURNAL_REQUIRED_FIELDS"
    by code_simp+
  then have has: "dhas n ''journal_status''" "dhas n ''remote_publish_pending''" "''journal_status'' \<in> set order"
      "''remote_publish_pending'' \<in> set order"
    using n(1) order required_known by (auto simp: wf_journal_def dhas_def dkeys_def iteration_order_def)
  have "normalize_value ''journal_status'' (PyStr ''pending'') = Inr (PyStr ''pending'')"
    "normalize_value ''remote_publish_pending'' (PyBool True) = Inr (PyBool True)" by code_simp+
  then have "dget n' ''journal_status'' = PyStr ''pending''" "dget n' ''remote_publish_pending'' = PyBool True"
    using normalized_field [OF n', of "''journal_status''"] normalized_field [OF n', of "''remote_publish_pending''"] has waiting
    by simp_all
  then have "waits n'" by (simp add: waits_def truthy_def)
  then show ?thesis
    using n' journal_checks_error [of n'] written_journal_json [OF n, of F]
    by (cases "first_raise (journal_checks n')")
       (auto simp: still_waits_def read_journal_def validate_journal_def run_checks_def is_journal_error_def split: pyexc.splits)
qed

lemma dhas_map_of: "dhas d k \<longleftrightarrow> map_of d k \<noteq> None"
  by (simp add: dhas_def map_of_eq_None_iff)

lemma dict_display_snoc: "dict_display (es @ [(k, v)]) = AList.update k v (dict_display es)"
  by (simp add: dict_display_def)

lemma journal_entries_pending:
  "dhas (dict_display (journal_entries x at0 ev r p)) ''journal_status''"
  "dget (dict_display (journal_entries x at0 ev r p)) ''journal_status'' = PyStr ''pending''"
  "dhas (dict_display (journal_entries x at0 ev r p)) ''remote_publish_pending''"
  "dget (dict_display (journal_entries x at0 ev r p)) ''remote_publish_pending'' = PyBool True"
proof -
  have "\<exists>es. journal_entries x at0 ev r p = (es @ [(''remote_publish_pending'', PyBool True)]) @ [(''journal_status'', PyStr ''pending'')]"
    by (simp add: journal_entries_def Let_def)
  then obtain es where "journal_entries x at0 ev r p = (es @ [(''remote_publish_pending'', PyBool True)]) @ [(''journal_status'', PyStr ''pending'')]"
    by blast
  then have d: "dict_display (journal_entries x at0 ev r p)
      = AList.update ''journal_status'' (PyStr ''pending'') (AList.update ''remote_publish_pending'' (PyBool True) (dict_display es))"
    by (simp only: dict_display_snoc)
  show "dhas (dict_display (journal_entries x at0 ev r p)) ''journal_status''"
    "dget (dict_display (journal_entries x at0 ev r p)) ''journal_status'' = PyStr ''pending''"
    "dhas (dict_display (journal_entries x at0 ev r p)) ''remote_publish_pending''"
    "dget (dict_display (journal_entries x at0 ev r p)) ''remote_publish_pending'' = PyBool True"
    by (simp_all add: d dhas_map_of update_conv')
qed

lemma record_interruption_Inr:
  assumes "record_interruption js base collected save report pending x files = (Inr rc, files1)"
  obtains "journal_path base (PyStr (in_project_id x)) (PyStr (in_run_id x)) = Inr (rc_path rc)"
    "validate_journal (js_order js) (PyDict (rc_data rc)) = Inr (rc_normalized rc)"
    "save (in_command_id x) (rc_reason rc) (store_journal files (rc_path rc) (Inr (journal_bytes (rc_normalized rc)))) = (None, files1)"
    "rc_identity rc = \<lparr>ri_project_id = in_project_id x, ri_command_id = in_command_id x, ri_run_id = in_run_id x,
       ri_claim_generation = in_claim_generation x\<rparr>"
    "\<exists>safe. rc_reason rc = network_reason (rc_identity rc) safe"
    "dhas (rc_data rc) ''journal_status''" "dget (rc_data rc) ''journal_status'' = PyStr ''pending''"
    "dhas (rc_data rc) ''remote_publish_pending''" "dget (rc_data rc) ''remote_publish_pending'' = PyBool True"
proof -
  let ?i = "RecoveryIdentity (PyStr (in_project_id x)) (PyInt (in_command_id x)) (PyStr (in_run_id x)) (PyInt (in_claim_generation x))"
  define at0 where "at0 = (case in_interrupted_at x of None \<Rightarrow> js_now js | Some t \<Rightarrow> if t = [] then js_now js else t)"
  from assms obtain i evidence path where parts: "?i = Inr i" "collected = Inr evidence"
      "journal_path base (PyStr (in_project_id x)) (PyStr (in_run_id x)) = Inr path"
    unfolding record_interruption_def by (auto simp: braising_Inr Let_def)
  let ?d = "dict_display (journal_entries x at0 evidence report pending)"
  obtain res written_file where stored: "write_journal (js_order js) (js_fails js) (PyDict ?d) (journal_at files path) = (res, written_file)"
    by (rule prod.exhaust)
  note run = assms [unfolded record_interruption_def parts braising_simps Let_def, folded at0_def, unfolded stored prod.case]
  then obtain n where n: "res = Inr n" by (cases res) simp_all
  then have written: "validate_journal (js_order js) (PyDict ?d) = Inr n" "written_file = Inr (journal_bytes n)"
    using stored by (auto simp: write_journal_def split: sum.splits option.splits write_failure.splits)
  let ?r = "network_reason i (py_str (py_or (dget n ''interruption_reason_safe'') (PyStr ''network interruption'')))"
  obtain m f where save: "save (in_command_id x) ?r (store_journal files path written_file) = (m, f)" by (rule prod.exhaust)
  have rc: "m = None" "f = files1"
    "rc = \<lparr>rc_identity = i, rc_path = path, rc_data = ?d, rc_normalized = n, rc_reason = ?r\<rparr>"
    using run save by (auto simp: n split: option.splits)
  have "i = \<lparr>ri_project_id = in_project_id x, ri_command_id = in_command_id x, ri_run_id = in_run_id x,
       ri_claim_generation = in_claim_generation x\<rparr>"
    using parts(1) by (simp add: RecoveryIdentity_def run_checks_Inr)
  then show thesis
    using that parts(3) written save rc(1,2) journal_entries_pending by (auto simp: rc(3))
qed

section \<open>The publication of an interruption\<close>

interpretation network_cas: cas_protocol "journal_kept journal i" "network_expected i" "journal_already journal"
  "state_build (legacy_update i (network_reason i safe) error now)"
  for journal i safe error now
proof
  fix tree tree'
  assume kept: "journal_kept journal i tree" and free: "journal_already journal tree = Inr False"
    and expected: "network_expected i tree = Inr True"
    and build: "state_build (legacy_update i (network_reason i safe) error now) tree = Inr tree'"
  from build obtain current updated where tree: "ct_state tree = Inr current"
      "legacy_update i (network_reason i safe) error now current = Inr updated" "tree' = tree\<lparr>ct_state := Inr updated\<rparr>"
    by (rule state_build_leased)
  have lease: "holds_lease current i None = Inr True" using expected by (simp add: network_expected_def tree(1))
  have i: "identity_from_journal journal = Inr i" using kept by (simp add: journal_kept_def)
  have "state_build (recovery_update i (network_reason i safe) error now) tree = Inr tree'"
    using tree legacy_update_leased [OF lease] recovery_update_leased [OF lease] by (simp add: state_build_def)
  moreover have "journal_expected journal tree = Inr True"
    using lease by (simp add: journal_expected_def tree(1) running_state_lease [OF i])
  ultimately show "journal_already journal tree' = Inr True \<and> journal_kept journal i tree'"
    using journal_cas.applies_kept [OF kept free] by blast
qed

definition keeps_journals :: "(int \<Rightarrow> string \<Rightarrow> files \<Rightarrow> pyexc option \<times> files) \<Rightarrow> bool" where
  "keeps_journals save \<longleftrightarrow> (\<forall>c r files path. last (butlast path) = ''recovery'' \<longrightarrow> snd (save c r files) path = files path)"

lemma journal_path_parts:
  assumes "journal_path base project run = Inr path"
  obtains p r where "safe_component project = Inr p" "path = base @ [''worker'', ''runtime'', p, ''recovery'', r]"
  using assms by (auto simp: journal_path_def recovery_root_def res_bind_Inr_iff)

lemma stored_journal: "journal_at (store_journal files path r) path = r"
  by (simp add: store_journal_def journal_at_def)

lemma recorded_still_waits:
  assumes "record_interruption js base collected save report pending x files = (Inr rc, files1)"
    and "iteration_order (js_order js)" "iteration_order order" "short_ints (rc_normalized rc)" "keeps_journals save"
  shows "still_waits F order (journal_at files1 (rc_path rc))"
proof (rule record_interruption_Inr [OF assms(1)])
  assume path: "journal_path base (PyStr (in_project_id x)) (PyStr (in_run_id x)) = Inr (rc_path rc)"
    and valid: "validate_journal (js_order js) (PyDict (rc_data rc)) = Inr (rc_normalized rc)"
    and save: "save (in_command_id x) (rc_reason rc) (store_journal files (rc_path rc) (Inr (journal_bytes (rc_normalized rc)))) = (None, files1)"
    and pending: "dhas (rc_data rc) ''journal_status''" "dget (rc_data rc) ''journal_status'' = PyStr ''pending''"
      "dhas (rc_data rc) ''remote_publish_pending''" "dget (rc_data rc) ''remote_publish_pending'' = PyBool True"
  obtain p r where "rc_path rc = base @ [''worker'', ''runtime'', p, ''recovery'', r]" by (rule journal_path_parts [OF path])
  then have "last (butlast (rc_path rc)) = ''recovery''" by (simp add: butlast_append)
  then have "files1 (rc_path rc) = store_journal files (rc_path rc) (Inr (journal_bytes (rc_normalized rc))) (rc_path rc)"
    using assms(5) save unfolding keeps_journals_def by (metis snd_conv)
  then have "journal_at files1 (rc_path rc) = Inr (journal_bytes (rc_normalized rc))"
    using stored_journal [of files "rc_path rc"] by (simp add: journal_at_def)
  moreover have "''journal_status'' \<in> set (js_order js)" "''remote_publish_pending'' \<in> set (js_order js)"
    using assms(2) by (simp_all add: iteration_order_def JOURNAL_FIELDS_def)
  then have "dget (rc_normalized rc) ''journal_status'' = PyStr ''pending''" "dget (rc_normalized rc) ''remote_publish_pending'' = PyBool True"
  proof -
    have "normalize_journal (js_order js) (PyDict (rc_data rc)) = Inr (rc_normalized rc)"
      using valid by (auto simp: validate_journal_def res_bind_Inr_iff run_checks_Inr)
    note field = normalized_field [OF this]
    have texts: "normalize_value ''journal_status'' (PyStr ''pending'') = Inr (PyStr ''pending'')"
      "normalize_value ''remote_publish_pending'' (PyBool True) = Inr (PyBool True)" by code_simp+
    assume order: "''journal_status'' \<in> set (js_order js)" "''remote_publish_pending'' \<in> set (js_order js)"
    show "dget (rc_normalized rc) ''journal_status'' = PyStr ''pending''" "dget (rc_normalized rc) ''remote_publish_pending'' = PyBool True"
      using field [of "''journal_status''"] field [of "''remote_publish_pending''"] pending order texts by simp_all
  qed
  ultimately show ?thesis
    using written_journal_waits [OF validated_wf [OF assms(2) valid] assms(4,3)] by simp
qed

text \<open>
  C5: an interruption is never lost.  Once it is recorded, and whatever then happens to the
  publication, to other writers and to the acknowledgement, the recovery of this run is published at
  most once, and either the branch holds it, or any later process finds a journal of the project that
  waits or cannot be read.
\<close>

theorem interruption_is_never_lost:
  assumes "record_interruption js base collected save report pending x files = (Inr rc, files1)"
    and "publish_network_recovery js base collected save report pending ack (git_publisher attempts remote) x files = (out, files')"
    and "iteration_order (js_order js)" "iteration_order order" "short_ints (rc_normalized rc)" "keeps_journals save"
    and "journal_kept (rc_data rc) (rc_identity rc) remote"
    and "\<forall>a \<in> set attempts. \<forall>t. journal_kept (rc_data rc) (rc_identity rc) t \<longrightarrow>
      journal_kept (rc_data rc) (rc_identity rc) (ca_others a t)
      \<and> (journal_already (rc_data rc) t = Inr True \<longrightarrow> journal_already (rc_data rc) (ca_others a t) = Inr True)"
  shows "\<exists>res remote' n. publish_cas (network_expected (rc_identity rc)) (journal_already (rc_data rc))
      (state_build (legacy_update (rc_identity rc) (rc_reason rc) (Some network_error) (js_now js))) attempts remote = (res, remote', n)
    \<and> n \<le> 1 \<and> (journal_already (rc_data rc) remote' = Inr True \<or> still_waits F order (journal_at files' (rc_path rc)))"
proof -
  let ?b = "state_build (legacy_update (rc_identity rc) (rc_reason rc) (Some network_error) (js_now js))"
  obtain res remote' n where run: "publish_cas (network_expected (rc_identity rc)) (journal_already (rc_data rc)) ?b attempts remote
      = (res, remote', n)" by (rule prod_cases3)
  obtain safe where "rc_reason rc = network_reason (rc_identity rc) safe" by (rule record_interruption_Inr [OF assms(1)]) blast
  then have once: "n \<le> 1 \<and> (n = 1 \<or> (\<exists>x. res = Inr x) \<longrightarrow> journal_already (rc_data rc) remote' = Inr True)"
    using network_cas.publish_once [OF _ assms(7) run [unfolded \<open>rc_reason rc = _\<close>]] assms(8)
    by (simp add: network_cas.respectful_def)
  show ?thesis
  proof (cases res)
    case (Inl e)
    then have "files' = files1" using assms(2) by (simp add: publish_network_recovery_def assms(1) git_publisher_def run)
    then show ?thesis using run once recorded_still_waits [OF assms(1,3-6)] by blast
  qed (use run once in blast)
qed

definition sample_interruption :: interruption where
  "sample_interruption = \<lparr>in_project_id = ''p'', in_command_id = 3, in_run_id = ''run-1'', in_claim_generation = 6,
     in_reason = ''down'', in_claimed_at = None, in_lease_expires_at = None,
     in_run_result = Some \<lparr>ir_marker_result = PyStr ''M'', ir_exit_code = PyNone, ir_termination_reason = PyStr ''n''\<rparr>, in_interrupted_at = None\<rparr>"

definition offline :: "canonical_tree cas_attempt" where
  "offline = (plain_attempt (\<lambda>t. t) PushAccepted)\<lparr>ca_sync := Some (WorkerError ''unreachable'')\<rparr>"

theorem interruption_is_never_lost_witness:
  "\<exists>rc files'. fst (record_interruption sample_journal_setting [] (Inr (collect_recovery_evidence None None (Some False) None))
        (\<lambda>_ _ fs. (None, fs)) ''r'' ''s'' sample_interruption (\<lambda>_. None)) = Inr rc
     \<and> snd (publish_network_recovery sample_journal_setting [] (Inr (collect_recovery_evidence None None (Some False) None))
        (\<lambda>_ _ fs. (None, fs)) ''r'' ''s'' None (git_publisher [offline] sample_leased) sample_interruption (\<lambda>_. None)) = files'
     \<and> still_waits (\<lambda>_. PyNone) (rev JOURNAL_FIELDS) (journal_at files' (rc_path rc))"
proof -
  let ?rec = "record_interruption sample_journal_setting [] (Inr (collect_recovery_evidence None None (Some False) None))
      (\<lambda>_ _ fs. (None, fs)) ''r'' ''s'' sample_interruption (\<lambda>_. None)"
  let ?d = "dict_display (journal_entries sample_interruption ''t'' (collect_recovery_evidence None None (Some False) None) ''r'' ''s'')"
  have "map_sum (\<lambda>_. ()) (\<lambda>n. list_all (\<lambda>(k, v). is_int v \<longrightarrow> short_int (the_int v)) n)
      (validate_journal JOURNAL_FIELDS (PyDict ?d)) = Inr True"
    by code_simp
  then obtain n where n: "validate_journal JOURNAL_FIELDS (PyDict ?d) = Inr n" "short_ints n"
    by (cases "validate_journal JOURNAL_FIELDS (PyDict ?d)") (auto simp: short_ints_def list_all_iff)
  have data: "identity_from_journal ?d = Inr sample_expired" "journal_already ?d sample_leased = Inr False"
    "journal_path [] (PyStr ''p'') (PyStr ''run-1'') = Inr sample_journal_path"
    "RecoveryIdentity (PyStr ''p'') (PyInt 3) (PyStr ''run-1'') (PyInt 6) = Inr sample_expired"
    by code_simp+
  have "\<exists>rc files1. ?rec = (Inr rc, files1) \<and> rc_normalized rc = n \<and> rc_data rc = ?d \<and> rc_identity rc = sample_expired"
    using n(1) data(3,4)
    by (simp add: record_interruption_def write_journal_def sample_journal_setting_def Let_def)
       (simp add: sample_interruption_def n(1) write_journal_def)
  then obtain rc files1 where rc: "?rec = (Inr rc, files1)" "short_ints (rc_normalized rc)"
      "identity_from_journal (rc_data rc) = Inr (rc_identity rc)" "rc_identity rc = sample_expired"
      "journal_already (rc_data rc) sample_leased = Inr False"
    using n(2) data(1,2) by auto
  obtain out files' where run: "publish_network_recovery sample_journal_setting [] (Inr (collect_recovery_evidence None None (Some False) None))
      (\<lambda>_ _ fs. (None, fs)) ''r'' ''s'' None (git_publisher [offline] sample_leased) sample_interruption (\<lambda>_. None) = (out, files')"
    by (rule prod.exhaust)
  have kept: "journal_kept (rc_data rc) (rc_identity rc) sample_leased"
    using rc(3,4)
    by (simp add: journal_kept_def recovery_kept_def same_command_def sample_leased_def short_run_def sample_expired_def)
  have order: "iteration_order (js_order sample_journal_setting)" "keeps_journals (\<lambda>_ _ fs. (None, fs))"
    by (simp_all add: sample_journal_setting_def JOURNAL_FIELDS_order keeps_journals_def)
  from interruption_is_never_lost [OF rc(1) run order(1) JOURNAL_FIELDS_order(2) rc(2) order(2) kept]
  have "still_waits (\<lambda>_. PyNone) (rev JOURNAL_FIELDS) (journal_at files' (rc_path rc))"
    using rc(5) by (simp add: offline_def plain_attempt_def publish_cas_def)
  then show ?thesis using rc(1) run by (metis fst_conv snd_conv)
qed

section \<open>A project that waits is left alone\<close>

lemma waiting_projects_member:
  "waiting_projects F order files paths = Inr blocked \<Longrightarrow> path \<in> set paths \<Longrightarrow>
     still_waits F order (journal_at files path) \<Longrightarrow> journal_project path \<in> set blocked"
  by (induction paths arbitrary: blocked)
     (auto simp: still_waits_def res_bind_Inr_iff split: sum.splits if_splits)

lemma retain_elsewhere:
  assumes "retain s ev reason outcome files = (res, files')" "q \<noteq> pe_metadata_path ev"
  shows "files' q = files q"
proof -
  obtain r f where marked: "mark_conflict_best_effort (st_float s) (st_linesep s) (st_now s) (st_fails s) (pe_metadata_path ev) reason files = (r, f)"
    by (rule prod.exhaust)
  have "files' = f" using assms(1) by (cases r) (simp_all add: retain_def marked)
  then show ?thesis using mark_conflict_elsewhere [OF marked assms(2)] by simp
qed

lemma transition_elsewhere:
  assumes "transition_typed_recovery s publish ev ident state reason files = (res, files')" "q \<noteq> pe_metadata_path ev"
  shows "files' q = files q"
proof -
  note retained = retain_elsewhere [OF _ assms(2)]
  let ?i = "service_identity ident" and ?source = "py_str (pe_field ev ''source'')"
  obtain p t where publish: "publish (typed_expected ?i ?source) typed_already
      (state_build (recovery_update ?i reason (Some typed_error) (st_now s))) = (p, t)" by (rule prod.exhaust)
  have published: "files' q = files q"
    if "(case p of Inr _ \<Rightarrow> retain s ev a b files | Inl (CASConflict _) \<Rightarrow> retain s ev c d files
        | Inl e \<Rightarrow> (if is_worker_error e then Inr ''pending'' else Inl e, files)) = (res, files')" for a b c d
    using that by (cases p) (auto dest: retained split: pyexc.splits)
  show ?thesis
    using assms(1) unfolding transition_typed_recovery_def Let_def
    apply (split if_split_asm)
     apply (erule retained)
    apply (erule raising_elsewhere)
    apply (split if_split_asm)
     apply (erule retained)
    apply (erule raising_elsewhere)
    apply (split if_split_asm)
     apply (erule retained)
    apply (rule published)
    apply (auto simp: publish split: sum.splits pyexc.splits)
    done
qed

lemma perform_typed_elsewhere:
  assumes "perform_typed s publish ev ident state tree files action = (res, files')" "q \<noteq> pe_metadata_path ev"
  shows "files' q = files q"
  using assms(1)
  by (cases action)
     (auto simp: perform_typed_def dest: acknowledge_elsewhere [OF _ assms(2)] reconcile_one_elsewhere [OF _ assms(2)]
       transition_elsewhere [OF _ assms(2)])

lemma typed_report_elsewhere:
  assumes "reconcile_typed_report s resolve base rp publish path tree files = (res, files')" "q \<noteq> path" "\<forall>p. resolve p = p"
  shows "files' q = files q"
proof (cases "load_evidence (st_float s) resolve base path files")
  case (Inl e)
  then show ?thesis
    using assms(1) mark_conflict_elsewhere [OF _ assms(2)]
    by (auto simp: reconcile_typed_report_def split: if_splits prod.splits option.splits)
next
  case (Inr ev)
  have path: "q \<noteq> pe_metadata_path ev" using loaded_sound(2) [OF Inr] assms(2,3) by simp
  show ?thesis
    using assms(1) unfolding reconcile_typed_report_def Inr sum.case
    by (cases "ct_state tree") (auto elim!: raising_elsewhere dest: perform_typed_elsewhere [OF _ path] split: if_splits)
qed

lemma typed_scan_frame:
  assumes "\<forall>p. resolve p = p"
  shows "scanned blocked items k files (typed_scan resolve base rp blocked items k files)"
proof (induction items arbitrary: k files)
  case Nil
  then show ?case by (simp add: scanned_def)
next
  case (Cons item items)
  obtain path s publish tree where item: "item = (path, s, publish, tree)" by (rule prod_cases4)
  show ?case
  proof (cases "last (butlast path) \<in> set blocked")
    case True
    then show ?thesis using Cons.IH [of k files] by (auto simp: item scanned_def)
  next
    case False
    have skip: "scanned blocked (item # items) k files (typed_scan resolve base rp blocked items k files)"
      "scanned blocked (item # items) k files (Inl e, files)" for e
      unfolding item by (rule scanned_next [OF Cons.IH _ False], simp_all, rule scanned_raise [OF _ False], simp)
    obtain r f where one: "reconcile_typed_report s resolve base rp publish path tree files = (r, f)" by (rule prod.exhaust)
    have same: "f q = files q" if "q \<noteq> path" for q by (rule typed_report_elsewhere [OF one that assms])
    have step: "scanned blocked (item # items) k files (typed_scan resolve base rp blocked items k' f)" if "k' \<le> Suc k" for k'
      unfolding item by (rule scanned_next [OF Cons.IH same False that])
    have "scanned blocked (item # items) k files (Inl x, f)" for x
      unfolding item by (rule scanned_raise [OF same False])
    then show ?thesis
      using False one skip step [of k] step [of "Suc k"] by (simp add: item split: sum.split)
  qed
qed

text \<open>
  C8: while a journal of a project waits, or cannot be read, the reconciliation of reports leaves every
  sidecar of that project as it is, whatever the other projects hold and however the scans end.
\<close>

theorem waiting_project_is_left_alone:
  assumes "reconcile_reports F order resolve base rp project journals typed_items legacy_items files = (res, files')"
    and "pending_journal_paths base project journals = Inr paths" "path \<in> set paths"
    and "still_waits F order (journal_at files path)" "\<forall>p. resolve p = p" "last (butlast q) = journal_project path"
  shows "files' q = files q"
proof (cases "waiting_projects F order files paths")
  case (Inl e)
  then show ?thesis using assms(1,2) by (simp add: reconcile_reports_def pending_network_recovery_projects_def)
next
  case (Inr blocked)
  have "last (butlast q) \<in> set blocked" using waiting_projects_member [OF Inr assms(3,4)] assms(6) by simp
  moreover have "scanned blocked typed_items 0 files (typed_scan resolve base rp blocked typed_items 0 files)"
    by (rule typed_scan_frame [OF assms(5)])
  moreover have "scanned blocked legacy_items 0 fs (reconcile_pending_reports resolve base blocked (Some ''legacy'') legacy_items fs)" for fs
    unfolding reconcile_pending_reports_def by (rule reconcile_scan_frame [OF assms(5)])
  ultimately have frames: "snd (typed_scan resolve base rp blocked typed_items 0 files) q = files q"
    "snd (reconcile_pending_reports resolve base blocked (Some ''legacy'') legacy_items fs) q = fs q" for fs
    by (simp_all add: scanned_def)
  obtain t files1 where typed: "typed_scan resolve base rp blocked typed_items 0 files = (t, files1)" by (rule prod.exhaust)
  obtain l files2 where legacy: "reconcile_pending_reports resolve base blocked (Some ''legacy'') legacy_items files1 = (l, files2)"
    by (rule prod.exhaust)
  show ?thesis
    using assms(1,2) frames(1) frames(2) [of files1]
    by (auto simp: reconcile_reports_def pending_network_recovery_projects_def Inr typed legacy split: sum.splits)
qed

lemma json_file_error: "json_file F bytes = Inl e \<Longrightarrow> \<not> is_os_error e \<and> \<not> is_worker_error e"
  by (cases "utf8_decode bytes")
     (auto simp: json_file_def text_read_def is_os_error_def is_worker_error_def split: sum.splits json_error.splits)

lemma typed_scan_append:
  "typed_scan resolve base rp blocked (earlier @ later) k files =
     (case typed_scan resolve base rp blocked earlier k files of
        (Inl e, files1) \<Rightarrow> (Inl e, files1)
      | (Inr n, files1) \<Rightarrow> typed_scan resolve base rp blocked later n files1)"
proof (induction earlier arbitrary: k files)
  case (Cons item earlier)
  obtain path s publish tree where item: "item = (path, s, publish, tree)" by (rule prod_cases4)
  show ?case by (simp add: item Cons.IH split: sum.split prod.split)
qed simp

text \<open>
  C40: one sidecar that is not UTF-8 or not JSON ends the reconciliation of all reports, if no journal
  blocks its project and the scan of typed reports gets to it: the reports before it in that scan
  are treated, and then the exception of the parser leaves the function (or that of an earlier
  report, which ended the scan before); every report behind it, typed or legacy, is left as it was.
\<close>

theorem malformed_sidecar_ends_reconciliation:
  assumes "pending_network_recovery_projects F order base project journals files = Inr blocked"
    and "last (butlast path) \<notin> set blocked" "path \<notin> fst ` set earlier" "\<forall>p. resolve p = p"
    and "files path = Some (Inr bytes)" "json_file (st_float s) bytes = Inl e"
    and "typed_scan resolve base rp blocked earlier 0 files = (r, files1)"
  shows "reconcile_reports F order resolve base rp project journals (earlier @ (path, s, publish, tree) # later) legacy_items files
      = (case r of Inl e1 \<Rightarrow> (Inl e1, files1) | Inr n \<Rightarrow> (Inl e, files1))
    \<and> (\<forall>q. last (butlast q) \<in> set blocked \<or> q \<notin> fst ` set earlier \<longrightarrow> files1 q = files q)"
proof -
  have frame: "\<forall>q. last (butlast q) \<in> set blocked \<or> q \<notin> fst ` set earlier \<longrightarrow> files1 q = files q"
    using typed_scan_frame [OF assms(4), of blocked earlier 0 files base rp] assms(7) by (simp add: scanned_def)
  then have "files1 path = Some (Inr bytes)" using assms(3,5) by simp
  then have "load_json (st_float s) files1 path = Inl e" using assms(6) by (simp add: load_json_def read_json_def)
  then have "typed_scan resolve base rp blocked ((path, s, publish, tree) # later) k files1 = (Inl e, files1)" for k
    using assms(2) json_file_error [OF assms(6)] by simp
  then show ?thesis
    using assms(1,7) frame by (simp add: reconcile_reports_def typed_scan_append split: sum.split)
qed

text \<open>A sidecar that is missing, and one whose project is blocked, is passed over.\<close>

lemma typed_scan_passes:
  "files path = None \<or> last (butlast path) \<in> set blocked \<Longrightarrow>
     typed_scan resolve base rp blocked ((path, s, publish, tree) # items) k files = typed_scan resolve base rp blocked items k files"
  by (auto simp: load_json_def read_json_def is_os_error_def)

theorem waiting_project_is_left_alone_witness:
  "\<exists>files. snd (reconcile_reports (\<lambda>_. PyNone) JOURNAL_FIELDS (\<lambda>p. p) [] (\<lambda>_. Inl (OSError [])) None [sample_journal_path] []
      [(sample_pending_path, sample_setting, git_publisher accepted_push sample_pending_tree, sample_pending_tree)] files) sample_pending_path
      = files sample_pending_path
    \<and> files sample_journal_path = Some (Inr (journal_bytes sample_journal))"
proof -
  have wf: "wf_journal sample_journal"
    using validated_wf [OF JOURNAL_FIELDS_order(1) sample_journal_valid] by (simp add: sample_journal_def)
  have "short_ints sample_journal" unfolding short_ints_def list_all_iff [symmetric] by code_simp
  then have "still_waits F JOURNAL_FIELDS (Inr (journal_bytes sample_journal))" for F
    by (rule written_journal_waits [OF wf _ JOURNAL_FIELDS_order(1)]) (simp_all add: sample_journal_def sample_journal_written_def)
  then have w: "still_waits (\<lambda>_. PyNone) JOURNAL_FIELDS (journal_at sample_journal_files sample_journal_path)"
    by (simp add: journal_at_def sample_journal_files_def)
  have p: "pending_journal_paths [] None [sample_journal_path] = Inr [sample_journal_path]"
    by (simp add: pending_journal_paths_def)
  have l: "last (butlast sample_pending_path) = journal_project sample_journal_path"
    by (simp add: sample_pending_path_def sample_journal_path_def journal_project_def)
  obtain res files' where run: "reconcile_reports (\<lambda>_. PyNone) JOURNAL_FIELDS (\<lambda>p. p) [] (\<lambda>_. Inl (OSError [])) None [sample_journal_path] []
      [(sample_pending_path, sample_setting, git_publisher accepted_push sample_pending_tree, sample_pending_tree)] sample_journal_files
      = (res, files')"
    by (rule prod.exhaust)
  have "files' sample_pending_path = sample_journal_files sample_pending_path"
    by (rule waiting_project_is_left_alone [OF run p _ w _ l]) simp_all
  then show ?thesis
    using run by (intro exI [of _ sample_journal_files]) (simp add: sample_journal_files_def)
qed

theorem malformed_sidecar_ends_reconciliation_witness:
  "reconcile_reports (\<lambda>_. PyNone) JOURNAL_FIELDS (\<lambda>p. p) [] (\<lambda>_. Inl (OSError [])) None []
      [([''p'', ''other.json''], sample_setting, git_publisher accepted_push sample_pending_tree, sample_pending_tree),
       (sample_pending_path, sample_setting, git_publisher accepted_push sample_pending_tree, sample_pending_tree)] []
      ((\<lambda>_. None)(sample_pending_path \<mapsto> Inr ''{''))
    = (Inl (JSONDecodeError ''Expecting value''), (\<lambda>_. None)(sample_pending_path \<mapsto> Inr ''{''))"
proof -
  let ?files = "(\<lambda>_. None)(sample_pending_path \<mapsto> Inr ''{'') :: files"
  let ?first = "([''p'', ''other.json''], sample_setting, git_publisher accepted_push sample_pending_tree, sample_pending_tree)"
  have blocked: "pending_network_recovery_projects (\<lambda>_. PyNone) JOURNAL_FIELDS [] None [] ?files = Inr []"
    by (simp add: pending_network_recovery_projects_def pending_journal_paths_def)
  have json: "json_file (st_float sample_setting) ''{'' = Inl (JSONDecodeError ''Expecting value'')"
    unfolding sample_setting_def by code_simp
  have other: "sample_pending_path \<noteq> [''p'', ''other.json'']" by code_simp
  then have scan: "typed_scan (\<lambda>p. p) [] (\<lambda>_. Inl (OSError [])) [] [?first] 0 ?files = (Inr 0, ?files)"
    by (subst typed_scan_passes) simp_all
  from malformed_sidecar_ends_reconciliation [OF blocked _ _ _ _ json scan, of sample_pending_path
      "git_publisher accepted_push sample_pending_tree" sample_pending_tree "[]" "[]"]
  show ?thesis using other by simp
qed

end
