(* ===== verification/Adoption_Values.thy ===== *)
theory Adoption_Values
  imports Pending_Report
begin

text \<open>
  \<open>worker/vnext_runtime/adoption.py\<close>, first part: its exceptions, the validators of identities, texts
  and times, and the classification of the paths that a candidate must not change.  A time of the
  standard library is an instant in microseconds; \<open>datetime.fromisoformat\<close> followed by the conversion
  to UTC is an argument, which raises, or gives no instant for a time without a zone.
\<close>

section \<open>Exceptions and enumerations\<close>

datatype conflict_category = PROTOCOL_AUTHORITY | PROJECT_CONTROL_PLANE | PROTECTED_PATH | LAUNCHER_SAFETY
  | RECOVERY_IDENTITY | SOURCE_OVERLAP

definition category_value :: "conflict_category \<Rightarrow> string" where
  "category_value c = (case c of PROTOCOL_AUTHORITY \<Rightarrow> ''protocol_authority'' | PROJECT_CONTROL_PLANE \<Rightarrow> ''project_control_plane''
     | PROTECTED_PATH \<Rightarrow> ''protected_path'' | LAUNCHER_SAFETY \<Rightarrow> ''launcher_safety''
     | RECOVERY_IDENTITY \<Rightarrow> ''recovery_identity'' | SOURCE_OVERLAP \<Rightarrow> ''source_overlap'')"

record reconciliation_conflict =
  cf_path :: string
  cf_category :: conflict_category
  cf_reason :: string

datatype adoption_exc =
    AdoptionValidationError string
  | CandidateValidationError string
  | MainHeadStaleError string
  | ReconciliationConflictError "reconciliation_conflict list"
  | PromotionRejectedError string
  | RollbackRejectedError string
  | EvidenceIntegrityError string
  | AdoptionDisabledError string
  | AdmissionBarrierError string
  | Raised pyexc

text \<open>\<open>except AdoptionValidationError\<close>\<close>

definition is_validation_error :: "adoption_exc \<Rightarrow> bool" where
  "is_validation_error e = (case e of AdoptionValidationError _ \<Rightarrow> True | CandidateValidationError _ \<Rightarrow> True | _ \<Rightarrow> False)"

section \<open>Identities\<close>

definition is_hex :: "char \<Rightarrow> bool" where
  "is_hex c \<longleftrightarrow> is_hex_lower (ascii_lower c)"

definition SHA_RE :: "string \<Rightarrow> bool" where
  "SHA_RE s \<longleftrightarrow> length s = 40 \<and> list_all is_hex s"

definition validate_sha :: "py \<Rightarrow> string \<Rightarrow> adoption_exc + string" where
  "validate_sha v label =
     (case v of
        PyStr s \<Rightarrow> if SHA_RE (strip s) then Inr (map ascii_lower (strip s)) else Inl (AdoptionValidationError (label @ ''_invalid''))
      | _ \<Rightarrow> Inl (AdoptionValidationError (label @ ''_invalid'')))"

definition BRANCH_RE :: "string \<Rightarrow> bool" where
  "BRANCH_RE s \<longleftrightarrow> (case s of [] \<Rightarrow> False | c # r \<Rightarrow> is_alnum_ascii c \<and> length r \<le> 127
     \<and> list_all (\<lambda>x. is_alnum_ascii x \<or> x \<in> set ''._/-'') r)"

definition validate_branch :: "py \<Rightarrow> string \<Rightarrow> adoption_exc + string" where
  "validate_branch v label =
     (case v of
        PyStr s \<Rightarrow>
          (let branch = strip s in
           if \<not> BRANCH_RE branch \<or> py_casefold branch = ''main'' \<or> has_prefix ''.'' branch \<or> has_prefix ''/'' branch
              \<or> has_suffix ''.'' branch \<or> has_suffix ''/'' branch \<or> contains ''..'' branch \<or> contains ''//'' branch
              \<or> contains [CHR ''@'', CHR ''{''] branch
           then Inl (AdoptionValidationError (label @ ''_forbidden'')) else Inr branch)
      | _ \<Rightarrow> Inl (AdoptionValidationError (label @ ''_invalid'')))"

definition validate_main_branch :: "py \<Rightarrow> string \<Rightarrow> adoption_exc + string" where
  "validate_main_branch v label =
     (case v of
        PyStr s \<Rightarrow>
          (let branch = strip s in
           if branch = [] then Inl (AdoptionValidationError (label @ ''_invalid''))
           else if \<not> BRANCH_RE branch \<or> py_casefold branch \<noteq> ''main'' \<or> contains ''..'' branch \<or> contains ''//'' branch
             \<or> contains [CHR ''@'', CHR ''{''] branch
           then Inl (AdoptionValidationError (label @ ''_forbidden'')) else Inr branch)
      | _ \<Rightarrow> Inl (AdoptionValidationError (label @ ''_invalid'')))"

section \<open>Texts\<close>

fun searches :: "(string \<Rightarrow> bool) \<Rightarrow> string \<Rightarrow> bool" where
  "searches P [] = P []"
| "searches P (c # s) = (P (c # s) \<or> searches P s)"

definition keyword_at :: "string \<Rightarrow> string \<Rightarrow> string \<Rightarrow> bool" where
  "keyword_at word separators s =
     (case literal_ci word s of None \<Rightarrow> False
      | Some r \<Rightarrow> (case skip_space r of [] \<Rightarrow> False | c # _ \<Rightarrow> c \<in> set separators))"

definition secret_at :: "string \<Rightarrow> bool" where
  "secret_at s \<longleftrightarrow>
     list_ex (\<lambda>w. keyword_at w '':'' s) [''authorization'', ''cookie'']
     \<or> list_ex (\<lambda>w. keyword_at w ''=:'' s) [''token'', ''secret'', ''password'', ''apikey'', ''api_key'', ''api-key'']
     \<or> list_ex (\<lambda>w. literal_ci w s \<noteq> None) [''ghp_'', ''github_pat_'', ''sk-'', ''-----begin'']"

definition SECRET_RE :: "string \<Rightarrow> bool" where
  "SECRET_RE = searches secret_at"

definition adoption_text :: "py \<Rightarrow> string \<Rightarrow> nat \<Rightarrow> adoption_exc + string" where
  "adoption_text v label limit =
     (case v of
        PyStr s \<Rightarrow>
          (let t = strip s in
           if t = [] \<or> limit < length t \<or> CHR 0x00 \<in> set t \<or> CHR 0x0D \<in> set t \<or> CHR 0x0A \<in> set t
           then Inl (AdoptionValidationError (label @ ''_invalid''))
           else if SECRET_RE t then Inl (AdoptionValidationError (label @ ''_unsafe''))
           else Inr t)
      | _ \<Rightarrow> Inl (AdoptionValidationError (label @ ''_invalid'')))"

definition SAFE_TOKEN_RE :: "string \<Rightarrow> bool" where
  "SAFE_TOKEN_RE s \<longleftrightarrow> (case s of [] \<Rightarrow> False | c # r \<Rightarrow> is_alnum_ascii c \<and> length r \<le> 127
     \<and> list_all (\<lambda>x. is_alnum_ascii x \<or> x \<in> set ''._:/ -'') r)"

definition adoption_token :: "py \<Rightarrow> string \<Rightarrow> adoption_exc + string" where
  "adoption_token v label =
     res_bind (adoption_text v label 128) (\<lambda>t.
       if SAFE_TOKEN_RE t then Inr t else Inl (AdoptionValidationError (label @ ''_unsafe'')))"

definition validate_git_ref :: "py \<Rightarrow> string \<Rightarrow> adoption_exc + string" where
  "validate_git_ref v label =
     res_bind (adoption_text v label 256) (\<lambda>t.
       if has_prefix ''-'' t \<or> has_prefix ''.'' t \<or> contains ''..'' t \<or> contains [CHR ''@'', CHR ''{''] t
       then Inl (AdoptionValidationError (label @ ''_forbidden'')) else Inr t)"

section \<open>Times\<close>

type_synonym iso_reader = "string \<Rightarrow> pyexc + int option"

definition zulu :: "string \<Rightarrow> string" where
  "zulu t = concat (map (\<lambda>c. if c = CHR ''Z'' then ''+00:00'' else [c]) t)"

definition parse_time :: "iso_reader \<Rightarrow> py \<Rightarrow> string \<Rightarrow> adoption_exc + int" where
  "parse_time read_iso v label =
     res_bind (adoption_text v label 64) (\<lambda>t.
     (case read_iso (zulu t) of
        Inl e \<Rightarrow> Inl (if is_value_error e then AdoptionValidationError (label @ ''_invalid'') else Raised e)
      | Inr None \<Rightarrow> Inl (AdoptionValidationError (label @ ''_timezone_required''))
      | Inr (Some instant) \<Rightarrow> Inr instant))"

section \<open>Paths\<close>

definition strip_slashes :: "string \<Rightarrow> string" where
  "strip_slashes s = rev (dropWhile (\<lambda>c. c = CHR ''/'') (rev (dropWhile (\<lambda>c. c = CHR ''/'') s)))"

definition slashed :: "string \<Rightarrow> string" where
  "slashed s = strip_slashes (map (\<lambda>c. if c = CHR 0x5C then CHR ''/'' else c) s)"

definition RELATIVE_PATH_RE :: "string \<Rightarrow> bool" where
  "RELATIVE_PATH_RE s \<longleftrightarrow> (case s of [] \<Rightarrow> False
     | c # r \<Rightarrow> c \<noteq> CHR ''/'' \<and> c \<noteq> CHR 0x5C \<and> list_all (\<lambda>x. x \<notin> set [CHR 0x0D, CHR 0x0A, CHR 0x00]) r)"

definition normalize_relative_path :: "py \<Rightarrow> adoption_exc + string" where
  "normalize_relative_path v =
     (case v of
        PyStr s \<Rightarrow>
          (let path = slashed s; parts = split_slash path in
           if path = [] \<or> \<not> RELATIVE_PATH_RE path \<or> list_ex (\<lambda>p. p \<in> set ['''', ''.'', ''..'']) parts
           then Inl (AdoptionValidationError ''changed_path_invalid'') else Inr (join ''/'' parts))
      | _ \<Rightarrow> Inl (AdoptionValidationError ''changed_path_invalid''))"

definition secret_basename :: "string \<Rightarrow> bool" where
  "secret_basename name \<longleftrightarrow>
     name \<in> set [''credentials.json'', ''credentials.ini'', ''secrets.json'', ''secrets.yaml'', ''secrets.yml'', ''token.json'', ''token.txt'']
     \<or> has_prefix ''.env'' name \<and> name \<notin> set [''.env.example'', ''.env.sample'']
     \<or> list_ex (\<lambda>suffix. has_suffix suffix name)
         [''.pem'', ''.key'', ''.p12'', ''.pfx'', ''.secret'', ''.secrets'', ''.local.json'', ''.local.yaml'', ''.local.yml'']"

definition category_of :: "string \<Rightarrow> conflict_category option" where
  "category_of normalized =
     (let parts = split_slash normalized in
      if normalized = ''protocol.md'' \<or> has_prefix ''protocol/'' normalized \<or> normalized = ''worker/protocol_core.py''
      then Some PROTOCOL_AUTHORITY
      else if hd parts = ''projects'' then Some PROJECT_CONTROL_PLANE
      else if has_prefix ''worker/runtime/'' normalized \<or> normalized \<in> set [''worker/runtime'', ''worker/config.local.json'']
      then Some PROTECTED_PATH
      else if normalized \<in> set [''worker/windows_worker_launcher.py'', ''worker/bridge_worker_hardened.py'',
          ''worker/bridge_worker.py'', ''worker/codex_lifecycle.py'']
      then Some LAUNCHER_SAFETY
      else if normalized \<in> set [''worker/recovery_journal.py'', ''worker/recovery_resolution.py'', ''worker/vnext_runtime/services/recovery.py'']
      then Some RECOVERY_IDENTITY
      else if list_ex (\<lambda>p. p \<in> set [''.secrets'', ''secrets'', ''local-secrets'', ''local_only'', ''local-only'']) parts
        \<or> secret_basename (last parts)
      then Some PROTECTED_PATH
      else None)"

definition protected_path_category :: "string \<Rightarrow> adoption_exc + conflict_category option" where
  "protected_path_category path =
     res_bind (normalize_relative_path (PyStr path)) (\<lambda>p. Inr (category_of (py_casefold p)))"

section \<open>What the validators accept\<close>

lemma validate_sha_Inr: "validate_sha v label = Inr s \<longleftrightarrow> (\<exists>t. v = PyStr t \<and> SHA_RE (strip t) \<and> s = map ascii_lower (strip t))"
  by (auto simp: validate_sha_def split: py.splits if_splits)

lemma letter_tables:
  "list_all (\<lambda>c. \<not> is_upper_ascii (ascii_lower c) \<and> \<not> is_space c) ''ABCDEFGHIJKLMNOPQRSTUVWXYZ''"
  "list_all (\<lambda>c. \<not> is_upper_ascii c \<and> \<not> is_space c) ''0123456789abcdef''"
  by code_simp+

lemma ascii_lower_idem [simp]: "ascii_lower (ascii_lower c) = ascii_lower c"
proof (cases "is_upper_ascii c")
  case True
  then have "\<not> is_upper_ascii (ascii_lower c)" using letter_tables(1) unfolding is_upper_ascii_def list_all_iff by blast
  then show ?thesis by (simp add: ascii_lower_def [of "ascii_lower c"])
qed (simp add: ascii_lower_def)

lemma hex_facts: "is_hex c \<Longrightarrow> \<not> is_space c" "is_hex_lower c \<Longrightarrow> ascii_lower c = c \<and> is_hex c"
proof -
  have low: "\<not> is_upper_ascii d \<and> \<not> is_space d" if "is_hex_lower d" for d
    using letter_tables(2) that unfolding is_hex_lower_def list_all_iff by blast
  show "is_hex c \<Longrightarrow> \<not> is_space c"
  proof (cases "is_upper_ascii c")
    case True
    then show ?thesis using letter_tables(1) unfolding is_upper_ascii_def list_all_iff by blast
  next
    case False
    assume "is_hex c"
    then show ?thesis using False low by (simp add: is_hex_def ascii_lower_def)
  qed
  show "is_hex_lower c \<Longrightarrow> ascii_lower c = c \<and> is_hex c"
    using low by (simp add: is_hex_def ascii_lower_def)
qed

lemma strip_none: "list_all (\<lambda>c. \<not> is_space c) s \<Longrightarrow> strip s = s"
proof -
  assume none: "list_all (\<lambda>c. \<not> is_space c) s"
  have drop: "dropWhile is_space t = t" if "list_all (\<lambda>c. \<not> is_space c) t" for t
    using that by (cases t) simp_all
  have "list_all (\<lambda>c. \<not> is_space c) (rev s)" using none by (simp add: list_all_iff)
  then show ?thesis using none by (simp add: strip_def lstrip_def rstrip_def drop)
qed

definition is_sha :: "string \<Rightarrow> bool" where
  "is_sha s \<longleftrightarrow> length s = 40 \<and> list_all is_hex_lower s"

lemma validate_sha_is_sha: "validate_sha v label = Inr s \<Longrightarrow> is_sha s"
  by (auto simp: validate_sha_Inr is_sha_def SHA_RE_def is_hex_def list_all_iff)

lemma is_sha_validate: "is_sha s \<Longrightarrow> validate_sha (PyStr s) label = Inr s"
proof -
  assume s: "is_sha s"
  have "list_all is_hex s" "map ascii_lower s = s" using s hex_facts(2) by (auto simp: is_sha_def list_all_iff map_idI)
  moreover have "strip s = s" using calculation(1) hex_facts(1) by (intro strip_none) (auto simp: list_all_iff)
  ultimately show ?thesis using s by (simp add: validate_sha_def SHA_RE_def is_sha_def)
qed

section \<open>Normal paths\<close>

lemma split_slash_not_Nil [simp]: "split_slash s \<noteq> []"
  by (induction s) (auto split: list.splits)

lemma join_split_slash: "join ''/'' (split_slash s) = s"
proof (induction s)
  case (Cons c s)
  obtain w ws where ws: "split_slash s = w # ws" by (cases "split_slash s") auto
  then show ?case using Cons by (cases ws) auto
qed simp

lemma strip_slashes_idem [simp]: "strip_slashes (strip_slashes s) = strip_slashes s"
proof -
  let ?P = "\<lambda>c. c = CHR ''/''"
  have drop: "dropWhile ?P (dropWhile ?P t) = dropWhile ?P t" for t by (induction t) auto
  have hd: "dropWhile ?P (rev (dropWhile ?P (rev (dropWhile ?P t)))) = rev (dropWhile ?P (rev (dropWhile ?P t)))" for t
  proof (cases "dropWhile ?P t")
    case Nil
    show ?thesis unfolding Nil by simp
  next
    case (Cons c u)
    then have c: "c \<noteq> CHR ''/''" using hd_dropWhile [of ?P t] by simp
    have "\<exists>v. dropWhile ?P (rev u @ [c]) = v @ [c]"
      using c by (induction "rev u" arbitrary: u) (auto simp: dropWhile_append)
    then obtain v where v: "dropWhile ?P (rev (c # u)) = v @ [c]" by auto
    show ?thesis unfolding Cons v using c by simp
  qed
  show ?thesis unfolding strip_slashes_def by (simp only: hd rev_rev_ident drop)
qed

lemma set_strip_slashes: "set (strip_slashes s) \<subseteq> set s"
  unfolding strip_slashes_def by (auto dest!: set_dropWhileD)

lemma slashed_idem [simp]: "slashed (slashed s) = slashed s"
proof -
  have "CHR 0x5C \<notin> set (slashed s)"
    using set_strip_slashes [of "map (\<lambda>c. if c = CHR 0x5C then CHR ''/'' else c) s"] by (auto simp: slashed_def)
  then have "map (\<lambda>c. if c = CHR 0x5C then CHR ''/'' else c) (slashed s) = slashed s" by (induction "slashed s") (auto intro: map_idI)
  then show ?thesis by (simp add: slashed_def)
qed

lemma normalize_idem: "normalize_relative_path v = Inr p \<Longrightarrow> normalize_relative_path (PyStr p) = Inr p"
  by (auto simp: normalize_relative_path_def Let_def join_split_slash split: py.splits if_splits)

end
