(* ===== verification/Adoption_Git.thy ===== *)
theory Adoption_Git
  imports Adoption_Values
begin

text \<open>
  \<open>worker/vnext_runtime/adoption.py\<close>, second part: the read-only inspector of a repository, and the
  identities that are frozen before anything is planned.  What git answers is an argument: the exit
  code with the output, decoded or as bytes, or nothing where the command cannot be run in time.
\<close>

section \<open>The inspector\<close>

record git_answers =
  ga_root :: string
  ga_canonical :: "string \<Rightarrow> adoption_exc + string"
  ga_text :: "string list \<Rightarrow> (int \<times> string) option"
  ga_bytes :: "string list \<Rightarrow> (int \<times> string) option"
  ga_merge :: "string \<Rightarrow> string \<Rightarrow> string \<Rightarrow> int option"

definition inspection_failed :: adoption_exc where
  "inspection_failed = AdoptionValidationError ''git_inspection_failed''"

definition git_run :: "git_answers \<Rightarrow> string list \<Rightarrow> adoption_exc + string" where
  "git_run g args = (case ga_text g args of None \<Rightarrow> Inl inspection_failed
     | Some (code, out) \<Rightarrow> if code \<noteq> 0 then Inl inspection_failed else Inr (strip out))"

definition git_run_bytes :: "git_answers \<Rightarrow> string list \<Rightarrow> adoption_exc + string" where
  "git_run_bytes g args = (case ga_bytes g args of None \<Rightarrow> Inl inspection_failed
     | Some (code, out) \<Rightarrow> if code \<noteq> 0 then Inl inspection_failed else Inr out)"

definition resolve_commit :: "git_answers \<Rightarrow> string \<Rightarrow> adoption_exc + string" where
  "resolve_commit g ref =
     res_bind (validate_git_ref (PyStr ref) ''git_ref'') (\<lambda>t.
     res_bind (git_run g [''rev-parse'', ''--verify'', t @ ''^{commit}'']) (\<lambda>out.
       validate_sha (PyStr out) ''resolved_sha''))"

record repository_snapshot =
  rs_root :: string
  rs_branch :: string
  rs_head_sha :: string
  rs_remote :: "string option"
  rs_clean :: bool

definition RepositorySnapshot :: "string \<Rightarrow> string \<Rightarrow> string \<Rightarrow> string option \<Rightarrow> bool \<Rightarrow> adoption_exc + repository_snapshot" where
  "RepositorySnapshot dir branch head remote clean =
     res_bind (validate_sha (PyStr head) ''head_sha'') (\<lambda>sha.
     if strip branch = [] then Inl (AdoptionValidationError ''repository_branch_invalid'')
     else res_bind (case remote of None \<Rightarrow> Inr [] | Some r \<Rightarrow> adoption_text (PyStr r) ''repository_remote'' 512) (\<lambda>_.
       Inr \<lparr>rs_root = dir, rs_branch = branch, rs_head_sha = sha, rs_remote = remote, rs_clean = clean\<rparr>))"

definition inspect :: "git_answers \<Rightarrow> adoption_exc + repository_snapshot" where
  "inspect g =
     res_bind (git_run g [''rev-parse'', ''--show-toplevel'']) (\<lambda>top.
     res_bind (ga_canonical g top) (\<lambda>reported.
     if reported \<noteq> ga_root g then Inl (AdoptionValidationError ''git_root_mismatch'')
     else res_bind (git_run g [''branch'', ''--show-current'']) (\<lambda>branch.
     if branch = [] then Inl (AdoptionValidationError ''git_detached_head'')
     else let remote = (case git_run g [''config'', ''--get'', ''remote.origin.url''] of Inl _ \<Rightarrow> [] | Inr r \<Rightarrow> r) in
     res_bind (git_run g [''status'', ''--porcelain=v1'', ''--untracked-files=all'']) (\<lambda>status.
     res_bind (resolve_commit g ''HEAD'') (\<lambda>head.
       RepositorySnapshot (ga_root g) branch head (if remote = [] then None else Some remote) (status = []))))))"

definition is_ancestor :: "git_answers \<Rightarrow> string \<Rightarrow> string \<Rightarrow> adoption_exc + bool" where
  "is_ancestor g ancestor descendant =
     res_bind (validate_sha (PyStr ancestor) ''ancestor_sha'') (\<lambda>a.
     res_bind (validate_sha (PyStr descendant) ''descendant_sha'') (\<lambda>d.
     (case ga_text g [''merge-base'', ''--is-ancestor'', a, d] of
        None \<Rightarrow> Inl inspection_failed
      | Some (code, _) \<Rightarrow> if code \<notin> {0, 1} then Inl inspection_failed else Inr (code = 0))))"

definition merge_base :: "git_answers \<Rightarrow> string \<Rightarrow> string \<Rightarrow> adoption_exc + string" where
  "merge_base g l r =
     res_bind (validate_sha (PyStr l) ''first_sha'') (\<lambda>a.
     res_bind (validate_sha (PyStr r) ''second_sha'') (\<lambda>b.
     res_bind (git_run g [''merge-base'', a, b]) (\<lambda>out. validate_sha (PyStr out) ''merge_base_sha'')))"

text \<open>\<open>bytes.split()\<close>\<close>

definition is_byte_space :: "char \<Rightarrow> bool" where
  "is_byte_space c \<longleftrightarrow> c \<in> set [CHR '' '', CHR 0x09, CHR 0x0A, CHR 0x0B, CHR 0x0C, CHR 0x0D]"

fun byte_words :: "string \<Rightarrow> string \<Rightarrow> string list" where
  "byte_words acc [] = (if acc = [] then [] else [rev acc])"
| "byte_words acc (c # s) =
     (if is_byte_space c then (if acc = [] then byte_words [] s else rev acc # byte_words [] s) else byte_words (c # acc) s)"

definition tree_entry_blob :: "string \<Rightarrow> adoption_exc + string" where
  "tree_entry_blob output =
     (let entry = takeWhile (\<lambda>c. c \<noteq> CHR 0x00) output in
      if CHR 0x09 \<notin> set entry then Inl (AdoptionValidationError ''git_tree_entry_invalid'')
      else (case byte_words [] (takeWhile (\<lambda>c. c \<noteq> CHR 0x09) entry) of
          [_, kind, blob] \<Rightarrow>
            if kind \<noteq> ''blob'' then Inl (AdoptionValidationError ''git_tree_entry_not_file'')
            else if \<not> list_all (\<lambda>c. (of_char c :: nat) < 128) blob \<or> \<not> SHA_RE blob
            then Inl (AdoptionValidationError ''git_blob_sha_invalid'')
            else Inr (map ascii_lower blob)
        | _ \<Rightarrow> Inl (AdoptionValidationError ''git_tree_entry_not_file'')))"

definition blob_sha :: "git_answers \<Rightarrow> string \<Rightarrow> string \<Rightarrow> adoption_exc + string option" where
  "blob_sha g commit path =
     res_bind (validate_sha (PyStr commit) ''commit_sha'') (\<lambda>sha.
     res_bind (normalize_relative_path (PyStr path)) (\<lambda>p.
     res_bind (git_run_bytes g [''ls-tree'', ''-z'', ''--full-tree'', sha, ''--'', p]) (\<lambda>out.
       if out = [] then Inr None else res_bind (tree_entry_blob out) (\<lambda>b. Inr (Some b)))))"

definition blob_bytes :: "git_answers \<Rightarrow> string \<Rightarrow> string \<Rightarrow> adoption_exc + string option" where
  "blob_bytes g commit path =
     res_bind (validate_sha (PyStr commit) ''commit_sha'') (\<lambda>sha.
     res_bind (normalize_relative_path (PyStr path)) (\<lambda>p.
     res_bind (blob_sha g sha p) (\<lambda>blob.
     case blob of None \<Rightarrow> Inr None
     | Some b \<Rightarrow> res_bind (git_run_bytes g [''cat-file'', ''blob'', b]) (\<lambda>content. Inr (Some content)))))"

definition three_way_merge_conflict :: "git_answers \<Rightarrow> string \<Rightarrow> string \<Rightarrow> string \<Rightarrow> string \<Rightarrow> adoption_exc + bool" where
  "three_way_merge_conflict g base_commit candidate_commit main_commit path =
     res_bind (blob_bytes g base_commit path) (\<lambda>base.
     res_bind (blob_bytes g candidate_commit path) (\<lambda>candidate.
     res_bind (blob_bytes g main_commit path) (\<lambda>main.
     if candidate = main then Inr False
     else (case base of
        None \<Rightarrow> Inr (candidate \<noteq> main)
      | Some b \<Rightarrow>
          if candidate = base \<or> main = base then Inr False
          else (case (candidate, main) of
             (Some c, Some m) \<Rightarrow> (case ga_merge g c b m of
                 None \<Rightarrow> Inl (AdoptionValidationError ''git_merge_inspection_failed'') | Some code \<Rightarrow> Inr (code \<noteq> 0))
           | _ \<Rightarrow> Inr True)))))"

definition normalized_lines :: "string \<Rightarrow> adoption_exc + string list" where
  "normalized_lines out = res_map (\<lambda>l. normalize_relative_path (PyStr l)) (filter (\<lambda>l. strip l \<noteq> []) (splitlines out))"

text \<open>\<open>tuple(sorted(set))\<close>\<close>

definition sorted_set :: "string list \<Rightarrow> string list" where
  "sorted_set xs = sort (remdups xs)"

definition changed_paths :: "git_answers \<Rightarrow> string \<Rightarrow> string \<Rightarrow> adoption_exc + string list" where
  "changed_paths g base head =
     res_bind (validate_sha (PyStr base) ''base_sha'') (\<lambda>a.
     res_bind (validate_sha (PyStr head) ''head_sha'') (\<lambda>b.
     res_bind (git_run g [''diff'', ''--name-only'', ''--no-renames'', a, b, ''--'']) (\<lambda>out.
     res_bind (normalized_lines out) (\<lambda>paths.
       if 10000 < length (sorted_set paths) then Inl (AdoptionValidationError ''changed_path_set_too_large'')
       else Inr (sorted_set paths)))))"

definition path_touched_since :: "git_answers \<Rightarrow> string \<Rightarrow> string \<Rightarrow> string \<Rightarrow> adoption_exc + bool" where
  "path_touched_since g base head path =
     res_bind (validate_sha (PyStr base) ''base_sha'') (\<lambda>a.
     res_bind (validate_sha (PyStr head) ''head_sha'') (\<lambda>b.
     res_bind (normalize_relative_path (PyStr path)) (\<lambda>p.
     res_bind (git_run g [''log'', ''--format='', ''--name-only'', a @ ''..'' @ b, ''--'', p]) (\<lambda>out.
     res_bind (normalized_lines out) (\<lambda>paths. Inr (p \<in> set paths))))))"

section \<open>Frozen identities\<close>

record candidate_freeze =
  cz_root :: string
  cz_branch :: string
  cz_bootstrap_base_sha :: string
  cz_accepted_sha :: string
  cz_frozen_at :: string
  cz_repository :: "string option"

definition CandidateFreeze ::
    "iso_reader \<Rightarrow> string \<Rightarrow> string \<Rightarrow> string \<Rightarrow> string \<Rightarrow> string \<Rightarrow> string option \<Rightarrow> adoption_exc + candidate_freeze" where
  "CandidateFreeze read_iso dir branch base accepted frozen_at repository =
     res_bind (validate_branch (PyStr branch) ''candidate_branch'') (\<lambda>br.
     res_bind (validate_sha (PyStr base) ''bootstrap_base_sha'') (\<lambda>b.
     res_bind (validate_sha (PyStr accepted) ''accepted_candidate_sha'') (\<lambda>a.
     res_bind (parse_time read_iso (PyStr frozen_at) ''frozen_at'') (\<lambda>_.
     res_bind (case repository of None \<Rightarrow> Inr [] | Some r \<Rightarrow> adoption_text (PyStr r) ''repository'' 512) (\<lambda>_.
       Inr \<lparr>cz_root = dir, cz_branch = br, cz_bootstrap_base_sha = b, cz_accepted_sha = a, cz_frozen_at = frozen_at,
            cz_repository = repository\<rparr>)))))"

record main_revalidation =
  mr_ref :: string
  mr_expected_sha :: string
  mr_observed_sha :: string
  mr_revalidated_at :: string
  mr_branch :: string

definition MainRevalidation ::
    "iso_reader \<Rightarrow> string \<Rightarrow> string \<Rightarrow> string \<Rightarrow> string \<Rightarrow> string \<Rightarrow> adoption_exc + main_revalidation" where
  "MainRevalidation read_iso ref expected observed revalidated_at branch =
     res_bind (validate_git_ref (PyStr ref) ''main_ref'') (\<lambda>r.
     res_bind (validate_sha (PyStr expected) ''expected_main_sha'') (\<lambda>e.
     res_bind (validate_sha (PyStr observed) ''observed_main_sha'') (\<lambda>ob.
     if e \<noteq> ob then Inl (MainHeadStaleError ''latest main changed during revalidation'')
     else res_bind (validate_main_branch (PyStr branch) ''main_branch'') (\<lambda>br.
     res_bind (parse_time read_iso (PyStr revalidated_at) ''revalidated_at'') (\<lambda>_.
       Inr \<lparr>mr_ref = r, mr_expected_sha = e, mr_observed_sha = ob, mr_revalidated_at = revalidated_at, mr_branch = br\<rparr>)))))"

definition latest_main_sha :: "main_revalidation \<Rightarrow> string" where
  "latest_main_sha main = mr_observed_sha main"

text \<open>An inspection that fails after the checks of the identity is reported as a failure of the candidate.\<close>

definition as_candidate :: "string \<Rightarrow> adoption_exc + 'a \<Rightarrow> adoption_exc + 'a" where
  "as_candidate m r = (case r of Inl e \<Rightarrow> Inl (if is_validation_error e then CandidateValidationError m else e) | Inr x \<Rightarrow> Inr x)"

definition freeze_candidate ::
    "iso_reader \<Rightarrow> git_answers \<Rightarrow> adoption_exc + string \<Rightarrow> string \<Rightarrow> string \<Rightarrow> string option \<Rightarrow> string option \<Rightarrow> string \<Rightarrow>
       adoption_exc + candidate_freeze" where
  "freeze_candidate read_iso g canonical_root bootstrap_base_sha candidate_branch accepted_sha repository now =
     res_bind (validate_sha (PyStr bootstrap_base_sha) ''bootstrap_base_sha'') (\<lambda>base.
     res_bind (validate_branch (PyStr candidate_branch) ''candidate_branch'') (\<lambda>branch.
     res_bind canonical_root (\<lambda>dir.
     if ga_root g \<noteq> dir then Inl (CandidateValidationError ''candidate_inspector_root_mismatch'')
     else res_bind (inspect g) (\<lambda>snapshot.
     if rs_branch snapshot \<noteq> branch then Inl (CandidateValidationError ''candidate_branch_mismatch'')
     else if \<not> rs_clean snapshot then Inl (CandidateValidationError ''candidate_worktree_dirty'')
     else res_bind (validate_sha (PyStr (case accepted_sha of None \<Rightarrow> rs_head_sha snapshot | Some s \<Rightarrow> s)) ''accepted_candidate_sha'') (\<lambda>accepted.
     if accepted \<noteq> rs_head_sha snapshot then Inl (CandidateValidationError ''candidate_head_changed'')
     else res_bind (as_candidate ''accepted_candidate_missing'' (resolve_commit g accepted)) (\<lambda>resolved.
     if resolved \<noteq> accepted then Inl (CandidateValidationError ''accepted_candidate_not_commit'')
     else res_bind (as_candidate ''candidate_ancestry_unavailable'' (is_ancestor g base accepted)) (\<lambda>descends.
     if \<not> descends \<or> base = accepted then Inl (CandidateValidationError ''candidate_not_derived_from_bootstrap'')
     else res_bind (case repository of None \<Rightarrow> Inr None
         | Some r \<Rightarrow> res_bind (adoption_text (PyStr r) ''repository'' 512) (\<lambda>t. Inr (Some t))) (\<lambda>expected.
     if expected \<noteq> None \<and> strip (case rs_remote snapshot of None \<Rightarrow> [] | Some r \<Rightarrow> r) \<noteq> the expected
     then Inl (CandidateValidationError ''candidate_repository_mismatch'')
     else CandidateFreeze read_iso (rs_root snapshot) branch base accepted now
       (if expected \<noteq> None then expected else rs_remote snapshot)))))))))"

definition revalidate_latest_main ::
    "iso_reader \<Rightarrow> git_answers \<Rightarrow> string \<Rightarrow> string \<Rightarrow> string \<Rightarrow> adoption_exc + main_revalidation" where
  "revalidate_latest_main read_iso g expected_main_sha ref now =
     res_bind (validate_sha (PyStr expected_main_sha) ''expected_main_sha'') (\<lambda>expected.
     res_bind (resolve_commit g ref) (\<lambda>observed.
     if observed \<noteq> expected then Inl (MainHeadStaleError ''latest main head is no longer the expected head'')
     else MainRevalidation read_iso ref expected observed now ''main''))"

section \<open>What is frozen\<close>

lemma CandidateFreeze_Inr:
  assumes "CandidateFreeze read_iso dir branch base accepted frozen_at repository = Inr c"
  shows "is_sha (cz_bootstrap_base_sha c)" "is_sha (cz_accepted_sha c)" "cz_root c = dir"
  using assms by (auto simp: CandidateFreeze_def res_bind_Inr_iff dest: validate_sha_is_sha)

lemma MainRevalidation_Inr:
  assumes "MainRevalidation read_iso ref expected observed at0 branch = Inr m"
  shows "is_sha (latest_main_sha m)" "mr_expected_sha m = mr_observed_sha m"
  using assms by (auto simp: MainRevalidation_def latest_main_sha_def res_bind_Inr_iff dest: validate_sha_is_sha split: if_splits)

lemma resolve_commit_is_sha: "resolve_commit g ref = Inr s \<Longrightarrow> is_sha s"
  by (auto simp: resolve_commit_def res_bind_Inr_iff dest: validate_sha_is_sha)

end
