(* ===== verification/Adoption_Plans.thy ===== *)
theory Adoption_Plans
  imports Adoption_Git
begin

text \<open>
  \<open>worker/vnext_runtime/adoption.py\<close>, third part: the reconciliation of a frozen candidate with the
  latest main branch.  Every changed path is decided by a named rule, or is a conflict that stops the
  plan.
\<close>

section \<open>Decisions, conflicts and policies\<close>

datatype resolution = SHARED_BASELINE | STABLE_ONLY | CANDIDATE_ONLY | IDENTICAL_TREE | CLEAN_THREE_WAY
  | DOCUMENTATION_SECTION_UNION | DOCUMENTATION_LATEST_MAIN | BOUNDARY_FORWARD

record reconciliation_decision =
  dc_path :: string
  dc_resolution :: resolution
  dc_rule_id :: string
  dc_reason :: string
  dc_category :: "conflict_category option"
  dc_merge_base_blob :: "string option"
  dc_candidate_blob :: "string option"
  dc_main_blob :: "string option"

definition optional_blob_sha :: "string option \<Rightarrow> string \<Rightarrow> adoption_exc + string option" where
  "optional_blob_sha v label =
     (case v of None \<Rightarrow> Inr None
      | Some s \<Rightarrow> if SHA_RE (strip s) then Inr (Some (map ascii_lower (strip s))) else Inl (AdoptionValidationError (label @ ''_invalid'')))"

definition ReconciliationDecision ::
    "string \<Rightarrow> resolution \<Rightarrow> string \<Rightarrow> string \<Rightarrow> conflict_category option \<Rightarrow> string option \<Rightarrow> string option \<Rightarrow> string option \<Rightarrow>
       adoption_exc + reconciliation_decision" where
  "ReconciliationDecision path resolution rule reason category base candidate main =
     res_bind (normalize_relative_path (PyStr path)) (\<lambda>p.
     res_bind (adoption_token (PyStr rule) ''reconciliation_rule'') (\<lambda>ru.
     res_bind (adoption_token (PyStr reason) ''reconciliation_reason'') (\<lambda>re.
     res_bind (optional_blob_sha base ''merge_base_blob_sha'') (\<lambda>b.
     res_bind (optional_blob_sha candidate ''candidate_blob_sha'') (\<lambda>c.
     res_bind (optional_blob_sha main ''latest_main_blob_sha'') (\<lambda>m.
       Inr \<lparr>dc_path = p, dc_resolution = resolution, dc_rule_id = ru, dc_reason = re, dc_category = category,
            dc_merge_base_blob = b, dc_candidate_blob = c, dc_main_blob = m\<rparr>))))))"

definition ReconciliationConflict :: "string \<Rightarrow> conflict_category \<Rightarrow> string \<Rightarrow> adoption_exc + reconciliation_conflict" where
  "ReconciliationConflict path category reason =
     res_bind (normalize_relative_path (PyStr path)) (\<lambda>p.
     res_bind (adoption_token (PyStr reason) ''conflict_reason'') (\<lambda>r.
       Inr \<lparr>cf_path = p, cf_category = category, cf_reason = r\<rparr>))"

record reconciliation_policy =
  po_id :: string
  po_clean :: "string list"
  po_section :: "string list"
  po_latest_main :: "string list"
  po_protocol :: "string list"
  po_boundary :: "string list"

definition normalized_set :: "string list \<Rightarrow> adoption_exc + string list" where
  "normalized_set paths = res_bind (res_map (\<lambda>p. normalize_relative_path (PyStr p)) paths) (\<lambda>ps. Inr (sorted_set ps))"

definition KNOWN_CLEAN :: "string list" where
  "KNOWN_CLEAN = [''docs/ROADMAP.md'', ''docs/SELF_MAINTENANCE_BOOTSTRAP.md'', ''worker/README.md'']"

definition KNOWN_LATEST_MAIN :: "string list" where
  "KNOWN_LATEST_MAIN = [''policies/supervisor.md'']"

definition KNOWN_PROTOCOL_KERNEL :: "string list" where
  "KNOWN_PROTOCOL_KERNEL = [''PROTOCOL.md'', ''protocol/v2/README.md'', ''protocol/v2/command.schema.json'', ''protocol/v2/report.schema.json'']"

definition BOUNDARY_PATHS :: "string list" where
  "BOUNDARY_PATHS = [''worker/bridge_worker.py'', ''worker/bridge_worker_hardened.py'', ''worker/windows_worker_launcher.py'',
     ''worker/vnext_runtime/services/recovery.py'']"

text \<open>A loop that looks up the category of every path, which may raise, and refuses the first that is not allowed.\<close>

definition categories_ok :: "(conflict_category option \<Rightarrow> bool) \<Rightarrow> string \<Rightarrow> string list \<Rightarrow> adoption_exc option list" where
  "categories_ok ok m paths = map (\<lambda>p. case protected_path_category p of
     Inl e \<Rightarrow> Some e | Inr c \<Rightarrow> ensure (ok c) (AdoptionValidationError m)) paths"

definition policy_checks :: "reconciliation_policy \<Rightarrow> adoption_exc option list" where
  "policy_checks po =
     [ensure (set (po_clean po) \<subseteq> set KNOWN_CLEAN) (AdoptionValidationError ''reconciliation_policy_clean_path_unknown''),
      ensure (set (po_section po) \<subseteq> set []) (AdoptionValidationError ''reconciliation_policy_section_path_unknown''),
      ensure (set (po_latest_main po) \<subseteq> set KNOWN_LATEST_MAIN) (AdoptionValidationError ''reconciliation_policy_latest_main_path_unknown''),
      ensure (set (po_protocol po) \<subseteq> set KNOWN_PROTOCOL_KERNEL) (AdoptionValidationError ''reconciliation_policy_protocol_path_unknown'')]
     @ categories_ok (\<lambda>c. c = None) ''reconciliation_policy_protected_document_path'' (po_clean po @ po_section po @ po_latest_main po)
     @ categories_ok (\<lambda>c. c = Some PROTOCOL_AUTHORITY) ''reconciliation_policy_protocol_path_invalid'' (po_protocol po)
     @ categories_ok (\<lambda>c. c \<in> {Some LAUNCHER_SAFETY, Some RECOVERY_IDENTITY}) ''reconciliation_policy_boundary_path_invalid'' (po_boundary po)"

definition ReconciliationPolicy ::
    "string \<Rightarrow> string list \<Rightarrow> string list \<Rightarrow> string list \<Rightarrow> string list \<Rightarrow> string list \<Rightarrow> adoption_exc + reconciliation_policy" where
  "ReconciliationPolicy ident clean section_union latest_main protocol boundary =
     res_bind (adoption_token (PyStr ident) ''policy_id'') (\<lambda>i.
     res_bind (normalized_set clean) (\<lambda>c.
     res_bind (normalized_set section_union) (\<lambda>s.
     res_bind (normalized_set latest_main) (\<lambda>l.
     res_bind (normalized_set protocol) (\<lambda>p.
     res_bind (normalized_set boundary) (\<lambda>b.
       let po = \<lparr>po_id = i, po_clean = c, po_section = s, po_latest_main = l, po_protocol = p, po_boundary = b\<rparr> in
       run_checks (policy_checks po) (Inr po)))))))"

definition phase_85 :: "adoption_exc + reconciliation_policy" where
  "phase_85 = ReconciliationPolicy ''phase85.explicit.v1'' KNOWN_CLEAN [] KNOWN_LATEST_MAIN KNOWN_PROTOCOL_KERNEL BOUNDARY_PATHS"

section \<open>Proofs about texts\<close>

text \<open>\<open>bytes.decode("utf-8")\<close>, whose exception is a ValueError of the standard library.\<close>

definition decoded :: "string \<Rightarrow> adoption_exc + string" where
  "decoded raw = (case utf8_decode raw of None \<Rightarrow> Inl (Raised (UnicodeError ''invalid utf-8'')) | Some t \<Rightarrow> Inr t)"

definition documentation_latest_main_proof :: "string \<Rightarrow> string \<Rightarrow> string \<Rightarrow> adoption_exc + bool" where
  "documentation_latest_main_proof path candidate main =
     res_bind (decoded candidate) (\<lambda>ct.
     res_bind (decoded main) (\<lambda>mt.
     let candidate_lower = py_casefold ct; main_lower = py_casefold mt in
       Inr (\<not> list_ex (\<lambda>t. contains t candidate_lower \<and> \<not> contains t main_lower)
           [''protocol v2'', ''max_plans_per_pass'', ''max_ready_buffer'', ''at most one'', ''worker'']
         \<and> \<not> list_ex (\<lambda>t. \<not> contains t main_lower)
           (if path = ''policies/supervisor.md'' then [''portfolio scheduling'', ''required read set''] else []))))"

definition documentation_section_union_proof :: "string \<Rightarrow> string \<Rightarrow> string \<Rightarrow> bool" where
  "documentation_section_union_proof base candidate main \<longleftrightarrow> False"

definition boundary_source_proof :: "string \<Rightarrow> string \<Rightarrow> bool" where
  "boundary_source_proof path content =
     (case utf8_decode content of None \<Rightarrow> False
      | Some t \<Rightarrow>
          if path = ''worker/bridge_worker.py''
          then list_all (\<lambda>m. contains m t) [''class WorkerCoordinator'', ''RunScope'', ''RecoveryCoordinator'', ''HostResourceArbiter'']
          else if path = ''worker/bridge_worker_hardened.py''
          then list_all (\<lambda>m. contains m t) [''WorkerCoordinator'', ''begin_draining'', ''WORKER_RESTART_CODE'', ''worker_health'']
          else if path = ''worker/windows_worker_launcher.py''
          then list_all (\<lambda>m. contains m t) [''create_lifetime_scope'', ''create_handoff_controller'', ''WORKER_RESTART_CODE'']
          else if path = ''worker/vnext_runtime/services/recovery.py''
          then \<not> list_ex (\<lambda>m. contains m (py_casefold t)) [''import executor'', ''from executor'', ''import codex_lifecycle'',
                 ''from codex_lifecycle'', ''vnext_runtime.providers'']
            \<and> list_all (\<lambda>m. contains m t) [''class RecoveryIdentity'', ''class RecoveryCoordinator'', ''automatic_rerun'']
          else False)"

section \<open>Plans\<close>

record reconciliation_plan =
  pl_bootstrap_base_sha :: string
  pl_previous_stable_sha :: string
  pl_accepted_sha :: string
  pl_latest_main_sha :: string
  pl_candidate_paths :: "string list"
  pl_live_paths :: "string list"
  pl_main_revalidated_at :: "string option"
  pl_merge_base_sha :: "string option"
  pl_candidate_delta :: "string list"
  pl_live_delta :: "string list"
  pl_decisions :: "reconciliation_decision list"
  pl_policy_id :: "string option"

text \<open>The flags for history and force and the action are not set by any caller: they keep their defaults.\<close>

definition ReconciliationPlan ::
    "iso_reader \<Rightarrow> string \<Rightarrow> string \<Rightarrow> string \<Rightarrow> string \<Rightarrow> string list \<Rightarrow> string list \<Rightarrow> string option \<Rightarrow> string option \<Rightarrow>
       string list \<Rightarrow> string list \<Rightarrow> reconciliation_decision list \<Rightarrow> string option \<Rightarrow> adoption_exc + reconciliation_plan" where
  "ReconciliationPlan read_iso base previous accepted latest candidate_paths live_paths revalidated merge_base_sha
       candidate_delta live_delta decisions policy_id =
     res_bind (validate_sha (PyStr base) ''bootstrap_base_sha'') (\<lambda>b.
     res_bind (validate_sha (PyStr previous) ''previous_stable_sha'') (\<lambda>p.
     res_bind (validate_sha (PyStr accepted) ''accepted_candidate_sha'') (\<lambda>a.
     res_bind (validate_sha (PyStr latest) ''latest_main_sha'') (\<lambda>l.
     res_bind (normalized_set candidate_paths) (\<lambda>cs.
     res_bind (normalized_set live_paths) (\<lambda>ls.
     res_bind (case revalidated of None \<Rightarrow> Inr 0 | Some t \<Rightarrow> parse_time read_iso (PyStr t) ''main_revalidated_at'') (\<lambda>_.
     res_bind (case merge_base_sha of None \<Rightarrow> Inr None
         | Some m \<Rightarrow> res_bind (validate_sha (PyStr m) ''merge_base_sha'') (\<lambda>x. Inr (Some x))) (\<lambda>m.
     res_bind (normalized_set candidate_delta) (\<lambda>cd.
     res_bind (normalized_set live_delta) (\<lambda>ld.
     res_bind (case policy_id of None \<Rightarrow> Inr None
         | Some i \<Rightarrow> res_bind (adoption_token (PyStr i) ''reconciliation_policy_id'') (\<lambda>x. Inr (Some x))) (\<lambda>i.
       Inr \<lparr>pl_bootstrap_base_sha = b, pl_previous_stable_sha = p, pl_accepted_sha = a, pl_latest_main_sha = l,
            pl_candidate_paths = cs, pl_live_paths = ls, pl_main_revalidated_at = revalidated, pl_merge_base_sha = m,
            pl_candidate_delta = cd, pl_live_delta = ld, pl_decisions = sort_key dc_path decisions, pl_policy_id = i\<rparr>)))))))))))"

definition mechanically_reconciled :: "reconciliation_plan \<Rightarrow> bool" where
  "mechanically_reconciled plan \<longleftrightarrow> pl_decisions plan \<noteq> []"

definition conflict_error :: "reconciliation_conflict list \<Rightarrow> adoption_exc" where
  "conflict_error cs = ReconciliationConflictError (sort_key cf_path (sort_key (category_value \<circ> cf_category) cs))"

text \<open>Without a repository and a policy: no protected path, and no path that both sides changed.\<close>

definition conservative_conflict :: "string list \<Rightarrow> string \<Rightarrow> adoption_exc + reconciliation_conflict option" where
  "conservative_conflict live_paths path =
     res_bind (protected_path_category path) (\<lambda>category.
     case category of
       Some c \<Rightarrow> res_bind (ReconciliationConflict path c ''candidate_change_touches_adoption_boundary'') (\<lambda>x. Inr (Some x))
     | None \<Rightarrow>
         if path \<in> set live_paths
         then res_bind (ReconciliationConflict path SOURCE_OVERLAP ''candidate_and_live_main_both_changed_path'') (\<lambda>x. Inr (Some x))
         else Inr None)"

definition conservative_plan ::
    "iso_reader \<Rightarrow> candidate_freeze \<Rightarrow> main_revalidation \<Rightarrow> string list \<Rightarrow> string list \<Rightarrow> string \<Rightarrow> adoption_exc + reconciliation_plan" where
  "conservative_plan read_iso candidate main candidate_paths live_paths previous =
     res_bind (res_map (conservative_conflict live_paths) candidate_paths) (\<lambda>found.
     let conflicts = map the (filter (\<lambda>c. c \<noteq> None) found) in
     if conflicts \<noteq> [] then Inl (conflict_error conflicts)
     else ReconciliationPlan read_iso (cz_bootstrap_base_sha candidate) previous (cz_accepted_sha candidate) (latest_main_sha main)
       candidate_paths live_paths (Some (mr_revalidated_at main)) None [] [] [] None)"

section \<open>The explicit plan\<close>

record reconciliation_sides =
  sd_merge_base :: string
  sd_candidate :: string
  sd_main :: string
  sd_candidate_delta :: "string list"
  sd_live_delta :: "string list"

definition path_decision ::
    "git_answers \<Rightarrow> reconciliation_sides \<Rightarrow> string \<Rightarrow> resolution \<Rightarrow> string \<Rightarrow> string \<Rightarrow> conflict_category option \<Rightarrow>
       adoption_exc + reconciliation_conflict + reconciliation_decision" where
  "path_decision g sd path resolution rule reason category =
     res_bind (blob_sha g (sd_merge_base sd) path) (\<lambda>b.
     res_bind (blob_sha g (sd_candidate sd) path) (\<lambda>c.
     res_bind (blob_sha g (sd_main sd) path) (\<lambda>m.
     res_bind (ReconciliationDecision path resolution rule reason category b c m) (\<lambda>d. Inr (Inr d)))))"

definition path_conflict :: "string \<Rightarrow> conflict_category \<Rightarrow> string \<Rightarrow> adoption_exc + reconciliation_conflict + reconciliation_decision" where
  "path_conflict path category reason = res_bind (ReconciliationConflict path category reason) (\<lambda>c. Inr (Inl c))"

definition side_merge_conflict :: "git_answers \<Rightarrow> reconciliation_sides \<Rightarrow> string \<Rightarrow> adoption_exc + bool" where
  "side_merge_conflict g sd path = three_way_merge_conflict g (sd_merge_base sd) (sd_candidate sd) (sd_main sd) path"

text \<open>A path that only the candidate changed after the merge base.\<close>

definition decide_candidate_only ::
    "git_answers \<Rightarrow> reconciliation_policy \<Rightarrow> reconciliation_sides \<Rightarrow> string \<Rightarrow> conflict_category option \<Rightarrow>
       adoption_exc + reconciliation_conflict + reconciliation_decision" where
  "decide_candidate_only g po sd path category =
     (case category of
        None \<Rightarrow> path_decision g sd path CANDIDATE_ONLY ''phase85.candidate_only_forward.v1'' ''candidate_only_after_merge_base'' None
      | Some c \<Rightarrow>
          res_bind (if c = PROTOCOL_AUTHORITY \<and> path \<in> set (po_protocol po)
                    then res_bind (path_touched_since g (sd_merge_base sd) (sd_main sd) path) (\<lambda>t. Inr (\<not> t)) else Inr False) (\<lambda>untouched.
          if untouched
          then res_bind (side_merge_conflict g sd path) (\<lambda>conflict.
               if conflict then path_conflict path c ''protected_protocol_three_way_conflict''
               else path_decision g sd path CLEAN_THREE_WAY ''phase85.protected_protocol_clean_three_way.v1''
                 ''main_history_untouched_clean_protocol_three_way'' category)
          else res_bind (if path \<notin> set (po_boundary po) then Inr False
                    else res_bind (blob_bytes g (sd_candidate sd) path) (\<lambda>content.
                      Inr (boundary_source_proof path (case content of None \<Rightarrow> [] | Some x \<Rightarrow> x)))) (\<lambda>proven.
          if \<not> proven then path_conflict path c ''candidate_only_protected_boundary_requires_explicit_proof''
          else path_decision g sd path BOUNDARY_FORWARD ''phase85.boundary_candidate_only_forward.v1''
            ''protected_boundary_one_sided_and_contract_proven'' category)))"

text \<open>A path that both sides changed, to different contents or under a protection.\<close>

definition decide_overlap ::
    "git_answers \<Rightarrow> reconciliation_policy \<Rightarrow> reconciliation_sides \<Rightarrow> string \<Rightarrow> conflict_category option \<Rightarrow>
       adoption_exc + reconciliation_conflict + reconciliation_decision" where
  "decide_overlap g po sd path category =
     (if path \<in> set (po_protocol po)
      then res_bind (side_merge_conflict g sd path) (\<lambda>conflict.
           if conflict then path_conflict path PROTOCOL_AUTHORITY ''protected_protocol_three_way_conflict''
           else path_decision g sd path CLEAN_THREE_WAY ''phase85.protected_protocol_clean_three_way.v1''
             ''git_merge_file_proved_clean_protocol_three_way'' category)
      else if category \<noteq> None then path_conflict path (the category) ''protected_path_changed_on_both_sides''
      else if path \<in> set (po_clean po)
      then res_bind (side_merge_conflict g sd path) (\<lambda>conflict.
           if conflict then path_conflict path SOURCE_OVERLAP ''approved_three_way_rule_found_conflict''
           else path_decision g sd path CLEAN_THREE_WAY ''phase85.documentation_clean_three_way.v1''
             ''git_merge_file_proved_clean_three_way'' None)
      else if path \<in> set (po_section po)
      then res_bind (blob_bytes g (sd_merge_base sd) path) (\<lambda>b.
           res_bind (blob_bytes g (sd_candidate sd) path) (\<lambda>c.
           res_bind (blob_bytes g (sd_main sd) path) (\<lambda>m.
           if b = None \<or> c = None \<or> m = None \<or> \<not> documentation_section_union_proof (the b) (the c) (the m)
           then path_conflict path SOURCE_OVERLAP ''documentation_section_union_proof_failed''
           else path_decision g sd path DOCUMENTATION_SECTION_UNION ''phase85.documentation_section_union.v1''
             ''latest_main_plus_candidate_only_phase_section'' None)))
      else if path \<in> set (po_latest_main po)
      then res_bind (blob_bytes g (sd_candidate sd) path) (\<lambda>c.
           res_bind (blob_bytes g (sd_main sd) path) (\<lambda>m.
           res_bind (case (c, m) of (Some x, Some y) \<Rightarrow> documentation_latest_main_proof path x y | _ \<Rightarrow> Inr False) (\<lambda>proven.
           if \<not> proven then path_conflict path SOURCE_OVERLAP ''latest_main_documentation_superset_proof_failed''
           else path_decision g sd path DOCUMENTATION_LATEST_MAIN ''phase85.documentation_latest_main_superset.v1''
             ''latest_main_retains_candidate_normative_contract'' None)))
      else path_conflict path SOURCE_OVERLAP ''unapproved_source_overlap'')"

definition decide_path ::
    "git_answers \<Rightarrow> reconciliation_policy \<Rightarrow> reconciliation_sides \<Rightarrow> string \<Rightarrow>
       adoption_exc + reconciliation_conflict + reconciliation_decision" where
  "decide_path g po sd path =
     res_bind (protected_path_category path) (\<lambda>category.
     res_bind (blob_sha g (sd_merge_base sd) path) (\<lambda>merge_blob.
     res_bind (blob_sha g (sd_candidate sd) path) (\<lambda>candidate_blob.
     res_bind (blob_sha g (sd_main sd) path) (\<lambda>main_blob.
     if path \<notin> set (sd_candidate_delta sd)
     then (if candidate_blob = merge_blob \<and> merge_blob = main_blob
           then path_decision g sd path SHARED_BASELINE ''phase85.shared_merge_base_tree.v1'' ''candidate_change_already_in_common_merge_base'' category
           else path_decision g sd path STABLE_ONLY ''phase85.stable_latest_tree.v1'' ''candidate_tree_unchanged_after_merge_base'' category)
     else if path \<notin> set (sd_live_delta sd) then decide_candidate_only g po sd path category
     else if candidate_blob = main_blob \<and> category \<notin> {Some PROJECT_CONTROL_PLANE, Some PROTECTED_PATH}
     then path_decision g sd path IDENTICAL_TREE ''phase85.identical_tip_tree.v1'' ''candidate_and_latest_main_blobs_identical'' category
     else decide_overlap g po sd path category))))"

text \<open>
  Refs may move while the plan is made: \<open>later\<close> is what git answers at the end.  Everything else is read
  from commits, which do not change.
\<close>

definition explicit_plan ::
    "iso_reader \<Rightarrow> git_answers \<Rightarrow> git_answers \<Rightarrow> reconciliation_policy \<Rightarrow> candidate_freeze \<Rightarrow> main_revalidation \<Rightarrow> string list \<Rightarrow>
       string list \<Rightarrow> string \<Rightarrow> string option \<Rightarrow> adoption_exc + reconciliation_plan" where
  "explicit_plan read_iso g later po candidate main candidate_paths live_paths previous merge_base_sha =
     (if ga_root g \<noteq> cz_root candidate then Inl (AdoptionValidationError ''reconciliation_inspector_root_mismatch'')
      else res_bind (resolve_commit g (mr_ref main)) (\<lambda>tip.
      if tip \<noteq> latest_main_sha main then Inl (MainHeadStaleError ''latest main moved before reconciliation'')
      else res_bind (is_ancestor g (cz_bootstrap_base_sha candidate) (latest_main_sha main)) (\<lambda>derived.
      if \<not> derived
      then res_bind (ReconciliationConflict ''main'' SOURCE_OVERLAP ''latest_main_not_derived_from_bootstrap'') (\<lambda>c.
             Inl (ReconciliationConflictError [c]))
      else res_bind (merge_base g (cz_accepted_sha candidate) (latest_main_sha main)) (\<lambda>calculated.
      res_bind (case merge_base_sha of None \<Rightarrow> Inr calculated | Some m \<Rightarrow> validate_sha (PyStr m) ''merge_base_sha'') (\<lambda>named.
      if named \<noteq> calculated then Inl (MainHeadStaleError ''merge base changed during reconciliation'')
      else res_bind (changed_paths g (cz_bootstrap_base_sha candidate) (cz_accepted_sha candidate)) (\<lambda>inspected_candidate.
      res_bind (changed_paths g (cz_bootstrap_base_sha candidate) (latest_main_sha main)) (\<lambda>inspected_live.
      if set inspected_candidate \<noteq> set candidate_paths then Inl (AdoptionValidationError ''candidate_changed_paths_not_current'')
      else if set inspected_live \<noteq> set live_paths then Inl (AdoptionValidationError ''main_changed_paths_not_current'')
      else res_bind (changed_paths g calculated (cz_accepted_sha candidate)) (\<lambda>candidate_delta.
      res_bind (changed_paths g calculated (latest_main_sha main)) (\<lambda>live_delta.
      let sd = \<lparr>sd_merge_base = calculated, sd_candidate = cz_accepted_sha candidate, sd_main = latest_main_sha main,
                sd_candidate_delta = candidate_delta, sd_live_delta = live_delta\<rparr> in
      res_bind (res_map (decide_path g po sd) candidate_paths) (\<lambda>found.
      let conflicts = map projl (filter isl found); decisions = map projr (filter (\<lambda>r. \<not> isl r) found) in
      if conflicts \<noteq> [] then Inl (conflict_error conflicts)
      else res_bind (resolve_commit later (mr_ref main)) (\<lambda>tip.
      if tip \<noteq> latest_main_sha main then Inl (MainHeadStaleError ''latest main moved during reconciliation'')
      else ReconciliationPlan read_iso (cz_bootstrap_base_sha candidate) previous (cz_accepted_sha candidate) (latest_main_sha main)
        candidate_paths live_paths (Some (mr_revalidated_at main)) (Some calculated) candidate_delta live_delta decisions
        (Some (po_id po)))))))))))))"

definition plan_reconciliation ::
    "iso_reader \<Rightarrow> candidate_freeze \<Rightarrow> main_revalidation \<Rightarrow> string list \<Rightarrow> string list \<Rightarrow> string option \<Rightarrow>
       (git_answers \<times> git_answers) option \<Rightarrow> reconciliation_policy option \<Rightarrow> string option \<Rightarrow> adoption_exc + reconciliation_plan" where
  "plan_reconciliation read_iso candidate main candidate_changed main_changed previous_stable repository policy merge_base_sha =
     res_bind (validate_sha (PyStr (case previous_stable of Some (c # t) \<Rightarrow> c # t | _ \<Rightarrow> latest_main_sha main)) ''previous_stable_sha'') (\<lambda>previous.
     res_bind (normalized_set candidate_changed) (\<lambda>candidate_paths.
     res_bind (normalized_set main_changed) (\<lambda>live_paths.
     case (repository, policy) of
       (Some (g, later), Some po) \<Rightarrow> explicit_plan read_iso g later po candidate main candidate_paths live_paths previous merge_base_sha
     | (None, None) \<Rightarrow> conservative_plan read_iso candidate main candidate_paths live_paths previous
     | _ \<Rightarrow> Inl (AdoptionValidationError ''reconciliation_policy_repository_pair_required''))))"

section \<open>What an accepted plan adopts\<close>

text \<open>The categories that a policy has looked up for its paths.\<close>

definition policy_bound :: "reconciliation_policy \<Rightarrow> bool" where
  "policy_bound po \<longleftrightarrow>
     (\<forall>p \<in> set (po_protocol po). protected_path_category p = Inr (Some PROTOCOL_AUTHORITY))
     \<and> (\<forall>p \<in> set (po_boundary po). protected_path_category p \<in> {Inr (Some LAUNCHER_SAFETY), Inr (Some RECOVERY_IDENTITY)})"

lemma categories_ok_passed:
  assumes "first_raise (categories_ok ok m paths) = None" "p \<in> set paths"
  shows "\<exists>c. protected_path_category p = Inr c \<and> ok c"
proof -
  have "(case protected_path_category p of Inl e \<Rightarrow> Some e | Inr c \<Rightarrow> ensure (ok c) (AdoptionValidationError m)) = None"
    using assms by (simp add: first_raise_None_all categories_ok_def)
  then show ?thesis by (cases "protected_path_category p") simp_all
qed

lemma ReconciliationPolicy_bound:
  assumes "ReconciliationPolicy i c s l p b = Inr po"
  shows "policy_bound po"
proof -
  have "first_raise (policy_checks po) = None"
    using assms unfolding ReconciliationPolicy_def Let_def res_bind_Inr_iff run_checks_Inr by (elim exE conjE) simp
  then have "first_raise (categories_ok (\<lambda>c. c = Some PROTOCOL_AUTHORITY) ''reconciliation_policy_protocol_path_invalid'' (po_protocol po)) = None"
      "first_raise (categories_ok (\<lambda>c. c \<in> {Some LAUNCHER_SAFETY, Some RECOVERY_IDENTITY}) ''reconciliation_policy_boundary_path_invalid'' (po_boundary po)) = None"
    unfolding policy_checks_def by (simp_all only: first_raise_append_None)
  note passed = this [THEN categories_ok_passed]
  show ?thesis unfolding policy_bound_def using passed by blast
qed

definition adopts_candidate :: "resolution \<Rightarrow> bool" where
  "adopts_candidate r \<longleftrightarrow> r \<in> {CANDIDATE_ONLY, IDENTICAL_TREE, CLEAN_THREE_WAY, DOCUMENTATION_SECTION_UNION, BOUNDARY_FORWARD}"

text \<open>
  A decision that lets the candidate's change in never concerns a path whose name is classified as the
  control plane of a project or as protected; where both sides changed the path, the contents agree, git merges them without a
  conflict, or the main branch's document is kept.
\<close>

definition decision_safe :: "git_answers \<Rightarrow> reconciliation_sides \<Rightarrow> reconciliation_decision \<Rightarrow> bool" where
  "decision_safe g sd d \<longleftrightarrow>
     (adopts_candidate (dc_resolution d) \<longrightarrow>
        protected_path_category (dc_path d) \<notin> {Inr (Some PROJECT_CONTROL_PLANE), Inr (Some PROTECTED_PATH)})
     \<and> (dc_path d \<notin> set (sd_candidate_delta sd) \<longrightarrow> dc_resolution d \<in> {SHARED_BASELINE, STABLE_ONLY})
     \<and> (dc_path d \<in> set (sd_candidate_delta sd) \<and> dc_path d \<in> set (sd_live_delta sd) \<longrightarrow>
          dc_resolution d = IDENTICAL_TREE \<and> blob_sha g (sd_candidate sd) (dc_path d) = blob_sha g (sd_main sd) (dc_path d)
          \<or> dc_resolution d = CLEAN_THREE_WAY \<and> side_merge_conflict g sd (dc_path d) = Inr False
          \<or> dc_resolution d = DOCUMENTATION_LATEST_MAIN)"

lemma path_decision_Inr:
  assumes "path_decision g sd path resolution rule reason category = Inr r" "normalize_relative_path (PyStr path) = Inr path"
  shows "\<exists>d. r = Inr d \<and> dc_path d = path \<and> dc_resolution d = resolution"
  using assms by (auto simp: path_decision_def ReconciliationDecision_def res_bind_Inr_iff)

lemma path_conflict_Inr: "path_conflict path c reason = Inr r \<Longrightarrow> isl r"
  by (auto simp: path_conflict_def res_bind_Inr_iff)


lemma both_sides_conflict:
  "(if b then path_conflict path c m else r) = Inr (Inr d) \<Longrightarrow> \<not> b \<and> r = Inr (Inr d)"
  by (auto dest: path_conflict_Inr split: if_splits)

lemma decide_candidate_only_safe:
  assumes "decide_candidate_only g po sd path category = Inr (Inr d)" "normalize_relative_path (PyStr path) = Inr path"
    "protected_path_category path = Inr category" "policy_bound po"
  shows "dc_path d = path \<and> dc_resolution d \<in> {CANDIDATE_ONLY, CLEAN_THREE_WAY, BOUNDARY_FORWARD}
    \<and> category \<notin> {Some PROJECT_CONTROL_PLANE, Some PROTECTED_PATH}"
proof (cases category)
  case None
  then show ?thesis using assms(1,2) by (auto simp: decide_candidate_only_def dest: path_decision_Inr)
next
  case (Some c)
  from assms(1) obtain untouched where first: "(if c = PROTOCOL_AUTHORITY \<and> path \<in> set (po_protocol po)
        then res_bind (path_touched_since g (sd_merge_base sd) (sd_main sd) path) (\<lambda>t. Inr (\<not> t)) else Inr False) = Inr untouched"
    by (auto simp: decide_candidate_only_def Some res_bind_Inr_iff)
  show ?thesis
  proof (cases untouched)
    case True
    then have c: "c = PROTOCOL_AUTHORITY" using first by (auto split: if_splits)
    from assms(1) first True obtain k where "path_decision g sd path CLEAN_THREE_WAY ''phase85.protected_protocol_clean_three_way.v1''
        ''main_history_untouched_clean_protocol_three_way'' category = Inr (Inr d)"
      unfolding decide_candidate_only_def Some option.case first res_bind_simps by (auto simp: res_bind_Inr_iff dest: both_sides_conflict)
    from path_decision_Inr [OF this assms(2)] show ?thesis by (auto simp: Some c)
  next
    case False
    from assms(1) first False obtain proven where
        proven: "(if path \<notin> set (po_boundary po) then Inr False
           else res_bind (blob_bytes g (sd_candidate sd) path) (\<lambda>content.
             Inr (boundary_source_proof path (case content of None \<Rightarrow> [] | Some x \<Rightarrow> x)))) = Inr proven"
        and rest: "(if \<not> proven then path_conflict path c ''candidate_only_protected_boundary_requires_explicit_proof''
           else path_decision g sd path BOUNDARY_FORWARD ''phase85.boundary_candidate_only_forward.v1''
             ''protected_boundary_one_sided_and_contract_proven'' category) = Inr (Inr d)"
      unfolding decide_candidate_only_def Some option.case first res_bind_simps by (auto simp: res_bind_Inr_iff)
    from both_sides_conflict [OF rest] have "proven" and d: "path_decision g sd path BOUNDARY_FORWARD
        ''phase85.boundary_candidate_only_forward.v1'' ''protected_boundary_one_sided_and_contract_proven'' category = Inr (Inr d)" by auto
    then have "path \<in> set (po_boundary po)" using proven by (auto split: if_splits)
    then have "category \<in> {Some LAUNCHER_SAFETY, Some RECOVERY_IDENTITY}" using assms(3,4) by (force simp: policy_bound_def)
    then show ?thesis using path_decision_Inr [OF d assms(2)] by auto
  qed
qed

lemma decide_overlap_safe:
  assumes "decide_overlap g po sd path category = Inr (Inr d)" "normalize_relative_path (PyStr path) = Inr path"
    "protected_path_category path = Inr category" "policy_bound po"
  shows "dc_path d = path \<and> category \<notin> {Some PROJECT_CONTROL_PLANE, Some PROTECTED_PATH}
    \<and> (dc_resolution d = CLEAN_THREE_WAY \<and> side_merge_conflict g sd path = Inr False \<or> dc_resolution d = DOCUMENTATION_LATEST_MAIN)"
proof (cases "path \<in> set (po_protocol po)")
  case True
  then have "category = Some PROTOCOL_AUTHORITY" using assms(3,4) by (force simp: policy_bound_def)
  then show ?thesis using assms(1,2) True
    unfolding decide_overlap_def by (auto simp: res_bind_Inr_iff dest!: both_sides_conflict path_decision_Inr)
next
  case False
  have free: "category = None"
    using assms(1) False unfolding decide_overlap_def by (auto simp: res_bind_Inr_iff dest: path_conflict_Inr split: if_splits)
  show ?thesis using assms(1,2) False
    unfolding decide_overlap_def free documentation_section_union_proof_def
    by (auto simp: res_bind_Inr_iff dest!: both_sides_conflict path_decision_Inr dest: path_conflict_Inr split: if_splits)
qed

lemma decide_path_safe:
  assumes "decide_path g po sd path = Inr (Inr d)" "normalize_relative_path (PyStr path) = Inr path" "policy_bound po"
  shows "dc_path d = path \<and> decision_safe g sd d"
proof -
  from assms(1) obtain category mb cb lb where category: "protected_path_category path = Inr category"
      and blobs: "blob_sha g (sd_merge_base sd) path = Inr mb" "blob_sha g (sd_candidate sd) path = Inr cb" "blob_sha g (sd_main sd) path = Inr lb"
    by (auto simp: decide_path_def res_bind_Inr_iff)
  note step = assms(1) [unfolded decide_path_def category blobs res_bind_simps]
  consider "path \<notin> set (sd_candidate_delta sd)" | "path \<in> set (sd_candidate_delta sd)" "path \<notin> set (sd_live_delta sd)"
    | "path \<in> set (sd_candidate_delta sd)" "path \<in> set (sd_live_delta sd)" by blast
  then show ?thesis
  proof cases
    case 1
    then show ?thesis using step assms(2)
      by (auto simp: decision_safe_def adopts_candidate_def dest: path_decision_Inr split: if_splits)
  next
    case 2
    then have "decide_candidate_only g po sd path category = Inr (Inr d)" using step by simp
    from decide_candidate_only_safe [OF this assms(2) category assms(3)] 2 show ?thesis
      by (auto simp: decision_safe_def category)
  next
    case 3
    show ?thesis
    proof (cases "cb = lb \<and> category \<notin> {Some PROJECT_CONTROL_PLANE, Some PROTECTED_PATH}")
      case True
      then have "path_decision g sd path IDENTICAL_TREE ''phase85.identical_tip_tree.v1'' ''candidate_and_latest_main_blobs_identical'' category
          = Inr (Inr d)" using step 3 by simp
      from path_decision_Inr [OF this assms(2)] have d: "dc_path d = path" "dc_resolution d = IDENTICAL_TREE" by auto
      show ?thesis unfolding decision_safe_def d category using True 3 blobs by auto
    next
      case False
      then have "decide_overlap g po sd path category = Inr (Inr d)" using step 3 by (simp only: if_False if_True not_not simp_thms) 
      from decide_overlap_safe [OF this assms(2) category assms(3)] 3 show ?thesis
        by (auto simp: decision_safe_def category)
    qed
  qed
qed

lemma decisions_of_paths:
  assumes "res_map (decide_path g po sd) paths = Inr found" "\<forall>p \<in> set paths. normalize_relative_path (PyStr p) = Inr p"
    "policy_bound po" "filter isl found = []"
  shows "map dc_path (map projr (filter (\<lambda>r. \<not> isl r) found)) = paths
    \<and> (\<forall>d \<in> set (map projr (filter (\<lambda>r. \<not> isl r) found)). decision_safe g sd d)"
  using assms
proof (induction paths arbitrary: found)
  case (Cons p paths)
  from Cons.prems(1) obtain r rs where found: "found = r # rs" "decide_path g po sd p = Inr r" "res_map (decide_path g po sd) paths = Inr rs"
    by (auto simp: res_bind_Inr_iff)
  then obtain d where d: "r = Inr d" using Cons.prems(4) by (cases r) auto
  have "dc_path d = p \<and> decision_safe g sd d" by (rule decide_path_safe) (use found d Cons.prems in auto)
  then show ?case using Cons.IH [of rs] Cons.prems found d by simp
qed simp

lemma normalized_paths:
  "res_map (\<lambda>p. normalize_relative_path (PyStr p)) ps = Inr ns \<Longrightarrow> \<forall>q \<in> set ns. normalize_relative_path (PyStr q) = Inr q"
  by (induction ps arbitrary: ns) (auto simp: res_bind_Inr_iff dest: normalize_idem)

lemma normalized_set_Inr:
  assumes "normalized_set ps = Inr qs"
  shows "sorted qs \<and> distinct qs \<and> (\<forall>q \<in> set qs. normalize_relative_path (PyStr q) = Inr q)"
  using assms by (auto simp: normalized_set_def res_bind_Inr_iff sorted_set_def dest: normalized_paths)

lemma normalized_set_fixed:
  assumes "sorted qs" "distinct qs" "\<forall>q \<in> set qs. normalize_relative_path (PyStr q) = Inr q"
  shows "normalized_set qs = Inr qs"
  using res_map_Inr [of qs "\<lambda>p. normalize_relative_path (PyStr p)" "\<lambda>q. q"] assms
  by (simp add: normalized_set_def sorted_set_def remdups_id_iff_distinct sorted_sort_id)

lemma changed_paths_Inr:
  assumes "changed_paths g a b = Inr ps"
  shows "sorted ps \<and> distinct ps \<and> (\<forall>q \<in> set ps. normalize_relative_path (PyStr q) = Inr q)"
  using assms by (auto simp: changed_paths_def normalized_lines_def res_bind_Inr_iff sorted_set_def dest: normalized_paths split: if_splits)

definition planned_sides :: "candidate_freeze \<Rightarrow> main_revalidation \<Rightarrow> reconciliation_plan \<Rightarrow> reconciliation_sides" where
  "planned_sides candidate main plan = \<lparr>sd_merge_base = the (pl_merge_base_sha plan), sd_candidate = cz_accepted_sha candidate,
     sd_main = latest_main_sha main, sd_candidate_delta = pl_candidate_delta plan, sd_live_delta = pl_live_delta plan\<rparr>"

lemma ReconciliationPlan_Inr:
  assumes "ReconciliationPlan read_iso base previous accepted latest candidate_paths live_paths revalidated (Some m)
      candidate_delta live_delta decisions policy_id = Inr plan"
    "validate_sha (PyStr m) ''merge_base_sha'' = Inr m"
    "normalized_set candidate_paths = Inr candidate_paths"
    "normalized_set candidate_delta = Inr candidate_delta" "normalized_set live_delta = Inr live_delta"
  shows "pl_merge_base_sha plan = Some m" "pl_candidate_paths plan = candidate_paths" "pl_candidate_delta plan = candidate_delta"
    "pl_live_delta plan = live_delta" "pl_decisions plan = sort_key dc_path decisions"
  using assms by (auto simp: ReconciliationPlan_def res_bind_Inr_iff)

lemma explicit_plan_safe:
  assumes plan: "explicit_plan read_iso g later po candidate main candidate_paths live_paths previous named = Inr plan"
    and po: "policy_bound po" and paths: "normalized_set ps = Inr candidate_paths"
  shows "map dc_path (pl_decisions plan) = candidate_paths \<and> pl_candidate_paths plan = candidate_paths
    \<and> (\<forall>d \<in> set (pl_decisions plan). decision_safe g (planned_sides candidate main plan) d)
    \<and> resolve_commit g (mr_ref main) = Inr (latest_main_sha main)
    \<and> resolve_commit later (mr_ref main) = Inr (latest_main_sha main)"
proof -
  define sides where "sides m cd ld = \<lparr>sd_merge_base = m, sd_candidate = cz_accepted_sha candidate, sd_main = latest_main_sha main,
      sd_candidate_delta = cd, sd_live_delta = ld\<rparr>" for m cd ld
  from plan obtain m cd ld found where
      tip: "resolve_commit g (mr_ref main) = Inr (latest_main_sha main)"
      and m: "merge_base g (cz_accepted_sha candidate) (latest_main_sha main) = Inr m"
      and cd: "changed_paths g m (cz_accepted_sha candidate) = Inr cd" and ld: "changed_paths g m (latest_main_sha main) = Inr ld"
      and found: "res_map (decide_path g po (sides m cd ld)) candidate_paths = Inr found" "filter isl found = []"
      and later: "resolve_commit later (mr_ref main) = Inr (latest_main_sha main)"
      and made: "ReconciliationPlan read_iso (cz_bootstrap_base_sha candidate) previous (cz_accepted_sha candidate) (latest_main_sha main)
        candidate_paths live_paths (Some (mr_revalidated_at main)) (Some m) cd ld (map projr (filter (\<lambda>r. \<not> isl r) found)) (Some (po_id po)) = Inr plan"
    unfolding explicit_plan_def Let_def sides_def
    by (auto simp: res_bind_Inr_iff split: if_splits)
  have "validate_sha (PyStr m) ''merge_base_sha'' = Inr m"
    using m by (auto simp: merge_base_def res_bind_Inr_iff intro!: is_sha_validate dest: validate_sha_is_sha)
  note fields = ReconciliationPlan_Inr [OF made this normalized_set_fixed normalized_set_fixed normalized_set_fixed]
  have normal: "\<forall>p \<in> set candidate_paths. normalize_relative_path (PyStr p) = Inr p" "sorted candidate_paths" "distinct candidate_paths"
    using normalized_set_Inr [OF paths] by auto
  have decided: "map dc_path (map projr (filter (\<lambda>r. \<not> isl r) found)) = candidate_paths"
      "\<forall>d \<in> set (map projr (filter (\<lambda>r. \<not> isl r) found)). decision_safe g (sides m cd ld) d"
    using decisions_of_paths [OF found(1) normal(1) po found(2)] by auto
  have sorted: "sort_key dc_path (map projr (filter (\<lambda>r. \<not> isl r) found)) = map projr (filter (\<lambda>r. \<not> isl r) found)"
    by (rule sort_key_id_if_sorted) (use decided(1) normal(2) in \<open>simp only:\<close>)
  have facts: "pl_merge_base_sha plan = Some m" "pl_candidate_paths plan = candidate_paths" "pl_candidate_delta plan = cd"
      "pl_live_delta plan = ld" "pl_decisions plan = map projr (filter (\<lambda>r. \<not> isl r) found)"
    using fields normal changed_paths_Inr [OF cd] changed_paths_Inr [OF ld] sorted by metis+
  have "planned_sides candidate main plan = sides m cd ld" by (simp add: planned_sides_def sides_def facts)
  then show ?thesis using decided tip later by (simp only: facts)
qed

section \<open>The properties\<close>

text \<open>
  C9: under a policy that its constructor accepted, a plan that is made from a repository decides every
  path that the candidate changed, exactly once and in order.  No decision lets the candidate's change
  in at a path whose name, as git prints it, is classified as the control plane of a project or as
  protected; a name that git quotes is not classified so.  A path that both sides changed since they
  parted is adopted only when the two contents agree or git merges them without a conflict; and the main
  branch has the frozen commit when the plan begins and when it ends.
\<close>

theorem accepted_plan_is_safe:
  assumes "ReconciliationPolicy ident clean section_union from_main protocol boundary = Inr po"
    and "plan_reconciliation read_iso candidate main candidate_changed main_changed previous (Some (g, later)) (Some po) named = Inr plan"
  shows "map dc_path (pl_decisions plan) = pl_candidate_paths plan
    \<and> normalized_set candidate_changed = Inr (pl_candidate_paths plan)
    \<and> (\<forall>d \<in> set (pl_decisions plan). decision_safe g (planned_sides candidate main plan) d)
    \<and> resolve_commit g (mr_ref main) = Inr (latest_main_sha main)
    \<and> resolve_commit later (mr_ref main) = Inr (latest_main_sha main)"
proof -
  from assms(2) obtain prev paths live where paths: "normalized_set candidate_changed = Inr paths"
      and plan: "explicit_plan read_iso g later po candidate main paths live prev named = Inr plan"
    by (auto simp: plan_reconciliation_def res_bind_Inr_iff)
  show ?thesis using explicit_plan_safe [OF plan ReconciliationPolicy_bound [OF assms(1)] paths] paths by simp
qed

definition sample_sha :: "char \<Rightarrow> string" where
  "sample_sha c = replicate 40 c"

definition sample_git :: git_answers where
  "sample_git =
     \<lparr>ga_root = ''/srv/repo'', ga_canonical = Inr,
      ga_text = (\<lambda>args. Some (0, if hd args = ''diff'' then ''a.py''
         else if hd args = ''rev-parse'' then sample_sha CHR ''3'' else sample_sha CHR ''1'')),
      ga_bytes = (\<lambda>args. Some (0, ''100644 blob '' @ sample_sha (if hd (args ! 3) = CHR ''1'' then CHR ''a'' else CHR ''b'')
         @ [CHR 0x09] @ ''a.py'' @ [CHR 0x00])),
      ga_merge = (\<lambda>_ _ _. None)\<rparr>"

definition sample_freeze :: candidate_freeze where
  "sample_freeze = \<lparr>cz_root = ''/srv/repo'', cz_branch = ''candidate'', cz_bootstrap_base_sha = sample_sha CHR ''1'',
     cz_accepted_sha = sample_sha CHR ''2'', cz_frozen_at = ''2026-07-01T00:00:00Z'', cz_repository = None\<rparr>"

definition sample_main :: main_revalidation where
  "sample_main = \<lparr>mr_ref = ''main'', mr_expected_sha = sample_sha CHR ''3'', mr_observed_sha = sample_sha CHR ''3'',
     mr_revalidated_at = ''2026-07-01T00:00:00Z'', mr_branch = ''main''\<rparr>"

lemma sample_policy: "ReconciliationPolicy ''p'' [] [] [] [] [] = Inr \<lparr>po_id = ''p'', po_clean = [], po_section = [], po_latest_main = [], po_protocol = [], po_boundary = []\<rparr>"
  by code_simp

lemma sample_planned:
  "(case plan_reconciliation (\<lambda>_. Inr (Some 0)) sample_freeze sample_main [''a.py''] [''a.py''] None (Some (sample_git, sample_git))
      (Some \<lparr>po_id = ''p'', po_clean = [], po_section = [], po_latest_main = [], po_protocol = [], po_boundary = []\<rparr>) None of
     Inl _ \<Rightarrow> None | Inr plan \<Rightarrow> Some (map dc_resolution (pl_decisions plan))) = Some [IDENTICAL_TREE]"
  by code_simp

theorem accepted_plan_is_safe_witness:
  "\<exists>plan :: reconciliation_plan. map dc_path (pl_decisions plan) = [''a.py''] \<and> map dc_resolution (pl_decisions plan) = [IDENTICAL_TREE]"
proof -
  obtain plan where plan: "plan_reconciliation (\<lambda>_. Inr (Some 0)) sample_freeze sample_main [''a.py''] [''a.py''] None (Some (sample_git, sample_git))
      (Some \<lparr>po_id = ''p'', po_clean = [], po_section = [], po_latest_main = [], po_protocol = [], po_boundary = []\<rparr>) None = Inr plan"
      and how: "map dc_resolution (pl_decisions plan) = [IDENTICAL_TREE]"
    using sample_planned by (auto split: sum.splits)
  have "normalized_set [''a.py''] = Inr [''a.py'']" by code_simp
  then have "map dc_path (pl_decisions plan) = [''a.py'']"
    using accepted_plan_is_safe [OF sample_policy plan] by simp
  then show ?thesis using how by (intro exI [of _ plan] conjI)
qed

text \<open>
  The names that git prints are quoted where they are not plain ASCII.  Read back as they are, they are
  no longer under \<open>projects/\<close>: the category of the control plane is lost.
\<close>

lemma quoted_name_is_unprotected:
  "protected_path_category ''projects/demo/state.json'' = Inr (Some PROJECT_CONTROL_PLANE)"
  "map_sum (\<lambda>_. ()) (map (\<lambda>p. map_sum (\<lambda>_. ()) (\<lambda>c. c) (protected_path_category p)))
     (normalized_lines ([CHR 0x22] @ ''projects/caf'' @ [CHR 0x5C] @ ''303'' @ [CHR 0x5C] @ ''251/state.json'' @ [CHR 0x22])) = Inr [Inr None]"
  by code_simp+

end
