(* ===== verification/Adoption_Gate.thy ===== *)
theory Adoption_Gate
  imports Adoption_Plans
begin

text \<open>
  \<open>worker/vnext_runtime/adoption.py\<close>, fourth part: the promotion of a reconciled head and its guard, the
  rollback that only moves forward, the policy that arms an adoption, and the health gate that keeps
  claims blocked after the restart.
\<close>

section \<open>Promotion\<close>

record promotion_plan =
  pp_target_branch :: string
  pp_expected_head :: string
  pp_previous_stable_sha :: string
  pp_accepted_sha :: string
  pp_reconciled_sha :: string
  pp_revalidated_at :: string
  pp_force :: bool
  pp_action :: string

definition PromotionPlan ::
    "iso_reader \<Rightarrow> string \<Rightarrow> string \<Rightarrow> string \<Rightarrow> string \<Rightarrow> string \<Rightarrow> string \<Rightarrow> bool \<Rightarrow> string \<Rightarrow> adoption_exc + promotion_plan" where
  "PromotionPlan read_iso target expected previous accepted reconciled revalidated_at force action =
     res_bind (validate_main_branch (PyStr target) ''target_branch'') (\<lambda>branch.
     res_bind (validate_sha (PyStr expected) ''expected_integration_head_sha'') (\<lambda>e.
     res_bind (validate_sha (PyStr previous) ''previous_stable_sha'') (\<lambda>p.
     res_bind (validate_sha (PyStr accepted) ''accepted_candidate_sha'') (\<lambda>a.
     res_bind (validate_sha (PyStr reconciled) ''reconciled_adoption_sha'') (\<lambda>r.
     res_bind (parse_time read_iso (PyStr revalidated_at) ''revalidated_at'') (\<lambda>_.
     if force then Inl (AdoptionValidationError ''force_push_forbidden'')
     else res_bind (adoption_token (PyStr action) ''promotion_action'') (\<lambda>act.
       Inr \<lparr>pp_target_branch = branch, pp_expected_head = e, pp_previous_stable_sha = p, pp_accepted_sha = a,
            pp_reconciled_sha = r, pp_revalidated_at = revalidated_at, pp_force = force, pp_action = act\<rparr>)))))))"

text \<open>\<open>x or y\<close> on optional texts\<close>

definition text_or :: "string option \<Rightarrow> string option \<Rightarrow> string option" where
  "text_or x y = (case x of Some (c # t) \<Rightarrow> x | _ \<Rightarrow> y)"

definition build_promotion_plan ::
    "iso_reader \<Rightarrow> reconciliation_plan \<Rightarrow> string \<Rightarrow> string option \<Rightarrow> string \<Rightarrow> string \<Rightarrow> adoption_exc + promotion_plan" where
  "build_promotion_plan read_iso reconciliation reconciled revalidated_at target now =
     res_bind (validate_sha (PyStr reconciled) ''reconciled_adoption_sha'') (\<lambda>r.
       PromotionPlan read_iso target (pl_latest_main_sha reconciliation) (pl_previous_stable_sha reconciliation)
         (pl_accepted_sha reconciliation) r
         (case text_or revalidated_at (pl_main_revalidated_at reconciliation) of Some (c # t) \<Rightarrow> c # t | _ \<Rightarrow> now)
         False ''fast_forward_only_outer_controller'')"

definition promotion_guard :: "promotion_plan \<Rightarrow> string \<Rightarrow> bool \<Rightarrow> bool \<Rightarrow> adoption_exc + unit" where
  "promotion_guard plan current_head adoption_is_descendant force =
     (if force \<or> pp_force plan then Inl (PromotionRejectedError ''force_promotion_unavailable'')
      else res_bind (validate_sha (PyStr current_head) ''current_integration_head_sha'') (\<lambda>current.
        if current \<noteq> pp_expected_head plan then Inl (PromotionRejectedError ''integration_head_stale'')
        else if \<not> adoption_is_descendant then Inl (PromotionRejectedError ''promotion_not_fast_forwardable'')
        else Inr ()))"

definition validate_with_git :: "promotion_plan \<Rightarrow> git_answers \<Rightarrow> string \<Rightarrow> bool \<Rightarrow> adoption_exc + unit" where
  "validate_with_git plan g current_ref force =
     res_bind (resolve_commit g current_ref) (\<lambda>current.
     res_bind (is_ancestor g current (pp_reconciled_sha plan)) (\<lambda>descendant.
       promotion_guard plan current descendant force))"

section \<open>Rollback\<close>

record rollback_identity =
  ri_known_good_sha :: string
  ri_branch :: string
  ri_controller :: string

definition RollbackIdentity :: "py \<Rightarrow> py \<Rightarrow> py \<Rightarrow> adoption_exc + rollback_identity" where
  "RollbackIdentity known_good branch controller =
     res_bind (validate_sha known_good ''known_good_sha'') (\<lambda>k.
     res_bind (validate_main_branch branch ''rollback_branch'') (\<lambda>b.
     res_bind (adoption_token controller ''rollback_controller'') (\<lambda>c.
       Inr \<lparr>ri_known_good_sha = k, ri_branch = b, ri_controller = c\<rparr>)))"

definition rollback_dict :: "rollback_identity \<Rightarrow> pydict" where
  "rollback_dict r = [(''known_good_sha'', PyStr (ri_known_good_sha r)), (''branch'', PyStr (ri_branch r)),
     (''controller'', PyStr (ri_controller r))]"

record forward_rollback_plan =
  fr_current_sha :: string
  fr_known_good_sha :: string
  fr_parent_sha :: string
  fr_target_branch :: string
  fr_operation :: string
  fr_preserves_history :: bool
  fr_depends_on_worker :: bool
  fr_uses_reset :: bool
  fr_uses_force_push :: bool
  fr_no_blind_rerun :: bool

definition ForwardRollbackPlan :: "forward_rollback_plan \<Rightarrow> adoption_exc + forward_rollback_plan" where
  "ForwardRollbackPlan raw =
     res_bind (validate_sha (PyStr (fr_current_sha raw)) ''current_adoption_sha'') (\<lambda>c.
     res_bind (validate_sha (PyStr (fr_known_good_sha raw)) ''known_good_sha'') (\<lambda>k.
     res_bind (validate_sha (PyStr (fr_parent_sha raw)) ''integration_parent_sha'') (\<lambda>p.
     res_bind (validate_main_branch (PyStr (fr_target_branch raw)) ''rollback_branch'') (\<lambda>b.
     res_bind (adoption_token (PyStr (fr_operation raw)) ''rollback_operation'') (\<lambda>op.
     if \<not> fr_preserves_history raw \<or> fr_depends_on_worker raw \<or> fr_uses_reset raw \<or> fr_uses_force_push raw \<or> \<not> fr_no_blind_rerun raw
     then Inl (RollbackRejectedError ''rollback_must_be_forward_and_outer_controlled'')
     else Inr (raw\<lparr>fr_current_sha := c, fr_known_good_sha := k, fr_parent_sha := p, fr_target_branch := b, fr_operation := op\<rparr>))))))"

definition plan_forward_rollback ::
    "promotion_plan \<Rightarrow> string option \<Rightarrow> bool \<Rightarrow> bool \<Rightarrow> adoption_exc + forward_rollback_plan" where
  "plan_forward_rollback promotion current_adoption_sha adopted_is_ancestor stable_is_ancestor =
     res_bind (validate_sha (PyStr (case current_adoption_sha of Some (c # t) \<Rightarrow> c # t | _ \<Rightarrow> pp_reconciled_sha promotion)) ''current_adoption_sha'') (\<lambda>current.
     if current \<noteq> pp_reconciled_sha promotion \<and> \<not> adopted_is_ancestor then Inl (RollbackRejectedError ''adopted_head_identity_changed'')
     else if \<not> stable_is_ancestor then Inl (RollbackRejectedError ''known_good_history_not_verified'')
     else ForwardRollbackPlan \<lparr>fr_current_sha = current, fr_known_good_sha = pp_previous_stable_sha promotion,
       fr_parent_sha = pp_expected_head promotion, fr_target_branch = pp_target_branch promotion,
       fr_operation = ''create_forward_revert_commit'', fr_preserves_history = True, fr_depends_on_worker = False,
       fr_uses_reset = False, fr_uses_force_push = False, fr_no_blind_rerun = True\<rparr>)"

section \<open>The gate\<close>

datatype adoption_mode = MANUAL | UNATTENDED

definition mode_value :: "adoption_mode \<Rightarrow> string" where
  "mode_value m = (case m of MANUAL \<Rightarrow> ''manual'' | UNATTENDED \<Rightarrow> ''unattended'')"

definition adoption_mode_of :: "py \<Rightarrow> adoption_mode option" where
  "adoption_mode_of v = (if v = PyStr ''manual'' then Some MANUAL else if v = PyStr ''unattended'' then Some UNATTENDED else None)"

record adoption_policy =
  ap_controlled :: bool
  ap_unattended :: bool

definition policy_flags :: "string list" where
  "policy_flags = [''controlled_adoption_enabled'', ''unattended_adoption_enabled'']"

text \<open>The flags are read in the order in which a set yields them, which differs between processes: an argument.\<close>

definition adoption_policy_from_mapping :: "string list \<Rightarrow> pydict option \<Rightarrow> adoption_exc + adoption_policy" where
  "adoption_policy_from_mapping order config =
     (case config of None \<Rightarrow> Inr \<lparr>ap_controlled = False, ap_unattended = False\<rparr>
      | Some cfg \<Rightarrow> (case dget_or cfg ''adoption'' (PyDict []) of
          PyDict raw \<Rightarrow>
            if \<not> set (dkeys raw) \<subseteq> set policy_flags then Inl (AdoptionValidationError ''adoption_config_unsupported_fields'')
            else run_checks (map (\<lambda>key. ensure (is_bool (dget_or raw key (PyBool False))) (AdoptionValidationError (key @ ''_invalid''))) order)
              (Inr \<lparr>ap_controlled = truthy (dget_or raw ''controlled_adoption_enabled'' (PyBool False)),
                   ap_unattended = truthy (dget_or raw ''unattended_adoption_enabled'' (PyBool False))\<rparr>)
        | _ \<Rightarrow> Inl (AdoptionValidationError ''adoption_config_invalid'')))"

definition authorize :: "adoption_policy \<Rightarrow> py \<Rightarrow> bool \<Rightarrow> adoption_exc + unit" where
  "authorize policy mode explicit =
     (case adoption_mode_of mode of
        None \<Rightarrow> Inl (AdoptionDisabledError ''adoption_mode_invalid'')
      | Some selected \<Rightarrow>
          if \<not> explicit \<or> \<not> ap_controlled policy then Inl (AdoptionDisabledError ''controlled_adoption_disabled'')
          else if selected = UNATTENDED \<and> \<not> ap_unattended policy then Inl (AdoptionDisabledError ''unattended_adoption_disabled'')
          else Inr ())"

definition can_authorize :: "adoption_policy \<Rightarrow> py \<Rightarrow> bool \<Rightarrow> adoption_exc + bool" where
  "can_authorize policy mode explicit =
     (case authorize policy mode explicit of
        Inl (AdoptionDisabledError _) \<Rightarrow> Inr False | Inl e \<Rightarrow> Inl e | Inr _ \<Rightarrow> Inr True)"

section \<open>What a promotion and its rollback are bound to\<close>

lemma PromotionPlan_Inr:
  assumes "PromotionPlan read_iso target expected previous accepted reconciled revalidated_at force action = Inr p"
  shows "validate_sha (PyStr expected) ''expected_integration_head_sha'' = Inr (pp_expected_head p)"
    "validate_sha (PyStr previous) ''previous_stable_sha'' = Inr (pp_previous_stable_sha p)"
    "validate_sha (PyStr reconciled) ''reconciled_adoption_sha'' = Inr (pp_reconciled_sha p)" "\<not> pp_force p"
  using assms by (auto simp: PromotionPlan_def res_bind_Inr_iff split: if_splits)

lemma is_sha_Inr: "is_sha s \<Longrightarrow> validate_sha (PyStr s) label = Inr t \<Longrightarrow> t = s"
  by (simp add: is_sha_validate)

lemma ForwardRollbackPlan_Inr:
  assumes "ForwardRollbackPlan raw = Inr r"
  shows "validate_sha (PyStr (fr_current_sha raw)) ''current_adoption_sha'' = Inr (fr_current_sha r)"
    "validate_sha (PyStr (fr_known_good_sha raw)) ''known_good_sha'' = Inr (fr_known_good_sha r)"
    "validate_sha (PyStr (fr_parent_sha raw)) ''integration_parent_sha'' = Inr (fr_parent_sha r)"
    "fr_preserves_history r \<and> \<not> fr_depends_on_worker r \<and> \<not> fr_uses_reset r \<and> \<not> fr_uses_force_push r \<and> fr_no_blind_rerun r"
  using assms by (auto simp: ForwardRollbackPlan_def res_bind_Inr_iff split: if_splits)

text \<open>
  C14: when the guard lets a promotion through, git says that the integration branch still has the head
  that was revalidated for the plan, and that the reconciled head descends from it; force is never used.  A rollback of
  that promotion goes back to the stable commit of the plan on top of the revalidated head, starts from the
  adopted head or from one that descends from it, and neither resets, nor forces, nor runs in the adopted
  Worker.
\<close>

theorem promotion_is_fast_forward:
  assumes built: "build_promotion_plan read_iso reconciliation reconciled revalidated_at target now = Inr p"
    and guarded: "validate_with_git p g ref force = Inr ()"
    and rolled: "plan_forward_rollback p current adopted_is_ancestor stable_is_ancestor = Inr r"
  shows "resolve_commit g ref = Inr (pp_expected_head p) \<and> \<not> force
    \<and> is_ancestor g (pp_expected_head p) (pp_reconciled_sha p) = Inr True
    \<and> validate_sha (PyStr (pl_latest_main_sha reconciliation)) ''expected_integration_head_sha'' = Inr (pp_expected_head p)
    \<and> fr_parent_sha r = pp_expected_head p
    \<and> validate_sha (PyStr (pl_previous_stable_sha reconciliation)) ''previous_stable_sha'' = Inr (fr_known_good_sha r)
    \<and> (fr_current_sha r = pp_reconciled_sha p \<or> adopted_is_ancestor) \<and> stable_is_ancestor
    \<and> fr_preserves_history r \<and> \<not> fr_depends_on_worker r \<and> \<not> fr_uses_reset r \<and> \<not> fr_uses_force_push r"
proof -
  from built obtain a where made: "PromotionPlan read_iso target (pl_latest_main_sha reconciliation) (pl_previous_stable_sha reconciliation)
      (pl_accepted_sha reconciliation) a
      (case text_or revalidated_at (pl_main_revalidated_at reconciliation) of Some (c # t) \<Rightarrow> c # t | _ \<Rightarrow> now)
      False ''fast_forward_only_outer_controller'' = Inr p"
    by (auto simp: build_promotion_plan_def res_bind_Inr_iff)
  note bound = PromotionPlan_Inr [OF made]
  note shas = bound(1-3) [THEN validate_sha_is_sha]
  from guarded have head: "resolve_commit g ref = Inr (pp_expected_head p)" and fast: "is_ancestor g (pp_expected_head p) (pp_reconciled_sha p) = Inr True"
      and "\<not> force"
    by (auto simp: validate_with_git_def promotion_guard_def res_bind_Inr_iff dest!: resolve_commit_is_sha is_sha_Inr split: if_splits)
  moreover from rolled obtain cur where cur: "is_sha cur" "cur = pp_reconciled_sha p \<or> adopted_is_ancestor" and "stable_is_ancestor"
      and plan: "ForwardRollbackPlan \<lparr>fr_current_sha = cur, fr_known_good_sha = pp_previous_stable_sha p,
        fr_parent_sha = pp_expected_head p, fr_target_branch = pp_target_branch p,
        fr_operation = ''create_forward_revert_commit'', fr_preserves_history = True, fr_depends_on_worker = False,
        fr_uses_reset = False, fr_uses_force_push = False, fr_no_blind_rerun = True\<rparr> = Inr r"
    unfolding plan_forward_rollback_def by (auto simp: res_bind_Inr_iff dest: validate_sha_is_sha split: if_splits)
  note fields = ForwardRollbackPlan_Inr [OF plan, simplified]
  moreover have "fr_current_sha r = cur" "fr_known_good_sha r = pp_previous_stable_sha p" "fr_parent_sha r = pp_expected_head p"
    by (rule is_sha_Inr [OF cur(1) fields(1)] is_sha_Inr [OF shas(2) fields(2)] is_sha_Inr [OF shas(1) fields(3)])+
  ultimately show ?thesis using bound cur(2) \<open>stable_is_ancestor\<close> by simp
qed

definition sample_reconciliation :: reconciliation_plan where
  "sample_reconciliation = \<lparr>pl_bootstrap_base_sha = sample_sha CHR ''1'', pl_previous_stable_sha = sample_sha CHR ''4'',
     pl_accepted_sha = sample_sha CHR ''2'', pl_latest_main_sha = sample_sha CHR ''3'', pl_candidate_paths = [], pl_live_paths = [],
     pl_main_revalidated_at = Some ''2026-07-01'', pl_merge_base_sha = None, pl_candidate_delta = [], pl_live_delta = [],
     pl_decisions = [], pl_policy_id = None\<rparr>"

definition sample_promotion :: promotion_plan where
  "sample_promotion = \<lparr>pp_target_branch = ''main'', pp_expected_head = sample_sha CHR ''3'', pp_previous_stable_sha = sample_sha CHR ''4'',
     pp_accepted_sha = sample_sha CHR ''2'', pp_reconciled_sha = sample_sha CHR ''5'', pp_revalidated_at = ''2026-07-01'',
     pp_force = False, pp_action = ''fast_forward_only_outer_controller''\<rparr>"

lemma sample_promotion_built:
  "build_promotion_plan (\<lambda>_. Inr (Some 0)) sample_reconciliation (sample_sha CHR ''5'') None ''main'' ''2026-07-02'' = Inr sample_promotion"
  by code_simp

lemma sample_promotion_guarded: "validate_with_git sample_promotion sample_git ''main'' False = Inr ()"
  by code_simp

lemma sample_rollback: "\<not> isl (plan_forward_rollback sample_promotion None False True)"
  by code_simp

theorem promotion_is_fast_forward_witness:
  "\<exists>r :: forward_rollback_plan. fr_parent_sha r = sample_sha CHR ''3'' \<and> fr_current_sha r = sample_sha CHR ''5'' \<and> \<not> fr_uses_reset r
    \<and> is_ancestor sample_git (sample_sha CHR ''3'') (sample_sha CHR ''5'') = Inr True"
proof -
  obtain r where r: "plan_forward_rollback sample_promotion None False True = Inr r"
    using sample_rollback by (cases "plan_forward_rollback sample_promotion None False True") auto
  have "fr_parent_sha r = sample_sha CHR ''3'' \<and> fr_current_sha r = sample_sha CHR ''5'' \<and> \<not> fr_uses_reset r
      \<and> is_ancestor sample_git (sample_sha CHR ''3'') (sample_sha CHR ''5'') = Inr True"
    using promotion_is_fast_forward [OF sample_promotion_built sample_promotion_guarded r] by (simp add: sample_promotion_def)
  then show ?thesis by (intro exI [of _ r])
qed

end
