(* ===== verification/Adoption_Health.thy ===== *)
theory Adoption_Health
  imports Adoption_Gate
begin

text \<open>
  \<open>worker/vnext_runtime/adoption.py\<close>, fifth part: the health gate.  After a restart that was asked for
  with exit code 75, claims stay blocked until the Worker has started again, is healthy, and has been so
  for the whole probation, all before a deadline.
\<close>

section \<open>Constants\<close>

definition PROMOTION_RESTART_EXIT_CODE :: int where
  "PROMOTION_RESTART_EXIT_CODE = 75"

definition MAX_HEALTH_CRITERIA :: nat where
  "MAX_HEALTH_CRITERIA = 16"

definition HEALTH_ATTRIBUTES :: "string list" where
  "HEALTH_ATTRIBUTES = [''launcher_alive'', ''worker_healthy'', ''protocol_ready'', ''recovery_clear'']"

text \<open>The last instant of \<open>datetime\<close>, in microseconds after 1970: a later one is an OverflowError.\<close>

definition max_instant :: int where
  "max_instant = 253402300799999999"

section \<open>Observations and decisions\<close>

record health_observation =
  ho_observed_at :: string
  ho_exit_code :: py
  ho_worker_started_at :: "string option"
  ho_heartbeat_at :: "string option"
  ho_launcher_alive :: py
  ho_worker_healthy :: py
  ho_protocol_ready :: py
  ho_recovery_clear :: py

definition parse_optional :: "iso_reader \<Rightarrow> string option \<Rightarrow> string \<Rightarrow> adoption_exc + int option" where
  "parse_optional read_iso v label = (case v of None \<Rightarrow> Inr None
     | Some t \<Rightarrow> res_bind (parse_time read_iso (PyStr t) label) (\<lambda>i. Inr (Some i)))"

definition health_attribute :: "health_observation \<Rightarrow> string \<Rightarrow> py" where
  "health_attribute ho name =
     (if name = ''launcher_alive'' then ho_launcher_alive ho else if name = ''worker_healthy'' then ho_worker_healthy ho
      else if name = ''protocol_ready'' then ho_protocol_ready ho else ho_recovery_clear ho)"

definition HealthObservation :: "iso_reader \<Rightarrow> health_observation \<Rightarrow> adoption_exc + health_observation" where
  "HealthObservation read_iso ho =
     res_bind (parse_time read_iso (PyStr (ho_observed_at ho)) ''observed_at'') (\<lambda>_.
     if ho_exit_code ho \<noteq> PyNone \<and> \<not> is_int (ho_exit_code ho) then Inl (AdoptionValidationError ''health_exit_code_invalid'')
     else res_bind (parse_optional read_iso (ho_worker_started_at ho) ''worker_started_at'') (\<lambda>_.
     res_bind (parse_optional read_iso (ho_heartbeat_at ho) ''heartbeat_at'') (\<lambda>_.
       run_checks (map (\<lambda>name. ensure (is_bool (health_attribute ho name)) (AdoptionValidationError (name @ ''_invalid''))) HEALTH_ATTRIBUTES)
         (Inr ho))))"

datatype health_status = WAITING_FOR_RESTART | PROBATION | READY | HEALTH_FAILED | HEALTH_EXPIRED

record health_decision =
  hd_status :: health_status
  hd_claims_allowed :: bool
  hd_reasons :: "string list"

definition HealthGateDecision :: "health_status \<Rightarrow> bool \<Rightarrow> string list \<Rightarrow> adoption_exc + health_decision" where
  "HealthGateDecision status claims reasons =
     (if claims \<noteq> (status = READY) then Inl (AdoptionValidationError ''health_claim_gate_inconsistent'')
      else res_bind (res_map (\<lambda>r. adoption_token (PyStr r) ''health_reason'') reasons) (\<lambda>rs.
        Inr \<lparr>hd_status = status, hd_claims_allowed = claims, hd_reasons = rs\<rparr>))"

section \<open>The contract\<close>

text \<open>The criteria of a contract and of the evidence of an attempt.\<close>

definition health_criteria :: "py list \<Rightarrow> adoption_exc + string list" where
  "health_criteria items =
     res_bind (res_map (\<lambda>item. adoption_token item ''health_criterion'') items) (\<lambda>criteria.
     if criteria = [] \<or> MAX_HEALTH_CRITERIA < length criteria then Inl (AdoptionValidationError ''health_criteria_invalid'')
     else if \<not> set criteria \<subseteq> set HEALTH_ATTRIBUTES then Inl (AdoptionValidationError ''health_criterion_unsupported'')
     else Inr (fromkeys criteria))"

record health_contract =
  hc_requested_at :: string
  hc_deadline :: string
  hc_probation_seconds :: int
  hc_criteria :: "string list"
  hc_restart_exit_code :: int

definition HealthGateContract ::
    "iso_reader \<Rightarrow> string \<Rightarrow> string \<Rightarrow> py \<Rightarrow> py list \<Rightarrow> int \<Rightarrow> adoption_exc + health_contract" where
  "HealthGateContract read_iso requested_at deadline_at probation criteria exit_code =
     res_bind (parse_time read_iso (PyStr requested_at) ''restart_requested_at'') (\<lambda>requested.
     res_bind (parse_time read_iso (PyStr deadline_at) ''health_deadline'') (\<lambda>deadline.
     if deadline < requested then Inl (AdoptionValidationError ''health_deadline_before_restart'')
     else if \<not> is_int probation \<or> \<not> (0 \<le> the_int probation \<and> the_int probation \<le> 86400)
     then Inl (AdoptionValidationError ''probation_seconds_invalid'')
     else if exit_code \<noteq> PROMOTION_RESTART_EXIT_CODE then Inl (AdoptionValidationError ''restart_exit_code_invalid'')
     else res_bind (health_criteria criteria) (\<lambda>cs.
       Inr \<lparr>hc_requested_at = requested_at, hc_deadline = deadline_at, hc_probation_seconds = the_int probation,
            hc_criteria = cs, hc_restart_exit_code = exit_code\<rparr>)))"

definition blocked :: "health_status \<Rightarrow> string list \<Rightarrow> adoption_exc + health_decision" where
  "blocked status reasons = HealthGateDecision status False reasons"

definition evaluate :: "iso_reader \<Rightarrow> health_contract \<Rightarrow> health_observation \<Rightarrow> adoption_exc + health_decision" where
  "evaluate read_iso contract ho =
     res_bind (parse_time read_iso (PyStr (ho_observed_at ho)) ''observed_at'') (\<lambda>observed.
     res_bind (parse_time read_iso (PyStr (hc_deadline contract)) ''health_deadline'') (\<lambda>deadline.
     res_bind (parse_time read_iso (PyStr (hc_requested_at contract)) ''restart_requested_at'') (\<lambda>requested.
     if deadline < observed then blocked HEALTH_EXPIRED [''health_deadline_expired'']
     else if ho_exit_code ho \<noteq> PyNone \<and> \<not> py_eq (ho_exit_code ho) (PyInt (hc_restart_exit_code contract))
     then blocked HEALTH_FAILED [''unexpected_restart_exit_code'']
     else case ho_worker_started_at ho of None \<Rightarrow> blocked WAITING_FOR_RESTART [''worker_restart_not_observed'']
     | Some started_at \<Rightarrow>
     res_bind (parse_time read_iso (PyStr started_at) ''worker_started_at'') (\<lambda>started.
     if started \<le> requested then blocked WAITING_FOR_RESTART [''worker_start_precedes_restart'']
     else case ho_heartbeat_at ho of None \<Rightarrow> blocked PROBATION [''worker_heartbeat_missing'']
     | Some heartbeat_at \<Rightarrow>
     res_bind (parse_time read_iso (PyStr heartbeat_at) ''heartbeat_at'') (\<lambda>heartbeat.
     if heartbeat < started then blocked HEALTH_FAILED [''heartbeat_precedes_worker_start'']
     else let missing = filter (\<lambda>name. \<not> truthy (health_attribute ho name)) (hc_criteria contract) in
     if missing \<noteq> [] then blocked HEALTH_FAILED missing
     else let probation_end = started + hc_probation_seconds contract * 1000000 in
     if max_instant < probation_end then Inl (Raised (OverflowError ''date value out of range''))
     else if observed < probation_end then blocked PROBATION [''probation_incomplete'']
     else HealthGateDecision READY True [''health_and_probation_verified''])))))"

section \<open>When claims are allowed\<close>

lemma ready_reason: "adoption_token (PyStr ''health_and_probation_verified'') ''health_reason'' = Inr ''health_and_probation_verified''"
  by code_simp

lemma blocked_Inr: "blocked status reasons = Inr d \<Longrightarrow> hd_status d = status \<and> \<not> hd_claims_allowed d"
  by (auto simp: blocked_def HealthGateDecision_def res_bind_Inr_iff split: if_splits)

lemma HealthGateDecision_Inr: "HealthGateDecision status claims reasons = Inr d \<Longrightarrow>
    hd_status d = status \<and> hd_claims_allowed d = claims \<and> claims = (status = READY)"
  by (auto simp: HealthGateDecision_def res_bind_Inr_iff split: if_splits)

text \<open>The instant of a time that was validated before, for the specification.\<close>

definition instant :: "iso_reader \<Rightarrow> string \<Rightarrow> int" where
  "instant read_iso t = (case parse_time read_iso (PyStr t) [] of Inr i \<Rightarrow> i | Inl _ \<Rightarrow> 0)"

lemma parse_time_instant: "parse_time read_iso (PyStr t) label = Inr i \<Longrightarrow> instant read_iso t = i"
  by (auto simp: instant_def parse_time_def adoption_text_def Let_def split: if_splits sum.splits option.splits)

text \<open>
  C13: the gate answers that claims are allowed exactly when it answers READY, and it does so only when,
  at the observation, the deadline has not passed, no other exit code than the requested one was seen, the
  Worker has started after the request, has sent a heartbeat since, meets every criterion of the contract,
  and its probation, counted from its start, is over.
\<close>

theorem claims_need_probation:
  assumes "evaluate read_iso contract ho = Inr d"
  shows "(hd_claims_allowed d \<longleftrightarrow> hd_status d = READY)
    \<and> (hd_claims_allowed d \<longrightarrow>
        instant read_iso (ho_observed_at ho) \<le> instant read_iso (hc_deadline contract)
        \<and> (ho_exit_code ho = PyNone \<or> py_eq (ho_exit_code ho) (PyInt (hc_restart_exit_code contract)))
        \<and> (\<exists>started heartbeat. ho_worker_started_at ho = Some started \<and> ho_heartbeat_at ho = Some heartbeat
            \<and> instant read_iso (hc_requested_at contract) < instant read_iso started
            \<and> instant read_iso started \<le> instant read_iso heartbeat
            \<and> instant read_iso started + hc_probation_seconds contract * 1000000 \<le> instant read_iso (ho_observed_at ho))
        \<and> (\<forall>name \<in> set (hc_criteria contract). truthy (health_attribute ho name)))"
proof -
  from assms obtain observed deadline requested where
      times: "parse_time read_iso (PyStr (ho_observed_at ho)) ''observed_at'' = Inr observed"
        "parse_time read_iso (PyStr (hc_deadline contract)) ''health_deadline'' = Inr deadline"
        "parse_time read_iso (PyStr (hc_requested_at contract)) ''restart_requested_at'' = Inr requested"
    by (auto simp: evaluate_def res_bind_Inr_iff)
  note seen = times [THEN parse_time_instant]
  show ?thesis
  proof (cases "hd_status d = READY")
    case False
    then show ?thesis using assms unfolding evaluate_def Let_def
      by (auto simp: res_bind_Inr_iff dest!: blocked_Inr HealthGateDecision_Inr split: if_splits option.splits)
  next
    case True
    then obtain started_at heartbeat_at started heartbeat where
        "ho_worker_started_at ho = Some started_at" "ho_heartbeat_at ho = Some heartbeat_at"
        "parse_time read_iso (PyStr started_at) ''worker_started_at'' = Inr started"
        "parse_time read_iso (PyStr heartbeat_at) ''heartbeat_at'' = Inr heartbeat"
        and rest: "observed \<le> deadline" "ho_exit_code ho = PyNone \<or> py_eq (ho_exit_code ho) (PyInt (hc_restart_exit_code contract))"
          "requested < started" "started \<le> heartbeat" "\<forall>name \<in> set (hc_criteria contract). truthy (health_attribute ho name)"
          "started + hc_probation_seconds contract * 1000000 \<le> observed" "hd_claims_allowed d"
      using assms unfolding evaluate_def Let_def times res_bind_simps
      by (auto simp: res_bind_Inr_iff filter_empty_conv dest!: blocked_Inr HealthGateDecision_Inr split: if_splits option.splits)
    moreover have "instant read_iso started_at = started" "instant read_iso heartbeat_at = heartbeat"
      using calculation(3,4) by (simp_all add: parse_time_instant)
    ultimately show ?thesis using True seen by auto
  qed
qed

definition tally_reader :: iso_reader where
  "tally_reader t = Inr (Some (1000000 * int (length t)))"

definition sample_contract :: health_contract where
  "sample_contract = \<lparr>hc_requested_at = ''t'', hc_deadline = ''ttttt'', hc_probation_seconds = 2,
     hc_criteria = [''worker_healthy'', ''recovery_clear''], hc_restart_exit_code = 75\<rparr>"

definition sample_observation :: "string \<Rightarrow> health_observation" where
  "sample_observation observed = \<lparr>ho_observed_at = observed, ho_exit_code = PyInt 75, ho_worker_started_at = Some ''tt'',
     ho_heartbeat_at = Some ''ttt'', ho_launcher_alive = PyBool False, ho_worker_healthy = PyBool True,
     ho_protocol_ready = PyBool True, ho_recovery_clear = PyBool True\<rparr>"

lemma sample_evaluated: "evaluate tally_reader sample_contract (sample_observation ''tttt'')
    = Inr \<lparr>hd_status = READY, hd_claims_allowed = True, hd_reasons = [''health_and_probation_verified'']\<rparr>"
  by code_simp

theorem claims_need_probation_witness:
  "hd_status \<lparr>hd_status = READY, hd_claims_allowed = True, hd_reasons = [''health_and_probation_verified'']\<rparr> = READY
    \<and> (\<exists>started heartbeat. ho_worker_started_at (sample_observation ''tttt'') = Some started
        \<and> ho_heartbeat_at (sample_observation ''tttt'') = Some heartbeat
        \<and> instant tally_reader started + 2 * 1000000 \<le> instant tally_reader ''tttt'')"
  using claims_need_probation [OF sample_evaluated] by (auto simp: sample_contract_def sample_observation_def)

end
