(* ===== verification/Json_Raw.thy ===== *)
theory Json_Raw
  imports Text_File
begin

text \<open>
  \<open>json.dumps(value, ensure_ascii=False, sort_keys=True, separators=(",", ":"))\<close>: the compact text with
  sorted keys in which characters outside ASCII stand for themselves, and that it is read back.
\<close>

fun json_raw :: "py \<Rightarrow> string"
  and raw_items :: "py list \<Rightarrow> string list"
  and raw_pairs :: "pydict \<Rightarrow> (string \<times> string) list" where
  "json_raw (PyList xs) = ''['' @ join '','' (raw_items xs) @ '']''"
| "json_raw (PyDict d) = ''{'' @ join '','' (map (\<lambda>(k, v). raw_str k @ '':'' @ v) (sort_key fst (raw_pairs d))) @ ''}''"
| "json_raw (PyStr s) = raw_str s"
| "json_raw v = json_value v"
| "raw_items [] = []"
| "raw_items (x # xs) = json_raw x # raw_items xs"
| "raw_pairs [] = []"
| "raw_pairs ((k, v) # d) = (k, json_raw v) # raw_pairs d"

lemma raw_items_map: "raw_items xs = map json_raw xs"
  by (induction xs) auto

lemma raw_pairs_map: "raw_pairs d = map (\<lambda>(k, v). (k, json_raw v)) d"
  by (induction d) auto

lemma json_raw_dict:
  "json_raw (PyDict d) = ''{'' @ join '','' (map (member_layout raw_str []) (map (\<lambda>(k, v). (k, json_raw v, json_sorted v)) (sort_key fst d))) @ ''}''"
proof -
  have "map (\<lambda>(k, v). raw_str k @ '':'' @ v) (map (\<lambda>(k, v). (k, json_raw v)) e)
      = map (member_layout raw_str []) (map (\<lambda>(k, v). (k, json_raw v, json_sorted v)) e)" for e
    by (simp add: member_layout_def split: prod.split)
  then show ?thesis by (simp only: json_raw.simps raw_pairs_map sort_key_map_snd)
qed

lemma denotes_raw:
  "json_ok v \<Longrightarrow> keeps_objects H \<Longrightarrow> denotes H F (json_raw v) (json_sorted v)"
  "items_ok xs \<Longrightarrow> keeps_objects H \<Longrightarrow> \<forall>x \<in> set xs. denotes H F (json_raw x) (json_sorted x)"
  "pairs_ok d \<Longrightarrow> keeps_objects H \<Longrightarrow> \<forall>(k, v) \<in> set d. denotes H F (json_raw v) (json_sorted v)"
proof (induction v and xs and d rule: json_ok_items_ok_pairs_ok.induct)
  case (2 b)
  then show ?case using denotes_literal(2) [of H F b] by simp
next
  case (6 xs)
  show ?case
  proof (cases "xs = []")
    case True
    then show ?thesis by (auto intro!: denotes_now simp: Let_def)
  next
    case False
    then show ?thesis
      using denotes_list [of "[]" "[]" "map (\<lambda>x. (json_raw x, json_sorted x)) xs" H F] 6
      by (simp add: raw_items_map items_sorted_map comp_def)
  qed
next
  case (7 d)
  let ?ps = "map (\<lambda>(k, v). (k, json_raw v, json_sorted v)) (sort_key fst d)"
  have sorted: "json_sorted (PyDict d) = PyDict (map (\<lambda>(k, s, v). (k, v)) ?ps)"
    by (simp add: pairs_sorted_map sort_key_map_snd) (simp add: comp_def case_prod_unfold)
  have "mset (sort_key fst d) = mset d" by simp
  then have keys: "distinct (map fst (sort_key fst d))" using 7 by (metis json_ok.simps(7) mset_eq_imp_distinct_iff mset_map)
  have object: "H (map (\<lambda>(k, s, v). (k, v)) ?ps) = Inr (PyDict (map (\<lambda>(k, s, v). (k, v)) ?ps))"
    using 7 keys by (simp add: keeps_objects_def comp_def case_prod_unfold)
  show ?case
  proof (cases "sort_key fst d = []")
    case True
    then have "json_raw (PyDict d) = ''{}''" "json_sorted (PyDict d) = PyDict []" unfolding json_raw_dict sorted by simp_all
    then show ?thesis using 7 by (auto intro!: denotes_now simp: Let_def keeps_objects_def)
  next
    case False
    show ?thesis
      unfolding json_raw_dict sorted
      using denotes_dict [of "[]" "[]" "[]" raw_str ?ps H F] object False 7 quotes_raw_str by force
  qed
qed (simp_all add: denotes_literal denotes_int denotes_str [OF quotes_raw_str])

lemma json_raw_sorted:
  "json_raw (json_sorted v) = json_raw v"
  "raw_items (items_sorted xs) = raw_items xs"
  "raw_pairs (pairs_sorted d) = raw_pairs d"
proof (induction v and xs and d rule: json_sorted_items_sorted_pairs_sorted.induct)
  case (2 d)
  have "raw_pairs (sort_key fst (pairs_sorted d)) = sort_key fst (raw_pairs (pairs_sorted d))"
    by (simp add: raw_pairs_map sort_key_map_snd)
  then show ?case using 2 by (simp add: sort_key_id_if_sorted)
qed simp_all

lemma json_raw_no_return:
  "json_ok v \<Longrightarrow> CHR 0x0D \<notin> set (json_raw v)"
  "items_ok xs \<Longrightarrow> \<forall>x \<in> set xs. CHR 0x0D \<notin> set (json_raw x)"
  "pairs_ok d \<Longrightarrow> \<forall>(k, v) \<in> set d. CHR 0x0D \<notin> set (json_raw v)"
proof (induction v and xs and d rule: json_ok_items_ok_pairs_ok.induct)
  case (3 i)
  then show ?case using printable_no_return [of "show_int i"] by simp
next
  case (6 xs)
  then have "CHR 0x0D \<notin> set (join '','' (map json_raw xs))" by (intro join_no_return) simp_all
  then show ?case by (simp add: raw_items_map)
next
  case (7 d)
  have "\<forall>x \<in> set (map (\<lambda>(k, v). raw_str k @ '':'' @ json_raw v) (sort_key fst d)). CHR 0x0D \<notin> set x"
    using 7 raw_str_no_return by auto
  then have "CHR 0x0D \<notin> set (join '','' (map (\<lambda>(k, v). raw_str k @ '':'' @ json_raw v) (sort_key fst d)))"
    by (intro join_no_return) simp_all
  moreover have "map (\<lambda>(k, v). raw_str k @ '':'' @ v) (sort_key fst (raw_pairs d)) = map (\<lambda>(k, v). raw_str k @ '':'' @ json_raw v) (sort_key fst d)"
    by (simp add: raw_pairs_map sort_key_map_snd) (simp add: comp_def case_prod_unfold)
  ultimately show ?case by simp
qed (simp_all add: raw_str_no_return)

text \<open>\<open>json.loads(path.read_text(encoding="utf-8"))\<close> of the text with a line break at its end.\<close>

lemma json_file_raw:
  assumes "json_ok v"
  shows "json_file F (utf8_encode (json_raw v @ [CHR 0x0A])) = Inr (json_sorted v)"
proof -
  note d = denotes_raw(1) [OF assms dict_of_keeps, where F = F]
  have nl: "skip [CHR 0x0A] = []" by (simp add: skip_def json_space_def)
  have "parse_value dict_of F (Suc (2 * length (json_raw v @ [CHR 0x0A]))) (json_raw v @ [CHR 0x0A]) = Inr (json_sorted v, [CHR 0x0A])"
    by (rule denotesD [OF d]) simp_all
  then have "json_loads F (json_raw v @ [CHR 0x0A]) = Inr (json_sorted v)"
    using denotes_skip [OF d, where rest = "[CHR 0x0A]"] nl by (simp add: json_loads_def json_loads_with_def)
  moreover have "CHR 0x0D \<notin> set (json_raw v @ [CHR 0x0A])" using json_raw_no_return(1) [OF assms] by simp
  ultimately show ?thesis by (simp add: json_file_def text_read_encoded)
qed

end
