(* ===== verification/Adoption_Evidence.thy ===== *)
theory Adoption_Evidence
  imports Adoption_Health Json_Raw
begin

text \<open>
  \<open>worker/vnext_runtime/adoption.py\<close>, last part: the evidence of one attempt, and the store that keeps it
  in one file under its digest.  The store replaces the file atomically; what is modelled is the content
  it writes, and what it makes of the content it reads.
\<close>

section \<open>The evidence of an attempt\<close>

definition EVIDENCE_SCHEMA_VERSION :: int where
  "EVIDENCE_SCHEMA_VERSION = 1"

definition MAX_EVIDENCE_BYTES :: nat where
  "MAX_EVIDENCE_BYTES = 64 * 1024"

record attempt_fields =
  af_attempt_id :: py
  af_recorded_at :: py
  af_bootstrap :: py
  af_previous :: py
  af_accepted :: py
  af_latest :: py
  af_reconciled :: py
  af_deadline :: py
  af_criteria :: "py list"
  af_rollback :: rollback_identity
  af_mode :: py
  af_status :: py
  af_failure :: py

record attempt_evidence =
  ae_attempt_id :: string
  ae_recorded_at :: string
  ae_bootstrap_base_sha :: string
  ae_previous_stable_sha :: string
  ae_accepted_sha :: string
  ae_latest_main_sha :: string
  ae_reconciled_sha :: string
  ae_deadline :: string
  ae_criteria :: "string list"
  ae_rollback :: rollback_identity
  ae_mode :: adoption_mode
  ae_status :: string
  ae_failure :: "string option"

definition AdoptionAttemptEvidence :: "iso_reader \<Rightarrow> attempt_fields \<Rightarrow> adoption_exc + attempt_evidence" where
  "AdoptionAttemptEvidence read_iso af =
     res_bind (adoption_token (af_attempt_id af) ''attempt_id'') (\<lambda>attempt_id.
     res_bind (parse_time read_iso (af_recorded_at af) ''recorded_at'') (\<lambda>recorded.
     res_bind (validate_sha (af_bootstrap af) ''bootstrap_base_sha'') (\<lambda>bootstrap.
     res_bind (validate_sha (af_previous af) ''previous_stable_sha'') (\<lambda>previous.
     res_bind (validate_sha (af_accepted af) ''accepted_candidate_sha'') (\<lambda>accepted.
     res_bind (validate_sha (af_latest af) ''latest_main_sha'') (\<lambda>latest.
     res_bind (validate_sha (af_reconciled af) ''reconciled_adoption_sha'') (\<lambda>reconciled.
     res_bind (parse_time read_iso (af_deadline af) ''health_deadline'') (\<lambda>deadline.
     if deadline < recorded then Inl (AdoptionValidationError ''health_deadline_before_evidence'')
     else res_bind (health_criteria (af_criteria af)) (\<lambda>criteria.
     if ri_known_good_sha (af_rollback af) \<noteq> previous then Inl (AdoptionValidationError ''rollback_identity_does_not_bind_previous_stable'')
     else (case adoption_mode_of (af_mode af) of None \<Rightarrow> Inl (AdoptionValidationError ''adoption_mode_invalid'')
     | Some mode \<Rightarrow>
     res_bind (adoption_token (af_status af) ''evidence_status'') (\<lambda>status.
     res_bind (if af_failure af = PyNone then Inr None
         else res_bind (adoption_token (af_failure af) ''failure_reason'') (\<lambda>t. Inr (Some t))) (\<lambda>failure.
       Inr \<lparr>ae_attempt_id = attempt_id, ae_recorded_at = the_str (af_recorded_at af), ae_bootstrap_base_sha = bootstrap,
            ae_previous_stable_sha = previous, ae_accepted_sha = accepted, ae_latest_main_sha = latest,
            ae_reconciled_sha = reconciled, ae_deadline = the_str (af_deadline af), ae_criteria = criteria,
            ae_rollback = af_rollback af, ae_mode = mode, ae_status = status, ae_failure = failure\<rparr>))))))))))))"

definition to_payload :: "attempt_evidence \<Rightarrow> pydict" where
  "to_payload e =
     [(''schema_version'', PyInt EVIDENCE_SCHEMA_VERSION), (''attempt_id'', PyStr (ae_attempt_id e)),
      (''recorded_at'', PyStr (ae_recorded_at e)), (''bootstrap_base_sha'', PyStr (ae_bootstrap_base_sha e)),
      (''previous_stable_sha'', PyStr (ae_previous_stable_sha e)), (''accepted_candidate_sha'', PyStr (ae_accepted_sha e)),
      (''latest_main_sha'', PyStr (ae_latest_main_sha e)), (''reconciled_adoption_sha'', PyStr (ae_reconciled_sha e)),
      (''health_deadline'', PyStr (ae_deadline e)), (''health_criteria'', PyList (map PyStr (ae_criteria e))),
      (''rollback_identity'', PyDict (rollback_dict (ae_rollback e))), (''mode'', PyStr (mode_value (ae_mode e))),
      (''status'', PyStr (ae_status e)),
      (''failure_reason'', case ae_failure e of None \<Rightarrow> PyNone | Some t \<Rightarrow> PyStr t)]"

definition evidence_json :: "pydict \<Rightarrow> string" where
  "evidence_json d = utf8_encode (json_raw (PyDict d))"

definition integrity_sha256 :: "attempt_evidence \<Rightarrow> string" where
  "integrity_sha256 e = sha256_hex (evidence_json (to_payload e))"

definition required_fields :: "string list" where
  "required_fields = [''schema_version'', ''attempt_id'', ''recorded_at'', ''bootstrap_base_sha'', ''previous_stable_sha'',
     ''accepted_candidate_sha'', ''latest_main_sha'', ''reconciled_adoption_sha'', ''health_deadline'', ''health_criteria'',
     ''rollback_identity'', ''mode'']"

definition payload_rejected :: "adoption_exc + 'a \<Rightarrow> adoption_exc + 'a" where
  "payload_rejected r = (case r of Inr x \<Rightarrow> Inr x
     | Inl e \<Rightarrow> Inl (if is_validation_error e \<or> (case e of Raised x \<Rightarrow> is_type_error x \<or> is_value_error x | _ \<Rightarrow> False)
         then EvidenceIntegrityError ''evidence_payload_invalid'' else e))"

definition from_payload :: "iso_reader \<Rightarrow> pydict \<Rightarrow> adoption_exc + attempt_evidence" where
  "from_payload read_iso payload =
     (if \<not> set (dkeys payload) \<subseteq> set (required_fields @ [''status'', ''failure_reason'']) \<or> \<not> set required_fields \<subseteq> set (dkeys payload)
        \<or> \<not> py_eq (dget payload ''schema_version'') (PyInt EVIDENCE_SCHEMA_VERSION)
      then Inl (EvidenceIntegrityError ''evidence_schema_invalid'')
      else (case (dget payload ''health_criteria'', dget payload ''rollback_identity'') of
        (PyList criteria, PyDict rollback) \<Rightarrow> payload_rejected
          (res_bind (RollbackIdentity (dget rollback ''known_good_sha'') (dget_or rollback ''branch'' (PyStr ''main''))
              (dget_or rollback ''controller'' (PyStr ''outer_launcher''))) (\<lambda>identity.
           AdoptionAttemptEvidence read_iso
             \<lparr>af_attempt_id = dget payload ''attempt_id'', af_recorded_at = dget payload ''recorded_at'',
              af_bootstrap = dget payload ''bootstrap_base_sha'', af_previous = dget payload ''previous_stable_sha'',
              af_accepted = dget payload ''accepted_candidate_sha'', af_latest = dget payload ''latest_main_sha'',
              af_reconciled = dget payload ''reconciled_adoption_sha'', af_deadline = dget payload ''health_deadline'',
              af_criteria = criteria, af_rollback = identity, af_mode = dget payload ''mode'',
              af_status = dget_or payload ''status'' (PyStr ''PLANNED''), af_failure = dget payload ''failure_reason''\<rparr>))
      | _ \<Rightarrow> Inl (EvidenceIntegrityError ''evidence_shape_invalid'')))"

section \<open>The store\<close>

definition evidence_envelope :: "attempt_evidence \<Rightarrow> pydict" where
  "evidence_envelope e = [(''schema_version'', PyInt EVIDENCE_SCHEMA_VERSION), (''payload'', PyDict (to_payload e)),
     (''payload_sha256'', PyStr (integrity_sha256 e))]"

definition write_evidence :: "attempt_evidence \<Rightarrow> adoption_exc + string" where
  "write_evidence e =
     (let encoded = evidence_json (evidence_envelope e) @ [CHR 0x0A] in
      if MAX_EVIDENCE_BYTES < length encoded then Inl (EvidenceIntegrityError ''evidence_too_large'') else Inr encoded)"

text \<open>What the file holds, or the error that the system gives for it, is an argument.\<close>

definition evidence_document :: "(string \<Rightarrow> py) \<Rightarrow> pyexc + string \<Rightarrow> adoption_exc + py" where
  "evidence_document float_of content =
     (case content of Inl e \<Rightarrow> Inl (if is_os_error e then EvidenceIntegrityError ''evidence_unreadable'' else Raised e)
      | Inr bytes \<Rightarrow>
          if MAX_EVIDENCE_BYTES < length bytes then Inl (EvidenceIntegrityError ''evidence_too_large'')
          else (case json_file float_of bytes of
              Inr v \<Rightarrow> Inr v
            | Inl (UnicodeError _) \<Rightarrow> Inl (EvidenceIntegrityError ''evidence_unreadable'')
            | Inl (JSONDecodeError _) \<Rightarrow> Inl (EvidenceIntegrityError ''evidence_unreadable'')
            | Inl e \<Rightarrow> Inl (Raised e)))"

definition digest_text :: "py \<Rightarrow> bool" where
  "digest_text v = (case v of PyStr s \<Rightarrow> SHA_RE s \<or> (length s = 64 \<and> list_all is_hex_lower s) | _ \<Rightarrow> False)"

definition read_evidence :: "iso_reader \<Rightarrow> (string \<Rightarrow> py) \<Rightarrow> pyexc + string \<Rightarrow> adoption_exc + attempt_evidence" where
  "read_evidence read_iso float_of content =
     res_bind (evidence_document float_of content) (\<lambda>v.
     case v of
       PyDict raw \<Rightarrow>
         if set (dkeys raw) \<noteq> set [''schema_version'', ''payload'', ''payload_sha256'']
           \<or> \<not> py_eq (dget raw ''schema_version'') (PyInt EVIDENCE_SCHEMA_VERSION)
         then Inl (EvidenceIntegrityError ''evidence_envelope_invalid'')
         else (case dget raw ''payload'' of
           PyDict payload \<Rightarrow>
             if \<not> digest_text (dget raw ''payload_sha256'') then Inl (EvidenceIntegrityError ''evidence_digest_invalid'')
             else if PyStr (sha256_hex (evidence_json payload)) \<noteq> dget raw ''payload_sha256''
             then Inl (EvidenceIntegrityError ''evidence_digest_mismatch'')
             else from_payload read_iso payload
         | _ \<Rightarrow> Inl (EvidenceIntegrityError ''evidence_envelope_invalid''))
     | _ \<Rightarrow> Inl (EvidenceIntegrityError ''evidence_envelope_invalid''))"

section \<open>Accepted values are accepted again\<close>

lemma adoption_text_again: "adoption_text v label n = Inr t \<Longrightarrow> adoption_text (PyStr t) label' n = Inr t"
  by (auto simp: adoption_text_def Let_def split: py.splits if_splits)

lemma adoption_token_again: "adoption_token v label = Inr t \<Longrightarrow> adoption_token (PyStr t) label' = Inr t"
  by (auto simp: adoption_token_def res_bind_Inr_iff dest: adoption_text_again [where label' = label'] split: if_splits)

lemma validate_main_branch_again: "validate_main_branch v label = Inr b \<Longrightarrow> validate_main_branch (PyStr b) label' = Inr b"
  by (auto simp: validate_main_branch_def Let_def split: py.splits if_splits)

lemma validate_sha_again: "validate_sha v label = Inr s \<Longrightarrow> validate_sha (PyStr s) label' = Inr s"
  by (rule is_sha_validate, rule validate_sha_is_sha)

lemma parse_time_text: "parse_time read_iso v label = Inr i \<Longrightarrow> \<exists>s. v = PyStr s"
  by (auto simp: parse_time_def adoption_text_def split: py.splits)

lemma fromkeys_distinct: "distinct xs \<Longrightarrow> fromkeys xs = xs"
proof (induction xs)
  case (Cons x xs)
  then have "filter (\<lambda>y. y \<noteq> x) xs = xs" by (intro filter_True) auto
  then show ?case using Cons by simp
qed simp

lemma distinct_fromkeys_length: "length (fromkeys xs) \<le> length xs"
  by (induction xs) (auto intro: order_trans [OF length_filter_le])

lemma health_criteria_again:
  assumes "health_criteria items = Inr cs"
  shows "health_criteria (map PyStr cs) = Inr cs"
proof -
  from assms obtain ts where ts: "res_map (\<lambda>item. adoption_token item ''health_criterion'') items = Inr ts"
      and cs: "cs = fromkeys ts" "ts \<noteq> []" "length ts \<le> MAX_HEALTH_CRITERIA" "set ts \<subseteq> set HEALTH_ATTRIBUTES"
    by (auto simp: health_criteria_def res_bind_Inr_iff split: if_splits)
  have "\<forall>t \<in> set ts. adoption_token (PyStr t) ''health_criterion'' = Inr t"
    using ts by (induction items arbitrary: ts) (auto simp: res_bind_Inr_iff adoption_token_again)
  then have "res_map (\<lambda>item. adoption_token item ''health_criterion'') (map PyStr cs) = Inr (map the_str (map PyStr cs))"
    by (intro res_map_Inr) (simp add: cs)
  moreover have "map the_str (map PyStr cs) = cs" by (simp add: comp_def)
  moreover have "length cs \<le> MAX_HEALTH_CRITERIA" using cs distinct_fromkeys_length [of ts] by simp
  moreover have "fromkeys cs = cs" by (simp add: cs fromkeys_distinct)
  moreover have "cs \<noteq> []" "set cs \<subseteq> set HEALTH_ATTRIBUTES" using cs by simp_all
  ultimately show ?thesis by (simp add: health_criteria_def)
qed

lemma mode_value_again: "adoption_mode_of (PyStr (mode_value m)) = Some m"
  by (simp add: adoption_mode_of_def mode_value_def split: adoption_mode.split)

section \<open>What is written is read back\<close>

definition evidence_stable :: "iso_reader \<Rightarrow> attempt_evidence \<Rightarrow> bool" where
  "evidence_stable read_iso e \<longleftrightarrow>
     RollbackIdentity (PyStr (ri_known_good_sha (ae_rollback e))) (PyStr (ri_branch (ae_rollback e))) (PyStr (ri_controller (ae_rollback e)))
       = Inr (ae_rollback e)
     \<and> AdoptionAttemptEvidence read_iso
         \<lparr>af_attempt_id = PyStr (ae_attempt_id e), af_recorded_at = PyStr (ae_recorded_at e), af_bootstrap = PyStr (ae_bootstrap_base_sha e),
          af_previous = PyStr (ae_previous_stable_sha e), af_accepted = PyStr (ae_accepted_sha e), af_latest = PyStr (ae_latest_main_sha e),
          af_reconciled = PyStr (ae_reconciled_sha e), af_deadline = PyStr (ae_deadline e), af_criteria = map PyStr (ae_criteria e),
          af_rollback = ae_rollback e, af_mode = PyStr (mode_value (ae_mode e)), af_status = PyStr (ae_status e),
          af_failure = (case ae_failure e of None \<Rightarrow> PyNone | Some t \<Rightarrow> PyStr t)\<rparr> = Inr e"

lemma RollbackIdentity_again:
  "RollbackIdentity k b c = Inr r \<Longrightarrow> RollbackIdentity (PyStr (ri_known_good_sha r)) (PyStr (ri_branch r)) (PyStr (ri_controller r)) = Inr r"
  by (auto simp: RollbackIdentity_def res_bind_Inr_iff validate_sha_again validate_main_branch_again adoption_token_again)

lemma constructed_is_stable:
  assumes "AdoptionAttemptEvidence read_iso af = Inr e" "RollbackIdentity k b c = Inr (af_rollback af)"
  shows "evidence_stable read_iso e"
proof -
  from assms(1) obtain recorded deadline r d where
      parts: "adoption_token (af_attempt_id af) ''attempt_id'' = Inr (ae_attempt_id e)"
        "validate_sha (af_bootstrap af) ''bootstrap_base_sha'' = Inr (ae_bootstrap_base_sha e)"
        "validate_sha (af_previous af) ''previous_stable_sha'' = Inr (ae_previous_stable_sha e)"
        "validate_sha (af_accepted af) ''accepted_candidate_sha'' = Inr (ae_accepted_sha e)"
        "validate_sha (af_latest af) ''latest_main_sha'' = Inr (ae_latest_main_sha e)"
        "validate_sha (af_reconciled af) ''reconciled_adoption_sha'' = Inr (ae_reconciled_sha e)"
        "health_criteria (af_criteria af) = Inr (ae_criteria e)"
        "adoption_token (af_status af) ''evidence_status'' = Inr (ae_status e)"
      and times: "parse_time read_iso (af_recorded_at af) ''recorded_at'' = Inr recorded"
        "parse_time read_iso (af_deadline af) ''health_deadline'' = Inr deadline" "\<not> deadline < recorded"
        "ae_recorded_at e = the_str (af_recorded_at af)" "ae_deadline e = the_str (af_deadline af)"
      and rest: "ae_rollback e = af_rollback af" "ri_known_good_sha (af_rollback af) = ae_previous_stable_sha e"
        "\<forall>t. ae_failure e = Some t \<longrightarrow> adoption_token (af_failure af) ''failure_reason'' = Inr t"
    by (auto simp: AdoptionAttemptEvidence_def res_bind_Inr_iff split: if_splits option.splits)
  have "parse_time read_iso (PyStr (ae_recorded_at e)) ''recorded_at'' = Inr recorded"
      "parse_time read_iso (PyStr (ae_deadline e)) ''health_deadline'' = Inr deadline"
    using times parse_time_text [OF times(1)] parse_time_text [OF times(2)] by auto
  moreover have "e = \<lparr>ae_attempt_id = ae_attempt_id e, ae_recorded_at = ae_recorded_at e, ae_bootstrap_base_sha = ae_bootstrap_base_sha e,
      ae_previous_stable_sha = ae_previous_stable_sha e, ae_accepted_sha = ae_accepted_sha e, ae_latest_main_sha = ae_latest_main_sha e,
      ae_reconciled_sha = ae_reconciled_sha e, ae_deadline = ae_deadline e, ae_criteria = ae_criteria e, ae_rollback = af_rollback af,
      ae_mode = ae_mode e, ae_status = ae_status e, ae_failure = ae_failure e\<rparr>"
    using rest(1) by simp
  ultimately show ?thesis
    using times(3) rest RollbackIdentity_again [OF assms(2)]
      parts(1) [THEN adoption_token_again] parts(2-6) [THEN validate_sha_again] parts(7) [THEN health_criteria_again] parts(8) [THEN adoption_token_again]
    by (cases "ae_failure e") (simp_all add: evidence_stable_def AdoptionAttemptEvidence_def mode_value_again adoption_token_again)
qed

lemma short_schema [simp]: "short_int 1"
  by code_simp

lemma payload_ok: "json_ok (PyDict (to_payload e))"
  by (simp add: to_payload_def rollback_dict_def items_ok_iff EVIDENCE_SCHEMA_VERSION_def split: option.split)

lemma envelope_ok: "json_ok (PyDict (evidence_envelope e))"
  using payload_ok [of e] by (simp add: evidence_envelope_def EVIDENCE_SCHEMA_VERSION_def)

lemma from_payload_sorted:
  assumes "evidence_stable read_iso e"
  shows "from_payload read_iso (sort_key fst (pairs_sorted (to_payload e))) = Inr e"
proof -
  let ?d = "sort_key fst (pairs_sorted (to_payload e))"
  have keys: "distinct (map fst (to_payload e))" by (simp add: to_payload_def)
  have get: "dget ?d k = json_sorted (dget (to_payload e) k)" for k by (rule dget_sorted [OF keys])
  have "map_of ?d = map_of (pairs_sorted (to_payload e))" by (rule map_of_sort_key) (use keys in simp)
  then have get_or: "dget_or ?d k v = (case map_of (to_payload e) k of Some w \<Rightarrow> json_sorted w | None \<Rightarrow> v)" for k v
    by (simp add: dget_or_def map_of_pairs_sorted split: option.split)
  have names: "set (dkeys ?d) = set (required_fields @ [''status'', ''failure_reason''])"
  proof -
    have "set (dkeys ?d) = fst ` set (pairs_sorted (to_payload e))" by (simp add: dkeys_def)
    also have "\<dots> = set (map fst (to_payload e))" using dkeys_pairs_sorted [of "to_payload e"] by (metis list.set_map)
    finally show ?thesis by (auto simp: to_payload_def required_fields_def)
  qed
  have rollback_keys: "distinct (map fst (rollback_dict r))" for r by (simp add: rollback_dict_def)
  have rb: "dget (sort_key fst (pairs_sorted (rollback_dict r))) k = json_sorted (dget (rollback_dict r) k)" for r k
    by (rule dget_sorted [OF rollback_keys])
  have "map_of (sort_key fst (pairs_sorted (rollback_dict r))) = map_of (pairs_sorted (rollback_dict r))" for r
    by (rule map_of_sort_key) (use rollback_keys in simp)
  then have rb_or: "dget_or (sort_key fst (pairs_sorted (rollback_dict r))) k v
      = (case map_of (rollback_dict r) k of Some w \<Rightarrow> json_sorted w | None \<Rightarrow> v)" for r k v
    by (simp add: dget_or_def map_of_pairs_sorted split: option.split)
  have shape: "dget ?d ''health_criteria'' = PyList (map PyStr (ae_criteria e))"
      "dget ?d ''rollback_identity'' = PyDict (sort_key fst (pairs_sorted (rollback_dict (ae_rollback e))))"
    by (simp_all add: get to_payload_def items_sorted_map)
  have schema: "py_eq (dget ?d ''schema_version'') (PyInt EVIDENCE_SCHEMA_VERSION)" by (simp add: get to_payload_def num_eq_def num_of_def)
  have accepted: "\<not> set (dkeys ?d) \<subseteq> set (required_fields @ [''status'', ''failure_reason'']) \<or> \<not> set required_fields \<subseteq> set (dkeys ?d)
      \<or> \<not> py_eq (dget ?d ''schema_version'') (PyInt EVIDENCE_SCHEMA_VERSION) \<longleftrightarrow> False"
    using names schema by auto
  have identity: "RollbackIdentity (dget (sort_key fst (pairs_sorted (rollback_dict (ae_rollback e)))) ''known_good_sha'')
      (dget_or (sort_key fst (pairs_sorted (rollback_dict (ae_rollback e)))) ''branch'' (PyStr ''main''))
      (dget_or (sort_key fst (pairs_sorted (rollback_dict (ae_rollback e)))) ''controller'' (PyStr ''outer_launcher'')) = Inr (ae_rollback e)"
    using assms by (simp add: rb rb_or rollback_dict_def evidence_stable_def dget_or_def)
  have fields: "dget ?d ''attempt_id'' = PyStr (ae_attempt_id e)" "dget ?d ''recorded_at'' = PyStr (ae_recorded_at e)"
      "dget ?d ''bootstrap_base_sha'' = PyStr (ae_bootstrap_base_sha e)" "dget ?d ''previous_stable_sha'' = PyStr (ae_previous_stable_sha e)"
      "dget ?d ''accepted_candidate_sha'' = PyStr (ae_accepted_sha e)" "dget ?d ''latest_main_sha'' = PyStr (ae_latest_main_sha e)"
      "dget ?d ''reconciled_adoption_sha'' = PyStr (ae_reconciled_sha e)" "dget ?d ''health_deadline'' = PyStr (ae_deadline e)"
      "dget ?d ''mode'' = PyStr (mode_value (ae_mode e))" "dget_or ?d ''status'' (PyStr ''PLANNED'') = PyStr (ae_status e)"
      "dget ?d ''failure_reason'' = (case ae_failure e of None \<Rightarrow> PyNone | Some t \<Rightarrow> PyStr t)"
    by (simp_all add: get to_payload_def dget_or_def split: option.split)
  have "from_payload read_iso ?d = payload_rejected (Inr e)"
    unfolding from_payload_def accepted if_False shape fields prod.case py.case identity res_bind_simps
    using assms by (simp add: evidence_stable_def)
  then show ?thesis by (simp add: payload_rejected_def)
qed

lemma digest_text_sha [simp]: "digest_text (PyStr (sha256_hex t))"
  by (simp add: digest_text_def)

text \<open>The envelope as it is read: the payload's keys are sorted, and its canonical text is the same.\<close>

lemma evidence_json_sorted: "evidence_json (sort_key fst (pairs_sorted d)) = evidence_json d"
  using json_raw_sorted(1) [of "PyDict d"] by (simp only: evidence_json_def json_sorted.simps)

lemma envelope_sorted:
  "json_sorted (PyDict (evidence_envelope e))
    = PyDict [(''payload'', PyDict (sort_key fst (pairs_sorted (to_payload e)))), (''payload_sha256'', PyStr (integrity_sha256 e)),
        (''schema_version'', PyInt EVIDENCE_SCHEMA_VERSION)]"
  by (simp add: evidence_envelope_def)

lemma written_document:
  assumes "write_evidence e = Inr bytes"
  shows "evidence_document F (Inr bytes) = Inr (json_sorted (PyDict (evidence_envelope e)))"
proof -
  have plain: "utf8_encode [CHR 0x0A] = [CHR 0x0A]" by code_simp
  have "bytes = utf8_encode (json_raw (PyDict (evidence_envelope e)) @ [CHR 0x0A])" and "length bytes \<le> MAX_EVIDENCE_BYTES"
    using assms plain by (auto simp: write_evidence_def Let_def evidence_json_def utf8_encode_def split: if_splits)
  then show ?thesis using json_file_raw [OF envelope_ok, of F e] by (simp add: evidence_document_def)
qed

lemma written_is_read:
  assumes "RollbackIdentity known_good branch controller = Inr (af_rollback af)" "AdoptionAttemptEvidence read_iso af = Inr e"
    "write_evidence e = Inr bytes"
  shows "read_evidence read_iso F (Inr bytes) = Inr e"
proof -
  have digest: "PyStr (sha256_hex (evidence_json (sort_key fst (pairs_sorted (to_payload e))))) = PyStr (integrity_sha256 e)"
    by (simp add: evidence_json_sorted integrity_sha256_def)
  have digest_shape: "digest_text (PyStr (integrity_sha256 e))" by (simp add: integrity_sha256_def)
  have payload: "from_payload read_iso (sort_key fst (pairs_sorted (to_payload e))) = Inr e"
    by (rule from_payload_sorted) (rule constructed_is_stable [OF assms(2,1)])
  have one: "py_eq (PyInt EVIDENCE_SCHEMA_VERSION) (PyInt EVIDENCE_SCHEMA_VERSION)" by (simp add: num_eq_def num_of_def)
  show ?thesis
    unfolding read_evidence_def written_document [OF assms(3)] envelope_sorted res_bind_simps py.case
    using digest digest_shape payload one by (simp add: dkeys_def insert_commute)
qed

text \<open>
  C15: the evidence of an attempt, once its constructor has accepted it and the store has written it, is read back from
  the file as it was: the digest of the payload is found to be the one in the envelope although the parser
  returns the fields in another order, and every validator accepts its own result again.
\<close>

theorem evidence_round_trip:
  assumes "RollbackIdentity known_good branch controller = Inr (af_rollback af)" "AdoptionAttemptEvidence read_iso af = Inr e"
    "write_evidence e = Inr bytes"
  shows "read_evidence read_iso F (Inr bytes) = Inr e"
  by (rule written_is_read [OF assms])

text \<open>
  What the store accepts is bound to its digest: evidence is returned only from an envelope whose
  payload has the recorded SHA-256, over its canonical text, and the evidence binds the rollback to the
  previous stable commit.
\<close>

theorem accepted_evidence_is_bound:
  assumes "read_evidence read_iso F content = Inr e"
  shows "\<exists>raw payload. evidence_document F content = Inr (PyDict raw) \<and> dget raw ''payload'' = PyDict payload
    \<and> dget raw ''payload_sha256'' = PyStr (sha256_hex (evidence_json payload))
    \<and> from_payload read_iso payload = Inr e \<and> ri_known_good_sha (ae_rollback e) = ae_previous_stable_sha e"
proof -
  obtain v where v: "evidence_document F content = Inr v"
    using assms by (cases "evidence_document F content") (simp_all add: read_evidence_def)
  obtain raw where raw: "evidence_document F content = Inr (PyDict raw)"
    using assms unfolding read_evidence_def v res_bind_simps by (cases v) (simp_all add: v)
  note step = assms [unfolded read_evidence_def raw res_bind_simps py.case]
  obtain payload where payload: "dget raw ''payload'' = PyDict payload"
    using step by (cases "dget raw ''payload''") (auto split: if_splits)
  have got: "dget raw ''payload_sha256'' = PyStr (sha256_hex (evidence_json payload))" "from_payload read_iso payload = Inr e"
    using step unfolding payload by (auto split: if_splits)
  obtain af where "AdoptionAttemptEvidence read_iso af = Inr e"
    using got(2) by (auto simp: from_payload_def payload_rejected_def res_bind_Inr_iff split: if_splits py.splits sum.splits)
  then have "ri_known_good_sha (ae_rollback e) = ae_previous_stable_sha e"
    by (auto simp: AdoptionAttemptEvidence_def res_bind_Inr_iff split: if_splits option.splits)
  then show ?thesis using raw payload got by blast
qed

section \<open>Samples\<close>

definition sample_attempt :: attempt_fields where
  "sample_attempt = \<lparr>af_attempt_id = PyStr ''a1'', af_recorded_at = PyStr ''t'', af_bootstrap = PyStr (sample_sha CHR ''1''),
     af_previous = PyStr (sample_sha CHR ''4''), af_accepted = PyStr (sample_sha CHR ''2''), af_latest = PyStr (sample_sha CHR ''3''),
     af_reconciled = PyStr (sample_sha CHR ''5''), af_deadline = PyStr ''tt'', af_criteria = [PyStr ''worker_healthy''],
     af_rollback = \<lparr>ri_known_good_sha = sample_sha CHR ''4'', ri_branch = ''main'', ri_controller = ''outer''\<rparr>,
     af_mode = PyStr ''manual'', af_status = PyStr ''PLANNED'', af_failure = PyNone\<rparr>"

definition sample_evidence :: attempt_evidence where
  "sample_evidence = \<lparr>ae_attempt_id = ''a1'', ae_recorded_at = ''t'', ae_bootstrap_base_sha = sample_sha CHR ''1'',
     ae_previous_stable_sha = sample_sha CHR ''4'', ae_accepted_sha = sample_sha CHR ''2'', ae_latest_main_sha = sample_sha CHR ''3'',
     ae_reconciled_sha = sample_sha CHR ''5'', ae_deadline = ''tt'', ae_criteria = [''worker_healthy''],
     ae_rollback = \<lparr>ri_known_good_sha = sample_sha CHR ''4'', ri_branch = ''main'', ri_controller = ''outer''\<rparr>,
     ae_mode = MANUAL, ae_status = ''PLANNED'', ae_failure = None\<rparr>"

lemma sample_rollback_identity: "RollbackIdentity (PyStr (sample_sha CHR ''4'')) (PyStr ''main'') (PyStr ''outer'') = Inr (af_rollback sample_attempt)"
  by code_simp

lemma sample_attempt_accepted: "AdoptionAttemptEvidence tally_reader sample_attempt = Inr sample_evidence"
  by code_simp

lemma raw_str_length: "length (raw_str s) \<le> 2 + 6 * length s"
proof -
  have "length (raw_char c) \<le> 6" for c by (simp add: raw_char_def Let_def)
  then have "length (concat (map raw_char s)) \<le> 6 * length s" by (induction s) (auto intro: add_mono)
  then show ?thesis by (simp add: raw_str_def)
qed

lemma utf8_length: "length (utf8_encode s) \<le> 2 * length s"
proof -
  have two: "length (utf8_char c) \<le> 2" for c by (simp add: utf8_char_def Let_def)
  have "length (concat (map utf8_char s)) \<le> 2 * length s"
  proof (induction s)
    case (Cons a s)
    show ?case using Cons.IH two [of a] by simp
  qed simp
  then show ?thesis by (simp add: utf8_encode_def)
qed

text \<open>The size of the file depends on the payload only: the digest has 64 characters.\<close>

lemma small_payload_written:
  assumes "length (json_raw (PyDict (to_payload e))) \<le> 30000"
  shows "\<exists>bytes. write_evidence e = Inr bytes"
proof -
  have digest: "length (raw_str (integrity_sha256 e)) \<le> 400"
    using raw_str_length [of "integrity_sha256 e"] by (simp add: integrity_sha256_def)
  have one: "length (json_value (PyInt EVIDENCE_SCHEMA_VERSION)) \<le> 1" by code_simp
  have "length (json_raw (PyDict (evidence_envelope e))) \<le> 32000"
    using assms digest one raw_str_length [of "''payload''"] raw_str_length [of "''payload_sha256''"] raw_str_length [of "''schema_version''"]
    by (simp add: evidence_envelope_def del: json_value.simps json_raw.simps(2)) (simp add: evidence_envelope_def)
  then have "length (evidence_json (evidence_envelope e) @ [CHR 0x0A]) \<le> MAX_EVIDENCE_BYTES"
    using utf8_length [of "json_raw (PyDict (evidence_envelope e))"] by (simp add: evidence_json_def MAX_EVIDENCE_BYTES_def)
  then show ?thesis by (simp add: write_evidence_def Let_def)
qed

lemma sample_payload_small: "length (json_raw (PyDict (to_payload sample_evidence))) \<le> 30000"
  by code_simp

theorem evidence_round_trip_witness:
  "\<exists>bytes. write_evidence sample_evidence = Inr bytes \<and> read_evidence tally_reader PyStr (Inr bytes) = Inr sample_evidence"
  using small_payload_written [OF sample_payload_small] evidence_round_trip [OF sample_rollback_identity sample_attempt_accepted, where F = PyStr]
  by blast

theorem accepted_evidence_is_bound_witness: "\<exists>bytes raw. write_evidence sample_evidence = Inr bytes
    \<and> evidence_document PyStr (Inr bytes) = Inr (PyDict raw)
    \<and> ri_known_good_sha (ae_rollback sample_evidence) = ae_previous_stable_sha sample_evidence"
proof -
  obtain bytes where bytes: "write_evidence sample_evidence = Inr bytes" using small_payload_written [OF sample_payload_small] by blast
  from accepted_evidence_is_bound [OF written_is_read [OF sample_rollback_identity sample_attempt_accepted this, where F = PyStr]]
  show ?thesis using bytes by blast
qed

end
