(* ===== verification/Adoption_Barrier.thy ===== *)
theory Adoption_Barrier
  imports Adoption_Values
begin

text \<open>
  \<open>worker/vnext_runtime/adoption.py\<close>, sixth part: the admission barrier.  Every method runs under one
  lock, so it is one step; a method that waits on the condition is a step for each time it holds the
  lock.  A lease is an object: it carries the number under which it was created, and the flag of a closed
  lease is kept in the state.
\<close>

section \<open>Systems of steps\<close>

text \<open>What every step keeps holds in every reachable state, and what a step can only bring forward is never behind.\<close>

locale advancing_system =
  fixes step :: "'s \<Rightarrow> 's \<Rightarrow> bool" and ok :: "'s \<Rightarrow> bool" and ahead :: "'s \<Rightarrow> 's \<Rightarrow> bool"
  assumes step_keeps: "step s t \<Longrightarrow> ok s \<Longrightarrow> ok t"
    and step_advances: "step s t \<Longrightarrow> ahead s t"
    and ahead_refl: "ahead s s"
    and ahead_trans: "ahead s t \<Longrightarrow> ahead t u \<Longrightarrow> ahead s u"
begin

lemma reachable_keeps: "step\<^sup>*\<^sup>* s t \<Longrightarrow> ok s \<Longrightarrow> ok t"
  by (induction rule: rtranclp_induct) (auto intro: step_keeps)

lemma reachable_advances: "step\<^sup>*\<^sup>* s t \<Longrightarrow> ahead s t"
  by (induction rule: rtranclp_induct) (auto intro: ahead_refl ahead_trans step_advances)

end

section \<open>State\<close>

datatype barrier_state = BARRIER_RUNNING | BARRIER_DRAINING | BARRIER_DRAINED | BARRIER_CLOSED

record admission_lease =
  lease_number :: nat
  lease_admission_id :: string

record barrier =
  ba_state :: barrier_state
  ba_max_active :: "int option"
  ba_leases :: "(string \<times> nat) list"
  ba_closed :: "nat list"
  ba_next :: nat

definition AdmissionBarrier :: "py \<Rightarrow> adoption_exc + barrier" where
  "AdmissionBarrier max_active =
     (if max_active \<noteq> PyNone \<and> (\<not> is_int max_active \<or> the_int max_active < 1) then Inl (AdmissionBarrierError ''max_active_invalid'')
      else Inr \<lparr>ba_state = BARRIER_RUNNING, ba_max_active = (if max_active = PyNone then None else Some (the_int max_active)),
                ba_leases = [], ba_closed = [], ba_next = 0\<rparr>)"

section \<open>Operations\<close>

definition restart_ready :: "barrier \<Rightarrow> bool" where
  "restart_ready b \<longleftrightarrow> ba_state b \<in> {BARRIER_DRAINED, BARRIER_CLOSED} \<and> ba_leases b = []"

definition active_count :: "barrier \<Rightarrow> nat" where
  "active_count b = length (ba_leases b)"

definition active_ids :: "barrier \<Rightarrow> string list" where
  "active_ids b = sort (map fst (ba_leases b))"

definition full :: "barrier \<Rightarrow> bool" where
  "full b \<longleftrightarrow> (case ba_max_active b of None \<Rightarrow> False | Some m \<Rightarrow> m \<le> int (length (ba_leases b)))"

definition try_admit :: "py \<Rightarrow> barrier \<Rightarrow> adoption_exc + (admission_lease option \<times> barrier)" where
  "try_admit admission_id b =
     res_bind (adoption_text admission_id ''admission_id'' 256) (\<lambda>identifier.
       if ba_state b \<noteq> BARRIER_RUNNING then Inr (None, b)
       else if identifier \<in> set (map fst (ba_leases b)) then Inr (None, b)
       else if full b then Inr (None, b)
       else Inr (Some \<lparr>lease_number = ba_next b, lease_admission_id = identifier\<rparr>,
                 b\<lparr>ba_leases := ba_leases b @ [(identifier, ba_next b)], ba_next := Suc (ba_next b)\<rparr>))"

definition release :: "admission_lease \<Rightarrow> barrier \<Rightarrow> bool \<times> barrier" where
  "release l b =
     (if map_of (ba_leases b) (lease_admission_id l) \<noteq> Some (lease_number l) then (False, b)
      else let rest = filter (\<lambda>(i, _). i \<noteq> lease_admission_id l) (ba_leases b) in
        (True, b\<lparr>ba_leases := rest,
                 ba_state := (if ba_state b = BARRIER_DRAINING \<and> rest = [] then BARRIER_DRAINED else ba_state b)\<rparr>))"

definition lease_active :: "admission_lease \<Rightarrow> barrier \<Rightarrow> bool" where
  "lease_active l b \<longleftrightarrow> lease_number l \<notin> set (ba_closed b)"

definition lease_close :: "admission_lease \<Rightarrow> barrier \<Rightarrow> bool \<times> barrier" where
  "lease_close l b = (if \<not> lease_active l b then (False, b) else release l (b\<lparr>ba_closed := lease_number l # ba_closed b\<rparr>))"

definition close_barrier :: "barrier \<Rightarrow> adoption_exc + barrier" where
  "close_barrier b = (if ba_leases b \<noteq> [] then Inl (AdmissionBarrierError ''cannot_close_with_active_runs'')
     else Inr (b\<lparr>ba_state := BARRIER_CLOSED\<rparr>))"

text \<open>
  \<open>begin_draining\<close>: what it does before it first looks at the leases, and what it does each time it
  looks: it returns, or it waits.  The timeout is a number of seconds.
\<close>

definition drain_start :: "barrier \<Rightarrow> bool option \<times> barrier" where
  "drain_start b =
     (if ba_state b = BARRIER_CLOSED then (Some (ba_leases b = []), b)
      else (None, b\<lparr>ba_state := (if ba_state b = BARRIER_RUNNING then BARRIER_DRAINING else ba_state b)\<rparr>))"

definition drain_check :: "rat option \<Rightarrow> rat \<Rightarrow> barrier \<Rightarrow> bool option \<times> barrier" where
  "drain_check deadline now b =
     (if ba_leases b = [] then (Some True, b\<lparr>ba_state := BARRIER_DRAINED\<rparr>)
      else (case deadline of None \<Rightarrow> (None, b) | Some d \<Rightarrow> if d - now \<le> 0 then (Some False, b) else (None, b)))"

text \<open>While the thread waits the others act: the state it finds when it wakes up is an argument, with the clock.\<close>

fun drain_loop :: "rat option \<Rightarrow> rat \<Rightarrow> ((barrier \<Rightarrow> barrier) \<times> rat) list \<Rightarrow> barrier \<Rightarrow> bool option \<times> barrier" where
  "drain_loop deadline now [] b = drain_check deadline now b"
| "drain_loop deadline now ((others, later) # wakes) b =
     (case drain_check deadline now b of
        (Some r, b') \<Rightarrow> (Some r, b')
      | (None, b') \<Rightarrow> drain_loop deadline later wakes (others b'))"

definition begin_draining ::
    "rat option \<Rightarrow> rat \<Rightarrow> ((barrier \<Rightarrow> barrier) \<times> rat) list \<Rightarrow> barrier \<Rightarrow> adoption_exc + (bool option \<times> barrier)" where
  "begin_draining timeout now wakes b =
     (if timeout \<noteq> None \<and> the timeout < 0 then Inl (AdmissionBarrierError ''drain_timeout_invalid'')
      else case drain_start b of
        (Some r, b') \<Rightarrow> Inr (Some r, b')
      | (None, b') \<Rightarrow> Inr (drain_loop (map_option (\<lambda>t. now + t) timeout) now wakes b'))"

definition wait_until_drained ::
    "rat option \<Rightarrow> rat \<Rightarrow> ((barrier \<Rightarrow> barrier) \<times> rat) list \<Rightarrow> barrier \<Rightarrow> adoption_exc + (bool option \<times> barrier)" where
  "wait_until_drained timeout now wakes b = begin_draining timeout now wakes b"

section \<open>Steps\<close>

inductive barrier_step :: "barrier \<Rightarrow> barrier \<Rightarrow> bool" where
  admit: "try_admit i b = Inr (l, b') \<Longrightarrow> barrier_step b b'"
| flag: "barrier_step b (b\<lparr>ba_closed := n # ba_closed b\<rparr>)"
| release: "barrier_step b (snd (release l b))"
| close: "close_barrier b = Inr b' \<Longrightarrow> barrier_step b b'"
| start: "barrier_step b (snd (drain_start b))"
| look: "barrier_step b (snd (drain_check deadline now b))"

definition barrier_ok :: "barrier \<Rightarrow> bool" where
  "barrier_ok b \<longleftrightarrow>
     distinct (map fst (ba_leases b)) \<and> distinct (map snd (ba_leases b)) \<and> (\<forall>n \<in> set (map snd (ba_leases b)). n < ba_next b)
     \<and> (\<forall>m. ba_max_active b = Some m \<longrightarrow> int (length (ba_leases b)) \<le> m)
     \<and> (ba_state b \<in> {BARRIER_DRAINED, BARRIER_CLOSED} \<longrightarrow> ba_leases b = [])"

text \<open>The states whose admission has ended.\<close>

definition barrier_later :: "barrier \<Rightarrow> barrier \<Rightarrow> bool" where
  "barrier_later b b' \<longleftrightarrow>
     ba_max_active b' = ba_max_active b \<and> ba_next b \<le> ba_next b'
     \<and> (ba_state b \<noteq> BARRIER_RUNNING \<longrightarrow> ba_state b' \<noteq> BARRIER_RUNNING \<and> ba_next b' = ba_next b \<and> set (ba_leases b') \<subseteq> set (ba_leases b))
     \<and> (ba_state b \<in> {BARRIER_DRAINED, BARRIER_CLOSED} \<longrightarrow> ba_state b' \<in> {BARRIER_DRAINED, BARRIER_CLOSED})"

lemma AdmissionBarrier_ok: "AdmissionBarrier m = Inr b \<Longrightarrow> barrier_ok b"
  by (auto simp: AdmissionBarrier_def barrier_ok_def split: if_splits)

lemma try_admit_cases:
  assumes "try_admit i b = Inr (l, b')"
  shows "l = None \<and> b' = b \<or> (\<exists>t. adoption_text i ''admission_id'' 256 = Inr t \<and> ba_state b = BARRIER_RUNNING
      \<and> t \<notin> set (map fst (ba_leases b)) \<and> \<not> full b \<and> l = Some \<lparr>lease_number = ba_next b, lease_admission_id = t\<rparr>
      \<and> b' = b\<lparr>ba_leases := ba_leases b @ [(t, ba_next b)], ba_next := Suc (ba_next b)\<rparr>)"
  using assms by (auto simp: try_admit_def res_bind_Inr_iff split: if_splits)

lemma barrier_ok_grow:
  assumes "barrier_ok b" "t \<notin> set (map fst (ba_leases b))" "\<not> full b" "ba_state b = BARRIER_RUNNING"
  shows "barrier_ok (b\<lparr>ba_leases := ba_leases b @ [(t, ba_next b)], ba_next := Suc (ba_next b)\<rparr>)"
  using assms by (fastforce simp: barrier_ok_def full_def)

lemma barrier_ok_subset:
  assumes "barrier_ok b" "ba_leases b' = filter P (ba_leases b)" "ba_next b' = ba_next b" "ba_max_active b' = ba_max_active b"
    "ba_state b' \<in> {BARRIER_DRAINED, BARRIER_CLOSED} \<Longrightarrow> ba_leases b' = []"
  shows "barrier_ok b'"
proof -
  have "distinct (map fst (filter P (ba_leases b)))" "distinct (map snd (filter P (ba_leases b)))"
    using assms(1) by (auto simp: barrier_ok_def distinct_map intro: inj_on_subset)
  moreover have "int (length (filter P (ba_leases b))) \<le> m" if "ba_max_active b = Some m" for m
    using assms(1) that length_filter_le [of P "ba_leases b"] unfolding barrier_ok_def by (metis of_nat_mono order_trans)
  moreover have "\<forall>n \<in> set (map snd (filter P (ba_leases b))). n < ba_next b" using assms(1) by (auto simp: barrier_ok_def)
  ultimately show ?thesis unfolding barrier_ok_def assms(2-4) using assms(5) [unfolded assms(2)] by blast
qed

lemma release_ok: "barrier_ok b \<Longrightarrow> barrier_ok (snd (release l b))"
proof (cases "map_of (ba_leases b) (lease_admission_id l) = Some (lease_number l)")
  case True
  assume ok: "barrier_ok b"
  show ?thesis
  proof (rule barrier_ok_subset [OF ok])
    show "ba_leases (snd (release l b)) = filter (\<lambda>(i, _). i \<noteq> lease_admission_id l) (ba_leases b)"
      using True by (simp add: release_def Let_def)
  qed (use ok True in \<open>auto simp: release_def Let_def barrier_ok_def split: if_splits\<close>)
qed (simp add: release_def)

lemma barrier_step_ok: "barrier_step b b' \<Longrightarrow> barrier_ok b \<Longrightarrow> barrier_ok b'"
proof (induction rule: barrier_step.induct)
  case (admit i b l b')
  then show ?case using try_admit_cases [OF admit(1)] by (auto simp: barrier_ok_grow)
next
  case (look b deadline now)
  then show ?case by (auto simp: drain_check_def barrier_ok_def split: option.splits)
qed (auto simp: release_ok, auto simp: barrier_ok_def close_barrier_def drain_start_def split: if_splits)

lemma release_later: "barrier_later b (snd (release l b))"
  by (auto simp: release_def Let_def barrier_later_def)

lemma barrier_later_refl [simp]: "barrier_later b b"
  by (auto simp: barrier_later_def)

lemma barrier_later_trans: "barrier_later a b \<Longrightarrow> barrier_later b c \<Longrightarrow> barrier_later a c"
  by (auto simp: barrier_later_def)

lemma barrier_step_later: "barrier_step b b' \<Longrightarrow> barrier_later b b'"
proof (induction rule: barrier_step.induct)
  case (admit i b l b')
  then show ?case using try_admit_cases [OF admit] by (auto simp: barrier_later_def)
next
  case (look b deadline now)
  then show ?case by (auto simp: drain_check_def barrier_later_def split: option.splits)
qed (auto simp: release_later, auto simp: barrier_later_def close_barrier_def drain_start_def split: if_splits)

interpretation barrier_system: advancing_system barrier_step barrier_ok barrier_later
  by unfold_locales (auto intro: barrier_step_ok barrier_step_later barrier_later_trans)

section \<open>The promise of a drain\<close>

lemma drain_loop_later:
  assumes "\<forall>(others, later) \<in> set wakes. \<forall>b. barrier_step\<^sup>*\<^sup>* b (others b)" "drain_loop deadline now wakes b = (r, b')"
  shows "barrier_step\<^sup>*\<^sup>* b b' \<and> (r = Some True \<longrightarrow> ba_state b' = BARRIER_DRAINED \<and> ba_leases b' = [])"
  using assms
proof (induction deadline now wakes b rule: drain_loop.induct)
  case (1 deadline now b)
  then show ?case using barrier_step.look [of b deadline now]
    by (auto simp: drain_check_def split: if_splits option.splits)
next
  case (2 deadline now others later wakes b)
  obtain q c where look: "drain_check deadline now b = (q, c)" by fastforce
  then have step: "barrier_step\<^sup>*\<^sup>* b c" using barrier_step.look [of b deadline now] by auto
  show ?case
  proof (cases q)
    case None
    have "barrier_step\<^sup>*\<^sup>* (others c) b' \<and> (r = Some True \<longrightarrow> ba_state b' = BARRIER_DRAINED \<and> ba_leases b' = [])"
      using 2(1) [OF look [symmetric] None] 2(2,3) look None by simp
    moreover have "barrier_step\<^sup>*\<^sup>* c (others c)" using 2(2) by simp
    ultimately show ?thesis using step by (meson rtranclp_trans)
  next
    case (Some a)
    then show ?thesis using 2(3) look step by (auto simp: drain_check_def split: if_splits option.splits)
  qed
qed

lemma begin_draining_done:
  assumes "begin_draining timeout now wakes b = Inr (Some True, b')"
    "\<forall>(others, later) \<in> set wakes. \<forall>b. barrier_step\<^sup>*\<^sup>* b (others b)"
  shows "barrier_step\<^sup>*\<^sup>* b b' \<and> restart_ready b'"
proof -
  obtain q c where start: "drain_start b = (q, c)" by fastforce
  then have step: "barrier_step\<^sup>*\<^sup>* b c" using barrier_step.start [of b] by auto
  show ?thesis
  proof (cases q)
    case None
    then have "drain_loop (map_option (\<lambda>t. now + t) timeout) now wakes c = (Some True, b')"
      using assms(1) start by (simp add: begin_draining_def split: if_splits)
    from drain_loop_later [OF assms(2) this] show ?thesis using step by (auto simp: restart_ready_def)
  next
    case (Some a)
    then have "c = b'" "a = True" using assms(1) start by (simp_all add: begin_draining_def split: if_splits)
    then show ?thesis using start step Some by (auto simp: drain_start_def restart_ready_def split: if_splits)
  qed
qed

text \<open>
  C10: when \<open>begin_draining\<close> returns true, whatever the other threads did while it waited, the barrier is
  ready for the restart, and it stays ready: in every later state no lease is held and no run is admitted.
\<close>

theorem drained_barrier_admits_nothing:
  assumes "barrier_ok b" "begin_draining timeout now wakes b = Inr (Some True, b')"
    "\<forall>(others, later) \<in> set wakes. \<forall>b. barrier_step\<^sup>*\<^sup>* b (others b)" "barrier_step\<^sup>*\<^sup>* b' c" "try_admit i c = Inr (l, c')"
  shows "restart_ready b' \<and> restart_ready c \<and> l = None \<and> c' = c"
proof -
  note drained = begin_draining_done [OF assms(2,3)]
  then have "barrier_ok c" using barrier_system.reachable_keeps [of b b'] barrier_system.reachable_keeps [of b' c] assms(1,4) by blast
  moreover have "ba_state c \<in> {BARRIER_DRAINED, BARRIER_CLOSED}"
    using drained barrier_system.reachable_advances [OF assms(4)] by (auto simp: restart_ready_def barrier_later_def)
  ultimately have "restart_ready c" by (auto simp: restart_ready_def barrier_ok_def)
  then show ?thesis using drained try_admit_cases [OF assms(5)] by (auto simp: restart_ready_def)
qed

definition sample_barrier :: barrier where
  "sample_barrier = \<lparr>ba_state = BARRIER_RUNNING, ba_max_active = Some 2, ba_leases = [(''demo'', 0)], ba_closed = [], ba_next = 1\<rparr>"

definition sample_lease :: admission_lease where
  "sample_lease = \<lparr>lease_number = 0, lease_admission_id = ''demo''\<rparr>"

definition sample_drained :: barrier where
  "sample_drained = \<lparr>ba_state = BARRIER_DRAINED, ba_max_active = Some 2, ba_leases = [], ba_closed = [0], ba_next = 1\<rparr>"

lemma close_steps: "barrier_step\<^sup>*\<^sup>* b (snd (lease_close l b))"
proof (cases "lease_active l b")
  case True
  then have "snd (lease_close l b) = snd (release l (b\<lparr>ba_closed := lease_number l # ba_closed b\<rparr>))" by (simp add: lease_close_def)
  then show ?thesis
    using rtranclp.rtrancl_into_rtrancl [OF r_into_rtranclp [of barrier_step, OF barrier_step.flag [of b "lease_number l"]] barrier_step.release [where l = l]]
    by simp
qed (simp add: lease_close_def)

lemma sample_begin_draining: "begin_draining (Some 5) 0 [(\<lambda>b. snd (lease_close sample_lease b), 1)] sample_barrier = Inr (Some True, sample_drained)"
  by code_simp

lemma sample_refused: "try_admit (PyStr ''next'') sample_drained = Inr (None, sample_drained)"
  by code_simp

theorem drained_barrier_admits_nothing_witness: "restart_ready sample_drained"
proof -
  have ok: "barrier_ok sample_barrier" by (simp add: sample_barrier_def barrier_ok_def)
  show ?thesis
    by (rule drained_barrier_admits_nothing [OF ok sample_begin_draining _ _ sample_refused, THEN conjunct1]) (simp_all add: close_steps)
qed

text \<open>
  A thread that waits for the drain sets the state without looking at it: when the barrier was closed in
  the meantime, the closed state is lost.
\<close>

lemma closed_becomes_drained:
  assumes "close_barrier (snd (lease_close sample_lease (snd (drain_start sample_barrier)))) = Inr c"
  shows "ba_state c = BARRIER_CLOSED \<and> ba_state (snd (drain_check None 0 c)) = BARRIER_DRAINED"
proof -
  have "map_sum (\<lambda>_. ()) (\<lambda>c. (ba_state c, ba_leases c)) (close_barrier (snd (lease_close sample_lease (snd (drain_start sample_barrier)))))
      = Inr (BARRIER_CLOSED, [])" by code_simp
  then show ?thesis unfolding assms by (simp add: drain_check_def)
qed

end
