(* ===== verification/Coordination.thy ===== *)
theory Coordination
  imports Adoption_Barrier
begin

text \<open>
  \<open>worker/vnext_runtime/coordinator.py\<close>: one local coordinator that runs projects in a pool of threads.
  The thread that owns the coordinator submits, reaps, drains and closes; every run has a thread of the
  pool, which calls the runner once, closes its admission lease and reports the health.  What the runner
  returns or raises, and what the health sink raises, are arguments of the steps.
\<close>

section \<open>Configuration\<close>

definition configuration_error :: pyexc where
  "configuration_error = ValueError ''runtime.max_parallel_runs must be an integer >= 1''"

definition from_worker_config :: "pydict \<Rightarrow> pyexc + int" where
  "from_worker_config config =
     (let runtime_map = (case dget_or config ''runtime'' (PyDict []) of PyDict d \<Rightarrow> d | _ \<Rightarrow> []);
          configured = dget_or config ''max_parallel_runs'' (dget_or runtime_map ''max_parallel_runs'' (PyInt 1)) in
      case py_int configured of
        Inl e \<Rightarrow> Inl (if is_type_error e \<or> is_value_error e then configuration_error else e)
      | Inr maximum \<Rightarrow> if is_bool configured \<or> maximum < 1 then Inl configuration_error else Inr maximum)"

text \<open>A fraction is accepted, and cut off.\<close>

lemma fractional_maximum_accepted: "from_worker_config [(''max_parallel_runs'', PyFloat (Finite (19 / 10) ''1.9''))] = Inr 1"
  by code_simp

section \<open>State\<close>

datatype run_stage = Executing | Releasing "pyexc + bool" | Finished "pyexc + bool"

record run_future =
  fu_project :: string
  fu_lease :: admission_lease
  fu_stage :: run_stage

datatype lifecycle = LIFECYCLE_RUNNING | LIFECYCLE_DRAINING

record coordinator =
  co_max :: int
  co_barrier :: barrier
  co_lifecycle :: lifecycle
  co_futures :: "run_future list"
  co_shutdown :: bool
  co_closed :: bool

text \<open>An \<open>_update_health\<close>: what the sink raises, if it does.\<close>

type_synonym health = "pyexc option"

definition after_health :: "health \<Rightarrow> adoption_exc + 'a \<Rightarrow> adoption_exc + 'a" where
  "after_health h r = (case h of None \<Rightarrow> r | Some e \<Rightarrow> Inl (Raised e))"

definition Coordinator :: "health \<Rightarrow> pydict \<Rightarrow> adoption_exc + coordinator" where
  "Coordinator h config =
     (case from_worker_config config of Inl e \<Rightarrow> Inl (Raised e)
      | Inr maximum \<Rightarrow> res_bind (AdmissionBarrier (PyInt maximum)) (\<lambda>b. after_health h
          (Inr \<lparr>co_max = maximum, co_barrier = b, co_lifecycle = LIFECYCLE_RUNNING, co_futures = [], co_shutdown = False, co_closed = False\<rparr>)))"

section \<open>The operations of the owner\<close>

definition submit :: "health \<Rightarrow> string \<Rightarrow> coordinator \<Rightarrow> (adoption_exc + bool) \<times> coordinator" where
  "submit h project c =
     (if co_lifecycle c \<noteq> LIFECYCLE_RUNNING \<or> project \<in> set (map fu_project (co_futures c)) then (Inr False, c)
      else case try_admit (PyStr project) (co_barrier c) of
        Inl e \<Rightarrow> (Inl e, c)
      | Inr (None, b) \<Rightarrow> (Inr False, c\<lparr>co_barrier := b\<rparr>)
      | Inr (Some l, b) \<Rightarrow>
          if co_shutdown c
          then (Inl (Raised (RuntimeError ''cannot schedule new futures after shutdown'')), c\<lparr>co_barrier := snd (lease_close l b)\<rparr>)
          else (after_health h (Inr True),
                c\<lparr>co_barrier := b, co_futures := co_futures c @ [\<lparr>fu_project = project, fu_lease = l, fu_stage = Executing\<rparr>]\<rparr>))"

definition is_done :: "run_future \<Rightarrow> bool" where
  "is_done f = (case fu_stage f of Finished _ \<Rightarrow> True | _ \<Rightarrow> False)"

definition result_of :: "run_future \<Rightarrow> pyexc + bool" where
  "result_of f = (case fu_stage f of Finished r \<Rightarrow> r | Releasing r \<Rightarrow> r | Executing \<Rightarrow> Inr False)"

definition collected :: "(pyexc + bool) list \<Rightarrow> adoption_exc + bool" where
  "collected rs = (case filter isl rs of [] \<Rightarrow> Inr (list_ex (\<lambda>r. r = Inr True) rs) | r # _ \<Rightarrow> Inl (Raised (projl r)))"

text \<open>A call that has to wait for a run that is not done gives None.\<close>

definition reap :: "health \<Rightarrow> bool \<Rightarrow> coordinator \<Rightarrow> ((adoption_exc + bool) \<times> coordinator) option" where
  "reap h wait c =
     (if wait \<and> \<not> list_all is_done (co_futures c) then None
      else Some (after_health h (collected (map result_of (filter is_done (co_futures c)))),
                 c\<lparr>co_futures := filter (\<lambda>f. \<not> is_done f) (co_futures c)\<rparr>))"

text \<open>
  \<open>begin_draining\<close>: until it waits, and from the moment it need not wait any longer.  The first part says
  whether the barrier has answered at once.
\<close>

definition drain_request :: "health \<Rightarrow> coordinator \<Rightarrow> (adoption_exc + bool option) \<times> coordinator" where
  "drain_request h c =
     (case h of
        Some e \<Rightarrow> (Inl (Raised e), c\<lparr>co_lifecycle := LIFECYCLE_DRAINING\<rparr>)
      | None \<Rightarrow> (Inr (fst (drain_start (co_barrier c))),
                 c\<lparr>co_lifecycle := LIFECYCLE_DRAINING, co_barrier := snd (drain_start (co_barrier c))\<rparr>))"

definition drain_finish :: "health \<Rightarrow> health \<Rightarrow> bool option \<Rightarrow> coordinator \<Rightarrow> ((adoption_exc + bool) \<times> coordinator) option" where
  "drain_finish h2 h3 answered c =
     (case (case answered of Some r \<Rightarrow> (Some r, co_barrier c) | None \<Rightarrow> drain_check None 0 (co_barrier c)) of
        (None, _) \<Rightarrow> None
      | (Some r, b) \<Rightarrow> map_option (\<lambda>(result, c'). (after_health h3 (res_bind result (\<lambda>_. Inr r)), c'))
          (reap h2 True (c\<lparr>co_barrier := b\<rparr>)))"

text \<open>\<open>close\<close> after its drain, when that has not raised: the pool has no thread left to wait for.\<close>

definition close_finish :: "coordinator \<Rightarrow> (adoption_exc + unit) \<times> coordinator" where
  "close_finish c =
     (case close_barrier (co_barrier c) of
        Inl e \<Rightarrow> (Inl e, c\<lparr>co_shutdown := True\<rparr>)
      | Inr b \<Rightarrow> (Inr (), c\<lparr>co_shutdown := True, co_barrier := b, co_closed := True\<rparr>))"

text \<open>The whole calls: while the owner waits the runs go on, which is an argument.\<close>

definition coordinator_drain ::
    "health \<Rightarrow> (coordinator \<Rightarrow> coordinator) \<Rightarrow> health \<Rightarrow> health \<Rightarrow> coordinator \<Rightarrow> ((adoption_exc + bool) \<times> coordinator) option" where
  "coordinator_drain h1 others h2 h3 c =
     (case drain_request h1 c of
        (Inl e, c') \<Rightarrow> Some (Inl e, c')
      | (Inr answered, c') \<Rightarrow> drain_finish h2 h3 answered (others c'))"

definition coordinator_close ::
    "health \<Rightarrow> (coordinator \<Rightarrow> coordinator) \<Rightarrow> health \<Rightarrow> health \<Rightarrow> coordinator \<Rightarrow> ((adoption_exc + unit) \<times> coordinator) option" where
  "coordinator_close h1 others h2 h3 c =
     (if co_closed c then Some (Inr (), c)
      else map_option (\<lambda>(result, c'). case result of Inl e \<Rightarrow> (Inl e, c') | Inr _ \<Rightarrow> close_finish c')
        (coordinator_drain h1 others h2 h3 c))"

section \<open>The steps of a run\<close>

definition future_of :: "string \<Rightarrow> coordinator \<Rightarrow> run_future option" where
  "future_of project c = find (\<lambda>f. fu_project f = project) (co_futures c)"

definition set_stage :: "string \<Rightarrow> run_stage \<Rightarrow> coordinator \<Rightarrow> coordinator" where
  "set_stage project s c =
     c\<lparr>co_futures := map (\<lambda>f. if fu_project f = project then f\<lparr>fu_stage := s\<rparr> else f) (co_futures c)\<rparr>"

text \<open>The runner has returned or raised, and the lease is closed.\<close>

definition run_released :: "string \<Rightarrow> pyexc + bool \<Rightarrow> coordinator \<Rightarrow> coordinator option" where
  "run_released project outcome c =
     (case future_of project c of
        Some f \<Rightarrow> (if fu_stage f = Executing
          then Some (set_stage project (Releasing outcome) (c\<lparr>co_barrier := snd (lease_close (fu_lease f) (co_barrier c))\<rparr>)) else None)
      | None \<Rightarrow> None)"

text \<open>The health is reported; an exception of the sink takes the place of the outcome.\<close>

definition run_completed :: "health \<Rightarrow> string \<Rightarrow> coordinator \<Rightarrow> coordinator option" where
  "run_completed h project c =
     (case future_of project c of
        Some f \<Rightarrow> (case fu_stage f of
            Releasing outcome \<Rightarrow> Some (set_stage project (Finished (case h of None \<Rightarrow> outcome | Some e \<Rightarrow> Inl e)) c) | _ \<Rightarrow> None)
      | None \<Rightarrow> None)"

inductive coordinator_step :: "coordinator \<Rightarrow> coordinator \<Rightarrow> bool" where
  submit: "coordinator_step c (snd (submit h project c))"
| released: "run_released project outcome c = Some c' \<Longrightarrow> coordinator_step c c'"
| completed: "run_completed h project c = Some c' \<Longrightarrow> coordinator_step c c'"
| reap: "reap h wait c = Some (r, c') \<Longrightarrow> coordinator_step c c'"
| request: "coordinator_step c (snd (drain_request h c))"
| finish: "answered = None \<or> ba_state (co_barrier c) = BARRIER_CLOSED \<Longrightarrow> drain_finish h2 h3 answered c = Some (r, c') \<Longrightarrow> coordinator_step c c'"
| closing: "coordinator_step c (snd (close_finish c))"
| launcher: "coordinator_step c (c\<lparr>co_barrier := snd (drain_start (co_barrier c))\<rparr>)"

section \<open>The invariant\<close>

definition executing :: "run_future \<Rightarrow> bool" where
  "executing f \<longleftrightarrow> fu_stage f = Executing"

definition lease_entry :: "run_future \<Rightarrow> string \<times> nat" where
  "lease_entry f = (lease_admission_id (fu_lease f), lease_number (fu_lease f))"

text \<open>The leases of the barrier are those of the runs that execute, in the order of their submission.\<close>

definition coordinator_ok :: "coordinator \<Rightarrow> bool" where
  "coordinator_ok c \<longleftrightarrow>
     barrier_ok (co_barrier c) \<and> ba_max_active (co_barrier c) = Some (co_max c)
     \<and> distinct (map fu_project (co_futures c))
     \<and> ba_leases (co_barrier c) = map lease_entry (filter executing (co_futures c))
     \<and> (\<forall>f \<in> set (co_futures c). executing f \<longrightarrow> lease_number (fu_lease f) \<notin> set (ba_closed (co_barrier c)))
     \<and> (\<forall>n \<in> set (ba_closed (co_barrier c)). n < ba_next (co_barrier c))"

lemma Coordinator_ok: "Coordinator h config = Inr c \<Longrightarrow> coordinator_ok c"
  by (auto simp: Coordinator_def coordinator_ok_def after_health_def res_bind_Inr_iff AdmissionBarrier_def barrier_ok_def
      split: sum.splits option.splits if_splits)

lemma after_health_cases: "after_health h r = (case h of None \<Rightarrow> r | Some e \<Rightarrow> Inl (Raised e))"
  by (simp add: after_health_def)

lemma close_fresh:
  assumes "try_admit i b = Inr (Some l, b')" "\<forall>n \<in> set (ba_closed b). n < ba_next b"
  shows "snd (lease_close l b') = b\<lparr>ba_closed := ba_next b # ba_closed b, ba_next := Suc (ba_next b)\<rparr>"
proof -
  from try_admit_cases [OF assms(1)] obtain t where t: "ba_state b = BARRIER_RUNNING" "t \<notin> set (map fst (ba_leases b))"
      "l = \<lparr>lease_number = ba_next b, lease_admission_id = t\<rparr>"
      "b' = b\<lparr>ba_leases := ba_leases b @ [(t, ba_next b)], ba_next := Suc (ba_next b)\<rparr>" by auto
  have "map_of (ba_leases b @ [(t, ba_next b)]) t = Some (ba_next b)"
    using t(2) by (simp add: map_add_def map_of_eq_None_iff [THEN iffD2])
  moreover have "filter (\<lambda>(i, _). i \<noteq> t) (ba_leases b) = ba_leases b"
    using t(2) by (force intro: filter_True)
  moreover have "ba_next b \<notin> set (ba_closed b)" using assms(2) by blast
  ultimately show ?thesis by (simp add: lease_close_def lease_active_def release_def t Let_def)
qed

lemma submit_ok:
  assumes "coordinator_ok c"
  shows "coordinator_ok (snd (submit h project c))"
proof (cases "co_lifecycle c \<noteq> LIFECYCLE_RUNNING \<or> project \<in> set (map fu_project (co_futures c))")
  case False
  show ?thesis
  proof (cases "try_admit (PyStr project) (co_barrier c)")
    case (Inr r)
    obtain m b where r: "r = (m, b)" by fastforce
    show ?thesis
    proof (cases m)
      case None
      then have "b = co_barrier c" using try_admit_cases [OF Inr [unfolded r]] by auto
      then show ?thesis using assms False Inr r None by (simp add: submit_def coordinator_ok_def)
    next
      case (Some l)
      have closed: "\<forall>n \<in> set (ba_closed (co_barrier c)). n < ba_next (co_barrier c)" using assms by (simp add: coordinator_ok_def)
      show ?thesis
      proof (cases "co_shutdown c")
        case True
        note fresh = close_fresh [OF Inr [unfolded r Some] closed]
        have "snd (submit h project c) = c\<lparr>co_barrier := snd (lease_close l b)\<rparr>"
          using False Inr r Some True by (auto simp: submit_def)
        moreover have "\<forall>n \<in> set (map snd (ba_leases (co_barrier c))). n < ba_next (co_barrier c)"
          using assms by (simp add: coordinator_ok_def barrier_ok_def)
        ultimately show ?thesis using assms fresh by (fastforce simp: coordinator_ok_def barrier_ok_def lease_entry_def)
      next
        case False2: False
        from try_admit_cases [OF Inr [unfolded r Some]] obtain t where t: "ba_state (co_barrier c) = BARRIER_RUNNING"
            "t \<notin> set (map fst (ba_leases (co_barrier c)))" "\<not> full (co_barrier c)"
            "l = \<lparr>lease_number = ba_next (co_barrier c), lease_admission_id = t\<rparr>"
            "b = (co_barrier c)\<lparr>ba_leases := ba_leases (co_barrier c) @ [(t, ba_next (co_barrier c))], ba_next := Suc (ba_next (co_barrier c))\<rparr>"
          by auto
        have "barrier_ok b" unfolding t(5) by (rule barrier_ok_grow) (use assms t in \<open>simp_all add: coordinator_ok_def\<close>)
        moreover have "snd (submit h project c) = c\<lparr>co_barrier := b,
            co_futures := co_futures c @ [\<lparr>fu_project = project, fu_lease = l, fu_stage = Executing\<rparr>]\<rparr>"
          using False Inr r Some False2 by (auto simp: submit_def)
        ultimately show ?thesis using assms False t closed
          by (fastforce simp: coordinator_ok_def executing_def lease_entry_def)
      qed
    qed
  qed (use assms False in \<open>simp add: submit_def\<close>)
qed (use assms in \<open>auto simp: submit_def\<close>)

lemma future_of_Some: "future_of project c = Some f \<Longrightarrow> f \<in> set (co_futures c) \<and> fu_project f = project"
  by (auto simp: future_of_def find_Some_iff)

lemma same_project:
  "distinct (map fu_project fs) \<Longrightarrow> f \<in> set fs \<Longrightarrow> g \<in> set fs \<Longrightarrow> fu_project f = fu_project g \<Longrightarrow> f = g"
  by (auto simp: distinct_map dest: inj_onD)

lemma set_stage_projects [simp]: "map fu_project (co_futures (set_stage project s c)) = map fu_project (co_futures c)"
  by (auto simp: set_stage_def)

lemma executing_after_stage:
  "s \<noteq> Executing \<Longrightarrow> filter executing (co_futures (set_stage project s c)) = filter (\<lambda>g. executing g \<and> fu_project g \<noteq> project) (co_futures c)"
proof -
  assume s: "s \<noteq> Executing"
  have "filter executing (map (\<lambda>f. if fu_project f = project then f\<lparr>fu_stage := s\<rparr> else f) fs)
      = filter (\<lambda>g. executing g \<and> fu_project g \<noteq> project) fs" for fs :: "run_future list"
    using s by (induction fs) (auto simp: executing_def)
  then show ?thesis by (simp add: set_stage_def)
qed

lemma set_stage_barrier [simp]: "co_barrier (set_stage project s c) = co_barrier c" "co_max (set_stage project s c) = co_max c"
  by (simp_all add: set_stage_def)

lemma executing_stage_subset: "s \<noteq> Executing \<Longrightarrow> f \<in> set (co_futures (set_stage project s c)) \<Longrightarrow> executing f \<Longrightarrow> f \<in> set (co_futures c)"
  by (auto simp: set_stage_def executing_def split: if_splits)

lemma other_leases:
  assumes ok: "coordinator_ok c" and f: "f \<in> set (co_futures c)" "executing f"
  shows "filter (\<lambda>(i, _). i \<noteq> lease_admission_id (fu_lease f)) (ba_leases (co_barrier c))
    = map lease_entry (filter (\<lambda>g. executing g \<and> fu_project g \<noteq> fu_project f) (co_futures c))"
proof -
  have leases: "ba_leases (co_barrier c) = map lease_entry (filter executing (co_futures c))"
      and projects: "distinct (map fu_project (co_futures c))"
      and ids: "distinct (map fst (map lease_entry (filter executing (co_futures c))))"
    using ok by (auto simp: coordinator_ok_def barrier_ok_def)
  have inj: "inj_on (fst \<circ> lease_entry) (set (filter executing (co_futures c)))"
    using ids by (simp only: map_map distinct_map)
  have "(lease_admission_id (fu_lease g) \<noteq> lease_admission_id (fu_lease f)) = (fu_project g \<noteq> fu_project f)"
    if "g \<in> set (filter executing (co_futures c))" for g
    using that f inj_onD [OF inj, of g f] same_project [OF projects, of g f] by (auto simp: lease_entry_def)
  then have "filter (\<lambda>g. lease_admission_id (fu_lease g) \<noteq> lease_admission_id (fu_lease f)) (filter executing (co_futures c))
      = filter (\<lambda>g. fu_project g \<noteq> fu_project f) (filter executing (co_futures c))" by (rule filter_cong [OF refl])
  then show ?thesis unfolding leases by (simp add: filter_map comp_def lease_entry_def conj_commute)
qed

lemma run_released_step:
  assumes "run_released project outcome c = Some c'" "coordinator_ok c"
  shows "\<exists>f. future_of project c = Some f \<and> executing f \<and> c' = set_stage project (Releasing outcome) (c\<lparr>co_barrier := co_barrier c'\<rparr>)
    \<and> ba_leases (co_barrier c') = map lease_entry (filter (\<lambda>g. executing g \<and> fu_project g \<noteq> project) (co_futures c))
    \<and> ba_closed (co_barrier c') = lease_number (fu_lease f) # ba_closed (co_barrier c) \<and> ba_next (co_barrier c') = ba_next (co_barrier c)
    \<and> barrier_step\<^sup>*\<^sup>* (co_barrier c) (co_barrier c')"
proof -
  from assms(1) obtain f where f: "future_of project c = Some f" "fu_stage f = Executing"
      and c': "c' = set_stage project (Releasing outcome) (c\<lparr>co_barrier := snd (lease_close (fu_lease f) (co_barrier c))\<rparr>)"
    by (auto simp: run_released_def split: option.splits if_splits)
  have mem: "f \<in> set (co_futures c)" "fu_project f = project" "executing f" using future_of_Some [OF f(1)] f(2) by (simp_all add: executing_def)
  have active: "lease_active (fu_lease f) (co_barrier c)" using assms(2) mem by (auto simp: lease_active_def coordinator_ok_def)
  have "lease_entry f \<in> set (ba_leases (co_barrier c))" and "distinct (map fst (ba_leases (co_barrier c)))"
    using assms(2) mem by (auto simp: coordinator_ok_def barrier_ok_def)
  then have "map_of (ba_leases (co_barrier c)) (lease_admission_id (fu_lease f)) = Some (lease_number (fu_lease f))"
    by (auto simp: lease_entry_def)
  then have "ba_leases (co_barrier c') = filter (\<lambda>(i, _). i \<noteq> lease_admission_id (fu_lease f)) (ba_leases (co_barrier c))
      \<and> ba_closed (co_barrier c') = lease_number (fu_lease f) # ba_closed (co_barrier c) \<and> ba_next (co_barrier c') = ba_next (co_barrier c)"
    unfolding c' using active by (simp add: lease_close_def release_def Let_def)
  then show ?thesis using f(1) mem c' other_leases [OF assms(2) mem(1,3)] close_steps [of "co_barrier c" "fu_lease f"] by auto
qed

lemma run_released_ok:
  assumes "run_released project outcome c = Some c'" "coordinator_ok c"
  shows "coordinator_ok c'"
proof -
  from run_released_step [OF assms] obtain f where f: "future_of project c = Some f" "executing f"
      and c': "c' = set_stage project (Releasing outcome) (c\<lparr>co_barrier := co_barrier c'\<rparr>)"
      and leases: "ba_leases (co_barrier c') = map lease_entry (filter (\<lambda>g. executing g \<and> fu_project g \<noteq> project) (co_futures c))"
      and closed: "ba_closed (co_barrier c') = lease_number (fu_lease f) # ba_closed (co_barrier c)" "ba_next (co_barrier c') = ba_next (co_barrier c)"
      and steps: "barrier_step\<^sup>*\<^sup>* (co_barrier c) (co_barrier c')" by blast
  have ok: "barrier_ok (co_barrier c')" "ba_max_active (co_barrier c') = Some (co_max c)"
    using barrier_system.reachable_keeps [OF steps] barrier_system.reachable_advances [OF steps] assms(2) by (auto simp: coordinator_ok_def barrier_later_def)
  have futures: "co_futures c' = co_futures (set_stage project (Releasing outcome) c)" "co_max c' = co_max c"
    by (subst c', simp add: set_stage_def)+
  have entry: "lease_number (fu_lease f) < ba_next (co_barrier c)" and numbers: "distinct (map snd (ba_leases (co_barrier c)))"
    using assms(2) future_of_Some [OF f(1)] f(2) by (auto simp: coordinator_ok_def barrier_ok_def lease_entry_def)
  have "lease_number (fu_lease g) \<noteq> lease_number (fu_lease f)" if "g \<in> set (co_futures c)" "executing g" "fu_project g \<noteq> project" for g
  proof -
    have "ba_leases (co_barrier c) = map lease_entry (filter executing (co_futures c))" using assms(2) by (simp add: coordinator_ok_def)
    then have "distinct (map (snd \<circ> lease_entry) (filter executing (co_futures c)))" using numbers by (simp only: map_map)
    then have inj: "inj_on (snd \<circ> lease_entry) (set (filter executing (co_futures c)))" by (simp only: distinct_map)
    show ?thesis using inj_onD [OF inj, of g f] that future_of_Some [OF f(1)] f(2) by (auto simp: lease_entry_def)
  qed
  then have "\<forall>g \<in> set (co_futures c'). executing g \<longrightarrow> lease_number (fu_lease g) \<notin> set (ba_closed (co_barrier c'))"
    using assms(2) unfolding futures closed
    by (auto simp: coordinator_ok_def set_stage_def executing_def split: if_splits)
  moreover have "distinct (map fu_project (co_futures c'))" using assms(2) by (simp only: futures set_stage_projects coordinator_ok_def)
  moreover have "filter executing (co_futures c') = filter (\<lambda>g. executing g \<and> fu_project g \<noteq> project) (co_futures c)"
    by (simp add: futures executing_after_stage)
  ultimately show ?thesis using ok leases closed entry assms(2) futures(2) by (auto simp: coordinator_ok_def)
qed

lemma run_completed_ok:
  assumes "run_completed h project c = Some c'" "coordinator_ok c"
  shows "coordinator_ok c'"
proof -
  from assms(1) obtain f outcome where f: "future_of project c = Some f" "fu_stage f = Releasing outcome"
      and c': "c' = set_stage project (Finished (case h of None \<Rightarrow> outcome | Some e \<Rightarrow> Inl e)) c"
    by (auto simp: run_completed_def split: option.splits run_stage.splits)
  have projects: "distinct (map fu_project (co_futures c))" using assms(2) by (simp add: coordinator_ok_def)
  have "fu_project g \<noteq> project" if "g \<in> set (co_futures c)" "executing g" for g
    using that same_project [OF projects that(1), of f] future_of_Some [OF f(1)] f(2) by (auto simp: executing_def)
  then have same: "filter executing (co_futures c') = filter executing (co_futures c)"
    by (auto simp: c' executing_after_stage intro: filter_cong)
  have "\<forall>g \<in> set (co_futures c'). executing g \<longrightarrow> g \<in> set (co_futures c)"
    unfolding c' by (auto intro: executing_stage_subset)
  then show ?thesis using assms(2) same projects by (auto simp: coordinator_ok_def c' simp del: set_stage_projects) (simp only: set_stage_projects)
qed

lemma executing_not_done: "executing f \<Longrightarrow> \<not> is_done f"
  by (simp add: executing_def is_done_def)

lemma reap_state:
  "reap h wait c = Some (r, c') \<Longrightarrow> c' = c\<lparr>co_futures := filter (\<lambda>f. \<not> is_done f) (co_futures c)\<rparr>"
  by (auto simp: reap_def split: if_splits)

lemma keep_unfinished_ok:
  assumes "coordinator_ok c"
  shows "coordinator_ok (c\<lparr>co_futures := filter (\<lambda>f. \<not> is_done f) (co_futures c)\<rparr>)"
proof -
  have "filter executing (filter (\<lambda>f. \<not> is_done f) (co_futures c)) = filter executing (co_futures c)"
    by (auto simp: executing_not_done intro: filter_cong)
  then show ?thesis using assms by (auto simp: coordinator_ok_def distinct_map intro: inj_on_subset)
qed

text \<open>A step of the barrier that keeps its leases and flags keeps the invariant.\<close>

lemma barrier_change_ok:
  assumes "coordinator_ok c" "barrier_step (co_barrier c) b" "ba_leases b = ba_leases (co_barrier c)" "ba_closed b = ba_closed (co_barrier c)"
  shows "coordinator_ok (c\<lparr>co_barrier := b\<rparr>)"
  using assms barrier_step_ok [OF assms(2)] barrier_step_later [OF assms(2)]
  by (fastforce simp: coordinator_ok_def barrier_later_def)

lemma drain_start_keeps: "ba_leases (snd (drain_start b)) = ba_leases b" "ba_closed (snd (drain_start b)) = ba_closed b"
  by (simp_all add: drain_start_def)

lemma drain_check_keeps: "ba_leases (snd (drain_check d n b)) = ba_leases b" "ba_closed (snd (drain_check d n b)) = ba_closed b"
  by (auto simp: drain_check_def split: option.splits)

lemma update_order: "c\<lparr>co_lifecycle := l, co_barrier := b\<rparr> = (c\<lparr>co_barrier := b\<rparr>)\<lparr>co_lifecycle := l\<rparr>"
  by simp

lemma coordinator_ok_flags [simp]:
  "coordinator_ok (c\<lparr>co_lifecycle := l\<rparr>) = coordinator_ok c" "coordinator_ok (c\<lparr>co_shutdown := s\<rparr>) = coordinator_ok c"
  "coordinator_ok (c\<lparr>co_closed := s\<rparr>) = coordinator_ok c"
  by (simp_all add: coordinator_ok_def)

lemma drain_finish_cases:
  assumes "drain_finish h2 h3 answered c = Some (r, c')"
  shows "\<exists>b q. (answered = Some q \<and> b = co_barrier c \<or> answered = None \<and> drain_check None 0 (co_barrier c) = (Some q, b))
    \<and> list_all is_done (co_futures c) \<and> c' = c\<lparr>co_barrier := b, co_futures := []\<rparr>
    \<and> r = after_health h3 (res_bind (after_health h2 (collected (map result_of (co_futures c)))) (\<lambda>_. Inr q))"
proof -
  obtain q b where b: "(case answered of Some r \<Rightarrow> (Some r, co_barrier c) | None \<Rightarrow> drain_check None 0 (co_barrier c)) = (Some q, b)"
    using assms by (auto simp: drain_finish_def split: prod.splits option.splits)
  have all: "list_all is_done (co_futures c)"
    using assms unfolding drain_finish_def b by (auto simp: reap_def split: if_splits)
  then have "filter is_done (co_futures c) = co_futures c" "filter (\<lambda>f. \<not> is_done f) (co_futures c) = []"
    by (auto simp: list_all_iff filter_empty_conv intro: filter_True)
  then have "c' = c\<lparr>co_barrier := b, co_futures := []\<rparr>
      \<and> r = after_health h3 (res_bind (after_health h2 (collected (map result_of (co_futures c)))) (\<lambda>_. Inr q))"
    using assms all unfolding drain_finish_def b by (auto simp: reap_def)
  then show ?thesis using b all by (cases answered) auto
qed

lemma drain_finish_ok:
  assumes "drain_finish h2 h3 answered c = Some (r, c')" "coordinator_ok c"
  shows "coordinator_ok c'"
proof -
  from drain_finish_cases [OF assms(1)] obtain b q where
      b: "answered = Some q \<and> b = co_barrier c \<or> answered = None \<and> drain_check None 0 (co_barrier c) = (Some q, b)"
      and all: "list_all is_done (co_futures c)" and c': "c' = c\<lparr>co_barrier := b, co_futures := []\<rparr>" by blast
  have "coordinator_ok (c\<lparr>co_barrier := b\<rparr>)"
  proof (cases answered)
    case None
    then have "b = snd (drain_check None 0 (co_barrier c))" using b by simp
    then show ?thesis using barrier_change_ok [OF assms(2) barrier_step.look] drain_check_keeps by simp
  qed (use b assms(2) in simp)
  from keep_unfinished_ok [OF this] show ?thesis using all by (simp add: c' list_all_iff filter_empty_conv)
qed

lemma coordinator_step_ok: "coordinator_step c c' \<Longrightarrow> coordinator_ok c \<Longrightarrow> coordinator_ok c'"
proof (induction rule: coordinator_step.induct)
  case (request c h)
  then show ?case using barrier_change_ok [OF request barrier_step.start]
    by (auto simp: drain_request_def drain_start_keeps update_order simp del: coordinator.update_convs split: option.splits)
next
  case (closing c)
  then show ?case using barrier_change_ok [OF closing barrier_step.close]
    by (auto simp: close_finish_def close_barrier_def coordinator_ok_def split: sum.splits if_splits)
next
  case (launcher c)
  then show ?case by (intro barrier_change_ok barrier_step.start) (simp_all add: drain_start_keeps)
next
  case (reap h wait c r c')
  then show ?case using keep_unfinished_ok reap_state by blast
qed (auto simp: submit_ok run_released_ok run_completed_ok drain_finish_ok)

section \<open>The bound on runs\<close>

lemma coordinator_step_max: "coordinator_step c c' \<Longrightarrow> co_max c' = co_max c"
proof (induction rule: coordinator_step.induct)
  case (submit c h project)
  then show ?case by (auto simp: submit_def split: sum.splits option.splits prod.splits)
next
  case (released project outcome c c')
  then show ?case by (auto simp: run_released_def split: option.splits if_splits)
next
  case (completed h project c c')
  then show ?case by (auto simp: run_completed_def split: option.splits run_stage.splits)
next
  case (finish answered c h2 h3 r c')
  then show ?case using drain_finish_cases by fastforce
next
  case (request c h)
  then show ?case by (auto simp: drain_request_def split: option.splits)
next
  case (closing c)
  then show ?case by (auto simp: close_finish_def split: sum.splits)
qed (auto dest: reap_state)

interpretation coordinator_system: advancing_system coordinator_step coordinator_ok "\<lambda>c c'. co_max c' = co_max c"
  by unfold_locales (auto intro: coordinator_step_ok dest: coordinator_step_max)

text \<open>
  C11: whatever is submitted, however runs end and are reaped, and whenever a drain or a close is asked for,
  by the owner or by the launcher, the coordinator never executes more runs than its configuration
  allows, never two of one project, and the barrier counts exactly the runs that execute.
\<close>

theorem runs_are_bounded:
  assumes "Coordinator h config = Inr start" "coordinator_step\<^sup>*\<^sup>* start c"
  shows "from_worker_config config = Inr (co_max c) \<and> 1 \<le> co_max c
    \<and> int (length (filter executing (co_futures c))) \<le> co_max c \<and> distinct (map fu_project (co_futures c))
    \<and> ba_leases (co_barrier c) = map lease_entry (filter executing (co_futures c))"
proof -
  have ok: "coordinator_ok c" using coordinator_system.reachable_keeps [OF assms(2) Coordinator_ok [OF assms(1)]] .
  from assms(1) obtain m where m: "from_worker_config config = Inr m" "co_max start = m"
    by (auto simp: Coordinator_def after_health_def res_bind_Inr_iff split: sum.splits option.splits)
  moreover have "1 \<le> m" using m(1) by (auto simp: from_worker_config_def Let_def split: sum.splits if_splits)
  ultimately show ?thesis using ok coordinator_system.reachable_advances [OF assms(2)]
    by (auto simp: coordinator_ok_def barrier_ok_def)
qed

section \<open>The end of a drain\<close>

lemma drain_finish_waits:
  assumes "coordinator_ok c"
  shows "drain_finish h2 h3 None c = None \<longleftrightarrow> \<not> list_all is_done (co_futures c)"
proof (cases "ba_leases (co_barrier c) = []")
  case True
  then show ?thesis by (simp add: drain_finish_def drain_check_def reap_def)
next
  case False
  then have "\<exists>f \<in> set (co_futures c). executing f" using assms by (auto simp: coordinator_ok_def filter_empty_conv)
  then show ?thesis using False executing_not_done by (auto simp: drain_finish_def drain_check_def list_all_iff)
qed

text \<open>How many steps the runs still have to take.\<close>

definition future_work :: "run_future \<Rightarrow> nat" where
  "future_work f = (case fu_stage f of Executing \<Rightarrow> 2 | Releasing _ \<Rightarrow> 1 | Finished _ \<Rightarrow> 0)"

definition remaining_work :: "coordinator \<Rightarrow> nat" where
  "remaining_work c = sum_list (map future_work (co_futures c))"

lemma work_done: "remaining_work c = 0 \<longleftrightarrow> list_all is_done (co_futures c)"
  by (auto simp: remaining_work_def list_all_iff is_done_def future_work_def split: run_stage.splits)

lemma set_stage_work:
  assumes "f \<in> set fs" "distinct (map fu_project fs)" "fu_project f = project" "future_work (f\<lparr>fu_stage := s\<rparr>) < future_work f"
  shows "sum_list (map future_work (map (\<lambda>g. if fu_project g = project then g\<lparr>fu_stage := s\<rparr> else g) fs)) < sum_list (map future_work fs)"
  using assms
proof (induction fs)
  case (Cons g fs)
  have same: "map (\<lambda>g. if fu_project g = project then g\<lparr>fu_stage := s\<rparr> else g) fs = fs" if "project \<notin> set (map fu_project fs)"
    using that by (intro map_idI) auto
  show ?case
  proof (cases "fu_project g = project")
    case True
    then have other: "project \<notin> set (map fu_project fs)" using Cons.prems(2) by auto
    then have "g = f" using Cons.prems(1,3) by auto
    then show ?thesis using Cons.prems(3,4) same [OF other] by simp
  next
    case False
    then have "f \<in> set fs" using Cons.prems(1,3) by auto
    then show ?thesis using Cons.IH Cons.prems False by simp
  qed
qed simp

definition run_step :: "(string \<Rightarrow> pyexc + bool) \<Rightarrow> coordinator \<Rightarrow> coordinator \<Rightarrow> bool" where
  "run_step outcome c c' \<longleftrightarrow> (\<exists>project. run_released project (outcome project) c = Some c' \<or> run_completed None project c = Some c')"

lemma run_step_ok: "run_step outcome c c' \<Longrightarrow> coordinator_ok c \<Longrightarrow> coordinator_ok c'"
  by (auto simp: run_step_def run_released_ok run_completed_ok)

lemma run_step_enabled:
  assumes "coordinator_ok c" "\<not> list_all is_done (co_futures c)"
  shows "\<exists>c'. run_step outcome c c' \<and> remaining_work c' < remaining_work c"
proof -
  from assms(2) obtain f where f: "f \<in> set (co_futures c)" "\<not> is_done f" by (auto simp: list_all_iff)
  have projects: "distinct (map fu_project (co_futures c))" using assms(1) by (simp add: coordinator_ok_def)
  obtain g where "future_of (fu_project f) c = Some g"
    using f(1) by (cases "future_of (fu_project f) c") (auto simp: future_of_def find_None_iff)
  then have found: "future_of (fu_project f) c = Some f"
    using future_of_Some same_project [OF projects _ f(1)] by fastforce
  show ?thesis
  proof (cases "fu_stage f")
    case Executing
    define c' where "c' = set_stage (fu_project f) (Releasing (outcome (fu_project f))) (c\<lparr>co_barrier := snd (lease_close (fu_lease f) (co_barrier c))\<rparr>)"
    have "run_released (fu_project f) (outcome (fu_project f)) c = Some c'" by (simp add: run_released_def found Executing c'_def)
    moreover have "remaining_work c' < remaining_work c"
      using set_stage_work [OF f(1) projects refl, of "Releasing (outcome (fu_project f))"] Executing
      by (simp add: c'_def remaining_work_def set_stage_def future_work_def)
    ultimately show ?thesis unfolding run_step_def by blast
  next
    case (Releasing r)
    then have "run_completed None (fu_project f) c = Some (set_stage (fu_project f) (Finished r) c)"
      by (simp add: run_completed_def found)
    moreover have "remaining_work (set_stage (fu_project f) (Finished r) c) < remaining_work c"
      using set_stage_work [OF f(1) projects refl, of "Finished r"] Releasing
      by (simp add: remaining_work_def set_stage_def future_work_def)
    ultimately show ?thesis unfolding run_step_def by blast
  next
    case (Finished r)
    then show ?thesis using f(2) by (simp add: is_done_def)
  qed
qed

lemma runs_end:
  "coordinator_ok c \<Longrightarrow> \<exists>c'. (run_step outcome)\<^sup>*\<^sup>* c c' \<and> list_all is_done (co_futures c') \<and> coordinator_ok c'"
proof (induction "remaining_work c" arbitrary: c rule: less_induct)
  case less
  show ?case
  proof (cases "list_all is_done (co_futures c)")
    case False
    from run_step_enabled [OF less.prems False, of outcome] obtain d where d: "run_step outcome c d" "remaining_work d < remaining_work c" by blast
    from less.hyps [OF d(2)] run_step_ok [OF d(1) less.prems] obtain c' where
        "(run_step outcome)\<^sup>*\<^sup>* d c'" "list_all is_done (co_futures c')" "coordinator_ok c'" by blast
    then show ?thesis using d(1) by (meson converse_rtranclp_into_rtranclp)
  qed (use less.prems in blast)
qed

text \<open>
  C12: the wait of \<open>begin_draining\<close> is over exactly when every run that was submitted is done, and from every
  reachable state, whatever the runners return or raise, the runs can be carried to that point; then the
  futures are all collected and the barrier is ready for the restart.
\<close>

theorem drain_ends:
  assumes "Coordinator h config = Inr start" "coordinator_step\<^sup>*\<^sup>* start c"
  shows "(drain_finish h2 h3 None c = None \<longleftrightarrow> \<not> list_all is_done (co_futures c))
    \<and> (\<exists>c' r c''. (run_step outcome)\<^sup>*\<^sup>* c c' \<and> drain_finish h2 h3 None c' = Some (r, c'') \<and> co_futures c'' = [] \<and> restart_ready (co_barrier c''))"
proof -
  have ok: "coordinator_ok c" using coordinator_system.reachable_keeps [OF assms(2) Coordinator_ok [OF assms(1)]] .
  from runs_end [OF ok, of outcome] obtain c' where c': "(run_step outcome)\<^sup>*\<^sup>* c c'" "list_all is_done (co_futures c')" "coordinator_ok c'" by blast
  obtain r c'' where fin: "drain_finish h2 h3 None c' = Some (r, c'')"
    using c'(2) drain_finish_waits [OF c'(3), of h2 h3] by (cases "drain_finish h2 h3 None c'") auto
  from drain_finish_cases [OF this] have "co_futures c'' = [] \<and> restart_ready (co_barrier c'')"
    by (auto simp: drain_check_def restart_ready_def split: if_splits)
  then show ?thesis using c'(1) fin drain_finish_waits [OF ok] by blast
qed

definition sample_start :: coordinator where
  "sample_start = \<lparr>co_max = 1, co_barrier = \<lparr>ba_state = BARRIER_RUNNING, ba_max_active = Some 1, ba_leases = [], ba_closed = [], ba_next = 0\<rparr>,
     co_lifecycle = LIFECYCLE_RUNNING, co_futures = [], co_shutdown = False, co_closed = False\<rparr>"

definition sample_submitted :: coordinator where
  "sample_submitted = snd (submit None ''second'' (snd (submit None ''demo'' sample_start)))"

lemma sample_constructed: "Coordinator None [(''runtime'', PyDict [(''max_parallel_runs'', PyInt 1)])] = Inr sample_start"
  by code_simp

lemma sample_steps: "coordinator_step\<^sup>*\<^sup>* sample_start sample_submitted"
  unfolding sample_submitted_def by (rule converse_rtranclp_into_rtranclp [OF coordinator_step.submit r_into_rtranclp [of coordinator_step, OF coordinator_step.submit]])

lemma sample_executing: "map fu_project (co_futures sample_submitted) = [''demo'']"
  by code_simp

theorem runs_are_bounded_witness: "int (length (filter executing (co_futures sample_submitted))) \<le> co_max sample_submitted
    \<and> 1 \<le> co_max sample_submitted \<and> map fu_project (co_futures sample_submitted) = [''demo'']"
  using runs_are_bounded [OF sample_constructed sample_steps] sample_executing by simp

theorem drain_ends_witness: "drain_finish None None None sample_submitted = None"
proof -
  have "\<not> list_all is_done (co_futures sample_submitted)" by code_simp
  then show ?thesis using drain_ends [OF sample_constructed sample_steps, of None None "\<lambda>_. Inr True"] by simp
qed

end
