(* ===== verification/Spec2Isabelle.thy ===== *)
theory Spec2Isabelle
  imports Recovery_Resolution Recovery_Classify Run_Scope Capabilities Egress_Containment Arbitration Durable_Wal Redaction_Masks Phased_Progress Git_Publication Recovery_Coordinator Adoption_Evidence Coordination
begin

text \<open>
  Verification of the coordination protocol of the AI agent bridge.

  The program.  A controller writes commands into a project directory of a Git repository, and a
  Worker claims them, runs an executor, and publishes a report.  The canonical state of a project is
  one JSON object on one branch; whoever changes it does so by compare-and-swap on the branch head.
  Everything else follows from that: generations fence old writers, a run holds a lease that is an
  exact tuple in the canonical state, and a Worker that dies leaves local evidence from which a later
  one must decide what may be published without executing anything twice.

  The parts and their theories, in the order they build on each other:

  \<^item> \<open>Prelude\<close>: results (\<open>error + value\<close>, with \<open>res_bind\<close>, \<open>res_map\<close>), guards (\<open>ensure\<close>,
    \<open>first_raise\<close>, \<open>run_checks\<close>: the first guard that raises decides), and shared list and map facts.
  \<^item> \<open>Py_Values\<close>: Python values as JSON delivers them (\<open>py\<close>: None, bool, unbounded int, float, text,
    list, dict in insertion order), their equality (so True = 1), truth, conversion by \<open>int()\<close> and
    \<open>str()\<close>, and the exceptions of the modelled code as the datatype \<open>pyexc\<close>.
  \<^item> \<open>Protocol_Commands\<close>, \<open>Protocol_Repair\<close>, \<open>Protocol_Lifecycle\<close>, \<open>Protocol_Recovery\<close>:
    \<open>worker/protocol_core.py\<close>.  The metadata line and the executor override of a command, withdrawal
    records, the command contract; the repair of an unclaimed command and the supersede relation; the
    generations, the claim guard \<open>validate_pending_command\<close>, owner plans, leases; the resolution of a
    run in RECOVERY_REQUIRED and the final report marker.
  \<^item> \<open>Git_Store\<close>: the loop \<open>publish_cas\<close> of \<open>worker/git_store.py\<close>.  The environment is an adversarial
    list of attempts: what the other writers do, which command raises, whether a push is accepted,
    rejected, applied without an acknowledgement, or raises.  The callbacks may raise as well.  The
    loop is bounded by its attempt count, as in the code.
  \<^item> \<open>Recovery_Resolution\<close>: the callbacks that \<open>worker/recovery_resolution.py\<close> passes to it.
  \<^item> \<open>Run_Models\<close>: \<open>worker/vnext_runtime/models.py\<close>.  A frozen dataclass is a record and a
    constructor of the same name as the class, taking Python values and running \<open>__post_init__\<close>.
  \<^item> \<open>Recovery_Evidence\<close>, \<open>Recovery_Log\<close>, \<open>Recovery_Classify\<close>:
    \<open>worker/vnext_runtime/recovery_evidence.py\<close>.  Events, the write-ahead log and the effects it
    proves, the evidence of one run and the classifier of a recovery.
  \<^item> \<open>Effects\<close>, \<open>Capabilities\<close>, \<open>Run_Scope\<close>: \<open>effects.py\<close>, \<open>capabilities.py\<close>, \<open>run_scope.py\<close> of the
    same directory: reverse-order disposal, the write-once registry, the lifecycle of one run.
  \<^item> \<open>Canonical_Json\<close>, \<open>Egress_Contract\<close>, \<open>Egress_Containment\<close>: \<open>egress.py\<close>: canonical JSON and
    SHA-256 as the standard library computes them, policies and identities, requests and receipts and
    their wire form, and the containment state machine against an arbitrary privileged helper.
  \<^item> \<open>Arbitration\<close>: \<open>arbitration.py\<close> of the same directory: the registry of resource reservations that
    the Workers of a host share, with the answers of the operating system as arguments.
  \<^item> \<open>Json_Text\<close>, \<open>Json_File\<close>: \<open>json.loads\<close> of the standard library on the text \<open>json.dumps\<close>
    writes, with and without the hook that refuses a repeated name, compact and indented, and the
    UTF-8 encoding of a file.
  \<^item> \<open>Run_Wal\<close>, \<open>Run_Wal_File\<close>, \<open>Durable_Wal\<close>: \<open>recovery_wal.py\<close> of the same directory.  The checks
    of an event, the file of one run as bytes with its reader, and the writer whose appends may stop
    after any number of bytes.
  \<^item> \<open>Git_Effects\<close>, \<open>Git_Publication\<close>: \<open>git_effects.py\<close> of the same directory, the intents of pushes,
    their recorder over the run log and the reconciler that reads one remote ref; and \<open>publish_cas\<close>
    with a recorder, which is a single attempt.
  \<^item> \<open>Redaction\<close>, \<open>Redaction_Masks\<close>, \<open>Text_File\<close>: the redaction of diagnostics that
    \<open>worker/recovery_journal.py\<close> and \<open>worker/pending_report.py\<close> share, with each regular expression as a
    function of a position; what a redacted text still shows; and files in text mode, whose line ends
    are translated.
  \<^item> \<open>Recovery_Journal\<close>: \<open>worker/recovery_journal.py\<close>, the allowlisted journal of an interrupted run.
  \<^item> \<open>Identity_Patterns\<close>, \<open>Pending_Report\<close>, \<open>Pending_Files\<close>, \<open>Pending_Reconcile\<close>:
    \<open>worker/pending_report.py\<close>.  The sidecar of a report that was not published and its validation, the
    files that are saved and the evidence that is loaded, and the reconciliation of one report and of
    all.  The file system is a map from paths to bytes, with \<open>Path.resolve\<close> as an argument; the
    publisher is an argument, and \<open>git_publisher\<close> is the one of \<open>Git_Store\<close>.
  \<^item> \<open>Recovery_Service\<close>, \<open>Recovery_Typed\<close>, \<open>Recovery_Journals\<close>, \<open>Recovery_Coordinator\<close>:
    \<open>worker/vnext_runtime/services/recovery.py\<close>, which composes the parts before it.  The transition
    of a lease to RECOVERY_REQUIRED and the handler of an expired one; the envelope that is put
    together from a saved report, the log of its run and the canonical state, and what is done with the
    classifier's answer; the journal of an interruption and its reconciliation; and the scans over all
    projects, of which those with a journal that waits are left out.
  \<^item> \<open>Adoption_Values\<close>, \<open>Adoption_Git\<close>, \<open>Adoption_Plans\<close>, \<open>Adoption_Gate\<close>, \<open>Adoption_Health\<close>,
    \<open>Adoption_Evidence\<close>: \<open>worker/vnext_runtime/adoption.py\<close>, the adoption of a candidate version of the
    Worker.  Its validators and protected paths; the inspector, over what git answers; the plan that
    reconciles the candidate with the main branch, path by path; the promotion, its guard and its
    rollback; the health gate after the restart; and the evidence file of an attempt.  A time is an
    instant, and the reader of ISO texts is an argument.  The caches of the inspector are not visible,
    since commits do not change; refs do, and are asked again where the code asks again.
  \<^item> \<open>Adoption_Barrier\<close>, \<open>Coordination\<close>: the admission barrier of the same file and
    \<open>worker/vnext_runtime/coordinator.py\<close>, which runs projects under it.  Both are shared by threads: a
    stretch of code under the lock, or between two waits, is one step, and a call that waits is given
    what the others do meanwhile.
  \<^item> \<open>Json_Raw\<close>: the compact JSON text that keeps characters outside ASCII.
  \<^item> \<open>Phased_Parse\<close>, \<open>Phased_Body\<close>: the first half of \<open>worker/phased_task.py\<close>, the parser of a
    phased command, with a renderer that states what it reads.
  \<^item> \<open>Phased_Runtime\<close>, \<open>Phased_Runs\<close>, \<open>Phased_Steps\<close>, \<open>Phased_Checkpoints\<close>, \<open>Phased_Progress\<close>: its
    second half, the checkpoint files of a run (a map from names to what the name holds), every
    operation on them, and sequences of operations between which a process may end.

  Conventions.  An operation that raises returns \<open>Inl\<close> of the exception.  A stateful object is a
  record; its methods return the result with the new record, also when they raise.  Guards keep the
  order of the code, so which exception is raised is part of the model.  Text is a list of characters
  below 256; a mutation of a dict is a new association list.  An operation sequence is an inductive
  relation (\<open>scope_run\<close>, \<open>containment_run\<close>) with its invariants by rule induction, or a fold over a
  list of operations (\<open>append_all\<close>, \<open>phased_ops\<close>).

  Interfaces.  \<open>checked_constructor\<close> states that a constructor accepts exactly the field values of a
  valid object, \<open>wire_codec\<close> that what is written is read back and that only valid objects are read,
  \<open>effect_owner\<close> what a scope may assume of the effect stack it owns, \<open>write_once\<close> what a registry
  keeps, \<open>exclusive_pool\<close> how a pool of compatible members grows and shrinks.  \<open>cas_protocol\<close> states
  when a compare-and-swap operation is published at most once: on the states a caller keeps, what it
  builds where its expectation holds is recognised as applied; \<open>cas_operation\<close> is the case where that
  needs nothing of the state.  \<open>advancing_system\<close> is a system of steps with an invariant and an order
  in which it only moves forward, which its reachable states inherit.  Each is interpreted on the
  definitions of the code: the publication locales on every publication of the recovery services, the
  last one on the admission barrier and on the coordinator.

  What is shown.  The lemmas of the protocol theories characterise every decision function on every
  branch and relate them: what a plan or a repair produces passes the guard that claims it, no repair
  touches a claimable command, one state matches one lease, the supersede relation accepts exactly
  forests, a resolution is published at most once under lost acknowledgements, if no other writer
  undoes it, and recognised afterwards.  The evidence theories show what the log constructor accepts, what its effects prove,
  that appending only confirms, and that the classifier publishes only on positive proof and never
  allows a replay.  The runtime theories show that every owned effect is disposed exactly once, that
  a run scope only moves forward and starts its provider at most once, that registered capabilities
  are final, that a containment claims only what a verified receipt proves, and that the registry
  never holds two reservations of one project, of one branch, or of paths one of which lies at or below
  the other, a directory whose name ends in a backslash apart, nor loses one of a Worker that still
  exists.  The file theories show that a document is read back as it was written, that the writer of a
  run log refines the log of \<open>Recovery_Log\<close>, as long as its writes are not interrupted, and its file
  opens again as the same writer, and that a file that ends inside a record is refused, though the
  writer does not notice: after a single stray byte its next append makes the file unreadable.  The
  phased theories show that a parsed task has the declared phases in order, that phases complete in
  order, that a checkpoint moves entirely or not at all, that a run can always be brought to its
  completion, and that only a finished and consistent run is compacted.  The publication theories show
  that a push is in the log of its run before it reaches the remote, that a saved report reaches the
  canonical branch at most once, if no other writer undoes it, and is acknowledged only when it is
  there, that its evidence keeps to its project, and that what is stored of an error is bounded, and
  shows a placeholder where a token stood or one of the words that announce a credential is followed by
  visible text.  A journal is read back as it was written up to a second redaction of its texts.  The service theories show
  that a typed report is published only when the log of its own run proves the completion or the
  interruption, that a lease is recovered at most once, that an interruption is either on the branch or
  blocks its project, and that a project whose journal waits is left alone; and that one sidecar that
  is not JSON ends the reconciliation of every report behind it.  The adoption theories show that an
  accepted plan decides every path once and adopts no change at a path whose name, as git prints it, is
  classified as control plane or protected (names that git quotes are not), that a
  promotion only moves forward from the head it was planned for, that claims stay blocked until the
  probation is over, and that evidence is read back as it was written; those of the barrier and the
  coordinator, that runs are bounded, that a drain ends when they do, and that nothing is admitted
  afterwards.

  Termination.  Every definition is total.  The walk along superseding commands (\<open>cycle_from\<close>) follows
  the code's visited list and terminates because each step visits a new edge.  The JSON reader carries
  fuel: \<open>2 * length + 1\<close> is what \<open>json_loads\<close> passes, and \<open>parse_fuel\<close> shows that every
  larger fuel gives the same result.  The search for an unused effect identity (\<open>fresh_effect\<close>) ends
  because the identities of different numbers differ and only finitely many are used.

  Not modelled: Git and process transport, file locks and the file system (their results are
  arguments), threads, clocks and random identifiers (arguments too), the git commands that look at a
  working tree, printed messages, the dashboards, consoles, command-line tools, alerting and the
  Windows launcher.  Of the files that are modelled: \<open>fsync\<close>, the recursion limit of the JSON reader,
  characters above 255 (an escape of one is an error of the model) and the limit of 4300 digits when
  an integer is written (the theorems that write one assume \<open>short_int\<close>).
\<close>

end
